(* ===== verification/Prelude.thy ===== *)
theory Prelude
  imports
    Main
    "HOL-Library.Multiset"
    "HOL-Library.Product_Lexorder"
    "HOL-Library.List_Lexorder"
    "HOL-Library.Char_ord"
begin

text \<open>
  Vocabulary shared by every theory of the development: the three outcomes of a Rust function
  that returns a \<open>Result\<close> and may panic, their sequencing, loops that stop at the first error,
  checked unsigned arithmetic, and the stable sorts and ordered sets of the standard library.
\<close>

section \<open>Results, errors and panics\<close>

text \<open>
  \<open>Ok\<close> and \<open>Err\<close> are the constructors of Rust's \<open>Result\<close>; \<open>Panic\<close> is the outcome of a failed
  \<open>expect\<close>, an out-of-range index or an overflowing operator.
\<close>

datatype ('e, 'a) res = Ok (the_ok: 'a) | Err 'e | Panic

fun bindr :: "('e, 'a) res \<Rightarrow> ('a \<Rightarrow> ('e, 'b) res) \<Rightarrow> ('e, 'b) res" where
  "bindr (Ok x) f = f x"
| "bindr (Err e) f = Err e"
| "bindr Panic f = Panic"

definition ok_or :: "'e \<Rightarrow> 'a option \<Rightarrow> ('e, 'a) res" where
  "ok_or e x = (case x of Some y \<Rightarrow> Ok y | None \<Rightarrow> Err e)"

definition expect :: "'a option \<Rightarrow> ('e, 'a) res" where
  "expect x = (case x of Some y \<Rightarrow> Ok y | None \<Rightarrow> Panic)"

definition check :: "bool \<Rightarrow> 'e \<Rightarrow> ('e, unit) res" where
  "check b e = (if b then Ok () else Err e)"

definition map_err :: "('e \<Rightarrow> 'f) \<Rightarrow> ('e, 'a) res \<Rightarrow> ('f, 'a) res" where
  "map_err g r = (case r of Ok x \<Rightarrow> Ok x | Err e \<Rightarrow> Err (g e) | Panic \<Rightarrow> Panic)"

fun foldr_res :: "('x \<Rightarrow> 's \<Rightarrow> ('e, 's) res) \<Rightarrow> 'x list \<Rightarrow> 's \<Rightarrow> ('e, 's) res" where
  "foldr_res f [] s = Ok s"
| "foldr_res f (x # xs) s = bindr (f x s) (foldr_res f xs)"

fun traverse :: "('x \<Rightarrow> ('e, 'y) res) \<Rightarrow> 'x list \<Rightarrow> ('e, 'y list) res" where
  "traverse f [] = Ok []"
| "traverse f (x # xs) = bindr (f x) (\<lambda>y. bindr (traverse f xs) (\<lambda>ys. Ok (y # ys)))"

fun try_fold :: "('x \<Rightarrow> 's \<Rightarrow> 's option) \<Rightarrow> 'x list \<Rightarrow> 's \<Rightarrow> 's option" where
  "try_fold f [] s = Some s"
| "try_fold f (x # xs) s = (case f x s of None \<Rightarrow> None | Some t \<Rightarrow> try_fold f xs t)"

lemma bindr_eq_Ok [simp]: "bindr m f = Ok y \<longleftrightarrow> (\<exists>x. m = Ok x \<and> f x = Ok y)"
  by (cases m) auto

lemma bindr_eq_Err: "bindr m f = Err e \<longleftrightarrow> m = Err e \<or> (\<exists>x. m = Ok x \<and> f x = Err e)"
  by (cases m) auto

lemma bindr_eq_Panic: "bindr m f = Panic \<longleftrightarrow> m = Panic \<or> (\<exists>x. m = Ok x \<and> f x = Panic)"
  by (cases m) auto

lemma bindr_cong [fundef_cong]:
  "m = n \<Longrightarrow> (\<And>x. n = Ok x \<Longrightarrow> f x = g x) \<Longrightarrow> bindr m f = bindr n g"
  by (cases n) auto

lemma bindr_assoc: "bindr (bindr m f) g = bindr m (\<lambda>x. bindr (f x) g)"
  by (cases m) auto

lemma bindr_neq_Panic: "m \<noteq> Panic \<Longrightarrow> (\<And>x. m = Ok x \<Longrightarrow> f x \<noteq> Panic) \<Longrightarrow> bindr m f \<noteq> Panic"
  by (cases m) auto

lemma ok_or_simps [simp]:
  "ok_or e None = Err e" "ok_or e (Some x) = Ok x"
  "ok_or e m = Ok y \<longleftrightarrow> m = Some y" "ok_or e m \<noteq> Panic"
  by (auto simp: ok_or_def split: option.splits)

lemma expect_eq_Panic [simp]: "expect m = Panic \<longleftrightarrow> m = None"
  by (cases m) (auto simp: expect_def)

lemma expect_simps [simp]:
  "expect None = Panic" "expect (Some x) = Ok x"
  "expect m = Ok y \<longleftrightarrow> m = Some y" "expect m \<noteq> Err e"
  by (auto simp: expect_def split: option.splits)

lemma check_simps [simp]:
  "check True e = Ok ()" "check False e = Err e"
  "check b e = Ok u \<longleftrightarrow> b" "check b e = Err e' \<longleftrightarrow> \<not> b \<and> e' = e" "check b e \<noteq> Panic"
  by (auto simp: check_def)

lemma map_err_simps [simp]:
  "map_err g (Ok x) = Ok x" "map_err g (Err e) = Err (g e)" "map_err g Panic = Panic"
  "map_err g r = Ok y \<longleftrightarrow> r = Ok y"
  by (auto simp: map_err_def split: res.splits)

lemma foldr_res_append:
  "foldr_res f (xs @ ys) s = bindr (foldr_res f xs s) (foldr_res f ys)"
  by (induction xs arbitrary: s) (simp_all add: bindr_assoc cong: bindr_cong)

text \<open>Facts on the absence of panics are collected in \<open>no_panic\<close>.\<close>

named_theorems no_panic

text \<open>An invariant of the body is an invariant of the loop.\<close>

lemma foldr_res_invariant:
  assumes "foldr_res f xs s = Ok t" and "P s"
    and "\<And>x s t. x \<in> set xs \<Longrightarrow> P s \<Longrightarrow> f x s = Ok t \<Longrightarrow> P t"
  shows "P t"
  using assms by (induction xs arbitrary: s) auto

lemma foldr_res_neq_Panic: "(\<And>x s. f x s \<noteq> Panic) \<Longrightarrow> foldr_res f xs s \<noteq> Panic"
  by (induction xs arbitrary: s) (auto simp: bindr_eq_Panic)

lemma traverse_neq_Panic: "(\<And>x. f x \<noteq> Panic) \<Longrightarrow> traverse f xs \<noteq> Panic"
  by (induction xs) (auto simp: bindr_eq_Panic)

lemma try_fold_invariant:
  assumes "try_fold f xs s = Some t" and "P s"
    and "\<And>x s t. x \<in> set xs \<Longrightarrow> P s \<Longrightarrow> f x s = Some t \<Longrightarrow> P t"
  shows "P t"
  using assms
proof (induction xs arbitrary: s)
  case (Cons x xs)
  then show ?case by (auto split: option.splits) (metis list.set_intros)
qed simp

lemma traverse_eq_Ok:
  "traverse f xs = Ok ys \<longleftrightarrow> list_all2 (\<lambda>x y. f x = Ok y) xs ys"
  by (induction xs arbitrary: ys) (auto simp: list_all2_Cons1)

lemma traverse_length: "traverse f xs = Ok ys \<Longrightarrow> length ys = length xs"
  by (auto simp: traverse_eq_Ok dest: list_all2_lengthD)

section \<open>Checked unsigned arithmetic\<close>

text \<open>
  A \<open>u64\<close> or \<open>u128\<close> is its value as a natural number; every operation that could leave the range
  is written with its check, as the source writes it.
\<close>

definition u32_max :: nat where "u32_max = 2 ^ 32 - 1"
definition u64_max :: nat where "u64_max = 2 ^ 64 - 1"
definition u128_max :: nat where "u128_max = 2 ^ 128 - 1"

definition checked_add :: "nat \<Rightarrow> nat \<Rightarrow> nat \<Rightarrow> nat option" where
  "checked_add limit a b = (if a + b \<le> limit then Some (a + b) else None)"

definition checked_sub :: "nat \<Rightarrow> nat \<Rightarrow> nat option" where
  "checked_sub a b = (if b \<le> a then Some (a - b) else None)"

definition checked_mul :: "nat \<Rightarrow> nat \<Rightarrow> nat \<Rightarrow> nat option" where
  "checked_mul limit a b = (if a * b \<le> limit then Some (a * b) else None)"

definition abs_diff :: "nat \<Rightarrow> nat \<Rightarrow> nat" where
  "abs_diff a b = (if a \<le> b then b - a else a - b)"

lemma checked_add_eq_Some [simp]: "checked_add l a b = Some c \<longleftrightarrow> a + b \<le> l \<and> c = a + b"
  by (auto simp: checked_add_def)

lemma checked_add_eq_None [simp]: "checked_add l a b = None \<longleftrightarrow> l < a + b"
  by (auto simp: checked_add_def)

lemma checked_sub_eq_Some [simp]: "checked_sub a b = Some c \<longleftrightarrow> b \<le> a \<and> c = a - b"
  by (auto simp: checked_sub_def)

lemma checked_mul_eq_Some [simp]: "checked_mul l a b = Some c \<longleftrightarrow> a * b \<le> l \<and> c = a * b"
  by (auto simp: checked_mul_def)

lemma try_fold_checked_sum:
  "try_fold (\<lambda>x s. checked_add l s (f x)) xs s = Some t \<longleftrightarrow>
   s + sum_list (map f xs) = t \<and> (xs = [] \<or> s + sum_list (map f xs) \<le> l)"
proof (induction xs arbitrary: s)
  case Nil
  then show ?case by auto
next
  case (Cons x xs)
  show ?case
    using Cons.IH [of "s + f x"] by (cases "s + f x \<le> l") (auto simp: checked_add_def add.assoc)
qed

section \<open>Ordered sets and stable sorts\<close>

text \<open>
  \<open>sort_by\<close> and \<open>sort_by_key\<close> of the standard library are stable, as \<open>sort_key\<close> of HOL is.
  Collecting into a \<open>BTreeSet\<close> and iterating visits each element once, in ascending order.
\<close>

definition bset :: "'a::linorder list \<Rightarrow> 'a list" where
  "bset xs = sort (remdups xs)"

lemma set_bset [simp]: "set (bset xs) = set xs"
  by (simp add: bset_def)

lemma distinct_bset [simp]: "distinct (bset xs)"
  by (simp add: bset_def)

lemma sorted_bset [simp]: "sorted (bset xs)"
  by (simp add: bset_def)

lemma bset_cong: "set xs = set ys \<Longrightarrow> bset xs = bset ys"
  by (rule sorted_distinct_set_unique) auto

lemma sum_list_filter_split:
  fixes f :: "'a \<Rightarrow> 'b::comm_monoid_add"
  shows "sum_list (map f xs) = sum_list (map f (filter P xs)) + sum_list (map f (filter (\<lambda>x. \<not> P x) xs))"
  by (induction xs) (auto simp: ac_simps)

end
