(* ===== verification/Decimal.thy ===== *)
theory Decimal
  imports Prelude Complex_Main
begin

text \<open>
  Amounts, prices and quantities of the program are values of \<open>rust_decimal::Decimal\<close>, a crate that
  is not part of this repository. A decimal is represented by the rational number it denotes:
  the crate documents its equality, its order and its hash as those of the value. Its arithmetic is a
  parameter of the model, the record \<open>dec_ops\<close>, and the locale \<open>decimal_arith\<close> states what the code
  relies on. The crate documents the set of values as \<open>m / 10 ^ e\<close> with \<open>\<bar>m\<bar> < 2 ^ 96\<close> and \<open>e \<le> 28\<close>,
  and the checked operations as returning \<open>None\<close> when the result leaves the range. The
  laws are: a returned value is a decimal, rounding never crosses another decimal, and an operation
  whose exact result is a decimal returns it. Two extensions state the two readings of sums and
  differences. \<open>decimal_range\<close>: \<open>None\<close> is returned only when the exact result leaves the range, so an
  inexact sum is rounded. \<open>exact_sums\<close>: the crate documents \<open>checked_add\<close> and \<open>checked_sub\<close> as
  computing the sum and the difference or returning \<open>None\<close>; taken literally a returned sum is exact,
  which holds as long as the amounts of a ledger fit 28 digits. Theorems on the absence of panics
  use the first, accounting identities the second. The instances \<open>dec28\<close> and \<open>dec28x\<close> at the end
  implement them with rounding to the nearest value; they serve the evaluated examples.
\<close>

type_synonym decimal = rat

record dec_ops =
  d_add :: "decimal \<Rightarrow> decimal \<Rightarrow> decimal option"
  d_sub :: "decimal \<Rightarrow> decimal \<Rightarrow> decimal option"
  d_mul :: "decimal \<Rightarrow> decimal \<Rightarrow> decimal option"
  d_div :: "decimal \<Rightarrow> decimal \<Rightarrow> decimal option"
  d_rem :: "decimal \<Rightarrow> decimal \<Rightarrow> decimal option"
  d_mantissa :: "decimal \<Rightarrow> int"
  d_scale :: "decimal \<Rightarrow> nat"

definition dec_limit :: int where "dec_limit = 2 ^ 96"

definition max_scale :: nat where "max_scale = 28"

definition representable :: "rat \<Rightarrow> bool" where
  "representable x \<longleftrightarrow> (\<exists>s \<le> max_scale. \<exists>m. \<bar>m\<bar> < dec_limit \<and> x = of_int m / 10 ^ s)"

definition faithful :: "rat \<Rightarrow> rat \<Rightarrow> bool" where
  "faithful x c \<longleftrightarrow> representable c \<and>
     (\<forall>r. representable r \<longrightarrow> (r \<le> x \<longrightarrow> r \<le> c) \<and> (x \<le> r \<longrightarrow> c \<le> r))"

definition trunc :: "rat \<Rightarrow> int" where
  "trunc x = (if 0 \<le> x then \<lfloor>x\<rfloor> else \<lceil>x\<rceil>)"

text \<open>The sign function \<open>signum\<close> of the crate.\<close>

definition signum :: "decimal \<Rightarrow> decimal" where
  "signum x = (if x = 0 then 0 else if 0 < x then 1 else - 1)"

locale decimal_arith =
  fixes D :: dec_ops
  assumes add_faithful: "d_add D a b = Some c \<Longrightarrow> faithful (a + b) c"
    and sub_faithful: "d_sub D a b = Some c \<Longrightarrow> faithful (a - b) c"
    and mul_faithful: "d_mul D a b = Some c \<Longrightarrow> faithful (a * b) c"
    and div_faithful: "d_div D a b = Some c \<Longrightarrow> b \<noteq> 0 \<and> faithful (a / b) c"
    and add_defined: "representable (a + b) \<Longrightarrow> d_add D a b \<noteq> None"
    and sub_defined: "representable (a - b) \<Longrightarrow> d_sub D a b \<noteq> None"
    and mul_defined: "representable (a * b) \<Longrightarrow> d_mul D a b \<noteq> None"
    and div_defined: "b \<noteq> 0 \<Longrightarrow> representable (a / b) \<Longrightarrow> d_div D a b \<noteq> None"
    and rem_exact: "d_rem D a b = (if b = 0 then None else Some (a - b * of_int (trunc (a / b))))"
    and parts: "representable a \<Longrightarrow> of_int (d_mantissa D a) / 10 ^ d_scale D a = a"
    and parts_range: "representable a \<Longrightarrow> \<bar>d_mantissa D a\<bar> < dec_limit \<and> d_scale D a \<le> max_scale"

locale decimal_range = decimal_arith +
  assumes add_in_range: "representable a \<Longrightarrow> representable b \<Longrightarrow> \<bar>a + b\<bar> \<le> of_int (dec_limit - 1) \<Longrightarrow> d_add D a b \<noteq> None"
    and sub_in_range: "representable a \<Longrightarrow> representable b \<Longrightarrow> \<bar>a - b\<bar> \<le> of_int (dec_limit - 1) \<Longrightarrow> d_sub D a b \<noteq> None"

locale exact_sums = decimal_arith +
  assumes add_sum: "d_add D a b = Some c \<Longrightarrow> c = a + b"
    and sub_sum: "d_sub D a b = Some c \<Longrightarrow> c = a - b"

section \<open>Representable values\<close>

lemma representableI: "\<bar>m\<bar> < dec_limit \<Longrightarrow> s \<le> max_scale \<Longrightarrow> representable (of_int m / 10 ^ s)"
  by (auto simp: representable_def)

lemma representable_int: "\<bar>m\<bar> < dec_limit \<Longrightarrow> representable (of_int m)"
  using representableI [of m 0] by simp

lemma representable_0 [simp]: "representable 0"
  using representable_int [of 0] by (simp add: dec_limit_def)

lemma representable_1 [simp]: "representable 1"
  using representable_int [of 1] by (simp add: dec_limit_def)

lemma representable_numeral: "(numeral n :: int) < dec_limit \<Longrightarrow> representable (numeral n)"
  using representable_int [of "numeral n"] by simp

lemma representable_scaled:
  "x * 10 ^ s = of_int m \<Longrightarrow> \<bar>m\<bar> < dec_limit \<Longrightarrow> s \<le> max_scale \<Longrightarrow> representable x"
  unfolding representable_def
  by (rule exI [of _ s], simp, rule exI [of _ m]) (simp add: field_simps)

lemma representable_uminus: "representable x \<Longrightarrow> representable (- x)"
proof -
  assume "representable x"
  then obtain s m where "s \<le> max_scale" "\<bar>m\<bar> < dec_limit" "x = of_int m / 10 ^ s"
    by (auto simp: representable_def)
  then show ?thesis using representableI [of "- m" s] by simp
qed

lemma representable_abs: "representable x \<Longrightarrow> representable \<bar>x\<bar>"
  by (cases "0 \<le> x") (auto simp: representable_uminus)

lemma faithful_exact: "faithful x c \<Longrightarrow> representable x \<Longrightarrow> c = x"
  by (auto simp: faithful_def intro: antisym)

lemma faithful_ge: "faithful x c \<Longrightarrow> representable r \<Longrightarrow> r \<le> x \<Longrightarrow> r \<le> c"
  by (simp add: faithful_def)

lemma faithful_le: "faithful x c \<Longrightarrow> representable r \<Longrightarrow> x \<le> r \<Longrightarrow> c \<le> r"
  by (simp add: faithful_def)

lemma faithful_representable: "faithful x c \<Longrightarrow> representable c"
  by (simp add: faithful_def)

lemma faithful_nonneg: "faithful x c \<Longrightarrow> 0 \<le> x \<Longrightarrow> 0 \<le> c"
  by (rule faithful_ge) auto

lemma faithful_nonpos: "faithful x c \<Longrightarrow> x \<le> 0 \<Longrightarrow> c \<le> 0"
  by (rule faithful_le) auto

section \<open>Consequences of the laws\<close>

context decimal_arith
begin

lemma add_exact: "representable (a + b) \<Longrightarrow> d_add D a b = Some (a + b)"
  using add_defined [of a b] add_faithful [of a b] by (auto dest: faithful_exact)

lemma sub_exact: "representable (a - b) \<Longrightarrow> d_sub D a b = Some (a - b)"
  using sub_defined [of a b] sub_faithful [of a b] by (auto dest: faithful_exact)

lemma mul_exact: "representable (a * b) \<Longrightarrow> d_mul D a b = Some (a * b)"
  using mul_defined [of a b] mul_faithful [of a b] by (auto dest: faithful_exact)

lemma div_exact: "b \<noteq> 0 \<Longrightarrow> representable (a / b) \<Longrightarrow> d_div D a b = Some (a / b)"
  using div_defined [of b a] div_faithful [of a b] by (auto dest: faithful_exact)

lemma div_zero: "d_div D a 0 = None"
  using div_faithful [of a 0] by (cases "d_div D a 0") auto

lemma sub_self [simp]: "d_sub D a a = Some 0"
  by (simp add: sub_exact)

lemma sub_0 [simp]: "representable a \<Longrightarrow> d_sub D a 0 = Some a"
  by (simp add: sub_exact)

lemma add_0 [simp]: "representable a \<Longrightarrow> d_add D a 0 = Some a"
  by (simp add: add_exact)

lemma add_0_left [simp]: "representable a \<Longrightarrow> d_add D 0 a = Some a"
  by (simp add: add_exact)

lemma neg_exact: "representable a \<Longrightarrow> d_sub D 0 a = Some (- a)"
  by (simp add: sub_exact representable_uminus)

lemma add_nonneg: "d_add D a b = Some c \<Longrightarrow> 0 \<le> a + b \<Longrightarrow> 0 \<le> c"
  using add_faithful faithful_nonneg by blast

lemma sub_nonneg: "d_sub D a b = Some c \<Longrightarrow> b \<le> a \<Longrightarrow> 0 \<le> c"
  using sub_faithful [of a b c] faithful_nonneg [of "a - b" c] by simp

lemma sub_le: "d_sub D a b = Some c \<Longrightarrow> 0 \<le> b \<Longrightarrow> representable a \<Longrightarrow> c \<le> a"
  using sub_faithful [of a b c] faithful_le [of "a - b" c a] by simp

lemma add_ge: "d_add D a b = Some c \<Longrightarrow> 0 \<le> b \<Longrightarrow> representable a \<Longrightarrow> a \<le> c"
  using add_faithful [of a b c] faithful_ge [of "a + b" c a] by simp

lemma mul_nonneg: "d_mul D a b = Some c \<Longrightarrow> 0 \<le> a \<Longrightarrow> 0 \<le> b \<Longrightarrow> 0 \<le> c"
  using mul_faithful [of a b c] faithful_nonneg [of "a * b" c] by simp

lemma div_nonneg: "d_div D a b = Some c \<Longrightarrow> 0 \<le> a \<Longrightarrow> 0 \<le> b \<Longrightarrow> 0 \<le> c"
  using div_faithful [of a b c] faithful_nonneg [of "a / b" c] by simp

lemma mul_le: "d_mul D a b = Some c \<Longrightarrow> 0 \<le> a \<Longrightarrow> b \<le> 1 \<Longrightarrow> representable a \<Longrightarrow> c \<le> a"
  using mul_faithful [of a b c] faithful_le [of "a * b" c a] by (simp add: mult_left_le)

lemma op_representable:
  "d_add D a b = Some c \<Longrightarrow> representable c" "d_sub D a b = Some c \<Longrightarrow> representable c"
  "d_mul D a b = Some c \<Longrightarrow> representable c" "d_div D a b = Some c \<Longrightarrow> representable c"
  using add_faithful sub_faithful mul_faithful div_faithful faithful_representable by blast+

text \<open>A zero remainder means a whole multiple.\<close>

lemma rem_zero: "d_rem D a b = Some 0 \<Longrightarrow> b \<noteq> 0 \<and> (\<exists>k::int. a = b * of_int k)"
  by (auto simp: rem_exact split: if_splits)

end

section \<open>Grids\<close>

text \<open>
  Quantities are multiples of a step. On a fixed grid \<open>10 ^ - s\<close> sums and differences that stay
  below \<open>2 ^ 96\<close> units are exact.
\<close>

definition on_grid :: "nat \<Rightarrow> rat \<Rightarrow> bool" where
  "on_grid s x \<longleftrightarrow> s \<le> max_scale \<and> (\<exists>m. \<bar>m\<bar> < dec_limit \<and> x = of_int m / 10 ^ s)"

lemma on_grid_representable: "on_grid s x \<Longrightarrow> representable x"
  by (auto simp: on_grid_def representable_def)

lemma on_grid_0 [simp]: "on_grid s 0 \<longleftrightarrow> s \<le> max_scale"
  unfolding on_grid_def by (auto simp: dec_limit_def intro: exI [of _ 0])

lemma on_grid_numeral: "(numeral n :: int) < dec_limit \<Longrightarrow> on_grid 0 (numeral n)"
  unfolding on_grid_def by (auto intro: exI [of _ "numeral n"])

lemma on_grid_diff:
  assumes "on_grid s x" and "on_grid s y" and "0 \<le> y" and "y \<le> x"
  shows "on_grid s (x - y)"
proof -
  from assms obtain m n where m: "x = of_int m / 10 ^ s" "\<bar>m\<bar> < dec_limit"
    and n: "y = of_int n / 10 ^ s" "\<bar>n\<bar> < dec_limit" by (auto simp: on_grid_def)
  have "(0 :: rat) < 10 ^ s" by simp
  with assms(3) n(1) have "0 \<le> n" by (simp add: zero_le_divide_iff)
  moreover from assms(4) m n have "n \<le> m" by (simp add: divide_le_cancel)
  ultimately have "\<bar>m - n\<bar> < dec_limit" using m(2) by linarith
  moreover have "x - y = of_int (m - n) / 10 ^ s" using m n by (simp add: diff_divide_distrib)
  ultimately show ?thesis using assms(1) unfolding on_grid_def by blast
qed

lemma on_grid_min: "on_grid s x \<Longrightarrow> on_grid s y \<Longrightarrow> on_grid s (min x y)"
  by (simp add: min_def)

section \<open>An implementation of the laws\<close>

definition scales :: "nat list" where
  "scales = [28, 27, 26, 25, 24, 23, 22, 21, 20, 19, 18, 17, 16, 15, 14, 13, 12, 11, 10, 9, 8, 7,
     6, 5, 4, 3, 2, 1, 0]"

text \<open>Round to the nearest multiple of the finest power of ten whose mantissa fits.\<close>

fun round_at :: "nat list \<Rightarrow> rat \<Rightarrow> rat option" where
  "round_at [] x = None"
| "round_at (s # ss) x =
     (if \<bar>round (x * 10 ^ s)\<bar> < dec_limit then Some (of_int (round (x * 10 ^ s)) / 10 ^ s)
      else round_at ss x)"

definition dec_round :: "rat \<Rightarrow> rat option" where
  "dec_round x = round_at scales x"

fun find_scale :: "nat list \<Rightarrow> rat \<Rightarrow> nat" where
  "find_scale [] x = 0"
| "find_scale (s # ss) x =
     (if of_int \<lfloor>x * 10 ^ s\<rfloor> = x * 10 ^ s \<and> \<bar>\<lfloor>x * 10 ^ s\<rfloor>\<bar> < dec_limit then s else find_scale ss x)"

definition dec28 :: dec_ops where
  "dec28 = \<lparr>d_add = (\<lambda>a b. dec_round (a + b)), d_sub = (\<lambda>a b. dec_round (a - b)),
     d_mul = (\<lambda>a b. dec_round (a * b)),
     d_div = (\<lambda>a b. if b = 0 then None else dec_round (a / b)),
     d_rem = (\<lambda>a b. if b = 0 then None else Some (a - b * of_int (trunc (a / b)))),
     d_mantissa = (\<lambda>a. \<lfloor>a * 10 ^ find_scale (rev scales) a\<rfloor>),
     d_scale = (\<lambda>a. find_scale (rev scales) a)\<rparr>"

text \<open>The variant whose sums and differences are exact or absent.\<close>

definition dec_exact :: "rat \<Rightarrow> rat option" where
  "dec_exact x = (if dec_round x = Some x then Some x else None)"

definition dec28x :: dec_ops where
  "dec28x = dec28\<lparr>d_add := (\<lambda>a b. dec_exact (a + b)), d_sub := (\<lambda>a b. dec_exact (a - b))\<rparr>"

lemma scales_rev: "scales = rev [0..<29]"
  by (simp add: scales_def upt_rec)

lemma round_ge: "of_int n \<le> (y :: rat) \<Longrightarrow> n \<le> round y"
  using round_mono [of "of_int n" y] by simp

lemma round_le: "(y :: rat) \<le> of_int n \<Longrightarrow> round y \<le> n"
  using round_mono [of y "of_int n"] by simp

lemma scaled_int:
  assumes "t \<le> s"
  shows "(of_int n / 10 ^ t) * 10 ^ s = (of_int (n * 10 ^ (s - t)) :: rat)"
proof -
  have "(10 :: rat) ^ s = 10 ^ (s - t) * 10 ^ t" using assms by (simp flip: power_add)
  then show ?thesis by simp
qed

lemma round_at_exact:
  assumes x: "x = of_int m / 10 ^ t" and m: "\<bar>m\<bar> < dec_limit" and "t < k"
  shows "round_at (rev [0..<k]) x = Some x"
  using assms(3)
proof (induction k)
  case (Suc s)
  show ?case
  proof (cases "\<bar>round (x * 10 ^ s)\<bar> < dec_limit")
    case True
    have "x * 10 ^ s = of_int (m * 10 ^ (s - t))"
      unfolding x using Suc.prems by (intro scaled_int) simp
    then have "of_int (round (x * 10 ^ s)) = x * 10 ^ s" by (metis round_of_int)
    then have "of_int (round (x * 10 ^ s)) / 10 ^ s = x" by simp
    with True show ?thesis by simp
  next
    case False
    then have "t \<noteq> s" using m by (auto simp: x)
    with Suc False show ?thesis by simp
  qed
qed simp

lemma dec_round_exact: "representable x \<Longrightarrow> dec_round x = Some x"
  unfolding representable_def dec_round_def scales_rev max_scale_def
  by (elim exE conjE) (auto intro: round_at_exact)

text \<open>
  The mantissa overflows one digit further down, so a coarser grid is only used for values at the
  edge of the finer one; there no finer decimal separates the value from its rounding.
\<close>

lemma round_coarse:
  fixes X R :: rat
  assumes "\<bar>R\<bar> * 10 \<le> of_int (dec_limit - 1)" and "dec_limit \<le> \<bar>round (X * 10)\<bar>"
  shows "R \<le> X \<Longrightarrow> R \<le> of_int (round X)" and "X \<le> R \<Longrightarrow> of_int (round X) \<le> R"
proof -
  let ?q = "dec_limit div 10"
  have q: "dec_limit = 10 * ?q + 6" by (simp add: dec_limit_def)
  have R: "R * 10 \<le> of_int (10 * ?q + 5)" "- of_int (10 * ?q + 5) \<le> R * 10"
    using assms(1) q by (auto simp: abs_le_iff)
  have up: "X * 10 \<ge> of_int dec_limit - 1 / 2" if "dec_limit \<le> round (X * 10)"
  proof -
    have "of_int dec_limit \<le> (of_int (round (X * 10)) :: rat)" using that by (simp only: of_int_le_iff)
    also have "\<dots> \<le> X * 10 + 1 / 2" by (rule of_int_round_le)
    finally show ?thesis by simp
  qed
  have dn: "X * 10 \<le> - of_int dec_limit + 1 / 2" if "round (X * 10) \<le> - dec_limit"
  proof -
    have "X * 10 \<le> of_int (round (X * 10)) + 1 / 2" using of_int_round_ge [of "X * 10"] by simp
    also have "\<dots> \<le> of_int (- dec_limit) + 1 / 2" using that by (simp only: add_le_cancel_right of_int_le_iff)
    finally show ?thesis by simp
  qed
  have qr: "of_int dec_limit = 10 * of_int ?q + (6 :: rat)" by (subst q) simp
  consider "dec_limit \<le> round (X * 10)" | "round (X * 10) \<le> - dec_limit"
    using assms(2) by linarith
  then have "(R \<le> X \<longrightarrow> R \<le> of_int (round X)) \<and> (X \<le> R \<longrightarrow> of_int (round X) \<le> R)"
  proof (cases)
    case 1
    then have X: "X \<ge> of_int ?q + 11 / 20" using up qr by (simp add: field_simps)
    then have "of_int (?q + 1) \<le> X + 1 / 2" by simp
    then have "?q + 1 \<le> round X" unfolding round_def by (simp only: le_floor_iff)
    then have "of_int (?q + 1) \<le> (of_int (round X) :: rat)" by (simp only: of_int_le_iff)
    moreover have "R < of_int ?q + 11 / 20" using R by simp
    ultimately show ?thesis using X by auto
  next
    case 2
    then have X: "X \<le> - of_int ?q - 11 / 20" using dn qr by (simp add: field_simps)
    then have "X + 1 / 2 < of_int (- ?q)" by simp
    then have "round X < - ?q" unfolding round_def by (simp only: floor_less_iff)
    then have "of_int (round X) \<le> (of_int (- ?q - 1) :: rat)" by (simp only: of_int_le_iff)
    moreover have "R > - of_int ?q - 11 / 20" using R by simp
    ultimately show ?thesis using X by auto
  qed
  then show "R \<le> X \<Longrightarrow> R \<le> of_int (round X)" and "X \<le> R \<Longrightarrow> of_int (round X) \<le> R" by auto
qed

lemma round_at_between:
  fixes x :: rat
  assumes r: "r = of_int n / 10 ^ t" "\<bar>n\<bar> < dec_limit" "t < 29"
    and s: "s < 29" "Suc s = 29 \<or> dec_limit \<le> \<bar>round (x * 10 ^ Suc s)\<bar>"
  shows "r \<le> x \<Longrightarrow> r * 10 ^ s \<le> of_int (round (x * 10 ^ s))"
    and "x \<le> r \<Longrightarrow> of_int (round (x * 10 ^ s)) \<le> r * 10 ^ s"
proof -
  have mono: "r * 10 ^ s \<le> x * 10 ^ s \<longleftrightarrow> r \<le> x" "x * 10 ^ s \<le> r * 10 ^ s \<longleftrightarrow> x \<le> r" by simp_all
  have "(r \<le> x \<longrightarrow> r * 10 ^ s \<le> of_int (round (x * 10 ^ s))) \<and>
      (x \<le> r \<longrightarrow> of_int (round (x * 10 ^ s)) \<le> r * 10 ^ s)"
  proof (cases "t \<le> s")
    case True
    have i: "r * 10 ^ s = of_int (n * 10 ^ (s - t))" unfolding r using True by (rule scaled_int)
    then show ?thesis
      using round_ge [of "n * 10 ^ (s - t)" "x * 10 ^ s"] round_le [of "x * 10 ^ s" "n * 10 ^ (s - t)"]
      by (simp only: mono(1,2) [symmetric] i of_int_le_iff) simp
  next
    case False
    then have lim: "dec_limit \<le> \<bar>round ((x * 10 ^ s) * 10)\<bar>" using s r(3) by (simp add: mult.commute mult.left_commute)
    have "\<bar>r * 10 ^ s\<bar> * 10 = \<bar>of_int n\<bar> / 10 ^ (t - Suc s)"
    proof -
      have "(10 :: rat) ^ t = 10 ^ (t - Suc s) * (10 ^ s * 10)"
        using False by (simp add: mult.commute flip: power_add power_Suc)
      then show ?thesis by (simp add: r abs_mult abs_divide)
    qed
    also have "\<dots> \<le> \<bar>of_int n\<bar> / 1" by (intro divide_left_mono) auto
    also have "\<dots> \<le> of_int (dec_limit - 1)" using r(2) by (simp flip: of_int_abs)
    finally show ?thesis using round_coarse [OF _ lim, of "r * 10 ^ s"] mono by blast
  qed
  then show "r \<le> x \<Longrightarrow> r * 10 ^ s \<le> of_int (round (x * 10 ^ s))"
    and "x \<le> r \<Longrightarrow> of_int (round (x * 10 ^ s)) \<le> r * 10 ^ s" by auto
qed

lemma round_at_faithful:
  "round_at (rev [0..<k]) x = Some c \<Longrightarrow> k \<le> 29 \<Longrightarrow>
   k = 29 \<or> dec_limit \<le> \<bar>round (x * 10 ^ k)\<bar> \<Longrightarrow> faithful x c"
proof (induction k)
  case (Suc s)
  show ?case
  proof (cases "\<bar>round (x * 10 ^ s)\<bar> < dec_limit")
    case True
    then have c: "c = of_int (round (x * 10 ^ s)) / 10 ^ s" using Suc.prems by simp
    have "representable c"
      unfolding c using True Suc.prems by (intro representableI) (auto simp: max_scale_def)
    moreover have "(r \<le> x \<longrightarrow> r \<le> c) \<and> (x \<le> r \<longrightarrow> c \<le> r)" if rep: "representable r" for r
    proof -
      obtain n t where rn: "r = of_int n / 10 ^ t" "\<bar>n\<bar> < dec_limit" "t < 29"
        using rep by (auto simp: representable_def max_scale_def)
      have s: "s < 29" using Suc.prems by simp
      have s': "Suc s = 29 \<or> dec_limit \<le> \<bar>round (x * 10 ^ Suc s)\<bar>" using Suc.prems by simp
      show ?thesis unfolding c using round_at_between [OF rn s s'] by (auto simp: field_simps)
    qed
    ultimately show ?thesis by (simp add: faithful_def)
  next
    case False
    then show ?thesis using Suc by simp
  qed
qed simp

lemma dec_round_faithful: "dec_round x = Some c \<Longrightarrow> faithful x c"
  unfolding dec_round_def scales_rev by (rule round_at_faithful) auto

lemma find_scale_ok:
  assumes "representable x" and "set ss = {0..28}"
  shows "find_scale ss x \<le> 28 \<and> of_int \<lfloor>x * 10 ^ find_scale ss x\<rfloor> = x * 10 ^ find_scale ss x
    \<and> \<bar>\<lfloor>x * 10 ^ find_scale ss x\<rfloor>\<bar> < dec_limit"
proof -
  obtain t m where t: "t \<le> 28" and m: "\<bar>m\<bar> < dec_limit" and x: "x = of_int m / 10 ^ t"
    using assms(1) by (auto simp: representable_def max_scale_def)
  have gen: "t \<in> set us \<Longrightarrow> set us \<subseteq> {0..28} \<Longrightarrow> find_scale us x \<le> 28 \<and>
      of_int \<lfloor>x * 10 ^ find_scale us x\<rfloor> = x * 10 ^ find_scale us x
      \<and> \<bar>\<lfloor>x * 10 ^ find_scale us x\<rfloor>\<bar> < dec_limit" for us
  proof (induction us)
    case (Cons u us)
    have "x * 10 ^ t = of_int m" by (simp add: x)
    then have "u = t \<Longrightarrow> of_int \<lfloor>x * 10 ^ u\<rfloor> = x * 10 ^ u \<and> \<bar>\<lfloor>x * 10 ^ u\<rfloor>\<bar> < dec_limit"
      using m by simp
    then show ?case using Cons by auto
  qed simp
  show ?thesis using gen [of ss] t assms(2) by simp
qed

lemma dec28_parts:
  assumes "representable a"
  shows "of_int (d_mantissa dec28 a) / 10 ^ d_scale dec28 a = a"
    and "\<bar>d_mantissa dec28 a\<bar> < dec_limit \<and> d_scale dec28 a \<le> max_scale"
proof -
  have "set (rev scales) = {0..28}" by (auto simp: scales_rev)
  note f = find_scale_ok [OF assms this]
  then have "of_int \<lfloor>a * 10 ^ find_scale (rev scales) a\<rfloor> / 10 ^ find_scale (rev scales) a = a"
    by (metis nonzero_mult_div_cancel_right power_not_zero zero_neq_numeral)
  with f show "of_int (d_mantissa dec28 a) / 10 ^ d_scale dec28 a = a"
    and "\<bar>d_mantissa dec28 a\<bar> < dec_limit \<and> d_scale dec28 a \<le> max_scale"
    by (simp_all add: dec28_def max_scale_def)
qed

text \<open>Rounding to an integer always fits when the value is in the range of the type.\<close>

lemma round_at_in_range:
  "\<bar>round x\<bar> < dec_limit \<Longrightarrow> 0 < k \<Longrightarrow> round_at (rev [0..<k]) x \<noteq> None"
proof (induction k)
  case (Suc s)
  then show ?case by (cases "s = 0") auto
qed simp

lemma dec_round_in_range:
  assumes "\<bar>x\<bar> \<le> of_int (dec_limit - 1)"
  shows "dec_round x \<noteq> None"
proof -
  have "x \<le> of_int (dec_limit - 1)" and "of_int (1 - dec_limit) \<le> x" using assms by (auto simp: abs_le_iff)
  then have "round x \<le> dec_limit - 1" and "1 - dec_limit \<le> round x" using round_le round_ge by blast+
  then have "\<bar>round x\<bar> < dec_limit" by linarith
  then show ?thesis unfolding dec_round_def scales_rev by (rule round_at_in_range) simp
qed

interpretation dec28: decimal_range dec28
proof
  show "d_div dec28 a b = Some c \<Longrightarrow> b \<noteq> 0 \<and> faithful (a / b) c" for a b c
    by (auto simp: dec28_def dec_round_faithful split: if_splits)
qed (auto simp: dec28_def dec_round_faithful dec_round_exact
    dec28_parts [unfolded dec28_def, simplified] dec_round_in_range [simplified])

interpretation dec28x: exact_sums dec28x
proof
  show "d_div dec28x a b = Some c \<Longrightarrow> b \<noteq> 0 \<and> faithful (a / b) c" for a b c
    by (auto simp: dec28x_def dec28_def dec_round_faithful split: if_splits)
qed (auto simp: dec28x_def dec28_def dec_exact_def dec_round_faithful dec_round_exact
    dec28_parts [unfolded dec28_def, simplified] split: if_splits)

lemma representable_bound: "representable x \<Longrightarrow> \<bar>x\<bar> \<le> of_int (dec_limit - 1)"
proof -
  assume "representable x"
  then obtain s m where m: "\<bar>m\<bar> < dec_limit" and x: "x = of_int m / 10 ^ s"
    by (auto simp: representable_def)
  have "\<bar>x\<bar> = \<bar>of_int m\<bar> / 10 ^ s" by (simp add: x abs_divide)
  also have "\<dots> \<le> \<bar>of_int m\<bar> / 1" by (intro divide_left_mono) auto
  also have "\<dots> \<le> of_int (dec_limit - 1)" using m by (simp only: div_by_1 of_int_abs [symmetric] of_int_le_iff)
  finally show ?thesis .
qed

context decimal_range
begin

lemma sub_between_defined:
  "representable a \<Longrightarrow> representable b \<Longrightarrow> 0 \<le> b \<Longrightarrow> b \<le> a \<Longrightarrow> d_sub D a b \<noteq> None"
  using representable_bound [of a] by (intro sub_in_range) auto

end

text \<open>Evaluation on concrete values: an exact result is computed without looking at the rounding.\<close>

lemmas dec28_exact = dec28.add_exact dec28.sub_exact dec28.mul_exact dec28.div_exact

lemmas dec28x_exact = dec28x.add_exact dec28x.sub_exact dec28x.mul_exact dec28x.div_exact

end
