(* ===== verification/Ordered_Map.thy ===== *)
theory Ordered_Map
  imports Prelude
begin

text \<open>
  The ordered maps of the program (\<open>BTreeMap\<close> of the standard library and the persistent
  \<open>imbl::OrdMap\<close>, which are used through the same operations): an association list in strictly
  ascending key order, so that iteration is the list itself. The locale states the contract the
  components rely on; the accounting lemmas of the engine are proved from it.
\<close>

type_synonym ('k, 'v) omap = "('k \<times> 'v) list"

fun om_insert :: "'k::linorder \<Rightarrow> 'v \<Rightarrow> ('k, 'v) omap \<Rightarrow> ('k, 'v) omap" where
  "om_insert k v [] = [(k, v)]"
| "om_insert k v ((k', v') # m) =
     (if k < k' then (k, v) # (k', v') # m
      else if k = k' then (k, v) # m
      else (k', v') # om_insert k v m)"

fun om_remove :: "'k \<Rightarrow> ('k, 'v) omap \<Rightarrow> ('k, 'v) omap" where
  "om_remove k [] = []"
| "om_remove k ((k', v') # m) = (if k = k' then om_remove k m else (k', v') # om_remove k m)"

definition om_get :: "('k, 'v) omap \<Rightarrow> 'k \<Rightarrow> 'v option" where
  "om_get m k = map_of m k"

definition om_keys :: "('k, 'v) omap \<Rightarrow> 'k list" where
  "om_keys m = map fst m"

definition om_values :: "('k, 'v) omap \<Rightarrow> 'v list" where
  "om_values m = map snd m"

definition om_entries :: "('k, 'v) omap \<Rightarrow> ('k \<times> 'v) list" where
  "om_entries m = m"

definition om_ok :: "('k::linorder, 'v) omap \<Rightarrow> bool" where
  "om_ok m \<longleftrightarrow> sorted_wrt (<) (map fst m)"

text \<open>\<open>entry(k).or_insert(v)\<close>, and collecting pairs into a map (a later pair wins).\<close>

definition om_or_insert :: "'k::linorder \<Rightarrow> 'v \<Rightarrow> ('k, 'v) omap \<Rightarrow> ('k, 'v) omap" where
  "om_or_insert k v m = (case om_get m k of None \<Rightarrow> om_insert k v m | Some _ \<Rightarrow> m)"

definition om_of_list :: "('k::linorder \<times> 'v) list \<Rightarrow> ('k, 'v) omap" where
  "om_of_list ps = foldl (\<lambda>m (k, v). om_insert k v m) [] ps"

section \<open>The interface\<close>

locale ordered_map =
  fixes get :: "'m \<Rightarrow> 'k \<Rightarrow> 'v option"
    and ins :: "'k \<Rightarrow> 'v \<Rightarrow> 'm \<Rightarrow> 'm"
    and del :: "'k \<Rightarrow> 'm \<Rightarrow> 'm"
    and entries :: "'m \<Rightarrow> ('k \<times> 'v) list"
    and inv :: "'m \<Rightarrow> bool"
  assumes get_ins: "get (ins k v m) k' = (if k' = k then Some v else get m k')"
    and get_del: "get (del k m) k' = (if k' = k then None else get m k')"
    and inv_ins: "inv m \<Longrightarrow> inv (ins k v m)"
    and inv_del: "inv m \<Longrightarrow> inv (del k m)"
    and entries_get: "map_of (entries m) = get m"
    and entries_distinct: "inv m \<Longrightarrow> distinct (map fst (entries m))"
begin

definition total :: "('k \<Rightarrow> 'v \<Rightarrow> 'a::ab_group_add) \<Rightarrow> 'm \<Rightarrow> 'a" where
  "total f m = (\<Sum>(k, v)\<leftarrow>entries m. f k v)"

lemma total_eq_sum:
  assumes "inv m"
  shows "total f m = (\<Sum>k \<in> dom (get m). f k (the (get m k)))"
proof -
  have d: "distinct (map fst (entries m))" using assms by (rule entries_distinct)
  then have "distinct (entries m)" by (simp add: distinct_map)
  then have "total f m = (\<Sum>(k, v) \<in> set (entries m). f k v)"
    by (simp add: total_def sum_list_distinct_conv_sum_set)
  also have "\<dots> = (\<Sum>k \<in> fst ` set (entries m). f k (the (map_of (entries m) k)))"
    using d by (subst sum.reindex) (auto simp: distinct_map intro!: sum.cong)
  also have "fst ` set (entries m) = dom (get m)"
    by (simp add: entries_get [symmetric] dom_map_of_conv_image_fst)
  finally show ?thesis by (simp add: entries_get)
qed

lemma finite_dom_get: "finite (dom (get m))"
  by (metis entries_get finite_dom_map_of)

lemma total_ins_new:
  assumes "inv m" and "get m k = None"
  shows "total f (ins k v m) = total f m + f k v"
proof -
  have dom: "dom (get (ins k v m)) = insert k (dom (get m))" by (auto simp: get_ins split: if_splits)
  have k: "k \<notin> dom (get m)" using assms by auto
  have "(\<Sum>x \<in> dom (get m). f x (the (get (ins k v m) x))) = (\<Sum>x \<in> dom (get m). f x (the (get m x)))"
    using k by (intro sum.cong) (auto simp: get_ins)
  with k show ?thesis
    using assms by (simp add: total_eq_sum inv_ins dom finite_dom_get get_ins add.commute)
qed

lemma total_del:
  assumes "inv m" and "get m k = Some v"
  shows "total f (del k m) = total f m - f k v"
proof -
  have dom: "dom (get (del k m)) = dom (get m) - {k}" by (auto simp: get_del split: if_splits)
  have "(\<Sum>x \<in> dom (get m) - {k}. f x (the (get (del k m) x))) =
      (\<Sum>x \<in> dom (get m) - {k}. f x (the (get m x)))"
    by (intro sum.cong) (auto simp: get_del)
  moreover have "k \<in> dom (get m)" using assms by auto
  ultimately show ?thesis
    using assms by (simp add: total_eq_sum inv_del dom finite_dom_get sum_diff1)
qed

lemma total_ins_upd:
  assumes "inv m" and "get m k = Some v"
  shows "total f (ins k v' m) = total f m - f k v + f k v'"
proof -
  have dom: "dom (get (ins k v' m)) = insert k (dom (get m) - {k})"
    using assms by (auto simp: get_ins split: if_splits)
  have "(\<Sum>x \<in> dom (get m) - {k}. f x (the (get (ins k v' m) x))) =
      (\<Sum>x \<in> dom (get m) - {k}. f x (the (get m x)))"
    by (intro sum.cong) (auto simp: get_ins)
  moreover have "k \<in> dom (get m)" using assms by auto
  ultimately show ?thesis
    using assms
    by (simp add: total_eq_sum inv_ins dom finite_dom_get sum.insert_remove sum_diff1 get_ins add.commute)
qed

lemma entries_in_get: "inv m \<Longrightarrow> (k, v) \<in> set (entries m) \<longleftrightarrow> get m k = Some v"
  by (metis entries_distinct entries_get map_of_eq_Some_iff)

end

section \<open>The association lists satisfy it\<close>

lemma om_get_insert [simp]: "om_get (om_insert k v m) k' = (if k' = k then Some v else om_get m k')"
  unfolding om_get_def by (induction k v m rule: om_insert.induct) auto

lemma om_get_remove [simp]: "om_get (om_remove k m) k' = (if k' = k then None else om_get m k')"
  unfolding om_get_def by (induction k m rule: om_remove.induct) auto

lemma om_get_Nil [simp]: "om_get [] k = None"
  by (simp add: om_get_def)

lemma keys_om_insert: "fst ` set (om_insert k v m) = insert k (fst ` set m)"
  by (induction k v m rule: om_insert.induct) auto

lemma keys_om_remove: "fst ` set (om_remove k m) = fst ` set m - {k}"
  by (induction k m rule: om_remove.induct) auto

lemma set_om_remove: "set (om_remove k m) = {(k', v) \<in> set m. k' \<noteq> k}"
  by (induction k m rule: om_remove.induct) auto

lemma om_ok_Nil [simp]: "om_ok []"
  by (simp add: om_ok_def)

lemma om_ok_Cons: "om_ok ((k, v) # m) \<longleftrightarrow> (\<forall>k' \<in> fst ` set m. k < k') \<and> om_ok m"
  by (simp add: om_ok_def)

lemma om_ok_insert [simp]: "om_ok m \<Longrightarrow> om_ok (om_insert k v m)"
  by (induction k v m rule: om_insert.induct) (auto simp: om_ok_Cons keys_om_insert)

lemma om_ok_remove [simp]: "om_ok m \<Longrightarrow> om_ok (om_remove k m)"
  by (induction k m rule: om_remove.induct) (auto simp: om_ok_Cons set_om_remove)

lemma om_ok_distinct: "om_ok m \<Longrightarrow> distinct (map fst m)"
  by (simp add: om_ok_def strict_sorted_iff)

interpretation om: ordered_map om_get om_insert om_remove om_entries om_ok
  by unfold_locales (auto simp: om_entries_def om_get_def [abs_def] om_ok_distinct
      om_get_insert [unfolded om_get_def] om_get_remove [unfolded om_get_def])

lemma om_get_in_set: "om_get m k = Some v \<Longrightarrow> (k, v) \<in> set m"
  by (simp add: om_get_def map_of_SomeD)

lemma om_in_set_get: "om_ok m \<Longrightarrow> (k, v) \<in> set m \<longleftrightarrow> om_get m k = Some v"
  using om.entries_in_get by (simp add: om_entries_def)

lemma om_values_get: "om_ok m \<Longrightarrow> v \<in> set (om_values m) \<longleftrightarrow> (\<exists>k. om_get m k = Some v)"
  by (force simp: om_values_def image_iff om_in_set_get [symmetric])

lemma om_get_or_insert: "om_get (om_or_insert k v m) k' =
    (if k' = k then Some (case om_get m k of None \<Rightarrow> v | Some w \<Rightarrow> w) else om_get m k')"
  by (auto simp: om_or_insert_def split: option.splits)

lemma om_ok_or_insert [simp]: "om_ok m \<Longrightarrow> om_ok (om_or_insert k v m)"
  by (simp add: om_or_insert_def split: option.splits)

lemma om_ok_foldl_insert:
  "om_ok m \<Longrightarrow> om_ok (foldl (\<lambda>m (k, v). om_insert k v m) m ps)"
  by (induction ps arbitrary: m) auto

lemma om_ok_of_list [simp]: "om_ok (om_of_list ps)"
  by (simp add: om_of_list_def om_ok_foldl_insert)

lemma om_get_foldl_insert:
  "om_get (foldl (\<lambda>m (k, v). om_insert k v m) m ps) k =
    (case map_of (rev ps) k of None \<Rightarrow> om_get m k | Some v \<Rightarrow> Some v)"
  by (induction ps arbitrary: m) (auto simp: map_add_def split: option.splits)

lemma om_get_of_list: "om_get (om_of_list ps) k = map_of (rev ps) k"
  by (simp add: om_of_list_def om_get_foldl_insert split: option.splits)

lemma om_insert_same:
  assumes "om_ok m" and "om_get m k = Some v"
  shows "om_insert k v m = m"
  using assms unfolding om_get_def
  by (induction k v m rule: om_insert.induct) (fastforce simp: om_ok_Cons dest: map_of_SomeD split: if_splits)+

text \<open>A map is determined by its lookups.\<close>

lemma om_extensionality:
  assumes "om_ok m" and "om_ok m'" and "\<And>k. om_get m k = om_get m' k"
  shows "m = m'"
proof -
  have same: "set m = set m'"
    using om_in_set_get [OF assms(1)] om_in_set_get [OF assms(2)] assms(3) by auto
  have inj: "inj_on fst (set m \<union> set m')"
    using om_ok_distinct [OF assms(1)] same by (simp add: distinct_map)
  show ?thesis
    using inj same assms(1,2) by (intro map_sorted_distinct_set_unique [of fst]) (auto simp: om_ok_def strict_sorted_iff)
qed

text \<open>The total of a measure over a map is the sum over its entries.\<close>

lemma om_total_sum: "om.total f m = (\<Sum>(k, v)\<leftarrow>m. f k v)"
  by (simp add: om.total_def om_entries_def)

end
