(* ===== verification/Domain.thy ===== *)
theory Domain
  imports Decimal Ordered_Map
begin

text \<open>
  The data of \<open>domain.rs\<close> and \<open>error.rs\<close>. Account identifiers, symbols and client order ids are
  strings; a \<open>Uuid\<close> is its 128-bit big-endian number, which orders uuids as the \<open>uuid\<close> crate
  documents; \<open>u16\<close>, \<open>u32\<close>, \<open>u64\<close> and \<open>usize\<close> values are naturals. Error messages keep the fixed
  text of the source: where it formats a value into the text, the message here is the template.
\<close>

type_synonym account_id = string
type_synonym symbol = string
type_synonym uuid = nat

section \<open>Errors\<close>

datatype exchange_error =
    AccountNotFound account_id
  | MarketNotFound symbol
  | OrderNotFound uuid
  | OrderOwnership uuid
  | DuplicateClientOrderId string
  | InvalidOrder string
  | InsufficientMargin decimal decimal
  | CannotFullyFill
  | NotLiquidatable string
  | InvalidSignature string
  | Persistence string
  | DatabaseInUse string
  | Unauthorized
  | Internal string

type_synonym 'a exch = "(exchange_error, 'a) res"

section \<open>Orders\<close>

datatype side = Buy | Sell

fun side_sign :: "side \<Rightarrow> decimal" where
  "side_sign Buy = 1"
| "side_sign Sell = - 1"

fun opposite :: "side \<Rightarrow> side" where
  "opposite Buy = Sell"
| "opposite Sell = Buy"

datatype order_kind = Limit | Market

datatype time_in_force = Gtc | Ioc | Fok

datatype order_status = Open | PartiallyFilled | Filled | Cancelled

record order_intent =
  oi_client_order_id :: string
  oi_symbol :: symbol
  oi_side :: side
  oi_kind :: order_kind
  oi_quantity :: decimal
  oi_price :: "decimal option"
  oi_leverage :: nat
  oi_time_in_force :: time_in_force
  oi_reduce_only :: bool

record new_order =
  no_account_id :: account_id
  no_intent :: order_intent

record order =
  ord_id :: uuid
  ord_account_id :: account_id
  ord_client_order_id :: string
  ord_symbol :: symbol
  ord_side :: side
  ord_kind :: order_kind
  ord_quantity :: decimal
  ord_remaining :: decimal
  ord_limit_price :: decimal
  ord_leverage :: nat
  ord_time_in_force :: time_in_force
  ord_reduce_only :: bool
  ord_reserved_margin :: decimal
  ord_sequence :: nat
  ord_status :: order_status

text \<open>\<open>matches!(order.status, OrderStatus::Open | OrderStatus::PartiallyFilled)\<close>.\<close>

fun status_active :: "order_status \<Rightarrow> bool" where
  "status_active Open = True"
| "status_active PartiallyFilled = True"
| "status_active Filled = False"
| "status_active Cancelled = False"

definition is_active :: "order \<Rightarrow> bool" where
  "is_active ord \<longleftrightarrow> status_active (ord_status ord)"

record trade =
  tr_id :: uuid
  tr_symbol :: symbol
  tr_price :: decimal
  tr_quantity :: decimal
  tr_maker_order_id :: uuid
  tr_taker_order_id :: uuid
  tr_maker_account_id :: account_id
  tr_taker_account_id :: account_id
  tr_taker_side :: side
  tr_maker_fee :: decimal
  tr_taker_fee :: decimal
  tr_sequence :: nat

section \<open>Accounts and positions\<close>

record position =
  pos_quantity :: decimal
  pos_entry_price :: decimal
  pos_initial_margin :: decimal
  pos_realized_pnl :: decimal
  pos_funding_pnl :: decimal
  pos_funding_index :: decimal

definition default_position :: position where
  "default_position = \<lparr>pos_quantity = 0, pos_entry_price = 0, pos_initial_margin = 0,
     pos_realized_pnl = 0, pos_funding_pnl = 0, pos_funding_index = 0\<rparr>"

record account =
  acct_id :: account_id
  acct_collateral :: decimal
  acct_reserved_margin :: decimal
  acct_fees_paid :: decimal
  acct_positions :: "(symbol, position) omap"

definition new_account :: "account_id \<Rightarrow> account" where
  "new_account aid = \<lparr>acct_id = aid, acct_collateral = 0, acct_reserved_margin = 0,
     acct_fees_paid = 0, acct_positions = []\<rparr>"

section \<open>Markets\<close>

record market_config =
  mc_symbol :: symbol
  mc_tick_size :: decimal
  mc_quantity_step :: decimal
  mc_min_quantity :: decimal
  mc_max_leverage :: nat
  mc_maintenance_margin_ratio :: decimal
  mc_maker_fee_rate :: decimal
  mc_taker_fee_rate :: decimal
  mc_market_slippage_limit :: decimal
  mc_liquidation_penalty_rate :: decimal

record market_state =
  ms_config :: market_config
  ms_mark_price :: decimal
  ms_funding_rate :: decimal
  ms_funding_index :: decimal

section \<open>Views and results\<close>

record price_level =
  pl_price :: decimal
  pl_quantity :: decimal
  pl_order_count :: nat

record book_view =
  bs_symbol :: symbol
  bs_sequence :: nat
  bs_bids :: "price_level list"
  bs_asks :: "price_level list"

record order_result =
  or_order :: order
  or_trades :: "trade list"

record risk_view =
  rs_account_id :: account_id
  rs_collateral :: decimal
  rs_unrealized_pnl :: decimal
  rs_equity :: decimal
  rs_position_margin :: decimal
  rs_reserved_margin :: decimal
  rs_maintenance_requirement :: decimal
  rs_available_margin :: decimal
  rs_liquidation_risk :: bool

record oracle_observation =
  ob_source :: string
  ob_price :: decimal
  ob_weight :: nat

record oracle_snapshot =
  os_symbol :: symbol
  os_price :: decimal
  os_observations :: "oracle_observation list"
  os_sequence :: nat

record socialized_loss =
  sl_account_id :: account_id
  sl_amount :: decimal

record liquidation_result =
  lr_account_id :: account_id
  lr_symbol :: symbol
  lr_closed_quantity :: decimal
  lr_remaining_quantity :: decimal
  lr_penalty :: decimal
  lr_bad_debt :: decimal
  lr_insurance_used :: decimal
  lr_fee_vault_used :: decimal
  lr_socialized_losses :: "socialized_loss list"
  lr_trades :: "trade list"

lemma side_sign_simps [simp]: "side_sign s \<noteq> 0" "\<bar>side_sign s\<bar> = 1" "side_sign (opposite s) = - side_sign s"
  by (cases s; simp)+

lemma opposite_opposite [simp]: "opposite (opposite s) = s"
  by (cases s) auto

end
