(* ===== verification/Account.thy ===== *)
theory Account
  imports Domain
begin

text \<open>
  Positions and account risk (\<open>account.rs\<close>). \<open>apply_fill\<close> opens, adds to, reduces, closes or
  reverses a position; \<open>risk_snapshot\<close> values an account against all markets.
\<close>

definition overflow_position :: exchange_error where
  "overflow_position = InvalidOrder ''numeric overflow while updating position''"

text \<open>The entry price after adding to a position: the average weighted by the quantities.\<close>

definition average_entry :: "dec_ops \<Rightarrow> position \<Rightarrow> decimal \<Rightarrow> decimal \<Rightarrow> decimal \<Rightarrow> decimal exch" where
  "average_entry D p quantity price new_abs =
     (let old_abs = \<bar>pos_quantity p\<bar> in
      if old_abs = 0 then Ok price
      else ok_or overflow_position
        (Option.bind (d_mul D old_abs (pos_entry_price p)) (\<lambda>old_notional.
         Option.bind (d_mul D quantity price) (\<lambda>new_notional.
         Option.bind (d_add D old_notional new_notional) (\<lambda>notional.
         d_div D notional new_abs)))))"

definition fill_margin :: "dec_ops \<Rightarrow> decimal \<Rightarrow> decimal \<Rightarrow> nat \<Rightarrow> decimal exch" where
  "fill_margin D quantity price leverage =
     ok_or overflow_position (Option.bind (d_mul D quantity price) (\<lambda>notional. d_div D notional (of_nat leverage)))"

text \<open>The branch that opens a position or adds to it on the same side.\<close>

definition apply_fill_increase ::
  "dec_ops \<Rightarrow> position \<Rightarrow> decimal \<Rightarrow> decimal \<Rightarrow> decimal \<Rightarrow> nat \<Rightarrow> (position \<times> decimal) exch" where
  "apply_fill_increase D p delta quantity price leverage =
     bindr (fill_margin D quantity price leverage) (\<lambda>added_margin.
     bindr (ok_or overflow_position (d_add D \<bar>pos_quantity p\<bar> quantity)) (\<lambda>new_abs.
     bindr (average_entry D p quantity price new_abs) (\<lambda>entry.
     bindr (ok_or overflow_position (d_add D (pos_quantity p) delta)) (\<lambda>q.
     bindr (ok_or overflow_position (d_add D (pos_initial_margin p) added_margin)) (\<lambda>margin.
     Ok (p\<lparr>pos_entry_price := entry, pos_quantity := q, pos_initial_margin := margin\<rparr>, 0))))))"

text \<open>The margin a partial close frees, and the entry price and margin of what is left.\<close>

definition released_margin :: "dec_ops \<Rightarrow> position \<Rightarrow> decimal \<Rightarrow> decimal exch" where
  "released_margin D p closing =
     (if closing = \<bar>pos_quantity p\<bar> then Ok (pos_initial_margin p)
      else ok_or overflow_position (Option.bind (d_mul D (pos_initial_margin p) closing)
        (\<lambda>margin. d_div D margin \<bar>pos_quantity p\<bar>)))"

definition rest_of_position ::
  "dec_ops \<Rightarrow> position \<Rightarrow> decimal \<Rightarrow> decimal \<Rightarrow> decimal \<Rightarrow> nat \<Rightarrow> (decimal \<times> decimal) exch" where
  "rest_of_position D p q margin price leverage =
     (if q = 0 then Ok (0, 0)
      else if signum q \<noteq> signum (pos_quantity p)
        then bindr (fill_margin D \<bar>q\<bar> price leverage) (\<lambda>m. Ok (price, m))
      else Ok (pos_entry_price p, margin))"

text \<open>The branch that reduces, closes or reverses a position.\<close>

definition apply_fill_reduce ::
  "dec_ops \<Rightarrow> position \<Rightarrow> decimal \<Rightarrow> decimal \<Rightarrow> decimal \<Rightarrow> nat \<Rightarrow> (position \<times> decimal) exch" where
  "apply_fill_reduce D p delta quantity price leverage =
     (let closing_quantity = min \<bar>pos_quantity p\<bar> quantity in
      bindr (ok_or overflow_position
        (Option.bind (d_sub D price (pos_entry_price p)) (\<lambda>price_delta.
         Option.bind (d_mul D closing_quantity price_delta) (\<lambda>pnl.
         d_mul D pnl (signum (pos_quantity p)))))) (\<lambda>realized.
      bindr (released_margin D p closing_quantity) (\<lambda>released.
      bindr (ok_or overflow_position (d_sub D (pos_initial_margin p) released)) (\<lambda>margin.
      bindr (ok_or overflow_position (d_add D (pos_quantity p) delta)) (\<lambda>q.
      bindr (rest_of_position D p q margin price leverage) (\<lambda>(entry, margin').
      bindr (ok_or overflow_position (d_add D (pos_realized_pnl p) realized)) (\<lambda>total.
      Ok (p\<lparr>pos_initial_margin := margin', pos_quantity := q, pos_entry_price := entry,
            pos_realized_pnl := total\<rparr>, realized))))))))"

text \<open>\<open>Position::apply_fill\<close>: the updated position and the realized profit of the fill.\<close>

definition apply_fill ::
  "dec_ops \<Rightarrow> position \<Rightarrow> side \<Rightarrow> decimal \<Rightarrow> decimal \<Rightarrow> nat \<Rightarrow> (position \<times> decimal) exch" where
  "apply_fill D p side quantity price leverage =
     bindr (ok_or overflow_position (d_mul D (side_sign side) quantity)) (\<lambda>delta.
       if pos_quantity p = 0 \<or> signum (pos_quantity p) = signum delta
       then apply_fill_increase D p delta quantity price leverage
       else apply_fill_reduce D p delta quantity price leverage)"

definition unrealized_pnl :: "dec_ops \<Rightarrow> position \<Rightarrow> decimal \<Rightarrow> decimal exch" where
  "unrealized_pnl D p mark =
     (if pos_quantity p = 0 then Ok 0
      else bindr (ok_or (Internal ''numeric overflow while calculating position price change'')
             (d_sub D mark (pos_entry_price p))) (\<lambda>change.
           ok_or (Internal ''numeric overflow while calculating unrealized PnL'')
             (d_mul D (pos_quantity p) change)))"

definition overflow_risk :: exchange_error where
  "overflow_risk = Internal ''numeric overflow while calculating account risk''"

text \<open>The body of the loop over the markets: profit, maintenance requirement and position margin.\<close>

definition risk_step ::
  "dec_ops \<Rightarrow> (symbol, position) omap \<Rightarrow> symbol \<times> market_state \<Rightarrow>
   decimal \<times> decimal \<times> decimal \<Rightarrow> (decimal \<times> decimal \<times> decimal) exch" where
  "risk_step D positions = (\<lambda>(symb, market) (upnl, maint_req, pmargin).
     case om_get positions symb of
       None \<Rightarrow> Ok (upnl, maint_req, pmargin)
     | Some p \<Rightarrow>
        bindr (ok_or overflow_risk (d_sub D (ms_funding_index market) (pos_funding_index p))) (\<lambda>fdelta.
        bindr (ok_or overflow_risk (d_mul D (pos_quantity p) fdelta)) (\<lambda>fpay.
        bindr (ok_or overflow_risk (d_sub D 0 fpay)) (\<lambda>accrued.
        bindr (unrealized_pnl D p (ms_mark_price market)) (\<lambda>u.
        bindr (ok_or overflow_risk (Option.bind (d_add D upnl u) (\<lambda>x. d_add D x accrued))) (\<lambda>upnl'.
        bindr (ok_or overflow_risk (Option.bind (d_mul D \<bar>pos_quantity p\<bar> (ms_mark_price market))
          (\<lambda>notional. d_mul D notional (mc_maintenance_margin_ratio (ms_config market))))) (\<lambda>maintenance.
        bindr (ok_or overflow_risk (d_add D maint_req maintenance)) (\<lambda>maint'.
        bindr (ok_or overflow_risk (d_add D pmargin (pos_initial_margin p))) (\<lambda>pmargin'.
        Ok (upnl', maint', pmargin'))))))))))"

definition risk_snapshot ::
  "dec_ops \<Rightarrow> account \<Rightarrow> (symbol, market_state) omap \<Rightarrow> risk_view exch" where
  "risk_snapshot D a markets =
     bindr (foldr_res (risk_step D (acct_positions a)) (om_entries markets) (0, 0, 0))
       (\<lambda>(upnl, maint_req, pmargin).
     bindr (ok_or overflow_risk (d_add D (acct_collateral a) upnl)) (\<lambda>equity.
     bindr (ok_or overflow_risk (Option.bind (d_sub D equity pmargin)
       (\<lambda>avail. d_sub D avail (acct_reserved_margin a)))) (\<lambda>available.
     Ok \<lparr>rs_account_id = acct_id a, rs_collateral = acct_collateral a,
         rs_unrealized_pnl = upnl, rs_equity = equity, rs_position_margin = pmargin,
         rs_reserved_margin = acct_reserved_margin a, rs_maintenance_requirement = maint_req,
         rs_available_margin = available,
         rs_liquidation_risk = (equity \<le> maint_req \<and> 0 < pmargin)\<rparr>)))"

end
