(* ===== verification/Account_Props.thy ===== *)
theory Account_Props
  imports Account
begin

text \<open>
  Positions and risk. A fill moves the position by its signed quantity and never creates value: the
  realized profit and what the position is worth at the price of the fill add up to what it was
  worth before. Profit, equity and the margin requirements of \<open>risk_snapshot\<close> are the sums over
  the markets they are meant to be.
\<close>

section \<open>What a fill does\<close>

definition position_value :: "position \<Rightarrow> decimal \<Rightarrow> decimal" where
  "position_value p price = pos_quantity p * (price - pos_entry_price p)"

definition increases :: "position \<Rightarrow> side \<Rightarrow> bool" where
  "increases p s \<longleftrightarrow> pos_quantity p = 0 \<or> signum (pos_quantity p) = side_sign s"

text \<open>The intermediate results of \<open>apply_fill\<close> that are products or quotients fit a decimal.\<close>

definition entry_exact :: "position \<Rightarrow> decimal \<Rightarrow> decimal \<Rightarrow> bool" where
  "entry_exact p n price \<longleftrightarrow>
     representable (\<bar>pos_quantity p\<bar> * pos_entry_price p) \<and> representable (n * price) \<and>
     representable (\<bar>pos_quantity p\<bar> * pos_entry_price p + n * price) \<and>
     representable ((\<bar>pos_quantity p\<bar> * pos_entry_price p + n * price) / (\<bar>pos_quantity p\<bar> + n))"

definition closing_exact :: "position \<Rightarrow> decimal \<Rightarrow> decimal \<Rightarrow> bool" where
  "closing_exact p n price \<longleftrightarrow> representable (min \<bar>pos_quantity p\<bar> n * (price - pos_entry_price p))"

lemma signum_side: "0 < n \<Longrightarrow> signum (side_sign s * n) = side_sign s"
  by (cases s) (auto simp: signum_def)

lemma abs_signum: "signum q * \<bar>q\<bar> = q" "\<bar>q\<bar> * signum q = q"
  by (auto simp: signum_def)

lemma representable_signed: "representable n \<Longrightarrow> representable (side_sign s * n)"
  by (cases s) (auto simp: representable_uminus)

lemmas account_steps = average_entry_def fill_margin_def released_margin_def rest_of_position_def Let_def

lemma apply_fill_no_panic [no_panic]: "apply_fill D p s n price lev \<noteq> Panic"
  by (auto simp: apply_fill_def apply_fill_increase_def apply_fill_reduce_def account_steps bindr_eq_Panic
      split: prod.splits if_splits)

context decimal_arith
begin

lemma apply_fill_branch:
  assumes "representable n" and "0 < n"
  shows "apply_fill D p s n price lev =
    (if increases p s then apply_fill_increase D p (side_sign s * n) n price lev
     else apply_fill_reduce D p (side_sign s * n) n price lev)"
  using assms by (auto simp: apply_fill_def mul_exact representable_signed signum_side increases_def)

end

context exact_sums
begin

lemma increase_Ok:
  assumes "apply_fill_increase D p delta n price lev = Ok (p', r)"
  shows "r = 0" and "pos_quantity p' = pos_quantity p + delta" and "pos_realized_pnl p' = pos_realized_pnl p"
    and "pos_funding_index p' = pos_funding_index p" and "pos_funding_pnl p' = pos_funding_pnl p"
    and "entry_exact p n price \<Longrightarrow> 0 < n \<Longrightarrow>
      pos_entry_price p' * (\<bar>pos_quantity p\<bar> + n) = \<bar>pos_quantity p\<bar> * pos_entry_price p + n * price"
  using assms
  by (auto simp: apply_fill_increase_def account_steps entry_exact_def mul_exact add_exact div_exact
      split: if_splits dest!: add_sum)

lemma reduce_Ok:
  assumes "apply_fill_reduce D p delta n price lev = Ok (p', r)"
  shows "pos_quantity p' = pos_quantity p + delta" and "pos_realized_pnl p' = pos_realized_pnl p + r"
    and "pos_funding_index p' = pos_funding_index p" and "pos_funding_pnl p' = pos_funding_pnl p"
    and "pos_entry_price p' = (if pos_quantity p' = 0 then 0
      else if signum (pos_quantity p') \<noteq> signum (pos_quantity p) then price else pos_entry_price p)"
    and "closing_exact p n price \<Longrightarrow> r = min \<bar>pos_quantity p\<bar> n * (price - pos_entry_price p) * signum (pos_quantity p)"
proof -
  obtain rel margin q entry m' total where
    ops: "d_add D (pos_quantity p) delta = Some q" "rest_of_position D p q margin price lev = Ok (entry, m')"
      "d_add D (pos_realized_pnl p) r = Some total"
    and p': "p' = p\<lparr>pos_initial_margin := m', pos_quantity := q, pos_entry_price := entry, pos_realized_pnl := total\<rparr>"
    using assms unfolding apply_fill_reduce_def by (auto simp: Let_def split: prod.splits)
  have entry: "entry = (if q = 0 then 0 else if signum q \<noteq> signum (pos_quantity p) then price else pos_entry_price p)"
    using ops(2) by (auto simp: rest_of_position_def split: if_splits)
  show "pos_quantity p' = pos_quantity p + delta" "pos_realized_pnl p' = pos_realized_pnl p + r"
    "pos_funding_index p' = pos_funding_index p" "pos_funding_pnl p' = pos_funding_pnl p"
    "pos_entry_price p' = (if pos_quantity p' = 0 then 0
      else if signum (pos_quantity p') \<noteq> signum (pos_quantity p) then price else pos_entry_price p)"
    using add_sum [OF ops(1)] add_sum [OF ops(3)] entry by (simp_all add: p')
  assume c: "closing_exact p n price"
  have "representable (min \<bar>pos_quantity p\<bar> n * (price - pos_entry_price p) * signum (pos_quantity p))"
    using c representable_uminus by (fastforce simp: closing_exact_def signum_def)
  then show "r = min \<bar>pos_quantity p\<bar> n * (price - pos_entry_price p) * signum (pos_quantity p)"
    using assms c
    by (auto simp: apply_fill_reduce_def Let_def closing_exact_def mul_exact bind_eq_Some_conv
        split: prod.splits dest!: sub_sum)
qed

lemma apply_fill_quantity:
  assumes "apply_fill D p s n price lev = Ok (p', r)" and "representable n" and "0 < n"
  shows "pos_quantity p' = pos_quantity p + side_sign s * n" and "pos_realized_pnl p' = pos_realized_pnl p + r"
    and "pos_funding_index p' = pos_funding_index p" and "pos_funding_pnl p' = pos_funding_pnl p"
  using assms(1) increase_Ok [of p "side_sign s * n" n price lev p' r] reduce_Ok [of p "side_sign s * n" n price lev p' r]
  unfolding apply_fill_branch [OF assms(2,3)] by (auto split: if_splits)

lemma value_increase:
  fixes q e n price :: rat
  assumes "(\<bar>q\<bar> + n) * e' = \<bar>q\<bar> * e + n * price" and "q = 0 \<or> signum q = side_sign s" and "0 < n"
  shows "(q + side_sign s * n) * (price - e') = q * (price - e)"
proof -
  have q: "q = side_sign s * \<bar>q\<bar>" using assms(2) abs_signum(1) [of q] by auto
  have "(q + side_sign s * n) * (price - e') = side_sign s * ((\<bar>q\<bar> + n) * price - (\<bar>q\<bar> + n) * e')"
    by (subst q) (simp add: algebra_simps)
  also have "\<dots> = side_sign s * \<bar>q\<bar> * (price - e)" unfolding assms(1) by (simp add: algebra_simps)
  finally show ?thesis using q by simp
qed

lemma apply_fill_value:
  assumes "apply_fill D p s n price lev = Ok (p', r)" and "representable n" and "0 < n"
    and "increases p s \<Longrightarrow> entry_exact p n price" and "\<not> increases p s \<Longrightarrow> closing_exact p n price"
  shows "position_value p' price + r = position_value p price"
proof (cases "increases p s")
  case True
  then have inc: "apply_fill_increase D p (side_sign s * n) n price lev = Ok (p', r)"
    using assms(1) by (simp add: apply_fill_branch assms(2,3))
  show ?thesis
    using value_increase [of "pos_quantity p" n "pos_entry_price p'" "pos_entry_price p" price s]
      increase_Ok [OF inc] assms(3,4) True
    by (auto simp: position_value_def increases_def mult.commute)
next
  case False
  let ?q = "pos_quantity p" and ?e = "pos_entry_price p"
  have red: "apply_fill_reduce D p (side_sign s * n) n price lev = Ok (p', r)"
    using assms(1) False by (simp add: apply_fill_branch assms(2,3))
  have q0: "?q \<noteq> 0" "signum ?q = - side_sign s"
    using False by (cases s; auto simp: increases_def signum_def split: if_splits)+
  have q: "?q = - side_sign s * \<bar>?q\<bar>" using abs_signum(1) [of ?q] q0(2) by simp
  have q': "pos_quantity p' = side_sign s * (n - \<bar>?q\<bar>)"
    using reduce_Ok(1) [OF red] q by (simp add: algebra_simps)
  have r: "r = min \<bar>?q\<bar> n * (price - ?e) * - side_sign s"
    using reduce_Ok(6) [OF red] assms(5) False q0(2) by simp
  note e' = reduce_Ok(5) [OF red]
  show ?thesis
  proof (cases "n < \<bar>?q\<bar>")
    case True
    then have "signum (pos_quantity p') = signum ?q" "pos_quantity p' \<noteq> 0"
      unfolding q' q0(2) by (cases s; simp add: signum_def)+
    then have "pos_entry_price p' = ?e" using e' by simp
    then show ?thesis
      using True by (subst (2) position_value_def, subst q) (simp add: position_value_def q' r algebra_simps)
  next
    case False
    have "position_value p' price = 0"
    proof (cases "n = \<bar>?q\<bar>")
      case True
      then show ?thesis by (simp add: position_value_def q')
    next
      case ne: False
      then have "signum (pos_quantity p') = side_sign s" using False unfolding q' by (cases s; simp add: signum_def)
      then have "signum (pos_quantity p') \<noteq> signum ?q" using q0(2) side_sign_simps(1) [of s] by auto
      moreover have "pos_quantity p' \<noteq> 0" using ne q' by simp
      ultimately have "pos_entry_price p' = price" using e' by simp
      then show ?thesis by (simp add: position_value_def)
    qed
    then show ?thesis
      using False by (subst (2) position_value_def, subst q) (simp add: r algebra_simps)
  qed
qed

end

section \<open>Well-formed positions\<close>

definition pos_ok :: "position \<Rightarrow> bool" where
  "pos_ok p \<longleftrightarrow> representable (pos_quantity p) \<and> representable (pos_entry_price p) \<and> 0 \<le> pos_entry_price p \<and>
     representable (pos_initial_margin p) \<and> 0 \<le> pos_initial_margin p \<and>
     (pos_quantity p = 0 \<longrightarrow> pos_initial_margin p = 0 \<and> pos_entry_price p = 0)"

context decimal_arith
begin

lemma fill_margin_Ok:
  assumes "fill_margin D n price lev = Ok m" and "0 \<le> n" and "0 \<le> price"
  shows "representable m \<and> 0 \<le> m"
  using assms by (auto simp: fill_margin_def bind_eq_Some_conv intro: div_nonneg mul_nonneg op_representable)

lemma average_entry_Ok:
  assumes "average_entry D p n price new_abs = Ok e" and "pos_ok p" and "0 < n" and "0 \<le> price"
    and "representable price" and "0 \<le> new_abs"
  shows "representable e \<and> 0 \<le> e"
proof (cases "pos_quantity p = 0")
  case True
  then show ?thesis using assms by (simp add: average_entry_def)
next
  case False
  then obtain old new tot where o: "d_mul D \<bar>pos_quantity p\<bar> (pos_entry_price p) = Some old"
    "d_mul D n price = Some new" "d_add D old new = Some tot" "d_div D tot new_abs = Some e"
    using assms(1) by (auto simp: average_entry_def bind_eq_Some_conv)
  have "0 \<le> old" "0 \<le> new" using mul_nonneg [OF o(1)] mul_nonneg [OF o(2)] assms by (auto simp: pos_ok_def)
  then have "0 \<le> tot" using add_nonneg [OF o(3)] by simp
  then show ?thesis using div_nonneg [OF o(4)] op_representable(4) [OF o(4)] assms(6) by simp
qed

lemma increase_margin:
  assumes "apply_fill_increase D p delta n price lev = Ok (p', r)" and "pos_ok p" and "0 < n" and "0 \<le> price"
    and "representable price"
  shows "representable (pos_entry_price p') \<and> 0 \<le> pos_entry_price p' \<and> representable (pos_initial_margin p') \<and>
    pos_initial_margin p \<le> pos_initial_margin p' \<and> representable (pos_quantity p')"
proof -
  obtain added new_abs entry q margin where
    ops: "fill_margin D n price lev = Ok added" "d_add D \<bar>pos_quantity p\<bar> n = Some new_abs"
      "average_entry D p n price new_abs = Ok entry"
      "d_add D (pos_quantity p) delta = Some q" "d_add D (pos_initial_margin p) added = Some margin"
    and p': "p' = p\<lparr>pos_entry_price := entry, pos_quantity := q, pos_initial_margin := margin\<rparr>"
    using assms(1) unfolding apply_fill_increase_def by auto
  have "0 \<le> added" using fill_margin_Ok [OF ops(1)] assms(3,4) by simp
  then have "pos_initial_margin p \<le> margin" using add_ge [OF ops(5)] assms(2) by (simp add: pos_ok_def)
  moreover have "0 \<le> new_abs" using add_nonneg [OF ops(2)] assms(3) by simp
  then have "representable entry \<and> 0 \<le> entry" using average_entry_Ok [OF ops(3) assms(2-5)] by simp
  ultimately show ?thesis using op_representable(1) [OF ops(4)] op_representable(1) [OF ops(5)] by (simp add: p')
qed

lemma released_margin_bounds:
  assumes "released_margin D p (min \<bar>pos_quantity p\<bar> n) = Ok rel" and "pos_ok p" and "0 < n"
    and "representable (pos_initial_margin p * min \<bar>pos_quantity p\<bar> n)"
  shows "0 \<le> rel \<and> rel \<le> pos_initial_margin p"
proof (cases "min \<bar>pos_quantity p\<bar> n = \<bar>pos_quantity p\<bar>")
  case True
  then show ?thesis using assms(1,2) by (simp add: released_margin_def pos_ok_def)
next
  case False
  let ?c = "min \<bar>pos_quantity p\<bar> n" and ?m = "pos_initial_margin p"
  obtain x where "d_mul D ?m ?c = Some x" and d: "d_div D x \<bar>pos_quantity p\<bar> = Some rel"
    using assms(1) False unfolding released_margin_def by (simp only: if_False ok_or_simps bind_eq_Some_conv) blast
  then have x: "x = ?m * ?c" using assms(4) by (simp add: mul_exact)
  have m: "0 \<le> ?m" "representable ?m" using assms(2) by (auto simp: pos_ok_def)
  have "?m * ?c \<le> ?m * \<bar>pos_quantity p\<bar>" using m(1) by (intro mult_left_mono) auto
  then have "?m * ?c / \<bar>pos_quantity p\<bar> \<le> ?m" using False m(1) by (auto simp: divide_le_eq min_def split: if_splits)
  then have "rel \<le> ?m" using div_faithful [OF d] m(2) faithful_le [of "x / \<bar>pos_quantity p\<bar>" rel ?m] by (simp add: x)
  moreover have "0 \<le> rel" using div_nonneg [OF d] m(1) assms(3) by (simp add: x)
  ultimately show ?thesis by simp
qed

lemma reduce_margin:
  assumes "apply_fill_reduce D p delta n price lev = Ok (p', r)" and "pos_ok p" and "0 < n" and "0 \<le> price"
    and "representable price" and "representable (pos_initial_margin p * min \<bar>pos_quantity p\<bar> n)"
  shows "representable (pos_entry_price p') \<and> 0 \<le> pos_entry_price p' \<and> representable (pos_initial_margin p') \<and>
    0 \<le> pos_initial_margin p' \<and> representable (pos_quantity p') \<and>
    (pos_quantity p' = 0 \<longrightarrow> pos_initial_margin p' = 0 \<and> pos_entry_price p' = 0)"
proof -
  obtain rel margin q entry m' where
    ops: "released_margin D p (min \<bar>pos_quantity p\<bar> n) = Ok rel" "d_sub D (pos_initial_margin p) rel = Some margin"
      "d_add D (pos_quantity p) delta = Some q" "rest_of_position D p q margin price lev = Ok (entry, m')"
    and p': "pos_quantity p' = q" "pos_entry_price p' = entry" "pos_initial_margin p' = m'"
    using assms(1) unfolding apply_fill_reduce_def by (auto simp: Let_def split: prod.splits)
  have "0 \<le> margin" using sub_nonneg [OF ops(2)] released_margin_bounds [OF ops(1) assms(2,3,6)] by simp
  moreover have "representable margin" "representable q" using ops op_representable by auto
  ultimately show ?thesis
    using ops(4) assms(2,4,5) fill_margin_Ok [of "\<bar>q\<bar>" price lev]
    by (auto simp: p' rest_of_position_def pos_ok_def split: if_splits)
qed

end

lemma increases_abs:
  "increases p s \<Longrightarrow> 0 < n \<Longrightarrow> pos_quantity p + side_sign s * n \<noteq> 0"
  by (cases s) (auto simp: increases_def signum_def split: if_splits)

context exact_sums
begin

lemma apply_fill_pos_ok:
  assumes "apply_fill D p s n price lev = Ok (p', r)" and "pos_ok p" and "representable n" and "0 < n"
    and "0 \<le> price" and "representable price"
    and "\<not> increases p s \<Longrightarrow> representable (pos_initial_margin p * min \<bar>pos_quantity p\<bar> n)"
  shows "pos_ok p'"
proof (cases "increases p s")
  case True
  then have inc: "apply_fill_increase D p (side_sign s * n) n price lev = Ok (p', r)"
    using assms(1) by (simp add: apply_fill_branch assms(3,4))
  show ?thesis
    using increase_margin [OF inc assms(2,4,5,6)] increase_Ok(2) [OF inc] increases_abs [OF True assms(4)] assms(2)
    by (auto simp: pos_ok_def)
next
  case False
  then have red: "apply_fill_reduce D p (side_sign s * n) n price lev = Ok (p', r)"
    using assms(1) by (simp add: apply_fill_branch assms(3,4))
  show ?thesis using reduce_margin [OF red assms(2,4,5,6)] assms(7) False by (auto simp: pos_ok_def)
qed

end

section \<open>Account risk\<close>

definition funding_due :: "position \<Rightarrow> market_state \<Rightarrow> decimal" where
  "funding_due p m = pos_quantity p * (ms_funding_index m - pos_funding_index p)"

definition valued_exactly :: "position \<Rightarrow> market_state \<Rightarrow> bool" where
  "valued_exactly p m \<longleftrightarrow> representable (funding_due p m) \<and> representable (position_value p (ms_mark_price m)) \<and>
     representable (\<bar>pos_quantity p\<bar> * ms_mark_price m) \<and>
     representable (\<bar>pos_quantity p\<bar> * ms_mark_price m * mc_maintenance_margin_ratio (ms_config m))"

definition market_sum :: "(symbol, position) omap \<Rightarrow> (position \<Rightarrow> market_state \<Rightarrow> decimal) \<Rightarrow>
    (symbol \<times> market_state) list \<Rightarrow> decimal" where
  "market_sum ps f ms = (\<Sum>(symb, m)\<leftarrow>ms. case om_get ps symb of None \<Rightarrow> 0 | Some p \<Rightarrow> f p m)"

abbreviation market_pnl :: "position \<Rightarrow> market_state \<Rightarrow> decimal" where
  "market_pnl p m \<equiv> position_value p (ms_mark_price m) - funding_due p m"

abbreviation maintenance :: "position \<Rightarrow> market_state \<Rightarrow> decimal" where
  "maintenance p m \<equiv> \<bar>pos_quantity p\<bar> * ms_mark_price m * mc_maintenance_margin_ratio (ms_config m)"

lemma unrealized_no_panic [no_panic]: "unrealized_pnl D p mark \<noteq> Panic"
  by (simp add: unrealized_pnl_def bindr_eq_Panic)

lemma risk_step_no_panic [no_panic]: "risk_step D ps x s \<noteq> Panic"
  by (cases x; cases s) (auto simp: risk_step_def bindr_eq_Panic no_panic split: option.splits)

lemma risk_snapshot_no_panic [no_panic]: "risk_snapshot D a markets \<noteq> Panic"
  by (auto simp: risk_snapshot_def bindr_eq_Panic no_panic foldr_res_neq_Panic)

context exact_sums
begin

lemma unrealized_pnl_exact:
  assumes "unrealized_pnl D p mark = Ok u" and "representable (position_value p mark)"
  shows "u = position_value p mark"
  using assms by (auto simp: unrealized_pnl_def position_value_def mul_exact split: if_splits dest!: sub_sum)

lemma risk_step_Ok:
  assumes "risk_step D ps (symb, m) (u, mr, pm) = Ok (u', mr', pm')"
    and "\<And>p. om_get ps symb = Some p \<Longrightarrow> valued_exactly p m"
  shows "u' = u + market_sum ps market_pnl [(symb, m)] \<and> mr' = mr + market_sum ps maintenance [(symb, m)] \<and>
    pm' = pm + market_sum ps (\<lambda>p m. pos_initial_margin p) [(symb, m)]"
proof (cases "om_get ps symb")
  case None
  then show ?thesis using assms(1) by (simp add: risk_step_def market_sum_def)
next
  case (Some p)
  note ve = assms(2) [OF Some, unfolded valued_exactly_def funding_due_def]
  obtain u1 where u1: "unrealized_pnl D p (ms_mark_price m) = Ok u1"
    using assms(1) Some by (auto simp: risk_step_def)
  then have "u1 = position_value p (ms_mark_price m)" using ve unrealized_pnl_exact by blast
  then show ?thesis
    using assms(1) Some ve u1
    by (auto simp: risk_step_def market_sum_def funding_due_def mul_exact bind_eq_Some_conv dest!: add_sum sub_sum)
qed

lemma risk_fold_Ok:
  assumes "foldr_res (risk_step D ps) ms (u, mr, pm) = Ok (u', mr', pm')"
    and "\<And>symb m p. (symb, m) \<in> set ms \<Longrightarrow> om_get ps symb = Some p \<Longrightarrow> valued_exactly p m"
  shows "u' = u + market_sum ps market_pnl ms \<and> mr' = mr + market_sum ps maintenance ms \<and>
    pm' = pm + market_sum ps (\<lambda>p m. pos_initial_margin p) ms"
  using assms
proof (induction ms arbitrary: u mr pm)
  case (Cons x ms)
  obtain symb m where x: "x = (symb, m)" by (cases x)
  obtain u1 mr1 pm1 where s: "risk_step D ps (symb, m) (u, mr, pm) = Ok (u1, mr1, pm1)"
    and r: "foldr_res (risk_step D ps) ms (u1, mr1, pm1) = Ok (u', mr', pm')"
    using Cons.prems(1) by (auto simp: x)
  show ?case
    using risk_step_Ok [OF s] Cons.IH [OF r] Cons.prems(2) by (fastforce simp: x market_sum_def)
qed (simp add: market_sum_def)

lemma risk_snapshot_Ok:
  assumes "risk_snapshot D a markets = Ok rs"
    and "\<And>symb m p. (symb, m) \<in> set markets \<Longrightarrow> om_get (acct_positions a) symb = Some p \<Longrightarrow> valued_exactly p m"
  shows "rs_unrealized_pnl rs = market_sum (acct_positions a) market_pnl markets"
    and "rs_maintenance_requirement rs = market_sum (acct_positions a) maintenance markets"
    and "rs_position_margin rs = market_sum (acct_positions a) (\<lambda>p m. pos_initial_margin p) markets"
    and "rs_equity rs = acct_collateral a + rs_unrealized_pnl rs"
    and "rs_available_margin rs = rs_equity rs - rs_position_margin rs - acct_reserved_margin a"
    and "rs_liquidation_risk rs \<longleftrightarrow> rs_equity rs \<le> rs_maintenance_requirement rs \<and> 0 < rs_position_margin rs"
    and "rs_collateral rs = acct_collateral a" and "rs_reserved_margin rs = acct_reserved_margin a"
proof -
  obtain u mr pm eq av where f: "foldr_res (risk_step D (acct_positions a)) markets (0, 0, 0) = Ok (u, mr, pm)"
    and ops: "d_add D (acct_collateral a) u = Some eq" "Option.bind (d_sub D eq pm) (\<lambda>x. d_sub D x (acct_reserved_margin a)) = Some av"
    and rs: "rs = \<lparr>rs_account_id = acct_id a, rs_collateral = acct_collateral a,
         rs_unrealized_pnl = u, rs_equity = eq, rs_position_margin = pm,
         rs_reserved_margin = acct_reserved_margin a, rs_maintenance_requirement = mr,
         rs_available_margin = av, rs_liquidation_risk = (eq \<le> mr \<and> 0 < pm)\<rparr>"
    using assms(1) by (auto simp: risk_snapshot_def om_entries_def split: prod.splits)
  note sums = risk_fold_Ok [OF f assms(2)]
  show "rs_unrealized_pnl rs = market_sum (acct_positions a) market_pnl markets"
    "rs_maintenance_requirement rs = market_sum (acct_positions a) maintenance markets"
    "rs_position_margin rs = market_sum (acct_positions a) (\<lambda>p m. pos_initial_margin p) markets"
    using sums by (simp_all add: rs)
  show "rs_equity rs = acct_collateral a + rs_unrealized_pnl rs"
    "rs_available_margin rs = rs_equity rs - rs_position_margin rs - acct_reserved_margin a"
    using ops by (auto simp: rs bind_eq_Some_conv dest!: add_sum sub_sum)
qed (use assms(1) in \<open>auto simp: risk_snapshot_def split: prod.splits\<close>)

end

end
