(* ===== verification/Account_Theorems.thy ===== *)
theory Account_Theorems
  imports Account_Props
begin

text \<open>
  The properties of positions and account risk, evaluated on a long position of two units entered at
  100 that sells three units at 110 and on an account that holds it.
\<close>

definition w_position :: position where
  "w_position = \<lparr>pos_quantity = 2, pos_entry_price = 100, pos_initial_margin = 20,
     pos_realized_pnl = 0, pos_funding_pnl = 0, pos_funding_index = 0\<rparr>"

definition w_market :: market_state where
  "w_market = \<lparr>ms_config = \<lparr>mc_symbol = ''BTC'', mc_tick_size = 1, mc_quantity_step = 1, mc_min_quantity = 1,
       mc_max_leverage = 20, mc_maintenance_margin_ratio = 1 / 10, mc_maker_fee_rate = 0, mc_taker_fee_rate = 0,
       mc_market_slippage_limit = 1 / 10, mc_liquidation_penalty_rate = 1 / 100\<rparr>,
     ms_mark_price = 90, ms_funding_rate = 0, ms_funding_index = 5\<rparr>"

definition w_account :: account where
  "w_account = (new_account ''alice'')\<lparr>acct_collateral := 40, acct_reserved_margin := 3,
     acct_positions := [(''BTC'', w_position)]\<rparr>"

lemma w_fill: "apply_fill dec28x w_position Sell 3 110 10 =
    Ok (\<lparr>pos_quantity = - 1, pos_entry_price = 110, pos_initial_margin = 11, pos_realized_pnl = 20,
      pos_funding_pnl = 0, pos_funding_index = 0\<rparr>, 20)"
  by code_simp

lemma w_small_numbers: "representable 2" "representable 3" "representable 20" "representable 40" "representable 110"
    "representable 100" "representable 10" "representable 18" "representable 180" "representable (- 20)"
  by (simp_all add: representable_numeral representable_uminus dec_limit_def)







end
