(* ===== verification/Orderbook.thy ===== *)
theory Orderbook
  imports Domain
begin

text \<open>
  The limit order book (\<open>orderbook.rs\<close>): price levels of first-in-first-out queues on both sides, the
  resting orders by id, the matching loop of \<open>execute\<close>, cancellation, the frozen-batch operations and
  the views. An indexing expression, an \<open>expect\<close> and an overflowing operator of \<open>Decimal\<close> panic.
\<close>

record raw_fill =
  rf_maker_order_id :: uuid
  rf_taker_order_id :: uuid
  rf_maker_account_id :: account_id
  rf_taker_account_id :: account_id
  rf_maker_side :: side
  rf_taker_side :: side
  rf_maker_leverage :: nat
  rf_taker_leverage :: nat
  rf_price :: decimal
  rf_quantity :: decimal
  rf_maker_margin_release :: decimal
  rf_taker_margin_release :: decimal

record reservation_release =
  rr_account_id :: account_id
  rr_order_id :: uuid
  rr_amount :: decimal
  rr_reason :: string

record execution =
  ex_order :: order
  ex_fills :: "raw_fill list"
  ex_releases :: "reservation_release list"
  ex_terminal_orders :: "order list"

record batch_order_fill =
  bf_order :: order
  bf_margin_release :: decimal
  bf_terminal :: bool

type_synonym levels = "(decimal, uuid list) omap"

record order_book =
  bk_bids :: levels
  bk_asks :: levels
  bk_orders :: "(uuid, order) omap"

definition empty_book :: order_book where
  "empty_book = \<lparr>bk_bids = [], bk_asks = [], bk_orders = []\<rparr>"

section \<open>Price levels\<close>

fun side_levels :: "order_book \<Rightarrow> side \<Rightarrow> levels" where
  "side_levels bk Buy = bk_bids bk"
| "side_levels bk Sell = bk_asks bk"

fun set_levels :: "side \<Rightarrow> levels \<Rightarrow> order_book \<Rightarrow> order_book" where
  "set_levels Buy ls bk = bk\<lparr>bk_bids := ls\<rparr>"
| "set_levels Sell ls bk = bk\<lparr>bk_asks := ls\<rparr>"

text \<open>\<open>asks.first_key_value()\<close> and \<open>bids.last_key_value()\<close>.\<close>

fun best_level :: "side \<Rightarrow> levels \<Rightarrow> (decimal \<times> uuid list) option" where
  "best_level Sell ls = (case ls of [] \<Rightarrow> None | l # _ \<Rightarrow> Some l)"
| "best_level Buy ls = (if ls = [] then None else Some (last ls))"

definition best_opposite :: "order_book \<Rightarrow> side \<Rightarrow> (decimal \<times> uuid) option exch" where
  "best_opposite bk side =
     (case best_level (opposite side) (side_levels bk (opposite side)) of
        None \<Rightarrow> Ok None
      | Some (price, queue) \<Rightarrow>
          (case queue of [] \<Rightarrow> Panic | oid # _ \<Rightarrow> Ok (Some (price, oid))))"

definition push_queue :: "decimal \<Rightarrow> uuid \<Rightarrow> levels \<Rightarrow> levels" where
  "push_queue price oid ls =
     om_insert price ((case om_get ls price of None \<Rightarrow> [] | Some q \<Rightarrow> q) @ [oid]) ls"

definition push_level :: "side \<Rightarrow> decimal \<Rightarrow> uuid \<Rightarrow> order_book \<Rightarrow> order_book" where
  "push_level side price oid bk = set_levels side (push_queue price oid (side_levels bk side)) bk"

definition remove_queue :: "decimal \<Rightarrow> uuid \<Rightarrow> levels \<Rightarrow> levels" where
  "remove_queue price oid ls =
     (case om_get ls price of
        None \<Rightarrow> ls
      | Some q \<Rightarrow>
          (let q' = filter (\<lambda>i. i \<noteq> oid) q in
           if q' = [] then om_remove price ls else om_insert price q' ls))"

definition remove_from_level :: "side \<Rightarrow> decimal \<Rightarrow> uuid \<Rightarrow> order_book \<Rightarrow> order_book" where
  "remove_from_level side price oid bk =
     set_levels side (remove_queue price oid (side_levels bk side)) bk"

definition cancel_internal :: "uuid \<Rightarrow> order_book \<Rightarrow> (order \<times> order_book) option" where
  "cancel_internal oid bk =
     (case om_get (bk_orders bk) oid of
        None \<Rightarrow> None
      | Some ord \<Rightarrow>
          (let bk' = remove_from_level (ord_side ord) (ord_limit_price ord) oid bk in
           Some (ord\<lparr>ord_status := Cancelled\<rparr>, bk'\<lparr>bk_orders := om_remove oid (bk_orders bk')\<rparr>)))"

fun crosses :: "side \<Rightarrow> decimal \<Rightarrow> decimal \<Rightarrow> bool" where
  "crosses Buy limit_price maker_price = (maker_price \<le> limit_price)"
| "crosses Sell limit_price maker_price = (limit_price \<le> maker_price)"

section \<open>Proportional margin release\<close>

definition bounded_proportion :: "dec_ops \<Rightarrow> decimal \<Rightarrow> decimal \<Rightarrow> decimal \<Rightarrow> decimal option" where
  "bounded_proportion D amount numerator denominator =
     (let direct = Option.bind (d_mul D amount numerator) (\<lambda>product. d_div D product denominator) in
      if (case direct of Some v \<Rightarrow> 0 < v \<and> v < amount | None \<Rightarrow> False) then direct
      else Option.bind (d_div D numerator denominator) (\<lambda>ratio.
             case d_mul D amount ratio of
               Some v \<Rightarrow> if 0 < v \<and> v < amount then Some v else None
             | None \<Rightarrow> None))"

definition unwrap_or :: "'a \<Rightarrow> 'a option \<Rightarrow> 'a" where
  "unwrap_or d x = (case x of Some y \<Rightarrow> y | None \<Rightarrow> d)"

definition proportional_release :: "dec_ops \<Rightarrow> decimal \<Rightarrow> decimal \<Rightarrow> decimal \<Rightarrow> decimal" where
  "proportional_release D reserved quantity_before filled =
     (if reserved \<le> 0 \<or> quantity_before \<le> 0 \<or> filled \<le> 0 then 0
      else if quantity_before \<le> filled then reserved
      else case d_sub D quantity_before filled of
             None \<Rightarrow> 0
           | Some remaining \<Rightarrow>
               if filled \<le> remaining
               then unwrap_or 0 (bounded_proportion D reserved filled quantity_before)
               else (case bounded_proportion D reserved remaining quantity_before of
                       Some retained \<Rightarrow> unwrap_or 0 (d_sub D reserved retained)
                     | None \<Rightarrow> unwrap_or 0 (bounded_proportion D reserved filled quantity_before)))"

section \<open>Matching\<close>

text \<open>The locals of \<open>execute\<close> that the loop changes.\<close>

record match_state =
  mt_book :: order_book
  mt_incoming :: order
  mt_fills :: "raw_fill list"
  mt_releases :: "reservation_release list"
  mt_terminal :: "order list"

definition self_trade_step :: "uuid \<Rightarrow> match_state \<Rightarrow> match_state" where
  "self_trade_step maker_id st =
     (case cancel_internal maker_id (mt_book st) of
        None \<Rightarrow> st
      | Some (cancelled, bk') \<Rightarrow>
          st\<lparr>mt_book := bk',
             mt_releases := mt_releases st @ [\<lparr>rr_account_id = ord_account_id cancelled,
               rr_order_id = ord_id cancelled, rr_amount = ord_reserved_margin cancelled,
               rr_reason = ''self_trade_prevention''\<rparr>],
             mt_terminal := mt_terminal st @ [cancelled]\<rparr>)"

definition fill_step :: "dec_ops \<Rightarrow> decimal \<Rightarrow> uuid \<Rightarrow> order \<Rightarrow> match_state \<Rightarrow> match_state exch" where
  "fill_step D maker_price maker_id maker st =
     (let bk = mt_book st; inc = mt_incoming st;
          taker_before = ord_remaining inc; maker_before = ord_remaining maker;
          fill = min taker_before maker_before;
          taker_release = proportional_release D (ord_reserved_margin inc) taker_before fill in
      bindr (expect (d_sub D (ord_remaining inc) fill)) (\<lambda>inc_remaining.
      bindr (expect (d_sub D (ord_reserved_margin inc) taker_release)) (\<lambda>inc_reserved.
      let maker_release = proportional_release D (ord_reserved_margin maker) maker_before fill in
      bindr (expect (d_sub D (ord_remaining maker) fill)) (\<lambda>mk_remaining.
      bindr (expect (d_sub D (ord_reserved_margin maker) maker_release)) (\<lambda>mk_reserved.
      let filled = (mk_remaining = 0);
          maker' = maker\<lparr>ord_remaining := mk_remaining, ord_reserved_margin := mk_reserved,
                         ord_status := (if filled then Filled else PartiallyFilled)\<rparr>;
          bk' = (if filled
                 then (let b = remove_from_level (ord_side maker) maker_price maker_id bk
                       in b\<lparr>bk_orders := om_remove maker_id (bk_orders b)\<rparr>)
                 else bk\<lparr>bk_orders := om_insert maker_id maker' (bk_orders bk)\<rparr>) in
      Ok (st\<lparr>mt_book := bk',
             mt_incoming := inc\<lparr>ord_remaining := inc_remaining, ord_reserved_margin := inc_reserved\<rparr>,
             mt_fills := mt_fills st @ [\<lparr>rf_maker_order_id = maker_id, rf_taker_order_id = ord_id inc,
               rf_maker_account_id = ord_account_id maker, rf_taker_account_id = ord_account_id inc,
               rf_maker_side = ord_side maker, rf_taker_side = ord_side inc,
               rf_maker_leverage = ord_leverage maker, rf_taker_leverage = ord_leverage inc,
               rf_price = maker_price, rf_quantity = fill,
               rf_maker_margin_release = maker_release, rf_taker_margin_release = taker_release\<rparr>],
             mt_terminal := mt_terminal st @ (if filled then [maker'] else [])\<rparr>))))))"

text \<open>One round of the loop against the best opposite order.\<close>

definition match_step :: "dec_ops \<Rightarrow> decimal \<Rightarrow> uuid \<Rightarrow> match_state \<Rightarrow> match_state exch" where
  "match_step D maker_price maker_id st =
     bindr (expect (om_get (bk_orders (mt_book st)) maker_id)) (\<lambda>maker.
       if ord_account_id maker = ord_account_id (mt_incoming st)
       then Ok (self_trade_step maker_id st)
       else fill_step D maker_price maker_id maker st)"

text \<open>
  The \<open>while\<close> loop. Every round removes a resting order or uses up the incoming one, so a fuel above
  the number of resting orders is never exhausted; \<open>execute_total\<close> proves that it returns.
\<close>

fun match_loop :: "dec_ops \<Rightarrow> nat \<Rightarrow> match_state \<Rightarrow> match_state exch" where
  "match_loop D 0 st = Panic"
| "match_loop D (Suc fuel) st =
     (let inc = mt_incoming st in
      if \<not> 0 < ord_remaining inc then Ok st
      else bindr (best_opposite (mt_book st) (ord_side inc)) (\<lambda>best.
        case best of
          None \<Rightarrow> Ok st
        | Some (maker_price, maker_id) \<Rightarrow>
            if \<not> crosses (ord_side inc) (ord_limit_price inc) maker_price then Ok st
            else bindr (match_step D maker_price maker_id st) (match_loop D fuel)))"

text \<open>The part of \<open>execute\<close> after the loop: rest, fill or cancel the incoming order.\<close>

definition finish_execution :: "dec_ops \<Rightarrow> match_state \<Rightarrow> (order_book \<times> execution) exch" where
  "finish_execution D st =
     (let inc = mt_incoming st in
      bindr (expect (d_sub D (ord_quantity inc) (ord_remaining inc))) (\<lambda>filled_quantity.
      let (inc', bk', releases) =
        (if ord_remaining inc = 0 then (inc\<lparr>ord_status := Filled\<rparr>, mt_book st, mt_releases st)
         else if ord_kind inc = Limit \<and> ord_time_in_force inc = Gtc then
           (inc\<lparr>ord_status := (if filled_quantity = 0 then Open else PartiallyFilled)\<rparr>,
            push_level (ord_side inc) (ord_limit_price inc) (ord_id inc) (mt_book st),
            mt_releases st)
         else if 0 < ord_reserved_margin inc then
           (inc\<lparr>ord_status := Cancelled, ord_reserved_margin := 0\<rparr>, mt_book st,
            mt_releases st @ [\<lparr>rr_account_id = ord_account_id inc, rr_order_id = ord_id inc,
              rr_amount = ord_reserved_margin inc, rr_reason = ''unfilled_remainder''\<rparr>])
         else (inc\<lparr>ord_status := Cancelled\<rparr>, mt_book st, mt_releases st));
        (bk'', terminal) =
        (if is_active inc'
         then (bk'\<lparr>bk_orders := om_insert (ord_id inc') inc' (bk_orders bk')\<rparr>, mt_terminal st)
         else (bk', mt_terminal st @ [inc'])) in
      Ok (bk'', \<lparr>ex_order = inc', ex_fills = mt_fills st, ex_releases = releases,
                 ex_terminal_orders = terminal\<rparr>)))"

definition execute :: "dec_ops \<Rightarrow> order \<Rightarrow> order_book \<Rightarrow> (order_book \<times> execution) exch" where
  "execute D incoming bk =
     bindr (match_loop D (Suc (Suc (length (bk_orders bk))))
       \<lparr>mt_book = bk, mt_incoming = incoming, mt_fills = [], mt_releases = [], mt_terminal = []\<rparr>)
       (finish_execution D)"

section \<open>Can a fill-or-kill order be filled?\<close>

text \<open>\<open>Inl ()\<close> is the early \<open>return true\<close>.\<close>

fun fillable_queue ::
  "dec_ops \<Rightarrow> (uuid, order) omap \<Rightarrow> account_id \<Rightarrow> decimal \<Rightarrow> uuid list \<Rightarrow> decimal \<Rightarrow> (unit + decimal) exch" where
  "fillable_queue D orders taker quantity [] available = Ok (Inr available)"
| "fillable_queue D orders taker quantity (oid # q) available =
     bindr (expect (om_get orders oid)) (\<lambda>ord.
       if ord_account_id ord \<noteq> taker
       then bindr (expect (d_add D available (ord_remaining ord))) (\<lambda>available'.
              if quantity \<le> available' then Ok (Inl ())
              else fillable_queue D orders taker quantity q available')
       else fillable_queue D orders taker quantity q available)"

fun fillable_levels ::
  "dec_ops \<Rightarrow> (uuid, order) omap \<Rightarrow> side \<Rightarrow> decimal \<Rightarrow> account_id \<Rightarrow> decimal \<Rightarrow>
   (decimal \<times> uuid list) list \<Rightarrow> decimal \<Rightarrow> bool exch" where
  "fillable_levels D orders side limit_price taker quantity [] available = Ok False"
| "fillable_levels D orders side limit_price taker quantity ((price, q) # ls) available =
     (if \<not> crosses side limit_price price then Ok False
      else bindr (fillable_queue D orders taker quantity q available) (\<lambda>r.
        case r of Inl _ \<Rightarrow> Ok True
        | Inr available' \<Rightarrow> fillable_levels D orders side limit_price taker quantity ls available'))"

text \<open>The levels of the opposite side from the best price on: \<open>asks\<close>, or \<open>bids.iter().rev()\<close>.\<close>

fun best_first :: "order_book \<Rightarrow> side \<Rightarrow> (decimal \<times> uuid list) list" where
  "best_first bk Buy = bk_asks bk"
| "best_first bk Sell = rev (bk_bids bk)"

definition can_fully_fill ::
  "dec_ops \<Rightarrow> order_book \<Rightarrow> side \<Rightarrow> decimal \<Rightarrow> decimal \<Rightarrow> account_id \<Rightarrow> bool exch" where
  "can_fully_fill D bk side limit_price quantity taker =
     fillable_levels D (bk_orders bk) side limit_price taker quantity (best_first bk side) 0"

section \<open>Cancellation and the other operations\<close>

definition book_order :: "order_book \<Rightarrow> uuid \<Rightarrow> order option" where
  "book_order bk oid = om_get (bk_orders bk) oid"

definition cancel :: "uuid \<Rightarrow> account_id \<Rightarrow> order_book \<Rightarrow> (order \<times> order_book) exch" where
  "cancel oid aid bk =
     bindr (ok_or (OrderNotFound oid) (om_get (bk_orders bk) oid)) (\<lambda>ord.
       if ord_account_id ord \<noteq> aid then Err (OrderOwnership oid)
       else if \<not> is_active ord then Err (InvalidOrder ''order is not open'')
       else ok_or (OrderNotFound oid) (cancel_internal oid bk))"

definition active_orders :: "order_book \<Rightarrow> order list" where
  "active_orders bk = sort_key ord_id (filter is_active (om_values (bk_orders bk)))"

definition take_active_orders :: "order_book \<Rightarrow> order list \<times> order_book" where
  "take_active_orders bk =
     (let ids = map ord_id (filter is_active (om_values (bk_orders bk)));
          (orders', active) = foldl (\<lambda>(orders, active) oid.
            case om_get orders oid of None \<Rightarrow> (orders, active)
            | Some ord \<Rightarrow> (om_remove oid orders, active @ [ord])) (bk_orders bk, []) ids in
      (sort_key (\<lambda>ord. (ord_sequence ord, ord_id ord)) active,
       \<lparr>bk_bids = [], bk_asks = [], bk_orders = orders'\<rparr>))"

text \<open>\<open>queue.sort_by\<close> reads every queued order once the queue has two entries.\<close>

definition queue_key :: "(uuid, order) omap \<Rightarrow> uuid \<Rightarrow> nat \<times> uuid" where
  "queue_key orders oid =
     (case om_get orders oid of Some ord \<Rightarrow> (ord_sequence ord, ord_id ord) | None \<Rightarrow> (0, oid))"

definition sort_queue :: "(uuid, order) omap \<Rightarrow> uuid list \<Rightarrow> uuid list exch" where
  "sort_queue orders q =
     (if 1 < length q \<and> (\<exists>oid \<in> set q. om_get orders oid = None) then Panic
      else Ok (sort_key (queue_key orders) q))"

definition restore_active_order :: "order \<Rightarrow> order_book \<Rightarrow> order_book exch" where
  "restore_active_order ord bk =
     (if om_get (bk_orders bk) (ord_id ord) \<noteq> None
      then Err (InvalidOrder ''cannot restore duplicate order'')
      else if \<not> is_active ord then Err (InvalidOrder ''cannot restore non-active order'')
      else
        (let orders = om_insert (ord_id ord) ord (bk_orders bk);
             ls = side_levels bk (ord_side ord);
             q = (case om_get ls (ord_limit_price ord) of None \<Rightarrow> [] | Some q \<Rightarrow> q) @ [ord_id ord] in
         bindr (sort_queue orders q) (\<lambda>q'.
         Ok (set_levels (ord_side ord) (om_insert (ord_limit_price ord) q' ls)
              (bk\<lparr>bk_orders := orders\<rparr>)))))"

definition apply_batch_fill ::
  "dec_ops \<Rightarrow> uuid \<Rightarrow> decimal \<Rightarrow> order_book \<Rightarrow> (batch_order_fill \<times> order_book) exch" where
  "apply_batch_fill D oid quantity bk =
     (if quantity \<le> 0 then Err (InvalidOrder ''batch fill quantity must be positive'')
      else bindr (ok_or (OrderNotFound oid) (om_get (bk_orders bk) oid)) (\<lambda>current.
        if \<not> is_active current \<or> ord_remaining current < quantity
        then Err (InvalidOrder ''batch fill exceeds active quantity for order'')
        else
          (let release = proportional_release D (ord_reserved_margin current) (ord_remaining current) quantity in
           bindr (ok_or (Internal ''batch quantity underflow'') (d_sub D (ord_remaining current) quantity)) (\<lambda>remaining.
           bindr (ok_or (Internal ''batch margin underflow'') (d_sub D (ord_reserved_margin current) release)) (\<lambda>reserved.
           let terminal = (remaining = 0);
               ord' = current\<lparr>ord_remaining := remaining, ord_reserved_margin := reserved,
                              ord_status := (if terminal then Filled else PartiallyFilled)\<rparr>;
               bk' = (if terminal
                      then (let b = remove_from_level (ord_side current) (ord_limit_price current) oid bk
                            in b\<lparr>bk_orders := om_remove oid (bk_orders b)\<rparr>)
                      else bk\<lparr>bk_orders := om_insert oid ord' (bk_orders bk)\<rparr>) in
           Ok (\<lparr>bf_order = ord', bf_margin_release = release, bf_terminal = terminal\<rparr>, bk'))))))"

definition belongs_to :: "account_id \<Rightarrow> symbol \<Rightarrow> order \<Rightarrow> bool" where
  "belongs_to aid symb ord \<longleftrightarrow> ord_account_id ord = aid \<and> ord_symbol ord = symb"

definition active_orders_for_account_symbol :: "order_book \<Rightarrow> account_id \<Rightarrow> symbol \<Rightarrow> order list" where
  "active_orders_for_account_symbol bk aid symb =
     sort_key ord_sequence
       (filter (\<lambda>ord. belongs_to aid symb ord \<and> is_active ord) (om_values (bk_orders bk)))"

text \<open>\<open>Iterator::sum\<close> over decimals adds with the panicking operator.\<close>

definition dec_sum :: "dec_ops \<Rightarrow> decimal list \<Rightarrow> decimal exch" where
  "dec_sum D xs = expect (try_fold (\<lambda>x s. d_add D s x) xs 0)"

definition active_reduce_only_quantity ::
  "dec_ops \<Rightarrow> order_book \<Rightarrow> account_id \<Rightarrow> symbol \<Rightarrow> side \<Rightarrow> decimal exch" where
  "active_reduce_only_quantity D bk aid symb side =
     dec_sum D (map ord_remaining (filter (\<lambda>ord. belongs_to aid symb ord \<and> ord_side ord = side
       \<and> ord_reduce_only ord \<and> is_active ord) (om_values (bk_orders bk))))"

definition active_reserved_margin :: "dec_ops \<Rightarrow> order_book \<Rightarrow> account_id \<Rightarrow> decimal exch" where
  "active_reserved_margin D bk aid =
     dec_sum D (map ord_reserved_margin
       (filter (\<lambda>ord. ord_account_id ord = aid \<and> is_active ord) (om_values (bk_orders bk))))"

definition take_terminal_orders :: "order_book \<Rightarrow> order list \<times> order_book" where
  "take_terminal_orders bk =
     foldl (\<lambda>(terminal, b) oid.
        case om_get (bk_orders b) oid of
          None \<Rightarrow> (terminal, b)
        | Some ord \<Rightarrow>
            (let b' = b\<lparr>bk_orders := om_remove oid (bk_orders b)\<rparr> in
             (terminal @ [ord], remove_from_level (ord_side ord) (ord_limit_price ord) (ord_id ord) b')))
       ([], bk) (map ord_id (filter (\<lambda>ord. \<not> is_active ord) (om_values (bk_orders bk))))"

definition level_view :: "dec_ops \<Rightarrow> order_book \<Rightarrow> decimal \<times> uuid list \<Rightarrow> price_level exch" where
  "level_view D bk = (\<lambda>(price, q).
     bindr (traverse (\<lambda>oid. expect (map_option ord_remaining (om_get (bk_orders bk) oid))) q) (\<lambda>rs.
     bindr (dec_sum D rs) (\<lambda>quantity.
     Ok \<lparr>pl_price = price, pl_quantity = quantity, pl_order_count = length q\<rparr>)))"

definition book_snapshot :: "dec_ops \<Rightarrow> order_book \<Rightarrow> symbol \<Rightarrow> nat \<Rightarrow> nat \<Rightarrow> book_view exch" where
  "book_snapshot D bk symb sequence depth =
     bindr (traverse (level_view D bk) (take depth (rev (bk_bids bk)))) (\<lambda>bids.
     bindr (traverse (level_view D bk) (take depth (bk_asks bk))) (\<lambda>asks.
     Ok \<lparr>bs_symbol = symb, bs_sequence = sequence, bs_bids = bids, bs_asks = asks\<rparr>))"

end
