(* ===== verification/Orderbook_Inv.thy ===== *)
theory Orderbook_Inv
  imports Orderbook
begin

text \<open>
  The structural invariant of the order book: on each side the queue of a price level holds exactly
  the ids of the resting orders with that side and price, once each, and no level is empty. Every
  operation of the book is shown to keep it.
\<close>

section \<open>The invariant\<close>

definition ids_at :: "(uuid, order) omap \<Rightarrow> side \<Rightarrow> decimal \<Rightarrow> uuid set" where
  "ids_at orders s p =
     {oid. \<exists>ord. om_get orders oid = Some ord \<and> ord_side ord = s \<and> ord_limit_price ord = p}"

definition side_ok :: "(uuid, order) omap \<Rightarrow> side \<Rightarrow> levels \<Rightarrow> bool" where
  "side_ok orders s ls \<longleftrightarrow> om_ok ls \<and>
     (\<forall>p. case om_get ls p of
            None \<Rightarrow> ids_at orders s p = {}
          | Some q \<Rightarrow> q \<noteq> [] \<and> distinct q \<and> set q = ids_at orders s p)"

definition resting_ok :: "(uuid, order) omap \<Rightarrow> bool" where
  "resting_ok orders \<longleftrightarrow> (\<forall>(oid, ord) \<in> set orders. ord_id ord = oid \<and> is_active ord \<and> 0 < ord_remaining ord)"

definition book_ok :: "order_book \<Rightarrow> bool" where
  "book_ok bk \<longleftrightarrow> om_ok (bk_orders bk) \<and> resting_ok (bk_orders bk) \<and>
     side_ok (bk_orders bk) Buy (bk_bids bk) \<and> side_ok (bk_orders bk) Sell (bk_asks bk)"

lemma resting_get:
  "resting_ok orders \<Longrightarrow> om_get orders oid = Some ord \<Longrightarrow>
   ord_id ord = oid \<and> is_active ord \<and> 0 < ord_remaining ord"
  by (auto simp: resting_ok_def dest: om_get_in_set)

lemma resting_insert:
  "resting_ok orders \<Longrightarrow> is_active ord \<Longrightarrow> 0 < ord_remaining ord \<Longrightarrow> ord_id ord = oid \<Longrightarrow>
   resting_ok (om_insert oid ord orders)"
  unfolding resting_ok_def by (induction oid ord orders rule: om_insert.induct) auto

lemma resting_remove: "resting_ok orders \<Longrightarrow> resting_ok (om_remove oid orders)"
  by (auto simp: resting_ok_def set_om_remove)

lemma ids_at_insert:
  "ids_at (om_insert oid ord orders) s p =
     (if ord_side ord = s \<and> ord_limit_price ord = p then insert oid (ids_at orders s p)
      else ids_at orders s p - {oid})"
  by (auto simp: ids_at_def split: if_splits)

lemma ids_at_remove: "ids_at (om_remove oid orders) s p = ids_at orders s p - {oid}"
  by (auto simp: ids_at_def split: if_splits)

lemma side_okD:
  "side_ok orders s ls \<Longrightarrow> om_ok ls"
  "side_ok orders s ls \<Longrightarrow> om_get ls p = Some q \<Longrightarrow> q \<noteq> [] \<and> distinct q \<and> set q = ids_at orders s p"
  "side_ok orders s ls \<Longrightarrow> om_get ls p = None \<Longrightarrow> ids_at orders s p = {}"
  unfolding side_ok_def by (auto dest!: spec [of _ p])

lemma side_ok_cong:
  assumes "\<And>p. ids_at orders s p = ids_at orders' s p"
  shows "side_ok orders s ls = side_ok orders' s ls"
  by (simp add: side_ok_def assms cong: option.case_cong)

lemma book_ok_side: "book_ok bk \<longleftrightarrow> om_ok (bk_orders bk) \<and> resting_ok (bk_orders bk) \<and>
    (\<forall>s. side_ok (bk_orders bk) s (side_levels bk s))"
  by (auto simp: book_ok_def) (metis (full_types) side.exhaust side_levels.simps)+

lemma set_levels_simps [simp]:
  "bk_orders (set_levels s ls bk) = bk_orders bk"
  "side_levels (set_levels s ls bk) s' = (if s' = s then ls else side_levels bk s')"
  "side_levels (bk\<lparr>bk_orders := orders\<rparr>) s' = side_levels bk s'"
  by (cases s; cases s'; simp)+

lemma book_ok_empty [simp]: "book_ok empty_book"
  by (simp add: book_ok_def empty_book_def resting_ok_def side_ok_def ids_at_def)

section \<open>Levels after each change of the orders\<close>

lemma side_ok_push:
  assumes "side_ok orders s ls" and "om_get orders oid = None"
    and "ord_side ord = s" and "ord_limit_price ord = p"
  shows "side_ok (om_insert oid ord orders) s (push_queue p oid ls)"
proof -
  have fresh: "oid \<notin> ids_at orders s p'" for p' using assms(2) by (auto simp: ids_at_def)
  show ?thesis
    using assms(1) fresh side_okD(2,3) [OF assms(1)]
    by (auto simp: side_ok_def push_queue_def ids_at_insert assms(3,4) split: option.splits)
qed

lemma side_ok_remove:
  assumes "side_ok orders s ls" and "om_get orders oid = Some ord"
    and "ord_side ord = s" and "ord_limit_price ord = p"
  shows "side_ok (om_remove oid orders) s (remove_queue p oid ls)"
proof -
  have other: "p' \<noteq> p \<Longrightarrow> oid \<notin> ids_at orders s p'" for p' using assms(2-4) by (auto simp: ids_at_def)
  have "oid \<in> ids_at orders s p" using assms(2-4) by (auto simp: ids_at_def)
  then obtain q where q: "om_get ls p = Some q" using side_okD(3) [OF assms(1)] by fastforce
  note qp = side_okD(2) [OF assms(1) q]
  have fil: "filter (\<lambda>i. i \<noteq> oid) q = [] \<longleftrightarrow> ids_at orders s p - {oid} = {}"
    using qp by (auto simp: filter_empty_conv)
  have "case om_get (remove_queue p oid ls) p' of
      None \<Rightarrow> ids_at orders s p' - {oid} = {}
    | Some q \<Rightarrow> q \<noteq> [] \<and> distinct q \<and> set q = ids_at orders s p' - {oid}" for p'
  proof (cases "p' = p")
    case True
    then show ?thesis using qp fil by (auto simp: remove_queue_def q Let_def)
  next
    case False
    then show ?thesis
      using other [OF False] side_okD(2,3) [OF assms(1), of p']
      by (auto simp: remove_queue_def q Let_def split: option.splits)
  qed
  moreover have "om_ok (remove_queue p oid ls)"
    using side_okD(1) [OF assms(1)] by (simp add: remove_queue_def q Let_def)
  ultimately show ?thesis by (simp add: side_ok_def ids_at_remove cong: option.case_cong)
qed

lemma side_ok_remove_other:
  assumes "side_ok orders s ls" and "om_get orders oid = Some ord" and "ord_side ord \<noteq> s"
  shows "side_ok (om_remove oid orders) s ls"
proof -
  have "ids_at (om_remove oid orders) s p = ids_at orders s p" for p
    using assms(2,3) by (auto simp: ids_at_def)
  then show ?thesis using assms(1) side_ok_cong by blast
qed

lemma side_ok_push_other:
  assumes "side_ok orders s ls" and "om_get orders oid = None" and "ord_side ord \<noteq> s"
  shows "side_ok (om_insert oid ord orders) s ls"
proof -
  have "ids_at (om_insert oid ord orders) s p = ids_at orders s p" for p
    using assms(2,3) by (auto simp: ids_at_def)
  then show ?thesis using assms(1) side_ok_cong by blast
qed

lemma side_ok_update:
  assumes "side_ok orders s ls" and "om_get orders oid = Some ord"
    and "ord_side ord' = ord_side ord" and "ord_limit_price ord' = ord_limit_price ord"
  shows "side_ok (om_insert oid ord' orders) s ls"
proof -
  have "ids_at (om_insert oid ord' orders) s p = ids_at orders s p" for p
    using assms(2-4) by (auto simp: ids_at_def)
  then show ?thesis using assms(1) side_ok_cong by blast
qed

section \<open>Removing, inserting and updating orders of a book\<close>

definition drop_order :: "uuid \<Rightarrow> order \<Rightarrow> order_book \<Rightarrow> order_book" where
  "drop_order oid ord bk =
     (let b = remove_from_level (ord_side ord) (ord_limit_price ord) oid bk
      in b\<lparr>bk_orders := om_remove oid (bk_orders b)\<rparr>)"

lemma drop_order_simps [simp]: "bk_orders (drop_order oid ord bk) = om_remove oid (bk_orders bk)"
  by (simp add: drop_order_def remove_from_level_def Let_def)

lemma cancel_internal_eq:
  "cancel_internal oid bk = map_option (\<lambda>ord. (ord\<lparr>ord_status := Cancelled\<rparr>, drop_order oid ord bk))
     (om_get (bk_orders bk) oid)"
  by (simp add: cancel_internal_def drop_order_def Let_def split: option.splits)

lemma book_ok_drop:
  assumes "book_ok bk" and "om_get (bk_orders bk) oid = Some ord"
  shows "book_ok (drop_order oid ord bk)"
proof -
  have "side_ok (om_remove oid (bk_orders bk)) s (side_levels (drop_order oid ord bk) s)" for s
    using assms side_ok_remove [of _ s _ oid ord] side_ok_remove_other [of _ s _ oid ord]
    by (auto simp: book_ok_side drop_order_def remove_from_level_def Let_def)
  with assms show ?thesis by (simp add: book_ok_side resting_remove)
qed

lemma book_ok_push:
  assumes "book_ok bk" and "om_get (bk_orders bk) (ord_id ord) = None"
    and "is_active ord" and "0 < ord_remaining ord"
  shows "book_ok ((push_level (ord_side ord) (ord_limit_price ord) (ord_id ord) bk)
    \<lparr>bk_orders := om_insert (ord_id ord) ord (bk_orders bk)\<rparr>)" (is "book_ok ?bk")
proof -
  have "side_ok (om_insert (ord_id ord) ord (bk_orders bk)) s (side_levels ?bk s)" for s
    using assms side_ok_push [of "bk_orders bk" s _ "ord_id ord" ord] side_ok_push_other [of "bk_orders bk" s _ "ord_id ord" ord]
    by (auto simp: book_ok_side push_level_def)
  with assms show ?thesis by (simp add: book_ok_side resting_insert)
qed

lemma book_ok_update:
  assumes "book_ok bk" and "om_get (bk_orders bk) oid = Some ord"
    and "ord_side ord' = ord_side ord" and "ord_limit_price ord' = ord_limit_price ord"
    and "ord_id ord' = ord_id ord" and "is_active ord'" and "0 < ord_remaining ord'"
  shows "book_ok (bk\<lparr>bk_orders := om_insert oid ord' (bk_orders bk)\<rparr>)" (is "book_ok ?bk")
proof -
  have "side_ok (om_insert oid ord' (bk_orders bk)) s (side_levels bk s)" for s
    using assms side_ok_update by (auto simp: book_ok_side)
  moreover have "ord_id ord' = oid" using assms resting_get by (auto simp: book_ok_def)
  ultimately show ?thesis using assms by (simp add: book_ok_side resting_insert)
qed

lemma om_remove_absent: "k \<notin> fst ` set m \<Longrightarrow> om_remove k m = m"
  by (induction k m rule: om_remove.induct) auto

lemma length_om_remove:
  "om_ok m \<Longrightarrow> om_get m k = Some v \<Longrightarrow> length m = Suc (length (om_remove k m))"
proof (induction k m rule: om_remove.induct)
  case (2 k k' v' m)
  then have "k = k' \<Longrightarrow> om_remove k m = m" by (intro om_remove_absent) (auto simp: om_ok_Cons)
  then show ?case using 2 by (auto simp: om_ok_Cons om_get_def)
qed simp

lemma length_om_insert_upd: "om_ok m \<Longrightarrow> om_get m k = Some v \<Longrightarrow> length (om_insert k w m) = length m"
  by (induction k w m rule: om_insert.induct)
    (auto simp: om_ok_Cons om_get_def dest!: map_of_SomeD split: if_splits)

section \<open>The best price of a side\<close>

text \<open>\<open>better_eq s p p'\<close>: for an incoming order on side \<open>s\<close>, price \<open>p\<close> is at least as good as \<open>p'\<close>.\<close>

fun better_eq :: "side \<Rightarrow> decimal \<Rightarrow> decimal \<Rightarrow> bool" where
  "better_eq Buy p p' = (p \<le> p')"
| "better_eq Sell p p' = (p' \<le> p)"

lemma crosses_better: "crosses s limit p = better_eq s p limit"
  by (cases s) auto

lemma better_eq_trans: "better_eq s a b \<Longrightarrow> better_eq s b c \<Longrightarrow> better_eq s a c"
  by (cases s) auto

lemma better_eq_refl [simp]: "better_eq s a a"
  by (cases s) auto

text \<open>The interface of the two sides: the level the matching loop picks first.\<close>

locale price_side =
  fixes resting :: side
    and best :: "levels \<Rightarrow> (decimal \<times> uuid list) option"
    and good :: "decimal \<Rightarrow> decimal \<Rightarrow> bool"
  assumes best_None: "best ls = None \<longleftrightarrow> ls = []"
    and best_in: "om_ok ls \<Longrightarrow> best ls = Some (p, q) \<Longrightarrow> om_get ls p = Some q"
    and best_good: "om_ok ls \<Longrightarrow> best ls = Some (p, q) \<Longrightarrow> om_get ls p' = Some q' \<Longrightarrow> good p p'"
begin

lemma none_resting:
  assumes "side_ok orders resting ls" and "best ls = None"
  shows "om_get orders oid = Some ord \<Longrightarrow> ord_side ord \<noteq> resting"
  using assms side_okD(3) [OF assms(1), of "ord_limit_price ord"] by (auto simp: best_None ids_at_def)

lemma best_front:
  assumes "side_ok orders resting ls" and "best ls = Some (p, q)"
  shows "\<exists>oid rest ord. q = oid # rest \<and> om_get orders oid = Some ord \<and>
    ord_side ord = resting \<and> ord_limit_price ord = p"
  using side_okD(2) [OF assms(1) best_in [OF side_okD(1) [OF assms(1)] assms(2)]]
  by (cases q) (auto simp: ids_at_def set_eq_iff)

lemma best_price_good:
  assumes "side_ok orders resting ls" and "best ls = Some (p, q)"
    and "om_get orders oid = Some ord" and "ord_side ord = resting"
  shows "good p (ord_limit_price ord)"
proof -
  have "oid \<in> ids_at orders resting (ord_limit_price ord)" using assms(3,4) by (auto simp: ids_at_def)
  then obtain q' where "om_get ls (ord_limit_price ord) = Some q'"
    using side_okD(3) [OF assms(1)] by (cases "om_get ls (ord_limit_price ord)") auto
  with best_good [OF side_okD(1) [OF assms(1)] assms(2)] show ?thesis .
qed

end

lemma om_ok_append: "om_ok (ls @ [(p, q)]) \<longleftrightarrow> om_ok ls \<and> (\<forall>x \<in> fst ` set ls. x < p)"
  by (auto simp: om_ok_def sorted_wrt_append)

interpretation asks: price_side Sell "best_level Sell" "better_eq Buy"
proof
  fix ls :: levels and p p' q q'
  show "best_level Sell ls = None \<longleftrightarrow> ls = []" by (cases ls) auto
  show "om_get ls p = Some q" if "best_level Sell ls = Some (p, q)"
    using that by (auto simp: om_get_def split: list.splits)
  show "better_eq Buy p p'" if "om_ok ls" "best_level Sell ls = Some (p, q)" "om_get ls p' = Some q'"
    using that by (auto simp: om_ok_Cons dest!: om_get_in_set split: list.splits) force
qed

interpretation bids: price_side Buy "best_level Buy" "better_eq Sell"
proof
  fix ls :: levels and p p' q q'
  show "best_level Buy ls = None \<longleftrightarrow> ls = []" by simp
  show "om_get ls p = Some q" if "om_ok ls" "best_level Buy ls = Some (p, q)"
    using that om_in_set_get [OF that(1)] last_in_set [of ls] by (metis best_level.simps(2) option.distinct(1) option.inject)
  show "better_eq Sell p p'" if "om_ok ls" "best_level Buy ls = Some (p, q)" "om_get ls p' = Some q'"
    using that by (cases ls rule: rev_cases) (auto simp: om_ok_append dest!: om_get_in_set, force)
qed

lemma best_opposite_Some:
  assumes "book_ok bk" and "best_opposite bk s = Ok (Some (p, oid))"
  obtains maker where "om_get (bk_orders bk) oid = Some maker" and "ord_side maker = opposite s"
    and "ord_limit_price maker = p"
    and "\<And>i ord. om_get (bk_orders bk) i = Some ord \<Longrightarrow> ord_side ord = opposite s \<Longrightarrow>
      better_eq s p (ord_limit_price ord)"
proof -
  obtain rest where b: "best_level (opposite s) (side_levels bk (opposite s)) = Some (p, oid # rest)"
    using assms(2) by (auto simp: best_opposite_def split: option.splits prod.splits list.splits)
  have ok: "side_ok (bk_orders bk) (opposite s) (side_levels bk (opposite s))"
    using assms(1) by (simp add: book_ok_side)
  show thesis
  proof (cases s)
    case Buy
    then have "side_ok (bk_orders bk) Sell (bk_asks bk)" "best_level Sell (bk_asks bk) = Some (p, oid # rest)"
      using ok b by simp_all
    from asks.best_front [OF this] asks.best_price_good [OF this] show thesis
      using that Buy by fastforce
  next
    case Sell
    then have "side_ok (bk_orders bk) Buy (bk_bids bk)" "best_level Buy (bk_bids bk) = Some (p, oid # rest)"
      using ok b by (simp_all del: best_level.simps)
    from bids.best_front [OF this] bids.best_price_good [OF this] show thesis
      using that Sell by fastforce
  qed
qed

lemma best_opposite_total:
  assumes "book_ok bk"
  shows "\<exists>r. best_opposite bk s = Ok r"
proof -
  have ok: "side_ok (bk_orders bk) (opposite s) (side_levels bk (opposite s))"
    using assms by (simp add: book_ok_side)
  have "\<exists>oid rest. q = oid # rest" if "best_level (opposite s) (side_levels bk (opposite s)) = Some (p, q)" for p q
    using that ok asks.best_front [of "bk_orders bk" "bk_asks bk" p q]
      bids.best_front [of "bk_orders bk" "bk_bids bk" p q]
    by (cases s) (auto simp del: best_level.simps)
  then show ?thesis by (fastforce simp: best_opposite_def split: option.splits prod.splits list.splits)
qed

lemma best_opposite_None:
  assumes "book_ok bk" and "best_opposite bk s = Ok None"
    and "om_get (bk_orders bk) oid = Some ord"
  shows "ord_side ord = s"
proof -
  have ok: "side_ok (bk_orders bk) (opposite s) (side_levels bk (opposite s))"
    using assms(1) by (simp add: book_ok_side)
  have none: "best_level (opposite s) (side_levels bk (opposite s)) = None"
    using assms(2) by (auto simp: best_opposite_def split: option.splits prod.splits list.splits)
  have "ord_side ord \<noteq> opposite s"
    using ok none asks.none_resting [of "bk_orders bk" "bk_asks bk" oid ord]
      bids.none_resting [of "bk_orders bk" "bk_bids bk" oid ord] assms(3)
    by (cases s) (auto simp del: best_level.simps)
  then show ?thesis by (cases s; cases "ord_side ord") auto
qed

end
