(* ===== verification/Orderbook_Match.thy ===== *)
theory Orderbook_Match
  imports Orderbook_Inv
begin

text \<open>
  The matching loop. One round of the loop is a step relation; the loop is its closure up to a state
  where it stops. Invariants of a round therefore hold after \<open>execute\<close>, and a measure on the resting
  orders shows that the loop returns.
\<close>

section \<open>Margin released by a fill\<close>

definition money_ok :: "decimal \<Rightarrow> bool" where
  "money_ok x \<longleftrightarrow> representable x \<and> 0 \<le> x"

lemma bounded_proportion_bounds:
  "bounded_proportion D r n d = Some v \<Longrightarrow> 0 < v \<and> v < r"
  by (auto simp: bounded_proportion_def Let_def split: if_splits option.splits bind_splits)

context decimal_arith
begin

lemma bounded_proportion_representable:
  "bounded_proportion D r n d = Some v \<Longrightarrow> representable v"
  by (auto simp: bounded_proportion_def Let_def split: if_splits option.splits bind_splits
      dest: op_representable)

lemma proportional_release_bounds:
  assumes "money_ok r"
  shows "0 \<le> proportional_release D r q f \<and> proportional_release D r q f \<le> r \<and>
    representable (proportional_release D r q f)"
proof -
  have sub: "0 \<le> v \<and> v \<le> r \<and> representable v"
    if "d_sub D r w = Some v" "bounded_proportion D r x d = Some w" for v w x d
    using that assms bounded_proportion_bounds [OF that(2)] sub_nonneg [OF that(1)] sub_le [OF that(1)]
      op_representable(2) [OF that(1)] by (auto simp: money_ok_def)
  have dir: "0 \<le> v \<and> v \<le> r \<and> representable v" if "bounded_proportion D r x d = Some v" for v x d
    using bounded_proportion_bounds [OF that] bounded_proportion_representable [OF that] by simp
  show ?thesis
    using assms sub dir
    by (auto simp: proportional_release_def money_ok_def unwrap_or_def split: option.splits)
qed

lemma proportional_release_full: "0 < r \<Longrightarrow> 0 < q \<Longrightarrow> q \<le> f \<Longrightarrow> proportional_release D r q f = r"
  by (simp add: proportional_release_def)

end

section \<open>A fill\<close>

definition fill_record :: "decimal \<Rightarrow> uuid \<Rightarrow> order \<Rightarrow> order \<Rightarrow> decimal \<Rightarrow> decimal \<Rightarrow> decimal \<Rightarrow> raw_fill" where
  "fill_record p mid maker inc fill mrel trel =
     \<lparr>rf_maker_order_id = mid, rf_taker_order_id = ord_id inc,
      rf_maker_account_id = ord_account_id maker, rf_taker_account_id = ord_account_id inc,
      rf_maker_side = ord_side maker, rf_taker_side = ord_side inc,
      rf_maker_leverage = ord_leverage maker, rf_taker_leverage = ord_leverage inc,
      rf_price = p, rf_quantity = fill,
      rf_maker_margin_release = mrel, rf_taker_margin_release = trel\<rparr>"

definition filled_maker :: "order \<Rightarrow> decimal \<Rightarrow> decimal \<Rightarrow> order" where
  "filled_maker maker fill mr = maker\<lparr>ord_remaining := ord_remaining maker - fill,
     ord_reserved_margin := mr,
     ord_status := (if ord_remaining maker = fill then Filled else PartiallyFilled)\<rparr>"

definition after_fill ::
  "uuid \<Rightarrow> order \<Rightarrow> decimal \<Rightarrow> decimal \<Rightarrow> decimal \<Rightarrow> decimal \<Rightarrow> decimal \<Rightarrow> match_state \<Rightarrow> match_state" where
  "after_fill mid maker fill ir mr trel mrel st =
     (let inc = mt_incoming st; maker' = filled_maker maker fill mr in
      st\<lparr>mt_book := (if ord_remaining maker = fill then drop_order mid maker (mt_book st)
                     else (mt_book st)\<lparr>bk_orders := om_insert mid maker' (bk_orders (mt_book st))\<rparr>),
         mt_incoming := inc\<lparr>ord_remaining := ord_remaining inc - fill, ord_reserved_margin := ir\<rparr>,
         mt_fills := mt_fills st @ [fill_record (ord_limit_price maker) mid maker inc fill mrel trel],
         mt_terminal := mt_terminal st @ (if ord_remaining maker = fill then [maker'] else [])\<rparr>)"

lemma filled_maker_simps [simp]:
  "ord_id (filled_maker m f r) = ord_id m" "ord_account_id (filled_maker m f r) = ord_account_id m"
  "ord_side (filled_maker m f r) = ord_side m" "ord_limit_price (filled_maker m f r) = ord_limit_price m"
  "ord_symbol (filled_maker m f r) = ord_symbol m" "ord_sequence (filled_maker m f r) = ord_sequence m"
  "ord_client_order_id (filled_maker m f r) = ord_client_order_id m"
  "ord_remaining (filled_maker m f r) = ord_remaining m - f"
  "ord_reserved_margin (filled_maker m f r) = r"
  "is_active (filled_maker m f r) = (ord_remaining m \<noteq> f)"
  by (simp_all add: filled_maker_def is_active_def)

lemma fill_record_simps [simp]:
  "rf_maker_order_id (fill_record p mid m inc f mrel trel) = mid"
  "rf_taker_order_id (fill_record p mid m inc f mrel trel) = ord_id inc"
  "rf_maker_account_id (fill_record p mid m inc f mrel trel) = ord_account_id m"
  "rf_taker_account_id (fill_record p mid m inc f mrel trel) = ord_account_id inc"
  "rf_maker_side (fill_record p mid m inc f mrel trel) = ord_side m"
  "rf_taker_side (fill_record p mid m inc f mrel trel) = ord_side inc"
  "rf_price (fill_record p mid m inc f mrel trel) = p"
  "rf_quantity (fill_record p mid m inc f mrel trel) = f"
  "rf_maker_margin_release (fill_record p mid m inc f mrel trel) = mrel"
  "rf_taker_margin_release (fill_record p mid m inc f mrel trel) = trel"
  by (simp_all add: fill_record_def)

definition fill_of :: "order \<Rightarrow> order \<Rightarrow> decimal" where
  "fill_of inc maker = min (ord_remaining inc) (ord_remaining maker)"

definition release_of :: "dec_ops \<Rightarrow> order \<Rightarrow> decimal \<Rightarrow> decimal" where
  "release_of D ord fill = proportional_release D (ord_reserved_margin ord) (ord_remaining ord) fill"

text \<open>On a quantity grid the two subtractions of the fill are exact, and the fill is \<open>after_fill\<close>.\<close>

context decimal_arith
begin

lemma fill_step_eq:
  assumes "on_grid g (ord_remaining (mt_incoming st))" and "on_grid g (ord_remaining maker)"
    and "0 \<le> ord_remaining (mt_incoming st)" and "0 \<le> ord_remaining maker"
    and "ord_limit_price maker = p"
  shows "fill_step D p mid maker st =
    (let inc = mt_incoming st; fill = fill_of inc maker in
     bindr (expect (d_sub D (ord_reserved_margin inc) (release_of D inc fill))) (\<lambda>ir.
     bindr (expect (d_sub D (ord_reserved_margin maker) (release_of D maker fill))) (\<lambda>mr.
     Ok (after_fill mid maker fill ir mr (release_of D inc fill) (release_of D maker fill) st))))"
proof -
  let ?inc = "mt_incoming st" and ?f = "fill_of (mt_incoming st) maker"
  have f: "on_grid g ?f" "0 \<le> ?f" "?f \<le> ord_remaining ?inc" "?f \<le> ord_remaining maker"
    using assms by (auto simp: fill_of_def intro: on_grid_min)
  have s1: "d_sub D (ord_remaining ?inc) ?f = Some (ord_remaining ?inc - ?f)"
    using f assms by (intro sub_exact on_grid_representable on_grid_diff)
  have s2: "d_sub D (ord_remaining maker) ?f = Some (ord_remaining maker - ?f)"
    using f assms by (intro sub_exact on_grid_representable on_grid_diff)
  have z: "ord_remaining maker - ?f = 0 \<longleftrightarrow> ord_remaining maker = ?f" by auto
  note unf = fill_step_def after_fill_def Let_def fill_of_def [symmetric] release_of_def [symmetric]
  show ?thesis
    using s1 s2 assms(5) unfolding unf
    by (cases "d_sub D (ord_reserved_margin ?inc) (release_of D ?inc ?f)";
        cases "d_sub D (ord_reserved_margin maker) (release_of D maker ?f)")
      (simp_all add: drop_order_def filled_maker_def fill_record_def Let_def z)
qed

lemma fill_step_OkD:
  assumes "fill_step D p mid maker st = Ok st'"
    and "on_grid g (ord_remaining (mt_incoming st))" and "on_grid g (ord_remaining maker)"
    and "0 \<le> ord_remaining (mt_incoming st)" and "0 \<le> ord_remaining maker"
    and "ord_limit_price maker = p" and "fill = fill_of (mt_incoming st) maker"
  shows "\<exists>ir mr. d_sub D (ord_reserved_margin (mt_incoming st)) (release_of D (mt_incoming st) fill) = Some ir \<and>
    d_sub D (ord_reserved_margin maker) (release_of D maker fill) = Some mr \<and>
    st' = after_fill mid maker fill ir mr (release_of D (mt_incoming st) fill) (release_of D maker fill) st"
  using assms(1) unfolding fill_step_eq [OF assms(2-6)] by (auto simp: Let_def assms(7))

end

section \<open>Rounds of the loop\<close>

definition live :: "match_state \<Rightarrow> decimal \<Rightarrow> uuid \<Rightarrow> bool" where
  "live st p mid \<longleftrightarrow> 0 < ord_remaining (mt_incoming st) \<and>
     best_opposite (mt_book st) (ord_side (mt_incoming st)) = Ok (Some (p, mid)) \<and>
     crosses (ord_side (mt_incoming st)) (ord_limit_price (mt_incoming st)) p"

definition stopped :: "match_state \<Rightarrow> bool" where
  "stopped st \<longleftrightarrow> \<not> 0 < ord_remaining (mt_incoming st) \<or>
     best_opposite (mt_book st) (ord_side (mt_incoming st)) = Ok None \<or>
     (\<exists>p mid. best_opposite (mt_book st) (ord_side (mt_incoming st)) = Ok (Some (p, mid)) \<and>
        \<not> crosses (ord_side (mt_incoming st)) (ord_limit_price (mt_incoming st)) p)"

inductive match_round :: "dec_ops \<Rightarrow> match_state \<Rightarrow> match_state \<Rightarrow> bool" for D where
  self_trade: "live st p mid \<Longrightarrow> om_get (bk_orders (mt_book st)) mid = Some maker \<Longrightarrow>
    ord_account_id maker = ord_account_id (mt_incoming st) \<Longrightarrow> match_round D st (self_trade_step mid st)"
| fill: "live st p mid \<Longrightarrow> om_get (bk_orders (mt_book st)) mid = Some maker \<Longrightarrow>
    ord_account_id maker \<noteq> ord_account_id (mt_incoming st) \<Longrightarrow>
    fill_step D p mid maker st = Ok st' \<Longrightarrow> match_round D st st'"

lemma match_step_round: "live st p mid \<Longrightarrow> match_step D p mid st = Ok st' \<Longrightarrow> match_round D st st'"
  by (auto simp: match_step_def intro: match_round.intros split: if_splits)

lemma match_loop_rounds:
  "match_loop D n st = Ok st' \<Longrightarrow> (match_round D)\<^sup>*\<^sup>* st st' \<and> stopped st'"
proof (induction D n st rule: match_loop.induct)
  case (2 D fuel st)
  note loop = "2.prems"
  show ?case
  proof (cases "stopped st")
    case True
    then have "st' = st" using loop by (auto simp: stopped_def Let_def split: if_splits)
    with True show ?thesis by simp
  next
    case False
    then have pos: "0 < ord_remaining (mt_incoming st)" by (simp add: stopped_def)
    obtain best where best: "best_opposite (mt_book st) (ord_side (mt_incoming st)) = Ok best"
      using loop pos by (auto simp: Let_def)
    with False obtain p mid where b: "best = Some (p, mid)" by (cases best) (auto simp: stopped_def)
    with False best have l: "live st p mid" by (auto simp: stopped_def live_def)
    then obtain st1 where m: "match_step D p mid st = Ok st1" and r: "match_loop D fuel st1 = Ok st'"
      using loop best b by (auto simp: Let_def live_def)
    have "(match_round D)\<^sup>*\<^sup>* st1 st' \<and> stopped st'"
      by (rule "2.IH" [of "mt_incoming st" best "(p, mid)" p mid st1]) (use l best b m r in \<open>auto simp: live_def\<close>)
    then show ?thesis using match_step_round [OF l m] by (auto intro: converse_rtranclp_into_rtranclp)
  qed
qed simp

text \<open>What one round does in a well-formed book.\<close>

definition book_num :: "nat \<Rightarrow> order_book \<Rightarrow> bool" where
  "book_num g bk \<longleftrightarrow> (\<forall>(oid, ord) \<in> set (bk_orders bk).
     on_grid g (ord_remaining ord) \<and> money_ok (ord_reserved_margin ord))"

definition match_inv :: "nat \<Rightarrow> match_state \<Rightarrow> bool" where
  "match_inv g st \<longleftrightarrow> book_ok (mt_book st) \<and> book_num g (mt_book st) \<and>
     on_grid g (ord_remaining (mt_incoming st)) \<and> 0 \<le> ord_remaining (mt_incoming st) \<and>
     money_ok (ord_reserved_margin (mt_incoming st)) \<and>
     om_get (bk_orders (mt_book st)) (ord_id (mt_incoming st)) = None"

lemma book_num_get:
  "book_num g bk \<Longrightarrow> om_get (bk_orders bk) oid = Some ord \<Longrightarrow>
   on_grid g (ord_remaining ord) \<and> money_ok (ord_reserved_margin ord)"
  by (auto simp: book_num_def dest: om_get_in_set)

lemma book_num_drop: "book_num g bk \<Longrightarrow> book_num g (drop_order oid ord bk)"
  by (auto simp: book_num_def set_om_remove)

lemma om_insert_subset: "set (om_insert k v m) \<subseteq> insert (k, v) (set m)"
  by (induction k v m rule: om_insert.induct) auto

lemma book_num_insert:
  "book_num g bk \<Longrightarrow> on_grid g (ord_remaining ord) \<Longrightarrow> money_ok (ord_reserved_margin ord) \<Longrightarrow>
   book_num g (bk\<lparr>bk_orders := om_insert oid ord (bk_orders bk)\<rparr>)"
  using om_insert_subset [of oid ord "bk_orders bk"] by (auto simp: book_num_def)

definition after_self_trade :: "uuid \<Rightarrow> order \<Rightarrow> match_state \<Rightarrow> match_state" where
  "after_self_trade mid maker st =
     st\<lparr>mt_book := drop_order mid maker (mt_book st),
        mt_releases := mt_releases st @ [\<lparr>rr_account_id = ord_account_id maker, rr_order_id = ord_id maker,
          rr_amount = ord_reserved_margin maker, rr_reason = ''self_trade_prevention''\<rparr>],
        mt_terminal := mt_terminal st @ [maker\<lparr>ord_status := Cancelled\<rparr>]\<rparr>"

lemma self_trade_step_eq:
  "om_get (bk_orders (mt_book st)) mid = Some maker \<Longrightarrow>
   self_trade_step mid st = after_self_trade mid maker st"
  by (simp add: self_trade_step_def after_self_trade_def cancel_internal_eq)

context decimal_arith
begin

lemma round_elim:
  assumes "match_round D st st'" and "match_inv g st"
  obtains (self_trade) mid maker where
      "om_get (bk_orders (mt_book st)) mid = Some maker" "0 < ord_remaining (mt_incoming st)"
      "ord_side maker = opposite (ord_side (mt_incoming st))"
      "ord_account_id maker = ord_account_id (mt_incoming st)"
      "st' = after_self_trade mid maker st"
      "better_eq (ord_side (mt_incoming st)) (ord_limit_price maker) (ord_limit_price (mt_incoming st))"
  | (fill) mid maker fill ir mr trel mrel where
      "om_get (bk_orders (mt_book st)) mid = Some maker" "0 < ord_remaining (mt_incoming st)"
      "ord_side maker = opposite (ord_side (mt_incoming st))"
      "ord_account_id maker \<noteq> ord_account_id (mt_incoming st)"
      "best_opposite (mt_book st) (ord_side (mt_incoming st)) = Ok (Some (ord_limit_price maker, mid))"
      "better_eq (ord_side (mt_incoming st)) (ord_limit_price maker) (ord_limit_price (mt_incoming st))"
      "\<And>i ord. om_get (bk_orders (mt_book st)) i = Some ord \<Longrightarrow> ord_side ord = ord_side maker \<Longrightarrow>
        better_eq (ord_side (mt_incoming st)) (ord_limit_price maker) (ord_limit_price ord)"
      "fill = fill_of (mt_incoming st) maker"
      "trel = release_of D (mt_incoming st) fill" "mrel = release_of D maker fill"
      "d_sub D (ord_reserved_margin (mt_incoming st)) trel = Some ir"
      "d_sub D (ord_reserved_margin maker) mrel = Some mr"
      "st' = after_fill mid maker fill ir mr trel mrel st"
proof -
  have inv: "book_ok (mt_book st)" using assms(2) by (simp add: match_inv_def)
  show thesis
    using assms(1)
  proof cases
    case (self_trade p mid maker)
    then have best: "best_opposite (mt_book st) (ord_side (mt_incoming st)) = Ok (Some (p, mid))"
      by (simp add: live_def)
    obtain maker' where "om_get (bk_orders (mt_book st)) mid = Some maker'"
      "ord_side maker' = opposite (ord_side (mt_incoming st))" "ord_limit_price maker' = p"
      using best_opposite_Some [OF inv best] by metis
    with self_trade show thesis
      by (intro that(1) [of mid maker]) (simp_all add: live_def self_trade_step_eq crosses_better)
  next
    case (fill p mid maker)
    have best: "best_opposite (mt_book st) (ord_side (mt_incoming st)) = Ok (Some (p, mid))"
      using fill by (simp add: live_def)
    obtain maker' where mk': "om_get (bk_orders (mt_book st)) mid = Some maker'"
      "ord_side maker' = opposite (ord_side (mt_incoming st))" "ord_limit_price maker' = p"
      "\<And>i ord. om_get (bk_orders (mt_book st)) i = Some ord \<Longrightarrow>
        ord_side ord = opposite (ord_side (mt_incoming st)) \<Longrightarrow>
        better_eq (ord_side (mt_incoming st)) p (ord_limit_price ord)"
      by (rule best_opposite_Some [OF inv best]) auto
    have "maker' = maker" using mk'(1) fill(2) by simp
    note mk = mk'(2-4) [unfolded this]
    have num: "on_grid g (ord_remaining maker)" "0 \<le> ord_remaining maker"
      using assms(2) fill(2) book_num_get resting_get [of "bk_orders (mt_book st)" mid maker]
      by (auto simp: match_inv_def book_ok_def)
    have "fill_step D p mid maker st = Ok st'" using fill by simp
    then obtain ir mr where
      res: "d_sub D (ord_reserved_margin (mt_incoming st)) (release_of D (mt_incoming st) (fill_of (mt_incoming st) maker)) = Some ir"
        "d_sub D (ord_reserved_margin maker) (release_of D maker (fill_of (mt_incoming st) maker)) = Some mr"
        "st' = after_fill mid maker (fill_of (mt_incoming st) maker) ir mr
          (release_of D (mt_incoming st) (fill_of (mt_incoming st) maker))
          (release_of D maker (fill_of (mt_incoming st) maker)) st"
      using assms(2) fill_step_OkD [OF _ _ num(1) _ num(2) mk(2) refl]
      unfolding match_inv_def by blast
    show thesis
      by (rule that(2) [OF fill(2) _ mk(1) fill(3), of "fill_of (mt_incoming st) maker"
            "release_of D (mt_incoming st) (fill_of (mt_incoming st) maker)"
            "release_of D maker (fill_of (mt_incoming st) maker)" ir mr])
        (use fill(1) mk res in \<open>simp_all add: live_def crosses_better\<close>)
  qed
qed

end

end
