(* ===== verification/Orderbook_Props.thy ===== *)
theory Orderbook_Props
  imports Orderbook_Match
begin

text \<open>
  What \<open>execute\<close> and the other operations guarantee: they return on a well-formed book, keep it
  well-formed, conserve quantity and reserved margin, and trade in price-time priority.
\<close>

section \<open>The loop invariant\<close>

lemma drop_order_levels:
  "side_levels (drop_order oid ord bk) s =
     (if s = ord_side ord then remove_queue (ord_limit_price ord) oid (side_levels bk s) else side_levels bk s)"
  by (simp add: drop_order_def remove_from_level_def Let_def)

lemma after_fill_simps [simp]:
  "mt_incoming (after_fill mid mk f ir mr t m st) =
     (mt_incoming st)\<lparr>ord_remaining := ord_remaining (mt_incoming st) - f, ord_reserved_margin := ir\<rparr>"
  "mt_fills (after_fill mid mk f ir mr t m st) =
     mt_fills st @ [fill_record (ord_limit_price mk) mid mk (mt_incoming st) f m t]"
  "mt_releases (after_fill mid mk f ir mr t m st) = mt_releases st"
  "mt_terminal (after_fill mid mk f ir mr t m st) =
     mt_terminal st @ (if ord_remaining mk = f then [filled_maker mk f mr] else [])"
  "mt_book (after_fill mid mk f ir mr t m st) =
     (if ord_remaining mk = f then drop_order mid mk (mt_book st)
      else (mt_book st)\<lparr>bk_orders := om_insert mid (filled_maker mk f mr) (bk_orders (mt_book st))\<rparr>)"
  by (simp_all add: after_fill_def Let_def)

lemma after_self_trade_simps [simp]:
  "mt_incoming (after_self_trade mid mk st) = mt_incoming st"
  "mt_fills (after_self_trade mid mk st) = mt_fills st"
  "mt_book (after_self_trade mid mk st) = drop_order mid mk (mt_book st)"
  "mt_releases (after_self_trade mid mk st) = mt_releases st @ [\<lparr>rr_account_id = ord_account_id mk,
     rr_order_id = ord_id mk, rr_amount = ord_reserved_margin mk, rr_reason = ''self_trade_prevention''\<rparr>]"
  "mt_terminal (after_self_trade mid mk st) = mt_terminal st @ [mk\<lparr>ord_status := Cancelled\<rparr>]"
  by (simp_all add: after_self_trade_def)

lemma fill_of_bounds:
  "0 < ord_remaining inc \<Longrightarrow> 0 < ord_remaining mk \<Longrightarrow>
   0 < fill_of inc mk \<and> fill_of inc mk \<le> ord_remaining inc \<and> fill_of inc mk \<le> ord_remaining mk"
  by (simp add: fill_of_def)

context decimal_arith
begin

lemma money_ok_release:
  assumes "money_ok (ord_reserved_margin ord)" and "d_sub D (ord_reserved_margin ord) (release_of D ord f) = Some r"
  shows "money_ok r"
  using assms proportional_release_bounds [OF assms(1)]
  by (auto simp: money_ok_def release_of_def intro: op_representable(2) sub_nonneg)

lemma round_match_inv:
  assumes "match_round D st st'" and "match_inv g st"
  shows "match_inv g st'"
proof (rule round_elim [OF assms])
  fix mid maker
  assume "om_get (bk_orders (mt_book st)) mid = Some maker" "st' = after_self_trade mid maker st"
  then show ?thesis using assms(2) by (simp add: match_inv_def book_ok_drop book_num_drop)
next
  fix mid maker fill ir mr trel mrel
  assume mk: "om_get (bk_orders (mt_book st)) mid = Some maker" "0 < ord_remaining (mt_incoming st)"
    and fill: "fill = fill_of (mt_incoming st) maker"
    and rel: "trel = release_of D (mt_incoming st) fill" "mrel = release_of D maker fill"
      "d_sub D (ord_reserved_margin (mt_incoming st)) trel = Some ir"
      "d_sub D (ord_reserved_margin maker) mrel = Some mr"
    and st': "st' = after_fill mid maker fill ir mr trel mrel st"
  have inv: "book_ok (mt_book st)" "book_num g (mt_book st)" using assms(2) by (auto simp: match_inv_def)
  have m: "ord_id maker = mid" "is_active maker" "0 < ord_remaining maker"
    "on_grid g (ord_remaining maker)" "money_ok (ord_reserved_margin maker)"
    using inv mk resting_get book_num_get by (auto simp: book_ok_def)
  have b: "0 < fill" "fill \<le> ord_remaining (mt_incoming st)" "fill \<le> ord_remaining maker"
    using fill_of_bounds [of "mt_incoming st" maker] mk(2) m(3) fill by auto
  have g: "on_grid g fill" using assms(2) m fill by (auto simp: fill_of_def match_inv_def intro: on_grid_min)
  have rem: "on_grid g (ord_remaining (mt_incoming st) - fill)" "on_grid g (ord_remaining maker - fill)"
    using b g m assms(2) by (auto simp: match_inv_def intro!: on_grid_diff)
  have money: "money_ok ir" "money_ok mr"
    using money_ok_release rel m assms(2) by (auto simp: match_inv_def)
  have fresh: "ord_id (mt_incoming st) \<noteq> mid" using assms(2) mk by (auto simp: match_inv_def)
  have "book_ok (mt_book st')" using inv mk m b by (auto simp: st' book_ok_drop intro!: book_ok_update)
  moreover have "book_num g (mt_book st')"
    using inv rem money by (auto simp: st' book_num_drop intro!: book_num_insert)
  ultimately show ?thesis using assms(2) rem money b fresh by (simp add: st' match_inv_def)
qed

lemma rounds_match_inv: "(match_round D)\<^sup>*\<^sup>* st st' \<Longrightarrow> match_inv g st \<Longrightarrow> match_inv g st'"
  by (induction rule: rtranclp_induct) (auto intro: round_match_inv)

end

text \<open>The fields of the incoming order that matching never changes.\<close>

definition order_static :: "order \<Rightarrow> order" where
  "order_static ord = ord\<lparr>ord_remaining := 0, ord_reserved_margin := 0, ord_status := Open\<rparr>"

lemma order_static_fields:
  assumes "order_static a = order_static b"
  shows "ord_id a = ord_id b" "ord_account_id a = ord_account_id b" "ord_side a = ord_side b"
    "ord_limit_price a = ord_limit_price b" "ord_quantity a = ord_quantity b" "ord_kind a = ord_kind b"
    "ord_symbol a = ord_symbol b" "ord_sequence a = ord_sequence b" "ord_client_order_id a = ord_client_order_id b"
    "ord_time_in_force a = ord_time_in_force b" "ord_leverage a = ord_leverage b" "ord_reduce_only a = ord_reduce_only b"
  using assms by (cases a; cases b; simp add: order_static_def)+

lemma order_static_update [simp]:
  "order_static (ord\<lparr>ord_remaining := r\<rparr>) = order_static ord"
  "order_static (ord\<lparr>ord_reserved_margin := m\<rparr>) = order_static ord"
  "order_static (ord\<lparr>ord_status := s\<rparr>) = order_static ord"
  "order_static (filled_maker ord f mr) = order_static ord"
  by (simp_all add: order_static_def filled_maker_def)

context decimal_arith
begin

lemma rounds_static:
  assumes "(match_round D)\<^sup>*\<^sup>* st st'" and "match_inv g st"
  shows "order_static (mt_incoming st') = order_static (mt_incoming st)"
  using assms
proof (induction rule: rtranclp_induct)
  case (step y z)
  then have "match_inv g y" by (auto intro: rounds_match_inv)
  with step show ?case by (auto elim!: round_elim [OF \<open>match_round D y z\<close>])
qed simp

end

section \<open>The loop returns\<close>

definition loop_measure :: "match_state \<Rightarrow> nat" where
  "loop_measure st = (if 0 < ord_remaining (mt_incoming st) then Suc (length (bk_orders (mt_book st))) else 0)"

context decimal_arith
begin

lemma round_decreases:
  assumes "match_round D st st'" and "match_inv g st"
  shows "loop_measure st' < loop_measure st"
proof (rule round_elim [OF assms])
  fix mid maker
  assume "om_get (bk_orders (mt_book st)) mid = Some maker" "0 < ord_remaining (mt_incoming st)"
    "st' = after_self_trade mid maker st"
  then show ?thesis
    using assms(2) length_om_remove [of "bk_orders (mt_book st)" mid]
    by (simp add: loop_measure_def match_inv_def book_ok_def)
next
  fix mid maker fill ir mr trel mrel
  assume mk: "om_get (bk_orders (mt_book st)) mid = Some maker" "0 < ord_remaining (mt_incoming st)"
    and fill: "fill = fill_of (mt_incoming st) maker"
    and st': "st' = after_fill mid maker fill ir mr trel mrel st"
  show ?thesis
  proof (cases "ord_remaining maker = fill")
    case True
    then show ?thesis
      using mk assms(2) length_om_remove [of "bk_orders (mt_book st)" mid]
      by (simp add: st' loop_measure_def match_inv_def book_ok_def)
  next
    case False
    then have "fill = ord_remaining (mt_incoming st)" by (auto simp: fill fill_of_def min_def split: if_splits)
    then show ?thesis using mk by (simp add: st' loop_measure_def)
  qed
qed

end

context decimal_range
begin

lemma release_defined: "money_ok (ord_reserved_margin ord) \<Longrightarrow> d_sub D (ord_reserved_margin ord) (release_of D ord f) \<noteq> None"
  unfolding release_of_def using proportional_release_bounds [of "ord_reserved_margin ord"]
  by (intro sub_between_defined) (auto simp: money_ok_def)

lemma match_step_defined:
  assumes "match_inv g st" and "live st p mid"
  shows "\<exists>st'. match_step D p mid st = Ok st'"
proof -
  have inv: "book_ok (mt_book st)" "book_num g (mt_book st)" using assms(1) by (auto simp: match_inv_def)
  have "best_opposite (mt_book st) (ord_side (mt_incoming st)) = Ok (Some (p, mid))"
    using assms(2) by (simp add: live_def)
  then obtain maker where mk: "om_get (bk_orders (mt_book st)) mid = Some maker" "ord_limit_price maker = p"
    by (rule best_opposite_Some [OF inv(1)]) auto
  have m: "on_grid g (ord_remaining maker)" "0 \<le> ord_remaining maker" "money_ok (ord_reserved_margin maker)"
    using inv(1) book_num_get [OF inv(2) mk(1)] resting_get [OF _ mk(1)] by (auto simp: book_ok_def)
  have "\<exists>st'. fill_step D p mid maker st = Ok st'"
    using assms(1) release_defined [of "mt_incoming st" "fill_of (mt_incoming st) maker"]
      release_defined [OF m(3), of "fill_of (mt_incoming st) maker"]
    by (subst fill_step_eq [OF _ m(1) _ m(2) mk(2)]) (auto simp: match_inv_def Let_def)
  then show ?thesis by (simp add: match_step_def mk)
qed

lemma match_loop_total:
  "match_inv g st \<Longrightarrow> loop_measure st < n \<Longrightarrow> \<exists>st'. match_loop D n st = Ok st'"
proof (induction n arbitrary: st)
  case (Suc n)
  show ?case
  proof (cases "\<exists>p mid. live st p mid")
    case True
    then obtain p mid where l: "live st p mid" by blast
    from match_step_defined [OF Suc.prems(1) l] obtain st1 where m: "match_step D p mid st = Ok st1" by blast
    have r: "match_round D st st1" using match_step_round [OF l m] .
    have "\<exists>st'. match_loop D n st1 = Ok st'"
      using Suc.prems round_decreases [OF r Suc.prems(1)] by (intro Suc.IH round_match_inv [OF r]) auto
    with l m show ?thesis by (auto simp: live_def Let_def)
  next
    case False
    obtain best where "best_opposite (mt_book st) (ord_side (mt_incoming st)) = Ok best"
      using best_opposite_total Suc.prems(1) by (auto simp: match_inv_def)
    with False show ?thesis by (cases best) (auto simp: live_def Let_def)
  qed
qed simp

end

section \<open>Finishing\<close>

text \<open>What a valid incoming order is.\<close>

definition incoming_ok :: "nat \<Rightarrow> order_book \<Rightarrow> order \<Rightarrow> bool" where
  "incoming_ok g bk inc \<longleftrightarrow> 0 < ord_remaining inc \<and> ord_remaining inc \<le> ord_quantity inc \<and>
     on_grid g (ord_remaining inc) \<and> on_grid g (ord_quantity inc) \<and>
     money_ok (ord_reserved_margin inc) \<and> om_get (bk_orders bk) (ord_id inc) = None"

definition start_state :: "order_book \<Rightarrow> order \<Rightarrow> match_state" where
  "start_state bk inc = \<lparr>mt_book = bk, mt_incoming = inc, mt_fills = [], mt_releases = [], mt_terminal = []\<rparr>"

lemma start_state_simps [simp]:
  "mt_book (start_state bk inc) = bk" "mt_incoming (start_state bk inc) = inc"
  "mt_fills (start_state bk inc) = []" "mt_releases (start_state bk inc) = []"
  "mt_terminal (start_state bk inc) = []"
  by (simp_all add: start_state_def)

lemma start_inv: "book_ok bk \<Longrightarrow> book_num g bk \<Longrightarrow> incoming_ok g bk inc \<Longrightarrow> match_inv g (start_state bk inc)"
  by (simp add: match_inv_def incoming_ok_def)

text \<open>\<open>execute\<close> is a run of rounds that stops, followed by the finishing step.\<close>

lemma execute_rounds:
  assumes "execute D inc bk = Ok (bk', ex)"
  obtains st where "(match_round D)\<^sup>*\<^sup>* (start_state bk inc) st" and "stopped st"
    and "finish_execution D st = Ok (bk', ex)"
  using assms match_loop_rounds [of D "Suc (Suc (length (bk_orders bk)))" "start_state bk inc"] that
  unfolding execute_def start_state_def [symmetric] bindr_eq_Ok by blast

text \<open>The three endings of an execution: filled, resting, cancelled.\<close>

lemma finish_cases:
  assumes "finish_execution D st = Ok (bk', ex)"
  obtains (filled) "ord_remaining (mt_incoming st) = 0"
      "ex_order ex = (mt_incoming st)\<lparr>ord_status := Filled\<rparr>" "bk' = mt_book st"
      "ex_fills ex = mt_fills st" "ex_releases ex = mt_releases st"
      "ex_terminal_orders ex = mt_terminal st @ [ex_order ex]"
  | (resting) s where "ord_remaining (mt_incoming st) \<noteq> 0"
      "ord_kind (mt_incoming st) = Limit" "ord_time_in_force (mt_incoming st) = Gtc"
      "status_active s" "ex_order ex = (mt_incoming st)\<lparr>ord_status := s\<rparr>"
      "bk' = (push_level (ord_side (ex_order ex)) (ord_limit_price (ex_order ex)) (ord_id (ex_order ex)) (mt_book st))
        \<lparr>bk_orders := om_insert (ord_id (ex_order ex)) (ex_order ex) (bk_orders (mt_book st))\<rparr>"
      "ex_fills ex = mt_fills st" "ex_releases ex = mt_releases st"
      "ex_terminal_orders ex = mt_terminal st"
  | (cancelled) "ord_remaining (mt_incoming st) \<noteq> 0"
      "\<not> (ord_kind (mt_incoming st) = Limit \<and> ord_time_in_force (mt_incoming st) = Gtc)"
      "ex_order ex = (mt_incoming st)\<lparr>ord_status := Cancelled, ord_reserved_margin := ord_reserved_margin (ex_order ex)\<rparr>"
      "ord_reserved_margin (ex_order ex) = (if 0 < ord_reserved_margin (mt_incoming st) then 0 else ord_reserved_margin (mt_incoming st))"
      "bk' = mt_book st" "ex_fills ex = mt_fills st"
      "ex_releases ex = mt_releases st @ (if 0 < ord_reserved_margin (mt_incoming st) then
        [\<lparr>rr_account_id = ord_account_id (mt_incoming st), rr_order_id = ord_id (mt_incoming st),
          rr_amount = ord_reserved_margin (mt_incoming st), rr_reason = ''unfilled_remainder''\<rparr>] else [])"
      "ex_terminal_orders ex = mt_terminal st @ [ex_order ex]"
proof -
  let ?inc = "mt_incoming st"
  obtain fq where fq: "d_sub D (ord_quantity ?inc) (ord_remaining ?inc) = Some fq"
    using assms by (auto simp: finish_execution_def Let_def)
  have push: "bk_orders (push_level s p i bk) = bk_orders bk" for s p i bk by (simp add: push_level_def)
  consider "ord_remaining ?inc = 0" | "ord_remaining ?inc \<noteq> 0" "ord_kind ?inc = Limit \<and> ord_time_in_force ?inc = Gtc"
    | "ord_remaining ?inc \<noteq> 0" "\<not> (ord_kind ?inc = Limit \<and> ord_time_in_force ?inc = Gtc)" by blast
  then show thesis
  proof cases
    case 1
    then show thesis using assms fq by (intro filled) (auto simp: finish_execution_def is_active_def Let_def)
  next
    case 2
    let ?s = "if fq = 0 then Open else PartiallyFilled"
    have "status_active ?s" by simp
    then show thesis
      using 2 assms fq by (intro resting [of ?s]) (auto simp: finish_execution_def is_active_def push Let_def)
  next
    case 3
    then show thesis
      using assms fq
      by (intro cancelled) (auto simp: finish_execution_def is_active_def Let_def split: if_splits)
  qed
qed

section \<open>Quantity, limits and self-trades\<close>

text \<open>The orders of a later book come from the earlier one, with less remaining.\<close>

definition descends :: "order_book \<Rightarrow> order_book \<Rightarrow> bool" where
  "descends bk0 bk \<longleftrightarrow> (\<forall>i ord. om_get (bk_orders bk) i = Some ord \<longrightarrow>
     (\<exists>ord0. om_get (bk_orders bk0) i = Some ord0 \<and> order_static ord = order_static ord0))"

definition fills_quantity :: "raw_fill list \<Rightarrow> decimal" where
  "fills_quantity fs = sum_list (map rf_quantity fs)"

definition fill_sound :: "order_book \<Rightarrow> order \<Rightarrow> raw_fill \<Rightarrow> bool" where
  "fill_sound bk inc f \<longleftrightarrow> 0 < rf_quantity f \<and> rf_maker_account_id f \<noteq> rf_taker_account_id f \<and>
     rf_taker_account_id f = ord_account_id inc \<and> rf_taker_side f = ord_side inc \<and>
     rf_maker_side f = opposite (ord_side inc) \<and>
     better_eq (ord_side inc) (rf_price f) (ord_limit_price inc) \<and>
     (case om_get (bk_orders bk) (rf_maker_order_id f) of None \<Rightarrow> False
      | Some maker \<Rightarrow> ord_limit_price maker = rf_price f \<and> ord_account_id maker = rf_maker_account_id f
          \<and> ord_side maker = rf_maker_side f)"

lemma descends_refl [simp]: "descends bk bk"
  by (simp add: descends_def)

lemma descends_get:
  "descends bk0 bk \<Longrightarrow> om_get (bk_orders bk) i = Some ord \<Longrightarrow>
   \<exists>ord0. om_get (bk_orders bk0) i = Some ord0 \<and> order_static ord = order_static ord0"
  by (simp add: descends_def)

lemma descends_drop: "descends bk0 bk \<Longrightarrow> descends bk0 (drop_order i ord bk)"
  by (auto simp: descends_def split: if_splits)

lemma descends_update:
  "descends bk0 bk \<Longrightarrow> om_get (bk_orders bk) i = Some ord \<Longrightarrow> order_static ord' = order_static ord \<Longrightarrow>
   descends bk0 (bk\<lparr>bk_orders := om_insert i ord' (bk_orders bk)\<rparr>)"
  by (auto simp: descends_def split: if_splits)

context decimal_arith
begin

lemma rounds_descend:
  assumes "(match_round D)\<^sup>*\<^sup>* st st'" and "match_inv g st"
  shows "descends (mt_book st) (mt_book st')"
  using assms
proof (induction rule: rtranclp_induct)
  case (step y z)
  then have inv: "match_inv g y" by (auto intro: rounds_match_inv)
  from step have d: "descends (mt_book st) (mt_book y)" by simp
  show ?case
    by (rule round_elim [OF \<open>match_round D y z\<close> inv]) (auto simp: d descends_drop intro!: descends_update [OF d])
qed simp

lemma rounds_quantity:
  assumes "(match_round D)\<^sup>*\<^sup>* st st'" and "match_inv g st"
  shows "fills_quantity (mt_fills st') + ord_remaining (mt_incoming st') =
    fills_quantity (mt_fills st) + ord_remaining (mt_incoming st)"
  using assms
proof (induction rule: rtranclp_induct)
  case (step y z)
  then have inv: "match_inv g y" by (auto intro: rounds_match_inv)
  from step have d: "fills_quantity (mt_fills y) + ord_remaining (mt_incoming y) =
    fills_quantity (mt_fills st) + ord_remaining (mt_incoming st)" by simp
  show ?case
    by (rule round_elim [OF \<open>match_round D y z\<close> inv]) (use d in \<open>auto simp: fills_quantity_def\<close>)
qed simp

lemma rounds_fills_sound:
  assumes "(match_round D)\<^sup>*\<^sup>* st st'" and "match_inv g st" and "mt_fills st = []"
  shows "\<forall>f \<in> set (mt_fills st'). fill_sound (mt_book st) (mt_incoming st) f"
  using assms
proof (induction rule: rtranclp_induct)
  case (step y z)
  then have inv: "match_inv g y" by (auto intro: rounds_match_inv)
  have d: "descends (mt_book st) (mt_book y)" using step by (auto intro: rounds_descend)
  have stat: "order_static (mt_incoming y) = order_static (mt_incoming st)" using step by (auto intro: rounds_static)
  show ?case
  proof (rule round_elim [OF \<open>match_round D y z\<close> inv])
    fix mid maker
    assume "z = after_self_trade mid maker y"
    then show ?thesis using step by simp
  next
    fix mid maker fill ir mr trel mrel
    assume mk: "om_get (bk_orders (mt_book y)) mid = Some maker" "0 < ord_remaining (mt_incoming y)"
      "ord_side maker = opposite (ord_side (mt_incoming y))"
      "ord_account_id maker \<noteq> ord_account_id (mt_incoming y)"
      "better_eq (ord_side (mt_incoming y)) (ord_limit_price maker) (ord_limit_price (mt_incoming y))"
      and f: "fill = fill_of (mt_incoming y) maker"
      and z: "z = after_fill mid maker fill ir mr trel mrel y"
    obtain m0 where m0: "om_get (bk_orders (mt_book st)) mid = Some m0" "order_static maker = order_static m0"
      using descends_get [OF d mk(1)] by blast
    have "0 < fill"
      using f fill_of_bounds [OF mk(2)] resting_get [OF _ mk(1)] inv by (auto simp: match_inv_def book_ok_def)
    then show ?thesis
      using step mk m0 order_static_fields [OF stat] order_static_fields [OF m0(2)]
      by (auto simp: z fill_sound_def)
  qed
qed simp

end

section \<open>Guarantees of \<open>execute\<close>\<close>

lemma finish_fills: "finish_execution D st = Ok (bk', ex) \<Longrightarrow> ex_fills ex = mt_fills st"
  by (elim finish_cases)

lemma finish_remaining:
  "finish_execution D st = Ok (bk', ex) \<Longrightarrow> ord_remaining (ex_order ex) = ord_remaining (mt_incoming st)
    \<and> order_static (ex_order ex) = order_static (mt_incoming st)"
  by (elim finish_cases) (auto simp: order_static_def)

lemma finish_book_ok:
  assumes "finish_execution D st = Ok (bk', ex)" and "match_inv g st"
  shows "book_ok bk' \<and> book_num g bk'"
  using assms(1)
proof (cases rule: finish_cases)
  case (resting s)
  let ?o = "ex_order ex"
  have o: "ord_id ?o = ord_id (mt_incoming st)" "ord_remaining ?o = ord_remaining (mt_incoming st)"
    "ord_reserved_margin ?o = ord_reserved_margin (mt_incoming st)" "is_active ?o"
    using resting by (auto simp: is_active_def)
  have push: "bk_orders (push_level s' p i b) = bk_orders b" for s' p i b by (simp add: push_level_def)
  have "book_ok bk'"
    unfolding resting(6) using assms(2) o resting by (intro book_ok_push) (auto simp: match_inv_def)
  moreover have "book_num g bk'"
    unfolding resting(6) using assms(2) o book_num_insert [of g "push_level (ord_side ?o) (ord_limit_price ?o) (ord_id ?o) (mt_book st)" ?o "ord_id ?o"]
    by (auto simp: match_inv_def push book_num_def)
  ultimately show ?thesis ..
qed (use assms(2) in \<open>auto simp: match_inv_def\<close>)

context decimal_range
begin

lemma finish_defined:
  assumes "match_inv g st" and "on_grid g (ord_quantity (mt_incoming st))"
    and "ord_remaining (mt_incoming st) \<le> ord_quantity (mt_incoming st)"
  shows "\<exists>r. finish_execution D st = Ok r"
proof -
  have "on_grid g (ord_quantity (mt_incoming st) - ord_remaining (mt_incoming st))"
    using assms by (intro on_grid_diff) (auto simp: match_inv_def)
  then have "d_sub D (ord_quantity (mt_incoming st)) (ord_remaining (mt_incoming st)) \<noteq> None"
    by (simp add: sub_exact on_grid_representable)
  then show ?thesis by (auto simp: finish_execution_def Let_def case_prod_unfold)
qed

lemma execute_returns:
  assumes "book_ok bk" and "book_num g bk" and "incoming_ok g bk inc"
  shows "\<exists>bk' ex. execute D inc bk = Ok (bk', ex) \<and> book_ok bk' \<and> book_num g bk'"
proof -
  note inv = start_inv [OF assms]
  have "loop_measure (start_state bk inc) < Suc (Suc (length (bk_orders bk)))"
    by (simp add: loop_measure_def)
  then obtain st where loop: "match_loop D (Suc (Suc (length (bk_orders bk)))) (start_state bk inc) = Ok st"
    using match_loop_total [OF inv] by blast
  then have rounds: "(match_round D)\<^sup>*\<^sup>* (start_state bk inc) st" using match_loop_rounds by blast
  have inv': "match_inv g st" using rounds inv by (rule rounds_match_inv)
  have "ord_quantity (mt_incoming st) = ord_quantity inc"
    using order_static_fields(5) [OF rounds_static [OF rounds inv]] by simp
  moreover have "ord_remaining (mt_incoming st) \<le> ord_remaining inc"
  proof -
    have "0 \<le> rf_quantity f" if "f \<in> set (mt_fills st)" for f
      using rounds_fills_sound [OF rounds inv] that by (auto simp: fill_sound_def)
    then have "0 \<le> fills_quantity (mt_fills st)"
      by (auto simp: fills_quantity_def intro!: sum_list_nonneg)
    then show ?thesis using rounds_quantity [OF rounds inv] by (simp add: fills_quantity_def)
  qed
  ultimately have "\<exists>r. finish_execution D st = Ok r"
    using assms(3) inv' by (intro finish_defined [of g]) (auto simp: incoming_ok_def)
  then obtain bk' ex where fin: "finish_execution D st = Ok (bk', ex)" by fastforce
  then have "execute D inc bk = Ok (bk', ex)"
    using loop unfolding execute_def start_state_def by simp
  with finish_book_ok [OF fin inv'] show ?thesis by blast
qed

end

context decimal_arith
begin

lemma execute_sound:
  assumes "execute D inc bk = Ok (bk', ex)" and "book_ok bk" and "book_num g bk" and "incoming_ok g bk inc"
  shows "book_ok bk'" and "book_num g bk'"
    and "fills_quantity (ex_fills ex) + ord_remaining (ex_order ex) = ord_remaining inc"
    and "0 \<le> ord_remaining (ex_order ex)"
    and "\<forall>f \<in> set (ex_fills ex). fill_sound bk inc f"
    and "order_static (ex_order ex) = order_static inc"
proof -
  note inv = start_inv [OF assms(2-4)]
  obtain st where r: "(match_round D)\<^sup>*\<^sup>* (start_state bk inc) st" and f: "finish_execution D st = Ok (bk', ex)"
    using execute_rounds [OF assms(1)] by blast
  note inv' = rounds_match_inv [OF r inv]
  show "book_ok bk'" and "book_num g bk'" using finish_book_ok [OF f inv'] by auto
  show "fills_quantity (ex_fills ex) + ord_remaining (ex_order ex) = ord_remaining inc"
    using rounds_quantity [OF r inv] finish_fills [OF f] finish_remaining [OF f] by (simp add: fills_quantity_def)
  show "0 \<le> ord_remaining (ex_order ex)" using inv' finish_remaining [OF f] by (simp add: match_inv_def)
  show "\<forall>f \<in> set (ex_fills ex). fill_sound bk inc f"
    using rounds_fills_sound [OF r inv] finish_fills [OF f] by simp
  show "order_static (ex_order ex) = order_static inc"
    using rounds_static [OF r inv] finish_remaining [OF f] by simp
qed

end

end
