(* ===== verification/Orderbook_Priority.thy ===== *)
theory Orderbook_Priority
  imports Orderbook_Props
begin

text \<open>
  Price-time priority of the matching loop, the absence of crossed prices after it, and the
  fill-or-kill test: what \<open>can_fully_fill\<close> promises, \<open>execute\<close> delivers.
\<close>

section \<open>First in, first out\<close>

text \<open>Each queue is in the order of the sequence numbers of its orders.\<close>

definition seq_of :: "(uuid, order) omap \<Rightarrow> uuid \<Rightarrow> nat" where
  "seq_of orders oid = (case om_get orders oid of Some ord \<Rightarrow> ord_sequence ord | None \<Rightarrow> 0)"

definition fifo_ok :: "order_book \<Rightarrow> bool" where
  "fifo_ok bk \<longleftrightarrow> (\<forall>s p q. om_get (side_levels bk s) p = Some q \<longrightarrow> sorted (map (seq_of (bk_orders bk)) q))"

lemma fifo_empty [simp]: "fifo_ok empty_book"
  unfolding fifo_ok_def empty_book_def
proof (intro allI impI)
  fix s p q
  assume "om_get (side_levels \<lparr>bk_bids = [], bk_asks = [], bk_orders = []\<rparr> s) p = Some q"
  then show "sorted (map (seq_of (bk_orders \<lparr>bk_bids = [], bk_asks = [], bk_orders = []\<rparr>)) q)"
    by (cases s) simp_all
qed

text \<open>\<open>precedes s (p, n) (p', n')\<close>: a resting order at price \<open>p\<close> with sequence \<open>n\<close> is due before one at
  \<open>p'\<close> with \<open>n'\<close>, for an incoming order on side \<open>s\<close>.\<close>

definition precedes :: "side \<Rightarrow> decimal \<times> nat \<Rightarrow> decimal \<times> nat \<Rightarrow> bool" where
  "precedes s = (\<lambda>(p, n) (p', n'). better_eq s p p' \<and> (p = p' \<longrightarrow> n \<le> n'))"

definition order_key :: "order \<Rightarrow> decimal \<times> nat" where
  "order_key ord = (ord_limit_price ord, ord_sequence ord)"

lemma precedes_refl [simp]: "precedes s k k"
  by (simp add: precedes_def split_def)

lemma better_eq_antisym: "better_eq s p p' \<Longrightarrow> better_eq s p' p \<Longrightarrow> p = p'"
  by (cases s) auto

lemma precedes_trans: "precedes s a b \<Longrightarrow> precedes s b c \<Longrightarrow> precedes s a c"
  unfolding precedes_def by (auto intro: better_eq_trans dest: better_eq_antisym order_trans split: prod.splits)

lemma best_level_get: "om_ok ls \<Longrightarrow> best_level s ls = Some (p, q) \<Longrightarrow> om_get ls p = Some q"
  by (cases s) (auto simp del: best_level.simps intro: asks.best_in bids.best_in)

lemma best_opposite_first:
  assumes "book_ok bk" and "fifo_ok bk" and "best_opposite bk s = Ok (Some (p, oid))"
    and "om_get (bk_orders bk) oid = Some maker"
    and "om_get (bk_orders bk) i = Some ord" and "ord_side ord = opposite s"
  shows "precedes s (order_key maker) (order_key ord)"
proof -
  obtain maker' where mk: "om_get (bk_orders bk) oid = Some maker'" "ord_limit_price maker' = p"
    and good: "better_eq s p (ord_limit_price ord)"
    by (rule best_opposite_Some [OF assms(1,3)]) (use assms(5,6) in auto)
  have m: "ord_limit_price maker = p" using mk assms(4) by simp
  obtain rest where b: "best_level (opposite s) (side_levels bk (opposite s)) = Some (p, oid # rest)"
    using assms(3) by (auto simp: best_opposite_def split: option.splits prod.splits list.splits)
  have ok: "side_ok (bk_orders bk) (opposite s) (side_levels bk (opposite s))"
    using assms(1) by (simp add: book_ok_side)
  have q: "om_get (side_levels bk (opposite s)) p = Some (oid # rest)"
    using b side_okD(1) [OF ok] by (rule best_level_get [rotated])
  have "ord_sequence maker \<le> ord_sequence ord" if "ord_limit_price ord = p"
  proof -
    have "i \<in> ids_at (bk_orders bk) (opposite s) p" using that assms(5,6) by (auto simp: ids_at_def)
    then have "i \<in> set (oid # rest)" using side_okD(2) [OF ok q] by simp
    moreover have "sorted (map (seq_of (bk_orders bk)) (oid # rest))"
      using assms(2) q unfolding fifo_ok_def by blast
    ultimately have "seq_of (bk_orders bk) oid \<le> seq_of (bk_orders bk) i" by auto
    then show ?thesis using assms(4,5) by (simp add: seq_of_def)
  qed
  with good m show ?thesis by (auto simp: precedes_def order_key_def)
qed

lemma sorted_map_filter: "sorted (map f q) \<Longrightarrow> sorted (map f (filter P q))"
  by (induction q) auto

lemma fifo_drop:
  assumes "book_ok bk" and "fifo_ok bk" and "om_get (bk_orders bk) oid = Some ord"
  shows "fifo_ok (drop_order oid ord bk)"
  unfolding fifo_ok_def
proof (intro allI impI)
  fix s p q
  assume q: "om_get (side_levels (drop_order oid ord bk) s) p = Some q"
  have ok: "side_ok (om_remove oid (bk_orders bk)) s (side_levels (drop_order oid ord bk) s)"
    using book_ok_drop [OF assms(1,3)] by (simp add: book_ok_side)
  have "\<exists>q0. om_get (side_levels bk s) p = Some q0 \<and> q = filter (\<lambda>i. i \<noteq> oid) q0"
  proof (cases "s = ord_side ord \<and> p = ord_limit_price ord")
    case True
    then show ?thesis
      using q by (auto simp: drop_order_levels remove_queue_def Let_def split: option.splits if_splits)
  next
    case False
    then have "om_get (side_levels bk s) p = Some q"
      using q by (auto simp: drop_order_levels remove_queue_def Let_def split: option.splits if_splits)
    moreover have "oid \<notin> set q" using side_okD(2) [OF ok q] by (auto simp: ids_at_remove)
    ultimately show ?thesis by (intro exI [of _ q]) (auto intro!: filter_id_conv [THEN iffD2, symmetric])
  qed
  then obtain q0 where q0: "om_get (side_levels bk s) p = Some q0" "q = filter (\<lambda>i. i \<noteq> oid) q0" by blast
  have "sorted (map (seq_of (bk_orders bk)) q)"
    using assms(2) q0 by (auto simp: fifo_ok_def intro: sorted_map_filter)
  moreover have "map (seq_of (om_remove oid (bk_orders bk))) q = map (seq_of (bk_orders bk)) q"
    by (auto simp: seq_of_def q0(2))
  ultimately show "sorted (map (seq_of (bk_orders (drop_order oid ord bk))) q)"
    unfolding drop_order_simps by metis
qed

lemma fifo_update:
  assumes "fifo_ok bk" and "om_get (bk_orders bk) oid = Some ord" and "ord_sequence ord' = ord_sequence ord"
  shows "fifo_ok (bk\<lparr>bk_orders := om_insert oid ord' (bk_orders bk)\<rparr>)"
proof -
  have "seq_of (om_insert oid ord' (bk_orders bk)) = seq_of (bk_orders bk)"
    using assms(2,3) by (auto simp: seq_of_def)
  then show ?thesis using assms(1) by (simp add: fifo_ok_def)
qed

lemma fifo_push:
  assumes "book_ok bk" and "fifo_ok bk" and "om_get (bk_orders bk) (ord_id ord) = None"
    and "\<And>i o'. om_get (bk_orders bk) i = Some o' \<Longrightarrow> ord_sequence o' \<le> ord_sequence ord"
  shows "fifo_ok ((push_level (ord_side ord) (ord_limit_price ord) (ord_id ord) bk)
    \<lparr>bk_orders := om_insert (ord_id ord) ord (bk_orders bk)\<rparr>)" (is "fifo_ok ?bk")
  unfolding fifo_ok_def
proof (intro allI impI)
  fix s p q
  assume q: "om_get (side_levels ?bk s) p = Some q"
  let ?f = "seq_of (om_insert (ord_id ord) ord (bk_orders bk))"
  have fifo: "sorted (map (seq_of (bk_orders bk)) q0)"
    if "om_get (side_levels bk s) p = Some q0" for q0
    using assms(2) that unfolding fifo_ok_def by blast
  have old: "map ?f q0 = map (seq_of (bk_orders bk)) q0 \<and> (\<forall>i \<in> set q0. ?f i \<le> ord_sequence ord)"
    if "om_get (side_levels bk s) p = Some q0" for q0
  proof -
    have "set q0 = ids_at (bk_orders bk) s p"
      using side_okD(2) [OF _ that] assms(1) by (auto simp: book_ok_side)
    then show ?thesis using assms(3,4) by (auto simp: seq_of_def ids_at_def)
  qed
  have fs: "?f (ord_id ord) = ord_sequence ord" by (simp add: seq_of_def)
  show "sorted (map (seq_of (bk_orders ?bk)) q)"
  proof (cases "s = ord_side ord \<and> p = ord_limit_price ord")
    case True
    show ?thesis
    proof (cases "om_get (side_levels bk s) p")
      case None
      then show ?thesis using q True by (auto simp: push_level_def push_queue_def)
    next
      case (Some q0)
      then have "q = q0 @ [ord_id ord]" using q True by (auto simp: push_level_def push_queue_def)
      moreover have "sorted (map ?f q0)" using fifo [OF Some] old [OF Some] by metis
      moreover have "\<forall>x \<in> set (map ?f q0). x \<le> ?f (ord_id ord)" using old [OF Some] fs by (metis (no_types, lifting) imageE set_map)
      ultimately show ?thesis by (simp add: sorted_append del: map_eq_conv)
    qed
  next
    case False
    then have "om_get (side_levels bk s) p = Some q"
      using q by (auto simp: push_level_def push_queue_def split: if_splits)
    then show ?thesis using old fifo by (metis order_book.select_convs(3) order_book.surjective order_book.update_convs(3))
  qed
qed

section \<open>Fills come in price-time order\<close>

text \<open>The key of a fill: its price and the sequence number of its maker in the book before.\<close>

definition fill_key :: "order_book \<Rightarrow> raw_fill \<Rightarrow> decimal \<times> nat" where
  "fill_key bk f = (rf_price f, seq_of (bk_orders bk) (rf_maker_order_id f))"

definition priority_inv :: "order_book \<Rightarrow> match_state \<Rightarrow> bool" where
  "priority_inv bk0 st \<longleftrightarrow> fifo_ok (mt_book st) \<and>
     sorted_wrt (\<lambda>f f'. precedes (ord_side (mt_incoming st)) (fill_key bk0 f) (fill_key bk0 f')) (mt_fills st) \<and>
     (\<forall>f \<in> set (mt_fills st). \<forall>(i, ord) \<in> set (bk_orders (mt_book st)).
        ord_side ord = opposite (ord_side (mt_incoming st)) \<longrightarrow>
        precedes (ord_side (mt_incoming st)) (fill_key bk0 f) (order_key ord))"

context decimal_arith
begin

lemma round_priority:
  assumes step: "match_round D y z" and inv: "match_inv g y" and pri: "priority_inv bk0 y"
    and desc: "descends bk0 (mt_book y)"
  shows "priority_inv bk0 z"
proof (rule round_elim [OF step inv])
  have okb: "book_ok (mt_book y)" using inv by (simp add: match_inv_def)
  {
    fix mid maker
    assume mk: "om_get (bk_orders (mt_book y)) mid = Some maker" and z: "z = after_self_trade mid maker y"
    show ?thesis using pri mk okb by (auto simp: z priority_inv_def set_om_remove intro: fifo_drop)
  next
    fix mid maker fill ir mr trel mrel
    assume mk: "om_get (bk_orders (mt_book y)) mid = Some maker"
      and mside: "ord_side maker = opposite (ord_side (mt_incoming y))"
      and best: "best_opposite (mt_book y) (ord_side (mt_incoming y)) = Ok (Some (ord_limit_price maker, mid))"
      and z: "z = after_fill mid maker fill ir mr trel mrel y"
    let ?s = "ord_side (mt_incoming y)"
    obtain m0 where m0: "om_get (bk_orders bk0) mid = Some m0" "order_static maker = order_static m0"
      using descends_get [OF desc mk] by blast
    have key: "fill_key bk0 (fill_record (ord_limit_price maker) mid maker (mt_incoming y) fill mrel trel) = order_key maker"
      using m0 order_static_fields(8) [OF m0(2)] by (simp add: fill_key_def order_key_def seq_of_def)
    have fk: "order_key (filled_maker maker fill mr) = order_key maker" by (simp add: order_key_def)
    have first: "precedes ?s (order_key maker) (order_key ord)"
      if "(i, ord) \<in> set (bk_orders (mt_book y))" "ord_side ord = opposite ?s" for i ord
    proof (rule best_opposite_first [OF okb _ best mk _ that(2)])
      show "fifo_ok (mt_book y)" using pri by (simp add: priority_inv_def)
      show "om_get (bk_orders (mt_book y)) i = Some ord"
        using okb that(1) by (intro om_in_set_get [THEN iffD1]) (auto simp: book_ok_def)
    qed
    have maker_in: "(mid, maker) \<in> set (bk_orders (mt_book y))" using mk by (rule om_get_in_set)
    have before: "precedes ?s (fill_key bk0 f) (order_key maker)" if "f \<in> set (mt_fills y)" for f
      using pri that maker_in mside by (fastforce simp: priority_inv_def)
    have "fifo_ok (mt_book z)"
      using pri mk okb by (auto simp: z priority_inv_def intro: fifo_drop fifo_update)
    moreover have "sorted_wrt (\<lambda>f f'. precedes ?s (fill_key bk0 f) (fill_key bk0 f')) (mt_fills z)"
      using pri before by (auto simp: z sorted_wrt_append key priority_inv_def)
    moreover have sub: "(i, ord) \<in> set (bk_orders (mt_book y)) \<or> ord = filled_maker maker fill mr"
      if "(i, ord) \<in> set (bk_orders (mt_book z))" for i ord
      using that om_insert_subset [of mid "filled_maker maker fill mr" "bk_orders (mt_book y)"]
      by (auto simp: z set_om_remove split: if_splits)
    moreover have "precedes ?s (fill_key bk0 f) (order_key ord)"
      if "f \<in> set (mt_fills z)" "(i, ord) \<in> set (bk_orders (mt_book z))" "ord_side ord = opposite ?s" for f i ord
    proof (cases "f \<in> set (mt_fills y)")
      case True
      with sub [OF that(2)] that(3) pri before fk show ?thesis by (fastforce simp: priority_inv_def)
    next
      case False
      with that(1) key have "fill_key bk0 f = order_key maker" by (auto simp: z)
      with sub [OF that(2)] that(3) first fk show ?thesis by auto
    qed
    ultimately show ?thesis unfolding priority_inv_def by (auto simp: z)
  }
qed

lemma rounds_priority:
  assumes "(match_round D)\<^sup>*\<^sup>* st st'" and "match_inv g st" and "fifo_ok (mt_book st)" and "mt_fills st = []"
  shows "priority_inv (mt_book st) st'"
  using assms
proof (induction rule: rtranclp_induct)
  case base
  then show ?case by (simp add: priority_inv_def)
next
  case (step y z)
  then show ?case
    by (intro round_priority [OF \<open>match_round D y z\<close>]) (auto intro: rounds_match_inv rounds_descend)
qed

end

section \<open>Nothing left to cross\<close>

text \<open>No order resting on one side could trade with one resting on the other.\<close>

definition uncrossed :: "order_book \<Rightarrow> bool" where
  "uncrossed bk \<longleftrightarrow> (\<forall>(i, b) \<in> set (bk_orders bk). \<forall>(j, a) \<in> set (bk_orders bk).
     ord_side b = Buy \<longrightarrow> ord_side a = Sell \<longrightarrow> ord_limit_price b < ord_limit_price a)"

lemma uncrossed_sides:
  "uncrossed bk \<longleftrightarrow> (\<forall>i b j a. (i, b) \<in> set (bk_orders bk) \<longrightarrow> (j, a) \<in> set (bk_orders bk) \<longrightarrow>
     ord_side a = opposite (ord_side b) \<longrightarrow> \<not> better_eq (ord_side b) (ord_limit_price a) (ord_limit_price b))"
proof
  assume u: "uncrossed bk"
  show "\<forall>i b j a. (i, b) \<in> set (bk_orders bk) \<longrightarrow> (j, a) \<in> set (bk_orders bk) \<longrightarrow>
     ord_side a = opposite (ord_side b) \<longrightarrow> \<not> better_eq (ord_side b) (ord_limit_price a) (ord_limit_price b)"
  proof (intro allI impI)
    fix i b j a
    assume "(i, b) \<in> set (bk_orders bk)" "(j, a) \<in> set (bk_orders bk)" "ord_side a = opposite (ord_side b)"
    with u show "\<not> better_eq (ord_side b) (ord_limit_price a) (ord_limit_price b)"
      by (cases "ord_side b") (fastforce simp: uncrossed_def)+
  qed
qed (fastforce simp: uncrossed_def)

lemma uncrossed_empty [simp]: "uncrossed empty_book"
  by (simp add: uncrossed_def empty_book_def)

lemma stopped_uncrossed:
  assumes "book_ok (mt_book st)" and "stopped st" and "0 < ord_remaining (mt_incoming st)"
    and "(i, ord) \<in> set (bk_orders (mt_book st))" and "ord_side ord = opposite (ord_side (mt_incoming st))"
  shows "\<not> better_eq (ord_side (mt_incoming st)) (ord_limit_price ord) (ord_limit_price (mt_incoming st))"
proof -
  let ?s = "ord_side (mt_incoming st)"
  have get: "om_get (bk_orders (mt_book st)) i = Some ord"
    using assms(1,4) by (intro om_in_set_get [THEN iffD1]) (auto simp: book_ok_def)
  have ne: "opposite ?s \<noteq> ?s" by (cases ?s) auto
  have "best_opposite (mt_book st) ?s \<noteq> Ok None"
    using best_opposite_None [OF assms(1) _ get, of ?s] assms(5) ne by auto
  then obtain p mid where b: "best_opposite (mt_book st) ?s = Ok (Some (p, mid))"
    and nc: "\<not> better_eq ?s p (ord_limit_price (mt_incoming st))"
    using assms(2,3) by (auto simp: stopped_def crosses_better)
  have "better_eq ?s p (ord_limit_price ord)"
    by (rule best_opposite_Some [OF assms(1) b]) (use get assms(5) in auto)
  with nc show ?thesis using better_eq_trans by blast
qed

lemma descends_uncrossed:
  assumes "descends bk0 bk" and "uncrossed bk0" and "book_ok bk0" and "book_ok bk"
  shows "uncrossed bk"
  unfolding uncrossed_sides
proof (intro allI impI)
  fix i b j a
  assume mem: "(i, b) \<in> set (bk_orders bk)" "(j, a) \<in> set (bk_orders bk)" and s: "ord_side a = opposite (ord_side b)"
  have get: "om_get (bk_orders bk) i = Some b" "om_get (bk_orders bk) j = Some a"
    using mem assms(4) by (auto intro!: om_in_set_get [THEN iffD1] simp: book_ok_def)
  obtain b0 where b0: "om_get (bk_orders bk0) i = Some b0" "order_static b = order_static b0"
    using descends_get [OF assms(1) get(1)] by blast
  obtain a0 where a0: "om_get (bk_orders bk0) j = Some a0" "order_static a = order_static a0"
    using descends_get [OF assms(1) get(2)] by blast
  show "\<not> better_eq (ord_side b) (ord_limit_price a) (ord_limit_price b)"
    using assms(2) om_get_in_set [OF b0(1)] om_get_in_set [OF a0(1)] s
      order_static_fields [OF b0(2)] order_static_fields [OF a0(2)]
    unfolding uncrossed_sides by metis
qed

lemma finish_uncrossed:
  assumes "finish_execution D st = Ok (bk', ex)" and "match_inv g st" and "stopped st" and "uncrossed (mt_book st)"
  shows "uncrossed bk'"
  using assms(1)
proof (cases rule: finish_cases)
  case (resting s)
  let ?o = "ex_order ex" and ?bk = "mt_book st"
  have o: "ord_side ?o = ord_side (mt_incoming st)" "ord_limit_price ?o = ord_limit_price (mt_incoming st)"
    "ord_remaining ?o = ord_remaining (mt_incoming st)" using resting by auto
  have pos: "0 < ord_remaining (mt_incoming st)" using assms(2) resting(1) by (auto simp: match_inv_def)
  have no: "\<not> better_eq (ord_side ?o) (ord_limit_price ord) (ord_limit_price ?o)"
    if "(i, ord) \<in> set (bk_orders ?bk)" "ord_side ord = opposite (ord_side ?o)" for i ord
    using stopped_uncrossed [OF _ assms(3) pos that(1)] that(2) assms(2) o by (auto simp: match_inv_def)
  have no': "\<not> better_eq (ord_side ord) (ord_limit_price ?o) (ord_limit_price ord)"
    if "(i, ord) \<in> set (bk_orders ?bk)" "ord_side ?o = opposite (ord_side ord)" for i ord
  proof -
    have "ord_side ord = opposite (ord_side ?o)" using that(2) by simp
    then show ?thesis using no [OF that(1)] by (cases "ord_side ord"; cases "ord_side ?o") auto
  qed
  have mem: "(i, ord) \<in> set (bk_orders ?bk) \<or> ord = ?o" if "(i, ord) \<in> set (bk_orders bk')" for i ord
    using that om_insert_subset [of "ord_id ?o" ?o "bk_orders ?bk"] unfolding resting(6) by auto
  have self: "ord_side ?o \<noteq> opposite (ord_side ?o)" by (cases "ord_side ?o") auto
  show ?thesis
    unfolding uncrossed_sides
  proof (intro allI impI)
    fix i b j a
    assume ab: "(i, b) \<in> set (bk_orders bk')" "(j, a) \<in> set (bk_orders bk')" and s: "ord_side a = opposite (ord_side b)"
    show "\<not> better_eq (ord_side b) (ord_limit_price a) (ord_limit_price b)"
      using mem [OF ab(1)] mem [OF ab(2)] no no' self s assms(4) unfolding uncrossed_sides by metis
  qed
qed (use assms(4) in auto)

section \<open>Guarantees of \<open>execute\<close>\<close>

lemma finish_fifo:
  assumes "finish_execution D st = Ok (bk', ex)" and "match_inv g st" and "fifo_ok (mt_book st)"
    and "\<And>i ord. om_get (bk_orders (mt_book st)) i = Some ord \<Longrightarrow> ord_sequence ord \<le> ord_sequence (mt_incoming st)"
  shows "fifo_ok bk'"
  using assms(1)
proof (cases rule: finish_cases)
  case (resting s)
  then show ?thesis
    unfolding resting(6) using assms(2-4) by (intro fifo_push) (auto simp: match_inv_def)
qed (use assms(3) in auto)

context decimal_arith
begin

lemma execute_priority:
  assumes "execute D inc bk = Ok (bk', ex)" and "book_ok bk" and "book_num g bk" and "incoming_ok g bk inc"
    and "fifo_ok bk"
  shows "sorted_wrt (\<lambda>f f'. precedes (ord_side inc) (fill_key bk f) (fill_key bk f')) (ex_fills ex)"
    and "\<And>f i ord. f \<in> set (ex_fills ex) \<Longrightarrow> (i, ord) \<in> set (bk_orders bk') \<Longrightarrow> i \<noteq> ord_id inc \<Longrightarrow>
      ord_side ord = opposite (ord_side inc) \<Longrightarrow> precedes (ord_side inc) (fill_key bk f) (order_key ord)"
    and "(\<And>i ord. om_get (bk_orders bk) i = Some ord \<Longrightarrow> ord_sequence ord \<le> ord_sequence inc) \<Longrightarrow> fifo_ok bk'"
proof -
  note inv = start_inv [OF assms(2-4)]
  obtain st where r: "(match_round D)\<^sup>*\<^sup>* (start_state bk inc) st" and f: "finish_execution D st = Ok (bk', ex)"
    using execute_rounds [OF assms(1)] by blast
  have pri: "priority_inv bk st" using rounds_priority [OF r inv] assms(5) by simp
  have stat: "order_static (mt_incoming st) = order_static inc" using rounds_static [OF r inv] by simp
  note fl = order_static_fields [OF stat]
  show "sorted_wrt (\<lambda>f f'. precedes (ord_side inc) (fill_key bk f) (fill_key bk f')) (ex_fills ex)"
    using pri finish_fills [OF f] fl by (simp add: priority_inv_def)
  show "precedes (ord_side inc) (fill_key bk fi) (order_key ord)"
    if "fi \<in> set (ex_fills ex)" "(i, ord) \<in> set (bk_orders bk')" "i \<noteq> ord_id inc" "ord_side ord = opposite (ord_side inc)" for fi i ord
  proof -
    have "(i, ord) \<in> set (bk_orders (mt_book st))"
      using f that(2,3) fl(1) om_insert_subset [of "ord_id (ex_order ex)" "ex_order ex" "bk_orders (mt_book st)"]
      by (cases rule: finish_cases) auto
    then show ?thesis using pri that(1,4) finish_fills [OF f] fl by (fastforce simp: priority_inv_def)
  qed
  show "fifo_ok bk'" if older: "\<And>i ord. om_get (bk_orders bk) i = Some ord \<Longrightarrow> ord_sequence ord \<le> ord_sequence inc"
  proof (rule finish_fifo [OF f rounds_match_inv [OF r inv]])
    show "fifo_ok (mt_book st)" using pri by (simp add: priority_inv_def)
    fix i ord
    assume "om_get (bk_orders (mt_book st)) i = Some ord"
    then obtain o0 where "om_get (bk_orders bk) i = Some o0" "order_static ord = order_static o0"
      using descends_get [OF rounds_descend [OF r inv]] by auto
    then show "ord_sequence ord \<le> ord_sequence (mt_incoming st)"
      using older fl(8) order_static_fields(8) by metis
  qed
qed

lemma execute_keeps_uncrossed:
  assumes "execute D inc bk = Ok (bk', ex)" and "book_ok bk" and "book_num g bk" and "incoming_ok g bk inc"
    and "uncrossed bk"
  shows "uncrossed bk'"
proof -
  note inv = start_inv [OF assms(2-4)]
  obtain st where r: "(match_round D)\<^sup>*\<^sup>* (start_state bk inc) st" "stopped st" and f: "finish_execution D st = Ok (bk', ex)"
    using execute_rounds [OF assms(1)] by blast
  have inv': "match_inv g st" using r(1) inv by (rule rounds_match_inv)
  have "uncrossed (mt_book st)"
    using rounds_descend [OF r(1) inv] assms(2,5) inv' by (auto intro: descends_uncrossed simp: match_inv_def)
  then show ?thesis by (rule finish_uncrossed [OF f inv' r(2)])
qed

end

end
