(* ===== verification/Orderbook_Margin.thy ===== *)
theory Orderbook_Margin
  imports Orderbook_Props
begin

text \<open>
  The margin reserved for the orders of an account is neither created nor lost by the book: what the
  orders held before is what they hold after, what the fills release and what the cancellations
  release. The accounting is exact where sums of decimals are.
\<close>

definition held :: "account_id \<Rightarrow> order \<Rightarrow> decimal" where
  "held a ord = (if ord_account_id ord = a then ord_reserved_margin ord else 0)"

definition book_held :: "account_id \<Rightarrow> order_book \<Rightarrow> decimal" where
  "book_held a bk = om.total (\<lambda>i. held a) (bk_orders bk)"

definition released :: "account_id \<Rightarrow> reservation_release list \<Rightarrow> decimal" where
  "released a rs = (\<Sum>r\<leftarrow>rs. if rr_account_id r = a then rr_amount r else 0)"

definition fill_released :: "account_id \<Rightarrow> raw_fill list \<Rightarrow> decimal" where
  "fill_released a fs = (\<Sum>f\<leftarrow>fs. (if rf_maker_account_id f = a then rf_maker_margin_release f else 0)
     + (if rf_taker_account_id f = a then rf_taker_margin_release f else 0))"

definition state_margin :: "account_id \<Rightarrow> match_state \<Rightarrow> decimal" where
  "state_margin a st = book_held a (mt_book st) + held a (mt_incoming st) + released a (mt_releases st)
     + fill_released a (mt_fills st)"

lemma released_append [simp]: "released a (rs @ rs') = released a rs + released a rs'"
  by (simp add: released_def)

lemma fill_released_append [simp]: "fill_released a (fs @ fs') = fill_released a fs + fill_released a fs'"
  by (simp add: fill_released_def)

lemma book_held_drop:
  "book_ok bk \<Longrightarrow> om_get (bk_orders bk) i = Some ord \<Longrightarrow>
   book_held a (drop_order i ord bk) = book_held a bk - held a ord"
  by (simp add: book_held_def om.total_del book_ok_def)

lemma book_held_update:
  "book_ok bk \<Longrightarrow> om_get (bk_orders bk) i = Some ord \<Longrightarrow>
   book_held a (bk\<lparr>bk_orders := om_insert i ord' (bk_orders bk)\<rparr>) = book_held a bk - held a ord + held a ord'"
  by (simp add: book_held_def om.total_ins_upd book_ok_def)

lemma book_held_new:
  "om_ok (bk_orders bk) \<Longrightarrow> om_get (bk_orders bk) i = None \<Longrightarrow>
   book_held a (bk\<lparr>bk_orders := om_insert i ord' (bk_orders bk)\<rparr>) = book_held a bk + held a ord'"
  by (simp add: book_held_def om.total_ins_new)

context exact_sums
begin

lemma full_fill_releases:
  "d_sub D (ord_reserved_margin ord) (release_of D ord (ord_remaining ord)) = Some r \<Longrightarrow>
   0 < ord_remaining ord \<Longrightarrow> money_ok (ord_reserved_margin ord) \<Longrightarrow> r = 0"
  by (cases "0 < ord_reserved_margin ord")
    (auto simp: release_of_def proportional_release_def money_ok_def)

lemma round_margin:
  assumes "match_round D y z" and "match_inv g y"
  shows "state_margin a z = state_margin a y"
proof (rule round_elim [OF assms])
  have ok: "book_ok (mt_book y)" using assms(2) by (simp add: match_inv_def)
  {
    fix mid maker
    assume "om_get (bk_orders (mt_book y)) mid = Some maker" "z = after_self_trade mid maker y"
    with ok show ?thesis by (simp add: state_margin_def book_held_drop released_def held_def)
  next
    fix mid maker fill ir mr trel mrel
    assume mk: "om_get (bk_orders (mt_book y)) mid = Some maker" "0 < ord_remaining (mt_incoming y)"
      and f: "fill = fill_of (mt_incoming y) maker" "mrel = release_of D maker fill"
      and ir: "d_sub D (ord_reserved_margin (mt_incoming y)) trel = Some ir"
      and mr: "d_sub D (ord_reserved_margin maker) mrel = Some mr"
      and z: "z = after_fill mid maker fill ir mr trel mrel y"
    have mk0: "mr = 0" if "ord_remaining maker = fill"
      using full_fill_releases [of maker mr] mr f that resting_get [OF _ mk(1)] assms(2) book_num_get [OF _ mk(1)]
      by (auto simp: match_inv_def book_ok_def)
    have e: "ir = ord_reserved_margin (mt_incoming y) - trel" "mr = ord_reserved_margin maker - mrel"
      using sub_sum ir mr by auto
    have "book_held a (mt_book z) = book_held a (mt_book y) - held a maker + (if ord_account_id maker = a then mr else 0)"
      using ok mk mk0 by (simp add: z book_held_drop book_held_update) (simp add: held_def)
    then show ?thesis by (simp add: z state_margin_def e held_def fill_released_def fill_record_def)
  }
qed

lemma rounds_margin:
  assumes "(match_round D)\<^sup>*\<^sup>* st st'" and "match_inv g st"
  shows "state_margin a st' = state_margin a st"
  using assms
proof (induction rule: rtranclp_induct)
  case (step y z)
  then show ?case using round_margin [of y z g] rounds_match_inv [of st y g] by simp
qed simp

text \<open>A filled incoming order holds nothing.\<close>

lemma rounds_filled_free:
  assumes "(match_round D)\<^sup>*\<^sup>* st st'" and "match_inv g st" and "0 < ord_remaining (mt_incoming st)"
  shows "ord_remaining (mt_incoming st') = 0 \<longrightarrow> ord_reserved_margin (mt_incoming st') = 0"
  using assms
proof (induction rule: rtranclp_induct)
  case (step y z)
  then have inv: "match_inv g y" by (auto intro: rounds_match_inv)
  show ?case
  proof (rule round_elim [OF \<open>match_round D y z\<close> inv])
    fix mid maker
    assume "z = after_self_trade mid maker y" "0 < ord_remaining (mt_incoming y)"
    then show ?thesis by simp
  next
    fix mid maker fill ir mr trel mrel
    assume "0 < ord_remaining (mt_incoming y)" "trel = release_of D (mt_incoming y) fill"
      "d_sub D (ord_reserved_margin (mt_incoming y)) trel = Some ir"
      "z = after_fill mid maker fill ir mr trel mrel y"
    then show ?thesis using full_fill_releases [of "mt_incoming y" ir] inv by (auto simp: match_inv_def)
  qed
qed simp

lemma finish_margin:
  assumes "finish_execution D st = Ok (bk', ex)" and "match_inv g st"
    and "ord_remaining (mt_incoming st) = 0 \<longrightarrow> ord_reserved_margin (mt_incoming st) = 0"
  shows "book_held a bk' + released a (ex_releases ex) + fill_released a (ex_fills ex) = state_margin a st"
  using assms(1)
proof (cases rule: finish_cases)
  case filled
  then show ?thesis using assms(3) by (simp add: state_margin_def held_def)
next
  case (resting s)
  have "book_held a bk' = book_held a (mt_book st) + held a (ex_order ex)"
    unfolding resting(6) using assms(2) resting(5) book_held_new [of "mt_book st" "ord_id (ex_order ex)" a "ex_order ex"]
    by (simp add: match_inv_def book_ok_def book_held_def)
  then show ?thesis using resting by (simp add: state_margin_def held_def)
next
  case cancelled
  then show ?thesis using assms(2)
    by (auto simp: state_margin_def held_def released_def match_inv_def money_ok_def)
qed

lemma execute_margin:
  assumes "execute D inc bk = Ok (bk', ex)" and "book_ok bk" and "book_num g bk" and "incoming_ok g bk inc"
  shows "book_held a bk' + released a (ex_releases ex) + fill_released a (ex_fills ex) =
    book_held a bk + held a inc"
proof -
  note inv = start_inv [OF assms(2-4)]
  obtain st where r: "(match_round D)\<^sup>*\<^sup>* (start_state bk inc) st" and f: "finish_execution D st = Ok (bk', ex)"
    using execute_rounds [OF assms(1)] by blast
  have "0 < ord_remaining (mt_incoming (start_state bk inc))" using assms(4) by (simp add: incoming_ok_def)
  from finish_margin [OF f rounds_match_inv [OF r inv] rounds_filled_free [OF r inv this]]
    rounds_margin [OF r inv]
  show ?thesis by (simp add: state_margin_def released_def fill_released_def)
qed

end

end
