(* ===== verification/Orderbook_Ops.thy ===== *)
theory Orderbook_Ops
  imports Orderbook_Priority Orderbook_Margin
begin

text \<open>
  The operations of the book besides \<open>execute\<close>: cancelling an order, freezing the active orders for a
  batch and restoring them, filling an order from a batch, and removing finished orders.
\<close>

section \<open>Books determined by their orders\<close>

definition queue_sorted :: "order_book \<Rightarrow> bool" where
  "queue_sorted bk \<longleftrightarrow> (\<forall>s p q. om_get (side_levels bk s) p = Some q \<longrightarrow> sorted (map (queue_key (bk_orders bk)) q))"

lemma queue_key_inj:
  assumes "resting_ok orders"
  shows "inj_on (queue_key orders) (dom (om_get orders))"
proof (rule inj_onI)
  have key: "snd (queue_key orders i) = i" if "i \<in> dom (om_get orders)" for i
  proof -
    from that obtain ord where "om_get orders i = Some ord" by blast
    with resting_get [OF assms this] show ?thesis by (simp add: queue_key_def)
  qed
  show "i = j" if "i \<in> dom (om_get orders)" "j \<in> dom (om_get orders)" "queue_key orders i = queue_key orders j" for i j
    using key [OF that(1)] key [OF that(2)] that(3) by metis
qed

lemma book_determined:
  assumes "book_ok bk" "queue_sorted bk" "book_ok bk'" "queue_sorted bk'" "bk_orders bk = bk_orders bk'"
  shows "bk = bk'"
proof -
  let ?o = "bk_orders bk"
  have levels: "side_levels bk s = side_levels bk' s" for s
  proof (rule om_extensionality)
    have ok: "side_ok ?o s (side_levels bk s)" "side_ok ?o s (side_levels bk' s)"
      using assms(1,3,5) by (auto simp: book_ok_side)
    show "om_ok (side_levels bk s)" "om_ok (side_levels bk' s)" using ok side_okD(1) by auto
    fix p
    show "om_get (side_levels bk s) p = om_get (side_levels bk' s) p"
    proof (cases "om_get (side_levels bk s) p")
      case None
      then have "ids_at ?o s p = {}" using side_okD(3) [OF ok(1)] by simp
      then have "om_get (side_levels bk' s) p = None" using side_okD(2) [OF ok(2)] by (cases "om_get (side_levels bk' s) p") fastforce+
      with None show ?thesis by simp
    next
      case (Some q)
      note q = side_okD(2) [OF ok(1) Some]
      then obtain q' where q': "om_get (side_levels bk' s) p = Some q'"
        using side_okD(3) [OF ok(2), of p] by (cases "om_get (side_levels bk' s) p") auto
      note q2 = side_okD(2) [OF ok(2) q']
      have "q = q'"
      proof (rule map_sorted_distinct_set_unique [of "queue_key ?o"])
        have "set q \<union> set q' \<subseteq> dom (om_get ?o)" using q q2 by (auto simp: ids_at_def)
        moreover have "inj_on (queue_key ?o) (dom (om_get ?o))"
          using queue_key_inj [of ?o] assms(1) by (simp add: book_ok_def)
        ultimately show "inj_on (queue_key ?o) (set q \<union> set q')" using inj_on_subset by blast
        show "sorted (map (queue_key ?o) q)" using assms(2) Some unfolding queue_sorted_def by blast
        show "sorted (map (queue_key ?o) q')" using assms(4,5) q' unfolding queue_sorted_def by metis
      next
        have inj: "inj_on (queue_key ?o) (dom (om_get ?o))"
          using queue_key_inj [of ?o] assms(1) by (auto simp: book_ok_def)
        have sub: "set q \<subseteq> dom (om_get ?o)" "set q' \<subseteq> dom (om_get ?o)" using q q2 by (auto simp: ids_at_def)
        show "distinct (map (queue_key ?o) q)" "distinct (map (queue_key ?o) q')"
          using q q2 inj_on_subset [OF inj sub(1)] inj_on_subset [OF inj sub(2)] by (auto simp: distinct_map)
        show "set q = set q'" using q q2 by simp
      qed
      with Some q' show ?thesis by simp
    qed
  qed
  show ?thesis using levels [of Buy] levels [of Sell] assms(5) by (cases bk; cases bk') simp
qed

section \<open>Cancelling\<close>

lemma cancel_Ok:
  "cancel oid aid bk = Ok (o', bk') \<longleftrightarrow>
   (\<exists>ord. om_get (bk_orders bk) oid = Some ord \<and> ord_account_id ord = aid \<and> is_active ord \<and>
     o' = ord\<lparr>ord_status := Cancelled\<rparr> \<and> bk' = drop_order oid ord bk)"
  by (auto simp: cancel_def cancel_internal_eq)

lemma cancel_total:
  assumes "book_ok bk" and "om_get (bk_orders bk) oid = Some ord" and "ord_account_id ord = aid"
  shows "cancel oid aid bk = Ok (ord\<lparr>ord_status := Cancelled\<rparr>, drop_order oid ord bk)"
  using assms resting_get [of "bk_orders bk" oid ord] by (simp add: cancel_Ok book_ok_def)

lemma cancel_errors:
  "om_get (bk_orders bk) oid = None \<Longrightarrow> cancel oid aid bk = Err (OrderNotFound oid)"
  "om_get (bk_orders bk) oid = Some ord \<Longrightarrow> ord_account_id ord \<noteq> aid \<Longrightarrow> cancel oid aid bk = Err (OrderOwnership oid)"
  by (simp_all add: cancel_def)

section \<open>Freezing and restoring\<close>

lemma side_split: "(\<forall>s. P s) \<longleftrightarrow> P Buy \<and> P Sell"
  by (metis (full_types) side.exhaust)

lemma take_active_all:
  assumes "book_ok bk"
  shows "take_active_orders bk = (sort_key (\<lambda>ord. (ord_sequence ord, ord_id ord)) (om_values (bk_orders bk)), empty_book)"
proof -
  let ?step = "\<lambda>(orders, active) oid. case om_get orders oid of None \<Rightarrow> (orders, active)
    | Some ord \<Rightarrow> (om_remove oid orders, active @ [ord])"
  have strip: "foldl ?step (m, acc) (map fst m) = ([], acc @ map snd m)"
    if "om_ok m" for m :: "(uuid, order) omap" and acc
    using that
  proof (induction m arbitrary: acc)
    case (Cons x m)
    obtain i ord where x: "x = (i, ord)" by (cases x)
    have "i \<notin> fst ` set m" using Cons.prems by (auto simp: x om_ok_Cons)
    then have "om_remove i ((i, ord) # m) = m" by (simp add: om_remove_absent)
    then show ?case using Cons by (simp add: x om_get_def om_ok_Cons)
  qed simp
  have ok: "om_ok (bk_orders bk)" "resting_ok (bk_orders bk)" using assms by (auto simp: book_ok_def)
  have act: "filter is_active (om_values (bk_orders bk)) = om_values (bk_orders bk)"
    using ok om_values_get resting_get by (intro filter_True) fastforce
  have ids: "map (ord_id \<circ> snd) (bk_orders bk) = map fst (bk_orders bk)"
    using ok om_in_set_get [OF ok(1)] resting_get by auto
  show ?thesis
    unfolding take_active_orders_def act unfolding om_values_def map_map ids Let_def strip [OF ok(1), of "[]"]
    by (simp add: empty_book_def)
qed

lemma side_ok_requeue:
  assumes "side_ok orders s (om_insert p q ls)" and "om_ok ls" and "mset q' = mset q"
  shows "side_ok orders s (om_insert p q' ls)"
proof -
  have "set q' = set q" "q' = [] \<longleftrightarrow> q = []" "distinct q' = distinct q"
    using assms(3) by (auto dest: mset_eq_setD mset_eq_imp_distinct_iff)
  with assms(1,2) show ?thesis
    unfolding side_ok_def by (auto split: if_splits)
qed

lemma restore_Ok:
  assumes "restore_active_order ord bk = Ok bk'" and "book_ok bk" and "0 < ord_remaining ord"
  shows "book_ok bk' \<and> bk_orders bk' = om_insert (ord_id ord) ord (bk_orders bk) \<and> om_get (bk_orders bk) (ord_id ord) = None"
proof -
  let ?s = "ord_side ord" and ?p = "ord_limit_price ord" and ?orders = "om_insert (ord_id ord) ord (bk_orders bk)"
  let ?q = "(case om_get (side_levels bk ?s) ?p of None \<Rightarrow> [] | Some q \<Rightarrow> q) @ [ord_id ord]"
  have new: "om_get (bk_orders bk) (ord_id ord) = None" and act: "is_active ord"
    and bk': "bk' = set_levels ?s (om_insert ?p (sort_key (queue_key ?orders) ?q) (side_levels bk ?s)) (bk\<lparr>bk_orders := ?orders\<rparr>)"
    using assms(1) by (auto simp: restore_active_order_def sort_queue_def Let_def split: if_splits)
  let ?pushed = "(push_level ?s ?p (ord_id ord) bk)\<lparr>bk_orders := ?orders\<rparr>"
  have ok: "book_ok ?pushed" using assms(2) new act assms(3) by (intro book_ok_push) auto
  have "side_ok ?orders s (side_levels bk' s)" for s
  proof (cases "s = ?s")
    case True
    have "side_ok ?orders ?s (om_insert ?p ?q (side_levels bk ?s))"
      using ok spec [of "\<lambda>s. side_ok ?orders s (side_levels ?pushed s)" ?s]
      by (simp add: book_ok_side push_level_def push_queue_def)
    moreover have "om_ok (side_levels bk ?s)" using assms(2) side_okD(1) unfolding book_ok_side by blast
    ultimately show ?thesis using side_ok_requeue by (fastforce simp: True bk')
  next
    case False
    then show ?thesis
      using ok spec [of "\<lambda>s. side_ok ?orders s (side_levels ?pushed s)" s]
      by (simp add: book_ok_side push_level_def bk')
  qed
  then show ?thesis using ok new by (auto simp: book_ok_side push_level_def bk')
qed


lemma restore_queue_sorted:
  assumes "restore_active_order ord bk = Ok bk'" and "book_ok bk" and "queue_sorted bk"
  shows "queue_sorted bk'"
  unfolding queue_sorted_def
proof (intro allI impI)
  fix s p q
  let ?orders = "om_insert (ord_id ord) ord (bk_orders bk)"
  assume q: "om_get (side_levels bk' s) p = Some q"
  have new: "om_get (bk_orders bk) (ord_id ord) = None" and orders: "bk_orders bk' = ?orders"
    using assms(1) by (auto simp: restore_active_order_def sort_queue_def Let_def split: if_splits)
  show "sorted (map (queue_key (bk_orders bk')) q)"
  proof (cases "s = ord_side ord \<and> p = ord_limit_price ord")
    case True
    then show ?thesis
      using assms(1) q by (auto simp: restore_active_order_def sort_queue_def Let_def split: if_splits)
  next
    case False
    then have old: "om_get (side_levels bk s) p = Some q"
      using assms(1) q by (auto simp: restore_active_order_def sort_queue_def Let_def split: if_splits)
    have "set q = ids_at (bk_orders bk) s p" using side_okD(2) [OF _ old] assms(2) by (auto simp: book_ok_side)
    then have "map (queue_key ?orders) q = map (queue_key (bk_orders bk)) q"
      using new by (auto simp: queue_key_def ids_at_def)
    moreover have "sorted (map (queue_key (bk_orders bk)) q)" using assms(3) old unfolding queue_sorted_def by blast
    ultimately show ?thesis unfolding orders by metis
  qed
qed

lemma restore_defined:
  assumes "book_ok bk" and "om_get (bk_orders bk) (ord_id ord) = None" and "is_active ord"
  shows "\<exists>bk'. restore_active_order ord bk = Ok bk'"
proof -
  have "oid \<in> dom (om_get (bk_orders bk))"
    if "om_get (side_levels bk (ord_side ord)) p = Some q" "oid \<in> set q" for p q oid
    using side_okD(2) [OF _ that(1)] that(2) assms(1) by (fastforce simp: book_ok_side ids_at_def)
  with assms(2,3) show ?thesis
    by (fastforce simp: restore_active_order_def sort_queue_def Let_def split: option.splits)
qed

text \<open>Restoring a list of orders with fresh ids into a book puts exactly these orders back.\<close>

lemma restore_all:
  assumes "book_ok bk" and "queue_sorted bk" and "distinct (map ord_id os)"
    and "\<And>ord. ord \<in> set os \<Longrightarrow> is_active ord \<and> 0 < ord_remaining ord \<and> om_get (bk_orders bk) (ord_id ord) = None"
  shows "\<exists>bk'. foldr_res restore_active_order os bk = Ok bk' \<and> book_ok bk' \<and> queue_sorted bk' \<and>
    (\<forall>i. om_get (bk_orders bk') i = (case map_of (map (\<lambda>ord. (ord_id ord, ord)) os) i of
       Some ord \<Rightarrow> Some ord | None \<Rightarrow> om_get (bk_orders bk) i))"
  using assms
proof (induction os arbitrary: bk)
  case (Cons o1 os)
  obtain bk1 where r: "restore_active_order o1 bk = Ok bk1" using Cons.prems restore_defined [of bk o1] by auto
  have bk1: "book_ok bk1" "bk_orders bk1 = om_insert (ord_id o1) o1 (bk_orders bk)"
    using restore_Ok [OF r] Cons.prems by auto
  have qs: "queue_sorted bk1" using restore_queue_sorted [OF r] Cons.prems by auto
  have d: "distinct (map ord_id os)" "ord_id o1 \<notin> ord_id ` set os" using Cons.prems(3) by auto
  have "\<exists>bk'. foldr_res restore_active_order os bk1 = Ok bk' \<and> book_ok bk' \<and> queue_sorted bk' \<and>
    (\<forall>i. om_get (bk_orders bk') i = (case map_of (map (\<lambda>ord. (ord_id ord, ord)) os) i of
       Some ord \<Rightarrow> Some ord | None \<Rightarrow> om_get (bk_orders bk1) i))"
    using Cons.prems(4) d(2) by (intro Cons.IH [OF bk1(1) qs d(1)]) (auto simp: bk1(2) image_iff)
  then obtain bk' where bk': "foldr_res restore_active_order os bk1 = Ok bk'" "book_ok bk'" "queue_sorted bk'"
    "\<And>i. om_get (bk_orders bk') i = (case map_of (map (\<lambda>ord. (ord_id ord, ord)) os) i of
       Some ord \<Rightarrow> Some ord | None \<Rightarrow> om_get (bk_orders bk1) i)" by blast
  have "map_of (map (\<lambda>ord. (ord_id ord, ord)) os) (ord_id o1) = None"
    using d(2) by (auto simp: map_of_eq_None_iff)
  then show ?case using r bk' by (auto simp: bk1(2) split: option.splits)
qed (auto split: option.splits)

lemma take_then_restore:
  assumes "book_ok bk" and "queue_sorted bk" and "take_active_orders bk = (os, bk0)"
  shows "foldr_res restore_active_order os bk0 = Ok bk"
proof -
  let ?o = "bk_orders bk"
  have ok: "om_ok ?o" "resting_ok ?o" using assms(1) by (auto simp: book_ok_def)
  have os: "os = sort_key (\<lambda>ord. (ord_sequence ord, ord_id ord)) (om_values ?o)" and bk0: "bk0 = empty_book"
    using assms(3) by (simp_all add: take_active_all [OF assms(1)])
  have mem: "ord \<in> set os \<longleftrightarrow> (\<exists>i. om_get ?o i = Some ord)" for ord
    by (simp add: os om_values_get [OF ok(1)])
  have ids: "map ord_id (om_values ?o) = map fst ?o"
    using om_in_set_get [OF ok(1)] resting_get [OF ok(2)] by (auto simp: om_values_def)
  have "distinct (map ord_id (om_values ?o))" unfolding ids by (rule om_ok_distinct [OF ok(1)])
  then have d: "distinct (map ord_id os)" by (simp add: os distinct_map)
  have e: "book_ok empty_book" "queue_sorted empty_book"
    by simp (simp add: queue_sorted_def empty_book_def side_split)
  obtain bk' where r: "foldr_res restore_active_order os empty_book = Ok bk'" "book_ok bk'" "queue_sorted bk'"
    and get: "\<And>i. om_get (bk_orders bk') i = (case map_of (map (\<lambda>ord. (ord_id ord, ord)) os) i of
       Some ord \<Rightarrow> Some ord | None \<Rightarrow> om_get (bk_orders empty_book) i)"
    using restore_all [OF e d] mem resting_get [OF ok(2)] by (fastforce simp: empty_book_def)
  have "map_of (map (\<lambda>ord. (ord_id ord, ord)) os) i = om_get ?o i" for i
  proof (cases "om_get ?o i")
    case None
    then show ?thesis using mem resting_get [OF ok(2)] by (force simp: map_of_eq_None_iff)
  next
    case (Some ord)
    then have "ord \<in> set os" "ord_id ord = i" using mem resting_get [OF ok(2)] by auto
    then have "(i, ord) \<in> set (map (\<lambda>ord. (ord_id ord, ord)) os)" by auto
    then show ?thesis using d Some by (intro map_of_is_SomeI [THEN trans]) (auto simp: comp_def)
  qed
  then have "om_get (bk_orders bk') i = om_get ?o i" for i by (simp add: get empty_book_def split: option.splits)
  then have "bk_orders bk' = ?o" using r(2) ok by (intro om_extensionality) (auto simp: book_ok_def)
  then have "bk' = bk" using book_determined [OF r(2,3) assms(1,2)] by simp
  with r(1) show ?thesis by (simp add: bk0)
qed

section \<open>Batch fills\<close>

context decimal_arith
begin

lemma apply_batch_fill_Ok:
  assumes "apply_batch_fill D oid n bk = Ok (bf, bk')" and "book_ok bk" and "book_num g bk" and "on_grid g n"
  shows "book_ok bk'" and "book_num g bk'" and "0 < n"
    and "\<exists>ord. om_get (bk_orders bk) oid = Some ord \<and> n \<le> ord_remaining ord \<and>
      ord_remaining (bf_order bf) = ord_remaining ord - n \<and> bf_terminal bf = (ord_remaining ord = n) \<and>
      order_static (bf_order bf) = order_static ord \<and>
      om_get (bk_orders bk') oid = (if bf_terminal bf then None else Some (bf_order bf))"
    and "\<And>i. i \<noteq> oid \<Longrightarrow> om_get (bk_orders bk') i = om_get (bk_orders bk) i"
proof -
  have pos: "0 < n" using assms(1) by (auto simp: apply_batch_fill_def split: if_splits)
  then obtain ord where get: "om_get (bk_orders bk) oid = Some ord" and act: "is_active ord" and le: "n \<le> ord_remaining ord"
    using assms(1) by (auto simp: apply_batch_fill_def split: if_splits)
  have num: "on_grid g (ord_remaining ord)" "money_ok (ord_reserved_margin ord)"
    using book_num_get [OF assms(3) get] by auto
  have rest: "ord_id ord = oid" "0 < ord_remaining ord" using resting_get [OF _ get] assms(2) by (auto simp: book_ok_def)
  have grid: "on_grid g (ord_remaining ord - n)" using num(1) assms(4) pos le by (intro on_grid_diff) auto
  have sub: "d_sub D (ord_remaining ord) n = Some (ord_remaining ord - n)"
    using grid by (intro sub_exact on_grid_representable)
  let ?rel = "proportional_release D (ord_reserved_margin ord) (ord_remaining ord) n"
  obtain rm where rm: "d_sub D (ord_reserved_margin ord) ?rel = Some rm"
    using assms(1) pos le get act sub by (auto simp: apply_batch_fill_def Let_def)
  have money: "money_ok rm"
    using proportional_release_bounds [OF num(2)] sub_nonneg [OF rm] op_representable(2) [OF rm] by (auto simp: money_ok_def)
  let ?o = "ord\<lparr>ord_remaining := ord_remaining ord - n, ord_reserved_margin := rm,
    ord_status := if ord_remaining ord - n = 0 then Filled else PartiallyFilled\<rparr>"
  have res: "bf = \<lparr>bf_order = ?o, bf_margin_release = ?rel, bf_terminal = (ord_remaining ord = n)\<rparr>"
    "bk' = (if ord_remaining ord = n then drop_order oid ord bk else bk\<lparr>bk_orders := om_insert oid ?o (bk_orders bk)\<rparr>)"
    using assms(1) pos le get act sub rm by (auto simp: apply_batch_fill_def drop_order_def Let_def split: if_splits)
  show "0 < n" by (rule pos)
  show "book_ok bk'"
    using assms(2) get rest le by (auto simp: res(2) book_ok_drop is_active_def intro!: book_ok_update)
  show "book_num g bk'"
    using assms(3) grid money by (auto simp: res(2) book_num_drop intro!: book_num_insert)
  show "\<exists>ord. om_get (bk_orders bk) oid = Some ord \<and> n \<le> ord_remaining ord \<and>
      ord_remaining (bf_order bf) = ord_remaining ord - n \<and> bf_terminal bf = (ord_remaining ord = n) \<and>
      order_static (bf_order bf) = order_static ord \<and>
      om_get (bk_orders bk') oid = (if bf_terminal bf then None else Some (bf_order bf))"
    using get le by (auto simp: res order_static_def)
  show "om_get (bk_orders bk') i = om_get (bk_orders bk) i" if "i \<noteq> oid" for i
    using that by (simp add: res(2))
qed

end

section \<open>Removing finished orders\<close>

lemma take_terminal_none:
  assumes "book_ok bk"
  shows "take_terminal_orders bk = ([], bk)"
proof -
  have "filter (\<lambda>ord. \<not> is_active ord) (om_values (bk_orders bk)) = []"
    using assms om_values_get resting_get by (fastforce simp: filter_empty_conv book_ok_def)
  then show ?thesis by (simp add: take_terminal_orders_def)
qed

end
