(* ===== verification/Orderbook_Fok.thy ===== *)
theory Orderbook_Fok
  imports Orderbook_Props
begin

text \<open>
  Fill-or-kill. \<open>can_fully_fill\<close> adds up the quantities an order could trade with; the matching loop
  keeps the difference between that sum and the open quantity of the order constant. So an order that
  passes the test is filled.
\<close>

section \<open>The quantity an order can trade with\<close>

definition tradable :: "side \<Rightarrow> decimal \<Rightarrow> account_id \<Rightarrow> order \<Rightarrow> decimal" where
  "tradable s limit taker ord =
     (if ord_side ord = opposite s \<and> ord_account_id ord \<noteq> taker \<and> better_eq s (ord_limit_price ord) limit
      then ord_remaining ord else 0)"

definition liquidity :: "side \<Rightarrow> decimal \<Rightarrow> account_id \<Rightarrow> order_book \<Rightarrow> decimal" where
  "liquidity s limit taker bk = om.total (\<lambda>i. tradable s limit taker) (bk_orders bk)"

abbreviation incoming_liquidity :: "match_state \<Rightarrow> decimal" where
  "incoming_liquidity st \<equiv> liquidity (ord_side (mt_incoming st)) (ord_limit_price (mt_incoming st))
     (ord_account_id (mt_incoming st)) (mt_book st)"

lemma tradable_nonneg: "resting_ok orders \<Longrightarrow> om_get orders i = Some ord \<Longrightarrow> 0 \<le> tradable s l a ord"
  using resting_get [of orders i ord] by (auto simp: tradable_def)

context decimal_arith
begin

lemma round_liquidity:
  assumes "match_round D y z" and "match_inv g y"
  shows "incoming_liquidity z - ord_remaining (mt_incoming z) = incoming_liquidity y - ord_remaining (mt_incoming y)"
proof (rule round_elim [OF assms])
  have ok: "om_ok (bk_orders (mt_book y))" using assms(2) by (simp add: match_inv_def book_ok_def)
  {
    fix mid maker
    assume "om_get (bk_orders (mt_book y)) mid = Some maker" "z = after_self_trade mid maker y"
      "ord_account_id maker = ord_account_id (mt_incoming y)"
    with ok show ?thesis by (simp add: liquidity_def om.total_del tradable_def)
  next
    fix mid maker fill ir mr trel mrel
    assume mk: "om_get (bk_orders (mt_book y)) mid = Some maker"
      "ord_side maker = opposite (ord_side (mt_incoming y))"
      "ord_account_id maker \<noteq> ord_account_id (mt_incoming y)"
      "better_eq (ord_side (mt_incoming y)) (ord_limit_price maker) (ord_limit_price (mt_incoming y))"
      and z: "z = after_fill mid maker fill ir mr trel mrel y"
    show ?thesis
      using ok mk by (auto simp: z liquidity_def om.total_del om.total_ins_upd tradable_def)
  }
qed

lemma rounds_liquidity:
  assumes "(match_round D)\<^sup>*\<^sup>* st st'" and "match_inv g st"
  shows "incoming_liquidity st' - ord_remaining (mt_incoming st') =
    incoming_liquidity st - ord_remaining (mt_incoming st)"
  using assms
proof (induction rule: rtranclp_induct)
  case (step y z)
  then show ?case using round_liquidity [of y z g] rounds_match_inv [of st y g] by simp
qed simp

end

lemma total_eq_0:
  "om_ok m \<Longrightarrow> (\<And>k v. om_get m k = Some v \<Longrightarrow> f k v = 0) \<Longrightarrow> om.total f m = (0 :: 'a::ab_group_add)"
  by (auto simp: om.total_eq_sum intro!: sum.neutral)

lemma stopped_liquidity:
  assumes "match_inv g st" and "stopped st" and "0 < ord_remaining (mt_incoming st)"
  shows "incoming_liquidity st = 0"
proof -
  let ?s = "ord_side (mt_incoming st)" and ?l = "ord_limit_price (mt_incoming st)" and ?bk = "mt_book st"
  have ok: "book_ok ?bk" using assms(1) by (simp add: match_inv_def)
  have "tradable ?s ?l (ord_account_id (mt_incoming st)) ord = 0" if get: "om_get (bk_orders ?bk) i = Some ord" for i ord
  proof (cases "best_opposite ?bk ?s = Ok None")
    case True
    then have "ord_side ord = ?s" using best_opposite_None [OF ok _ get] by simp
    then show ?thesis by (cases ?s) (auto simp: tradable_def)
  next
    case False
    then obtain p mid where b: "best_opposite ?bk ?s = Ok (Some (p, mid))" and nc: "\<not> better_eq ?s p ?l"
      using assms(2,3) by (auto simp: stopped_def crosses_better)
    have "better_eq ?s p (ord_limit_price ord)" if "ord_side ord = opposite ?s"
      by (rule best_opposite_Some [OF ok b]) (use get that in auto)
    with nc show ?thesis using better_eq_trans by (auto simp: tradable_def)
  qed
  then show ?thesis using ok unfolding liquidity_def by (intro total_eq_0) (auto simp: book_ok_def)
qed

section \<open>The test\<close>

definition queue_quantity :: "(uuid, order) omap \<Rightarrow> account_id \<Rightarrow> uuid list \<Rightarrow> decimal" where
  "queue_quantity orders taker q = (\<Sum>i\<leftarrow>q. case om_get orders i of None \<Rightarrow> 0
     | Some ord \<Rightarrow> if ord_account_id ord = taker then 0 else ord_remaining ord)"

lemma on_grid_add:
  assumes "on_grid s x" and "on_grid s y" and "on_grid s q" and "0 \<le> x" and "0 \<le> y" and "x + y \<le> q"
  shows "on_grid s (x + y)"
proof -
  have "on_grid s (q - x)" using assms by (intro on_grid_diff) auto
  then have "on_grid s (q - (q - x - y))" using assms by (intro on_grid_diff) auto
  then show ?thesis by simp
qed

context decimal_arith
begin

lemma fillable_queue_sum:
  assumes "fillable_queue D orders taker n q av = Ok r" and "resting_ok orders"
    and "\<forall>i ord. om_get orders i = Some ord \<longrightarrow> on_grid g (ord_remaining ord)"
    and "on_grid g n" and "on_grid g av" and "0 \<le> av" and "av < n"
  shows "case r of Inl _ \<Rightarrow> n \<le> av + queue_quantity orders taker q
    | Inr av' \<Rightarrow> av' = av + queue_quantity orders taker q \<and> on_grid g av' \<and> 0 \<le> av' \<and> av' < n"
  using assms
proof (induction q arbitrary: av)
  case Nil
  then show ?case by (auto simp: queue_quantity_def)
next
  case (Cons oid q)
  obtain ord where ord: "om_get orders oid = Some ord" using Cons.prems by auto
  have g: "on_grid g (ord_remaining ord)" and pos: "0 < ord_remaining ord"
    using Cons.prems(3) ord resting_get [OF Cons.prems(2) ord] by auto
  have rest: "0 \<le> queue_quantity orders taker q"
    using resting_get [OF Cons.prems(2)]
    by (fastforce simp: queue_quantity_def intro!: sum_list_nonneg split: option.splits)
  show ?case
  proof (cases "ord_account_id ord = taker")
    case True
    then have "queue_quantity orders taker (oid # q) = queue_quantity orders taker q"
      using ord by (simp add: queue_quantity_def)
    moreover have "fillable_queue D orders taker n q av = Ok r" using Cons.prems(1) ord True by simp
    ultimately show ?thesis using Cons.IH [OF _ Cons.prems(2-7)] by (cases r) simp_all
  next
    case False
    then obtain av' where add: "d_add D av (ord_remaining ord) = Some av'" using Cons.prems ord by auto
    show ?thesis
    proof (cases "n \<le> av + ord_remaining ord")
      case True
      then have "n \<le> av'"
        using add_faithful [OF add] Cons.prems(4) by (auto intro: faithful_ge on_grid_representable)
      then have "r = Inl ()" using Cons.prems(1) ord False add by simp
      then show ?thesis using True rest ord False by (simp add: queue_quantity_def)
    next
      case small: False
      then have "on_grid g (av + ord_remaining ord)"
        using Cons.prems(4-6) g pos by (intro on_grid_add [of g av "ord_remaining ord" n]) auto
      moreover from this have "av' = av + ord_remaining ord" using add by (simp add: add_exact on_grid_representable)
      ultimately show ?thesis
        using Cons.IH [of av'] Cons.prems ord False add small pos by (auto simp: queue_quantity_def add.assoc split: sum.splits)
    qed
  qed
qed

lemma fillable_levels_sum:
  assumes "fillable_levels D orders s limit taker n ls av = Ok True" and "resting_ok orders"
    and "\<forall>i ord. om_get orders i = Some ord \<longrightarrow> on_grid g (ord_remaining ord)"
    and "on_grid g n" and "on_grid g av" and "0 \<le> av" and "av < n"
  shows "n \<le> av + queue_quantity orders taker (concat (map snd (filter (\<lambda>(p, q). better_eq s p limit) ls)))"
  using assms
proof (induction ls arbitrary: av)
  case (Cons l ls)
  obtain p q where l: "l = (p, q)" by (cases l)
  have c: "better_eq s p limit" using Cons.prems(1) by (auto simp: l crosses_better split: if_splits)
  obtain r where r: "fillable_queue D orders taker n q av = Ok r" using Cons.prems(1) c by (auto simp: l crosses_better)
  have nonneg: "0 \<le> queue_quantity orders taker q'" for q'
    using resting_get [OF Cons.prems(2)]
    by (fastforce simp: queue_quantity_def intro!: sum_list_nonneg split: option.splits)
  have app: "queue_quantity orders taker (q1 @ q2) = queue_quantity orders taker q1 + queue_quantity orders taker q2" for q1 q2
    by (simp add: queue_quantity_def)
  note sum = fillable_queue_sum [OF r Cons.prems(2-7)]
  show ?case
  proof (cases r)
    case (Inl u)
    then have "n \<le> av + queue_quantity orders taker q" using sum by simp
    then show ?thesis
      using c nonneg [of "concat (map snd (filter (\<lambda>(p, q). better_eq s p limit) ls))"] by (simp add: l app)
  next
    case (Inr av')
    then have "n \<le> av' + queue_quantity orders taker (concat (map snd (filter (\<lambda>(p, q). better_eq s p limit) ls)))"
      using Cons.prems(1) r c sum by (intro Cons.IH [OF _ Cons.prems(2-4)]) (auto simp: l crosses_better)
    then show ?thesis using sum Inr c by (simp add: l app)
  qed
qed simp

end

text \<open>The queues of a side hold every order of the side once.\<close>

lemma sum_list_le_total:
  fixes f :: "order \<Rightarrow> decimal"
  assumes "om_ok orders" and "distinct is" and "\<And>k v. om_get orders k = Some v \<Longrightarrow> 0 \<le> f v"
  shows "(\<Sum>i\<leftarrow>is. case om_get orders i of None \<Rightarrow> 0 | Some ord \<Rightarrow> f ord) \<le> om.total (\<lambda>i. f) orders"
proof -
  let ?h = "\<lambda>i. case om_get orders i of None \<Rightarrow> 0 | Some ord \<Rightarrow> f ord"
  have "(\<Sum>i\<leftarrow>is. ?h i) = (\<Sum>i \<in> set is. ?h i)" using assms(2) by (rule sum_list_distinct_conv_sum_set)
  also have "\<dots> = (\<Sum>i \<in> set is \<inter> dom (om_get orders). ?h i)"
    by (rule sum.mono_neutral_right) (auto split: option.splits)
  also have "\<dots> \<le> (\<Sum>i \<in> dom (om_get orders). ?h i)"
    using assms(3) by (intro sum_mono2) (auto simp: om.finite_dom_get)
  also have "\<dots> = om.total (\<lambda>i. f) orders"
    using assms(1) by (auto simp: om.total_eq_sum intro!: sum.cong)
  finally show ?thesis .
qed

lemma distinct_queues:
  assumes "distinct (map fst ls)" and "\<And>p q. (p, q) \<in> set ls \<Longrightarrow> distinct q \<and> set q \<subseteq> ids_at orders s p"
  shows "distinct (concat (map snd ls))"
  using assms
proof (induction ls)
  case (Cons l ls)
  obtain p q where l: "l = (p, q)" by (cases l)
  have "distinct (concat (map snd ls))" using Cons by auto
  moreover have "set q \<inter> set (concat (map snd ls)) = {}"
  proof (rule ccontr)
    assume "set q \<inter> set (concat (map snd ls)) \<noteq> {}"
    then obtain i p' q' where i: "i \<in> set q" "(p', q') \<in> set ls" "i \<in> set q'" by auto
    then have "i \<in> ids_at orders s p" "i \<in> ids_at orders s p'" using Cons.prems(2) by (auto simp: l)
    then have "p = p'" by (auto simp: ids_at_def)
    with i(2) Cons.prems(1) show False by (force simp: l)
  qed
  ultimately show ?case using Cons.prems(2) [of p q] by (simp add: l)
qed simp

lemma best_first_levels:
  assumes "book_ok bk"
  shows "distinct (map fst (best_first bk s))"
    and "(p, q) \<in> set (best_first bk s) \<Longrightarrow> distinct q \<and> set q = ids_at (bk_orders bk) (opposite s) p"
proof -
  have ok: "side_ok (bk_orders bk) (opposite s) (side_levels bk (opposite s))"
    using assms by (simp add: book_ok_side)
  note lv = side_okD(1) [OF ok]
  have same: "set (best_first bk s) = set (side_levels bk (opposite s))" by (cases s) auto
  show "distinct (map fst (best_first bk s))"
    using om_ok_distinct [OF lv] by (cases s) (simp_all flip: rev_map)
  show "distinct q \<and> set q = ids_at (bk_orders bk) (opposite s) p" if "(p, q) \<in> set (best_first bk s)"
    using side_okD(2) [OF ok om_in_set_get [OF lv, THEN iffD1]] that same by blast
qed

context decimal_arith
begin

lemma can_fully_fill_liquidity:
  assumes "can_fully_fill D bk s limit n taker = Ok True" and "book_ok bk" and "book_num g bk"
    and "on_grid g n" and "0 < n"
  shows "n \<le> liquidity s limit taker bk"
proof -
  let ?o = "bk_orders bk" and ?ls = "filter (\<lambda>(p, q). better_eq s p limit) (best_first bk s)"
  let ?q = "concat (map snd ?ls)"
  have ok: "om_ok ?o" "resting_ok ?o" using assms(2) by (auto simp: book_ok_def)
  have "on_grid g 0" using assms(4) by (simp add: on_grid_def dec_limit_def)
  then have "n \<le> queue_quantity ?o taker ?q"
    using fillable_levels_sum [OF assms(1) [unfolded can_fully_fill_def] ok(2) _ assms(4) _ _ assms(5)]
      book_num_get [OF assms(3)] by simp
  also have "\<dots> = (\<Sum>i\<leftarrow>?q. case om_get ?o i of None \<Rightarrow> 0 | Some ord \<Rightarrow> tradable s limit taker ord)"
    unfolding queue_quantity_def
  proof (rule arg_cong [of _ _ sum_list], rule map_cong [OF refl])
    fix i
    assume "i \<in> set ?q"
    then obtain p q where "(p, q) \<in> set (best_first bk s)" "better_eq s p limit" "i \<in> set q" by auto
    then have "i \<in> ids_at ?o (opposite s) p" "better_eq s p limit" using best_first_levels(2) [OF assms(2)] by auto
    then show "(case om_get ?o i of None \<Rightarrow> 0 | Some ord \<Rightarrow> if ord_account_id ord = taker then 0 else ord_remaining ord) =
      (case om_get ?o i of None \<Rightarrow> 0 | Some ord \<Rightarrow> tradable s limit taker ord)"
      by (auto simp: ids_at_def tradable_def)
  qed
  also have "\<dots> \<le> liquidity s limit taker bk"
    unfolding liquidity_def
  proof (rule sum_list_le_total [OF ok(1)])
    show "distinct ?q"
    proof (rule distinct_queues)
      show "distinct (map fst ?ls)"
        using best_first_levels(1) [OF assms(2), of s] by (rule distinct_map_filter)
      show "distinct q \<and> set q \<subseteq> ids_at ?o (opposite s) p" if "(p, q) \<in> set ?ls" for p q
        using that best_first_levels(2) [OF assms(2), of p q s] by auto
    qed
  qed (use ok(2) tradable_nonneg in blast)
  finally show ?thesis .
qed

lemma can_fully_fill_execute:
  assumes "can_fully_fill D bk (ord_side inc) (ord_limit_price inc) (ord_remaining inc) (ord_account_id inc) = Ok True"
    and "book_ok bk" and "book_num g bk" and "incoming_ok g bk inc" and "execute D inc bk = Ok (bk', ex)"
  shows "ord_remaining (ex_order ex) = 0 \<and> ord_status (ex_order ex) = Filled"
proof -
  note inv = start_inv [OF assms(2-4)]
  obtain st where r: "(match_round D)\<^sup>*\<^sup>* (start_state bk inc) st" "stopped st" and f: "finish_execution D st = Ok (bk', ex)"
    using execute_rounds [OF assms(5)] by blast
  note inv' = rounds_match_inv [OF r(1) inv]
  have "ord_remaining inc \<le> liquidity (ord_side inc) (ord_limit_price inc) (ord_account_id inc) bk"
    using assms by (intro can_fully_fill_liquidity [of bk _ _ _ _ g]) (auto simp: incoming_ok_def)
  then have "ord_remaining (mt_incoming st) \<le> incoming_liquidity st"
    using rounds_liquidity [OF r(1) inv] by simp
  then have "ord_remaining (mt_incoming st) = 0"
    using stopped_liquidity [OF inv' r(2)] inv' by (auto simp: match_inv_def order.order_iff_strict)
  with f show ?thesis by (cases rule: finish_cases) auto
qed

end

end
