(* ===== verification/Orderbook_Theorems.thy ===== *)
theory Orderbook_Theorems
  imports Orderbook_Ops Orderbook_Fok
begin

text \<open>
  The properties of the order book, each with its evaluation on a small book: one resting sell order of
  five units at 100 and an incoming buy order of seven at 101.
\<close>

section \<open>The example\<close>

definition w_maker :: order where
  "w_maker = \<lparr>ord_id = 1, ord_account_id = ''alice'', ord_client_order_id = ''a1'', ord_symbol = ''BTC'',
     ord_side = Sell, ord_kind = Limit, ord_quantity = 5, ord_remaining = 5, ord_limit_price = 100,
     ord_leverage = 10, ord_time_in_force = Gtc, ord_reduce_only = False, ord_reserved_margin = 50,
     ord_sequence = 1, ord_status = Open\<rparr>"

definition w_taker :: order where
  "w_taker = w_maker\<lparr>ord_id := 2, ord_account_id := ''bob'', ord_client_order_id := ''b1'', ord_side := Buy,
     ord_quantity := 7, ord_remaining := 7, ord_limit_price := 101, ord_reserved_margin := 70, ord_sequence := 2\<rparr>"

definition w_small :: order where
  "w_small = w_taker\<lparr>ord_quantity := 3, ord_remaining := 3, ord_time_in_force := Fok, ord_reserved_margin := 30\<rparr>"

definition w_book :: order_book where
  "w_book = \<lparr>bk_bids = [], bk_asks = [(100, [1])], bk_orders = [(1, w_maker)]\<rparr>"

lemma w_book_push: "w_book = (push_level (ord_side w_maker) (ord_limit_price w_maker) (ord_id w_maker) empty_book)
    \<lparr>bk_orders := om_insert (ord_id w_maker) w_maker (bk_orders empty_book)\<rparr>"
  by (simp add: w_book_def empty_book_def push_level_def push_queue_def w_maker_def)

lemma bk_orders_empty: "bk_orders empty_book = []"
  by (simp add: empty_book_def)

lemma w_book_ok: "book_ok w_book"
  unfolding w_book_push using book_ok_empty
  by (intro book_ok_push) (simp_all add: w_maker_def is_active_def bk_orders_empty)

lemma w_book_fifo: "fifo_ok w_book"
  unfolding w_book_push using book_ok_empty fifo_empty by (intro fifo_push) (simp_all add: bk_orders_empty)

lemma w_book_sorted: "queue_sorted w_book"
  by (auto simp: queue_sorted_def side_split w_book_def om_get_def split: if_splits)

lemma w_grid: "on_grid 0 5" "on_grid 0 7" "on_grid 0 3" "money_ok 50" "money_ok 70" "money_ok 30"
  by (simp_all add: money_ok_def on_grid_numeral representable_numeral dec_limit_def)

lemma w_book_num: "book_num 0 w_book"
  using w_grid by (simp add: book_num_def w_book_def w_maker_def)

lemma w_incoming: "incoming_ok 0 w_book w_taker" "incoming_ok 0 w_book w_small"
  using w_grid by (simp_all add: incoming_ok_def w_book_def w_taker_def w_small_def w_maker_def om_get_def)

lemma w_run: "\<exists>bk' ex. execute dec28 w_taker w_book = Ok (bk', ex) \<and> map rf_quantity (ex_fills ex) = [5] \<and>
    ord_remaining (ex_order ex) = 2 \<and> om_keys (bk_orders bk') = [2]"
proof -
  have "(case execute dec28 w_taker w_book of Ok (bk', ex) \<Rightarrow> map rf_quantity (ex_fills ex) = [5] \<and>
    ord_remaining (ex_order ex) = 2 \<and> om_keys (bk_orders bk') = [2] | _ \<Rightarrow> False)"
    by code_simp
  then show ?thesis by (auto split: res.splits)
qed

lemma w_run_exact: "\<exists>bk' ex. execute dec28x w_taker w_book = Ok (bk', ex) \<and>
    map rf_maker_margin_release (ex_fills ex) = [50] \<and> map rf_taker_margin_release (ex_fills ex) = [50]"
proof -
  have "(case execute dec28x w_taker w_book of Ok (bk', ex) \<Rightarrow> map rf_maker_margin_release (ex_fills ex) = [50] \<and>
    map rf_taker_margin_release (ex_fills ex) = [50] | _ \<Rightarrow> False)"
    by code_simp
  then show ?thesis by (auto split: res.splits)
qed

section \<open>Matching\<close>

text \<open>C6: On a well-formed book with quantities on a common grid, \<open>execute\<close> never panics, fails or loops:
  it returns, and the book it leaves is well-formed. In a well-formed book every resting order is active
  with a positive quantity and is in exactly the queue of its side and price.\<close>

theorem execute_total:
  assumes "decimal_range D" and "book_ok bk" and "book_num g bk" and "incoming_ok g bk inc"
  shows "\<exists>bk' ex. execute D inc bk = Ok (bk', ex) \<and> book_ok bk' \<and> book_num g bk'"
  using assms by (rule decimal_range.execute_returns)

theorem execute_total_witness: "\<exists>bk' ex. execute dec28 w_taker w_book = Ok (bk', ex) \<and> book_ok bk' \<and> book_num 0 bk'"
  using execute_total [OF dec28.decimal_range_axioms w_book_ok w_book_num w_incoming(1)] .

text \<open>C7: The fills of an execution and the open remainder add up to the incoming quantity; every fill has a
  positive quantity, is at the price of its maker and within the limit of the taker, joins opposite sides
  and two different accounts; the incoming order keeps its identity and terms.\<close>

theorem execute_fills:
  assumes "decimal_arith D" and "book_ok bk" and "book_num g bk" and "incoming_ok g bk inc"
    and "execute D inc bk = Ok (bk', ex)"
  shows "fills_quantity (ex_fills ex) + ord_remaining (ex_order ex) = ord_remaining inc \<and>
    0 \<le> ord_remaining (ex_order ex) \<and> (\<forall>f \<in> set (ex_fills ex). fill_sound bk inc f) \<and>
    order_static (ex_order ex) = order_static inc"
  using decimal_arith.execute_sound [OF assms(1,5,2-4)] by blast

theorem execute_fills_witness: "\<exists>ex bk'. execute dec28 w_taker w_book = Ok (bk', ex) \<and> map rf_quantity (ex_fills ex) = [5] \<and>
    (\<forall>f \<in> set (ex_fills ex). fill_sound w_book w_taker f)"
  using w_run execute_fills [OF dec28.decimal_arith_axioms w_book_ok w_book_num w_incoming(1)] by (metis (lifting))

text \<open>C8: Price-time priority. The fills of an execution are in the order of price, best first, and then of
  the sequence numbers of the makers; no order left on the opposite side was due before a fill; and the
  queues stay in sequence order when the incoming order is the newest.\<close>

theorem execute_price_time_priority:
  assumes "decimal_arith D" and "book_ok bk" and "book_num g bk" and "incoming_ok g bk inc" and "fifo_ok bk"
    and "execute D inc bk = Ok (bk', ex)"
  shows "sorted_wrt (\<lambda>f f'. precedes (ord_side inc) (fill_key bk f) (fill_key bk f')) (ex_fills ex) \<and>
    (\<forall>f \<in> set (ex_fills ex). \<forall>(i, ord) \<in> set (bk_orders bk'). i \<noteq> ord_id inc \<longrightarrow>
      ord_side ord = opposite (ord_side inc) \<longrightarrow> precedes (ord_side inc) (fill_key bk f) (order_key ord)) \<and>
    ((\<forall>i ord. om_get (bk_orders bk) i = Some ord \<longrightarrow> ord_sequence ord \<le> ord_sequence inc) \<longrightarrow> fifo_ok bk')"
  using decimal_arith.execute_priority [OF assms(1,6,2-5)] by blast

theorem execute_price_time_priority_witness:
  "\<exists>bk' ex. execute dec28 w_taker w_book = Ok (bk', ex) \<and> map rf_quantity (ex_fills ex) = [5] \<and> fifo_ok bk'"
proof -
  obtain bk' ex where r: "execute dec28 w_taker w_book = Ok (bk', ex)" "map rf_quantity (ex_fills ex) = [5]"
    using w_run by auto
  have "\<forall>i ord. om_get (bk_orders w_book) i = Some ord \<longrightarrow> ord_sequence ord \<le> ord_sequence w_taker"
    by (simp add: w_book_def om_get_def w_maker_def w_taker_def)
  then have "fifo_ok bk'"
    using execute_price_time_priority [OF dec28.decimal_arith_axioms w_book_ok w_book_num w_incoming(1) w_book_fifo r(1)]
    by blast
  with r show ?thesis by auto
qed

text \<open>C17: An execution leaves no crossed prices: if every bid of the book was below every ask, so it is
  afterwards, with the remainder of the incoming order resting.\<close>

theorem execute_uncrossed:
  assumes "decimal_arith D" and "book_ok bk" and "book_num g bk" and "incoming_ok g bk inc" and "uncrossed bk"
    and "execute D inc bk = Ok (bk', ex)"
  shows "uncrossed bk'"
  using decimal_arith.execute_keeps_uncrossed [OF assms(1,6,2-5)] .

theorem execute_uncrossed_witness: "\<exists>bk' ex. execute dec28 w_taker w_book = Ok (bk', ex) \<and> om_keys (bk_orders bk') = [2] \<and> uncrossed bk'"
proof -
  have "uncrossed w_book" by (simp add: uncrossed_def w_book_def w_maker_def)
  then show ?thesis
    using w_run execute_uncrossed [OF dec28.decimal_arith_axioms w_book_ok w_book_num w_incoming(1)] by blast
qed

text \<open>C15: Fill-or-kill. When \<open>can_fully_fill\<close> answers yes for an order, executing the order fills it: nothing
  remains and its status is filled.\<close>

theorem fill_or_kill_fills:
  assumes "decimal_arith D" and "book_ok bk" and "book_num g bk" and "incoming_ok g bk inc"
    and "can_fully_fill D bk (ord_side inc) (ord_limit_price inc) (ord_remaining inc) (ord_account_id inc) = Ok True"
    and "execute D inc bk = Ok (bk', ex)"
  shows "ord_remaining (ex_order ex) = 0 \<and> ord_status (ex_order ex) = Filled"
  using decimal_arith.can_fully_fill_execute [OF assms(1,5,2-4,6)] .

theorem fill_or_kill_fills_witness:
  "\<exists>bk' ex. execute dec28 w_small w_book = Ok (bk', ex) \<and> ord_remaining (ex_order ex) = 0"
proof -
  have "can_fully_fill dec28 w_book (ord_side w_small) (ord_limit_price w_small) (ord_remaining w_small) (ord_account_id w_small) = Ok True"
    by code_simp
  moreover have "\<exists>bk' ex. execute dec28 w_small w_book = Ok (bk', ex)"
    using dec28.execute_returns [OF w_book_ok w_book_num w_incoming(2)] by blast
  ultimately show ?thesis
    using fill_or_kill_fills [OF dec28.decimal_arith_axioms w_book_ok w_book_num w_incoming(2)] by blast
qed



section \<open>The other operations\<close>

text \<open>C18: Freezing the active orders for a batch empties the book and returns every order once; restoring
  them in that order gives back the same book, queue positions included.\<close>

theorem freeze_restore_round_trip:
  assumes "book_ok bk" and "queue_sorted bk" and "take_active_orders bk = (os, bk0)"
  shows "bk0 = empty_book \<and> mset os = mset (om_values (bk_orders bk)) \<and> foldr_res restore_active_order os bk0 = Ok bk"
  using take_then_restore [OF assms] take_active_all [OF assms(1)] assms(3) by simp

theorem freeze_restore_round_trip_witness:
  "foldr_res restore_active_order [w_maker] empty_book = Ok w_book"
proof -
  have "take_active_orders w_book = ([w_maker], empty_book)" by code_simp
  then show ?thesis using freeze_restore_round_trip [OF w_book_ok w_book_sorted] by blast
qed

text \<open>C19: A batch fill takes exactly the given quantity from one order, never more than it has, removes the
  order exactly when nothing remains, leaves every other order alone and keeps the book well-formed.\<close>

theorem batch_fill_exact:
  assumes "decimal_arith D" and "book_ok bk" and "book_num g bk" and "on_grid g n"
    and "apply_batch_fill D oid n bk = Ok (bf, bk')"
  shows "book_ok bk' \<and> book_num g bk' \<and> 0 < n \<and>
    (\<exists>ord. om_get (bk_orders bk) oid = Some ord \<and> n \<le> ord_remaining ord \<and>
      ord_remaining (bf_order bf) = ord_remaining ord - n \<and> bf_terminal bf = (ord_remaining ord = n) \<and>
      order_static (bf_order bf) = order_static ord \<and>
      om_get (bk_orders bk') oid = (if bf_terminal bf then None else Some (bf_order bf))) \<and>
    (\<forall>i. i \<noteq> oid \<longrightarrow> om_get (bk_orders bk') i = om_get (bk_orders bk) i)"
  using decimal_arith.apply_batch_fill_Ok [OF assms(1,5,2-4)] by blast

theorem batch_fill_exact_witness:
  "\<exists>bf bk'. apply_batch_fill dec28 1 3 w_book = Ok (bf, bk') \<and> ord_remaining (bf_order bf) = 2 \<and> book_ok bk'"
proof -
  have "(case apply_batch_fill dec28 1 3 w_book of Ok (bf, bk') \<Rightarrow> ord_remaining (bf_order bf) = 2 | _ \<Rightarrow> False)"
    by code_simp
  then show ?thesis
    using batch_fill_exact [OF dec28.decimal_arith_axioms w_book_ok w_book_num w_grid(3)] by (fastforce split: res.splits)
qed

text \<open>Only its owner can cancel an order: the owner gets the order back as cancelled and it is gone from
  the book and from its queue; another account gets an ownership error and an unknown id is reported.\<close>

theorem cancel_owner_only:
  assumes "book_ok bk"
  shows "cancel oid aid bk =
    (case om_get (bk_orders bk) oid of
       None \<Rightarrow> Err (OrderNotFound oid)
     | Some ord \<Rightarrow> if ord_account_id ord = aid then Ok (ord\<lparr>ord_status := Cancelled\<rparr>, drop_order oid ord bk)
         else Err (OrderOwnership oid)) \<and>
    (\<forall>ord. om_get (bk_orders bk) oid = Some ord \<longrightarrow> book_ok (drop_order oid ord bk) \<and>
      om_get (bk_orders (drop_order oid ord bk)) oid = None)"
  using assms cancel_total [OF assms] by (auto simp: cancel_errors book_ok_drop split: option.splits)

theorem cancel_owner_only_witness:
  "cancel 1 ''alice'' w_book = Ok (w_maker\<lparr>ord_status := Cancelled\<rparr>, empty_book) \<and> cancel 1 ''bob'' w_book = Err (OrderOwnership 1)"
proof -
  have "drop_order 1 w_maker w_book = empty_book" by code_simp
  then show ?thesis
    using cancel_owner_only [OF w_book_ok, of 1] by (simp add: w_book_def om_get_def) (simp add: w_maker_def)
qed

end
