(* ===== verification/Bytes.thy ===== *)
theory Bytes
  imports Prelude
begin

text \<open>
  Byte strings, big-endian encodings and the hash. A Rust string is the list of its UTF-8 bytes, as
  characters. SHA-256 is not part of this repository: it is a function parameter on byte lists.
\<close>

type_synonym bytes = "nat list"

type_synonym digest = "bytes \<Rightarrow> bytes"

definition ascii :: "string \<Rightarrow> bytes" where
  "ascii s = map of_char s"

text \<open>The 32 zero bytes, and a domain tag of the source, which ends in a zero byte.\<close>

definition zero32 :: bytes where
  "zero32 = replicate 32 0"

definition domain_tag :: "string \<Rightarrow> bytes" where
  "domain_tag s = ascii s @ [0]"

text \<open>\<open>to_be_bytes\<close> of a \<open>k\<close>-byte integer, and its inverse.\<close>

fun be_bytes :: "nat \<Rightarrow> nat \<Rightarrow> bytes" where
  "be_bytes 0 n = []"
| "be_bytes (Suc k) n = be_bytes k (n div 256) @ [n mod 256]"

definition of_be :: "bytes \<Rightarrow> nat" where
  "of_be bs = foldl (\<lambda>n b. 256 * n + b) 0 bs"

lemma length_be_bytes [simp]: "length (be_bytes k n) = k"
  by (induction k arbitrary: n) auto

lemma of_be_bytes: "of_be (be_bytes k n) = n mod 256 ^ k"
proof (induction k arbitrary: n)
  case (Suc k)
  have "n mod 256 ^ Suc k = 256 * (n div 256 mod 256 ^ k) + n mod 256"
    by (metis mod_mult2_eq mult.commute power_Suc add.commute)
  then show ?case using Suc [of "n div 256"] by (simp add: of_be_def)
qed (simp add: of_be_def)

lemma be_bytes_inject: "m < 256 ^ k \<Longrightarrow> n < 256 ^ k \<Longrightarrow> be_bytes k m = be_bytes k n \<longleftrightarrow> m = n"
  by (metis mod_less of_be_bytes)

lemma ascii_inject [simp]: "ascii s = ascii t \<longleftrightarrow> s = t"
  by (simp add: ascii_def inj_map_eq_map inj_of_char)

lemma length_ascii [simp]: "length (ascii s) = length s"
  by (simp add: ascii_def)

text \<open>
  The UTF-8 encodings of the characters with the Unicode property \<open>White_Space\<close>; \<open>trimmed\<close> decides
  whether \<open>str::trim\<close> leaves a string as it is.
\<close>

definition white_space :: "bytes \<Rightarrow> bool" where
  "white_space bs \<longleftrightarrow> bs \<in> set ([[9], [10], [11], [12], [13], [32], [0xC2, 0x85], [0xC2, 0xA0],
     [0xE1, 0x9A, 0x80], [0xE2, 0x80, 0xA8], [0xE2, 0x80, 0xA9], [0xE2, 0x80, 0xAF],
     [0xE2, 0x81, 0x9F], [0xE3, 0x80, 0x80]] @ map (\<lambda>d. [0xE2, 0x80, d]) [0x80..<0x8B])"

definition trimmed :: "string \<Rightarrow> bool" where
  "trimmed s \<longleftrightarrow> \<not> (\<exists>k \<in> {1, 2, 3}. white_space (take k (ascii s)) \<or> white_space (rev (take k (rev (ascii s)))))"

section \<open>Numbers as text\<close>

text \<open>The decimal digits of a number, and the \<open>Debug\<close> text of a byte array in its wrapper type.\<close>

fun nat_text :: "nat \<Rightarrow> string" where
  "nat_text n = (if n < 10 then [char_of (48 + n)] else nat_text (n div 10) @ [char_of (48 + n mod 10)])"

declare nat_text.simps [simp del]

definition int_text :: "int \<Rightarrow> string" where
  "int_text i = (if i < 0 then ''-'' else []) @ nat_text (nat \<bar>i\<bar>)"

fun join :: "string \<Rightarrow> string list \<Rightarrow> string" where
  "join separator [] = []"
| "join separator [t] = t"
| "join separator (t # u # ts) = t @ separator @ join separator (u # ts)"

definition debug_bytes :: "string \<Rightarrow> bytes \<Rightarrow> string" where
  "debug_bytes name bs = name @ ''(['' @ join '', '' (map nat_text bs) @ ''])''"

end
