(* ===== verification/Batch_Auction.thy ===== *)
theory Batch_Auction
  imports Domain Bytes
begin

text \<open>
  The frequent batch auction (\<open>batch_auction.rs\<close>): one uniform clearing price per batch, allocation by
  price group and pro rata within a group, atomic fill-or-kill orders, and a bounded search with a
  fallback. Prices and quantities are \<open>u64\<close> values as naturals; every addition and multiplication
  carries the check of the source. An order id is its 32 bytes, compared lexicographically; SHA-256
  is the parameter \<open>H\<close> on byte lists. The auction's \<open>Side\<close> has the constructors of the
  domain's and shares its type.
\<close>

datatype auction_kind = LimitAt nat | MarketWithin nat

datatype auction_tif = IocOrder | FokOrder

record auction_order =
  ao_id :: bytes
  ao_side :: side
  ao_kind :: auction_kind
  ao_tif :: auction_tif
  ao_quantity :: nat

record auction_config =
  ac_reference_price :: nat
  ac_commitment :: bytes

datatype allocation_status = Unfilled | PartlyFilled | FullyFilled

record allocation =
  al_order_id :: bytes
  al_executed :: nat
  al_status :: allocation_status

record auction_outcome =
  au_clearing_price :: "nat option"
  au_matched :: nat
  au_imbalance :: nat
  au_allocations :: "allocation list"

datatype auction_error =
    ZeroReferencePrice
  | ZeroLimitPrice bytes
  | ZeroQuantity bytes
  | DuplicateOrderId bytes
  | ArithmeticOverflow
  | AllocationDidNotConverge

type_synonym 'a auction = "(auction_error, 'a) res"

record candidate =
  ca_price :: nat
  ca_matched :: nat
  ca_imbalance :: nat
  ca_allocations :: "nat list"

section \<open>Validation\<close>

definition auction_add :: "nat \<Rightarrow> nat \<Rightarrow> nat auction" where
  "auction_add a b = ok_or ArithmeticOverflow (checked_add u64_max a b)"

definition auction_sub :: "nat \<Rightarrow> nat \<Rightarrow> nat auction" where
  "auction_sub a b = ok_or ArithmeticOverflow (checked_sub a b)"

text \<open>The loop over the orders: the ids seen and the totals of both sides.\<close>

fun validate_orders :: "auction_order list \<Rightarrow> bytes list \<Rightarrow> nat \<Rightarrow> nat \<Rightarrow> unit auction" where
  "validate_orders [] ids buy_total sell_total = Ok ()"
| "validate_orders (ord # orders) ids buy_total sell_total =
     (if ao_quantity ord = 0 then Err (ZeroQuantity (ao_id ord))
      else if ao_kind ord = LimitAt 0 then Err (ZeroLimitPrice (ao_id ord))
      else if ao_id ord \<in> set ids then Err (DuplicateOrderId (ao_id ord))
      else (case ao_side ord of
          Buy \<Rightarrow> bindr (auction_add buy_total (ao_quantity ord))
            (\<lambda>t. validate_orders orders (ao_id ord # ids) t sell_total)
        | Sell \<Rightarrow> bindr (auction_add sell_total (ao_quantity ord))
            (\<lambda>t. validate_orders orders (ao_id ord # ids) buy_total t)))"

definition auction_validate :: "auction_config \<Rightarrow> auction_order list \<Rightarrow> unit auction" where
  "auction_validate config orders =
     (if ac_reference_price config = 0 then Err ZeroReferencePrice
      else validate_orders orders [] 0 0)"

section \<open>Eligibility and priority\<close>

fun auction_crosses :: "auction_order \<Rightarrow> nat \<Rightarrow> bool" where
  "auction_crosses ord clearing_price =
     (case (ao_side ord, ao_kind ord) of
        (Buy, MarketWithin protection) \<Rightarrow> clearing_price \<le> protection
      | (Sell, MarketWithin protection) \<Rightarrow> protection \<le> clearing_price
      | (Buy, LimitAt price) \<Rightarrow> clearing_price \<le> price
      | (Sell, LimitAt price) \<Rightarrow> price \<le> clearing_price)"

definition eligible_indices :: "auction_order list \<Rightarrow> side \<Rightarrow> nat \<Rightarrow> nat list" where
  "eligible_indices orders side clearing_price =
     filter (\<lambda>i. ao_side (orders ! i) = side \<and> auction_crosses (orders ! i) clearing_price) [0..<length orders]"

definition checked_quantity :: "auction_order list \<Rightarrow> nat list \<Rightarrow> nat auction" where
  "checked_quantity orders indices =
     ok_or ArithmeticOverflow (try_fold (\<lambda>i total. checked_add u64_max total (ao_quantity (orders ! i))) indices 0)"

definition checked_values :: "nat list \<Rightarrow> nat auction" where
  "checked_values values = ok_or ArithmeticOverflow (try_fold (\<lambda>v total. checked_add u64_max total v) values 0)"

datatype price_group = MarketGroup | LimitGroup nat

fun price_group_of :: "auction_kind \<Rightarrow> price_group" where
  "price_group_of (MarketWithin protection) = MarketGroup"
| "price_group_of (LimitAt price) = LimitGroup price"

datatype ordering = Less | Equal | Greater

definition compare_by :: "'a::linorder \<Rightarrow> 'a \<Rightarrow> ordering" where
  "compare_by a b = (if a < b then Less else if a = b then Equal else Greater)"

fun economic_priority :: "side \<Rightarrow> auction_order \<Rightarrow> auction_order \<Rightarrow> ordering" where
  "economic_priority side left right =
     (case (price_group_of (ao_kind left), price_group_of (ao_kind right)) of
        (MarketGroup, MarketGroup) \<Rightarrow> Equal
      | (MarketGroup, LimitGroup _) \<Rightarrow> Less
      | (LimitGroup _, MarketGroup) \<Rightarrow> Greater
      | (LimitGroup l, LimitGroup r) \<Rightarrow>
          (case side of Buy \<Rightarrow> compare_by r l | Sell \<Rightarrow> compare_by l r))"

text \<open>The comparison as the key it is the order of (\<open>economic_key_compare\<close>).\<close>

definition economic_key :: "side \<Rightarrow> auction_order \<Rightarrow> nat \<times> int" where
  "economic_key side ord =
     (case price_group_of (ao_kind ord) of
        MarketGroup \<Rightarrow> (0, 0)
      | LimitGroup price \<Rightarrow> (1, case side of Buy \<Rightarrow> - int price | Sell \<Rightarrow> int price))"

definition allocation_domain :: bytes where
  "allocation_domain = ascii ''ASTERIA_BATCH_AUCTION_ALLOCATION_V1'' @ [0]"

definition allocation_priority :: "digest \<Rightarrow> bytes \<Rightarrow> bytes \<Rightarrow> bytes" where
  "allocation_priority H commitment order_id = H (allocation_domain @ commitment @ order_id)"

definition tie_key :: "digest \<Rightarrow> bytes \<Rightarrow> auction_order list \<Rightarrow> nat \<Rightarrow> bytes \<times> bytes" where
  "tie_key H commitment orders i = (allocation_priority H commitment (ao_id (orders ! i)), ao_id (orders ! i))"

section \<open>Allocation\<close>

text \<open>The loop that gives one unit each to the orders of highest priority.\<close>

fun give_remainder :: "auction_order list \<Rightarrow> nat list \<Rightarrow> nat list \<Rightarrow> nat \<Rightarrow> (nat list \<times> nat) auction" where
  "give_remainder orders [] allocs remainder = Ok (allocs, remainder)"
| "give_remainder orders (i # is) allocs remainder =
     (if remainder = 0 then Ok (allocs, remainder)
      else if allocs ! i < ao_quantity (orders ! i)
        then bindr (auction_add (allocs ! i) 1) (\<lambda>a. give_remainder orders is (allocs[i := a]) (remainder - 1))
      else give_remainder orders is allocs remainder)"

text \<open>The loop that assigns the rounded-down shares.\<close>

fun give_shares ::
  "auction_order list \<Rightarrow> nat \<Rightarrow> nat \<Rightarrow> nat list \<Rightarrow> nat list \<Rightarrow> nat \<Rightarrow> (nat list \<times> nat) auction" where
  "give_shares orders capacity whole [] allocs assigned = Ok (allocs, assigned)"
| "give_shares orders capacity whole (i # is) allocs assigned =
     bindr (ok_or ArithmeticOverflow (checked_mul u128_max (ao_quantity (orders ! i)) capacity)) (\<lambda>product.
     bindr (if whole = 0 then Panic else Ok (product div whole)) (\<lambda>share.
     bindr (check (share \<le> u64_max) ArithmeticOverflow) (\<lambda>_.
     bindr (auction_add assigned share) (\<lambda>assigned'.
     give_shares orders capacity whole is (allocs[i := share]) assigned'))))"

fun give_full :: "auction_order list \<Rightarrow> nat list \<Rightarrow> nat list \<Rightarrow> nat list" where
  "give_full orders [] allocs = allocs"
| "give_full orders (i # is) allocs = give_full orders is (allocs[i := ao_quantity (orders ! i)])"

definition allocate_pro_rata ::
  "digest \<Rightarrow> bytes \<Rightarrow> auction_order list \<Rightarrow> nat list \<Rightarrow> nat list \<Rightarrow> nat \<Rightarrow> (nat list \<times> nat) auction" where
  "allocate_pro_rata H commitment orders indices allocs remaining =
     (if indices = [] \<or> remaining = 0 then Ok (allocs, remaining)
      else bindr (checked_quantity orders indices) (\<lambda>total.
        if total \<le> remaining
        then bindr (auction_sub remaining total) (\<lambda>r. Ok (give_full orders indices allocs, r))
        else bindr (give_shares orders remaining total indices allocs 0) (\<lambda>(allocs', assigned).
             bindr (auction_sub remaining assigned) (\<lambda>remainder.
             bindr (give_remainder orders (sort_key (tie_key H commitment orders) indices) allocs' remainder)
               (\<lambda>(allocs'', rest). if rest \<noteq> 0 then Err ArithmeticOverflow else Ok (allocs'', 0))))))"

fun fill_fok :: "auction_order list \<Rightarrow> nat list \<Rightarrow> nat list \<Rightarrow> nat \<Rightarrow> (nat list \<times> nat) auction" where
  "fill_fok orders [] allocs remaining = Ok (allocs, remaining)"
| "fill_fok orders (i # is) allocs remaining =
     (if ao_quantity (orders ! i) \<le> remaining
      then bindr (auction_sub remaining (ao_quantity (orders ! i)))
             (\<lambda>r. fill_fok orders is (allocs[i := ao_quantity (orders ! i)]) r)
      else fill_fok orders is allocs remaining)"

definition allocate_group ::
  "digest \<Rightarrow> bytes \<Rightarrow> auction_order list \<Rightarrow> nat list \<Rightarrow> nat list \<Rightarrow> nat \<Rightarrow> (nat list \<times> nat) auction" where
  "allocate_group H commitment orders grp allocs remaining =
     bindr (checked_quantity orders grp) (\<lambda>group_total.
     if group_total \<le> remaining
     then bindr (auction_sub remaining group_total) (\<lambda>r. Ok (give_full orders grp allocs, r))
     else (let fok = sort_key (tie_key H commitment orders) (filter (\<lambda>i. ao_tif (orders ! i) = FokOrder) grp) in
       bindr (fill_fok orders fok allocs remaining) (\<lambda>(allocs', remaining').
       allocate_pro_rata H commitment orders (filter (\<lambda>i. ao_tif (orders ! i) = IocOrder) grp)
         allocs' remaining')))"

definition same_group :: "auction_order list \<Rightarrow> nat \<Rightarrow> nat \<Rightarrow> bool" where
  "same_group orders i j \<longleftrightarrow> price_group_of (ao_kind (orders ! j)) = price_group_of (ao_kind (orders ! i))"

text \<open>The loop over the price groups of the sorted indices.\<close>

function allocate_groups ::
  "digest \<Rightarrow> bytes \<Rightarrow> auction_order list \<Rightarrow> nat list \<Rightarrow> nat list \<Rightarrow> nat \<Rightarrow> nat list auction" where
  "allocate_groups H commitment orders [] allocs remaining = Ok allocs"
| "allocate_groups H commitment orders (i # is) allocs remaining =
     (if remaining = 0 then Ok allocs
      else bindr (allocate_group H commitment orders (i # takeWhile (same_group orders i) is) allocs remaining)
        (\<lambda>(allocs', remaining').
          allocate_groups H commitment orders (dropWhile (same_group orders i) is) allocs' remaining'))"
  by pat_completeness auto
termination
  by (relation "measure (\<lambda>(H, c, orders, is, a, r). length is)") (auto simp: less_Suc_eq_le length_dropWhile_le)

definition allocate_side ::
  "digest \<Rightarrow> bytes \<Rightarrow> auction_order list \<Rightarrow> nat list \<Rightarrow> side \<Rightarrow> nat \<Rightarrow> nat list auction" where
  "allocate_side H commitment orders eligible side target =
     allocate_groups H commitment orders
       (sort_key (\<lambda>i. (economic_key side (orders ! i), tie_key H commitment orders i)) eligible)
       (replicate (length orders) 0) target"

section \<open>Candidate prices\<close>

fun add_allocations :: "nat list \<Rightarrow> nat list \<Rightarrow> nat list auction" where
  "add_allocations (b # bs) (s # ss) =
     bindr (auction_add b s) (\<lambda>x. bindr (add_allocations bs ss) (\<lambda>xs. Ok (x # xs)))"
| "add_allocations bs [] = Ok bs"
| "add_allocations [] (s # ss) = Panic"

definition no_match :: "auction_order list \<Rightarrow> nat \<Rightarrow> nat \<Rightarrow> candidate" where
  "no_match orders price imbalance = \<lparr>ca_price = price, ca_matched = 0, ca_imbalance = imbalance,
     ca_allocations = replicate (length orders) 0\<rparr>"

definition evaluate_ioc_fallback ::
  "digest \<Rightarrow> auction_config \<Rightarrow> auction_order list \<Rightarrow> nat \<Rightarrow> nat list \<Rightarrow> nat list \<Rightarrow> nat \<Rightarrow> candidate auction" where
  "evaluate_ioc_fallback H config orders price eligible_buys eligible_sells imbalance =
     (let ioc_buys = filter (\<lambda>i. ao_tif (orders ! i) = IocOrder) eligible_buys;
          ioc_sells = filter (\<lambda>i. ao_tif (orders ! i) = IocOrder) eligible_sells in
      bindr (checked_quantity orders ioc_buys) (\<lambda>b.
      bindr (checked_quantity orders ioc_sells) (\<lambda>s.
      let target = min b s in
      if target = 0 then Ok (no_match orders price imbalance)
      else bindr (allocate_side H (ac_commitment config) orders ioc_buys Buy target) (\<lambda>buys.
           bindr (allocate_side H (ac_commitment config) orders ioc_sells Sell target) (\<lambda>sells.
           bindr (add_allocations buys sells) (\<lambda>allocs.
           Ok \<lparr>ca_price = price, ca_matched = target, ca_imbalance = imbalance, ca_allocations = allocs\<rparr>))))))"

text \<open>The bounded rounds: \<open>Ok None\<close> when the budget is exhausted.\<close>

fun candidate_rounds ::
  "digest \<Rightarrow> auction_config \<Rightarrow> auction_order list \<Rightarrow> nat \<Rightarrow> nat list \<Rightarrow> nat list \<Rightarrow> nat \<Rightarrow>
   nat \<Rightarrow> nat \<Rightarrow> candidate option auction" where
  "candidate_rounds H config orders price eb es imbalance 0 target = Ok None"
| "candidate_rounds H config orders price eb es imbalance (Suc rounds) target =
     bindr (allocate_side H (ac_commitment config) orders eb Buy target) (\<lambda>buys.
     bindr (allocate_side H (ac_commitment config) orders es Sell target) (\<lambda>sells.
     bindr (checked_values buys) (\<lambda>buy_executed.
     bindr (checked_values sells) (\<lambda>sell_executed.
     let next_target = min buy_executed sell_executed in
     if next_target = target
     then bindr (add_allocations buys sells) (\<lambda>allocs.
       Ok (Some \<lparr>ca_price = price, ca_matched = target, ca_imbalance = imbalance, ca_allocations = allocs\<rparr>))
     else if next_target = 0 then Ok (Some (no_match orders price imbalance))
     else candidate_rounds H config orders price eb es imbalance rounds next_target))))"

definition evaluate_candidate ::
  "digest \<Rightarrow> auction_config \<Rightarrow> auction_order list \<Rightarrow> nat \<Rightarrow> candidate auction" where
  "evaluate_candidate H config orders price =
     (let eb = eligible_indices orders Buy price; es = eligible_indices orders Sell price in
      bindr (checked_quantity orders eb) (\<lambda>buy_total.
      bindr (checked_quantity orders es) (\<lambda>sell_total.
      let imbalance = abs_diff buy_total sell_total; target = min buy_total sell_total in
      if target = 0 then Ok (no_match orders price imbalance)
      else bindr (ok_or ArithmeticOverflow (Option.bind (checked_mul u64_max (length orders) 4)
                  (\<lambda>rounds. checked_add u64_max rounds 8))) (\<lambda>max_rounds.
           bindr (candidate_rounds H config orders price eb es imbalance max_rounds target) (\<lambda>r.
           case r of
             Some c \<Rightarrow> Ok c
           | None \<Rightarrow> evaluate_ioc_fallback H config orders price eb es imbalance)))))"

text \<open>The four comparisons of \<open>is_better_than\<close>, chained with \<open>then_with\<close>.\<close>

definition is_better_than :: "candidate \<Rightarrow> candidate \<Rightarrow> nat \<Rightarrow> bool" where
  "is_better_than c other reference_price =
     (if ca_matched c \<noteq> ca_matched other then ca_matched other < ca_matched c
      else if ca_imbalance c \<noteq> ca_imbalance other then ca_imbalance c < ca_imbalance other
      else if abs_diff (ca_price c) reference_price \<noteq> abs_diff (ca_price other) reference_price
        then abs_diff (ca_price c) reference_price < abs_diff (ca_price other) reference_price
      else ca_price c < ca_price other)"

section \<open>Clearing a batch\<close>

definition allocation_state :: "nat \<Rightarrow> nat \<Rightarrow> allocation_status" where
  "allocation_state executed requested =
     (if executed = 0 then Unfilled else if executed = requested then FullyFilled else PartlyFilled)"

definition empty_outcome :: "auction_order list \<Rightarrow> auction_outcome" where
  "empty_outcome orders =
     \<lparr>au_clearing_price = None, au_matched = 0, au_imbalance = 0,
      au_allocations = sort_key al_order_id
        (map (\<lambda>ord. \<lparr>al_order_id = ao_id ord, al_executed = 0, al_status = Unfilled\<rparr>) orders)\<rparr>"

fun limit_prices :: "auction_order list \<Rightarrow> nat list" where
  "limit_prices [] = []"
| "limit_prices (ord # orders) =
     (case ao_kind ord of LimitAt price \<Rightarrow> price # limit_prices orders | MarketWithin _ \<Rightarrow> limit_prices orders)"

definition candidate_prices :: "auction_config \<Rightarrow> auction_order list \<Rightarrow> nat list" where
  "candidate_prices config orders = bset (ac_reference_price config # limit_prices orders)"

definition consider_price ::
  "digest \<Rightarrow> auction_config \<Rightarrow> auction_order list \<Rightarrow> nat \<Rightarrow> candidate option \<Rightarrow> candidate option auction" where
  "consider_price H config orders price best =
     bindr (evaluate_candidate H config orders price) (\<lambda>c.
     if ca_matched c = 0 then Ok best
     else case best of
            None \<Rightarrow> Ok (Some c)
          | Some current \<Rightarrow>
              if is_better_than c current (ac_reference_price config) then Ok (Some c) else Ok best)"

definition allocation_of :: "auction_order list \<Rightarrow> nat list \<Rightarrow> nat \<Rightarrow> allocation" where
  "allocation_of orders allocs i =
     \<lparr>al_order_id = ao_id (orders ! i), al_executed = allocs ! i,
      al_status = allocation_state (allocs ! i) (ao_quantity (orders ! i))\<rparr>"

definition clear_batch :: "digest \<Rightarrow> auction_config \<Rightarrow> auction_order list \<Rightarrow> auction_outcome auction" where
  "clear_batch H config orders =
     bindr (auction_validate config orders) (\<lambda>_.
     if orders = [] then Ok (empty_outcome orders)
     else bindr (foldr_res (consider_price H config orders) (candidate_prices config orders) None) (\<lambda>best.
       case best of
         None \<Rightarrow> Ok (empty_outcome orders)
       | Some c \<Rightarrow>
           Ok \<lparr>au_clearing_price = Some (ca_price c), au_matched = ca_matched c, au_imbalance = ca_imbalance c,
               au_allocations = sort_key al_order_id
                 (map (allocation_of orders (ca_allocations c)) [0..<length orders])\<rparr>))"

end
