(* ===== verification/Batch_Auction_Alloc.thy ===== *)
theory Batch_Auction_Alloc
  imports Batch_Auction
begin

text \<open>
  The allocation of one side of a batch: it never fails, allots no order more than its quantity, fills
  fill-or-kill orders entirely or not at all, and uses up its target as far as the orders allow.
\<close>

abbreviation qty :: "auction_order list \<Rightarrow> nat \<Rightarrow> nat" where
  "qty orders i \<equiv> ao_quantity (orders ! i)"

definition qsum :: "auction_order list \<Rightarrow> nat list \<Rightarrow> nat" where
  "qsum orders is = sum_list (map (qty orders) is)"

abbreviation is_fok :: "auction_order list \<Rightarrow> nat \<Rightarrow> bool" where
  "is_fok orders i \<equiv> ao_tif (orders ! i) = FokOrder"

lemma qsum_simps [simp]:
  "qsum orders [] = 0" "qsum orders (i # is) = qty orders i + qsum orders is"
  "qsum orders (is @ js) = qsum orders is + qsum orders js"
  by (simp_all add: qsum_def)

lemma checked_quantity_Ok: "qsum orders is \<le> u64_max \<Longrightarrow> checked_quantity orders is = Ok (qsum orders is)"
  by (simp add: checked_quantity_def qsum_def try_fold_checked_sum [of _ "qty orders", simplified])

lemma checked_values_Ok: "sum_list vs \<le> u64_max \<Longrightarrow> checked_values vs = Ok (sum_list vs)"
  using try_fold_checked_sum [of u64_max "\<lambda>v. v" vs 0] by (simp add: checked_values_def)

lemma auction_ops_Ok:
  "a + b \<le> u64_max \<Longrightarrow> auction_add a b = Ok (a + b)" "b \<le> a \<Longrightarrow> auction_sub a b = Ok (a - b)"
  by (simp_all add: auction_add_def auction_sub_def)

lemma qsum_mset: "mset is = mset js \<Longrightarrow> qsum orders is = qsum orders js"
  by (simp add: qsum_def flip: sum_mset_sum_list)

lemma qsum_filter_le: "qsum orders (filter P is) \<le> qsum orders is"
  by (induction "is") auto

text \<open>The sort key of an order stands for the comparison the source writes.\<close>

lemma economic_key_compare:
  "economic_priority s l r = compare_by (economic_key s l) (economic_key s r)"
  by (cases s) (auto simp: economic_key_def compare_by_def split: price_group.splits)

section \<open>What an allocation step guarantees\<close>

text \<open>\<open>allots orders is a r a' r'\<close>: from capacity \<open>r\<close> the orders \<open>is\<close>, unallotted in \<open>a\<close>, get what \<open>a'\<close>
  says, \<open>r'\<close> is left, and no other entry changes.\<close>

definition allots :: "auction_order list \<Rightarrow> nat list \<Rightarrow> nat list \<Rightarrow> nat \<Rightarrow> nat list \<Rightarrow> nat \<Rightarrow> bool" where
  "allots orders is a r a' r' \<longleftrightarrow> length a' = length a \<and> (\<forall>j. j \<notin> set is \<longrightarrow> a' ! j = a ! j) \<and>
     (\<forall>i \<in> set is. a' ! i \<le> qty orders i \<and> (is_fok orders i \<longrightarrow> a' ! i = 0 \<or> a' ! i = qty orders i)) \<and>
     sum_list (map ((!) a') is) + r' = r"

definition fresh :: "nat list \<Rightarrow> nat list \<Rightarrow> bool" where
  "fresh is a \<longleftrightarrow> distinct is \<and> (\<forall>i \<in> set is. i < length a \<and> a ! i = 0)"

lemma fresh_mset: "mset is = mset js \<Longrightarrow> fresh is a \<longleftrightarrow> fresh js a"
  by (auto simp: fresh_def dest: mset_eq_setD mset_eq_imp_distinct_iff)

lemma fresh_filter: "fresh is a \<Longrightarrow> fresh (filter P is) a"
  by (auto simp: fresh_def)

lemma allots_mset: "mset is = mset js \<Longrightarrow> allots orders is a r a' r' \<longleftrightarrow> allots orders js a r a' r'"
  using mset_eq_setD [of "is" js] sum_mset_sum_list [of "map ((!) a') is"] sum_mset_sum_list [of "map ((!) a') js"]
  by (auto simp: allots_def)

lemma allots_append:
  assumes "allots orders is a r a1 r1" and "allots orders js a1 r1 a2 r2" and "set is \<inter> set js = {}"
  shows "allots orders (is @ js) a r a2 r2"
proof -
  have same: "a2 ! i = a1 ! i" if "i \<in> set is" for i using assms(2,3) that by (auto simp: allots_def)
  then have "map ((!) a2) is = map ((!) a1) is" by simp
  then have "sum_list (map ((!) a2) is) = sum_list (map ((!) a1) is)" by metis
  then show ?thesis using assms same by (auto simp: allots_def)
qed

lemma fresh_after: "allots orders is a r a1 r1 \<Longrightarrow> set is \<inter> set js = {} \<Longrightarrow> fresh js a \<Longrightarrow> fresh js a1"
  by (auto simp: allots_def fresh_def)

lemma allots_none: "fresh is a \<Longrightarrow> allots orders is a r a r"
  by (induction "is") (auto simp: allots_def fresh_def)

lemma allots_skip: "fresh (i # is) a \<Longrightarrow> allots orders is a r a' r' \<Longrightarrow> allots orders (i # is) a r a' r'"
  by (auto simp: allots_def fresh_def)

lemma allots_assign:
  assumes "fresh (i # is) a" and "allots orders is (a[i := qty orders i]) (r - qty orders i) a' r'" and "qty orders i \<le> r"
  shows "allots orders (i # is) a r a' r'"
  using assms by (auto simp: allots_def fresh_def nth_list_update)

section \<open>The loops\<close>

lemma give_full_allots:
  "fresh is a \<Longrightarrow> allots orders is a (qsum orders is + r) (give_full orders is a) r \<and>
   (\<forall>i \<in> set is. give_full orders is a ! i = qty orders i)"
proof (induction orders "is" a rule: give_full.induct)
  case (1 orders a)
  then show ?case by (simp add: allots_def)
next
  case (2 orders i "is" a)
  let ?a = "a[i := qty orders i]"
  have "fresh is ?a" using 2(2) by (auto simp: fresh_def nth_list_update)
  note IH = 2(1) [OF this]
  have "give_full orders is ?a ! i = qty orders i"
    using IH 2(2) by (auto simp: allots_def fresh_def)
  then show ?case using IH allots_assign [OF 2(2), of orders "qsum orders (i # is) + r"] by simp
qed

lemma fill_fok_allots:
  "fresh is a \<Longrightarrow> \<exists>a' r'. fill_fok orders is a r = Ok (a', r') \<and> allots orders is a r a' r'"
proof (induction "is" arbitrary: a r)
  case (Cons i "is")
  show ?case
  proof (cases "qty orders i \<le> r")
    case True
    have "fresh is (a[i := qty orders i])" using Cons.prems by (auto simp: fresh_def nth_list_update)
    then show ?thesis
      using Cons.IH [of _ "r - qty orders i"] allots_assign [OF Cons.prems, of orders r] True by (fastforce simp: auction_ops_Ok)
  next
    case False
    then show ?thesis using Cons.IH [of a r] allots_skip [OF Cons.prems] Cons.prems by (auto simp: fresh_def)
  qed
qed (simp add: allots_def)

definition share :: "auction_order list \<Rightarrow> nat \<Rightarrow> nat \<Rightarrow> nat \<Rightarrow> nat" where
  "share orders capacity whole i = qty orders i * capacity div whole"

lemma give_shares_Ok:
  assumes "fresh is a" and "0 < whole" and "whole \<le> u64_max" and "capacity \<le> whole"
    and "\<And>i. i \<in> set is \<Longrightarrow> qty orders i \<le> u64_max"
    and "assigned + sum_list (map (share orders capacity whole) is) \<le> u64_max"
  shows "\<exists>a'. give_shares orders capacity whole is a assigned =
      Ok (a', assigned + sum_list (map (share orders capacity whole) is)) \<and> length a' = length a \<and>
    (\<forall>i \<in> set is. a' ! i = share orders capacity whole i) \<and> (\<forall>j. j \<notin> set is \<longrightarrow> a' ! j = a ! j)"
  using assms
proof (induction "is" arbitrary: a assigned)
  case (Cons i "is")
  let ?s = "share orders capacity whole i"
  have q: "qty orders i \<le> u64_max" using Cons.prems(5) by simp
  have "qty orders i * capacity \<le> u64_max * u64_max" using q Cons.prems(3,4) by (intro mult_le_mono) auto
  also have "\<dots> \<le> u128_max" by (simp add: u64_max_def u128_max_def)
  finally have m: "qty orders i * capacity \<le> u128_max" .
  have "fresh is (a[i := ?s])" using Cons.prems(1) by (auto simp: fresh_def nth_list_update)
  moreover have s: "?s \<le> u64_max" "assigned + ?s \<le> u64_max" using Cons.prems(6) by auto
  ultimately obtain a' where a': "give_shares orders capacity whole is (a[i := ?s]) (assigned + ?s) =
      Ok (a', assigned + ?s + sum_list (map (share orders capacity whole) is))" "length a' = length (a[i := ?s])"
    "\<forall>i \<in> set is. a' ! i = share orders capacity whole i" "\<forall>j. j \<notin> set is \<longrightarrow> a' ! j = a[i := ?s] ! j"
    using Cons.IH [of "a[i := ?s]" "assigned + ?s"] Cons.prems by (auto simp: add.assoc)
  have "give_shares orders capacity whole (i # is) a assigned = give_shares orders capacity whole is (a[i := ?s]) (assigned + ?s)"
    using m s Cons.prems(2) by (simp add: auction_ops_Ok share_def checked_mul_def)
  then show ?case
    using a' Cons.prems(1) by (intro exI [of _ a']) (auto simp: add.assoc fresh_def nth_list_update)
qed simp

lemma give_remainder_Ok:
  assumes "distinct is" and "\<And>i. i \<in> set is \<Longrightarrow> i < length a \<and> a ! i < qty orders i \<and> qty orders i \<le> u64_max"
    and "k \<le> length is"
  shows "\<exists>a'. give_remainder orders is a k = Ok (a', 0) \<and> length a' = length a \<and>
    (\<forall>j. j \<notin> set is \<longrightarrow> a' ! j = a ! j) \<and> (\<forall>i \<in> set is. a ! i \<le> a' ! i \<and> a' ! i \<le> a ! i + 1) \<and>
    sum_list (map ((!) a') is) = sum_list (map ((!) a) is) + k"
  using assms
proof (induction "is" arbitrary: a k)
  case (Cons i "is")
  show ?case
  proof (cases k)
    case 0
    then show ?thesis by auto
  next
    case (Suc k')
    let ?a = "a[i := a ! i + 1]"
    have i: "i < length a" "a ! i < qty orders i" "qty orders i \<le> u64_max" using Cons.prems(2) by auto
    have other: "?a ! j = a ! j" if "j \<in> set is" for j using that Cons.prems(1) by (metis distinct.simps(2) nth_list_update_neq)
    have "\<And>j. j \<in> set is \<Longrightarrow> j < length ?a \<and> ?a ! j < qty orders j \<and> qty orders j \<le> u64_max"
      using Cons.prems(2) other by auto
    then obtain a' where a': "give_remainder orders is ?a k' = Ok (a', 0)" "length a' = length ?a"
      "\<forall>j. j \<notin> set is \<longrightarrow> a' ! j = ?a ! j" "\<forall>j \<in> set is. ?a ! j \<le> a' ! j \<and> a' ! j \<le> ?a ! j + 1"
      "sum_list (map ((!) a') is) = sum_list (map ((!) ?a) is) + k'"
      using Cons.IH [of ?a k'] Cons.prems Suc by auto
    have "map ((!) ?a) is = map ((!) a) is" using other by simp
    then have "sum_list (map ((!) ?a) is) = sum_list (map ((!) a) is)" by metis
    moreover have "give_remainder orders (i # is) a k = Ok (a', 0)"
      using a'(1) i Suc by (simp add: auction_ops_Ok)
    moreover have "a' ! i = a ! i + 1" using a'(3) Cons.prems(1) i by auto
    ultimately show ?thesis
      using a' other Cons.prems(1) Suc by (intro exI [of _ a']) (auto simp: nth_list_update split: if_splits)
  qed
qed simp

section \<open>Pro-rata allocation\<close>

lemma sum_share_bounds:
  assumes "0 < whole"
  shows "whole * sum_list (map (share orders c whole) is) \<le> qsum orders is * c"
    and "qsum orders is * c \<le> whole * sum_list (map (share orders c whole) is) + length is * (whole - 1)"
proof (induction "is")
  case (Cons i "is")
  {
    case 1
    have "whole * share orders c whole i \<le> qty orders i * c" by (simp add: share_def)
    then show ?case using Cons(1) by (simp add: algebra_simps)
  next
    case 2
    have "qty orders i * c = whole * share orders c whole i + qty orders i * c mod whole"
      by (simp add: share_def)
    moreover have "qty orders i * c mod whole \<le> whole - 1" using assms mod_less_divisor [of whole "qty orders i * c"] by linarith
    ultimately have "qty orders i * c \<le> whole * share orders c whole i + (whole - 1)" by linarith
    then show ?case using Cons(2) by (simp add: add_mult_distrib add_mult_distrib2)
  }
qed simp_all

lemma mset_sum_list: "mset is = mset js \<Longrightarrow> sum_list (map f is) = (sum_list (map f js) :: nat)"
  by (simp flip: sum_mset_sum_list)

lemma allocate_pro_rata_Ok:
  assumes "fresh is a" and "qsum orders is \<le> u64_max"
    and "\<And>i. i \<in> set is \<Longrightarrow> 0 < qty orders i \<and> \<not> is_fok orders i"
  shows "\<exists>a' r'. allocate_pro_rata H cm orders is a r = Ok (a', r') \<and> allots orders is a r a' r' \<and>
    r' = r - qsum orders is \<and>
    (r < qsum orders is \<longrightarrow> (\<forall>i \<in> set is. share orders r (qsum orders is) i \<le> a' ! i \<and>
      a' ! i \<le> share orders r (qsum orders is) i + 1))"
proof (cases "is = [] \<or> r = 0")
  case True
  then show ?thesis
    using allots_none [OF assms(1), of orders r] assms(1)
    by (auto simp: allocate_pro_rata_def share_def fresh_def intro!: exI [of _ a])
next
  case False
  let ?T = "qsum orders is" and ?s = "share orders r (qsum orders is)"
  let ?js = "sort_key (tie_key H cm orders) is"
  show ?thesis
  proof (cases "?T \<le> r")
    case True
    then show ?thesis
      using False assms(2) give_full_allots [OF assms(1), of orders "r - ?T"]
      by (simp add: allocate_pro_rata_def checked_quantity_Ok auction_ops_Ok)
  next
    case small: False
    then have T: "0 < ?T" "r < ?T" by auto
    have le: "qty orders i \<le> ?T" if "i \<in> set is" for i
      using that by (simp add: qsum_def member_le_sum_list)
    have b1: "?T * sum_list (map ?s is) \<le> ?T * r" using sum_share_bounds(1) [OF T(1), of orders r "is"] by simp
    then have asg: "sum_list (map ?s is) \<le> r" using T(1) by simp
    have "?T * r \<le> ?T * sum_list (map ?s is) + length is * (?T - 1)"
      using sum_share_bounds(2) [OF T(1), of orders "is" r] by simp
    also have "\<dots> \<le> ?T * sum_list (map ?s is) + length is * ?T" by simp
    also have "\<dots> = ?T * (sum_list (map ?s is) + length is)" by (simp add: algebra_simps)
    finally have few: "r - sum_list (map ?s is) \<le> length is" using T(1) by simp
    have sl: "?s i < qty orders i" if "i \<in> set is" for i
      using assms(3) [OF that] T by (simp add: share_def less_mult_imp_div_less)
    obtain a1 where a1: "give_shares orders r ?T is a 0 = Ok (a1, sum_list (map ?s is))" "length a1 = length a"
      "\<forall>i \<in> set is. a1 ! i = ?s i" "\<forall>j. j \<notin> set is \<longrightarrow> a1 ! j = a ! j"
      using give_shares_Ok [OF assms(1) T(1) assms(2), where capacity = r and assigned = 0 and orders = orders]
        le T(2) asg assms(2) by fastforce
    have "\<And>i. i \<in> set ?js \<Longrightarrow> i < length a1 \<and> a1 ! i < qty orders i \<and> qty orders i \<le> u64_max"
      using a1 sl assms(1,2) le by (fastforce simp: fresh_def)
    moreover have "distinct ?js" "r - sum_list (map ?s is) \<le> length ?js" using assms(1) few by (auto simp: fresh_def)
    ultimately obtain a2 where a2: "give_remainder orders ?js a1 (r - sum_list (map ?s is)) = Ok (a2, 0)"
      "length a2 = length a1" "\<forall>j. j \<notin> set is \<longrightarrow> a2 ! j = a1 ! j" "\<forall>i \<in> set is. a1 ! i \<le> a2 ! i \<and> a2 ! i \<le> a1 ! i + 1"
      "sum_list (map ((!) a2) ?js) = sum_list (map ((!) a1) ?js) + (r - sum_list (map ?s is))"
      using give_remainder_Ok [of ?js a1 orders "r - sum_list (map ?s is)"] by auto
    have "map ((!) a1) is = map ?s is" using a1(3) by simp
    then have m1: "sum_list (map ((!) a1) is) = sum_list (map ?s is)" by metis
    have "sum_list (map ((!) a2) is) = sum_list (map ((!) a1) is) + (r - sum_list (map ?s is))"
      using a2(5) mset_sum_list [of ?js "is" "(!) a2"] mset_sum_list [of ?js "is" "(!) a1"] by simp
    then have "sum_list (map ((!) a2) is) = r" using m1 asg by simp
    moreover have "a2 ! i \<le> qty orders i" if "i \<in> set is" for i using a2(4) a1(3) sl [OF that] that by fastforce
    ultimately have "allots orders is a r a2 0" using a1 a2 assms(3) by (auto simp: allots_def)
    moreover have "allocate_pro_rata H cm orders is a r = Ok (a2, 0)"
      using False small assms(2) a1(1) a2(1) asg by (simp add: allocate_pro_rata_def checked_quantity_Ok auction_ops_Ok)
    ultimately show ?thesis using a1(3) a2(4) T(2) by (intro exI [of _ a2] exI [of _ "0::nat"]) auto
  qed
qed

section \<open>Groups and sides\<close>

lemma fok_ioc_split: "mset (filter (is_fok orders) is @ filter (\<lambda>i. ao_tif (orders ! i) = IocOrder) is) = mset is"
proof -
  have "(\<lambda>i. ao_tif (orders ! i) = IocOrder) = (\<lambda>i. \<not> is_fok orders i)"
    by (auto intro: auction_tif.exhaust)
  then show ?thesis by (metis mset_append mset_filter multiset_partition)
qed

lemma allocate_group_Ok:
  assumes "fresh is a" and "qsum orders is \<le> u64_max" and "\<And>i. i \<in> set is \<Longrightarrow> 0 < qty orders i"
  shows "\<exists>a' r'. allocate_group H cm orders is a r = Ok (a', r') \<and> allots orders is a r a' r' \<and>
    ((\<forall>i \<in> set is. \<not> is_fok orders i) \<longrightarrow> r' = r - qsum orders is)"
proof (cases "qsum orders is \<le> r")
  case True
  then show ?thesis
    using assms(2) give_full_allots [OF assms(1), of orders "r - qsum orders is"]
    by (simp add: allocate_group_def checked_quantity_Ok auction_ops_Ok)
next
  case False
  let ?fok = "sort_key (tie_key H cm orders) (filter (is_fok orders) is)"
  let ?ioc = "filter (\<lambda>i. ao_tif (orders ! i) = IocOrder) is"
  have m: "mset (?fok @ ?ioc) = mset is" using fok_ioc_split [of orders "is"] by simp
  have disj: "set ?fok \<inter> set ?ioc = {}" by auto
  have "fresh ?fok a" using fresh_mset [of ?fok "filter (is_fok orders) is" a] fresh_filter [OF assms(1)] by simp
  then obtain a1 r1 where s1: "fill_fok orders ?fok a r = Ok (a1, r1)" "allots orders ?fok a r a1 r1"
    using fill_fok_allots by blast
  have "fresh ?ioc a1" using fresh_after [OF s1(2) disj fresh_filter [OF assms(1)]] .
  then obtain a2 r2 where s2: "allocate_pro_rata H cm orders ?ioc a1 r1 = Ok (a2, r2)" "allots orders ?ioc a1 r1 a2 r2"
    "r2 = r1 - qsum orders ?ioc"
    using allocate_pro_rata_Ok [of ?ioc a1 orders H cm r1] assms(2,3) order_trans [OF qsum_filter_le assms(2)] by auto
  have all: "allots orders is a r a2 r2"
    using allots_append [OF s1(2) s2(2) disj] allots_mset [OF m, of orders a r a2 r2] by blast
  have "allocate_group H cm orders is a r = Ok (a2, r2)"
    using False assms(2) s1(1) s2(1) by (simp add: allocate_group_def checked_quantity_Ok Let_def)
  moreover have "r2 = r - qsum orders is" if no_fok: "\<forall>i \<in> set is. \<not> is_fok orders i"
  proof -
    have e: "filter (is_fok orders) is = []" using no_fok by (simp add: filter_empty_conv)
    then have "?ioc = is" using auction_tif.exhaust no_fok by (metis (mono_tags, lifting) filter_True)
    moreover have "r1 = r" using s1(1) e by simp
    ultimately show ?thesis using s2(3) by simp
  qed
  ultimately show ?thesis using all by blast
qed

lemma allocate_groups_Ok:
  assumes "fresh is a" and "qsum orders is \<le> u64_max" and "\<And>i. i \<in> set is \<Longrightarrow> 0 < qty orders i"
  shows "\<exists>a' r'. allocate_groups H cm orders is a r = Ok a' \<and> allots orders is a r a' r' \<and>
    ((\<forall>i \<in> set is. \<not> is_fok orders i) \<longrightarrow> r' = r - qsum orders is)"
  using assms
proof (induction H cm orders "is" a r rule: allocate_groups.induct)
  case (1 H cm orders a r)
  then show ?case by (auto simp: allots_def)
next
  case (2 H cm orders i "is" a r)
  show ?case
  proof (cases "r = 0")
    case True
    then show ?thesis using allots_none [OF "2.prems"(1)] by (intro exI [of _ a] exI [of _ "0::nat"]) auto
  next
    case False
    let ?g = "i # takeWhile (same_group orders i) is" and ?rest = "dropWhile (same_group orders i) is"
    have split: "?g @ ?rest = i # is" by simp
    have fr: "fresh ?g a" "fresh ?rest a" "set ?g \<inter> set ?rest = {}"
      using "2.prems"(1) split unfolding fresh_def by (metis Un_iff distinct_append set_append)+
    have sum: "qsum orders ?g + qsum orders ?rest = qsum orders (i # is)" using split by (metis qsum_simps(3))
    have pos: "\<And>j. j \<in> set ?g \<Longrightarrow> 0 < qty orders j" "\<And>j. j \<in> set ?rest \<Longrightarrow> 0 < qty orders j"
      using "2.prems"(3) split by (metis Un_iff set_append)+
    have bound: "qsum orders ?g \<le> u64_max" "qsum orders ?rest \<le> u64_max" using "2.prems"(2) sum by linarith+
    obtain a1 r1 where s1: "allocate_group H cm orders ?g a r = Ok (a1, r1)" "allots orders ?g a r a1 r1"
      "(\<forall>j \<in> set ?g. \<not> is_fok orders j) \<longrightarrow> r1 = r - qsum orders ?g"
      using allocate_group_Ok [OF fr(1) bound(1) pos(1), of H cm r] by blast
    have "\<exists>a' r'. allocate_groups H cm orders ?rest a1 r1 = Ok a' \<and> allots orders ?rest a1 r1 a' r' \<and>
      ((\<forall>j \<in> set ?rest. \<not> is_fok orders j) \<longrightarrow> r' = r1 - qsum orders ?rest)"
      using "2.IH" [OF False _ refl fresh_after [OF s1(2) fr(3,2)] bound(2) pos(2)] s1(1) by auto
    then obtain a2 r2 where s2: "allocate_groups H cm orders ?rest a1 r1 = Ok a2" "allots orders ?rest a1 r1 a2 r2"
      "(\<forall>j \<in> set ?rest. \<not> is_fok orders j) \<longrightarrow> r2 = r1 - qsum orders ?rest" by blast
    have "allots orders (i # is) a r a2 r2" using allots_append [OF s1(2) s2(2) fr(3)] unfolding split .
    moreover have "r2 = r - qsum orders (i # is)" if no_fok: "\<forall>j \<in> set (i # is). \<not> is_fok orders j"
    proof -
      have "\<forall>j \<in> set ?g. \<not> is_fok orders j" "\<forall>j \<in> set ?rest. \<not> is_fok orders j"
        using no_fok split by (metis Un_iff set_append)+
      then show ?thesis using s1(3) s2(3) sum by simp
    qed
    ultimately show ?thesis using False s1(1) s2(1) by (intro exI [of _ a2] exI [of _ r2]) simp
  qed
qed

end
