(* ===== verification/Batch_Auction_Props.thy ===== *)
theory Batch_Auction_Props
  imports Batch_Auction_Alloc
begin

text \<open>
  Clearing a batch: a valid batch always clears, both sides execute the same quantity within the limits
  of their orders, and the chosen price is the best candidate.
\<close>

declare auction_crosses.simps [simp del]

section \<open>Valid batches\<close>

definition side_total :: "auction_order list \<Rightarrow> side \<Rightarrow> nat" where
  "side_total orders s = sum_list (map ao_quantity (filter (\<lambda>ord. ao_side ord = s) orders))"

definition batch_ok :: "auction_order list \<Rightarrow> bool" where
  "batch_ok orders \<longleftrightarrow> distinct (map ao_id orders) \<and>
     (\<forall>ord \<in> set orders. 0 < ao_quantity ord \<and> ao_kind ord \<noteq> LimitAt 0) \<and> (\<forall>s. side_total orders s \<le> u64_max)"

lemma side_total_Cons:
  "side_total (ord # orders) s = (if ao_side ord = s then ao_quantity ord else 0) + side_total orders s"
  by (simp add: side_total_def)

lemma validate_orders_Ok:
  "b \<le> u64_max \<Longrightarrow> s \<le> u64_max \<Longrightarrow> validate_orders orders ids b s = Ok () \<longleftrightarrow>
     distinct (map ao_id orders) \<and> set (map ao_id orders) \<inter> set ids = {} \<and>
     (\<forall>ord \<in> set orders. 0 < ao_quantity ord \<and> ao_kind ord \<noteq> LimitAt 0) \<and>
     b + side_total orders Buy \<le> u64_max \<and> s + side_total orders Sell \<le> u64_max"
proof (induction orders ids b s rule: validate_orders.induct)
  case (1 ids b s)
  then show ?case by (simp add: side_total_def)
next
  case (2 ord orders ids b s)
  show ?case
  proof (cases "ao_side ord")
    case Buy
    then show ?thesis
      using 2 by (cases "b + ao_quantity ord \<le> u64_max")
        (auto simp: side_total_Cons auction_add_def checked_add_def)
  next
    case Sell
    then show ?thesis
      using 2 by (cases "s + ao_quantity ord \<le> u64_max")
        (auto simp: side_total_Cons auction_add_def checked_add_def)
  qed
qed

lemma side_all: "(\<forall>s. P s) \<longleftrightarrow> P Buy \<and> P Sell"
  by (metis (full_types) side.exhaust)

lemma auction_validate_Ok:
  "auction_validate config orders = Ok () \<longleftrightarrow> ac_reference_price config \<noteq> 0 \<and> batch_ok orders"
  by (auto simp: auction_validate_def validate_orders_Ok batch_ok_def side_all)

lemma clear_batch_valid:
  "clear_batch H config orders = Ok out \<Longrightarrow> ac_reference_price config \<noteq> 0 \<and> batch_ok orders"
  using auction_validate_Ok [of config orders] by (cases "auction_validate config orders") (auto simp: clear_batch_def)

section \<open>Eligible orders\<close>

lemma set_eligible: "set (eligible_indices orders s p) =
    {i. i < length orders \<and> ao_side (orders ! i) = s \<and> auction_crosses (orders ! i) p}"
  by (auto simp: eligible_indices_def)

lemma distinct_eligible: "distinct (eligible_indices orders s p)"
  by (simp add: eligible_indices_def)

lemma qsum_filter_upt:
  "qsum orders (filter (\<lambda>i. P (orders ! i)) [0..<length orders]) = sum_list (map ao_quantity (filter P orders))"
proof -
  have "filter P orders = filter P (map ((!) orders) [0..<length orders])" by (simp add: map_nth)
  also have "\<dots> = map ((!) orders) (filter (P \<circ> (!) orders) [0..<length orders])" by (rule filter_map)
  finally show ?thesis by (simp add: qsum_def comp_def)
qed

lemma qsum_eligible_le:
  assumes "batch_ok orders"
  shows "qsum orders (eligible_indices orders s p) \<le> u64_max"
proof -
  have "qsum orders (eligible_indices orders s p) =
      sum_list (map ao_quantity (filter (\<lambda>ord. auction_crosses ord p) (filter (\<lambda>ord. ao_side ord = s) orders)))"
    unfolding eligible_indices_def
    using qsum_filter_upt [of orders "\<lambda>ord. ao_side ord = s \<and> auction_crosses ord p"]
    by (simp add: conj_commute)
  also have "\<dots> \<le> side_total orders s"
    using sum_list_filter_split [of ao_quantity "filter (\<lambda>ord. ao_side ord = s) orders" "\<lambda>ord. auction_crosses ord p"]
    by (simp add: side_total_def)
  also have "\<dots> \<le> u64_max" using assms by (simp add: batch_ok_def)
  finally show ?thesis .
qed

lemma batch_ok_nth: "batch_ok orders \<Longrightarrow> i < length orders \<Longrightarrow> 0 < qty orders i"
  by (simp add: batch_ok_def)

lemma sum_list_nth_support:
  fixes f :: "nat \<Rightarrow> nat"
  assumes "distinct is" and "set is \<subseteq> {..<n}" and "\<And>j. j < n \<Longrightarrow> j \<notin> set is \<Longrightarrow> f j = 0"
  shows "sum_list (map f [0..<n]) = sum_list (map f is)"
proof -
  have "sum_list (map f [0..<n]) = (\<Sum>j \<in> {..<n}. f j)"
    by (simp add: sum_list_distinct_conv_sum_set atLeast0LessThan)
  also have "\<dots> = (\<Sum>j \<in> set is. f j)" using assms(2,3) by (intro sum.mono_neutral_right) auto
  also have "\<dots> = sum_list (map f is)" using assms(1) by (simp add: sum_list_distinct_conv_sum_set)
  finally show ?thesis .
qed

text \<open>What a side gets from a target, for any part \<open>is\<close> of the eligible indices.\<close>

definition side_allocation :: "auction_order list \<Rightarrow> nat list \<Rightarrow> nat \<Rightarrow> nat list \<Rightarrow> bool" where
  "side_allocation orders is target a \<longleftrightarrow> length a = length orders \<and> sum_list a \<le> target \<and>
     (\<forall>i < length orders. if i \<in> set is then a ! i \<le> qty orders i \<and> (is_fok orders i \<longrightarrow> a ! i = 0 \<or> a ! i = qty orders i)
        else a ! i = 0)"

lemma allocate_side_Ok:
  assumes "batch_ok orders" and "is = filter P (eligible_indices orders s p)"
  shows "\<exists>a. allocate_side H cm orders is s target = Ok a \<and> side_allocation orders is target a \<and>
    ((\<forall>i \<in> set is. \<not> is_fok orders i) \<and> target \<le> qsum orders is \<longrightarrow> sum_list a = target)"
proof -
  let ?js = "sort_key (\<lambda>i. (economic_key s (orders ! i), tie_key H cm orders i)) is"
  let ?z = "replicate (length orders) 0"
  have m: "mset ?js = mset is" by simp
  have sub: "set is \<subseteq> {..<length orders}" "distinct is"
    using assms(2) distinct_eligible [of orders s p] by (auto simp: set_eligible)
  have fr: "fresh ?js ?z" using sub by (auto simp: fresh_def)
  have "qsum orders is \<le> u64_max"
    unfolding assms(2) using qsum_filter_le qsum_eligible_le [OF assms(1)] order_trans by blast
  then have "qsum orders ?js \<le> u64_max" using qsum_mset [OF m] by simp
  moreover have "\<And>i. i \<in> set ?js \<Longrightarrow> 0 < qty orders i" using sub batch_ok_nth [OF assms(1)] by auto
  ultimately obtain a r where a: "allocate_groups H cm orders ?js ?z target = Ok a" "allots orders ?js ?z target a r"
    "(\<forall>i \<in> set ?js. \<not> is_fok orders i) \<longrightarrow> r = target - qsum orders ?js"
    using allocate_groups_Ok [OF fr] by blast
  have al: "allots orders is ?z target a r" using a(2) allots_mset [OF m] by blast
  have len: "length a = length orders" using al by (simp add: allots_def)
  have zero: "a ! j = 0" if "j < length orders" "j \<notin> set is" for j using al that by (auto simp: allots_def)
  have "sum_list a = sum_list (map ((!) a) [0..<length orders])" using len by (metis map_nth)
  also have "\<dots> = sum_list (map ((!) a) is)" using sub zero by (intro sum_list_nth_support) auto
  finally have total: "sum_list a + r = target" using al by (simp add: allots_def)
  moreover have "allocate_side H cm orders is s target = Ok a" using a(1) by (simp add: allocate_side_def)
  moreover have "side_allocation orders is target a"
    using al zero len total by (auto simp: side_allocation_def allots_def)
  moreover have "r = 0" if "\<forall>i \<in> set is. \<not> is_fok orders i" "target \<le> qsum orders is"
    using that a(3) qsum_mset [OF m, of orders] by simp
  ultimately show ?thesis by auto
qed

section \<open>Both sides together\<close>

lemma add_allocations_Ok:
  "length as = length bs \<Longrightarrow> (\<And>i. i < length as \<Longrightarrow> as ! i + bs ! i \<le> u64_max) \<Longrightarrow>
   add_allocations as bs = Ok (map2 (+) as bs)"
proof (induction as bs rule: add_allocations.induct)
  case (1 b bs s ss)
  have "b + s \<le> u64_max" using 1(3) [of 0] by simp
  moreover have "add_allocations bs ss = Ok (map2 (+) bs ss)"
    using 1(1) [OF auction_ops_Ok(1) [OF calculation]] 1(2) 1(3) [of "Suc _"] by auto
  ultimately show ?case by (simp add: auction_ops_Ok)
qed auto

definition executed_on :: "auction_order list \<Rightarrow> nat list \<Rightarrow> side \<Rightarrow> nat" where
  "executed_on orders a s = (\<Sum>i\<leftarrow>[0..<length orders]. if ao_side (orders ! i) = s then a ! i else 0)"

definition candidate_ok :: "auction_order list \<Rightarrow> nat \<Rightarrow> candidate \<Rightarrow> bool" where
  "candidate_ok orders p c \<longleftrightarrow> ca_price c = p \<and> length (ca_allocations c) = length orders \<and>
     (\<forall>i < length orders. ca_allocations c ! i \<le> qty orders i \<and>
        (0 < ca_allocations c ! i \<longrightarrow> auction_crosses (orders ! i) p) \<and>
        (is_fok orders i \<longrightarrow> ca_allocations c ! i = 0 \<or> ca_allocations c ! i = qty orders i)) \<and>
     (\<forall>s. executed_on orders (ca_allocations c) s = ca_matched c)"

lemma no_match_ok: "candidate_ok orders p (no_match orders p imb)"
proof -
  have "executed_on orders (replicate (length orders) 0) s = 0" for s
    by (auto simp: executed_on_def intro!: sum_list_0)
  then show ?thesis by (simp add: candidate_ok_def no_match_def)
qed

lemma both_sides:
  assumes "batch_ok orders" and "bs = filter P (eligible_indices orders Buy p)" and "ss = filter Q (eligible_indices orders Sell p)"
    and "side_allocation orders bs t b" and "side_allocation orders ss t s"
  shows "\<exists>a. add_allocations b s = Ok a \<and> (sum_list b = t \<and> sum_list s = t \<longrightarrow>
    candidate_ok orders p \<lparr>ca_price = p, ca_matched = t, ca_imbalance = imb, ca_allocations = a\<rparr>)"
proof -
  have len: "length b = length orders" "length s = length orders" using assms(4,5) by (auto simp: side_allocation_def)
  have q: "qty orders i \<le> u64_max" if i: "i < length orders" for i
  proof -
    have "qty orders i \<le> side_total orders (ao_side (orders ! i))"
      using i by (auto simp: side_total_def intro!: member_le_sum_list)
    then show ?thesis using assms(1) order_trans unfolding batch_ok_def by blast
  qed
  have bz: "b ! i = 0" if "i < length orders" "ao_side (orders ! i) = Sell" for i
    using assms(4) that by (auto simp: side_allocation_def assms(2) set_eligible)
  have sz: "s ! i = 0" if "i < length orders" "ao_side (orders ! i) = Buy" for i
    using assms(5) that by (auto simp: side_allocation_def assms(3) set_eligible)
  have bi: "b ! i \<le> qty orders i \<and> (0 < b ! i \<longrightarrow> auction_crosses (orders ! i) p) \<and> (is_fok orders i \<longrightarrow> b ! i = 0 \<or> b ! i = qty orders i)"
    if "i < length orders" for i
    using assms(4) that by (cases "i \<in> set bs") (auto simp: side_allocation_def assms(2) set_eligible)
  have si: "s ! i \<le> qty orders i \<and> (0 < s ! i \<longrightarrow> auction_crosses (orders ! i) p) \<and> (is_fok orders i \<longrightarrow> s ! i = 0 \<or> s ! i = qty orders i)"
    if "i < length orders" for i
    using assms(5) that by (cases "i \<in> set ss") (auto simp: side_allocation_def assms(3) set_eligible)
  have sum: "b ! i + s ! i = (if ao_side (orders ! i) = Buy then b ! i else s ! i)" if "i < length orders" for i
    using bz [OF that] sz [OF that] by (cases "ao_side (orders ! i)") auto
  have add: "add_allocations b s = Ok (map2 (+) b s)"
  proof (rule add_allocations_Ok)
    show "length b = length s" using len by simp
    fix i
    assume "i < length b"
    then have i: "i < length orders" using len by simp
    show "b ! i + s ! i \<le> u64_max" using sum [OF i] bi [OF i] si [OF i] q [OF i] by simp
  qed
  have "executed_on orders (map2 (+) b s) Buy = sum_list b"
  proof -
    have "executed_on orders (map2 (+) b s) Buy = sum_list (map ((!) b) [0..<length orders])"
      unfolding executed_on_def using len bz sum
      by (intro arg_cong [of _ _ sum_list] map_cong refl) (auto, metis side.exhaust)
    then show ?thesis using len by (metis map_nth)
  qed
  moreover have "executed_on orders (map2 (+) b s) Sell = sum_list s"
  proof -
    have "executed_on orders (map2 (+) b s) Sell = sum_list (map ((!) s) [0..<length orders])"
      unfolding executed_on_def using len sz sum
      by (intro arg_cong [of _ _ sum_list] map_cong refl) (auto, metis side.exhaust)
    then show ?thesis using len by (metis map_nth)
  qed
  ultimately have "candidate_ok orders p \<lparr>ca_price = p, ca_matched = t, ca_imbalance = imb, ca_allocations = map2 (+) b s\<rparr>"
    if "sum_list b = t" "sum_list s = t"
    using that len sum bi si unfolding candidate_ok_def side_all by (simp)
  with add show ?thesis by blast
qed

lemma no_fok_filter: "\<forall>i \<in> set (filter (\<lambda>i. ao_tif (orders ! i) = IocOrder) is). \<not> is_fok orders i"
  by auto

lemma fallback_Ok:
  assumes "batch_ok orders"
  shows "\<exists>c. evaluate_ioc_fallback H config orders p (eligible_indices orders Buy p) (eligible_indices orders Sell p) imb = Ok c \<and>
    candidate_ok orders p c \<and> ca_imbalance c = imb"
proof -
  let ?P = "\<lambda>i. ao_tif (orders ! i) = IocOrder"
  let ?b = "filter ?P (eligible_indices orders Buy p)" and ?s = "filter ?P (eligible_indices orders Sell p)"
  have le: "qsum orders ?b \<le> u64_max" "qsum orders ?s \<le> u64_max"
    using qsum_filter_le qsum_eligible_le [OF assms] order_trans by blast+
  let ?t = "min (qsum orders ?b) (qsum orders ?s)"
  obtain b where b: "allocate_side H (ac_commitment config) orders ?b Buy ?t = Ok b" "side_allocation orders ?b ?t b" "sum_list b = ?t"
    using allocate_side_Ok [OF assms refl, where P = ?P and s = Buy and p = p and H = H and cm = "ac_commitment config"
        and target = ?t] no_fok_filter by auto
  obtain s where s: "allocate_side H (ac_commitment config) orders ?s Sell ?t = Ok s" "side_allocation orders ?s ?t s" "sum_list s = ?t"
    using allocate_side_Ok [OF assms refl, where P = ?P and s = Sell and p = p and H = H and cm = "ac_commitment config"
        and target = ?t] no_fok_filter by auto
  obtain a where "add_allocations b s = Ok a"
    "candidate_ok orders p \<lparr>ca_price = p, ca_matched = ?t, ca_imbalance = imb, ca_allocations = a\<rparr>"
    using both_sides [OF assms refl refl b(2) s(2)] b(3) s(3) by blast
  then show ?thesis
    using le b(1) s(1) no_match_ok [of orders p imb]
    by (auto simp: evaluate_ioc_fallback_def checked_quantity_Ok Let_def no_match_def)
qed

lemma candidate_rounds_Ok:
  assumes "batch_ok orders" and "t \<le> u64_max"
  shows "\<exists>r. candidate_rounds H config orders p (eligible_indices orders Buy p) (eligible_indices orders Sell p) imb n t = Ok r \<and>
    (\<forall>c. r = Some c \<longrightarrow> candidate_ok orders p c \<and> ca_imbalance c = imb) \<and>
    ((\<forall>i < length orders. \<not> is_fok orders i) \<and> t \<le> qsum orders (eligible_indices orders Buy p) \<and>
      t \<le> qsum orders (eligible_indices orders Sell p) \<and> 0 < n \<longrightarrow> (\<exists>c. r = Some c \<and> ca_matched c = t))"
  using assms(2)
proof (induction n arbitrary: t)
  case (Suc n)
  let ?b = "eligible_indices orders Buy p" and ?s = "eligible_indices orders Sell p"
  have all: "filter (\<lambda>i. True) is = is" for "is" :: "nat list" by simp
  obtain b where b: "allocate_side H (ac_commitment config) orders ?b Buy t = Ok b" "side_allocation orders ?b t b"
    "(\<forall>i \<in> set ?b. \<not> is_fok orders i) \<and> t \<le> qsum orders ?b \<longrightarrow> sum_list b = t"
    using allocate_side_Ok [OF assms(1) all [symmetric], where s = Buy and p = p and H = H
        and cm = "ac_commitment config" and target = t] by auto
  obtain s where s: "allocate_side H (ac_commitment config) orders ?s Sell t = Ok s" "side_allocation orders ?s t s"
    "(\<forall>i \<in> set ?s. \<not> is_fok orders i) \<and> t \<le> qsum orders ?s \<longrightarrow> sum_list s = t"
    using allocate_side_Ok [OF assms(1) all [symmetric], where s = Sell and p = p and H = H
        and cm = "ac_commitment config" and target = t] by auto
  have le: "sum_list b \<le> t" "sum_list s \<le> t" using b(2) s(2) by (auto simp: side_allocation_def)
  obtain a where a: "add_allocations b s = Ok a" "sum_list b = t \<and> sum_list s = t \<longrightarrow>
    candidate_ok orders p \<lparr>ca_price = p, ca_matched = t, ca_imbalance = imb, ca_allocations = a\<rparr>"
    using both_sides [OF assms(1) all [symmetric] all [symmetric] b(2) s(2)] by blast
  have run: "candidate_rounds H config orders p ?b ?s imb (Suc n) t =
    (let t' = min (sum_list b) (sum_list s) in
     if t' = t then Ok (Some \<lparr>ca_price = p, ca_matched = t, ca_imbalance = imb, ca_allocations = a\<rparr>)
     else if t' = 0 then Ok (Some (no_match orders p imb))
     else candidate_rounds H config orders p ?b ?s imb n t')"
    using b(1) s(1) a(1) le Suc.prems by (simp add: checked_values_Ok Let_def)
  consider "min (sum_list b) (sum_list s) = t" | "min (sum_list b) (sum_list s) \<noteq> t" "min (sum_list b) (sum_list s) = 0"
    | "min (sum_list b) (sum_list s) \<noteq> t" "min (sum_list b) (sum_list s) \<noteq> 0" by blast
  then show ?case
  proof cases
    case 1
    then have "sum_list b = t" "sum_list s = t" using le by auto
    with a(2) show ?thesis unfolding run using 1 by simp
  next
    case 2
    have "sum_list b = t \<and> sum_list s = t" if "\<forall>i < length orders. \<not> is_fok orders i" "t \<le> qsum orders ?b" "t \<le> qsum orders ?s"
      using b(3) s(3) that by (auto simp: set_eligible)
    then show ?thesis unfolding run using 2 no_match_ok [of orders p imb] by (auto simp: no_match_def)
  next
    case 3
    have no: "\<not> ((\<forall>i < length orders. \<not> is_fok orders i) \<and> t \<le> qsum orders ?b \<and> t \<le> qsum orders ?s)"
      using b(3) s(3) 3 by (auto simp: set_eligible)
    have "min (sum_list b) (sum_list s) \<le> u64_max" using le Suc.prems by simp
    from Suc.IH [OF this] show ?thesis unfolding run using 3 no by (auto simp: Let_def)
  qed
qed simp

definition demand :: "auction_order list \<Rightarrow> side \<Rightarrow> nat \<Rightarrow> nat" where
  "demand orders s p = qsum orders (eligible_indices orders s p)"

lemma evaluate_candidate_Ok:
  assumes "batch_ok orders" and "length orders * 4 + 8 \<le> u64_max"
  shows "\<exists>c. evaluate_candidate H config orders p = Ok c \<and> candidate_ok orders p c \<and>
    ca_imbalance c = abs_diff (demand orders Buy p) (demand orders Sell p) \<and>
    ((\<forall>i < length orders. \<not> is_fok orders i) \<longrightarrow> ca_matched c = min (demand orders Buy p) (demand orders Sell p))"
proof -
  let ?b = "eligible_indices orders Buy p" and ?s = "eligible_indices orders Sell p"
  let ?imb = "abs_diff (qsum orders ?b) (qsum orders ?s)" and ?t = "min (qsum orders ?b) (qsum orders ?s)"
  let ?n = "length orders * 4 + 8"
  have le: "qsum orders ?b \<le> u64_max" "qsum orders ?s \<le> u64_max" using qsum_eligible_le [OF assms(1)] by auto
  have t: "?t \<le> u64_max" using le by simp
  obtain r where r: "candidate_rounds H config orders p ?b ?s ?imb ?n ?t = Ok r"
    "\<forall>c. r = Some c \<longrightarrow> candidate_ok orders p c \<and> ca_imbalance c = ?imb"
    "(\<forall>i < length orders. \<not> is_fok orders i) \<longrightarrow> (\<exists>c. r = Some c \<and> ca_matched c = ?t)"
    using candidate_rounds_Ok [OF assms(1) t, of H config p ?imb ?n] by auto
  obtain c where c: "evaluate_ioc_fallback H config orders p ?b ?s ?imb = Ok c" "candidate_ok orders p c" "ca_imbalance c = ?imb"
    using fallback_Ok [OF assms(1)] by blast
  have max: "Option.bind (checked_mul u64_max (length orders) 4) (\<lambda>rounds. checked_add u64_max rounds 8) = Some ?n"
    using assms(2) by (simp add: bind_eq_Some_conv)
  have run: "evaluate_candidate H config orders p = (if ?t = 0 then Ok (no_match orders p ?imb)
      else case r of Some c \<Rightarrow> Ok c | None \<Rightarrow> Ok c)"
    using le r(1) c(1) max
    by (cases "?t = 0"; cases r) (simp_all add: evaluate_candidate_def checked_quantity_Ok Let_def del: min_less_iff_conj neq0_conv)
  show ?thesis
  proof (cases "?t = 0")
    case True
    then show ?thesis unfolding run demand_def using no_match_ok [of orders p ?imb] by (simp add: no_match_def)
  next
    case False
    then show ?thesis unfolding run demand_def using r(2,3) c by (cases r) auto
  qed
qed

section \<open>The choice of the price\<close>

definition rank :: "nat \<Rightarrow> candidate \<Rightarrow> int \<times> nat \<times> nat \<times> nat" where
  "rank ref c = (- int (ca_matched c), ca_imbalance c, abs_diff (ca_price c) ref, ca_price c)"

lemma is_better_than_rank: "is_better_than c d ref \<longleftrightarrow> rank ref c < rank ref d"
  by (auto simp: is_better_than_def rank_def less_prod_def)

definition chosen :: "digest \<Rightarrow> auction_config \<Rightarrow> auction_order list \<Rightarrow> nat list \<Rightarrow> candidate option \<Rightarrow> bool" where
  "chosen H config orders ps best \<longleftrightarrow>
     (\<forall>c. best = Some c \<longrightarrow> 0 < ca_matched c \<and> ca_price c \<in> set ps \<and> evaluate_candidate H config orders (ca_price c) = Ok c) \<and>
     (\<forall>p \<in> set ps. \<forall>d. evaluate_candidate H config orders p = Ok d \<longrightarrow>
        ca_matched d = 0 \<or> (\<exists>c. best = Some c \<and> rank (ac_reference_price config) c \<le> rank (ac_reference_price config) d))"

lemma consider_price_chosen:
  assumes "batch_ok orders" and "length orders * 4 + 8 \<le> u64_max" and "chosen H config orders ps best"
  shows "\<exists>best'. consider_price H config orders p best = Ok best' \<and> chosen H config orders (ps @ [p]) best'"
proof -
  obtain d where d: "evaluate_candidate H config orders p = Ok d" "ca_price d = p"
    using evaluate_candidate_Ok [OF assms(1,2), of H config p] unfolding candidate_ok_def by blast
  show ?thesis
  proof (cases best)
    case None
    then show ?thesis using assms(3) d by (auto simp: consider_price_def chosen_def)
  next
    case (Some c)
    show ?thesis
    proof (cases "ca_matched d \<noteq> 0 \<and> rank (ac_reference_price config) d < rank (ac_reference_price config) c")
      case True
      then have "consider_price H config orders p best = Ok (Some d)"
        using Some d by (simp add: consider_price_def is_better_than_rank)
      moreover have "chosen H config orders (ps @ [p]) (Some d)"
        using assms(3) d Some True by (fastforce simp: chosen_def)
      ultimately show ?thesis by blast
    next
      case False
      then have "consider_price H config orders p best = Ok best"
        using Some d by (auto simp: consider_price_def is_better_than_rank)
      moreover have "chosen H config orders (ps @ [p]) best"
        using assms(3) d Some False by (auto simp: chosen_def not_less)
      ultimately show ?thesis by blast
    qed
  qed
qed

lemma consider_prices_chosen:
  assumes "batch_ok orders" and "length orders * 4 + 8 \<le> u64_max" and "chosen H config orders qs best"
  shows "\<exists>best'. foldr_res (consider_price H config orders) ps best = Ok best' \<and> chosen H config orders (qs @ ps) best'"
  using assms(3)
proof (induction ps arbitrary: qs best)
  case (Cons p ps)
  obtain b where b: "consider_price H config orders p best = Ok b" "chosen H config orders (qs @ [p]) b"
    using consider_price_chosen [OF assms(1,2) Cons.prems] by blast
  show ?case using Cons.IH [OF b(2)] b(1) by simp
qed simp

definition outcome_of :: "auction_order list \<Rightarrow> candidate option \<Rightarrow> auction_outcome" where
  "outcome_of orders best = (case best of
     None \<Rightarrow> empty_outcome orders
   | Some c \<Rightarrow> \<lparr>au_clearing_price = Some (ca_price c), au_matched = ca_matched c, au_imbalance = ca_imbalance c,
       au_allocations = sort_key al_order_id (map (allocation_of orders (ca_allocations c)) [0..<length orders])\<rparr>)"

lemma clear_batch_chosen:
  assumes "ac_reference_price config \<noteq> 0" and "batch_ok orders" and "length orders * 4 + 8 \<le> u64_max"
  shows "\<exists>best. clear_batch H config orders = Ok (outcome_of orders best) \<and>
    chosen H config orders (candidate_prices config orders) best"
proof (cases "orders = []")
  case True
  have "evaluate_candidate H config [] p = Ok (no_match [] p 0)" for p
    by (simp add: evaluate_candidate_def eligible_indices_def checked_quantity_def abs_diff_def Let_def)
  then have "chosen H config orders (candidate_prices config orders) None"
    using True by (simp add: chosen_def no_match_def)
  then show ?thesis
    using True assms(1,2) by (intro exI [of _ None]) (simp add: clear_batch_def outcome_of_def auction_validate_Ok [THEN iffD2])
next
  case False
  have "chosen H config orders [] None" by (simp add: chosen_def)
  from consider_prices_chosen [OF assms(2,3) this, of "candidate_prices config orders"]
  obtain best where "foldr_res (consider_price H config orders) (candidate_prices config orders) None = Ok best"
    "chosen H config orders (candidate_prices config orders) best" by auto
  then show ?thesis
    using False assms(1,2) by (intro exI [of _ best])
      (auto simp: clear_batch_def outcome_of_def auction_validate_Ok [THEN iffD2] split: option.splits)
qed

section \<open>Reading an outcome\<close>

definition allotted :: "auction_outcome \<Rightarrow> bytes \<Rightarrow> nat" where
  "allotted out oid = (case map_of (map (\<lambda>al. (al_order_id al, al_executed al)) (au_allocations out)) oid of
     None \<Rightarrow> 0 | Some n \<Rightarrow> n)"

definition side_executed :: "auction_outcome \<Rightarrow> auction_order list \<Rightarrow> side \<Rightarrow> nat" where
  "side_executed out orders s = sum_list (map (\<lambda>ord. allotted out (ao_id ord)) (filter (\<lambda>ord. ao_side ord = s) orders))"

lemma map_sort_key: "map g (sort_key (f \<circ> g) xs) = sort_key f (map g xs)"
proof -
  have "map g (insort_key (f \<circ> g) x ys) = insort_key f (g x) (map g ys)" for x ys
    by (induction ys) auto
  then show ?thesis by (induction xs) (simp_all add: sort_key_def)
qed

lemma allotted_sorted:
  assumes "au_allocations out = sort_key al_order_id als" and "distinct (map al_order_id als)" and "al \<in> set als"
  shows "allotted out (al_order_id al) = al_executed al"
proof -
  let ?g = "\<lambda>al. (al_order_id al, al_executed al)"
  have "distinct (map fst (map ?g (au_allocations out)))" using assms(1,2) by (simp add: comp_def distinct_map)
  moreover have "(al_order_id al, al_executed al) \<in> set (map ?g (au_allocations out))" using assms(1,3) by auto
  ultimately show ?thesis by (simp add: allotted_def)
qed

lemma allotted_chosen:
  assumes "batch_ok orders" and "i < length orders"
  shows "allotted (outcome_of orders (Some c)) (ao_id (orders ! i)) = ca_allocations c ! i"
proof -
  let ?als = "map (allocation_of orders (ca_allocations c)) [0..<length orders]"
  have "map al_order_id ?als = map ao_id orders"
    by (simp add: allocation_of_def comp_def) (metis (mono_tags, lifting) comp_apply map_eq_conv map_map map_nth)
  then have "distinct (map al_order_id ?als)" using assms(1) unfolding batch_ok_def by metis
  moreover have "allocation_of orders (ca_allocations c) i \<in> set ?als" using assms(2) by auto
  ultimately show ?thesis
    using allotted_sorted [of "outcome_of orders (Some c)" ?als "allocation_of orders (ca_allocations c) i"]
    by (simp add: outcome_of_def allocation_of_def)
qed

lemma allotted_empty: "allotted (outcome_of orders None) oid = 0"
proof (cases "map_of (map (\<lambda>al. (al_order_id al, al_executed al)) (au_allocations (outcome_of orders None))) oid")
  case None
  then show ?thesis by (simp add: allotted_def)
next
  case (Some n)
  then have "n = 0" by (auto simp: outcome_of_def empty_outcome_def dest!: map_of_SomeD)
  with Some show ?thesis by (simp add: allotted_def)
qed

lemma side_executed_index:
  "side_executed out orders s = (\<Sum>i\<leftarrow>[0..<length orders]. if ao_side (orders ! i) = s then allotted out (ao_id (orders ! i)) else 0)"
proof -
  let ?f = "\<lambda>ord. allotted out (ao_id ord)"
  have "side_executed out orders s = sum_list (map (\<lambda>ord. if ao_side ord = s then ?f ord else 0) orders)"
    by (simp add: side_executed_def sum_list_map_filter')
  also have "\<dots> = sum_list (map (\<lambda>ord. if ao_side ord = s then ?f ord else 0) (map ((!) orders) [0..<length orders]))"
    by (simp only: map_nth)
  finally show ?thesis by (simp add: comp_def)
qed

lemma outcome_ids: "map al_order_id (au_allocations (outcome_of orders best)) = sort (map ao_id orders)"
proof -
  have "map al_order_id (sort_key al_order_id als) = sort (map al_order_id als)" for als :: "allocation list"
    using map_sort_key [of al_order_id "\<lambda>x. x" als] by (simp add: comp_def)
  moreover have "map al_order_id (map (allocation_of orders a) [0..<length orders]) = map ao_id orders" for a
    by (simp add: allocation_of_def comp_def) (metis (mono_tags, lifting) comp_apply map_eq_conv map_map map_nth)
  ultimately show ?thesis by (cases best) (simp_all add: outcome_of_def empty_outcome_def comp_def)
qed

text \<open>What every cleared batch satisfies.\<close>

lemma cleared_sound:
  assumes "length orders * 4 + 8 \<le> u64_max" and "clear_batch H config orders = Ok out"
  shows "map al_order_id (au_allocations out) = sort (map ao_id orders) \<and>
    (\<forall>ord \<in> set orders. let n = allotted out (ao_id ord) in n \<le> ao_quantity ord \<and>
       (0 < n \<longrightarrow> (\<exists>p. au_clearing_price out = Some p \<and> auction_crosses ord p)) \<and>
       (ao_tif ord = FokOrder \<longrightarrow> n = 0 \<or> n = ao_quantity ord)) \<and>
    (\<forall>s. side_executed out orders s = au_matched out)"
proof -
  have valid: "ac_reference_price config \<noteq> 0" "batch_ok orders"
    using clear_batch_valid [OF assms(2)] by auto
  obtain best where out: "out = outcome_of orders best" and best: "chosen H config orders (candidate_prices config orders) best"
    using clear_batch_chosen [OF valid assms(1), of H] assms(2) by auto
  show ?thesis
  proof (cases best)
    case None
    then have "side_executed out orders s = 0" for s by (simp add: side_executed_def out allotted_empty)
    moreover have "au_matched out = 0" by (simp add: out None outcome_of_def empty_outcome_def)
    ultimately show ?thesis using outcome_ids [of orders best] None by (simp add: out allotted_empty Let_def)
  next
    case (Some c)
    have "candidate_ok orders (ca_price c) c"
      using evaluate_candidate_Ok [OF valid(2) assms(1), of H config "ca_price c"] best Some by (auto simp: chosen_def)
    note c = this [unfolded candidate_ok_def]
    have fields: "au_clearing_price out = Some (ca_price c)" "au_matched out = ca_matched c"
      by (simp_all add: out Some outcome_of_def)
    have "side_executed out orders s = executed_on orders (ca_allocations c) s" for s
      unfolding side_executed_index executed_on_def
      using allotted_chosen [OF valid(2), of _ c] by (intro arg_cong [of _ _ sum_list] map_cong refl) (auto simp: out Some)
    moreover have "let n = allotted out (ao_id ord) in n \<le> ao_quantity ord \<and>
       (0 < n \<longrightarrow> (\<exists>p. au_clearing_price out = Some p \<and> auction_crosses ord p)) \<and>
       (ao_tif ord = FokOrder \<longrightarrow> n = 0 \<or> n = ao_quantity ord)" if mem: "ord \<in> set orders" for ord
    proof -
      obtain i where i: "i < length orders" "ord = orders ! i" using mem by (auto simp: in_set_conv_nth)
      then have "allotted out (ao_id ord) = ca_allocations c ! i"
        using allotted_chosen [OF valid(2) i(1), of c] by (simp add: out Some)
      then show ?thesis using c i fields(1) by (simp add: Let_def)
    qed
    ultimately show ?thesis using outcome_ids [of orders best] c fields(2) by (simp add: out)
  qed
qed

end
