(* ===== verification/Batch_Auction_Theorems.thy ===== *)
theory Batch_Auction_Theorems
  imports Batch_Auction_Props "HOL-Library.Code_Target_Nat"
begin

text \<open>
  The properties of the batch auction, with their evaluation on three orders around a reference price
  of 100 and the identity in place of the hash.
\<close>

section \<open>The example\<close>

definition w_config :: auction_config where
  "w_config = \<lparr>ac_reference_price = 100, ac_commitment = [7]\<rparr>"

definition w_orders :: "auction_order list" where
  "w_orders =
     [\<lparr>ao_id = [1], ao_side = Buy, ao_kind = LimitAt 101, ao_tif = IocOrder, ao_quantity = 7\<rparr>,
      \<lparr>ao_id = [2], ao_side = Buy, ao_kind = LimitAt 101, ao_tif = IocOrder, ao_quantity = 4\<rparr>,
      \<lparr>ao_id = [3], ao_side = Sell, ao_kind = MarketWithin 99, ao_tif = FokOrder, ao_quantity = 6\<rparr>]"

lemma w_orders_ok: "ac_reference_price w_config \<noteq> 0" "batch_ok w_orders" "length w_orders * 4 + 8 \<le> u64_max"
  by (simp_all add: w_config_def w_orders_def batch_ok_def side_total_def u64_max_def side_all)

lemma w_clear: "\<exists>out. clear_batch (\<lambda>b. b) w_config w_orders = Ok out \<and> au_clearing_price out = Some 100 \<and>
    map al_executed (au_allocations out) = [4, 2, 6]"
proof -
  have "(case clear_batch (\<lambda>b. b) w_config w_orders of Ok out \<Rightarrow> au_clearing_price out = Some 100 \<and>
    map al_executed (au_allocations out) = [4, 2, 6] | _ \<Rightarrow> False)"
    by code_simp
  then show ?thesis by (auto split: res.splits)
qed

section \<open>Properties\<close>

text \<open>C23: A batch clears exactly when it is valid: a positive reference price, distinct ids, positive
  quantities and limit prices, and totals of both sides that fit 64 bits. No valid batch ends in an
  overflow, a panic or an exhausted search, whatever its fill-or-kill orders and whatever the hash.\<close>

theorem clear_batch_accepts_valid:
  assumes "length orders * 4 + 8 \<le> u64_max"
  shows "(\<exists>out. clear_batch H config orders = Ok out) \<longleftrightarrow> ac_reference_price config \<noteq> 0 \<and> batch_ok orders"
proof
  assume "\<exists>out. clear_batch H config orders = Ok out"
  then show "ac_reference_price config \<noteq> 0 \<and> batch_ok orders"
    using clear_batch_valid by blast
next
  assume "ac_reference_price config \<noteq> 0 \<and> batch_ok orders"
  then show "\<exists>out. clear_batch H config orders = Ok out"
    using clear_batch_chosen [of config orders H] assms by blast
qed

theorem clear_batch_accepts_valid_witness: "\<exists>out. clear_batch (\<lambda>b. b) w_config w_orders = Ok out"
  using clear_batch_accepts_valid [OF w_orders_ok(3), of "\<lambda>b. b" w_config] w_orders_ok by blast

text \<open>C11: Every cleared batch is sound: there is one allocation per order, in the order of the ids; no order
  executes more than its quantity; what executes crosses the clearing price; a fill-or-kill order executes
  entirely or not at all; and both sides execute exactly the matched quantity.\<close>

theorem clear_batch_sound:
  assumes "length orders * 4 + 8 \<le> u64_max" and "clear_batch H config orders = Ok out"
  shows "map al_order_id (au_allocations out) = sort (map ao_id orders) \<and>
    (\<forall>ord \<in> set orders. let n = allotted out (ao_id ord) in n \<le> ao_quantity ord \<and>
       (0 < n \<longrightarrow> (\<exists>p. au_clearing_price out = Some p \<and> auction_crosses ord p)) \<and>
       (ao_tif ord = FokOrder \<longrightarrow> n = 0 \<or> n = ao_quantity ord)) \<and>
    (\<forall>s. side_executed out orders s = au_matched out)"
  using assms by (rule cleared_sound)

theorem clear_batch_sound_witness:
  "\<exists>out. clear_batch (\<lambda>b. b) w_config w_orders = Ok out \<and> side_executed out w_orders Buy = side_executed out w_orders Sell"
proof -
  obtain out where "clear_batch (\<lambda>b. b) w_config w_orders = Ok out" using w_clear by blast
  with clear_batch_sound [OF w_orders_ok(3) this] show ?thesis by auto
qed





text \<open>C26: Pro-rata allocation is fair and exact. When a group of immediate-or-cancel orders asks for more than
  is left, all of it is allotted, and every order gets its proportional share rounded down or one unit
  more, never above its quantity; when it asks for no more, every order is filled.\<close>

theorem pro_rata_fair:
  assumes "fresh is a" and "qsum orders is \<le> u64_max" and "\<forall>i \<in> set is. 0 < qty orders i \<and> ao_tif (orders ! i) = IocOrder"
  shows "\<exists>a' r'. allocate_pro_rata H commitment orders is a r = Ok (a', r') \<and> r' = r - qsum orders is \<and>
    sum_list (map ((!) a') is) + r' = r \<and> (\<forall>i \<in> set is. a' ! i \<le> qty orders i) \<and>
    (\<forall>j. j \<notin> set is \<longrightarrow> a' ! j = a ! j) \<and>
    (r < qsum orders is \<longrightarrow> (\<forall>i \<in> set is. qty orders i * r div qsum orders is \<le> a' ! i \<and>
      a' ! i \<le> qty orders i * r div qsum orders is + 1))"
  using allocate_pro_rata_Ok [OF assms(1,2), of H commitment r] assms(3) by (fastforce simp: allots_def share_def)

theorem pro_rata_fair_witness:
  "\<exists>a' r'. allocate_pro_rata (\<lambda>b. b) [7] w_orders [0, 1] [0, 0, 0] 6 = Ok (a', r') \<and> 3 \<le> a' ! 0 \<and> a' ! 0 \<le> 4"
proof -
  have "fresh [0, 1] [0, 0, 0]" "qsum w_orders [0, 1] = 11" "\<forall>i \<in> set [0, 1]. 0 < qty w_orders i \<and> ao_tif (w_orders ! i) = IocOrder"
    by (simp_all add: fresh_def w_orders_def nth_Cons')
  then show ?thesis
    using pro_rata_fair [of "[0, 1]" "[0, 0, 0]" w_orders "\<lambda>b. b" "[7]" 6] by (auto simp: u64_max_def w_orders_def)
qed

end
