(* ===== verification/Private_Market.thy ===== *)
theory Private_Market
  imports Batch_Auction
begin

text \<open>
  The adapter between decimal market inputs and the integer auction (\<open>private_market.rs\<close>): exact
  conversion of prices and quantities to ticks and lots, the commitment that seeds the allocation, and
  the settlement fills. Conversions work on the mantissa and the scale of a decimal, \<open>d_mantissa\<close> and
  \<open>d_scale\<close> of the arithmetic parameter.
\<close>

datatype visibility = PublicOrder | PrivateOrder bytes

record batch_participant =
  bp_visibility :: visibility
  bp_account_id :: account_id
  bp_order_id :: bytes
  bp_side :: side
  bp_kind :: order_kind
  bp_tif :: time_in_force
  bp_quantity :: decimal
  bp_limit_price :: "decimal option"
  bp_leverage :: nat
  bp_reduce_only :: bool

record batch_context =
  bc_chain_id :: string
  bc_height :: nat
  bc_threshold_beacon :: bytes
  bc_reference_price :: decimal

record participant_allocation =
  pa_participant :: batch_participant
  pa_executed_lots :: nat
  pa_executed_quantity :: decimal
  pa_status :: allocation_status

record batch_fill =
  bfl_buy_order_id :: bytes
  bfl_sell_order_id :: bytes
  bfl_buy_account_id :: account_id
  bfl_sell_account_id :: account_id
  bfl_price_ticks :: nat
  bfl_price :: decimal
  bfl_quantity_lots :: nat
  bfl_quantity :: decimal

record private_batch_outcome =
  po_commitment :: bytes
  po_clearing_price_ticks :: "nat option"
  po_clearing_price :: "decimal option"
  po_matched_lots :: nat
  po_matched_quantity :: decimal
  po_imbalance_lots :: nat
  po_allocations :: "participant_allocation list"
  po_fills :: "batch_fill list"

datatype market_error =
    InvalidChainId
  | ZeroHeight
  | InvalidMarketId
  | InvalidThresholdBeacon
  | NonPositiveStep string
  | InvalidSlippageLimit
  | NegativeValue string
  | NotStepAligned string decimal decimal
  | UnitOverflow string
  | DecimalOverflow string
  | DuplicateCiphertextId
  | InvalidParticipant bytes string
  | AuctionFailed auction_error
  | MissingAllocation bytes
  | UnknownAllocation bytes
  | FokNotAtomic bytes
  | AllocationConservation
  | FillConservation
  | AdapterOverflow

type_synonym 'a market = "(market_error, 'a) res"

section \<open>Units\<close>

fun euclid :: "nat \<Rightarrow> nat \<Rightarrow> nat" where
  "euclid left right = (if right = 0 then left else euclid right (left mod right))"

declare euclid.simps [simp del]

definition power_of_ten :: "nat \<Rightarrow> nat market" where
  "power_of_ten e = (if 10 ^ e \<le> u128_max then Ok (10 ^ e) else Err AdapterOverflow)"

definition validate_step :: "dec_ops \<Rightarrow> decimal \<Rightarrow> string \<Rightarrow> unit market" where
  "validate_step D step field = check (0 < d_mantissa D step) (NonPositiveStep field)"

text \<open>The three cases of comparing the scales, on the cancelled numerator and denominator.\<close>

definition align_scales ::
  "nat \<Rightarrow> nat \<Rightarrow> decimal \<Rightarrow> decimal \<Rightarrow> string \<Rightarrow> nat \<Rightarrow> nat \<Rightarrow> nat market" where
  "align_scales step_scale value_scale val step field numerator denominator =
     (if value_scale < step_scale then
        bindr (power_of_ten (step_scale - value_scale)) (\<lambda>scale_factor.
        let cancellation = euclid denominator scale_factor in
        if denominator div cancellation \<noteq> 1 then Err (NotStepAligned field val step)
        else ok_or (UnitOverflow field) (checked_mul u128_max numerator (scale_factor div cancellation)))
      else if step_scale < value_scale then
        bindr (power_of_ten (value_scale - step_scale)) (\<lambda>scale_factor.
        let cancellation = euclid numerator scale_factor in
        if denominator \<noteq> 1 \<or> scale_factor div cancellation \<noteq> 1 then Err (NotStepAligned field val step)
        else Ok (numerator div cancellation))
      else if denominator \<noteq> 1 then Err (NotStepAligned field val step)
      else Ok numerator)"

definition decimal_to_units :: "dec_ops \<Rightarrow> decimal \<Rightarrow> decimal \<Rightarrow> string \<Rightarrow> nat market" where
  "decimal_to_units D val step field =
     bindr (validate_step D step field) (\<lambda>_.
     let value_mantissa = d_mantissa D val in
     if value_mantissa < 0 then Err (NegativeValue field)
     else if value_mantissa = 0 then Ok 0
     else (let numerator = nat value_mantissa; denominator = nat (d_mantissa D step);
               common = euclid numerator denominator in
       bindr (align_scales (d_scale D step) (d_scale D val) val step field
         (numerator div common) (denominator div common)) (\<lambda>units.
       if units \<le> u64_max then Ok units else Err (UnitOverflow field))))"

definition units_to_decimal :: "dec_ops \<Rightarrow> nat \<Rightarrow> decimal \<Rightarrow> string \<Rightarrow> decimal market" where
  "units_to_decimal D units step field =
     bindr (validate_step D step field) (\<lambda>_. ok_or (DecimalOverflow field) (d_mul D (of_nat units) step))"

definition price_to_ticks :: "dec_ops \<Rightarrow> decimal \<Rightarrow> market_config \<Rightarrow> nat market" where
  "price_to_ticks D price m = decimal_to_units D price (mc_tick_size m) ''price''"

definition ticks_to_price :: "dec_ops \<Rightarrow> nat \<Rightarrow> market_config \<Rightarrow> decimal market" where
  "ticks_to_price D ticks m = units_to_decimal D ticks (mc_tick_size m) ''price''"

definition quantity_to_lots :: "dec_ops \<Rightarrow> decimal \<Rightarrow> market_config \<Rightarrow> nat market" where
  "quantity_to_lots D quantity m = decimal_to_units D quantity (mc_quantity_step m) ''quantity''"

definition lots_to_quantity :: "dec_ops \<Rightarrow> nat \<Rightarrow> market_config \<Rightarrow> decimal market" where
  "lots_to_quantity D lots m = units_to_decimal D lots (mc_quantity_step m) ''quantity''"

definition validate_market_steps :: "dec_ops \<Rightarrow> market_config \<Rightarrow> unit market" where
  "validate_market_steps D m =
     bindr (validate_step D (mc_tick_size m) ''price'') (\<lambda>_.
     bindr (validate_step D (mc_quantity_step m) ''quantity'') (\<lambda>_.
     if mc_market_slippage_limit m < 0 \<or> 1 < mc_market_slippage_limit m then Err InvalidSlippageLimit
     else bindr (quantity_to_lots D (mc_min_quantity m) m) (\<lambda>minimum_lots.
       if minimum_lots = 0 then Err (NonPositiveStep ''minimum quantity'') else Ok ())))"

section \<open>The allocation commitment\<close>

definition commitment_domain :: bytes where
  "commitment_domain = ascii ''ASTERIA_PRIVATE_MARKET_ALLOCATION_COMMITMENT_V2'' @ [0]"

definition commitment_preimage :: "string \<Rightarrow> nat \<Rightarrow> string \<Rightarrow> bytes \<Rightarrow> bytes" where
  "commitment_preimage chain_id height market_id beacon =
     commitment_domain @ be_bytes 8 (length chain_id) @ ascii chain_id @ be_bytes 8 height
       @ be_bytes 8 (length market_id) @ ascii market_id @ beacon"

definition allocation_commitment :: "digest \<Rightarrow> string \<Rightarrow> nat \<Rightarrow> string \<Rightarrow> bytes \<Rightarrow> bytes market" where
  "allocation_commitment H chain_id height market_id beacon =
     (if chain_id = [] \<or> 128 < length chain_id then Err InvalidChainId
      else if height = 0 then Err ZeroHeight
      else if market_id = [] \<or> 64 < length market_id then Err InvalidMarketId
      else if beacon = replicate 32 0 then Err InvalidThresholdBeacon
      else Ok (H (commitment_preimage chain_id height market_id beacon)))"

section \<open>Participants as auction orders\<close>

definition scale_price_ticks :: "dec_ops \<Rightarrow> nat \<Rightarrow> decimal \<Rightarrow> bool \<Rightarrow> nat market" where
  "scale_price_ticks D reference_price factor round_up =
     (if d_mantissa D factor < 0 then Err AdapterOverflow
      else
        (let numerator = nat (d_mantissa D factor) in
         bindr (power_of_ten (d_scale D factor)) (\<lambda>denominator.
         let c1 = euclid numerator denominator; numerator' = numerator div c1; denominator' = denominator div c1;
             c2 = euclid reference_price denominator'; reference' = reference_price div c2;
             denominator'' = denominator' div c2 in
         bindr (ok_or AdapterOverflow (checked_mul u128_max reference' numerator')) (\<lambda>product.
         bindr (if round_up \<and> product mod denominator'' \<noteq> 0
                then ok_or AdapterOverflow (checked_add u128_max (product div denominator'') 1)
                else Ok (product div denominator'')) (\<lambda>scaled.
         if scaled \<le> u64_max then Ok scaled else Err AdapterOverflow)))))"

definition market_protection_price :: "dec_ops \<Rightarrow> nat \<Rightarrow> decimal \<Rightarrow> side \<Rightarrow> nat market" where
  "market_protection_price D reference_price slippage side =
     bindr (ok_or AdapterOverflow (case side of Buy \<Rightarrow> d_add D 1 slippage | Sell \<Rightarrow> d_sub D 1 slippage))
       (\<lambda>factor. scale_price_ticks D reference_price factor (side = Sell))"

definition auction_kind_of ::
  "dec_ops \<Rightarrow> market_config \<Rightarrow> nat \<Rightarrow> batch_participant \<Rightarrow> auction_kind market" where
  "auction_kind_of D m reference_price p =
     (case (bp_kind p, bp_limit_price p) of
        (Limit, Some price) \<Rightarrow> bindr (price_to_ticks D price m) (\<lambda>t. Ok (LimitAt t))
      | (Limit, None) \<Rightarrow> Err (InvalidParticipant (bp_order_id p) ''limit order requires a price'')
      | (Market, None) \<Rightarrow> bindr (market_protection_price D reference_price (mc_market_slippage_limit m) (bp_side p))
          (\<lambda>t. Ok (MarketWithin t))
      | (Market, Some _) \<Rightarrow> Err (InvalidParticipant (bp_order_id p) ''market order must not include a limit price''))"

definition auction_tif_of :: "batch_participant \<Rightarrow> auction_tif market" where
  "auction_tif_of p =
     (case bp_tif p of
        Ioc \<Rightarrow> Ok IocOrder
      | Fok \<Rightarrow> Ok FokOrder
      | Gtc \<Rightarrow> if bp_visibility p = PublicOrder then Ok IocOrder
               else Err (InvalidParticipant (bp_order_id p) ''private batch orders support only IOC or FOK''))"

definition to_auction_order ::
  "dec_ops \<Rightarrow> market_config \<Rightarrow> nat \<Rightarrow> batch_participant \<Rightarrow> auction_order market" where
  "to_auction_order D m reference_price p =
     (if bp_account_id p = [] then Err (InvalidParticipant (bp_order_id p) ''account id is empty'')
      else if bp_leverage p = 0 \<or> mc_max_leverage m < bp_leverage p
        then Err (InvalidParticipant (bp_order_id p) ''leverage is outside market bounds'')
      else bindr (quantity_to_lots D (bp_quantity p) m) (\<lambda>quantity.
        bindr (quantity_to_lots D (mc_min_quantity m) m) (\<lambda>minimum.
        if quantity < minimum then Err (InvalidParticipant (bp_order_id p) ''quantity is below the market minimum'')
        else bindr (auction_kind_of D m reference_price p) (\<lambda>kind.
          bindr (auction_tif_of p) (\<lambda>tif.
          Ok \<lparr>ao_id = bp_order_id p, ao_side = bp_side p, ao_kind = kind, ao_tif = tif, ao_quantity = quantity\<rparr>)))))"

text \<open>The loop over the participants: the ciphertexts seen and the orders so far.\<close>

definition convert_step ::
  "dec_ops \<Rightarrow> market_config \<Rightarrow> nat \<Rightarrow> batch_participant \<Rightarrow> bytes list \<times> auction_order list \<Rightarrow>
   (bytes list \<times> auction_order list) market" where
  "convert_step D m reference_price p = (\<lambda>(seen, orders).
     bindr (case bp_visibility p of
         PublicOrder \<Rightarrow> Ok seen
       | PrivateOrder c \<Rightarrow> if c \<in> set seen then Err DuplicateCiphertextId else Ok (c # seen)) (\<lambda>seen'.
     bindr (to_auction_order D m reference_price p) (\<lambda>ord. Ok (seen', orders @ [ord]))))"

section \<open>Settlement fills\<close>

definition make_fill ::
  "dec_ops \<Rightarrow> market_config \<Rightarrow> nat \<Rightarrow> decimal \<Rightarrow> participant_allocation \<Rightarrow> participant_allocation \<Rightarrow> nat \<Rightarrow>
   batch_fill market" where
  "make_fill D m price_ticks price buy sell lots =
     bindr (lots_to_quantity D lots m) (\<lambda>quantity.
     Ok \<lparr>bfl_buy_order_id = bp_order_id (pa_participant buy), bfl_sell_order_id = bp_order_id (pa_participant sell),
         bfl_buy_account_id = bp_account_id (pa_participant buy), bfl_sell_account_id = bp_account_id (pa_participant sell),
         bfl_price_ticks = price_ticks, bfl_price = price, bfl_quantity_lots = lots, bfl_quantity = quantity\<rparr>)"

text \<open>The entries whose remainder is used up are dropped from the lists; the result is what is left, the
  lots paired and the fills.\<close>

type_synonym open_allocations = "(participant_allocation \<times> nat) list"

definition next_open :: "open_allocations \<Rightarrow> nat \<Rightarrow> open_allocations" where
  "next_open xs lots = (case xs of [] \<Rightarrow> [] | (a, n) # rest \<Rightarrow> if n - lots = 0 then rest else (a, n - lots) # rest)"

function pair_loop ::
  "dec_ops \<Rightarrow> market_config \<Rightarrow> nat \<Rightarrow> decimal \<Rightarrow> open_allocations \<Rightarrow> open_allocations \<Rightarrow> nat \<Rightarrow> batch_fill list \<Rightarrow>
   (open_allocations \<times> open_allocations \<times> nat \<times> batch_fill list) market" where
  "pair_loop D m price_ticks price buys sells paired fills =
     (case (buys, sells) of
        ((b, bn) # bs, (s, sn) # ss) \<Rightarrow>
          if min bn sn = 0 then Err FillConservation
          else bindr (make_fill D m price_ticks price b s (min bn sn)) (\<lambda>fill.
            bindr (ok_or AdapterOverflow (checked_add u64_max paired (min bn sn))) (\<lambda>paired'.
            pair_loop D m price_ticks price (next_open buys (min bn sn)) (next_open sells (min bn sn))
              paired' (fills @ [fill])))
      | _ \<Rightarrow> Ok (buys, sells, paired, fills))"
  by pat_completeness auto
termination
  by (relation "measure (\<lambda>(D, m, t, p, buys, sells, paired, fills). length buys + length sells)")
    (auto simp: next_open_def min_def split: if_splits)

declare pair_loop.simps [simp del]

definition open_side :: "side \<Rightarrow> participant_allocation list \<Rightarrow> open_allocations" where
  "open_side side allocations =
     sort_key (\<lambda>(a, n). bp_order_id (pa_participant a))
       (map (\<lambda>a. (a, pa_executed_lots a))
         (filter (\<lambda>a. bp_side (pa_participant a) = side \<and> 0 < pa_executed_lots a) allocations))"

definition pair_fills ::
  "dec_ops \<Rightarrow> market_config \<Rightarrow> participant_allocation list \<Rightarrow> nat option \<Rightarrow> decimal option \<Rightarrow> nat \<Rightarrow>
   batch_fill list market" where
  "pair_fills D m allocations clearing_ticks clearing_price matched =
     (if matched = 0 then (if clearing_ticks \<noteq> None \<or> clearing_price \<noteq> None then Err FillConservation else Ok [])
      else bindr (ok_or FillConservation clearing_ticks) (\<lambda>price_ticks.
        bindr (ok_or FillConservation clearing_price) (\<lambda>price.
        bindr (pair_loop D m price_ticks price (open_side Buy allocations) (open_side Sell allocations) 0 [])
          (\<lambda>(buys, sells, paired, fills).
            if paired \<noteq> matched \<or> (\<exists>x \<in> set buys. snd x \<noteq> 0) \<or> (\<exists>x \<in> set sells. snd x \<noteq> 0)
            then Err FillConservation else Ok fills))))"

section \<open>Clearing\<close>

text \<open>The loop that restores the allocations: allocations left by id, totals of both sides, results.\<close>

record restore_state =
  rs_left :: "(bytes, allocation) omap"
  rs_buy_lots :: nat
  rs_sell_lots :: nat
  rs_restored :: "participant_allocation list"

definition restore_step ::
  "dec_ops \<Rightarrow> market_config \<Rightarrow> bytes \<times> batch_participant \<Rightarrow> restore_state \<Rightarrow> restore_state market" where
  "restore_step D m = (\<lambda>(oid, p) st.
     bindr (ok_or (MissingAllocation oid) (om_get (rs_left st) oid)) (\<lambda>al.
     bindr (if bp_tif p = Fok \<and> al_executed al \<noteq> 0
            then bindr (quantity_to_lots D (bp_quantity p) m)
              (\<lambda>lots. check (al_executed al = lots) (FokNotAtomic oid))
            else Ok ()) (\<lambda>_.
     bindr (ok_or AdapterOverflow (checked_add u64_max
              (case bp_side p of Buy \<Rightarrow> rs_buy_lots st | Sell \<Rightarrow> rs_sell_lots st) (al_executed al))) (\<lambda>side_total.
     bindr (lots_to_quantity D (al_executed al) m) (\<lambda>quantity.
     Ok \<lparr>rs_left = om_remove oid (rs_left st),
         rs_buy_lots = (case bp_side p of Buy \<Rightarrow> side_total | Sell \<Rightarrow> rs_buy_lots st),
         rs_sell_lots = (case bp_side p of Buy \<Rightarrow> rs_sell_lots st | Sell \<Rightarrow> side_total),
         rs_restored = rs_restored st @ [\<lparr>pa_participant = p, pa_executed_lots = al_executed al,
           pa_executed_quantity = quantity, pa_status = al_status al\<rparr>]\<rparr>)))))"

definition known_allocation ::
  "(bytes, batch_participant) omap \<Rightarrow> allocation \<Rightarrow> (bytes, allocation) omap \<Rightarrow> (bytes, allocation) omap market" where
  "known_allocation participants al m =
     (if om_get participants (al_order_id al) = None then Err (UnknownAllocation (al_order_id al))
      else Ok (om_insert (al_order_id al) al m))"

definition first_duplicate :: "batch_participant list \<Rightarrow> batch_participant option" where
  "first_duplicate ps = List.find (\<lambda>p. 1 < length (filter (\<lambda>q. bp_order_id q = bp_order_id p) ps)) ps"

definition restore_allocations ::
  "dec_ops \<Rightarrow> market_config \<Rightarrow> batch_participant list \<Rightarrow> auction_outcome \<Rightarrow> participant_allocation list market" where
  "restore_allocations D m participants out =
     (let by_id = om_of_list (map (\<lambda>p. (bp_order_id p, p)) participants) in
      if length by_id \<noteq> length participants
      then bindr (expect (first_duplicate participants))
        (\<lambda>p. Err (InvalidParticipant (bp_order_id p) ''duplicate order id''))
      else bindr (foldr_res (known_allocation by_id) (au_allocations out) []) (\<lambda>allocation_by_id.
        bindr (foldr_res (restore_step D m) (om_entries by_id)
          \<lparr>rs_left = allocation_by_id, rs_buy_lots = 0, rs_sell_lots = 0, rs_restored = []\<rparr>) (\<lambda>st.
        case rs_left st of
          (oid, _) # _ \<Rightarrow> Err (UnknownAllocation oid)
        | [] \<Rightarrow> if rs_buy_lots st \<noteq> rs_sell_lots st \<or> rs_buy_lots st \<noteq> au_matched out
                then Err AllocationConservation else Ok (rs_restored st))))"

definition clear_private_batch ::
  "dec_ops \<Rightarrow> digest \<Rightarrow> market_config \<Rightarrow> batch_context \<Rightarrow> batch_participant list \<Rightarrow> private_batch_outcome market" where
  "clear_private_batch D H m context participants =
     bindr (validate_market_steps D m) (\<lambda>_.
     bindr (price_to_ticks D (bc_reference_price context) m) (\<lambda>reference_ticks.
     bindr (foldr_res (convert_step D m reference_ticks) participants ([], [])) (\<lambda>(seen, orders).
     bindr (allocation_commitment H (bc_chain_id context) (bc_height context) (mc_symbol m)
              (bc_threshold_beacon context)) (\<lambda>commitment.
     bindr (map_err AuctionFailed (clear_batch H
              \<lparr>ac_reference_price = reference_ticks, ac_commitment = commitment\<rparr> orders)) (\<lambda>out.
     bindr (restore_allocations D m participants out) (\<lambda>restored.
     bindr (case au_clearing_price out of
              None \<Rightarrow> Ok None
            | Some t \<Rightarrow> bindr (ticks_to_price D t m) (\<lambda>p. Ok (Some p))) (\<lambda>clearing_price.
     bindr (pair_fills D m restored (au_clearing_price out) clearing_price (au_matched out)) (\<lambda>fills.
     bindr (lots_to_quantity D (au_matched out) m) (\<lambda>matched_quantity.
     Ok \<lparr>po_commitment = commitment, po_clearing_price_ticks = au_clearing_price out,
         po_clearing_price = clearing_price, po_matched_lots = au_matched out,
         po_matched_quantity = matched_quantity, po_imbalance_lots = au_imbalance out,
         po_allocations = restored, po_fills = fills\<rparr>)))))))))"

end
