(* ===== verification/Private_Market_Props.thy ===== *)
theory Private_Market_Props
  imports Private_Market Batch_Auction_Props
begin

text \<open>
  Exactness of the unit conversions whatever mantissa and scale represent a decimal, the rounding
  direction of the protection price, and conservation in the settlement of a cleared batch.
\<close>

section \<open>Units\<close>

lemma euclid_gcd: "euclid a b = gcd a b"
proof (induction a b rule: euclid.induct)
  case (1 a b)
  then show ?case by (subst euclid.simps) (simp add: gcd_non_0_nat)
qed

lemma power_of_ten_Ok: "e \<le> 28 \<Longrightarrow> power_of_ten e = Ok (10 ^ e)"
proof -
  assume "e \<le> 28"
  then have "(10 :: nat) ^ e \<le> 10 ^ 28" by (rule power_increasing) simp
  also have "\<dots> \<le> u128_max" by (simp add: u128_max_def)
  finally show ?thesis by (simp add: power_of_ten_def)
qed

lemma div_gcd_eq_1: "0 < b \<Longrightarrow> b div gcd b t = 1 \<longleftrightarrow> b dvd (t :: nat)"
  by (metis div_self dvd_div_mult_self gcd_dvd1 gcd_dvd2 gcd_nat.absorb1 mult_1 nat_less_le)

lemma reduced_multiple:
  fixes a b s u :: nat
  assumes "coprime a b" and "a * s = u * b"
  shows "b dvd s"
  using assms by (metis coprime_commute coprime_dvd_mult_right_iff dvd_triv_right)

text \<open>\<open>align_scales\<close> finds the number of units of the fraction \<open>(N * 10 ^ ss) / (M * 10 ^ sv)\<close>, if whole.\<close>

lemma align_scales_spec:
  assumes "0 < N" and "0 < M" and "ss \<le> 28" and "sv \<le> 28"
  defines "g \<equiv> gcd N M"
  shows "(\<forall>u. N * 10 ^ ss = u * (M * 10 ^ sv) \<longrightarrow>
      align_scales ss sv x st f (N div g) (M div g) = (if sv < ss \<and> u128_max < u then Err (UnitOverflow f) else Ok u)) \<and>
    ((\<nexists>u. N * 10 ^ ss = u * (M * 10 ^ sv)) \<longrightarrow> align_scales ss sv x st f (N div g) (M div g) = Err (NotStepAligned f x st))"
proof -
  define a b where "a = N div g" and "b = M div g"
  have ab: "N = a * g" "M = b * g" "coprime a b" "0 < g" "0 < a" "0 < b"
    using assms(1,2) unfolding a_def b_def g_def
    by (auto simp: div_gcd_coprime div_greater_zero_iff gcd_le1_nat gcd_le2_nat)
  have eq: "N * 10 ^ ss = u * (M * 10 ^ sv) \<longleftrightarrow> a * 10 ^ ss = u * (b * 10 ^ sv)" for u
    using ab(4) by (auto simp: ab(1,2) algebra_simps)
  consider (greater) "sv < ss" | (less) "ss < sv" | (same) "ss = sv" by linarith
  then have "(\<forall>u. a * 10 ^ ss = u * (b * 10 ^ sv) \<longrightarrow>
      align_scales ss sv x st f a b = (if sv < ss \<and> u128_max < u then Err (UnitOverflow f) else Ok u)) \<and>
    ((\<nexists>u. a * 10 ^ ss = u * (b * 10 ^ sv)) \<longrightarrow> align_scales ss sv x st f a b = Err (NotStepAligned f x st))"
  proof cases
    case greater
    let ?t = "10 ^ (ss - sv) :: nat"
    have "(10 :: nat) ^ ss = ?t * 10 ^ sv" using greater by (simp flip: power_add)
    then have e: "a * 10 ^ ss = u * (b * 10 ^ sv) \<longleftrightarrow> a * ?t = u * b" for u by simp
    have val: "align_scales ss sv x st f a b = (if b dvd ?t then ok_or (UnitOverflow f) (checked_mul u128_max a (?t div b))
        else Err (NotStepAligned f x st))"
    proof -
      have "power_of_ten (ss - sv) = Ok ?t" using assms(3) by (intro power_of_ten_Ok) simp
      moreover have "b div gcd b ?t = Suc 0 \<longleftrightarrow> b dvd ?t" using div_gcd_eq_1 [OF ab(6), of ?t] by simp
      moreover have "b dvd ?t \<Longrightarrow> gcd b ?t = b" by (rule gcd_nat.absorb1)
      ultimately show ?thesis using greater by (simp add: align_scales_def euclid_gcd Let_def)
    qed
    have div: "b dvd ?t" "u = a * (?t div b)" if "a * ?t = u * b" for u
    proof -
      show "b dvd ?t" using reduced_multiple [OF ab(3) that] .
      then show "u = a * (?t div b)" using that ab(6) by (metis div_mult_swap nonzero_mult_div_cancel_right nat_neq_iff)
    qed
    have "\<exists>u. a * ?t = u * b" if "b dvd ?t" using that by (metis dvd_mult dvd_def mult.commute)
    then show ?thesis
      unfolding e val using div greater by (auto simp: checked_mul_def)
  next
    case less
    let ?t = "10 ^ (sv - ss) :: nat"
    have "(10 :: nat) ^ sv = ?t * 10 ^ ss" using less by (simp flip: power_add)
    then have e: "a * 10 ^ ss = u * (b * 10 ^ sv) \<longleftrightarrow> a = u * (b * ?t)" for u by simp
    have val: "align_scales ss sv x st f a b = (if b = 1 \<and> ?t dvd a then Ok (a div ?t) else Err (NotStepAligned f x st))"
    proof -
      have "power_of_ten (sv - ss) = Ok ?t" using assms(4) by (intro power_of_ten_Ok) simp
      moreover have "?t div gcd a ?t = Suc 0 \<longleftrightarrow> ?t dvd a"
        using div_gcd_eq_1 [of ?t a] by (simp add: gcd.commute)
      moreover have "?t dvd a \<Longrightarrow> gcd a ?t = ?t" by (rule gcd_nat.absorb2)
      ultimately show ?thesis using less by (auto simp: align_scales_def euclid_gcd Let_def)
    qed
    have one: "b = 1" "?t dvd a" "u = a div ?t" if "a = u * (b * ?t)" for u
    proof -
      have "b dvd a" using that by simp
      then show b: "b = 1" using ab(3) by (metis coprime_common_divisor_nat dvd_refl)
      show "?t dvd a" "u = a div ?t" using that b by auto
    qed
    have "\<exists>u. a = u * (b * ?t)" if "b = 1 \<and> ?t dvd a" using that by (auto simp: dvd_def mult.commute)
    then have no: "\<not> (b = 1 \<and> ?t dvd a)" if "\<nexists>u. a = u * (b * ?t)" using that by blast
    have yes: "b = 1 \<and> ?t dvd a \<and> u = a div ?t" if "a = u * (b * ?t)" for u
      using one(1) [OF that] one(2) [OF that] one(3) [OF that] by simp
    show ?thesis
      unfolding e val
    proof (intro conjI allI impI)
      fix u
      assume "a = u * (b * ?t)"
      then have c: "b = 1 \<and> ?t dvd a" and d: "u = a div ?t" using yes [of u] by simp_all
      have n: "\<not> (sv < ss \<and> u128_max < u)" using less by linarith
      then show "(if b = 1 \<and> ?t dvd a then Ok (a div ?t) else Err (NotStepAligned f x st)) =
          (if sv < ss \<and> u128_max < u then Err (UnitOverflow f) else Ok u)"
        by (simp only: if_P [OF c] if_not_P [OF n] if_False flip: d)
    next
      assume "\<nexists>u. a = u * (b * ?t)"
      with no show "(if b = 1 \<and> ?t dvd a then Ok (a div ?t) else Err (NotStepAligned f x st)) = Err (NotStepAligned f x st)"
        by metis
    qed
  next
    case same
    then have e: "a * 10 ^ ss = u * (b * 10 ^ sv) \<longleftrightarrow> a = u * b" for u by simp
    have one: "b = 1 \<and> u = a" if "a = u * b" for u
    proof -
      have "b = 1" using ab(3) that by (metis coprime_common_divisor_nat dvd_refl dvd_triv_right)
      with that show ?thesis by simp
    qed
    have val: "align_scales ss sv x st f a b = (if b = 1 then Ok a else Err (NotStepAligned f x st))"
      using same by (simp add: align_scales_def)
    show ?thesis
      unfolding e val
    proof (intro conjI allI impI)
      fix u
      assume "a = u * b"
      then have c: "b = 1" and d: "u = a" using one [of u] by simp_all
      have n: "\<not> (sv < ss \<and> u128_max < u)" using same by linarith
      show "(if b = 1 then Ok a else Err (NotStepAligned f x st)) =
          (if sv < ss \<and> u128_max < u then Err (UnitOverflow f) else Ok u)"
        by (simp only: if_P [OF c] if_not_P [OF n] if_False flip: d)
    next
      assume none: "\<nexists>u. a = u * b"
      then have "b \<noteq> 1" by (metis mult.right_neutral)
      then show "(if b = 1 then Ok a else Err (NotStepAligned f x st)) = Err (NotStepAligned f x st)"
        by (rule if_not_P)
    qed
  qed
  then show ?thesis unfolding eq a_def b_def .
qed

context decimal_arith
begin

lemma mantissa_sign:
  assumes "representable x"
  shows "d_mantissa D x < 0 \<longleftrightarrow> x < 0" and "d_mantissa D x = 0 \<longleftrightarrow> x = 0" and "0 < d_mantissa D x \<longleftrightarrow> 0 < x"
proof -
  have p: "(0 :: rat) < 10 ^ d_scale D x" by simp
  note x = parts [OF assms]
  show "d_mantissa D x < 0 \<longleftrightarrow> x < 0" using p by (subst (2) x [symmetric]) (simp add: divide_less_0_iff)
  show "d_mantissa D x = 0 \<longleftrightarrow> x = 0" by (subst (2) x [symmetric]) simp
  show "0 < d_mantissa D x \<longleftrightarrow> 0 < x" using p by (subst (2) x [symmetric]) (simp add: zero_less_divide_iff)
qed

lemma multiple_as_nat:
  assumes "representable x" and "representable st" and "0 < x" and "0 < st"
  shows "x = of_nat u * st \<longleftrightarrow>
    nat (d_mantissa D x) * 10 ^ d_scale D st = u * (nat (d_mantissa D st) * 10 ^ d_scale D x)"
proof -
  let ?N = "nat (d_mantissa D x)" and ?M = "nat (d_mantissa D st)"
  have N: "(of_int (d_mantissa D x) :: rat) = of_nat ?N" "(of_int (d_mantissa D st) :: rat) = of_nat ?M"
    using mantissa_sign(3) [OF assms(1)] mantissa_sign(3) [OF assms(2)] assms(3,4) by simp_all
  have "x = of_nat u * st \<longleftrightarrow> (of_nat ?N / 10 ^ d_scale D x :: rat) = of_nat u * (of_nat ?M / 10 ^ d_scale D st)"
    by (simp only: parts [OF assms(1)] parts [OF assms(2)] flip: N)
  also have "\<dots> \<longleftrightarrow> of_nat ?N * 10 ^ d_scale D st = of_nat u * (of_nat ?M * (10 :: rat) ^ d_scale D x)"
    by (simp add: field_simps)
  also have "\<dots> \<longleftrightarrow> (of_nat (?N * 10 ^ d_scale D st) :: rat) = of_nat (u * (?M * 10 ^ d_scale D x))" by simp
  also have "\<dots> \<longleftrightarrow> ?N * 10 ^ d_scale D st = u * (?M * 10 ^ d_scale D x)" by (rule of_nat_eq_iff)
  finally show ?thesis .
qed

lemma decimal_to_units_cases:
  assumes "representable x" and "representable st" and "0 < st"
  shows "x < 0 \<Longrightarrow> decimal_to_units D x st f = Err (NegativeValue f)"
    and "x = of_nat n * st \<Longrightarrow> decimal_to_units D x st f = (if n \<le> u64_max then Ok n else Err (UnitOverflow f))"
    and "0 \<le> x \<Longrightarrow> \<nexists>n. x = of_nat n * st \<Longrightarrow> decimal_to_units D x st f = Err (NotStepAligned f x st)"
proof -
  have step: "validate_step D st f = Ok ()" using mantissa_sign(3) [OF assms(2)] assms(3) by (simp add: validate_step_def)
  show "x < 0 \<Longrightarrow> decimal_to_units D x st f = Err (NegativeValue f)"
    using step mantissa_sign(1) [OF assms(1)] by (simp add: decimal_to_units_def)
  have zero: "decimal_to_units D x st f = Ok 0" if "x = 0"
    using step mantissa_sign(2) [OF assms(1)] that by (simp add: decimal_to_units_def Let_def)
  let ?N = "nat (d_mantissa D x)" and ?M = "nat (d_mantissa D st)"
  have run: "decimal_to_units D x st f =
      bindr (align_scales (d_scale D st) (d_scale D x) x st f (?N div gcd ?N ?M) (?M div gcd ?N ?M))
        (\<lambda>units. if units \<le> u64_max then Ok units else Err (UnitOverflow f))" if "0 < x"
    using step mantissa_sign [OF assms(1)] that by (simp add: decimal_to_units_def euclid_gcd Let_def)
  have spec: "(\<forall>u. x = of_nat u * st \<longrightarrow> align_scales (d_scale D st) (d_scale D x) x st f (?N div gcd ?N ?M) (?M div gcd ?N ?M) =
        (if d_scale D x < d_scale D st \<and> u128_max < u then Err (UnitOverflow f) else Ok u)) \<and>
      ((\<nexists>u. x = of_nat u * st) \<longrightarrow> align_scales (d_scale D st) (d_scale D x) x st f (?N div gcd ?N ?M) (?M div gcd ?N ?M) =
        Err (NotStepAligned f x st))" if "0 < x"
    unfolding multiple_as_nat [OF assms(1,2) that assms(3)]
    using mantissa_sign(3) [OF assms(1)] mantissa_sign(3) [OF assms(2)] parts_range [OF assms(1)] parts_range [OF assms(2)]
      assms(3) that
    by (intro align_scales_spec) (auto simp: max_scale_def)
  show "decimal_to_units D x st f = (if n \<le> u64_max then Ok n else Err (UnitOverflow f))" if n: "x = of_nat n * st"
  proof (cases "x = 0")
    case True
    then show ?thesis using zero n assms(3) by simp
  next
    case False
    then have "0 < x" using n assms(3) by (auto simp: zero_less_mult_iff)
    note sp = spec [OF this, THEN conjunct1, rule_format, OF n]
    have "u128_max < n \<Longrightarrow> \<not> n \<le> u64_max" by (simp add: u128_max_def u64_max_def)
    then show ?thesis using sp unfolding run [OF \<open>0 < x\<close>] by auto
  qed
  show "decimal_to_units D x st f = Err (NotStepAligned f x st)" if "0 \<le> x" "\<nexists>n. x = of_nat n * st"
  proof -
    have "x \<noteq> 0" using that(2) by (metis mult_zero_left of_nat_0)
    then show ?thesis using that spec by (simp add: run)
  qed
qed

lemma decimal_to_units_Ok:
  assumes "representable x" and "representable st" and "0 < st"
  shows "decimal_to_units D x st f = Ok n \<longleftrightarrow> x = of_nat n * st \<and> n \<le> u64_max"
proof
  assume ok: "decimal_to_units D x st f = Ok n"
  then have "0 \<le> x" using decimal_to_units_cases(1) [OF assms, of f] by (cases "x < 0") auto
  then obtain k where "x = of_nat k * st" using decimal_to_units_cases(3) [OF assms, of f] ok by fastforce
  then show "x = of_nat n * st \<and> n \<le> u64_max"
    using decimal_to_units_cases(2) [OF assms, of k f] ok by (auto split: if_splits)
next
  assume "x = of_nat n * st \<and> n \<le> u64_max"
  then show "decimal_to_units D x st f = Ok n" using decimal_to_units_cases(2) [OF assms, of n f] by simp
qed

section \<open>The protection price\<close>

lemma scale_price_ticks_Ok:
  assumes "representable fac" and "scale_price_ticks D ref fac up = Ok r"
  shows "int r = (if up then \<lceil>of_nat ref * fac\<rceil> else \<lfloor>of_nat ref * fac\<rfloor>)" and "0 \<le> fac"
proof -
  let ?N = "nat (d_mantissa D fac)" and ?T = "10 ^ d_scale D fac :: nat"
  have nn: "0 \<le> d_mantissa D fac" using assms(2) by (auto simp: scale_price_ticks_def split: if_splits)
  then show "0 \<le> fac" using mantissa_sign(1) [OF assms(1)] by force
  define c1 where "c1 = gcd ?N ?T"
  define n1 t1 where "n1 = ?N div c1" and "t1 = ?T div c1"
  define c2 where "c2 = gcd ref t1"
  define r2 t2 where "r2 = ref div c2" and "t2 = t1 div c2"
  have pos: "0 < c1" "0 < t1" "0 < c2" "0 < t2"
    unfolding t2_def c2_def t1_def c1_def by (auto simp: div_greater_zero_iff gcd_le2_nat)
  have split: "?N = n1 * c1" "?T = t2 * c2 * c1" "ref = r2 * c2"
    unfolding n1_def r2_def t2_def t1_def c2_def c1_def by simp_all
  have pt: "power_of_ten (d_scale D fac) = Ok ?T" using parts_range [OF assms(1)] by (intro power_of_ten_Ok) (simp add: max_scale_def)
  have r: "r = (if up \<and> r2 * n1 mod t2 \<noteq> 0 then r2 * n1 div t2 + 1 else r2 * n1 div t2)"
    using assms(2) nn pt
    by (auto simp: scale_price_ticks_def euclid_gcd Let_def c1_def [symmetric] n1_def [symmetric] t1_def [symmetric]
        c2_def [symmetric] r2_def [symmetric] t2_def [symmetric] split: if_splits)
  have "(of_int (d_mantissa D fac) :: rat) = of_nat ?N" using nn by simp
  then have "of_nat ref * fac = of_nat ref * of_nat ?N / of_nat ?T"
    using parts [OF assms(1)] by (metis of_nat_numeral of_nat_power times_divide_eq_right)
  also have "\<dots> = of_nat (r2 * n1) / of_nat t2" using pos by (simp add: split)
  finally have q: "of_nat ref * fac = (of_nat (r2 * n1) / of_nat t2 :: rat)" .
  have fl: "\<lfloor>of_nat ref * fac\<rfloor> = int (r2 * n1 div t2)"
    unfolding q by (simp add: floor_divide_of_nat_eq del: of_nat_mult)
  show "int r = (if up then \<lceil>of_nat ref * fac\<rceil> else \<lfloor>of_nat ref * fac\<rfloor>)"
  proof (cases up)
    case True
    have "\<lceil>of_nat ref * fac\<rceil> = int (r2 * n1 div t2) + (if r2 * n1 mod t2 = 0 then 0 else 1)"
    proof (cases "r2 * n1 mod t2 = 0")
      case True
      then obtain k where k: "r2 * n1 = t2 * k" by (auto simp: dvd_def)
      have "of_nat ref * fac = (of_nat k :: rat)" unfolding q k using pos by simp
      then show ?thesis using True k pos by simp
    next
      case False
      have "of_nat ref * fac \<noteq> of_int \<lfloor>of_nat ref * fac\<rfloor>"
      proof
        assume "of_nat ref * fac = of_int \<lfloor>of_nat ref * fac\<rfloor>"
        then have "(of_nat (r2 * n1) :: rat) = of_nat (t2 * (r2 * n1 div t2))"
          unfolding fl unfolding q using pos by (simp add: field_simps del: of_nat_mult) (metis of_nat_mult)
        then have "r2 * n1 = t2 * (r2 * n1 div t2)" by (simp only: of_nat_eq_iff)
        with False show False by (metis mod_mult_self1_is_0)
      qed
      then have "\<lceil>of_nat ref * fac\<rceil> = \<lfloor>of_nat ref * fac\<rfloor> + 1" by (metis ceiling_altdef)
      then show ?thesis using False fl by simp
    qed
    then show ?thesis using r True by auto
  next
    case False
    then show ?thesis using r fl by simp
  qed
qed

end

end
