(* ===== verification/Private_Market_Clear.thy ===== *)
theory Private_Market_Clear
  imports Private_Market_Props
begin

text \<open>
  Settlement of a cleared batch: the fills give every participant exactly its allocation, both sides
  trade the matched quantity, and decimal limits and fill-or-kill terms are respected.
\<close>

section \<open>Pairing\<close>

definition open_of :: "bytes \<Rightarrow> open_allocations \<Rightarrow> nat" where
  "open_of oid xs = (\<Sum>(a, n)\<leftarrow>xs. if bp_order_id (pa_participant a) = oid then n else 0)"

definition bought :: "bytes \<Rightarrow> batch_fill list \<Rightarrow> nat" where
  "bought oid fs = (\<Sum>f\<leftarrow>fs. if bfl_buy_order_id f = oid then bfl_quantity_lots f else 0)"

definition sold :: "bytes \<Rightarrow> batch_fill list \<Rightarrow> nat" where
  "sold oid fs = (\<Sum>f\<leftarrow>fs. if bfl_sell_order_id f = oid then bfl_quantity_lots f else 0)"

definition fills_lots :: "batch_fill list \<Rightarrow> nat" where
  "fills_lots fs = sum_list (map bfl_quantity_lots fs)"

lemma make_fill_Ok:
  "make_fill D m t p b s n = Ok f \<Longrightarrow> bfl_buy_order_id f = bp_order_id (pa_participant b) \<and>
   bfl_sell_order_id f = bp_order_id (pa_participant s) \<and> bfl_buy_account_id f = bp_account_id (pa_participant b) \<and>
   bfl_sell_account_id f = bp_account_id (pa_participant s) \<and> bfl_price_ticks f = t \<and> bfl_price f = p \<and>
   bfl_quantity_lots f = n \<and> lots_to_quantity D n m = Ok (bfl_quantity f)"
  by (auto simp: make_fill_def)

lemma open_of_next:
  "n \<le> k \<Longrightarrow> open_of oid (next_open ((a, k) # xs) n) + (if bp_order_id (pa_participant a) = oid then n else 0) =
   open_of oid ((a, k) # xs)"
  by (auto simp: next_open_def open_of_def)

definition fill_ok :: "dec_ops \<Rightarrow> market_config \<Rightarrow> nat \<Rightarrow> decimal \<Rightarrow> batch_fill \<Rightarrow> bool" where
  "fill_ok D m t p f \<longleftrightarrow> 0 < bfl_quantity_lots f \<and> bfl_price_ticks f = t \<and> bfl_price f = p \<and>
     lots_to_quantity D (bfl_quantity_lots f) m = Ok (bfl_quantity f)"

definition pairs_ok :: "dec_ops \<Rightarrow> market_config \<Rightarrow> nat \<Rightarrow> decimal \<Rightarrow> open_allocations \<Rightarrow> open_allocations \<Rightarrow> nat \<Rightarrow>
    batch_fill list \<Rightarrow> open_allocations \<Rightarrow> open_allocations \<Rightarrow> nat \<Rightarrow> batch_fill list \<Rightarrow> bool" where
  "pairs_ok D m t p buys sells paired fills buys' sells' paired' fills' \<longleftrightarrow>
     (\<forall>oid. bought oid fills' + open_of oid buys' = bought oid fills + open_of oid buys) \<and>
     (\<forall>oid. sold oid fills' + open_of oid sells' = sold oid fills + open_of oid sells) \<and>
     fills_lots fills' + paired = fills_lots fills + paired' \<and>
     ((\<forall>f \<in> set fills. fill_ok D m t p f) \<longrightarrow> (\<forall>f \<in> set fills'. fill_ok D m t p f))"

lemma pairs_ok_step:
  assumes "make_fill D m t p b s n = Ok f" and "n \<le> bn" and "n \<le> sn" and "n \<noteq> 0"
    and "pairs_ok D m t p (next_open ((b, bn) # bs) n) (next_open ((s, sn) # ss) n) (paired + n) (fills @ [f])
      buys' sells' paired' fills'"
  shows "pairs_ok D m t p ((b, bn) # bs) ((s, sn) # ss) paired fills buys' sells' paired' fills'"
proof -
  note f = make_fill_Ok [OF assms(1)]
  have b: "bought oid (fills @ [f]) = bought oid fills + (if bp_order_id (pa_participant b) = oid then n else 0)" for oid
    using f by (simp add: bought_def)
  have s: "sold oid (fills @ [f]) = sold oid fills + (if bp_order_id (pa_participant s) = oid then n else 0)" for oid
    using f by (simp add: sold_def)
  have l: "fills_lots (fills @ [f]) = fills_lots fills + n" using f by (simp add: fills_lots_def)
  have ok: "fill_ok D m t p f" using f assms(4) by (simp add: fill_ok_def)
  note ih = assms(5) [unfolded pairs_ok_def]
  show ?thesis
    unfolding pairs_ok_def
  proof (intro conjI allI)
    fix oid
    show "bought oid fills' + open_of oid buys' = bought oid fills + open_of oid ((b, bn) # bs)"
      using ih [THEN conjunct1, rule_format, of oid] b [of oid] open_of_next [OF assms(2), of oid b bs] by linarith
    show "sold oid fills' + open_of oid sells' = sold oid fills + open_of oid ((s, sn) # ss)"
      using ih [THEN conjunct2, THEN conjunct1, rule_format, of oid] s [of oid] open_of_next [OF assms(3), of oid s ss] by linarith
  next
    show "fills_lots fills' + paired = fills_lots fills + paired'" using ih l by linarith
    show "(\<forall>f \<in> set fills. fill_ok D m t p f) \<longrightarrow> (\<forall>f \<in> set fills'. fill_ok D m t p f)"
      using ih ok by simp
  qed
qed

lemma pair_loop_conserves:
  "pair_loop D m t p buys sells paired fills = Ok (buys', sells', paired', fills') \<Longrightarrow>
   pairs_ok D m t p buys sells paired fills buys' sells' paired' fills'"
proof (induction D m t p buys sells paired fills rule: pair_loop.induct)
  case (1 D m t p buys sells paired fills)
  have stop: ?case if "buys = [] \<or> sells = []"
  proof -
    have "pair_loop D m t p buys sells paired fills = Ok (buys, sells, paired, fills)"
      unfolding pair_loop.simps [of D m t p buys] using that by (auto split: list.splits)
    then show ?thesis using 1(2) by (simp add: pairs_ok_def)
  qed
  show ?case
  proof (cases "buys = [] \<or> sells = []")
    case False
    then obtain b bn bs s sn ss where bs: "buys = (b, bn) # bs" "sells = (s, sn) # ss"
      by (metis list.exhaust prod.exhaust)
    let ?n = "min bn sn"
    obtain f paired1 where f: "?n \<noteq> 0" "make_fill D m t p b s ?n = Ok f" "checked_add u64_max paired ?n = Some paired1"
      and rest: "pair_loop D m t p (next_open buys ?n) (next_open sells ?n) paired1 (fills @ [f]) = Ok (buys', sells', paired', fills')"
      using 1(2) unfolding pair_loop.simps [of D m t p buys] by (auto simp: bs split: if_splits)
    have "pairs_ok D m t p (next_open buys ?n) (next_open sells ?n) paired1 (fills @ [f]) buys' sells' paired' fills'"
      using bs f rest by (intro 1(1)) auto
    then show ?thesis using f unfolding bs by (intro pairs_ok_step [OF f(2)]) auto
  qed (rule stop)
qed

lemma open_of_sorted: "open_of oid (sort_key k xs) = open_of oid xs"
  unfolding open_of_def by (rule mset_sum_list) simp

lemma open_side_of:
  "open_of oid (open_side s als) =
   (\<Sum>a\<leftarrow>als. if bp_side (pa_participant a) = s \<and> bp_order_id (pa_participant a) = oid then pa_executed_lots a else 0)"
  unfolding open_side_def open_of_sorted by (induction als) (auto simp: open_of_def)

lemma open_of_all_zero: "\<forall>x \<in> set xs. snd x = 0 \<Longrightarrow> open_of oid xs = 0"
  by (induction xs) (auto simp: open_of_def)

lemma pair_fills_conserves:
  assumes "pair_fills D m als ticks price matched = Ok fills"
  shows "fills_lots fills = matched"
    and "matched \<noteq> 0 \<Longrightarrow> \<exists>t p. ticks = Some t \<and> price = Some p \<and> (\<forall>f \<in> set fills. fill_ok D m t p f) \<and>
      (\<forall>oid. bought oid fills = open_of oid (open_side Buy als) \<and> sold oid fills = open_of oid (open_side Sell als))"
    and "matched = 0 \<Longrightarrow> fills = [] \<and> ticks = None \<and> price = None"
proof -
  have zero: "matched = 0 \<Longrightarrow> fills = [] \<and> ticks = None \<and> price = None"
    using assms by (auto simp: pair_fills_def split: if_splits)
  have pos: "\<exists>t p. ticks = Some t \<and> price = Some p \<and> fills_lots fills = matched \<and> (\<forall>f \<in> set fills. fill_ok D m t p f) \<and>
      (\<forall>oid. bought oid fills = open_of oid (open_side Buy als) \<and> sold oid fills = open_of oid (open_side Sell als))"
    if nz: "matched \<noteq> 0"
  proof -
    obtain t p buys sells paired where tp: "ticks = Some t" "price = Some p"
      and loop: "pair_loop D m t p (open_side Buy als) (open_side Sell als) 0 [] = Ok (buys, sells, paired, fills)"
      and done_: "paired = matched" "\<forall>x \<in> set buys. snd x = 0" "\<forall>x \<in> set sells. snd x = 0"
      using assms nz by (auto simp: pair_fills_def split: if_splits prod.splits)
    from pair_loop_conserves [OF loop] show ?thesis
      using tp done_ open_of_all_zero [OF done_(2)] open_of_all_zero [OF done_(3)]
      by (auto simp: pairs_ok_def bought_def sold_def fills_lots_def)
  qed
  show "fills_lots fills = matched" using zero pos by (cases "matched = 0") (auto simp: fills_lots_def)
  show "matched \<noteq> 0 \<Longrightarrow> \<exists>t p. ticks = Some t \<and> price = Some p \<and> (\<forall>f \<in> set fills. fill_ok D m t p f) \<and>
      (\<forall>oid. bought oid fills = open_of oid (open_side Buy als) \<and> sold oid fills = open_of oid (open_side Sell als))"
    using pos by blast
  show "matched = 0 \<Longrightarrow> fills = [] \<and> ticks = None \<and> price = None" by (rule zero)
qed

section \<open>Orders and restored allocations\<close>

lemma convert_all:
  assumes "foldr_res (convert_step D m r) ps (seen, os) = Ok (seen', os')"
  shows "\<exists>new. os' = os @ new \<and> list_all2 (\<lambda>p ord. to_auction_order D m r p = Ok ord) ps new"
  using assms
proof (induction ps arbitrary: seen os)
  case (Cons p ps)
  obtain st where st: "convert_step D m r p (seen, os) = Ok st" "foldr_res (convert_step D m r) ps st = Ok (seen', os')"
    using Cons.prems by auto
  obtain seen1 ord where o: "to_auction_order D m r p = Ok ord" "st = (seen1, os @ [ord])"
    using st(1) by (auto simp: convert_step_def)
  note rest = st(2) [unfolded o(2)]
  from Cons.IH [OF rest] o(1) show ?case by auto
qed simp

lemma to_auction_order_Ok:
  assumes "to_auction_order D m r p = Ok ord"
  shows "ao_id ord = bp_order_id p" and "ao_side ord = bp_side p" and "quantity_to_lots D (bp_quantity p) m = Ok (ao_quantity ord)"
    and "ao_tif ord = FokOrder \<longleftrightarrow> bp_tif p = Fok"
    and "bp_kind p = Limit \<Longrightarrow> \<exists>price t. bp_limit_price p = Some price \<and> price_to_ticks D price m = Ok t \<and> ao_kind ord = LimitAt t"
    and "bp_kind p = Market \<Longrightarrow> \<exists>t. bp_limit_price p = None \<and>
      market_protection_price D r (mc_market_slippage_limit m) (bp_side p) = Ok t \<and> ao_kind ord = MarketWithin t"
proof -
  obtain kind tif q where k: "auction_kind_of D m r p = Ok kind" and tif: "auction_tif_of p = Ok tif"
    and q: "quantity_to_lots D (bp_quantity p) m = Ok q"
    and ord: "ord = \<lparr>ao_id = bp_order_id p, ao_side = bp_side p, ao_kind = kind, ao_tif = tif, ao_quantity = q\<rparr>"
    using assms by (auto simp: to_auction_order_def split: if_splits)
  show "ao_id ord = bp_order_id p" "ao_side ord = bp_side p" "quantity_to_lots D (bp_quantity p) m = Ok (ao_quantity ord)"
    using q by (simp_all add: ord)
  show "ao_tif ord = FokOrder \<longleftrightarrow> bp_tif p = Fok"
    using tif by (auto simp: ord auction_tif_of_def split: time_in_force.splits if_splits)
  show "bp_kind p = Limit \<Longrightarrow> \<exists>price t. bp_limit_price p = Some price \<and> price_to_ticks D price m = Ok t \<and> ao_kind ord = LimitAt t"
    "bp_kind p = Market \<Longrightarrow> \<exists>t. bp_limit_price p = None \<and>
      market_protection_price D r (mc_market_slippage_limit m) (bp_side p) = Ok t \<and> ao_kind ord = MarketWithin t"
    using k by (auto simp: ord auction_kind_of_def split: option.splits)
qed

lemma restore_all_Ok:
  assumes "foldr_res (restore_step D m) es st = Ok st'" and "distinct (map fst es)"
  shows "\<exists>new. rs_restored st' = rs_restored st @ new \<and>
    list_all2 (\<lambda>(oid, p) pa. pa_participant pa = p \<and> (\<exists>al. om_get (rs_left st) oid = Some al \<and>
      pa_executed_lots pa = al_executed al \<and> pa_status pa = al_status al \<and>
      lots_to_quantity D (al_executed al) m = Ok (pa_executed_quantity pa))) es new \<and>
    rs_buy_lots st' = rs_buy_lots st + (\<Sum>pa\<leftarrow>new. if bp_side (pa_participant pa) = Buy then pa_executed_lots pa else 0) \<and>
    rs_sell_lots st' = rs_sell_lots st + (\<Sum>pa\<leftarrow>new. if bp_side (pa_participant pa) = Sell then pa_executed_lots pa else 0)"
  using assms
proof (induction es arbitrary: st)
  case (Cons e es)
  obtain oid p where e: "e = (oid, p)" by (cases e)
  obtain st1 where s1: "restore_step D m (oid, p) st = Ok st1" and rest: "foldr_res (restore_step D m) es st1 = Ok st'"
    using Cons.prems(1) by (auto simp: e)
  obtain al q where al: "om_get (rs_left st) oid = Some al" "lots_to_quantity D (al_executed al) m = Ok q"
    and st1: "rs_left st1 = om_remove oid (rs_left st)"
      "rs_restored st1 = rs_restored st @ [\<lparr>pa_participant = p, pa_executed_lots = al_executed al, pa_executed_quantity = q, pa_status = al_status al\<rparr>]"
      "rs_buy_lots st1 = rs_buy_lots st + (if bp_side p = Buy then al_executed al else 0)"
      "rs_sell_lots st1 = rs_sell_lots st + (if bp_side p = Sell then al_executed al else 0)"
    using s1 by (auto simp: restore_step_def split: side.splits)
  have other: "oid' \<noteq> oid" if "oid' \<in> fst ` set es" for oid' using Cons.prems(2) that by (auto simp: e)
  obtain new where new: "rs_restored st' = rs_restored st1 @ new"
    "list_all2 (\<lambda>(oid, p) pa. pa_participant pa = p \<and> (\<exists>al. om_get (rs_left st1) oid = Some al \<and>
      pa_executed_lots pa = al_executed al \<and> pa_status pa = al_status al \<and>
      lots_to_quantity D (al_executed al) m = Ok (pa_executed_quantity pa))) es new"
    "rs_buy_lots st' = rs_buy_lots st1 + (\<Sum>pa\<leftarrow>new. if bp_side (pa_participant pa) = Buy then pa_executed_lots pa else 0)"
    "rs_sell_lots st' = rs_sell_lots st1 + (\<Sum>pa\<leftarrow>new. if bp_side (pa_participant pa) = Sell then pa_executed_lots pa else 0)"
    using Cons.IH [OF rest] Cons.prems(2) by auto
  have "list_all2 (\<lambda>(oid, p) pa. pa_participant pa = p \<and> (\<exists>al. om_get (rs_left st) oid = Some al \<and>
      pa_executed_lots pa = al_executed al \<and> pa_status pa = al_status al \<and>
      lots_to_quantity D (al_executed al) m = Ok (pa_executed_quantity pa))) es new"
    by (rule list.rel_mono_strong [OF new(2)]) (use other in \<open>force simp: st1(1) split: if_splits\<close>)
  with new al show ?case
    by (intro exI [of _ "\<lparr>pa_participant = p, pa_executed_lots = al_executed al, pa_executed_quantity = q, pa_status = al_status al\<rparr> # new"])
      (auto simp: e st1)
qed simp

section \<open>The cleared batch\<close>

lemma known_all:
  "foldr_res (known_allocation by_id) als m = Ok m' \<Longrightarrow> om_get m' k = Some al \<Longrightarrow>
   om_get m k = Some al \<or> al \<in> set als \<and> al_order_id al = k"
  by (induction als arbitrary: m) (fastforce simp: known_allocation_def split: if_splits)+

lemma om_of_list_facts:
  assumes "length (om_of_list (map (\<lambda>p. (f p, p)) ps)) = length ps"
  shows "distinct (map f ps)" and "map fst (om_of_list (map (\<lambda>p. (f p, p)) ps)) = sort (map f ps)"
    and "(k, p) \<in> set (om_of_list (map (\<lambda>p. (f p, p)) ps)) \<longleftrightarrow> p \<in> set ps \<and> k = f p"
proof -
  let ?ps = "map (\<lambda>p. (f p, p)) ps"
  let ?m = "om_of_list ?ps"
  have get: "om_get ?m k = map_of (rev ?ps) k" for k by (rule om_get_of_list)
  have keys: "set (map fst ?m) = set (map f ps)"
  proof -
    have "set (map fst ?m) = dom (om_get ?m)" by (simp add: om_get_def [abs_def] dom_map_of_conv_image_fst)
    also have "\<dots> = set (map f ps)" unfolding get [abs_def] by (simp add: dom_map_of_conv_image_fst image_image)
    finally show ?thesis .
  qed
  have sd: "distinct (map fst ?m)" "sorted (map fst ?m)"
    using om_ok_of_list [of ?ps] by (auto simp: om_ok_def strict_sorted_iff)
  have "card (set (map f ps)) = length (map f ps)"
    using distinct_card [OF sd(1)] assms keys by simp
  then show d: "distinct (map f ps)" by (rule card_distinct)
  show "map fst ?m = sort (map f ps)"
    using sd d keys by (intro sorted_distinct_set_unique) auto
  have "distinct (map fst (rev ?ps))" using d by (simp add: comp_def rev_map [symmetric])
  then have "map_of (rev ?ps) k = Some p \<longleftrightarrow> p \<in> set ps \<and> k = f p" for k p by (auto simp: map_of_eq_Some_iff)
  then show "(k, p) \<in> set ?m \<longleftrightarrow> p \<in> set ps \<and> k = f p"
    by (simp add: om_in_set_get get)
qed

definition lots_on :: "side \<Rightarrow> participant_allocation list \<Rightarrow> nat" where
  "lots_on s als = (\<Sum>pa\<leftarrow>als. if bp_side (pa_participant pa) = s then pa_executed_lots pa else 0)"

lemma allotted_of:
  assumes "distinct (map al_order_id (au_allocations out))" and "al \<in> set (au_allocations out)"
  shows "allotted out (al_order_id al) = al_executed al"
proof -
  have "distinct (map fst (map (\<lambda>al. (al_order_id al, al_executed al)) (au_allocations out)))" using assms(1) by (simp add: comp_def)
  moreover have "(al_order_id al, al_executed al) \<in> set (map (\<lambda>al. (al_order_id al, al_executed al)) (au_allocations out))"
    using assms(2) by auto
  ultimately show ?thesis by (simp add: allotted_def)
qed

lemma restore_allocations_Ok:
  assumes "restore_allocations D m ps out = Ok restored" and "distinct (map al_order_id (au_allocations out))"
  shows "distinct (map bp_order_id ps)"
    and "map (\<lambda>pa. bp_order_id (pa_participant pa)) restored = sort (map bp_order_id ps)"
    and "set (map pa_participant restored) = set ps"
    and "\<forall>pa \<in> set restored. pa_executed_lots pa = allotted out (bp_order_id (pa_participant pa)) \<and>
      lots_to_quantity D (pa_executed_lots pa) m = Ok (pa_executed_quantity pa)"
    and "lots_on s restored = au_matched out"
proof -
  let ?m = "om_of_list (map (\<lambda>p. (bp_order_id p, p)) ps)"
  obtain al_map st where len: "length ?m = length ps" and known: "foldr_res (known_allocation ?m) (au_allocations out) [] = Ok al_map"
    and fold: "foldr_res (restore_step D m) ?m \<lparr>rs_left = al_map, rs_buy_lots = 0, rs_sell_lots = 0, rs_restored = []\<rparr> = Ok st"
    and fin: "rs_buy_lots st = rs_sell_lots st" "rs_buy_lots st = au_matched out" "restored = rs_restored st"
    using assms(1) by (auto simp: restore_allocations_def Let_def om_entries_def split: if_splits list.splits prod.splits)
  note facts = om_of_list_facts [OF len]
  have "distinct (map fst ?m)" using facts(1,2) by simp
  then obtain all: "list_all2 (\<lambda>(oid, p) pa. pa_participant pa = p \<and> (\<exists>al. om_get al_map oid = Some al \<and>
      pa_executed_lots pa = al_executed al \<and> pa_status pa = al_status al \<and>
      lots_to_quantity D (al_executed al) m = Ok (pa_executed_quantity pa))) ?m restored"
    and lots: "rs_buy_lots st = lots_on Buy restored" "rs_sell_lots st = lots_on Sell restored"
    using restore_all_Ok [OF fold] fin(3) by (auto simp: lots_on_def)
  show "distinct (map bp_order_id ps)" by (rule facts(1))
  have each: "al_executed al = allotted out oid" if "om_get al_map oid = Some al" for oid al
    using known_all [OF known that] allotted_of [OF assms(2)] by auto
  have key: "list_all2 (\<lambda>(oid, p) pa. pa_participant pa = p \<and> oid = bp_order_id p \<and> p \<in> set ps \<and>
      pa_executed_lots pa = allotted out oid \<and> lots_to_quantity D (pa_executed_lots pa) m = Ok (pa_executed_quantity pa)) ?m restored"
    by (rule list.rel_mono_strong [OF all]) (use facts(3) each in fastforce)
  then have len2: "length ?m = length restored" and nth: "\<And>i. i < length restored \<Longrightarrow>
      pa_participant (restored ! i) = snd (?m ! i) \<and> fst (?m ! i) = bp_order_id (pa_participant (restored ! i)) \<and>
      pa_executed_lots (restored ! i) = allotted out (bp_order_id (pa_participant (restored ! i))) \<and>
      lots_to_quantity D (pa_executed_lots (restored ! i)) m = Ok (pa_executed_quantity (restored ! i))"
    by (auto simp: list_all2_conv_all_nth case_prod_unfold)
  have "map fst ?m = map (\<lambda>pa. bp_order_id (pa_participant pa)) restored"
    by (rule nth_equalityI) (use nth in \<open>auto simp: len2\<close>)
  then show "map (\<lambda>pa. bp_order_id (pa_participant pa)) restored = sort (map bp_order_id ps)" using facts(2) by simp
  have "map snd ?m = map pa_participant restored"
    by (rule nth_equalityI) (use nth in \<open>auto simp: len2\<close>)
  then have "set (map pa_participant restored) = snd ` set ?m" by (metis set_map)
  also have "\<dots> = set ps"
  proof (intro equalityI subsetI)
    fix p
    assume "p \<in> set ps"
    then have "(bp_order_id p, p) \<in> set ?m" using facts(3) [of "bp_order_id p" p] by simp
    then show "p \<in> snd ` set ?m" by (rule rev_image_eqI) simp
  next
    fix p
    assume "p \<in> snd ` set ?m"
    then obtain k where "(k, p) \<in> set ?m" by auto
    then show "p \<in> set ps" using facts(3) by blast
  qed
  finally show "set (map pa_participant restored) = set ps" .
  show "\<forall>pa \<in> set restored. pa_executed_lots pa = allotted out (bp_order_id (pa_participant pa)) \<and>
      lots_to_quantity D (pa_executed_lots pa) m = Ok (pa_executed_quantity pa)"
  proof
    fix pa
    assume "pa \<in> set restored"
    then obtain i where "i < length restored" "restored ! i = pa" by (auto simp: in_set_conv_nth)
    then show "pa_executed_lots pa = allotted out (bp_order_id (pa_participant pa)) \<and>
        lots_to_quantity D (pa_executed_lots pa) m = Ok (pa_executed_quantity pa)" using nth by blast
  qed
  show "lots_on s restored = au_matched out" using fin(1,2) lots by (cases s) simp_all
qed

definition within_terms :: "dec_ops \<Rightarrow> market_config \<Rightarrow> nat \<Rightarrow> batch_participant \<Rightarrow> nat \<Rightarrow> bool" where
  "within_terms D m r p t \<longleftrightarrow>
     (\<exists>k. (case bp_limit_price p of
        Some price \<Rightarrow> price_to_ticks D price m = Ok k
      | None \<Rightarrow> market_protection_price D r (mc_market_slippage_limit m) (bp_side p) = Ok k) \<and>
      (case bp_side p of Buy \<Rightarrow> t \<le> k | Sell \<Rightarrow> k \<le> t))"

lemma crosses_within:
  assumes "to_auction_order D m r p = Ok ord" and "auction_crosses ord t"
  shows "within_terms D m r p t"
  using assms(2) to_auction_order_Ok [OF assms(1)]
  by (cases "bp_kind p"; cases "bp_side p") (auto simp: within_terms_def auction_crosses.simps)

definition allocation_ok :: "dec_ops \<Rightarrow> market_config \<Rightarrow> nat \<Rightarrow> private_batch_outcome \<Rightarrow> participant_allocation \<Rightarrow> bool" where
  "allocation_ok D m r out pa \<longleftrightarrow>
     (let p = pa_participant pa; n = pa_executed_lots pa in
      (\<exists>q. quantity_to_lots D (bp_quantity p) m = Ok q \<and> n \<le> q \<and> (bp_tif p = Fok \<longrightarrow> n = 0 \<or> n = q)) \<and>
      (0 < n \<longrightarrow> (\<exists>t. po_clearing_price_ticks out = Some t \<and> within_terms D m r p t)) \<and>
      lots_to_quantity D n m = Ok (pa_executed_quantity pa) \<and>
      (bp_side p = Buy \<longrightarrow> bought (bp_order_id p) (po_fills out) = n) \<and>
      (bp_side p = Sell \<longrightarrow> sold (bp_order_id p) (po_fills out) = n))"

lemma one_of_side:
  assumes "distinct (map (\<lambda>pa. bp_order_id (pa_participant pa)) als)" and "pa \<in> set als"
  shows "(\<Sum>a\<leftarrow>als. if bp_side (pa_participant a) = bp_side (pa_participant pa) \<and>
      bp_order_id (pa_participant a) = bp_order_id (pa_participant pa) then pa_executed_lots a else 0) = pa_executed_lots pa"
  using assms
proof (induction als)
  case (Cons a als)
  show ?case
  proof (cases "pa = a")
    case True
    have "bp_order_id (pa_participant b) \<noteq> bp_order_id (pa_participant a)" if "b \<in> set als" for b
      using Cons.prems(1) that by (auto simp: image_iff)
    then have "(\<Sum>b\<leftarrow>als. if bp_side (pa_participant b) = bp_side (pa_participant a) \<and>
        bp_order_id (pa_participant b) = bp_order_id (pa_participant a) then pa_executed_lots b else 0) = 0"
      by (auto simp: sum_list_eq_0_iff)
    then show ?thesis by (simp add: True)
  next
    case False
    then have "bp_order_id (pa_participant a) \<noteq> bp_order_id (pa_participant pa)" using Cons.prems by auto
    then show ?thesis using Cons False by auto
  qed
qed simp

lemma lots_on_ge: "pa \<in> set als \<Longrightarrow> pa_executed_lots pa \<le> lots_on (bp_side (pa_participant pa)) als"
  by (induction als) (auto simp: lots_on_def)

lemma clear_private_batch_Ok:
  assumes "clear_private_batch D H m ctx ps = Ok out" and "length ps * 4 + 8 \<le> u64_max"
    and "price_to_ticks D (bc_reference_price ctx) m = Ok r"
  shows "map (\<lambda>pa. bp_order_id (pa_participant pa)) (po_allocations out) = sort (map bp_order_id ps)"
    and "set (map pa_participant (po_allocations out)) = set ps" and "distinct (map bp_order_id ps)"
    and "\<forall>pa \<in> set (po_allocations out). allocation_ok D m r out pa"
    and "lots_on s (po_allocations out) = po_matched_lots out" and "fills_lots (po_fills out) = po_matched_lots out"
    and "po_matched_lots out \<noteq> 0 \<Longrightarrow> \<exists>t p. po_clearing_price_ticks out = Some t \<and> ticks_to_price D t m = Ok p \<and>
      (\<forall>f \<in> set (po_fills out). fill_ok D m t p f)"
proof -
  obtain seen orders cm auc cp where
    conv: "foldr_res (convert_step D m r) ps ([], []) = Ok (seen, orders)"
    and clear: "clear_batch H \<lparr>ac_reference_price = r, ac_commitment = cm\<rparr> orders = Ok auc"
    and rest: "restore_allocations D m ps auc = Ok (po_allocations out)"
    and cp: "(case au_clearing_price auc of None \<Rightarrow> Ok None | Some t \<Rightarrow> bindr (ticks_to_price D t m) (\<lambda>p. Ok (Some p))) = Ok cp"
    and pair: "pair_fills D m (po_allocations out) (au_clearing_price auc) cp (au_matched auc) = Ok (po_fills out)"
    and out: "po_clearing_price_ticks out = au_clearing_price auc" "po_matched_lots out = au_matched auc"
    using assms(1,3) by (auto simp: clear_private_batch_def)
  have os: "list_all2 (\<lambda>p ord. to_auction_order D m r p = Ok ord) ps orders" using convert_all [OF conv] by simp
  have len: "length orders * 4 + 8 \<le> u64_max" using assms(2) list_all2_lengthD [OF os] by simp
  note sound = cleared_sound [OF len clear]
  have "batch_ok orders" using clear_batch_valid [OF clear] by simp
  then have d: "distinct (map al_order_id (au_allocations auc))" using sound by (simp add: batch_ok_def)
  note ra = restore_allocations_Ok [OF rest d]
  show "map (\<lambda>pa. bp_order_id (pa_participant pa)) (po_allocations out) = sort (map bp_order_id ps)"
    "set (map pa_participant (po_allocations out)) = set ps" "distinct (map bp_order_id ps)" by (rule ra(2), rule ra(3), rule ra(1))
  show "lots_on s (po_allocations out) = po_matched_lots out" for s using ra(5) out by simp
  show "fills_lots (po_fills out) = po_matched_lots out" using pair_fills_conserves(1) [OF pair] out by simp
  show "\<exists>t p. po_clearing_price_ticks out = Some t \<and> ticks_to_price D t m = Ok p \<and> (\<forall>f \<in> set (po_fills out). fill_ok D m t p f)"
    if nz: "po_matched_lots out \<noteq> 0"
    using pair_fills_conserves(2) [OF pair] nz cp out by auto
  show "\<forall>pa \<in> set (po_allocations out). allocation_ok D m r out pa"
  proof
    fix pa
    assume pa: "pa \<in> set (po_allocations out)"
    let ?p = "pa_participant pa" and ?n = "pa_executed_lots pa"
    have "?p \<in> set ps" using pa ra(3) by auto
    then obtain i where i: "i < length ps" "ps ! i = ?p" by (auto simp: in_set_conv_nth)
    define ord where "ord = orders ! i"
    have ord: "ord \<in> set orders" "to_auction_order D m r ?p = Ok ord"
      using list_all2_nthD [OF os i(1)] list_all2_lengthD [OF os] i by (auto simp: ord_def)
    note o = to_auction_order_Ok [OF ord(2)]
    have n: "?n = allotted auc (ao_id ord)" "lots_to_quantity D ?n m = Ok (pa_executed_quantity pa)" using ra(4) pa o(1) by auto
    have s: "?n \<le> ao_quantity ord" "0 < ?n \<longrightarrow> (\<exists>t. au_clearing_price auc = Some t \<and> auction_crosses ord t)"
      "ao_tif ord = FokOrder \<longrightarrow> ?n = 0 \<or> ?n = ao_quantity ord"
      using sound ord(1) by (auto simp: Let_def n(1))
    have dis: "distinct (map (\<lambda>pa. bp_order_id (pa_participant pa)) (po_allocations out))" using ra(1,2) by simp
    have fills: "(bp_side ?p = Buy \<longrightarrow> bought (bp_order_id ?p) (po_fills out) = ?n) \<and>
      (bp_side ?p = Sell \<longrightarrow> sold (bp_order_id ?p) (po_fills out) = ?n)"
    proof (cases "au_matched auc = 0")
      case True
      then have "?n = 0" using lots_on_ge [OF pa] ra(5) by simp
      then show ?thesis using pair_fills_conserves(3) [OF pair True] by (simp add: bought_def sold_def)
    next
      case False
      have *: "bought (bp_order_id ?p) (po_fills out) = open_of (bp_order_id ?p) (open_side Buy (po_allocations out))"
        "sold (bp_order_id ?p) (po_fills out) = open_of (bp_order_id ?p) (open_side Sell (po_allocations out))"
        using pair_fills_conserves(2) [OF pair False] by auto
      show ?thesis unfolding * open_side_of using one_of_side [OF dis pa] by auto
    qed
    have "\<exists>q. quantity_to_lots D (bp_quantity ?p) m = Ok q \<and> ?n \<le> q \<and> (bp_tif ?p = Fok \<longrightarrow> ?n = 0 \<or> ?n = q)"
      using s o(3,4) by blast
    moreover have "0 < ?n \<longrightarrow> (\<exists>t. po_clearing_price_ticks out = Some t \<and> within_terms D m r ?p t)"
      using s(2) crosses_within [OF ord(2)] out by auto
    ultimately show "allocation_ok D m r out pa"
      using n(2) fills unfolding allocation_ok_def Let_def by blast
  qed
qed

end
