(* ===== verification/Private_Market_Theorems.thy ===== *)
theory Private_Market_Theorems
  imports Private_Market_Clear "HOL-Library.Code_Target_Nat"
begin

text \<open>
  The properties of the market adapter, evaluated on a market with ticks of a half and steps of a tenth
  and on a batch of one buyer and one seller.
\<close>

section \<open>The example\<close>

definition w_config_market :: market_config where
  "w_config_market = \<lparr>mc_symbol = ''BTC'', mc_tick_size = 1 / 2, mc_quantity_step = 1 / 10, mc_min_quantity = 1 / 10,
     mc_max_leverage = 20, mc_maintenance_margin_ratio = 1 / 10, mc_maker_fee_rate = 0, mc_taker_fee_rate = 0,
     mc_market_slippage_limit = 1 / 10, mc_liquidation_penalty_rate = 1 / 100\<rparr>"

definition w_context :: batch_context where
  "w_context = \<lparr>bc_chain_id = ''chain'', bc_height = 3, bc_threshold_beacon = replicate 32 1, bc_reference_price = 100\<rparr>"

definition w_participants :: "batch_participant list" where
  "w_participants =
     [\<lparr>bp_visibility = PrivateOrder [9], bp_account_id = ''bob'', bp_order_id = [2], bp_side = Buy, bp_kind = Market,
       bp_tif = Ioc, bp_quantity = 1 / 2, bp_limit_price = None, bp_leverage = 5, bp_reduce_only = False\<rparr>,
      \<lparr>bp_visibility = PublicOrder, bp_account_id = ''alice'', bp_order_id = [1], bp_side = Sell, bp_kind = Limit,
       bp_tif = Gtc, bp_quantity = 2, bp_limit_price = Some (199 / 2), bp_leverage = 5, bp_reduce_only = False\<rparr>]"

lemma w_batch: "\<exists>out. clear_private_batch dec28 (\<lambda>b. []) w_config_market w_context w_participants = Ok out \<and>
    po_clearing_price out = Some 100 \<and> po_matched_quantity out = 1 / 2 \<and> map bfl_quantity_lots (po_fills out) = [5]"
proof -
  have "(case clear_private_batch dec28 (\<lambda>b. []) w_config_market w_context w_participants of
      Ok out \<Rightarrow> po_clearing_price out = Some 100 \<and> po_matched_quantity out = 1 / 2 \<and>
        map bfl_quantity_lots (po_fills out) = [5] | _ \<Rightarrow> False)"
    by code_simp
  then show ?thesis by (auto split: res.splits)
qed

lemma w_units: "representable (199 / 2)" "representable (1 / 2)" "representable (11 / 10)" "representable (9 / 10)"
  by (rule representable_scaled [of _ 1 "995"]; simp add: dec_limit_def max_scale_def)
    (rule representable_scaled [of _ 1 "5"] representable_scaled [of _ 1 "11"] representable_scaled [of _ 1 "9"];
      simp add: dec_limit_def max_scale_def)+

section \<open>Properties\<close>

text \<open>C28: Conversion to ticks and lots is exact. Whatever mantissas and scales represent the value and the
  step, the result is the number of steps when the value is a whole multiple that fits 64 bits, and the
  matching error otherwise: negative, not aligned, or too large. Nothing is ever rounded.\<close>

theorem decimal_to_units_exact:
  assumes "decimal_arith D" and "representable x" and "representable st" and "0 < st"
  shows "(\<forall>n. decimal_to_units D x st f = Ok n \<longleftrightarrow> x = of_nat n * st \<and> n \<le> u64_max) \<and>
    (decimal_to_units D x st f = Err (NegativeValue f) \<longleftrightarrow> x < 0) \<and>
    (decimal_to_units D x st f = Err (NotStepAligned f x st) \<longleftrightarrow> 0 \<le> x \<and> (\<nexists>n. x = of_nat n * st)) \<and>
    (decimal_to_units D x st f = Err (UnitOverflow f) \<longleftrightarrow> (\<exists>n. x = of_nat n * st \<and> u64_max < n))"
proof -
  note cases = decimal_arith.decimal_to_units_cases [OF assms, where f = f]
  have nonneg: "0 \<le> x" if "x = of_nat n * st" for n using that assms(4) by simp
  consider "x < 0" | n where "x = of_nat n * st" | "0 \<le> x" "\<nexists>n. x = of_nat n * st" by force
  then show ?thesis
  proof cases
    case 1
    then have "\<nexists>n. x = of_nat n * st" using nonneg by force
    then show ?thesis using cases(1) [OF 1] 1 by auto
  next
    case (2 n)
    have "x = of_nat k * st \<longleftrightarrow> k = n" for k using 2 assms(4) by auto
    then show ?thesis using cases(2) [OF 2] nonneg [OF 2] by (auto simp: not_le)
  next
    case 3
    then show ?thesis using cases(3) [OF 3] by auto
  qed
qed

theorem decimal_to_units_exact_witness:
  "decimal_to_units dec28 (199 / 2) (1 / 2) ''price'' = Ok 199 \<and>
   decimal_to_units dec28 (11 / 10) (1 / 2) ''price'' = Err (NotStepAligned ''price'' (11 / 10) (1 / 2))"
proof -
  have "\<nexists>n. 11 / 10 = of_nat n * (1 / 2 :: rat)"
  proof
    assume "\<exists>n. 11 / 10 = of_nat n * (1 / 2 :: rat)"
    then obtain n where "of_nat 11 = (of_nat (5 * n) :: rat)" by (auto simp: field_simps)
    then have "11 = 5 * n" by (simp only: of_nat_eq_iff)
    then show False by presburger
  qed
  then show ?thesis
    using decimal_to_units_exact [OF dec28.decimal_arith_axioms w_units(1,2), of "''price''"]
      decimal_to_units_exact [OF dec28.decimal_arith_axioms w_units(3,2), of "''price''"]
    by (simp add: u64_max_def)
qed

text \<open>C29: Units survive the way to a decimal and back: a count of steps that is a decimal converts to that
  decimal, which converts back to the count.\<close>

theorem units_round_trip:
  assumes "decimal_arith D" and "representable st" and "0 < st" and "n \<le> u64_max" and "representable (of_nat n * st)"
  shows "units_to_decimal D n st f = Ok (of_nat n * st) \<and> decimal_to_units D (of_nat n * st) st f = Ok n"
proof -
  have "validate_step D st f = Ok ()"
    using decimal_arith.mantissa_sign(3) [OF assms(1,2)] assms(3) by (simp add: validate_step_def)
  then show ?thesis
    using assms(4,5) decimal_arith.mul_exact [OF assms(1,5)] decimal_arith.decimal_to_units_Ok [OF assms(1,5,2,3), of f n]
    by (simp add: units_to_decimal_def)
qed

theorem units_round_trip_witness:
  "units_to_decimal dec28 199 (1 / 2) ''price'' = Ok (199 / 2) \<and> decimal_to_units dec28 (199 / 2) (1 / 2) ''price'' = Ok 199"
  using units_round_trip [OF dec28.decimal_arith_axioms w_units(2), of 199 "''price''"] w_units(1) by (simp add: u64_max_def)

text \<open>C30: Rounding never weakens the slippage bound of a market order: the protection price of a buy is the
  reference price times one plus the limit, rounded down to a tick, and of a sell the reference price
  times one minus the limit, rounded up.\<close>

theorem protection_price_rounds_inward:
  assumes "decimal_arith D" and "representable slip" and "representable (1 + slip)" and "representable (1 - slip)"
    and "market_protection_price D reference slip s = Ok t"
  shows "case s of
      Buy \<Rightarrow> int t = \<lfloor>of_nat reference * (1 + slip)\<rfloor> \<and> of_nat t \<le> of_nat reference * (1 + slip)
    | Sell \<Rightarrow> int t = \<lceil>of_nat reference * (1 - slip)\<rceil> \<and> of_nat reference * (1 - slip) \<le> of_nat t"
proof (cases s)
  case Buy
  then have "scale_price_ticks D reference (1 + slip) False = Ok t"
    using assms(5) decimal_arith.add_exact [OF assms(1,3)] by (simp add: market_protection_price_def)
  then have t: "int t = \<lfloor>of_nat reference * (1 + slip)\<rfloor>"
    using decimal_arith.scale_price_ticks_Ok(1) [OF assms(1,3), of reference False t] by simp
  have "of_nat t = (of_int \<lfloor>of_nat reference * (1 + slip)\<rfloor> :: rat)" by (simp flip: t)
  then have "of_nat t \<le> of_nat reference * (1 + slip)" using of_int_floor_le by metis
  then show ?thesis using Buy t by simp
next
  case Sell
  then have "scale_price_ticks D reference (1 - slip) True = Ok t"
    using assms(5) decimal_arith.sub_exact [OF assms(1,4)] by (simp add: market_protection_price_def)
  then have t: "int t = \<lceil>of_nat reference * (1 - slip)\<rceil>"
    using decimal_arith.scale_price_ticks_Ok(1) [OF assms(1,4), of reference True t] by simp
  have "of_nat t = (of_int \<lceil>of_nat reference * (1 - slip)\<rceil> :: rat)" by (simp flip: t)
  then have "of_nat reference * (1 - slip) \<le> of_nat t" using le_of_int_ceiling by metis
  then show ?thesis using Sell t by simp
qed

theorem protection_price_rounds_inward_witness:
  "market_protection_price dec28 7 (1 / 10) Buy = Ok 7 \<and> market_protection_price dec28 7 (1 / 10) Sell = Ok 7 \<and>
   of_nat 7 \<le> of_nat 7 * (1 + 1 / 10 :: rat)"
proof -
  have r: "representable (1 / 10)" by (rule representable_scaled [of _ 1 1]) (simp_all add: dec_limit_def max_scale_def)
  have e: "market_protection_price dec28 7 (1 / 10) Buy = Ok 7" "market_protection_price dec28 7 (1 / 10) Sell = Ok 7"
    by code_simp+
  have "1 + 1 / 10 = (11 / 10 :: rat)" "1 - 1 / 10 = (9 / 10 :: rat)" by simp_all
  then show ?thesis
    using protection_price_rounds_inward [OF dec28.decimal_arith_axioms r _ _ e(1)] w_units(3,4) e by simp
qed

text \<open>C27: Settlement of a private batch. Every participant gets one allocation, in the order of the order ids;
  it is at most the quantity, all or nothing for fill-or-kill, and only at a price within the limit or
  the protection price; the fills of each order add up to its allocation, both sides and the fills add up
  to the matched quantity, and every fill is at the one clearing price.\<close>

theorem private_batch_settles:
  assumes "length ps * 4 + 8 \<le> u64_max" and "price_to_ticks D (bc_reference_price ctx) m = Ok r"
    and "clear_private_batch D H m ctx ps = Ok out"
  shows "map (\<lambda>pa. bp_order_id (pa_participant pa)) (po_allocations out) = sort (map bp_order_id ps) \<and>
    set (map pa_participant (po_allocations out)) = set ps \<and> distinct (map bp_order_id ps) \<and>
    (\<forall>pa \<in> set (po_allocations out). allocation_ok D m r out pa) \<and>
    (\<forall>s. lots_on s (po_allocations out) = po_matched_lots out) \<and> fills_lots (po_fills out) = po_matched_lots out \<and>
    (po_matched_lots out \<noteq> 0 \<longrightarrow> (\<exists>t p. po_clearing_price_ticks out = Some t \<and> ticks_to_price D t m = Ok p \<and>
      (\<forall>f \<in> set (po_fills out). fill_ok D m t p f)))"
  using clear_private_batch_Ok [OF assms(3,1,2)] by blast

theorem private_batch_settles_witness:
  "\<exists>out. clear_private_batch dec28 (\<lambda>b. []) w_config_market w_context w_participants = Ok out \<and>
     fills_lots (po_fills out) = po_matched_lots out \<and> lots_on Buy (po_allocations out) = lots_on Sell (po_allocations out)"
proof -
  obtain out where out: "clear_private_batch dec28 (\<lambda>b. []) w_config_market w_context w_participants = Ok out"
    using w_batch by auto
  have "price_to_ticks dec28 (bc_reference_price w_context) w_config_market = Ok 200" by code_simp
  from private_batch_settles [OF _ this out] show ?thesis using out by (auto simp: w_participants_def u64_max_def)
qed

end
