(* ===== verification/Event_Log.thy ===== *)
theory Event_Log
  imports Domain Bytes
begin

text \<open>
  The hash-chained event log (\<open>event.rs\<close>). \<open>serde_json\<close>, \<open>hex\<close> and SHA-256 are not part of the
  repository: \<open>ev_json\<close> is the encoding of the tuple of sequence, time, previous hash and kind,
  \<open>ev_hex\<close> the hexadecimal text of a digest and \<open>ev_sha\<close> the digest. A time is its number of
  milliseconds. The persistent vector of events is a list, oldest first.
\<close>

datatype event_kind =
    AccountCredited account_id decimal
  | MarkPriceUpdated symbol decimal
  | OrderAccepted order
  | OrderCancelled uuid account_id string
  | TradeExecuted trade
  | FundingApplied symbol decimal decimal decimal
  | OraclePricePublished oracle_snapshot
  | LiquidationExecuted account_id symbol decimal decimal decimal decimal decimal decimal "socialized_loss list"
  | PrivateOrderQueued string account_id symbol nat decimal decimal
  | PrivateOrderInvalid string string
  | PrivateBatchCleared symbol nat "decimal option" decimal nat nat
  | ShieldedMarketConfigured string
  | ShieldedDepositCommitted string nat nat string
  | ShieldedSpendApplied string nat nat nat string

record event =
  ev_sequence :: nat
  ev_timestamp :: int
  ev_previous_hash :: string
  ev_hash :: string
  ev_kind :: event_kind

type_synonym event_log = "event list"

record event_crypto =
  ev_json :: "nat \<times> int \<times> string \<times> event_kind \<Rightarrow> bytes"
  ev_sha :: digest
  ev_hex :: "bytes \<Rightarrow> string"

definition MAX_RETAINED_EVENTS :: nat where
  "MAX_RETAINED_EVENTS = 1024"

definition event_digest :: "event_crypto \<Rightarrow> nat \<times> int \<times> string \<times> event_kind \<Rightarrow> string" where
  "event_digest C material = ev_hex C (ev_sha C (ev_json C material))"

text \<open>\<open>while len > MAX { pop_front }\<close> keeps the newest events.\<close>

definition prune :: "event_log \<Rightarrow> event_log" where
  "prune evs = drop (length evs - MAX_RETAINED_EVENTS) evs"

definition genesis_hash :: string where
  "genesis_hash = replicate 64 (CHR ''0'')"

definition log_append :: "event_crypto \<Rightarrow> nat \<Rightarrow> int \<Rightarrow> event_kind \<Rightarrow> event_log \<Rightarrow> event \<times> event_log" where
  "log_append C sequence timestamp kind evs =
     (let previous_hash = (if evs = [] then genesis_hash else ev_hash (last evs));
          ev = \<lparr>ev_sequence = sequence, ev_timestamp = timestamp, ev_previous_hash = previous_hash,
                ev_hash = event_digest C (sequence, timestamp, previous_hash, kind), ev_kind = kind\<rparr> in
      (ev, prune (evs @ [ev])))"

definition after :: "nat \<Rightarrow> nat \<Rightarrow> event_log \<Rightarrow> event list" where
  "after sequence limit evs = take limit (filter (\<lambda>ev. sequence < ev_sequence ev) evs)"

text \<open>The loop of \<open>verify\<close>, with the previous hash and the previous sequence.\<close>

fun verify_from :: "event_crypto \<Rightarrow> string \<Rightarrow> nat \<Rightarrow> event_log \<Rightarrow> bool" where
  "verify_from C previous_hash previous_sequence [] = True"
| "verify_from C previous_hash previous_sequence (ev # evs) =
     (if ev_previous_hash ev \<noteq> previous_hash \<or> ev_sequence ev \<le> previous_sequence then False
      else if ev_hash ev \<noteq> event_digest C (ev_sequence ev, ev_timestamp ev, ev_previous_hash ev, ev_kind ev)
      then False
      else verify_from C (ev_hash ev) (ev_sequence ev) evs)"

definition verify :: "event_crypto \<Rightarrow> event_log \<Rightarrow> bool" where
  "verify C evs =
     (case evs of [] \<Rightarrow> True
      | first # _ \<Rightarrow> verify_from C (ev_previous_hash first) (ev_sequence first - 1) evs)"

section \<open>The chain\<close>

definition well_hashed :: "event_crypto \<Rightarrow> event \<Rightarrow> bool" where
  "well_hashed C ev \<longleftrightarrow>
     ev_hash ev = event_digest C (ev_sequence ev, ev_timestamp ev, ev_previous_hash ev, ev_kind ev)"

definition follows :: "event \<Rightarrow> event \<Rightarrow> bool" where
  "follows a b \<longleftrightarrow> ev_previous_hash b = ev_hash a \<and> ev_sequence a < ev_sequence b"

text \<open>A log is a chain when each event is hashed correctly and follows the one before it.\<close>

definition chain :: "event_crypto \<Rightarrow> event_log \<Rightarrow> bool" where
  "chain C evs \<longleftrightarrow> (\<forall>ev \<in> set evs. well_hashed C ev \<and> 0 < ev_sequence ev) \<and> successively follows evs"

lemma verify_from_eq:
  "verify_from C h n evs \<longleftrightarrow>
   (case evs of [] \<Rightarrow> True | e # _ \<Rightarrow> ev_previous_hash e = h \<and> n < ev_sequence e) \<and>
   (\<forall>ev \<in> set evs. well_hashed C ev) \<and> successively follows evs"
proof (induction evs arbitrary: h n)
  case (Cons e evs)
  then show ?case by (cases evs) (auto simp: well_hashed_def follows_def)
qed simp

lemma follows_sequences: "successively follows (e # evs) \<Longrightarrow> ev \<in> set evs \<Longrightarrow> ev_sequence e < ev_sequence ev"
proof (induction evs arbitrary: e)
  case (Cons a evs)
  then show ?case by (auto simp: follows_def) (meson order.strict_trans)
qed simp

lemma verify_eq_chain: "verify C evs \<longleftrightarrow> chain C evs"
proof (cases evs)
  case (Cons e rest)
  show ?thesis
    unfolding verify_def chain_def Cons
    using follows_sequences [of e rest] by (auto simp: verify_from_eq simp del: verify_from.simps)
      (metis gr_zeroI not_less_zero)+
qed (simp add: verify_def chain_def)

lemma successively_drop: "successively P xs \<Longrightarrow> successively P (drop n xs)"
  by (metis append_take_drop_id successively_append_iff)

lemma chain_drop: "chain C evs \<Longrightarrow> chain C (drop n evs)"
  by (auto simp: chain_def successively_drop dest: in_set_dropD)

lemma chain_prune: "chain C evs \<Longrightarrow> chain C (prune evs)"
  by (simp add: prune_def chain_drop)

lemma last_sequence:
  "chain C evs \<Longrightarrow> ev \<in> set evs \<Longrightarrow> ev_sequence ev \<le> ev_sequence (last evs)"
proof (induction evs)
  case (Cons e evs)
  then show ?case
    using follows_sequences [of e evs "last evs"]
    by (cases "evs = []") (auto simp: chain_def successively_Cons less_imp_le)
qed simp

lemma chain_append:
  assumes "chain C evs" and "\<And>ev. ev \<in> set evs \<Longrightarrow> ev_sequence ev < n" and "0 < n"
  shows "chain C (snd (log_append C n t k evs))"
proof -
  have "evs \<noteq> [] \<Longrightarrow> ev_sequence (last evs) < n" using assms(2) by simp
  then have "chain C (evs @ [\<lparr>ev_sequence = n, ev_timestamp = t,
      ev_previous_hash = (if evs = [] then genesis_hash else ev_hash (last evs)),
      ev_hash = event_digest C (n, t, if evs = [] then genesis_hash else ev_hash (last evs), k), ev_kind = k\<rparr>])"
    using assms(1,3) by (auto simp: chain_def successively_append_iff follows_def well_hashed_def)
  then show ?thesis by (simp add: log_append_def Let_def chain_prune)
qed

lemma length_prune: "length (prune evs) \<le> MAX_RETAINED_EVENTS"
  by (simp add: prune_def)

lemma set_prune: "set (prune evs) \<subseteq> set evs"
  by (auto simp: prune_def dest: in_set_dropD)

text \<open>Two chains of one length that end in the same hash are equal, or two materials collide.\<close>

lemma chain_same_end:
  assumes "chain C xs" and "chain C ys" and "length xs = length ys"
    and "xs \<noteq> []" and "ev_hash (last xs) = ev_hash (last ys)"
    and no_collision: "\<And>a b. event_digest C a = event_digest C b \<Longrightarrow> a = b"
  shows "xs = ys"
  using assms(3,1,2,4,5)
proof (induction xs ys rule: rev_induct2)
  case (4 x xs y ys)
  then have "well_hashed C x" "well_hashed C y" "ev_hash x = ev_hash y"
    by (auto simp: chain_def)
  then have eq: "x = y" using no_collision by (cases x; cases y) (force simp: well_hashed_def)
  show ?case
  proof (cases "xs = []")
    case False
    with 4 have "ys \<noteq> []" by auto
    with False 4 eq have "ev_hash (last xs) = ev_hash (last ys)" "chain C xs" "chain C ys"
      by (auto simp: chain_def successively_append_iff follows_def)
    with 4 False eq show ?thesis by simp
  qed (use 4 eq in auto)
qed auto

end
