(* ===== verification/Private_Wire.thy ===== *)
theory Private_Wire
  imports Private_Market
begin

text \<open>
  The data of encrypted private orders that the engine stores and reads (\<open>private_order.rs\<close>,
  \<open>private_protocol.rs\<close>): the submission with its envelope and header, the threshold public keys, the
  decryption bundle, and the decrypted order. Keys, identifiers and ciphertexts are byte lists.
\<close>

record order_context =
  pc_chain_id :: string
  pc_market_id :: symbol
  pc_epoch :: nat
  pc_batch_height :: nat

record order_header =
  ph_version :: nat
  ph_market_id :: symbol
  ph_epoch :: nat
  ph_batch_height :: nat
  ph_fee_payer :: bytes
  ph_anti_spam_commitment :: bytes
  ph_key_id :: bytes

record public_share =
  ps_validator_id :: nat
  ps_public_key :: bytes

record public_key_set =
  ks_version :: nat
  ks_threshold :: nat
  ks_validator_count :: nat
  ks_epoch :: nat
  ks_public_key :: bytes
  ks_validators :: "public_share list"
  ks_key_id :: bytes

record order_envelope =
  pe_header :: order_header
  pe_ephemeral_public_key :: bytes
  pe_nonce :: bytes
  pe_encrypted_payload :: bytes

record submission =
  sb_version :: nat
  sb_chain_id :: string
  sb_nonce :: nat
  sb_valid_until_height :: nat
  sb_envelope :: order_envelope
  sb_signature :: bytes

text \<open>The side and the kind of a payload have the constructors of the domain's.\<close>

record order_payload =
  pp_client_id :: string
  pp_side :: side
  pp_kind :: order_kind
  pp_price_ticks :: nat
  pp_quantity_lots :: nat
  pp_leverage :: nat
  pp_ioc :: bool
  pp_fok :: bool
  pp_reduce_only :: bool

record decrypted_order =
  do_submission_id :: bytes
  do_fee_payer :: bytes
  do_nonce :: nat
  do_market_id :: symbol
  do_payload :: order_payload

datatype invalid_reason =
    CiphertextAuthenticationFailed
  | InvalidPlaintextLength
  | MalformedPayload
  | NonCanonicalPayload
  | InvalidPayloadSemantics

datatype decryption_outcome =
    ValidOutcome decrypted_order
  | InvalidOutcome bytes bytes nat invalid_reason

record chaum_pedersen_proof =
  cp_commitment_base :: bytes
  cp_commitment_ephemeral :: bytes
  cp_response :: bytes

record decryption_share =
  ds_version :: nat
  ds_epoch :: nat
  ds_validator_id :: nat
  ds_key_id :: bytes
  ds_ciphertext_id :: bytes
  ds_shared_point :: bytes
  ds_proof :: chaum_pedersen_proof

record beacon_share =
  be_version :: nat
  be_epoch :: nat
  be_height :: nat
  be_validator_id :: nat
  be_key_id :: bytes
  be_committed_app_hash :: bytes
  be_beacon_point :: bytes
  be_proof :: chaum_pedersen_proof

record ciphertext_decryption =
  cd_submission_id :: bytes
  cd_shares :: "decryption_share list"

record decryption_bundle =
  db_version :: nat
  db_height :: nat
  db_committed_app_hash :: bytes
  db_beacon_shares :: "beacon_share list"
  db_beacon_output :: bytes
  db_ciphertexts :: "ciphertext_decryption list"

definition PRIVATE_ORDER_DECRYPTION_DELAY_BLOCKS :: nat where
  "PRIVATE_ORDER_DECRYPTION_DELAY_BLOCKS = 2"

definition MAX_PENDING_PRIVATE_ORDERS :: nat where
  "MAX_PENDING_PRIVATE_ORDERS = 128"

end
