(* ===== verification/Engine_State.thy ===== *)
theory Engine_State
  imports Event_Log Account Orderbook Private_Wire
begin

text \<open>
  The state of the exchange (\<open>engine.rs\<close>, \<open>EngineState\<close>), the apply context that derives identifiers
  from a transaction, and the two operations every change goes through: taking the next sequence
  number and appending an event. The parameter \<open>'l\<close> is the type of the shielded ledger. An operation
  returns the new state with its result; after an error or a panic the callers of the source discard
  the state, so the outcomes \<open>Err\<close> and \<open>Panic\<close> carry none.
\<close>

record private_market_snapshot =
  pm_reference_price :: decimal
  pm_public_orders :: "order list"

record private_batch_snapshot =
  pb_batch_height :: nat
  pb_markets :: "(symbol, private_market_snapshot) omap"

record 'l engine_state =
  es_chain_id :: string
  es_authority :: account_id
  es_protocol_version :: nat
  es_height :: nat
  es_block_time_ms :: int
  es_account_nonces :: "(account_id, nat) omap"
  es_markets :: "(symbol, market_state) omap"
  es_accounts :: "(account_id, account) omap"
  es_books :: "(symbol, order_book) omap"
  es_order_market :: "(uuid, symbol) omap"
  es_client_order_ids :: "(string, uuid) omap"
  es_sequence :: nat
  es_total_credits :: decimal
  es_fee_vault :: decimal
  es_insurance_fund :: decimal
  es_funding_pool :: decimal
  es_oracle :: "(symbol, oracle_snapshot) omap"
  es_key_set :: "public_key_set option"
  es_validator_bindings :: "(string, nat) omap"
  es_pending_orders :: "(nat, submission list) omap"
  es_bonds :: "(nat, (account_id, decimal) omap) omap"
  es_batch_app_hashes :: "(nat, bytes) omap"
  es_batch_snapshots :: "(nat, private_batch_snapshot) omap"
  es_private_order_fee :: decimal
  es_shielded_ledger :: "'l option"
  es_event_log :: event_log

text \<open>What the engine takes from other crates: decimals, the hash, encodings and the calendar.\<close>

record engine_env =
  en_dec :: dec_ops
  en_crypto :: event_crypto
  en_from_millis :: "int \<Rightarrow> int option"

abbreviation sha :: "engine_env \<Rightarrow> digest" where
  "sha E \<equiv> ev_sha (en_crypto E)"

definition default_protocol_version :: nat where "default_protocol_version = 5"

definition default_private_order_fee :: decimal where "default_private_order_fee = 1 / 100"

definition MIN_PRIVATE_ORDER_BOND :: decimal where "MIN_PRIVATE_ORDER_BOND = 100"

definition genesis :: "string \<Rightarrow> market_state list \<Rightarrow> 'l engine_state" where
  "genesis chain_id markets =
     (let ms = om_of_list (map (\<lambda>m. (mc_symbol (ms_config m), m)) markets) in
      \<lparr>es_chain_id = chain_id, es_authority = [], es_protocol_version = default_protocol_version,
       es_height = 0, es_block_time_ms = 0, es_account_nonces = [], es_markets = ms,
       es_accounts = [], es_books = om_of_list (map (\<lambda>symb. (symb, empty_book)) (om_keys ms)),
       es_order_market = [], es_client_order_ids = [], es_sequence = 0, es_total_credits = 0,
       es_fee_vault = 0, es_insurance_fund = 0, es_funding_pool = 0, es_oracle = [],
       es_key_set = None, es_validator_bindings = [], es_pending_orders = [], es_bonds = [],
       es_batch_app_hashes = [], es_batch_snapshots = [],
       es_private_order_fee = default_private_order_fee, es_shielded_ledger = None,
       es_event_log = []\<rparr>)"

definition standard_config :: "symbol \<Rightarrow> decimal \<Rightarrow> market_config" where
  "standard_config symb tick =
     \<lparr>mc_symbol = symb, mc_tick_size = tick, mc_quantity_step = 1 / 1000, mc_min_quantity = 1 / 1000,
      mc_max_leverage = 50, mc_maintenance_margin_ratio = 5 / 1000, mc_maker_fee_rate = 1 / 10000,
      mc_taker_fee_rate = 35 / 100000, mc_market_slippage_limit = 1 / 100,
      mc_liquidation_penalty_rate = 5 / 1000\<rparr>"

definition default_markets :: "market_state list" where
  "default_markets =
     [\<lparr>ms_config = standard_config ''BTCUSDT'' (1 / 10), ms_mark_price = 60000, ms_funding_rate = 0,
       ms_funding_index = 0\<rparr>,
      \<lparr>ms_config = standard_config ''ETHUSDT'' (1 / 100), ms_mark_price = 3000, ms_funding_rate = 0,
       ms_funding_index = 0\<rparr>]"

section \<open>Sequence and events\<close>

definition next_sequence :: "'l engine_state \<Rightarrow> (nat \<times> 'l engine_state) exch" where
  "next_sequence s =
     bindr (expect (checked_add u64_max (es_sequence s) 1)) (\<lambda>n. Ok (n, s\<lparr>es_sequence := n\<rparr>))"

definition consensus_time :: "engine_env \<Rightarrow> 'l engine_state \<Rightarrow> int" where
  "consensus_time E s = (case en_from_millis E (es_block_time_ms s) of Some t \<Rightarrow> t | None \<Rightarrow> 0)"

text \<open>The event that \<open>append_event\<close> returns is read by no caller; it is the last of the log.\<close>

definition append_event_at :: "engine_env \<Rightarrow> nat \<Rightarrow> event_kind \<Rightarrow> 'l engine_state \<Rightarrow> 'l engine_state" where
  "append_event_at E sequence kind s =
     s\<lparr>es_event_log := snd (log_append (en_crypto E) sequence (consensus_time E s) kind (es_event_log s))\<rparr>"

definition append_event :: "engine_env \<Rightarrow> event_kind \<Rightarrow> 'l engine_state \<Rightarrow> 'l engine_state exch" where
  "append_event E kind s =
     bindr (next_sequence s) (\<lambda>(n, s). Ok (append_event_at E n kind s))"

section \<open>The apply context\<close>

record apply_context =
  cx_height :: nat
  cx_block_time_ms :: int
  cx_tx_index :: nat
  cx_tx_hash :: bytes
  cx_next_ordinal :: nat

definition new_context :: "nat \<Rightarrow> int \<Rightarrow> nat \<Rightarrow> bytes \<Rightarrow> apply_context" where
  "new_context height block_time_ms tx_index tx_hash =
     \<lparr>cx_height = height, cx_block_time_ms = block_time_ms, cx_tx_index = tx_index,
      cx_tx_hash = tx_hash, cx_next_ordinal = 0\<rparr>"

text \<open>The first 16 bytes of a digest with the version and variant bits of a version 8 uuid.\<close>

definition uuid_of_digest :: "bytes \<Rightarrow> uuid" where
  "uuid_of_digest digest =
     (let bs = take 16 digest;
          bs = bs[6 := or (and (bs ! 6) 0x0f) 0x80];
          bs = bs[8 := or (and (bs ! 8) 0x3f) 0x80] in
      of_be bs)"

definition next_uuid :: "engine_env \<Rightarrow> bytes \<Rightarrow> apply_context \<Rightarrow> (uuid \<times> apply_context) exch" where
  "next_uuid E domain cx =
     bindr (expect (checked_add u32_max (cx_next_ordinal cx) 1)) (\<lambda>n.
     Ok (uuid_of_digest (sha E (domain @ cx_tx_hash cx @ be_bytes 4 (cx_next_ordinal cx))),
         cx\<lparr>cx_next_ordinal := n\<rparr>))"

section \<open>Access to markets, accounts and books\<close>

text \<open>
  \<open>get(..).ok_or_else(..)\<close> on the three maps, and the write through \<open>get_mut\<close>. An index expression
  \<open>state.books[symbol]\<close> panics on a missing key.
\<close>

definition get_market :: "'l engine_state \<Rightarrow> symbol \<Rightarrow> market_state exch" where
  "get_market s symb = ok_or (MarketNotFound symb) (om_get (es_markets s) symb)"

definition get_account :: "'l engine_state \<Rightarrow> account_id \<Rightarrow> account exch" where
  "get_account s aid = ok_or (AccountNotFound aid) (om_get (es_accounts s) aid)"

definition put_account :: "account_id \<Rightarrow> account \<Rightarrow> 'l engine_state \<Rightarrow> 'l engine_state" where
  "put_account aid a s = s\<lparr>es_accounts := om_insert aid a (es_accounts s)\<rparr>"

definition put_market :: "symbol \<Rightarrow> market_state \<Rightarrow> 'l engine_state \<Rightarrow> 'l engine_state" where
  "put_market symb m s = s\<lparr>es_markets := om_insert symb m (es_markets s)\<rparr>"

definition put_book :: "symbol \<Rightarrow> order_book \<Rightarrow> 'l engine_state \<Rightarrow> 'l engine_state" where
  "put_book symb bk s = s\<lparr>es_books := om_insert symb bk (es_books s)\<rparr>"

definition arithmetic_overflow :: "string \<Rightarrow> exchange_error" where
  "arithmetic_overflow field = InvalidOrder (''numeric overflow while updating '' @ field)"

text \<open>A checked operation on decimals whose \<open>None\<close> is reported as overflow of a field.\<close>

definition d_ok :: "string \<Rightarrow> 'a option \<Rightarrow> 'a exch" where
  "d_ok field x = ok_or (arithmetic_overflow field) x"

definition available_margin :: "engine_env \<Rightarrow> 'l engine_state \<Rightarrow> account_id \<Rightarrow> decimal exch" where
  "available_margin E s aid =
     bindr (get_account s aid) (\<lambda>a.
     bindr (risk_snapshot (en_dec E) a (es_markets s)) (\<lambda>r. Ok (rs_available_margin r)))"

definition ensure_account_has_nonnegative_available_margin ::
  "engine_env \<Rightarrow> 'l engine_state \<Rightarrow> account_id \<Rightarrow> unit exch" where
  "ensure_account_has_nonnegative_available_margin E s aid =
     bindr (available_margin E s aid) (\<lambda>available.
     check (0 \<le> available) (InsufficientMargin 0 available))"

definition client_key :: "account_id \<Rightarrow> string \<Rightarrow> string" where
  "client_key aid client_order_id = aid @ '':'' @ client_order_id"

definition remove_order_indices :: "order \<Rightarrow> 'l engine_state \<Rightarrow> 'l engine_state" where
  "remove_order_indices ord s =
     (let s = s\<lparr>es_order_market := om_remove (ord_id ord) (es_order_market s)\<rparr>;
          key = client_key (ord_account_id ord) (ord_client_order_id ord) in
      if om_get (es_client_order_ids s) key = Some (ord_id ord)
      then s\<lparr>es_client_order_ids := om_remove key (es_client_order_ids s)\<rparr> else s)"

end
