(* ===== verification/Engine_Audit.thy ===== *)
theory Engine_Audit
  imports Engine_State
begin

text \<open>
  The self-audit of the state and the pruning of its history (\<open>engine.rs\<close>). The audit recomputes the
  reservations, the open interest, the funding pool and the conservation of assets from the accounts,
  the books and the escrows. The collateral inside the shielded ledger is a function of the ledger,
  the parameter \<open>coll\<close>. Where the source formats a decimal into a message the message here ends.
\<close>

record audit_report =
  ar_healthy :: bool
  ar_event_chain_valid :: bool
  ar_reservations_consistent :: bool
  ar_open_interest_balanced :: bool
  ar_total_credits :: decimal
  ar_account_equity :: decimal
  ar_shielded_collateral :: decimal
  ar_fee_vault :: decimal
  ar_insurance_fund :: decimal
  ar_funding_pool :: decimal
  ar_funding_pool_balanced :: bool
  ar_conservation_difference :: decimal
  ar_errors :: "string list"

definition sum_reserved :: "dec_ops \<Rightarrow> order list \<Rightarrow> decimal \<Rightarrow> decimal option" where
  "sum_reserved D = try_fold (\<lambda>ord total. d_add D total (ord_reserved_margin ord))"

definition batch_orders :: "private_batch_snapshot \<Rightarrow> order list" where
  "batch_orders batch = concat (map pm_public_orders (om_values (pb_markets batch)))"

definition live_reservation :: "dec_ops \<Rightarrow> 'l engine_state \<Rightarrow> account_id \<Rightarrow> decimal option" where
  "live_reservation D s aid =
     try_fold (\<lambda>(symb, bk) all_books.
       Option.bind (sum_reserved D (active_orders_for_account_symbol bk aid symb) 0)
         (\<lambda>book_total. d_add D all_books book_total)) (om_entries (es_books s)) 0"

definition checked_book_reservation :: "dec_ops \<Rightarrow> 'l engine_state \<Rightarrow> account_id \<Rightarrow> decimal option" where
  "checked_book_reservation D s aid =
     Option.bind (live_reservation D s aid) (\<lambda>live_total.
     Option.bind (try_fold (\<lambda>batch all_batches.
         sum_reserved D (filter (\<lambda>ord. ord_account_id ord = aid) (batch_orders batch)) all_batches)
       (om_values (es_batch_snapshots s)) live_total) (\<lambda>escrow_total.
     try_fold (\<lambda>bond total. d_add D total bond)
       (List.map_filter (\<lambda>batch. om_get batch aid) (om_values (es_bonds s))) escrow_total))"

definition equity_step ::
  "dec_ops \<Rightarrow> account \<Rightarrow> symbol \<times> market_state \<Rightarrow> decimal \<Rightarrow> decimal option" where
  "equity_step D a = (\<lambda>(symb, m) total.
     case om_get (acct_positions a) symb of
       None \<Rightarrow> Some total
     | Some p \<Rightarrow>
        Option.bind (d_sub D (ms_mark_price m) (pos_entry_price p)) (\<lambda>price_change.
        Option.bind (d_mul D (pos_quantity p) price_change) (\<lambda>position_pnl.
        Option.bind (d_sub D (ms_funding_index m) (pos_funding_index p)) (\<lambda>index_delta.
        Option.bind (d_mul D (pos_quantity p) index_delta) (\<lambda>pending.
        Option.bind (d_add D total position_pnl) (\<lambda>t. d_sub D t pending))))))"

definition checked_account_equity :: "dec_ops \<Rightarrow> 'l engine_state \<Rightarrow> account \<Rightarrow> decimal option" where
  "checked_account_equity D s a =
     Option.bind (try_fold (equity_step D a) (om_entries (es_markets s)) 0) (\<lambda>u.
     d_add D (acct_collateral a) u)"

section \<open>Reservations and open interest\<close>

text \<open>The first loop: whether the reservations and the numbers are consistent, and the errors.\<close>

definition audit_reservation ::
  "dec_ops \<Rightarrow> 'l engine_state \<Rightarrow> bool \<times> bool \<times> string list \<Rightarrow> account \<Rightarrow> bool \<times> bool \<times> string list" where
  "audit_reservation D s = (\<lambda>(reservations, numeric, errors) a.
     case checked_book_reservation D s (acct_id a) of
       None \<Rightarrow> (False, False, errors @ [''numeric overflow while auditing reservations for '' @ acct_id a])
     | Some book_reservation \<Rightarrow>
         if book_reservation \<noteq> acct_reserved_margin a
         then (False, numeric, errors @ [''reservation mismatch for '' @ acct_id a])
         else (reservations, numeric, errors))"

text \<open>One position added to the net position of its symbol; an overflow leaves the total.\<close>

definition add_net_position ::
  "dec_ops \<Rightarrow> (symbol, decimal) omap \<times> bool \<times> string list \<Rightarrow> symbol \<times> position \<Rightarrow>
   (symbol, decimal) omap \<times> bool \<times> string list" where
  "add_net_position D = (\<lambda>(net, valid, errors) (symb, p).
     let total = (case om_get net symb of Some t \<Rightarrow> t | None \<Rightarrow> 0) in
     case d_add D total (pos_quantity p) of
       Some t \<Rightarrow> (om_insert symb t net, valid, errors)
     | None \<Rightarrow> (om_insert symb total net, False,
         errors @ [''numeric overflow while auditing net position for '' @ symb]))"

definition net_positions ::
  "dec_ops \<Rightarrow> 'l engine_state \<Rightarrow> string list \<Rightarrow> (symbol, decimal) omap \<times> bool \<times> string list" where
  "net_positions D s errors =
     foldl (add_net_position D) ([], True, errors)
       (concat (map (\<lambda>a. om_entries (acct_positions a)) (om_values (es_accounts s))))"

section \<open>Funding and conservation\<close>

definition pending_payment ::
  "dec_ops \<Rightarrow> 'l engine_state \<Rightarrow> symbol \<times> position \<Rightarrow> decimal \<Rightarrow> decimal option" where
  "pending_payment D s = (\<lambda>(symb, p) total.
     Option.bind (om_get (es_markets s) symb) (\<lambda>m.
     Option.bind (d_sub D (ms_funding_index m) (pos_funding_index p)) (\<lambda>index_delta.
     Option.bind (d_mul D (pos_quantity p) index_delta) (\<lambda>payment. d_add D total payment))))"

definition pending_funding :: "dec_ops \<Rightarrow> 'l engine_state \<Rightarrow> decimal option" where
  "pending_funding D s =
     try_fold (\<lambda>a. try_fold (pending_payment D s) (om_entries (acct_positions a)))
       (om_values (es_accounts s)) 0"

definition total_equity :: "dec_ops \<Rightarrow> 'l engine_state \<Rightarrow> decimal option" where
  "total_equity D s =
     try_fold (\<lambda>a total. Option.bind (checked_account_equity D s a) (\<lambda>equity. d_add D total equity))
       (om_values (es_accounts s)) 0"

text \<open>
  \<open>i128::try_from\<close> fails from \<open>2 ^ 127\<close> on, and \<open>Decimal::from_i128_with_scale\<close> panics on a value
  that needs more than 96 bits.
\<close>

definition ledger_collateral :: "('l \<Rightarrow> nat) \<Rightarrow> 'l engine_state \<Rightarrow> (exchange_error, decimal option) res" where
  "ledger_collateral coll s =
     (case es_shielded_ledger s of
        None \<Rightarrow> Ok (Some 0)
      | Some ledger \<Rightarrow>
          if 2 ^ 127 \<le> coll ledger then Ok None
          else if 2 ^ 96 \<le> coll ledger then Panic
          else Ok (Some (of_nat (coll ledger) / 10 ^ 8)))"

definition audit_tolerance :: decimal where
  "audit_tolerance = 1 / 100000000"

definition within_tolerance :: "decimal option \<Rightarrow> bool" where
  "within_tolerance d = (case d of None \<Rightarrow> False | Some x \<Rightarrow> - audit_tolerance \<le> x \<and> x \<le> audit_tolerance)"

definition conservation_gap :: "dec_ops \<Rightarrow> 'l engine_state \<Rightarrow> decimal option \<Rightarrow> decimal option \<Rightarrow> decimal option" where
  "conservation_gap D s account_equity collateral =
     Option.bind account_equity (\<lambda>equity.
     Option.bind collateral (\<lambda>c.
     Option.bind (d_add D equity c) (\<lambda>x.
     Option.bind (d_add D x (es_fee_vault s)) (\<lambda>x.
     Option.bind (d_add D x (es_insurance_fund s)) (\<lambda>x.
     d_sub D x (es_total_credits s))))))"

definition remark :: "bool \<Rightarrow> string \<Rightarrow> string list" where
  "remark b message = (if b then [message] else [])"

definition audit_state :: "engine_env \<Rightarrow> ('l \<Rightarrow> nat) \<Rightarrow> 'l engine_state \<Rightarrow> audit_report exch" where
  "audit_state E coll s =
     (let D = en_dec E;
          chain_valid = verify (en_crypto E) (es_event_log s);
          (reservations, numeric, errors) =
            foldl (audit_reservation D s) (True, True, []) (om_values (es_accounts s));
          (net, arithmetic_valid, errors) = net_positions D s errors;
          balanced = (arithmetic_valid \<and> (\<forall>q \<in> set (om_values net). q = 0));
          errors = errors @ map (\<lambda>(symb, q). ''net position for '' @ symb) (filter (\<lambda>(symb, q). q \<noteq> 0) net);
          pool_difference = Option.bind (pending_funding D s) (\<lambda>pending. d_add D (es_funding_pool s) pending);
          pool_balanced = within_tolerance pool_difference;
          errors = errors
            @ remark (pool_difference = None) ''numeric overflow while auditing the funding settlement pool''
            @ remark (pool_difference \<noteq> None \<and> \<not> pool_balanced)
                ''funding settlement pool plus pending payments is out of tolerance'';
          equity = total_equity D s;
          errors = errors @ remark (equity = None) ''numeric overflow while auditing account equity'' in
      bindr (ledger_collateral coll s) (\<lambda>collateral.
      let errors = errors @ remark (collateral = None) ''shielded collateral exceeds Decimal range'';
          gap = conservation_gap D s equity collateral;
          conserved = within_tolerance gap;
          errors = errors
            @ remark (gap = None) ''numeric overflow while auditing asset conservation''
            @ remark (gap \<noteq> None \<and> \<not> conserved) ''asset conservation difference is out of tolerance''
            @ remark (\<not> chain_valid) ''event hash chain is invalid'';
          numeric = (numeric \<and> arithmetic_valid \<and> pool_difference \<noteq> None \<and> equity \<noteq> None
            \<and> collateral \<noteq> None \<and> gap \<noteq> None) in
      Ok \<lparr>ar_healthy = (numeric \<and> chain_valid \<and> reservations \<and> balanced \<and> pool_balanced \<and> conserved),
          ar_event_chain_valid = chain_valid, ar_reservations_consistent = reservations,
          ar_open_interest_balanced = balanced, ar_total_credits = es_total_credits s,
          ar_account_equity = unwrap_or 0 equity, ar_shielded_collateral = unwrap_or 0 collateral,
          ar_fee_vault = es_fee_vault s, ar_insurance_fund = es_insurance_fund s,
          ar_funding_pool = es_funding_pool s, ar_funding_pool_balanced = pool_balanced,
          ar_conservation_difference = unwrap_or 0 gap, ar_errors = errors\<rparr>))"

section \<open>Pruning\<close>

text \<open>Remove the terminal orders of every book with their indices, and the oldest events.\<close>

definition take_terminal_of :: "symbol \<Rightarrow> order list \<times> 'l engine_state \<Rightarrow> (order list \<times> 'l engine_state) exch" where
  "take_terminal_of symb = (\<lambda>(terminal, s).
     bindr (expect (om_get (es_books s) symb)) (\<lambda>bk.
     let (orders, bk) = take_terminal_orders bk in
     Ok (terminal @ orders, put_book symb bk s)))"

definition prune_consensus_history :: "'l engine_state \<Rightarrow> 'l engine_state exch" where
  "prune_consensus_history s =
     bindr (foldr_res take_terminal_of (om_keys (es_books s)) ([], s)) (\<lambda>(terminal, s).
     let s = fold remove_order_indices terminal s in
     Ok (s\<lparr>es_event_log := prune (es_event_log s)\<rparr>))"

end
