(* ===== verification/Engine_Accounts.thy ===== *)
theory Engine_Accounts
  imports Engine_State
begin

text \<open>
  The changes of account balances (\<open>engine.rs\<close>): credits, funding, margin reservations and fills, and
  the cancellations that release margin: on request, after a change of the mark price, and of
  reduce-only orders that exceed the position.
\<close>

section \<open>Credits and funding\<close>

definition credit_account_state ::
  "engine_env \<Rightarrow> account_id \<Rightarrow> decimal \<Rightarrow> 'l engine_state \<Rightarrow> (account \<times> 'l engine_state) exch" where
  "credit_account_state E aid amount s =
     (if amount \<le> 0 then Err (InvalidOrder ''credit amount must be positive'')
      else
        (let previous = (case om_get (es_accounts s) aid of Some a \<Rightarrow> acct_collateral a | None \<Rightarrow> 0) in
         bindr (d_ok ''account collateral'' (d_add (en_dec E) previous amount)) (\<lambda>collateral.
         bindr (d_ok ''total credits'' (d_add (en_dec E) (es_total_credits s) amount)) (\<lambda>total.
         let a = (case om_get (es_accounts s) aid of Some a \<Rightarrow> a | None \<Rightarrow> new_account aid)
                   \<lparr>acct_collateral := collateral\<rparr>;
             s = (put_account aid a s)\<lparr>es_total_credits := total\<rparr> in
         bindr (append_event E (AccountCredited aid amount) s) (\<lambda>s. Ok (a, s))))))"

definition apply_funding_state ::
  "engine_env \<Rightarrow> symbol \<Rightarrow> decimal \<Rightarrow> 'l engine_state \<Rightarrow> ((decimal \<times> decimal) \<times> 'l engine_state) exch" where
  "apply_funding_state E symb rate s =
     (if rate < - (1 / 100) \<or> 1 / 100 < rate
      then Err (InvalidOrder ''absolute funding rate cannot exceed 1% per interval'')
      else
        bindr (get_market s symb) (\<lambda>m.
        bindr (d_ok ''funding index delta'' (d_mul (en_dec E) (ms_mark_price m) rate)) (\<lambda>delta.
        bindr (d_ok ''funding index'' (d_add (en_dec E) (ms_funding_index m) delta)) (\<lambda>index.
        let s = put_market symb (m\<lparr>ms_funding_index := index, ms_funding_rate := rate\<rparr>) s in
        bindr (append_event E (FundingApplied symb rate index (es_funding_pool s)) s) (\<lambda>s.
        Ok ((index, es_funding_pool s), s))))))"

definition settle_account_funding ::
  "engine_env \<Rightarrow> account_id \<Rightarrow> symbol \<Rightarrow> 'l engine_state \<Rightarrow> (decimal \<times> 'l engine_state) exch" where
  "settle_account_funding E aid symb s =
     bindr (get_market s symb) (\<lambda>m.
     bindr (get_account s aid) (\<lambda>a.
     case om_get (acct_positions a) symb of
       None \<Rightarrow> Ok (0, s)
     | Some p \<Rightarrow>
        bindr (d_ok ''funding index difference''
          (d_sub (en_dec E) (ms_funding_index m) (pos_funding_index p))) (\<lambda>difference.
        bindr (d_ok ''lazy funding payment'' (d_mul (en_dec E) (pos_quantity p) difference)) (\<lambda>payment.
        bindr (d_ok ''funding collateral'' (d_sub (en_dec E) (acct_collateral a) payment)) (\<lambda>collateral.
        bindr (d_ok ''position funding PnL'' (d_sub (en_dec E) (pos_funding_pnl p) payment)) (\<lambda>pnl.
        bindr (d_ok ''funding settlement pool'' (d_add (en_dec E) (es_funding_pool s) payment)) (\<lambda>pool.
        let p = p\<lparr>pos_funding_pnl := pnl, pos_funding_index := ms_funding_index m\<rparr>;
            a = a\<lparr>acct_collateral := collateral, acct_positions := om_insert symb p (acct_positions a)\<rparr> in
        Ok (payment, (put_account aid a s)\<lparr>es_funding_pool := pool\<rparr>))))))))"

section \<open>Reservations and fills\<close>

definition reserve_margin ::
  "engine_env \<Rightarrow> string \<Rightarrow> account_id \<Rightarrow> decimal \<Rightarrow> 'l engine_state \<Rightarrow> 'l engine_state exch" where
  "reserve_margin E field aid amount s =
     bindr (expect (om_get (es_accounts s) aid)) (\<lambda>a.
     bindr (d_ok field (d_add (en_dec E) (acct_reserved_margin a) amount)) (\<lambda>reserved.
     Ok (put_account aid (a\<lparr>acct_reserved_margin := reserved\<rparr>) s)))"

definition release_margin ::
  "engine_env \<Rightarrow> account_id \<Rightarrow> decimal \<Rightarrow> 'l engine_state \<Rightarrow> 'l engine_state exch" where
  "release_margin E aid amount s =
     (if amount = 0 then Ok s
      else bindr (get_account s aid) (\<lambda>a.
        if acct_reserved_margin a < amount then Err (Internal ''reservation underflow'')
        else bindr (expect (d_sub (en_dec E) (acct_reserved_margin a) amount)) (\<lambda>reserved.
          Ok (put_account aid (a\<lparr>acct_reserved_margin := reserved\<rparr>) s))))"

definition fee_of :: "engine_env \<Rightarrow> decimal \<Rightarrow> decimal \<Rightarrow> decimal \<Rightarrow> decimal option" where
  "fee_of E quantity price rate =
     Option.bind (d_mul (en_dec E) quantity price) (\<lambda>notional. d_mul (en_dec E) notional rate)"

text \<open>The block of \<open>apply_fill_to_account\<close> that updates the position and the balance.\<close>

definition fill_account ::
  "engine_env \<Rightarrow> symbol \<Rightarrow> side \<Rightarrow> decimal \<Rightarrow> decimal \<Rightarrow> nat \<Rightarrow> decimal \<Rightarrow> decimal \<Rightarrow> account \<Rightarrow> account exch" where
  "fill_account E symb side quantity price leverage fee index a =
     (let p = (case om_get (acct_positions a) symb of Some p \<Rightarrow> p | None \<Rightarrow> default_position)
                \<lparr>pos_funding_index := index\<rparr> in
      bindr (apply_fill (en_dec E) p side quantity price leverage) (\<lambda>(p, realized).
      bindr (d_ok ''account collateral after fill''
        (Option.bind (d_add (en_dec E) (acct_collateral a) realized) (\<lambda>c. d_sub (en_dec E) c fee))) (\<lambda>collateral.
      bindr (d_ok ''account fees'' (d_add (en_dec E) (acct_fees_paid a) fee)) (\<lambda>fees.
      Ok (a\<lparr>acct_positions := om_insert symb p (acct_positions a), acct_collateral := collateral,
            acct_fees_paid := fees\<rparr>)))))"

definition apply_fill_to_account ::
  "engine_env \<Rightarrow> account_id \<Rightarrow> symbol \<Rightarrow> side \<Rightarrow> decimal \<Rightarrow> decimal \<Rightarrow> nat \<Rightarrow> decimal \<Rightarrow>
   'l engine_state \<Rightarrow> 'l engine_state exch" where
  "apply_fill_to_account E aid symb side quantity price leverage fee_rate s =
     bindr (settle_account_funding E aid symb s) (\<lambda>(payment, s).
     bindr (d_ok ''trade fee'' (fee_of E quantity price fee_rate)) (\<lambda>fee.
     bindr (get_market s symb) (\<lambda>m.
     bindr (get_account s aid) (\<lambda>a.
     bindr (fill_account E symb side quantity price leverage fee (ms_funding_index m) a) (\<lambda>a.
     bindr (d_ok ''fee vault'' (d_add (en_dec E) (es_fee_vault s) fee)) (\<lambda>vault.
     Ok ((put_account aid a s)\<lparr>es_fee_vault := vault\<rparr>)))))))"

section \<open>Cancellations\<close>

text \<open>
  Cancel in the book of the market, release the margin, drop the indices, log: the four steps that
  the user's cancellation, the mark-price revalidation and the reduce-only reconciliation share.
\<close>

definition cancel_resting ::
  "engine_env \<Rightarrow> symbol \<Rightarrow> uuid \<Rightarrow> account_id \<Rightarrow> string \<Rightarrow> 'l engine_state \<Rightarrow> (order \<times> 'l engine_state) exch" where
  "cancel_resting E symb oid aid reason s =
     bindr (expect (om_get (es_books s) symb)) (\<lambda>bk.
     bindr (cancel oid aid bk) (\<lambda>(cancelled, bk).
     bindr (release_margin E (ord_account_id cancelled) (ord_reserved_margin cancelled) (put_book symb bk s)) (\<lambda>s.
     bindr (append_event E (OrderCancelled oid aid reason) (remove_order_indices cancelled s)) (\<lambda>s.
     Ok (cancelled, s)))))"

definition cancel_all ::
  "engine_env \<Rightarrow> symbol \<Rightarrow> string \<Rightarrow> (uuid \<times> account_id) list \<Rightarrow> 'l engine_state \<Rightarrow> 'l engine_state exch" where
  "cancel_all E symb reason = foldr_res (\<lambda>(oid, aid) s.
     bindr (cancel_resting E symb oid aid reason s) (\<lambda>(c, s). Ok s))"

fun locked_in :: "uuid \<Rightarrow> account_id \<Rightarrow> order list \<Rightarrow> unit exch" where
  "locked_in oid aid [] = Ok ()"
| "locked_in oid aid (ord # ords) =
     (if ord_id ord \<noteq> oid then locked_in oid aid ords
      else if ord_account_id ord \<noteq> aid then Err (OrderOwnership oid)
      else Err (InvalidOrder ''order is locked in private batch''))"

definition frozen_orders :: "'l engine_state \<Rightarrow> order list" where
  "frozen_orders s = concat (map (\<lambda>batch. concat (map pm_public_orders (om_values (pb_markets batch))))
     (om_values (es_batch_snapshots s)))"

definition reject_locked_order_cancellation :: "'l engine_state \<Rightarrow> uuid \<Rightarrow> account_id \<Rightarrow> unit exch" where
  "reject_locked_order_cancellation s oid aid = locked_in oid aid (frozen_orders s)"

definition cancel_order ::
  "engine_env \<Rightarrow> account_id \<Rightarrow> uuid \<Rightarrow> 'l engine_state \<Rightarrow> (order \<times> 'l engine_state) exch" where
  "cancel_order E aid oid s =
     bindr (reject_locked_order_cancellation s oid aid) (\<lambda>_.
     bindr (ok_or (OrderNotFound oid) (om_get (es_order_market s) oid)) (\<lambda>symb.
     bindr (cancel_resting E symb oid aid ''user_request'' s) (\<lambda>(cancelled, s).
     Ok (cancelled\<lparr>ord_reserved_margin := 0\<rparr>, s))))"

text \<open>The reduce-only orders that no longer fit the position, oldest first.\<close>

fun excess_reduce_only ::
  "dec_ops \<Rightarrow> side option \<Rightarrow> decimal \<Rightarrow> order list \<Rightarrow> uuid list exch" where
  "excess_reduce_only D required_side remaining_position [] = Ok []"
| "excess_reduce_only D required_side remaining_position (ord # ords) =
     (if Some (ord_side ord) \<noteq> required_side \<or> remaining_position < ord_remaining ord
      then bindr (excess_reduce_only D required_side remaining_position ords) (\<lambda>ids. Ok (ord_id ord # ids))
      else bindr (expect (d_sub D remaining_position (ord_remaining ord))) (\<lambda>rest.
        excess_reduce_only D required_side rest ords))"

definition position_quantity :: "'l engine_state \<Rightarrow> account_id \<Rightarrow> symbol \<Rightarrow> decimal" where
  "position_quantity s aid symb =
     (case om_get (es_accounts s) aid of None \<Rightarrow> 0
      | Some a \<Rightarrow> (case om_get (acct_positions a) symb of None \<Rightarrow> 0 | Some p \<Rightarrow> pos_quantity p))"

definition reconcile_reduce_only_orders ::
  "engine_env \<Rightarrow> account_id \<Rightarrow> symbol \<Rightarrow> 'l engine_state \<Rightarrow> 'l engine_state exch" where
  "reconcile_reduce_only_orders E aid symb s =
     (let q = position_quantity s aid symb;
          required_side = (if 0 < q then Some Sell else if q < 0 then Some Buy else None) in
      bindr (expect (om_get (es_books s) symb)) (\<lambda>bk.
      bindr (excess_reduce_only (en_dec E) required_side \<bar>q\<bar>
        (filter ord_reduce_only (active_orders_for_account_symbol bk aid symb))) (\<lambda>ids.
      cancel_all E symb ''reduce_only_reconciliation'' (map (\<lambda>oid. (oid, aid)) ids) s)))"

end
