(* ===== verification/Engine_Orders.thy ===== *)
theory Engine_Orders
  imports Engine_Accounts
begin

text \<open>
  Order entry (\<open>engine.rs\<close>): the mark-price band, the validation of a request, the margin it reserves,
  its execution against the book, and the settlement of the fills.
\<close>

section \<open>Text\<close>

text \<open>
  \<open>str::trim\<close> removes the characters with the Unicode property \<open>White_Space\<close>. \<open>blank\<close> decides
  on the UTF-8 bytes whether nothing is left.
\<close>

fun blank_bytes :: "nat list \<Rightarrow> bool" where
  "blank_bytes [] = True"
| "blank_bytes (b # bs) =
     (if b \<in> {9, 10, 11, 12, 13, 32} then blank_bytes bs
      else case bs of
        [] \<Rightarrow> False
      | c # cs \<Rightarrow>
          if b = 0xC2 \<and> c \<in> {0x85, 0xA0} then blank_bytes cs
          else (case cs of
            [] \<Rightarrow> False
          | d # ds \<Rightarrow>
              if (b = 0xE1 \<and> c = 0x9A \<and> d = 0x80) \<or>
                 (b = 0xE2 \<and> c = 0x80 \<and> (0x80 \<le> d \<and> d \<le> 0x8A \<or> d \<in> {0xA8, 0xA9, 0xAF})) \<or>
                 (b = 0xE2 \<and> c = 0x81 \<and> d = 0x9F) \<or>
                 (b = 0xE3 \<and> c = 0x80 \<and> d = 0x80)
              then blank_bytes ds else False))"

definition blank :: "string \<Rightarrow> bool" where
  "blank s = blank_bytes (ascii s)"

text \<open>\<open>to_string\<close> of an unsigned number.\<close>

fun digits :: "nat \<Rightarrow> string" where
  "digits n = (if n < 10 then [char_of (48 + n)] else digits (n div 10) @ [char_of (48 + n mod 10)])"

declare digits.simps [simp del]

section \<open>The mark-price band and the reservation\<close>

definition mark_price_band :: "dec_ops \<Rightarrow> market_state \<Rightarrow> (decimal \<times> decimal) exch" where
  "mark_price_band D m =
     (let deviation = mc_market_slippage_limit (ms_config m) in
      if deviation < 0 \<or> 1 \<le> deviation then Err (Internal ''market has an invalid price-band deviation'')
      else
        bindr (d_ok ''lower mark-price band''
          (Option.bind (d_sub D 1 deviation) (d_mul D (ms_mark_price m)))) (\<lambda>lower.
        bindr (d_ok ''upper mark-price band''
          (Option.bind (d_add D 1 deviation) (d_mul D (ms_mark_price m)))) (\<lambda>upper.
        Ok (lower, upper))))"

definition validate_price_in_mark_band :: "dec_ops \<Rightarrow> decimal \<Rightarrow> market_state \<Rightarrow> unit exch" where
  "validate_price_in_mark_band D price m =
     bindr (mark_price_band D m) (\<lambda>(lower, upper).
     check (lower \<le> price \<and> price \<le> upper) (InvalidOrder ''limit price is outside the mark-price band''))"

text \<open>One frozen batch: its reference price bounds the new mark price.\<close>

definition validate_frozen_band ::
  "dec_ops \<Rightarrow> symbol \<Rightarrow> decimal \<Rightarrow> decimal \<Rightarrow> private_batch_snapshot \<Rightarrow> unit exch" where
  "validate_frozen_band D symb deviation mark_price snapshot =
     (case om_get (pb_markets snapshot) symb of
        None \<Rightarrow> Ok ()
      | Some frozen \<Rightarrow>
          bindr (d_ok ''frozen batch lower mark-price band''
            (Option.bind (d_sub D 1 deviation) (d_mul D (pm_reference_price frozen)))) (\<lambda>lower.
          bindr (d_ok ''frozen batch upper mark-price band''
            (Option.bind (d_add D 1 deviation) (d_mul D (pm_reference_price frozen)))) (\<lambda>upper.
          check (lower \<le> mark_price \<and> mark_price \<le> upper)
            (InvalidOrder ''mark price is outside private batch frozen band''))))"

definition validate_mark_price_for_frozen_batches ::
  "dec_ops \<Rightarrow> 'l engine_state \<Rightarrow> symbol \<Rightarrow> decimal \<Rightarrow> unit exch" where
  "validate_mark_price_for_frozen_batches D s symb mark_price =
     bindr (get_market s symb) (\<lambda>m.
     foldr_res (\<lambda>snapshot _.
         validate_frozen_band D symb (mc_market_slippage_limit (ms_config m)) mark_price snapshot)
       (om_values (es_batch_snapshots s)) ())"

fun adverse_price_move :: "dec_ops \<Rightarrow> side \<Rightarrow> decimal \<Rightarrow> decimal \<Rightarrow> decimal exch" where
  "adverse_price_move D Buy limit_price mark =
     (if mark < limit_price then d_ok ''buy adverse price move'' (d_sub D limit_price mark) else Ok 0)"
| "adverse_price_move D Sell limit_price mark =
     (if limit_price < mark then d_ok ''sell adverse price move'' (d_sub D mark limit_price) else Ok 0)"

definition required_order_reservation ::
  "dec_ops \<Rightarrow> side \<Rightarrow> decimal \<Rightarrow> decimal \<Rightarrow> nat \<Rightarrow> bool \<Rightarrow> market_state \<Rightarrow> decimal exch" where
  "required_order_reservation D side quantity limit_price leverage reduce_only m =
     bindr (d_ok ''order reservation notional'' (d_mul D quantity limit_price)) (\<lambda>notional.
     bindr (if reduce_only then Ok 0
            else d_ok ''order initial margin'' (d_div D notional (of_nat leverage))) (\<lambda>opening_margin.
     bindr (d_ok ''order fee buffer'' (d_mul D notional (mc_taker_fee_rate (ms_config m)))) (\<lambda>fee_buffer.
     bindr (adverse_price_move D side limit_price (ms_mark_price m)) (\<lambda>move.
     bindr (d_ok ''adverse fill loss'' (d_mul D quantity move)) (\<lambda>loss.
     d_ok ''order margin reservation''
       (Option.bind (d_add D opening_margin fee_buffer) (\<lambda>r. d_add D r loss)))))))"

definition effective_limit_price :: "dec_ops \<Rightarrow> new_order \<Rightarrow> market_state \<Rightarrow> decimal exch" where
  "effective_limit_price D request m =
     (case oi_kind (no_intent request) of
        Limit \<Rightarrow> expect (oi_price (no_intent request))
      | Market \<Rightarrow>
          bindr (mark_price_band D m) (\<lambda>(lower, upper).
          Ok (case oi_side (no_intent request) of Buy \<Rightarrow> upper | Sell \<Rightarrow> lower)))"

section \<open>Validation\<close>

text \<open>\<open>a % b != 0\<close> panics on a zero divisor.\<close>

definition off_step :: "dec_ops \<Rightarrow> decimal \<Rightarrow> decimal \<Rightarrow> bool exch" where
  "off_step D a b = bindr (expect (d_rem D a b)) (\<lambda>r. Ok (r \<noteq> 0))"

definition validate_kind :: "dec_ops \<Rightarrow> order_intent \<Rightarrow> market_config \<Rightarrow> unit exch" where
  "validate_kind D intent config =
     (case oi_kind intent of
        Limit \<Rightarrow>
          bindr (ok_or (InvalidOrder ''limit order requires a price'') (oi_price intent)) (\<lambda>price.
          bindr (if price \<le> 0 then Ok True else off_step D price (mc_tick_size config)) (\<lambda>bad.
          check (\<not> bad) (InvalidOrder ''price must be positive and a multiple of the tick size'')))
      | Market \<Rightarrow>
          if oi_price intent \<noteq> None then Err (InvalidOrder ''market order must not include a price'')
          else if oi_time_in_force intent = Gtc
          then Err (InvalidOrder ''market order requires ioc or fok time_in_force'')
          else Ok ())"

definition validate_reduce_only ::
  "engine_env \<Rightarrow> 'l engine_state \<Rightarrow> account_id \<Rightarrow> order_intent \<Rightarrow> unit exch" where
  "validate_reduce_only E s aid intent =
     bindr (expect (om_get (es_accounts s) aid)) (\<lambda>a.
     bindr (ok_or (InvalidOrder ''reduce-only order requires an open position'')
       (om_get (acct_positions a) (oi_symbol intent))) (\<lambda>p.
     bindr (check (pos_quantity p \<noteq> 0 \<and> oi_side intent = (if 0 < pos_quantity p then Sell else Buy))
       (InvalidOrder ''reduce-only side must oppose the open position'')) (\<lambda>_.
     bindr (expect (om_get (es_books s) (oi_symbol intent))) (\<lambda>bk.
     bindr (active_reduce_only_quantity (en_dec E) bk aid (oi_symbol intent) (oi_side intent)) (\<lambda>reserved.
     bindr (d_ok ''reduce-only quantity'' (d_add (en_dec E) (oi_quantity intent) reserved)) (\<lambda>total.
     check (total \<le> \<bar>pos_quantity p\<bar>) (InvalidOrder ''reduce-only orders exceed the open position'')))))))"

definition validate_order ::
  "engine_env \<Rightarrow> 'l engine_state \<Rightarrow> new_order \<Rightarrow> market_state \<Rightarrow> unit exch" where
  "validate_order E s request m =
     (let intent = no_intent request; config = ms_config m in
      bindr (get_account s (no_account_id request)) (\<lambda>_.
      if blank (oi_client_order_id intent) \<or> 64 < length (oi_client_order_id intent)
      then Err (InvalidOrder ''client_order_id must contain 1-64 characters'')
      else
        bindr (if oi_quantity intent < mc_min_quantity config then Ok True
               else off_step (en_dec E) (oi_quantity intent) (mc_quantity_step config)) (\<lambda>bad.
        bindr (check (\<not> bad) (InvalidOrder ''quantity must be at least the minimum and a multiple of the step'')) (\<lambda>_.
        if oi_leverage intent = 0 \<or> mc_max_leverage config < oi_leverage intent
        then Err (InvalidOrder ''leverage must be between 1 and the maximum'')
        else
          bindr (validate_kind (en_dec E) intent config) (\<lambda>_.
          if ms_mark_price m \<le> 0 then Err (InvalidOrder ''market mark price is unavailable'')
          else
            bindr (case oi_kind intent of
                Limit \<Rightarrow> bindr (expect (oi_price intent)) (\<lambda>price. validate_price_in_mark_band (en_dec E) price m)
              | Market \<Rightarrow> Ok ()) (\<lambda>_.
            if oi_reduce_only intent then validate_reduce_only E s (no_account_id request) intent
            else Ok ()))))))"

section \<open>Settlement of an execution\<close>

definition release_step ::
  "engine_env \<Rightarrow> reservation_release \<Rightarrow> 'l engine_state \<Rightarrow> 'l engine_state exch" where
  "release_step E r s =
     bindr (release_margin E (rr_account_id r) (rr_amount r) s) (\<lambda>s.
     append_event E (OrderCancelled (rr_order_id r) (rr_account_id r) (rr_reason r)) s)"

text \<open>One fill: release both reservations, then settle the maker and the taker.\<close>

definition settle_fill ::
  "engine_env \<Rightarrow> market_config \<Rightarrow> raw_fill \<Rightarrow> 'l engine_state \<Rightarrow> 'l engine_state exch" where
  "settle_fill E config f s =
     bindr (release_margin E (rf_maker_account_id f) (rf_maker_margin_release f) s) (\<lambda>s.
     bindr (release_margin E (rf_taker_account_id f) (rf_taker_margin_release f) s) (\<lambda>s.
     bindr (apply_fill_to_account E (rf_maker_account_id f) (mc_symbol config) (rf_maker_side f)
       (rf_quantity f) (rf_price f) (rf_maker_leverage f) (mc_maker_fee_rate config) s) (\<lambda>s.
     apply_fill_to_account E (rf_taker_account_id f) (mc_symbol config) (rf_taker_side f)
       (rf_quantity f) (rf_price f) (rf_taker_leverage f) (mc_taker_fee_rate config) s)))"

definition apply_execution ::
  "engine_env \<Rightarrow> market_state \<Rightarrow> execution \<Rightarrow> 'l engine_state \<Rightarrow> 'l engine_state exch" where
  "apply_execution E m ex s =
     bindr (foldr_res (release_step E) (ex_releases ex) (fold remove_order_indices (ex_terminal_orders ex) s)) (\<lambda>s.
     foldr_res (settle_fill E (ms_config m)) (ex_fills ex) s)"

definition trade_from_fill ::
  "dec_ops \<Rightarrow> 'l engine_state \<Rightarrow> market_state \<Rightarrow> raw_fill \<Rightarrow> uuid \<Rightarrow> trade exch" where
  "trade_from_fill D s m f trade_id =
     bindr (d_ok ''trade notional'' (d_mul D (rf_quantity f) (rf_price f))) (\<lambda>notional.
     bindr (d_ok ''maker fee'' (d_mul D notional (mc_maker_fee_rate (ms_config m)))) (\<lambda>maker_fee.
     bindr (d_ok ''taker fee'' (d_mul D notional (mc_taker_fee_rate (ms_config m)))) (\<lambda>taker_fee.
     bindr (expect (checked_add u64_max (es_sequence s) 1)) (\<lambda>sequence.
     Ok \<lparr>tr_id = trade_id, tr_symbol = mc_symbol (ms_config m), tr_price = rf_price f,
         tr_quantity = rf_quantity f, tr_maker_order_id = rf_maker_order_id f,
         tr_taker_order_id = rf_taker_order_id f, tr_maker_account_id = rf_maker_account_id f,
         tr_taker_account_id = rf_taker_account_id f, tr_taker_side = rf_taker_side f,
         tr_maker_fee = maker_fee, tr_taker_fee = taker_fee, tr_sequence = sequence\<rparr>))))"

text \<open>The loop that records the trades of an execution under fresh identifiers.\<close>

fun record_trades ::
  "engine_env \<Rightarrow> bytes \<Rightarrow> market_state \<Rightarrow> raw_fill list \<Rightarrow> apply_context \<Rightarrow> 'l engine_state \<Rightarrow>
   (trade list \<times> apply_context \<times> 'l engine_state) exch" where
  "record_trades E domain m [] cx s = Ok ([], cx, s)"
| "record_trades E domain m (f # fs) cx s =
     bindr (next_uuid E domain cx) (\<lambda>(trade_id, cx).
     bindr (trade_from_fill (en_dec E) s m f trade_id) (\<lambda>t.
     bindr (append_event E (TradeExecuted t) s) (\<lambda>s.
     bindr (record_trades E domain m fs cx s) (\<lambda>(ts, cx, s). Ok (t # ts, cx, s)))))"

definition affected_accounts :: "execution \<Rightarrow> account_id list" where
  "affected_accounts ex =
     bset (ord_account_id (ex_order ex) #
       concat (map (\<lambda>f. [rf_maker_account_id f, rf_taker_account_id f]) (ex_fills ex)))"

section \<open>Order submission\<close>

text \<open>The checks of \<open>submit_order\<close> before its first write, and the price and margin they yield.\<close>

definition admit_order ::
  "engine_env \<Rightarrow> new_order \<Rightarrow> 'l engine_state \<Rightarrow> (market_state \<times> decimal \<times> decimal) exch" where
  "admit_order E request s =
     (let intent = no_intent request; aid = no_account_id request in
      bindr (get_market s (oi_symbol intent)) (\<lambda>m.
      bindr (validate_order E s request m) (\<lambda>_.
      if om_get (es_client_order_ids s) (client_key aid (oi_client_order_id intent)) \<noteq> None
      then Err (DuplicateClientOrderId (oi_client_order_id intent))
      else
        bindr (effective_limit_price (en_dec E) request m) (\<lambda>limit_price.
        bindr (required_order_reservation (en_dec E) (oi_side intent) (oi_quantity intent) limit_price
          (oi_leverage intent) (oi_reduce_only intent) m) (\<lambda>reserve.
        bindr (expect (om_get (es_accounts s) aid)) (\<lambda>a.
        bindr (risk_snapshot (en_dec E) a (es_markets s)) (\<lambda>risk.
        bindr (check (reserve \<le> rs_available_margin risk)
          (InsufficientMargin reserve (rs_available_margin risk))) (\<lambda>_.
        bindr (if oi_time_in_force intent = Fok
          then bindr (expect (om_get (es_books s) (oi_symbol intent))) (\<lambda>bk.
            bindr (can_fully_fill (en_dec E) bk (oi_side intent) limit_price (oi_quantity intent) aid) (\<lambda>ok.
            check ok CannotFullyFill))
          else Ok ()) (\<lambda>_.
        Ok (m, limit_price, reserve))))))))))"

definition new_order_of :: "new_order \<Rightarrow> uuid \<Rightarrow> decimal \<Rightarrow> decimal \<Rightarrow> nat \<Rightarrow> order" where
  "new_order_of request oid limit_price reserve sequence =
     (let intent = no_intent request in
      \<lparr>ord_id = oid, ord_account_id = no_account_id request,
       ord_client_order_id = oi_client_order_id intent, ord_symbol = oi_symbol intent,
       ord_side = oi_side intent, ord_kind = oi_kind intent, ord_quantity = oi_quantity intent,
       ord_remaining = oi_quantity intent, ord_limit_price = limit_price,
       ord_leverage = oi_leverage intent, ord_time_in_force = oi_time_in_force intent,
       ord_reduce_only = oi_reduce_only intent, ord_reserved_margin = reserve,
       ord_sequence = sequence, ord_status = Open\<rparr>)"

definition execute_in_book ::
  "engine_env \<Rightarrow> symbol \<Rightarrow> order \<Rightarrow> 'l engine_state \<Rightarrow> (execution \<times> 'l engine_state) exch" where
  "execute_in_book E symb ord s =
     bindr (expect (om_get (es_books s) symb)) (\<lambda>bk.
     bindr (execute (en_dec E) ord bk) (\<lambda>(bk, ex). Ok (ex, put_book symb bk s)))"

text \<open>Reconcile the reduce-only orders of every affected account, then check its margin.\<close>

definition reconcile_and_check ::
  "engine_env \<Rightarrow> account_id list \<Rightarrow> symbol \<Rightarrow> 'l engine_state \<Rightarrow> 'l engine_state exch" where
  "reconcile_and_check E affected symb s =
     bindr (foldr_res (\<lambda>aid. reconcile_reduce_only_orders E aid symb) affected s) (\<lambda>s.
     bindr (foldr_res (\<lambda>aid _. ensure_account_has_nonnegative_available_margin E s aid) affected ()) (\<lambda>_.
     Ok s))"

definition accept_order ::
  "engine_env \<Rightarrow> new_order \<Rightarrow> decimal \<Rightarrow> decimal \<Rightarrow> apply_context \<Rightarrow> 'l engine_state \<Rightarrow>
   (order \<times> apply_context \<times> 'l engine_state) exch" where
  "accept_order E request limit_price reserve cx s =
     bindr (reserve_margin E ''account margin reservation'' (no_account_id request) reserve s) (\<lambda>s.
     bindr (next_sequence s) (\<lambda>(sequence, s).
     bindr (next_uuid E (ascii ''asteria/order/v1'') cx) (\<lambda>(oid, cx).
     let ord = new_order_of request oid limit_price reserve sequence;
         s = s\<lparr>es_order_market := om_insert oid (ord_symbol ord) (es_order_market s),
               es_client_order_ids := om_insert
                 (client_key (no_account_id request) (oi_client_order_id (no_intent request))) oid
                 (es_client_order_ids s)\<rparr> in
     Ok (ord, cx, append_event_at E sequence (OrderAccepted ord) s))))"

definition submit_order ::
  "engine_env \<Rightarrow> new_order \<Rightarrow> apply_context \<Rightarrow> 'l engine_state \<Rightarrow>
   (order_result \<times> apply_context \<times> 'l engine_state) exch" where
  "submit_order E request cx s =
     bindr (admit_order E request s) (\<lambda>(m, limit_price, reserve).
     bindr (accept_order E request limit_price reserve cx s) (\<lambda>(ord, cx, s).
     bindr (execute_in_book E (ord_symbol ord) ord s) (\<lambda>(ex, s).
     bindr (apply_execution E m ex s) (\<lambda>s.
     bindr (reconcile_and_check E (affected_accounts ex) (ord_symbol (ex_order ex)) s) (\<lambda>s.
     bindr (record_trades E (ascii ''asteria/trade/v1'') m (ex_fills ex) cx s) (\<lambda>(trades, cx, s).
     Ok (\<lparr>or_order = ex_order ex, or_trades = trades\<rparr>, cx, s)))))))"

section \<open>Revalidation after a change of the mark price\<close>

definition must_cancel :: "dec_ops \<Rightarrow> market_state \<Rightarrow> decimal \<Rightarrow> decimal \<Rightarrow> order \<Rightarrow> bool exch" where
  "must_cancel D m lower upper ord =
     (case required_order_reservation D (ord_side ord) (ord_remaining ord) (ord_limit_price ord)
        (ord_leverage ord) (ord_reduce_only ord) m of
        Panic \<Rightarrow> Panic
      | Err e \<Rightarrow> Ok (ord_time_in_force ord = Gtc)
      | Ok required \<Rightarrow> Ok (ord_time_in_force ord = Gtc \<and>
          (ord_limit_price ord < lower \<or> upper < ord_limit_price ord \<or> ord_reserved_margin ord < required)))"

definition revalidate_resting_orders_after_mark_change ::
  "engine_env \<Rightarrow> symbol \<Rightarrow> 'l engine_state \<Rightarrow> 'l engine_state exch" where
  "revalidate_resting_orders_after_mark_change E symb s =
     bindr (get_market s symb) (\<lambda>m.
     bindr (mark_price_band (en_dec E) m) (\<lambda>(lower, upper).
     bindr (ok_or (MarketNotFound symb) (om_get (es_books s) symb)) (\<lambda>bk.
     bindr (traverse (\<lambda>ord. bindr (must_cancel (en_dec E) m lower upper ord) (\<lambda>c. Ok (ord, c)))
       (active_orders bk)) (\<lambda>marked.
     cancel_all E symb ''mark_price_risk_revalidation''
       (map (\<lambda>(ord, c). (ord_id ord, ord_account_id ord)) (filter snd marked)) s))))"

end
