(* ===== verification/Engine_Liquidation.thy ===== *)
theory Engine_Liquidation
  imports Engine_Orders
begin

text \<open>
  Liquidation (\<open>engine.rs\<close>): a forced reduce-only market order, its penalty, and the coverage of the
  debt of an account that is left without a position and with a negative balance: first by the
  insurance fund, then by the fee vault, then by levies on the accounts with the most free equity.
\<close>

definition SOCIAL_LOSS_SAFETY_EPSILON :: decimal where
  "SOCIAL_LOSS_SAFETY_EPSILON = 1 / 100000000"

record bad_debt_coverage =
  cov_insurance_used :: decimal
  cov_fee_vault_used :: decimal
  cov_socialized_losses :: "socialized_loss list"

section \<open>Social losses\<close>

definition social_capacity :: "dec_ops \<Rightarrow> risk_view \<Rightarrow> decimal exch" where
  "social_capacity D r =
     d_ok ''social loss capacity''
       (Option.bind (d_sub D (rs_equity r) (max (rs_position_margin r) (rs_maintenance_requirement r))) (\<lambda>c.
        Option.bind (d_sub D c (rs_reserved_margin r)) (\<lambda>c. d_sub D c SOCIAL_LOSS_SAFETY_EPSILON)))"

text \<open>The accounts that can bear a levy, with their capacities, in the order of the accounts.\<close>

fun loss_candidates ::
  "dec_ops \<Rightarrow> (symbol, market_state) omap \<Rightarrow> account_id \<Rightarrow> (account_id \<times> account) list \<Rightarrow>
   (account_id \<times> decimal) list exch" where
  "loss_candidates D markets debtor [] = Ok []"
| "loss_candidates D markets debtor ((aid, a) # as) =
     (if aid = debtor then loss_candidates D markets debtor as
      else
        bindr (risk_snapshot D a markets) (\<lambda>r.
        bindr (social_capacity D r) (\<lambda>capacity.
        bindr (loss_candidates D markets debtor as) (\<lambda>cs.
        Ok (if 0 < capacity then (aid, capacity) # cs else cs)))))"

text \<open>Largest capacity first, then the smaller account id.\<close>

definition order_candidates :: "(account_id \<times> decimal) list \<Rightarrow> (account_id \<times> decimal) list" where
  "order_candidates cs = sort_key (\<lambda>(aid, capacity). (- capacity, aid)) cs"

text \<open>The sum of the capacities, taken only as far as the loss needs.\<close>

fun capacity_up_to :: "dec_ops \<Rightarrow> decimal \<Rightarrow> decimal \<Rightarrow> (account_id \<times> decimal) list \<Rightarrow> decimal exch" where
  "capacity_up_to D required available [] = Ok available"
| "capacity_up_to D required available ((aid, capacity) # cs) =
     bindr (d_ok ''required social loss capacity'' (d_sub D required available)) (\<lambda>needed.
     if needed = 0 then Ok available
     else bindr (d_ok ''available social loss capacity'' (d_add D available (min capacity needed)))
       (\<lambda>available. capacity_up_to D required available cs))"

fun allocate_losses ::
  "dec_ops \<Rightarrow> decimal \<Rightarrow> (account_id \<times> decimal) list \<Rightarrow> (socialized_loss list \<times> decimal) exch" where
  "allocate_losses D remaining [] = Ok ([], remaining)"
| "allocate_losses D remaining ((aid, capacity) # cs) =
     (if remaining = 0 then Ok ([], remaining)
      else
        (let levy = min remaining capacity in
         bindr (d_ok ''remaining social loss'' (d_sub D remaining levy)) (\<lambda>remaining.
         bindr (allocate_losses D remaining cs) (\<lambda>(losses, rest).
         Ok (if 0 < levy then (\<lparr>sl_account_id = aid, sl_amount = levy\<rparr> # losses, rest)
             else (losses, rest))))))"

text \<open>The balance of a levied account, after the check that the levy keeps it above the risk floor.\<close>

definition levied_collateral ::
  "engine_env \<Rightarrow> 'l engine_state \<Rightarrow> socialized_loss \<Rightarrow> (account_id \<times> decimal) exch" where
  "levied_collateral E s l =
     bindr (expect (om_get (es_accounts s) (sl_account_id l))) (\<lambda>a.
     bindr (d_ok ''socialized account collateral'' (d_sub (en_dec E) (acct_collateral a) (sl_amount l))) (\<lambda>collateral.
     bindr (risk_snapshot (en_dec E) (a\<lparr>acct_collateral := collateral\<rparr>) (es_markets s)) (\<lambda>r.
     if rs_liquidation_risk r \<or> rs_available_margin r < SOCIAL_LOSS_SAFETY_EPSILON
     then Err (Internal ''social loss levy would violate the risk floor'')
     else Ok (sl_account_id l, collateral))))"

definition set_collateral :: "account_id \<Rightarrow> decimal \<Rightarrow> 'l engine_state \<Rightarrow> 'l engine_state exch" where
  "set_collateral aid collateral s =
     bindr (expect (om_get (es_accounts s) aid)) (\<lambda>a.
     Ok (put_account aid (a\<lparr>acct_collateral := collateral\<rparr>) s))"

section \<open>Coverage of a bad debt\<close>

text \<open>The preconditions of \<open>cover_bad_debt\<close>.\<close>

definition check_bad_debt ::
  "engine_env \<Rightarrow> account_id \<Rightarrow> decimal \<Rightarrow> 'l engine_state \<Rightarrow> unit exch" where
  "check_bad_debt E debtor bad_debt s =
     (if bad_debt \<le> 0 then Err (Internal ''bad-debt coverage requires a positive amount'')
      else if es_insurance_fund s < 0 \<or> es_fee_vault s < 0
      then Err (Internal ''protocol reserve balances must not be negative'')
      else
        bindr (get_account s debtor) (\<lambda>a.
        bindr (d_ok ''debtor collateral shortfall'' (d_sub (en_dec E) 0 (acct_collateral a))) (\<lambda>shortfall.
        check (shortfall = bad_debt)
          (Internal ''bad debt must exactly match the debtor's negative collateral''))))"

text \<open>The levies that cover what the reserves leave open.\<close>

definition social_losses ::
  "engine_env \<Rightarrow> account_id \<Rightarrow> decimal \<Rightarrow> 'l engine_state \<Rightarrow> socialized_loss list exch" where
  "social_losses E debtor remaining s =
     bindr (loss_candidates (en_dec E) (es_markets s) debtor (om_entries (es_accounts s))) (\<lambda>cs.
     let cs = order_candidates cs in
     bindr (capacity_up_to (en_dec E) remaining 0 cs) (\<lambda>available.
     bindr (check (remaining \<le> available) (InsufficientMargin remaining available)) (\<lambda>_.
     bindr (allocate_losses (en_dec E) remaining cs) (\<lambda>(losses, rest).
     bindr (check (rest = 0) (Internal ''social loss allocation did not cover the exact bad debt'')) (\<lambda>_.
     Ok losses)))))"

definition cover_bad_debt ::
  "engine_env \<Rightarrow> account_id \<Rightarrow> decimal \<Rightarrow> 'l engine_state \<Rightarrow> (bad_debt_coverage \<times> 'l engine_state) exch" where
  "cover_bad_debt E debtor bad_debt s =
     bindr (check_bad_debt E debtor bad_debt s) (\<lambda>_.
     let insurance_used = min (es_insurance_fund s) bad_debt in
     bindr (d_ok ''bad debt after insurance'' (d_sub (en_dec E) bad_debt insurance_used)) (\<lambda>after_insurance.
     let fee_vault_used = min (es_fee_vault s) after_insurance in
     bindr (d_ok ''bad debt after fee vault'' (d_sub (en_dec E) after_insurance fee_vault_used)) (\<lambda>remaining.
     bindr (social_losses E debtor remaining s) (\<lambda>losses.
     bindr (d_ok ''insurance bad-debt coverage'' (d_sub (en_dec E) (es_insurance_fund s) insurance_used)) (\<lambda>insurance.
     bindr (d_ok ''fee-vault bad-debt coverage'' (d_sub (en_dec E) (es_fee_vault s) fee_vault_used)) (\<lambda>vault.
     bindr (check (0 \<le> insurance \<and> 0 \<le> vault)
       (Internal ''bad-debt coverage would make a protocol reserve negative'')) (\<lambda>_.
     bindr (traverse (levied_collateral E s) losses) (\<lambda>next_collateral.
     bindr (foldr_res (\<lambda>(aid, c). set_collateral aid c) next_collateral
       (s\<lparr>es_insurance_fund := insurance, es_fee_vault := vault\<rparr>)) (\<lambda>s.
     bindr (set_collateral debtor 0 s) (\<lambda>s.
     Ok (\<lparr>cov_insurance_used = insurance_used, cov_fee_vault_used = fee_vault_used,
          cov_socialized_losses = losses\<rparr>, s)))))))))))"

section \<open>Liquidation of an account\<close>

definition liquidation_limit :: "dec_ops \<Rightarrow> side \<Rightarrow> market_state \<Rightarrow> decimal exch" where
  "liquidation_limit D side m =
     d_ok ''liquidation price limit''
       (Option.bind (case side of
            Buy \<Rightarrow> d_add D 1 (mc_market_slippage_limit (ms_config m))
          | Sell \<Rightarrow> d_sub D 1 (mc_market_slippage_limit (ms_config m)))
         (d_mul D (ms_mark_price m)))"

definition liquidation_order ::
  "uuid \<Rightarrow> account_id \<Rightarrow> symbol \<Rightarrow> side \<Rightarrow> decimal \<Rightarrow> decimal \<Rightarrow> nat \<Rightarrow> order" where
  "liquidation_order oid aid symb side quantity limit_price sequence =
     \<lparr>ord_id = oid, ord_account_id = aid, ord_client_order_id = ''liquidation-'' @ digits sequence,
      ord_symbol = symb, ord_side = side, ord_kind = Market, ord_quantity = quantity,
      ord_remaining = quantity, ord_limit_price = limit_price, ord_leverage = 1,
      ord_time_in_force = Ioc, ord_reduce_only = True, ord_reserved_margin = 0,
      ord_sequence = sequence, ord_status = Open\<rparr>"

text \<open>The part that opens a liquidation: the checks, and the market order sent to the book.\<close>

definition start_liquidation ::
  "engine_env \<Rightarrow> account_id \<Rightarrow> symbol \<Rightarrow> apply_context \<Rightarrow> 'l engine_state \<Rightarrow>
   (market_state \<times> execution \<times> apply_context \<times> 'l engine_state) exch" where
  "start_liquidation E aid symb cx s =
     bindr (get_account s aid) (\<lambda>a.
     bindr (risk_snapshot (en_dec E) a (es_markets s)) (\<lambda>r.
     if \<not> rs_liquidation_risk r then Err (NotLiquidatable aid)
     else
       (let q = position_quantity s aid symb in
        if q = 0 then Err (NotLiquidatable (aid @ '' has no '' @ symb @ '' position''))
        else
          bindr (get_market s symb) (\<lambda>m.
          let side = (if 0 < q then Sell else Buy) in
          bindr (liquidation_limit (en_dec E) side m) (\<lambda>limit_price.
          bindr (next_sequence s) (\<lambda>(sequence, s).
          bindr (next_uuid E (ascii ''asteria/liquidation-order/v1'') cx) (\<lambda>(oid, cx).
          let ord = liquidation_order oid aid symb side \<bar>q\<bar> limit_price sequence;
              s = s\<lparr>es_order_market := om_insert oid symb (es_order_market s)\<rparr> in
          bindr (execute_in_book E symb ord (append_event_at E sequence (OrderAccepted ord) s)) (\<lambda>(ex, s).
          bindr (apply_execution E m ex s) (\<lambda>s.
          Ok (m, ex, cx, s))))))))))"

definition filled_quantity :: "dec_ops \<Rightarrow> raw_fill list \<Rightarrow> decimal exch" where
  "filled_quantity D fs =
     d_ok ''liquidation filled quantity'' (try_fold (\<lambda>f total. d_add D total (rf_quantity f)) fs 0)"

definition liquidation_penalty :: "dec_ops \<Rightarrow> decimal \<Rightarrow> raw_fill list \<Rightarrow> decimal exch" where
  "liquidation_penalty D rate fs =
     d_ok ''liquidation penalty'' (try_fold (\<lambda>f total.
       Option.bind (d_mul D (rf_quantity f) (rf_price f)) (\<lambda>notional.
       Option.bind (d_mul D notional rate) (\<lambda>penalty. d_add D total penalty))) fs 0)"

definition charge_penalty ::
  "engine_env \<Rightarrow> account_id \<Rightarrow> decimal \<Rightarrow> 'l engine_state \<Rightarrow> 'l engine_state exch" where
  "charge_penalty E aid penalty s =
     bindr (expect (om_get (es_accounts s) aid)) (\<lambda>a.
     bindr (d_ok ''liquidated collateral'' (d_sub (en_dec E) (acct_collateral a) penalty)) (\<lambda>collateral.
     bindr (d_ok ''insurance fund penalty'' (d_add (en_dec E) (es_insurance_fund s) penalty)) (\<lambda>insurance.
     Ok ((put_account aid (a\<lparr>acct_collateral := collateral\<rparr>) s)\<lparr>es_insurance_fund := insurance\<rparr>))))"

definition no_coverage :: bad_debt_coverage where
  "no_coverage = \<lparr>cov_insurance_used = 0, cov_fee_vault_used = 0, cov_socialized_losses = []\<rparr>"

text \<open>Cover the debt of an account that is flat in the market and has a negative balance.\<close>

definition settle_bad_debt ::
  "engine_env \<Rightarrow> account_id \<Rightarrow> decimal \<Rightarrow> 'l engine_state \<Rightarrow> (decimal \<times> bad_debt_coverage \<times> 'l engine_state) exch" where
  "settle_bad_debt E aid remaining_quantity s =
     bindr (expect (om_get (es_accounts s) aid)) (\<lambda>a.
     if remaining_quantity = 0 \<and> acct_collateral a < 0
     then
       bindr (d_ok ''liquidation bad debt'' (d_sub (en_dec E) 0 (acct_collateral a))) (\<lambda>bad_debt.
       bindr (cover_bad_debt E aid bad_debt s) (\<lambda>(coverage, s). Ok (bad_debt, coverage, s)))
     else Ok (0, no_coverage, s))"

definition liquidate_account ::
  "engine_env \<Rightarrow> account_id \<Rightarrow> symbol \<Rightarrow> apply_context \<Rightarrow> 'l engine_state \<Rightarrow>
   (liquidation_result \<times> apply_context \<times> 'l engine_state) exch" where
  "liquidate_account E aid symb cx s =
     bindr (start_liquidation E aid symb cx s) (\<lambda>(m, ex, cx, s).
     bindr (filled_quantity (en_dec E) (ex_fills ex)) (\<lambda>closed.
     if closed = 0 then Err CannotFullyFill
     else
       bindr (liquidation_penalty (en_dec E) (mc_liquidation_penalty_rate (ms_config m)) (ex_fills ex)) (\<lambda>penalty.
       bindr (charge_penalty E aid penalty s) (\<lambda>s.
       bindr (foldr_res (\<lambda>affected. reconcile_reduce_only_orders E affected symb)
         (bset (aid # map rf_maker_account_id (ex_fills ex))) s) (\<lambda>s.
       let remaining_quantity = \<bar>position_quantity s aid symb\<bar> in
       bindr (settle_bad_debt E aid remaining_quantity s) (\<lambda>(bad_debt, coverage, s).
       bindr (record_trades E (ascii ''asteria/liquidation-trade/v1'') m (ex_fills ex) cx s) (\<lambda>(trades, cx, s).
       bindr (append_event E (LiquidationExecuted aid symb closed remaining_quantity penalty bad_debt
         (cov_insurance_used coverage) (cov_fee_vault_used coverage) (cov_socialized_losses coverage)) s) (\<lambda>s.
       Ok (\<lparr>lr_account_id = aid, lr_symbol = symb, lr_closed_quantity = closed,
            lr_remaining_quantity = remaining_quantity, lr_penalty = penalty, lr_bad_debt = bad_debt,
            lr_insurance_used = cov_insurance_used coverage,
            lr_fee_vault_used = cov_fee_vault_used coverage,
            lr_socialized_losses = cov_socialized_losses coverage, lr_trades = trades\<rparr>, cx, s)))))))))"

end
