(* ===== verification/Engine_Oracle.thy ===== *)
theory Engine_Oracle
  imports Engine_Orders
begin

text \<open>
  Prices from outside (\<open>engine.rs\<close>): the checks and the weighted median of the observations of an
  oracle round, and the two ways to change a mark price. A source is compared after
  \<open>to_ascii_lowercase\<close>; weights are \<open>u32\<close>, so their sum over a round fits a \<open>u64\<close>.
\<close>

definition ascii_lower :: "string \<Rightarrow> string" where
  "ascii_lower s = map (\<lambda>c. if 65 \<le> (of_char c :: nat) \<and> (of_char c :: nat) \<le> 90
     then char_of ((of_char c :: nat) + 32) else c) s"

text \<open>The loop over the observations with the sources seen so far.\<close>

fun validate_sources :: "oracle_observation list \<Rightarrow> string list \<Rightarrow> unit exch" where
  "validate_sources [] seen = Ok ()"
| "validate_sources (ob # obs) seen =
     (if blank (ob_source ob) \<or> ascii_lower (ob_source ob) \<in> set seen
      then Err (InvalidOrder ''oracle source names must be non-empty and unique'')
      else if ob_price ob \<le> 0 \<or> ob_weight ob = 0
      then Err (InvalidOrder ''oracle prices and weights must be positive'')
      else validate_sources obs (ascii_lower (ob_source ob) # seen))"

definition validate_observations :: "oracle_observation list \<Rightarrow> unit exch" where
  "validate_observations obs =
     (if length obs < 3 then Err (InvalidOrder ''at least three oracle sources are required'')
      else validate_sources obs [])"

text \<open>The loop of \<open>weighted_median\<close>; the end of the list is \<open>unreachable!\<close>.\<close>

fun median_from :: "nat \<Rightarrow> nat \<Rightarrow> oracle_observation list \<Rightarrow> decimal exch" where
  "median_from threshold cumulative [] = Panic"
| "median_from threshold cumulative (ob # obs) =
     (if threshold \<le> cumulative + ob_weight ob then Ok (ob_price ob)
      else median_from threshold (cumulative + ob_weight ob) obs)"

definition weighted_median :: "oracle_observation list \<Rightarrow> decimal exch" where
  "weighted_median obs =
     (let ordered = sort_key ob_price obs;
          total_weight = sum_list (map ob_weight ordered) in
      median_from ((total_weight + 1) div 2) 0 ordered)"

definition min_price :: "oracle_observation list \<Rightarrow> decimal exch" where
  "min_price obs = (if obs = [] then Panic else Ok (Min (set (map ob_price obs))))"

definition max_price :: "oracle_observation list \<Rightarrow> decimal exch" where
  "max_price obs = (if obs = [] then Panic else Ok (Max (set (map ob_price obs))))"

definition oracle_spread :: "dec_ops \<Rightarrow> oracle_observation list \<Rightarrow> decimal \<Rightarrow> decimal exch" where
  "oracle_spread D obs price =
     bindr (min_price obs) (\<lambda>lo.
     bindr (max_price obs) (\<lambda>hi.
     bindr (expect (d_sub D hi lo)) (\<lambda>width.
     expect (d_div D width price))))"

definition set_mark :: "symbol \<Rightarrow> decimal \<Rightarrow> 'l engine_state \<Rightarrow> market_state \<Rightarrow> 'l engine_state" where
  "set_mark symb price s m = put_market symb (m\<lparr>ms_mark_price := price\<rparr>) s"

definition publish_oracle_price ::
  "engine_env \<Rightarrow> symbol \<Rightarrow> oracle_observation list \<Rightarrow> 'l engine_state \<Rightarrow> (oracle_snapshot \<times> 'l engine_state) exch" where
  "publish_oracle_price E symb obs s =
     bindr (get_market s symb) (\<lambda>m.
     bindr (validate_observations obs) (\<lambda>_.
     bindr (weighted_median obs) (\<lambda>price.
     bindr (oracle_spread (en_dec E) obs price) (\<lambda>spread.
     if 5 / 100 < spread then Err (InvalidOrder ''oracle source spread exceeds 5%'')
     else
       bindr (validate_mark_price_for_frozen_batches (en_dec E) s symb price) (\<lambda>_.
       bindr (next_sequence (set_mark symb price s m)) (\<lambda>(sequence, s).
       let snapshot = \<lparr>os_symbol = symb, os_price = price, os_observations = obs, os_sequence = sequence\<rparr>;
           s = s\<lparr>es_oracle := om_insert symb snapshot (es_oracle s)\<rparr> in
       bindr (revalidate_resting_orders_after_mark_change E symb
         (append_event_at E sequence (OraclePricePublished snapshot) s)) (\<lambda>s.
       Ok (snapshot, s))))))))"

definition set_mark_price ::
  "engine_env \<Rightarrow> symbol \<Rightarrow> decimal \<Rightarrow> 'l engine_state \<Rightarrow> (market_state \<times> 'l engine_state) exch" where
  "set_mark_price E symb price s =
     (if price \<le> 0 then Err (InvalidOrder ''mark price must be positive'')
      else
        bindr (validate_mark_price_for_frozen_batches (en_dec E) s symb price) (\<lambda>_.
        bindr (get_market s symb) (\<lambda>m.
        bindr (append_event E (MarkPriceUpdated symb price) (set_mark symb price s m)) (\<lambda>s.
        bindr (revalidate_resting_orders_after_mark_change E symb s) (\<lambda>s.
        Ok (m\<lparr>ms_mark_price := price\<rparr>, s))))))"

end
