(* ===== verification/Private_Order.thy ===== *)
theory Private_Order
  imports Private_Wire
begin

text \<open>
  Threshold encryption of private orders (\<open>private_order.rs\<close>): a 3-of-4 key set over a prime-order
  group, decryption shares with Chaum-Pedersen proofs of equal discrete logarithms, the threshold
  beacon, and the authenticated encryption of a padded payload. The Ristretto group, SHA-256, SHA-512,
  HKDF and XChaCha20-Poly1305 are other crates: the record \<open>curve\<close>. A group element is its canonical
  encoding, which the group crate documents as unique; decompression is the test that an encoding is
  canonical. A scalar is an integer modulo the order. Random scalars are an argument: the list that
  the generator delivers.
\<close>

record curve =
  cv_order :: int
  cv_canonical :: "bytes \<Rightarrow> bool"
  cv_add :: "bytes \<Rightarrow> bytes \<Rightarrow> bytes"
  cv_mul :: "int \<Rightarrow> bytes \<Rightarrow> bytes"
  cv_base :: bytes
  cv_identity :: bytes
  cv_invert :: "int \<Rightarrow> int"
  cv_scalar_bytes :: "int \<Rightarrow> bytes"
  cv_scalar_of :: "bytes \<Rightarrow> int option"
  cv_hash_scalar :: "bytes \<Rightarrow> int"
  cv_hash_point :: "bytes \<Rightarrow> bytes"
  cv_sha :: digest
  cv_hkdf :: "bytes \<Rightarrow> bytes \<Rightarrow> bytes \<Rightarrow> bytes option"
  cv_seal :: "bytes \<Rightarrow> bytes \<Rightarrow> bytes \<Rightarrow> bytes \<Rightarrow> (bytes \<times> bytes) option"
  cv_open :: "bytes \<Rightarrow> bytes \<Rightarrow> bytes \<Rightarrow> bytes \<Rightarrow> bytes \<Rightarrow> bytes option"

datatype private_order_error =
    InvalidContext string
  | InvalidKeySet string
  | InvalidSecretShare string
  | InvalidEnvelope string
  | EmptyPayload
  | PayloadTooLarge nat nat
  | InsufficientShares nat nat
  | DuplicateValidator nat
  | UnknownValidator nat
  | InvalidDecryptionShare nat string
  | InvalidBeacon string
  | AuthenticationFailed
  | InvalidPayloadLength
  | KeyDerivationFailed

type_synonym 'a po = "(private_order_error, 'a) res"

record secret_share =
  ss_version :: nat
  ss_epoch :: nat
  ss_validator_id :: nat
  ss_scalar :: bytes

definition PRIVATE_ORDER_FORMAT_VERSION :: nat where "PRIVATE_ORDER_FORMAT_VERSION = 2"
definition PRIVATE_ORDER_THRESHOLD :: nat where "PRIVATE_ORDER_THRESHOLD = 3"
definition PRIVATE_ORDER_VALIDATOR_COUNT :: nat where "PRIVATE_ORDER_VALIDATOR_COUNT = 4"
definition MAX_PRIVATE_ORDER_PAYLOAD_BYTES :: nat where "MAX_PRIVATE_ORDER_PAYLOAD_BYTES = 1024"

definition PADDED_PRIVATE_ORDER_BYTES :: nat where
  "PADDED_PRIVATE_ORDER_BYTES = 2 + MAX_PRIVATE_ORDER_PAYLOAD_BYTES"

definition ENCRYPTED_PRIVATE_ORDER_BYTES :: nat where
  "ENCRYPTED_PRIVATE_ORDER_BYTES = PADDED_PRIVATE_ORDER_BYTES + 16"

section \<open>Identifiers and points\<close>

definition printable :: "string \<Rightarrow> bool" where
  "printable s \<longleftrightarrow> (\<forall>b \<in> set (ascii s). 0x21 \<le> b \<and> b \<le> 0x7E)"

definition validate_identifier :: "string \<Rightarrow> string \<Rightarrow> nat \<Rightarrow> unit po" where
  "validate_identifier field s maximum =
     (if s = [] \<or> maximum < length s then Err (InvalidContext (field @ '' has an invalid length''))
      else check (printable s) (InvalidContext (field @ '' must contain only non-whitespace printable ASCII'')))"

definition validate_context :: "order_context \<Rightarrow> unit po" where
  "validate_context cx =
     bindr (validate_identifier ''chain_id'' (pc_chain_id cx) 128) (\<lambda>_.
     bindr (validate_identifier ''market_id'' (pc_market_id cx) 64) (\<lambda>_.
     check (pc_batch_height cx \<noteq> 0) (InvalidContext ''batch_height must be greater than zero'')))"

definition decompress_point :: "curve \<Rightarrow> bytes \<Rightarrow> string \<Rightarrow> (string, bytes) res" where
  "decompress_point K bs label =
     (if cv_canonical K bs then Ok bs else Err (label @ '' is not a canonical Ristretto point''))"

definition decompress_non_identity :: "curve \<Rightarrow> bytes \<Rightarrow> string \<Rightarrow> (string, bytes) res" where
  "decompress_non_identity K bs label =
     bindr (decompress_point K bs label) (\<lambda>p.
     if p = cv_identity K then Err (label @ '' must not be the identity point'') else Ok p)"

definition canonical_scalar :: "curve \<Rightarrow> bytes \<Rightarrow> string \<Rightarrow> (string, int) res" where
  "canonical_scalar K bs label = ok_or (label @ '' is not a canonical Ristretto scalar'') (cv_scalar_of K bs)"

section \<open>Interpolation\<close>

definition lagrange_step :: "curve \<Rightarrow> int \<Rightarrow> nat \<Rightarrow> int \<times> int \<Rightarrow> int \<times> int" where
  "lagrange_step K xi = (\<lambda>j (numerator, denominator).
     ((numerator * (- int j)) mod cv_order K, (denominator * (xi - int j)) mod cv_order K))"

definition lagrange_coefficient_at_zero :: "curve \<Rightarrow> nat \<Rightarrow> nat list \<Rightarrow> int po" where
  "lagrange_coefficient_at_zero K i ids =
     (let (numerator, denominator) =
        fold (lagrange_step K (int i)) (filter (\<lambda>j. j \<noteq> i) ids) (1 mod cv_order K, 1 mod cv_order K) in
      if denominator = 0 then Err (InvalidKeySet ''duplicate validator interpolation point'')
      else Ok ((numerator * cv_invert K denominator) mod cv_order K))"

fun first_repeated :: "nat list \<Rightarrow> nat list \<Rightarrow> nat option" where
  "first_repeated [] seen = None"
| "first_repeated (i # is) seen = (if i \<in> set seen then Some i else first_repeated is (i # seen))"

definition interpolate_points_at_zero :: "curve \<Rightarrow> (nat \<times> bytes) list \<Rightarrow> bytes po" where
  "interpolate_points_at_zero K points =
     (case first_repeated (map fst points) [] of
        Some i \<Rightarrow> Err (DuplicateValidator i)
      | None \<Rightarrow>
          (let ids = bset (map fst points) in
           foldr_res (\<lambda>(i, p) result.
               bindr (lagrange_coefficient_at_zero K i ids) (\<lambda>c. Ok (cv_add K result (cv_mul K c p))))
             points (cv_identity K)))"

section \<open>The key set\<close>

definition compute_key_id :: "curve \<Rightarrow> public_key_set \<Rightarrow> bytes" where
  "compute_key_id K ks = cv_sha K (domain_tag ''ASTERIA_PRIVATE_ORDER_KEY_ID_V2''
     @ be_bytes 2 (ks_version ks) @ [ks_threshold ks, ks_validator_count ks] @ be_bytes 8 (ks_epoch ks)
     @ ks_public_key ks
     @ concat (map (\<lambda>v. be_bytes 2 (ps_validator_id v) @ ps_public_key v) (ks_validators ks)))"

text \<open>The loop over the validator commitments, with the expected identifier.\<close>

fun commitment_points :: "curve \<Rightarrow> nat \<Rightarrow> public_share list \<Rightarrow> (nat \<times> bytes) list po" where
  "commitment_points K expected [] = Ok []"
| "commitment_points K expected (v # vs) =
     (if ps_validator_id v \<noteq> expected
      then Err (InvalidKeySet ''validator commitments must be ordered with IDs 1 through 4'')
      else bindr (map_err InvalidKeySet (decompress_non_identity K (ps_public_key v) ''validator public share'')) (\<lambda>p.
           bindr (commitment_points K (Suc expected) vs) (\<lambda>ps. Ok ((ps_validator_id v, p) # ps))))"

definition omit_index :: "nat \<Rightarrow> 'a list \<Rightarrow> 'a list" where
  "omit_index i xs = take i xs @ drop (Suc i) xs"

definition validate_key_set :: "curve \<Rightarrow> public_key_set \<Rightarrow> unit po" where
  "validate_key_set K ks =
     (if ks_version ks \<noteq> PRIVATE_ORDER_FORMAT_VERSION then Err (InvalidKeySet ''unsupported version'')
      else if ks_threshold ks \<noteq> PRIVATE_ORDER_THRESHOLD \<or> ks_validator_count ks \<noteq> PRIVATE_ORDER_VALIDATOR_COUNT
      then Err (InvalidKeySet ''this backend requires exactly 3-of-4 keys'')
      else if length (ks_validators ks) \<noteq> PRIVATE_ORDER_VALIDATOR_COUNT
      then Err (InvalidKeySet ''expected four validator commitments'')
      else
        bindr (map_err InvalidKeySet (decompress_non_identity K (ks_public_key ks) ''epoch public key'')) (\<lambda>public_key.
        bindr (commitment_points K 1 (ks_validators ks)) (\<lambda>shares.
        bindr (foldr_res (\<lambda>omitted _.
            bindr (interpolate_points_at_zero K (omit_index omitted shares)) (\<lambda>p.
            check (p = public_key)
              (InvalidKeySet ''validator commitments are not evaluations of one degree-two polynomial'')))
          [0..<PRIVATE_ORDER_VALIDATOR_COUNT] ()) (\<lambda>_.
        check (compute_key_id K ks = ks_key_id ks)
          (InvalidKeySet ''key_id does not match the public key material'')))))"

definition from_provisioned_public_shares :: "curve \<Rightarrow> nat \<Rightarrow> bytes \<Rightarrow> public_share list \<Rightarrow> public_key_set po" where
  "from_provisioned_public_shares K epoch public_key validators =
     (let ks = \<lparr>ks_version = PRIVATE_ORDER_FORMAT_VERSION, ks_threshold = PRIVATE_ORDER_THRESHOLD,
          ks_validator_count = PRIVATE_ORDER_VALIDATOR_COUNT, ks_epoch = epoch,
          ks_public_key = public_key, ks_validators = validators, ks_key_id = zero32\<rparr>;
          ks = ks\<lparr>ks_key_id := compute_key_id K ks\<rparr> in
      bindr (validate_key_set K ks) (\<lambda>_. Ok ks))"

definition find_validator :: "public_key_set \<Rightarrow> nat \<Rightarrow> public_share po" where
  "find_validator ks i = ok_or (UnknownValidator i) (List.find (\<lambda>v. ps_validator_id v = i) (ks_validators ks))"

definition validate_secret_share :: "curve \<Rightarrow> public_key_set \<Rightarrow> secret_share \<Rightarrow> int po" where
  "validate_secret_share K ks ss =
     (if ss_version ss \<noteq> PRIVATE_ORDER_FORMAT_VERSION then Err (InvalidSecretShare ''unsupported share version'')
      else if ss_epoch ss \<noteq> ks_epoch ks
      then Err (InvalidSecretShare ''share epoch does not match the public key set'')
      else
        bindr (find_validator ks (ss_validator_id ss)) (\<lambda>v.
        bindr (map_err InvalidSecretShare (canonical_scalar K (ss_scalar ss) ''validator scalar share'')) (\<lambda>x.
        if x = 0 then Err (InvalidSecretShare ''validator scalar share must not be zero'')
        else if cv_mul K x (cv_base K) \<noteq> ps_public_key v
        then Err (InvalidSecretShare ''scalar share does not match its public commitment'')
        else Ok x)))"

definition from_provisioned_scalar :: "curve \<Rightarrow> public_key_set \<Rightarrow> nat \<Rightarrow> bytes \<Rightarrow> secret_share po" where
  "from_provisioned_scalar K ks validator_id scalar =
     bindr (validate_key_set K ks) (\<lambda>_.
     let ss = \<lparr>ss_version = PRIVATE_ORDER_FORMAT_VERSION, ss_epoch = ks_epoch ks,
               ss_validator_id = validator_id, ss_scalar = scalar\<rparr> in
     bindr (validate_secret_share K ks ss) (\<lambda>_. Ok ss))"

text \<open>\<open>random_nonzero_scalar\<close> draws until a scalar is not zero; \<open>Panic\<close> is a generator that never delivers one.\<close>

fun random_nonzero_scalar :: "int list \<Rightarrow> (int \<times> int list) po" where
  "random_nonzero_scalar [] = Panic"
| "random_nonzero_scalar (r # rs) = (if r \<noteq> 0 then Ok (r, rs) else random_nonzero_scalar rs)"

section \<open>The dealer\<close>

lemma random_nonzero_scalar_shorter: "random_nonzero_scalar rs = Ok (r, rs') \<Longrightarrow> length rs' < length rs \<and> r \<noteq> 0"
  by (induction rs) (auto split: if_splits)

text \<open>One draw of the polynomial: its nonzero value at zero and two further coefficients.\<close>

fun draw_polynomial :: "int list \<Rightarrow> (int \<times> int \<times> int \<times> int list) po" where
  "draw_polynomial rs =
     bindr (random_nonzero_scalar rs) (\<lambda>(secret, rs).
     case rs of c1 # c2 # rs \<Rightarrow> Ok (secret, c1, c2, rs) | _ \<Rightarrow> Panic)"

lemma draw_polynomial_shorter: "draw_polynomial rs = Ok (a, c1, c2, rs') \<Longrightarrow> length rs' < length rs"
proof -
  assume d: "draw_polynomial rs = Ok (a, c1, c2, rs')"
  then obtain r rs1 where r: "random_nonzero_scalar rs = Ok (r, rs1)"
    by (auto split del: list.split list.split_asm)
  with d have "rs1 = c1 # c2 # rs'" by (cases rs1; cases "tl rs1") auto
  with random_nonzero_scalar_shorter [OF r] show ?thesis by simp
qed

definition dealer_share :: "curve \<Rightarrow> int \<Rightarrow> int \<Rightarrow> int \<Rightarrow> nat \<Rightarrow> int" where
  "dealer_share K secret c1 c2 i = (secret + c1 * int i + c2 * int i * int i) mod cv_order K"

definition dealer_ids :: "nat list" where "dealer_ids = [1..<Suc PRIVATE_ORDER_VALIDATOR_COUNT]"

text \<open>The key set and the secret shares of an accepted draw.\<close>

definition deal ::
  "curve \<Rightarrow> nat \<Rightarrow> int \<Rightarrow> int \<Rightarrow> int \<Rightarrow> (public_key_set \<times> secret_share list) po" where
  "deal K epoch secret c1 c2 =
     (let share = dealer_share K secret c1 c2;
          validators = map (\<lambda>i. \<lparr>ps_validator_id = i, ps_public_key = cv_mul K (share i) (cv_base K)\<rparr>) dealer_ids in
      bindr (from_provisioned_public_shares K epoch (cv_mul K secret (cv_base K)) validators) (\<lambda>ks.
      Ok (ks, map (\<lambda>i. \<lparr>ss_version = PRIVATE_ORDER_FORMAT_VERSION, ss_epoch = epoch, ss_validator_id = i,
        ss_scalar = cv_scalar_bytes K (share i)\<rparr>) dealer_ids)))"

text \<open>The loop: a draw with a zero share is thrown away.\<close>

function generate_dealer_key_set ::
  "curve \<Rightarrow> nat \<Rightarrow> int list \<Rightarrow> (public_key_set \<times> secret_share list) po" where
  "generate_dealer_key_set K epoch rs =
     (case draw_polynomial rs of
        Panic \<Rightarrow> Panic
      | Err e \<Rightarrow> Err e
      | Ok (secret, c1, c2, rs') \<Rightarrow>
          if \<exists>i \<in> set dealer_ids. dealer_share K secret c1 c2 i = 0 then generate_dealer_key_set K epoch rs'
          else deal K epoch secret c1 c2)"
  by pat_completeness auto
termination
  by (relation "measure (\<lambda>(K, epoch, rs). length rs)") (auto dest: draw_polynomial_shorter simp del: draw_polynomial.simps)

declare generate_dealer_key_set.simps [simp del]

section \<open>The envelope\<close>

definition append_length_prefixed :: "string \<Rightarrow> bytes" where
  "append_length_prefixed s = be_bytes 2 (length s) @ ascii s"

definition encode_and_validate_aad :: "public_key_set \<Rightarrow> order_context \<Rightarrow> order_header \<Rightarrow> bytes po" where
  "encode_and_validate_aad ks cx h =
     (if ph_version h \<noteq> PRIVATE_ORDER_FORMAT_VERSION then Err (InvalidEnvelope ''unsupported envelope version'')
      else if ph_market_id h \<noteq> pc_market_id cx \<or> ph_epoch h \<noteq> pc_epoch cx \<or> ph_batch_height h \<noteq> pc_batch_height cx
      then Err (InvalidContext ''expected chain/market/epoch/height context does not match the envelope'')
      else if ph_epoch h \<noteq> ks_epoch ks \<or> ph_key_id h \<noteq> ks_key_id ks
      then Err (InvalidContext ''envelope does not use the expected epoch key'')
      else if ph_fee_payer h = zero32 \<or> ph_anti_spam_commitment h = zero32
      then Err (InvalidEnvelope ''fee payer and anti-spam commitment must not be all zeroes'')
      else Ok (domain_tag ''ASTERIA_PRIVATE_ORDER_AAD_V2'' @ be_bytes 2 PRIVATE_ORDER_FORMAT_VERSION
        @ append_length_prefixed (pc_chain_id cx) @ append_length_prefixed (pc_market_id cx)
        @ be_bytes 8 (pc_epoch cx) @ be_bytes 8 (pc_batch_height cx) @ ph_fee_payer h
        @ ph_anti_spam_commitment h @ ph_key_id h))"

definition validate_envelope :: "curve \<Rightarrow> public_key_set \<Rightarrow> order_context \<Rightarrow> order_envelope \<Rightarrow> bytes po" where
  "validate_envelope K ks cx e =
     bindr (validate_key_set K ks) (\<lambda>_.
     bindr (validate_context cx) (\<lambda>_.
     if length (pe_encrypted_payload e) \<noteq> ENCRYPTED_PRIVATE_ORDER_BYTES
     then Err (InvalidEnvelope ''encrypted payload has the wrong length'')
     else
       bindr (map_err InvalidEnvelope
         (decompress_non_identity K (pe_ephemeral_public_key e) ''envelope ephemeral public key'')) (\<lambda>_.
       encode_and_validate_aad ks cx (pe_header e))))"

definition compute_ciphertext_id :: "curve \<Rightarrow> order_envelope \<Rightarrow> bytes \<Rightarrow> bytes" where
  "compute_ciphertext_id K e aad = cv_sha K (domain_tag ''ASTERIA_PRIVATE_ORDER_CIPHERTEXT_ID_V2''
     @ aad @ pe_ephemeral_public_key e @ pe_nonce e @ pe_encrypted_payload e)"

definition derive_aead_key :: "curve \<Rightarrow> bytes \<Rightarrow> bytes \<Rightarrow> bytes \<Rightarrow> bytes \<Rightarrow> bytes \<Rightarrow> bytes po" where
  "derive_aead_key K shared_point aad key_id epoch_public_key ephemeral_public_key =
     ok_or KeyDerivationFailed (cv_hkdf K (cv_sha K aad) shared_point
       (domain_tag ''ASTERIA_PRIVATE_ORDER_KDF_V2'' @ key_id @ epoch_public_key @ ephemeral_public_key))"

definition pad_payload :: "bytes \<Rightarrow> bytes \<Rightarrow> bytes" where
  "pad_payload payload filler =
     be_bytes 2 (length payload) @ payload @ drop (2 + length payload) filler"

text \<open>The checks of \<open>encrypt_private_order\<close> before it draws its randomness.\<close>

definition admit_payload ::
  "curve \<Rightarrow> public_key_set \<Rightarrow> order_context \<Rightarrow> bytes \<Rightarrow> bytes \<Rightarrow> bytes \<Rightarrow> unit po" where
  "admit_payload K ks cx fee_payer commitment payload =
     bindr (validate_key_set K ks) (\<lambda>_.
     bindr (validate_context cx) (\<lambda>_.
     if pc_epoch cx \<noteq> ks_epoch ks
     then Err (InvalidContext ''context epoch does not match the threshold key epoch'')
     else if payload = [] then Err EmptyPayload
     else if MAX_PRIVATE_ORDER_PAYLOAD_BYTES < length payload
     then Err (PayloadTooLarge (length payload) MAX_PRIVATE_ORDER_PAYLOAD_BYTES)
     else if fee_payer = zero32 then Err (InvalidContext ''fee_payer must not be all zeroes'')
     else if commitment = zero32 then Err (InvalidContext ''anti_spam_commitment must not be all zeroes'')
     else Ok ()))"

definition encrypt_private_order ::
  "curve \<Rightarrow> public_key_set \<Rightarrow> order_context \<Rightarrow> bytes \<Rightarrow> bytes \<Rightarrow> bytes \<Rightarrow> int list \<Rightarrow> bytes \<Rightarrow> bytes \<Rightarrow>
   order_envelope po" where
  "encrypt_private_order K ks cx fee_payer commitment payload rs nonce filler =
     bindr (admit_payload K ks cx fee_payer commitment payload) (\<lambda>_.
     let h = \<lparr>ph_version = PRIVATE_ORDER_FORMAT_VERSION, ph_market_id = pc_market_id cx,
       ph_epoch = pc_epoch cx, ph_batch_height = pc_batch_height cx, ph_fee_payer = fee_payer,
       ph_anti_spam_commitment = commitment, ph_key_id = ks_key_id ks\<rparr> in
     bindr (encode_and_validate_aad ks cx h) (\<lambda>aad.
     bindr (random_nonzero_scalar rs) (\<lambda>(secret, rs).
     let ephemeral = cv_mul K secret (cv_base K) in
     bindr (map_err InvalidKeySet (decompress_non_identity K (ks_public_key ks) ''epoch public key'')) (\<lambda>epoch_public.
     let shared_point = cv_mul K secret epoch_public in
     bindr (derive_aead_key K shared_point aad (ks_key_id ks) (ks_public_key ks) ephemeral) (\<lambda>key.
     bindr (ok_or AuthenticationFailed (cv_seal K key nonce aad (pad_payload payload filler))) (\<lambda>(ciphertext, tag).
     let e = \<lparr>pe_header = h, pe_ephemeral_public_key = ephemeral, pe_nonce = nonce,
              pe_encrypted_payload = ciphertext @ tag\<rparr> in
     bindr (validate_envelope K ks cx e) (\<lambda>_. Ok e)))))))"

section \<open>Decryption shares\<close>

definition dleq_challenge ::
  "curve \<Rightarrow> nat \<Rightarrow> bytes \<Rightarrow> bytes \<Rightarrow> bytes \<Rightarrow> bytes \<Rightarrow> bytes \<Rightarrow> bytes \<Rightarrow> bytes \<Rightarrow> int" where
  "dleq_challenge K validator_id key_id ciphertext_id validator_public ephemeral shared_point
     commitment_base commitment_ephemeral =
     cv_hash_scalar K (domain_tag ''ASTERIA_PRIVATE_ORDER_DLEQ_V2'' @ be_bytes 2 validator_id @ key_id
       @ ciphertext_id @ cv_base K @ validator_public @ ephemeral @ shared_point @ commitment_base
       @ commitment_ephemeral)"

text \<open>The two equations of a Chaum-Pedersen proof.\<close>

definition dleq_holds ::
  "curve \<Rightarrow> int \<Rightarrow> int \<Rightarrow> bytes \<Rightarrow> bytes \<Rightarrow> bytes \<Rightarrow> bytes \<Rightarrow> bytes \<Rightarrow> bool" where
  "dleq_holds K response challenge validator_public base2 point2 commitment1 commitment2 \<longleftrightarrow>
     cv_mul K response (cv_base K) = cv_add K commitment1 (cv_mul K challenge validator_public) \<and>
     cv_mul K response base2 = cv_add K commitment2 (cv_mul K challenge point2)"

definition create_decryption_share ::
  "curve \<Rightarrow> public_key_set \<Rightarrow> secret_share \<Rightarrow> order_context \<Rightarrow> order_envelope \<Rightarrow> int list \<Rightarrow>
   (decryption_share \<times> int list) po" where
  "create_decryption_share K ks ss cx e rs =
     bindr (validate_envelope K ks cx e) (\<lambda>aad.
     bindr (validate_secret_share K ks ss) (\<lambda>scalar.
     bindr (map_err InvalidEnvelope
       (decompress_non_identity K (pe_ephemeral_public_key e) ''envelope ephemeral public key'')) (\<lambda>ephemeral.
     bindr (find_validator ks (ss_validator_id ss)) (\<lambda>v.
     bindr (map_err InvalidKeySet (decompress_non_identity K (ps_public_key v) ''validator public share'')) (\<lambda>validator_public.
     let shared_point = cv_mul K scalar ephemeral in
     bindr (random_nonzero_scalar rs) (\<lambda>(witness, rs).
     let commitment_base = cv_mul K witness (cv_base K);
         commitment_ephemeral = cv_mul K witness ephemeral;
         ciphertext_id = compute_ciphertext_id K e aad;
         challenge = dleq_challenge K (ss_validator_id ss) (ks_key_id ks) ciphertext_id validator_public
           ephemeral shared_point commitment_base commitment_ephemeral;
         response = (witness + challenge * scalar) mod cv_order K in
     Ok (\<lparr>ds_version = PRIVATE_ORDER_FORMAT_VERSION, ds_epoch = pc_epoch cx,
          ds_validator_id = ss_validator_id ss, ds_key_id = ks_key_id ks, ds_ciphertext_id = ciphertext_id,
          ds_shared_point = shared_point,
          ds_proof = \<lparr>cp_commitment_base = commitment_base, cp_commitment_ephemeral = commitment_ephemeral,
            cp_response = cv_scalar_bytes K response\<rparr>\<rparr>, rs)))))))"

definition verify_decryption_share ::
  "curve \<Rightarrow> public_key_set \<Rightarrow> order_context \<Rightarrow> order_envelope \<Rightarrow> decryption_share \<Rightarrow> unit po" where
  "verify_decryption_share K ks cx e share =
     (let invalid = InvalidDecryptionShare (ds_validator_id share); proof = ds_proof share in
      bindr (validate_envelope K ks cx e) (\<lambda>aad.
      if ds_version share \<noteq> PRIVATE_ORDER_FORMAT_VERSION then Err (invalid ''unsupported share version'')
      else if ds_epoch share \<noteq> pc_epoch cx then Err (invalid ''share epoch does not match the envelope'')
      else if ds_key_id share \<noteq> ks_key_id ks then Err (invalid ''share key_id does not match the epoch key'')
      else if ds_ciphertext_id share \<noteq> compute_ciphertext_id K e aad
      then Err (invalid ''share is bound to a different ciphertext or context'')
      else
        bindr (find_validator ks (ds_validator_id share)) (\<lambda>v.
        bindr (map_err invalid (decompress_non_identity K (ps_public_key v) ''validator public share'')) (\<lambda>validator_public.
        bindr (map_err invalid (decompress_non_identity K (pe_ephemeral_public_key e) ''envelope ephemeral public key'')) (\<lambda>ephemeral.
        bindr (map_err invalid (decompress_non_identity K (ds_shared_point share) ''partial shared point'')) (\<lambda>shared_point.
        bindr (map_err invalid (decompress_point K (cp_commitment_base proof) ''base commitment'')) (\<lambda>commitment_base.
        bindr (map_err invalid (decompress_point K (cp_commitment_ephemeral proof) ''ephemeral commitment'')) (\<lambda>commitment_ephemeral.
        bindr (map_err invalid (canonical_scalar K (cp_response proof) ''proof response'')) (\<lambda>response.
        let challenge = dleq_challenge K (ds_validator_id share) (ks_key_id ks) (ds_ciphertext_id share)
          validator_public ephemeral shared_point commitment_base commitment_ephemeral in
        check (dleq_holds K response challenge validator_public ephemeral shared_point commitment_base commitment_ephemeral)
          (invalid ''Chaum-Pedersen proof verification failed''))))))))))"

section \<open>The beacon\<close>

definition beacon_context :: "string \<Rightarrow> nat \<Rightarrow> bytes \<Rightarrow> bytes \<Rightarrow> bytes" where
  "beacon_context chain_id height app_hash key_id =
     be_bytes 2 PRIVATE_ORDER_FORMAT_VERSION @ be_bytes 2 (length chain_id) @ ascii chain_id
     @ be_bytes 8 height @ app_hash @ key_id"

definition beacon_base_point :: "curve \<Rightarrow> string \<Rightarrow> nat \<Rightarrow> bytes \<Rightarrow> bytes \<Rightarrow> bytes po" where
  "beacon_base_point K chain_id height app_hash key_id =
     bindr (validate_identifier ''chain_id'' chain_id 128) (\<lambda>_.
     if height = 0 then Err (InvalidBeacon ''height must be greater than zero'')
     else
       (let point = cv_hash_point K (domain_tag ''ASTERIA_PRIVATE_ORDER_BEACON_BASE_V2''
          @ beacon_context chain_id height app_hash key_id) in
        if point = cv_identity K then Err (InvalidBeacon ''derived beacon base must not be the identity'')
        else Ok point))"

definition beacon_dleq_challenge ::
  "curve \<Rightarrow> string \<Rightarrow> nat \<Rightarrow> bytes \<Rightarrow> bytes \<Rightarrow> nat \<Rightarrow> bytes \<Rightarrow> bytes \<Rightarrow> bytes \<Rightarrow> bytes \<Rightarrow> bytes \<Rightarrow> int" where
  "beacon_dleq_challenge K chain_id height app_hash key_id validator_id validator_public beacon_base
     beacon_point commitment_base commitment_beacon =
     cv_hash_scalar K (domain_tag ''ASTERIA_PRIVATE_ORDER_BEACON_DLEQ_V2''
       @ beacon_context chain_id height app_hash key_id @ be_bytes 2 validator_id @ cv_base K
       @ validator_public @ beacon_base @ beacon_point @ commitment_base @ commitment_beacon)"

definition create_beacon_share ::
  "curve \<Rightarrow> public_key_set \<Rightarrow> secret_share \<Rightarrow> string \<Rightarrow> nat \<Rightarrow> bytes \<Rightarrow> int list \<Rightarrow> (beacon_share \<times> int list) po" where
  "create_beacon_share K ks ss chain_id height app_hash rs =
     bindr (validate_key_set K ks) (\<lambda>_.
     bindr (beacon_base_point K chain_id height app_hash (ks_key_id ks)) (\<lambda>beacon_base.
     bindr (validate_secret_share K ks ss) (\<lambda>scalar.
     bindr (find_validator ks (ss_validator_id ss)) (\<lambda>v.
     bindr (map_err InvalidBeacon (decompress_non_identity K (ps_public_key v) ''validator public share'')) (\<lambda>validator_public.
     let beacon_point = cv_mul K scalar beacon_base in
     bindr (random_nonzero_scalar rs) (\<lambda>(witness, rs).
     let commitment_base = cv_mul K witness (cv_base K);
         commitment_beacon = cv_mul K witness beacon_base;
         challenge = beacon_dleq_challenge K chain_id height app_hash (ks_key_id ks) (ss_validator_id ss)
           validator_public beacon_base beacon_point commitment_base commitment_beacon;
         response = (witness + challenge * scalar) mod cv_order K in
     Ok (\<lparr>be_version = PRIVATE_ORDER_FORMAT_VERSION, be_epoch = ks_epoch ks, be_height = height,
          be_validator_id = ss_validator_id ss, be_key_id = ks_key_id ks, be_committed_app_hash = app_hash,
          be_beacon_point = beacon_point,
          be_proof = \<lparr>cp_commitment_base = commitment_base, cp_commitment_ephemeral = commitment_beacon,
            cp_response = cv_scalar_bytes K response\<rparr>\<rparr>, rs)))))))"

definition verify_beacon_share ::
  "curve \<Rightarrow> public_key_set \<Rightarrow> string \<Rightarrow> nat \<Rightarrow> bytes \<Rightarrow> beacon_share \<Rightarrow> unit po" where
  "verify_beacon_share K ks chain_id height app_hash share =
     (let invalid = (\<lambda>reason. InvalidBeacon (''share from validator: '' @ reason)); proof = be_proof share in
      bindr (validate_key_set K ks) (\<lambda>_.
      if be_version share \<noteq> PRIVATE_ORDER_FORMAT_VERSION then Err (invalid ''unsupported share version'')
      else if be_epoch share \<noteq> ks_epoch ks then Err (invalid ''share epoch does not match the public key set'')
      else if be_height share \<noteq> height then Err (invalid ''share height does not match the committed batch'')
      else if be_key_id share \<noteq> ks_key_id ks then Err (invalid ''share key_id does not match the epoch key'')
      else if be_committed_app_hash share \<noteq> app_hash
      then Err (invalid ''share app hash does not match the committed batch'')
      else
        bindr (beacon_base_point K chain_id height app_hash (ks_key_id ks)) (\<lambda>beacon_base.
        bindr (find_validator ks (be_validator_id share)) (\<lambda>v.
        bindr (map_err invalid (decompress_non_identity K (ps_public_key v) ''validator public share'')) (\<lambda>validator_public.
        bindr (map_err invalid (decompress_non_identity K (be_beacon_point share) ''partial beacon point'')) (\<lambda>beacon_point.
        bindr (map_err invalid (decompress_point K (cp_commitment_base proof) ''base commitment'')) (\<lambda>commitment_base.
        bindr (map_err invalid (decompress_point K (cp_commitment_ephemeral proof) ''beacon commitment'')) (\<lambda>commitment_beacon.
        bindr (map_err invalid (canonical_scalar K (cp_response proof) ''proof response'')) (\<lambda>response.
        let challenge = beacon_dleq_challenge K chain_id height app_hash (ks_key_id ks) (be_validator_id share)
          validator_public beacon_base beacon_point commitment_base commitment_beacon in
        check (dleq_holds K response challenge validator_public beacon_base beacon_point commitment_base commitment_beacon)
          (invalid ''Chaum-Pedersen proof verification failed''))))))))))"

text \<open>The loop of \<open>aggregate_beacon_shares\<close> with the previous validator.\<close>

fun beacon_points ::
  "curve \<Rightarrow> public_key_set \<Rightarrow> string \<Rightarrow> nat \<Rightarrow> bytes \<Rightarrow> nat \<Rightarrow> beacon_share list \<Rightarrow> (nat \<times> bytes) list po" where
  "beacon_points K ks chain_id height app_hash previous [] = Ok []"
| "beacon_points K ks chain_id height app_hash previous (share # shares) =
     (if be_validator_id share \<le> previous
      then Err (InvalidBeacon ''shares must be strictly ordered by validator_id'')
      else
        bindr (verify_beacon_share K ks chain_id height app_hash share) (\<lambda>_.
        bindr (map_err InvalidBeacon (decompress_non_identity K (be_beacon_point share) ''partial beacon point'')) (\<lambda>p.
        bindr (beacon_points K ks chain_id height app_hash (be_validator_id share) shares) (\<lambda>ps.
        Ok ((be_validator_id share, p) # ps)))))"

definition aggregate_beacon_shares ::
  "curve \<Rightarrow> public_key_set \<Rightarrow> string \<Rightarrow> nat \<Rightarrow> bytes \<Rightarrow> beacon_share list \<Rightarrow> bytes po" where
  "aggregate_beacon_shares K ks chain_id height app_hash shares =
     (if length shares \<noteq> PRIVATE_ORDER_THRESHOLD then Err (InvalidBeacon ''expected exactly 3 shares'')
      else
        bindr (beacon_points K ks chain_id height app_hash 0 shares) (\<lambda>points.
        bindr (interpolate_points_at_zero K points) (\<lambda>beacon.
        if beacon = cv_identity K then Err (InvalidBeacon ''interpolated beacon must not be the identity'')
        else Ok beacon)))"

section \<open>Decryption\<close>

text \<open>The loop over the shares, with the validators seen.\<close>

fun share_points ::
  "curve \<Rightarrow> public_key_set \<Rightarrow> order_context \<Rightarrow> order_envelope \<Rightarrow> nat list \<Rightarrow> decryption_share list \<Rightarrow>
   (nat \<times> bytes) list po" where
  "share_points K ks cx e seen [] = Ok []"
| "share_points K ks cx e seen (share # shares) =
     (if ds_validator_id share \<in> set seen then Err (DuplicateValidator (ds_validator_id share))
      else
        bindr (verify_decryption_share K ks cx e share) (\<lambda>_.
        bindr (map_err (InvalidDecryptionShare (ds_validator_id share))
          (decompress_non_identity K (ds_shared_point share) ''partial shared point'')) (\<lambda>p.
        bindr (share_points K ks cx e (ds_validator_id share # seen) shares) (\<lambda>ps.
        Ok ((ds_validator_id share, p) # ps)))))"

definition unpad_payload :: "bytes \<Rightarrow> bytes po" where
  "unpad_payload padded =
     (let n = of_be [padded ! 0, padded ! 1] in
      if n = 0 \<or> MAX_PRIVATE_ORDER_PAYLOAD_BYTES < n then Err InvalidPayloadLength
      else Ok (take n (drop 2 padded)))"

definition decrypt_private_order ::
  "curve \<Rightarrow> public_key_set \<Rightarrow> order_context \<Rightarrow> order_envelope \<Rightarrow> decryption_share list \<Rightarrow> bytes po" where
  "decrypt_private_order K ks cx e shares =
     bindr (validate_envelope K ks cx e) (\<lambda>aad.
     if length shares < PRIVATE_ORDER_THRESHOLD
     then Err (InsufficientShares (length shares) PRIVATE_ORDER_THRESHOLD)
     else
       bindr (share_points K ks cx e [] shares) (\<lambda>points.
       bindr (interpolate_points_at_zero K (sort_key fst points)) (\<lambda>shared_point.
       bindr (derive_aead_key K shared_point aad (ks_key_id ks) (ks_public_key ks) (pe_ephemeral_public_key e)) (\<lambda>key.
       bindr (ok_or AuthenticationFailed (cv_open K key (pe_nonce e) aad
         (take PADDED_PRIVATE_ORDER_BYTES (pe_encrypted_payload e))
         (drop PADDED_PRIVATE_ORDER_BYTES (pe_encrypted_payload e)))) (\<lambda>padded.
       unpad_payload padded)))))"

end
