(* ===== verification/Private_Protocol.thy ===== *)
theory Private_Protocol
  imports Private_Order
begin

text \<open>
  The protocol around encrypted orders (\<open>private_protocol.rs\<close>): the admission of a signed submission, the
  vote extensions that carry decryption shares, and the bundle that a block executes, verified against
  the exact set of pending submissions. Canonical JSON (\<open>serde_jcs\<close>, \<open>serde_json\<close>) and Ed25519 are
  other crates: \<open>None\<close> is an encoder that fails.
\<close>

record extension_share =
  xs_submission_id :: bytes
  xs_share :: decryption_share

record vote_extension =
  ve_version :: nat
  ve_height :: nat
  ve_committed_app_hash :: bytes
  ve_validator_id :: nat
  ve_beacon_share :: beacon_share
  ve_shares :: "extension_share list"

record protocol_env =
  pv_curve :: curve
  pv_submission_json :: "submission \<Rightarrow> bytes option"
  pv_signing_json :: "nat \<times> string \<times> nat \<times> nat \<times> order_envelope \<Rightarrow> bytes option"
  pv_payload_json :: "order_payload \<Rightarrow> bytes option"
  pv_payload_parse :: "bytes \<Rightarrow> order_payload option"
  pv_key_parses :: "bytes \<Rightarrow> bool"
  pv_key_weak :: "bytes \<Rightarrow> bool"
  pv_verify_strict :: "bytes \<Rightarrow> bytes \<Rightarrow> bytes \<Rightarrow> bool"
  pv_hex :: "bytes \<Rightarrow> string"
  pv_public_key :: "bytes \<Rightarrow> bytes"
  pv_sign :: "bytes \<Rightarrow> bytes \<Rightarrow> bytes"
  pv_submission_parse :: "bytes \<Rightarrow> submission option"
  pv_extension_json :: "vote_extension \<Rightarrow> bytes option"
  pv_extension_parse :: "bytes \<Rightarrow> vote_extension option"
  pv_bundle_json :: "decryption_bundle \<Rightarrow> bytes option"
  pv_bundle_parse :: "bytes \<Rightarrow> decryption_bundle option"

datatype protocol_error =
    CanonicalEncoding string
  | NonCanonicalEncoding string
  | EncodedSizeLimit string nat nat
  | InvalidPayload string
  | InvalidSubmission string
  | WrongChain string string
  | WrongNonce nat nat
  | WrongHeight nat nat
  | SubmissionExpired nat nat
  | InvalidAntiSpamCommitment
  | InvalidFeePayer string
  | InvalidFeePayerSignature
  | InvalidVoteExtension string
  | InvalidDecryptionBundle string
  | DuplicateSubmissionId string
  | ReplayedPayerNonce nat
  | InsufficientVoteExtensions nat nat
  | Threshold private_order_error

type_synonym 'a pp = "(protocol_error, 'a) res"

definition PRIVATE_PROTOCOL_VERSION :: nat where "PRIVATE_PROTOCOL_VERSION = 3"
definition MAX_PRIVATE_PROTOCOL_CHAIN_ID_BYTES :: nat where "MAX_PRIVATE_PROTOCOL_CHAIN_ID_BYTES = 128"
definition MAX_PRIVATE_CLIENT_ID_BYTES :: nat where "MAX_PRIVATE_CLIENT_ID_BYTES = 64"
definition MAX_PRIVATE_ORDER_VALIDITY_WINDOW :: nat where "MAX_PRIVATE_ORDER_VALIDITY_WINDOW = 64"
definition MAX_PRIVATE_ORDER_SUBMISSION_BYTES :: nat where "MAX_PRIVATE_ORDER_SUBMISSION_BYTES = 4 * 1024"
definition MAX_VOTE_EXTENSION_SHARES :: nat where "MAX_VOTE_EXTENSION_SHARES = MAX_PENDING_PRIVATE_ORDERS"
definition MAX_VOTE_EXTENSION_BYTES :: nat where "MAX_VOTE_EXTENSION_BYTES = 128 * 1024"
definition MAX_DECRYPTION_BUNDLE_BYTES :: nat where "MAX_DECRYPTION_BUNDLE_BYTES = 256 * 1024"
definition MAX_DECRYPTION_BUNDLE_ENTRIES :: nat where "MAX_DECRYPTION_BUNDLE_ENTRIES = MAX_PENDING_PRIVATE_ORDERS"

definition liftp :: "'a po \<Rightarrow> 'a pp" where
  "liftp r = map_err Threshold r"

section \<open>Encodings\<close>

definition hash_parts :: "digest \<Rightarrow> bytes \<Rightarrow> bytes list \<Rightarrow> bytes" where
  "hash_parts H domain parts = H (domain @ concat parts)"

definition check_encoded_size :: "nat \<Rightarrow> nat \<Rightarrow> string \<Rightarrow> unit pp" where
  "check_encoded_size actual maximum object = check (actual \<le> maximum) (EncodedSizeLimit object actual maximum)"

definition canonical_encode :: "('a \<Rightarrow> bytes option) \<Rightarrow> 'a \<Rightarrow> nat \<Rightarrow> string \<Rightarrow> bytes pp" where
  "canonical_encode json x maximum object =
     bindr (ok_or (CanonicalEncoding object) (json x)) (\<lambda>bs.
     bindr (check_encoded_size (length bs) maximum object) (\<lambda>_. Ok bs))"

definition canonical_decode ::
  "(bytes \<Rightarrow> 'a option) \<Rightarrow> ('a \<Rightarrow> bytes option) \<Rightarrow> bytes \<Rightarrow> nat \<Rightarrow> string \<Rightarrow> 'a pp" where
  "canonical_decode parse json bs maximum object =
     bindr (check_encoded_size (length bs) maximum object) (\<lambda>_.
     bindr (ok_or (CanonicalEncoding object) (parse bs)) (\<lambda>x.
     bindr (ok_or (CanonicalEncoding object) (json x)) (\<lambda>canonical.
     if canonical \<noteq> bs then Err (NonCanonicalEncoding object) else Ok x)))"

definition validate_printable_identifier :: "string \<Rightarrow> string \<Rightarrow> nat \<Rightarrow> (string, unit) res" where
  "validate_printable_identifier field s maximum =
     (if s = [] \<or> maximum < length s then Err (field @ '' has an invalid length'')
      else check (printable s) (field @ '' must contain only non-whitespace printable ASCII''))"

definition validate_chain_id :: "string \<Rightarrow> unit pp" where
  "validate_chain_id chain_id =
     map_err InvalidSubmission (validate_printable_identifier ''chain_id'' chain_id MAX_PRIVATE_PROTOCOL_CHAIN_ID_BYTES)"

section \<open>The payload\<close>

definition validate_payload :: "order_payload \<Rightarrow> unit pp" where
  "validate_payload p =
     bindr (map_err InvalidPayload
       (validate_printable_identifier ''client_id'' (pp_client_id p) MAX_PRIVATE_CLIENT_ID_BYTES)) (\<lambda>_.
     if pp_quantity_lots p = 0 then Err (InvalidPayload ''quantity_lots must be greater than zero'')
     else if pp_leverage p < 1 \<or> 125 < pp_leverage p
     then Err (InvalidPayload ''leverage must be between 1 and 125'')
     else if pp_kind p = Market \<and> pp_price_ticks p \<noteq> 0
     then Err (InvalidPayload ''market orders must encode price_ticks as zero'')
     else if pp_kind p = Limit \<and> pp_price_ticks p = 0
     then Err (InvalidPayload ''limit orders require a non-zero price_ticks'')
     else if pp_ioc p = pp_fok p
     then Err (InvalidPayload ''exactly one of ioc or fok must be true for single-batch execution'')
     else Ok ())"

definition payload_to_bytes :: "protocol_env \<Rightarrow> order_payload \<Rightarrow> bytes pp" where
  "payload_to_bytes V p =
     bindr (validate_payload p) (\<lambda>_.
     canonical_encode (pv_payload_json V) p MAX_PRIVATE_ORDER_PAYLOAD_BYTES ''private-order payload'')"

definition payload_from_bytes :: "protocol_env \<Rightarrow> bytes \<Rightarrow> order_payload pp" where
  "payload_from_bytes V bs =
     bindr (canonical_decode (pv_payload_parse V) (pv_payload_json V) bs MAX_PRIVATE_ORDER_PAYLOAD_BYTES
       ''private-order payload'') (\<lambda>p.
     bindr (validate_payload p) (\<lambda>_. Ok p))"

fun payload_error_reason :: "protocol_error \<Rightarrow> invalid_reason" where
  "payload_error_reason e = (case e of
       NonCanonicalEncoding _ \<Rightarrow> NonCanonicalPayload
     | InvalidPayload _ \<Rightarrow> InvalidPayloadSemantics
     | _ \<Rightarrow> MalformedPayload)"

section \<open>The submission\<close>

definition anti_spam_commitment :: "digest \<Rightarrow> string \<Rightarrow> bytes \<Rightarrow> nat \<Rightarrow> bytes pp" where
  "anti_spam_commitment H chain_id fee_payer nonce =
     bindr (validate_chain_id chain_id) (\<lambda>_.
     if fee_payer = zero32 then Err (InvalidFeePayer ''public key must not be all zeroes'')
     else Ok (hash_parts H (domain_tag ''ASTERIA_PRIVATE_ORDER_ANTI_SPAM_V3'')
       [be_bytes 2 (length chain_id), ascii chain_id, fee_payer, be_bytes 8 nonce]))"

definition validate_envelope_wire_shape :: "curve \<Rightarrow> order_envelope \<Rightarrow> unit pp" where
  "validate_envelope_wire_shape K e =
     (let h = pe_header e in
      if ph_version h \<noteq> PRIVATE_ORDER_FORMAT_VERSION then Err (InvalidSubmission ''unsupported envelope version'')
      else if ph_batch_height h = 0
      then Err (InvalidSubmission ''envelope batch_height must be greater than zero'')
      else if ph_fee_payer h = zero32 \<or> ph_anti_spam_commitment h = zero32 \<or> ph_key_id h = zero32
      then Err (InvalidSubmission ''fee_payer, anti_spam_commitment, and key_id must be non-zero'')
      else if length (pe_encrypted_payload e) \<noteq> ENCRYPTED_PRIVATE_ORDER_BYTES
      then Err (InvalidSubmission ''encrypted payload has the wrong length'')
      else
        bindr (map_err InvalidSubmission (validate_printable_identifier ''market_id'' (ph_market_id h) 64)) (\<lambda>_.
        if \<not> cv_canonical K (pe_ephemeral_public_key e)
        then Err (InvalidSubmission ''ephemeral_public_key is not a canonical Ristretto point'')
        else if pe_ephemeral_public_key e = cv_identity K
        then Err (InvalidSubmission ''ephemeral_public_key must not be the identity point'')
        else Ok ()))"

definition verifying_key :: "protocol_env \<Rightarrow> bytes \<Rightarrow> bytes pp" where
  "verifying_key V bs =
     (if \<not> pv_key_parses V bs then Err (InvalidFeePayer ''not an Ed25519 public key'')
      else if pv_key_weak V bs then Err (InvalidFeePayer ''weak Ed25519 public keys are not accepted'')
      else Ok bs)"

definition signing_message :: "protocol_env \<Rightarrow> submission \<Rightarrow> bytes pp" where
  "signing_message V sb =
     bindr (canonical_encode (pv_signing_json V)
       (sb_version sb, sb_chain_id sb, sb_nonce sb, sb_valid_until_height sb, sb_envelope sb)
       MAX_PRIVATE_ORDER_SUBMISSION_BYTES ''private-order signing payload'') (\<lambda>canonical.
     Ok (domain_tag ''ASTERIA_PRIVATE_ORDER_SUBMISSION_V3'' @ canonical))"

definition verify_signature :: "protocol_env \<Rightarrow> submission \<Rightarrow> unit pp" where
  "verify_signature V sb =
     bindr (verifying_key V (ph_fee_payer (pe_header (sb_envelope sb)))) (\<lambda>key.
     bindr (signing_message V sb) (\<lambda>message.
     check (pv_verify_strict V key message (sb_signature sb)) InvalidFeePayerSignature))"

definition validate_self_contained :: "protocol_env \<Rightarrow> submission \<Rightarrow> bool \<Rightarrow> unit pp" where
  "validate_self_contained V sb with_signature =
     (let h = pe_header (sb_envelope sb); K = pv_curve V in
      if sb_version sb \<noteq> PRIVATE_PROTOCOL_VERSION then Err (InvalidSubmission ''unsupported protocol version'')
      else
        bindr (validate_chain_id (sb_chain_id sb)) (\<lambda>_.
        if sb_nonce sb = u64_max
        then Err (InvalidSubmission ''nonce must leave room for the next account nonce'')
        else if sb_valid_until_height sb = 0
        then Err (InvalidSubmission ''valid_until_height must be greater than zero'')
        else
          bindr (validate_envelope_wire_shape K (sb_envelope sb)) (\<lambda>_.
          if sb_valid_until_height sb < ph_batch_height h
          then Err (SubmissionExpired (sb_valid_until_height sb) (ph_batch_height h))
          else if MAX_PRIVATE_ORDER_VALIDITY_WINDOW < sb_valid_until_height sb - ph_batch_height h
          then Err (InvalidSubmission ''validity window is too long'')
          else
            bindr (anti_spam_commitment (cv_sha K) (sb_chain_id sb) (ph_fee_payer h) (sb_nonce sb)) (\<lambda>expected.
            if ph_anti_spam_commitment h \<noteq> expected then Err InvalidAntiSpamCommitment
            else if with_signature then verify_signature V sb else Ok ()))))"

definition submission_id_after_validation :: "protocol_env \<Rightarrow> submission \<Rightarrow> bytes pp" where
  "submission_id_after_validation V sb =
     bindr (canonical_encode (pv_submission_json V) sb MAX_PRIVATE_ORDER_SUBMISSION_BYTES
       ''private-order submission'') (\<lambda>canonical.
     Ok (hash_parts (cv_sha (pv_curve V)) (domain_tag ''ASTERIA_PRIVATE_ORDER_SUBMISSION_ID_V3'') [canonical]))"

definition submission_to_bytes :: "protocol_env \<Rightarrow> submission \<Rightarrow> bytes pp" where
  "submission_to_bytes V sb =
     bindr (validate_self_contained V sb True) (\<lambda>_.
     canonical_encode (pv_submission_json V) sb MAX_PRIVATE_ORDER_SUBMISSION_BYTES ''private-order submission'')"

definition submission_from_bytes :: "protocol_env \<Rightarrow> bytes \<Rightarrow> submission pp" where
  "submission_from_bytes V bs =
     bindr (canonical_decode (pv_submission_parse V) (pv_submission_json V) bs
       MAX_PRIVATE_ORDER_SUBMISSION_BYTES ''private-order submission'') (\<lambda>sb.
     bindr (validate_self_contained V sb True) (\<lambda>_. Ok sb))"

text \<open>\<open>sign\<close>: the key is the secret from which the crate derives the public key and the signature.\<close>

definition sign_submission ::
  "protocol_env \<Rightarrow> string \<Rightarrow> nat \<Rightarrow> nat \<Rightarrow> order_envelope \<Rightarrow> bytes \<Rightarrow> submission pp" where
  "sign_submission V chain_id nonce valid_until e key =
     (let h = pe_header e; fee_payer = pv_public_key V key in
      if ph_fee_payer h \<noteq> fee_payer
      then Err (InvalidSubmission ''envelope fee_payer does not match the signing key'')
      else
        bindr (anti_spam_commitment (cv_sha (pv_curve V)) chain_id fee_payer nonce) (\<lambda>expected.
        if ph_anti_spam_commitment h \<noteq> expected then Err InvalidAntiSpamCommitment
        else
          (let sb = \<lparr>sb_version = PRIVATE_PROTOCOL_VERSION, sb_chain_id = chain_id, sb_nonce = nonce,
                     sb_valid_until_height = valid_until, sb_envelope = e, sb_signature = replicate 64 0\<rparr> in
           bindr (validate_self_contained V sb False) (\<lambda>_.
           bindr (signing_message V sb) (\<lambda>message.
           let sb = sb\<lparr>sb_signature := pv_sign V key message\<rparr> in
           bindr (validate_self_contained V sb True) (\<lambda>_. Ok sb))))))"

definition submission_id :: "protocol_env \<Rightarrow> submission \<Rightarrow> bytes pp" where
  "submission_id V sb =
     bindr (validate_self_contained V sb True) (\<lambda>_. submission_id_after_validation V sb)"

definition verify_pending_with_validated_keyset ::
  "protocol_env \<Rightarrow> submission \<Rightarrow> string \<Rightarrow> nat \<Rightarrow> public_key_set \<Rightarrow> order_context pp" where
  "verify_pending_with_validated_keyset V sb chain_id batch_height ks =
     (let h = pe_header (sb_envelope sb) in
      if sb_chain_id sb \<noteq> chain_id then Err (WrongChain chain_id (sb_chain_id sb))
      else if ph_batch_height h \<noteq> batch_height then Err (WrongHeight batch_height (ph_batch_height h))
      else if ph_epoch h \<noteq> ks_epoch ks \<or> ph_key_id h \<noteq> ks_key_id ks
      then Err (InvalidSubmission ''envelope epoch key does not match the expected key set'')
      else
        bindr (validate_self_contained V sb True) (\<lambda>_.
        let cx = \<lparr>pc_chain_id = sb_chain_id sb, pc_market_id = ph_market_id h, pc_epoch = ph_epoch h,
                  pc_batch_height = ph_batch_height h\<rparr> in
        bindr (liftp (validate_context cx)) (\<lambda>_. Ok cx)))"

definition verify_pending_submission ::
  "protocol_env \<Rightarrow> submission \<Rightarrow> string \<Rightarrow> nat \<Rightarrow> public_key_set \<Rightarrow> order_context pp" where
  "verify_pending_submission V sb chain_id batch_height ks =
     bindr (liftp (validate_key_set (pv_curve V) ks)) (\<lambda>_.
     verify_pending_with_validated_keyset V sb chain_id batch_height ks)"

definition verify_submission ::
  "protocol_env \<Rightarrow> submission \<Rightarrow> string \<Rightarrow> nat \<Rightarrow> nat \<Rightarrow> nat \<Rightarrow> public_key_set \<Rightarrow> order_context pp" where
  "verify_submission V sb chain_id nonce current_height batch_height ks =
     (let h = pe_header (sb_envelope sb) in
      if batch_height \<noteq> current_height then Err (WrongHeight current_height batch_height)
      else if sb_chain_id sb \<noteq> chain_id then Err (WrongChain chain_id (sb_chain_id sb))
      else if ph_batch_height h \<noteq> current_height then Err (WrongHeight current_height (ph_batch_height h))
      else if sb_nonce sb \<noteq> nonce then Err (WrongNonce nonce (sb_nonce sb))
      else if sb_valid_until_height sb < current_height
      then Err (SubmissionExpired (sb_valid_until_height sb) current_height)
      else verify_pending_submission V sb chain_id batch_height ks)"

section \<open>The pending set\<close>

type_synonym pending_map = "(bytes, submission \<times> order_context) omap"

fun index_pending ::
  "protocol_env \<Rightarrow> string \<Rightarrow> nat \<Rightarrow> public_key_set \<Rightarrow> submission list \<Rightarrow> pending_map \<Rightarrow>
   (bytes \<times> nat) list \<Rightarrow> pending_map pp" where
  "index_pending V chain_id height ks [] index payer_nonces = Ok index"
| "index_pending V chain_id height ks (sb # sbs) index payer_nonces =
     bindr (verify_pending_with_validated_keyset V sb chain_id height ks) (\<lambda>cx.
     bindr (submission_id_after_validation V sb) (\<lambda>sid.
     if om_get index sid \<noteq> None then Err (DuplicateSubmissionId (pv_hex V sid))
     else
       (let payer_nonce = (ph_fee_payer (pe_header (sb_envelope sb)), sb_nonce sb) in
        if payer_nonce \<in> set payer_nonces then Err (ReplayedPayerNonce (sb_nonce sb))
        else index_pending V chain_id height ks sbs (om_insert sid (sb, cx) index) (payer_nonce # payer_nonces))))"

definition pending_index ::
  "protocol_env \<Rightarrow> string \<Rightarrow> nat \<Rightarrow> public_key_set \<Rightarrow> submission list \<Rightarrow> pending_map pp" where
  "pending_index V chain_id height ks pending =
     (if MAX_PENDING_PRIVATE_ORDERS < length pending
      then Err (InvalidDecryptionBundle ''too many pending ciphertexts'')
      else bindr (liftp (validate_key_set (pv_curve V) ks)) (\<lambda>_.
           index_pending V chain_id height ks pending [] []))"

section \<open>Vote extensions\<close>

fun extension_shares_ok :: "nat \<Rightarrow> bytes option \<Rightarrow> extension_share list \<Rightarrow> unit pp" where
  "extension_shares_ok validator_id previous [] = Ok ()"
| "extension_shares_ok validator_id previous (item # items) =
     (if xs_submission_id item = zero32
      then Err (InvalidVoteExtension ''submission_id must not be all zeroes'')
      else if (case previous of None \<Rightarrow> False | Some sid \<Rightarrow> xs_submission_id item \<le> sid)
      then Err (InvalidVoteExtension ''shares must be strictly ordered by submission_id'')
      else if ds_validator_id (xs_share item) \<noteq> validator_id
      then Err (InvalidVoteExtension ''all shares must belong to validator_id'')
      else extension_shares_ok validator_id (Some (xs_submission_id item)) items)"

definition validate_extension_shape :: "vote_extension \<Rightarrow> unit pp" where
  "validate_extension_shape ve =
     (let b = ve_beacon_share ve in
      if ve_version ve \<noteq> PRIVATE_PROTOCOL_VERSION then Err (InvalidVoteExtension ''unsupported version'')
      else if ve_height ve = 0 \<or> ve_validator_id ve = 0
      then Err (InvalidVoteExtension ''height and validator_id must be non-zero'')
      else if be_validator_id b \<noteq> ve_validator_id ve \<or> be_height b \<noteq> ve_height ve
        \<or> be_committed_app_hash b \<noteq> ve_committed_app_hash ve
      then Err (InvalidVoteExtension ''beacon share does not match the extension context'')
      else if MAX_VOTE_EXTENSION_SHARES < length (ve_shares ve)
      then Err (InvalidVoteExtension ''share count is too large'')
      else extension_shares_ok (ve_validator_id ve) None (ve_shares ve))"

definition extension_to_bytes :: "protocol_env \<Rightarrow> vote_extension \<Rightarrow> bytes pp" where
  "extension_to_bytes V ve =
     bindr (validate_extension_shape ve) (\<lambda>_.
     canonical_encode (pv_extension_json V) ve MAX_VOTE_EXTENSION_BYTES ''private-order vote extension'')"

definition extension_from_bytes :: "protocol_env \<Rightarrow> bytes \<Rightarrow> vote_extension pp" where
  "extension_from_bytes V bs =
     bindr (canonical_decode (pv_extension_parse V) (pv_extension_json V) bs MAX_VOTE_EXTENSION_BYTES
       ''private-order vote extension'') (\<lambda>ve.
     bindr (validate_extension_shape ve) (\<lambda>_. Ok ve))"

fun build_shares ::
  "protocol_env \<Rightarrow> public_key_set \<Rightarrow> secret_share \<Rightarrow> (bytes \<times> submission \<times> order_context) list \<Rightarrow> int list \<Rightarrow>
   extension_share list pp" where
  "build_shares V ks ss [] rs = Ok []"
| "build_shares V ks ss ((sid, sb, cx) # items) rs =
     bindr (liftp (create_decryption_share (pv_curve V) ks ss cx (sb_envelope sb) rs)) (\<lambda>(share, rs).
     bindr (build_shares V ks ss items rs) (\<lambda>shares.
     Ok (\<lparr>xs_submission_id = sid, xs_share = share\<rparr> # shares)))"

definition has_validator :: "public_key_set \<Rightarrow> nat \<Rightarrow> bool" where
  "has_validator ks i \<longleftrightarrow> (\<exists>v \<in> set (ks_validators ks). ps_validator_id v = i)"

definition build_extension ::
  "protocol_env \<Rightarrow> string \<Rightarrow> nat \<Rightarrow> bytes \<Rightarrow> public_key_set \<Rightarrow> secret_share \<Rightarrow> submission list \<Rightarrow> int list \<Rightarrow>
   vote_extension pp" where
  "build_extension V chain_id height app_hash ks ss pending rs =
     bindr (pending_index V chain_id height ks pending) (\<lambda>index.
     bindr (liftp (create_beacon_share (pv_curve V) ks ss chain_id height app_hash rs)) (\<lambda>(beacon, rs).
     bindr (build_shares V ks ss (om_entries index) rs) (\<lambda>shares.
     let ve = \<lparr>ve_version = PRIVATE_PROTOCOL_VERSION, ve_height = height, ve_committed_app_hash = app_hash,
               ve_validator_id = ss_validator_id ss, ve_beacon_share = beacon, ve_shares = shares\<rparr> in
     bindr (validate_extension_shape ve) (\<lambda>_.
     if \<not> has_validator ks (ss_validator_id ss)
     then Err (InvalidVoteExtension ''validator is not in the epoch key set'')
     else Ok ve))))"

fun verify_extension_shares ::
  "curve \<Rightarrow> public_key_set \<Rightarrow> (extension_share \<times> bytes \<times> submission \<times> order_context) list \<Rightarrow> unit pp" where
  "verify_extension_shares K ks [] = Ok ()"
| "verify_extension_shares K ks ((item, sid, sb, cx) # items) =
     (if xs_submission_id item \<noteq> sid
      then Err (InvalidVoteExtension ''extension does not exactly cover the canonical pending set'')
      else bindr (liftp (verify_decryption_share K ks cx (sb_envelope sb) (xs_share item))) (\<lambda>_.
           verify_extension_shares K ks items))"

definition validate_extension_against_index ::
  "protocol_env \<Rightarrow> vote_extension \<Rightarrow> string \<Rightarrow> nat \<Rightarrow> bytes \<Rightarrow> nat \<Rightarrow> public_key_set \<Rightarrow> pending_map \<Rightarrow> unit pp" where
  "validate_extension_against_index V ve chain_id height app_hash validator_id ks index =
     (if ve_height ve \<noteq> height then Err (WrongHeight height (ve_height ve))
      else
        bindr (validate_extension_shape ve) (\<lambda>_.
        if ve_committed_app_hash ve \<noteq> app_hash
        then Err (InvalidVoteExtension ''extension app hash does not match the committed batch'')
        else if ve_validator_id ve \<noteq> validator_id then Err (InvalidVoteExtension ''validator id mismatch'')
        else if \<not> has_validator ks validator_id
        then Err (InvalidVoteExtension ''validator is not in the epoch key set'')
        else
          bindr (liftp (verify_beacon_share (pv_curve V) ks chain_id height app_hash (ve_beacon_share ve))) (\<lambda>_.
          if length (ve_shares ve) \<noteq> length index
          then Err (InvalidVoteExtension ''extension does not have one share per pending ciphertext'')
          else verify_extension_shares (pv_curve V) ks (zip (ve_shares ve) (om_entries index)))))"

definition validate_vote_extension ::
  "protocol_env \<Rightarrow> vote_extension \<Rightarrow> string \<Rightarrow> nat \<Rightarrow> bytes \<Rightarrow> nat \<Rightarrow> public_key_set \<Rightarrow> submission list \<Rightarrow> unit pp" where
  "validate_vote_extension V ve chain_id height app_hash validator_id ks pending =
     bindr (pending_index V chain_id height ks pending) (\<lambda>index.
     validate_extension_against_index V ve chain_id height app_hash validator_id ks index)"

section \<open>Decryption bundles\<close>

fun beacon_shares_ok :: "decryption_bundle \<Rightarrow> nat \<Rightarrow> beacon_share list \<Rightarrow> unit pp" where
  "beacon_shares_ok db previous [] = Ok ()"
| "beacon_shares_ok db previous (share # shares) =
     (if be_validator_id share \<le> previous
      then Err (InvalidDecryptionBundle ''beacon shares must be strictly ordered by validator_id'')
      else if be_height share \<noteq> db_height db \<or> be_committed_app_hash share \<noteq> db_committed_app_hash db
      then Err (InvalidDecryptionBundle ''beacon share does not match the bundle context'')
      else beacon_shares_ok db (be_validator_id share) shares)"

fun increasing_validators :: "nat \<Rightarrow> decryption_share list \<Rightarrow> bool" where
  "increasing_validators previous [] = True"
| "increasing_validators previous (share # shares) =
     (previous < ds_validator_id share \<and> increasing_validators (ds_validator_id share) shares)"

fun ciphertexts_ok :: "decryption_bundle \<Rightarrow> bytes option \<Rightarrow> ciphertext_decryption list \<Rightarrow> unit pp" where
  "ciphertexts_ok db previous [] = Ok ()"
| "ciphertexts_ok db previous (c # cs) =
     (if cd_submission_id c = zero32
      then Err (InvalidDecryptionBundle ''submission_id must not be all zeroes'')
      else if (case previous of None \<Rightarrow> False | Some sid \<Rightarrow> cd_submission_id c \<le> sid)
      then Err (InvalidDecryptionBundle ''ciphertexts must be strictly ordered by submission_id'')
      else if length (cd_shares c) \<noteq> PRIVATE_ORDER_THRESHOLD
      then Err (InvalidDecryptionBundle ''each ciphertext requires exactly 3 shares'')
      else if \<not> increasing_validators 0 (cd_shares c)
      then Err (InvalidDecryptionBundle ''decryption shares must be strictly ordered by validator_id'')
      else if map ds_validator_id (cd_shares c) \<noteq> map be_validator_id (db_beacon_shares db)
      then Err (InvalidDecryptionBundle ''beacon and ciphertext shares must use the same validator set'')
      else ciphertexts_ok db (Some (cd_submission_id c)) cs)"

definition validate_bundle_shape :: "decryption_bundle \<Rightarrow> unit pp" where
  "validate_bundle_shape db =
     (if db_version db \<noteq> PRIVATE_PROTOCOL_VERSION then Err (InvalidDecryptionBundle ''unsupported version'')
      else if db_height db = 0 then Err (InvalidDecryptionBundle ''height must be non-zero'')
      else if length (db_beacon_shares db) \<noteq> PRIVATE_ORDER_THRESHOLD
      then Err (InvalidDecryptionBundle ''beacon requires exactly 3 shares'')
      else
        bindr (beacon_shares_ok db 0 (db_beacon_shares db)) (\<lambda>_.
        if db_beacon_output db = zero32
        then Err (InvalidDecryptionBundle ''beacon output must not be the identity encoding'')
        else if MAX_DECRYPTION_BUNDLE_ENTRIES < length (db_ciphertexts db)
        then Err (InvalidDecryptionBundle ''ciphertext count is too large'')
        else ciphertexts_ok db None (db_ciphertexts db)))"

definition bundle_to_bytes :: "protocol_env \<Rightarrow> decryption_bundle \<Rightarrow> bytes pp" where
  "bundle_to_bytes V db =
     bindr (validate_bundle_shape db) (\<lambda>_.
     canonical_encode (pv_bundle_json V) db MAX_DECRYPTION_BUNDLE_BYTES ''private-order decryption bundle'')"

definition bundle_from_bytes :: "protocol_env \<Rightarrow> bytes \<Rightarrow> decryption_bundle pp" where
  "bundle_from_bytes V bs =
     bindr (canonical_decode (pv_bundle_parse V) (pv_bundle_json V) bs MAX_DECRYPTION_BUNDLE_BYTES
       ''private-order decryption bundle'') (\<lambda>db.
     bindr (validate_bundle_shape db) (\<lambda>_. Ok db))"

definition private_batch_execution_id :: "digest \<Rightarrow> string \<Rightarrow> decryption_bundle \<Rightarrow> bytes pp" where
  "private_batch_execution_id H chain_id db =
     bindr (validate_chain_id chain_id) (\<lambda>_.
     bindr (validate_bundle_shape db) (\<lambda>_.
     if u32_max < length (db_ciphertexts db)
     then Err (InvalidDecryptionBundle ''ciphertext count does not fit the execution identity'')
     else Ok (H (domain_tag ''ASTERIA_PRIVATE_BATCH_EXECUTION_ID_V1'' @ be_bytes 2 (db_version db)
       @ be_bytes 2 (length chain_id) @ ascii chain_id @ be_bytes 8 (db_height db)
       @ db_committed_app_hash db @ db_beacon_output db @ be_bytes 4 (length (db_ciphertexts db))
       @ concat (map cd_submission_id (db_ciphertexts db))))))"

definition invalid_outcome :: "bytes \<Rightarrow> submission \<Rightarrow> invalid_reason \<Rightarrow> decryption_outcome" where
  "invalid_outcome sid sb reason =
     InvalidOutcome sid (ph_fee_payer (pe_header (sb_envelope sb))) (sb_nonce sb) reason"

text \<open>One ciphertext: verify its shares, decrypt it, parse the payload.\<close>

definition decrypt_entry ::
  "protocol_env \<Rightarrow> public_key_set \<Rightarrow> ciphertext_decryption \<times> bytes \<times> submission \<times> order_context \<Rightarrow>
   decryption_outcome pp" where
  "decrypt_entry V ks = (\<lambda>(c, sid, sb, cx).
     if cd_submission_id c \<noteq> sid
     then Err (InvalidDecryptionBundle ''bundle does not exactly cover the canonical pending set'')
     else
       bindr (foldr_res (\<lambda>share _. liftp (verify_decryption_share (pv_curve V) ks cx (sb_envelope sb) share))
         (cd_shares c) ()) (\<lambda>_.
       case decrypt_private_order (pv_curve V) ks cx (sb_envelope sb) (cd_shares c) of
         Panic \<Rightarrow> Panic
       | Err AuthenticationFailed \<Rightarrow> Ok (invalid_outcome sid sb CiphertextAuthenticationFailed)
       | Err InvalidPayloadLength \<Rightarrow> Ok (invalid_outcome sid sb InvalidPlaintextLength)
       | Err e \<Rightarrow> Err (Threshold e)
       | Ok plaintext \<Rightarrow>
           (case payload_from_bytes V plaintext of
              Panic \<Rightarrow> Panic
            | Err e \<Rightarrow> Ok (invalid_outcome sid sb (payload_error_reason e))
            | Ok payload \<Rightarrow> Ok (ValidOutcome
                \<lparr>do_submission_id = sid, do_fee_payer = ph_fee_payer (pe_header (sb_envelope sb)),
                 do_nonce = sb_nonce sb, do_market_id = ph_market_id (pe_header (sb_envelope sb)),
                 do_payload = payload\<rparr>))))"

definition validate_and_decrypt_bundle ::
  "protocol_env \<Rightarrow> string \<Rightarrow> nat \<Rightarrow> bytes \<Rightarrow> public_key_set \<Rightarrow> submission list \<Rightarrow> decryption_bundle \<Rightarrow>
   decryption_outcome list pp" where
  "validate_and_decrypt_bundle V chain_id height app_hash ks pending db =
     (if db_height db \<noteq> height then Err (WrongHeight height (db_height db))
      else
        bindr (validate_bundle_shape db) (\<lambda>_.
        if db_committed_app_hash db \<noteq> app_hash
        then Err (InvalidDecryptionBundle ''bundle app hash does not match the committed batch'')
        else
          bindr (liftp (aggregate_beacon_shares (pv_curve V) ks chain_id height app_hash (db_beacon_shares db))) (\<lambda>beacon.
          if beacon \<noteq> db_beacon_output db
          then Err (InvalidDecryptionBundle ''bundle beacon output does not match its verified shares'')
          else
            bindr (pending_index V chain_id height ks pending) (\<lambda>index.
            if length (db_ciphertexts db) \<noteq> length index
            then Err (InvalidDecryptionBundle ''bundle does not have one ciphertext per pending submission'')
            else traverse (decrypt_entry V ks) (zip (db_ciphertexts db) (om_entries index))))))"

text \<open>
  Aggregation keeps the extensions that validate, in the order of the validators, and takes the
  first three. Their shares are indexed by position; a missing share panics.
\<close>

fun collect_extensions ::
  "protocol_env \<Rightarrow> string \<Rightarrow> nat \<Rightarrow> bytes \<Rightarrow> public_key_set \<Rightarrow> pending_map \<Rightarrow> vote_extension list \<Rightarrow>
   (nat, vote_extension) omap \<Rightarrow> (nat, vote_extension) omap pp" where
  "collect_extensions V chain_id height app_hash ks index [] ordered = Ok ordered"
| "collect_extensions V chain_id height app_hash ks index (ve # ves) ordered =
     (case validate_extension_against_index V ve chain_id height app_hash (ve_validator_id ve) ks index of
        Panic \<Rightarrow> Panic
      | Err _ \<Rightarrow> collect_extensions V chain_id height app_hash ks index ves ordered
      | Ok _ \<Rightarrow>
          if om_get ordered (ve_validator_id ve) \<noteq> None
          then Err (InvalidDecryptionBundle ''duplicate vote extension'')
          else collect_extensions V chain_id height app_hash ks index ves
            (om_insert (ve_validator_id ve) ve ordered))"

definition select_shares :: "vote_extension list \<Rightarrow> nat \<times> bytes \<Rightarrow> ciphertext_decryption pp" where
  "select_shares selected = (\<lambda>(i, sid).
     bindr (traverse (\<lambda>ve. expect (if i < length (ve_shares ve) then Some (xs_share (ve_shares ve ! i)) else None))
       selected) (\<lambda>shares.
     Ok \<lparr>cd_submission_id = sid, cd_shares = sort_key ds_validator_id shares\<rparr>))"

definition aggregate_vote_extensions ::
  "protocol_env \<Rightarrow> string \<Rightarrow> nat \<Rightarrow> bytes \<Rightarrow> public_key_set \<Rightarrow> submission list \<Rightarrow> vote_extension list \<Rightarrow>
   decryption_bundle pp" where
  "aggregate_vote_extensions V chain_id height app_hash ks pending extensions =
     (if length extensions < PRIVATE_ORDER_THRESHOLD
      then Err (InsufficientVoteExtensions (length extensions) PRIVATE_ORDER_THRESHOLD)
      else if PRIVATE_ORDER_VALIDATOR_COUNT < length extensions
      then Err (InvalidDecryptionBundle ''received too many validator extensions'')
      else
        bindr (pending_index V chain_id height ks pending) (\<lambda>index.
        bindr (collect_extensions V chain_id height app_hash ks index extensions []) (\<lambda>ordered.
        if length ordered < PRIVATE_ORDER_THRESHOLD
        then Err (InsufficientVoteExtensions (length ordered) PRIVATE_ORDER_THRESHOLD)
        else
          (let selected = take PRIVATE_ORDER_THRESHOLD (om_values ordered);
               beacon_shares = map ve_beacon_share selected in
           bindr (liftp (aggregate_beacon_shares (pv_curve V) ks chain_id height app_hash beacon_shares)) (\<lambda>beacon.
           bindr (traverse (select_shares selected) (zip [0..<length index] (om_keys index))) (\<lambda>ciphertexts.
           let db = \<lparr>db_version = PRIVATE_PROTOCOL_VERSION, db_height = height,
                     db_committed_app_hash = app_hash, db_beacon_shares = beacon_shares,
                     db_beacon_output = beacon, db_ciphertexts = ciphertexts\<rparr> in
           bindr (validate_bundle_shape db) (\<lambda>_. Ok db)))))))"

end
