(* ===== verification/Engine_Private.thy ===== *)
theory Engine_Private
  imports Engine_Orders Private_Protocol
begin

text \<open>
  Encrypted orders in the engine (\<open>engine.rs\<close>): a submission is queued with a fee and a bond, the
  liquidity of its markets is frozen at the end of the block, and two blocks later the decrypted
  orders are cleared in one batch with the frozen public orders, settled, and the rest restored to
  the books. In the text of an error the decimals and the order id of an engine error are left out.
\<close>

section \<open>Error texts\<close>

fun auction_message :: "auction_error \<Rightarrow> string" where
  "auction_message ZeroReferencePrice = ''reference price must be positive''"
| "auction_message (ZeroLimitPrice oid) = ''limit price must be positive for '' @ debug_bytes ''OrderId'' oid"
| "auction_message (ZeroQuantity oid) = ''quantity must be positive for '' @ debug_bytes ''OrderId'' oid"
| "auction_message (DuplicateOrderId oid) = ''duplicate order id: '' @ debug_bytes ''OrderId'' oid"
| "auction_message ArithmeticOverflow = ''auction arithmetic overflow''"
| "auction_message AllocationDidNotConverge = ''FOK allocation did not converge''"

fun market_message :: "market_error \<Rightarrow> string" where
  "market_message InvalidChainId = ''chain id must contain between 1 and '' @ nat_text 128 @ '' bytes''"
| "market_message ZeroHeight = ''batch height must be greater than zero''"
| "market_message InvalidMarketId = ''market id must contain between 1 and '' @ nat_text 64 @ '' bytes''"
| "market_message InvalidThresholdBeacon = ''threshold beacon must not be the identity encoding''"
| "market_message (NonPositiveStep field) = field @ '' step must be positive''"
| "market_message InvalidSlippageLimit = ''market slippage limit must be between zero and one''"
| "market_message (NegativeValue field) = field @ '' must not be negative''"
| "market_message (NotStepAligned field v step) = field @ '' value is not an exact multiple of step''"
| "market_message (UnitOverflow field) = field @ '' value does not fit in u64 fixed-point units''"
| "market_message (DecimalOverflow field) = field @ '' fixed-point units cannot be represented as Decimal''"
| "market_message DuplicateCiphertextId = ''duplicate private ciphertext id''"
| "market_message (InvalidParticipant oid reason) = ''invalid participant '' @ debug_bytes ''OrderId'' oid @ '': '' @ reason"
| "market_message (AuctionFailed e) = ''auction failed: '' @ auction_message e"
| "market_message (MissingAllocation oid) = ''auction omitted allocation for order '' @ debug_bytes ''OrderId'' oid"
| "market_message (UnknownAllocation oid) = ''auction returned allocation for unknown order '' @ debug_bytes ''OrderId'' oid"
| "market_message (FokNotAtomic oid) = ''auction allocation violates FOK atomicity for order '' @ debug_bytes ''OrderId'' oid"
| "market_message AllocationConservation = ''buy and sell execution quantities are not conserved''"
| "market_message FillConservation = ''deterministic fill pairing did not consume the matched quantity''"
| "market_message AdapterOverflow = ''checked arithmetic overflow while adapting the auction result''"

fun order_error_message :: "private_order_error \<Rightarrow> string" where
  "order_error_message (InvalidContext t) = ''invalid private-order context: '' @ t"
| "order_error_message (InvalidKeySet t) = ''invalid threshold public key set: '' @ t"
| "order_error_message (InvalidSecretShare t) = ''invalid validator secret share: '' @ t"
| "order_error_message (InvalidEnvelope t) = ''invalid private-order envelope: '' @ t"
| "order_error_message EmptyPayload = ''private-order payload must not be empty''"
| "order_error_message (PayloadTooLarge a m) = ''private-order payload is '' @ nat_text a @ '' bytes; maximum is '' @ nat_text m"
| "order_error_message (InsufficientShares p r) = ''received '' @ nat_text p @ '' decryption shares; '' @ nat_text r @ '' are required''"
| "order_error_message (DuplicateValidator v) = ''duplicate decryption share from validator '' @ nat_text v"
| "order_error_message (UnknownValidator v) = ''validator '' @ nat_text v @ '' is not in this threshold public key set''"
| "order_error_message (InvalidDecryptionShare v t) = ''invalid decryption share from validator '' @ nat_text v @ '': '' @ t"
| "order_error_message (InvalidBeacon t) = ''invalid threshold beacon: '' @ t"
| "order_error_message AuthenticationFailed = ''private-order ciphertext authentication failed''"
| "order_error_message InvalidPayloadLength = ''decrypted private-order payload length is invalid''"
| "order_error_message KeyDerivationFailed = ''private-order key derivation failed''"

fun protocol_message :: "protocol_error \<Rightarrow> string" where
  "protocol_message (CanonicalEncoding t) = ''private-order canonical encoding failed: '' @ t"
| "protocol_message (NonCanonicalEncoding t) = t @ '' is not encoded as canonical RFC 8785 JSON''"
| "protocol_message (EncodedSizeLimit t a m) = t @ '' is '' @ nat_text a @ '' bytes; maximum is '' @ nat_text m"
| "protocol_message (InvalidPayload t) = ''invalid private-order payload: '' @ t"
| "protocol_message (InvalidSubmission t) = ''invalid private-order submission: '' @ t"
| "protocol_message (WrongChain e a) = ''private-order submission is for chain '' @ a @ '', expected '' @ e"
| "protocol_message (WrongNonce e a) = ''private-order nonce mismatch: expected '' @ nat_text e @ '', received '' @ nat_text a"
| "protocol_message (WrongHeight e a) = ''private-order target height mismatch: expected '' @ nat_text e @ '', received '' @ nat_text a"
| "protocol_message (SubmissionExpired v c) = ''private-order submission expired at height '' @ nat_text v @ ''; current height is '' @ nat_text c"
| "protocol_message InvalidAntiSpamCommitment =
     ''private-order anti-spam commitment does not bind the chain, payer, and nonce''"
| "protocol_message (InvalidFeePayer t) = ''private-order fee-payer public key is invalid: '' @ t"
| "protocol_message InvalidFeePayerSignature = ''private-order fee-payer signature is invalid''"
| "protocol_message (InvalidVoteExtension t) = ''invalid private-order vote extension: '' @ t"
| "protocol_message (InvalidDecryptionBundle t) = ''invalid private-order decryption bundle: '' @ t"
| "protocol_message (DuplicateSubmissionId t) =
     ''pending private-order set contains duplicate submission id '' @ t"
| "protocol_message (ReplayedPayerNonce n) = ''pending private-order set reuses payer nonce '' @ nat_text n"
| "protocol_message (InsufficientVoteExtensions p r) = ''received '' @ nat_text p @ '' validator vote extensions; '' @ nat_text r @ '' are required''"
| "protocol_message (Threshold e) = order_error_message e"

definition from_market :: "'a market \<Rightarrow> 'a exch" where
  "from_market r = map_err (\<lambda>e. InvalidOrder (market_message e)) r"

definition from_protocol :: "'a pp \<Rightarrow> 'a exch" where
  "from_protocol r = map_err (\<lambda>e. InvalidOrder (protocol_message e)) r"

definition account_id_from_signer :: "(bytes \<Rightarrow> string) \<Rightarrow> bytes \<Rightarrow> account_id" where
  "account_id_from_signer hexenc signer = ''ed25519:'' @ hexenc signer"

abbreviation hex :: "engine_env \<Rightarrow> bytes \<Rightarrow> string" where
  "hex E \<equiv> ev_hex (en_crypto E)"

section \<open>Queueing a submission\<close>

record queued_order =
  qo_submission_id :: string
  qo_batch_height :: nat
  qo_fee :: decimal
  qo_bond :: decimal

definition submission_payer :: "submission \<Rightarrow> bytes" where
  "submission_payer sb = ph_fee_payer (pe_header (sb_envelope sb))"

definition pending_at :: "'l engine_state \<Rightarrow> nat \<Rightarrow> submission list" where
  "pending_at s height = (case om_get (es_pending_orders s) height of None \<Rightarrow> [] | Some sbs \<Rightarrow> sbs)"

text \<open>The checks of \<open>queue_private_order\<close>: the market of the submission and its identifier.\<close>

definition admit_submission ::
  "engine_env \<Rightarrow> protocol_env \<Rightarrow> account_id \<Rightarrow> submission \<Rightarrow> nat \<Rightarrow> 'l engine_state \<Rightarrow> (symbol \<times> bytes) exch" where
  "admit_submission E V signer sb height s =
     bindr (ok_or (InvalidOrder ''private-order markets are not enabled'') (es_key_set s)) (\<lambda>ks.
     if account_id_from_signer (hex E) (submission_payer sb) \<noteq> signer then Err Unauthorized
     else
       (let nonce = (case om_get (es_account_nonces s) signer of None \<Rightarrow> 0 | Some n \<Rightarrow> n) in
        bindr (from_protocol (verify_submission V sb (es_chain_id s) nonce height height ks)) (\<lambda>cx.
        bindr (get_market s (pc_market_id cx)) (\<lambda>_.
        if es_private_order_fee s \<le> 0 then Err (Internal ''private-order fee must be positive'')
        else if MAX_PENDING_PRIVATE_ORDERS \<le> length (pending_at s height)
        then Err (InvalidOrder ''private-order batch is limited to 128 submissions'')
        else if \<exists>q \<in> set (pending_at s height). submission_payer q = submission_payer sb
        then Err (InvalidOrder ''an account may submit only one private order per batch'')
        else
          bindr (from_protocol (submission_id V sb)) (\<lambda>sid.
          if \<exists>q \<in> set (pending_at s height). submission_id V q = Ok sid
          then Err (InvalidOrder ''private-order submission is already queued'')
          else Ok (pc_market_id cx, sid))))))"

text \<open>The fee is charged and the rest of the available margin is reserved as the bond.\<close>

definition charge_bond ::
  "engine_env \<Rightarrow> account_id \<Rightarrow> 'l engine_state \<Rightarrow> (decimal \<times> 'l engine_state) exch" where
  "charge_bond E signer s =
     (let D = en_dec E; fee = es_private_order_fee s in
      bindr (available_margin E s signer) (\<lambda>available.
      bindr (d_ok ''private-order fee and bond'' (d_add D fee MIN_PRIVATE_ORDER_BOND)) (\<lambda>required.
      bindr (check (required \<le> available) (InsufficientMargin required available)) (\<lambda>_.
      bindr (d_ok ''private-order bond'' (d_sub D available fee)) (\<lambda>bond.
      bindr (expect (om_get (es_accounts s) signer)) (\<lambda>a.
      bindr (d_ok ''private-order account fee'' (d_sub D (acct_collateral a) fee)) (\<lambda>collateral.
      bindr (d_ok ''private-order paid fees'' (d_add D (acct_fees_paid a) fee)) (\<lambda>fees.
      bindr (d_ok ''private-order account bond'' (d_add D (acct_reserved_margin a) bond)) (\<lambda>reserved.
      let s = put_account signer (a\<lparr>acct_collateral := collateral, acct_fees_paid := fees,
            acct_reserved_margin := reserved\<rparr>) s in
      bindr (d_ok ''private-order fee vault'' (d_add D (es_fee_vault s) fee)) (\<lambda>vault.
      Ok (bond, s\<lparr>es_fee_vault := vault\<rparr>)))))))))))"

definition submission_sort_key :: "protocol_env \<Rightarrow> submission \<Rightarrow> bytes" where
  "submission_sort_key V sb = (case submission_id V sb of Ok sid \<Rightarrow> sid | _ \<Rightarrow> zero32)"

definition store_submission ::
  "protocol_env \<Rightarrow> account_id \<Rightarrow> submission \<Rightarrow> nat \<Rightarrow> decimal \<Rightarrow> 'l engine_state \<Rightarrow> 'l engine_state exch" where
  "store_submission V signer sb height bond s =
     (let bonds = (case om_get (es_bonds s) height of None \<Rightarrow> [] | Some b \<Rightarrow> b) in
      if om_get bonds signer \<noteq> None
      then Err (Internal ''private-order bond already exists for this account and height'')
      else Ok (s\<lparr>es_bonds := om_insert height (om_insert signer bond bonds) (es_bonds s),
                 es_pending_orders := om_insert height
                   (sort_key (submission_sort_key V) (pending_at s height @ [sb])) (es_pending_orders s)\<rparr>))"

definition queue_private_order ::
  "engine_env \<Rightarrow> protocol_env \<Rightarrow> account_id \<Rightarrow> submission \<Rightarrow> nat \<Rightarrow> 'l engine_state \<Rightarrow>
   (queued_order \<times> 'l engine_state) exch" where
  "queue_private_order E V signer sb height s =
     bindr (admit_submission E V signer sb height s) (\<lambda>(market_id, sid).
     bindr (charge_bond E signer s) (\<lambda>(bond, s).
     bindr (store_submission V signer sb height bond s) (\<lambda>s.
     let fee = es_private_order_fee s in
     bindr (append_event E (PrivateOrderQueued (hex E sid) signer market_id height fee bond) s) (\<lambda>s.
     Ok (\<lparr>qo_submission_id = hex E sid, qo_batch_height = height, qo_fee = fee, qo_bond = bond\<rparr>, s)))))"

section \<open>Freezing the liquidity\<close>

definition worst_case_market :: "dec_ops \<Rightarrow> side \<Rightarrow> market_state \<Rightarrow> market_state exch" where
  "worst_case_market D side m =
     bindr (mark_price_band D m) (\<lambda>(lower, upper).
     Ok (m\<lparr>ms_mark_price := (case side of Buy \<Rightarrow> lower | Sell \<Rightarrow> upper)\<rparr>))"

definition frozen_order_reservation :: "dec_ops \<Rightarrow> order \<Rightarrow> market_state \<Rightarrow> decimal exch" where
  "frozen_order_reservation D ord m =
     bindr (worst_case_market D (ord_side ord) m) (\<lambda>worst.
     required_order_reservation D (ord_side ord) (ord_remaining ord) (ord_limit_price ord)
       (ord_leverage ord) (ord_reduce_only ord) worst)"

text \<open>
  One active order: it stays live when it is reduce-only or its account cannot top up the
  reservation, and is frozen otherwise. The lists are the frozen and the live orders.
\<close>

definition freeze_order ::
  "engine_env \<Rightarrow> market_state \<Rightarrow> order \<Rightarrow> order list \<times> order list \<times> 'l engine_state \<Rightarrow>
   (order list \<times> order list \<times> 'l engine_state) exch" where
  "freeze_order E m ord = (\<lambda>(frozen, live, s).
     if ord_reduce_only ord then Ok (frozen, live @ [ord], s)
     else
       bindr (frozen_order_reservation (en_dec E) ord m) (\<lambda>required.
       let top_up = unwrap_or 0 (d_sub (en_dec E) required (ord_reserved_margin ord)) in
       if 0 < top_up then
         bindr (available_margin E s (ord_account_id ord)) (\<lambda>available.
         if available < top_up then Ok (frozen, live @ [ord], s)
         else
           bindr (reserve_margin E ''frozen order reservation'' (ord_account_id ord) top_up s) (\<lambda>s.
           Ok (frozen @ [ord\<lparr>ord_reserved_margin := required\<rparr>], live, s)))
       else Ok (frozen @ [ord], live, s)))"

definition freeze_market ::
  "engine_env \<Rightarrow> symbol \<Rightarrow> (symbol, private_market_snapshot) omap \<times> 'l engine_state \<Rightarrow>
   ((symbol, private_market_snapshot) omap \<times> 'l engine_state) exch" where
  "freeze_market E symb = (\<lambda>(markets, s).
     bindr (get_market s symb) (\<lambda>m.
     bindr (ok_or (MarketNotFound symb) (om_get (es_books s) symb)) (\<lambda>bk.
     let (active, bk) = take_active_orders bk in
     bindr (foldr_res (freeze_order E m) active ([], [], put_book symb bk s)) (\<lambda>(frozen, live, s).
     bindr (expect (om_get (es_books s) symb)) (\<lambda>bk.
     bindr (foldr_res restore_active_order live bk) (\<lambda>bk.
     let snapshot = \<lparr>pm_reference_price = ms_mark_price m,
           pm_public_orders = sort_key (\<lambda>ord. (ord_sequence ord, ord_id ord)) frozen\<rparr> in
     Ok (om_insert symb snapshot markets, put_book symb bk s)))))))"

definition freeze_private_batch_liquidity ::
  "engine_env \<Rightarrow> nat \<Rightarrow> 'l engine_state \<Rightarrow> 'l engine_state exch" where
  "freeze_private_batch_liquidity E height s =
     (if pending_at s height = [] then Ok s
      else if om_get (es_batch_snapshots s) height \<noteq> None
      then Err (Internal ''private batch liquidity is already frozen'')
      else
        bindr (foldr_res (freeze_market E)
          (bset (map (\<lambda>sb. ph_market_id (pe_header (sb_envelope sb))) (pending_at s height))) ([], s)) (\<lambda>(markets, s).
        Ok (s\<lparr>es_batch_snapshots := om_insert height
              \<lparr>pb_batch_height = height, pb_markets = markets\<rparr> (es_batch_snapshots s)\<rparr>)))"

end
