(* ===== verification/Engine_Batch.thy ===== *)
theory Engine_Batch
  imports Engine_Private
begin

text \<open>
  The execution of a private batch (\<open>engine.rs\<close>): release the bonds, build the participants of every
  market, clear, settle the allocations against the escrow books, record the trades, and restore what
  is left of the frozen orders to the public books.
\<close>

record market_execution =
  mx_market_id :: symbol
  mx_clearing_price :: "decimal option"
  mx_matched_quantity :: decimal
  mx_valid_orders :: nat
  mx_invalid_orders :: nat

record batch_execution =
  bx_batch_height :: nat
  bx_markets :: "market_execution list"
  bx_valid_orders :: nat
  bx_invalid_orders :: nat

type_synonym public_ids = "(bytes, uuid) omap"

type_synonym escrow = "(symbol, order_book) omap"

section \<open>Identifiers\<close>

definition public_batch_order_id :: "engine_env \<Rightarrow> uuid \<Rightarrow> bytes" where
  "public_batch_order_id E oid =
     sha E (domain_tag ''ASTERIA_PUBLIC_BATCH_ORDER_ID_V1'' @ be_bytes 16 oid)"

definition batch_order_uuid :: "bytes \<Rightarrow> public_ids \<Rightarrow> uuid" where
  "batch_order_uuid oid public_ids =
     (case om_get public_ids oid of Some u \<Rightarrow> u | None \<Rightarrow> uuid_of_digest oid)"

definition is_public :: "batch_participant \<Rightarrow> bool" where
  "is_public p \<longleftrightarrow> bp_visibility p = PublicOrder"

section \<open>A decrypted order as a participant\<close>

definition private_price :: "dec_ops \<Rightarrow> order_payload \<Rightarrow> market_config \<Rightarrow> decimal option exch" where
  "private_price D p config =
     (case pp_kind p of
        Market \<Rightarrow> Ok None
      | Limit \<Rightarrow> bindr (from_market (ticks_to_price D (pp_price_ticks p) config)) (\<lambda>x. Ok (Some x)))"

definition private_request :: "account_id \<Rightarrow> decrypted_order \<Rightarrow> decimal \<Rightarrow> decimal option \<Rightarrow> new_order" where
  "private_request aid ord quantity price =
     (let p = do_payload ord in
      \<lparr>no_account_id = aid, no_intent = \<lparr>oi_client_order_id = pp_client_id p,
         oi_symbol = do_market_id ord, oi_side = pp_side p, oi_kind = pp_kind p, oi_quantity = quantity,
         oi_price = price, oi_leverage = pp_leverage p,
         oi_time_in_force = (if pp_fok p then Fok else Ioc), oi_reduce_only = pp_reduce_only p\<rparr>\<rparr>)"

definition private_participant ::
  "engine_env \<Rightarrow> 'l engine_state \<Rightarrow> decrypted_order \<Rightarrow> decimal \<Rightarrow> batch_participant exch" where
  "private_participant E s ord reference_price =
     (let D = en_dec E; p = do_payload ord; aid = account_id_from_signer (hex E) (do_fee_payer ord) in
      bindr (get_market s (do_market_id ord)) (\<lambda>m.
      let m = m\<lparr>ms_mark_price := reference_price\<rparr> in
      bindr (from_market (lots_to_quantity D (pp_quantity_lots p) (ms_config m))) (\<lambda>quantity.
      bindr (private_price D p (ms_config m)) (\<lambda>price.
      let request = private_request aid ord quantity price in
      bindr (validate_order E s request m) (\<lambda>_.
      bindr (effective_limit_price D request m) (\<lambda>limit_price.
      bindr (worst_case_market D (pp_side p) m) (\<lambda>worst.
      bindr (required_order_reservation D (pp_side p) quantity limit_price (pp_leverage p)
        (pp_reduce_only p) worst) (\<lambda>reserve.
      bindr (expect (om_get (es_accounts s) aid)) (\<lambda>a.
      bindr (risk_snapshot D a (es_markets s)) (\<lambda>r.
      bindr (check (reserve \<le> rs_available_margin r) (InsufficientMargin reserve (rs_available_margin r))) (\<lambda>_.
      Ok \<lparr>bp_visibility = PrivateOrder (do_submission_id ord), bp_account_id = aid,
          bp_order_id = do_submission_id ord, bp_side = pp_side p, bp_kind = pp_kind p,
          bp_tif = (if pp_fok p then Fok else Ioc), bp_quantity = quantity, bp_limit_price = price,
          bp_leverage = pp_leverage p, bp_reduce_only = pp_reduce_only p\<rparr>)))))))))))"

definition public_participant :: "bytes \<Rightarrow> order \<Rightarrow> batch_participant" where
  "public_participant oid ord =
     \<lparr>bp_visibility = PublicOrder, bp_account_id = ord_account_id ord, bp_order_id = oid,
      bp_side = ord_side ord, bp_kind = ord_kind ord, bp_tif = ord_time_in_force ord,
      bp_quantity = ord_remaining ord, bp_limit_price = Some (ord_limit_price ord),
      bp_leverage = ord_leverage ord, bp_reduce_only = ord_reduce_only ord\<rparr>"

section \<open>The admission of a bundle\<close>

definition missing :: "string \<Rightarrow> exchange_error" where
  "missing what = InvalidOrder (''private-order batch has no '' @ what)"

definition batch_inputs ::
  "protocol_env \<Rightarrow> decryption_bundle \<Rightarrow> nat \<Rightarrow> 'l engine_state \<Rightarrow>
   (submission list \<times> private_batch_snapshot \<times> decryption_outcome list \<times> (account_id, decimal) omap) exch" where
  "batch_inputs V db execution_height s =
     (let height = db_height db in
      if checked_add u64_max height PRIVATE_ORDER_DECRYPTION_DELAY_BLOCKS \<noteq> Some execution_height
      then Err (InvalidOrder ''private decryption must execute two blocks after its batch'')
      else
        bindr (ok_or (InvalidOrder ''private-order markets are not enabled'') (es_key_set s)) (\<lambda>ks.
        bindr (ok_or (missing ''pending submissions'') (om_get (es_pending_orders s) height)) (\<lambda>pending.
        bindr (ok_or (missing ''committed app-hash anchor'') (om_get (es_batch_app_hashes s) height)) (\<lambda>app_hash.
        bindr (ok_or (missing ''frozen liquidity snapshot'') (om_get (es_batch_snapshots s) height)) (\<lambda>snapshot.
        if pb_batch_height snapshot \<noteq> height
        then Err (Internal ''private batch liquidity snapshot height mismatch'')
        else
          bindr (from_protocol (validate_and_decrypt_bundle V (es_chain_id s) height app_hash ks pending db)) (\<lambda>outcomes.
          bindr (ok_or (missing ''collateral bonds'') (om_get (es_bonds s) height)) (\<lambda>bonds.
          if length bonds \<noteq> length pending
          then Err (Internal ''private-order bond set does not match the pending batch'')
          else Ok (pending, snapshot, outcomes, bonds))))))))"

definition release_bond ::
  "engine_env \<Rightarrow> (account_id, decimal) omap \<Rightarrow> submission \<Rightarrow> 'l engine_state \<Rightarrow> 'l engine_state exch" where
  "release_bond E bonds sb s =
     (let aid = account_id_from_signer (hex E) (submission_payer sb) in
      bindr (ok_or (Internal ''pending private order has no collateral bond'') (om_get bonds aid)) (\<lambda>bond.
      if bond < MIN_PRIVATE_ORDER_BOND
      then Err (Internal ''pending private-order collateral bond is below the protocol minimum'')
      else release_margin E aid bond s))"

text \<open>\<open>format!("{reason:?}")\<close> is the name of the constructor.\<close>

fun reason_name :: "invalid_reason \<Rightarrow> string" where
  "reason_name CiphertextAuthenticationFailed = ''CiphertextAuthenticationFailed''"
| "reason_name InvalidPlaintextLength = ''InvalidPlaintextLength''"
| "reason_name MalformedPayload = ''MalformedPayload''"
| "reason_name NonCanonicalPayload = ''NonCanonicalPayload''"
| "reason_name InvalidPayloadSemantics = ''InvalidPayloadSemantics''"

text \<open>The text of an error of the exchange; the order ids and the decimals it formats are left out.\<close>

fun exchange_message :: "exchange_error \<Rightarrow> string" where
  "exchange_message (AccountNotFound a) = ''account does not exist: '' @ a"
| "exchange_message (MarketNotFound m) = ''market does not exist: '' @ m"
| "exchange_message (OrderNotFound oid) = ''order does not exist''"
| "exchange_message (OrderOwnership oid) = ''order is owned by another account''"
| "exchange_message (DuplicateClientOrderId c) = ''duplicate client order id: '' @ c"
| "exchange_message (InvalidOrder t) = ''invalid order: '' @ t"
| "exchange_message (InsufficientMargin r a) = ''insufficient available margin''"
| "exchange_message CannotFullyFill = ''fill-or-kill order cannot be completely filled''"
| "exchange_message (NotLiquidatable t) = ''account is not eligible for liquidation: '' @ t"
| "exchange_message (InvalidSignature t) = ''signature verification failed: '' @ t"
| "exchange_message (Persistence t) = ''persistence failure: '' @ t"
| "exchange_message (DatabaseInUse t) =
     ''database is already in use: '' @ t @ ''. Stop the other Asteria node or choose another file with --data <path>''"
| "exchange_message Unauthorized = ''unauthorized''"
| "exchange_message (Internal t) = ''internal error: '' @ t"

type_synonym rejected = "(bytes \<times> string) list"

type_synonym participants = "(symbol, batch_participant list) omap"

text \<open>One outcome: a participant of its market, or an entry of the invalid submissions.\<close>

definition sort_outcome ::
  "engine_env \<Rightarrow> 'l engine_state \<Rightarrow> private_batch_snapshot \<Rightarrow> decryption_outcome \<Rightarrow>
   rejected \<times> participants \<Rightarrow> (rejected \<times> participants) exch" where
  "sort_outcome E s snapshot outcome = (\<lambda>(invalid, by_market).
     case outcome of
       InvalidOutcome sid payer nonce reason \<Rightarrow> Ok (invalid @ [(sid, reason_name reason)], by_market)
     | ValidOutcome ord \<Rightarrow>
        (case om_get (pb_markets snapshot) (do_market_id ord) of
           None \<Rightarrow> Ok (invalid @ [(do_submission_id ord,
             ''private order market is absent from the committed batch snapshot'')], by_market)
         | Some ms \<Rightarrow>
            (case private_participant E s ord (pm_reference_price ms) of
               Panic \<Rightarrow> Panic
             | Err e \<Rightarrow> Ok (invalid @ [(do_submission_id ord, exchange_message e)], by_market)
             | Ok p \<Rightarrow> Ok (invalid, om_insert (do_market_id ord)
                 ((case om_get by_market (do_market_id ord) of None \<Rightarrow> [] | Some ps \<Rightarrow> ps) @ [p]) by_market))))"

section \<open>The escrow books\<close>

definition escrow_book :: "private_market_snapshot \<Rightarrow> order_book exch" where
  "escrow_book ms = foldr_res restore_active_order (pm_public_orders ms) empty_book"

definition build_escrow :: "private_batch_snapshot \<Rightarrow> escrow exch" where
  "build_escrow snapshot =
     foldr_res (\<lambda>(symb, ms) books. bindr (escrow_book ms) (\<lambda>bk. Ok (om_insert symb bk books)))
       (om_entries (pb_markets snapshot)) []"

text \<open>The frozen orders of accounts whose margin has become negative.\<close>

definition ineligible :: "engine_env \<Rightarrow> 'l engine_state \<Rightarrow> order_book \<Rightarrow> (uuid \<times> account_id) list exch" where
  "ineligible E s bk =
     bindr (traverse (\<lambda>ord. bindr (available_margin E s (ord_account_id ord)) (\<lambda>available.
         Ok (ord_id ord, ord_account_id ord, available))) (active_orders bk)) (\<lambda>marked.
     Ok (map (\<lambda>(oid, aid, available). (oid, aid)) (filter (\<lambda>(oid, aid, available). available < 0) marked)))"

definition cancel_frozen ::
  "engine_env \<Rightarrow> symbol \<Rightarrow> uuid \<times> account_id \<Rightarrow> order_book \<times> 'l engine_state \<Rightarrow>
   (order_book \<times> 'l engine_state) exch" where
  "cancel_frozen E symb = (\<lambda>(oid, aid) (bk, s).
     bindr (cancel oid aid bk) (\<lambda>(cancelled, bk).
     bindr (release_margin E aid (ord_reserved_margin cancelled) s) (\<lambda>s.
     bindr (append_event E (OrderCancelled oid aid (''private_batch_'' @ symb @ ''_risk_revalidation''))
       (remove_order_indices cancelled s)) (\<lambda>s.
     Ok (bk, s)))))"

definition remove_ineligible_frozen_orders ::
  "engine_env \<Rightarrow> symbol \<Rightarrow> order_book \<Rightarrow> 'l engine_state \<Rightarrow> (order_book \<times> 'l engine_state) exch" where
  "remove_ineligible_frozen_orders E symb bk s =
     bindr (ineligible E s bk) (\<lambda>ids. foldr_res (cancel_frozen E symb) ids (bk, s))"

definition revalidate_escrow :: "engine_env \<Rightarrow> escrow \<Rightarrow> 'l engine_state \<Rightarrow> (escrow \<times> 'l engine_state) exch" where
  "revalidate_escrow E books s =
     foldr_res (\<lambda>symb (books, s).
         bindr (expect (om_get books symb)) (\<lambda>bk.
         bindr (remove_ineligible_frozen_orders E symb bk s) (\<lambda>(bk, s). Ok (om_insert symb bk books, s))))
       (om_keys books) (books, s)"

section \<open>Clearing\<close>

text \<open>The participants of one market: the private ones, and the frozen orders of other accounts.\<close>

definition add_public ::
  "engine_env \<Rightarrow> account_id list \<Rightarrow> order \<Rightarrow> public_ids \<times> batch_participant list \<Rightarrow> public_ids \<times> batch_participant list" where
  "add_public E private_accounts ord = (\<lambda>(ids, ps).
     if ord_account_id ord \<in> set private_accounts then (ids, ps)
     else (let oid = public_batch_order_id E (ord_id ord) in
           (om_insert oid (ord_id ord) ids, ps @ [public_participant oid ord])))"

type_synonym job = "symbol \<times> market_config \<times> decimal \<times> batch_participant list"

definition make_job ::
  "engine_env \<Rightarrow> 'l engine_state \<Rightarrow> private_batch_snapshot \<Rightarrow> escrow \<Rightarrow> symbol \<times> batch_participant list \<Rightarrow>
   public_ids \<times> job list \<Rightarrow> (public_ids \<times> job list) exch" where
  "make_job E s snapshot books = (\<lambda>(symb, ps) (ids, jobs).
     bindr (get_market s symb) (\<lambda>m.
     bindr (ok_or (MarketNotFound symb) (om_get (pb_markets snapshot) symb)) (\<lambda>ms.
     bindr (ok_or (MarketNotFound symb) (om_get books symb)) (\<lambda>bk.
     let (ids, ps) = fold (add_public E (map bp_account_id ps)) (active_orders bk) (ids, ps) in
     Ok (ids, jobs @ [(symb, ms_config m, pm_reference_price ms, sort_key bp_order_id ps)])))))"

text \<open>\<open>par_iter\<close> maps the jobs independently and collects the results in order.\<close>

definition clear_job :: "engine_env \<Rightarrow> string \<Rightarrow> decryption_bundle \<Rightarrow> job \<Rightarrow> (symbol \<times> private_batch_outcome) exch" where
  "clear_job E chain_id db = (\<lambda>(symb, config, reference_price, ps).
     bindr (from_market (clear_private_batch (en_dec E) (sha E) config
       \<lparr>bc_chain_id = chain_id, bc_height = db_height db, bc_threshold_beacon = db_beacon_output db,
        bc_reference_price = reference_price\<rparr> ps)) (\<lambda>outcome. Ok (symb, outcome)))"

section \<open>Settlement\<close>

definition batch_fee_rate :: "market_config \<Rightarrow> batch_participant \<Rightarrow> decimal" where
  "batch_fee_rate config p = (if is_public p then mc_maker_fee_rate config else mc_taker_fee_rate config)"

text \<open>A public allocation is filled in the escrow book, and its margin released.\<close>

definition fill_escrow ::
  "engine_env \<Rightarrow> public_ids \<Rightarrow> participant_allocation \<Rightarrow> order_book \<times> 'l engine_state \<Rightarrow>
   (order_book \<times> 'l engine_state) exch" where
  "fill_escrow E ids al = (\<lambda>(bk, s).
     bindr (ok_or (Internal ''public batch order is unmapped'') (om_get ids (bp_order_id (pa_participant al)))) (\<lambda>oid.
     bindr (apply_batch_fill (en_dec E) oid (pa_executed_quantity al) bk) (\<lambda>(update, bk).
     bindr (release_margin E (ord_account_id (bf_order update)) (bf_margin_release update) s) (\<lambda>s.
     Ok (bk, if bf_terminal update then remove_order_indices (bf_order update) s else s)))))"

definition settle_allocation ::
  "engine_env \<Rightarrow> symbol \<Rightarrow> market_config \<Rightarrow> decimal option \<Rightarrow> public_ids \<Rightarrow> participant_allocation \<Rightarrow>
   order_book \<times> 'l engine_state \<Rightarrow> (order_book \<times> 'l engine_state) exch" where
  "settle_allocation E symb config clearing_price ids al = (\<lambda>(bk, s).
     let p = pa_participant al in
     bindr (ok_or (Internal ''non-zero batch allocation has no clearing price'') clearing_price) (\<lambda>price.
     bindr (if is_public p then fill_escrow E ids al (bk, s) else Ok (bk, s)) (\<lambda>(bk, s).
     bindr (apply_fill_to_account E (bp_account_id p) symb (bp_side p) (pa_executed_quantity al) price
       (bp_leverage p) (batch_fee_rate config p) s) (\<lambda>s.
     Ok (bk, s)))))"

text \<open>Maker and taker of a fill: the public side makes; otherwise the smaller order id does.\<close>

definition maker_taker ::
  "batch_fill \<Rightarrow> batch_participant \<Rightarrow> batch_participant \<Rightarrow> batch_participant \<times> batch_participant \<times> side" where
  "maker_taker f buy sell =
     (if is_public buy \<and> \<not> is_public sell then (buy, sell, Sell)
      else if is_public sell \<and> \<not> is_public buy then (sell, buy, Buy)
      else if bfl_buy_order_id f \<le> bfl_sell_order_id f then (buy, sell, Sell)
      else (sell, buy, Buy))"

definition batch_trade_fee :: "dec_ops \<Rightarrow> market_config \<Rightarrow> batch_fill \<Rightarrow> batch_participant \<Rightarrow> decimal exch" where
  "batch_trade_fee D config f p =
     d_ok ''private batch trade fee'' (Option.bind (d_mul D (bfl_quantity f) (bfl_price f))
       (\<lambda>notional. d_mul D notional (batch_fee_rate config p)))"

text \<open>\<open>allocation_by_id[&id]\<close> panics on an id without an allocation; of two allocations the later counts.\<close>

definition allocation_by_id :: "participant_allocation list \<Rightarrow> bytes \<Rightarrow> participant_allocation exch" where
  "allocation_by_id allocations oid =
     expect (om_get (om_of_list (map (\<lambda>al. (bp_order_id (pa_participant al), al)) allocations)) oid)"

definition record_batch_fill ::
  "engine_env \<Rightarrow> symbol \<Rightarrow> market_config \<Rightarrow> participant_allocation list \<Rightarrow> public_ids \<Rightarrow> batch_fill \<Rightarrow>
   apply_context \<times> 'l engine_state \<Rightarrow> (apply_context \<times> 'l engine_state) exch" where
  "record_batch_fill E symb config allocations ids f = (\<lambda>(cx, s).
     bindr (allocation_by_id allocations (bfl_buy_order_id f)) (\<lambda>buy.
     bindr (allocation_by_id allocations (bfl_sell_order_id f)) (\<lambda>sell.
     let (maker, taker, taker_side) = maker_taker f (pa_participant buy) (pa_participant sell) in
     bindr (next_uuid E (ascii ''asteria/private-batch-trade/v1'') cx) (\<lambda>(trade_id, cx).
     bindr (batch_trade_fee (en_dec E) config f maker) (\<lambda>maker_fee.
     bindr (batch_trade_fee (en_dec E) config f taker) (\<lambda>taker_fee.
     bindr (d_ok ''private trade sequence'' (checked_add u64_max (es_sequence s) 1)) (\<lambda>sequence.
     bindr (append_event E (TradeExecuted
       \<lparr>tr_id = trade_id, tr_symbol = symb, tr_price = bfl_price f, tr_quantity = bfl_quantity f,
        tr_maker_order_id = batch_order_uuid (bp_order_id maker) ids,
        tr_taker_order_id = batch_order_uuid (bp_order_id taker) ids,
        tr_maker_account_id = bp_account_id maker, tr_taker_account_id = bp_account_id taker,
        tr_taker_side = taker_side, tr_maker_fee = maker_fee, tr_taker_fee = taker_fee,
        tr_sequence = sequence\<rparr>) s) (\<lambda>s.
     Ok (cx, s)))))))))"

definition executed_allocations :: "private_batch_outcome \<Rightarrow> participant_allocation list" where
  "executed_allocations outcome = filter (\<lambda>al. 0 < pa_executed_lots al) (po_allocations outcome)"

definition settle_private_market ::
  "engine_env \<Rightarrow> symbol \<Rightarrow> private_batch_outcome \<Rightarrow> public_ids \<Rightarrow> order_book \<Rightarrow> apply_context \<Rightarrow> 'l engine_state \<Rightarrow>
   (order_book \<times> apply_context \<times> 'l engine_state) exch" where
  "settle_private_market E symb outcome ids bk cx s =
     bindr (get_market s symb) (\<lambda>m.
     bindr (foldr_res (settle_allocation E symb (ms_config m) (po_clearing_price outcome) ids)
       (executed_allocations outcome) (bk, s)) (\<lambda>(bk, s).
     bindr (foldr_res (record_batch_fill E symb (ms_config m) (po_allocations outcome) ids)
       (po_fills outcome) (cx, s)) (\<lambda>(cx, s).
     bindr (foldr_res (\<lambda>aid s.
         bindr (reconcile_reduce_only_orders E aid symb s) (\<lambda>s.
         bindr (ensure_account_has_nonnegative_available_margin E s aid) (\<lambda>_. Ok s)))
       (bset (map (\<lambda>al. bp_account_id (pa_participant al)) (executed_allocations outcome))) s) (\<lambda>s.
     Ok (bk, cx, s)))))"

definition private_allocations :: "private_batch_outcome \<Rightarrow> nat" where
  "private_allocations outcome =
     length (filter (\<lambda>al. \<not> is_public (pa_participant al)) (po_allocations outcome))"

definition invalid_in_market :: "protocol_env \<Rightarrow> submission list \<Rightarrow> symbol \<Rightarrow> rejected \<Rightarrow> nat" where
  "invalid_in_market V pending symb invalid =
     length (filter (\<lambda>(sid, reason). \<exists>sb \<in> set pending.
       ph_market_id (pe_header (sb_envelope sb)) = symb \<and> submission_id V sb = Ok sid) invalid)"

record batch_state =
  bt_escrow :: escrow
  bt_context :: apply_context
  bt_valid :: nat
  bt_results :: "market_execution list"

definition settle_market ::
  "engine_env \<Rightarrow> protocol_env \<Rightarrow> nat \<Rightarrow> submission list \<Rightarrow> rejected \<Rightarrow> public_ids \<Rightarrow> symbol \<times> private_batch_outcome \<Rightarrow>
   batch_state \<times> 'l engine_state \<Rightarrow> (batch_state \<times> 'l engine_state) exch" where
  "settle_market E V height pending invalid ids = (\<lambda>(symb, outcome) (b, s).
     let private_count = private_allocations outcome in
     bindr (d_ok ''private-order valid count'' (checked_add u64_max (bt_valid b) private_count)) (\<lambda>valid.
     bindr (expect (om_get (bt_escrow b) symb)) (\<lambda>bk.
     bindr (settle_private_market E symb outcome ids bk (bt_context b) s) (\<lambda>(bk, cx, s).
     let market_invalid = invalid_in_market V pending symb invalid in
     bindr (append_event E (PrivateBatchCleared symb height (po_clearing_price outcome)
       (po_matched_quantity outcome) private_count market_invalid) s) (\<lambda>s.
     Ok (\<lparr>bt_escrow = om_insert symb bk (bt_escrow b), bt_context = cx, bt_valid = valid,
          bt_results = bt_results b @ [\<lparr>mx_market_id = symb, mx_clearing_price = po_clearing_price outcome,
            mx_matched_quantity = po_matched_quantity outcome, mx_valid_orders = private_count,
            mx_invalid_orders = market_invalid\<rparr>]\<rparr>, s))))))"

section \<open>Restoring the frozen orders\<close>

definition cancel_restored_order ::
  "engine_env \<Rightarrow> order \<Rightarrow> string \<Rightarrow> 'l engine_state \<Rightarrow> 'l engine_state exch" where
  "cancel_restored_order E ord reason s =
     bindr (release_margin E (ord_account_id ord) (ord_reserved_margin ord) s) (\<lambda>s.
     append_event E (OrderCancelled (ord_id ord) (ord_account_id ord) reason) (remove_order_indices ord s))"

text \<open>One escrowed order: cancelled when its price or its margin no longer fits, else trimmed and kept.\<close>

definition restore_escrowed ::
  "engine_env \<Rightarrow> market_state \<Rightarrow> order \<Rightarrow> order list \<times> 'l engine_state \<Rightarrow> (order list \<times> 'l engine_state) exch" where
  "restore_escrowed E m ord = (\<lambda>(ords, s).
     case bindr (validate_price_in_mark_band (en_dec E) (ord_limit_price ord) m) (\<lambda>_.
         required_order_reservation (en_dec E) (ord_side ord) (ord_remaining ord) (ord_limit_price ord)
           (ord_leverage ord) (ord_reduce_only ord) m) of
       Panic \<Rightarrow> Panic
     | Err e \<Rightarrow>
         bindr (cancel_restored_order E ord ''private_batch_mark_revalidation'' s) (\<lambda>s. Ok (ords, s))
     | Ok required \<Rightarrow>
         if ord_reserved_margin ord < required
         then bindr (cancel_restored_order E ord ''private_batch_margin_revalidation'' s) (\<lambda>s. Ok (ords, s))
         else
           bindr (d_ok ''restored order reservation'' (d_sub (en_dec E) (ord_reserved_margin ord) required)) (\<lambda>excess.
           bindr (release_margin E (ord_account_id ord) excess s) (\<lambda>s.
           Ok (ords @ [ord\<lparr>ord_reserved_margin := required\<rparr>], s))))"

text \<open>One order executed again; the accounts it touched are collected.\<close>

definition reexecute ::
  "engine_env \<Rightarrow> symbol \<Rightarrow> market_state \<Rightarrow> order \<Rightarrow> account_id list \<times> apply_context \<times> 'l engine_state \<Rightarrow>
   (account_id list \<times> apply_context \<times> 'l engine_state) exch" where
  "reexecute E symb m ord = (\<lambda>(affected, cx, s).
     bindr (execute_in_book E symb ord s) (\<lambda>(ex, s).
     bindr (apply_execution E m ex s) (\<lambda>s.
     bindr (record_trades E (ascii ''asteria/private-batch-restored-trade/v1'') m (ex_fills ex) cx s) (\<lambda>(trades, cx, s).
     Ok (affected @ affected_accounts ex, cx, s)))))"

definition restore_private_batch_orders ::
  "engine_env \<Rightarrow> symbol \<Rightarrow> order_book \<Rightarrow> apply_context \<Rightarrow> 'l engine_state \<Rightarrow> (apply_context \<times> 'l engine_state) exch" where
  "restore_private_batch_orders E symb escrowed cx s =
     bindr (get_market s symb) (\<lambda>m.
     bindr (ok_or (MarketNotFound symb) (om_get (es_books s) symb)) (\<lambda>bk.
     let (live, bk) = take_active_orders bk in
     bindr (foldr_res (restore_escrowed E m) (fst (take_active_orders escrowed)) (live, put_book symb bk s)) (\<lambda>(ords, s).
     bindr (foldr_res (reexecute E symb m)
       (sort_key (\<lambda>ord. (ord_sequence ord, ord_id ord)) ords) ([], cx, s)) (\<lambda>(affected, cx, s).
     bindr (reconcile_and_check E (bset affected) symb s) (\<lambda>s.
     Ok (cx, s))))))"

section \<open>The execution\<close>

definition drop_batch :: "nat \<Rightarrow> 'l engine_state \<Rightarrow> 'l engine_state" where
  "drop_batch height s =
     s\<lparr>es_pending_orders := om_remove height (es_pending_orders s),
       es_bonds := om_remove height (es_bonds s),
       es_batch_app_hashes := om_remove height (es_batch_app_hashes s),
       es_batch_snapshots := om_remove height (es_batch_snapshots s)\<rparr>"

definition report_invalid :: "engine_env \<Rightarrow> rejected \<Rightarrow> 'l engine_state \<Rightarrow> 'l engine_state exch" where
  "report_invalid E = foldr_res (\<lambda>(sid, reason). append_event E (PrivateOrderInvalid (hex E sid) reason))"

definition execute_private_decryption_bundle ::
  "engine_env \<Rightarrow> protocol_env \<Rightarrow> decryption_bundle \<Rightarrow> nat \<Rightarrow> bytes \<Rightarrow> 'l engine_state \<Rightarrow>
   (batch_execution \<times> 'l engine_state) exch" where
  "execute_private_decryption_bundle E V db execution_height tx_hash s =
     (let height = db_height db in
      bindr (batch_inputs V db execution_height s) (\<lambda>(pending, snapshot, outcomes, bonds).
      bindr (foldr_res (release_bond E bonds) pending s) (\<lambda>s.
      bindr (foldr_res (sort_outcome E s snapshot) outcomes ([], [])) (\<lambda>(invalid, by_market).
      bindr (build_escrow snapshot) (\<lambda>books.
      bindr (revalidate_escrow E books s) (\<lambda>(books, s).
      bindr (foldr_res (make_job E s snapshot books) (om_entries by_market) ([], [])) (\<lambda>(ids, jobs).
      bindr (traverse (clear_job E (es_chain_id s) db) jobs) (\<lambda>cleared.
      bindr (foldr_res (settle_market E V height pending invalid ids) cleared
        (\<lparr>bt_escrow = books, bt_context = new_context execution_height (es_block_time_ms s) 0 tx_hash,
          bt_valid = 0, bt_results = []\<rparr>, s)) (\<lambda>(b, s).
      bindr (report_invalid E invalid s) (\<lambda>s.
      bindr (foldr_res (\<lambda>(symb, bk) (cx, s). restore_private_batch_orders E symb bk cx s)
        (om_entries (bt_escrow b)) (bt_context b, s)) (\<lambda>(cx, s).
      Ok (\<lparr>bx_batch_height = height, bx_markets = bt_results b, bx_valid_orders = bt_valid b,
           bx_invalid_orders = length invalid\<rparr>, drop_batch height s))))))))))))"

end
