(* ===== verification/Shielded_Margin.thy ===== *)
theory Shielded_Margin
  imports Ordered_Map Bytes
begin

text \<open>
  Shielded margin notes (\<open>shielded_margin.rs\<close>): commitments and nullifiers, the append-only Merkle tree
  with its cache of nodes, the public risk policy, the statement of a spend and its transparent
  verification, and the state of spent nullifiers and accepted roots. Hashes are byte lists; SHA-256,
  Ed25519 and canonical JSON are other crates, the record \<open>shielded_env\<close>. Identifiers that wrap a
  hash are the hash. A \<open>u64\<close> is a natural, an \<open>i64\<close> an integer.
\<close>

section \<open>Notes\<close>

record public_note =
  nt_version :: nat
  nt_market_id :: bytes
  nt_collateral_asset :: bytes
  nt_commitment :: bytes

record note_opening =
  op_owner :: bytes
  op_nullifier_key :: bytes
  op_collateral :: nat
  op_position :: int
  op_leverage :: nat
  op_blinding :: bytes

record margin_policy =
  mp_version :: nat
  mp_market_id :: bytes
  mp_collateral_asset :: bytes
  mp_mark_price :: nat
  mp_price_scale :: nat
  mp_minimum_initial_margin_bps :: nat
  mp_maximum_leverage :: nat
  mp_minimum_fee :: nat

record spend_statement =
  st_version :: nat
  st_chain_domain :: bytes
  st_ledger_id :: bytes
  st_anchor_root :: bytes
  st_market_id :: bytes
  st_collateral_asset :: bytes
  st_policy_hash :: bytes
  st_nullifiers :: "bytes list"
  st_output_commitments :: "bytes list"
  st_fee :: nat

record merkle_proof =
  mk_leaf_index :: nat
  mk_siblings :: "bytes list"

record input_witness =
  iw_note :: public_note
  iw_opening :: note_opening
  iw_merkle_proof :: merkle_proof
  iw_signature :: bytes

record spend_proof =
  spf_inputs :: "input_witness list"
  spf_output_openings :: "note_opening list"

record shielded_spend =
  sd_statement :: spend_statement
  sd_proof :: bytes

record spend_receipt =
  sr_previous_root :: bytes
  sr_new_root :: bytes
  sr_output_leaf_indices :: "nat list"
  sr_nullifiers :: "bytes list"
  sr_fee :: nat

datatype margin_error =
    UnsupportedVersion nat nat
  | ZeroChainDomain
  | ZeroLedgerId
  | ZeroMarketId
  | ZeroCollateralAssetId
  | ZeroCommitment
  | ZeroNullifier
  | InvalidPolicy string
  | EmptyInputs
  | EmptyOutputs
  | TooManyInputs nat nat
  | TooManyOutputs nat nat
  | WitnessCountMismatch
  | PublicDomainMismatch nat
  | PolicyHashMismatch
  | DuplicateInputCommitment
  | DuplicateOutputCommitment
  | DuplicateNullifier
  | CommitmentAlreadyExists
  | NullifierAlreadySpent
  | UnknownMerkleRoot
  | MerkleIndexOutOfRange nat
  | InvalidMerkleProofLength nat nat
  | InvalidMerkleProof
  | CommitmentMismatch
  | NullifierMismatch
  | InvalidOwnerKey
  | InvalidSignatureLength
  | InvalidOwnerSignature
  | ZeroCollateral
  | InvalidLeverage nat
  | FeeBelowMinimum nat nat
  | ConservationViolation nat nat nat
  | PositionConservationViolation int int
  | InsufficientIsolatedMargin nat nat nat
  | MarginOverflow string
  | AmountOutOfRange
  | MerkleTreeFull
  | InvalidRootHistoryLimit
  | InvalidPersistenceState string
  | ProofTooLarge
  | ProofEncoding
  | NonCanonicalProof
  | ViewingCipherAuthentication
  | InvalidViewingKey
  | ViewingKeyRandomness
  | ViewingKeyEpochOverflow
  | ViewingKeyEpochUnavailable nat
  | ViewingKeyEpochMismatch
  | InvalidViewingAssociatedData string
  | InvalidViewingPayload string
  | UnsupportedViewingAadVersion nat nat
  | UnsupportedViewingPayloadVersion nat nat
  | ViewingPlaintextTooLarge nat nat
  | ViewingCiphertextTooLarge nat nat

type_synonym 'a sm = "(margin_error, 'a) res"

definition SHIELDED_MARGIN_VERSION :: nat where "SHIELDED_MARGIN_VERSION = 3"
definition MERKLE_DEPTH :: nat where "MERKLE_DEPTH = 32"
definition MAX_SPEND_INPUTS :: nat where "MAX_SPEND_INPUTS = 64"
definition MAX_SPEND_OUTPUTS :: nat where "MAX_SPEND_OUTPUTS = 64"
definition MAX_PROOF_BYTES :: nat where "MAX_PROOF_BYTES = 1024 * 1024"
definition DEFAULT_ROOT_HISTORY :: nat where "DEFAULT_ROOT_HISTORY = 64"
definition BASIS_POINTS_DENOMINATOR :: nat where "BASIS_POINTS_DENOMINATOR = 10000"

definition validate_version :: "nat \<Rightarrow> unit sm" where
  "validate_version v = check (v = SHIELDED_MARGIN_VERSION) (UnsupportedVersion v SHIELDED_MARGIN_VERSION)"

definition validate_ids :: "bytes \<Rightarrow> bytes \<Rightarrow> unit sm" where
  "validate_ids market_id collateral_asset =
     (if market_id = zero32 then Err ZeroMarketId
      else check (collateral_asset \<noteq> zero32) ZeroCollateralAssetId)"

text \<open>Every part of a hash is preceded by its length.\<close>

definition hash_framed :: "digest \<Rightarrow> bytes \<Rightarrow> bytes list \<Rightarrow> bytes" where
  "hash_framed H domain parts = H (domain @ concat (map (\<lambda>p. be_bytes 8 (length p) @ p) parts))"

text \<open>\<open>to_be_bytes\<close> of an \<open>i64\<close> is that of its residue modulo \<open>2 ^ 64\<close>.\<close>

definition signed_bytes :: "int \<Rightarrow> bytes" where
  "signed_bytes x = be_bytes 8 (nat (x mod 2 ^ 64))"

definition market_id_from_label :: "digest \<Rightarrow> bytes \<Rightarrow> bytes" where
  "market_id_from_label H label = hash_framed H (domain_tag ''ASTERIA_SHIELDED_MARKET_ID_V3'') [label]"

definition asset_id_from_label :: "digest \<Rightarrow> bytes \<Rightarrow> bytes" where
  "asset_id_from_label H label = hash_framed H (domain_tag ''ASTERIA_SHIELDED_ASSET_ID_V3'') [label]"

definition validate_note :: "public_note \<Rightarrow> unit sm" where
  "validate_note n =
     bindr (validate_version (nt_version n)) (\<lambda>_.
     bindr (validate_ids (nt_market_id n) (nt_collateral_asset n)) (\<lambda>_.
     check (nt_commitment n \<noteq> zero32) ZeroCommitment))"

definition note_bytes :: "public_note \<Rightarrow> bytes" where
  "note_bytes n = be_bytes 2 (nt_version n) @ nt_market_id n @ nt_collateral_asset n @ nt_commitment n"

definition commitment :: "digest \<Rightarrow> bytes \<Rightarrow> bytes \<Rightarrow> note_opening \<Rightarrow> bytes" where
  "commitment H market_id collateral_asset o' =
     hash_framed H (domain_tag ''ASTERIA_SHIELDED_NOTE_COMMITMENT_V3'')
       [be_bytes 2 SHIELDED_MARGIN_VERSION, market_id, collateral_asset, op_owner o', op_nullifier_key o',
        be_bytes 8 (op_collateral o'), signed_bytes (op_position o'), be_bytes 2 (op_leverage o'), op_blinding o']"

definition new_note :: "digest \<Rightarrow> bytes \<Rightarrow> bytes \<Rightarrow> note_opening \<Rightarrow> public_note" where
  "new_note H market_id collateral_asset o' =
     \<lparr>nt_version = SHIELDED_MARGIN_VERSION, nt_market_id = market_id,
      nt_collateral_asset = collateral_asset, nt_commitment = commitment H market_id collateral_asset o'\<rparr>"

definition derive_nullifier :: "digest \<Rightarrow> public_note \<Rightarrow> note_opening \<Rightarrow> nat \<Rightarrow> bytes" where
  "derive_nullifier H n o' leaf_index =
     hash_framed H (domain_tag ''ASTERIA_SHIELDED_NULLIFIER_V3'')
       [nt_market_id n, nt_collateral_asset n, nt_commitment n, be_bytes 8 leaf_index, op_nullifier_key o']"

section \<open>The risk policy\<close>

definition checked_ceil_div :: "nat \<Rightarrow> nat \<Rightarrow> nat sm" where
  "checked_ceil_div numerator denominator =
     (if denominator = 0 then Err (MarginOverflow ''division by zero'')
      else if numerator mod denominator = 0 then Ok (numerator div denominator)
      else ok_or (MarginOverflow ''ceiling division'') (checked_add u128_max (numerator div denominator) 1))"

definition validate_policy :: "margin_policy \<Rightarrow> unit sm" where
  "validate_policy p =
     bindr (validate_version (mp_version p)) (\<lambda>_.
     bindr (validate_ids (mp_market_id p) (mp_collateral_asset p)) (\<lambda>_.
     if mp_mark_price p = 0 then Err (InvalidPolicy ''mark price must be positive'')
     else if mp_price_scale p = 0 then Err (InvalidPolicy ''price scale must be positive'')
     else if BASIS_POINTS_DENOMINATOR < mp_minimum_initial_margin_bps p
     then Err (InvalidPolicy ''initial margin cannot exceed 10000 basis points'')
     else if mp_maximum_leverage p = 0 then Err (InvalidPolicy ''maximum leverage must be positive'')
     else Ok ()))"

definition policy_hash :: "digest \<Rightarrow> margin_policy \<Rightarrow> bytes sm" where
  "policy_hash H p =
     bindr (validate_policy p) (\<lambda>_.
     Ok (hash_framed H (domain_tag ''ASTERIA_SHIELDED_MARGIN_POLICY_V3'')
       [be_bytes 2 (mp_version p), mp_market_id p, mp_collateral_asset p, be_bytes 8 (mp_mark_price p),
        be_bytes 8 (mp_price_scale p), be_bytes 4 (mp_minimum_initial_margin_bps p),
        be_bytes 2 (mp_maximum_leverage p), be_bytes 8 (mp_minimum_fee p)]))"

definition fits_u64 :: "nat \<Rightarrow> nat sm" where
  "fits_u64 n = (if n \<le> u64_max then Ok n else Err AmountOutOfRange)"

definition required_margin :: "margin_policy \<Rightarrow> note_opening \<Rightarrow> nat sm" where
  "required_margin p o' =
     bindr (validate_policy p) (\<lambda>_.
     if op_leverage o' = 0 \<or> mp_maximum_leverage p < op_leverage o'
     then Err (InvalidLeverage (mp_maximum_leverage p))
     else
       bindr (ok_or (MarginOverflow ''position notional'')
         (checked_mul u128_max (nat \<bar>op_position o'\<bar>) (mp_mark_price p))) (\<lambda>scaled_notional.
       bindr (checked_ceil_div scaled_notional (mp_price_scale p)) (\<lambda>notional.
       bindr (checked_ceil_div notional (op_leverage o')) (\<lambda>leverage_margin.
       bindr (ok_or (MarginOverflow ''initial margin floor'')
         (checked_mul u128_max notional (mp_minimum_initial_margin_bps p))) (\<lambda>floor_numerator.
       bindr (checked_ceil_div floor_numerator BASIS_POINTS_DENOMINATOR) (\<lambda>floor_margin.
       fits_u64 (max leverage_margin floor_margin)))))))"

section \<open>Spend statements\<close>

definition statement_bytes :: "spend_statement \<Rightarrow> bytes sm" where
  "statement_bytes st =
     (if u32_max < length (st_nullifiers st) then Err (MarginOverflow ''nullifier count'')
      else if u32_max < length (st_output_commitments st) then Err (MarginOverflow ''output count'')
      else Ok (be_bytes 2 (st_version st) @ st_chain_domain st @ st_ledger_id st @ st_anchor_root st
        @ st_market_id st @ st_collateral_asset st @ st_policy_hash st @ be_bytes 8 (st_fee st)
        @ be_bytes 4 (length (st_nullifiers st)) @ concat (st_nullifiers st)
        @ be_bytes 4 (length (st_output_commitments st)) @ concat (st_output_commitments st)))"

definition authorization_digest :: "digest \<Rightarrow> spend_statement \<Rightarrow> bytes sm" where
  "authorization_digest H st =
     bindr (statement_bytes st) (\<lambda>bs.
     Ok (hash_framed H (domain_tag ''ASTERIA_SHIELDED_SPEND_AUTH_V3'') [bs]))"

text \<open>The loops over the commitments and the nullifiers, with the values seen.\<close>

fun distinct_nonzero :: "margin_error \<Rightarrow> margin_error \<Rightarrow> bytes list \<Rightarrow> bytes list \<Rightarrow> unit sm" where
  "distinct_nonzero is_zero is_duplicate seen [] = Ok ()"
| "distinct_nonzero is_zero is_duplicate seen (x # xs) =
     (if x = zero32 then Err is_zero
      else if x \<in> set seen then Err is_duplicate
      else distinct_nonzero is_zero is_duplicate (x # seen) xs)"

definition validate_public :: "digest \<Rightarrow> spend_statement \<Rightarrow> margin_policy \<Rightarrow> unit sm" where
  "validate_public H st p =
     bindr (validate_version (st_version st)) (\<lambda>_.
     if st_chain_domain st = zero32 then Err ZeroChainDomain
     else if st_ledger_id st = zero32 then Err ZeroLedgerId
     else
       bindr (validate_ids (st_market_id st) (st_collateral_asset st)) (\<lambda>_.
       bindr (validate_policy p) (\<lambda>_.
       if mp_market_id p \<noteq> st_market_id st \<or> mp_collateral_asset p \<noteq> st_collateral_asset st
       then Err (InvalidPolicy ''policy targets a different public market domain'')
       else
         bindr (policy_hash H p) (\<lambda>h.
         if st_policy_hash st \<noteq> h then Err PolicyHashMismatch
         else if st_nullifiers st = [] then Err EmptyInputs
         else if st_output_commitments st = [] then Err EmptyOutputs
         else if MAX_SPEND_INPUTS < length (st_nullifiers st)
         then Err (TooManyInputs (length (st_nullifiers st)) MAX_SPEND_INPUTS)
         else if MAX_SPEND_OUTPUTS < length (st_output_commitments st)
         then Err (TooManyOutputs (length (st_output_commitments st)) MAX_SPEND_OUTPUTS)
         else if st_fee st < mp_minimum_fee p then Err (FeeBelowMinimum (st_fee st) (mp_minimum_fee p))
         else
           bindr (distinct_nonzero ZeroCommitment DuplicateOutputCommitment [] (st_output_commitments st)) (\<lambda>_.
           distinct_nonzero ZeroNullifier DuplicateNullifier [] (st_nullifiers st))))))"

section \<open>The Merkle tree\<close>

definition merkle_capacity :: nat where "merkle_capacity = 2 ^ MERKLE_DEPTH"

definition merkle_leaf_hash :: "digest \<Rightarrow> public_note \<Rightarrow> bytes" where
  "merkle_leaf_hash H n = hash_framed H (domain_tag ''ASTERIA_SHIELDED_MERKLE_LEAF_V3'') [note_bytes n]"

definition merkle_node_hash :: "digest \<Rightarrow> bytes \<Rightarrow> bytes \<Rightarrow> bytes" where
  "merkle_node_hash H left right = hash_framed H (domain_tag ''ASTERIA_SHIELDED_MERKLE_NODE_V3'') [left, right]"

fun merkle_zero_hash :: "digest \<Rightarrow> nat \<Rightarrow> bytes" where
  "merkle_zero_hash H 0 = hash_framed H (domain_tag ''ASTERIA_SHIELDED_MERKLE_EMPTY_V3'') []"
| "merkle_zero_hash H (Suc height) = merkle_node_hash H (merkle_zero_hash H height) (merkle_zero_hash H height)"

record note_tree =
  tr_leaves :: "public_note list"
  tr_indices :: "(bytes, nat) omap"
  tr_nodes :: "(nat \<times> nat, bytes) omap"
  tr_cached_root :: bytes

definition empty_tree :: "digest \<Rightarrow> note_tree" where
  "empty_tree H = \<lparr>tr_leaves = [], tr_indices = [], tr_nodes = [],
     tr_cached_root = merkle_zero_hash H MERKLE_DEPTH\<rparr>"

definition tree_contains :: "note_tree \<Rightarrow> bytes \<Rightarrow> bool" where
  "tree_contains t c \<longleftrightarrow> om_get (tr_indices t) c \<noteq> None"

text \<open>One level of \<open>cache_append_path\<close>: the hash and the index of the node above.\<close>

definition append_level ::
  "digest \<Rightarrow> nat \<Rightarrow> bytes \<times> nat \<times> (nat \<times> nat, bytes) omap \<Rightarrow> (bytes \<times> nat \<times> (nat \<times> nat, bytes) omap) sm" where
  "append_level H height = (\<lambda>(current, index, nodes).
     bindr (if even index then Ok (merkle_node_hash H current (merkle_zero_hash H height))
            else bindr (expect (om_get nodes (height, index - 1))) (\<lambda>left. Ok (merkle_node_hash H left current)))
       (\<lambda>above. Ok (above, index div 2, om_insert (Suc height, index div 2) above nodes)))"

definition cache_append_path :: "digest \<Rightarrow> bytes \<Rightarrow> nat \<Rightarrow> note_tree \<Rightarrow> note_tree sm" where
  "cache_append_path H leaf_hash leaf_index t =
     bindr (foldr_res (append_level H) [0..<MERKLE_DEPTH]
       (leaf_hash, leaf_index, om_insert (0, leaf_index) leaf_hash (tr_nodes t))) (\<lambda>(root, index, nodes).
     Ok (t\<lparr>tr_nodes := nodes, tr_cached_root := root\<rparr>))"

definition tree_append :: "digest \<Rightarrow> public_note \<Rightarrow> note_tree \<Rightarrow> (nat \<times> note_tree) sm" where
  "tree_append H n t =
     bindr (validate_note n) (\<lambda>_.
     if tree_contains t (nt_commitment n) then Err CommitmentAlreadyExists
     else if merkle_capacity \<le> length (tr_leaves t) then Err MerkleTreeFull
     else
       (let index = length (tr_leaves t) in
        bindr (cache_append_path H (merkle_leaf_hash H n) index t) (\<lambda>t.
        Ok (index, t\<lparr>tr_indices := om_insert (nt_commitment n) index (tr_indices t),
                     tr_leaves := tr_leaves t @ [n]\<rparr>))))"

text \<open>\<open>cursor ^ 1\<close> flips the last bit.\<close>

definition sibling_index :: "nat \<Rightarrow> nat" where
  "sibling_index i = (if even i then i + 1 else i - 1)"

fun proof_siblings :: "digest \<Rightarrow> (nat \<times> nat, bytes) omap \<Rightarrow> nat \<Rightarrow> nat list \<Rightarrow> bytes list" where
  "proof_siblings H nodes cursor [] = []"
| "proof_siblings H nodes cursor (height # heights) =
     (case om_get nodes (height, sibling_index cursor) of Some h \<Rightarrow> h | None \<Rightarrow> merkle_zero_hash H height)
       # proof_siblings H nodes (cursor div 2) heights"

definition tree_proof :: "digest \<Rightarrow> nat \<Rightarrow> note_tree \<Rightarrow> merkle_proof sm" where
  "tree_proof H leaf_index t =
     (if length (tr_leaves t) \<le> leaf_index then Err (MerkleIndexOutOfRange leaf_index)
      else Ok \<lparr>mk_leaf_index = leaf_index,
               mk_siblings = proof_siblings H (tr_nodes t) leaf_index [0..<MERKLE_DEPTH]\<rparr>)"

text \<open>The loop of \<open>MerkleProof::verify\<close> up the path.\<close>

fun climb :: "digest \<Rightarrow> bytes \<Rightarrow> nat \<Rightarrow> bytes list \<Rightarrow> bytes" where
  "climb H current index [] = current"
| "climb H current index (sibling # siblings) =
     climb H (if even index then merkle_node_hash H current sibling else merkle_node_hash H sibling current)
       (index div 2) siblings"

definition verify_merkle_proof :: "digest \<Rightarrow> merkle_proof \<Rightarrow> public_note \<Rightarrow> bytes \<Rightarrow> unit sm" where
  "verify_merkle_proof H mk n expected_root =
     (if length (mk_siblings mk) \<noteq> MERKLE_DEPTH
      then Err (InvalidMerkleProofLength MERKLE_DEPTH (length (mk_siblings mk)))
      else if merkle_capacity \<le> mk_leaf_index mk then Err (MerkleIndexOutOfRange (mk_leaf_index mk))
      else check (climb H (merkle_leaf_hash H n) (mk_leaf_index mk) (mk_siblings mk) = expected_root)
        InvalidMerkleProof)"

text \<open>The root of a prefix of the leaves, from the cached nodes.\<close>

fun prefix_subtree_root :: "digest \<Rightarrow> note_tree \<Rightarrow> nat \<Rightarrow> nat \<Rightarrow> nat \<Rightarrow> bytes sm" where
  "prefix_subtree_root H t height index leaf_count =
     (let start = index * 2 ^ height; stop = start + 2 ^ height in
      if u64_max < start \<or> u64_max < stop
      then Err (InvalidPersistenceState ''Merkle prefix range overflow'')
      else if leaf_count \<le> start then Ok (merkle_zero_hash H height)
      else if stop \<le> leaf_count
      then ok_or (InvalidPersistenceState ''missing cached Merkle node'') (om_get (tr_nodes t) (height, index))
      else (case height of
          0 \<Rightarrow> Err (InvalidPersistenceState ''partial Merkle leaf range is impossible'')
        | Suc child \<Rightarrow>
            bindr (prefix_subtree_root H t child (2 * index) leaf_count) (\<lambda>left.
            bindr (prefix_subtree_root H t child (2 * index + 1) leaf_count) (\<lambda>right.
            Ok (merkle_node_hash H left right)))))"

declare prefix_subtree_root.simps [simp del]

definition root_at_leaf_count :: "digest \<Rightarrow> note_tree \<Rightarrow> nat \<Rightarrow> bytes sm" where
  "root_at_leaf_count H t leaf_count =
     (if length (tr_leaves t) < leaf_count
      then Err (InvalidPersistenceState ''prefix note count exceeds current count'')
      else if leaf_count = length (tr_leaves t) then Ok (tr_cached_root t)
      else prefix_subtree_root H t MERKLE_DEPTH 0 leaf_count)"

section \<open>The transparent verifier\<close>

record shielded_env =
  sv_sha :: digest
  sv_spend_parse :: "bytes \<Rightarrow> spend_proof option"
  sv_spend_json :: "spend_proof \<Rightarrow> bytes option"
  sv_deposit_parse :: "bytes \<Rightarrow> note_opening option"
  sv_deposit_json :: "note_opening \<Rightarrow> bytes option"
  sv_key_parses :: "bytes \<Rightarrow> bool"
  sv_verify_strict :: "bytes \<Rightarrow> bytes \<Rightarrow> bytes \<Rightarrow> bool"

definition decode_spend_proof :: "shielded_env \<Rightarrow> bytes \<Rightarrow> spend_proof sm" where
  "decode_spend_proof V bs =
     bindr (ok_or ProofEncoding (sv_spend_parse V bs)) (\<lambda>p.
     bindr (ok_or ProofEncoding (sv_spend_json V p)) (\<lambda>canonical.
     if canonical \<noteq> bs then Err NonCanonicalProof else Ok p))"

definition verify_owner_authorization :: "shielded_env \<Rightarrow> bytes \<Rightarrow> bytes \<Rightarrow> bytes \<Rightarrow> unit sm" where
  "verify_owner_authorization V owner message signature =
     (if \<not> sv_key_parses V owner then Err InvalidOwnerKey
      else if length signature \<noteq> 64 then Err InvalidSignatureLength
      else check (sv_verify_strict V owner message signature) InvalidOwnerSignature)"

definition checked_add_i128 :: "int \<Rightarrow> int \<Rightarrow> int option" where
  "checked_add_i128 a b = (if - (2 ^ 127) \<le> a + b \<and> a + b < 2 ^ 127 then Some (a + b) else None)"

text \<open>The checks of one input against its nullifier.\<close>

definition check_input ::
  "shielded_env \<Rightarrow> spend_statement \<Rightarrow> bytes \<Rightarrow> nat \<Rightarrow> bytes \<Rightarrow> bytes list \<Rightarrow> input_witness \<Rightarrow> unit sm" where
  "check_input V st digest index nullifier seen w =
     (let n = iw_note w; o' = iw_opening w; H = sv_sha V in
      bindr (validate_note n) (\<lambda>_.
      if nt_market_id n \<noteq> st_market_id st \<or> nt_collateral_asset n \<noteq> st_collateral_asset st
      then Err (PublicDomainMismatch index)
      else if nt_commitment n \<in> set seen then Err DuplicateInputCommitment
      else if commitment H (nt_market_id n) (nt_collateral_asset n) o' \<noteq> nt_commitment n
      then Err CommitmentMismatch
      else
        bindr (verify_merkle_proof H (iw_merkle_proof w) n (st_anchor_root st)) (\<lambda>_.
        if derive_nullifier H n o' (mk_leaf_index (iw_merkle_proof w)) \<noteq> nullifier then Err NullifierMismatch
        else
          bindr (verify_owner_authorization V (op_owner o') digest (iw_signature w)) (\<lambda>_.
          check (op_collateral o' \<noteq> 0) ZeroCollateral))))"

fun verify_inputs ::
  "shielded_env \<Rightarrow> spend_statement \<Rightarrow> bytes \<Rightarrow> nat \<Rightarrow> bytes list \<Rightarrow> nat \<Rightarrow> int \<Rightarrow>
   (input_witness \<times> bytes) list \<Rightarrow> (nat \<times> int) sm" where
  "verify_inputs V st digest index seen amount position [] = Ok (amount, position)"
| "verify_inputs V st digest index seen amount position ((w, nullifier) # ws) =
     bindr (check_input V st digest index nullifier seen w) (\<lambda>_.
     bindr (ok_or (MarginOverflow ''input collateral total'')
       (checked_add u128_max amount (op_collateral (iw_opening w)))) (\<lambda>amount.
     bindr (ok_or (MarginOverflow ''input position total'')
       (checked_add_i128 position (op_position (iw_opening w)))) (\<lambda>position.
     verify_inputs V st digest (Suc index) (nt_commitment (iw_note w) # seen) amount position ws)))"

fun verify_outputs ::
  "shielded_env \<Rightarrow> spend_statement \<Rightarrow> margin_policy \<Rightarrow> nat \<Rightarrow> nat \<Rightarrow> int \<Rightarrow>
   (note_opening \<times> bytes) list \<Rightarrow> (nat \<times> int) sm" where
  "verify_outputs V st p index amount position [] = Ok (amount, position)"
| "verify_outputs V st p index amount position ((o', c) # os) =
     (if commitment (sv_sha V) (st_market_id st) (st_collateral_asset st) o' \<noteq> c then Err CommitmentMismatch
      else if op_collateral o' = 0 then Err ZeroCollateral
      else
        bindr (required_margin p o') (\<lambda>required.
        if op_collateral o' < required
        then Err (InsufficientIsolatedMargin index (op_collateral o') required)
        else
          bindr (ok_or (MarginOverflow ''output collateral total'')
            (checked_add u128_max amount (op_collateral o'))) (\<lambda>amount.
          bindr (ok_or (MarginOverflow ''output position total'')
            (checked_add_i128 position (op_position o'))) (\<lambda>position.
          verify_outputs V st p (Suc index) amount position os))))"

definition verify_transparent ::
  "shielded_env \<Rightarrow> spend_statement \<Rightarrow> margin_policy \<Rightarrow> bytes \<Rightarrow> unit sm" where
  "verify_transparent V st p proof_bytes =
     (if MAX_PROOF_BYTES < length proof_bytes then Err ProofTooLarge
      else
        bindr (validate_public (sv_sha V) st p) (\<lambda>_.
        bindr (decode_spend_proof V proof_bytes) (\<lambda>pf.
        if length (spf_inputs pf) \<noteq> length (st_nullifiers st)
          \<or> length (spf_output_openings pf) \<noteq> length (st_output_commitments st)
        then Err WitnessCountMismatch
        else
          bindr (authorization_digest (sv_sha V) st) (\<lambda>digest.
          bindr (verify_inputs V st digest 0 [] 0 0 (zip (spf_inputs pf) (st_nullifiers st))) (\<lambda>(input_total, input_position).
          bindr (verify_outputs V st p 0 0 0 (zip (spf_output_openings pf) (st_output_commitments st))) (\<lambda>(output_total, output_position).
          bindr (ok_or (MarginOverflow ''outputs plus fee'') (checked_add u128_max output_total (st_fee st))) (\<lambda>outputs_and_fee.
          if input_total \<noteq> outputs_and_fee then Err (ConservationViolation input_total output_total (st_fee st))
          else if input_position \<noteq> output_position
          then Err (PositionConservationViolation input_position output_position)
          else Ok ())))))))"

section \<open>The state of the notes\<close>

text \<open>The spent nullifiers are an \<open>OrdSet\<close>: a list without repetition in ascending order.\<close>

record margin_state =
  sg_tree :: note_tree
  sg_spent :: "bytes list"
  sg_accepted_roots :: "bytes list"
  sg_root_history_limit :: nat

definition new_margin_state :: "digest \<Rightarrow> margin_state" where
  "new_margin_state H = \<lparr>sg_tree = empty_tree H, sg_spent = [],
     sg_accepted_roots = [tr_cached_root (empty_tree H)], sg_root_history_limit = DEFAULT_ROOT_HISTORY\<rparr>"

definition with_root_history_limit :: "digest \<Rightarrow> nat \<Rightarrow> margin_state sm" where
  "with_root_history_limit H limit =
     (if limit = 0 then Err InvalidRootHistoryLimit
      else Ok ((new_margin_state H)\<lparr>sg_root_history_limit := limit\<rparr>))"

definition margin_root :: "margin_state \<Rightarrow> bytes" where
  "margin_root g = tr_cached_root (sg_tree g)"

definition remember_current_root :: "margin_state \<Rightarrow> margin_state" where
  "remember_current_root g =
     (let roots = sg_accepted_roots g;
          roots = (if roots = [] \<or> last roots \<noteq> margin_root g then roots @ [margin_root g] else roots) in
      g\<lparr>sg_accepted_roots := drop (length roots - sg_root_history_limit g) roots\<rparr>)"

definition append_deposit_commitment :: "digest \<Rightarrow> public_note \<Rightarrow> margin_state \<Rightarrow> (nat \<times> margin_state) sm" where
  "append_deposit_commitment H n g =
     bindr (validate_note n) (\<lambda>_.
     if tree_contains (sg_tree g) (nt_commitment n) then Err CommitmentAlreadyExists
     else
       bindr (tree_append H n (sg_tree g)) (\<lambda>(index, t).
       Ok (index, remember_current_root (g\<lparr>sg_tree := t\<rparr>))))"

text \<open>The checks of a spend against the state.\<close>

definition admit_spend :: "digest \<Rightarrow> spend_statement \<Rightarrow> margin_policy \<Rightarrow> margin_state \<Rightarrow> unit sm" where
  "admit_spend H st p g =
     bindr (validate_public H st p) (\<lambda>_.
     if \<exists>x \<in> set (st_nullifiers st). x \<in> set (sg_spent g) then Err NullifierAlreadySpent
     else if st_anchor_root st \<notin> set (sg_accepted_roots g) then Err UnknownMerkleRoot
     else if \<exists>c \<in> set (st_output_commitments st). tree_contains (sg_tree g) c then Err CommitmentAlreadyExists
     else if merkle_capacity < length (tr_leaves (sg_tree g)) + length (st_output_commitments st)
     then Err MerkleTreeFull
     else Ok ())"

definition output_note :: "spend_statement \<Rightarrow> bytes \<Rightarrow> public_note" where
  "output_note st c = \<lparr>nt_version = st_version st, nt_market_id = st_market_id st,
     nt_collateral_asset = st_collateral_asset st, nt_commitment = c\<rparr>"

definition append_outputs ::
  "digest \<Rightarrow> spend_statement \<Rightarrow> note_tree \<Rightarrow> (nat list \<times> note_tree) sm" where
  "append_outputs H st t =
     foldr_res (\<lambda>c (indices, t). bindr (tree_append H (output_note st c) t) (\<lambda>(i, t). Ok (indices @ [i], t)))
       (st_output_commitments st) ([], t)"

text \<open>\<open>verifier\<close> is the proof verifier, of the type that the trait declares.\<close>

definition apply_spend ::
  "digest \<Rightarrow> (spend_statement \<Rightarrow> margin_policy \<Rightarrow> bytes \<Rightarrow> unit sm) \<Rightarrow> shielded_spend \<Rightarrow> margin_policy \<Rightarrow>
   margin_state \<Rightarrow> (spend_receipt \<times> margin_state) sm" where
  "apply_spend H verifier sp p g =
     (let st = sd_statement sp in
      bindr (admit_spend H st p g) (\<lambda>_.
      bindr (verifier st p (sd_proof sp)) (\<lambda>_.
      bindr (append_outputs H st (sg_tree g)) (\<lambda>(indices, t).
      let g' = remember_current_root (g\<lparr>sg_tree := t, sg_spent := bset (st_nullifiers st @ sg_spent g)\<rparr>) in
      Ok (\<lparr>sr_previous_root = margin_root g, sr_new_root = margin_root g', sr_output_leaf_indices = indices,
           sr_nullifiers = st_nullifiers st, sr_fee = st_fee st\<rparr>, g')))))"

end
