(* ===== verification/Shielded_Protocol.thy ===== *)
theory Shielded_Protocol
  imports Shielded_Margin
begin

text \<open>
  The accounting around shielded notes (\<open>shielded_protocol.rs\<close>): deposits authorised by a signature of
  the deposit authority, spends, the collateral and fee totals, and the rebuilding of the notes and of
  the ledger from persisted parts. The type parameter of the Rust ledger is the field \<open>sl_mode\<close>; the
  proof verifiers are records of their security class and their function. A \<open>TransparentDepositProof\<close>
  is its opening.
\<close>

datatype proof_security = TransparentDevelopment | ProductionZeroKnowledge

datatype ledger_mode = Development | Production

datatype ledger_error =
    UnsupportedProtocolVersion nat nat
  | InvalidShieldedChainId
  | ZeroLedgerChainDomain
  | ZeroOwnLedgerId
  | InvalidDepositAuthority
  | LedgerIdMismatch
  | ChainDomainMismatch
  | MarketAlreadyRegistered
  | MarketNotRegistered
  | CollateralAssetMismatch
  | ZeroBackingAmount
  | InvalidAuthoritySignatureLength
  | InvalidAuthoritySignature
  | DepositProofTooLarge
  | NonCanonicalDepositProof
  | DepositEncoding
  | DepositCommitmentMismatch
  | DepositBackingMismatch nat nat
  | DepositMustBeFlat
  | InvalidDepositOwner
  | ZeroDepositNullifierKey
  | ZeroDepositBlinding
  | ProductionVerifierRequired string
  | AccountingOverflow string
  | AccountingInvariant
  | InvalidLedgerPersistence string
  | Margin margin_error

type_synonym 'a sl = "(ledger_error, 'a) res"

definition SHIELDED_PROTOCOL_VERSION :: nat where "SHIELDED_PROTOCOL_VERSION = 3"
definition MAX_SHIELDED_CHAIN_ID_BYTES :: nat where "MAX_SHIELDED_CHAIN_ID_BYTES = 128"

record deposit_statement =
  dp_version :: nat
  dp_chain_domain :: bytes
  dp_ledger_id :: bytes
  dp_note :: public_note
  dp_backing_amount :: nat

record authority_deposit =
  ad_statement :: deposit_statement
  ad_signature :: bytes
  ad_proof :: bytes

record deposit_receipt =
  dr_leaf_index :: nat
  dr_previous_root :: bytes
  dr_new_root :: bytes
  dr_previous_collateral :: nat
  dr_next_collateral :: nat
  dr_backing_amount :: nat

record protocol_spend_receipt =
  pr_state_receipt :: spend_receipt
  pr_previous_collateral :: nat
  pr_next_collateral :: nat
  pr_previous_fee_total :: nat
  pr_next_fee_total :: nat

record deposit_verifier =
  dv_security :: proof_security
  dv_verify :: "deposit_statement \<Rightarrow> bytes \<Rightarrow> unit sl"

record spend_verifier =
  sp_security :: proof_security
  sp_verify :: "spend_statement \<Rightarrow> margin_policy \<Rightarrow> bytes \<Rightarrow> unit sm"

record shielded_ledger =
  sl_version :: nat
  sl_chain_domain :: bytes
  sl_ledger_id :: bytes
  sl_deposit_authority :: bytes
  sl_mode :: ledger_mode
  sl_policies :: "(bytes, margin_policy) omap"
  sl_margin :: margin_state
  sl_collateral :: nat
  sl_fee_total :: nat

definition lift_margin :: "'a sm \<Rightarrow> 'a sl" where
  "lift_margin r = map_err Margin r"

section \<open>Deposit statements and their transparent proof\<close>

definition deposit_bytes :: "deposit_statement \<Rightarrow> bytes" where
  "deposit_bytes d = be_bytes 2 (dp_version d) @ dp_chain_domain d @ dp_ledger_id d @ note_bytes (dp_note d)
     @ be_bytes 8 (dp_backing_amount d)"

definition deposit_digest :: "digest \<Rightarrow> deposit_statement \<Rightarrow> bytes" where
  "deposit_digest H d = hash_framed H (domain_tag ''ASTERIA_SHIELDED_DEPOSIT_AUTH_V3'') [deposit_bytes d]"

definition decode_deposit_proof :: "shielded_env \<Rightarrow> bytes \<Rightarrow> note_opening sl" where
  "decode_deposit_proof V bs =
     bindr (ok_or DepositEncoding (sv_deposit_parse V bs)) (\<lambda>o'.
     bindr (ok_or DepositEncoding (sv_deposit_json V o')) (\<lambda>canonical.
     if canonical \<noteq> bs then Err NonCanonicalDepositProof else Ok o'))"

definition verify_transparent_deposit :: "shielded_env \<Rightarrow> deposit_statement \<Rightarrow> bytes \<Rightarrow> unit sl" where
  "verify_transparent_deposit V d proof_bytes =
     (if MAX_PROOF_BYTES < length proof_bytes then Err DepositProofTooLarge
      else
        bindr (decode_deposit_proof V proof_bytes) (\<lambda>o'.
        if commitment (sv_sha V) (nt_market_id (dp_note d)) (nt_collateral_asset (dp_note d)) o' \<noteq> nt_commitment (dp_note d)
        then Err DepositCommitmentMismatch
        else if op_collateral o' \<noteq> dp_backing_amount d
        then Err (DepositBackingMismatch (op_collateral o') (dp_backing_amount d))
        else if op_position o' \<noteq> 0 \<or> op_leverage o' \<noteq> 1 then Err DepositMustBeFlat
        else if \<not> sv_key_parses V (op_owner o') then Err InvalidDepositOwner
        else if op_nullifier_key o' = zero32 then Err ZeroDepositNullifierKey
        else if op_blinding o' = zero32 then Err ZeroDepositBlinding
        else Ok ()))"

definition transparent_deposit_verifier :: "shielded_env \<Rightarrow> deposit_verifier" where
  "transparent_deposit_verifier V =
     \<lparr>dv_security = TransparentDevelopment, dv_verify = verify_transparent_deposit V\<rparr>"

definition transparent_spend_verifier :: "shielded_env \<Rightarrow> spend_verifier" where
  "transparent_spend_verifier V = \<lparr>sp_security = TransparentDevelopment, sp_verify = verify_transparent V\<rparr>"

section \<open>The ledger\<close>

definition validate_header :: "shielded_env \<Rightarrow> shielded_ledger \<Rightarrow> unit sl" where
  "validate_header V l =
     (if sl_version l \<noteq> SHIELDED_PROTOCOL_VERSION
      then Err (UnsupportedProtocolVersion (sl_version l) SHIELDED_PROTOCOL_VERSION)
      else if sl_chain_domain l = zero32 then Err ZeroLedgerChainDomain
      else if sl_ledger_id l = zero32 then Err ZeroOwnLedgerId
      else check (sv_key_parses V (sl_deposit_authority l)) InvalidDepositAuthority)"

definition ensure_proof_security :: "shielded_ledger \<Rightarrow> proof_security \<Rightarrow> string \<Rightarrow> unit sl" where
  "ensure_proof_security l security operation =
     (if sl_mode l = Production \<and> security \<noteq> ProductionZeroKnowledge
      then Err (ProductionVerifierRequired operation) else Ok ())"

definition new_ledger :: "shielded_env \<Rightarrow> bytes \<Rightarrow> bytes \<Rightarrow> bytes \<Rightarrow> ledger_mode \<Rightarrow> shielded_ledger sl" where
  "new_ledger V chain_domain ledger_id authority mode =
     (if chain_domain = zero32 then Err ZeroLedgerChainDomain
      else if ledger_id = zero32 then Err ZeroOwnLedgerId
      else if \<not> sv_key_parses V authority then Err InvalidDepositAuthority
      else Ok \<lparr>sl_version = SHIELDED_PROTOCOL_VERSION, sl_chain_domain = chain_domain,
               sl_ledger_id = ledger_id, sl_deposit_authority = authority, sl_mode = mode, sl_policies = [],
               sl_margin = new_margin_state (sv_sha V), sl_collateral = 0, sl_fee_total = 0\<rparr>)"

definition register_market :: "shielded_env \<Rightarrow> margin_policy \<Rightarrow> shielded_ledger \<Rightarrow> shielded_ledger sl" where
  "register_market V p l =
     bindr (validate_header V l) (\<lambda>_.
     bindr (lift_margin (validate_policy p)) (\<lambda>_.
     if om_get (sl_policies l) (mp_market_id p) \<noteq> None then Err MarketAlreadyRegistered
     else Ok (l\<lparr>sl_policies := om_insert (mp_market_id p) p (sl_policies l)\<rparr>)))"

definition verify_authority_signature :: "shielded_env \<Rightarrow> bytes \<Rightarrow> bytes \<Rightarrow> bytes \<Rightarrow> unit sl" where
  "verify_authority_signature V authority message signature =
     (if \<not> sv_key_parses V authority then Err InvalidDepositAuthority
      else if length signature \<noteq> 64 then Err InvalidAuthoritySignatureLength
      else check (sv_verify_strict V authority message signature) InvalidAuthoritySignature)"

text \<open>The checks of a deposit before the accounting.\<close>

definition admit_deposit :: "shielded_env \<Rightarrow> authority_deposit \<Rightarrow> deposit_verifier \<Rightarrow> shielded_ledger \<Rightarrow> unit sl" where
  "admit_deposit V ad dv l =
     (let d = ad_statement ad in
      bindr (validate_header V l) (\<lambda>_.
      bindr (ensure_proof_security l (dv_security dv) ''deposit'') (\<lambda>_.
      if dp_version d \<noteq> SHIELDED_PROTOCOL_VERSION
      then Err (UnsupportedProtocolVersion (dp_version d) SHIELDED_PROTOCOL_VERSION)
      else if dp_chain_domain d \<noteq> sl_chain_domain l then Err ChainDomainMismatch
      else if dp_ledger_id d \<noteq> sl_ledger_id l then Err LedgerIdMismatch
      else if dp_backing_amount d = 0 then Err ZeroBackingAmount
      else
        bindr (ok_or MarketNotRegistered (om_get (sl_policies l) (nt_market_id (dp_note d)))) (\<lambda>p.
        if mp_collateral_asset p \<noteq> nt_collateral_asset (dp_note d) then Err CollateralAssetMismatch
        else
          bindr (verify_authority_signature V (sl_deposit_authority l) (deposit_digest (sv_sha V) d) (ad_signature ad)) (\<lambda>_.
          dv_verify dv d (ad_proof ad))))))"

definition ledger_deposit ::
  "shielded_env \<Rightarrow> authority_deposit \<Rightarrow> deposit_verifier \<Rightarrow> shielded_ledger \<Rightarrow> (deposit_receipt \<times> shielded_ledger) sl" where
  "ledger_deposit V ad dv l =
     (let d = ad_statement ad in
      bindr (admit_deposit V ad dv l) (\<lambda>_.
      bindr (ok_or (AccountingOverflow ''deposit collateral total'')
        (checked_add u128_max (sl_collateral l) (dp_backing_amount d))) (\<lambda>next_collateral.
      bindr (lift_margin (append_deposit_commitment (sv_sha V) (dp_note d) (sl_margin l))) (\<lambda>(index, g).
      Ok (\<lparr>dr_leaf_index = index, dr_previous_root = margin_root (sl_margin l), dr_new_root = margin_root g,
           dr_previous_collateral = sl_collateral l, dr_next_collateral = next_collateral,
           dr_backing_amount = dp_backing_amount d\<rparr>,
          l\<lparr>sl_margin := g, sl_collateral := next_collateral\<rparr>)))))"

text \<open>The checks of a spend and the totals that it leads to.\<close>

definition spend_totals :: "shielded_env \<Rightarrow> shielded_spend \<Rightarrow> spend_verifier \<Rightarrow> shielded_ledger \<Rightarrow> (margin_policy \<times> nat \<times> nat) sl" where
  "spend_totals V sp sv l =
     (let st = sd_statement sp in
      bindr (validate_header V l) (\<lambda>_.
      bindr (ensure_proof_security l (sp_security sv) ''spend'') (\<lambda>_.
      if st_chain_domain st \<noteq> sl_chain_domain l then Err ChainDomainMismatch
      else if st_ledger_id st \<noteq> sl_ledger_id l then Err LedgerIdMismatch
      else
        bindr (ok_or MarketNotRegistered (om_get (sl_policies l) (st_market_id st))) (\<lambda>p.
        bindr (ok_or AccountingInvariant (checked_sub (sl_collateral l) (st_fee st))) (\<lambda>next_collateral.
        bindr (ok_or (AccountingOverflow ''fee total'') (checked_add u128_max (sl_fee_total l) (st_fee st))) (\<lambda>next_fee_total.
        if checked_add u128_max next_collateral (st_fee st) \<noteq> Some (sl_collateral l) then Err AccountingInvariant
        else Ok (p, next_collateral, next_fee_total)))))))"

definition ledger_spend ::
  "shielded_env \<Rightarrow> shielded_spend \<Rightarrow> spend_verifier \<Rightarrow> shielded_ledger \<Rightarrow> (protocol_spend_receipt \<times> shielded_ledger) sl" where
  "ledger_spend V sp sv l =
     bindr (spend_totals V sp sv l) (\<lambda>(p, next_collateral, next_fee_total).
     bindr (lift_margin (apply_spend (sv_sha V) (sp_verify sv) sp p (sl_margin l))) (\<lambda>(receipt, g).
     Ok (\<lparr>pr_state_receipt = receipt, pr_previous_collateral = sl_collateral l,
          pr_next_collateral = next_collateral, pr_previous_fee_total = sl_fee_total l,
          pr_next_fee_total = next_fee_total\<rparr>,
         l\<lparr>sl_margin := g, sl_collateral := next_collateral, sl_fee_total := next_fee_total\<rparr>)))"

definition derive_chain_domain :: "digest \<Rightarrow> string \<Rightarrow> bytes sl" where
  "derive_chain_domain H chain_id =
     (if chain_id = [] \<or> \<not> trimmed chain_id \<or> MAX_SHIELDED_CHAIN_ID_BYTES < length chain_id
        \<or> (\<exists>b \<in> set (ascii chain_id). b < 32 \<or> b = 127)
      then Err InvalidShieldedChainId
      else Ok (hash_framed H (domain_tag ''ASTERIA_SHIELDED_CHAIN_DOMAIN_V3'') [ascii chain_id]))"

section \<open>Persistence of the notes\<close>

record margin_header =
  mh_note_count :: nat
  mh_nullifier_count :: nat
  mh_current_root :: bytes
  mh_accepted_roots :: "bytes list"
  mh_root_history_limit :: nat

definition margin_header_of :: "margin_state \<Rightarrow> margin_header" where
  "margin_header_of g =
     \<lparr>mh_note_count = length (tr_leaves (sg_tree g)), mh_nullifier_count = card (set (sg_spent g)),
      mh_current_root = margin_root g, mh_accepted_roots = sg_accepted_roots g,
      mh_root_history_limit = sg_root_history_limit g\<rparr>"

definition margin_parts :: "margin_state \<Rightarrow> margin_header \<times> public_note list \<times> bytes list" where
  "margin_parts g = (margin_header_of g, tr_leaves (sg_tree g), sg_spent g)"

text \<open>The loop over the persisted notes: the tree and the root of every prefix.\<close>

definition load_note :: "digest \<Rightarrow> nat \<times> public_note \<Rightarrow> note_tree \<times> bytes list \<Rightarrow> (note_tree \<times> bytes list) sm" where
  "load_note H = (\<lambda>(leaf_index, n) (t, roots).
     if leaf_index \<noteq> length (tr_leaves t) then Err (InvalidPersistenceState ''note indices must be continuous'')
     else bindr (tree_append H n t) (\<lambda>(i, t). Ok (t, roots @ [tr_cached_root t])))"

text \<open>The accepted roots, found in order among the roots that remain.\<close>

fun ordered_prefix_roots :: "bytes list \<Rightarrow> bytes list \<Rightarrow> bool" where
  "ordered_prefix_roots [] roots = True"
| "ordered_prefix_roots (a # as) [] = False"
| "ordered_prefix_roots (a # as) (r # rs) =
     (if r = a then ordered_prefix_roots as rs else ordered_prefix_roots (a # as) rs)"

definition check_margin_header :: "margin_header \<Rightarrow> note_tree \<Rightarrow> bytes list \<Rightarrow> bytes list \<Rightarrow> unit sm" where
  "check_margin_header h t roots spent =
     (if length (tr_leaves t) \<noteq> mh_note_count h
      then Err (InvalidPersistenceState ''header declares a different note count'')
      else if tr_cached_root t \<noteq> mh_current_root h
      then Err (InvalidPersistenceState ''header root does not match the rebuilt note tree'')
      else if card (set spent) \<noteq> mh_nullifier_count h
      then Err (InvalidPersistenceState ''header declares a different nullifier count'')
      else if length (tr_leaves t) < card (set spent) \<or> zero32 \<in> set spent
      then Err (InvalidPersistenceState ''persisted nullifier set is inconsistent with the note set'')
      else if mh_accepted_roots h = [] \<or> mh_root_history_limit h < length (mh_accepted_roots h)
        \<or> last (mh_accepted_roots h) \<noteq> mh_current_root h
      then Err (InvalidPersistenceState ''accepted root history has invalid bounds or current root'')
      else check (ordered_prefix_roots (mh_accepted_roots h) roots)
        (InvalidPersistenceState ''accepted root is not an ordered note-tree prefix''))"

definition rebuild_margin :: "digest \<Rightarrow> margin_header \<Rightarrow> (nat \<times> public_note) list \<Rightarrow> bytes list \<Rightarrow> margin_state sm" where
  "rebuild_margin H h notes spent =
     (if mh_root_history_limit h = 0 then Err InvalidRootHistoryLimit
      else
        bindr (foldr_res (load_note H) notes (empty_tree H, [tr_cached_root (empty_tree H)])) (\<lambda>(t, roots).
        bindr (check_margin_header h t roots spent) (\<lambda>_.
        Ok \<lparr>sg_tree = t, sg_spent = spent, sg_accepted_roots = mh_accepted_roots h,
            sg_root_history_limit = mh_root_history_limit h\<rparr>)))"

section \<open>Persistence of the ledger\<close>

record ledger_header =
  lh_version :: nat
  lh_chain_domain :: bytes
  lh_ledger_id :: bytes
  lh_deposit_authority :: bytes
  lh_policies :: "(bytes, margin_policy) omap"
  lh_margin :: margin_header
  lh_collateral :: nat
  lh_fee_total :: nat
  lh_total_backing :: nat

definition ledger_parts :: "shielded_env \<Rightarrow> shielded_ledger \<Rightarrow> (ledger_header \<times> public_note list \<times> bytes list) sl" where
  "ledger_parts V l =
     bindr (validate_header V l) (\<lambda>_.
     bindr (ok_or (AccountingOverflow ''persisted backing total'')
       (checked_add u128_max (sl_collateral l) (sl_fee_total l))) (\<lambda>total_backing.
     let (margin, notes, spent) = margin_parts (sl_margin l) in
     Ok (\<lparr>lh_version = sl_version l, lh_chain_domain = sl_chain_domain l, lh_ledger_id = sl_ledger_id l,
          lh_deposit_authority = sl_deposit_authority l, lh_policies = sl_policies l, lh_margin = margin,
          lh_collateral = sl_collateral l, lh_fee_total = sl_fee_total l,
          lh_total_backing = total_backing\<rparr>, notes, spent)))"

definition check_stored_policy :: "bytes \<times> margin_policy \<Rightarrow> unit sl" where
  "check_stored_policy = (\<lambda>(market_id, p).
     if market_id \<noteq> mp_market_id p
     then Err (InvalidLedgerPersistence ''market policy key does not match its policy'')
     else lift_margin (validate_policy p))"

definition check_stored_note :: "(bytes, margin_policy) omap \<Rightarrow> public_note \<Rightarrow> unit sl" where
  "check_stored_note policies n =
     bindr (ok_or (InvalidLedgerPersistence ''persisted note has no registered market policy'')
       (om_get policies (nt_market_id n))) (\<lambda>p.
     check (mp_collateral_asset p = nt_collateral_asset n)
       (InvalidLedgerPersistence ''persisted note collateral asset differs from its policy''))"

text \<open>Only a development ledger has persisted parts, so the profile is not a field of its header.\<close>

definition rebuild_ledger :: "shielded_env \<Rightarrow> ledger_header \<Rightarrow> (nat \<times> public_note) list \<Rightarrow> bytes list \<Rightarrow> shielded_ledger sl" where
  "rebuild_ledger V h notes spent =
     bindr (ok_or (AccountingOverflow ''rebuilt backing total'')
       (checked_add u128_max (lh_collateral h) (lh_fee_total h))) (\<lambda>total_backing.
     if total_backing \<noteq> lh_total_backing h then Err AccountingInvariant
     else
       bindr (traverse check_stored_policy (om_entries (lh_policies h))) (\<lambda>_.
       bindr (lift_margin (rebuild_margin (sv_sha V) (lh_margin h) notes spent)) (\<lambda>g.
       bindr (traverse (check_stored_note (lh_policies h)) (tr_leaves (sg_tree g))) (\<lambda>_.
       let l = \<lparr>sl_version = lh_version h, sl_chain_domain = lh_chain_domain h, sl_ledger_id = lh_ledger_id h,
                sl_deposit_authority = lh_deposit_authority h, sl_mode = Development,
                sl_policies = lh_policies h, sl_margin = g, sl_collateral = lh_collateral h,
                sl_fee_total = lh_fee_total h\<rparr> in
       bindr (validate_header V l) (\<lambda>_. Ok l)))))"

end
