(* ===== verification/Chain_Tx.thy ===== *)
theory Chain_Tx
  imports Engine_Private Shielded_Protocol
begin

text \<open>
  Chain transactions (\<open>chain_tx.rs\<close>): the commands, the bounds on their numbers, and the signed
  envelope. Canonical JSON, Ed25519 and hex are other crates, the record \<open>chain_env\<close>. A decimal is its
  value in this development; \<open>validate_decimal\<close> also reads the scale of its representation, which is
  an argument: the scale of the \<open>i\<close>-th number of a field.
\<close>

datatype command =
    PlaceOrder order_intent
  | CancelOrder uuid
  | CreditAccount account_id decimal
  | PublishOraclePrice symbol "oracle_observation list"
  | ApplyFunding symbol decimal
  | Liquidate account_id symbol
  | SubmitPrivateOrder submission
  | ConfigureShieldedMarket margin_policy
  | ShieldedDeposit authority_deposit
  | ShieldedSpend shielded_spend

record unsigned_transaction =
  tx_version :: nat
  tx_chain_id :: string
  tx_signer :: bytes
  tx_nonce :: nat
  tx_valid_until_height :: nat
  tx_command :: command

record signed_transaction = unsigned_transaction +
  tx_signature :: bytes

datatype chain_error =
    Serialization
  | NonCanonicalTransaction
  | UnsupportedTransactionVersion nat nat
  | EmptyChainId
  | SignerMismatch
  | InvalidPublicKey
  | InvalidTransactionSignature
  | InvalidAccountId string
  | InvalidNumericValue string string

type_synonym 'a ct = "(chain_error, 'a) res"

record chain_env =
  ce_unsigned_json :: "unsigned_transaction \<Rightarrow> bytes option"
  ce_unsigned_parse :: "bytes \<Rightarrow> unsigned_transaction option"
  ce_signed_json :: "signed_transaction \<Rightarrow> bytes option"
  ce_signed_parse :: "bytes \<Rightarrow> signed_transaction option"
  ce_public_key :: "bytes \<Rightarrow> bytes"
  ce_sign :: "bytes \<Rightarrow> bytes \<Rightarrow> bytes"
  ce_key_parses :: "bytes \<Rightarrow> bool"
  ce_verify_strict :: "bytes \<Rightarrow> bytes \<Rightarrow> bytes \<Rightarrow> bool"
  ce_sha :: digest
  ce_hex :: "bytes \<Rightarrow> string"
  ce_unhex :: "string \<Rightarrow> bytes option"

definition CURRENT_TRANSACTION_VERSION :: nat where "CURRENT_TRANSACTION_VERSION = 1"
definition MAX_DECIMAL_SCALE :: nat where "MAX_DECIMAL_SCALE = 18"
definition MAX_INPUT_VALUE :: decimal where "MAX_INPUT_VALUE = 1000000000000"
definition MAX_ORDER_NOTIONAL :: decimal where "MAX_ORDER_NOTIONAL = 1000000000000000000000000"

section \<open>Numeric bounds\<close>

definition validate_decimal :: "string \<Rightarrow> nat \<Rightarrow> decimal \<Rightarrow> unit ct" where
  "validate_decimal field scale x =
     (if MAX_DECIMAL_SCALE < scale then Err (InvalidNumericValue field ''scale exceeds 18 decimal places'')
      else if x < - MAX_INPUT_VALUE \<or> MAX_INPUT_VALUE < x
      then Err (InvalidNumericValue field ''absolute value exceeds protocol maximum'')
      else Ok ())"

definition validate_positive_decimal :: "string \<Rightarrow> nat \<Rightarrow> decimal \<Rightarrow> unit ct" where
  "validate_positive_decimal field scale x =
     bindr (validate_decimal field scale x) (\<lambda>_.
     check (0 < x) (InvalidNumericValue field ''must be positive''))"

definition validate_notional :: "dec_ops \<Rightarrow> decimal \<Rightarrow> decimal \<Rightarrow> unit ct" where
  "validate_notional D quantity price =
     bindr (ok_or (InvalidNumericValue ''order.notional'' ''multiplication exceeds Decimal range'')
       (d_mul D quantity price)) (\<lambda>notional.
     check (notional \<le> MAX_ORDER_NOTIONAL) (InvalidNumericValue ''order.notional'' ''exceeds protocol maximum''))"

fun validate_prices :: "(nat \<Rightarrow> nat) \<Rightarrow> nat \<Rightarrow> oracle_observation list \<Rightarrow> unit ct" where
  "validate_prices scale i [] = Ok ()"
| "validate_prices scale i (ob # obs) =
     bindr (validate_positive_decimal ''oracle.observations[].price'' (scale i) (ob_price ob)) (\<lambda>_.
     validate_prices scale (Suc i) obs)"

fun validate_numeric_bounds :: "dec_ops \<Rightarrow> (string \<Rightarrow> nat \<Rightarrow> nat) \<Rightarrow> command \<Rightarrow> unit ct" where
  "validate_numeric_bounds D scale (PlaceOrder intent) =
     bindr (validate_positive_decimal ''order.quantity'' (scale ''order.quantity'' 0) (oi_quantity intent)) (\<lambda>_.
     case oi_price intent of
       None \<Rightarrow> Ok ()
     | Some price \<Rightarrow>
         bindr (validate_positive_decimal ''order.price'' (scale ''order.price'' 0) price) (\<lambda>_.
         validate_notional D (oi_quantity intent) price))"
| "validate_numeric_bounds D scale (CreditAccount aid amount) =
     validate_positive_decimal ''credit.amount'' (scale ''credit.amount'' 0) amount"
| "validate_numeric_bounds D scale (PublishOraclePrice symb obs) =
     validate_prices (scale ''oracle.observations[].price'') 0 obs"
| "validate_numeric_bounds D scale (ApplyFunding symb rate) =
     validate_decimal ''funding.rate'' (scale ''funding.rate'' 0) rate"
| "validate_numeric_bounds D scale (CancelOrder oid) = Ok ()"
| "validate_numeric_bounds D scale (Liquidate aid symb) = Ok ()"
| "validate_numeric_bounds D scale (SubmitPrivateOrder sb) = Ok ()"
| "validate_numeric_bounds D scale (ConfigureShieldedMarket p) = Ok ()"
| "validate_numeric_bounds D scale (ShieldedDeposit ad) = Ok ()"
| "validate_numeric_bounds D scale (ShieldedSpend sp) = Ok ()"

section \<open>Encoding and signing\<close>

definition ct_encode :: "('a \<Rightarrow> bytes option) \<Rightarrow> 'a \<Rightarrow> bytes ct" where
  "ct_encode json x = ok_or Serialization (json x)"

definition ct_decode :: "(bytes \<Rightarrow> 'a option) \<Rightarrow> ('a \<Rightarrow> bytes option) \<Rightarrow> bytes \<Rightarrow> 'a ct" where
  "ct_decode parse json bs =
     bindr (ok_or Serialization (parse bs)) (\<lambda>x.
     bindr (ct_encode json x) (\<lambda>canonical.
     if canonical \<noteq> bs then Err NonCanonicalTransaction else Ok x))"

definition validate_tx_header :: "nat \<Rightarrow> string \<Rightarrow> unit ct" where
  "validate_tx_header version chain_id =
     (if version \<noteq> CURRENT_TRANSACTION_VERSION
      then Err (UnsupportedTransactionVersion version CURRENT_TRANSACTION_VERSION)
      else check (\<not> blank chain_id) EmptyChainId)"

definition signing_bytes :: "chain_env \<Rightarrow> unsigned_transaction \<Rightarrow> bytes ct" where
  "signing_bytes V t =
     bindr (validate_tx_header (tx_version t) (tx_chain_id t)) (\<lambda>_.
     bindr (ct_encode (ce_unsigned_json V) t) (\<lambda>canonical.
     Ok (domain_tag ''ASTERIA_CHAIN_TRANSACTION_V1'' @ canonical)))"

definition with_signature :: "unsigned_transaction \<Rightarrow> bytes \<Rightarrow> signed_transaction" where
  "with_signature t sig =
     \<lparr>tx_version = tx_version t, tx_chain_id = tx_chain_id t, tx_signer = tx_signer t, tx_nonce = tx_nonce t,
      tx_valid_until_height = tx_valid_until_height t, tx_command = tx_command t, tx_signature = sig\<rparr>"

definition unsigned_part :: "signed_transaction \<Rightarrow> unsigned_transaction" where
  "unsigned_part t =
     \<lparr>tx_version = tx_version t, tx_chain_id = tx_chain_id t, tx_signer = tx_signer t, tx_nonce = tx_nonce t,
      tx_valid_until_height = tx_valid_until_height t, tx_command = tx_command t\<rparr>"

definition sign_transaction :: "chain_env \<Rightarrow> unsigned_transaction \<Rightarrow> bytes \<Rightarrow> signed_transaction ct" where
  "sign_transaction V t secret =
     bindr (validate_tx_header (tx_version t) (tx_chain_id t)) (\<lambda>_.
     if tx_signer t \<noteq> ce_public_key V secret then Err SignerMismatch
     else bindr (signing_bytes V t) (\<lambda>message. Ok (with_signature t (ce_sign V secret message))))"

definition verify_transaction :: "chain_env \<Rightarrow> signed_transaction \<Rightarrow> account_id ct" where
  "verify_transaction V t =
     bindr (validate_tx_header (tx_version t) (tx_chain_id t)) (\<lambda>_.
     if \<not> ce_key_parses V (tx_signer t) then Err InvalidPublicKey
     else
       bindr (signing_bytes V (unsigned_part t)) (\<lambda>message.
       if ce_verify_strict V (tx_signer t) message (tx_signature t)
       then Ok (account_id_from_signer (ce_hex V) (tx_signer t))
       else Err InvalidTransactionSignature))"

definition transaction_hash :: "chain_env \<Rightarrow> signed_transaction \<Rightarrow> bytes ct" where
  "transaction_hash V t = bindr (ct_encode (ce_signed_json V) t) (\<lambda>bs. Ok (ce_sha V bs))"

text \<open>The account id is the prefix \<open>ed25519:\<close> and 64 lower-case hexadecimal digits.\<close>

definition lower_hex :: "char \<Rightarrow> bool" where
  "lower_hex c \<longleftrightarrow> (let b = of_char c :: nat in 48 \<le> b \<and> b \<le> 57 \<or> 97 \<le> b \<and> b \<le> 102)"

definition verifying_key_from_account_id :: "chain_env \<Rightarrow> account_id \<Rightarrow> bytes ct" where
  "verifying_key_from_account_id V aid =
     (if take 8 aid \<noteq> ''ed25519:'' then Err (InvalidAccountId ''missing ed25519: prefix'')
      else
        (let encoded = drop 8 aid in
         if length encoded \<noteq> 64 \<or> \<not> list_all lower_hex encoded
         then Err (InvalidAccountId ''key must be exactly 64 lowercase hexadecimal characters'')
         else
           bindr (ok_or (InvalidAccountId ''invalid hexadecimal'') (ce_unhex V encoded)) (\<lambda>key.
           if length key \<noteq> 32 then Err (InvalidAccountId ''expected 32 key bytes'')
           else if ce_key_parses V key then Ok key else Err (InvalidAccountId ''invalid key''))))"

end
