(* ===== verification/Engine_Commands.thy ===== *)
theory Engine_Commands
  imports Engine_Batch Engine_Oracle Engine_Liquidation Engine_Audit Chain_Tx
begin

text \<open>
  The commands of a block (\<open>apply_consensus_command\<close> of \<open>engine.rs\<close>) and the local \<open>Engine\<close>, which
  runs each operation as a transaction on its state and its store. A failed command, and a command
  that panics, leave the state as it was: \<open>apply_consensus_command\<close> returns the state next to its
  result. The shielded ledger of the engine is a development ledger with the transparent verifiers.
\<close>

section \<open>Error texts of the shielded ledger\<close>

fun margin_message :: "margin_error \<Rightarrow> string" where
  "margin_message (UnsupportedVersion a e) = ''unsupported shielded-margin version '' @ nat_text a @ ''; expected '' @ nat_text e"
| "margin_message ZeroChainDomain = ''shielded chain domain must not be zero''"
| "margin_message ZeroLedgerId = ''shielded ledger id must not be zero''"
| "margin_message ZeroMarketId = ''market id must not be zero''"
| "margin_message ZeroCollateralAssetId = ''collateral asset id must not be zero''"
| "margin_message ZeroCommitment = ''note commitment must not be zero''"
| "margin_message ZeroNullifier = ''nullifier must not be zero''"
| "margin_message (InvalidPolicy t) = ''invalid margin policy: '' @ t"
| "margin_message EmptyInputs = ''spend must contain at least one input''"
| "margin_message EmptyOutputs = ''spend must contain at least one output''"
| "margin_message (TooManyInputs a m) = ''spend has '' @ nat_text a @ '' inputs; maximum is '' @ nat_text m"
| "margin_message (TooManyOutputs a m) = ''spend has '' @ nat_text a @ '' outputs; maximum is '' @ nat_text m"
| "margin_message WitnessCountMismatch = ''proof witness count does not match the public statement''"
| "margin_message (PublicDomainMismatch i) = ''public note '' @ nat_text i @ '' targets a different market or collateral asset''"
| "margin_message PolicyHashMismatch = ''margin policy hash does not match the supplied policy''"
| "margin_message DuplicateInputCommitment = ''duplicate input commitment in one spend''"
| "margin_message DuplicateOutputCommitment = ''duplicate output commitment''"
| "margin_message DuplicateNullifier = ''duplicate nullifier in one spend''"
| "margin_message CommitmentAlreadyExists = ''output commitment is already present in the note tree''"
| "margin_message NullifierAlreadySpent = ''nullifier has already been spent''"
| "margin_message UnknownMerkleRoot = ''spend anchor is not in the accepted Merkle-root history''"
| "margin_message (MerkleIndexOutOfRange i) = ''Merkle leaf index '' @ nat_text i @ '' is out of range''"
| "margin_message (InvalidMerkleProofLength e a) = ''Merkle proof must contain exactly '' @ nat_text e @ '' siblings, received '' @ nat_text a"
| "margin_message InvalidMerkleProof = ''Merkle inclusion proof is invalid''"
| "margin_message CommitmentMismatch = ''note opening does not match its public commitment''"
| "margin_message NullifierMismatch = ''note opening does not derive the declared nullifier''"
| "margin_message InvalidOwnerKey = ''invalid owner public key''"
| "margin_message InvalidSignatureLength = ''owner authorization signature must contain exactly 64 bytes''"
| "margin_message InvalidOwnerSignature = ''owner authorization signature is invalid''"
| "margin_message ZeroCollateral = ''note collateral must be positive''"
| "margin_message (InvalidLeverage m) = ''note leverage must be between 1 and '' @ nat_text m"
| "margin_message (FeeBelowMinimum a m) = ''fee '' @ nat_text a @ '' is below policy minimum '' @ nat_text m"
| "margin_message (ConservationViolation i out f) =
     ''collateral is not conserved: inputs='' @ nat_text i @ '', outputs='' @ nat_text out @ '', fee='' @ nat_text f"
| "margin_message (PositionConservationViolation i out) = ''net position is not conserved: inputs='' @ int_text i @ '', outputs='' @ int_text out"
| "margin_message (InsufficientIsolatedMargin i a r) =
     ''output '' @ nat_text i @ '' has collateral '' @ nat_text a @ '', below isolated-margin requirement '' @ nat_text r"
| "margin_message (MarginOverflow t) = ''checked arithmetic overflow while computing '' @ t"
| "margin_message AmountOutOfRange = ''computed amount does not fit the protocol amount type''"
| "margin_message MerkleTreeFull = ''note tree is full''"
| "margin_message InvalidRootHistoryLimit = ''root history limit must be positive''"
| "margin_message (InvalidPersistenceState t) = ''invalid persisted shielded margin state: '' @ t"
| "margin_message ProofTooLarge = ''proof exceeds '' @ nat_text MAX_PROOF_BYTES @ '' bytes''"
| "margin_message ProofEncoding = ''canonical encoding failed''"
| "margin_message NonCanonicalProof = ''proof is not encoded as canonical RFC 8785 JSON''"
| "margin_message ViewingCipherAuthentication = ''viewing-key ciphertext authentication failed''"
| "margin_message InvalidViewingKey = ''viewing key must not be all zero''"
| "margin_message ViewingKeyRandomness = ''viewing-key randomness is unavailable''"
| "margin_message ViewingKeyEpochOverflow = ''viewing-key epoch overflow''"
| "margin_message (ViewingKeyEpochUnavailable e) = ''viewing-key epoch '' @ nat_text e @ '' is unavailable''"
| "margin_message ViewingKeyEpochMismatch = ''viewing-key payload epoch does not match its associated data''"
| "margin_message (InvalidViewingAssociatedData t) = ''invalid viewing-key associated data: '' @ t"
| "margin_message (InvalidViewingPayload t) = ''invalid viewing-key payload: '' @ t"
| "margin_message (UnsupportedViewingAadVersion a e) =
     ''unsupported viewing-key associated-data version '' @ nat_text a @ ''; expected '' @ nat_text e"
| "margin_message (UnsupportedViewingPayloadVersion a e) =
     ''unsupported viewing-key payload version '' @ nat_text a @ ''; expected '' @ nat_text e"
| "margin_message (ViewingPlaintextTooLarge a m) =
     ''viewing-key plaintext is '' @ nat_text a @ '' bytes; maximum is '' @ nat_text m"
| "margin_message (ViewingCiphertextTooLarge a m) =
     ''viewing-key ciphertext is '' @ nat_text a @ '' bytes; maximum is '' @ nat_text m"

fun ledger_message :: "ledger_error \<Rightarrow> string" where
  "ledger_message (UnsupportedProtocolVersion a e) = ''unsupported shielded protocol version '' @ nat_text a @ ''; expected '' @ nat_text e"
| "ledger_message InvalidShieldedChainId =
     ''chain id must be non-empty, canonical, and at most '' @ nat_text MAX_SHIELDED_CHAIN_ID_BYTES @ '' bytes''"
| "ledger_message ZeroLedgerChainDomain = ''shielded chain domain must not be zero''"
| "ledger_message ZeroOwnLedgerId = ''ledger id must not be zero''"
| "ledger_message InvalidDepositAuthority = ''invalid deposit authority public key''"
| "ledger_message LedgerIdMismatch = ''deposit statement targets a different ledger''"
| "ledger_message ChainDomainMismatch = ''shielded statement targets a different chain''"
| "ledger_message MarketAlreadyRegistered = ''market is already registered''"
| "ledger_message MarketNotRegistered = ''market is not registered''"
| "ledger_message CollateralAssetMismatch = ''public note collateral asset does not match the market policy''"
| "ledger_message ZeroBackingAmount = ''deposit backing amount must be positive''"
| "ledger_message InvalidAuthoritySignatureLength = ''deposit authority signature must contain exactly 64 bytes''"
| "ledger_message InvalidAuthoritySignature = ''deposit authority signature is invalid''"
| "ledger_message DepositProofTooLarge = ''deposit proof exceeds '' @ nat_text MAX_PROOF_BYTES @ '' bytes''"
| "ledger_message NonCanonicalDepositProof = ''deposit proof is not encoded as canonical RFC 8785 JSON''"
| "ledger_message DepositEncoding = ''canonical encoding failed''"
| "ledger_message DepositCommitmentMismatch = ''deposit opening does not match the public commitment''"
| "ledger_message (DepositBackingMismatch a b) = ''deposit opening collateral '' @ nat_text a @ '' does not equal backing '' @ nat_text b"
| "ledger_message DepositMustBeFlat = ''authority deposit must create a flat position with leverage one''"
| "ledger_message InvalidDepositOwner = ''deposit opening has an invalid owner key''"
| "ledger_message ZeroDepositNullifierKey = ''deposit opening nullifier key must not be zero''"
| "ledger_message ZeroDepositBlinding = ''deposit opening blinding must not be zero''"
| "ledger_message (ProductionVerifierRequired t) = ''production ledger rejected a non-production '' @ t @ '' verifier''"
| "ledger_message (AccountingOverflow t) = ''checked accounting overflow while computing '' @ t"
| "ledger_message AccountingInvariant = ''shielded accounting invariant failed''"
| "ledger_message (InvalidLedgerPersistence t) = ''invalid persisted shielded ledger: '' @ t"
| "ledger_message (Margin e) = margin_message e"

definition from_ledger :: "'a sl \<Rightarrow> 'a exch" where
  "from_ledger r = map_err (\<lambda>e. InvalidOrder (ledger_message e)) r"

section \<open>Commands\<close>

type_synonym state = "shielded_ledger engine_state"

datatype command_result =
    RanOrder order_result
  | RanCancel order
  | RanCredit account
  | RanOracle oracle_snapshot
  | RanFunding decimal decimal
  | RanLiquidation liquidation_result
  | RanPrivateOrder queued_order
  | RanShieldedMarket string
  | RanShieldedDeposit deposit_receipt
  | RanShieldedSpend protocol_spend_receipt

record command_env =
  cm_engine :: engine_env
  cm_protocol :: protocol_env
  cm_shielded :: shielded_env

definition require_authority :: "account_id \<Rightarrow> account_id \<Rightarrow> unit exch" where
  "require_authority signer authority = check (signer = authority) Unauthorized"

definition enabled_ledger :: "state \<Rightarrow> shielded_ledger exch" where
  "enabled_ledger s = ok_or (InvalidOrder ''shielded development ledger is not enabled'') (es_shielded_ledger s)"

text \<open>\<open>Decimal::from_i128_with_scale(amount, 8)\<close>; a \<open>u64\<close> always fits its mantissa.\<close>

definition shielded_atomic_decimal :: "nat \<Rightarrow> decimal" where
  "shielded_atomic_decimal amount = of_nat amount / 10 ^ 8"

definition configure_shielded_market :: "command_env \<Rightarrow> margin_policy \<Rightarrow> state \<Rightarrow> (command_result \<times> state) exch" where
  "configure_shielded_market C p s =
     bindr (enabled_ledger s) (\<lambda>l.
     bindr (from_ledger (register_market (cm_shielded C) p l)) (\<lambda>l.
     let market_id = hex (cm_engine C) (mp_market_id p) in
     bindr (append_event (cm_engine C) (ShieldedMarketConfigured market_id) (s\<lparr>es_shielded_ledger := Some l\<rparr>)) (\<lambda>s.
     Ok (RanShieldedMarket market_id, s))))"

definition shielded_deposit :: "command_env \<Rightarrow> authority_deposit \<Rightarrow> state \<Rightarrow> (command_result \<times> state) exch" where
  "shielded_deposit C ad s =
     (let E = cm_engine C; V = cm_shielded C in
      bindr (enabled_ledger s) (\<lambda>l.
      bindr (from_ledger (ledger_deposit V ad (transparent_deposit_verifier V) l)) (\<lambda>(receipt, l).
      bindr (d_ok ''shielded deposit credits''
        (d_add (en_dec E) (es_total_credits s) (shielded_atomic_decimal (dr_backing_amount receipt)))) (\<lambda>credits.
      bindr (append_event E (ShieldedDepositCommitted (hex E (nt_market_id (dp_note (ad_statement ad))))
          (dr_leaf_index receipt) (dr_backing_amount receipt) (hex E (dr_new_root receipt)))
        (s\<lparr>es_shielded_ledger := Some l, es_total_credits := credits\<rparr>)) (\<lambda>s.
      Ok (RanShieldedDeposit receipt, s))))))"

definition shielded_spend_command :: "command_env \<Rightarrow> shielded_spend \<Rightarrow> state \<Rightarrow> (command_result \<times> state) exch" where
  "shielded_spend_command C sp s =
     (let E = cm_engine C; V = cm_shielded C; st = sd_statement sp in
      bindr (enabled_ledger s) (\<lambda>l.
      bindr (from_ledger (ledger_spend V sp (transparent_spend_verifier V) l)) (\<lambda>(receipt, l).
      let r = pr_state_receipt receipt in
      bindr (d_ok ''shielded spend fee vault''
        (d_add (en_dec E) (es_fee_vault s) (shielded_atomic_decimal (sr_fee r)))) (\<lambda>vault.
      bindr (append_event E (ShieldedSpendApplied (hex E (st_market_id st)) (length (st_nullifiers st))
          (length (st_output_commitments st)) (sr_fee r) (hex E (sr_new_root r)))
        (s\<lparr>es_shielded_ledger := Some l, es_fee_vault := vault\<rparr>)) (\<lambda>s.
      Ok (RanShieldedSpend receipt, s))))))"

text \<open>The \<open>match\<close> on the command.\<close>

fun run_command ::
  "command_env \<Rightarrow> account_id \<Rightarrow> account_id \<Rightarrow> apply_context \<Rightarrow> command \<Rightarrow> state \<Rightarrow> (command_result \<times> state) exch" where
  "run_command C signer authority cx (PlaceOrder intent) s =
     bindr (submit_order (cm_engine C) \<lparr>no_account_id = signer, no_intent = intent\<rparr> cx s) (\<lambda>(r, cx, s).
     Ok (RanOrder r, s))"
| "run_command C signer authority cx (CancelOrder oid) s =
     bindr (cancel_order (cm_engine C) signer oid s) (\<lambda>(ord, s). Ok (RanCancel ord, s))"
| "run_command C signer authority cx (CreditAccount aid amount) s =
     bindr (require_authority signer authority) (\<lambda>_.
     bindr (credit_account_state (cm_engine C) aid amount s) (\<lambda>(a, s). Ok (RanCredit a, s)))"
| "run_command C signer authority cx (PublishOraclePrice symb obs) s =
     bindr (require_authority signer authority) (\<lambda>_.
     bindr (publish_oracle_price (cm_engine C) symb obs s) (\<lambda>(snapshot, s). Ok (RanOracle snapshot, s)))"
| "run_command C signer authority cx (ApplyFunding symb rate) s =
     bindr (require_authority signer authority) (\<lambda>_.
     bindr (apply_funding_state (cm_engine C) symb rate s) (\<lambda>((index, pool), s). Ok (RanFunding index pool, s)))"
| "run_command C signer authority cx (Liquidate aid symb) s =
     bindr (require_authority signer authority) (\<lambda>_.
     bindr (liquidate_account (cm_engine C) aid symb cx s) (\<lambda>(r, cx, s). Ok (RanLiquidation r, s)))"
| "run_command C signer authority cx (SubmitPrivateOrder sb) s =
     bindr (queue_private_order (cm_engine C) (cm_protocol C) signer sb (cx_height cx) s) (\<lambda>(q, s).
     Ok (RanPrivateOrder q, s))"
| "run_command C signer authority cx (ConfigureShieldedMarket p) s =
     bindr (require_authority signer authority) (\<lambda>_. configure_shielded_market C p s)"
| "run_command C signer authority cx (ShieldedDeposit ad) s = shielded_deposit C ad s"
| "run_command C signer authority cx (ShieldedSpend sp) s = shielded_spend_command C sp s"

text \<open>\<open>catch_unwind\<close> turns a panic into an error; both restore the state.\<close>

definition apply_consensus_command ::
  "command_env \<Rightarrow> account_id \<Rightarrow> account_id \<Rightarrow> command \<Rightarrow> apply_context \<Rightarrow> state \<Rightarrow> (exchange_error + command_result) \<times> state" where
  "apply_consensus_command C signer authority command cx s =
     (case run_command C signer authority cx command
        (s\<lparr>es_height := cx_height cx, es_block_time_ms := cx_block_time_ms cx\<rparr>) of
        Ok (r, s') \<Rightarrow> (Inr r, s')
      | Err e \<Rightarrow> (Inl e, s)
      | Panic \<Rightarrow> (Inl (Internal ''consensus command aborted because arithmetic exceeded protocol bounds''), s))"

section \<open>The local engine\<close>

text \<open>
  The subscribers of the engine see \<open>eg_sent\<close>. The store is its \<open>commit_state\<close>, as the result that it
  gives for the previous and the new state.
\<close>

record 'l engine =
  eg_state :: "'l engine_state"
  eg_store :: "('l engine_state option \<Rightarrow> 'l engine_state \<Rightarrow> unit exch) option"
  eg_sent :: "event list"

definition in_memory :: "market_state list \<Rightarrow> 'l engine" where
  "in_memory markets = \<lparr>eg_state = genesis ''asteria-standalone'' markets, eg_store = None, eg_sent = []\<rparr>"

definition add_default_market :: "market_state \<Rightarrow> 'l engine_state \<Rightarrow> 'l engine_state" where
  "add_default_market m s =
     (let symb = mc_symbol (ms_config m) in
      s\<lparr>es_markets := om_or_insert symb m (es_markets s), es_books := om_or_insert symb empty_book (es_books s)\<rparr>)"

definition load_engine_state ::
  "('l engine_state option \<Rightarrow> 'l engine_state \<Rightarrow> unit exch) \<Rightarrow> 'l engine_state option \<Rightarrow> market_state list \<Rightarrow> 'l engine_state exch" where
  "load_engine_state commit stored markets =
     (case stored of
        Some previous \<Rightarrow>
          (let s = fold add_default_market markets previous in
           if s \<noteq> previous then bindr (commit (Some previous) s) (\<lambda>_. Ok s) else Ok s)
      | None \<Rightarrow>
          (let s = genesis ''asteria-standalone'' markets in bindr (commit None s) (\<lambda>_. Ok s)))"

definition open_engine ::
  "engine_env \<Rightarrow> 'l engine_state option exch \<Rightarrow> ('l engine_state option \<Rightarrow> 'l engine_state \<Rightarrow> unit exch) \<Rightarrow>
   market_state list \<Rightarrow> 'l engine exch" where
  "open_engine E loaded commit markets =
     bindr loaded (\<lambda>stored.
     bindr (load_engine_state commit stored markets) (\<lambda>s.
     if \<not> verify (en_crypto E) (es_event_log s) then Err (Persistence ''persisted event hash chain is invalid'')
     else Ok \<lparr>eg_state = s, eg_store = Some commit, eg_sent = []\<rparr>))"

text \<open>\<open>None\<close> is a panic of the operation, which nothing catches here.\<close>

definition transaction ::
  "('l engine_state \<Rightarrow> ('r \<times> 'l engine_state) exch) \<Rightarrow> 'l engine \<Rightarrow> ((exchange_error + 'r) \<times> 'l engine) option" where
  "transaction operation eg =
     (let previous = eg_state eg in
      case operation previous of
        Panic \<Rightarrow> None
      | Err e \<Rightarrow> Some (Inl e, eg)
      | Ok (r, s) \<Rightarrow>
          (case (case eg_store eg of None \<Rightarrow> Ok () | Some commit \<Rightarrow> commit (Some previous) s) of
             Panic \<Rightarrow> None
           | Err e \<Rightarrow> Some (Inl e, eg)
           | Ok _ \<Rightarrow> Some (Inr r, eg\<lparr>eg_state := s,
               eg_sent := eg_sent eg @ after (es_sequence previous) u64_max (es_event_log s)\<rparr>)))"

text \<open>\<open>material\<close> is the canonical JSON of the local command, which the source expects to exist.\<close>

definition local_context :: "engine_env \<Rightarrow> 'l engine_state \<Rightarrow> string \<Rightarrow> bytes option \<Rightarrow> apply_context exch" where
  "local_context E s domain material =
     bindr (expect material) (\<lambda>bs.
     Ok (new_context (es_height s) (es_block_time_ms s) 0
       (sha E (ascii domain @ ascii (es_chain_id s) @ be_bytes 8 (es_height s) @ be_bytes 8 (es_sequence s) @ bs))))"

definition engine_submit_order ::
  "engine_env \<Rightarrow> (new_order \<Rightarrow> bytes option) \<Rightarrow> new_order \<Rightarrow> 'l engine \<Rightarrow> ((exchange_error + order_result) \<times> 'l engine) option" where
  "engine_submit_order E json request =
     transaction (\<lambda>s. bindr (local_context E s ''order'' (json request)) (\<lambda>cx.
       bindr (submit_order E request cx s) (\<lambda>(r, cx, s). Ok (r, s))))"

definition engine_liquidate ::
  "engine_env \<Rightarrow> (account_id \<times> symbol \<Rightarrow> bytes option) \<Rightarrow> account_id \<Rightarrow> symbol \<Rightarrow> 'l engine \<Rightarrow>
   ((exchange_error + liquidation_result) \<times> 'l engine) option" where
  "engine_liquidate E json aid symb =
     transaction (\<lambda>s. bindr (local_context E s ''liquidation'' (json (aid, symb))) (\<lambda>cx.
       bindr (liquidate_account E aid symb cx s) (\<lambda>(r, cx, s). Ok (r, s))))"

definition engine_risk :: "dec_ops \<Rightarrow> account_id \<Rightarrow> 'l engine \<Rightarrow> risk_view exch" where
  "engine_risk D aid eg =
     bindr (get_account (eg_state eg) aid) (\<lambda>a. risk_snapshot D a (es_markets (eg_state eg)))"

definition liquidation_candidates :: "dec_ops \<Rightarrow> 'l engine \<Rightarrow> risk_view list exch" where
  "liquidation_candidates D eg =
     bindr (traverse (\<lambda>a. risk_snapshot D a (es_markets (eg_state eg))) (om_values (es_accounts (eg_state eg)))) (\<lambda>rs.
     Ok (filter rs_liquidation_risk rs))"

definition engine_book :: "dec_ops \<Rightarrow> symbol \<Rightarrow> nat \<Rightarrow> 'l engine \<Rightarrow> book_view exch" where
  "engine_book D symb depth eg =
     bindr (ok_or (MarketNotFound symb) (om_get (es_books (eg_state eg)) symb)) (\<lambda>bk.
     book_snapshot D bk symb (es_sequence (eg_state eg)) (min depth 100))"

definition events_after :: "nat \<Rightarrow> nat \<Rightarrow> 'l engine \<Rightarrow> event list" where
  "events_after sequence limit eg = after sequence (min limit 1000) (es_event_log (eg_state eg))"

end
