(* ===== verification/Shielded_Merkle.thy ===== *)
theory Shielded_Merkle
  imports Shielded_Protocol
begin

text \<open>
  Correctness of the cached Merkle tree of \<open>shielded_margin.rs\<close>. The specification is \<open>subtree\<close>, the
  hash of the full binary tree over the list of notes; the invariant \<open>tree_ok\<close> says that the cache
  holds exactly the subtrees that contain a note. The reference root of the source's tests is also
  here, with its agreement with the specification.
\<close>

section \<open>The specification\<close>

fun subtree :: "digest \<Rightarrow> public_note list \<Rightarrow> nat \<Rightarrow> nat \<Rightarrow> bytes" where
  "subtree H ns 0 i = (if i < length ns then merkle_leaf_hash H (ns ! i) else merkle_zero_hash H 0)"
| "subtree H ns (Suc h) i = merkle_node_hash H (subtree H ns h (2 * i)) (subtree H ns h (2 * i + 1))"

lemma subtree_empty: "length ns \<le> i * 2 ^ h \<Longrightarrow> subtree H ns h i = merkle_zero_hash H h"
proof (induction h arbitrary: i)
  case (Suc h)
  have "length ns \<le> (2 * i) * 2 ^ h" "length ns \<le> (2 * i + 1) * 2 ^ h"
    using Suc.prems by (simp_all add: algebra_simps)
  then show ?case using Suc.IH by simp
qed simp

text \<open>A subtree depends only on the notes below it.\<close>

lemma subtree_cong:
  "(\<And>j. i * 2 ^ h \<le> j \<Longrightarrow> j < (i + 1) * 2 ^ h \<Longrightarrow> (j < length ns \<longleftrightarrow> j < length ms) \<and> (j < length ns \<longrightarrow> ns ! j = ms ! j)) \<Longrightarrow>
   subtree H ns h i = subtree H ms h i"
proof (induction h arbitrary: i)
  case (Suc h)
  have "subtree H ns h (2 * i) = subtree H ms h (2 * i)" "subtree H ns h (2 * i + 1) = subtree H ms h (2 * i + 1)"
    by (rule Suc.IH; rule Suc.prems; simp add: algebra_simps)+
  then show ?case by simp
qed simp

lemma subtree_snoc: "(i + 1) * 2 ^ h \<le> length ns \<Longrightarrow> subtree H (ns @ [n]) h i = subtree H ns h i"
  by (rule subtree_cong) (auto simp: nth_append)

section \<open>The reference root of the tests\<close>

fun next_merkle_level :: "digest \<Rightarrow> bytes list \<Rightarrow> bytes \<Rightarrow> bytes list" where
  "next_merkle_level H (left # right # level) filler =
     merkle_node_hash H left right # next_merkle_level H level filler"
| "next_merkle_level H [left] filler = [merkle_node_hash H left filler]"
| "next_merkle_level H [] filler = []"

definition merkle_root :: "digest \<Rightarrow> public_note list \<Rightarrow> bytes" where
  "merkle_root H ns =
     (if ns = [] then merkle_zero_hash H MERKLE_DEPTH
      else hd (fold (\<lambda>h level. next_merkle_level H level (merkle_zero_hash H h)) [0..<MERKLE_DEPTH]
                (map (merkle_leaf_hash H) ns)))"

lemma length_next_merkle_level [simp]: "length (next_merkle_level H xs e) = (length xs + 1) div 2"
  by (induction H xs e rule: next_merkle_level.induct) auto

lemma nth_next_merkle_level:
  "i < (length xs + 1) div 2 \<Longrightarrow> next_merkle_level H xs e ! i =
     merkle_node_hash H (xs ! (2 * i)) (if 2 * i + 1 < length xs then xs ! (2 * i + 1) else e)"
proof (induction H xs e arbitrary: i rule: next_merkle_level.induct)
  case (1 H l r xs e)
  show ?case
  proof (cases i)
    case (Suc j)
    then have "j < (length xs + 1) div 2" using "1.prems" by auto
    then show ?thesis using "1.IH" [of j] Suc by simp
  qed simp
qed auto

lemma next_level_subtrees:
  assumes "length ns \<le> k * 2 ^ h"
  shows "next_merkle_level H (map (subtree H ns h) [0..<k]) (merkle_zero_hash H h) =
    map (subtree H ns (Suc h)) [0..<(k + 1) div 2]"
proof (rule nth_equalityI)
  fix i assume i: "i < length (next_merkle_level H (map (subtree H ns h) [0..<k]) (merkle_zero_hash H h))"
  have "subtree H ns h (2 * i + 1) = merkle_zero_hash H h" if "\<not> 2 * i + 1 < k"
  proof (rule subtree_empty)
    from that have "k \<le> 2 * i + 1" by simp
    then have "k * 2 ^ h \<le> (2 * i + 1) * 2 ^ h" by (rule mult_le_mono1)
    with assms show "length ns \<le> (2 * i + 1) * 2 ^ h" by simp
  qed
  with i show "next_merkle_level H (map (subtree H ns h) [0..<k]) (merkle_zero_hash H h) ! i =
      map (subtree H ns (Suc h)) [0..<(k + 1) div 2] ! i"
    by (auto simp: nth_next_merkle_level)
qed simp

lemma levels_subtrees:
  "ns \<noteq> [] \<Longrightarrow> \<exists>k. 0 < k \<and> length ns \<le> k * 2 ^ d \<and>
     fold (\<lambda>h level. next_merkle_level H level (merkle_zero_hash H h)) [0..<d] (map (merkle_leaf_hash H) ns) =
     map (subtree H ns d) [0..<k]"
proof (induction d)
  case 0
  have "map (merkle_leaf_hash H) ns = map (subtree H ns 0) [0..<length ns]"
    by (rule nth_equalityI) simp_all
  with 0 show ?case by (intro exI [of _ "length ns"]) simp
next
  case (Suc d)
  then obtain k where k: "0 < k" "length ns \<le> k * 2 ^ d"
      "fold (\<lambda>h level. next_merkle_level H level (merkle_zero_hash H h)) [0..<d] (map (merkle_leaf_hash H) ns) =
       map (subtree H ns d) [0..<k]" by blast
  have "k * 2 ^ d \<le> 2 * ((k + 1) div 2) * 2 ^ d" by (intro mult_le_mono1) linarith
  then have "length ns \<le> 2 * ((k + 1) div 2) * 2 ^ d" by (rule order.trans [OF k(2)])
  then have "length ns \<le> (k + 1) div 2 * 2 ^ Suc d" by (simp only: power_Suc mult.assoc mult.left_commute)
  with k show ?case
    by (intro exI [of _ "(k + 1) div 2"]) (simp add: next_level_subtrees del: power_Suc subtree.simps)
qed

lemma merkle_root_subtree: "merkle_root H ns = subtree H ns MERKLE_DEPTH 0"
proof (cases "ns = []")
  case True
  then show ?thesis by (simp add: merkle_root_def subtree_empty)
next
  case False
  with levels_subtrees [of ns MERKLE_DEPTH H] show ?thesis
    by (auto simp: merkle_root_def hd_map)
qed

section \<open>The invariant of the cache\<close>

definition cache_ok :: "digest \<Rightarrow> public_note list \<Rightarrow> (nat \<times> nat, bytes) omap \<Rightarrow> bool" where
  "cache_ok H ns nodes \<longleftrightarrow>
     (\<forall>h i. om_get nodes (h, i) = (if h \<le> MERKLE_DEPTH \<and> i * 2 ^ h < length ns then Some (subtree H ns h i) else None))"

definition index_ok :: "public_note list \<Rightarrow> (bytes, nat) omap \<Rightarrow> bool" where
  "index_ok ns indices \<longleftrightarrow>
     (\<forall>c i. om_get indices c = Some i \<longleftrightarrow> i < length ns \<and> nt_commitment (ns ! i) = c)"

definition tree_ok :: "digest \<Rightarrow> note_tree \<Rightarrow> bool" where
  "tree_ok H t \<longleftrightarrow> cache_ok H (tr_leaves t) (tr_nodes t) \<and> index_ok (tr_leaves t) (tr_indices t) \<and>
     tr_cached_root t = subtree H (tr_leaves t) MERKLE_DEPTH 0 \<and> length (tr_leaves t) \<le> merkle_capacity \<and>
     (\<forall>n \<in> set (tr_leaves t). validate_note n = Ok ())"

lemma tree_ok_empty: "tree_ok H (empty_tree H)"
  by (simp add: tree_ok_def cache_ok_def index_ok_def empty_tree_def subtree_empty)

lemma block_below: "0 < q \<Longrightarrow> i * q < m \<Longrightarrow> i \<noteq> m div q \<Longrightarrow> (i + 1) * q \<le> (m::nat)"
  by (metis Suc_eq_plus1 Suc_leI less_eq_div_iff_mult_less_eq nat_less_le)

lemma block_of_next: "0 < q \<Longrightarrow> i * q < m + 1 \<longleftrightarrow> i * q < m \<or> i = (m::nat) div q"
proof -
  assume "0 < q"
  have "i = m div q \<Longrightarrow> i * q \<le> m" by simp
  moreover have "i * q = m \<Longrightarrow> i = m div q" using \<open>0 < q\<close> by auto
  ultimately show ?thesis by linarith
qed

text \<open>After \<open>k\<close> levels of the append the cache is right for the new list up to height \<open>k\<close>.\<close>

definition partly_ok :: "digest \<Rightarrow> public_note list \<Rightarrow> public_note \<Rightarrow> nat \<Rightarrow> (nat \<times> nat, bytes) omap \<Rightarrow> bool" where
  "partly_ok H ns n k nodes \<longleftrightarrow>
     (\<forall>h i. om_get nodes (h, i) =
        (if h \<le> k then if i * 2 ^ h < length ns + 1 then Some (subtree H (ns @ [n]) h i) else None
         else if h \<le> MERKLE_DEPTH \<and> i * 2 ^ h < length ns then Some (subtree H ns h i) else None))"

lemma append_level_ok:
  assumes "partly_ok H ns n k nodes" and "k < MERKLE_DEPTH"
  defines "m \<equiv> length ns"
  shows "\<exists>nodes'. append_level H k (subtree H (ns @ [n]) k (m div 2 ^ k), m div 2 ^ k, nodes) =
      Ok (subtree H (ns @ [n]) (Suc k) (m div 2 ^ Suc k), m div 2 ^ Suc k, nodes') \<and> partly_ok H ns n (Suc k) nodes'"
proof -
  let ?i = "m div 2 ^ k" and ?ms = "ns @ [n]"
  have half: "m div 2 ^ Suc k = ?i div 2" by (metis div_mult2_eq power_Suc2)
  have above: "om_get nodes (Suc k, i) = (if i * 2 ^ Suc k < length ns then Some (subtree H ns (Suc k) i) else None)" for i
    using assms(1,2) by (simp add: partly_ok_def)
  have other: "subtree H ?ms (Suc k) i = subtree H ns (Suc k) i" if "i * 2 ^ Suc k < length ns" "i \<noteq> ?i div 2" for i
    using block_below [of "2 ^ Suc k" i "length ns"] that half by (intro subtree_snoc) (simp add: m_def)
  have last: "i * 2 ^ Suc k < length ns + 1 \<longleftrightarrow> i * 2 ^ Suc k < length ns \<or> i = ?i div 2" for i
    using block_of_next [of "2 ^ Suc k" i "length ns"] half by (simp add: m_def del: power_Suc)
  have new: "partly_ok H ns n (Suc k) (om_insert (Suc k, ?i div 2) (subtree H ?ms (Suc k) (?i div 2)) nodes)"
    unfolding partly_ok_def
  proof (intro allI)
    fix h i
    show "om_get (om_insert (Suc k, ?i div 2) (subtree H ?ms (Suc k) (?i div 2)) nodes) (h, i) =
        (if h \<le> Suc k then if i * 2 ^ h < length ns + 1 then Some (subtree H ?ms h i) else None
         else if h \<le> MERKLE_DEPTH \<and> i * 2 ^ h < length ns then Some (subtree H ns h i) else None)"
    proof (cases "h = Suc k")
      case True
      then show ?thesis
        using above [of i] last [of i] other [of i] by (simp del: subtree.simps power_Suc)
    next
      case False
      then show ?thesis using assms(1) by (auto simp: partly_ok_def le_Suc_eq simp del: subtree.simps)
    qed
  qed
  show ?thesis
  proof (cases "even ?i")
    case True
    then have two: "2 * (?i div 2) = ?i" by simp
    have "m < (?i + 1) * 2 ^ k" by (simp add: dividend_less_div_times)
    then have "subtree H ?ms k (?i + 1) = merkle_zero_hash H k"
      by (intro subtree_empty) (simp add: m_def)
    then have "subtree H ?ms (Suc k) (?i div 2) = merkle_node_hash H (subtree H ?ms k ?i) (merkle_zero_hash H k)"
      using two by simp
    with True new show ?thesis unfolding half by (simp add: append_level_def del: subtree.simps)
  next
    case False
    then have two: "2 * (?i div 2) = ?i - 1" "?i - 1 + 1 = ?i" by (simp_all add: odd_two_times_div_two_nat odd_pos)
    have "?i * 2 ^ k \<le> m" by simp
    then have lt: "(?i - 1) * 2 ^ k < length ns + 1"
      by (metis (no_types, lifting) Suc_eq_plus1 diff_le_self le_imp_less_Suc m_def mult_le_mono1 order.trans)
    have "om_get nodes (k, ?i - 1) = Some (subtree H ?ms k (?i - 1))"
      using assms(1) lt by (simp add: partly_ok_def)
    moreover have "subtree H ?ms (Suc k) (?i div 2) = merkle_node_hash H (subtree H ?ms k (?i - 1)) (subtree H ?ms k ?i)"
      using two by simp
    ultimately show ?thesis using False new unfolding half by (simp add: append_level_def del: subtree.simps)
  qed
qed

lemma append_levels_ok:
  assumes "partly_ok H ns n 0 nodes" and "k \<le> MERKLE_DEPTH"
  shows "\<exists>nodes'. foldr_res (append_level H) [0..<k] (merkle_leaf_hash H n, length ns, nodes) =
      Ok (subtree H (ns @ [n]) k (length ns div 2 ^ k), length ns div 2 ^ k, nodes') \<and> partly_ok H ns n k nodes'"
  using assms(2)
proof (induction k)
  case 0
  show ?case using assms(1) by (intro exI [of _ nodes]) (simp add: nth_append)
next
  case (Suc k)
  then obtain nodes' where k: "foldr_res (append_level H) [0..<k] (merkle_leaf_hash H n, length ns, nodes) =
      Ok (subtree H (ns @ [n]) k (length ns div 2 ^ k), length ns div 2 ^ k, nodes')" and ok: "partly_ok H ns n k nodes'"
    by auto
  from append_level_ok [OF ok] Suc.prems show ?case
    by (auto simp: foldr_res_append k simp del: subtree.simps power_Suc)
qed

lemma cache_append_path_ok:
  assumes "tree_ok H t"
  shows "\<exists>nodes. cache_append_path H (merkle_leaf_hash H n) (length (tr_leaves t)) t =
      Ok (t\<lparr>tr_nodes := nodes, tr_cached_root := subtree H (tr_leaves t @ [n]) MERKLE_DEPTH (length (tr_leaves t) div 2 ^ MERKLE_DEPTH)\<rparr>) \<and>
    cache_ok H (tr_leaves t @ [n]) nodes"
proof -
  let ?ns = "tr_leaves t"
  have "partly_ok H ?ns n 0 (om_insert (0, length ?ns) (merkle_leaf_hash H n) (tr_nodes t))"
    using assms by (auto simp: tree_ok_def cache_ok_def partly_ok_def nth_append less_Suc_eq)
  from append_levels_ok [OF this order.refl] obtain nodes where
    "foldr_res (append_level H) [0..<MERKLE_DEPTH]
        (merkle_leaf_hash H n, length ?ns, om_insert (0, length ?ns) (merkle_leaf_hash H n) (tr_nodes t)) =
      Ok (subtree H (?ns @ [n]) MERKLE_DEPTH (length ?ns div 2 ^ MERKLE_DEPTH), length ?ns div 2 ^ MERKLE_DEPTH, nodes)"
    "partly_ok H ?ns n MERKLE_DEPTH nodes" by blast
  then show ?thesis by (auto simp: cache_append_path_def cache_ok_def partly_ok_def)
qed

lemma tree_append_Ok:
  assumes "tree_append H n t = Ok (i, t')" and "tree_ok H t"
  shows "tree_ok H t'" and "i = length (tr_leaves t)" and "tr_leaves t' = tr_leaves t @ [n]"
    and "validate_note n = Ok ()" and "\<not> tree_contains t (nt_commitment n)"
proof -
  let ?ns = "tr_leaves t"
  obtain nodes where c: "cache_append_path H (merkle_leaf_hash H n) (length ?ns) t =
      Ok (t\<lparr>tr_nodes := nodes, tr_cached_root := subtree H (?ns @ [n]) MERKLE_DEPTH (length ?ns div 2 ^ MERKLE_DEPTH)\<rparr>)"
    and ok: "cache_ok H (?ns @ [n]) nodes" using cache_append_path_ok [OF assms(2)] by blast
  from assms(1) have v: "validate_note n = Ok ()" and new: "\<not> tree_contains t (nt_commitment n)"
    and small: "length ?ns < merkle_capacity" and i: "i = length ?ns"
    and t': "t' = t\<lparr>tr_nodes := nodes, tr_cached_root := subtree H (?ns @ [n]) MERKLE_DEPTH (length ?ns div 2 ^ MERKLE_DEPTH),
        tr_indices := om_insert (nt_commitment n) (length ?ns) (tr_indices t), tr_leaves := ?ns @ [n]\<rparr>"
    by (auto simp: tree_append_def Let_def c split: if_splits)
  have "length ?ns div 2 ^ MERKLE_DEPTH = 0" using small by (simp add: merkle_capacity_def)
  moreover have "index_ok (?ns @ [n]) (om_insert (nt_commitment n) (length ?ns) (tr_indices t))"
    using assms(2) new by (auto simp: tree_ok_def index_ok_def tree_contains_def nth_append less_Suc_eq)
  ultimately show "tree_ok H t'"
    using assms(2) ok v small by (auto simp: t' tree_ok_def)
  show "i = length ?ns" "tr_leaves t' = ?ns @ [n]" "validate_note n = Ok ()" "\<not> tree_contains t (nt_commitment n)"
    using i t' v new by simp_all
qed

lemma tree_append_no_panic [no_panic]: "tree_ok H t \<Longrightarrow> tree_append H n t \<noteq> Panic"
  using cache_append_path_ok [of H t n]
  by (auto simp: tree_append_def Let_def validate_note_def validate_version_def validate_ids_def check_def bindr_eq_Panic)

lemma tree_contains_iff: "tree_ok H t \<Longrightarrow> tree_contains t c \<longleftrightarrow> c \<in> nt_commitment ` set (tr_leaves t)"
  by (force simp: tree_contains_def tree_ok_def index_ok_def in_set_conv_nth)

lemma tree_append_succeeds:
  assumes "tree_ok H t" and "validate_note n = Ok ()" and "nt_commitment n \<notin> nt_commitment ` set (tr_leaves t)"
    and "length (tr_leaves t) < merkle_capacity"
  obtains t' where "tree_append H n t = Ok (length (tr_leaves t), t')"
    and "tree_ok H t'" and "tr_leaves t' = tr_leaves t @ [n]"
proof -
  have "\<exists>t'. tree_append H n t = Ok (length (tr_leaves t), t')"
    using assms cache_append_path_ok [OF assms(1), of n]
    by (auto simp: tree_append_def tree_contains_iff [OF assms(1)] Let_def not_le)
  then show ?thesis using that tree_append_Ok [OF _ assms(1)] by blast
qed

section \<open>Inclusion proofs\<close>

lemma proof_siblings_subtrees:
  "cache_ok H ns nodes \<Longrightarrow> k \<le> MERKLE_DEPTH \<Longrightarrow>
   proof_siblings H nodes i [MERKLE_DEPTH - k..<MERKLE_DEPTH] =
   map (\<lambda>j. subtree H ns (MERKLE_DEPTH - k + j) (sibling_index (i div 2 ^ j))) [0..<k]"
proof (induction k arbitrary: i)
  case (Suc k)
  let ?h = "MERKLE_DEPTH - Suc k"
  have up: "[?h..<MERKLE_DEPTH] = ?h # [MERKLE_DEPTH - k..<MERKLE_DEPTH]" and suc: "Suc ?h = MERKLE_DEPTH - k"
    using Suc.prems(2) by (simp_all add: upt_rec Suc_diff_Suc)
  have "(case om_get nodes (?h, sibling_index i) of Some x \<Rightarrow> x | None \<Rightarrow> merkle_zero_hash H ?h) =
      subtree H ns ?h (sibling_index i)"
    using Suc.prems(1) by (auto simp: cache_ok_def subtree_empty)
  moreover have "map (\<lambda>j. subtree H ns (MERKLE_DEPTH - k + j) (sibling_index (i div 2 div 2 ^ j))) [0..<k] =
      map (\<lambda>j. subtree H ns (?h + j) (sibling_index (i div 2 ^ j))) [Suc 0..<Suc k]"
    unfolding map_Suc_upt [symmetric] map_map comp_def suc [symmetric]
    by (simp add: div_mult2_eq)
  ultimately show ?case
    unfolding up using Suc.IH [OF Suc.prems(1), of "i div 2"] Suc.prems(2)
    by (simp add: upt_conv_Cons del: upt_Suc)
qed simp

lemma climb_subtrees:
  "climb H (subtree H ns h i) i (map (\<lambda>j. subtree H ns (h + j) (sibling_index (i div 2 ^ j))) [0..<k]) =
   subtree H ns (h + k) (i div 2 ^ k)"
proof (induction k arbitrary: h i)
  case (Suc k)
  have shift: "map (\<lambda>j. subtree H ns (h + j) (sibling_index (i div 2 ^ j))) [Suc 0..<Suc k] =
      map (\<lambda>j. subtree H ns (Suc h + j) (sibling_index (i div 2 div 2 ^ j))) [0..<k]"
    unfolding map_Suc_upt [symmetric] map_map comp_def by (simp add: div_mult2_eq)
  have up: "(if even i then merkle_node_hash H (subtree H ns h i) (subtree H ns h (sibling_index i))
      else merkle_node_hash H (subtree H ns h (sibling_index i)) (subtree H ns h i)) = subtree H ns (Suc h) (i div 2)"
    by (auto simp: sibling_index_def odd_two_times_div_two_nat)
  have "climb H (subtree H ns h i) i (map (\<lambda>j. subtree H ns (h + j) (sibling_index (i div 2 ^ j))) [0..<Suc k]) =
      climb H (subtree H ns (Suc h) (i div 2)) (i div 2)
        (map (\<lambda>j. subtree H ns (Suc h + j) (sibling_index (i div 2 div 2 ^ j))) [0..<k])"
    unfolding up [symmetric] shift [symmetric] by (simp add: upt_conv_Cons del: upt_Suc)
  also have "\<dots> = subtree H ns (h + Suc k) (i div 2 ^ Suc k)"
    unfolding Suc.IH by (simp add: div_mult2_eq del: subtree.simps)
  finally show ?case .
qed simp

lemma tree_proof_verifies:
  assumes "tree_ok H t" and "i < length (tr_leaves t)"
  shows "\<exists>mk. tree_proof H i t = Ok mk \<and> verify_merkle_proof H mk (tr_leaves t ! i) (tr_cached_root t) = Ok ()"
proof -
  let ?s = "proof_siblings H (tr_nodes t) i [0..<MERKLE_DEPTH]"
  have s: "?s = map (\<lambda>j. subtree H (tr_leaves t) (0 + j) (sibling_index (i div 2 ^ j))) [0..<MERKLE_DEPTH]"
    using proof_siblings_subtrees [of H "tr_leaves t" "tr_nodes t" MERKLE_DEPTH i] assms(1) by (simp add: tree_ok_def)
  have cap: "i < merkle_capacity" using assms by (simp add: tree_ok_def)
  then have "climb H (merkle_leaf_hash H (tr_leaves t ! i)) i ?s = tr_cached_root t"
    using climb_subtrees [of H "tr_leaves t" 0 i MERKLE_DEPTH] assms
    unfolding s by (simp add: tree_ok_def merkle_capacity_def)
  with s cap assms show ?thesis by (simp add: tree_proof_def verify_merkle_proof_def)
qed

section \<open>Roots of prefixes\<close>

text \<open>The indices that the recursion visits stay within the tree.\<close>

lemma prefix_subtree_root_eq:
  assumes "cache_ok H ns (tr_nodes t)" and "h \<le> MERKLE_DEPTH" and "(i + 1) * 2 ^ h \<le> 2 ^ MERKLE_DEPTH"
    and "c \<le> length ns"
  shows "prefix_subtree_root H t h i c = Ok (subtree H (take c ns) h i)"
  using assms(2,3)
proof (induction h arbitrary: i)
  case (0 i)
  have "i * 1 < (2::nat) ^ 32" "i * 1 + 1 \<le> (2::nat) ^ 32" using 0 by (simp_all add: MERKLE_DEPTH_def)
  moreover have "(2::nat) ^ 32 \<le> u64_max" by (simp add: u64_max_def)
  ultimately have small: "\<not> (u64_max < i \<or> u64_max < i + 1)" by linarith
  show ?case
  proof (cases "c \<le> i")
    case False
    then have "om_get (tr_nodes t) (0, i) = Some (merkle_leaf_hash H (ns ! i))"
      using assms(1,4) by (simp add: cache_ok_def)
    with False small assms(4) show ?thesis by (subst prefix_subtree_root.simps) simp
  qed (use small assms(4) in \<open>subst prefix_subtree_root.simps, simp\<close>)
next
  case (Suc h i)
  have le: "(2 * i + 1) * 2 ^ h \<le> (2 * i + 1 + 1) * 2 ^ h" by (intro mult_le_mono1) simp
  have up: "(2 * i + 1 + 1) * 2 ^ h \<le> 2 ^ MERKLE_DEPTH" using Suc.prems(2) by (simp add: algebra_simps)
  have left: "prefix_subtree_root H t h (2 * i) c = Ok (subtree H (take c ns) h (2 * i))"
    using Suc.prems(1) by (intro Suc.IH order.trans [OF le up]) simp
  have right: "prefix_subtree_root H t h (2 * i + 1) c = Ok (subtree H (take c ns) h (2 * i + 1))"
    using Suc.prems(1) by (intro Suc.IH up) simp
  have "i * 2 ^ Suc h + 2 ^ Suc h \<le> (2::nat) ^ 32" using Suc.prems(2) by (simp add: MERKLE_DEPTH_def algebra_simps)
  moreover have "(2::nat) ^ 32 \<le> u64_max" by (simp add: u64_max_def)
  ultimately have small: "\<not> (u64_max < i * 2 ^ Suc h \<or> u64_max < i * 2 ^ Suc h + 2 ^ Suc h)" by linarith
  consider "c \<le> i * 2 ^ Suc h" | "i * 2 ^ Suc h < c" "i * 2 ^ Suc h + 2 ^ Suc h \<le> c"
    | "i * 2 ^ Suc h < c" "c < i * 2 ^ Suc h + 2 ^ Suc h" by linarith
  then show ?case
  proof cases
    case 1
    then have "subtree H (take c ns) (Suc h) i = merkle_zero_hash H (Suc h)" by (intro subtree_empty) simp
    with 1 small show ?thesis by (subst prefix_subtree_root.simps) (simp del: power_Suc subtree.simps)
  next
    case 2
    have "subtree H (take c ns) (Suc h) i = subtree H ns (Suc h) i"
      using 2(2) assms(4) by (intro subtree_cong) (auto simp: algebra_simps)
    moreover have "om_get (tr_nodes t) (Suc h, i) = Some (subtree H ns (Suc h) i)"
      using assms(1,4) Suc.prems(1) 2(1) by (simp add: cache_ok_def del: power_Suc subtree.simps)
    ultimately show ?thesis using 2 small
      by (subst prefix_subtree_root.simps) (simp add: not_le del: power_Suc subtree.simps)
  next
    case 3
    with left right small show ?thesis
      by (subst prefix_subtree_root.simps) (simp add: not_le del: power_Suc)
  qed
qed

lemma root_at_leaf_count_ok:
  assumes "tree_ok H t" and "c \<le> length (tr_leaves t)"
  shows "root_at_leaf_count H t c = Ok (merkle_root H (take c (tr_leaves t)))"
  using assms prefix_subtree_root_eq [of H "tr_leaves t" t MERKLE_DEPTH 0 c]
  by (auto simp: root_at_leaf_count_def tree_ok_def merkle_root_subtree)

end
