(* ===== verification/Shielded_Sound.thy ===== *)
theory Shielded_Sound
  imports Shielded_Merkle
begin

text \<open>
  What a verified inclusion proof and a verified spend guarantee. A hash of 32 bytes has collisions,
  so the statements speak of the strings that are really hashed: the hash is injective on a set \<open>Q\<close>
  that contains them (no collision occurred).
\<close>

section \<open>The hashed strings\<close>

definition framed :: "bytes \<Rightarrow> bytes list \<Rightarrow> bytes" where
  "framed domain parts = domain @ concat (map (\<lambda>p. be_bytes 8 (length p) @ p) parts)"

lemma hash_framed_framed: "hash_framed H domain parts = H (framed domain parts)"
  by (simp add: hash_framed_def framed_def)

definition leaf_input :: "public_note \<Rightarrow> bytes" where
  "leaf_input n = framed (domain_tag ''ASTERIA_SHIELDED_MERKLE_LEAF_V3'') [note_bytes n]"

definition node_input :: "bytes \<Rightarrow> bytes \<Rightarrow> bytes" where
  "node_input left right = framed (domain_tag ''ASTERIA_SHIELDED_MERKLE_NODE_V3'') [left, right]"

definition empty_input :: bytes where
  "empty_input = framed (domain_tag ''ASTERIA_SHIELDED_MERKLE_EMPTY_V3'') []"

lemma hash_inputs:
  "merkle_leaf_hash H n = H (leaf_input n)" "merkle_node_hash H l r = H (node_input l r)"
  "merkle_zero_hash H 0 = H empty_input"
  by (simp_all add: merkle_leaf_hash_def leaf_input_def merkle_node_hash_def node_input_def empty_input_def
      hash_framed_framed)

definition note_wf :: "public_note \<Rightarrow> bool" where
  "note_wf n \<longleftrightarrow> nt_version n < 2 ^ 16 \<and> length (nt_market_id n) = 32 \<and> length (nt_collateral_asset n) = 32 \<and>
     length (nt_commitment n) = 32"

lemma note_bytes_inject: "note_wf n \<Longrightarrow> note_wf m \<Longrightarrow> note_bytes n = note_bytes m \<longleftrightarrow> n = m"
  using be_bytes_inject [of "nt_version n" 2 "nt_version m"]
  by (auto simp: note_wf_def note_bytes_def intro: public_note.equality)

lemma leaf_input_inject: "note_wf n \<Longrightarrow> note_wf m \<Longrightarrow> leaf_input n = leaf_input m \<longleftrightarrow> n = m"
  using note_bytes_inject [of n m] by (auto simp: leaf_input_def framed_def note_wf_def note_bytes_def)

lemma node_input_inject:
  "length l = length l' \<Longrightarrow> length r = length r' \<Longrightarrow> node_input l r = node_input l' r' \<longleftrightarrow> l = l' \<and> r = r'"
  by (simp add: node_input_def framed_def)

lemma leaf_input_not_empty: "leaf_input n \<noteq> empty_input"
proof
  assume "leaf_input n = empty_input"
  then have "length (leaf_input n) = length empty_input" by simp
  then show False by (simp add: leaf_input_def empty_input_def framed_def domain_tag_def note_bytes_def)
qed

text \<open>The strings hashed for the nodes of a tree, and on the way up an inclusion proof.\<close>

fun subtree_input :: "digest \<Rightarrow> public_note list \<Rightarrow> nat \<Rightarrow> nat \<Rightarrow> bytes" where
  "subtree_input H ns 0 i = (if i < length ns then leaf_input (ns ! i) else empty_input)"
| "subtree_input H ns (Suc h) i = node_input (subtree H ns h (2 * i)) (subtree H ns h (2 * i + 1))"

lemma subtree_hash: "subtree H ns h i = H (subtree_input H ns h i)"
  by (cases h) (auto simp: hash_inputs simp del: merkle_zero_hash.simps)

definition tree_inputs :: "digest \<Rightarrow> public_note list \<Rightarrow> bytes set" where
  "tree_inputs H ns = {subtree_input H ns h i |h i. h \<le> MERKLE_DEPTH}"

lemma subtree_input_in: "h \<le> MERKLE_DEPTH \<Longrightarrow> subtree_input H ns h i \<in> tree_inputs H ns"
  unfolding tree_inputs_def by blast

fun climb_inputs :: "digest \<Rightarrow> bytes \<Rightarrow> nat \<Rightarrow> bytes list \<Rightarrow> bytes set" where
  "climb_inputs H current index [] = {}"
| "climb_inputs H current index (s # ss) =
     (let x = (if even index then node_input current s else node_input s current) in
      insert x (climb_inputs H (H x) (index div 2) ss))"

definition proof_inputs :: "digest \<Rightarrow> merkle_proof \<Rightarrow> public_note \<Rightarrow> bytes set" where
  "proof_inputs H mk n =
     insert (leaf_input n) (climb_inputs H (merkle_leaf_hash H n) (mk_leaf_index mk) (mk_siblings mk))"

section \<open>Soundness of inclusion proofs\<close>

lemma climb_sound:
  assumes len: "\<And>b. length (H b) = 32" and inj: "inj_on H Q"
    and "climb_inputs H x i ss \<subseteq> Q" and "tree_inputs H ns \<subseteq> Q"
    and "length x = 32" and "\<forall>s \<in> set ss. length s = 32" and "h + length ss \<le> MERKLE_DEPTH"
    and "climb H x i ss = subtree H ns (h + length ss) (i div 2 ^ length ss)"
  shows "x = subtree H ns h i"
  using assms(3-)
proof (induction ss arbitrary: x i h)
  case (Cons s ss)
  let ?y = "if even i then node_input x s else node_input s x"
  have len_sub: "length (subtree H ns h j) = 32" for j by (simp add: subtree_hash len)
  have "H ?y = subtree H ns (Suc h) (i div 2)"
  proof (rule Cons.IH)
    show "climb H (H ?y) (i div 2) ss = subtree H ns (Suc h + length ss) (i div 2 div 2 ^ length ss)"
      using Cons.prems(6) by (cases "even i") (simp_all add: hash_inputs div_mult2_eq del: subtree.simps)
  qed (use Cons.prems in \<open>auto simp: Let_def len\<close>)
  then have eq: "H ?y = H (subtree_input H ns (Suc h) (i div 2))" by (simp only: subtree_hash)
  have "subtree_input H ns (Suc h) (i div 2) \<in> Q"
    using Cons.prems(5) by (intro subsetD [OF Cons.prems(2)] subtree_input_in) simp
  moreover have "?y \<in> Q" using Cons.prems(1) by (simp add: Let_def)
  ultimately have "?y = subtree_input H ns (Suc h) (i div 2)" using eq inj by (auto dest: inj_onD)
  then show ?case
    using Cons.prems(3,4) len_sub
    by (cases "even i") (auto simp: node_input_inject odd_two_times_div_two_nat)
qed simp

lemma merkle_proof_sound:
  assumes "\<And>b. length (H b) = 32" and inj: "inj_on H Q" and sub: "proof_inputs H mk n \<subseteq> Q" "tree_inputs H ns \<subseteq> Q"
    and "\<forall>s \<in> set (mk_siblings mk). length s = 32" and wf: "note_wf n" "\<forall>m \<in> set ns. note_wf m"
    and v: "verify_merkle_proof H mk n (merkle_root H ns) = Ok ()"
  shows "mk_leaf_index mk < length ns \<and> ns ! mk_leaf_index mk = n"
proof -
  let ?i = "mk_leaf_index mk"
  have depth: "length (mk_siblings mk) = MERKLE_DEPTH" "?i < 2 ^ MERKLE_DEPTH"
      and root: "climb H (merkle_leaf_hash H n) ?i (mk_siblings mk) = subtree H ns MERKLE_DEPTH 0"
    using v by (auto simp: verify_merkle_proof_def merkle_capacity_def merkle_root_subtree check_def split: if_splits)
  have "merkle_leaf_hash H n = subtree H ns 0 ?i"
  proof (rule climb_sound [OF assms(1) inj, where ss = "mk_siblings mk"])
    show "climb_inputs H (merkle_leaf_hash H n) ?i (mk_siblings mk) \<subseteq> Q" using sub(1) by (simp add: proof_inputs_def)
    show "length (merkle_leaf_hash H n) = 32" by (simp add: hash_inputs assms(1))
    show "climb H (merkle_leaf_hash H n) ?i (mk_siblings mk) =
        subtree H ns (0 + length (mk_siblings mk)) (?i div 2 ^ length (mk_siblings mk))"
      using depth root by simp
  qed (use sub depth assms(5) in simp_all)
  then have "H (leaf_input n) = H (subtree_input H ns 0 ?i)" by (simp only: subtree_hash hash_inputs)
  moreover have "leaf_input n \<in> Q" using sub by (simp add: proof_inputs_def)
  moreover have "subtree_input H ns 0 ?i \<in> Q" using sub(2) subtree_input_in [of 0] by blast
  ultimately have "leaf_input n = subtree_input H ns 0 ?i" using inj by (auto dest: inj_onD)
  then show ?thesis using wf leaf_input_not_empty by (auto simp: leaf_input_inject split: if_splits)
qed

end
