(* ===== verification/Shielded_Value.thy ===== *)
theory Shielded_Value
  imports Shielded_Ledger
begin

text \<open>
  No inflation: in a run of the ledger in which no two hashed strings collide, the value of the notes
  that are not spent never exceeds the shielded collateral. A run records the opening of every note,
  in the order of the leaves, and the set \<open>Q\<close> of the strings that it hashes.
\<close>

section \<open>Commitments bind\<close>

definition opening_wf :: "note_opening \<Rightarrow> bool" where
  "opening_wf o' \<longleftrightarrow> length (op_owner o') = 32 \<and> length (op_nullifier_key o') = 32 \<and> length (op_blinding o') = 32 \<and>
     op_collateral o' < 2 ^ 64 \<and> - (2 ^ 63) \<le> op_position o' \<and> op_position o' < 2 ^ 63 \<and> op_leverage o' < 2 ^ 16"

definition commitment_input :: "bytes \<Rightarrow> bytes \<Rightarrow> note_opening \<Rightarrow> bytes" where
  "commitment_input market_id collateral_asset o' =
     framed (domain_tag ''ASTERIA_SHIELDED_NOTE_COMMITMENT_V3'')
       [be_bytes 2 SHIELDED_MARGIN_VERSION, market_id, collateral_asset, op_owner o', op_nullifier_key o',
        be_bytes 8 (op_collateral o'), signed_bytes (op_position o'), be_bytes 2 (op_leverage o'), op_blinding o']"

lemma commitment_hash: "commitment H m a o' = H (commitment_input m a o')"
  by (simp add: commitment_def commitment_input_def hash_framed_framed)

lemma signed_bytes_inject:
  assumes "- (2 ^ 63) \<le> x" "x < 2 ^ 63" "- (2 ^ 63) \<le> y" "y < 2 ^ 63" and eq: "signed_bytes x = signed_bytes y"
  shows "x = y"
proof -
  have "nat (x mod 2 ^ 64) < 256 ^ 8" "nat (y mod 2 ^ 64) < 256 ^ 8"
    by (simp_all add: nat_less_iff)
  with eq have "nat (x mod 2 ^ 64) = nat (y mod 2 ^ 64)"
    unfolding signed_bytes_def by (simp only: be_bytes_inject)
  then have "x mod 2 ^ 64 = y mod 2 ^ 64" by (simp add: eq_nat_nat_iff)
  then have "2 ^ 64 dvd x - y" by (simp only: mod_eq_dvd_iff)
  then obtain k where k: "x - y = 2 ^ 64 * k" by (elim dvdE)
  with assms(1-4) have "18446744073709551616 * k < 18446744073709551616" "- 18446744073709551616 < 18446744073709551616 * k"
    by simp_all
  then have "k = 0" by linarith
  with k show ?thesis by simp
qed

lemma commitment_input_inject:
  assumes "opening_wf a" "opening_wf b" "length m = length m'" "length c = length c'"
    and "commitment_input m c a = commitment_input m' c' b"
  shows "a = b"
proof -
  have "op_owner a = op_owner b" "op_nullifier_key a = op_nullifier_key b" "op_blinding a = op_blinding b"
    "be_bytes 8 (op_collateral a) = be_bytes 8 (op_collateral b)"
    "signed_bytes (op_position a) = signed_bytes (op_position b)"
    "be_bytes 2 (op_leverage a) = be_bytes 2 (op_leverage b)"
    using assms by (simp_all add: commitment_input_def framed_def opening_wf_def signed_bytes_def)
  with assms(1,2) show ?thesis
    using be_bytes_inject [of "op_collateral a" 8 "op_collateral b"] be_bytes_inject [of "op_leverage a" 2 "op_leverage b"]
      signed_bytes_inject [of "op_position a" "op_position b"]
    by (intro note_opening.equality) (simp_all add: opening_wf_def)
qed

section \<open>Runs\<close>

definition note_hashes :: "digest \<Rightarrow> public_note list \<Rightarrow> bytes set" where
  "note_hashes H ns = (\<Union>c \<le> length ns. tree_inputs H (take c ns))"

definition spend_hashes :: "digest \<Rightarrow> spend_statement \<Rightarrow> spend_proof \<Rightarrow> bytes set" where
  "spend_hashes H st pf =
     (\<Union>w \<in> set (spf_inputs pf). insert (commitment_input (nt_market_id (iw_note w)) (nt_collateral_asset (iw_note w)) (iw_opening w))
        (proof_inputs H (iw_merkle_proof w) (iw_note w))) \<union>
     commitment_input (st_market_id st) (st_collateral_asset st) ` set (spf_output_openings pf)"

definition witness_wf :: "input_witness \<Rightarrow> bool" where
  "witness_wf w \<longleftrightarrow> note_wf (iw_note w) \<and> opening_wf (iw_opening w) \<and> (\<forall>s \<in> set (mk_siblings (iw_merkle_proof w)). length s = 32)"

inductive ledger_run :: "shielded_env \<Rightarrow> bytes set \<Rightarrow> shielded_ledger \<Rightarrow> note_opening list \<Rightarrow> nat \<Rightarrow> bool"
  for V Q where
  start: "new_ledger V domain ledger_id authority Development = Ok l \<Longrightarrow> note_hashes (sv_sha V) [] \<subseteq> Q \<Longrightarrow> ledger_run V Q l [] 0"
| register: "ledger_run V Q l os d \<Longrightarrow> register_market V p l = Ok l' \<Longrightarrow> ledger_run V Q l' os d"
| deposit: "ledger_run V Q l os d \<Longrightarrow> ledger_deposit V ad (transparent_deposit_verifier V) l = Ok (r, l') \<Longrightarrow>
    decode_deposit_proof V (ad_proof ad) = Ok o' \<Longrightarrow> n = dp_note (ad_statement ad) \<Longrightarrow> note_wf n \<Longrightarrow> opening_wf o' \<Longrightarrow>
    commitment_input (nt_market_id n) (nt_collateral_asset n) o' \<in> Q \<Longrightarrow> note_hashes (sv_sha V) (leaves_of (sl_margin l')) \<subseteq> Q \<Longrightarrow>
    ledger_run V Q l' (os @ [o']) (d + dp_backing_amount (ad_statement ad))"
| spend: "ledger_run V Q l os d \<Longrightarrow> ledger_spend V sp (transparent_spend_verifier V) l = Ok (r, l') \<Longrightarrow>
    decode_spend_proof V (sd_proof sp) = Ok pf \<Longrightarrow> st = sd_statement sp \<Longrightarrow>
    length (st_market_id st) = 32 \<Longrightarrow> length (st_collateral_asset st) = 32 \<Longrightarrow>
    \<forall>w \<in> set (spf_inputs pf). witness_wf w \<Longrightarrow> \<forall>o' \<in> set (spf_output_openings pf). opening_wf o' \<Longrightarrow>
    spend_hashes (sv_sha V) st pf \<subseteq> Q \<Longrightarrow> note_hashes (sv_sha V) (leaves_of (sl_margin l')) \<subseteq> Q \<Longrightarrow>
    ledger_run V Q l' (os @ spf_output_openings pf) d"

text \<open>The nullifier of the \<open>j\<close>-th note, and the value of the notes whose nullifier is not spent.\<close>

definition nullifier_of :: "digest \<Rightarrow> public_note list \<Rightarrow> note_opening list \<Rightarrow> nat \<Rightarrow> bytes" where
  "nullifier_of H ns os j = derive_nullifier H (ns ! j) (os ! j) j"

definition unspent_value :: "digest \<Rightarrow> margin_state \<Rightarrow> note_opening list \<Rightarrow> nat" where
  "unspent_value H g os =
     (\<Sum>j \<in> {j. j < length os \<and> nullifier_of H (leaves_of g) os j \<notin> set (sg_spent g)}. op_collateral (os ! j))"

definition opened :: "digest \<Rightarrow> bytes set \<Rightarrow> public_note list \<Rightarrow> note_opening list \<Rightarrow> bool" where
  "opened H Q ns os \<longleftrightarrow> list_all2 (\<lambda>n o'. note_wf n \<and> opening_wf o' \<and> nt_commitment n = commitment H (nt_market_id n) (nt_collateral_asset n) o' \<and>
      commitment_input (nt_market_id n) (nt_collateral_asset n) o' \<in> Q) ns os"

lemma nullifier_of_append:
  "j < length ns \<Longrightarrow> length ns = length os \<Longrightarrow> nullifier_of H (ns @ ms) (os @ ps) j = nullifier_of H ns os j"
  by (simp add: nullifier_of_def nth_append)

lemma unspent_value_append:
  assumes "leaves_of g' = leaves_of g @ ms" and "length (leaves_of g) = length os" and "set (sg_spent g) \<subseteq> set (sg_spent g')"
    and "I \<subseteq> {j. j < length os \<and> nullifier_of H (leaves_of g) os j \<notin> set (sg_spent g)}"
    and "\<And>j. j \<in> I \<Longrightarrow> nullifier_of H (leaves_of g) os j \<in> set (sg_spent g')"
  shows "unspent_value H g' (os @ ps) + (\<Sum>j \<in> I. op_collateral (os ! j)) \<le>
    unspent_value H g os + (\<Sum>o'\<leftarrow>ps. op_collateral o')"
proof -
  let ?U = "{j. j < length os \<and> nullifier_of H (leaves_of g) os j \<notin> set (sg_spent g)}"
  let ?N = "{length os..<length os + length ps}"
  have "{j. j < length (os @ ps) \<and> nullifier_of H (leaves_of g') (os @ ps) j \<notin> set (sg_spent g')} \<subseteq> (?U - I) \<union> ?N"
    using assms nullifier_of_append [of _ "leaves_of g" os H ms ps] by auto
  then have "unspent_value H g' (os @ ps) \<le> (\<Sum>j \<in> (?U - I) \<union> ?N. op_collateral ((os @ ps) ! j))"
    unfolding unspent_value_def by (intro sum_mono2) auto
  also have "\<dots> = (\<Sum>j \<in> ?U - I. op_collateral ((os @ ps) ! j)) + (\<Sum>j \<in> ?N. op_collateral ((os @ ps) ! j))"
    by (intro sum.union_disjoint) auto
  also have "(\<Sum>j \<in> ?N. op_collateral ((os @ ps) ! j)) = (\<Sum>j < length ps. op_collateral (ps ! j))"
    by (intro sum.reindex_bij_witness [of _ "\<lambda>j. length os + j" "\<lambda>j. j - length os"]) (auto simp: nth_append)
  also have "(\<Sum>j < length ps. op_collateral (ps ! j)) = (\<Sum>o'\<leftarrow>ps. op_collateral o')"
    by (simp add: sum_list_sum_nth atLeast0LessThan)
  also have "(\<Sum>j \<in> ?U - I. op_collateral ((os @ ps) ! j)) = (\<Sum>j \<in> ?U - I. op_collateral (os ! j))"
    by (intro sum.cong) (auto simp: nth_append)
  finally have "unspent_value H g' (os @ ps) \<le> (\<Sum>j \<in> ?U - I. op_collateral (os ! j)) + (\<Sum>o'\<leftarrow>ps. op_collateral o')" .
  moreover have "(\<Sum>j \<in> ?U - I. op_collateral (os ! j)) + (\<Sum>j \<in> I. op_collateral (os ! j)) = unspent_value H g os"
    unfolding unspent_value_def using assms(4) by (intro sum.subset_diff [symmetric]) auto
  ultimately show ?thesis by linarith
qed

section \<open>Every run keeps the value\<close>

lemma opened_nth:
  "opened H Q ns os \<longleftrightarrow> length ns = length os \<and> (\<forall>j < length ns. note_wf (ns ! j) \<and> opening_wf (os ! j) \<and>
     nt_commitment (ns ! j) = commitment H (nt_market_id (ns ! j)) (nt_collateral_asset (ns ! j)) (os ! j) \<and>
     commitment_input (nt_market_id (ns ! j)) (nt_collateral_asset (ns ! j)) (os ! j) \<in> Q)"
  by (auto simp: opened_def list_all2_conv_all_nth)

lemma opened_append: "opened H Q ns os \<Longrightarrow> opened H Q ms ps \<Longrightarrow> opened H Q (ns @ ms) (os @ ps)"
  by (simp add: opened_def list_all2_appendI)

definition run_ok :: "shielded_env \<Rightarrow> bytes set \<Rightarrow> shielded_ledger \<Rightarrow> note_opening list \<Rightarrow> nat \<Rightarrow> bool" where
  "run_ok V Q l os d \<longleftrightarrow> margin_ok (sv_sha V) (sl_margin l) \<and> opened (sv_sha V) Q (leaves_of (sl_margin l)) os \<and>
     note_hashes (sv_sha V) (leaves_of (sl_margin l)) \<subseteq> Q \<and>
     unspent_value (sv_sha V) (sl_margin l) os \<le> sl_collateral l \<and> sl_collateral l + sl_fee_total l = d"

text \<open>An accepted input opens a leaf of the tree with the recorded opening.\<close>

lemma input_is_leaf:
  assumes len: "\<And>b. length (sv_sha V b) = 32" and inj: "inj_on (sv_sha V) Q"
    and ok: "run_ok V Q l os d" and c: "check_input V st dg i x s w = Ok ()"
    and anchor: "st_anchor_root st \<in> set (sg_accepted_roots (sl_margin l))" and wf: "witness_wf w"
    and sub: "proof_inputs (sv_sha V) (iw_merkle_proof w) (iw_note w) \<subseteq> Q"
      "commitment_input (nt_market_id (iw_note w)) (nt_collateral_asset (iw_note w)) (iw_opening w) \<in> Q"
  defines "j \<equiv> mk_leaf_index (iw_merkle_proof w)"
  shows "j < length os \<and> os ! j = iw_opening w \<and> nullifier_of (sv_sha V) (leaves_of (sl_margin l)) os j = x"
proof -
  let ?H = "sv_sha V" and ?ns = "leaves_of (sl_margin l)" and ?n = "iw_note w" and ?o = "iw_opening w"
  have v: "verify_merkle_proof ?H (iw_merkle_proof w) ?n (st_anchor_root st) = Ok ()"
    and cm: "commitment ?H (nt_market_id ?n) (nt_collateral_asset ?n) ?o = nt_commitment ?n"
    and nf: "derive_nullifier ?H ?n ?o j = x"
    using c by (auto simp: check_input_def Let_def j_def split: if_splits)
  from anchor ok obtain k where k: "k \<le> length ?ns" "st_anchor_root st = merkle_root ?H (take k ?ns)"
    by (auto simp: run_ok_def margin_ok_def)
  have wfs: "\<forall>m \<in> set ?ns. note_wf m" and lo: "length ?ns = length os"
    using ok by (auto simp: run_ok_def opened_nth in_set_conv_nth)
  have tree: "tree_inputs ?H (take k ?ns) \<subseteq> Q"
    using ok k(1) unfolding run_ok_def note_hashes_def by blast
  have j: "j < length (take k ?ns) \<and> take k ?ns ! j = ?n"
    unfolding j_def
    by (rule merkle_proof_sound [OF len inj sub(1)])
      (use tree wf wfs v k(2) in \<open>auto simp: witness_wf_def dest: in_set_takeD\<close>)
  then have leaf: "j < length ?ns" "?ns ! j = ?n" by auto
  have open_j: "opening_wf (os ! j)" "nt_commitment ?n = commitment ?H (nt_market_id ?n) (nt_collateral_asset ?n) (os ! j)"
    "commitment_input (nt_market_id ?n) (nt_collateral_asset ?n) (os ! j) \<in> Q"
    using ok leaf unfolding run_ok_def opened_nth by auto
  then have "commitment_input (nt_market_id ?n) (nt_collateral_asset ?n) (os ! j) =
      commitment_input (nt_market_id ?n) (nt_collateral_asset ?n) ?o"
    using sub(2) inj cm by (auto simp: commitment_hash dest: inj_onD)
  then have "os ! j = ?o"
    using open_j(1) wf by (intro commitment_input_inject) (auto simp: witness_wf_def)
  with leaf lo nf show ?thesis by (simp add: nullifier_of_def)
qed

lemma sp_verify_transparent [simp]: "sp_verify (transparent_spend_verifier V) = verify_transparent V"
  by (simp add: transparent_spend_verifier_def)

lemma ledger_spend_Ok:
  assumes "ledger_spend V sp sv l = Ok (r, l')"
  obtains p g rc where "apply_spend (sv_sha V) (sp_verify sv) sp p (sl_margin l) = Ok (rc, g)"
    and "om_get (sl_policies l) (st_market_id (sd_statement sp)) = Some p"
    and "st_fee (sd_statement sp) \<le> sl_collateral l"
    and "l' = l\<lparr>sl_margin := g, sl_collateral := sl_collateral l - st_fee (sd_statement sp),
          sl_fee_total := sl_fee_total l + st_fee (sd_statement sp)\<rparr>"
    and "pr_state_receipt r = rc"
  using assms
  by (force simp: ledger_spend_def spend_totals_def Let_def lift_margin_def checked_sub_def checked_add_def split: if_splits)

lemma ledger_deposit_Ok:
  assumes "ledger_deposit V ad (transparent_deposit_verifier V) l = Ok (r, l')"
  obtains g i o' where "append_deposit_commitment (sv_sha V) (dp_note (ad_statement ad)) (sl_margin l) = Ok (i, g)"
    and "l' = l\<lparr>sl_margin := g, sl_collateral := sl_collateral l + dp_backing_amount (ad_statement ad)\<rparr>"
    and "decode_deposit_proof V (ad_proof ad) = Ok o'" and "op_collateral o' = dp_backing_amount (ad_statement ad)"
    and "commitment (sv_sha V) (nt_market_id (dp_note (ad_statement ad))) (nt_collateral_asset (dp_note (ad_statement ad))) o' =
        nt_commitment (dp_note (ad_statement ad))"
  using assms
  by (auto simp: ledger_deposit_def admit_deposit_def transparent_deposit_verifier_def verify_transparent_deposit_def
      Let_def lift_margin_def checked_add_def split: if_splits)

lemma run_ok_deposit:
  assumes ok: "run_ok V Q l os d" and dep: "ledger_deposit V ad (transparent_deposit_verifier V) l = Ok (r, l')"
    and dec: "decode_deposit_proof V (ad_proof ad) = Ok o'" and n: "n = dp_note (ad_statement ad)"
    and wf: "note_wf n" "opening_wf o'"
    and sub: "commitment_input (nt_market_id n) (nt_collateral_asset n) o' \<in> Q"
      "note_hashes (sv_sha V) (leaves_of (sl_margin l')) \<subseteq> Q"
  shows "run_ok V Q l' (os @ [o']) (d + dp_backing_amount (ad_statement ad))"
proof -
  let ?H = "sv_sha V"
  obtain g i where a: "append_deposit_commitment ?H n (sl_margin l) = Ok (i, g)"
    and l': "l' = l\<lparr>sl_margin := g, sl_collateral := sl_collateral l + dp_backing_amount (ad_statement ad)\<rparr>"
    and amount: "op_collateral o' = dp_backing_amount (ad_statement ad)"
    and cm: "commitment ?H (nt_market_id n) (nt_collateral_asset n) o' = nt_commitment n"
    using ledger_deposit_Ok [OF dep] dec n by (metis res.inject(1))
  have g: "margin_ok ?H g" "leaves_of g = leaves_of (sl_margin l) @ [n]" "sg_spent g = sg_spent (sl_margin l)"
    using append_deposit_Ok [OF a] ok by (auto simp: run_ok_def)
  have "unspent_value ?H g (os @ [o']) + (\<Sum>j \<in> {}. op_collateral (os ! j)) \<le>
      unspent_value ?H (sl_margin l) os + (\<Sum>o''\<leftarrow>[o']. op_collateral o'')"
    using g ok by (intro unspent_value_append [where ms = "[n]"]) (auto simp: run_ok_def opened_nth)
  moreover have "opened ?H Q [n] [o']" using wf sub(1) cm by (simp add: opened_def)
  ultimately show ?thesis
    using ok g sub(2) amount by (auto simp: run_ok_def l' opened_append)
qed

lemma opened_outputs:
  assumes len: "\<And>b. length (H b) = 32" and n: "length os = length cs"
    and c: "\<And>o' c. (o', c) \<in> set (zip os cs) \<Longrightarrow> commitment H (st_market_id st) (st_collateral_asset st) o' = c"
    and st: "st_version st = SHIELDED_MARGIN_VERSION" "length (st_market_id st) = 32" "length (st_collateral_asset st) = 32"
    and os: "\<forall>o' \<in> set os. opening_wf o'" "commitment_input (st_market_id st) (st_collateral_asset st) ` set os \<subseteq> Q"
  shows "opened H Q (map (output_note st) cs) os"
  unfolding opened_nth
proof (intro conjI allI impI)
  fix j assume "j < length (map (output_note st) cs)"
  then have j: "j < length cs" by simp
  then have "commitment H (st_market_id st) (st_collateral_asset st) (os ! j) = cs ! j"
    using n by (intro c) (auto simp: set_zip)
  moreover have "os ! j \<in> set os" using j n by simp
  ultimately show "note_wf (map (output_note st) cs ! j)" "opening_wf (os ! j)"
    "nt_commitment (map (output_note st) cs ! j) =
      commitment H (nt_market_id (map (output_note st) cs ! j)) (nt_collateral_asset (map (output_note st) cs ! j)) (os ! j)"
    "commitment_input (nt_market_id (map (output_note st) cs ! j)) (nt_collateral_asset (map (output_note st) cs ! j)) (os ! j) \<in> Q"
    using j st os len [of "commitment_input (st_market_id st) (st_collateral_asset st) (os ! j)"]
    by (auto simp: output_note_def note_wf_def SHIELDED_MARGIN_VERSION_def commitment_hash)
qed (simp add: n)

text \<open>Every input of an accepted spend opens a note of the ledger, and its nullifier is that note's.\<close>

lemma accepted_input:
  assumes len: "\<And>b. length (sv_sha V b) = 32" and inj: "inj_on (sv_sha V) Q" and ok: "run_ok V Q l os d"
    and v: "verify_transparent V st p bs = Ok u" and anchor: "st_anchor_root st \<in> set (sg_accepted_roots (sl_margin l))"
    and dec: "decode_spend_proof V bs = Ok pf"
    and wf: "\<forall>w \<in> set (spf_inputs pf). witness_wf w" and sub: "spend_hashes (sv_sha V) st pf \<subseteq> Q"
    and k: "k < length (st_nullifiers st)"
  defines "w \<equiv> spf_inputs pf ! k"
  shows "mk_leaf_index (iw_merkle_proof w) < length os \<and> os ! mk_leaf_index (iw_merkle_proof w) = iw_opening w \<and>
    nullifier_of (sv_sha V) (leaves_of (sl_margin l)) os (mk_leaf_index (iw_merkle_proof w)) = st_nullifiers st ! k"
proof -
  from v dec obtain n: "length (spf_inputs pf) = length (st_nullifiers st)"
    and ins: "\<And>w x. (w, x) \<in> set (zip (spf_inputs pf) (st_nullifiers st)) \<Longrightarrow> \<exists>dg i s. check_input V st dg i x s w = Ok ()"
    by (elim verify_transparent_Ok) (metis res.inject(1))
  have "(w, st_nullifiers st ! k) \<in> set (zip (spf_inputs pf) (st_nullifiers st))"
    unfolding w_def using k n by (auto simp: set_zip)
  from ins [OF this] obtain dg i s where "check_input V st dg i (st_nullifiers st ! k) s w = Ok ()" by blast
  moreover have "w \<in> set (spf_inputs pf)" unfolding w_def using k n by simp
  ultimately show ?thesis
    using wf sub anchor unfolding spend_hashes_def by (intro input_is_leaf [OF len inj ok]) auto
qed

lemma spent_inputs:
  assumes len: "\<And>b. length (sv_sha V b) = 32" and inj: "inj_on (sv_sha V) Q" and ok: "run_ok V Q l os d"
    and sp: "ledger_spend V sp (transparent_spend_verifier V) l = Ok (r, l')"
    and dec: "decode_spend_proof V (sd_proof sp) = Ok pf"
    and wf: "\<forall>w \<in> set (spf_inputs pf). witness_wf w" and sub: "spend_hashes (sv_sha V) (sd_statement sp) pf \<subseteq> Q"
  defines "f \<equiv> nullifier_of (sv_sha V) (leaves_of (sl_margin l)) os" and "g \<equiv> \<lambda>w. mk_leaf_index (iw_merkle_proof w)"
  shows "distinct (map g (spf_inputs pf))"
    and "w \<in> set (spf_inputs pf) \<Longrightarrow> g w < length os \<and> os ! g w = iw_opening w \<and>
      f (g w) \<notin> set (sg_spent (sl_margin l)) \<and> f (g w) \<in> set (sg_spent (sl_margin l'))"
proof -
  let ?st = "sd_statement sp" and ?ws = "spf_inputs pf"
  obtain p g' rc where a: "apply_spend (sv_sha V) (verify_transparent V) sp p (sl_margin l) = Ok (rc, g')"
    and l': "sl_margin l' = g'"
    using ledger_spend_Ok [OF sp] by (metis (no_types) sp_verify_transparent shielded_ledger.select_convs(7) shielded_ledger.surjective shielded_ledger.update_convs(7,8,9))
  have "margin_ok (sv_sha V) (sl_margin l)" using ok by (simp add: run_ok_def)
  note s = apply_spend_Ok [OF a this]
  have n: "length ?ws = length (st_nullifiers ?st)"
    using s(6) dec by (elim verify_transparent_Ok) (metis res.inject(1))
  have leaf: "g (?ws ! k) < length os \<and> os ! g (?ws ! k) = iw_opening (?ws ! k) \<and> f (g (?ws ! k)) = st_nullifiers ?st ! k"
    if "k < length ?ws" for k
    using accepted_input [OF len inj ok s(6) s(5) dec wf sub] that n by (simp add: f_def g_def)
  then have "map f (map g ?ws) = st_nullifiers ?st" using n by (rule_tac nth_equalityI) auto
  moreover have "distinct (st_nullifiers ?st)" using validate_public_Ok [OF s(7)] by simp
  ultimately show "distinct (map g ?ws)" by (metis distinct_map)
  show "g w < length os \<and> os ! g w = iw_opening w \<and> f (g w) \<notin> set (sg_spent (sl_margin l)) \<and>
      f (g w) \<in> set (sg_spent (sl_margin l'))" if "w \<in> set ?ws"
  proof -
    from that obtain k where k: "k < length ?ws" "w = ?ws ! k" by (auto simp: in_set_conv_nth)
    with n have "st_nullifiers ?st ! k \<in> set (st_nullifiers ?st)" by simp
    with leaf [OF k(1)] s(3,4) l' k(2) show ?thesis by auto
  qed
qed

lemma run_ok_spend:
  assumes len: "\<And>b. length (sv_sha V b) = 32" and inj: "inj_on (sv_sha V) Q" and ok: "run_ok V Q l os d"
    and sp: "ledger_spend V sp (transparent_spend_verifier V) l = Ok (r, l')"
    and dec: "decode_spend_proof V (sd_proof sp) = Ok pf" and st: "st = sd_statement sp"
    and wf: "length (st_market_id st) = 32" "length (st_collateral_asset st) = 32"
      "\<forall>w \<in> set (spf_inputs pf). witness_wf w" "\<forall>o' \<in> set (spf_output_openings pf). opening_wf o'"
    and sub: "spend_hashes (sv_sha V) st pf \<subseteq> Q" "note_hashes (sv_sha V) (leaves_of (sl_margin l')) \<subseteq> Q"
  shows "run_ok V Q l' (os @ spf_output_openings pf) d"
proof -
  let ?H = "sv_sha V" and ?g = "sl_margin l" and ?ws = "spf_inputs pf" and ?xs = "st_nullifiers st"
  let ?J = "map (\<lambda>w. mk_leaf_index (iw_merkle_proof w)) ?ws"
  obtain p g rc where a: "apply_spend ?H (verify_transparent V) sp p ?g = Ok (rc, g)"
    and fee: "st_fee st \<le> sl_collateral l"
    and l': "l' = l\<lparr>sl_margin := g, sl_collateral := sl_collateral l - st_fee st, sl_fee_total := sl_fee_total l + st_fee st\<rparr>"
    using ledger_spend_Ok [OF sp] by (metis sp_verify_transparent st)
  have mok: "margin_ok ?H ?g" using ok by (simp add: run_ok_def)
  note s = apply_spend_Ok [OF a mok, folded st]
  from s(6) dec obtain lens: "length ?ws = length ?xs" "length (spf_output_openings pf) = length (st_output_commitments st)"
    and bal: "(\<Sum>w\<leftarrow>?ws. op_collateral (iw_opening w)) = (\<Sum>o'\<leftarrow>spf_output_openings pf. op_collateral o') + st_fee st"
    and outs: "\<And>o' c. (o', c) \<in> set (zip (spf_output_openings pf) (st_output_commitments st)) \<Longrightarrow>
      commitment ?H (st_market_id st) (st_collateral_asset st) o' = c"
    by (elim verify_transparent_Ok) (metis st res.inject(1))
  note once = spent_inputs [OF len inj ok sp dec wf(3) sub(1) [unfolded st]]
  have "(\<Sum>j \<in> set ?J. op_collateral (os ! j)) = (\<Sum>j\<leftarrow>?J. op_collateral (os ! j))"
    using once(1) by (rule sum.distinct_set_conv_list)
  also have "\<dots> = (\<Sum>w\<leftarrow>?ws. op_collateral (iw_opening w))"
    using once(2) by (auto intro!: arg_cong [of _ _ sum_list])
  finally have "(\<Sum>j \<in> set ?J. op_collateral (os ! j)) = (\<Sum>w\<leftarrow>?ws. op_collateral (iw_opening w))" .
  moreover have "unspent_value ?H g (os @ spf_output_openings pf) + (\<Sum>j \<in> set ?J. op_collateral (os ! j)) \<le>
      unspent_value ?H ?g os + (\<Sum>o'\<leftarrow>spf_output_openings pf. op_collateral o')"
    using s(2,3) ok once(2) l'
    by (intro unspent_value_append [where ms = "map (output_note st) (st_output_commitments st)"])
      (auto simp: run_ok_def opened_nth)
  ultimately have "unspent_value ?H g (os @ spf_output_openings pf) + st_fee st \<le> unspent_value ?H ?g os"
    using bal by linarith
  moreover have "opened ?H Q (map (output_note st) (st_output_commitments st)) (spf_output_openings pf)"
    using validate_public_Ok [OF s(7)] wf sub(1) lens outs len
    by (intro opened_outputs) (auto simp: spend_hashes_def)
  ultimately show ?thesis
    using ok s(1,2) sub(2) fee by (auto simp: run_ok_def l' opened_append)
qed

lemma run_ok_start:
  "new_ledger V domain ledger_id authority Development = Ok l \<Longrightarrow> note_hashes (sv_sha V) [] \<subseteq> Q \<Longrightarrow> run_ok V Q l [] 0"
  using margin_ok_new [of "sv_sha V"]
  by (auto simp: new_ledger_def run_ok_def opened_def unspent_value_def new_margin_state_def empty_tree_def split: if_splits)

lemma run_ok_register: "run_ok V Q l os d \<Longrightarrow> register_market V p l = Ok l' \<Longrightarrow> run_ok V Q l' os d"
  by (auto simp: register_market_def run_ok_def split: if_splits)

lemma ledger_run_ok:
  assumes "\<And>b. length (sv_sha V b) = 32" and "inj_on (sv_sha V) Q" and "ledger_run V Q l os d"
  shows "run_ok V Q l os d"
  using assms(3)
proof induction
  case (start domain ledger_id authority l)
  then show ?case by (rule run_ok_start)
next
  case (register l os d p l')
  then show ?case by (blast intro: run_ok_register)
next
  case (deposit l os d ad r l' o' n)
  then show ?case by (intro run_ok_deposit)
next
  case (spend l os d sp r l' pf st)
  then show ?case by (intro run_ok_spend [OF assms(1,2)])
qed

end
