(* ===== verification/Shielded_Persist.thy ===== *)
theory Shielded_Persist
  imports Shielded_Value "HOL-Library.Sublist"
begin

text \<open>
  Persistence of the shielded ledger: what \<open>persistence_parts\<close> writes, \<open>rebuild_from_persistence\<close> reads
  back as the same ledger. The invariant says that the tree is built by appending its notes in order,
  that the accepted roots are a subsequence of the roots of the prefixes, and that every note belongs
  to a registered market.
\<close>

section \<open>The tree is built from its notes\<close>

definition append_note :: "digest \<Rightarrow> public_note \<Rightarrow> note_tree \<Rightarrow> note_tree sm" where
  "append_note H n t = bindr (tree_append H n t) (\<lambda>(i, t). Ok t)"

definition built :: "digest \<Rightarrow> note_tree \<Rightarrow> bool" where
  "built H t \<longleftrightarrow> foldr_res (append_note H) (tr_leaves t) (empty_tree H) = Ok t"

lemma built_append: "built H t \<Longrightarrow> tree_ok H t \<Longrightarrow> tree_append H n t = Ok (i, t') \<Longrightarrow> built H t'"
  using tree_append_Ok [of H n t i t'] by (auto simp: built_def foldr_res_append append_note_def)

lemma built_outputs:
  assumes "append_outputs H st t = Ok (is, t')" and "tree_ok H t" and "built H t"
  shows "built H t'"
proof -
  have "tree_ok H t' \<and> built H t'"
    by (rule foldr_res_invariant [OF assms(1) [unfolded append_outputs_def], where P = "\<lambda>(js, t). tree_ok H t \<and> built H t", simplified])
      (use assms(2,3) in \<open>auto intro: built_append tree_append_Ok(1)\<close>)
  then show ?thesis ..
qed

lemma append_notes_ok:
  "foldr_res (append_note H) ns t = Ok t' \<Longrightarrow> tree_ok H t \<Longrightarrow> tree_ok H t' \<and> tr_leaves t' = tr_leaves t @ ns"
proof (induction ns arbitrary: t)
  case (Cons n ns)
  then obtain u where u: "append_note H n t = Ok u" and f: "foldr_res (append_note H) ns u = Ok t'" by auto
  from u obtain i where a: "tree_append H n t = Ok (i, u)" by (auto simp: append_note_def)
  from Cons.IH [OF f] tree_append_Ok [OF a Cons.prems(2)] show ?case by simp
qed simp

text \<open>The roots of the prefixes, and the loader that collects them.\<close>

definition prefix_roots :: "digest \<Rightarrow> public_note list \<Rightarrow> bytes list" where
  "prefix_roots H ns = map (\<lambda>c. merkle_root H (take c ns)) [0..<Suc (length ns)]"

lemma prefix_roots_snoc: "prefix_roots H (ns @ [n]) = prefix_roots H ns @ [merkle_root H (ns @ [n])]"
  by (auto simp: prefix_roots_def)

lemma prefix_roots_append: "\<exists>rs. prefix_roots H (ns @ ms) = prefix_roots H ns @ rs"
proof (induction ms rule: rev_induct)
  case (snoc m ms)
  then show ?case using prefix_roots_snoc [of H "ns @ ms" m] by auto
qed simp

lemma last_prefix_roots: "last (prefix_roots H ns) = merkle_root H ns"
  by (simp add: prefix_roots_def)

lemma load_notes:
  assumes "foldr_res (append_note H) ns t = Ok t'" and "tree_ok H t"
  shows "foldr_res (load_note H) (zip [length (tr_leaves t)..<length (tr_leaves t) + length ns] ns) (t, prefix_roots H (tr_leaves t)) =
    Ok (t', prefix_roots H (tr_leaves t'))"
  using assms
proof (induction ns arbitrary: t)
  case (Cons n ns)
  then obtain u where "append_note H n t = Ok u" and f: "foldr_res (append_note H) ns u = Ok t'" by auto
  then obtain i where a: "tree_append H n t = Ok (i, u)" by (auto simp: append_note_def)
  note u = tree_append_Ok [OF a Cons.prems(2)]
  have "tr_cached_root u = merkle_root H (tr_leaves t @ [n])"
    using u(1,3) by (simp add: tree_ok_def merkle_root_subtree)
  with Cons.IH [OF f u(1)] u(3) show ?case
    by (simp add: upt_conv_Cons load_note_def a prefix_roots_snoc del: upt_Suc)
qed simp

section \<open>The accepted roots\<close>

lemma ordered_prefix_roots_subseq: "ordered_prefix_roots as rs \<longleftrightarrow> subseq as rs"
  by (induction as rs rule: ordered_prefix_roots.induct) auto

definition roots_ok :: "digest \<Rightarrow> margin_state \<Rightarrow> bool" where
  "roots_ok H g \<longleftrightarrow> subseq (sg_accepted_roots g) (prefix_roots H (leaves_of g)) \<and> sg_accepted_roots g \<noteq> [] \<and>
     last (sg_accepted_roots g) = margin_root g \<and> length (sg_accepted_roots g) \<le> sg_root_history_limit g"

lemma roots_ok_remember:
  assumes "roots_ok H g" and "tree_ok H t" and "tr_leaves t = leaves_of g @ ms" and "ms \<noteq> []"
  shows "roots_ok H (remember_current_root (g\<lparr>sg_tree := t, sg_spent := spent\<rparr>))"
proof -
  let ?as = "sg_accepted_roots g" and ?r = "tr_cached_root t" and ?n = "sg_root_history_limit g"
  have r: "?r = merkle_root H (tr_leaves t)" using assms(2) by (simp add: tree_ok_def merkle_root_subtree)
  have "tr_leaves t = (leaves_of g @ butlast ms) @ [last ms]" using assms(3,4) by simp
  with prefix_roots_append [of H "leaves_of g" "butlast ms"] obtain rs where
    rs: "prefix_roots H (tr_leaves t) = prefix_roots H (leaves_of g) @ rs @ [?r]"
    by (metis append_assoc prefix_roots_snoc r)
  have sub: "subseq ?as (prefix_roots H (leaves_of g))" and ne: "?as \<noteq> []" and lim: "length ?as \<le> ?n"
    using assms(1) by (simp_all add: roots_ok_def)
  have "subseq ?as (prefix_roots H (tr_leaves t))"
    unfolding rs using sub by (rule list_emb_prefix)
  moreover have "subseq (?as @ [?r]) (prefix_roots H (tr_leaves t))"
    unfolding rs append_assoc [symmetric] using sub by (intro list_emb_append_mono) auto
  moreover have "subseq (drop k xs) ys" if "subseq xs ys" for k and xs ys :: "bytes list"
    using that list_emb_appendD [of "(=)" "take k xs" "drop k xs" ys] by (auto intro: subseq_drop_many)
  moreover have "0 < ?n" using ne lim by (cases ?as) auto
  ultimately show ?thesis
    using ne lim by (auto simp: roots_ok_def remember_current_root_def Let_def margin_root_def last_drop)
qed

section \<open>The invariant of the ledger\<close>

definition policies_ok :: "(bytes, margin_policy) omap \<Rightarrow> public_note list \<Rightarrow> bool" where
  "policies_ok ps ns \<longleftrightarrow> om_ok ps \<and> (\<forall>k p. om_get ps k = Some p \<longrightarrow> k = mp_market_id p \<and> validate_policy p = Ok ()) \<and>
     (\<forall>n \<in> set ns. \<exists>p. om_get ps (nt_market_id n) = Some p \<and> mp_collateral_asset p = nt_collateral_asset n)"

definition stored_ok :: "shielded_env \<Rightarrow> shielded_ledger \<Rightarrow> bool" where
  "stored_ok V l \<longleftrightarrow> tree_ok (sv_sha V) (sg_tree (sl_margin l)) \<and> built (sv_sha V) (sg_tree (sl_margin l)) \<and>
     roots_ok (sv_sha V) (sl_margin l) \<and> zero32 \<notin> set (sg_spent (sl_margin l)) \<and> validate_header V l = Ok () \<and>
     sl_mode l = Development \<and> policies_ok (sl_policies l) (leaves_of (sl_margin l))"

lemma validate_header_Ok:
  "validate_header V l = Ok () \<longleftrightarrow> sl_version l = SHIELDED_PROTOCOL_VERSION \<and> sl_chain_domain l \<noteq> zero32 \<and>
     sl_ledger_id l \<noteq> zero32 \<and> sv_key_parses V (sl_deposit_authority l)"
  by (auto simp: validate_header_def)

lemma stored_ok_start:
  "new_ledger V domain ledger_id authority Development = Ok l \<Longrightarrow> stored_ok V l"
  using tree_ok_empty [of "sv_sha V"]
  by (auto simp: new_ledger_def stored_ok_def new_margin_state_def built_def empty_tree_def roots_ok_def prefix_roots_def
      merkle_root_def margin_root_def policies_ok_def validate_header_Ok DEFAULT_ROOT_HISTORY_def split: if_splits)

lemma stored_ok_register:
  assumes ok: "stored_ok V l" and reg: "register_market V p l = Ok l'"
  shows "stored_ok V l'"
proof -
  let ?ps = "sl_policies l"
  have p: "validate_policy p = Ok ()" "om_get ?ps (mp_market_id p) = None"
    and l': "l' = l\<lparr>sl_policies := om_insert (mp_market_id p) p ?ps\<rparr>"
    using reg by (auto simp: register_market_def lift_margin_def split: if_splits)
  have "policies_ok (om_insert (mp_market_id p) p ?ps) (leaves_of (sl_margin l))"
    using ok p unfolding stored_ok_def policies_ok_def
    by auto
  with ok show ?thesis by (simp add: stored_ok_def l' validate_header_Ok)
qed

lemma stored_ok_deposit:
  assumes ok: "stored_ok V l" and dep: "ledger_deposit V ad (transparent_deposit_verifier V) l = Ok (r, l')"
  shows "stored_ok V l'"
proof -
  let ?H = "sv_sha V" and ?n = "dp_note (ad_statement ad)"
  obtain g i where a: "append_deposit_commitment ?H ?n (sl_margin l) = Ok (i, g)"
    and l': "l' = l\<lparr>sl_margin := g, sl_collateral := sl_collateral l + dp_backing_amount (ad_statement ad)\<rparr>"
    using ledger_deposit_Ok [OF dep] by metis
  from a obtain t where t: "tree_append ?H ?n (sg_tree (sl_margin l)) = Ok (i, t)"
    and g: "g = remember_current_root ((sl_margin l)\<lparr>sg_tree := t, sg_spent := sg_spent (sl_margin l)\<rparr>)"
    by (auto simp: append_deposit_commitment_def split: if_splits)
  note u = tree_append_Ok [OF t] and b = built_append [OF _ _ t]
  have "\<exists>p. om_get (sl_policies l) (nt_market_id ?n) = Some p \<and> mp_collateral_asset p = nt_collateral_asset ?n"
    using dep by (auto simp: ledger_deposit_def admit_deposit_def Let_def split: if_splits)
  moreover have "roots_ok ?H g" unfolding g using ok u by (intro roots_ok_remember [where ms = "[?n]"]) (auto simp: stored_ok_def)
  ultimately show ?thesis
    using ok u b by (auto simp: stored_ok_def l' g policies_ok_def validate_header_Ok)
qed

lemma stored_ok_spend:
  assumes ok: "stored_ok V l" and sp: "ledger_spend V sp (transparent_spend_verifier V) l = Ok (r, l')"
  shows "stored_ok V l'"
proof -
  let ?H = "sv_sha V" and ?st = "sd_statement sp" and ?g = "sl_margin l"
  obtain p g rc where a: "apply_spend ?H (verify_transparent V) sp p ?g = Ok (rc, g)"
    and p: "om_get (sl_policies l) (st_market_id ?st) = Some p"
    and l': "l' = l\<lparr>sl_margin := g, sl_collateral := sl_collateral l - st_fee ?st, sl_fee_total := sl_fee_total l + st_fee ?st\<rparr>"
    using ledger_spend_Ok [OF sp] by (metis sp_verify_transparent)
  from a obtain "is" t where o: "append_outputs ?H ?st (sg_tree ?g) = Ok (is, t)"
    and g: "g = remember_current_root (?g\<lparr>sg_tree := t, sg_spent := bset (st_nullifiers ?st @ sg_spent ?g)\<rparr>)"
    and v: "validate_public ?H ?st p = Ok ()"
    by (auto simp: apply_spend_def admit_spend_def Let_def)
  have t: "tree_ok ?H t" "tr_leaves t = leaves_of ?g @ map (output_note ?st) (st_output_commitments ?st)"
    using append_outputs_Ok [OF o] ok by (auto simp: stored_ok_def)
  have b: "built ?H t" using built_outputs [OF o] ok by (simp add: stored_ok_def)
  have ne: "st_output_commitments ?st \<noteq> []" and z: "zero32 \<notin> set (st_nullifiers ?st)" using validate_public_Ok [OF v] by auto
  have asset: "mp_collateral_asset p = st_collateral_asset ?st" using v by (auto simp: validate_public_def split: if_splits)
  have "roots_ok ?H g"
    unfolding g using ok t ne by (intro roots_ok_remember [where ms = "map (output_note ?st) (st_output_commitments ?st)"])
      (auto simp: stored_ok_def)
  then show ?thesis
    using ok t b z p asset
    by (auto simp: stored_ok_def l' g policies_ok_def validate_header_Ok output_note_def)
qed

lemma ledger_run_stored: "ledger_run V Q l os d \<Longrightarrow> stored_ok V l"
  by (induction rule: ledger_run.induct)
    (blast intro: stored_ok_start stored_ok_register stored_ok_deposit stored_ok_spend)+

text \<open>Every spent nullifier is the nullifier of a note, so there are no more of them than notes.\<close>

lemma notes_grow:
  "A \<subseteq> nullifier_of H ns os ` {..<length os} \<Longrightarrow> length ns = length os \<Longrightarrow>
     A \<subseteq> nullifier_of H (ns @ ms) (os @ ps) ` {..<length (os @ ps)}"
  by (auto simp: image_iff nullifier_of_append dest!: subsetD) (metis lessThan_iff nullifier_of_append trans_less_add1)

lemma spent_are_notes:
  assumes len: "\<And>b. length (sv_sha V b) = 32" and inj: "inj_on (sv_sha V) Q" and "ledger_run V Q l os d"
  shows "set (sg_spent (sl_margin l)) \<subseteq> nullifier_of (sv_sha V) (leaves_of (sl_margin l)) os ` {..<length os}"
  using assms(3)
proof induction
  case (start domain ledger_id authority l)
  then show ?case by (auto simp: new_ledger_def new_margin_state_def split: if_splits)
next
  case (register l os d p l')
  then show ?case by (auto simp: register_market_def split: if_splits)
next
  case (deposit l os d ad r l' o' n)
  have ok: "run_ok V Q l os d" using ledger_run_ok [OF len inj deposit.hyps(1)] .
  obtain g i where a: "append_deposit_commitment (sv_sha V) (dp_note (ad_statement ad)) (sl_margin l) = Ok (i, g)"
    and l': "sl_margin l' = g"
    using ledger_deposit_Ok [OF deposit.hyps(2)] by (metis (no_types) shielded_ledger.select_convs(7) shielded_ledger.surjective shielded_ledger.update_convs(7,8))
  have "leaves_of g = leaves_of (sl_margin l) @ [n]" "sg_spent g = sg_spent (sl_margin l)"
    using append_deposit_Ok [OF a] ok deposit.hyps(4) by (auto simp: run_ok_def)
  with deposit.IH ok notes_grow [of "set (sg_spent (sl_margin l))" "sv_sha V" "leaves_of (sl_margin l)" os "[n]" "[o']"]
  show ?case by (simp add: l' run_ok_def opened_nth)
next
  case (spend l os d sp r l' pf st)
  have ok: "run_ok V Q l os d" using ledger_run_ok [OF len inj spend.hyps(1)] .
  obtain p g rc where a: "apply_spend (sv_sha V) (verify_transparent V) sp p (sl_margin l) = Ok (rc, g)"
    and l': "sl_margin l' = g"
    using ledger_spend_Ok [OF spend.hyps(2)] by (metis (no_types) sp_verify_transparent shielded_ledger.select_convs(7) shielded_ledger.surjective shielded_ledger.update_convs(7,8,9))
  have mok: "margin_ok (sv_sha V) (sl_margin l)" using ok by (simp add: run_ok_def)
  note s = apply_spend_Ok [OF a mok, folded spend.hyps(4)]
  have "st_nullifiers st ! k \<in> nullifier_of (sv_sha V) (leaves_of (sl_margin l)) os ` {..<length os}"
    if "k < length (st_nullifiers st)" for k
    using accepted_input [OF len inj ok s(6) s(5) spend.hyps(3) spend.hyps(7) spend.hyps(9) that] by (metis image_iff lessThan_iff)
  then have "set (st_nullifiers st) \<subseteq> nullifier_of (sv_sha V) (leaves_of (sl_margin l)) os ` {..<length os}"
    by (auto simp: in_set_conv_nth)
  then have "set (sg_spent g) \<subseteq> nullifier_of (sv_sha V) (leaves_of (sl_margin l)) os ` {..<length os}"
    using s(3) spend.IH by simp
  from notes_grow [OF this, of "map (output_note st) (st_output_commitments st)" "spf_output_openings pf"] ok
  show ?case by (simp add: l' s(2) run_ok_def opened_nth)
qed

lemma spent_at_most_notes:
  assumes "\<And>b. length (sv_sha V b) = 32" and "inj_on (sv_sha V) Q" and run: "ledger_run V Q l os d"
  shows "card (set (sg_spent (sl_margin l))) \<le> length (leaves_of (sl_margin l))"
proof -
  have "card (set (sg_spent (sl_margin l))) \<le> card {..<length os}"
    using spent_are_notes [OF assms] by (rule surj_card_le [rotated]) simp
  then show ?thesis using ledger_run_ok [OF assms] by (simp add: run_ok_def opened_nth)
qed

section \<open>Rebuilding\<close>

lemma traverse_units: "(\<And>x. x \<in> set xs \<Longrightarrow> f x = Ok ()) \<Longrightarrow> \<exists>us. traverse f xs = Ok us"
  by (induction xs) auto

lemma stored_rebuilds:
  assumes ok: "stored_ok V l" and n: "card (set (sg_spent (sl_margin l))) \<le> length (leaves_of (sl_margin l))"
    and parts: "ledger_parts V l = Ok (h, ns, spent)"
  shows "rebuild_ledger V h (zip [0..<length ns] ns) spent = Ok l"
proof -
  let ?H = "sv_sha V" and ?g = "sl_margin l"
  let ?t = "sg_tree ?g"
  from parts obtain total where total: "checked_add u128_max (sl_collateral l) (sl_fee_total l) = Some total"
    and ns: "ns = tr_leaves ?t" and spent: "spent = sg_spent ?g"
    and h: "h = \<lparr>lh_version = sl_version l, lh_chain_domain = sl_chain_domain l, lh_ledger_id = sl_ledger_id l,
          lh_deposit_authority = sl_deposit_authority l, lh_policies = sl_policies l, lh_margin = margin_header_of ?g,
          lh_collateral = sl_collateral l, lh_fee_total = sl_fee_total l, lh_total_backing = total\<rparr>"
    by (auto simp: ledger_parts_def margin_parts_def Let_def)
  have roots: "roots_ok ?H ?g" and z: "zero32 \<notin> set (sg_spent ?g)" using ok by (simp_all add: stored_ok_def)
  have "foldr_res (append_note ?H) ns (empty_tree ?H) = Ok ?t" using ok ns by (simp add: stored_ok_def built_def)
  from load_notes [OF this tree_ok_empty]
  have load: "foldr_res (load_note ?H) (zip [0..<length ns] ns) (empty_tree ?H, [tr_cached_root (empty_tree ?H)]) =
      Ok (?t, prefix_roots ?H (leaves_of ?g))"
    by (simp add: empty_tree_def prefix_roots_def merkle_root_subtree subtree_empty)
  have limit: "0 < sg_root_history_limit ?g" using roots by (cases "sg_accepted_roots ?g") (auto simp: roots_ok_def)
  have "rebuild_margin ?H (margin_header_of ?g) (zip [0..<length ns] ns) spent = Ok ?g"
    using roots n z limit unfolding rebuild_margin_def load
    by (auto simp: check_margin_header_def margin_header_of_def spent roots_ok_def margin_root_def ordered_prefix_roots_subseq)
  moreover have "\<exists>us. traverse check_stored_policy (om_entries (sl_policies l)) = Ok us"
    using ok by (intro traverse_units) (auto simp: stored_ok_def policies_ok_def check_stored_policy_def lift_margin_def om_entries_def om_in_set_get)
  moreover have "\<exists>us. traverse (check_stored_note (sl_policies l)) (tr_leaves ?t) = Ok us"
    using ok by (intro traverse_units) (auto simp: stored_ok_def policies_ok_def check_stored_note_def)
  ultimately show ?thesis
    using ok total
    by (cases l) (auto simp: rebuild_ledger_def h lift_margin_def stored_ok_def validate_header_Ok Let_def)
qed

end
