(* ===== verification/Shielded_Example.thy ===== *)
theory Shielded_Example
  imports Shielded_Persist "HOL-Library.Code_Target_Nat" "HOL-Library.More_List"
begin

text \<open>
  A run of the shielded ledger that the witnesses evaluate: a market, a deposit of 100 into one note,
  and a spend of that note into a note of 99 with a fee of 1. The hash is a weighted sum of a few
  bytes, which has no collision among the strings that the run hashes.
\<close>

section \<open>The strings hashed for small trees\<close>

definition zero_inputs :: "digest \<Rightarrow> bytes set" where
  "zero_inputs H = insert empty_input ((\<lambda>h. let z = merkle_zero_hash H h in node_input z z) ` set [0..<MERKLE_DEPTH])"

definition zero_path :: "digest \<Rightarrow> nat \<Rightarrow> bytes list" where
  "zero_path H k = map (merkle_zero_hash H) [k..<MERKLE_DEPTH]"

lemma subtree_input_empty: "length ns \<le> i * 2 ^ h \<Longrightarrow> h \<le> MERKLE_DEPTH \<Longrightarrow> subtree_input H ns h i \<in> zero_inputs H"
proof (cases h)
  case (Suc k)
  assume "length ns \<le> i * 2 ^ h" and "h \<le> MERKLE_DEPTH"
  then have "subtree H ns k (2 * i) = merkle_zero_hash H k" "subtree H ns k (2 * i + 1) = merkle_zero_hash H k" "k < MERKLE_DEPTH"
    using Suc by (auto intro!: subtree_empty simp: algebra_simps)
  then show ?thesis by (auto simp: Suc zero_inputs_def Let_def)
qed (simp add: zero_inputs_def)

lemma left_path_inputs:
  "length ns \<le> 2 ^ k \<Longrightarrow> k \<le> h \<Longrightarrow> h \<le> k + m \<Longrightarrow>
     subtree_input H ns h 0 \<in> insert (subtree_input H ns k 0) (climb_inputs H (subtree H ns k 0) 0 (map (merkle_zero_hash H) [k..<k + m]))"
proof (induction m arbitrary: k)
  case (Suc m)
  have z: "subtree H ns k 1 = merkle_zero_hash H k" using Suc.prems(1) by (intro subtree_empty) simp
  have "length ns \<le> 2 ^ Suc k" using Suc.prems(1) by simp
  from Suc.IH [OF this] Suc.prems(2,3) z show ?case
    by (cases "h = k") (auto simp: upt_conv_Cons Let_def hash_inputs simp del: upt_Suc)
qed simp

lemma left_path_root:
  "length ns \<le> 2 ^ k \<Longrightarrow> climb H (subtree H ns k 0) 0 (map (merkle_zero_hash H) [k..<k + m]) = subtree H ns (k + m) 0"
proof (induction m arbitrary: k)
  case (Suc m)
  have z: "subtree H ns k 1 = merkle_zero_hash H k" using Suc.prems(1) by (intro subtree_empty) simp
  have "length ns \<le> 2 ^ Suc k" using Suc.prems by simp
  from Suc.IH [OF this] z show ?case by (simp add: upt_conv_Cons del: upt_Suc)
qed simp

lemma block_start: "0 < i \<Longrightarrow> 2 ^ h \<le> i * (2 ^ h :: nat)" by simp

lemma tree_inputs_0: "tree_inputs H [] \<subseteq> zero_inputs H"
  by (auto simp: tree_inputs_def intro: subtree_input_empty)

definition one_inputs :: "digest \<Rightarrow> public_note \<Rightarrow> bytes set" where
  "one_inputs H n = insert (leaf_input n) (climb_inputs H (merkle_leaf_hash H n) 0 (zero_path H 0))"

lemma tree_inputs_1: "tree_inputs H [n] \<subseteq> zero_inputs H \<union> one_inputs H n"
proof
  fix x assume "x \<in> tree_inputs H [n]"
  then obtain h i where x: "x = subtree_input H [n] h i" "h \<le> MERKLE_DEPTH" by (auto simp: tree_inputs_def)
  then show "x \<in> zero_inputs H \<union> one_inputs H n"
    using left_path_inputs [of "[n]" 0 h MERKLE_DEPTH H] subtree_input_empty [of "[n]" i h H]
    by (cases "i = 0") (auto simp: one_inputs_def zero_path_def Suc_le_eq)
qed

definition two_inputs :: "digest \<Rightarrow> public_note \<Rightarrow> public_note \<Rightarrow> bytes set" where
  "two_inputs H n m = {leaf_input n, leaf_input m} \<union> (let x = node_input (merkle_leaf_hash H n) (merkle_leaf_hash H m) in
     insert x (climb_inputs H (H x) 0 (zero_path H 1)))"

lemma tree_inputs_2: "tree_inputs H [n, m] \<subseteq> zero_inputs H \<union> two_inputs H n m"
proof
  fix x assume "x \<in> tree_inputs H [n, m]"
  then obtain h i where x: "x = subtree_input H [n, m] h i" "h \<le> MERKLE_DEPTH" by (auto simp: tree_inputs_def)
  consider "i = 0" "h = 0" | "i = 1" "h = 0" | "i = 0" "1 \<le> h" | "length [n, m] \<le> i * 2 ^ h"
    using le_trans [OF self_le_power [of "2::nat" h] block_start [of i h]] by (cases "h = 0"; cases "i = 0"; cases "i = 1") auto
  then show "x \<in> zero_inputs H \<union> two_inputs H n m"
  proof cases
    case 3
    then show ?thesis using left_path_inputs [of "[n, m]" 1 h 31 H] x
      by (auto simp: two_inputs_def zero_path_def MERKLE_DEPTH_def Let_def hash_inputs)
  next
    case 4
    then show ?thesis using x subtree_input_empty [of "[n, m]" i h H] by simp
  qed (use x in \<open>auto simp: two_inputs_def\<close>)
qed

section \<open>The run\<close>

definition enc :: "nat \<Rightarrow> bytes" where
  "enc k = replicate 30 0 @ be_bytes 2 k"

definition w_hash :: digest where
  "w_hash b = enc ((37 * (rev b ! 0 + 256 * rev b ! 1) + 101 * (if length b < 42 then 0 else rev b ! 40 + 256 * rev b ! 41)
     + 7 * length b + 5) mod 65521)"

lemma length_enc [simp]: "length (enc k) = 32"
  by (simp add: enc_def)

lemma length_w_hash: "length (w_hash b) = 32"
  by (simp add: w_hash_def)

lemma enc_inject: "a < 65536 \<Longrightarrow> b < 65536 \<Longrightarrow> enc a = enc b \<longleftrightarrow> a = b"
  using be_bytes_inject [of a 2 b] by (simp add: enc_def)

lemma be_bytes_2: "be_bytes 2 k = [k div 256 mod 256, k mod 256]"
  by (simp add: numeral_2_eq_2)

lemma rev_enc: "k < 65536 \<Longrightarrow> rev (enc k) = k mod 256 # k div 256 # replicate 30 0"
  by (simp add: enc_def be_bytes_2)

text \<open>On nodes the hash is arithmetic on the encoded numbers.\<close>

definition step :: "nat \<Rightarrow> nat \<Rightarrow> nat" where
  "step a b = (789 + (37 * b + 101 * a)) mod 65521"

lemma w_hash_node: "a < 65536 \<Longrightarrow> b < 65536 \<Longrightarrow> w_hash (node_input (enc a) (enc b)) = enc (step a b)"
  by (simp add: w_hash_def node_input_def framed_def rev_enc step_def domain_tag_def nth_append nth_Cons')

definition w_market :: bytes where "w_market = replicate 32 5"
definition w_asset :: bytes where "w_asset = replicate 32 6"

definition w_opening :: "nat \<Rightarrow> nat \<Rightarrow> note_opening" where
  "w_opening collateral blinding = \<lparr>op_owner = replicate 32 1, op_nullifier_key = replicate 32 2, op_collateral = collateral,
     op_position = 0, op_leverage = 1, op_blinding = replicate 32 blinding\<rparr>"

definition w_note :: "note_opening \<Rightarrow> public_note" where
  "w_note o' = new_note w_hash w_market w_asset o'"

definition w_policy :: margin_policy where
  "w_policy = \<lparr>mp_version = 3, mp_market_id = w_market, mp_collateral_asset = w_asset, mp_mark_price = 10,
     mp_price_scale = 1, mp_minimum_initial_margin_bps = 100, mp_maximum_leverage = 10, mp_minimum_fee = 1\<rparr>"

definition w_in :: note_opening where "w_in = w_opening 100 3"
definition w_out :: note_opening where "w_out = w_opening 99 4"

definition w_witness :: input_witness where
  "w_witness = \<lparr>iw_note = w_note w_in, iw_opening = w_in,
     iw_merkle_proof = \<lparr>mk_leaf_index = 0, mk_siblings = zero_path w_hash 0\<rparr>, iw_signature = replicate 64 7\<rparr>"

definition w_proof :: spend_proof where
  "w_proof = \<lparr>spf_inputs = [w_witness], spf_output_openings = [w_out]\<rparr>"

definition w_env :: shielded_env where
  "w_env = \<lparr>sv_sha = w_hash, sv_spend_parse = (\<lambda>b. if b = [1] then Some w_proof else None), sv_spend_json = (\<lambda>p. Some [1]),
     sv_deposit_parse = (\<lambda>b. if b = [2] then Some w_in else None), sv_deposit_json = (\<lambda>o'. Some [2]),
     sv_key_parses = (\<lambda>k. True), sv_verify_strict = (\<lambda>k m s. True)\<rparr>"

definition w_deposit :: authority_deposit where
  "w_deposit = \<lparr>ad_statement = \<lparr>dp_version = 3, dp_chain_domain = replicate 32 8, dp_ledger_id = replicate 32 9,
     dp_note = w_note w_in, dp_backing_amount = 100\<rparr>, ad_signature = replicate 64 7, ad_proof = [2]\<rparr>"

definition ok_of :: "('e, 'a) res \<Rightarrow> 'a option" where
  "ok_of r = (case r of Ok x \<Rightarrow> Some x | _ \<Rightarrow> None)"

definition w_statement :: spend_statement where
  "w_statement = \<lparr>st_version = 3, st_chain_domain = replicate 32 8, st_ledger_id = replicate 32 9,
     st_anchor_root = climb w_hash (merkle_leaf_hash w_hash (w_note w_in)) 0 (zero_path w_hash 0),
     st_market_id = w_market, st_collateral_asset = w_asset,
     st_policy_hash = (case policy_hash w_hash w_policy of Ok h \<Rightarrow> h | _ \<Rightarrow> []),
     st_nullifiers = [derive_nullifier w_hash (w_note w_in) w_in 0],
     st_output_commitments = [nt_commitment (w_note w_out)], st_fee = 1\<rparr>"

definition w_spend :: shielded_spend where
  "w_spend = \<lparr>sd_statement = w_statement, sd_proof = [1]\<rparr>"

definition w_start :: "shielded_ledger sl" where
  "w_start = new_ledger w_env (replicate 32 8) (replicate 32 9) (replicate 32 10) Development"

definition w_registered :: "shielded_ledger sl" where
  "w_registered = bindr w_start (register_market w_env w_policy)"

definition w_deposited :: "shielded_ledger sl" where
  "w_deposited = bindr w_registered (\<lambda>l. bindr (ledger_deposit w_env w_deposit (transparent_deposit_verifier w_env) l) (\<lambda>(r, l). Ok l))"

definition w_spent :: "shielded_ledger sl" where
  "w_spent = bindr w_deposited (\<lambda>l. bindr (ledger_spend w_env w_spend (transparent_spend_verifier w_env) l) (\<lambda>(r, l). Ok l))"


section \<open>Evaluation\<close>

lemma w_values:
  "w_hash empty_input = enc 24661" "commitment w_hash w_market w_asset w_in = enc 30649"
  "commitment w_hash w_market w_asset w_out = enc 40158" "w_hash (leaf_input (w_note w_in)) = enc 45827"
  "w_hash (leaf_input (w_note w_out)) = enc 4534" "derive_nullifier w_hash (w_note w_in) w_in 0 = enc 20465"
  by code_simp+

text \<open>The fields of the example.\<close>

lemma w_fields [simp]:
  "sv_sha w_env = w_hash" "sv_key_parses w_env k" "sv_verify_strict w_env k m s" "sv_spend_parse w_env [Suc 0] = Some w_proof"
  "sv_spend_json w_env p = Some [Suc 0]" "nt_version (w_note x) = SHIELDED_MARGIN_VERSION" "nt_market_id (w_note x) = w_market"
  "nt_collateral_asset (w_note x) = w_asset" "nt_commitment (w_note x) = commitment w_hash w_market w_asset x"
  "op_owner (w_opening c b) = replicate 32 1" "op_nullifier_key (w_opening c b) = replicate 32 2" "op_collateral (w_opening c b) = c"
  "op_position (w_opening c b) = 0" "op_leverage (w_opening c b) = 1" "op_blinding (w_opening c b) = replicate 32 b"
  "st_version w_statement = SHIELDED_MARGIN_VERSION" "st_market_id w_statement = w_market" "st_collateral_asset w_statement = w_asset"
  "st_chain_domain w_statement = replicate 32 8" "st_ledger_id w_statement = replicate 32 9" "st_fee w_statement = 1"
  "st_anchor_root w_statement = climb w_hash (merkle_leaf_hash w_hash (w_note w_in)) 0 (zero_path w_hash 0)"
  "st_nullifiers w_statement = [derive_nullifier w_hash (w_note w_in) w_in 0]"
  "st_output_commitments w_statement = [commitment w_hash w_market w_asset w_out]"
  "length (zero_path H 0) = MERKLE_DEPTH" "iw_note w_witness = w_note w_in" "iw_opening w_witness = w_in"
  "mk_leaf_index (iw_merkle_proof w_witness) = 0" "mk_siblings (iw_merkle_proof w_witness) = zero_path w_hash 0"
  "iw_signature w_witness = replicate 64 7" "spf_inputs w_proof = [w_witness]" "spf_output_openings w_proof = [w_out]"
  by (simp_all add: w_env_def w_witness_def w_proof_def w_note_def new_note_def w_opening_def w_statement_def SHIELDED_MARGIN_VERSION_def zero_path_def)

lemma zero32_enc: "zero32 = enc 0"
  by (simp add: zero32_def enc_def be_bytes_2) (simp add: numeral_eq_Suc)

lemmas w_defs = w_env_def w_policy_def w_deposit_def w_statement_def w_spend_def w_proof_def w_note_def new_note_def
  w_start_def w_registered_def w_deposited_def w_spent_def

lemma w_ids: "w_market \<noteq> zero32" "w_asset \<noteq> zero32" "replicate 32 8 \<noteq> zero32" "replicate 32 9 \<noteq> zero32"
  by (simp_all add: w_market_def w_asset_def zero32_def)

lemma w_notes_ok: "validate_note (w_note w_in) = Ok ()" "validate_note (w_note w_out) = Ok ()"
  by (simp_all add: w_note_def new_note_def validate_note_def validate_version_def validate_ids_def w_ids [unfolded zero32_enc] w_values zero32_enc enc_inject)

lemma w_policy_ok: "validate_policy w_policy = Ok ()"
  by (simp add: w_policy_def validate_policy_def validate_version_def SHIELDED_MARGIN_VERSION_def validate_ids_def w_ids
      BASIS_POINTS_DENOMINATOR_def)

definition w_ledger :: "margin_state \<Rightarrow> nat \<Rightarrow> nat \<Rightarrow> shielded_ledger" where
  "w_ledger g collateral fees = \<lparr>sl_version = 3, sl_chain_domain = replicate 32 8, sl_ledger_id = replicate 32 9,
     sl_deposit_authority = replicate 32 10, sl_mode = Development, sl_policies = [(w_market, w_policy)],
     sl_margin = g, sl_collateral = collateral, sl_fee_total = fees\<rparr>"

lemma w_registered_value: "w_registered = Ok (w_ledger (new_margin_state w_hash) 0 0)"
  by (simp add: w_registered_def w_start_def new_ledger_def w_ids w_env_def register_market_def validate_header_Ok
      SHIELDED_PROTOCOL_VERSION_def w_policy_ok [unfolded w_policy_def, simplified] lift_margin_def w_ledger_def w_policy_def)

lemma w_tree:
  obtains t where "foldr_res (append_note w_hash) [w_note w_in, w_note w_out] (empty_tree w_hash) = Ok t"
proof -
  have "tr_leaves (empty_tree w_hash) = []" by (simp add: empty_tree_def)
  then obtain t where t: "tree_append w_hash (w_note w_in) (empty_tree w_hash) = Ok (0, t)" "tree_ok w_hash t" "tr_leaves t = [w_note w_in]"
    using w_notes_ok tree_append_succeeds [OF tree_ok_empty, of "w_note w_in" w_hash] by (auto simp: merkle_capacity_def)
  then obtain u where "tree_append w_hash (w_note w_out) t = Ok (1, u)"
    using w_notes_ok tree_append_succeeds [of w_hash t "w_note w_out"]
    by (auto simp: merkle_capacity_def MERKLE_DEPTH_def w_values enc_inject)
  with t(1) show ?thesis by (intro that) (simp add: append_note_def)
qed

lemma w_deposited_value:
  obtains r g where "ledger_deposit w_env w_deposit (transparent_deposit_verifier w_env) (w_ledger (new_margin_state w_hash) 0 0) = Ok (r, w_ledger g 100 0)"
    and "leaves_of g = [w_note w_in]" and "sg_spent g = []" and "tree_ok w_hash (sg_tree g)" and "st_anchor_root w_statement \<in> set (sg_accepted_roots g)"
proof -
  let ?g = "new_margin_state w_hash" and ?n = "w_note w_in"
  have "tree_ok w_hash (sg_tree ?g)" "leaves_of ?g = []" by (simp_all add: new_margin_state_def tree_ok_empty) (simp add: empty_tree_def)
  then obtain t where t: "tree_append w_hash ?n (sg_tree ?g) = Ok (0, t)" "tree_ok w_hash t" "tr_leaves t = [?n]"
    using w_notes_ok tree_append_succeeds [of w_hash "sg_tree ?g" ?n] by (auto simp: merkle_capacity_def)
  have "tr_cached_root t = st_anchor_root w_statement"
    using left_path_root [of "[?n]" 0 w_hash MERKLE_DEPTH] t
    by (simp add: tree_ok_def w_statement_def zero_path_def)
  moreover have "admit_deposit w_env w_deposit (transparent_deposit_verifier w_env) (w_ledger ?g 0 0) = Ok ()"
    using w_ids w_values
    by (simp add: admit_deposit_def Let_def w_deposit_def w_ledger_def w_env_def validate_header_Ok SHIELDED_PROTOCOL_VERSION_def
        ensure_proof_security_def w_note_def new_note_def w_policy_def om_get_def verify_authority_signature_def transparent_deposit_verifier_def
        verify_transparent_deposit_def MAX_PROOF_BYTES_def decode_deposit_proof_def w_in_def w_opening_def zero32_def)
  moreover have "append_deposit_commitment w_hash ?n ?g = Ok (0, remember_current_root (?g\<lparr>sg_tree := t\<rparr>))"
    using t w_notes_ok by (simp add: append_deposit_commitment_def new_margin_state_def tree_contains_def) (simp add: empty_tree_def)
  ultimately show ?thesis
    using t by (intro that [of _ "remember_current_root (?g\<lparr>sg_tree := t\<rparr>)"])
      (auto simp: ledger_deposit_def w_ledger_def w_deposit_def w_env_def lift_margin_def checked_add_def u128_max_def
        remember_current_root_def new_margin_state_def Let_def margin_root_def DEFAULT_ROOT_HISTORY_def)
qed

lemma w_public_ok: "validate_public w_hash w_statement w_policy = Ok ()"
proof -
  obtain h where h: "policy_hash w_hash w_policy = Ok h" using w_policy_ok by (auto simp: policy_hash_def)
  have "mp_market_id w_policy = w_market" "mp_collateral_asset w_policy = w_asset" "mp_minimum_fee w_policy = 1"
    by (simp_all add: w_policy_def)
  moreover have "st_policy_hash w_statement = h" using h by (simp add: w_statement_def)
  ultimately show ?thesis
    using h w_ids w_policy_ok
    by (simp add: validate_public_def validate_version_def validate_ids_def MAX_SPEND_INPUTS_def MAX_SPEND_OUTPUTS_def w_values)
      (simp add: zero32_enc enc_inject)
qed

lemma w_transparent_ok: "verify_transparent w_env w_statement w_policy [1] = Ok ()"
proof -
  have "check_input w_env w_statement dg 0 (derive_nullifier w_hash (w_note w_in) w_in 0) [] w_witness = Ok ()" for dg
    using w_notes_ok(1)
    by (simp add: check_input_def Let_def verify_merkle_proof_def merkle_capacity_def verify_owner_authorization_def)
      (simp add: w_in_def)
  moreover have "required_margin w_policy w_out = Ok 0"
    using w_policy_ok by (simp add: required_margin_def) (simp add: w_policy_def w_out_def w_opening_def checked_mul_def
      checked_ceil_div_def fits_u64_def BASIS_POINTS_DENOMINATOR_def)
  moreover obtain dg where "authorization_digest w_hash w_statement = Ok dg"
    by (simp add: authorization_digest_def statement_bytes_def u32_max_def)
  moreover have "op_collateral w_in = 100" "op_position w_in = 0" "op_collateral w_out = 99" "op_position w_out = 0"
    by (simp_all add: w_in_def w_out_def)
  ultimately show ?thesis
    using w_public_ok
    by (simp add: verify_transparent_def MAX_PROOF_BYTES_def decode_spend_proof_def checked_add_def checked_add_i128_def u128_max_def)
qed

lemma w_spent_value:
  assumes g: "leaves_of g = [w_note w_in]" "sg_spent g = []" "tree_ok w_hash (sg_tree g)" "st_anchor_root w_statement \<in> set (sg_accepted_roots g)"
  obtains r g' where "ledger_spend w_env w_spend (transparent_spend_verifier w_env) (w_ledger g 100 0) = Ok (r, w_ledger g' 99 1)"
    and "leaves_of g' = [w_note w_in, w_note w_out]"
proof -
  have out: "output_note w_statement (commitment w_hash w_market w_asset w_out) = w_note w_out"
    by (simp add: output_note_def w_note_def new_note_def)
  obtain t where t: "tree_append w_hash (w_note w_out) (sg_tree g) = Ok (1, t)" "tr_leaves t = [w_note w_in, w_note w_out]"
    using g w_notes_ok tree_append_succeeds [of w_hash "sg_tree g" "w_note w_out"]
    by (auto simp: merkle_capacity_def MERKLE_DEPTH_def w_values enc_inject)
  have "admit_spend w_hash w_statement w_policy g = Ok ()"
    using g w_public_ok tree_contains_iff [OF g(3)]
    by (simp add: admit_spend_def merkle_capacity_def MERKLE_DEPTH_def w_values enc_inject)
  moreover have "append_outputs w_hash w_statement (sg_tree g) = Ok ([1], t)"
    using t by (simp add: append_outputs_def out)
  moreover have "spend_totals w_env w_spend (transparent_spend_verifier w_env) (w_ledger g 100 0) = Ok (w_policy, 99, 1)"
    using w_ids
    by (simp add: spend_totals_def Let_def w_spend_def validate_header_Ok w_ledger_def ensure_proof_security_def om_get_def
        SHIELDED_PROTOCOL_VERSION_def transparent_spend_verifier_def checked_add_def checked_sub_def u128_max_def)
  moreover have "sd_statement w_spend = w_statement" "sd_proof w_spend = [1]" by (simp_all add: w_spend_def)
  ultimately obtain rc g' where "apply_spend w_hash (verify_transparent w_env) w_spend w_policy g = Ok (rc, g')" "sg_tree g' = t"
    and "spend_totals w_env w_spend (transparent_spend_verifier w_env) (w_ledger g 100 0) = Ok (w_policy, 99, 1)"
    using w_transparent_ok by (simp add: apply_spend_def Let_def del: w_fields)
  with t(2) show ?thesis
    by (intro that [of _ g']) (simp_all add: ledger_spend_def lift_margin_def w_ledger_def)
qed

section \<open>No two hashed strings collide\<close>

fun zero_number :: "nat \<Rightarrow> nat" where
  "zero_number 0 = 24661"
| "zero_number (Suc h) = step (zero_number h) (zero_number h)"

fun zero_run :: "nat \<Rightarrow> nat list \<Rightarrow> nat list" where
  "zero_run z [] = []"
| "zero_run z (h # hs) = z # zero_run (step z z) hs"

fun path_numbers :: "nat \<Rightarrow> nat list \<Rightarrow> nat list" where
  "path_numbers x [] = []"
| "path_numbers x (z # zs) = step x z # path_numbers (step x z) zs"

lemma zero_run: "map zero_number [k..<k + m] = zero_run (zero_number k) [k..<k + m]"
proof (induction m arbitrary: k)
  case (Suc m)
  have "step (zero_number k) (zero_number k) = zero_number (Suc k)" by simp
  with Suc.IH [of "Suc k"] show ?case by (simp add: upt_conv_Cons del: upt_Suc zero_number.simps)
qed simp

lemma step_bound [simp]: "step a b < 65536"
  by (simp add: step_def less_trans [OF mod_less_divisor])

lemma zero_number_bound [simp]: "zero_number h < 65536"
  by (cases h) (simp_all add: Let_def)

lemma w_zero_hash: "merkle_zero_hash w_hash h = enc (zero_number h)"
  by (induction h) (simp_all add: hash_inputs(3) w_values hash_inputs(2) w_hash_node Let_def del: merkle_zero_hash.simps(1))

fun path_list :: "digest \<Rightarrow> bytes \<Rightarrow> bytes list \<Rightarrow> bytes list" where
  "path_list H x [] = []"
| "path_list H x (z # zs) = node_input x z # path_list H (H (node_input x z)) zs"

lemma set_path_list: "set (path_list H x zs) = climb_inputs H x 0 zs"
  by (induction zs arbitrary: x) (auto simp: Let_def)

lemma w_path:
  "x < 65536 \<Longrightarrow> \<forall>z \<in> set zs. z < 65536 \<Longrightarrow>
     map w_hash (path_list w_hash (enc x) (map enc zs)) = map enc (path_numbers x zs)"
  by (induction zs arbitrary: x) (auto simp: w_hash_node)

definition w_zeros :: "nat list" where "w_zeros = zero_run 24661 [0..<33]"

definition w_numbers :: "nat list" where
  "w_numbers = w_zeros @ 45827 # path_numbers 45827 (butlast w_zeros) @
     4534 # step 45827 4534 # path_numbers (step 45827 4534) (tl (butlast w_zeros)) @ [30649, 40158]"

definition w_strings :: "bytes list" where
  "w_strings = empty_input # map (\<lambda>h. node_input (merkle_zero_hash w_hash h) (merkle_zero_hash w_hash h)) [0..<MERKLE_DEPTH] @
     leaf_input (w_note w_in) # path_list w_hash (merkle_leaf_hash w_hash (w_note w_in)) (zero_path w_hash 0) @
     leaf_input (w_note w_out) # node_input (merkle_leaf_hash w_hash (w_note w_in)) (merkle_leaf_hash w_hash (w_note w_out)) #
     path_list w_hash (merkle_node_hash w_hash (merkle_leaf_hash w_hash (w_note w_in)) (merkle_leaf_hash w_hash (w_note w_out))) (zero_path w_hash 1) @
     [commitment_input w_market w_asset w_in, commitment_input w_market w_asset w_out]"

lemma distinct_successively: "successively (<) (sort xs) \<Longrightarrow> distinct (xs :: 'a::linorder list)"
  using successively_conv_sorted_wrt [of "(<)" "sort xs"] by (simp add: strict_sorted_iff)

lemma w_zeros_value: "w_zeros = [24661, 62436, 33706, 226, 31977, 23708, 61964, 34091, 53356, 25565, 56146,
    17459, 51375, 14271, 4557, 39966, 12333, 64718, 21017, 18211, 24109,
    51781, 4778, 4943, 27713, 24965, 38867, 57234, 36561, 1090, 20167, 31953, 20396]"
  by (simp add: w_zeros_def upt_conv_Cons step_def)

lemma distinct_w_numbers: "distinct w_numbers"
  by (simp add: w_numbers_def w_zeros_value step_def)

lemma w_zeros_numbers:
  "w_zeros = map zero_number [0..<33]" "butlast w_zeros = map zero_number [0..<32]" "tl (map zero_number [0..<32]) = map zero_number [1..<32]"
  "tl w_zeros = map zero_number (map Suc [0..<32])"
proof -
  show w: "w_zeros = map zero_number [0..<33]" using zero_run [of 0 33] by (simp add: w_zeros_def)
  have b: "butlast [0..<33::nat] = [0..<32]" by (simp add: butlast_conv_take take_upt)
  show "butlast w_zeros = map zero_number [0..<32]" "tl (map zero_number [0..<32]) = map zero_number [1..<32]"
    "tl w_zeros = map zero_number (map Suc [0..<32])"
    unfolding w map_butlast [symmetric] map_tl [symmetric] b by (simp_all add: tl_upt map_Suc_upt del: map_map)
qed

lemma w_zero_path:
  "zero_path w_hash 0 = map enc (butlast w_zeros)" "zero_path w_hash 1 = map enc (tl (butlast w_zeros))"
  by (simp_all add: zero_path_def MERKLE_DEPTH_def w_zero_hash w_zeros_numbers(2,3))

lemma w_strings_hash: "map w_hash w_strings = map enc w_numbers"
proof -
  have zs: "\<forall>z \<in> set (butlast w_zeros). z < 65536" "\<forall>z \<in> set (tl (butlast w_zeros)). z < 65536"
    by (simp_all add: w_zeros_numbers(2,3))
  have "map (\<lambda>h. w_hash (node_input (merkle_zero_hash w_hash h) (merkle_zero_hash w_hash h))) [0..<MERKLE_DEPTH] =
      map enc (tl w_zeros)"
    by (simp add: w_zero_hash w_hash_node w_zeros_numbers(4) MERKLE_DEPTH_def comp_def)
  moreover have "map enc w_zeros = enc 24661 # map enc (tl w_zeros)" by (simp add: w_zeros_value)
  moreover have "w_hash (commitment_input w_market w_asset x) = commitment w_hash w_market w_asset x" for x
    by (simp add: commitment_hash)
  ultimately show ?thesis
    using w_path [of 45827, OF _ zs(1)] w_path [of "step 45827 4534", OF _ zs(2)]
    by (simp add: w_strings_def w_numbers_def w_values hash_inputs w_hash_node w_zero_path [simplified] comp_def
        del: merkle_zero_hash.simps)
qed

lemma path_numbers_bound: "k \<in> set (path_numbers x zs) \<Longrightarrow> k < 65536"
  by (induction x zs rule: path_numbers.induct) auto

lemma w_numbers_bound: "k \<in> set w_numbers \<Longrightarrow> k < 65536"
  by (auto simp: w_numbers_def w_zeros_numbers(1) dest: path_numbers_bound)

lemma w_injective: "inj_on w_hash (set w_strings)"
proof -
  have "inj_on enc (set w_numbers)"
    using w_numbers_bound by (auto simp: inj_on_def enc_inject)
  then have "distinct (map w_hash w_strings)"
    by (simp add: w_strings_hash distinct_map distinct_w_numbers)
  then show ?thesis by (simp add: distinct_map)
qed

lemma w_zero_inputs: "zero_inputs w_hash \<subseteq> set w_strings"
  by (auto simp: zero_inputs_def w_strings_def Let_def)

lemma w_tree_inputs:
  "tree_inputs w_hash [] \<subseteq> set w_strings" "tree_inputs w_hash [w_note w_in] \<subseteq> set w_strings"
  "tree_inputs w_hash [w_note w_in, w_note w_out] \<subseteq> set w_strings"
  using tree_inputs_0 [of w_hash] tree_inputs_1 [of w_hash "w_note w_in"] tree_inputs_2 [of w_hash "w_note w_in" "w_note w_out"] w_zero_inputs
  by (auto simp: one_inputs_def two_inputs_def w_strings_def set_path_list Let_def hash_inputs(2))

lemma w_note_hashes:
  "note_hashes w_hash [] \<subseteq> set w_strings" "note_hashes w_hash [w_note w_in] \<subseteq> set w_strings"
  "note_hashes w_hash [w_note w_in, w_note w_out] \<subseteq> set w_strings"
  using w_tree_inputs [THEN subsetD] by (auto simp: note_hashes_def le_Suc_eq)

lemma w_spend_hashes: "spend_hashes w_hash w_statement w_proof \<subseteq> set w_strings"
  by (auto simp: spend_hashes_def proof_inputs_def w_strings_def set_path_list)

lemma w_wf: "note_wf (w_note x)" "opening_wf w_in" "opening_wf w_out" "witness_wf w_witness"
  by (auto simp: note_wf_def opening_wf_def w_in_def w_out_def witness_wf_def SHIELDED_MARGIN_VERSION_def w_market_def w_asset_def
      commitment_hash length_w_hash zero_path_def w_zero_hash)

text \<open>The run, before and after the spend.\<close>

lemma w_ledger_run:
  obtains g g' r where "ledger_run w_env (set w_strings) (w_ledger g 100 0) [w_in] 100"
    and "ledger_spend w_env w_spend (transparent_spend_verifier w_env) (w_ledger g 100 0) = Ok (r, w_ledger g' 99 1)"
    and "ledger_run w_env (set w_strings) (w_ledger g' 99 1) [w_in, w_out] 100"
    and "leaves_of g = [w_note w_in]" and "leaves_of g' = [w_note w_in, w_note w_out]"
proof -
  obtain l where l: "new_ledger w_env (replicate 32 8) (replicate 32 9) (replicate 32 10) Development = Ok l"
    "register_market w_env w_policy l = Ok (w_ledger (new_margin_state w_hash) 0 0)"
    using w_registered_value by (auto simp: w_registered_def w_start_def)
  have r0: "ledger_run w_env (set w_strings) (w_ledger (new_margin_state w_hash) 0 0) [] 0"
    using ledger_run.register [OF ledger_run.start [OF l(1)] l(2)] w_note_hashes by simp
  obtain r g where d: "ledger_deposit w_env w_deposit (transparent_deposit_verifier w_env) (w_ledger (new_margin_state w_hash) 0 0) =
      Ok (r, w_ledger g 100 0)" and g: "leaves_of g = [w_note w_in]" "sg_spent g = []" "tree_ok w_hash (sg_tree g)"
      "st_anchor_root w_statement \<in> set (sg_accepted_roots g)"
    by (rule w_deposited_value)
  have margin [simp]: "sl_margin (w_ledger g c f) = g" for g c f by (simp add: w_ledger_def)
  have "ledger_run w_env (set w_strings) (w_ledger g 100 0) ([] @ [w_in]) (0 + dp_backing_amount (ad_statement w_deposit))"
    by (rule ledger_run.deposit [OF r0 d, where n = "w_note w_in"])
      (use g w_wf w_note_hashes in \<open>simp_all add: w_strings_def decode_deposit_proof_def w_deposit_def w_env_def\<close>)
  then have r1: "ledger_run w_env (set w_strings) (w_ledger g 100 0) [w_in] 100" by (simp add: w_deposit_def)
  obtain r' g' where sp: "ledger_spend w_env w_spend (transparent_spend_verifier w_env) (w_ledger g 100 0) = Ok (r', w_ledger g' 99 1)"
    and g': "leaves_of g' = [w_note w_in, w_note w_out]"
    by (rule w_spent_value [OF g])
  have "ledger_run w_env (set w_strings) (w_ledger g' 99 1) ([w_in] @ spf_output_openings w_proof) 100"
    by (rule ledger_run.spend [OF r1 sp, where st = w_statement])
      (use g' w_wf w_note_hashes w_spend_hashes in \<open>simp_all add: w_spend_def decode_spend_proof_def w_market_def w_asset_def\<close>)
  with r1 sp g(1) g' show ?thesis by (intro that) simp_all
qed

end
