(* ===== verification/Shielded_Theorems.thy ===== *)
theory Shielded_Theorems
  imports Shielded_Example
begin

text \<open>
  The properties of the shielded notes and their ledger. A theorem about a run speaks of the strings
  \<open>Q\<close> that the run hashes, among which no two collide; the witnesses evaluate a deposit and a spend.
\<close>

text \<open>C32: The incremental tree computes the reference root. Appending notes one after the other, with the cache of
  nodes, gives the root that the direct computation over all the leaves gives, and the cache answers
  the root of every earlier prefix of the notes, which is how persisted root histories are checked.\<close>

theorem incremental_tree_is_reference:
  assumes "foldr_res (append_note H) ns (empty_tree H) = Ok t"
  shows "tr_leaves t = ns \<and> tr_cached_root t = merkle_root H ns \<and>
    (\<forall>c \<le> length ns. root_at_leaf_count H t c = Ok (merkle_root H (take c ns)))"
proof -
  have "tree_ok H t" "tr_leaves t = ns" using append_notes_ok [OF assms tree_ok_empty] by (simp_all add: empty_tree_def)
  then show ?thesis by (auto simp: root_at_leaf_count_ok) (simp add: tree_ok_def merkle_root_subtree)
qed

theorem incremental_tree_is_reference_witness:
  "\<exists>t. foldr_res (append_note w_hash) [w_note w_in, w_note w_out] (empty_tree w_hash) = Ok t \<and>
     tr_cached_root t = merkle_root w_hash [w_note w_in, w_note w_out] \<and>
     root_at_leaf_count w_hash t 1 = Ok (merkle_root w_hash [w_note w_in])"
proof -
  obtain t where "foldr_res (append_note w_hash) [w_note w_in, w_note w_out] (empty_tree w_hash) = Ok t" by (rule w_tree)
  from this incremental_tree_is_reference [OF this] show ?thesis by (auto dest!: spec [of _ 1])
qed

text \<open>C31: A verified inclusion proof is the proof of a leaf. If a proof climbs from a note to the root of a list of
  notes, and no two of the strings that the proof and the tree hash collide, then the note is the one
  at the claimed index: no forged note, no shifted index, and no filler of the empty part.\<close>

theorem inclusion_proof_sound:
  assumes "\<And>b. length (H b) = 32" and "inj_on H Q" and "proof_inputs H mk n \<subseteq> Q" and "tree_inputs H ns \<subseteq> Q"
    and "\<forall>s \<in> set (mk_siblings mk). length s = 32" and "note_wf n" and "\<forall>m \<in> set ns. note_wf m"
    and "verify_merkle_proof H mk n (merkle_root H ns) = Ok ()"
  shows "mk_leaf_index mk < length ns \<and> ns ! mk_leaf_index mk = n"
  using assms by (rule merkle_proof_sound)

theorem inclusion_proof_sound_witness:
  "verify_merkle_proof w_hash (iw_merkle_proof w_witness) (w_note w_in) (merkle_root w_hash [w_note w_in]) = Ok () \<and>
   mk_leaf_index (iw_merkle_proof w_witness) < length [w_note w_in]"
proof -
  have v: "verify_merkle_proof w_hash (iw_merkle_proof w_witness) (w_note w_in) (merkle_root w_hash [w_note w_in]) = Ok ()"
    using left_path_root [of "[w_note w_in]" 0 w_hash MERKLE_DEPTH]
    by (simp add: verify_merkle_proof_def merkle_capacity_def merkle_root_subtree zero_path_def)
  have "mk_leaf_index (iw_merkle_proof w_witness) < length [w_note w_in] \<and>
      [w_note w_in] ! mk_leaf_index (iw_merkle_proof w_witness) = w_note w_in"
    by (rule inclusion_proof_sound [OF length_w_hash w_injective _ w_tree_inputs(2) _ _ _ v])
      (use w_wf w_spend_hashes in \<open>auto simp: spend_hashes_def witness_wf_def\<close>)
  with v show ?thesis by simp
qed

text \<open>C34: What an accepted transparent spend guarantees. The witness has one opening for each nullifier and each
  output; the collateral of the inputs is that of the outputs plus the fee, the positions of the inputs and
  of the outputs have the same sum, every output commitment opens to a positive collateral that
  covers the margin required by the policy, and every input is a note of the anchored tree whose nullifier
  is the declared one.\<close>

theorem accepted_spend_conserves:
  assumes "verify_transparent V st p bs = Ok ()"
  shows "\<exists>pf. decode_spend_proof V bs = Ok pf \<and>
    (\<Sum>w\<leftarrow>spf_inputs pf. op_collateral (iw_opening w)) = (\<Sum>x\<leftarrow>spf_output_openings pf. op_collateral x) + st_fee st \<and>
    (\<Sum>w\<leftarrow>spf_inputs pf. op_position (iw_opening w)) = (\<Sum>x\<leftarrow>spf_output_openings pf. op_position x) \<and>
    list_all2 (\<lambda>x c. commitment (sv_sha V) (st_market_id st) (st_collateral_asset st) x = c \<and> 0 < op_collateral x \<and>
      (\<exists>m. required_margin p x = Ok m \<and> m \<le> op_collateral x)) (spf_output_openings pf) (st_output_commitments st) \<and>
    list_all2 (\<lambda>w x. verify_merkle_proof (sv_sha V) (iw_merkle_proof w) (iw_note w) (st_anchor_root st) = Ok () \<and>
      derive_nullifier (sv_sha V) (iw_note w) (iw_opening w) (mk_leaf_index (iw_merkle_proof w)) = x) (spf_inputs pf) (st_nullifiers st)"
proof -
  obtain pf dg where d: "decode_spend_proof V bs = Ok pf" "length (spf_inputs pf) = length (st_nullifiers st)"
      "length (spf_output_openings pf) = length (st_output_commitments st)"
    and sums: "(\<Sum>w\<leftarrow>spf_inputs pf. op_collateral (iw_opening w)) = (\<Sum>x\<leftarrow>spf_output_openings pf. op_collateral x) + st_fee st"
      "(\<Sum>w\<leftarrow>spf_inputs pf. op_position (iw_opening w)) = (\<Sum>x\<leftarrow>spf_output_openings pf. op_position x)"
    and ins: "\<And>w x. (w, x) \<in> set (zip (spf_inputs pf) (st_nullifiers st)) \<Longrightarrow> \<exists>i s. check_input V st dg i x s w = Ok ()"
    and outs: "\<And>x c. (x, c) \<in> set (zip (spf_output_openings pf) (st_output_commitments st)) \<Longrightarrow>
      commitment (sv_sha V) (st_market_id st) (st_collateral_asset st) x = c \<and> 0 < op_collateral x \<and>
      (\<exists>m. required_margin p x = Ok m \<and> m \<le> op_collateral x)"
    and "authorization_digest (sv_sha V) st = Ok dg"
    by (rule verify_transparent_Ok [OF assms]) (rule that)
  show ?thesis
    by (intro exI [of _ pf] conjI d(1) sums list_all2I ballI case_prodI2)
      (use d(2,3) outs check_input_Ok [OF ins] in auto)
qed

theorem accepted_spend_conserves_witness:
  "verify_transparent w_env w_statement w_policy [1] = Ok () \<and> (\<exists>pf. decode_spend_proof w_env [1] = Ok pf \<and>
     (\<Sum>w\<leftarrow>spf_inputs pf. op_collateral (iw_opening w)) = (\<Sum>x\<leftarrow>spf_output_openings pf. op_collateral x) + 1)"
  using accepted_spend_conserves [OF w_transparent_ok] w_transparent_ok by auto

text \<open>C33: Every note can be proved. After any run of deposits and spends the ledger builds, for each of its notes, an
  inclusion proof that verifies against the current root, and it still accepts that root as an anchor,
  so no note is lost.\<close>

theorem every_note_provable:
  assumes "ledger_run V Q l os d" and "i < length (leaves_of (sl_margin l))"
  shows "\<exists>mk. tree_proof (sv_sha V) i (sg_tree (sl_margin l)) = Ok mk \<and>
    verify_merkle_proof (sv_sha V) mk (leaves_of (sl_margin l) ! i) (margin_root (sl_margin l)) = Ok () \<and>
    margin_root (sl_margin l) \<in> set (sg_accepted_roots (sl_margin l))"
proof -
  have "tree_ok (sv_sha V) (sg_tree (sl_margin l))" "roots_ok (sv_sha V) (sl_margin l)"
    using ledger_run_stored [OF assms(1)] by (simp_all add: stored_ok_def)
  from tree_proof_verifies [OF this(1) assms(2)] this(2) show ?thesis
    by (auto simp: margin_root_def roots_ok_def dest: last_in_set)
qed

theorem every_note_provable_witness:
  "\<exists>l. ledger_run w_env (set w_strings) l [w_in, w_out] 100 \<and>
     (\<exists>mk. tree_proof w_hash 1 (sg_tree (sl_margin l)) = Ok mk \<and> verify_merkle_proof w_hash mk (w_note w_out) (margin_root (sl_margin l)) = Ok ())"
proof -
  obtain g where run: "ledger_run w_env (set w_strings) (w_ledger g 99 1) [w_in, w_out] 100"
    and g: "leaves_of g = [w_note w_in, w_note w_out]" by (rule w_ledger_run)
  have "1 < length (leaves_of (sl_margin (w_ledger g 99 1)))" using g by (simp add: w_ledger_def)
  from every_note_provable [OF run this] run g show ?thesis by (auto simp: w_ledger_def)
qed

text \<open>C4: A note is spent at most once. Every input of an accepted spend is a note of the ledger, opened by the opening
  that it was created with, whose nullifier had not been spent before the spend and is spent after
  it; and the inputs of one spend are different notes.\<close>

theorem inputs_spent_once:
  assumes "\<And>b. length (sv_sha V b) = 32" and "inj_on (sv_sha V) Q" and "ledger_run V Q l os d"
    and "ledger_spend V sp (transparent_spend_verifier V) l = Ok (r, l')" and "decode_spend_proof V (sd_proof sp) = Ok pf"
    and "\<forall>w \<in> set (spf_inputs pf). witness_wf w" and "spend_hashes (sv_sha V) (sd_statement sp) pf \<subseteq> Q"
  shows "distinct (map (\<lambda>w. mk_leaf_index (iw_merkle_proof w)) (spf_inputs pf)) \<and>
    (\<forall>w \<in> set (spf_inputs pf). let j = mk_leaf_index (iw_merkle_proof w);
        x = nullifier_of (sv_sha V) (leaves_of (sl_margin l)) os j in
      j < length os \<and> os ! j = iw_opening w \<and> x \<notin> set (sg_spent (sl_margin l)) \<and> x \<in> set (sg_spent (sl_margin l')))"
  using spent_inputs [OF assms(1,2) ledger_run_ok [OF assms(1-3)] assms(4-7)] by (simp add: Let_def)

theorem inputs_spent_once_witness:
  "\<exists>l r l'. ledger_spend w_env w_spend (transparent_spend_verifier w_env) l = Ok (r, l') \<and>
     nullifier_of w_hash (leaves_of (sl_margin l)) [w_in] 0 \<in> set (sg_spent (sl_margin l')) - set (sg_spent (sl_margin l))"
proof -
  obtain g g' r where run: "ledger_run w_env (set w_strings) (w_ledger g 100 0) [w_in] 100"
    and sp: "ledger_spend w_env w_spend (transparent_spend_verifier w_env) (w_ledger g 100 0) = Ok (r, w_ledger g' 99 1)"
    by (rule w_ledger_run)
  have "decode_spend_proof w_env (sd_proof w_spend) = Ok w_proof" by (simp add: decode_spend_proof_def w_spend_def)
  from inputs_spent_once [OF _ _ run sp this] show ?thesis
    using sp length_w_hash w_injective w_spend_hashes w_wf by (auto simp: Let_def w_spend_def)
qed

text \<open>C3: No value is created. In every run, the collateral of the notes that are not spent is covered by the shielded
  collateral of the ledger, and that collateral together with the fees paid is exactly what has been
  deposited.\<close>

theorem no_inflation:
  assumes "\<And>b. length (sv_sha V b) = 32" and "inj_on (sv_sha V) Q" and "ledger_run V Q l os d"
  shows "unspent_value (sv_sha V) (sl_margin l) os \<le> sl_collateral l \<and> sl_collateral l + sl_fee_total l = d"
  using ledger_run_ok [OF assms] by (simp add: run_ok_def)

theorem no_inflation_witness:
  "\<exists>l. ledger_run w_env (set w_strings) l [w_in, w_out] 100 \<and> unspent_value w_hash (sl_margin l) [w_in, w_out] \<le> 99"
proof -
  obtain g where run: "ledger_run w_env (set w_strings) (w_ledger g 99 1) [w_in, w_out] 100" by (rule w_ledger_run)
  from no_inflation [OF _ _ run] run show ?thesis
    using length_w_hash w_injective by (auto simp: w_ledger_def)
qed

text \<open>C35: Persistence loses nothing. Rebuilding a ledger from the header, the numbered notes and the nullifiers that it
  wrote gives back that ledger: all the checks of the loader on counts, roots, root history, policies and
  totals accept what the writer produced.\<close>

theorem ledger_rebuild_roundtrip:
  assumes "\<And>b. length (sv_sha V b) = 32" and "inj_on (sv_sha V) Q" and "ledger_run V Q l os d"
    and "ledger_parts V l = Ok (h, ns, spent)"
  shows "rebuild_ledger V h (zip [0..<length ns] ns) spent = Ok l"
  using ledger_run_stored [OF assms(3)] spent_at_most_notes [OF assms(1-3)] assms(4) by (rule stored_rebuilds)

theorem ledger_rebuild_roundtrip_witness:
  "\<exists>l h ns spent. sl_collateral l = 99 \<and> ledger_parts w_env l = Ok (h, ns, spent) \<and> lh_total_backing h = 100 \<and>
     rebuild_ledger w_env h (zip [0..<length ns] ns) spent = Ok l"
proof -
  obtain g where run: "ledger_run w_env (set w_strings) (w_ledger g 99 1) [w_in, w_out] 100" by (rule w_ledger_run)
  obtain h ns spent where parts: "ledger_parts w_env (w_ledger g 99 1) = Ok (h, ns, spent)" "lh_total_backing h = 100"
    using w_ids by (simp add: ledger_parts_def validate_header_Ok w_ledger_def SHIELDED_PROTOCOL_VERSION_def checked_add_def
        u128_max_def margin_parts_def)
  from ledger_rebuild_roundtrip [OF _ _ run parts(1)] parts show ?thesis
    using length_w_hash w_injective by (intro exI [of _ "w_ledger g 99 1"]) (simp add: w_ledger_def)
qed

end
