(* ===== verification/Viewing_Keys.thy ===== *)
theory Viewing_Keys
  imports Shielded_Margin "HOL-Library.Code_Target_Nat" "HOL-Library.Code_Target_Int"
begin

text \<open>
  Viewing keys: the authenticated encryption of note openings (\<open>shielded_margin.rs\<close>) and the resolver that
  derives one key per epoch from a root (\<open>viewing_key.rs\<close>). HKDF, the cipher and JSON are other crates, the
  record \<open>viewing_env\<close>; the nonce that the operating system draws is an argument, \<open>None\<close> when it fails.
  An epoch is a \<open>u32\<close>; hashes and keys have 32 bytes.
\<close>

definition VIEW_TEST_NONCE_DOMAIN :: bytes where "VIEW_TEST_NONCE_DOMAIN = domain_tag ''ASTERIA_TEST_VIEW_NONCE_V1''"
definition VIEW_TEST_KDF_DOMAIN :: bytes where "VIEW_TEST_KDF_DOMAIN = domain_tag ''ASTERIA_TEST_VIEW_KDF_V1''"
definition VIEW_AEAD_KDF_DOMAIN :: bytes where "VIEW_AEAD_KDF_DOMAIN = domain_tag ''ASTERIA_SHIELDED_VIEW_KDF_V1''"
definition VIEW_AEAD_INFO_DOMAIN :: bytes where "VIEW_AEAD_INFO_DOMAIN = domain_tag ''ASTERIA_SHIELDED_VIEW_XCHACHA20_V1''"
definition VIEW_AEAD_AAD_DOMAIN :: bytes where "VIEW_AEAD_AAD_DOMAIN = domain_tag ''ASTERIA_SHIELDED_VIEW_AAD_V1''"
definition TEST_VIEWING_PAYLOAD_VERSION :: nat where "TEST_VIEWING_PAYLOAD_VERSION = 0"
definition VIEWING_AAD_VERSION :: nat where "VIEWING_AAD_VERSION = 1"
definition VIEWING_PAYLOAD_VERSION :: nat where "VIEWING_PAYLOAD_VERSION = 1"
definition MAX_VIEWING_PLAINTEXT_BYTES :: nat where "MAX_VIEWING_PLAINTEXT_BYTES = 4 * 1024"
definition VIEWING_NONCE_BYTES :: nat where "VIEWING_NONCE_BYTES = 24"
definition VIEWING_AEAD_TAG_BYTES :: nat where "VIEWING_AEAD_TAG_BYTES = 16"
definition VIEWING_AAD_CANONICAL_BYTES :: nat where "VIEWING_AAD_CANONICAL_BYTES = 2 + 1 + 4 + 5 * 32"
definition VIEWING_PAYLOAD_HEADER_BYTES :: nat where "VIEWING_PAYLOAD_HEADER_BYTES = 2 + 4 + VIEWING_NONCE_BYTES + 4"
definition MAX_VIEWING_CIPHERTEXT_BYTES :: nat where
  "MAX_VIEWING_CIPHERTEXT_BYTES = MAX_VIEWING_PLAINTEXT_BYTES + VIEWING_AEAD_TAG_BYTES"

definition next_epoch :: "nat \<Rightarrow> nat sm" where
  "next_epoch e = ok_or ViewingKeyEpochOverflow (checked_add u32_max e 1)"

datatype viewing_purpose = NoteOpening

fun purpose_code :: "viewing_purpose \<Rightarrow> nat" where
  "purpose_code NoteOpening = 1"

definition purpose_from_code :: "nat \<Rightarrow> viewing_purpose sm" where
  "purpose_from_code c = (if c = 1 then Ok NoteOpening else Err (InvalidViewingAssociatedData ''unknown purpose''))"

section \<open>Associated data\<close>

record viewing_aad =
  va_version :: nat
  va_purpose :: viewing_purpose
  va_key_epoch :: nat
  va_chain_domain :: bytes
  va_ledger_id :: bytes
  va_market_id :: bytes
  va_collateral_asset :: bytes
  va_note_commitment :: bytes

definition validate_aad :: "viewing_aad \<Rightarrow> unit sm" where
  "validate_aad a =
     (if va_version a \<noteq> VIEWING_AAD_VERSION then Err (UnsupportedViewingAadVersion (va_version a) VIEWING_AAD_VERSION)
      else if va_chain_domain a = zero32 then Err (InvalidViewingAssociatedData ''chain domain must not be zero'')
      else if va_ledger_id a = zero32 then Err (InvalidViewingAssociatedData ''ledger id must not be zero'')
      else
        bindr (validate_ids (va_market_id a) (va_collateral_asset a)) (\<lambda>_.
        if va_note_commitment a = zero32 then Err ZeroCommitment else Ok ()))"

definition for_note_opening :: "bytes \<Rightarrow> bytes \<Rightarrow> nat \<Rightarrow> public_note \<Rightarrow> viewing_aad sm" where
  "for_note_opening chain_domain ledger_id key_epoch n =
     bindr (validate_note n) (\<lambda>_.
     let a = \<lparr>va_version = VIEWING_AAD_VERSION, va_purpose = NoteOpening, va_key_epoch = key_epoch,
              va_chain_domain = chain_domain, va_ledger_id = ledger_id, va_market_id = nt_market_id n,
              va_collateral_asset = nt_collateral_asset n, va_note_commitment = nt_commitment n\<rparr> in
     bindr (validate_aad a) (\<lambda>_. Ok a))"

definition aad_to_bytes :: "viewing_aad \<Rightarrow> bytes sm" where
  "aad_to_bytes a =
     bindr (validate_aad a) (\<lambda>_.
     Ok (be_bytes 2 (va_version a) @ [purpose_code (va_purpose a)] @ be_bytes 4 (va_key_epoch a) @ va_chain_domain a @
       va_ledger_id a @ va_market_id a @ va_collateral_asset a @ va_note_commitment a))"

text \<open>The bytes from \<open>i\<close> to \<open>j\<close>.\<close>

definition slice :: "nat \<Rightarrow> nat \<Rightarrow> bytes \<Rightarrow> bytes" where
  "slice i j bs = take (j - i) (drop i bs)"

definition aad_from_bytes :: "bytes \<Rightarrow> viewing_aad sm" where
  "aad_from_bytes bs =
     (if length bs \<noteq> VIEWING_AAD_CANONICAL_BYTES then Err (InvalidViewingAssociatedData ''wrong canonical length'')
      else
        bindr (purpose_from_code (bs ! 2)) (\<lambda>purpose.
        let a = \<lparr>va_version = of_be (slice 0 2 bs), va_purpose = purpose, va_key_epoch = of_be (slice 3 7 bs),
                 va_chain_domain = slice 7 39 bs, va_ledger_id = slice 39 71 bs, va_market_id = slice 71 103 bs,
                 va_collateral_asset = slice 103 135 bs, va_note_commitment = slice 135 167 bs\<rparr> in
        bindr (validate_aad a) (\<lambda>_. Ok a)))"

section \<open>Payloads\<close>

record viewing_payload =
  vp_version :: nat
  vp_key_epoch :: nat
  vp_nonce :: bytes
  vp_ciphertext :: bytes

definition validate_payload_for :: "nat \<Rightarrow> viewing_payload \<Rightarrow> unit sm" where
  "validate_payload_for expected_version p =
     (if vp_version p \<noteq> expected_version then Err (UnsupportedViewingPayloadVersion (vp_version p) expected_version)
      else if vp_nonce p = replicate VIEWING_NONCE_BYTES 0 then Err (InvalidViewingPayload ''nonce must not be zero'')
      else if length (vp_ciphertext p) < VIEWING_AEAD_TAG_BYTES
      then Err (InvalidViewingPayload ''ciphertext is shorter than the authentication tag'')
      else if MAX_VIEWING_CIPHERTEXT_BYTES < length (vp_ciphertext p)
      then Err (ViewingCiphertextTooLarge (length (vp_ciphertext p)) MAX_VIEWING_CIPHERTEXT_BYTES)
      else Ok ())"

definition validate_payload_version :: "viewing_payload \<Rightarrow> unit sm" where
  "validate_payload_version p = validate_payload_for VIEWING_PAYLOAD_VERSION p"

definition viewing_payload_to_bytes :: "viewing_payload \<Rightarrow> bytes sm" where
  "viewing_payload_to_bytes p =
     bindr (validate_payload_version p) (\<lambda>_.
     if u32_max < length (vp_ciphertext p)
     then Err (ViewingCiphertextTooLarge (length (vp_ciphertext p)) MAX_VIEWING_CIPHERTEXT_BYTES)
     else
       Ok (be_bytes 2 (vp_version p) @ be_bytes 4 (vp_key_epoch p) @ vp_nonce p @ be_bytes 4 (length (vp_ciphertext p)) @
         vp_ciphertext p))"

definition viewing_payload_from_bytes :: "bytes \<Rightarrow> viewing_payload sm" where
  "viewing_payload_from_bytes bs =
     (if length bs < VIEWING_PAYLOAD_HEADER_BYTES then Err (InvalidViewingPayload ''canonical payload is truncated'')
      else
        (let n = of_be (slice 30 34 bs) in
         if MAX_VIEWING_CIPHERTEXT_BYTES < n then Err (ViewingCiphertextTooLarge n MAX_VIEWING_CIPHERTEXT_BYTES)
         else if length bs \<noteq> VIEWING_PAYLOAD_HEADER_BYTES + n
         then Err (InvalidViewingPayload ''canonical payload length does not match its header'')
         else
           (let p = \<lparr>vp_version = of_be (slice 0 2 bs), vp_key_epoch = of_be (slice 2 6 bs), vp_nonce = slice 6 30 bs,
                     vp_ciphertext = drop VIEWING_PAYLOAD_HEADER_BYTES bs\<rparr> in
            bindr (validate_payload_version p) (\<lambda>_. Ok p))))"

section \<open>The cipher\<close>

record viewing_env =
  vw_sha :: digest
  vw_hkdf :: "bytes \<Rightarrow> bytes \<Rightarrow> bytes \<Rightarrow> bytes option"
  vw_encrypt :: "bytes \<Rightarrow> bytes \<Rightarrow> bytes \<Rightarrow> bytes \<Rightarrow> bytes option"
  vw_decrypt :: "bytes \<Rightarrow> bytes \<Rightarrow> bytes \<Rightarrow> bytes \<Rightarrow> bytes option"
  vw_opening_json :: "note_opening \<Rightarrow> bytes option"
  vw_opening_parse :: "bytes \<Rightarrow> note_opening option"

definition validate_plaintext_size :: "bytes \<Rightarrow> unit sm" where
  "validate_plaintext_size m =
     (if MAX_VIEWING_PLAINTEXT_BYTES < length m then Err (ViewingPlaintextTooLarge (length m) MAX_VIEWING_PLAINTEXT_BYTES)
      else Ok ())"

definition viewing_aead_key :: "viewing_env \<Rightarrow> nat \<Rightarrow> bytes \<Rightarrow> bytes \<Rightarrow> viewing_aad \<Rightarrow> bytes sm" where
  "viewing_aead_key V version kdf_domain viewing_key a =
     (if viewing_key = zero32 then Err InvalidViewingKey
      else
        bindr (aad_to_bytes a) (\<lambda>bs.
        ok_or ViewingCipherAuthentication (vw_hkdf V kdf_domain viewing_key
          (VIEW_AEAD_INFO_DOMAIN @ be_bytes 2 version @ be_bytes 4 (length bs) @ bs))))"

definition viewing_associated_data :: "nat \<Rightarrow> viewing_aad \<Rightarrow> bytes sm" where
  "viewing_associated_data version a =
     bindr (aad_to_bytes a) (\<lambda>bs. Ok (VIEW_AEAD_AAD_DOMAIN @ be_bytes 2 version @ be_bytes 4 (length bs) @ bs))"

definition seal_viewing_payload ::
  "viewing_env \<Rightarrow> nat \<Rightarrow> bytes \<Rightarrow> bytes \<Rightarrow> viewing_aad \<Rightarrow> bytes \<Rightarrow> bytes \<Rightarrow> viewing_payload sm" where
  "seal_viewing_payload V version kdf_domain viewing_key a nonce m =
     bindr (validate_aad a) (\<lambda>_.
     bindr (validate_plaintext_size m) (\<lambda>_.
     bindr (viewing_aead_key V version kdf_domain viewing_key a) (\<lambda>key.
     bindr (viewing_associated_data version a) (\<lambda>ad.
     bindr (ok_or ViewingCipherAuthentication (vw_encrypt V key nonce m ad)) (\<lambda>c.
     let p = \<lparr>vp_version = version, vp_key_epoch = va_key_epoch a, vp_nonce = nonce, vp_ciphertext = c\<rparr> in
     bindr (validate_payload_for version p) (\<lambda>_. Ok p))))))"

definition open_viewing_payload ::
  "viewing_env \<Rightarrow> nat \<Rightarrow> bytes \<Rightarrow> bytes \<Rightarrow> viewing_aad \<Rightarrow> viewing_payload \<Rightarrow> bytes sm" where
  "open_viewing_payload V version kdf_domain viewing_key a p =
     bindr (validate_aad a) (\<lambda>_.
     bindr (validate_payload_for version p) (\<lambda>_.
     if vp_key_epoch p \<noteq> va_key_epoch a then Err ViewingKeyEpochMismatch
     else
       bindr (viewing_aead_key V version kdf_domain viewing_key a) (\<lambda>key.
       bindr (viewing_associated_data version a) (\<lambda>ad.
       bindr (ok_or ViewingCipherAuthentication (vw_decrypt V key (vp_nonce p) (vp_ciphertext p) ad)) (\<lambda>m.
       bindr (validate_plaintext_size m) (\<lambda>_. Ok m))))))"

text \<open>\<open>DeterministicTestViewingCipher\<close>.\<close>

definition test_seal :: "viewing_env \<Rightarrow> bytes \<Rightarrow> viewing_aad \<Rightarrow> bytes \<Rightarrow> viewing_payload sm" where
  "test_seal V viewing_key a m =
     bindr (validate_plaintext_size m) (\<lambda>_.
     bindr (aad_to_bytes a) (\<lambda>bs.
     let nonce = take VIEWING_NONCE_BYTES (hash_framed (vw_sha V) VIEW_TEST_NONCE_DOMAIN [viewing_key, bs, m]);
         nonce = (if nonce = replicate VIEWING_NONCE_BYTES 0 then nonce[VIEWING_NONCE_BYTES - 1 := 1] else nonce) in
     seal_viewing_payload V TEST_VIEWING_PAYLOAD_VERSION VIEW_TEST_KDF_DOMAIN viewing_key a nonce m))"

definition test_open :: "viewing_env \<Rightarrow> bytes \<Rightarrow> viewing_aad \<Rightarrow> viewing_payload \<Rightarrow> bytes sm" where
  "test_open V viewing_key a p = open_viewing_payload V TEST_VIEWING_PAYLOAD_VERSION VIEW_TEST_KDF_DOMAIN viewing_key a p"

text \<open>\<open>XChaChaViewingKeyCipher\<close>.\<close>

definition viewing_seal :: "viewing_env \<Rightarrow> bytes option \<Rightarrow> bytes \<Rightarrow> viewing_aad \<Rightarrow> bytes \<Rightarrow> viewing_payload sm" where
  "viewing_seal V drawn viewing_key a m =
     bindr (validate_plaintext_size m) (\<lambda>_.
     bindr (ok_or ViewingKeyRandomness drawn) (\<lambda>nonce.
     if nonce = replicate VIEWING_NONCE_BYTES 0 then Err ViewingKeyRandomness
     else seal_viewing_payload V VIEWING_PAYLOAD_VERSION VIEW_AEAD_KDF_DOMAIN viewing_key a nonce m))"

definition viewing_open :: "viewing_env \<Rightarrow> bytes \<Rightarrow> viewing_aad \<Rightarrow> viewing_payload \<Rightarrow> bytes sm" where
  "viewing_open V viewing_key a p = open_viewing_payload V VIEWING_PAYLOAD_VERSION VIEW_AEAD_KDF_DOMAIN viewing_key a p"

text \<open>A key resolver, the trait \<open>ViewingKeyResolver\<close>.\<close>

record resolver_ops =
  ro_current_epoch :: "nat sm"
  ro_key_for_epoch :: "nat \<Rightarrow> bytes sm"

definition seal_with_resolver ::
  "viewing_env \<Rightarrow> bytes option \<Rightarrow> resolver_ops \<Rightarrow> viewing_aad \<Rightarrow> bytes \<Rightarrow> viewing_payload sm" where
  "seal_with_resolver V drawn R a m =
     bindr (ro_current_epoch R) (\<lambda>e.
     if e \<noteq> va_key_epoch a then Err ViewingKeyEpochMismatch
     else bindr (ro_key_for_epoch R (va_key_epoch a)) (\<lambda>key. viewing_seal V drawn key a m))"

definition open_with_resolver :: "viewing_env \<Rightarrow> resolver_ops \<Rightarrow> viewing_aad \<Rightarrow> viewing_payload \<Rightarrow> bytes sm" where
  "open_with_resolver V R a p =
     (if vp_key_epoch p \<noteq> va_key_epoch a then Err ViewingKeyEpochMismatch
      else bindr (ro_key_for_epoch R (vp_key_epoch p)) (\<lambda>key. viewing_open V key a p))"

section \<open>The resolver of a root\<close>

definition MAX_VIEWING_KEY_RETENTION :: nat where "MAX_VIEWING_KEY_RETENTION = 1024"
definition ROOT_KDF_SALT :: bytes where "ROOT_KDF_SALT = domain_tag ''ASTERIA_VIEWING_KEY_ROOT_KDF_V1''"
definition ROOT_KDF_INFO :: bytes where "ROOT_KDF_INFO = domain_tag ''ASTERIA_VIEWING_KEY_EPOCH_V1''"
definition ROOT_FINGERPRINT_DOMAIN :: bytes where
  "ROOT_FINGERPRINT_DOMAIN = domain_tag ''ASTERIA_VIEWING_KEY_ROOT_FINGERPRINT_V1''"
definition ROOT_FINGERPRINT_VERSION :: nat where "ROOT_FINGERPRINT_VERSION = 1"

record viewing_resolver =
  vr_root :: bytes
  vr_current_epoch :: nat
  vr_retention_epochs :: nat
  vr_root_fingerprint :: bytes

definition validate_root :: "bytes \<Rightarrow> unit sm" where
  "validate_root r = (if r = zero32 then Err InvalidViewingKey else Ok ())"

definition validate_retention :: "nat \<Rightarrow> unit sm" where
  "validate_retention n =
     (if n = 0 \<or> MAX_VIEWING_KEY_RETENTION < n
      then Err (InvalidViewingAssociatedData ''viewing-key retention is outside the supported bounds'') else Ok ())"

definition fingerprint_for_root :: "viewing_env \<Rightarrow> bytes \<Rightarrow> bytes sm" where
  "fingerprint_for_root V r =
     bindr (validate_root r) (\<lambda>_.
     Ok (vw_sha V (ROOT_FINGERPRINT_DOMAIN @ be_bytes 2 ROOT_FINGERPRINT_VERSION @ r)))"

definition epoch_key :: "viewing_env \<Rightarrow> bytes \<Rightarrow> nat \<Rightarrow> bytes sm" where
  "epoch_key V r e =
     bindr (validate_root r) (\<lambda>_.
     ok_or ViewingCipherAuthentication
       (vw_hkdf V ROOT_KDF_SALT r (ROOT_KDF_INFO @ be_bytes 2 ROOT_FINGERPRINT_VERSION @ be_bytes 4 e)))"

text \<open>The subtraction of a \<open>usize\<close> of 0 would panic; \<open>validate_retention\<close> excludes it.\<close>

definition oldest_retained_epoch :: "viewing_resolver \<Rightarrow> nat" where
  "oldest_retained_epoch R = vr_current_epoch R - (vr_retention_epochs R - 1)"

definition is_epoch_retained :: "viewing_resolver \<Rightarrow> nat \<Rightarrow> bool" where
  "is_epoch_retained R e \<longleftrightarrow> oldest_retained_epoch R \<le> e \<and> e \<le> vr_current_epoch R"

definition derive_epoch_key :: "viewing_env \<Rightarrow> viewing_resolver \<Rightarrow> nat \<Rightarrow> bytes sm" where
  "derive_epoch_key V R e =
     (if \<not> is_epoch_retained R e then Err (ViewingKeyEpochUnavailable e) else epoch_key V (vr_root R) e)"

definition derived_resolver :: "viewing_env \<Rightarrow> viewing_resolver \<Rightarrow> resolver_ops" where
  "derived_resolver V R = \<lparr>ro_current_epoch = Ok (vr_current_epoch R), ro_key_for_epoch = derive_epoch_key V R\<rparr>"

definition new_resolver :: "viewing_env \<Rightarrow> bytes \<Rightarrow> nat \<Rightarrow> nat \<Rightarrow> viewing_resolver sm" where
  "new_resolver V root current_epoch retention_epochs =
     bindr (validate_root root) (\<lambda>_.
     bindr (validate_retention retention_epochs) (\<lambda>_.
     bindr (fingerprint_for_root V root) (\<lambda>fingerprint.
     let R = \<lparr>vr_root = root, vr_current_epoch = current_epoch, vr_retention_epochs = retention_epochs,
              vr_root_fingerprint = fingerprint\<rparr> in
     bindr (derive_epoch_key V R current_epoch) (\<lambda>_. Ok R))))"

definition resolver_from_root :: "viewing_env \<Rightarrow> bytes \<Rightarrow> nat \<Rightarrow> viewing_resolver sm" where
  "resolver_from_root V root retention_epochs = new_resolver V root 0 retention_epochs"

definition from_recovered_root :: "viewing_env \<Rightarrow> bytes \<Rightarrow> nat \<Rightarrow> nat \<Rightarrow> bytes \<Rightarrow> viewing_resolver sm" where
  "from_recovered_root V root current_epoch retention_epochs expected_fingerprint =
     bindr (fingerprint_for_root V root) (\<lambda>actual.
     if actual \<noteq> expected_fingerprint then Err ViewingCipherAuthentication
     else new_resolver V root current_epoch retention_epochs)"

definition resolver_rotate :: "viewing_resolver \<Rightarrow> (nat \<times> viewing_resolver) sm" where
  "resolver_rotate R = bindr (next_epoch (vr_current_epoch R)) (\<lambda>e. Ok (e, R\<lparr>vr_current_epoch := e\<rparr>))"

definition resolver_rotate_to :: "nat \<Rightarrow> viewing_resolver \<Rightarrow> (nat \<times> viewing_resolver) sm" where
  "resolver_rotate_to e R =
     (if e \<le> vr_current_epoch R then Err ViewingKeyEpochMismatch else Ok (e, R\<lparr>vr_current_epoch := e\<rparr>))"

text \<open>\<open>NoteOpening::from_canonical_bytes\<close>.\<close>

definition decode_opening :: "viewing_env \<Rightarrow> bytes \<Rightarrow> note_opening sm" where
  "decode_opening V bs =
     bindr (ok_or ProofEncoding (vw_opening_parse V bs)) (\<lambda>x.
     bindr (ok_or ProofEncoding (vw_opening_json V x)) (\<lambda>again.
     if again \<noteq> bs then Err NonCanonicalProof else Ok x))"

definition seal_note_opening ::
  "viewing_env \<Rightarrow> bytes option \<Rightarrow> viewing_resolver \<Rightarrow> bytes \<Rightarrow> bytes \<Rightarrow> public_note \<Rightarrow> note_opening \<Rightarrow> viewing_payload sm" where
  "seal_note_opening V drawn R chain_domain ledger_id n x =
     (if commitment (vw_sha V) (nt_market_id n) (nt_collateral_asset n) x \<noteq> nt_commitment n then Err CommitmentMismatch
      else
        bindr (for_note_opening chain_domain ledger_id (vr_current_epoch R) n) (\<lambda>a.
        bindr (ok_or ProofEncoding (vw_opening_json V x)) (\<lambda>m.
        seal_with_resolver V drawn (derived_resolver V R) a m)))"

definition open_note_opening ::
  "viewing_env \<Rightarrow> viewing_resolver \<Rightarrow> bytes \<Rightarrow> bytes \<Rightarrow> public_note \<Rightarrow> viewing_payload \<Rightarrow> note_opening sm" where
  "open_note_opening V R chain_domain ledger_id n p =
     bindr (for_note_opening chain_domain ledger_id (vp_key_epoch p) n) (\<lambda>a.
     bindr (open_with_resolver V (derived_resolver V R) a p) (\<lambda>m.
     bindr (decode_opening V m) (\<lambda>x.
     if commitment (vw_sha V) (nt_market_id n) (nt_collateral_asset n) x \<noteq> nt_commitment n then Err CommitmentMismatch
     else Ok x)))"

section \<open>Encodings\<close>

text \<open>An associated data with fields of their width.\<close>

definition aad_sized :: "viewing_aad \<Rightarrow> bool" where
  "aad_sized a \<longleftrightarrow> va_key_epoch a \<le> u32_max \<and> length (va_chain_domain a) = 32 \<and> length (va_ledger_id a) = 32 \<and>
     length (va_market_id a) = 32 \<and> length (va_collateral_asset a) = 32 \<and> length (va_note_commitment a) = 32"

lemma aad_round_trip:
  assumes "aad_sized a" and "aad_to_bytes a = Ok bs"
  shows "aad_from_bytes bs = Ok a"
proof -
  let ?v = "be_bytes 2 (va_version a)" and ?e = "be_bytes 4 (va_key_epoch a)"
  have bs: "bs = ?v @ [1] @ ?e @ va_chain_domain a @ va_ledger_id a @ va_market_id a @ va_collateral_asset a @ va_note_commitment a"
    and ok: "validate_aad a = Ok ()" using assms(2) by (cases "va_purpose a"; auto simp: aad_to_bytes_def)+
  note s = assms(1) [unfolded aad_sized_def]
  have v: "va_version a = 1" using ok by (simp add: validate_aad_def VIEWING_AAD_VERSION_def split: if_splits)
  have "length bs = VIEWING_AAD_CANONICAL_BYTES" using s by (simp add: bs VIEWING_AAD_CANONICAL_BYTES_def)
  moreover have "bs ! 2 = 1" by (simp add: bs nth_append)
  moreover have "slice 0 2 bs = ?v" "slice 3 7 bs = ?e" "slice 7 39 bs = va_chain_domain a" "slice 39 71 bs = va_ledger_id a"
    "slice 71 103 bs = va_market_id a" "slice 103 135 bs = va_collateral_asset a" "slice 135 167 bs = va_note_commitment a"
    using s by (simp_all add: bs slice_def)
  moreover have "of_be ?v = va_version a" "of_be ?e = va_key_epoch a" using s v by (simp_all add: of_be_bytes u32_max_def)
  ultimately show ?thesis
    using ok by (cases a; cases "va_purpose a") (simp add: aad_from_bytes_def purpose_from_code_def Let_def)
qed

lemma payload_round_trip:
  assumes "vp_key_epoch p \<le> u32_max" and "length (vp_nonce p) = VIEWING_NONCE_BYTES" and "viewing_payload_to_bytes p = Ok bs"
  shows "viewing_payload_from_bytes bs = Ok p"
proof -
  let ?v = "be_bytes 2 (vp_version p)" and ?e = "be_bytes 4 (vp_key_epoch p)" and ?n = "be_bytes 4 (length (vp_ciphertext p))"
  have bs: "bs = ?v @ ?e @ vp_nonce p @ ?n @ vp_ciphertext p" and ok: "validate_payload_version p = Ok ()"
    using assms(3) by (auto simp: viewing_payload_to_bytes_def split: if_splits)
  have v: "vp_version p = 1" and c: "length (vp_ciphertext p) \<le> MAX_VIEWING_CIPHERTEXT_BYTES"
    using ok by (simp_all add: validate_payload_version_def validate_payload_for_def VIEWING_PAYLOAD_VERSION_def split: if_splits)
  note n = assms(2) [unfolded VIEWING_NONCE_BYTES_def]
  have "of_be ?v = vp_version p" "of_be ?e = vp_key_epoch p" "of_be ?n = length (vp_ciphertext p)"
    using assms(1) v c by (simp_all add: of_be_bytes u32_max_def MAX_VIEWING_CIPHERTEXT_BYTES_def MAX_VIEWING_PLAINTEXT_BYTES_def
        VIEWING_AEAD_TAG_BYTES_def)
  moreover have "slice 0 2 bs = ?v" "slice 2 6 bs = ?e" "slice 6 30 bs = vp_nonce p" "slice 30 34 bs = ?n"
    "drop 34 bs = vp_ciphertext p" "length bs = 34 + length (vp_ciphertext p)"
    using n by (simp_all add: bs slice_def)
  ultimately show ?thesis
    using ok c by (cases p) (simp add: viewing_payload_from_bytes_def VIEWING_PAYLOAD_HEADER_BYTES_def VIEWING_NONCE_BYTES_def Let_def)
qed

section \<open>Resolvers over time\<close>

text \<open>Rotations, and recovery from the root and its fingerprint, at any epoch and with any retention.\<close>

inductive resolver_run :: "viewing_env \<Rightarrow> viewing_resolver \<Rightarrow> viewing_resolver \<Rightarrow> bool"
  for V :: viewing_env and R :: viewing_resolver where
  start: "resolver_run V R R"
| rotated: "resolver_run V R S \<Longrightarrow> resolver_rotate S = Ok (e, T) \<Longrightarrow> resolver_run V R T"
| rotated_to: "resolver_run V R S \<Longrightarrow> e \<le> u32_max \<Longrightarrow> resolver_rotate_to e S = Ok (e', T) \<Longrightarrow> resolver_run V R T"
| recovered: "resolver_run V R S \<Longrightarrow> e \<le> u32_max \<Longrightarrow>
    from_recovered_root V (vr_root S) e n (vr_root_fingerprint S) = Ok T \<Longrightarrow> resolver_run V R T"

definition resolver_ok :: "bytes \<Rightarrow> viewing_resolver \<Rightarrow> bool" where
  "resolver_ok root R \<longleftrightarrow> vr_root R = root \<and> 0 < vr_retention_epochs R \<and> vr_current_epoch R \<le> u32_max"

lemma new_resolver_ok: "new_resolver V root e n = Ok R \<Longrightarrow> e \<le> u32_max \<Longrightarrow> resolver_ok root R"
  by (auto simp: new_resolver_def resolver_ok_def validate_retention_def Let_def split: if_splits)

lemma resolver_run_ok: "resolver_run V R S \<Longrightarrow> resolver_ok root R \<Longrightarrow> resolver_ok root S"
proof (induction rule: resolver_run.induct)
  case (recovered S e n T)
  then have "new_resolver V root e n = Ok T" by (auto simp: from_recovered_root_def resolver_ok_def split: if_splits)
  then show ?case using recovered.hyps(2) by (rule new_resolver_ok)
qed (auto simp: resolver_ok_def resolver_rotate_def resolver_rotate_to_def next_epoch_def checked_add_def split: if_splits)

lemma retained_window:
  "0 < vr_retention_epochs R \<Longrightarrow>
    is_epoch_retained R e \<longleftrightarrow> e \<le> vr_current_epoch R \<and> vr_current_epoch R < e + vr_retention_epochs R"
  by (auto simp: is_epoch_retained_def oldest_retained_epoch_def)

text \<open>The cipher and the JSON of openings can be undone.\<close>

definition viewing_laws :: "viewing_env \<Rightarrow> bool" where
  "viewing_laws V \<longleftrightarrow>
     (\<forall>k n m ad c. vw_encrypt V k n m ad = Some c \<longrightarrow> vw_decrypt V k n c ad = Some m) \<and>
     (\<forall>x bs. vw_opening_json V x = Some bs \<longrightarrow> vw_opening_parse V bs = Some x)"

lemma for_note_opening_epoch: "for_note_opening cd l e n = Ok a \<Longrightarrow> va_key_epoch a = e \<and> validate_aad a = Ok ()"
  by (auto simp: for_note_opening_def Let_def)

lemma sealed_opens:
  assumes "viewing_laws V" and "viewing_seal V drawn key a m = Ok p"
  shows "viewing_open V key a p = Ok m" and "vp_key_epoch p = va_key_epoch a"
    and "drawn = Some (vp_nonce p)" and "validate_payload_version p = Ok ()"
  using assms
  by (auto simp: viewing_laws_def viewing_seal_def viewing_open_def seal_viewing_payload_def open_viewing_payload_def
      validate_payload_version_def Let_def split: if_splits)

lemma valid_payload_encodes: "validate_payload_version p = Ok () \<Longrightarrow> \<exists>bs. viewing_payload_to_bytes p = Ok bs"
  by (auto simp: viewing_payload_to_bytes_def validate_payload_version_def validate_payload_for_def MAX_VIEWING_CIPHERTEXT_BYTES_def
      MAX_VIEWING_PLAINTEXT_BYTES_def VIEWING_AEAD_TAG_BYTES_def u32_max_def split: if_splits)

text \<open>C14: Note openings survive rotation. Whatever a resolver of a root seals of a note can be written as bytes,
  and any resolver that comes from the same root by rotations and recoveries reads the bytes back and opens
  them exactly while their epoch is in its window of retained epochs: then the opening comes back, and
  otherwise the error names the epoch.\<close>

theorem sealed_note_opens_while_retained:
  assumes "viewing_laws V" and "new_resolver V root e0 n0 = Ok R0" and "e0 \<le> u32_max"
    and "resolver_run V R0 R" and "resolver_run V R0 S" and "length nonce = VIEWING_NONCE_BYTES"
    and "seal_note_opening V (Some nonce) R chain_domain ledger_id n x = Ok p"
  shows "\<exists>bs. viewing_payload_to_bytes p = Ok bs \<and>
    bindr (viewing_payload_from_bytes bs) (open_note_opening V S chain_domain ledger_id n) =
      (if vr_current_epoch R \<le> vr_current_epoch S \<and> vr_current_epoch S < vr_current_epoch R + vr_retention_epochs S
       then Ok x else Err (ViewingKeyEpochUnavailable (vr_current_epoch R)))"
proof -
  have "resolver_ok root R" "resolver_ok root S"
    using new_resolver_ok [OF assms(2,3)] resolver_run_ok assms(4,5) by blast+
  note ok = this [unfolded resolver_ok_def]
  obtain a m key where s: "commitment (vw_sha V) (nt_market_id n) (nt_collateral_asset n) x = nt_commitment n"
    "for_note_opening chain_domain ledger_id (vr_current_epoch R) n = Ok a" "vw_opening_json V x = Some m"
    "va_key_epoch a = vr_current_epoch R" "derive_epoch_key V R (va_key_epoch a) = Ok key" "viewing_seal V (Some nonce) key a m = Ok p"
    using assms(7) by (auto simp: seal_note_opening_def seal_with_resolver_def derived_resolver_def split: if_splits)
  note opens = sealed_opens [OF assms(1) s(6)]
  have key: "epoch_key V (vr_root S) (va_key_epoch a) = Ok key"
    using s(5) ok by (simp add: derive_epoch_key_def split: if_splits)
  have "decode_opening V m = Ok x" using assms(1) s(3) by (simp add: decode_opening_def viewing_laws_def)
  then have opened: "open_note_opening V S chain_domain ledger_id n p =
      (if is_epoch_retained S (vr_current_epoch R) then Ok x else Err (ViewingKeyEpochUnavailable (vr_current_epoch R)))"
    using s opens key
    by (simp add: open_note_opening_def open_with_resolver_def derived_resolver_def derive_epoch_key_def)
  obtain bs where bs: "viewing_payload_to_bytes p = Ok bs" using valid_payload_encodes opens(4) by blast
  have "viewing_payload_from_bytes bs = Ok p"
    using payload_round_trip [OF _ _ bs] opens(2,3) s(4) ok(1) assms(6) by simp
  then show ?thesis using bs opened ok(2) by (simp add: retained_window)
qed

section \<open>An instance\<close>

definition y_opening :: note_opening where
  "y_opening = \<lparr>op_owner = replicate 32 1, op_nullifier_key = replicate 32 2, op_collateral = 100, op_position = -3,
     op_leverage = 2, op_blinding = replicate 32 3\<rparr>"

definition y_tag :: "bytes \<Rightarrow> bytes \<Rightarrow> bytes" where
  "y_tag key ad = take 8 (rev key @ replicate 8 0) @ take 8 (rev ad @ replicate 8 0)"

definition y_env :: viewing_env where
  "y_env =
     \<lparr>vw_sha = (\<lambda>bs. take 32 (rev bs @ replicate 32 0)), vw_hkdf = (\<lambda>salt key info. Some (key @ info)),
      vw_encrypt = (\<lambda>k n m ad. Some (m @ y_tag k ad)),
      vw_decrypt = (\<lambda>k n c ad. if drop (length c - 16) c = y_tag k ad then Some (take (length c - 16) c) else None),
      vw_opening_json = (\<lambda>x. if x = y_opening then Some [7] else None),
      vw_opening_parse = (\<lambda>bs. if bs = [7] then Some y_opening else None)\<rparr>"

definition y_note :: public_note where
  "y_note = new_note (vw_sha y_env) (replicate 32 5) (replicate 32 6) y_opening"

definition y_resolver :: "nat \<Rightarrow> viewing_resolver" where
  "y_resolver e = (case new_resolver y_env (replicate 32 9) e 2 of Ok R \<Rightarrow> R)"

definition y_payload :: viewing_payload where
  "y_payload = (case seal_note_opening y_env (Some (replicate 24 4)) (y_resolver 0) [1] [1] y_note y_opening of Ok p \<Rightarrow> p)"

lemma y_sealed:
  "seal_note_opening y_env (Some (replicate 24 4)) (y_resolver 0) [1] [1] y_note y_opening = Ok y_payload"
  by code_simp

lemma y_steps:
  "new_resolver y_env (replicate 32 9) 0 2 = Ok (y_resolver 0)"
  "resolver_rotate (y_resolver 0) = Ok (1, y_resolver 1)" "resolver_rotate_to 2 (y_resolver 1) = Ok (2, y_resolver 2)"
  "vr_current_epoch (y_resolver e) = e" "vr_retention_epochs (y_resolver e) = 2"
  by (code_simp, code_simp, code_simp)
    (simp_all add: y_resolver_def y_env_def new_resolver_def validate_root_def validate_retention_def zero32_def
      fingerprint_for_root_def derive_epoch_key_def epoch_key_def is_epoch_retained_def oldest_retained_epoch_def
      MAX_VIEWING_KEY_RETENTION_def Let_def)

lemma y_laws: "viewing_laws y_env"
  by (simp add: viewing_laws_def y_env_def y_tag_def)

text \<open>One rotation later the payload opens; after another its epoch is gone.\<close>

theorem sealed_note_opens_while_retained_witness:
  "(\<exists>bs. viewing_payload_to_bytes y_payload = Ok bs \<and>
      bindr (viewing_payload_from_bytes bs) (open_note_opening y_env (y_resolver 1) [1] [1] y_note) = Ok y_opening) \<and>
   (\<exists>bs. viewing_payload_to_bytes y_payload = Ok bs \<and>
      bindr (viewing_payload_from_bytes bs) (open_note_opening y_env (y_resolver 2) [1] [1] y_note) = Err (ViewingKeyEpochUnavailable 0))"
proof -
  have r1: "resolver_run y_env (y_resolver 0) (y_resolver 1)"
    using resolver_run.rotated [OF resolver_run.start y_steps(2)] .
  have r2: "resolver_run y_env (y_resolver 0) (y_resolver 2)"
    using resolver_run.rotated_to [OF r1 _ y_steps(3)] by (simp add: u32_max_def)
  note run = sealed_note_opens_while_retained [OF y_laws y_steps(1) _ resolver_run.start _ _ y_sealed]
  show ?thesis
    using run [OF _ r1] run [OF _ r2] by (simp add: y_steps VIEWING_NONCE_BYTES_def del: One_nat_def)
qed

end
