(* ===== verification/State_Commitment.thy ===== *)
theory State_Commitment
  imports Engine_Commands
begin

text \<open>
  The entities of the state (\<open>state_commitment.rs\<close>): the committed state is a table of key and value
  bytes, one row per market, account, order index and so on. \<open>all_entities\<close> writes every row,
  \<open>state_mutations\<close> the rows that changed, \<open>decode_state\<close> reads a table back. Canonical JSON is another
  crate: a codec is its writer and its parser at one type. The writers see the representation of a
  decimal, which this development leaves out, so two states may need two records of codecs.
\<close>

section \<open>Canonical encoding\<close>

record 'a codec =
  cd_json :: "'a \<Rightarrow> bytes option"
  cd_parse :: "bytes \<Rightarrow> 'a option"

definition sc_encode :: "'a codec \<Rightarrow> 'a \<Rightarrow> bytes exch" where
  "sc_encode cd x = ok_or (Persistence ''canonical encoding failed'') (cd_json cd x)"

definition sc_decode :: "'a codec \<Rightarrow> bytes \<Rightarrow> string \<Rightarrow> 'a exch" where
  "sc_decode cd bs label =
     bindr (ok_or (Persistence (''invalid '' @ label)) (cd_parse cd bs)) (\<lambda>x.
     bindr (sc_encode cd x) (\<lambda>canonical.
     if canonical \<noteq> bs then Err (Persistence (label @ '' is not canonically encoded'')) else Ok x))"

section \<open>Entities\<close>

datatype entity_key =
    MetaKey
  | EventLogKey
  | AccountNonceKey account_id
  | MarketKey symbol
  | AccountKey account_id
  | BookKey symbol
  | OrderMarketKey uuid
  | ClientOrderIdKey string
  | OracleKey symbol
  | PrivateOrderKeySetKey
  | PrivateOrderBatchKey nat
  | PrivateOrderBondBatchKey nat
  | PrivateBatchAppHashKey nat
  | PrivateBatchSnapshotKey nat
  | ShieldedHeaderKey
  | ShieldedNoteKey nat
  | ShieldedNullifierKey bytes

record state_meta =
  sm_chain_id :: string
  sm_authority :: account_id
  sm_protocol_version :: nat
  sm_height :: nat
  sm_block_time_ms :: int
  sm_sequence :: nat
  sm_total_credits :: decimal
  sm_fee_vault :: decimal
  sm_insurance_fund :: decimal
  sm_funding_pool :: decimal
  sm_validator_bindings :: "(string, nat) omap"
  sm_private_order_fee :: decimal

definition state_meta_of :: "'l engine_state \<Rightarrow> state_meta" where
  "state_meta_of s =
     \<lparr>sm_chain_id = es_chain_id s, sm_authority = es_authority s, sm_protocol_version = es_protocol_version s,
      sm_height = es_height s, sm_block_time_ms = es_block_time_ms s, sm_sequence = es_sequence s,
      sm_total_credits = es_total_credits s, sm_fee_vault = es_fee_vault s,
      sm_insurance_fund = es_insurance_fund s, sm_funding_pool = es_funding_pool s,
      sm_validator_bindings = es_validator_bindings s, sm_private_order_fee = es_private_order_fee s\<rparr>"

record state_codec =
  sc_key :: "entity_key codec"
  sc_meta :: "state_meta codec"
  sc_event_log :: "event_log codec"
  sc_nonce :: "nat codec"
  sc_market :: "market_state codec"
  sc_account :: "account codec"
  sc_book :: "order_book codec"
  sc_symbol :: "symbol codec"
  sc_uuid :: "uuid codec"
  sc_oracle :: "oracle_snapshot codec"
  sc_key_set :: "public_key_set codec"
  sc_pending :: "submission list codec"
  sc_bonds :: "(account_id, decimal) omap codec"
  sc_app_hash :: "bytes codec"
  sc_snapshot :: "private_batch_snapshot codec"
  sc_header :: "ledger_header codec"
  sc_note :: "public_note codec"
  sc_unit :: "unit codec"

record entity_mutation =
  em_key :: bytes
  em_value :: "bytes option"

definition ENTITY_KEY_DOMAIN :: bytes where "ENTITY_KEY_DOMAIN = domain_tag ''ASTERIA_STATE_ENTITY_KEY_V5''"

definition entity_key_bytes :: "state_codec \<Rightarrow> entity_key \<Rightarrow> bytes exch" where
  "entity_key_bytes C k = bindr (sc_encode (sc_key C) k) (\<lambda>encoded. Ok (ENTITY_KEY_DOMAIN @ encoded))"

definition decode_entity_key :: "state_codec \<Rightarrow> bytes \<Rightarrow> entity_key exch" where
  "decode_entity_key C bs =
     (if take (length ENTITY_KEY_DOMAIN) bs \<noteq> ENTITY_KEY_DOMAIN
      then Err (Persistence ''state entity key has an invalid domain'')
      else sc_decode (sc_key C) (drop (length ENTITY_KEY_DOMAIN) bs) ''state entity key'')"

definition mutation :: "state_codec \<Rightarrow> 'v codec \<Rightarrow> entity_key \<Rightarrow> 'v option \<Rightarrow> entity_mutation exch" where
  "mutation C cd k v =
     bindr (entity_key_bytes C k) (\<lambda>key.
     case v of
       None \<Rightarrow> Ok \<lparr>em_key = key, em_value = None\<rparr>
     | Some v \<Rightarrow> bindr (sc_encode cd v) (\<lambda>bs. Ok \<lparr>em_key = key, em_value = Some bs\<rparr>))"

text \<open>Pushing the parts of a list one after the other; the first error ends it.\<close>

fun concat_res :: "('e, 'a list) res list \<Rightarrow> ('e, 'a list) res" where
  "concat_res [] = Ok []"
| "concat_res (p # ps) = bindr p (\<lambda>xs. bindr (concat_res ps) (\<lambda>ys. Ok (xs @ ys)))"

section \<open>Differences of maps\<close>

text \<open>\<open>OrdMap::diff\<close>: what turns the first map into the second, in key order.\<close>

datatype ('k, 'v) diff_item = Added 'k 'v | Updated 'k 'v | Removed 'k

fun om_diff :: "('k::linorder, 'v) omap \<Rightarrow> ('k, 'v) omap \<Rightarrow> ('k, 'v) diff_item list" where
  "om_diff [] ys = map (\<lambda>(k, v). Added k v) ys"
| "om_diff xs [] = map (\<lambda>(k, v). Removed k) xs"
| "om_diff ((k, v) # xs) ((k', v') # ys) =
     (if k < k' then Removed k # om_diff xs ((k', v') # ys)
      else if k' < k then Added k' v' # om_diff ((k, v) # xs) ys
      else if v = v' then om_diff xs ys
      else Updated k' v' # om_diff xs ys)"

fun diff_mutation :: "state_codec \<Rightarrow> 'v codec \<Rightarrow> ('k \<Rightarrow> entity_key) \<Rightarrow> ('k, 'v) diff_item \<Rightarrow> entity_mutation exch" where
  "diff_mutation C cd ek (Added k v) = mutation C cd (ek k) (Some v)"
| "diff_mutation C cd ek (Updated k v) = mutation C cd (ek k) (Some v)"
| "diff_mutation C cd ek (Removed k) = mutation C cd (ek k) None"

definition push_map_diff ::
  "state_codec \<Rightarrow> 'v codec \<Rightarrow> ('k::linorder \<Rightarrow> entity_key) \<Rightarrow> ('k, 'v) omap \<Rightarrow> ('k, 'v) omap \<Rightarrow> entity_mutation list exch" where
  "push_map_diff C cd ek previous new = traverse (diff_mutation C cd ek) (om_diff previous new)"

definition push_map :: "state_codec \<Rightarrow> 'v codec \<Rightarrow> ('k \<Rightarrow> entity_key) \<Rightarrow> ('k, 'v) omap \<Rightarrow> entity_mutation list exch" where
  "push_map C cd ek m = traverse (\<lambda>(k, v). mutation C cd (ek k) (Some v)) (om_entries m)"

section \<open>The shielded ledger\<close>

definition shielded_persistence :: "'a sl \<Rightarrow> 'a exch" where
  "shielded_persistence r =
     map_err (\<lambda>e. Persistence (''invalid shielded persistence state: '' @ ledger_message e)) r"

definition shielded_parts :: "shielded_env \<Rightarrow> shielded_ledger \<Rightarrow> (ledger_header \<times> public_note list \<times> bytes list) exch" where
  "shielded_parts V l = shielded_persistence (ledger_parts V l)"

definition push_notes :: "state_codec \<Rightarrow> (nat \<times> public_note) list \<Rightarrow> entity_mutation list exch" where
  "push_notes C ns = traverse (\<lambda>(i, n). mutation C (sc_note C) (ShieldedNoteKey i) (Some n)) ns"

definition push_nullifiers :: "state_codec \<Rightarrow> bytes list \<Rightarrow> entity_mutation list exch" where
  "push_nullifiers C xs = traverse (\<lambda>x. mutation C (sc_unit C) (ShieldedNullifierKey x) (Some ())) xs"

definition push_complete_shielded_ledger ::
  "state_codec \<Rightarrow> shielded_env \<Rightarrow> shielded_ledger \<Rightarrow> entity_mutation list exch" where
  "push_complete_shielded_ledger C V l =
     bindr (shielded_parts V l) (\<lambda>(h, notes, spent).
     concat_res
       [traverse (mutation C (sc_header C) ShieldedHeaderKey) [Some h],
        push_notes C (zip [0..<length notes] notes),
        push_nullifiers C spent])"

definition remove_shielded_ledger ::
  "state_codec \<Rightarrow> shielded_env \<Rightarrow> shielded_ledger \<Rightarrow> entity_mutation list exch" where
  "remove_shielded_ledger C V l =
     bindr (shielded_parts V l) (\<lambda>(h, notes, spent).
     concat_res
       [traverse (mutation C (sc_header C) ShieldedHeaderKey) [None],
        traverse (\<lambda>i. mutation C (sc_note C) (ShieldedNoteKey i) None) [0..<mh_note_count (lh_margin h)],
        traverse (\<lambda>x. mutation C (sc_unit C) (ShieldedNullifierKey x) None) spent])"

text \<open>
  Both ledgers are development ledgers, whose \<open>profile\<close> fields agree. \<open>spent\<close> and \<open>spent'\<close> are sets in
  ascending order, so their difference is read off by membership.
\<close>

definition append_only_header :: "ledger_header \<Rightarrow> ledger_header \<Rightarrow> bool" where
  "append_only_header h h' \<longleftrightarrow>
     lh_version h = lh_version h' \<and> lh_chain_domain h = lh_chain_domain h' \<and> lh_ledger_id h = lh_ledger_id h' \<and>
     lh_deposit_authority h = lh_deposit_authority h' \<and>
     mh_root_history_limit (lh_margin h) = mh_root_history_limit (lh_margin h') \<and>
     (\<forall>(market_id, p) \<in> set (om_entries (lh_policies h)). om_get (lh_policies h') market_id = Some p)"

definition new_notes :: "nat \<Rightarrow> nat \<Rightarrow> public_note list \<Rightarrow> (nat \<times> public_note) list exch" where
  "new_notes from until notes =
     traverse (\<lambda>i. if i < length notes then Ok (i, notes ! i)
       else Err (Persistence ''shielded note is missing from the append delta'')) [from..<until]"

definition update_shielded_ledger ::
  "state_codec \<Rightarrow> shielded_env \<Rightarrow> shielded_ledger \<Rightarrow> shielded_ledger \<Rightarrow> entity_mutation list exch" where
  "update_shielded_ledger C V l l' =
     bindr (shielded_parts V l) (\<lambda>(h, notes, spent).
     bindr (shielded_parts V l') (\<lambda>(h', notes', spent').
     let count = mh_note_count (lh_margin h); count' = mh_note_count (lh_margin h') in
     if \<not> append_only_header h h'
     then Err (Persistence ''persisted shielded ledger metadata is not append-only'')
     else if count' < count then Err (Persistence ''persisted shielded notes cannot be removed'')
     else
       bindr (shielded_persistence (lift_margin (root_at_leaf_count (sv_sha V) (sg_tree (sl_margin l')) count))) (\<lambda>prefix_root.
       if prefix_root \<noteq> mh_current_root (lh_margin h)
       then Err (Persistence ''persisted shielded note prefix was modified'')
       else
         concat_res
           [bindr (new_notes count count' notes') (push_notes C),
            if \<exists>x \<in> set spent. x \<notin> set spent'
            then Err (Persistence ''persisted shielded nullifiers cannot be removed'')
            else push_nullifiers C (filter (\<lambda>x. x \<notin> set spent) spent'),
            if h \<noteq> h' then traverse (mutation C (sc_header C) ShieldedHeaderKey) [Some h'] else Ok []])))"

fun push_shielded_diff ::
  "state_codec \<Rightarrow> shielded_env \<Rightarrow> shielded_ledger option \<Rightarrow> shielded_ledger option \<Rightarrow> entity_mutation list exch" where
  "push_shielded_diff C V None None = Ok []"
| "push_shielded_diff C V None (Some l') = push_complete_shielded_ledger C V l'"
| "push_shielded_diff C V (Some l) None = remove_shielded_ledger C V l"
| "push_shielded_diff C V (Some l) (Some l') = update_shielded_ledger C V l l'"

section \<open>All entities and the changed ones\<close>

definition sort_entities :: "entity_mutation list \<Rightarrow> entity_mutation list" where
  "sort_entities = sort_key em_key"

definition shielded_size :: "shielded_env \<Rightarrow> state \<Rightarrow> nat exch" where
  "shielded_size V s =
     (case es_shielded_ledger s of
        None \<Rightarrow> Ok 0
      | Some l \<Rightarrow> bindr (shielded_parts V l) (\<lambda>(h, notes, spent). Ok (1 + length notes + length spent)))"

definition all_entities :: "state_codec \<Rightarrow> shielded_env \<Rightarrow> state \<Rightarrow> entity_mutation list exch" where
  "all_entities C V s =
     bindr (shielded_size V s) (\<lambda>capacity.
     bindr (concat_res
       [traverse (mutation C (sc_meta C) MetaKey) [Some (state_meta_of s)],
        traverse (mutation C (sc_event_log C) EventLogKey) [Some (es_event_log s)],
        push_map C (sc_nonce C) AccountNonceKey (es_account_nonces s),
        push_map C (sc_market C) MarketKey (es_markets s),
        push_map C (sc_account C) AccountKey (es_accounts s),
        push_map C (sc_book C) BookKey (es_books s),
        push_map C (sc_symbol C) OrderMarketKey (es_order_market s),
        push_map C (sc_uuid C) ClientOrderIdKey (es_client_order_ids s),
        push_map C (sc_oracle C) OracleKey (es_oracle s),
        (case es_key_set s of None \<Rightarrow> Ok []
         | Some ks \<Rightarrow> traverse (mutation C (sc_key_set C) PrivateOrderKeySetKey) [Some ks]),
        push_map C (sc_pending C) PrivateOrderBatchKey (es_pending_orders s),
        push_map C (sc_bonds C) PrivateOrderBondBatchKey (es_bonds s),
        push_map C (sc_app_hash C) PrivateBatchAppHashKey (es_batch_app_hashes s),
        push_map C (sc_snapshot C) PrivateBatchSnapshotKey (es_batch_snapshots s),
        (case es_shielded_ledger s of None \<Rightarrow> Ok [] | Some l \<Rightarrow> push_complete_shielded_ledger C V l)])
     (\<lambda>entities. Ok (sort_entities entities)))"

definition push_if :: "bool \<Rightarrow> entity_mutation exch \<Rightarrow> entity_mutation list exch" where
  "push_if b m = (if b then bindr m (\<lambda>x. Ok [x]) else Ok [])"

definition changed_entities :: "state_codec \<Rightarrow> shielded_env \<Rightarrow> state \<Rightarrow> state \<Rightarrow> entity_mutation list exch" where
  "changed_entities C V s s' =
     bindr (concat_res
       [push_if (state_meta_of s \<noteq> state_meta_of s') (mutation C (sc_meta C) MetaKey (Some (state_meta_of s'))),
        push_if (es_event_log s \<noteq> es_event_log s') (mutation C (sc_event_log C) EventLogKey (Some (es_event_log s'))),
        push_map_diff C (sc_nonce C) AccountNonceKey (es_account_nonces s) (es_account_nonces s'),
        push_shielded_diff C V (es_shielded_ledger s) (es_shielded_ledger s'),
        push_if (es_key_set s \<noteq> es_key_set s') (mutation C (sc_key_set C) PrivateOrderKeySetKey (es_key_set s')),
        push_map_diff C (sc_pending C) PrivateOrderBatchKey (es_pending_orders s) (es_pending_orders s'),
        push_map_diff C (sc_bonds C) PrivateOrderBondBatchKey (es_bonds s) (es_bonds s'),
        push_map_diff C (sc_app_hash C) PrivateBatchAppHashKey (es_batch_app_hashes s) (es_batch_app_hashes s'),
        push_map_diff C (sc_snapshot C) PrivateBatchSnapshotKey (es_batch_snapshots s) (es_batch_snapshots s'),
        push_map_diff C (sc_market C) MarketKey (es_markets s) (es_markets s'),
        push_map_diff C (sc_account C) AccountKey (es_accounts s) (es_accounts s'),
        push_map_diff C (sc_book C) BookKey (es_books s) (es_books s'),
        push_map_diff C (sc_symbol C) OrderMarketKey (es_order_market s) (es_order_market s'),
        push_map_diff C (sc_uuid C) ClientOrderIdKey (es_client_order_ids s) (es_client_order_ids s'),
        push_map_diff C (sc_oracle C) OracleKey (es_oracle s) (es_oracle s')])
     (\<lambda>changes. Ok (sort_entities changes))"

definition state_mutations :: "state_codec \<Rightarrow> shielded_env \<Rightarrow> state option \<Rightarrow> state \<Rightarrow> entity_mutation list exch" where
  "state_mutations C V previous s' =
     (case previous of None \<Rightarrow> all_entities C V s' | Some s \<Rightarrow> changed_entities C V s s')"

section \<open>Reading a state back\<close>

record decoded =
  da_meta :: "state_meta option"
  da_event_log :: "event_log option"
  da_account_nonces :: "(account_id, nat) omap"
  da_markets :: "(symbol, market_state) omap"
  da_accounts :: "(account_id, account) omap"
  da_books :: "(symbol, order_book) omap"
  da_order_market :: "(uuid, symbol) omap"
  da_client_order_ids :: "(string, uuid) omap"
  da_oracle :: "(symbol, oracle_snapshot) omap"
  da_key_set :: "public_key_set option"
  da_pending_orders :: "(nat, submission list) omap"
  da_bonds :: "(nat, (account_id, decimal) omap) omap"
  da_batch_app_hashes :: "(nat, bytes) omap"
  da_batch_snapshots :: "(nat, private_batch_snapshot) omap"
  da_header :: "ledger_header option"
  da_notes :: "(nat, public_note) omap"
  da_nullifiers :: "(bytes, unit) omap"

definition nothing_decoded :: decoded where
  "nothing_decoded =
     \<lparr>da_meta = None, da_event_log = None, da_account_nonces = [], da_markets = [], da_accounts = [], da_books = [],
      da_order_market = [], da_client_order_ids = [], da_oracle = [], da_key_set = None, da_pending_orders = [],
      da_bonds = [], da_batch_app_hashes = [], da_batch_snapshots = [], da_header = None, da_notes = [],
      da_nullifiers = []\<rparr>"

fun decode_value :: "state_codec \<Rightarrow> bytes \<Rightarrow> entity_key \<Rightarrow> decoded \<Rightarrow> decoded exch" where
  "decode_value C bs MetaKey d =
     bindr (sc_decode (sc_meta C) bs ''state metadata'') (\<lambda>x. Ok (d\<lparr>da_meta := Some x\<rparr>))"
| "decode_value C bs EventLogKey d =
     bindr (sc_decode (sc_event_log C) bs ''event log'') (\<lambda>x. Ok (d\<lparr>da_event_log := Some x\<rparr>))"
| "decode_value C bs (AccountNonceKey k) d =
     bindr (sc_decode (sc_nonce C) bs ''account nonce'') (\<lambda>x.
     Ok (d\<lparr>da_account_nonces := om_insert k x (da_account_nonces d)\<rparr>))"
| "decode_value C bs (MarketKey k) d =
     bindr (sc_decode (sc_market C) bs ''market'') (\<lambda>x. Ok (d\<lparr>da_markets := om_insert k x (da_markets d)\<rparr>))"
| "decode_value C bs (AccountKey k) d =
     bindr (sc_decode (sc_account C) bs ''account'') (\<lambda>x. Ok (d\<lparr>da_accounts := om_insert k x (da_accounts d)\<rparr>))"
| "decode_value C bs (BookKey k) d =
     bindr (sc_decode (sc_book C) bs ''order book'') (\<lambda>x. Ok (d\<lparr>da_books := om_insert k x (da_books d)\<rparr>))"
| "decode_value C bs (OrderMarketKey k) d =
     bindr (sc_decode (sc_symbol C) bs ''order market index'') (\<lambda>x.
     Ok (d\<lparr>da_order_market := om_insert k x (da_order_market d)\<rparr>))"
| "decode_value C bs (ClientOrderIdKey k) d =
     bindr (sc_decode (sc_uuid C) bs ''client order index'') (\<lambda>x.
     Ok (d\<lparr>da_client_order_ids := om_insert k x (da_client_order_ids d)\<rparr>))"
| "decode_value C bs (OracleKey k) d =
     bindr (sc_decode (sc_oracle C) bs ''oracle snapshot'') (\<lambda>x. Ok (d\<lparr>da_oracle := om_insert k x (da_oracle d)\<rparr>))"
| "decode_value C bs PrivateOrderKeySetKey d =
     bindr (sc_decode (sc_key_set C) bs ''private-order key set'') (\<lambda>x. Ok (d\<lparr>da_key_set := Some x\<rparr>))"
| "decode_value C bs (PrivateOrderBatchKey k) d =
     bindr (sc_decode (sc_pending C) bs ''pending private-order batch'') (\<lambda>x.
     Ok (d\<lparr>da_pending_orders := om_insert k x (da_pending_orders d)\<rparr>))"
| "decode_value C bs (PrivateOrderBondBatchKey k) d =
     bindr (sc_decode (sc_bonds C) bs ''private-order bond batch'') (\<lambda>x. Ok (d\<lparr>da_bonds := om_insert k x (da_bonds d)\<rparr>))"
| "decode_value C bs (PrivateBatchAppHashKey k) d =
     bindr (sc_decode (sc_app_hash C) bs ''private batch app-hash anchor'') (\<lambda>x.
     Ok (d\<lparr>da_batch_app_hashes := om_insert k x (da_batch_app_hashes d)\<rparr>))"
| "decode_value C bs (PrivateBatchSnapshotKey k) d =
     bindr (sc_decode (sc_snapshot C) bs ''private batch liquidity snapshot'') (\<lambda>x.
     Ok (d\<lparr>da_batch_snapshots := om_insert k x (da_batch_snapshots d)\<rparr>))"
| "decode_value C bs ShieldedHeaderKey d =
     bindr (sc_decode (sc_header C) bs ''shielded ledger header'') (\<lambda>x.
     if da_header d \<noteq> None then Err (Persistence ''duplicate shielded ledger header entity'')
     else Ok (d\<lparr>da_header := Some x\<rparr>))"
| "decode_value C bs (ShieldedNoteKey k) d =
     bindr (sc_decode (sc_note C) bs ''shielded note'') (\<lambda>x.
     if om_get (da_notes d) k \<noteq> None then Err (Persistence ''duplicate shielded note entity'')
     else Ok (d\<lparr>da_notes := om_insert k x (da_notes d)\<rparr>))"
| "decode_value C bs (ShieldedNullifierKey k) d =
     bindr (sc_decode (sc_unit C) bs ''shielded nullifier marker'') (\<lambda>x.
     if om_get (da_nullifiers d) k \<noteq> None then Err (Persistence ''duplicate shielded nullifier entity'')
     else Ok (d\<lparr>da_nullifiers := om_insert k () (da_nullifiers d)\<rparr>))"

definition decode_entity :: "state_codec \<Rightarrow> bytes \<times> bytes \<Rightarrow> decoded \<Rightarrow> decoded exch" where
  "decode_entity C = (\<lambda>(key, bs) d. bindr (decode_entity_key C key) (\<lambda>k. decode_value C bs k d))"

definition decode_ledger :: "shielded_env \<Rightarrow> decoded \<Rightarrow> shielded_ledger option exch" where
  "decode_ledger V d =
     (case da_header d of
        Some h \<Rightarrow>
          bindr (shielded_persistence (rebuild_ledger V h (om_entries (da_notes d)) (om_keys (da_nullifiers d)))) (\<lambda>l. Ok (Some l))
      | None \<Rightarrow>
          if da_notes d = [] \<and> da_nullifiers d = [] then Ok None
          else Err (Persistence ''shielded note or nullifier entities exist without a ledger header''))"

definition same_symbols :: "decoded \<Rightarrow> bool" where
  "same_symbols d \<longleftrightarrow>
     \<not> ((\<exists>symb \<in> set (om_keys (da_markets d)). om_get (da_books d) symb = None) \<or>
        (\<exists>symb \<in> set (om_keys (da_books d)). om_get (da_markets d) symb = None))"

definition decoded_state :: "decoded \<Rightarrow> state_meta \<Rightarrow> event_log \<Rightarrow> shielded_ledger option \<Rightarrow> state" where
  "decoded_state d m lg ledger =
     \<lparr>es_chain_id = sm_chain_id m, es_authority = sm_authority m, es_protocol_version = sm_protocol_version m,
      es_height = sm_height m, es_block_time_ms = sm_block_time_ms m, es_account_nonces = da_account_nonces d,
      es_markets = da_markets d, es_accounts = da_accounts d, es_books = da_books d,
      es_order_market = da_order_market d, es_client_order_ids = da_client_order_ids d,
      es_sequence = sm_sequence m, es_total_credits = sm_total_credits m, es_fee_vault = sm_fee_vault m,
      es_insurance_fund = sm_insurance_fund m, es_funding_pool = sm_funding_pool m, es_oracle = da_oracle d,
      es_key_set = da_key_set d, es_validator_bindings = sm_validator_bindings m,
      es_pending_orders = da_pending_orders d, es_bonds = da_bonds d,
      es_batch_app_hashes = da_batch_app_hashes d, es_batch_snapshots = da_batch_snapshots d,
      es_private_order_fee = sm_private_order_fee m, es_shielded_ledger = ledger, es_event_log = lg\<rparr>"

definition decode_state :: "state_codec \<Rightarrow> shielded_env \<Rightarrow> (bytes \<times> bytes) list \<Rightarrow> state option exch" where
  "decode_state C V entities =
     bindr (foldr_res (decode_entity C) entities nothing_decoded) (\<lambda>d.
     if entities = [] then Ok None
     else
       bindr (ok_or (Persistence ''state entity table is missing metadata'') (da_meta d)) (\<lambda>m.
       bindr (ok_or (Persistence ''state entity table is missing the event log'') (da_event_log d)) (\<lambda>lg.
       if \<not> same_symbols d then Err (Persistence ''market and order-book entity sets differ'')
       else bindr (decode_ledger V d) (\<lambda>ledger. Ok (Some (decoded_state d m lg ledger))))))"

end
