(* ===== verification/State_Entities.thy ===== *)
theory State_Entities
  imports State_Commitment Shielded_Persist
begin

text \<open>
  The rows of a state as typed entities: \<open>all_entities\<close> writes one row per entity, and reading rows with
  distinct keys, in whatever order the table holds them, absorbs exactly those entities.
\<close>

section \<open>Typed entities\<close>

datatype entity =
    MetaOf state_meta
  | EventLogOf event_log
  | NonceOf account_id nat
  | MarketOf symbol market_state
  | AccountOf account_id account
  | BookOf symbol order_book
  | OrderMarketOf uuid symbol
  | ClientOrderOf string uuid
  | OracleOf symbol oracle_snapshot
  | KeySetOf public_key_set
  | PendingOf nat "submission list"
  | BondsOf nat "(account_id, decimal) omap"
  | AppHashOf nat bytes
  | SnapshotOf nat private_batch_snapshot
  | HeaderOf ledger_header
  | NoteOf nat public_note
  | NullifierOf bytes

fun key_of :: "entity \<Rightarrow> entity_key" where
  "key_of (MetaOf x) = MetaKey"
| "key_of (EventLogOf x) = EventLogKey"
| "key_of (NonceOf k x) = AccountNonceKey k"
| "key_of (MarketOf k x) = MarketKey k"
| "key_of (AccountOf k x) = AccountKey k"
| "key_of (BookOf k x) = BookKey k"
| "key_of (OrderMarketOf k x) = OrderMarketKey k"
| "key_of (ClientOrderOf k x) = ClientOrderIdKey k"
| "key_of (OracleOf k x) = OracleKey k"
| "key_of (KeySetOf x) = PrivateOrderKeySetKey"
| "key_of (PendingOf k x) = PrivateOrderBatchKey k"
| "key_of (BondsOf k x) = PrivateOrderBondBatchKey k"
| "key_of (AppHashOf k x) = PrivateBatchAppHashKey k"
| "key_of (SnapshotOf k x) = PrivateBatchSnapshotKey k"
| "key_of (HeaderOf x) = ShieldedHeaderKey"
| "key_of (NoteOf k x) = ShieldedNoteKey k"
| "key_of (NullifierOf k) = ShieldedNullifierKey k"

fun value_json :: "state_codec \<Rightarrow> entity \<Rightarrow> bytes option" where
  "value_json C (MetaOf x) = cd_json (sc_meta C) x"
| "value_json C (EventLogOf x) = cd_json (sc_event_log C) x"
| "value_json C (NonceOf k x) = cd_json (sc_nonce C) x"
| "value_json C (MarketOf k x) = cd_json (sc_market C) x"
| "value_json C (AccountOf k x) = cd_json (sc_account C) x"
| "value_json C (BookOf k x) = cd_json (sc_book C) x"
| "value_json C (OrderMarketOf k x) = cd_json (sc_symbol C) x"
| "value_json C (ClientOrderOf k x) = cd_json (sc_uuid C) x"
| "value_json C (OracleOf k x) = cd_json (sc_oracle C) x"
| "value_json C (KeySetOf x) = cd_json (sc_key_set C) x"
| "value_json C (PendingOf k x) = cd_json (sc_pending C) x"
| "value_json C (BondsOf k x) = cd_json (sc_bonds C) x"
| "value_json C (AppHashOf k x) = cd_json (sc_app_hash C) x"
| "value_json C (SnapshotOf k x) = cd_json (sc_snapshot C) x"
| "value_json C (HeaderOf x) = cd_json (sc_header C) x"
| "value_json C (NoteOf k x) = cd_json (sc_note C) x"
| "value_json C (NullifierOf k) = cd_json (sc_unit C) ()"

text \<open>The row of an entity: \<open>mutation\<close> with the codec of its type.\<close>

definition write_entity :: "state_codec \<Rightarrow> entity \<Rightarrow> entity_mutation exch" where
  "write_entity C e =
     bindr (entity_key_bytes C (key_of e)) (\<lambda>key.
     bindr (ok_or (Persistence ''canonical encoding failed'') (value_json C e)) (\<lambda>bs.
     Ok \<lparr>em_key = key, em_value = Some bs\<rparr>))"

lemma mutation_write:
  "mutation C (sc_meta C) MetaKey (Some m) = write_entity C (MetaOf m)"
  "mutation C (sc_event_log C) EventLogKey (Some lg) = write_entity C (EventLogOf lg)"
  "mutation C (sc_nonce C) (AccountNonceKey ka) (Some a) = write_entity C (NonceOf ka a)"
  "mutation C (sc_market C) (MarketKey kb) (Some b) = write_entity C (MarketOf kb b)"
  "mutation C (sc_account C) (AccountKey kc) (Some c) = write_entity C (AccountOf kc c)"
  "mutation C (sc_book C) (BookKey kd) (Some d) = write_entity C (BookOf kd d)"
  "mutation C (sc_symbol C) (OrderMarketKey ke) (Some e) = write_entity C (OrderMarketOf ke e)"
  "mutation C (sc_uuid C) (ClientOrderIdKey kf) (Some f) = write_entity C (ClientOrderOf kf f)"
  "mutation C (sc_oracle C) (OracleKey kg) (Some g) = write_entity C (OracleOf kg g)"
  "mutation C (sc_key_set C) PrivateOrderKeySetKey (Some ks) = write_entity C (KeySetOf ks)"
  "mutation C (sc_pending C) (PrivateOrderBatchKey kh) (Some h) = write_entity C (PendingOf kh h)"
  "mutation C (sc_bonds C) (PrivateOrderBondBatchKey ki) (Some i) = write_entity C (BondsOf ki i)"
  "mutation C (sc_app_hash C) (PrivateBatchAppHashKey kj) (Some j) = write_entity C (AppHashOf kj j)"
  "mutation C (sc_snapshot C) (PrivateBatchSnapshotKey kl) (Some l) = write_entity C (SnapshotOf kl l)"
  "mutation C (sc_header C) ShieldedHeaderKey (Some hdr) = write_entity C (HeaderOf hdr)"
  "mutation C (sc_note C) (ShieldedNoteKey kn) (Some n) = write_entity C (NoteOf kn n)"
  "mutation C (sc_unit C) (ShieldedNullifierKey ko) (Some ()) = write_entity C (NullifierOf ko)"
  by (simp_all add: mutation_def write_entity_def sc_encode_def)

section \<open>The entities of a state\<close>

definition ledger_entities :: "shielded_env \<Rightarrow> shielded_ledger option \<Rightarrow> entity list" where
  "ledger_entities V ledger =
     (case ledger of
        None \<Rightarrow> []
      | Some l \<Rightarrow>
          (case ledger_parts V l of
             Ok (h, notes, spent) \<Rightarrow>
               HeaderOf h # map (\<lambda>(i, n). NoteOf i n) (zip [0..<length notes] notes) @ map NullifierOf spent
           | _ \<Rightarrow> []))"

definition state_entities :: "shielded_env \<Rightarrow> state \<Rightarrow> entity list" where
  "state_entities V s =
     concat
       [[MetaOf (state_meta_of s)], [EventLogOf (es_event_log s)],
        map (\<lambda>(k, v). NonceOf k v) (es_account_nonces s),
        map (\<lambda>(k, v). MarketOf k v) (es_markets s),
        map (\<lambda>(k, v). AccountOf k v) (es_accounts s),
        map (\<lambda>(k, v). BookOf k v) (es_books s),
        map (\<lambda>(k, v). OrderMarketOf k v) (es_order_market s),
        map (\<lambda>(k, v). ClientOrderOf k v) (es_client_order_ids s),
        map (\<lambda>(k, v). OracleOf k v) (es_oracle s),
        map KeySetOf (case es_key_set s of None \<Rightarrow> [] | Some ks \<Rightarrow> [ks]),
        map (\<lambda>(k, v). PendingOf k v) (es_pending_orders s),
        map (\<lambda>(k, v). BondsOf k v) (es_bonds s),
        map (\<lambda>(k, v). AppHashOf k v) (es_batch_app_hashes s),
        map (\<lambda>(k, v). SnapshotOf k v) (es_batch_snapshots s),
        ledger_entities V (es_shielded_ledger s)]"

definition ledger_written :: "shielded_env \<Rightarrow> shielded_ledger option \<Rightarrow> bool" where
  "ledger_written V ledger \<longleftrightarrow> (\<forall>l. ledger = Some l \<longrightarrow> (\<exists>p. ledger_parts V l = Ok p))"

lemma traverse_append: "traverse f (xs @ ys) = bindr (traverse f xs) (\<lambda>a. bindr (traverse f ys) (\<lambda>b. Ok (a @ b)))"
  by (induction xs) (simp_all add: bindr_assoc cong: bindr_cong, cases "traverse f ys", auto)

lemma concat_res_traverse: "concat_res (map (traverse f) xss) = traverse f (concat xss)"
  by (induction xss) (simp_all add: traverse_append)

lemma traverse_map: "traverse f (map g xs) = traverse (\<lambda>x. f (g x)) xs"
  by (induction xs) simp_all

lemma shielded_parts_Ok [simp]: "shielded_parts V l = Ok p \<longleftrightarrow> ledger_parts V l = Ok p"
  by (simp add: shielded_parts_def shielded_persistence_def)

lemma push_complete_entities:
  assumes "ledger_written V (Some l)"
  shows "push_complete_shielded_ledger C V l = traverse (write_entity C) (ledger_entities V (Some l))"
proof -
  obtain h ns spent where p: "ledger_parts V l = Ok (h, ns, spent)"
    using assms by (auto simp: ledger_written_def)
  then have parts: "shielded_parts V l = Ok (h, ns, spent)" by simp
  show ?thesis
    unfolding push_complete_shielded_ledger_def parts bindr.simps prod.case push_notes_def push_nullifiers_def mutation_write
    using concat_res_traverse [of "write_entity C"
        "[[HeaderOf h], map (\<lambda>(i, n). NoteOf i n) (zip [0..<length ns] ns), map NullifierOf spent]"]
    by (simp add: p ledger_entities_def traverse_map case_prod_unfold mutation_write del: concat_res.simps)
qed

lemma push_map_write:
  "(\<And>k v. mutation C cd (ek k) (Some v) = write_entity C (e k v)) \<Longrightarrow>
   push_map C cd ek m = traverse (write_entity C) (map (\<lambda>(k, v). e k v) m)"
  by (simp add: push_map_def traverse_map om_entries_def case_prod_unfold)

lemma all_entities_Ok:
  "all_entities C V s = Ok es \<longleftrightarrow>
     ledger_written V (es_shielded_ledger s) \<and>
     (\<exists>rows. traverse (write_entity C) (state_entities V s) = Ok rows \<and> es = sort_entities rows)"
proof -
  let ?f = "write_entity C"
  have size: "(\<exists>n. shielded_size V s = Ok n) \<longleftrightarrow> ledger_written V (es_shielded_ledger s)"
    by (auto simp: shielded_size_def ledger_written_def split: option.splits)
  have maps: "push_map C (sc_nonce C) AccountNonceKey (es_account_nonces s) = traverse ?f (map (\<lambda>(k, v). NonceOf k v) (es_account_nonces s))"
    "push_map C (sc_market C) MarketKey (es_markets s) = traverse ?f (map (\<lambda>(k, v). MarketOf k v) (es_markets s))"
    "push_map C (sc_account C) AccountKey (es_accounts s) = traverse ?f (map (\<lambda>(k, v). AccountOf k v) (es_accounts s))"
    "push_map C (sc_book C) BookKey (es_books s) = traverse ?f (map (\<lambda>(k, v). BookOf k v) (es_books s))"
    "push_map C (sc_symbol C) OrderMarketKey (es_order_market s) = traverse ?f (map (\<lambda>(k, v). OrderMarketOf k v) (es_order_market s))"
    "push_map C (sc_uuid C) ClientOrderIdKey (es_client_order_ids s) = traverse ?f (map (\<lambda>(k, v). ClientOrderOf k v) (es_client_order_ids s))"
    "push_map C (sc_oracle C) OracleKey (es_oracle s) = traverse ?f (map (\<lambda>(k, v). OracleOf k v) (es_oracle s))"
    "push_map C (sc_pending C) PrivateOrderBatchKey (es_pending_orders s) = traverse ?f (map (\<lambda>(k, v). PendingOf k v) (es_pending_orders s))"
    "push_map C (sc_bonds C) PrivateOrderBondBatchKey (es_bonds s) = traverse ?f (map (\<lambda>(k, v). BondsOf k v) (es_bonds s))"
    "push_map C (sc_app_hash C) PrivateBatchAppHashKey (es_batch_app_hashes s) = traverse ?f (map (\<lambda>(k, v). AppHashOf k v) (es_batch_app_hashes s))"
    "push_map C (sc_snapshot C) PrivateBatchSnapshotKey (es_batch_snapshots s) = traverse ?f (map (\<lambda>(k, v). SnapshotOf k v) (es_batch_snapshots s))"
    by (rule push_map_write, rule mutation_write)+
  have keys: "(case es_key_set s of None \<Rightarrow> Ok [] | Some ks \<Rightarrow> traverse (mutation C (sc_key_set C) PrivateOrderKeySetKey) [Some ks]) =
      traverse ?f (map KeySetOf (case es_key_set s of None \<Rightarrow> [] | Some ks \<Rightarrow> [ks]))"
    by (simp add: mutation_write split: option.split)
  have singles: "traverse (mutation C (sc_meta C) MetaKey) [Some (state_meta_of s)] = traverse ?f [MetaOf (state_meta_of s)]"
    "traverse (mutation C (sc_event_log C) EventLogKey) [Some (es_event_log s)] = traverse ?f [EventLogOf (es_event_log s)]"
    by (simp_all add: mutation_write)
  have ledger: "(case es_shielded_ledger s of None \<Rightarrow> Ok [] | Some l \<Rightarrow> push_complete_shielded_ledger C V l) =
      traverse ?f (ledger_entities V (es_shielded_ledger s))" if "ledger_written V (es_shielded_ledger s)"
    using that by (auto simp: push_complete_entities split: option.split) (simp add: ledger_entities_def)
  show ?thesis
  proof (cases "ledger_written V (es_shielded_ledger s)")
    case True
    then obtain n where "shielded_size V s = Ok n" using size by auto
    then show ?thesis
      unfolding all_entities_def state_entities_def concat_res_traverse [symmetric] maps keys singles ledger [OF True]
      using True by (simp only: list.map bindr.simps bindr_eq_Ok) auto
  next
    case False
    then show ?thesis using size by (auto simp: all_entities_def)
  qed
qed

end
