(* ===== verification/State_Decode.thy ===== *)
theory State_Decode
  imports State_Entities
begin

text \<open>
  Reading back the rows of a state: every row is absorbed into the decoded maps, and what was written
  for a well-formed state decodes to that state.
\<close>

section \<open>Absorbing entities\<close>

fun absorb :: "entity \<Rightarrow> decoded \<Rightarrow> decoded" where
  "absorb (MetaOf x) d = d\<lparr>da_meta := Some x\<rparr>"
| "absorb (EventLogOf x) d = d\<lparr>da_event_log := Some x\<rparr>"
| "absorb (NonceOf k x) d = d\<lparr>da_account_nonces := om_insert k x (da_account_nonces d)\<rparr>"
| "absorb (MarketOf k x) d = d\<lparr>da_markets := om_insert k x (da_markets d)\<rparr>"
| "absorb (AccountOf k x) d = d\<lparr>da_accounts := om_insert k x (da_accounts d)\<rparr>"
| "absorb (BookOf k x) d = d\<lparr>da_books := om_insert k x (da_books d)\<rparr>"
| "absorb (OrderMarketOf k x) d = d\<lparr>da_order_market := om_insert k x (da_order_market d)\<rparr>"
| "absorb (ClientOrderOf k x) d = d\<lparr>da_client_order_ids := om_insert k x (da_client_order_ids d)\<rparr>"
| "absorb (OracleOf k x) d = d\<lparr>da_oracle := om_insert k x (da_oracle d)\<rparr>"
| "absorb (KeySetOf x) d = d\<lparr>da_key_set := Some x\<rparr>"
| "absorb (PendingOf k x) d = d\<lparr>da_pending_orders := om_insert k x (da_pending_orders d)\<rparr>"
| "absorb (BondsOf k x) d = d\<lparr>da_bonds := om_insert k x (da_bonds d)\<rparr>"
| "absorb (AppHashOf k x) d = d\<lparr>da_batch_app_hashes := om_insert k x (da_batch_app_hashes d)\<rparr>"
| "absorb (SnapshotOf k x) d = d\<lparr>da_batch_snapshots := om_insert k x (da_batch_snapshots d)\<rparr>"
| "absorb (HeaderOf x) d = d\<lparr>da_header := Some x\<rparr>"
| "absorb (NoteOf k x) d = d\<lparr>da_notes := om_insert k x (da_notes d)\<rparr>"
| "absorb (NullifierOf k) d = d\<lparr>da_nullifiers := om_insert k () (da_nullifiers d)\<rparr>"

text \<open>The law of a codec: the parser reads back what the writer wrote.\<close>

definition codec_ok :: "'a codec \<Rightarrow> bool" where
  "codec_ok cd \<longleftrightarrow> (\<forall>x bs. cd_json cd x = Some bs \<longrightarrow> cd_parse cd bs = Some x)"

definition codecs_ok :: "state_codec \<Rightarrow> bool" where
  "codecs_ok C \<longleftrightarrow> codec_ok (sc_key C) \<and> codec_ok (sc_meta C) \<and> codec_ok (sc_event_log C) \<and> codec_ok (sc_nonce C) \<and>
     codec_ok (sc_market C) \<and> codec_ok (sc_account C) \<and> codec_ok (sc_book C) \<and> codec_ok (sc_symbol C) \<and>
     codec_ok (sc_uuid C) \<and> codec_ok (sc_oracle C) \<and> codec_ok (sc_key_set C) \<and> codec_ok (sc_pending C) \<and>
     codec_ok (sc_bonds C) \<and> codec_ok (sc_app_hash C) \<and> codec_ok (sc_snapshot C) \<and> codec_ok (sc_header C) \<and>
     codec_ok (sc_note C) \<and> codec_ok (sc_unit C)"

lemma sc_decode_json: "codec_ok cd \<Longrightarrow> cd_json cd x = Some bs \<Longrightarrow> sc_decode cd bs label = Ok x"
  by (simp add: codec_ok_def sc_decode_def sc_encode_def)

lemma decode_key_written:
  "codec_ok (sc_key C) \<Longrightarrow> entity_key_bytes C k = Ok bs \<Longrightarrow> decode_entity_key C bs = Ok k"
  by (auto simp: entity_key_bytes_def sc_encode_def decode_entity_key_def sc_decode_json)

lemma entity_key_bytes_inject:
  "codec_ok (sc_key C) \<Longrightarrow> entity_key_bytes C k = Ok bs \<Longrightarrow> entity_key_bytes C k' = Ok bs \<Longrightarrow> k = k'"
  using decode_key_written by (metis res.inject(1))

text \<open>The three entities whose repetition is an error.\<close>

fun fresh_in :: "decoded \<Rightarrow> entity \<Rightarrow> bool" where
  "fresh_in d (HeaderOf x) \<longleftrightarrow> da_header d = None"
| "fresh_in d (NoteOf k x) \<longleftrightarrow> om_get (da_notes d) k = None"
| "fresh_in d (NullifierOf k) \<longleftrightarrow> om_get (da_nullifiers d) k = None"
| "fresh_in d _ \<longleftrightarrow> True"

lemma fresh_in_absorb: "key_of e \<noteq> key_of e' \<Longrightarrow> fresh_in d e' \<Longrightarrow> fresh_in (absorb e d) e'"
  by (cases e; cases e') auto

lemma decode_value_written:
  assumes "codecs_ok C" and "value_json C e = Some bs" and "fresh_in d e"
  shows "decode_value C bs (key_of e) d = Ok (absorb e d)"
  using assms unfolding codecs_ok_def by (cases e) (simp_all add: sc_decode_json)

definition row :: "entity_mutation \<Rightarrow> bytes \<times> bytes" where
  "row m = (em_key m, the (em_value m))"

lemma write_entity_Ok:
  "write_entity C e = Ok m \<longleftrightarrow>
     (\<exists>key bs. entity_key_bytes C (key_of e) = Ok key \<and> value_json C e = Some bs \<and> m = \<lparr>em_key = key, em_value = Some bs\<rparr>)"
  by (auto simp: write_entity_def)

lemma decode_entity_written:
  "codecs_ok C \<Longrightarrow> write_entity C e = Ok m \<Longrightarrow> fresh_in d e \<Longrightarrow> decode_entity C (row m) d = Ok (absorb e d)"
  by (auto simp: write_entity_Ok row_def decode_entity_def decode_value_written decode_key_written codecs_ok_def
      intro: decode_value_written)

lemma decode_rows:
  assumes "codecs_ok C" and "list_all2 (\<lambda>e m. write_entity C e = Ok m) es ms"
    and "distinct (map key_of es)" and "\<forall>e \<in> set es. fresh_in d e"
  shows "foldr_res (decode_entity C) (map row ms) d = Ok (fold absorb es d)"
  using assms(2-4)
proof (induction es ms arbitrary: d rule: list_all2_induct)
  case (Cons e es m ms)
  have "decode_entity C (row m) d = Ok (absorb e d)"
    using decode_entity_written [OF assms(1) Cons.hyps(1)] Cons.prems by simp
  moreover have "\<forall>e' \<in> set es. fresh_in (absorb e d) e'"
    using Cons.prems by (auto intro!: fresh_in_absorb)
  ultimately show ?case using Cons by simp
qed simp

section \<open>What a list of entities absorbs\<close>

fun meta_in :: "entity \<Rightarrow> state_meta list" where "meta_in (MetaOf x) = [x]" | "meta_in e = []"
fun log_in :: "entity \<Rightarrow> event_log list" where "log_in (EventLogOf x) = [x]" | "log_in e = []"
fun nonces_in :: "entity \<Rightarrow> (account_id \<times> nat) list" where "nonces_in (NonceOf k x) = [(k, x)]" | "nonces_in e = []"
fun markets_in :: "entity \<Rightarrow> (symbol \<times> market_state) list" where "markets_in (MarketOf k x) = [(k, x)]" | "markets_in e = []"
fun accounts_in :: "entity \<Rightarrow> (account_id \<times> account) list" where "accounts_in (AccountOf k x) = [(k, x)]" | "accounts_in e = []"
fun books_in :: "entity \<Rightarrow> (symbol \<times> order_book) list" where "books_in (BookOf k x) = [(k, x)]" | "books_in e = []"
fun order_markets_in :: "entity \<Rightarrow> (uuid \<times> symbol) list" where "order_markets_in (OrderMarketOf k x) = [(k, x)]" | "order_markets_in e = []"
fun clients_in :: "entity \<Rightarrow> (string \<times> uuid) list" where "clients_in (ClientOrderOf k x) = [(k, x)]" | "clients_in e = []"
fun oracles_in :: "entity \<Rightarrow> (symbol \<times> oracle_snapshot) list" where "oracles_in (OracleOf k x) = [(k, x)]" | "oracles_in e = []"
fun key_sets_in :: "entity \<Rightarrow> public_key_set list" where "key_sets_in (KeySetOf x) = [x]" | "key_sets_in e = []"
fun pending_in :: "entity \<Rightarrow> (nat \<times> submission list) list" where "pending_in (PendingOf k x) = [(k, x)]" | "pending_in e = []"
fun bonds_in :: "entity \<Rightarrow> (nat \<times> (account_id, decimal) omap) list" where "bonds_in (BondsOf k x) = [(k, x)]" | "bonds_in e = []"
fun app_hashes_in :: "entity \<Rightarrow> (nat \<times> bytes) list" where "app_hashes_in (AppHashOf k x) = [(k, x)]" | "app_hashes_in e = []"
fun snapshots_in :: "entity \<Rightarrow> (nat \<times> private_batch_snapshot) list" where "snapshots_in (SnapshotOf k x) = [(k, x)]" | "snapshots_in e = []"
fun headers_in :: "entity \<Rightarrow> ledger_header list" where "headers_in (HeaderOf x) = [x]" | "headers_in e = []"
fun notes_in :: "entity \<Rightarrow> (nat \<times> public_note) list" where "notes_in (NoteOf k x) = [(k, x)]" | "notes_in e = []"
fun nullifiers_in :: "entity \<Rightarrow> (bytes \<times> unit) list" where "nullifiers_in (NullifierOf k) = [(k, ())]" | "nullifiers_in e = []"

definition ins_all :: "('k::linorder \<times> 'v) list \<Rightarrow> ('k, 'v) omap \<Rightarrow> ('k, 'v) omap" where
  "ins_all ps m = foldl (\<lambda>m (k, v). om_insert k v m) m ps"

definition last_of :: "'a list \<Rightarrow> 'a option \<Rightarrow> 'a option" where
  "last_of xs y = (if xs = [] then y else Some (last xs))"

lemma ins_all_simps [simp]: "ins_all [] m = m" "ins_all ((k, v) # ps) m = ins_all ps (om_insert k v m)"
  by (simp_all add: ins_all_def)

lemma last_of_simps [simp]: "last_of [] y = y" "last_of (x # xs) y = last_of xs (Some x)"
  by (simp_all add: last_of_def)

definition all_in :: "(entity \<Rightarrow> 'a list) \<Rightarrow> entity list \<Rightarrow> 'a list" where
  "all_in f es = concat (map f es)"

lemma all_in_simps [simp]: "all_in f [] = []" "all_in f (e # es) = f e @ all_in f es"
  "all_in f (es @ es') = all_in f es @ all_in f es'"
  by (simp_all add: all_in_def)

lemma absorbed:
  "fold absorb es d =
     \<lparr>da_meta = last_of (all_in meta_in es) (da_meta d), da_event_log = last_of (all_in log_in es) (da_event_log d),
      da_account_nonces = ins_all (all_in nonces_in es) (da_account_nonces d),
      da_markets = ins_all (all_in markets_in es) (da_markets d),
      da_accounts = ins_all (all_in accounts_in es) (da_accounts d),
      da_books = ins_all (all_in books_in es) (da_books d),
      da_order_market = ins_all (all_in order_markets_in es) (da_order_market d),
      da_client_order_ids = ins_all (all_in clients_in es) (da_client_order_ids d),
      da_oracle = ins_all (all_in oracles_in es) (da_oracle d),
      da_key_set = last_of (all_in key_sets_in es) (da_key_set d),
      da_pending_orders = ins_all (all_in pending_in es) (da_pending_orders d),
      da_bonds = ins_all (all_in bonds_in es) (da_bonds d),
      da_batch_app_hashes = ins_all (all_in app_hashes_in es) (da_batch_app_hashes d),
      da_batch_snapshots = ins_all (all_in snapshots_in es) (da_batch_snapshots d),
      da_header = last_of (all_in headers_in es) (da_header d),
      da_notes = ins_all (all_in notes_in es) (da_notes d),
      da_nullifiers = ins_all (all_in nullifiers_in es) (da_nullifiers d)\<rparr>"
proof (induction es arbitrary: d)
  case (Cons e es)
  show ?case by (simp only: fold_simps o_apply Cons.IH) (cases e, simp_all)
qed simp

text \<open>The order of the rows is immaterial.\<close>

lemma mset_all_in:
  assumes "mset es = mset es'"
  shows "mset (all_in f es) = mset (all_in f es')"
proof -
  have "sum_mset (mset (map (\<lambda>e. mset (f e)) es)) = sum_mset (mset (map (\<lambda>e. mset (f e)) es'))"
    using assms by simp
  then show ?thesis unfolding sum_mset_sum_list by (simp add: all_in_def mset_concat comp_def)
qed

lemma ins_all_perm:
  assumes "om_ok m" and "mset ps = mset m"
  shows "ins_all ps [] = m"
proof -
  have m: "distinct (map fst m)" by (rule om_ok_distinct [OF assms(1)])
  have d: "distinct (map fst (rev ps))"
    using m assms(2) by (metis mset_eq_imp_distinct_iff mset_map mset_rev)
  have "map_of (rev ps) k = Some v \<longleftrightarrow> map_of m k = Some v" for k v
    using map_of_eq_Some_iff [OF d] map_of_eq_Some_iff [OF m] mset_eq_setD [OF assms(2)] by simp
  then have "om_get (ins_all ps []) k = om_get m k" for k
    using om_get_of_list [of ps] by (metis ins_all_def not_Some_eq om_get_def om_of_list_def)
  moreover have "om_ok (ins_all ps [])" by (simp add: ins_all_def om_ok_foldl_insert)
  ultimately show ?thesis using assms(1) by (intro om_extensionality) auto
qed

lemma last_of_single: "mset xs = {#x#} \<Longrightarrow> last_of xs y = Some x"
  by (simp add: last_of_def)

section \<open>The state that was written\<close>

definition spent_ok :: "shielded_env \<Rightarrow> shielded_ledger \<Rightarrow> bool" where
  "spent_ok V l \<longleftrightarrow> stored_ok V l \<and> card (set (sg_spent (sl_margin l))) \<le> length (leaves_of (sl_margin l)) \<and>
     sorted_wrt (<) (sg_spent (sl_margin l))"

definition state_stored :: "shielded_env \<Rightarrow> state \<Rightarrow> bool" where
  "state_stored V s \<longleftrightarrow> om_ok (es_account_nonces s) \<and> om_ok (es_markets s) \<and> om_ok (es_accounts s) \<and> om_ok (es_books s) \<and>
     om_ok (es_order_market s) \<and> om_ok (es_client_order_ids s) \<and> om_ok (es_oracle s) \<and> om_ok (es_pending_orders s) \<and>
     om_ok (es_bonds s) \<and> om_ok (es_batch_app_hashes s) \<and> om_ok (es_batch_snapshots s) \<and>
     (\<forall>symb. om_get (es_markets s) symb = None \<longleftrightarrow> om_get (es_books s) symb = None) \<and>
     (\<forall>l. es_shielded_ledger s = Some l \<longrightarrow> spent_ok V l)"

lemma all_in_map: "all_in f (map (\<lambda>(k, v). g k v) m) = concat (map (\<lambda>(k, v). f (g k v)) m)"
  by (simp add: all_in_def comp_def case_prod_unfold)

lemma all_in_state:
  "all_in f (state_entities V s) =
     f (MetaOf (state_meta_of s)) @ f (EventLogOf (es_event_log s)) @
     concat (map (\<lambda>(k, v). f (NonceOf k v)) (es_account_nonces s)) @
     concat (map (\<lambda>(k, v). f (MarketOf k v)) (es_markets s)) @
     concat (map (\<lambda>(k, v). f (AccountOf k v)) (es_accounts s)) @
     concat (map (\<lambda>(k, v). f (BookOf k v)) (es_books s)) @
     concat (map (\<lambda>(k, v). f (OrderMarketOf k v)) (es_order_market s)) @
     concat (map (\<lambda>(k, v). f (ClientOrderOf k v)) (es_client_order_ids s)) @
     concat (map (\<lambda>(k, v). f (OracleOf k v)) (es_oracle s)) @
     (case es_key_set s of None \<Rightarrow> [] | Some ks \<Rightarrow> f (KeySetOf ks)) @
     concat (map (\<lambda>(k, v). f (PendingOf k v)) (es_pending_orders s)) @
     concat (map (\<lambda>(k, v). f (BondsOf k v)) (es_bonds s)) @
     concat (map (\<lambda>(k, v). f (AppHashOf k v)) (es_batch_app_hashes s)) @
     concat (map (\<lambda>(k, v). f (SnapshotOf k v)) (es_batch_snapshots s)) @
     all_in f (ledger_entities V (es_shielded_ledger s))"
  by (simp add: state_entities_def all_in_map split: option.split)

lemma all_in_parts:
  "ledger_parts V l = Ok (h, ns, spent) \<Longrightarrow>
     all_in f (ledger_entities V (Some l)) =
       f (HeaderOf h) @ concat (map (\<lambda>(i, n). f (NoteOf i n)) (zip [0..<length ns] ns)) @
       concat (map (\<lambda>x. f (NullifierOf x)) spent)"
  by (simp add: ledger_entities_def all_in_map) (simp add: all_in_def comp_def)

lemma all_in_no_ledger [simp]: "all_in f (ledger_entities V None) = []"
  by (simp add: ledger_entities_def)

lemma concat_units [simp]:
  "concat (map (\<lambda>(k, v). [(k, v)]) m) = m" "concat (map (\<lambda>(k, v). []) m) = []"
  "concat (map (\<lambda>x. [(x, ())]) xs) = map (\<lambda>x. (x, ())) xs" "concat (map (\<lambda>x. []) xs) = []"
  by (induction m) auto

lemma ledger_parts_shape:
  "ledger_parts V l = Ok (h, ns, spent) \<Longrightarrow> ns = leaves_of (sl_margin l) \<and> spent = sg_spent (sl_margin l) \<and>
     lh_margin h = margin_header_of (sl_margin l) \<and> lh_policies h = sl_policies l \<and> lh_version h = sl_version l \<and>
     lh_chain_domain h = sl_chain_domain l \<and> lh_ledger_id h = sl_ledger_id l \<and> lh_deposit_authority h = sl_deposit_authority l"
  by (auto simp: ledger_parts_def margin_parts_def Let_def)

lemma all_in_ledger_other:
  assumes "\<And>h. f (HeaderOf h) = []" and "\<And>i n. f (NoteOf i n) = []" and "\<And>x. f (NullifierOf x) = []"
  shows "all_in f (ledger_entities V ledger) = []"
proof (cases ledger)
  case (Some l)
  show ?thesis
  proof (cases "ledger_parts V l")
    case (Ok p)
    then obtain h ns spent where "ledger_parts V l = Ok (h, ns, spent)" by (cases p) auto
    from all_in_parts [OF this, of f] show ?thesis by (simp add: Some assms)
  qed (simp_all add: Some ledger_entities_def)
qed simp

lemma om_ok_enumerate: "om_ok (zip [0..<length ns] ns)"
  by (simp add: om_ok_def strict_sorted_iff)

lemma om_ok_marks: "sorted_wrt (<) xs \<Longrightarrow> om_ok (map (\<lambda>x. (x, ())) xs)"
  by (simp add: om_ok_def comp_def)

lemma absorbed_ledger:
  assumes "state_stored V s" and "ledger_written V (es_shielded_ledger s)" and "mset es = mset (state_entities V s)"
  shows "decode_ledger V (fold absorb es nothing_decoded) = Ok (es_shielded_ledger s)"
proof -
  note perm = mset_all_in [OF assms(3), unfolded all_in_state]
  show ?thesis
  proof (cases "es_shielded_ledger s")
    case None
    have "all_in headers_in es = []" "all_in notes_in es = []" "all_in nullifiers_in es = []"
      using perm [of headers_in] perm [of notes_in] perm [of nullifiers_in] None by (simp_all split: option.splits)
    then show ?thesis by (simp add: decode_ledger_def absorbed nothing_decoded_def None)
  next
    case (Some l)
    obtain h ns spent where p: "ledger_parts V l = Ok (h, ns, spent)"
      using assms(2) Some by (auto simp: ledger_written_def)
    note shape = ledger_parts_shape [OF p] and parts = all_in_parts [OF p]
    have l: "spent_ok V l" using assms(1) Some by (simp add: state_stored_def)
    have "mset (all_in headers_in es) = {#h#}" "mset (all_in notes_in es) = mset (zip [0..<length ns] ns)"
      "mset (all_in nullifiers_in es) = mset (map (\<lambda>x. (x, ())) spent)"
      using perm [of headers_in] perm [of notes_in] perm [of nullifiers_in] Some
      by (simp_all add: parts split: option.splits)
    moreover have "om_ok (map (\<lambda>x. (x, ())) spent)" using l shape by (simp add: spent_ok_def om_ok_marks)
    ultimately have "da_header (fold absorb es nothing_decoded) = Some h"
      "da_notes (fold absorb es nothing_decoded) = zip [0..<length ns] ns"
      "da_nullifiers (fold absorb es nothing_decoded) = map (\<lambda>x. (x, ())) spent"
      by (simp_all add: absorbed nothing_decoded_def last_of_single ins_all_perm om_ok_enumerate)
    then show ?thesis
      using stored_rebuilds [OF _ _ p] l
      by (simp add: decode_ledger_def Some shielded_persistence_def spent_ok_def om_entries_def om_keys_def comp_def)
  qed
qed

lemma absorbed_state:
  assumes "state_stored V s" and "mset es = mset (state_entities V s)"
  defines "d \<equiv> fold absorb es nothing_decoded"
  shows "da_meta d = Some (state_meta_of s)" "da_event_log d = Some (es_event_log s)"
    "decoded_state d (state_meta_of s) (es_event_log s) (es_shielded_ledger s) = s" "same_symbols d"
proof -
  note perm = mset_all_in [OF assms(2), unfolded all_in_state]
  have "mset (all_in meta_in es) = {#state_meta_of s#}" "mset (all_in log_in es) = {#es_event_log s#}"
    using perm [of meta_in] perm [of log_in] by (simp_all add: all_in_ledger_other split: option.splits)
  then show "da_meta d = Some (state_meta_of s)" "da_event_log d = Some (es_event_log s)"
    by (simp_all add: d_def absorbed last_of_single)
  have ks: "last_of (all_in key_sets_in es) None = es_key_set s"
    using perm [of key_sets_in] by (auto simp: all_in_ledger_other last_of_single split: option.splits)
  have maps: "mset (all_in nonces_in es) = mset (es_account_nonces s)" "mset (all_in markets_in es) = mset (es_markets s)"
    "mset (all_in accounts_in es) = mset (es_accounts s)" "mset (all_in books_in es) = mset (es_books s)"
    "mset (all_in order_markets_in es) = mset (es_order_market s)" "mset (all_in clients_in es) = mset (es_client_order_ids s)"
    "mset (all_in oracles_in es) = mset (es_oracle s)" "mset (all_in pending_in es) = mset (es_pending_orders s)"
    "mset (all_in bonds_in es) = mset (es_bonds s)" "mset (all_in app_hashes_in es) = mset (es_batch_app_hashes s)"
    "mset (all_in snapshots_in es) = mset (es_batch_snapshots s)"
    using perm [of nonces_in] perm [of markets_in] perm [of accounts_in] perm [of books_in] perm [of order_markets_in]
      perm [of clients_in] perm [of oracles_in] perm [of pending_in] perm [of bonds_in] perm [of app_hashes_in]
      perm [of snapshots_in]
    by (simp_all add: all_in_ledger_other split: option.splits)
  have d: "da_account_nonces d = es_account_nonces s" "da_markets d = es_markets s" "da_accounts d = es_accounts s"
    "da_books d = es_books s" "da_order_market d = es_order_market s" "da_client_order_ids d = es_client_order_ids s"
    "da_oracle d = es_oracle s" "da_pending_orders d = es_pending_orders s" "da_bonds d = es_bonds s"
    "da_batch_app_hashes d = es_batch_app_hashes s" "da_batch_snapshots d = es_batch_snapshots s" "da_key_set d = es_key_set s"
    using assms(1) maps ks by (simp_all add: state_stored_def d_def absorbed nothing_decoded_def ins_all_perm)
  then show "decoded_state d (state_meta_of s) (es_event_log s) (es_shielded_ledger s) = s"
    by (simp add: decoded_state_def state_meta_of_def)
  show "same_symbols d"
    using assms(1) by (auto simp: same_symbols_def d state_stored_def om_keys_def om_in_set_get) (metis not_None_eq)+
qed

text \<open>The keys of the entities are distinct.\<close>

lemma distinct_keys: "om_ok m \<Longrightarrow> inj ek \<Longrightarrow> distinct (map (\<lambda>x. ek (fst x)) m)"
  using om_ok_distinct [of m] by (auto simp: distinct_map inj_on_def)

lemma distinct_state_keys:
  assumes "state_stored V s"
  shows "distinct (map key_of (state_entities V s))"
proof -
  have ledger: "distinct (map key_of (ledger_entities V (es_shielded_ledger s)))"
  proof (cases "es_shielded_ledger s")
    case (Some l)
    have "distinct (sg_spent (sl_margin l))" using assms Some by (auto simp: state_stored_def spent_ok_def strict_sorted_iff)
    then show ?thesis
      using ledger_parts_shape [of V l] Some
      by (auto simp: ledger_entities_def distinct_map inj_on_def in_set_zip distinct_zipI1 split: res.splits)
  qed (simp add: ledger_entities_def)
  have ledger_keys: "set (map key_of (ledger_entities V (es_shielded_ledger s))) \<subseteq>
      {ShieldedHeaderKey} \<union> range ShieldedNoteKey \<union> range ShieldedNullifierKey"
    by (auto simp: ledger_entities_def split: option.splits res.splits)
  let ?K = "[MetaKey, EventLogKey] @ map (\<lambda>x. AccountNonceKey (fst x)) (es_account_nonces s) @
      map (\<lambda>x. MarketKey (fst x)) (es_markets s) @ map (\<lambda>x. AccountKey (fst x)) (es_accounts s) @
      map (\<lambda>x. BookKey (fst x)) (es_books s) @ map (\<lambda>x. OrderMarketKey (fst x)) (es_order_market s) @
      map (\<lambda>x. ClientOrderIdKey (fst x)) (es_client_order_ids s) @ map (\<lambda>x. OracleKey (fst x)) (es_oracle s) @
      (case es_key_set s of None \<Rightarrow> [] | Some ks \<Rightarrow> [PrivateOrderKeySetKey]) @
      map (\<lambda>x. PrivateOrderBatchKey (fst x)) (es_pending_orders s) @ map (\<lambda>x. PrivateOrderBondBatchKey (fst x)) (es_bonds s) @
      map (\<lambda>x. PrivateBatchAppHashKey (fst x)) (es_batch_app_hashes s) @
      map (\<lambda>x. PrivateBatchSnapshotKey (fst x)) (es_batch_snapshots s)"
  have keys: "map key_of (state_entities V s) = ?K @ map key_of (ledger_entities V (es_shielded_ledger s))"
    by (simp add: state_entities_def comp_def case_prod_unfold split: option.split)
  have "distinct ?K"
    using assms by (cases "es_key_set s") (auto simp: state_stored_def distinct_keys inj_on_def)
  moreover have "set ?K \<inter> ({ShieldedHeaderKey} \<union> range ShieldedNoteKey \<union> range ShieldedNullifierKey) = {}"
    by (auto split: option.splits)
  ultimately show ?thesis
    using ledger ledger_keys unfolding keys by (subst distinct_append) blast
qed

lemma fresh_in_nothing: "fresh_in nothing_decoded e"
  by (cases e) (simp_all add: nothing_decoded_def)

lemma reorder_right:
  assumes "list_all2 R xs ys" and "mset ys' = mset ys"
  shows "\<exists>xs'. mset xs' = mset xs \<and> list_all2 R xs' ys'"
  using list_all2_reorder_left_invariance [of "\<lambda>y x. R x y" ys xs ys'] assms
  by (auto simp: list_all2_conv_all_nth)

lemma list_all2_split:
  assumes "list_all2 (\<lambda>x z. \<exists>y. P x y \<and> z = f y) xs zs"
  obtains ys where "list_all2 P xs ys" and "zs = map f ys"
proof -
  from assms have "\<exists>ys. list_all2 P xs ys \<and> zs = map f ys"
  proof (induction xs zs rule: list_all2_induct)
    case (Cons x xs z zs)
    then obtain y ys where "P x y" "z = f y" "list_all2 P xs ys" "zs = map f ys" by blast
    then show ?case by (intro exI [of _ "y # ys"]) simp
  qed simp
  with that show thesis by blast
qed

lemma decode_written:
  assumes "codecs_ok C" and "state_stored V s" and "all_entities C V s = Ok ms" and "mset rs = mset (map row ms)"
  shows "decode_state C V rs = Ok (Some s)"
proof -
  from assms(3) obtain rows where w: "ledger_written V (es_shielded_ledger s)"
    and t: "traverse (write_entity C) (state_entities V s) = Ok rows" and ms: "ms = sort_entities rows"
    by (auto simp: all_entities_Ok)
  have "list_all2 (\<lambda>e r. \<exists>m. write_entity C e = Ok m \<and> r = row m) (state_entities V s) (map row rows)"
    using t by (auto simp: traverse_eq_Ok list_all2_map2 elim: list_all2_mono)
  moreover have "mset rs = mset (map row rows)" using assms(4) ms by (simp add: sort_entities_def)
  ultimately obtain es where es: "mset es = mset (state_entities V s)"
    and r: "list_all2 (\<lambda>e r. \<exists>m. write_entity C e = Ok m \<and> r = row m) es rs"
    by (blast dest: reorder_right)
  from r obtain ms' where ms': "list_all2 (\<lambda>e m. write_entity C e = Ok m) es ms'" and rs: "rs = map row ms'"
    by (rule list_all2_split)
  have "distinct (map key_of es)"
    using distinct_state_keys [OF assms(2)] es by (metis mset_eq_imp_distinct_iff mset_map)
  then have fold: "foldr_res (decode_entity C) rs nothing_decoded = Ok (fold absorb es nothing_decoded)"
    unfolding rs by (intro decode_rows [OF assms(1) ms']) (simp_all add: fresh_in_nothing)
  have "MetaOf (state_meta_of s) \<in> set es" using mset_eq_setD [OF es] by (simp add: state_entities_def)
  then have "rs \<noteq> []" using ms' by (auto simp: rs)
  then show ?thesis
    using absorbed_state [OF assms(2) es] absorbed_ledger [OF assms(2) w es]
    by (simp add: decode_state_def fold)
qed

end
