(* ===== verification/Store.thy ===== *)
theory Store
  imports State_Commitment
begin

text \<open>
  The store of a node (\<open>store.rs\<close>): four tables of a key-value database and the Jellyfish Merkle tree
  that lives in two of them. The tree is another crate: the record \<open>jmt\<close> has its \<open>put_value_set\<close>, its
  root query and its key for a root, for nodes and node keys of unknown types. The database is its
  tables; a table that does not exist reads as an empty one. A write transaction takes effect as a whole
  when it commits, so an operation returns the new tables only with \<open>Ok\<close>. Failures of the database
  itself are left out.
\<close>

record commit_metadata =
  cm_version :: nat
  cm_state_root :: bytes

record latest_value =
  lv_version :: nat
  lv_value :: "bytes option"

record ('nk, 'nd) tree_reader =
  rd_node :: "'nk \<Rightarrow> 'nd option exch"
  rd_value :: "nat \<Rightarrow> bytes \<Rightarrow> bytes option exch"
  rd_rightmost :: "('nk \<times> 'nd) option exch"

record ('nk, 'nd) tree_update =
  tu_nodes :: "('nk \<times> 'nd) list"
  tu_stale :: "(nat \<times> 'nk) list"
  tu_values :: "((nat \<times> bytes) \<times> bytes option) list"

record ('nk, 'nd) jmt =
  jm_put :: "('nk, 'nd) tree_reader \<Rightarrow> (bytes \<times> bytes option) list \<Rightarrow> nat \<Rightarrow> (bytes \<times> ('nk, 'nd) tree_update) exch"
  jm_root :: "('nk, 'nd) tree_reader \<Rightarrow> nat \<Rightarrow> bytes exch"
  jm_root_key :: "nat \<Rightarrow> 'nk"
  jm_leaf_hash :: "'nd \<Rightarrow> bytes option"

record ('nk, 'nd) store_env =
  se_codec :: state_codec
  se_shielded :: shielded_env
  se_sha :: digest
  se_jmt :: "('nk, 'nd) jmt"
  se_node_key :: "'nk codec"
  se_node :: "'nd codec"
  se_metadata :: "commit_metadata codec"
  se_latest :: "latest_value codec"

record store =
  st_entities :: "(bytes, bytes) omap"
  st_nodes :: "(bytes, bytes) omap"
  st_values :: "(bytes, bytes) omap"
  st_metadata :: "bytes option"

definition empty_store :: store where
  "empty_store = \<lparr>st_entities = [], st_nodes = [], st_values = [], st_metadata = None\<rparr>"

section \<open>The state root\<close>

definition key_hash :: "('nk, 'nd) store_env \<Rightarrow> entity_mutation \<Rightarrow> bytes" where
  "key_hash S m = se_sha S (em_key m)"

text \<open>\<open>MemoryTreeStore::default()\<close>: an empty tree.\<close>

definition empty_reader :: "('nk, 'nd) tree_reader" where
  "empty_reader = \<lparr>rd_node = (\<lambda>_. Ok None), rd_value = (\<lambda>_ _. Ok None), rd_rightmost = Ok None\<rparr>"

definition build_state_tree ::
  "('nk, 'nd) store_env \<Rightarrow> state \<Rightarrow> (bytes \<times> ('nk, 'nd) tree_update \<times> entity_mutation list) exch" where
  "build_state_tree S s =
     bindr (all_entities (se_codec S) (se_shielded S) s) (\<lambda>entities.
     bindr (jm_put (se_jmt S) empty_reader (map (\<lambda>m. (key_hash S m, em_value m)) entities) 0) (\<lambda>(root, update).
     Ok (root, update, entities)))"

definition compute_state_root :: "('nk, 'nd) store_env \<Rightarrow> state \<Rightarrow> bytes exch" where
  "compute_state_root S s =
     bindr (all_entities (se_codec S) (se_shielded S) s) (\<lambda>entities.
     bindr (jm_put (se_jmt S) empty_reader (map (\<lambda>m. (key_hash S m, em_value m)) entities) 0) (\<lambda>(root, _).
     Ok root))"

definition compute_app_hash :: "('nk, 'nd) store_env \<Rightarrow> state \<Rightarrow> bytes exch" where
  "compute_app_hash S s = compute_state_root S s"

section \<open>Reading the tables\<close>

definition get_node_option :: "('nk, 'nd) store_env \<Rightarrow> store \<Rightarrow> 'nk \<Rightarrow> 'nd option exch" where
  "get_node_option S st k =
     bindr (sc_encode (se_node_key S) k) (\<lambda>key.
     case om_get (st_nodes st) key of
       None \<Rightarrow> Ok None
     | Some bs \<Rightarrow> bindr (sc_decode (se_node S) bs ''JMT node'') (\<lambda>n. Ok (Some n)))"

definition get_value_option :: "('nk, 'nd) store_env \<Rightarrow> store \<Rightarrow> nat \<Rightarrow> bytes \<Rightarrow> bytes option exch" where
  "get_value_option S st max_version hash =
     (case om_get (st_values st) hash of
        None \<Rightarrow> Ok None
      | Some bs \<Rightarrow>
          bindr (sc_decode (se_latest S) bs ''JMT value'') (\<lambda>latest.
          if max_version < lv_version latest then Ok None else Ok (lv_value latest)))"

definition rightmost_step ::
  "('nk, 'nd) store_env \<Rightarrow> bytes \<times> bytes \<Rightarrow> ('nk \<times> 'nd) option \<Rightarrow> ('nk \<times> 'nd) option exch" where
  "rightmost_step S = (\<lambda>(key, bs) rightmost.
     bindr (sc_decode (se_node_key S) key ''JMT node key'') (\<lambda>k.
     bindr (sc_decode (se_node S) bs ''JMT node'') (\<lambda>n.
     case jm_leaf_hash (se_jmt S) n of
       None \<Rightarrow> Ok rightmost
     | Some h \<Rightarrow>
         (case Option.bind rightmost (\<lambda>(_, current). jm_leaf_hash (se_jmt S) current) of
            None \<Rightarrow> Ok (Some (k, n))
          | Some h' \<Rightarrow> if h' < h then Ok (Some (k, n)) else Ok rightmost))))"

definition get_rightmost_leaf :: "('nk, 'nd) store_env \<Rightarrow> store \<Rightarrow> ('nk \<times> 'nd) option exch" where
  "get_rightmost_leaf S st = foldr_res (rightmost_step S) (om_entries (st_nodes st)) None"

definition store_reader :: "('nk, 'nd) store_env \<Rightarrow> store \<Rightarrow> ('nk, 'nd) tree_reader" where
  "store_reader S st =
     \<lparr>rd_node = get_node_option S st, rd_value = get_value_option S st, rd_rightmost = get_rightmost_leaf S st\<rparr>"

definition read_metadata :: "('nk, 'nd) store_env \<Rightarrow> store \<Rightarrow> commit_metadata option exch" where
  "read_metadata S st =
     (case st_metadata st of
        None \<Rightarrow> Ok None
      | Some bs \<Rightarrow> bindr (sc_decode (se_metadata S) bs ''state commit metadata'') (\<lambda>m. Ok (Some m)))"

definition read_entities :: "store \<Rightarrow> (bytes \<times> bytes) list" where
  "read_entities st = om_entries (st_entities st)"

record stored_state =
  ss_state :: state
  ss_app_hash :: bytes
  ss_version :: nat

definition load_state :: "('nk, 'nd) store_env \<Rightarrow> store \<Rightarrow> stored_state option exch" where
  "load_state S st =
     bindr (read_metadata S st) (\<lambda>metadata.
     bindr (decode_state (se_codec S) (se_shielded S) (read_entities st)) (\<lambda>decoded.
     case (metadata, decoded) of
       (None, None) \<Rightarrow> Ok None
     | (Some m, None) \<Rightarrow> Err (Persistence ''state metadata exists without state entities'')
     | (None, Some s) \<Rightarrow> Err (Persistence ''state entities exist without commit metadata'')
     | (Some m, Some s) \<Rightarrow>
         bindr (compute_state_root S s) (\<lambda>reconstructed.
         if reconstructed \<noteq> cm_state_root m
         then Err (Persistence ''persisted entities do not match the state root'')
         else
           bindr (jm_root (se_jmt S) (store_reader S st) (cm_version m)) (\<lambda>persisted_tree_root.
           if persisted_tree_root \<noteq> cm_state_root m
           then Err (Persistence ''persisted JMT nodes do not match the state root'')
           else Ok (Some \<lparr>ss_state = s, ss_app_hash = cm_state_root m, ss_version = cm_version m\<rparr>)))))"

section \<open>Writing\<close>

text \<open>\<open>commit_state\<close> inserts and removes the rows of the mutations in their order.\<close>

definition write_row :: "entity_mutation \<Rightarrow> (bytes, bytes) omap \<Rightarrow> (bytes, bytes) omap" where
  "write_row m t = (case em_value m of Some v \<Rightarrow> om_insert (em_key m) v t | None \<Rightarrow> om_remove (em_key m) t)"

definition write_rows :: "entity_mutation list \<Rightarrow> (bytes, bytes) omap \<Rightarrow> (bytes, bytes) omap" where
  "write_rows ms t = fold write_row ms t"

definition build_update ::
  "('nk, 'nd) store_env \<Rightarrow> store \<Rightarrow> state option \<Rightarrow> state \<Rightarrow>
   (nat \<times> bytes \<times> ('nk, 'nd) tree_update \<times> entity_mutation list) exch" where
  "build_update S st previous s' =
     bindr (read_metadata S st) (\<lambda>metadata.
     bindr
       (case (metadata, previous) of
          (None, None) \<Rightarrow> Ok 0
        | (Some m, Some s) \<Rightarrow>
            ok_or (Persistence ''state-store version is exhausted'') (checked_add u64_max (cm_version m) 1)
        | (None, Some s) \<Rightarrow> Err (Persistence ''cannot update an uninitialized state store'')
        | (Some m, None) \<Rightarrow> Err (Persistence ''cannot initialize an already committed state store''))
     (\<lambda>version.
     bindr (state_mutations (se_codec S) (se_shielded S) previous s') (\<lambda>ms.
     bindr (jm_put (se_jmt S) (store_reader S st) (map (\<lambda>m. (key_hash S m, em_value m)) ms) version) (\<lambda>(root, update).
     Ok (version, root, update, ms)))))"

definition preview_state_root :: "('nk, 'nd) store_env \<Rightarrow> store \<Rightarrow> state option \<Rightarrow> state \<Rightarrow> bytes exch" where
  "preview_state_root S st previous s' =
     bindr (build_update S st previous s') (\<lambda>(version, root, update, ms). Ok root)"

definition insert_node ::
  "('nk, 'nd) store_env \<Rightarrow> 'nk \<times> 'nd \<Rightarrow> (bytes, bytes) omap \<Rightarrow> (bytes, bytes) omap exch" where
  "insert_node S = (\<lambda>(k, n) t.
     bindr (sc_encode (se_node_key S) k) (\<lambda>key.
     bindr (sc_encode (se_node S) n) (\<lambda>bs. Ok (om_insert key bs t))))"

definition remove_stale ::
  "('nk, 'nd) store_env \<Rightarrow> nat \<Rightarrow> nat \<times> 'nk \<Rightarrow> (bytes, bytes) omap \<Rightarrow> (bytes, bytes) omap exch" where
  "remove_stale S version = (\<lambda>(stale_since, k) t.
     if stale_since \<noteq> version then Err (Persistence ''JMT stale node version does not match commit version'')
     else
       bindr (sc_encode (se_node_key S) k) (\<lambda>key.
       if om_get t key = None then Err (Persistence ''JMT stale index refers to a missing node'')
       else Ok (om_remove key t)))"

definition remove_previous_root ::
  "('nk, 'nd) store_env \<Rightarrow> nat \<Rightarrow> (bytes, bytes) omap \<Rightarrow> (bytes, bytes) omap exch" where
  "remove_previous_root S version t =
     (case checked_sub version 1 of
        None \<Rightarrow> Ok t
      | Some previous_version \<Rightarrow>
          bindr (sc_encode (se_node_key S) (jm_root_key (se_jmt S) previous_version)) (\<lambda>key. Ok (om_remove key t)))"

definition write_value ::
  "('nk, 'nd) store_env \<Rightarrow> (nat \<times> bytes) \<times> bytes option \<Rightarrow> (bytes, bytes) omap \<Rightarrow> (bytes, bytes) omap exch" where
  "write_value S = (\<lambda>((version, hash), v) t.
     case v of
       None \<Rightarrow> Ok (om_remove hash t)
     | Some v \<Rightarrow>
         bindr (sc_encode (se_latest S) \<lparr>lv_version = version, lv_value = Some v\<rparr>) (\<lambda>bs. Ok (om_insert hash bs t)))"

definition write_tree_update :: "('nk, 'nd) store_env \<Rightarrow> nat \<Rightarrow> ('nk, 'nd) tree_update \<Rightarrow> store \<Rightarrow> store exch" where
  "write_tree_update S version u st =
     bindr (foldr_res (insert_node S) (tu_nodes u) (st_nodes st)) (\<lambda>nodes.
     bindr (foldr_res (remove_stale S version) (tu_stale u) nodes) (\<lambda>nodes.
     bindr (remove_previous_root S version nodes) (\<lambda>nodes.
     bindr (foldr_res (write_value S) (tu_values u) (st_values st)) (\<lambda>values.
     Ok (st\<lparr>st_nodes := nodes, st_values := values\<rparr>)))))"

definition write_metadata :: "('nk, 'nd) store_env \<Rightarrow> nat \<Rightarrow> bytes \<Rightarrow> store \<Rightarrow> store exch" where
  "write_metadata S version state_root st =
     bindr (sc_encode (se_metadata S) \<lparr>cm_version = version, cm_state_root = state_root\<rparr>) (\<lambda>bs.
     Ok (st\<lparr>st_metadata := Some bs\<rparr>))"

definition commit_state :: "('nk, 'nd) store_env \<Rightarrow> state option \<Rightarrow> state \<Rightarrow> store \<Rightarrow> (bytes \<times> store) exch" where
  "commit_state S previous s' st =
     bindr (build_update S st previous s') (\<lambda>(version, root, update, ms).
     bindr (write_tree_update S version update (st\<lparr>st_entities := write_rows ms (st_entities st)\<rparr>)) (\<lambda>st.
     bindr (write_metadata S version root st) (\<lambda>st.
     Ok (root, st))))"

definition insert_entity :: "entity_mutation \<Rightarrow> (bytes, bytes) omap \<Rightarrow> (bytes, bytes) omap exch" where
  "insert_entity m t =
     bindr (ok_or (Persistence ''full state replacement unexpectedly contained a deletion'') (em_value m)) (\<lambda>v.
     Ok (om_insert (em_key m) v t))"

text \<open>Every old row is removed before the new ones are written.\<close>

definition clear_table :: "(bytes, bytes) omap \<Rightarrow> (bytes, bytes) omap" where
  "clear_table t = fold om_remove (om_keys t) t"

definition replace_state :: "('nk, 'nd) store_env \<Rightarrow> state \<Rightarrow> store \<Rightarrow> (bytes \<times> store) exch" where
  "replace_state S s' st =
     bindr (build_state_tree S s') (\<lambda>(root, update, entities).
     bindr (foldr_res insert_entity entities (clear_table (st_entities st))) (\<lambda>table.
     bindr (write_tree_update S 0 update
       (st\<lparr>st_entities := table, st_nodes := clear_table (st_nodes st), st_values := clear_table (st_values st)\<rparr>)) (\<lambda>st.
     bindr (write_metadata S 0 root st) (\<lambda>st.
     Ok (root, st)))))"

end
