(* ===== verification/State_Diff.thy ===== *)
theory State_Diff
  imports State_Decode Store Shielded_Sound
begin

text \<open>
  The changed rows: writing \<open>state_mutations\<close> of two states over the table of the first gives the table
  of the second. Both are described by \<open>entity_at\<close>, the entity that a state holds under a key. That the
  notes of the new ledger extend the notes of the old one is known from the compared Merkle roots only,
  so it rests on the hashed strings having no collision.
\<close>

section \<open>The entity under a key\<close>

definition ledger_header_of :: "shielded_env \<Rightarrow> shielded_ledger \<Rightarrow> ledger_header option" where
  "ledger_header_of V l = (case ledger_parts V l of Ok (h, ns, spent) \<Rightarrow> Some h | _ \<Rightarrow> None)"

fun entity_at :: "shielded_env \<Rightarrow> state \<Rightarrow> entity_key \<Rightarrow> entity option" where
  "entity_at V s MetaKey = Some (MetaOf (state_meta_of s))"
| "entity_at V s EventLogKey = Some (EventLogOf (es_event_log s))"
| "entity_at V s (AccountNonceKey k) = map_option (NonceOf k) (om_get (es_account_nonces s) k)"
| "entity_at V s (MarketKey k) = map_option (MarketOf k) (om_get (es_markets s) k)"
| "entity_at V s (AccountKey k) = map_option (AccountOf k) (om_get (es_accounts s) k)"
| "entity_at V s (BookKey k) = map_option (BookOf k) (om_get (es_books s) k)"
| "entity_at V s (OrderMarketKey k) = map_option (OrderMarketOf k) (om_get (es_order_market s) k)"
| "entity_at V s (ClientOrderIdKey k) = map_option (ClientOrderOf k) (om_get (es_client_order_ids s) k)"
| "entity_at V s (OracleKey k) = map_option (OracleOf k) (om_get (es_oracle s) k)"
| "entity_at V s PrivateOrderKeySetKey = map_option KeySetOf (es_key_set s)"
| "entity_at V s (PrivateOrderBatchKey k) = map_option (PendingOf k) (om_get (es_pending_orders s) k)"
| "entity_at V s (PrivateOrderBondBatchKey k) = map_option (BondsOf k) (om_get (es_bonds s) k)"
| "entity_at V s (PrivateBatchAppHashKey k) = map_option (AppHashOf k) (om_get (es_batch_app_hashes s) k)"
| "entity_at V s (PrivateBatchSnapshotKey k) = map_option (SnapshotOf k) (om_get (es_batch_snapshots s) k)"
| "entity_at V s ShieldedHeaderKey =
     map_option HeaderOf (Option.bind (es_shielded_ledger s) (ledger_header_of V))"
| "entity_at V s (ShieldedNoteKey i) =
     Option.bind (es_shielded_ledger s) (\<lambda>l.
     if i < length (leaves_of (sl_margin l)) then Some (NoteOf i (leaves_of (sl_margin l) ! i)) else None)"
| "entity_at V s (ShieldedNullifierKey x) =
     Option.bind (es_shielded_ledger s) (\<lambda>l. if x \<in> set (sg_spent (sl_margin l)) then Some (NullifierOf x) else None)"

lemma in_ledger_entities:
  assumes "ledger_written V (es_shielded_ledger s)"
    and "key_of e \<in> {ShieldedHeaderKey} \<union> range ShieldedNoteKey \<union> range ShieldedNullifierKey"
  shows "e \<in> set (ledger_entities V (es_shielded_ledger s)) \<longleftrightarrow> entity_at V s (key_of e) = Some e"
proof (cases "es_shielded_ledger s")
  case None
  with assms(2) show ?thesis by (cases e) (auto simp: ledger_entities_def)
next
  case (Some l)
  then obtain h ns spent where p: "ledger_parts V l = Ok (h, ns, spent)"
    using assms(1) by (auto simp: ledger_written_def)
  have "ns = leaves_of (sl_margin l)" "spent = sg_spent (sl_margin l)" using ledger_parts_shape [OF p] by simp_all
  moreover have "NoteOf i n \<in> (\<lambda>(i, n). NoteOf i n) ` set (zip [0..<length ns] ns) \<longleftrightarrow> i < length ns \<and> n = ns ! i" for i n
    by (force simp: set_zip image_iff)
  ultimately show ?thesis using assms(2) Some p
    by (cases e) (auto simp: ledger_entities_def ledger_header_of_def)
qed

lemma not_in_ledger_entities:
  "key_of e \<notin> {ShieldedHeaderKey} \<union> range ShieldedNoteKey \<union> range ShieldedNullifierKey \<Longrightarrow>
     e \<notin> set (ledger_entities V ledger)"
  by (auto simp: ledger_entities_def split: option.splits res.splits)

lemma in_state_entities:
  assumes "state_stored V s" and "ledger_written V (es_shielded_ledger s)"
  shows "e \<in> set (state_entities V s) \<longleftrightarrow> entity_at V s (key_of e) = Some e"
proof (cases "key_of e \<in> {ShieldedHeaderKey} \<union> range ShieldedNoteKey \<union> range ShieldedNullifierKey")
  case True
  then have "e \<in> set (state_entities V s) \<longleftrightarrow> e \<in> set (ledger_entities V (es_shielded_ledger s))"
    by (cases e) (auto simp: state_entities_def split: option.splits)
  with in_ledger_entities [OF assms(2) True] show ?thesis by simp
next
  case False
  have maps: "e k v \<in> (\<lambda>(k, v). e k v) ` set m \<longleftrightarrow> om_get m k = Some v"
    if "om_ok m" and "\<And>k v k' v'. e k v = e k' v' \<longleftrightarrow> k = k' \<and> v = v'" for e :: "'k::linorder \<Rightarrow> 'v \<Rightarrow> entity" and k v m
    using om_in_set_get [OF that(1), of k v] that(2) by (force simp: image_iff)
  have ok: "om_ok (es_account_nonces s)" "om_ok (es_markets s)" "om_ok (es_accounts s)" "om_ok (es_books s)"
    "om_ok (es_order_market s)" "om_ok (es_client_order_ids s)" "om_ok (es_oracle s)" "om_ok (es_pending_orders s)"
    "om_ok (es_bonds s)" "om_ok (es_batch_app_hashes s)" "om_ok (es_batch_snapshots s)"
    using assms(1) by (simp_all add: state_stored_def)
  have other: "e' \<notin> (\<lambda>(k, v). f k v) ` A" if "\<And>k v. e' \<noteq> f k v" for e' and f :: "'k \<Rightarrow> 'v \<Rightarrow> entity" and A
    using that by auto
  have no_keys: "e' \<notin> KeySetOf ` A" if "\<And>k. e' \<noteq> KeySetOf k" for e' A
    using that by auto
  have keys: "KeySetOf x \<in> KeySetOf ` A \<longleftrightarrow> x \<in> A" for x A
    by auto
  from False not_in_ledger_entities [OF False] show ?thesis
    unfolding state_entities_def
    by (cases e) (simp_all add: maps [OF ok(1)] maps [OF ok(2)] maps [OF ok(3)] maps [OF ok(4)] maps [OF ok(5)] maps [OF ok(6)]
      maps [OF ok(7)] maps [OF ok(8)] maps [OF ok(9)] maps [OF ok(10)] maps [OF ok(11)] other no_keys keys, auto)
qed

lemma key_of_entity_at: "entity_at V s k = Some e \<Longrightarrow> key_of e = k"
  by (cases k) (auto simp: bind_eq_Some_conv split: if_splits)

section \<open>Tables\<close>

lemma om_ok_write_rows: "om_ok t \<Longrightarrow> om_ok (write_rows ms t)"
  unfolding write_rows_def by (induction ms arbitrary: t) (auto simp: write_row_def split: option.splits)

lemma om_get_write_rows:
  assumes "\<And>m. m \<in> set ms \<Longrightarrow> em_key m = k \<Longrightarrow> em_value m = v"
  shows "om_get (write_rows ms t) k = (if k \<in> em_key ` set ms then v else om_get t k)"
  using assms unfolding write_rows_def
  by (induction ms arbitrary: t rule: rev_induct) (auto simp: write_row_def split: option.splits)

lemma om_get_write_all:
  assumes "distinct (map em_key ms)" and "m \<in> set ms"
  shows "om_get (write_rows ms []) (em_key m) = em_value m"
proof -
  have "om_get (write_rows ms []) (em_key m) = (if em_key m \<in> em_key ` set ms then em_value m else om_get [] (em_key m))"
    using assms by (intro om_get_write_rows) (auto simp: distinct_map dest: inj_onD)
  with assms(2) show ?thesis by simp
qed

lemma all_entities_rows:
  assumes "all_entities C V s = Ok ms"
  obtains rows where "ledger_written V (es_shielded_ledger s)" and "list_all2 (\<lambda>e m. write_entity C e = Ok m) (state_entities V s) rows"
    and "mset ms = mset rows"
proof -
  from assms obtain rows where "ledger_written V (es_shielded_ledger s)"
    and "traverse (write_entity C) (state_entities V s) = Ok rows" and "ms = sort_entities rows"
    unfolding all_entities_Ok by blast
  with that [of rows] show thesis by (simp add: traverse_eq_Ok sort_entities_def)
qed

lemma distinct_row_keys:
  assumes "codec_ok (sc_key C)" and "list_all2 (\<lambda>e m. write_entity C e = Ok m) es ms" and "distinct (map key_of es)"
  shows "distinct (map em_key ms)"
proof -
  have "entity_key_bytes C (key_of (es ! i)) = Ok (em_key (ms ! i))" if "i < length ms" for i
    using assms(2) that by (auto simp: list_all2_conv_all_nth write_entity_Ok)
  then have "key_of (es ! i) = key_of (es ! j)" if "i < length ms" "j < length ms" "em_key (ms ! i) = em_key (ms ! j)" for i j
    using that entity_key_bytes_inject [OF assms(1)] by simp
  moreover have "length ms = length es" using list_all2_lengthD [OF assms(2)] by simp
  ultimately show ?thesis
    using assms(3) unfolding distinct_conv_nth length_map by (metis nth_map)
qed

lemma table_lookup:
  assumes "codec_ok (sc_key C)" and "state_stored V s" and "all_entities C V s = Ok ms"
  shows "om_get (write_rows ms []) kb = Some vb \<longleftrightarrow>
     (\<exists>k e. entity_key_bytes C k = Ok kb \<and> entity_at V s k = Some e \<and> value_json C e = Some vb)" (is "?L \<longleftrightarrow> ?R")
    and "entity_at V s k = Some e \<Longrightarrow> \<exists>m. write_entity C e = Ok m"
proof -
  obtain rows where w: "ledger_written V (es_shielded_ledger s)"
    and rows: "list_all2 (\<lambda>e m. write_entity C e = Ok m) (state_entities V s) rows" and ms: "mset ms = mset rows"
    using assms(3) by (rule all_entities_rows)
  have d: "distinct (map em_key ms)"
    using distinct_row_keys [OF assms(1) rows distinct_state_keys [OF assms(2)]] ms by (metis mset_eq_imp_distinct_iff mset_map)
  have len: "length rows = length (state_entities V s)"
    and nth: "\<And>i. i < length rows \<Longrightarrow> write_entity C (state_entities V s ! i) = Ok (rows ! i)"
    using rows by (auto simp: list_all2_conv_all_nth)
  have row_of: "\<exists>e. entity_at V s (key_of e) = Some e \<and> write_entity C e = Ok m" if "m \<in> set ms" for m
  proof -
    have "m \<in> set rows" using that mset_eq_setD [OF ms] by simp
    then obtain i where "i < length rows" "rows ! i = m" by (auto simp: in_set_conv_nth)
    with len nth in_state_entities [OF assms(2) w] nth_mem show ?thesis by metis
  qed
  have written: "\<exists>m \<in> set ms. write_entity C e = Ok m" if "entity_at V s k = Some e" for e k
  proof -
    have "e \<in> set (state_entities V s)" using that key_of_entity_at [OF that] in_state_entities [OF assms(2) w] by simp
    then obtain i where "i < length rows" "state_entities V s ! i = e" using len by (auto simp: in_set_conv_nth)
    then have "rows ! i \<in> set ms" "write_entity C e = Ok (rows ! i)" using nth mset_eq_setD [OF ms] by auto
    then show ?thesis by blast
  qed
  show "\<exists>m. write_entity C e = Ok m" if "entity_at V s k = Some e" using written [OF that] by blast
  show "?L \<longleftrightarrow> ?R"
  proof
    assume l: ?L
    have "kb \<in> em_key ` set ms"
    proof (rule ccontr)
      assume "kb \<notin> em_key ` set ms"
      then have "om_get (write_rows ms []) kb = om_get [] kb" by (subst om_get_write_rows [where v = None]) auto
      with l show False by simp
    qed
    then obtain m where m: "m \<in> set ms" "kb = em_key m" by auto
    with om_get_write_all [OF d] l row_of [OF m(1)] show ?R by (auto simp: write_entity_Ok)
  next
    assume ?R
    then obtain k e where k: "entity_key_bytes C k = Ok kb" "entity_at V s k = Some e" "value_json C e = Some vb" by blast
    from written [OF k(2)] obtain m where m: "m \<in> set ms" "write_entity C e = Ok m" by blast
    then have "em_key m = kb" "em_value m = Some vb" using k key_of_entity_at [OF k(2)] by (auto simp: write_entity_Ok)
    with om_get_write_all [OF d m(1)] show ?L by simp
  qed
qed

section \<open>Rows that carry one state to another\<close>

definition row_for :: "state_codec \<Rightarrow> shielded_env \<Rightarrow> state \<Rightarrow> entity_mutation \<Rightarrow> entity_key \<Rightarrow> bool" where
  "row_for C V s' m k \<longleftrightarrow> entity_key_bytes C k = Ok (em_key m) \<and>
     (case entity_at V s' k of None \<Rightarrow> em_value m = None | Some e \<Rightarrow> value_json C e = em_value m \<and> em_value m \<noteq> None)"

definition covers :: "state_codec \<Rightarrow> shielded_env \<Rightarrow> state \<Rightarrow> state \<Rightarrow> entity_key set \<Rightarrow> entity_mutation list \<Rightarrow> bool" where
  "covers C V s s' K cs \<longleftrightarrow> (\<forall>m \<in> set cs. \<exists>k. row_for C V s' m k) \<and>
     (\<forall>k \<in> K. entity_at V s k = entity_at V s' k \<or> (\<exists>m \<in> set cs. row_for C V s' m k))"

lemma covers_append: "covers C V s s' K cs \<Longrightarrow> covers C V s s' L ds \<Longrightarrow> covers C V s s' (K \<union> L) (cs @ ds)"
  by (auto simp: covers_def)

lemma covers_same: "(\<And>k. k \<in> K \<Longrightarrow> entity_at V s k = entity_at V s' k) \<Longrightarrow> covers C V s s' K []"
  by (simp add: covers_def)

lemma row_for_write: "write_entity C e = Ok m \<Longrightarrow> entity_at V s' (key_of e) = Some e \<Longrightarrow> row_for C V s' m (key_of e)"
  by (auto simp: row_for_def write_entity_Ok)

lemma row_for_remove: "mutation C cd k None = Ok m \<Longrightarrow> entity_at V s' k = None \<Longrightarrow> row_for C V s' m k"
  by (auto simp: row_for_def mutation_def)

text \<open>A pass of \<open>traverse\<close> whose items each write the row of a key.\<close>

lemma covers_traverse:
  assumes "traverse f xs = Ok cs" and "\<And>x m. x \<in> set xs \<Longrightarrow> f x = Ok m \<Longrightarrow> row_for C V s' m (ek x)"
    and "\<And>k. k \<in> K \<Longrightarrow> k \<notin> ek ` set xs \<Longrightarrow> entity_at V s k = entity_at V s' k"
  shows "covers C V s s' K cs"
proof -
  have cs: "length cs = length xs" "\<And>i. i < length xs \<Longrightarrow> f (xs ! i) = Ok (cs ! i)"
    using assms(1) by (auto simp: traverse_eq_Ok list_all2_conv_all_nth)
  then have "\<exists>k. row_for C V s' m k" if "m \<in> set cs" for m
    using that assms(2) by (metis in_set_conv_nth)
  moreover have "\<exists>m \<in> set cs. row_for C V s' m k" if "k \<in> ek ` set xs" for k
    using that cs assms(2) by (metis imageE in_set_conv_nth)
  ultimately show ?thesis using assms(3) unfolding covers_def by blast
qed

fun diff_key :: "('k, 'v) diff_item \<Rightarrow> 'k" where
  "diff_key (Added k v) = k" | "diff_key (Updated k v) = k" | "diff_key (Removed k) = k"

fun diff_value :: "('k, 'v) diff_item \<Rightarrow> 'v option" where
  "diff_value (Added k v) = Some v" | "diff_value (Updated k v) = Some v" | "diff_value (Removed k) = None"

lemma om_get_below: "om_ok ((k, v) # m) \<Longrightarrow> k' \<le> k \<Longrightarrow> om_get m k' = None"
  by (auto simp: om_ok_Cons om_get_def map_of_eq_None_iff dest: leD)

lemma om_get_Cons: "om_get ((k, v) # m) k' = (if k' = k then Some v else om_get m k')"
  by (simp add: om_get_def)

lemma om_diff_keys: "d \<in> set (om_diff xs ys) \<Longrightarrow> diff_key d \<in> fst ` set xs \<union> fst ` set ys"
  by (induction xs ys rule: om_diff.induct) (force split: if_splits)+

lemma om_diff_sound:
  "om_ok xs \<Longrightarrow> om_ok ys \<Longrightarrow> d \<in> set (om_diff xs ys) \<Longrightarrow> om_get ys (diff_key d) = diff_value d"
proof (induction xs ys rule: om_diff.induct)
  case (1 ys)
  then show ?case by (auto simp: om_in_set_get)
next
  case (3 k v xs k' v' ys)
  have ok: "om_ok xs" "om_ok ys" and below: "\<And>j. j \<in> fst ` set xs \<Longrightarrow> k < j" "\<And>j. j \<in> fst ` set ys \<Longrightarrow> k' < j"
    using 3(5,6) by (auto simp: om_ok_Cons)
  note keys = om_diff_keys [of d xs "(k', v') # ys"] om_diff_keys [of d "(k, v) # xs" ys] om_diff_keys [of d xs ys]
  consider (removed) "k < k'" "d = Removed k" | (left) "k < k'" "d \<in> set (om_diff xs ((k', v') # ys))"
    | (added) "k' < k" "d = Added k' v'" | (right) "k' < k" "d \<in> set (om_diff ((k, v) # xs) ys)"
    | (same) "k = k'" "d \<in> set (om_diff xs ys)" | (updated) "k = k'" "v \<noteq> v'" "d = Updated k' v'"
    using 3(7) by (auto split: if_splits)
  then show ?case
  proof cases
    case removed
    then show ?thesis using om_get_below [of k' v' ys k] 3(6) by (simp add: om_get_Cons)
  next
    case left
    then show ?thesis using 3(1) ok(1) 3(6) by simp
  next
    case added
    then show ?thesis by (simp add: om_get_Cons)
  next
    case right
    then have "diff_key d \<noteq> k'" using keys(2) below by force
    moreover have "om_get ys (diff_key d) = diff_value d" using right 3(2) 3(5) ok by simp
    ultimately show ?thesis by (simp add: om_get_Cons)
  next
    case same
    then have "diff_key d \<noteq> k'" using keys(3) below by force
    moreover have "om_get ys (diff_key d) = diff_value d" using same 3(3,4) ok by (cases "v = v'") auto
    ultimately show ?thesis by (simp add: om_get_Cons)
  qed (simp add: om_get_Cons)
qed auto

lemma om_diff_complete:
  "om_ok xs \<Longrightarrow> om_ok ys \<Longrightarrow> j \<notin> diff_key ` set (om_diff xs ys) \<Longrightarrow> om_get xs j = om_get ys j"
proof (induction xs ys rule: om_diff.induct)
  case (1 ys)
  then have "j \<notin> fst ` set ys" by force
  then have "om_get ys j = None" by (simp add: om_get_def map_of_eq_None_iff)
  then show ?case by simp
next
  case (2 x xs)
  then have "j \<notin> fst ` set (x # xs)" by force
  then show ?case by (simp add: om_get_def map_of_eq_None_iff)
next
  case (3 k v xs k' v' ys)
  have ok: "om_ok xs" "om_ok ys" using 3(5,6) by (auto simp: om_ok_Cons)
  consider "k < k'" | "k' < k" | "k = k'" by (rule linorder_cases)
  then show ?case
  proof cases
    case 1
    then have "j \<noteq> k" and j: "j \<notin> diff_key ` set (om_diff xs ((k', v') # ys))" using 3(7) by auto
    from 3(1) [OF 1 ok(1) 3(6) j] \<open>j \<noteq> k\<close> show ?thesis by (simp add: om_get_Cons)
  next
    case 2
    then have n: "\<not> k < k'" by simp
    with 2 have "j \<noteq> k'" and j: "j \<notin> diff_key ` set (om_diff ((k, v) # xs) ys)" using 3(7) by auto
    from 3(2) [OF n 2 3(5) ok(2) j] \<open>j \<noteq> k'\<close> show ?thesis by (simp add: om_get_Cons)
  next
    case c: 3
    show ?thesis
    proof (cases "v = v'")
      case True
      with c 3(3) ok 3(7) show ?thesis by (auto simp: om_get_Cons)
    next
      case False
      with c 3(4) ok 3(7) show ?thesis by (auto simp: om_get_Cons)
    qed
  qed
qed

lemma covers_map_diff:
  assumes "push_map_diff C cd ek m m' = Ok cs" and "om_ok m" and "om_ok m'"
    and "\<And>k v. mutation C cd (ek k) (Some v) = write_entity C (e k v)" and "\<And>k v. key_of (e k v) = ek k"
    and "\<And>k. entity_at V s (ek k) = map_option (e k) (om_get m k)"
    and "\<And>k. entity_at V s' (ek k) = map_option (e k) (om_get m' k)"
  shows "covers C V s s' (range ek) cs"
proof (rule covers_traverse [OF assms(1) [unfolded push_map_diff_def], where ek = "\<lambda>d. ek (diff_key d)"])
  fix d r assume d: "d \<in> set (om_diff m m')" and r: "diff_mutation C cd ek d = Ok r"
  have at: "entity_at V s' (ek (diff_key d)) = map_option (e (diff_key d)) (diff_value d)"
    using om_diff_sound [OF assms(2,3) d] assms(7) by simp
  from r show "row_for C V s' r (ek (diff_key d))"
  proof (cases d)
    case (Added k v)
    with r at assms(4,5) row_for_write [of C "e k v" r V s'] show ?thesis by simp
  next
    case (Updated k v)
    with r at assms(4,5) row_for_write [of C "e k v" r V s'] show ?thesis by simp
  next
    case (Removed k)
    with r at row_for_remove [of C cd "ek k" r V s'] show ?thesis by simp
  qed
next
  fix k assume "k \<in> range ek" and "k \<notin> (\<lambda>d. ek (diff_key d)) ` set (om_diff m m')"
  then obtain j where "k = ek j" "j \<notin> diff_key ` set (om_diff m m')" by auto
  with om_diff_complete [OF assms(2,3)] show "entity_at V s k = entity_at V s' k" by (simp add: assms(6,7))
qed

section \<open>The notes of the ledger\<close>

lemma subtree_determines:
  assumes len: "\<And>b. length (H b) = 32" and inj: "inj_on H (tree_inputs H ns \<union> tree_inputs H ms)"
  shows "h \<le> MERKLE_DEPTH \<Longrightarrow> subtree H ns h i = subtree H ms h i \<Longrightarrow> j div 2 ^ h = i \<Longrightarrow>
    subtree_input H ns 0 j = subtree_input H ms 0 j"
proof (induction h arbitrary: i)
  case 0
  then have "H (subtree_input H ns 0 j) = H (subtree_input H ms 0 j)" by (simp only: subtree_hash power_0 div_by_1)
  then show ?case using inj_onD [OF inj] subtree_input_in [of 0] by (metis UnI1 UnI2 le0)
next
  case (Suc h)
  have "H (subtree_input H ns (Suc h) i) = H (subtree_input H ms (Suc h) i)" using Suc.prems(2) by (simp only: subtree_hash)
  then have "subtree_input H ns (Suc h) i = subtree_input H ms (Suc h) i"
    using inj_onD [OF inj] subtree_input_in [OF Suc.prems(1)] by blast
  then have eq: "subtree H ns h (2 * i) = subtree H ms h (2 * i)" "subtree H ns h (2 * i + 1) = subtree H ms h (2 * i + 1)"
    using node_input_inject [of "subtree H ns h (2 * i)" "subtree H ms h (2 * i)" "subtree H ns h (2 * i + 1)" "subtree H ms h (2 * i + 1)"]
    by (simp_all add: subtree_hash len del: subtree.simps)
  have half: "x = 2 * i \<or> x = Suc (2 * i)" if "x div 2 = i" for x :: nat
    using that by presburger
  have "j div 2 ^ h = 2 * i \<or> j div 2 ^ h = 2 * i + 1"
    using Suc.prems(3) half by (simp add: power_Suc2 div_mult2_eq del: power_Suc)
  then show ?case using Suc.IH [of "2 * i"] Suc.IH [of "2 * i + 1"] eq Suc.prems(1) by auto
qed

lemma root_determines_notes:
  assumes "\<And>b. length (H b) = 32" and "inj_on H (tree_inputs H ns \<union> tree_inputs H ms)"
    and "merkle_root H ns = merkle_root H ms" and "\<forall>n \<in> set ns \<union> set ms. note_wf n"
    and "length ns \<le> 2 ^ MERKLE_DEPTH" and "length ms \<le> 2 ^ MERKLE_DEPTH"
  shows "ns = ms"
proof -
  have same: "subtree_input H ns 0 j = subtree_input H ms 0 j" if "j < 2 ^ MERKLE_DEPTH" for j
    using subtree_determines [OF assms(1,2), of MERKLE_DEPTH 0 j] assms(3) that by (simp add: merkle_root_subtree del: subtree_input.simps)
  have both: "j < length ns \<longleftrightarrow> j < length ms" for j
    using same [of j] assms(5,6) leaf_input_not_empty leaf_input_not_empty [symmetric]
    by (cases "j < 2 ^ MERKLE_DEPTH") (auto split: if_splits)
  then have "length ns = length ms" by (metis less_irrefl_nat linorder_neqE_nat)
  moreover have "ns ! j = ms ! j" if "j < length ns" for j
    using same [of j] that both [of j] assms(4,5) by (auto simp: leaf_input_inject)
  ultimately show ?thesis by (rule nth_equalityI)
qed

text \<open>No two notes of the two states have colliding tree hashes.\<close>

definition notes_distinguished :: "shielded_env \<Rightarrow> state \<Rightarrow> state \<Rightarrow> bool" where
  "notes_distinguished V s s' \<longleftrightarrow> (\<forall>b. length (sv_sha V b) = 32) \<and>
     (\<forall>l l'. es_shielded_ledger s = Some l \<longrightarrow> es_shielded_ledger s' = Some l' \<longrightarrow>
        (let ns = leaves_of (sl_margin l); ms = take (length ns) (leaves_of (sl_margin l')) in
         (\<forall>n \<in> set ns \<union> set ms. note_wf n) \<and>
         inj_on (sv_sha V) (tree_inputs (sv_sha V) ns \<union> tree_inputs (sv_sha V) ms)))"

abbreviation shielded_keys :: "entity_key set" where
  "shielded_keys \<equiv> {ShieldedHeaderKey} \<union> range ShieldedNoteKey \<union> range ShieldedNullifierKey"

lemma shielded_rows:
  assumes "state_stored V s'" and "es_shielded_ledger s' = Some l'" and "ledger_parts V l' = Ok (h', ns', spent')"
  shows "traverse (mutation C (sc_header C) ShieldedHeaderKey) [Some h'] = Ok as \<Longrightarrow>
      covers C V s s' {ShieldedHeaderKey} as"
    and "push_notes C (map (\<lambda>i. (i, ns' ! i)) [k..<length ns']) = Ok bs \<Longrightarrow>
      (\<And>i. i < k \<or> length ns' \<le> i \<Longrightarrow> entity_at V s (ShieldedNoteKey i) = entity_at V s' (ShieldedNoteKey i)) \<Longrightarrow>
      covers C V s s' (range ShieldedNoteKey) bs"
    and "push_nullifiers C xs = Ok cs \<Longrightarrow> set xs \<subseteq> set spent' \<Longrightarrow>
      (\<And>x. x \<notin> set xs \<Longrightarrow> entity_at V s (ShieldedNullifierKey x) = entity_at V s' (ShieldedNullifierKey x)) \<Longrightarrow>
      covers C V s s' (range ShieldedNullifierKey) cs"
proof -
  note shape = ledger_parts_shape [OF assms(3)]
  have at: "entity_at V s' ShieldedHeaderKey = Some (HeaderOf h')"
    "\<And>i. i < length ns' \<Longrightarrow> entity_at V s' (ShieldedNoteKey i) = Some (NoteOf i (ns' ! i))"
    "\<And>x. x \<in> set spent' \<Longrightarrow> entity_at V s' (ShieldedNullifierKey x) = Some (NullifierOf x)"
    using assms(2,3) shape by (simp_all add: ledger_header_of_def)
  show "covers C V s s' {ShieldedHeaderKey} as"
    if "traverse (mutation C (sc_header C) ShieldedHeaderKey) [Some h'] = Ok as"
    by (rule covers_traverse [OF that, where ek = "\<lambda>_. ShieldedHeaderKey"])
      (use at(1) row_for_write [of C "HeaderOf h'"] in \<open>auto simp: mutation_write\<close>)
  show "covers C V s s' (range ShieldedNoteKey) bs"
    if "push_notes C (map (\<lambda>i. (i, ns' ! i)) [k..<length ns']) = Ok bs"
      and same: "\<And>i. i < k \<or> length ns' \<le> i \<Longrightarrow> entity_at V s (ShieldedNoteKey i) = entity_at V s' (ShieldedNoteKey i)"
  proof (rule covers_traverse [OF that(1) [unfolded push_notes_def traverse_map prod.case], where ek = ShieldedNoteKey])
    fix i m assume "i \<in> set [k..<length ns']" and "mutation C (sc_note C) (ShieldedNoteKey i) (Some (ns' ! i)) = Ok m"
    then show "row_for C V s' m (ShieldedNoteKey i)"
      using at(2) [of i] row_for_write [of C "NoteOf i (ns' ! i)" m V s'] by (simp add: mutation_write)
  next
    fix key assume "key \<in> range ShieldedNoteKey" and "key \<notin> ShieldedNoteKey ` set [k..<length ns']"
    then obtain i where "key = ShieldedNoteKey i" "i < k \<or> length ns' \<le> i" by force
    then show "entity_at V s key = entity_at V s' key" using same by (simp only:)
  qed
  show "covers C V s s' (range ShieldedNullifierKey) cs"
    if "push_nullifiers C xs = Ok cs" and sub: "set xs \<subseteq> set spent'"
      and same: "\<And>x. x \<notin> set xs \<Longrightarrow> entity_at V s (ShieldedNullifierKey x) = entity_at V s' (ShieldedNullifierKey x)"
  proof (rule covers_traverse [OF that(1) [unfolded push_nullifiers_def], where ek = ShieldedNullifierKey])
    fix x m assume "x \<in> set xs" and "mutation C (sc_unit C) (ShieldedNullifierKey x) (Some ()) = Ok m"
    then show "row_for C V s' m (ShieldedNullifierKey x)"
      using at(3) [of x] sub row_for_write [of C "NullifierOf x" m V s'] by (auto simp: mutation_write)
  next
    fix key assume "key \<in> range ShieldedNullifierKey" and "key \<notin> ShieldedNullifierKey ` set xs"
    then obtain x where "key = ShieldedNullifierKey x" "x \<notin> set xs" by auto
    then show "entity_at V s key = entity_at V s' key" using same by (simp only:)
  qed
qed

lemma zip_upt: "zip [0..<length ns] ns = map (\<lambda>i. (i, ns ! i)) [0..<length ns]"
  by (rule nth_equalityI) auto

lemma covers_shielded_append:
  "covers C V s s' {ShieldedHeaderKey} as \<Longrightarrow> covers C V s s' (range ShieldedNoteKey) bs \<Longrightarrow>
     covers C V s s' (range ShieldedNullifierKey) cs \<Longrightarrow> covers C V s s' shielded_keys (as @ bs @ cs)"
  by (auto simp: covers_def)

lemma covers_new_ledger:
  assumes "state_stored V s'" and "es_shielded_ledger s = None" and "es_shielded_ledger s' = Some l'"
    and "push_complete_shielded_ledger C V l' = Ok cs"
  shows "covers C V s s' shielded_keys cs"
proof -
  from assms(4) obtain h' ns' spent' as bs ds where p: "ledger_parts V l' = Ok (h', ns', spent')"
    and parts: "traverse (mutation C (sc_header C) ShieldedHeaderKey) [Some h'] = Ok as"
      "push_notes C (map (\<lambda>i. (i, ns' ! i)) [0..<length ns']) = Ok bs" "push_nullifiers C spent' = Ok ds"
    and cs: "cs = as @ bs @ ds"
    by (auto simp: push_complete_shielded_ledger_def zip_upt simp del: traverse.simps)
  note rows = shielded_rows [OF assms(1,3) p]
  show ?thesis unfolding cs
    using assms(2,3) ledger_parts_shape [OF p]
    by (intro covers_shielded_append rows(1) [OF parts(1)] rows(2) [OF parts(2)] rows(3) [OF parts(3)]) auto
qed

lemma covers_dropped_ledger:
  assumes "es_shielded_ledger s = Some l" and "es_shielded_ledger s' = None" and "remove_shielded_ledger C V l = Ok cs"
  shows "covers C V s s' shielded_keys cs"
proof -
  from assms(3) obtain h ns spent as bs ds where p: "ledger_parts V l = Ok (h, ns, spent)"
    and parts: "traverse (mutation C (sc_header C) ShieldedHeaderKey) [None] = Ok as"
      "traverse (\<lambda>i. mutation C (sc_note C) (ShieldedNoteKey i) None) [0..<mh_note_count (lh_margin h)] = Ok bs"
      "traverse (\<lambda>x. mutation C (sc_unit C) (ShieldedNullifierKey x) None) spent = Ok ds"
    and cs: "cs = as @ bs @ ds"
    by (auto simp: remove_shielded_ledger_def simp del: traverse.simps)
  have n: "mh_note_count (lh_margin h) = length (leaves_of (sl_margin l))" "spent = sg_spent (sl_margin l)"
    using ledger_parts_shape [OF p] by (simp_all add: margin_header_of_def)
  have "covers C V s s' {ShieldedHeaderKey} as"
    by (rule covers_traverse [OF parts(1), where ek = "\<lambda>_. ShieldedHeaderKey"])
      (use assms(2) in \<open>auto intro: row_for_remove\<close>)
  moreover have "covers C V s s' (range ShieldedNoteKey) bs"
    by (rule covers_traverse [OF parts(2), where ek = ShieldedNoteKey])
      (use assms(1,2) n in \<open>auto intro!: row_for_remove split: if_splits\<close>)
  moreover have "covers C V s s' (range ShieldedNullifierKey) ds"
    by (rule covers_traverse [OF parts(3), where ek = ShieldedNullifierKey])
      (use assms(1,2) n in \<open>auto intro!: row_for_remove split: if_splits\<close>)
  ultimately show ?thesis unfolding cs by (rule covers_shielded_append)
qed

lemma new_notes_Ok:
  "new_notes from until ns = Ok ps \<Longrightarrow> ps = map (\<lambda>i. (i, ns ! i)) [from..<until]"
  by (auto simp: new_notes_def traverse_eq_Ok list_all2_conv_all_nth intro!: nth_equalityI split: if_splits)

lemma notes_prefix:
  assumes "state_stored V s" and "state_stored V s'" and "notes_distinguished V s s'"
    and "es_shielded_ledger s = Some l" and "es_shielded_ledger s' = Some l'"
    and "root_at_leaf_count (sv_sha V) (sg_tree (sl_margin l')) (length (leaves_of (sl_margin l))) = Ok (margin_root (sl_margin l))"
    and "length (leaves_of (sl_margin l)) \<le> length (leaves_of (sl_margin l'))"
  shows "take (length (leaves_of (sl_margin l))) (leaves_of (sl_margin l')) = leaves_of (sl_margin l)"
proof -
  let ?H = "sv_sha V" and ?ns = "leaves_of (sl_margin l)"
  let ?ms = "take (length ?ns) (leaves_of (sl_margin l'))"
  have ok: "tree_ok ?H (sg_tree (sl_margin l))" "tree_ok ?H (sg_tree (sl_margin l'))"
    using assms(1,2,4,5) by (auto simp: state_stored_def spent_ok_def stored_ok_def)
  have "merkle_root ?H ?ms = merkle_root ?H ?ns"
    using assms(6) root_at_leaf_count_ok [OF ok(2) assms(7)] ok(1) by (simp add: margin_root_def tree_ok_def merkle_root_subtree)
  then have root: "merkle_root ?H ?ns = merkle_root ?H ?ms" by simp
  have d: "length (?H b) = 32" "\<forall>n \<in> set ?ns \<union> set ?ms. note_wf n" "inj_on ?H (tree_inputs ?H ?ns \<union> tree_inputs ?H ?ms)" for b
    using assms(3-5) by (auto simp: notes_distinguished_def Let_def)
  have "?ns = ?ms"
    by (rule root_determines_notes [OF d(1) d(3) root d(2)]) (use ok in \<open>auto simp: tree_ok_def merkle_capacity_def\<close>)
  then show ?thesis by simp
qed

lemma covers_updated_ledger:
  assumes "state_stored V s" and "state_stored V s'" and "notes_distinguished V s s'"
    and "es_shielded_ledger s = Some l" and "es_shielded_ledger s' = Some l'"
    and "update_shielded_ledger C V l l' = Ok cs"
  shows "covers C V s s' shielded_keys cs"
proof -
  from assms(6) obtain h ns spent h' ns' spent' where p: "ledger_parts V l = Ok (h, ns, spent)" "ledger_parts V l' = Ok (h', ns', spent')"
    by (auto simp: update_shielded_ledger_def)
  note sh = ledger_parts_shape [OF p(1)] and sh' = ledger_parts_shape [OF p(2)]
  have counts: "mh_note_count (lh_margin h) = length ns" "mh_note_count (lh_margin h') = length ns'"
      "mh_current_root (lh_margin h) = margin_root (sl_margin l)"
    using sh sh' by (simp_all add: margin_header_of_def)
  define nulls where "nulls = (if \<exists>x \<in> set spent. x \<notin> set spent'
      then Err (Persistence ''persisted shielded nullifiers cannot be removed'')
      else push_nullifiers C (filter (\<lambda>x. x \<notin> set spent) spent'))"
  define headers where "headers = (if h \<noteq> h' then traverse (mutation C (sc_header C) ShieldedHeaderKey) [Some h'] else Ok [])"
  have le: "length ns \<le> length ns'"
    and root: "root_at_leaf_count (sv_sha V) (sg_tree (sl_margin l')) (length ns) = Ok (margin_root (sl_margin l))"
    and body: "concat_res [bindr (new_notes (length ns) (length ns') ns') (push_notes C), nulls, headers] = Ok cs"
    using assms(6) p counts
    by (auto simp add: update_shielded_ledger_def shielded_persistence_def lift_margin_def Let_def not_less
        nulls_def headers_def simp del: concat_res.simps traverse.simps split: if_split_asm)
  from body obtain as bs ds where bs: "bindr (new_notes (length ns) (length ns') ns') (push_notes C) = Ok bs"
    and nulls: "nulls = Ok ds" and as: "headers = Ok as" and cs: "cs = bs @ ds @ as"
    by auto
  from nulls have sub: "set spent \<subseteq> set spent'" and ds: "push_nullifiers C (filter (\<lambda>x. x \<notin> set spent) spent') = Ok ds"
    by (auto simp: nulls_def split: if_splits)
  note rows = shielded_rows [OF assms(2,5) p(2)]
  have pre: "take (length ns) ns' = ns"
    using notes_prefix [OF assms(1-5)] root le sh sh' by simp
  have "covers C V s s' {ShieldedHeaderKey} as"
  proof (cases "h = h'")
    case True
    then show ?thesis using as p assms(4,5) by (auto simp: headers_def ledger_header_of_def intro!: covers_same)
  qed (use as rows(1) in \<open>auto simp: headers_def\<close>)
  moreover have "covers C V s s' (range ShieldedNoteKey) bs"
  proof (rule rows(2))
    show "push_notes C (map (\<lambda>i. (i, ns' ! i)) [length ns..<length ns']) = Ok bs" using bs by (auto dest: new_notes_Ok)
    fix i assume "i < length ns \<or> length ns' \<le> i"
    moreover have "ns ! i = ns' ! i" if "i < length ns" using pre that by (metis nth_take)
    ultimately show "entity_at V s (ShieldedNoteKey i) = entity_at V s' (ShieldedNoteKey i)"
      using assms(4,5) sh sh' le by auto
  qed
  moreover have "covers C V s s' (range ShieldedNullifierKey) ds"
    by (rule rows(3) [OF ds]) (use assms(4,5) sh sh' sub in auto)
  ultimately show ?thesis unfolding cs by (auto simp: covers_def)
qed

lemma covers_shielded:
  assumes "state_stored V s" and "state_stored V s'" and "notes_distinguished V s s'"
    and "push_shielded_diff C V (es_shielded_ledger s) (es_shielded_ledger s') = Ok cs"
  shows "covers C V s s' shielded_keys cs"
  using assms covers_new_ledger covers_dropped_ledger covers_updated_ledger
  by (cases "es_shielded_ledger s"; cases "es_shielded_ledger s'") (auto intro!: covers_same)

section \<open>Changed rows carry the table along\<close>

lemma covers_push_if:
  assumes "push_if (x \<noteq> y) m = Ok cs" and "\<And>r. m = Ok r \<Longrightarrow> row_for C V s' r k"
    and "x = y \<Longrightarrow> entity_at V s k = entity_at V s' k"
  shows "covers C V s s' {k} cs"
  using assms by (auto simp: push_if_def covers_def split: if_splits)

lemma covers_sort: "covers C V s s' K (sort_entities cs) = covers C V s s' K cs"
  by (simp add: covers_def sort_entities_def)

lemma changed_entities_covers:
  assumes "state_stored V s" and "state_stored V s'" and "notes_distinguished V s s'"
    and "changed_entities C V s s' = Ok cs"
  shows "covers C V s s' UNIV cs"
proof -
  from assms(4) obtain a b c d e f g h i j k l m n p where
    r: "push_if (state_meta_of s \<noteq> state_meta_of s') (mutation C (sc_meta C) MetaKey (Some (state_meta_of s'))) = Ok a"
      "push_if (es_event_log s \<noteq> es_event_log s') (mutation C (sc_event_log C) EventLogKey (Some (es_event_log s'))) = Ok b"
      "push_map_diff C (sc_nonce C) AccountNonceKey (es_account_nonces s) (es_account_nonces s') = Ok c"
      "push_shielded_diff C V (es_shielded_ledger s) (es_shielded_ledger s') = Ok d"
      "push_if (es_key_set s \<noteq> es_key_set s') (mutation C (sc_key_set C) PrivateOrderKeySetKey (es_key_set s')) = Ok e"
      "push_map_diff C (sc_pending C) PrivateOrderBatchKey (es_pending_orders s) (es_pending_orders s') = Ok f"
      "push_map_diff C (sc_bonds C) PrivateOrderBondBatchKey (es_bonds s) (es_bonds s') = Ok g"
      "push_map_diff C (sc_app_hash C) PrivateBatchAppHashKey (es_batch_app_hashes s) (es_batch_app_hashes s') = Ok h"
      "push_map_diff C (sc_snapshot C) PrivateBatchSnapshotKey (es_batch_snapshots s) (es_batch_snapshots s') = Ok i"
      "push_map_diff C (sc_market C) MarketKey (es_markets s) (es_markets s') = Ok j"
      "push_map_diff C (sc_account C) AccountKey (es_accounts s) (es_accounts s') = Ok k"
      "push_map_diff C (sc_book C) BookKey (es_books s) (es_books s') = Ok l"
      "push_map_diff C (sc_symbol C) OrderMarketKey (es_order_market s) (es_order_market s') = Ok m"
      "push_map_diff C (sc_uuid C) ClientOrderIdKey (es_client_order_ids s) (es_client_order_ids s') = Ok n"
      "push_map_diff C (sc_oracle C) OracleKey (es_oracle s) (es_oracle s') = Ok p"
    and cs: "cs = sort_entities (a @ b @ c @ d @ e @ f @ g @ h @ i @ j @ k @ l @ m @ n @ p)"
    by (auto simp: changed_entities_def)
  have ok: "om_ok (es_account_nonces t)" "om_ok (es_markets t)" "om_ok (es_accounts t)" "om_ok (es_books t)"
    "om_ok (es_order_market t)" "om_ok (es_client_order_ids t)" "om_ok (es_oracle t)" "om_ok (es_pending_orders t)"
    "om_ok (es_bonds t)" "om_ok (es_batch_app_hashes t)" "om_ok (es_batch_snapshots t)" if "t \<in> {s, s'}" for t
    using assms(1,2) that by (auto simp: state_stored_def)
  have "covers C V s s' {MetaKey} a"
    using r(1) by (rule covers_push_if) (use row_for_write [of C "MetaOf (state_meta_of s')"] in \<open>auto simp: mutation_write\<close>)
  moreover have "covers C V s s' {EventLogKey} b"
    using r(2) by (rule covers_push_if) (use row_for_write [of C "EventLogOf (es_event_log s')"] in \<open>auto simp: mutation_write\<close>)
  moreover have "covers C V s s' {PrivateOrderKeySetKey} e"
  proof (rule covers_push_if [OF r(5)])
    fix x assume x: "mutation C (sc_key_set C) PrivateOrderKeySetKey (es_key_set s') = Ok x"
    show "row_for C V s' x PrivateOrderKeySetKey"
    proof (cases "es_key_set s'")
      case (Some ks)
      with x row_for_write [of C "KeySetOf ks" x V s'] show ?thesis by (simp add: mutation_write)
    qed (use x row_for_remove [of C "sc_key_set C" PrivateOrderKeySetKey x V s'] in simp)
  qed simp
  moreover have "covers C V s s' (range AccountNonceKey) c" "covers C V s s' (range PrivateOrderBatchKey) f"
    "covers C V s s' (range PrivateOrderBondBatchKey) g" "covers C V s s' (range PrivateBatchAppHashKey) h"
    "covers C V s s' (range PrivateBatchSnapshotKey) i" "covers C V s s' (range MarketKey) j"
    "covers C V s s' (range AccountKey) k" "covers C V s s' (range BookKey) l" "covers C V s s' (range OrderMarketKey) m"
    "covers C V s s' (range ClientOrderIdKey) n" "covers C V s s' (range OracleKey) p"
    by (rule covers_map_diff [OF r(3) _ _ mutation_write(3)] covers_map_diff [OF r(6) _ _ mutation_write(11)]
      covers_map_diff [OF r(7) _ _ mutation_write(12)] covers_map_diff [OF r(8) _ _ mutation_write(13)]
      covers_map_diff [OF r(9) _ _ mutation_write(14)] covers_map_diff [OF r(10) _ _ mutation_write(4)]
      covers_map_diff [OF r(11) _ _ mutation_write(5)] covers_map_diff [OF r(12) _ _ mutation_write(6)]
      covers_map_diff [OF r(13) _ _ mutation_write(7)] covers_map_diff [OF r(14) _ _ mutation_write(8)]
      covers_map_diff [OF r(15) _ _ mutation_write(9)]; simp add: ok)+
  moreover note covers_shielded [OF assms(1-3) r(4)]
  ultimately have all: "covers C V s s' ({MetaKey} \<union> ({EventLogKey} \<union> (range AccountNonceKey \<union> (shielded_keys \<union> ({PrivateOrderKeySetKey} \<union>
      (range PrivateOrderBatchKey \<union> (range PrivateOrderBondBatchKey \<union> (range PrivateBatchAppHashKey \<union>
      (range PrivateBatchSnapshotKey \<union> (range MarketKey \<union> (range AccountKey \<union> (range BookKey \<union> (range OrderMarketKey \<union>
      (range ClientOrderIdKey \<union> range OracleKey)))))))))))))) (a @ b @ c @ d @ e @ f @ g @ h @ i @ j @ k @ l @ m @ n @ p)"
      (is "covers _ _ _ _ ?K _")
    by (intro covers_append)
  have "x \<in> ?K" for x by (cases x) simp_all
  then have K: "?K = UNIV" by (rule UNIV_eq_I [symmetric])
  from all show ?thesis unfolding cs covers_sort K .
qed

lemma written_changes:
  assumes key: "codec_ok (sc_key C)" and "state_stored V s" and "state_stored V s'"
    and "all_entities C V s = Ok ms" and "all_entities C V s' = Ok ms'" and "covers C V s s' UNIV cs"
  shows "write_rows cs (write_rows ms []) = write_rows ms' []"
proof (rule om_extensionality)
  show "om_ok (write_rows cs (write_rows ms []))" "om_ok (write_rows ms' [])" by (simp_all add: om_ok_write_rows)
  fix kb
  note t = table_lookup(1) [OF key assms(2,4), of kb] and t' = table_lookup(1) [OF key assms(3,5), of kb]
  have inj: "k = k'" if "entity_key_bytes C k = Ok kb" "entity_key_bytes C k' = Ok kb" for k k'
    using entity_key_bytes_inject [OF key] that .
  have row: "em_value m = om_get (write_rows ms' []) kb" if "m \<in> set cs" "em_key m = kb" for m
  proof -
    have "\<forall>m \<in> set cs. \<exists>k. row_for C V s' m k" using assms(6) by (simp add: covers_def)
    with that(1) obtain k where k: "row_for C V s' m k" by (auto dest: bspec)
    with that(2) have kb: "entity_key_bytes C k = Ok kb" by (simp add: row_for_def)
    show ?thesis
    proof (cases "entity_at V s' k")
      case None
      then have "om_get (write_rows ms' []) kb \<noteq> Some vb" for vb using t' [of vb] inj [OF kb] by fastforce
      with k None show ?thesis by (cases "om_get (write_rows ms' []) kb") (auto simp: row_for_def)
    next
      case (Some e)
      with k obtain vb where vb: "em_value m = Some vb" "value_json C e = Some vb" by (auto simp: row_for_def)
      with t' [of vb] kb Some show ?thesis by auto
    qed
  qed
  have "om_get (write_rows cs (write_rows ms [])) kb =
      (if kb \<in> em_key ` set cs then om_get (write_rows ms' []) kb else om_get (write_rows ms []) kb)"
    by (rule om_get_write_rows) (use row in auto)
  moreover have "om_get (write_rows ms []) kb = om_get (write_rows ms' []) kb" if "kb \<notin> em_key ` set cs"
  proof -
    have "entity_at V s k = entity_at V s' k" if "entity_key_bytes C k = Ok kb" for k
    proof (rule ccontr)
      assume "entity_at V s k \<noteq> entity_at V s' k"
      moreover have "entity_at V s k = entity_at V s' k \<or> (\<exists>m \<in> set cs. row_for C V s' m k)"
        using assms(6) by (simp add: covers_def)
      ultimately obtain m where "m \<in> set cs" "entity_key_bytes C k = Ok (em_key m)" by (auto simp: row_for_def)
      with that \<open>kb \<notin> em_key ` set cs\<close> show False by auto
    qed
    then have "om_get (write_rows ms []) kb = Some vb \<longleftrightarrow> om_get (write_rows ms' []) kb = Some vb" for vb
      unfolding t t' by metis
    then show ?thesis by (metis not_None_eq)
  qed
  ultimately show "om_get (write_rows cs (write_rows ms [])) kb = om_get (write_rows ms' []) kb" by simp
qed

text \<open>Every row of the second state is written with the changes or was written before.\<close>

lemma traverse_total: "(\<And>x. x \<in> set xs \<Longrightarrow> \<exists>y. f x = Ok y) \<Longrightarrow> \<exists>ys. traverse f xs = Ok ys"
  by (induction xs) fastforce+

lemma shielded_diff_written:
  "push_shielded_diff C V ledger ledger' = Ok cs \<Longrightarrow> ledger_written V ledger'"
  by (cases ledger; cases ledger')
    (auto simp: ledger_written_def push_complete_shielded_ledger_def update_shielded_ledger_def)

lemma changed_entities_writable:
  assumes key: "codec_ok (sc_key C)" and "state_stored V s" and "state_stored V s'"
    and "all_entities C V s = Ok ms" and "changed_entities C V s s' = Ok cs" and "covers C V s s' UNIV cs"
  shows "\<exists>ms'. all_entities C V s' = Ok ms'"
proof -
  have "\<exists>xs. push_shielded_diff C V (es_shielded_ledger s) (es_shielded_ledger s') = Ok xs"
    using assms(5) by (auto simp: changed_entities_def)
  then have w: "ledger_written V (es_shielded_ledger s')" by (auto dest: shielded_diff_written)
  have "\<exists>m. write_entity C e = Ok m" if "e \<in> set (state_entities V s')" for e
  proof -
    have e: "entity_at V s' (key_of e) = Some e" using that in_state_entities [OF assms(3) w] by simp
    have "entity_at V s (key_of e) = entity_at V s' (key_of e) \<or> (\<exists>m \<in> set cs. row_for C V s' m (key_of e))"
      using assms(6) by (simp add: covers_def)
    then show ?thesis
    proof
      assume "entity_at V s (key_of e) = entity_at V s' (key_of e)"
      with e table_lookup(2) [OF key assms(2,4)] show ?thesis by simp
    next
      assume "\<exists>m \<in> set cs. row_for C V s' m (key_of e)"
      with e show ?thesis by (auto simp: row_for_def write_entity_Ok)
    qed
  qed
  then obtain rows where "traverse (write_entity C) (state_entities V s') = Ok rows"
    using traverse_total [of "state_entities V s'" "write_entity C"] by blast
  with w show ?thesis by (auto simp: all_entities_Ok)
qed

lemma om_diff_same: "om_diff m m = []"
proof (induction m)
  case (Cons p m)
  then show ?case by (cases p) simp
qed simp

text \<open>
  The comparison of the source is by value. A state whose values are equal writes no row, whatever
  representation its decimals have.
\<close>

lemma equal_states_write_nothing:
  "es_shielded_ledger s = None \<Longrightarrow> changed_entities C V s s = Ok []"
  by (simp add: changed_entities_def push_if_def push_map_diff_def om_diff_same sort_entities_def)

end
