(* ===== verification/Store_Props.thy ===== *)
theory Store_Props
  imports State_Diff
begin

text \<open>
  The store implements one register that holds the committed state. What is known of the Merkle tree is
  the law \<open>jmt_law\<close>: the root is a function of the stored content, an update leads from a tree of one
  content to a tree of the next, and the root query returns the root.
\<close>

section \<open>The law of the tree\<close>

type_synonym content = "bytes \<Rightarrow> bytes option"

definition put_all :: "(bytes \<times> bytes option) list \<Rightarrow> content \<Rightarrow> content" where
  "put_all vals m = fold (\<lambda>(k, v) m. m(k := v)) vals m"

definition updated_nodes :: "('nk, 'nd) jmt \<Rightarrow> nat \<Rightarrow> ('nk, 'nd) tree_update \<Rightarrow> ('nk \<Rightarrow> 'nd option) \<Rightarrow> 'nk \<Rightarrow> 'nd option" where
  "updated_nodes J v u N k =
     (if 0 < v \<and> k = jm_root_key J (v - 1) then None
      else if k \<in> snd ` set (tu_stale u) then None
      else (case map_of (rev (tu_nodes u)) k of Some n \<Rightarrow> Some n | None \<Rightarrow> N k))"

definition reads :: "('nk, 'nd) tree_reader \<Rightarrow> ('nk \<Rightarrow> 'nd option) \<Rightarrow> bool" where
  "reads rd N \<longleftrightarrow> (\<forall>k. rd_node rd k = Ok (N k))"

definition jmt_law ::
  "('nk, 'nd) jmt \<Rightarrow> (('nk \<Rightarrow> 'nd option) \<Rightarrow> nat \<Rightarrow> content \<Rightarrow> bool) \<Rightarrow> (content \<Rightarrow> bytes) \<Rightarrow> bool" where
  "jmt_law J T R \<longleftrightarrow>
     (\<forall>rd vals r u. reads rd Map.empty \<longrightarrow> jm_put J rd vals 0 = Ok (r, u) \<longrightarrow>
        r = R (put_all vals Map.empty) \<and> T (updated_nodes J 0 u Map.empty) 0 (put_all vals Map.empty)) \<and>
     (\<forall>rd N v m vals r u. reads rd N \<longrightarrow> T N v m \<longrightarrow> jm_put J rd vals (Suc v) = Ok (r, u) \<longrightarrow>
        r = R (put_all vals m) \<and> T (updated_nodes J (Suc v) u N) (Suc v) (put_all vals m)) \<and>
     (\<forall>rd vals. reads rd Map.empty \<longrightarrow> (\<exists>p. jm_put J rd vals 0 = Ok p)) \<and>
     (\<forall>rd N v m. reads rd N \<longrightarrow> T N v m \<longrightarrow> jm_root J rd v = Ok (R m))"

section \<open>Content and table\<close>

definition hashed_rows :: "('nk, 'nd) store_env \<Rightarrow> entity_mutation list \<Rightarrow> (bytes \<times> bytes option) list" where
  "hashed_rows S ms = map (\<lambda>m. (key_hash S m, em_value m)) ms"

definition hashed :: "('nk, 'nd) store_env \<Rightarrow> bytes set \<Rightarrow> (bytes, bytes) omap \<Rightarrow> content" where
  "hashed S A t = (\<lambda>h. if h \<in> se_sha S ` A then om_get t (the_inv_into A (se_sha S) h) else None)"

lemma hashed_write_row:
  assumes "inj_on (se_sha S) A" and "em_key m \<in> A"
  shows "(hashed S A t)(key_hash S m := em_value m) = hashed S A (write_row m t)"
proof
  fix h
  show "((hashed S A t)(key_hash S m := em_value m)) h = hashed S A (write_row m t) h"
  proof (cases "h \<in> se_sha S ` A")
    case True
    then obtain k where k: "k \<in> A" "h = se_sha S k" by blast
    then have "h = key_hash S m \<longleftrightarrow> k = em_key m" using assms by (auto simp: key_hash_def inj_on_eq_iff)
    with k assms show ?thesis
      by (auto simp: hashed_def the_inv_into_f_f write_row_def split: option.split)
  qed (use assms(2) in \<open>auto simp: hashed_def key_hash_def\<close>)
qed

lemma put_all_hashed:
  assumes "inj_on (se_sha S) A" and "em_key ` set ms \<subseteq> A"
  shows "put_all (hashed_rows S ms) (hashed S A t) = hashed S A (write_rows ms t)"
  using assms(2)
proof (induction ms arbitrary: t)
  case (Cons m ms)
  then show ?case using hashed_write_row [OF assms(1), of m t] by (simp add: put_all_def hashed_rows_def write_rows_def)
qed (simp add: put_all_def hashed_rows_def write_rows_def)

lemma hashed_empty: "hashed S A [] = Map.empty"
  by (auto simp: hashed_def)

section \<open>A store that holds a state\<close>

definition content_of :: "('nk, 'nd) store_env \<Rightarrow> entity_mutation list \<Rightarrow> content" where
  "content_of S ms = put_all (hashed_rows S ms) Map.empty"

definition store_holds ::
  "('nk, 'nd) store_env \<Rightarrow> (('nk \<Rightarrow> 'nd option) \<Rightarrow> nat \<Rightarrow> content \<Rightarrow> bool) \<Rightarrow> (content \<Rightarrow> bytes) \<Rightarrow> store \<Rightarrow> nat \<Rightarrow> state \<Rightarrow> bool" where
  "store_holds S T R st v s \<longleftrightarrow>
     (\<exists>ms N. all_entities (se_codec S) (se_shielded S) s = Ok ms \<and> st_entities st = write_rows ms [] \<and>
        read_metadata S st = Ok (Some \<lparr>cm_version = v, cm_state_root = R (content_of S ms)\<rparr>) \<and>
        reads (store_reader S st) N \<and> T N v (content_of S ms))"

definition store_codecs_ok :: "('nk, 'nd) store_env \<Rightarrow> bool" where
  "store_codecs_ok S \<longleftrightarrow> codecs_ok (se_codec S) \<and> codec_ok (se_node_key S) \<and> codec_ok (se_node S) \<and>
     codec_ok (se_metadata S) \<and> (\<forall>k. cd_json (se_node_key S) k \<noteq> None)"

text \<open>The node table, read back through the codecs.\<close>

definition node_entry :: "('nk, 'nd) store_env \<Rightarrow> bytes option \<Rightarrow> 'nd option \<Rightarrow> bool" where
  "node_entry S x n \<longleftrightarrow>
     (case x of None \<Rightarrow> n = None | Some bs \<Rightarrow> n \<noteq> None \<and> sc_decode (se_node S) bs ''JMT node'' = Ok (the n))"

definition node_table :: "('nk, 'nd) store_env \<Rightarrow> (bytes, bytes) omap \<Rightarrow> ('nk \<Rightarrow> 'nd option) \<Rightarrow> bool" where
  "node_table S t N \<longleftrightarrow> (\<forall>k key. cd_json (se_node_key S) k = Some key \<longrightarrow> node_entry S (om_get t key) (N k))"

lemma get_node_entry:
  "cd_json (se_node_key S) k = Some key \<Longrightarrow> get_node_option S st k = Ok n \<longleftrightarrow> node_entry S (om_get (st_nodes st) key) n"
  by (auto simp: get_node_option_def sc_encode_def node_entry_def split: option.splits)

lemma reads_node_table:
  assumes "store_codecs_ok S"
  shows "reads (store_reader S st) N \<longleftrightarrow> node_table S (st_nodes st) N"
proof
  assume "reads (store_reader S st) N"
  then show "node_table S (st_nodes st) N"
    by (auto simp: node_table_def reads_def store_reader_def simp flip: get_node_entry)
next
  assume t: "node_table S (st_nodes st) N"
  show "reads (store_reader S st) N"
    unfolding reads_def
  proof
    fix k
    obtain key where "cd_json (se_node_key S) k = Some key" using assms by (auto simp: store_codecs_ok_def)
    with t get_node_entry [OF this, of st "N k"] show "rd_node (store_reader S st) k = Ok (N k)"
      by (simp add: node_table_def store_reader_def)
  qed
qed

lemma key_codec_inject:
  "store_codecs_ok S \<Longrightarrow> cd_json (se_node_key S) k = Some key \<Longrightarrow> cd_json (se_node_key S) k' = Some key' \<Longrightarrow>
     key' = key \<longleftrightarrow> k' = k"
  unfolding store_codecs_ok_def codec_ok_def by (metis option.inject)

lemma node_table_insert:
  assumes "store_codecs_ok S" and "node_table S t N" and "insert_node S (k, n) t = Ok t'"
  shows "node_table S t' (N(k := Some n))"
proof -
  from assms(3) obtain key bs where k: "cd_json (se_node_key S) k = Some key" "cd_json (se_node S) n = Some bs"
    and t': "t' = om_insert key bs t"
    by (auto simp: insert_node_def sc_encode_def)
  have "sc_decode (se_node S) bs ''JMT node'' = Ok n"
    using assms(1) k(2) by (simp add: store_codecs_ok_def sc_decode_json)
  then have "node_entry S (Some bs) (Some n)" by (simp add: node_entry_def)
  then show ?thesis
    using assms(2) key_codec_inject [OF assms(1) k(1)] k(1) unfolding node_table_def t' by simp
qed

lemma node_table_remove:
  assumes "store_codecs_ok S" and "node_table S t N" and "cd_json (se_node_key S) k = Some key"
  shows "node_table S (om_remove key t) (N(k := None))"
proof -
  have "node_entry S None None" by (simp add: node_entry_def)
  then show ?thesis
    using assms(2,3) key_codec_inject [OF assms(1,3)] unfolding node_table_def by simp
qed

lemma node_table_inserts:
  assumes "store_codecs_ok S"
  shows "foldr_res (insert_node S) ns t = Ok t' \<Longrightarrow> node_table S t N \<Longrightarrow>
    node_table S t' (\<lambda>k. case map_of (rev ns) k of Some n \<Rightarrow> Some n | None \<Rightarrow> N k)"
proof (induction ns arbitrary: t N)
  case (Cons p ns)
  then obtain u where u: "insert_node S p t = Ok u" "foldr_res (insert_node S) ns u = Ok t'" by auto
  obtain k n where p: "p = (k, n)" by (cases p)
  have "node_table S u (N(k := Some n))"
    using node_table_insert [OF assms Cons.prems(2)] u(1) p by simp
  from Cons.IH [OF u(2) this] show ?case
    by (simp add: p map_add_def) (auto elim!: back_subst [where P = "node_table S t'"] split: option.split)
qed simp

lemma node_table_stale:
  assumes "store_codecs_ok S"
  shows "foldr_res (remove_stale S v) ks t = Ok t' \<Longrightarrow> node_table S t N \<Longrightarrow>
    node_table S t' (\<lambda>k. if k \<in> snd ` set ks then None else N k)"
proof (induction ks arbitrary: t N)
  case (Cons p ks)
  then obtain u where u: "remove_stale S v p t = Ok u" "foldr_res (remove_stale S v) ks u = Ok t'" by auto
  obtain w k where p: "p = (w, k)" by (cases p)
  have "node_table S u (N(k := None))"
    using u(1) node_table_remove [OF assms Cons.prems(2)] by (auto simp: remove_stale_def p sc_encode_def split: if_splits)
  from Cons.IH [OF u(2) this] show ?case
    by (auto simp: p elim!: back_subst [where P = "node_table S t'"])
qed simp

lemma node_table_update:
  assumes "store_codecs_ok S" and "write_tree_update S v u st = Ok st'" and "node_table S (st_nodes st) N"
  shows "node_table S (st_nodes st') (updated_nodes (se_jmt S) v u N)" and "st_entities st' = st_entities st"
proof -
  from assms(2) obtain n1 n2 n3 where n: "foldr_res (insert_node S) (tu_nodes u) (st_nodes st) = Ok n1"
      "foldr_res (remove_stale S v) (tu_stale u) n1 = Ok n2" "remove_previous_root S v n2 = Ok n3"
    and st': "st_nodes st' = n3" "st_entities st' = st_entities st"
    by (auto simp: write_tree_update_def)
  let ?M = "\<lambda>k. if k \<in> snd ` set (tu_stale u) then None else (case map_of (rev (tu_nodes u)) k of Some n \<Rightarrow> Some n | None \<Rightarrow> N k)"
  have M: "node_table S n2 ?M"
    by (rule node_table_stale [OF assms(1) n(2) node_table_inserts [OF assms(1) n(1) assms(3)]])
  show "node_table S (st_nodes st') (updated_nodes (se_jmt S) v u N)"
  proof (cases v)
    case 0
    then show ?thesis using M n(3) by (simp add: st' remove_previous_root_def checked_sub_def updated_nodes_def [abs_def])
  next
    case (Suc w)
    then obtain key where key: "cd_json (se_node_key S) (jm_root_key (se_jmt S) w) = Some key" and n3: "n3 = om_remove key n2"
      using n(3) by (auto simp: remove_previous_root_def checked_sub_def sc_encode_def)
    have "node_table S n3 (?M(jm_root_key (se_jmt S) w := None))"
      unfolding n3 by (rule node_table_remove [OF assms(1) M key])
    then show ?thesis
      unfolding st' by (rule back_subst [where P = "node_table S n3"]) (auto simp: Suc updated_nodes_def)
  qed
  show "st_entities st' = st_entities st" by (rule st'(2))
qed

section \<open>The operations of the register\<close>

lemma om_get_untouched: "k \<notin> em_key ` set ms \<Longrightarrow> om_get (write_rows ms t) k = om_get t k"
  by (subst om_get_write_rows [where v = None]) auto

lemma root_of_state:
  assumes "jmt_law (se_jmt S) T R" and "all_entities (se_codec S) (se_shielded S) s = Ok ms"
  shows "compute_state_root S s = Ok (R (content_of S ms))"
proof -
  have e: "reads empty_reader Map.empty" by (simp add: reads_def empty_reader_def)
  with assms(1) obtain r u where p: "jm_put (se_jmt S) empty_reader (hashed_rows S ms) 0 = Ok (r, u)"
    unfolding jmt_law_def by (metis surj_pair)
  from assms(1) e p have "r = R (content_of S ms)" unfolding jmt_law_def content_of_def by blast
  with p assms(2) show ?thesis by (simp add: compute_state_root_def hashed_rows_def)
qed

lemma table_rows:
  assumes "codecs_ok C" and "state_stored V s" and "all_entities C V s = Ok ms"
  shows "mset (write_rows ms []) = mset (map row ms)"
proof -
  have key: "codec_ok (sc_key C)" using assms(1) by (simp add: codecs_ok_def)
  obtain rows where rows: "list_all2 (\<lambda>e m. write_entity C e = Ok m) (state_entities V s) rows" and ms: "mset ms = mset rows"
    using assms(3) by (rule all_entities_rows)
  have d: "distinct (map em_key ms)"
    using distinct_row_keys [OF key rows distinct_state_keys [OF assms(2)]] ms by (metis mset_eq_imp_distinct_iff mset_map)
  have some: "em_value m = Some (snd (row m))" if "m \<in> set ms" for m
  proof -
    have "m \<in> set rows" using that mset_eq_setD [OF ms] by simp
    then show ?thesis using rows by (auto simp: in_set_conv_nth list_all2_conv_all_nth write_entity_Ok row_def)
  qed
  have get: "om_get (write_rows ms []) (em_key m) = Some (snd (row m))" if "m \<in> set ms" for m
    using om_get_write_all [OF d that] some [OF that] by simp
  have only: "om_get (write_rows ms []) k = None" if "k \<notin> em_key ` set ms" for k
    using that om_get_write_rows [of ms k None "[]"] by auto
  have fst_row: "fst (row m) = em_key m" for m by (simp add: row_def)
  have ok: "om_ok (write_rows ms [])" by (simp add: om_ok_write_rows)
  have "set (write_rows ms []) = set (map row ms)"
  proof (intro set_eqI iffI)
    fix p assume "p \<in> set (write_rows ms [])"
    then have g: "om_get (write_rows ms []) (fst p) = Some (snd p)" by (simp add: om_in_set_get [OF ok, symmetric])
    then have "fst p \<in> em_key ` set ms" using only [of "fst p"] by (cases "fst p \<in> em_key ` set ms") auto
    then obtain m where m: "m \<in> set ms" "em_key m = fst p" by auto
    with get [OF m(1)] g fst_row [of m] have "p = row m" by (simp add: prod_eq_iff)
    with m(1) show "p \<in> set (map row ms)" by simp
  next
    fix p assume "p \<in> set (map row ms)"
    then obtain m where "m \<in> set ms" "p = row m" by auto
    with get [of m] fst_row [of m] show "p \<in> set (write_rows ms [])"
      using om_in_set_get [OF ok, of "fst p" "snd p"] by (simp del: om_get_insert) (metis prod.collapse)
  qed
  moreover have "distinct (write_rows ms [])" using om_ok_distinct [OF ok] by (simp add: distinct_map)
  moreover have "distinct (map row ms)"
  proof -
    have "map fst (map row ms) = map em_key ms" using fst_row by simp
    with d have "distinct (map fst (map row ms))" by (simp only:)
    then show ?thesis unfolding distinct_map [of fst] by blast
  qed
  ultimately show ?thesis by (simp only: set_eq_iff_mset_eq_distinct)
qed

lemma load_holds:
  assumes law: "jmt_law (se_jmt S) T R" and c: "store_codecs_ok S" and s: "state_stored (se_shielded S) s"
    and h: "store_holds S T R st v s" and r: "compute_state_root S s = Ok r"
  shows "load_state S st = Ok (Some \<lparr>ss_state = s, ss_app_hash = r, ss_version = v\<rparr>)"
proof -
  from h obtain ms N where ms: "all_entities (se_codec S) (se_shielded S) s = Ok ms" "st_entities st = write_rows ms []"
    and m: "read_metadata S st = Ok (Some \<lparr>cm_version = v, cm_state_root = R (content_of S ms)\<rparr>)"
    and N: "reads (store_reader S st) N" "T N v (content_of S ms)"
    by (auto simp: store_holds_def)
  have C: "codecs_ok (se_codec S)" using c by (simp add: store_codecs_ok_def)
  have "decode_state (se_codec S) (se_shielded S) (read_entities st) = Ok (Some s)"
    by (rule decode_written [OF C s ms(1)]) (simp add: read_entities_def om_entries_def ms(2) table_rows [OF C s ms(1)])
  moreover have "jm_root (se_jmt S) (store_reader S st) v = Ok (R (content_of S ms))"
    using law N by (simp add: jmt_law_def)
  ultimately show ?thesis
    using m r root_of_state [OF law ms(1)] by (simp add: load_state_def)
qed

lemma write_metadata_read:
  assumes "store_codecs_ok S" and "write_metadata S v r st = Ok st'"
  shows "read_metadata S st' = Ok (Some \<lparr>cm_version = v, cm_state_root = r\<rparr>)" "st_entities st' = st_entities st"
    "st_nodes st' = st_nodes st"
  using assms by (auto simp: write_metadata_def read_metadata_def sc_encode_def store_codecs_ok_def sc_decode_json)

lemma empty_node_table: "node_table S [] Map.empty"
  by (simp add: node_table_def node_entry_def)

lemma commit_initial:
  assumes law: "jmt_law (se_jmt S) T R" and c: "store_codecs_ok S"
    and ok: "commit_state S None s empty_store = Ok (r, st)"
  shows "store_holds S T R st 0 s" and "compute_state_root S s = Ok r"
proof -
  from ok obtain ms u st1 where ms: "all_entities (se_codec S) (se_shielded S) s = Ok ms"
    and put: "jm_put (se_jmt S) (store_reader S empty_store) (hashed_rows S ms) 0 = Ok (r, u)"
    and w: "write_tree_update S 0 u (empty_store\<lparr>st_entities := write_rows ms []\<rparr>) = Ok st1" "write_metadata S 0 r st1 = Ok st"
    by (auto simp: commit_state_def build_update_def read_metadata_def empty_store_def state_mutations_def hashed_rows_def)
  have e: "reads (store_reader S empty_store) Map.empty"
    using empty_node_table reads_node_table [OF c] by (simp add: empty_store_def)
  have r: "r = R (content_of S ms)" and T: "T (updated_nodes (se_jmt S) 0 u Map.empty) 0 (content_of S ms)"
    using law e put unfolding jmt_law_def content_of_def by blast+
  have n: "node_table S (st_nodes st1) (updated_nodes (se_jmt S) 0 u Map.empty)" "st_entities st1 = write_rows ms []"
    using node_table_update [OF c w(1), of Map.empty] empty_node_table [of S] by (simp_all add: empty_store_def)
  have "reads (store_reader S st) (updated_nodes (se_jmt S) 0 u Map.empty)"
    using reads_node_table [OF c] n(1) write_metadata_read(3) [OF c w(2)] by simp
  then show "store_holds S T R st 0 s"
    using ms n(2) T r write_metadata_read [OF c w(2)] unfolding store_holds_def by metis
  show "compute_state_root S s = Ok r" using root_of_state [OF law ms] r by simp
qed

text \<open>No two of the keys that the two states use have the same hash.\<close>

definition keys_distinguished :: "('nk, 'nd) store_env \<Rightarrow> state \<Rightarrow> state \<Rightarrow> bool" where
  "keys_distinguished S s s' \<longleftrightarrow>
     (\<forall>ms cs. all_entities (se_codec S) (se_shielded S) s = Ok ms \<longrightarrow> changed_entities (se_codec S) (se_shielded S) s s' = Ok cs \<longrightarrow>
        inj_on (se_sha S) (em_key ` (set ms \<union> set cs)))"

lemma commit_next:
  assumes law: "jmt_law (se_jmt S) T R" and c: "store_codecs_ok S"
    and s: "state_stored (se_shielded S) s" and s': "state_stored (se_shielded S) s'"
    and nd: "notes_distinguished (se_shielded S) s s'" and keys: "keys_distinguished S s s'"
    and h: "store_holds S T R st v s" and ok: "commit_state S (Some s) s' st = Ok (r, st')"
  shows "store_holds S T R st' (Suc v) s'" and "compute_state_root S s' = Ok r"
    and "preview_state_root S st (Some s) s' = Ok r"
proof -
  let ?C = "se_codec S" and ?V = "se_shielded S" and ?J = "se_jmt S"
  from h obtain ms N where ms: "all_entities ?C ?V s = Ok ms" "st_entities st = write_rows ms []"
    and m: "read_metadata S st = Ok (Some \<lparr>cm_version = v, cm_state_root = R (content_of S ms)\<rparr>)"
    and N: "reads (store_reader S st) N" "T N v (content_of S ms)"
    by (auto simp: store_holds_def)
  from ok m obtain cs u st1 where b: "build_update S st (Some s) s' = Ok (Suc v, r, u, cs)"
    and cs: "changed_entities ?C ?V s s' = Ok cs"
    and put: "jm_put ?J (store_reader S st) (hashed_rows S cs) (Suc v) = Ok (r, u)"
    and w: "write_tree_update S (Suc v) u (st\<lparr>st_entities := write_rows cs (write_rows ms [])\<rparr>) = Ok st1" "write_metadata S (Suc v) r st1 = Ok st'"
    by (auto simp: commit_state_def build_update_def state_mutations_def hashed_rows_def ms(2) checked_add_def split: if_splits)
  have key: "codec_ok (sc_key ?C)" using c by (simp add: store_codecs_ok_def codecs_ok_def)
  have cov: "covers ?C ?V s s' UNIV cs" by (rule changed_entities_covers [OF s s' nd cs])
  obtain ms' where ms': "all_entities ?C ?V s' = Ok ms'"
    using changed_entities_writable [OF key s s' ms(1) cs cov] by blast
  have table: "write_rows cs (write_rows ms []) = write_rows ms' []"
    by (rule written_changes [OF key s s' ms(1) ms' cov])
  let ?A = "em_key ` (set ms \<union> set cs)"
  have inj: "inj_on (se_sha S) ?A" using keys ms(1) cs by (simp add: keys_distinguished_def)
  have old: "content_of S ms = hashed S ?A (write_rows ms [])"
    unfolding content_of_def hashed_empty [of S ?A, symmetric] by (rule put_all_hashed [OF inj]) auto
  have "em_key ` set ms' \<subseteq> ?A"
  proof
    fix k assume "k \<in> em_key ` set ms'"
    moreover have "mset (write_rows ms' []) = mset (map row ms')"
      using c by (intro table_rows [OF _ s' ms']) (simp add: store_codecs_ok_def)
    ultimately have "k \<in> fst ` (row ` set ms')" "set (write_rows ms' []) = row ` set ms'"
      using mset_eq_setD [of "write_rows ms' []" "map row ms'"] by (simp_all add: row_def image_image)
    then have "k \<in> fst ` set (write_rows ms' [])" by simp
    then have some: "om_get (write_rows cs (write_rows ms [])) k \<noteq> None"
      unfolding table by (simp add: om_get_def map_of_eq_None_iff)
    show "k \<in> ?A"
    proof (rule ccontr)
      assume "k \<notin> ?A"
      then have "k \<notin> em_key ` set ms" "k \<notin> em_key ` set cs" by blast+
      then have "om_get (write_rows ms []) k = None" "om_get (write_rows cs (write_rows ms [])) k = om_get (write_rows ms []) k"
        by (simp_all only: om_get_untouched om_get_Nil not_False_eq_True)
      with some show False by simp
    qed
  qed
  then have new: "content_of S ms' = hashed S ?A (write_rows ms' [])"
    unfolding content_of_def hashed_empty [of S ?A, symmetric] by (rule put_all_hashed [OF inj])
  have step: "put_all (hashed_rows S cs) (content_of S ms) = content_of S ms'"
    unfolding old new table [symmetric] by (rule put_all_hashed [OF inj]) auto
  have r: "r = R (content_of S ms')" and T: "T (updated_nodes ?J (Suc v) u N) (Suc v) (content_of S ms')"
    using law N put unfolding jmt_law_def step [symmetric] by blast+
  have n: "node_table S (st_nodes st1) (updated_nodes ?J (Suc v) u N)" "st_entities st1 = write_rows ms' []"
    using node_table_update [OF c w(1), of N] N(1) reads_node_table [OF c, of st N] by (simp_all add: table)
  have "reads (store_reader S st') (updated_nodes ?J (Suc v) u N)"
    using reads_node_table [OF c] n(1) write_metadata_read(3) [OF c w(2)] by simp
  then show "store_holds S T R st' (Suc v) s'"
    using ms' n(2) T r write_metadata_read [OF c w(2)] unfolding store_holds_def by metis
  show "compute_state_root S s' = Ok r" using root_of_state [OF law ms'] r by simp
  show "preview_state_root S st (Some s) s' = Ok r" using b by (simp add: preview_state_root_def)
qed

lemma clear_table: "clear_table t = []"
proof -
  have "fold om_remove ks t = filter (\<lambda>p. fst p \<notin> set ks) t" for ks :: "bytes list"
  proof (induction ks arbitrary: t)
    case (Cons k ks)
    have "om_remove k t = filter (\<lambda>p. fst p \<noteq> k) t" for t :: "(bytes, bytes) omap"
      by (induction k t rule: om_remove.induct) auto
    with Cons show ?case by (simp add: conj_commute)
  qed simp
  then show ?thesis by (auto simp: clear_table_def om_keys_def filter_empty_conv)
qed

lemma insert_entities: "foldr_res insert_entity ms t = Ok t' \<Longrightarrow> t' = write_rows ms t"
proof (induction ms arbitrary: t)
  case (Cons m ms)
  then show ?case by (auto simp: insert_entity_def write_rows_def write_row_def)
qed (simp add: write_rows_def)

lemma replace_holds:
  assumes law: "jmt_law (se_jmt S) T R" and c: "store_codecs_ok S" and ok: "replace_state S s st = Ok (r, st')"
  shows "store_holds S T R st' 0 s" and "compute_state_root S s = Ok r"
proof -
  from ok obtain ms u t st1 where ms: "all_entities (se_codec S) (se_shielded S) s = Ok ms"
    and put: "jm_put (se_jmt S) empty_reader (hashed_rows S ms) 0 = Ok (r, u)"
    and t: "foldr_res insert_entity ms [] = Ok t"
    and w: "write_tree_update S 0 u (st\<lparr>st_entities := t, st_nodes := [], st_values := []\<rparr>) = Ok st1" "write_metadata S 0 r st1 = Ok st'"
    by (auto simp: replace_state_def build_state_tree_def hashed_rows_def clear_table)
  have e: "reads empty_reader Map.empty" by (simp add: reads_def empty_reader_def)
  have r: "r = R (content_of S ms)" and T: "T (updated_nodes (se_jmt S) 0 u Map.empty) 0 (content_of S ms)"
    using law e put unfolding jmt_law_def content_of_def by blast+
  have n: "node_table S (st_nodes st1) (updated_nodes (se_jmt S) 0 u Map.empty)" "st_entities st1 = write_rows ms []"
    using node_table_update [OF c w(1), of Map.empty] empty_node_table [of S] insert_entities [OF t] by simp_all
  have "reads (store_reader S st') (updated_nodes (se_jmt S) 0 u Map.empty)"
    using reads_node_table [OF c] n(1) write_metadata_read(3) [OF c w(2)] by simp
  then show "store_holds S T R st' 0 s"
    using ms n(2) T r write_metadata_read [OF c w(2)] unfolding store_holds_def by metis
  show "compute_state_root S s = Ok r" using root_of_state [OF law ms] r by simp
qed

end
