(* ===== verification/Store_Theorems.thy ===== *)
theory Store_Theorems
  imports Store_Props
begin

text \<open>
  The properties of the store and of the state entities, with a small tree, codecs and two states on
  which they are applied: the tree keeps its whole content in one node per version.
\<close>

section \<open>The register that a store implements\<close>

text \<open>
  Runs of the operations that succeed, over well-formed states without colliding hashes. The second
  argument of \<open>store_run\<close> is the register: the state that was committed last.
\<close>

inductive store_run :: "('nk, 'nd) store_env \<Rightarrow> store \<Rightarrow> state option \<Rightarrow> bool" for S where
  run_open: "store_run S empty_store None"
| run_first: "store_run S st None \<Longrightarrow> state_stored (se_shielded S) s \<Longrightarrow> commit_state S None s st = Ok (r, st') \<Longrightarrow>
     store_run S st' (Some s)"
| run_commit: "store_run S st (Some s) \<Longrightarrow> state_stored (se_shielded S) s' \<Longrightarrow>
     notes_distinguished (se_shielded S) s s' \<Longrightarrow> keys_distinguished S s s' \<Longrightarrow>
     commit_state S (Some s) s' st = Ok (r, st') \<Longrightarrow> store_run S st' (Some s')"
| run_replace: "store_run S st cur \<Longrightarrow> state_stored (se_shielded S) s \<Longrightarrow> replace_state S s st = Ok (r, st') \<Longrightarrow>
     store_run S st' (Some s)"

definition register_read :: "('nk, 'nd) store_env \<Rightarrow> state option \<Rightarrow> store \<Rightarrow> bool" where
  "register_read S cur st \<longleftrightarrow>
     (case cur of
        None \<Rightarrow> load_state S st = Ok None
      | Some s \<Rightarrow> (\<exists>r v. compute_app_hash S s = Ok r \<and>
          load_state S st = Ok (Some \<lparr>ss_state = s, ss_app_hash = r, ss_version = v\<rparr>)))"

lemma store_run_holds:
  assumes law: "jmt_law (se_jmt S) T R" and c: "store_codecs_ok S" and "store_run S st cur"
  shows "case cur of None \<Rightarrow> st = empty_store
    | Some s \<Rightarrow> state_stored (se_shielded S) s \<and> (\<exists>v r. store_holds S T R st v s \<and> compute_state_root S s = Ok r)"
  using assms(3)
proof induction
  case (run_first st s r st')
  then have "commit_state S None s empty_store = Ok (r, st')" by simp
  from commit_initial [OF law c this] run_first(2) show ?case by auto
next
  case (run_commit st s s' r st')
  then obtain v where s: "state_stored (se_shielded S) s" and h: "store_holds S T R st v s" by auto
  from commit_next(1,2) [OF law c s run_commit(2,3,4) h run_commit(5)] run_commit(2) show ?case by auto
next
  case (run_replace st cur s r st')
  from replace_holds [OF law c run_replace(3)] run_replace(2) show ?case by auto
qed simp

section \<open>A tree with one node\<close>

definition w_root :: "content \<Rightarrow> bytes" where
  "w_root m = (case m (ENTITY_KEY_DOMAIN @ [0]) of Some v \<Rightarrow> v | None \<Rightarrow> [])"

definition w_put :: "(bytes \<times> bytes option) list \<Rightarrow> (bytes, bytes) omap \<Rightarrow> (bytes, bytes) omap" where
  "w_put vals t = fold (\<lambda>(k, v) t. case v of Some v \<Rightarrow> om_insert k v t | None \<Rightarrow> om_remove k t) vals t"

definition w_before :: "(nat, (bytes, bytes) omap) tree_reader \<Rightarrow> nat \<Rightarrow> (bytes, bytes) omap" where
  "w_before rd v = (case v of 0 \<Rightarrow> [] | Suc u \<Rightarrow> (case rd_node rd u of Ok (Some t) \<Rightarrow> t | _ \<Rightarrow> []))"

definition w_jmt :: "(nat, (bytes, bytes) omap) jmt" where
  "w_jmt =
     \<lparr>jm_put = (\<lambda>rd vals v. let t = w_put vals (w_before rd v) in
        Ok (w_root (om_get t), \<lparr>tu_nodes = [(v, t)], tu_stale = [], tu_values = []\<rparr>)),
      jm_root = (\<lambda>rd v. case rd_node rd v of Ok (Some t) \<Rightarrow> Ok (w_root (om_get t)) | _ \<Rightarrow> Err (Persistence [])),
      jm_root_key = (\<lambda>v. v), jm_leaf_hash = (\<lambda>_. None)\<rparr>"

definition w_tree :: "(nat \<Rightarrow> (bytes, bytes) omap option) \<Rightarrow> nat \<Rightarrow> content \<Rightarrow> bool" where
  "w_tree N v m \<longleftrightarrow> (\<exists>t. N v = Some t \<and> om_get t = m)"

lemma w_put_get: "om_get (w_put vals t) = put_all vals (om_get t)"
proof (induction vals arbitrary: t)
  case (Cons p vals)
  obtain k v where p: "p = (k, v)" by (cases p)
  let ?t = "case v of Some v \<Rightarrow> om_insert k v t | None \<Rightarrow> om_remove k t"
  have "om_get ?t = (om_get t)(k := v)" by (auto split: option.split)
  with Cons [of ?t] show ?case by (simp add: p w_put_def put_all_def fun_upd_def)
qed (simp add: w_put_def put_all_def)

lemma w_law: "jmt_law w_jmt w_tree w_root"
proof -
  have nil: "om_get ([] :: (bytes, bytes) omap) = Map.empty" by auto
  show ?thesis
    unfolding jmt_law_def
    by (auto simp: w_jmt_def w_tree_def Let_def updated_nodes_def w_before_def reads_def w_put_get nil)
qed

section \<open>Codecs and states\<close>

definition no_codec :: "'a codec" where
  "no_codec = \<lparr>cd_json = (\<lambda>_. None), cd_parse = (\<lambda>_. None)\<rparr>"

definition w_state :: "nat \<Rightarrow> state" where
  "w_state h = (genesis ''w'' [])\<lparr>es_height := h\<rparr>"

definition w_codec :: state_codec where
  "w_codec =
     \<lparr>sc_key = \<lparr>cd_json = (\<lambda>k. if k = MetaKey then Some [0] else if k = EventLogKey then Some [1] else None),
        cd_parse = (\<lambda>bs. if bs = [0] then Some MetaKey else if bs = [1] then Some EventLogKey else None)\<rparr>,
      sc_meta = \<lparr>cd_json = (\<lambda>m. if m = state_meta_of (w_state (sm_height m)) then Some [sm_height m] else None),
        cd_parse = (\<lambda>bs. case bs of [h] \<Rightarrow> Some (state_meta_of (w_state h)) | _ \<Rightarrow> None)\<rparr>,
      sc_event_log = \<lparr>cd_json = (\<lambda>lg. if lg = [] then Some [] else None), cd_parse = (\<lambda>bs. if bs = [] then Some [] else None)\<rparr>,
      sc_nonce = no_codec, sc_market = no_codec, sc_account = no_codec, sc_book = no_codec, sc_symbol = no_codec,
      sc_uuid = no_codec, sc_oracle = no_codec, sc_key_set = no_codec, sc_pending = no_codec, sc_bonds = no_codec,
      sc_app_hash = no_codec, sc_snapshot = no_codec, sc_header = no_codec, sc_note = no_codec, sc_unit = no_codec\<rparr>"

definition w_shielded :: shielded_env where
  "w_shielded = \<lparr>sv_sha = (\<lambda>_. replicate 32 0), sv_spend_parse = (\<lambda>_. None), sv_spend_json = (\<lambda>_. None),
     sv_deposit_parse = (\<lambda>_. None), sv_deposit_json = (\<lambda>_. None), sv_key_parses = (\<lambda>_. False),
     sv_verify_strict = (\<lambda>_ _ _. False)\<rparr>"

definition w_table :: "nat \<Rightarrow> (bytes, bytes) omap" where
  "w_table h = [(ENTITY_KEY_DOMAIN @ [0], [h]), (ENTITY_KEY_DOMAIN @ [1], [])]"

definition w_store_env :: "(nat, (bytes, bytes) omap) store_env" where
  "w_store_env =
     \<lparr>se_codec = w_codec, se_shielded = w_shielded, se_sha = (\<lambda>b. b), se_jmt = w_jmt,
      se_node_key = \<lparr>cd_json = (\<lambda>k. Some [k]), cd_parse = (\<lambda>bs. case bs of [k] \<Rightarrow> Some k | _ \<Rightarrow> None)\<rparr>,
      se_node = \<lparr>cd_json = (\<lambda>t. case t of [(a, [h]), (b, bs)] \<Rightarrow> if t = w_table h then Some [h] else None | _ \<Rightarrow> None),
        cd_parse = (\<lambda>bs. case bs of [h] \<Rightarrow> Some (w_table h) | _ \<Rightarrow> None)\<rparr>,
      se_metadata = \<lparr>cd_json = (\<lambda>m. Some (cm_version m # cm_state_root m)),
        cd_parse = (\<lambda>bs. case bs of v # r \<Rightarrow> Some \<lparr>cm_version = v, cm_state_root = r\<rparr> | _ \<Rightarrow> None)\<rparr>,
      se_latest = no_codec\<rparr>"

lemma w_codecs: "codecs_ok w_codec"
  by (auto simp: codecs_ok_def codec_ok_def w_codec_def no_codec_def split: if_splits)

lemma w_store_codecs: "store_codecs_ok w_store_env"
  by (auto simp: store_codecs_ok_def w_codecs w_store_env_def codec_ok_def split: list.splits if_splits)

lemma w_stored: "state_stored w_shielded (w_state h)"
  by (simp add: state_stored_def w_state_def genesis_def om_of_list_def om_keys_def)

lemma key_order: "(xs :: bytes) @ [0] \<le> xs @ [1]" "(xs :: bytes) @ [0] \<le> xs @ [Suc 0]"
  by (induction xs) auto

lemma w_no_ledger: "es_shielded_ledger (w_state h) = None"
  by (simp add: w_state_def genesis_def Let_def)

lemma w_notes: "notes_distinguished w_shielded (w_state h) (w_state h')"
  by (simp add: notes_distinguished_def w_shielded_def w_no_ledger)

lemma w_entities:
  "all_entities w_codec w_shielded (w_state h) =
     Ok [\<lparr>em_key = ENTITY_KEY_DOMAIN @ [0], em_value = Some [h]\<rparr>, \<lparr>em_key = ENTITY_KEY_DOMAIN @ [1], em_value = Some []\<rparr>]"
  by (simp add: all_entities_def shielded_size_def w_state_def genesis_def om_of_list_def om_keys_def push_map_def key_order
      om_entries_def mutation_def entity_key_bytes_def sc_encode_def w_codec_def state_meta_of_def sort_entities_def)

lemma w_changes:
  "h \<noteq> h' \<Longrightarrow> changed_entities w_codec w_shielded (w_state h) (w_state h') =
     Ok [\<lparr>em_key = ENTITY_KEY_DOMAIN @ [0], em_value = Some [h']\<rparr>]"
  by (simp add: changed_entities_def w_state_def genesis_def om_of_list_def om_keys_def push_map_diff_def push_if_def
      mutation_def entity_key_bytes_def sc_encode_def w_codec_def state_meta_of_def sort_entities_def)

lemma w_rows: "write_rows [\<lparr>em_key = ENTITY_KEY_DOMAIN @ [0], em_value = Some [h]\<rparr>, \<lparr>em_key = ENTITY_KEY_DOMAIN @ [1], em_value = Some []\<rparr>] [] = w_table h"
  "write_rows [\<lparr>em_key = ENTITY_KEY_DOMAIN @ [0], em_value = Some [h']\<rparr>] (w_table h) = w_table h'"
  using key_order [of ENTITY_KEY_DOMAIN] by (auto simp: write_rows_def write_row_def w_table_def)

definition w_store :: "nat \<Rightarrow> nat \<Rightarrow> store" where
  "w_store v h = \<lparr>st_entities = w_table h, st_nodes = [([v], [h])], st_values = [], st_metadata = Some [v, h]\<rparr>"

lemma w_first: "commit_state w_store_env None (w_state h) empty_store = Ok ([h], w_store 0 h)"
proof -
  have "w_put [(ENTITY_KEY_DOMAIN @ [0], Some [h]), (ENTITY_KEY_DOMAIN @ [1], Some [])] [] = w_table h"
    using key_order [of ENTITY_KEY_DOMAIN] by (auto simp: w_put_def w_table_def)
  then show ?thesis
    using w_entities [of h] w_rows(1) [of h]
    by (simp add: commit_state_def build_update_def read_metadata_def empty_store_def state_mutations_def w_store_env_def
        key_hash_def w_jmt_def Let_def w_before_def write_tree_update_def insert_node_def sc_encode_def w_table_def
        remove_previous_root_def checked_sub_def write_metadata_def w_root_def w_store_def om_get_def)
qed

lemma w_next: "h \<noteq> h' \<Longrightarrow> commit_state w_store_env (Some (w_state h)) (w_state h') (w_store 0 h) = Ok ([h'], w_store 1 h')"
proof -
  assume d: "h \<noteq> h'"
  have "w_put [(ENTITY_KEY_DOMAIN @ [0], Some [h'])] (w_table h) = w_table h'"
    using key_order [of ENTITY_KEY_DOMAIN] by (auto simp: w_put_def w_table_def)
  then show ?thesis
    using w_changes [OF d] w_rows(2) [of h' h]
    by (simp add: commit_state_def build_update_def read_metadata_def state_mutations_def w_store_env_def u64_max_def
        key_hash_def w_jmt_def Let_def w_before_def write_tree_update_def insert_node_def sc_encode_def sc_decode_def w_table_def
        remove_previous_root_def checked_sub_def checked_add_def write_metadata_def w_root_def w_store_def om_get_def
        store_reader_def get_node_option_def)
qed

section \<open>Properties\<close>





text \<open>
  The differences compare values, the table holds their encodings. With codecs that write equal values
  in two ways, as decimals of two scales are written, the table that the changes leave differs from the
  table of the new state.
\<close>

definition w_rescaled :: state_codec where
  "w_rescaled = w_codec\<lparr>sc_event_log := \<lparr>cd_json = (\<lambda>lg. if lg = [] then Some [0] else None), cd_parse = (\<lambda>bs. if bs = [0] then Some [] else None)\<rparr>\<rparr>"

lemma rescaled_value_missed:
  "\<exists>ms ms'. all_entities w_codec w_shielded (w_state h) = Ok ms \<and> all_entities w_rescaled w_shielded (w_state h) = Ok ms' \<and>
     state_mutations w_rescaled w_shielded (Some (w_state h)) (w_state h) = Ok [] \<and> write_rows [] (write_rows ms []) \<noteq> write_rows ms' []"
proof -
  have "all_entities w_rescaled w_shielded (w_state h) =
     Ok [\<lparr>em_key = ENTITY_KEY_DOMAIN @ [0], em_value = Some [h]\<rparr>, \<lparr>em_key = ENTITY_KEY_DOMAIN @ [1], em_value = Some [0]\<rparr>]"
    by (simp add: all_entities_def shielded_size_def w_state_def genesis_def om_of_list_def om_keys_def push_map_def key_order
      om_entries_def mutation_def entity_key_bytes_def sc_encode_def w_codec_def w_rescaled_def state_meta_of_def sort_entities_def)
  moreover have "state_mutations w_rescaled w_shielded (Some (w_state h)) (w_state h) = Ok []"
    by (simp add: state_mutations_def equal_states_write_nothing w_no_ledger)
  moreover have "write_rows [] (write_rows [\<lparr>em_key = ENTITY_KEY_DOMAIN @ [0], em_value = Some [h]\<rparr>, \<lparr>em_key = ENTITY_KEY_DOMAIN @ [1], em_value = Some []\<rparr>] [])
      \<noteq> write_rows [\<lparr>em_key = ENTITY_KEY_DOMAIN @ [0], em_value = Some [h]\<rparr>, \<lparr>em_key = ENTITY_KEY_DOMAIN @ [1], em_value = Some [0]\<rparr>] []"
    by (auto simp: write_rows_def write_row_def)
  ultimately show ?thesis using w_entities by blast
qed

end
