(* ===== verification/Tx_Cache.thy ===== *)
theory Tx_Cache
  imports Bytes Ordered_Map
begin

text \<open>
  The cache of verified transactions (\<open>TransactionVerificationCache\<close> of \<open>consensus.rs\<close>): entries by the
  hash of the transaction bytes, an index of the hashes by their last access, and a budget of entries
  and of bytes. \<open>'r\<close> is what verifying a transaction gives. The second part specifies the cache as a
  list of entries in the order of their last use and proves that the operations implement it.
\<close>

section \<open>The cache\<close>

record 'r cache_entry =
  te_bytes_hash :: bytes
  te_bytes_len :: nat
  te_result :: 'r
  te_last_access :: nat

record 'r tx_cache =
  tc_capacity :: nat
  tc_max_bytes :: nat
  tc_resident_bytes :: nat
  tc_next_access :: nat
  tc_entries :: "(bytes, 'r cache_entry) omap"
  tc_recency :: "(nat, bytes) omap"

definition new_cache :: "nat \<Rightarrow> nat \<Rightarrow> 'r tx_cache" where
  "new_cache capacity max_bytes =
     \<lparr>tc_capacity = capacity, tc_max_bytes = max_bytes, tc_resident_bytes = 0, tc_next_access = 0,
      tc_entries = [], tc_recency = []\<rparr>"

definition cache_remove :: "bytes \<Rightarrow> 'r tx_cache \<Rightarrow> 'r tx_cache" where
  "cache_remove h c =
     (case om_get (tc_entries c) h of
        None \<Rightarrow> c
      | Some e \<Rightarrow>
          c\<lparr>tc_entries := om_remove h (tc_entries c), tc_recency := om_remove (te_last_access e) (tc_recency c),
            tc_resident_bytes := tc_resident_bytes c - te_bytes_len e\<rparr>)"

definition cache_clear :: "'r tx_cache \<Rightarrow> 'r tx_cache" where
  "cache_clear c = c\<lparr>tc_entries := [], tc_recency := [], tc_resident_bytes := 0, tc_next_access := 0\<rparr>"

text \<open>The loop of \<open>allocate_access\<close> that numbers the entries from 0 when the counter is used up.\<close>

fun renumber :: "nat \<Rightarrow> bytes list \<Rightarrow> 'r tx_cache \<Rightarrow> ('e, 'r tx_cache) res" where
  "renumber access [] c = Ok c"
| "renumber access (h # hs) c =
     bindr (expect (om_get (tc_entries c) h)) (\<lambda>e.
     renumber (Suc access) hs
       (c\<lparr>tc_entries := om_insert h (e\<lparr>te_last_access := access\<rparr>) (tc_entries c),
          tc_recency := om_insert access h (tc_recency c)\<rparr>))"

definition allocate_access :: "'r tx_cache \<Rightarrow> ('e, nat \<times> 'r tx_cache) res" where
  "allocate_access c =
     bindr
       (if tc_next_access c = u64_max
        then bindr (renumber 0 (om_values (tc_recency c)) (c\<lparr>tc_recency := []\<rparr>)) (\<lambda>c.
             Ok (c\<lparr>tc_next_access := length (tc_entries c)\<rparr>))
        else Ok c) (\<lambda>c.
     bindr (expect (checked_add u64_max (tc_next_access c) 1)) (\<lambda>n.
     Ok (tc_next_access c, c\<lparr>tc_next_access := n\<rparr>)))"

definition cache_get :: "bytes \<Rightarrow> nat \<Rightarrow> 'r tx_cache \<Rightarrow> ('e, 'r option \<times> 'r tx_cache) res" where
  "cache_get h len c =
     (case om_get (tc_entries c) h of
        None \<Rightarrow> Ok (None, c)
      | Some e \<Rightarrow>
          if te_bytes_hash e \<noteq> h \<or> te_bytes_len e \<noteq> len then Ok (None, cache_remove h c)
          else
            bindr (allocate_access c) (\<lambda>(access, c).
            bindr (expect (om_get (tc_entries c) h)) (\<lambda>e'.
            Ok (Some (te_result e),
                c\<lparr>tc_recency := om_insert access h (om_remove (te_last_access e) (tc_recency c)),
                  tc_entries := om_insert h (e'\<lparr>te_last_access := access\<rparr>) (tc_entries c)\<rparr>))))"

text \<open>
  The loop that evicts the least recently used entries. It ends when each round removes an entry, and not
  when the index names an entry that is not there; \<open>None\<close> is a loop that never ends.
\<close>

partial_function (option) evict :: "'r tx_cache \<Rightarrow> 'r tx_cache option" where
  "evict c =
     (if tc_capacity c < length (tc_entries c) \<or> tc_max_bytes c < tc_resident_bytes c
      then (case om_entries (tc_recency c) of [] \<Rightarrow> Some c | x # _ \<Rightarrow> evict (cache_remove (snd x) c))
      else Some c)"

text \<open>A loop that never ends gives no result, as a panic gives none.\<close>

definition cache_insert :: "bytes \<Rightarrow> nat \<Rightarrow> 'r \<Rightarrow> 'r tx_cache \<Rightarrow> ('e, 'r tx_cache) res" where
  "cache_insert h len r c =
     (if tc_capacity c = 0 \<or> tc_max_bytes c = 0 \<or> tc_max_bytes c < len then Ok c
      else
        bindr (allocate_access (cache_remove h c)) (\<lambda>(access, c).
        bindr (expect (checked_add u64_max (tc_resident_bytes c) len)) (\<lambda>resident.
        let c = c\<lparr>tc_resident_bytes := resident,
                  tc_entries := om_insert h \<lparr>te_bytes_hash = h, te_bytes_len = len, te_result = r, te_last_access = access\<rparr> (tc_entries c),
                  tc_recency := om_insert access h (tc_recency c)\<rparr> in
        expect (evict c))))"

section \<open>Its specification\<close>

text \<open>The entries of the abstract cache, the least recently used first.\<close>

type_synonym 'r lru = "(bytes \<times> nat \<times> 'r) list"

definition lru_bytes :: "'r lru \<Rightarrow> nat" where
  "lru_bytes q = (\<Sum>(h, len, r)\<leftarrow>q. len)"

definition lru_remove :: "bytes \<Rightarrow> 'r lru \<Rightarrow> 'r lru" where
  "lru_remove h q = filter (\<lambda>(h', _). h' \<noteq> h) q"

fun lru_evict :: "nat \<Rightarrow> nat \<Rightarrow> 'r lru \<Rightarrow> 'r lru" where
  "lru_evict capacity max_bytes [] = []"
| "lru_evict capacity max_bytes (x # q) =
     (if capacity < length (x # q) \<or> max_bytes < lru_bytes (x # q) then lru_evict capacity max_bytes q else x # q)"

definition lru_get :: "bytes \<Rightarrow> nat \<Rightarrow> 'r lru \<Rightarrow> 'r option \<times> 'r lru" where
  "lru_get h len q =
     (case map_of q h of
        None \<Rightarrow> (None, q)
      | Some (len', r) \<Rightarrow> if len' \<noteq> len then (None, lru_remove h q) else (Some r, lru_remove h q @ [(h, len', r)]))"

definition lru_insert :: "nat \<Rightarrow> nat \<Rightarrow> bytes \<Rightarrow> nat \<Rightarrow> 'r \<Rightarrow> 'r lru \<Rightarrow> 'r lru" where
  "lru_insert capacity max_bytes h len r q =
     (if capacity = 0 \<or> max_bytes = 0 \<or> max_bytes < len then q
      else lru_evict capacity max_bytes (lru_remove h q @ [(h, len, r)]))"

text \<open>The abstraction, and the invariant of the two indices and of the counters.\<close>

definition lru_of :: "'r tx_cache \<Rightarrow> 'r lru" where
  "lru_of c = map (\<lambda>h. let e = the (om_get (tc_entries c) h) in (h, te_bytes_len e, te_result e)) (om_values (tc_recency c))"

definition indexed :: "'r tx_cache \<Rightarrow> bool" where
  "indexed c \<longleftrightarrow> om_ok (tc_entries c) \<and> om_ok (tc_recency c) \<and>
     (\<forall>h e. om_get (tc_entries c) h = Some e \<longrightarrow> te_bytes_hash e = h \<and> om_get (tc_recency c) (te_last_access e) = Some h) \<and>
     (\<forall>a h. om_get (tc_recency c) a = Some h \<longrightarrow> a < tc_next_access c \<and> (\<exists>e. om_get (tc_entries c) h = Some e \<and> te_last_access e = a))"

definition cache_ok :: "'r tx_cache \<Rightarrow> bool" where
  "cache_ok c \<longleftrightarrow> indexed c \<and> tc_next_access c \<le> u64_max \<and> tc_resident_bytes c = lru_bytes (lru_of c) \<and>
     length (tc_entries c) \<le> tc_capacity c \<and> tc_resident_bytes c \<le> tc_max_bytes c \<and>
     tc_capacity c < u64_max \<and> 2 * tc_max_bytes c \<le> u64_max"

section \<open>The two indices\<close>

lemma om_values_remove:
  assumes "om_ok m" and "om_get m a = Some v" and "distinct (om_values m)"
  shows "om_values (om_remove a m) = filter (\<lambda>x. x \<noteq> v) (om_values m)"
  using assms
proof (induction m)
  case (Cons p m)
  obtain k w where p: "p = (k, w)" by (cases p)
  show ?case
  proof (cases "k = a")
    case True
    then have "w = v" using Cons.prems p by (simp add: om_get_def)
    moreover have "om_remove a m = m"
      using Cons.prems(1) True p by (induction m) (auto simp: om_ok_Cons)
    moreover have "filter (\<lambda>x. x \<noteq> v) (om_values m) = om_values m"
      using Cons.prems(3) p calculation(1) by (auto simp: om_values_def filter_id_conv)
    ultimately show ?thesis using True p by (simp add: om_values_def)
  next
    case False
    then have g: "om_get m a = Some v" using Cons.prems(2) p by (simp add: om_get_def)
    then have "v \<in> set (om_values m)" using om_get_in_set [OF g] by (force simp: om_values_def)
    then have "w \<noteq> v" using Cons.prems(3) p by (auto simp: om_values_def)
    then show ?thesis
      using False p g Cons.IH Cons.prems by (simp add: om_values_def om_ok_Cons)
  qed
qed simp

lemma om_insert_last:
  assumes "\<And>k. k \<in> fst ` set m \<Longrightarrow> k < a"
  shows "om_insert a v m = m @ [(a, v)]"
  using assms by (induction m) (force split: if_splits)+

lemma indexed_hashes:
  assumes "indexed c"
  shows "distinct (om_values (tc_recency c))" and "set (om_values (tc_recency c)) = dom (om_get (tc_entries c))"
    and "length (tc_recency c) = length (tc_entries c)"
proof -
  have ok: "om_ok (tc_entries c)" "om_ok (tc_recency c)" using assms by (auto simp: indexed_def)
  have acc: "te_last_access (the (om_get (tc_entries c) h)) = a" if "om_get (tc_recency c) a = Some h" for a h
    using assms that by (force simp: indexed_def)
  have "inj_on snd (set (tc_recency c))"
    by (rule inj_onI) (metis acc ok(2) om_in_set_get prod.collapse)
  then show d: "distinct (om_values (tc_recency c))"
    using om_ok_distinct [OF ok(2)] by (auto simp: om_values_def distinct_map)
  show s: "set (om_values (tc_recency c)) = dom (om_get (tc_entries c))"
    using assms by (fastforce simp: om_values_get [OF ok(2)] indexed_def)
  have "dom (om_get (tc_entries c)) = set (map fst (tc_entries c))"
    by (simp add: om_get_def [abs_def] dom_map_of_conv_image_fst)
  then have "card (set (map fst (tc_entries c))) = card (set (om_values (tc_recency c)))" using s by simp
  then show "length (tc_recency c) = length (tc_entries c)"
    using distinct_card [OF d] distinct_card [OF om_ok_distinct [OF ok(1)]] by (simp add: om_values_def)
qed

lemma map_of_lru:
  assumes "indexed c"
  shows "map_of (lru_of c) h = map_option (\<lambda>e. (te_bytes_len e, te_result e)) (om_get (tc_entries c) h)"
proof -
  have "lru_of c = map (\<lambda>h. (h, te_bytes_len (the (om_get (tc_entries c) h)), te_result (the (om_get (tc_entries c) h)))) (om_values (tc_recency c))"
    by (simp add: lru_of_def Let_def)
  then show ?thesis
    using indexed_hashes(2) [OF assms]
    by (cases "om_get (tc_entries c) h") (auto simp: map_of_map_restrict restrict_map_def domIff)
qed

lemma length_lru: "indexed c \<Longrightarrow> length (lru_of c) = length (tc_entries c)"
  by (simp add: lru_of_def om_values_def indexed_hashes(3))

section \<open>Removal\<close>

lemma indexed_remove:
  assumes "indexed c"
  shows "indexed (cache_remove h c)"
proof (cases "om_get (tc_entries c) h")
  case (Some e)
  have "a \<noteq> te_last_access e" if "om_get (tc_entries c) h' = Some e'" "te_last_access e' = a" "h' \<noteq> h" for a h' e'
    using assms that Some unfolding indexed_def by (metis option.inject)
  then show ?thesis
    using assms Some by (auto simp: cache_remove_def indexed_def split: if_splits) fastforce
qed (use assms in \<open>simp add: cache_remove_def\<close>)

lemma lru_remove_of:
  assumes "indexed c"
  shows "lru_of (cache_remove h c) = lru_remove h (lru_of c)"
proof (cases "om_get (tc_entries c) h")
  case None
  then have "h \<notin> set (om_values (tc_recency c))" using indexed_hashes(2) [OF assms] by auto
  then have "filter (\<lambda>x. x \<noteq> h) (om_values (tc_recency c)) = om_values (tc_recency c)" by (auto simp: filter_id_conv)
  then show ?thesis
    using None by (simp add: cache_remove_def lru_of_def lru_remove_def filter_map o_def Let_def)
next
  case (Some e)
  then have g: "om_get (tc_recency c) (te_last_access e) = Some h" and ok: "om_ok (tc_recency c)"
    using assms by (auto simp: indexed_def)
  have "om_values (om_remove (te_last_access e) (tc_recency c)) = filter (\<lambda>x. x \<noteq> h) (om_values (tc_recency c))"
    by (rule om_values_remove [OF ok g indexed_hashes(1) [OF assms]])
  then show ?thesis
    using Some by (auto simp: cache_remove_def lru_of_def lru_remove_def filter_map o_def Let_def intro!: map_cong)
qed

lemma lru_bytes_remove:
  assumes "distinct (map fst q)" and "map_of q h = Some (len, r)"
  shows "lru_bytes q = len + lru_bytes (lru_remove h q)"
  using assms
proof (induction q)
  case (Cons p q)
  obtain k l s where p: "p = (k, l, s)" by (cases p)
  show ?case
  proof (cases "k = h")
    case True
    then have "lru_remove h q = q"
      using Cons.prems(1) p by (force simp: lru_remove_def filter_id_conv)
    then show ?thesis using True p Cons.prems(2) by (simp add: lru_bytes_def lru_remove_def)
  next
    case False
    then show ?thesis using p Cons by (simp add: lru_bytes_def lru_remove_def)
  qed
qed simp

lemma distinct_lru: "indexed c \<Longrightarrow> distinct (map fst (lru_of c))"
  using indexed_hashes(1) [of c] by (simp add: lru_of_def o_def Let_def)

lemma resident_remove:
  assumes "indexed c" and "tc_resident_bytes c = lru_bytes (lru_of c)"
  shows "tc_resident_bytes (cache_remove h c) = lru_bytes (lru_of (cache_remove h c))"
proof (cases "om_get (tc_entries c) h")
  case (Some e)
  then have "map_of (lru_of c) h = Some (te_bytes_len e, te_result e)" by (simp add: map_of_lru [OF assms(1)])
  then have "lru_bytes (lru_of c) = te_bytes_len e + lru_bytes (lru_remove h (lru_of c))"
    by (rule lru_bytes_remove [OF distinct_lru [OF assms(1)]])
  moreover have "tc_resident_bytes (cache_remove h c) = tc_resident_bytes c - te_bytes_len e"
    using Some by (simp add: cache_remove_def)
  ultimately show ?thesis using assms(2) by (simp add: lru_remove_of [OF assms(1)])
qed (use assms in \<open>simp add: cache_remove_def\<close>)

lemma cache_remove_fields [simp]:
  "tc_capacity (cache_remove h c) = tc_capacity c" "tc_max_bytes (cache_remove h c) = tc_max_bytes c"
  "tc_next_access (cache_remove h c) = tc_next_access c"
  by (simp_all add: cache_remove_def split: option.splits)

section \<open>Numbering\<close>

definition unnumbered :: "'r cache_entry \<Rightarrow> bytes \<times> nat \<times> 'r" where
  "unnumbered e = (te_bytes_hash e, te_bytes_len e, te_result e)"

definition renumbered :: "nat \<Rightarrow> bytes list \<Rightarrow> 'r tx_cache \<Rightarrow> 'r tx_cache \<Rightarrow> bool" where
  "renumbered a hs c c' \<longleftrightarrow> om_ok (tc_entries c') \<and> om_ok (tc_recency c') \<and>
     tc_recency c' = tc_recency c @ zip [a..<a + length hs] hs \<and>
     (\<forall>h. om_get (tc_entries c') h = None \<longleftrightarrow> om_get (tc_entries c) h = None) \<and>
     (\<forall>h e. om_get (tc_entries c) h = Some e \<longrightarrow> (\<exists>e'. om_get (tc_entries c') h = Some e' \<and> unnumbered e' = unnumbered e \<and>
        (h \<notin> set hs \<longrightarrow> e' = e))) \<and>
     (\<forall>i < length hs. te_last_access (the (om_get (tc_entries c') (hs ! i))) = a + i) \<and>
     c'\<lparr>tc_entries := tc_entries c, tc_recency := tc_recency c\<rparr> = c"

lemma renumber_spec:
  fixes c :: "'r tx_cache"
  assumes "distinct hs" and "\<forall>h \<in> set hs. om_get (tc_entries c) h \<noteq> None" and "om_ok (tc_entries c)"
    and "\<forall>k \<in> fst ` set (tc_recency c). k < a" and "om_ok (tc_recency c)"
  shows "\<exists>c'. renumber a hs c = (Ok c' :: ('e, 'r tx_cache) res) \<and> renumbered a hs c c'"
  using assms
proof (induction hs arbitrary: a c)
  case (Cons h hs)
  obtain e where e: "om_get (tc_entries c) h = Some e" using Cons.prems(2) by auto
  define d where "d = c\<lparr>tc_entries := om_insert h (e\<lparr>te_last_access := a\<rparr>) (tc_entries c),
    tc_recency := om_insert a h (tc_recency c)\<rparr>"
  have rec: "tc_recency d = tc_recency c @ [(a, h)]"
    using Cons.prems(4) by (auto simp: d_def intro: om_insert_last)
  have "\<exists>c'. renumber (Suc a) hs d = (Ok c' :: ('e, 'r tx_cache) res) \<and> renumbered (Suc a) hs d c'"
  proof (rule Cons.IH)
    show "\<forall>k \<in> fst ` set (tc_recency d). k < Suc a" using Cons.prems(4) rec by (auto simp: less_SucI)
  qed (use Cons.prems in \<open>auto simp: d_def\<close>)
  then obtain c' where run': "renumber (Suc a) hs d = (Ok c' :: ('e, 'r tx_cache) res)" and c': "renumbered (Suc a) hs d c'"
    by blast
  note n = c' [unfolded renumbered_def]
  have h: "om_get (tc_entries c') h = Some (e\<lparr>te_last_access := a\<rparr>)"
    using n Cons.prems(1) by (force simp: d_def)
  have "[a..<a + length (h # hs)] = a # [Suc a..<Suc a + length hs]"
    by (subst upt_conv_Cons) simp_all
  then have rec': "tc_recency c' = tc_recency c @ zip [a..<a + length (h # hs)] (h # hs)"
    using n rec by (simp only: append_assoc zip_Cons_Cons append_Cons append_Nil)
  have last: "te_last_access (the (om_get (tc_entries c') ((h # hs) ! i))) = a + i" if "i < length (h # hs)" for i
    using that n h by (cases i) auto
  have keep: "\<exists>e'. om_get (tc_entries c') k = Some e' \<and> unnumbered e' = unnumbered f \<and> (k \<notin> set (h # hs) \<longrightarrow> e' = f)"
    if "om_get (tc_entries c) k = Some f" for k f
  proof (cases "k = h")
    case True
    then show ?thesis using h e that by (simp add: unnumbered_def)
  next
    case False
    then have "om_get (tc_entries d) k = Some f" using that by (simp add: d_def)
    then show ?thesis using n False by auto
  qed
  have same: "c'\<lparr>tc_entries := tc_entries c, tc_recency := tc_recency c\<rparr> = c"
  proof -
    have "c'\<lparr>tc_entries := tc_entries c, tc_recency := tc_recency c\<rparr> =
        (c'\<lparr>tc_entries := tc_entries d, tc_recency := tc_recency d\<rparr>)\<lparr>tc_entries := tc_entries c, tc_recency := tc_recency c\<rparr>" by simp
    also have "c'\<lparr>tc_entries := tc_entries d, tc_recency := tc_recency d\<rparr> = d" using n by blast
    finally show ?thesis by (simp add: d_def)
  qed
  have none: "om_get (tc_entries c') k = None \<longleftrightarrow> om_get (tc_entries c) k = None" for k
    using n e by (simp add: d_def)
  have "renumber a (h # hs) c = (Ok c' :: ('e, 'r tx_cache) res)" using e run' by (simp add: d_def)
  moreover have "renumbered a (h # hs) c c'"
    unfolding renumbered_def
  proof (intro conjI allI impI)
    show "om_ok (tc_entries c')" "om_ok (tc_recency c')" using n by blast+
  qed (use rec' none keep last same in blast)+
  ultimately show ?case by blast
qed (simp add: renumbered_def)

lemma lru_of_cong:
  assumes "om_values (tc_recency c') = om_values (tc_recency c)"
    and "\<And>h e. om_get (tc_entries c) h = Some e \<Longrightarrow> \<exists>e'. om_get (tc_entries c') h = Some e' \<and> unnumbered e' = unnumbered e"
    and "set (om_values (tc_recency c)) \<subseteq> dom (om_get (tc_entries c))"
  shows "lru_of c' = lru_of c"
  unfolding lru_of_def assms(1)
proof (rule map_cong)
  fix h
  assume "h \<in> set (om_values (tc_recency c))"
  then obtain e where e: "om_get (tc_entries c) h = Some e" using assms(3) by auto
  then show "(let e = the (om_get (tc_entries c') h) in (h, te_bytes_len e, te_result e)) =
      (let e = the (om_get (tc_entries c) h) in (h, te_bytes_len e, te_result e))"
    using assms(2) [OF e] by (auto simp: unnumbered_def)
qed simp

text \<open>An access number is new and larger than all others, and the entries stay in their order.\<close>

definition fresh_access :: "'r tx_cache \<Rightarrow> nat \<Rightarrow> 'r tx_cache \<Rightarrow> bool" where
  "fresh_access c a c' \<longleftrightarrow> indexed c' \<and> tc_next_access c' = Suc a \<and> Suc a \<le> u64_max \<and>
     (\<forall>k \<in> fst ` set (tc_recency c'). k < a) \<and> lru_of c' = lru_of c \<and>
     tc_capacity c' = tc_capacity c \<and> tc_max_bytes c' = tc_max_bytes c \<and> tc_resident_bytes c' = tc_resident_bytes c \<and>
     (\<forall>h. map_option unnumbered (om_get (tc_entries c') h) = map_option unnumbered (om_get (tc_entries c) h))"

lemma allocate_access_spec:
  fixes c :: "'r tx_cache"
  assumes "indexed c" and "tc_next_access c \<le> u64_max" and "length (tc_entries c) < u64_max"
  shows "\<exists>a c'. allocate_access c = (Ok (a, c') :: ('e, nat \<times> 'r tx_cache) res) \<and> fresh_access c a c'"
proof (cases "tc_next_access c = u64_max")
  case False
  have "\<forall>k \<in> fst ` set (tc_recency c). k < tc_next_access c"
    using assms(1) by (auto simp: indexed_def om_in_set_get)
  moreover have "indexed (c\<lparr>tc_next_access := Suc (tc_next_access c)\<rparr>)"
    using assms(1) by (auto simp: indexed_def less_SucI)
  ultimately have "fresh_access c (tc_next_access c) (c\<lparr>tc_next_access := Suc (tc_next_access c)\<rparr>)"
    using False assms(2) by (auto simp: fresh_access_def lru_of_def)
  moreover have "allocate_access c = (Ok (tc_next_access c, c\<lparr>tc_next_access := Suc (tc_next_access c)\<rparr>) :: ('e, _) res)"
    using False assms(2) by (simp add: allocate_access_def checked_add_def)
  ultimately show ?thesis by blast
next
  case True
  define hs where "hs = om_values (tc_recency c)"
  define d where "d = c\<lparr>tc_recency := []\<rparr>"
  have hs: "distinct hs" "set hs = dom (om_get (tc_entries c))" "length hs = length (tc_entries c)"
    using indexed_hashes [OF assms(1)] by (simp_all add: hs_def om_values_def)
  have ok: "om_ok (tc_entries c)" using assms(1) by (simp add: indexed_def)
  have "\<exists>d'. renumber 0 hs d = (Ok d' :: ('e, 'r tx_cache) res) \<and> renumbered 0 hs d d'"
    by (rule renumber_spec) (use hs ok in \<open>auto simp: d_def\<close>)
  then obtain d' where run': "renumber 0 hs d = (Ok d' :: ('e, 'r tx_cache) res)" and n': "renumbered 0 hs d d'" by blast
  have d: "tc_entries d = tc_entries c" "tc_recency d = []" by (simp_all add: d_def)
  have n: "om_ok (tc_entries d')" "om_ok (tc_recency d')" "tc_recency d' = zip [0..<length hs] hs"
    "\<And>h. om_get (tc_entries d') h = None \<longleftrightarrow> om_get (tc_entries c) h = None"
    "\<And>h e. om_get (tc_entries c) h = Some e \<Longrightarrow> \<exists>e'. om_get (tc_entries d') h = Some e' \<and> unnumbered e' = unnumbered e"
    "\<And>i. i < length hs \<Longrightarrow> te_last_access (the (om_get (tc_entries d') (hs ! i))) = i"
    "d'\<lparr>tc_entries := tc_entries c, tc_recency := []\<rparr> = d"
    using n' unfolding renumbered_def d append_Nil add_0 by blast+
  have len: "length (tc_entries d') = length hs"
  proof -
    have "dom (om_get (tc_entries d')) = dom (om_get (tc_entries c))" unfolding dom_def by (simp add: n(4))
    then have "set (map fst (tc_entries d')) = set (map fst (tc_entries c))"
      by (simp add: om_get_def [abs_def] dom_map_of_conv_image_fst)
    then show ?thesis
      using distinct_card [OF om_ok_distinct [OF n(1)]] distinct_card [OF om_ok_distinct [OF ok]] hs(3) by simp
  qed
  define c' where "c' = d'\<lparr>tc_next_access := Suc (length hs)\<rparr>"
  have run: "allocate_access c = (Ok (length hs, c') :: ('e, _) res)"
    using True run' len assms(3) hs(3)
    by (simp add: allocate_access_def hs_def [symmetric] d_def [symmetric] c'_def checked_add_def)
  have keys: "(i, h) \<in> set (tc_recency d') \<longleftrightarrow> i < length hs \<and> hs ! i = h" for i h
    by (auto simp: n(3) set_zip intro!: exI [of _ i])
  have idx: "indexed c'"
    unfolding indexed_def
  proof (intro conjI allI impI)
    fix h e
    assume e: "om_get (tc_entries c') h = Some e"
    then obtain f where f: "om_get (tc_entries c) h = Some f" using n(4) [of h] by (cases "om_get (tc_entries c) h") (auto simp: c'_def)
    then have "unnumbered e = unnumbered f" using n(5) [OF f] e by (auto simp: c'_def)
    then show "te_bytes_hash e = h" using assms(1) f by (auto simp: indexed_def unnumbered_def)
    obtain i where i: "i < length hs" "hs ! i = h" using f hs(2) by (metis domI in_set_conv_nth)
    then have "te_last_access e = i" using n(6) [OF i(1)] e by (auto simp: c'_def)
    then show "om_get (tc_recency c') (te_last_access e) = Some h"
      using i keys n(2) by (auto simp: c'_def om_in_set_get [symmetric])
  next
    fix a h
    assume "om_get (tc_recency c') a = Some h"
    then have a: "a < length hs" "hs ! a = h" using keys n(2) by (auto simp: c'_def om_in_set_get [symmetric])
    then show "a < tc_next_access c'" by (simp add: c'_def)
    have "h \<in> dom (om_get (tc_entries c))" using a hs(2) by (metis nth_mem)
    then obtain e where "om_get (tc_entries d') h = Some e" using n(4) [of h] by (cases "om_get (tc_entries d') h") auto
    then show "\<exists>e. om_get (tc_entries c') h = Some e \<and> te_last_access e = a" using n(6) [OF a(1)] a(2) by (auto simp: c'_def)
  qed (use n(1,2) in \<open>simp_all add: c'_def\<close>)
  have vals: "om_values (tc_recency c') = om_values (tc_recency c)"
    by (simp add: c'_def n(3) om_values_def hs_def [unfolded om_values_def, symmetric])
  have lru: "lru_of c' = lru_of c"
    by (rule lru_of_cong [OF vals]) (use n(5) hs(2) in \<open>auto simp: c'_def hs_def\<close>)
  have un: "map_option unnumbered (om_get (tc_entries c') h) = map_option unnumbered (om_get (tc_entries c) h)" for h
    using n(4) [of h] n(5) [of h] by (cases "om_get (tc_entries c) h") (auto simp: c'_def)
  have "tc_capacity d' = tc_capacity c \<and> tc_max_bytes d' = tc_max_bytes c \<and> tc_resident_bytes d' = tc_resident_bytes c"
    using arg_cong [OF n(7), of tc_capacity] arg_cong [OF n(7), of tc_max_bytes] arg_cong [OF n(7), of tc_resident_bytes]
    by (simp add: d_def)
  moreover have "\<forall>k \<in> fst ` set (tc_recency c'). k < length hs" using keys by (auto simp: c'_def)
  ultimately have "fresh_access c (length hs) c'"
    using idx lru un hs(3) assms(3) by (auto simp: c'_def fresh_access_def)
  with run show ?thesis by blast
qed

section \<open>The operations\<close>

lemma cache_ok_new: "capacity < u64_max \<Longrightarrow> 2 * max_bytes \<le> u64_max \<Longrightarrow> cache_ok (new_cache capacity max_bytes)"
  by (simp add: cache_ok_def new_cache_def indexed_def lru_of_def lru_bytes_def om_values_def)

lemma cache_ok_remove:
  assumes "cache_ok c"
  shows "cache_ok (cache_remove h c)" and "length (tc_entries (cache_remove h c)) \<le> length (tc_entries c)"
proof -
  have "length (om_remove h m) \<le> length m" for m :: "(bytes, 'a cache_entry) omap"
    by (induction h m rule: om_remove.induct) auto
  then show len: "length (tc_entries (cache_remove h c)) \<le> length (tc_entries c)"
    by (simp add: cache_remove_def split: option.splits)
  have "tc_resident_bytes (cache_remove h c) \<le> tc_resident_bytes c" by (simp add: cache_remove_def split: option.splits)
  then show "cache_ok (cache_remove h c)"
    using assms len indexed_remove [of c h] resident_remove [of c h] unfolding cache_ok_def by simp
qed

text \<open>An entry at the end of the order, for a hash that is not there.\<close>

lemma indexed_push:
  fixes c :: "'r tx_cache" and r :: 'r and len :: nat
  assumes "indexed c" and "tc_next_access c = Suc a" and "\<forall>k \<in> fst ` set (tc_recency c). k < a"
    and "om_get (tc_entries c) h = None"
  defines "c' \<equiv> c\<lparr>tc_entries := om_insert h \<lparr>te_bytes_hash = h, te_bytes_len = len, te_result = r, te_last_access = a\<rparr> (tc_entries c),
      tc_recency := om_insert a h (tc_recency c)\<rparr>"
  shows "indexed c'" and "lru_of c' = lru_of c @ [(h, len, r)]" and "length (tc_entries c') = Suc (length (tc_entries c))"
proof -
  have na: "om_get (tc_recency c) a = None"
    using assms(3) om_get_in_set [of "tc_recency c" a] by (cases "om_get (tc_recency c) a") force+
  have nh: "om_get (tc_recency c) b \<noteq> Some h" for b using assms(1,4) unfolding indexed_def by (metis option.distinct(1))
  have ne: "te_last_access e \<noteq> a" if "om_get (tc_entries c) k = Some e" for k e
    using assms(1) that na by (auto simp: indexed_def)
  show "indexed c'"
    using assms(1,2,4) na nh ne unfolding indexed_def c'_def by (auto split: if_splits)
  have rec: "om_values (tc_recency c') = om_values (tc_recency c) @ [h]"
    using om_insert_last [of "tc_recency c" a h] assms(3) by (simp add: c'_def om_values_def)
  have "h \<notin> set (om_values (tc_recency c))" using indexed_hashes(2) [OF assms(1)] assms(4) by auto
  then show "lru_of c' = lru_of c @ [(h, len, r)]"
    unfolding lru_of_def rec by (auto simp: c'_def)
  have "length (om_insert k v m) = Suc (length m)" if "om_get m k = None" for k :: bytes and v :: "'a cache_entry" and m
    using that by (induction k v m rule: om_insert.induct) (auto simp: om_get_def split: if_splits)
  then show "length (tc_entries c') = Suc (length (tc_entries c))" using assms(4) by (simp add: c'_def)
qed

lemma lru_remove_absent: "map_of q h = None \<Longrightarrow> lru_remove h q = q"
  by (force simp: lru_remove_def filter_id_conv map_of_eq_None_iff)

lemma lru_bytes_append [simp]: "lru_bytes (q @ q') = lru_bytes q + lru_bytes q'"
  by (simp add: lru_bytes_def)

lemma lru_bytes_Cons [simp]: "lru_bytes ((h, len, r) # q) = len + lru_bytes q"
  by (simp add: lru_bytes_def)

lemma lru_bytes_Nil [simp]: "lru_bytes [] = 0"
  by (simp add: lru_bytes_def)

text \<open>The front of the order is the entry that the loop evicts.\<close>

lemma lru_front:
  assumes "indexed c" and "om_entries (tc_recency c) = (a, h) # m"
  shows "\<exists>x. lru_of c = (h, x) # tl (lru_of c) \<and> lru_remove h (lru_of c) = tl (lru_of c)"
proof -
  have "lru_of c \<noteq> [] \<and> fst (hd (lru_of c)) = h"
    using assms(2) by (auto simp: lru_of_def om_values_def om_entries_def Let_def)
  then obtain x where x: "lru_of c = (h, x) # tl (lru_of c)" by (metis list.collapse prod.collapse)
  moreover have "h \<notin> fst ` set (tl (lru_of c))"
    using distinct_lru [OF assms(1)] x by (metis distinct.simps(2) fst_conv list.set_map list.simps(9))
  moreover have "lru_remove h ((h, x) # q) = q" if "h \<notin> fst ` set q" for q
    using that by (force simp: lru_remove_def filter_id_conv)
  ultimately show ?thesis by metis
qed

definition evicted :: "'r tx_cache \<Rightarrow> 'r tx_cache \<Rightarrow> bool" where
  "evicted c c' \<longleftrightarrow> indexed c' \<and> lru_of c' = lru_evict (tc_capacity c) (tc_max_bytes c) (lru_of c) \<and>
     tc_resident_bytes c' = lru_bytes (lru_of c') \<and> tc_next_access c' = tc_next_access c \<and>
     tc_capacity c' = tc_capacity c \<and> tc_max_bytes c' = tc_max_bytes c"

lemma evict_spec:
  assumes "indexed c" and "tc_resident_bytes c = lru_bytes (lru_of c)"
  shows "\<exists>c'. evict c = Some c' \<and> evicted c c'"
  using assms
proof (induction "length (tc_entries c)" arbitrary: c rule: less_induct)
  case less
  note len = length_lru [OF less.prems(1)]
  consider (stop) "\<not> (tc_capacity c < length (tc_entries c) \<or> tc_max_bytes c < tc_resident_bytes c)"
    | (empty) "tc_capacity c < length (tc_entries c) \<or> tc_max_bytes c < tc_resident_bytes c" "om_entries (tc_recency c) = []"
    | (full) a h m where "tc_capacity c < length (tc_entries c) \<or> tc_max_bytes c < tc_resident_bytes c"
        "om_entries (tc_recency c) = (a, h) # m"
    by (metis list.exhaust prod.exhaust)
  then show ?case
  proof cases
    case stop
    then have "evict c = Some c" by (subst evict.simps) simp
    moreover have "evicted c c" using stop less.prems len by (cases "lru_of c") (auto simp: evicted_def)
    ultimately show ?thesis by blast
  next
    case empty
    then have "lru_of c = []" by (simp add: lru_of_def om_entries_def om_values_def)
    moreover have "evict c = Some c" using empty by (subst evict.simps) simp
    ultimately show ?thesis using less.prems empty by (auto simp: evicted_def)
  next
    case full
    obtain x where x: "lru_of c = (h, x) # tl (lru_of c)" "lru_remove h (lru_of c) = tl (lru_of c)"
      using lru_front [OF less.prems(1) full(2)] by blast
    have l: "lru_of (cache_remove h c) = tl (lru_of c)" using x(2) lru_remove_of [OF less.prems(1)] by simp
    have i: "indexed (cache_remove h c)" by (rule indexed_remove [OF less.prems(1)])
    have "length (tc_entries (cache_remove h c)) = length (tl (lru_of c))" using length_lru [OF i] l by simp
    moreover have "0 < length (lru_of c)" using x(1) by (metis length_greater_0_conv list.distinct(1))
    ultimately have short: "length (tc_entries (cache_remove h c)) < length (tc_entries c)" using len by simp
    have over: "tc_capacity c < length ((h, x) # tl (lru_of c)) \<or> tc_max_bytes c < lru_bytes ((h, x) # tl (lru_of c))"
      using full(1) len less.prems(2) unfolding x(1) [symmetric] by simp
    have "lru_evict (tc_capacity c) (tc_max_bytes c) ((h, x) # tl (lru_of c)) = lru_evict (tc_capacity c) (tc_max_bytes c) (tl (lru_of c))"
      by (simp only: lru_evict.simps if_P [OF over])
    then have e: "lru_evict (tc_capacity c) (tc_max_bytes c) (lru_of c) = lru_evict (tc_capacity c) (tc_max_bytes c) (tl (lru_of c))"
      unfolding x(1) [symmetric] .
    have "evict c = evict (cache_remove h c)" using full by (subst evict.simps) simp
    then show ?thesis
      using less.hyps [OF short i resident_remove [OF less.prems(1,2)]] e l by (simp add: evicted_def)
  qed
qed

lemma lru_evict_fits:
  "length (lru_evict capacity max_bytes q) \<le> capacity" "lru_bytes (lru_evict capacity max_bytes q) \<le> max_bytes"
  by (induction q) auto

lemma lru_remove_length:
  assumes "distinct (map fst q)" and "map_of q h = Some x"
  shows "length q = Suc (length (lru_remove h q))"
  using assms
proof (induction q)
  case (Cons p q)
  obtain k y where p: "p = (k, y)" by (cases p)
  show ?case
  proof (cases "k = h")
    case True
    then have "map_of q h = None" using Cons.prems(1) p by (auto simp: map_of_eq_None_iff)
    then have "lru_remove h q = q" by (rule lru_remove_absent)
    then show ?thesis using True p by (simp add: lru_remove_def)
  next
    case False
    then show ?thesis using p Cons by (simp add: lru_remove_def)
  qed
qed simp

lemma indexed_cong:
  assumes "tc_entries d = tc_entries c" and "tc_recency d = tc_recency c"
  shows "tc_next_access c \<le> tc_next_access d \<Longrightarrow> indexed c \<Longrightarrow> indexed d" and "lru_of d = lru_of c"
  using assms by (auto simp: indexed_def lru_of_def) fastforce

lemma cache_get_spec:
  fixes c :: "'r tx_cache"
  assumes "cache_ok c" and "tc_next_access c < u64_max"
  shows "\<exists>r c'. cache_get h len c = (Ok (r, c') :: ('e, _) res) \<and> cache_ok c' \<and> (r, lru_of c') = lru_get h len (lru_of c) \<and>
    tc_next_access c' \<le> Suc (tc_next_access c) \<and> tc_capacity c' = tc_capacity c \<and> tc_max_bytes c' = tc_max_bytes c"
proof -
  have idx: "indexed c" using assms by (simp add: cache_ok_def)
  consider (none) "om_get (tc_entries c) h = None"
    | (other) e where "om_get (tc_entries c) h = Some e" "te_bytes_hash e \<noteq> h \<or> te_bytes_len e \<noteq> len"
    | (hit) e where "om_get (tc_entries c) h = Some e" "te_bytes_hash e = h" "te_bytes_len e = len"
    by (cases "om_get (tc_entries c) h") auto
  then show ?thesis
  proof cases
    case none
    then show ?thesis using assms map_of_lru [OF idx, of h] by (simp add: cache_get_def lru_get_def)
  next
    case other
    moreover have "te_bytes_hash e = h" using idx other(1) by (auto simp: indexed_def)
    ultimately show ?thesis
      using cache_ok_remove [OF assms(1)] map_of_lru [OF idx, of h] lru_remove_of [OF idx]
      by (simp add: cache_get_def lru_get_def)
  next
    case hit
    define a where "a = tc_next_access c"
    define d where "d = cache_remove h c\<lparr>tc_next_access := Suc a\<rparr>"
    define c' where "c' = c\<lparr>tc_next_access := Suc a, tc_recency := om_insert a h (om_remove (te_last_access e) (tc_recency c)),
      tc_entries := om_insert h (e\<lparr>te_last_access := a\<rparr>) (tc_entries c)\<rparr>"
    have run: "cache_get h len c = (Ok (Some (te_result e), c') :: ('e, _) res)"
      using hit assms(2) by (simp add: cache_get_def allocate_access_def checked_add_def c'_def a_def)
    have d: "tc_entries d = om_remove h (tc_entries c)" "tc_recency d = om_remove (te_last_access e) (tc_recency c)"
      using hit(1) by (simp_all add: d_def cache_remove_def)
    have same: "tc_entries d = tc_entries (cache_remove h c)" "tc_recency d = tc_recency (cache_remove h c)"
      using hit(1) by (simp_all add: d cache_remove_def)
    have idx_d: "indexed d"
      by (rule indexed_cong(1) [OF same]) (simp add: d_def a_def cache_remove_def split: option.split, rule indexed_remove [OF idx])
    have lru_d: "lru_of d = lru_remove h (lru_of c)"
      using indexed_cong(2) [OF same] lru_remove_of [OF idx] by simp
    have ok: "om_ok (tc_entries c)" "om_ok (tc_recency c)" using idx by (auto simp: indexed_def)
    have low: "\<forall>k \<in> fst ` set (tc_recency d). k < a"
      using idx ok(2) by (auto simp: d a_def indexed_def set_om_remove om_in_set_get)
    have e: "\<lparr>te_bytes_hash = h, te_bytes_len = len, te_result = te_result e, te_last_access = a\<rparr> = e\<lparr>te_last_access := a\<rparr>"
      using hit(2,3) by simp
    have "om_insert h (e\<lparr>te_last_access := a\<rparr>) (om_remove h (tc_entries c)) = tc_entries c'"
      using ok(1) by (intro om_extensionality) (simp_all add: c'_def)
    then have c'_eq: "tc_entries c' = om_insert h (e\<lparr>te_last_access := a\<rparr>) (tc_entries d)"
      "tc_recency c' = om_insert a h (tc_recency d)" by (simp_all add: d c'_def)
    have nxt: "tc_next_access d = Suc a" by (simp add: d_def)
    have absent: "om_get (tc_entries d) h = None" by (simp add: d)
    note push = indexed_push [OF idx_d nxt low absent, of len "te_result e", unfolded e]
    have idx': "indexed c'" and lru': "lru_of c' = lru_of d @ [(h, len, te_result e)]"
      using push indexed_cong [of c' "d\<lparr>tc_entries := om_insert h (e\<lparr>te_last_access := a\<rparr>) (tc_entries d), tc_recency := om_insert a h (tc_recency d)\<rparr>"]
        c'_eq nxt by (auto simp: c'_def)
    have look: "map_of (lru_of c) h = Some (len, te_result e)" using hit map_of_lru [OF idx, of h] by simp
    have bytes: "lru_bytes (lru_of c') = lru_bytes (lru_of c)"
      using lru_bytes_remove [OF distinct_lru [OF idx] look] by (simp add: lru' lru_d)
    have "length (lru_of c') = length (lru_of c)"
      using lru_remove_length [OF distinct_lru [OF idx] look] by (simp add: lru' lru_d)
    then have "length (tc_entries c') = length (tc_entries c)" using length_lru [OF idx] length_lru [OF idx'] by simp
    then have "cache_ok c'" using assms idx' bytes unfolding cache_ok_def by (simp add: c'_def a_def)
    moreover have "(Some (te_result e), lru_of c') = lru_get h len (lru_of c)" using look by (simp add: lru_get_def lru' lru_d)
    ultimately show ?thesis using run by (auto simp: c'_def a_def)
  qed
qed

lemma cache_insert_spec:
  fixes c :: "'r tx_cache"
  assumes "cache_ok c"
  shows "\<exists>c'. cache_insert h len r c = (Ok c' :: ('e, _) res) \<and> cache_ok c' \<and>
    lru_of c' = lru_insert (tc_capacity c) (tc_max_bytes c) h len r (lru_of c) \<and>
    (tc_next_access c < u64_max \<longrightarrow> tc_next_access c' \<le> Suc (tc_next_access c)) \<and>
    tc_capacity c' = tc_capacity c \<and> tc_max_bytes c' = tc_max_bytes c"
proof (cases "tc_capacity c = 0 \<or> tc_max_bytes c = 0 \<or> tc_max_bytes c < len")
  case True
  then show ?thesis using assms by (simp add: cache_insert_def lru_insert_def)
next
  case False
  define b where "b = cache_remove h c"
  have b: "cache_ok b" "indexed b" "lru_of b = lru_remove h (lru_of c)"
    using cache_ok_remove(1) [OF assms, of h] lru_remove_of [of c h] assms by (auto simp: b_def cache_ok_def)
  have b_absent: "om_get (tc_entries b) h = None" by (simp add: b_def cache_remove_def split: option.split)
  have "tc_next_access b \<le> u64_max" "length (tc_entries b) < u64_max" using b(1) by (auto simp: cache_ok_def)
  then obtain a d where alloc: "allocate_access b = (Ok (a, d) :: ('e, _) res)" and d: "fresh_access b a d"
    using allocate_access_spec [OF b(2)] by blast
  have d': "indexed d" "tc_next_access d = Suc a" "\<forall>k \<in> fst ` set (tc_recency d). k < a" "lru_of d = lru_of b" "Suc a \<le> u64_max"
    "tc_capacity d = tc_capacity c" "tc_max_bytes d = tc_max_bytes c" "tc_resident_bytes d = tc_resident_bytes b"
    "map_option unnumbered (om_get (tc_entries d) h) = map_option unnumbered (om_get (tc_entries b) h)"
    using d by (auto simp: fresh_access_def b_def)
  have absent: "om_get (tc_entries d) h = None" using d'(9) b_absent by simp
  have res: "tc_resident_bytes d = lru_bytes (lru_of d)" "tc_resident_bytes d \<le> tc_max_bytes c" "2 * tc_max_bytes c \<le> u64_max"
    using b(1) d'(4,8) by (auto simp: cache_ok_def b_def)
  define x where "x = \<lparr>te_bytes_hash = h, te_bytes_len = len, te_result = r, te_last_access = a\<rparr>"
  define p where "p = d\<lparr>tc_resident_bytes := tc_resident_bytes d + len, tc_entries := om_insert h x (tc_entries d),
    tc_recency := om_insert a h (tc_recency d)\<rparr>"
  note push = indexed_push [OF d'(1,2,3) absent, of len r, folded x_def]
  have p: "indexed p" "lru_of p = lru_of d @ [(h, len, r)]"
    using push(1,2) indexed_cong [of p "d\<lparr>tc_entries := om_insert h x (tc_entries d), tc_recency := om_insert a h (tc_recency d)\<rparr>"]
    by (auto simp: p_def)
  have resp: "tc_resident_bytes p = lru_bytes (lru_of p)" using res(1) by (simp add: p(2)) (simp add: p_def)
  obtain c' where ev: "evict p = Some c'" and c': "evicted p c'" using evict_spec [OF p(1) resp] by blast
  have run: "cache_insert h len r c = (Ok c' :: ('e, _) res)"
    using False alloc res ev
    by (simp add: cache_insert_def b_def [symmetric] checked_add_def p_def x_def)
  have lru: "lru_of c' = lru_insert (tc_capacity c) (tc_max_bytes c) h len r (lru_of c)"
    using c' False d'(4,6,7) b(3) by (simp add: evicted_def lru_insert_def p(2)) (simp add: p_def)
  have fields: "tc_capacity c' = tc_capacity c" "tc_max_bytes c' = tc_max_bytes c" "tc_next_access c' = Suc a" "indexed c'"
    "tc_resident_bytes c' = lru_bytes (lru_of c')"
    using c' d' by (auto simp: evicted_def p_def)
  have "length (tc_entries c') \<le> tc_capacity c" "lru_bytes (lru_of c') \<le> tc_max_bytes c"
    using False by (simp_all only: length_lru [OF fields(4), symmetric] lru lru_insert_def if_False lru_evict_fits)
  then have "cache_ok c'" using assms fields d'(5) unfolding cache_ok_def by simp
  moreover have "tc_next_access c < u64_max \<longrightarrow> Suc a \<le> Suc (tc_next_access c)"
    using alloc by (auto simp: b_def allocate_access_def)
  ultimately show ?thesis using run lru fields by auto
qed

end
