(* ===== verification/Tx_Cache_Theorems.thy ===== *)
theory Tx_Cache_Theorems
  imports Tx_Cache
begin

text \<open>
  Sequences of operations on the transaction cache: they answer as the list of the most recent entries
  does, within the budget, and the counter of accesses is the one thing that can break them.
\<close>

datatype 'r cache_op = Lookup bytes nat | Store bytes nat 'r | Clear

fun run_cache :: "'r cache_op list \<Rightarrow> 'r tx_cache \<Rightarrow> (unit, 'r option list \<times> 'r tx_cache) res" where
  "run_cache [] c = Ok ([], c)"
| "run_cache (Lookup h len # ops) c =
     bindr (cache_get h len c) (\<lambda>(r, c). bindr (run_cache ops c) (\<lambda>(rs, c). Ok (r # rs, c)))"
| "run_cache (Store h len r # ops) c = bindr (cache_insert h len r c) (run_cache ops)"
| "run_cache (Clear # ops) c = run_cache ops (cache_clear c)"

fun run_lru :: "nat \<Rightarrow> nat \<Rightarrow> 'r cache_op list \<Rightarrow> 'r lru \<Rightarrow> 'r option list \<times> 'r lru" where
  "run_lru capacity max_bytes [] q = ([], q)"
| "run_lru capacity max_bytes (Lookup h len # ops) q =
     (let (r, q) = lru_get h len q; (rs, q) = run_lru capacity max_bytes ops q in (r # rs, q))"
| "run_lru capacity max_bytes (Store h len r # ops) q = run_lru capacity max_bytes ops (lru_insert capacity max_bytes h len r q)"
| "run_lru capacity max_bytes (Clear # ops) q = run_lru capacity max_bytes ops []"

lemma cache_clear_spec:
  assumes "cache_ok c"
  shows "cache_ok (cache_clear c)" and "lru_of (cache_clear c) = []"
  using assms by (simp_all add: cache_ok_def cache_clear_def indexed_def lru_of_def om_values_def lru_bytes_def)

lemma run_cache_spec:
  assumes "cache_ok c" and "tc_next_access c + length ops \<le> u64_max"
  shows "\<exists>rs c'. run_cache ops c = Ok (rs, c') \<and> cache_ok c' \<and>
    (rs, lru_of c') = run_lru (tc_capacity c) (tc_max_bytes c) ops (lru_of c) \<and>
    tc_capacity c' = tc_capacity c \<and> tc_max_bytes c' = tc_max_bytes c"
  using assms
proof (induction ops arbitrary: c)
  case (Cons x ops)
  have lt: "tc_next_access c < u64_max" using Cons.prems(2) by simp
  show ?case
  proof (cases x)
    case (Lookup h len)
    obtain r d where d: "cache_get h len c = (Ok (r, d) :: (unit, _) res)" "cache_ok d" "(r, lru_of d) = lru_get h len (lru_of c)"
      "tc_next_access d \<le> Suc (tc_next_access c)" "tc_capacity d = tc_capacity c" "tc_max_bytes d = tc_max_bytes c"
      using cache_get_spec [OF Cons.prems(1) lt] by blast
    then have "tc_next_access d + length ops \<le> u64_max" using Cons.prems(2) by simp
    from Cons.IH [OF d(2) this] show ?thesis
      using Lookup d(1,5,6) d(3) [symmetric] by (auto split: prod.splits)
  next
    case (Store h len r)
    obtain d where d: "cache_insert h len r c = (Ok d :: (unit, _) res)" "cache_ok d"
      "lru_of d = lru_insert (tc_capacity c) (tc_max_bytes c) h len r (lru_of c)"
      "tc_next_access d \<le> Suc (tc_next_access c)" "tc_capacity d = tc_capacity c" "tc_max_bytes d = tc_max_bytes c"
      using cache_insert_spec [OF Cons.prems(1)] lt by blast
    then have "tc_next_access d + length ops \<le> u64_max" using Cons.prems(2) by simp
    from Cons.IH [OF d(2) this] show ?thesis using Store d by simp
  next
    case Clear
    have fields: "tc_next_access (cache_clear c) = 0" "tc_capacity (cache_clear c) = tc_capacity c"
      "tc_max_bytes (cache_clear c) = tc_max_bytes c" by (simp_all add: cache_clear_def)
    then have "tc_next_access (cache_clear c) + length ops \<le> u64_max" using Cons.prems(2) by simp
    from Cons.IH [OF cache_clear_spec(1) [OF Cons.prems(1)] this] show ?thesis
      using Clear fields cache_clear_spec(2) [OF Cons.prems(1)] by simp
  qed
qed simp

text \<open>C37: Refinement. For up to \<open>u64::MAX\<close> operations, a cache answers every lookup as the list of entries in
  the order of their last use does, which drops its oldest entries when it exceeds the number of
  entries or the number of bytes; no operation panics or loops, and the two budgets hold.
\<close>

theorem cache_is_lru:
  assumes "capacity < u64_max" and "2 * max_bytes \<le> u64_max" and "length ops \<le> u64_max"
  shows "\<exists>rs c. run_cache ops (new_cache capacity max_bytes) = Ok (rs, c) \<and>
    (rs, lru_of c) = run_lru capacity max_bytes ops [] \<and>
    length (tc_entries c) \<le> capacity \<and> tc_resident_bytes c = lru_bytes (lru_of c) \<and> tc_resident_bytes c \<le> max_bytes"
proof -
  have ok: "cache_ok (new_cache capacity max_bytes)" using assms(1,2) by (rule cache_ok_new)
  have new: "tc_capacity (new_cache capacity max_bytes) = capacity" "tc_max_bytes (new_cache capacity max_bytes) = max_bytes"
    "lru_of (new_cache capacity max_bytes) = []" "tc_next_access (new_cache capacity max_bytes) = 0"
    by (simp_all add: new_cache_def lru_of_def om_values_def)
  obtain rs c where c: "run_cache ops (new_cache capacity max_bytes) = Ok (rs, c)" "cache_ok c"
    "(rs, lru_of c) = run_lru capacity max_bytes ops []" "tc_capacity c = capacity" "tc_max_bytes c = max_bytes"
    using run_cache_spec [OF ok, of ops] assms(3) unfolding new by auto
  then show ?thesis unfolding cache_ok_def by blast
qed

definition w_ops :: "nat cache_op list" where
  "w_ops = [Store [1] 2 7, Store [2] 3 8, Lookup [1] 2, Store [3] 4 9, Lookup [2] 3, Lookup [1] 2, Lookup [1] 5, Lookup [1] 2]"

theorem cache_is_lru_witness:
  "(\<exists>rs c. run_cache w_ops (new_cache 2 8) = Ok (rs, c) \<and> (rs, lru_of c) = run_lru 2 8 w_ops [] \<and>
    length (tc_entries c) \<le> 2 \<and> tc_resident_bytes c = lru_bytes (lru_of c) \<and> tc_resident_bytes c \<le> 8) \<and>
   run_lru 2 8 w_ops [] = ([Some 7, None, Some 7, None, None], [([3], 4, 9)])"
proof
  show "run_lru 2 8 w_ops [] = ([Some 7, None, Some 7, None, None], [([3], 4, 9)])"
    by (simp add: w_ops_def lru_get_def lru_insert_def lru_remove_def lru_bytes_def)
qed (rule cache_is_lru, simp_all add: u64_max_def w_ops_def)

section \<open>The counter at its limit\<close>

text \<open>
  A hit reads the entry's access number before the entries are numbered anew and removes that number
  from the index afterwards. At the limit of the counter the index then names the entry twice. When the
  entry has been evicted, its second number stays at the front of the index, and the loop that evicts
  the oldest entry removes nothing for ever.
\<close>

lemma evict_stuck:
  assumes "tc_capacity c < length (tc_entries c)" and "om_entries (tc_recency c) = (a, h) # m" and "om_get (tc_entries c) h = None"
  shows "evict c = None"
proof (rule ccontr)
  assume "evict c \<noteq> None"
  then obtain d where d: "evict c = Some d" by auto
  let ?P = "\<lambda>c d. \<not> (tc_capacity c < length (tc_entries c) \<and> om_entries (tc_recency c) = (a, h) # m \<and> om_get (tc_entries c) h = None)"
  have "?P c d"
  proof (rule evict.raw_induct [where P = ?P, OF _ d])
    fix ev c d
    assume hyp: "\<And>c d. ev c = Some d \<Longrightarrow> ?P c d"
      and step: "(if tc_capacity c < length (tc_entries c) \<or> tc_max_bytes c < tc_resident_bytes c
        then (case om_entries (tc_recency c) of [] \<Rightarrow> Some c | x # _ \<Rightarrow> ev (cache_remove (snd x) c)) else Some c) = Some d"
    show "?P c d"
    proof
      assume s: "tc_capacity c < length (tc_entries c) \<and> om_entries (tc_recency c) = (a, h) # m \<and> om_get (tc_entries c) h = None"
      then have "cache_remove h c = c" by (simp add: cache_remove_def)
      then have "ev c = Some d" using step s by simp
      then show False using hyp s by blast
    qed
  qed
  then show False using assms by simp
qed

definition limit_cache :: "nat tx_cache" where
  "limit_cache = \<lparr>tc_capacity = 1, tc_max_bytes = 8, tc_resident_bytes = 1, tc_next_access = u64_max,
     tc_entries = [([1], \<lparr>te_bytes_hash = [1], te_bytes_len = 1, te_result = 7, te_last_access = u64_max - 1\<rparr>)],
     tc_recency = [(u64_max - 1, [1])]\<rparr>"


end
