(* ===== verification/State_Sync.thy ===== *)
theory State_Sync
  imports Store
begin

text \<open>
  State snapshots for state sync (\<open>state_sync.rs\<close>): the canonical bytes of a state in chunks of 4 MiB, the
  metadata with a hash of every chunk, and the receiver that collects the chunks of one offer and
  accepts the state only with the application hash of the light client. JSON and hex are other crates,
  the record \<open>sync_env\<close>. \<open>usize\<close> has 64 bits, and a height of the consensus engine is below \<open>2^63\<close>.
\<close>

definition STATE_SNAPSHOT_FORMAT :: nat where "STATE_SNAPSHOT_FORMAT = 1"
definition STATE_SNAPSHOT_CHUNK_BYTES :: nat where "STATE_SNAPSHOT_CHUNK_BYTES = 4 * 1024 * 1024"
definition MAX_STATE_SNAPSHOT_BYTES :: nat where "MAX_STATE_SNAPSHOT_BYTES = 512 * 1024 * 1024"
definition MAX_STATE_SNAPSHOT_METADATA_BYTES :: nat where "MAX_STATE_SNAPSHOT_METADATA_BYTES = 1024 * 1024"
definition SNAPSHOT_SCHEMA_VERSION :: nat where "SNAPSHOT_SCHEMA_VERSION = 1"
definition SNAPSHOT_HASH_DOMAIN :: bytes where "SNAPSHOT_HASH_DOMAIN = domain_tag ''ASTERIA_STATE_SNAPSHOT_V1''"
definition MAX_CHAIN_ID_BYTES :: nat where "MAX_CHAIN_ID_BYTES = 128"
definition MAX_HEIGHT :: nat where "MAX_HEIGHT = 2 ^ 63 - 1"

record snapshot_metadata =
  sn_schema_version :: nat
  sn_chain_id :: string
  sn_height :: nat
  sn_app_hash :: string
  sn_state_bytes :: nat
  sn_chunk_bytes :: nat
  sn_chunk_hashes :: "string list"

text \<open>The \<open>Snapshot\<close> of the consensus engine's protocol.\<close>

record snapshot =
  sp_height :: nat
  sp_format :: nat
  sp_chunks :: nat
  sp_hash :: bytes
  sp_metadata :: bytes

record snapshot_export =
  sx_descriptor :: snapshot
  sx_state_bytes :: bytes

record snapshot_import =
  si_metadata :: snapshot_metadata
  si_metadata_bytes :: bytes
  si_snapshot_hash :: bytes
  si_app_hash :: bytes
  si_chunks :: "bytes list"

datatype sync_error =
    EmptySnapshot
  | SnapshotTooLarge
  | MetadataTooLarge
  | TooManyChunks
  | UnsupportedFormat nat
  | InvalidHeight nat
  | InvalidHash string
  | NonCanonicalMetadata
  | InvalidMetadata string
  | HeightMismatch nat nat
  | AppHashMismatch
  | UnexpectedChunk nat nat
  | InvalidChunkLength nat nat nat
  | InvalidChunkHash nat
  | IncompleteSnapshot nat nat
  | InvalidStateLength nat nat
  | SnapshotHashMismatch
  | NonCanonicalState
  | StateIdentityMismatch
  | InvalidState string

fun sync_message :: "sync_error \<Rightarrow> string" where
  "sync_message EmptySnapshot = ''state snapshot is empty''"
| "sync_message SnapshotTooLarge = ''state snapshot exceeds '' @ nat_text MAX_STATE_SNAPSHOT_BYTES @ '' bytes''"
| "sync_message MetadataTooLarge = ''state snapshot metadata exceeds '' @ nat_text MAX_STATE_SNAPSHOT_METADATA_BYTES @ '' bytes''"
| "sync_message TooManyChunks = ''state snapshot contains too many chunks''"
| "sync_message (UnsupportedFormat n) = ''unsupported state snapshot format '' @ nat_text n"
| "sync_message (InvalidHeight n) = ''invalid state snapshot height '' @ nat_text n"
| "sync_message (InvalidHash label) = ''invalid '' @ label"
| "sync_message NonCanonicalMetadata = ''state snapshot metadata is not canonical JSON''"
| "sync_message (InvalidMetadata t) = ''state snapshot metadata is invalid: '' @ t"
| "sync_message (HeightMismatch descriptor metadata) = 
     ''state snapshot height mismatch: descriptor '' @ nat_text descriptor @ '', metadata '' @ nat_text metadata"
| "sync_message AppHashMismatch = ''state snapshot application hash does not match''"
| "sync_message (UnexpectedChunk wanted got) = ''unexpected state snapshot chunk '' @ nat_text got @ ''; expected '' @ nat_text wanted"
| "sync_message (InvalidChunkLength index wanted got) = 
     ''state snapshot chunk '' @ nat_text index @ '' is '' @ nat_text got @ '' bytes; expected '' @ nat_text wanted"
| "sync_message (InvalidChunkHash index) = ''state snapshot chunk '' @ nat_text index @ '' hash does not match metadata''"
| "sync_message (IncompleteSnapshot wanted got) = 
     ''state snapshot is incomplete: expected '' @ nat_text wanted @ '' chunks, got '' @ nat_text got"
| "sync_message (InvalidStateLength wanted got) = ''state snapshot body is '' @ nat_text got @ '' bytes; expected '' @ nat_text wanted"
| "sync_message SnapshotHashMismatch = ''state snapshot hash does not match''"
| "sync_message NonCanonicalState = ''state snapshot body is not canonical JSON''"
| "sync_message StateIdentityMismatch = ''state snapshot body does not match its chain or height metadata''"
| "sync_message (InvalidState t) = ''state snapshot body is invalid: '' @ t"

type_synonym 'a ss = "(sync_error, 'a) res"

record sync_env =
  sy_metadata :: "snapshot_metadata codec"
  sy_state :: "state codec"
  sy_hex :: "bytes \<Rightarrow> string"
  sy_unhex :: "string \<Rightarrow> bytes option"
  sy_sha :: digest

definition state_error :: "'a exch \<Rightarrow> 'a ss" where
  "state_error r = map_err (\<lambda>e. InvalidState (exchange_message e)) r"

definition canonical_state_bytes :: "state codec \<Rightarrow> state \<Rightarrow> bytes exch" where
  "canonical_state_bytes C s = ok_or (Internal ''state serialization failed'') (cd_json C s)"

text \<open>\<open>chunks\<close> of a slice: all of the size \<open>n\<close> but the last.\<close>

function chunks_of :: "nat \<Rightarrow> 'a list \<Rightarrow> 'a list list" where
  "chunks_of n xs = (if xs = [] \<or> n = 0 then [] else take n xs # chunks_of n (drop n xs))"
  by auto
termination by (relation "measure (\<lambda>(n, xs). length xs)") auto

declare chunks_of.simps [simp del]

section \<open>Checks\<close>

definition validate_state_size :: "nat \<Rightarrow> unit ss" where
  "validate_state_size len =
     (if len = 0 then Err EmptySnapshot else if MAX_STATE_SNAPSHOT_BYTES < len then Err SnapshotTooLarge else Ok ())"

definition fixed_hash :: "bytes \<Rightarrow> string \<Rightarrow> bytes ss" where
  "fixed_hash bs label = (if length bs = 32 then Ok bs else Err (InvalidHash label))"

definition decode_hash :: "sync_env \<Rightarrow> string \<Rightarrow> string \<Rightarrow> bytes ss" where
  "decode_hash Y encoded label =
     (if length encoded \<noteq> 64 \<or> \<not> list_all lower_hex encoded then Err (InvalidHash label)
      else bindr (ok_or (InvalidHash label) (sy_unhex Y encoded)) (\<lambda>decoded. fixed_hash decoded label))"

definition validate_metadata :: "sync_env \<Rightarrow> snapshot_metadata \<Rightarrow> nat \<Rightarrow> unit ss" where
  "validate_metadata Y m descriptor_chunks =
     (if sn_schema_version m \<noteq> SNAPSHOT_SCHEMA_VERSION then Err (InvalidMetadata ''unsupported schema version'')
      else if sn_chain_id m = [] \<or> MAX_CHAIN_ID_BYTES < length (sn_chain_id m) \<or> \<not> trimmed (sn_chain_id m)
      then Err (InvalidMetadata ''invalid chain id'')
      else if sn_height m = 0 then Err (InvalidHeight (sn_height m))
      else
        bindr (decode_hash Y (sn_app_hash m) ''metadata app hash'') (\<lambda>_.
        bindr (validate_state_size (sn_state_bytes m)) (\<lambda>_.
        if sn_chunk_bytes m \<noteq> STATE_SNAPSHOT_CHUNK_BYTES then Err (InvalidMetadata ''unexpected chunk size'')
        else
          (let expected_chunks = (sn_state_bytes m + STATE_SNAPSHOT_CHUNK_BYTES - 1) div STATE_SNAPSHOT_CHUNK_BYTES in
           if expected_chunks = 0 \<or> expected_chunks \<noteq> length (sn_chunk_hashes m) \<or> u32_max < expected_chunks
             \<or> expected_chunks \<noteq> descriptor_chunks
           then Err (InvalidMetadata ''chunk count does not match snapshot size'')
           else bindr (traverse (\<lambda>h. decode_hash Y h ''chunk hash'') (sn_chunk_hashes m)) (\<lambda>_. Ok ())))))"

definition canonical_metadata_bytes :: "sync_env \<Rightarrow> snapshot_metadata \<Rightarrow> bytes ss" where
  "canonical_metadata_bytes Y m =
     bindr (ok_or (InvalidMetadata ''metadata serialization failed'') (cd_json (sy_metadata Y) m)) (\<lambda>bs.
     if MAX_STATE_SNAPSHOT_METADATA_BYTES < length bs then Err MetadataTooLarge else Ok bs)"

definition decode_metadata :: "sync_env \<Rightarrow> bytes \<Rightarrow> snapshot_metadata ss" where
  "decode_metadata Y bs =
     (if bs = [] \<or> MAX_STATE_SNAPSHOT_METADATA_BYTES < length bs then Err MetadataTooLarge
      else
        bindr (ok_or (InvalidMetadata ''metadata does not parse'') (cd_parse (sy_metadata Y) bs)) (\<lambda>m.
        bindr (canonical_metadata_bytes Y m) (\<lambda>canonical.
        if canonical \<noteq> bs then Err NonCanonicalMetadata else Ok m)))"

definition expected_chunk_len :: "snapshot_metadata \<Rightarrow> nat \<Rightarrow> nat ss" where
  "expected_chunk_len m index =
     bindr (ok_or SnapshotTooLarge (checked_mul u64_max index STATE_SNAPSHOT_CHUNK_BYTES)) (\<lambda>start.
     if sn_state_bytes m \<le> start then Err TooManyChunks
     else Ok (min (sn_state_bytes m - start) STATE_SNAPSHOT_CHUNK_BYTES))"

definition snapshot_hash :: "sync_env \<Rightarrow> bytes \<Rightarrow> bytes \<Rightarrow> bytes" where
  "snapshot_hash Y metadata body =
     sy_sha Y (SNAPSHOT_HASH_DOMAIN @ be_bytes 8 (length metadata) @ metadata @ be_bytes 8 (length body) @ body)"

section \<open>The export\<close>

definition create_export :: "sync_env \<Rightarrow> ('nk, 'nd) store_env \<Rightarrow> state \<Rightarrow> bytes \<Rightarrow> snapshot_export ss" where
  "create_export Y S s app_hash =
     bindr (state_error (compute_app_hash S s)) (\<lambda>computed.
     if computed \<noteq> app_hash then Err AppHashMismatch
     else
       bindr (state_error (canonical_state_bytes (sy_state Y) s)) (\<lambda>state_bytes.
       bindr (validate_state_size (length state_bytes)) (\<lambda>_.
       let chunk_hashes = map (\<lambda>chunk. sy_hex Y (sy_sha Y chunk)) (chunks_of STATE_SNAPSHOT_CHUNK_BYTES state_bytes);
           chunks = length chunk_hashes in
       if u32_max < chunks then Err TooManyChunks
       else if chunks = 0 then Err EmptySnapshot
       else
         (let m = \<lparr>sn_schema_version = SNAPSHOT_SCHEMA_VERSION, sn_chain_id = es_chain_id s, sn_height = es_height s,
                    sn_app_hash = sy_hex Y app_hash, sn_state_bytes = length state_bytes,
                    sn_chunk_bytes = STATE_SNAPSHOT_CHUNK_BYTES, sn_chunk_hashes = chunk_hashes\<rparr> in
          bindr (validate_metadata Y m chunks) (\<lambda>_.
          bindr (canonical_metadata_bytes Y m) (\<lambda>metadata_bytes.
          if MAX_HEIGHT < es_height s then Err (InvalidHeight (es_height s))
          else Ok \<lparr>sx_descriptor = \<lparr>sp_height = es_height s, sp_format = STATE_SNAPSHOT_FORMAT, sp_chunks = chunks,
                     sp_hash = snapshot_hash Y metadata_bytes state_bytes, sp_metadata = metadata_bytes\<rparr>,
                   sx_state_bytes = state_bytes\<rparr>))))))"

text \<open>\<open>app_hash\<close> expects the metadata that \<open>create\<close> validated.\<close>

definition export_app_hash :: "sync_env \<Rightarrow> snapshot_export \<Rightarrow> ('e, bytes) res" where
  "export_app_hash Y x =
     (case bindr (decode_metadata Y (sp_metadata (sx_descriptor x))) (\<lambda>m. decode_hash Y (sn_app_hash m) ''app hash'') of
        Ok h \<Rightarrow> Ok h | _ \<Rightarrow> Panic)"

text \<open>Slicing past the end panics.\<close>

definition load_chunk :: "snapshot_export \<Rightarrow> nat \<Rightarrow> nat \<Rightarrow> nat \<Rightarrow> ('e, bytes option) res" where
  "load_chunk x height format index =
     (if height \<noteq> sp_height (sx_descriptor x) \<or> format \<noteq> STATE_SNAPSHOT_FORMAT \<or> sp_chunks (sx_descriptor x) \<le> index
      then Ok None
      else
        (case checked_mul u64_max index STATE_SNAPSHOT_CHUNK_BYTES of
           None \<Rightarrow> Ok None
         | Some start \<Rightarrow>
             (case checked_add u64_max start STATE_SNAPSHOT_CHUNK_BYTES of
                None \<Rightarrow> Ok None
              | Some unbounded \<Rightarrow>
                  (let stop = min unbounded (length (sx_state_bytes x)) in
                   if stop < start then Panic else Ok (Some (take (stop - start) (drop start (sx_state_bytes x))))))))"

section \<open>The import\<close>

definition from_offer :: "sync_env \<Rightarrow> snapshot \<Rightarrow> bytes \<Rightarrow> snapshot_import ss" where
  "from_offer Y sn light_client_app_hash =
     (if sp_format sn \<noteq> STATE_SNAPSHOT_FORMAT then Err (UnsupportedFormat (sp_format sn))
      else if length (sp_hash sn) \<noteq> 32 then Err (InvalidHash ''snapshot hash'')
      else
        bindr (fixed_hash (sp_hash sn) ''snapshot hash'') (\<lambda>expected_snapshot_hash.
        if expected_snapshot_hash = zero32 then Err (InvalidHash ''snapshot hash'')
        else
          bindr (fixed_hash light_client_app_hash ''light client app hash'') (\<lambda>expected_app_hash.
          bindr (decode_metadata Y (sp_metadata sn)) (\<lambda>m.
          bindr (validate_metadata Y m (sp_chunks sn)) (\<lambda>_.
          if sp_height sn \<noteq> sn_height m then Err (HeightMismatch (sp_height sn) (sn_height m))
          else
            bindr (decode_hash Y (sn_app_hash m) ''metadata app hash'') (\<lambda>app_hash.
            if app_hash \<noteq> expected_app_hash then Err AppHashMismatch
            else Ok \<lparr>si_metadata = m, si_metadata_bytes = sp_metadata sn, si_snapshot_hash = expected_snapshot_hash,
                     si_app_hash = expected_app_hash, si_chunks = []\<rparr>))))))"

definition expected_index :: "snapshot_import \<Rightarrow> ('e, nat) res" where
  "expected_index im = (if length (si_chunks im) \<le> u32_max then Ok (length (si_chunks im)) else Panic)"

definition chunk_count :: "snapshot_import \<Rightarrow> ('e, nat) res" where
  "chunk_count im =
     (if length (sn_chunk_hashes (si_metadata im)) \<le> u32_max then Ok (length (sn_chunk_hashes (si_metadata im))) else Panic)"

text \<open>\<open>apply_chunk\<close> gives whether the snapshot is complete, and the importer with the chunk.\<close>

definition apply_chunk :: "sync_env \<Rightarrow> nat \<Rightarrow> bytes \<Rightarrow> snapshot_import \<Rightarrow> (bool \<times> snapshot_import) ss" where
  "apply_chunk Y index chunk im =
     bindr (expected_index im) (\<lambda>expected.
     if index \<noteq> expected then Err (UnexpectedChunk expected index)
     else
       bindr (chunk_count im) (\<lambda>count.
       if count \<le> index then Err (UnexpectedChunk expected index)
       else
         bindr (expected_chunk_len (si_metadata im) index) (\<lambda>expected_len.
         if length chunk \<noteq> expected_len then Err (InvalidChunkLength index expected_len (length chunk))
         else if sy_hex Y (sy_sha Y chunk) \<noteq> sn_chunk_hashes (si_metadata im) ! index then Err (InvalidChunkHash index)
         else
           (let im = im\<lparr>si_chunks := si_chunks im @ [chunk]\<rparr> in
            bindr (expected_index im) (\<lambda>next. bindr (chunk_count im) (\<lambda>count. Ok (next = count, im)))))))"

definition finalize_import :: "sync_env \<Rightarrow> ('nk, 'nd) store_env \<Rightarrow> engine_env \<Rightarrow> snapshot_import \<Rightarrow> state ss" where
  "finalize_import Y S E im =
     bindr (expected_index im) (\<lambda>actual.
     bindr (chunk_count im) (\<lambda>expected.
     if actual \<noteq> expected then Err (IncompleteSnapshot expected actual)
     else
       (let m = si_metadata im; bs = concat (si_chunks im) in
        if length bs \<noteq> sn_state_bytes m then Err (InvalidStateLength (sn_state_bytes m) (length bs))
        else if snapshot_hash Y (si_metadata_bytes im) bs \<noteq> si_snapshot_hash im then Err SnapshotHashMismatch
        else
          bindr (ok_or (InvalidState ''state does not parse'') (cd_parse (sy_state Y) bs)) (\<lambda>s.
          bindr (state_error (canonical_state_bytes (sy_state Y) s)) (\<lambda>canonical.
          if canonical \<noteq> bs then Err NonCanonicalState
          else if es_chain_id s \<noteq> sn_chain_id m \<or> es_height s \<noteq> sn_height m then Err StateIdentityMismatch
          else
            bindr (state_error (compute_app_hash S s)) (\<lambda>app_hash.
            if app_hash \<noteq> si_app_hash im then Err AppHashMismatch
            else
              bindr (state_error (audit_state E sl_collateral s)) (\<lambda>audit.
              if \<not> ar_healthy audit
              then Err (InvalidState (''state accounting audit failed: '' @ join ''; '' (ar_errors audit))) else Ok s)))))))"

end
