(* ===== verification/Consensus.thy ===== *)
theory Consensus
  imports Tx_Cache State_Sync
begin

text \<open>
  Transactions as the consensus application handles them (\<open>consensus.rs\<close>): decoding with the cache, the
  checks against a state, execution, and the results that a block reports. A cached value is what
  decoding gives, an error included. The response types are those of the consensus engine's protocol.
  \<open>app_env\<close> collects what other crates provide: the JSON of the values that leave the application, and
  the scale of the \<open>i\<close>-th number of a field in a transaction or in a genesis file.
\<close>

definition MAX_TRANSACTION_BYTES :: nat where "MAX_TRANSACTION_BYTES = 256 * 1024"
definition APP_PROTOCOL_VERSION :: nat where "APP_PROTOCOL_VERSION = 5"
definition PRIVATE_SYSTEM_TX_PREFIX :: bytes where
  "PRIVATE_SYSTEM_TX_PREFIX = domain_tag ''ASTERIA_PRIVATE_DECRYPTION_SYSTEM_V3''"
definition VERIFIED_TRANSACTION_CACHE_CAPACITY :: nat where "VERIFIED_TRANSACTION_CACHE_CAPACITY = 1024"
definition VERIFIED_TRANSACTION_CACHE_MAX_BYTES :: nat where "VERIFIED_TRANSACTION_CACHE_MAX_BYTES = 32 * 1024 * 1024"

datatype consensus_error =
    NotInitialized
  | GenesisMismatch
  | InvalidGenesis string
  | TransactionTooLarge
  | InvalidTransaction string
  | WrongTransactionChain string string
  | TransactionExpired nat nat
  | InvalidNonce account_id nat nat
  | NonceExhausted account_id
  | MempoolNonceConflict account_id nat
  | Transition string
  | StatePersistence string
  | StateHashMismatch

type_synonym 'a con = "(consensus_error, 'a) res"

fun error_code :: "consensus_error \<Rightarrow> nat" where
  "error_code TransactionTooLarge = 1"
| "error_code (InvalidTransaction t) = 2"
| "error_code (WrongTransactionChain actual expected) = 3"
| "error_code (TransactionExpired expires height) = 4"
| "error_code (InvalidNonce aid expected actual) = 5"
| "error_code (NonceExhausted aid) = 5"
| "error_code (MempoolNonceConflict aid nonce) = 5"
| "error_code (Transition t) = 6"
| "error_code NotInitialized = 7"
| "error_code GenesisMismatch = 7"
| "error_code (InvalidGenesis t) = 7"
| "error_code (StatePersistence t) = 7"
| "error_code StateHashMismatch = 7"

fun consensus_message :: "consensus_error \<Rightarrow> string" where
  "consensus_message NotInitialized = ''chain has not been initialized''"
| "consensus_message GenesisMismatch = ''chain is already initialized with different genesis state''"
| "consensus_message (InvalidGenesis t) = ''invalid genesis state: '' @ t"
| "consensus_message TransactionTooLarge = ''transaction exceeds '' @ nat_text MAX_TRANSACTION_BYTES @ '' bytes''"
| "consensus_message (InvalidTransaction t) = ''invalid transaction encoding or signature: '' @ t"
| "consensus_message (WrongTransactionChain actual expected) =
     ''transaction targets chain '' @ actual @ '', expected '' @ expected"
| "consensus_message (TransactionExpired expires height) = 
     ''transaction expired at height '' @ nat_text expires @ ''; current height is '' @ nat_text height"
| "consensus_message (InvalidNonce aid expected actual) = 
     ''invalid nonce for '' @ aid @ '': expected '' @ nat_text expected @ '', received '' @ nat_text actual"
| "consensus_message (NonceExhausted aid) = ''nonce space exhausted for '' @ aid"
| "consensus_message (MempoolNonceConflict aid nonce) = 
     ''mempool already contains a different transaction for '' @ aid @ '' nonce '' @ nat_text nonce"
| "consensus_message (Transition t) = ''state transition rejected: '' @ t"
| "consensus_message (StatePersistence t) = ''state persistence failed: '' @ t"
| "consensus_message StateHashMismatch = ''application state hash mismatch in persisted data''"

fun chain_message :: "chain_error \<Rightarrow> string" where
  "chain_message Serialization = ''canonical JSON serialization failed''"
| "chain_message NonCanonicalTransaction = ''transaction is not encoded as RFC 8785 canonical JSON''"
| "chain_message (UnsupportedTransactionVersion actual expected) = ''unsupported transaction version '' @ nat_text actual @ ''; expected '' @ nat_text expected"
| "chain_message EmptyChainId = ''chain_id must not be empty''"
| "chain_message SignerMismatch = ''transaction signer does not match the signing key''"
| "chain_message InvalidPublicKey = ''invalid Ed25519 public key''"
| "chain_message InvalidTransactionSignature = ''invalid Ed25519 signature''"
| "chain_message (InvalidAccountId t) = ''invalid Ed25519 account id: '' @ t"
| "chain_message (InvalidNumericValue field reason) = ''invalid numeric value for '' @ field @ '': '' @ reason"

record verified_transaction =
  vt_transaction :: signed_transaction
  vt_signer :: account_id
  vt_tx_hash :: bytes

record applied_transaction =
  at_transaction :: signed_transaction
  at_signer :: account_id
  at_tx_hash :: bytes
  at_result :: command_result

datatype stateless_transaction =
    SignedTransaction verified_transaction
  | PrivateSystem decryption_bundle

type_synonym stateless_result = "stateless_transaction con"

record ('nk, 'nd) app_env =
  ap_commands :: command_env
  ap_chain :: chain_env
  ap_store :: "('nk, 'nd) store_env"
  ap_sync :: sync_env
  ap_scale :: "bytes \<Rightarrow> string \<Rightarrow> nat \<Rightarrow> nat"
  ap_result_json :: "command_result \<Rightarrow> bytes option"
  ap_execution_json :: "batch_execution \<Rightarrow> bytes option"
  ap_account_json :: "account \<Rightarrow> bytes option"
  ap_market_json :: "market_state \<Rightarrow> bytes option"
  ap_audit_json :: "audit_report \<Rightarrow> bytes option"
  ap_version :: string

abbreviation app_engine :: "('nk, 'nd) app_env \<Rightarrow> engine_env" where
  "app_engine A \<equiv> cm_engine (ap_commands A)"

abbreviation app_protocol :: "('nk, 'nd) app_env \<Rightarrow> protocol_env" where
  "app_protocol A \<equiv> cm_protocol (ap_commands A)"

definition invalid_transaction :: "('e \<Rightarrow> string) \<Rightarrow> ('e, 'a) res \<Rightarrow> 'a con" where
  "invalid_transaction message r = map_err (\<lambda>e. InvalidTransaction (message e)) r"

definition transition :: "'a exch \<Rightarrow> 'a con" where
  "transition r = map_err (\<lambda>e. Transition (exchange_message e)) r"

definition persistence :: "'a exch \<Rightarrow> 'a con" where
  "persistence r = map_err (\<lambda>e. StatePersistence (exchange_message e)) r"

section \<open>Decoding\<close>

definition strip_prefix :: "bytes \<Rightarrow> bytes \<Rightarrow> bytes option" where
  "strip_prefix p bs = (if take (length p) bs = p then Some (drop (length p) bs) else None)"

definition encode_private_system_transaction :: "protocol_env \<Rightarrow> decryption_bundle \<Rightarrow> bytes con" where
  "encode_private_system_transaction V db =
     bindr (invalid_transaction protocol_message (bundle_to_bytes V db)) (\<lambda>encoded.
     let bs = PRIVATE_SYSTEM_TX_PREFIX @ encoded in
     if MAX_TRANSACTION_BYTES < length bs then Err TransactionTooLarge else Ok bs)"

definition decode_private_system_transaction :: "protocol_env \<Rightarrow> bytes \<Rightarrow> decryption_bundle option con" where
  "decode_private_system_transaction V bs =
     (case strip_prefix PRIVATE_SYSTEM_TX_PREFIX bs of
        None \<Rightarrow> Ok None
      | Some encoded \<Rightarrow>
          if MAX_TRANSACTION_BYTES < length bs then Err TransactionTooLarge
          else bindr (invalid_transaction protocol_message (bundle_from_bytes V encoded)) (\<lambda>db. Ok (Some db)))"

definition verify_transaction_envelope :: "('nk, 'nd) app_env \<Rightarrow> bytes \<Rightarrow> verified_transaction con" where
  "verify_transaction_envelope A bs =
     (if MAX_TRANSACTION_BYTES < length bs then Err TransactionTooLarge
      else
        (let X = ap_chain A in
         bindr (invalid_transaction chain_message (ct_decode (ce_signed_parse X) (ce_signed_json X) bs)) (\<lambda>t.
         bindr (invalid_transaction chain_message (verify_transaction X t)) (\<lambda>signer.
         bindr (invalid_transaction chain_message
           (validate_numeric_bounds (en_dec (app_engine A)) (ap_scale A bs) (tx_command t))) (\<lambda>_.
         bindr (invalid_transaction chain_message (transaction_hash X t)) (\<lambda>h.
         Ok \<lparr>vt_transaction = t, vt_signer = signer, vt_tx_hash = h\<rparr>))))))"

definition transaction_bytes_hash :: "('nk, 'nd) app_env \<Rightarrow> bytes \<Rightarrow> bytes" where
  "transaction_bytes_hash A bs = ce_sha (ap_chain A) bs"

text \<open>The uncached part of \<open>decode_transaction_cached\<close>.\<close>

definition decode_transaction :: "('nk, 'nd) app_env \<Rightarrow> bytes \<Rightarrow> stateless_result" where
  "decode_transaction A bs =
     (case decode_private_system_transaction (app_protocol A) bs of
        Ok (Some db) \<Rightarrow> Ok (PrivateSystem db)
      | Ok None \<Rightarrow> bindr (verify_transaction_envelope A bs) (\<lambda>v. Ok (SignedTransaction v))
      | Err e \<Rightarrow> Err e
      | Panic \<Rightarrow> Panic)"

type_synonym transaction_cache = "stateless_result tx_cache"

definition decode_transaction_cached ::
  "('nk, 'nd) app_env \<Rightarrow> bytes \<Rightarrow> transaction_cache \<Rightarrow> ('e, stateless_result \<times> transaction_cache) res" where
  "decode_transaction_cached A bs c =
     (if MAX_TRANSACTION_BYTES < length bs then Ok (Err TransactionTooLarge, c)
      else
        (let h = transaction_bytes_hash A bs in
         bindr (cache_get h (length bs) c) (\<lambda>(cached, c).
         case cached of
           Some r \<Rightarrow> Ok (r, c)
         | None \<Rightarrow>
             (let r = decode_transaction A bs in
              bindr (cache_insert h (length bs) r c) (\<lambda>c. Ok (r, c))))))"

definition as_signed :: "stateless_transaction \<Rightarrow> verified_transaction con" where
  "as_signed t =
     (case t of
        SignedTransaction v \<Rightarrow> Ok v
      | PrivateSystem db \<Rightarrow> Err (InvalidTransaction ''private system transaction is not a signed user transaction''))"

definition verify_transaction_envelope_cached ::
  "('nk, 'nd) app_env \<Rightarrow> bytes \<Rightarrow> transaction_cache \<Rightarrow> ('e, verified_transaction con \<times> transaction_cache) res" where
  "verify_transaction_envelope_cached A bs c =
     bindr (decode_transaction_cached A bs c) (\<lambda>(r, c). Ok (bindr r as_signed, c))"

definition is_private_system :: "stateless_result \<Rightarrow> bool" where
  "is_private_system r \<longleftrightarrow> (case r of Ok (PrivateSystem _) \<Rightarrow> True | _ \<Rightarrow> False)"

text \<open>
  \<open>any\<close> stops at the first private transaction. The parallel verification of the transactions may use
  the cache in any order; the model goes through them in theirs.
\<close>

fun any_private_system ::
  "('nk, 'nd) app_env \<Rightarrow> bytes list \<Rightarrow> transaction_cache \<Rightarrow> ('e, bool \<times> transaction_cache) res" where
  "any_private_system A [] c = Ok (False, c)"
| "any_private_system A (tx # txs) c =
     bindr (decode_transaction_cached A tx c) (\<lambda>(r, c).
     if is_private_system r then Ok (True, c) else any_private_system A txs c)"

fun verify_all ::
  "('nk, 'nd) app_env \<Rightarrow> bytes list \<Rightarrow> transaction_cache \<Rightarrow> ('e, verified_transaction con list \<times> transaction_cache) res" where
  "verify_all A [] c = Ok ([], c)"
| "verify_all A (tx # txs) c =
     bindr (verify_transaction_envelope_cached A tx c) (\<lambda>(v, c).
     bindr (verify_all A txs c) (\<lambda>(vs, c). Ok (v # vs, c)))"

section \<open>Execution\<close>

definition validate_transaction_state :: "state \<Rightarrow> verified_transaction \<Rightarrow> nat \<Rightarrow> nat con" where
  "validate_transaction_state s v block_height =
     (let t = vt_transaction v;
          expected = (case om_get (es_account_nonces s) (vt_signer v) of None \<Rightarrow> 0 | Some n \<Rightarrow> n) in
      if tx_chain_id t \<noteq> es_chain_id s then Err (WrongTransactionChain (tx_chain_id t) (es_chain_id s))
      else if tx_valid_until_height t < block_height then Err (TransactionExpired (tx_valid_until_height t) block_height)
      else if tx_nonce t \<noteq> expected then Err (InvalidNonce (vt_signer v) expected (tx_nonce t))
      else ok_or (NonceExhausted (vt_signer v)) (checked_add u64_max expected 1))"

text \<open>The state that a failed command leaves is part of the result.\<close>

definition execute_verified_transaction ::
  "('nk, 'nd) app_env \<Rightarrow> verified_transaction \<Rightarrow> nat \<Rightarrow> nat \<Rightarrow> int \<Rightarrow> nat \<Rightarrow> state \<Rightarrow> applied_transaction con \<times> state" where
  "execute_verified_transaction A v next_nonce block_height block_time_ms tx_index s =
     (case apply_consensus_command (ap_commands A) (vt_signer v) (es_authority s) (tx_command (vt_transaction v))
        (new_context block_height block_time_ms tx_index (vt_tx_hash v)) s of
        (Inl e, s) \<Rightarrow> (Err (Transition (exchange_message e)), s)
      | (Inr r, s) \<Rightarrow>
          (Ok \<lparr>at_transaction = vt_transaction v, at_signer = vt_signer v, at_tx_hash = vt_tx_hash v, at_result = r\<rparr>,
           s\<lparr>es_account_nonces := om_insert (vt_signer v) next_nonce (es_account_nonces s)\<rparr>))"

definition run_transaction ::
  "('nk, 'nd) app_env \<Rightarrow> nat \<Rightarrow> int \<Rightarrow> nat \<Rightarrow> verified_transaction \<Rightarrow> state \<Rightarrow> applied_transaction con \<times> state" where
  "run_transaction A block_height block_time_ms tx_index v s =
     (case validate_transaction_state s v block_height of
        Ok next_nonce \<Rightarrow> execute_verified_transaction A v next_nonce block_height block_time_ms (tx_index mod 2 ^ 32) s
      | Err e \<Rightarrow> (Err e, s)
      | Panic \<Rightarrow> (Panic, s))"

section \<open>Results\<close>

record abci_event =
  ae_kind :: string
  ae_attributes :: "(string \<times> string) list"

record exec_tx_result =
  er_code :: nat
  er_data :: bytes
  er_log :: string
  er_gas_wanted :: nat
  er_gas_used :: nat
  er_events :: "abci_event list"
  er_codespace :: string

definition unwrap_bytes :: "bytes option \<Rightarrow> bytes" where
  "unwrap_bytes x = (case x of None \<Rightarrow> [] | Some bs \<Rightarrow> bs)"

fun command_name :: "command \<Rightarrow> string" where
  "command_name (PlaceOrder intent) = ''place_order''"
| "command_name (CancelOrder oid) = ''cancel_order''"
| "command_name (CreditAccount aid amount) = ''credit_account''"
| "command_name (PublishOraclePrice symb obs) = ''publish_oracle_price''"
| "command_name (ApplyFunding symb rate) = ''apply_funding''"
| "command_name (Liquidate aid symb) = ''liquidate''"
| "command_name (SubmitPrivateOrder sb) = ''submit_private_order''"
| "command_name (ConfigureShieldedMarket p) = ''configure_shielded_market''"
| "command_name (ShieldedDeposit ad) = ''shielded_deposit''"
| "command_name (ShieldedSpend sp) = ''shielded_spend''"

definition execution_result :: "('nk, 'nd) app_env \<Rightarrow> applied_transaction \<Rightarrow> nat \<Rightarrow> exec_tx_result" where
  "execution_result A a tx_len =
     \<lparr>er_code = 0, er_data = unwrap_bytes (ap_result_json A (at_result a)), er_log = ''applied'',
      er_gas_wanted = tx_len, er_gas_used = tx_len,
      er_events = [\<lparr>ae_kind = ''asteria.tx'',
        ae_attributes = [(''tx_hash'', ce_hex (ap_chain A) (at_tx_hash a)), (''signer'', at_signer a),
          (''command'', command_name (tx_command (at_transaction a)))]\<rparr>],
      er_codespace = ''asteria''\<rparr>"

definition execution_error :: "consensus_error \<Rightarrow> nat \<Rightarrow> exec_tx_result" where
  "execution_error e tx_len =
     \<lparr>er_code = error_code e, er_data = [], er_log = consensus_message e, er_gas_wanted = tx_len, er_gas_used = tx_len,
      er_events = [], er_codespace = ''asteria''\<rparr>"

definition private_system_execution_result :: "('nk, 'nd) app_env \<Rightarrow> batch_execution \<Rightarrow> nat \<Rightarrow> exec_tx_result" where
  "private_system_execution_result A x tx_len =
     \<lparr>er_code = 0, er_data = unwrap_bytes (ap_execution_json A x), er_log = ''private batch decrypted and cleared'',
      er_gas_wanted = tx_len, er_gas_used = tx_len,
      er_events = [\<lparr>ae_kind = ''asteria.private_batch'',
        ae_attributes = [(''batch_height'', nat_text (bx_batch_height x)), (''valid_orders'', nat_text (bx_valid_orders x)),
          (''invalid_orders'', nat_text (bx_invalid_orders x))]\<rparr>],
      er_codespace = ''asteria''\<rparr>"

text \<open>\<open>time_millis\<close>: nanoseconds, divided towards zero, clamped to an \<open>i64\<close>.\<close>

definition time_millis :: "int \<Rightarrow> int" where
  "time_millis nanos =
     (let ms = sgn nanos * (\<bar>nanos\<bar> div 1000000) in
      if ms < - (2 ^ 63) \<or> 2 ^ 63 \<le> ms then (if nanos < 0 then - (2 ^ 63) else 2 ^ 63 - 1) else ms)"

definition height_of :: "nat \<Rightarrow> nat" where
  "height_of n = (if n \<le> MAX_HEIGHT then n else u32_max)"

end
