(* ===== verification/Consensus_Genesis.thy ===== *)
theory Consensus_Genesis
  imports Consensus
begin

text \<open>
  The genesis of the application and the configuration of a validator (\<open>consensus.rs\<close>): the checks of a
  genesis file against the protocol bounds and against the validator set, and the first state.
\<close>

record private_validator_config =
  vc_validator_id :: nat
  vc_scalar :: bytes

record shielded_development_genesis =
  sg_ledger_id_hex :: string
  sg_deposit_authority_hex :: string
  sg_policies :: "margin_policy list"

record genesis_state =
  gs_app_protocol_version :: nat
  gs_authority :: account_id
  gs_markets :: "market_state list"
  gs_initial_balances :: "(account_id, decimal) omap"
  gs_private_order_key_set :: "public_key_set option"
  gs_private_validator_bindings :: "(string, nat) omap"
  gs_private_order_fee :: decimal
  gs_shielded_development :: "shielded_development_genesis option"

text \<open>The \<open>InitChain\<close> request; a validator is its Ed25519 key, if it has one, and its power.\<close>

record init_chain =
  ic_app_state_bytes :: bytes
  ic_chain_id :: string
  ic_validators :: "(bytes option \<times> nat) list"
  ic_vote_extensions_enable_height :: "nat option"
  ic_initial_height :: nat
  ic_time :: int

text \<open>The genesis file as JSON, and the scale of its \<open>i\<close>-th number of a field.\<close>

record genesis_env =
  ge_parse :: "bytes \<Rightarrow> genesis_state option"
  ge_scale :: "bytes \<Rightarrow> string \<Rightarrow> nat \<Rightarrow> nat"

definition private_validator_from_hex :: "chain_env \<Rightarrow> nat \<Rightarrow> string \<Rightarrow> private_validator_config con" where
  "private_validator_from_hex X validator_id scalar_hex =
     (if validator_id < 1 \<or> 4 < validator_id
      then Err (InvalidGenesis ''private validator id must be between 1 and 4'')
      else if length scalar_hex \<noteq> 64 \<or> \<not> list_all lower_hex scalar_hex
      then Err (InvalidGenesis ''private validator share must be 32-byte lowercase hex'')
      else
        bindr (ok_or (InvalidGenesis ''private validator share must be 32-byte lowercase hex'') (ce_unhex X scalar_hex)) (\<lambda>decoded.
        if length decoded \<noteq> 32 then Panic else Ok \<lparr>vc_validator_id = validator_id, vc_scalar = decoded\<rparr>))"

definition invalid_genesis :: "string \<Rightarrow> ('e \<Rightarrow> string) \<Rightarrow> ('e, 'a) res \<Rightarrow> 'a con" where
  "invalid_genesis prefix message r = map_err (\<lambda>e. InvalidGenesis (prefix @ message e)) r"

section \<open>The shielded development ledger\<close>

text \<open>\<open>copy_from_slice\<close> panics on another length.\<close>

definition decode_genesis_hash :: "chain_env \<Rightarrow> string \<Rightarrow> string \<Rightarrow> bytes con" where
  "decode_genesis_hash X label encoded =
     (if length encoded \<noteq> 64 \<or> ascii_lower encoded \<noteq> encoded
      then Err (InvalidGenesis (label @ '' must be 32-byte lowercase hex''))
      else
        bindr (ok_or (InvalidGenesis (label @ '' must be 32-byte lowercase hex'')) (ce_unhex X encoded)) (\<lambda>decoded.
        if length decoded \<noteq> 32 then Panic else Ok decoded))"

definition build_shielded_development_ledger ::
  "('nk, 'nd) app_env \<Rightarrow> shielded_development_genesis \<Rightarrow> string \<Rightarrow> shielded_ledger con" where
  "build_shielded_development_ledger A config chain_id =
     (let X = ap_chain A; V = cm_shielded (ap_commands A) in
      bindr (invalid_genesis [] ledger_message (derive_chain_domain (sv_sha V) chain_id)) (\<lambda>domain.
      bindr (decode_genesis_hash X ''shielded ledger_id'' (sg_ledger_id_hex config)) (\<lambda>ledger_id.
      bindr (decode_genesis_hash X ''shielded deposit_authority'' (sg_deposit_authority_hex config)) (\<lambda>authority.
      bindr (invalid_genesis [] ledger_message (new_ledger V domain ledger_id authority Development)) (\<lambda>l.
      foldr_res (\<lambda>p l. invalid_genesis [] ledger_message (register_market V p l)) (sg_policies config) l)))))"

section \<open>Checks\<close>

definition validate_genesis_decimal :: "string \<Rightarrow> nat \<Rightarrow> decimal \<Rightarrow> decimal \<Rightarrow> decimal \<Rightarrow> bool \<Rightarrow> unit con" where
  "validate_genesis_decimal field scale x minimum maximum allow_minimum =
     (if MAX_DECIMAL_SCALE < scale \<or> maximum < x \<or> x < minimum \<or> \<not> allow_minimum \<and> x = minimum
      then Err (InvalidGenesis (field @ '' is outside protocol numeric bounds'')) else Ok ())"

definition validate_binding_address :: "chain_env \<Rightarrow> string \<Rightarrow> unit con" where
  "validate_binding_address X address =
     bindr (ok_or (InvalidGenesis ''private validator addresses must be 20-byte lowercase hex'') (ce_unhex X address)) (\<lambda>decoded.
     if length decoded \<noteq> 20 \<or> ce_hex X decoded \<noteq> address \<or> decoded = replicate 20 0
     then Err (InvalidGenesis ''private validator addresses must be nonzero 20-byte lowercase hex'') else Ok ())"

definition validate_private_validator_bindings :: "chain_env \<Rightarrow> genesis_state \<Rightarrow> unit con" where
  "validate_private_validator_bindings X g =
     (let bindings = gs_private_validator_bindings g in
      case gs_private_order_key_set g of
        None \<Rightarrow>
          check (bindings = []) (InvalidGenesis ''private_validator_bindings require private_order_key_set'')
      | Some ks \<Rightarrow>
          (let expected_ids = bset (map ps_validator_id (ks_validators ks)); actual_ids = bset (om_values bindings) in
           if length bindings \<noteq> length (ks_validators ks)
           then Err (InvalidGenesis
             (''private_validator_bindings must contain exactly '' @ nat_text (length (ks_validators ks)) @ '' validators''))
           else if actual_ids \<noteq> expected_ids \<or> length actual_ids \<noteq> length bindings
           then Err (InvalidGenesis ''private_validator_bindings must assign every threshold validator id exactly once'')
           else bindr (traverse (validate_binding_address X) (om_keys bindings)) (\<lambda>_. Ok ())))"

definition validate_private_order_consensus ::
  "chain_env \<Rightarrow> genesis_state \<Rightarrow> (bytes option \<times> nat) list \<Rightarrow> nat option \<Rightarrow> nat \<Rightarrow> unit con" where
  "validate_private_order_consensus X g validators enable_height initial_height =
     (if gs_private_order_key_set g = None then Ok ()
      else if initial_height \<noteq> 0 \<and> initial_height \<noteq> 1
      then Err (InvalidGenesis ''private-order chains must start at height zero or one'')
      else if enable_height \<noteq> Some 1
      then Err (InvalidGenesis ''private-order chains require vote extensions from height 1'')
      else if length validators \<noteq> 4
      then Err (InvalidGenesis ''private-order chains require exactly four CometBFT validators'')
      else if snd (validators ! 0) = 0 \<or> (\<exists>v \<in> set validators. snd v \<noteq> snd (validators ! 0))
      then Err (InvalidGenesis ''private-order chains require four equal, positive validator voting powers'')
      else
        bindr (traverse (\<lambda>(key, power). bindr
            (ok_or (InvalidGenesis ''private-order chains require Ed25519 CometBFT validators'') key) (\<lambda>k.
            Ok (ce_hex X (take 20 (ce_sha X k))))) validators) (\<lambda>addresses.
        if length (bset addresses) \<noteq> length validators
        then Err (InvalidGenesis ''private-order CometBFT validator public keys must be unique'')
        else if bset addresses \<noteq> bset (om_keys (gs_private_validator_bindings g))
        then Err (InvalidGenesis ''private validator bindings must exactly match the InitChain validator set'')
        else Ok ()))"

definition validate_genesis_market :: "(string \<Rightarrow> nat \<Rightarrow> nat) \<Rightarrow> nat \<times> market_state \<Rightarrow> unit con" where
  "validate_genesis_market scale = (\<lambda>(i, m).
     let c = ms_config m in
     if blank (mc_symbol c) then Err (InvalidGenesis ''market symbols must not be empty'')
     else
       bindr (traverse (\<lambda>(field, x). validate_genesis_decimal field (scale field i) x 0 MAX_INPUT_VALUE False)
         [(''tick_size'', mc_tick_size c), (''quantity_step'', mc_quantity_step c), (''min_quantity'', mc_min_quantity c),
          (''mark_price'', ms_mark_price m)]) (\<lambda>_.
       bindr (traverse (\<lambda>(field, x). validate_genesis_decimal field (scale field i) x 0 1 True)
         [(''maintenance_margin_ratio'', mc_maintenance_margin_ratio c), (''maker_fee_rate'', mc_maker_fee_rate c),
          (''taker_fee_rate'', mc_taker_fee_rate c), (''market_slippage_limit'', mc_market_slippage_limit c),
          (''liquidation_penalty_rate'', mc_liquidation_penalty_rate c)]) (\<lambda>_.
       bindr (validate_genesis_decimal ''funding_rate'' (scale ''funding_rate'' i) (ms_funding_rate m) (- (1 / 100)) (1 / 100) True) (\<lambda>_.
       if mc_max_leverage c = 0 then Err (InvalidGenesis ''max_leverage must be positive'') else Ok ()))))"

definition validate_genesis_balance ::
  "dec_ops \<Rightarrow> (string \<Rightarrow> nat \<Rightarrow> nat) \<Rightarrow> nat \<times> decimal \<Rightarrow> decimal \<Rightarrow> decimal con" where
  "validate_genesis_balance D scale = (\<lambda>(i, balance) sum_of_balances.
     bindr (validate_genesis_decimal ''initial_balance'' (scale ''initial_balance'' i) balance 0 MAX_INPUT_VALUE True) (\<lambda>_.
     bindr (ok_or (InvalidGenesis ''genesis total balance exceeds Decimal range'') (d_add D sum_of_balances balance)) (\<lambda>t.
     if MAX_ORDER_NOTIONAL < t then Err (InvalidGenesis ''genesis total balance exceeds protocol maximum'') else Ok t)))"

definition validate_genesis ::
  "('nk, 'nd) app_env \<Rightarrow> (string \<Rightarrow> nat \<Rightarrow> nat) \<Rightarrow> genesis_state \<Rightarrow> string \<Rightarrow> unit con" where
  "validate_genesis A scale g chain_id =
     (let X = ap_chain A; K = pv_curve (app_protocol A) in
      if gs_app_protocol_version g \<noteq> APP_PROTOCOL_VERSION then Err (InvalidGenesis (''app_protocol_version must be '' @ nat_text APP_PROTOCOL_VERSION))
      else
        bindr (invalid_genesis ''authority is not a valid Ed25519 account: '' chain_message
          (verifying_key_from_account_id X (gs_authority g))) (\<lambda>_.
        bindr (validate_genesis_decimal ''private_order_fee'' (scale ''private_order_fee'' 0) (gs_private_order_fee g)
          0 MAX_INPUT_VALUE False) (\<lambda>_.
        bindr (case gs_private_order_key_set g of None \<Rightarrow> Ok ()
          | Some ks \<Rightarrow> invalid_genesis ''private_order_key_set is invalid: '' order_error_message (validate_key_set K ks)) (\<lambda>_.
        bindr (validate_private_validator_bindings X g) (\<lambda>_.
        bindr (case gs_shielded_development g of None \<Rightarrow> Ok ()
          | Some config \<Rightarrow> bindr (build_shielded_development_ledger A config chain_id) (\<lambda>_. Ok ())) (\<lambda>_.
        if gs_markets g = [] then Err (InvalidGenesis ''at least one market must be declared in app_state'')
        else if length (bset (map (\<lambda>m. mc_symbol (ms_config m)) (gs_markets g))) \<noteq> length (gs_markets g)
        then Err (InvalidGenesis ''market symbols must be unique'')
        else
          bindr (traverse (validate_genesis_market scale) (enumerate 0 (gs_markets g))) (\<lambda>_.
          bindr (foldr_res (validate_genesis_balance (en_dec (app_engine A)) scale)
            (enumerate 0 (om_values (gs_initial_balances g))) 0) (\<lambda>_. Ok ()))))))))"

section \<open>The first state\<close>

definition genesis_account :: "dec_ops \<Rightarrow> account_id \<times> decimal \<Rightarrow> state \<Rightarrow> state con" where
  "genesis_account D = (\<lambda>(aid, balance) s.
     bindr (ok_or (InvalidGenesis ''genesis total balance exceeds Decimal range'') (d_add D (es_total_credits s) balance)) (\<lambda>t.
     Ok (s\<lparr>es_accounts := om_insert aid
            \<lparr>acct_id = aid, acct_collateral = balance, acct_reserved_margin = 0, acct_fees_paid = 0, acct_positions = []\<rparr>
            (es_accounts s),
          es_total_credits := t\<rparr>)))"

definition genesis_application_state :: "('nk, 'nd) app_env \<Rightarrow> genesis_state \<Rightarrow> string \<Rightarrow> int \<Rightarrow> state con" where
  "genesis_application_state A g chain_id time =
     bindr (case gs_shielded_development g of None \<Rightarrow> Ok None
       | Some config \<Rightarrow> bindr (build_shielded_development_ledger A config chain_id) (\<lambda>l. Ok (Some l))) (\<lambda>ledger.
     foldr_res (genesis_account (en_dec (app_engine A))) (om_entries (gs_initial_balances g))
       ((genesis chain_id (gs_markets g))
          \<lparr>es_authority := gs_authority g, es_key_set := gs_private_order_key_set g,
           es_validator_bindings := om_of_list (om_entries (gs_private_validator_bindings g)),
           es_private_order_fee := gs_private_order_fee g, es_shielded_ledger := ledger,
           es_block_time_ms := time_millis time\<rparr>))"

end
