(* ===== verification/Consensus_App.thy ===== *)
theory Consensus_App
  imports Consensus_Genesis
begin

text \<open>
  The consensus application (\<open>ChainRuntime\<close> of \<open>consensus.rs\<close>): its state and a definition per request.
  A request gives its response next to the new state, also when the response is an error. \<open>Panic\<close> is a
  request that panics. Log messages are left out. The events sent to subscribers are kept in a list.
\<close>

record chain_snapshot =
  cs_state :: state
  cs_app_hash :: bytes

record mempool_reservation =
  mr_nonce :: nat
  mr_tx_hash :: bytes

record chain_runtime =
  cr_store :: store
  cr_committed :: "chain_snapshot option"
  cr_pending :: "chain_snapshot option"
  cr_export :: "snapshot_export option"
  cr_export_previous :: "snapshot_export option"
  cr_import :: "snapshot_import option"
  cr_mempool :: "(account_id, mempool_reservation) omap"
  cr_validator :: "private_validator_config option"
  cr_cache :: transaction_cache
  cr_sent :: "event list"

type_synonym 'a run = "(unit, 'a) res"

section \<open>Opening and initializing\<close>

definition open_runtime ::
  "('nk, 'nd) app_env \<Rightarrow> store \<Rightarrow> private_validator_config option \<Rightarrow> chain_runtime con" where
  "open_runtime A st validator =
     (let S = ap_store A in
      bindr (persistence (load_state S st)) (\<lambda>stored.
      let committed = map_option (\<lambda>x. \<lparr>cs_state = ss_state x, cs_app_hash = ss_app_hash x\<rparr>) stored in
      bindr (case committed of None \<Rightarrow> Ok ()
        | Some x \<Rightarrow>
            bindr (persistence (compute_app_hash S (cs_state x))) (\<lambda>actual.
            if actual \<noteq> cs_app_hash x \<or> \<not> verify (en_crypto (app_engine A)) (es_event_log (cs_state x))
            then Err StateHashMismatch else Ok ())) (\<lambda>_.
      Ok \<lparr>cr_store = st, cr_committed = committed, cr_pending = None, cr_export = None, cr_export_previous = None,
         cr_import = None, cr_mempool = [], cr_validator = validator,
         cr_cache = new_cache VERIFIED_TRANSACTION_CACHE_CAPACITY VERIFIED_TRANSACTION_CACHE_MAX_BYTES,
         cr_sent = []\<rparr>)))"

definition end_initialize :: "string \<Rightarrow> chain_runtime \<Rightarrow> chain_runtime" where
  "end_initialize chain_id R =
     R\<lparr>cr_mempool := [],
       cr_import := (case cr_import R of None \<Rightarrow> None
         | Some im \<Rightarrow> if sn_chain_id (si_metadata im) = chain_id then Some im else None)\<rparr>"

definition initialize ::
  "('nk, 'nd) app_env \<Rightarrow> genesis_env \<Rightarrow> init_chain \<Rightarrow> chain_runtime \<Rightarrow> (bytes \<times> chain_runtime) con" where
  "initialize A G rq R =
     (let S = ap_store A; chain_id = ic_chain_id rq in
      bindr (ok_or (InvalidGenesis ''genesis does not parse'') (ge_parse G (ic_app_state_bytes rq))) (\<lambda>g.
      bindr (validate_genesis A (ge_scale G (ic_app_state_bytes rq)) g chain_id) (\<lambda>_.
      bindr (validate_private_order_consensus (ap_chain A) g (ic_validators rq) (ic_vote_extensions_enable_height rq)
        (ic_initial_height rq)) (\<lambda>_.
      bindr (genesis_application_state A g chain_id (ic_time rq)) (\<lambda>s.
      case cr_committed R of
        Some committed \<Rightarrow>
          bindr (persistence (compute_app_hash S s)) (\<lambda>app_hash.
          if cs_app_hash committed \<noteq> app_hash \<or> es_chain_id (cs_state committed) \<noteq> es_chain_id s then Err GenesisMismatch
          else Ok (app_hash, end_initialize chain_id R))
      | None \<Rightarrow>
          bindr (persistence (commit_state S None s (cr_store R))) (\<lambda>(app_hash, st).
          Ok (app_hash, end_initialize chain_id
            (R\<lparr>cr_store := st, cr_committed := Some \<lparr>cs_state = s, cs_app_hash = app_hash\<rparr>\<rparr>))))))))"

record info_response =
  in_data :: string
  in_version :: string
  in_app_version :: nat
  in_last_block_height :: nat
  in_last_block_app_hash :: bytes

definition app_info :: "('nk, 'nd) app_env \<Rightarrow> chain_runtime \<Rightarrow> info_response" where
  "app_info A R =
     (case cr_committed R of
        Some x \<Rightarrow>
          \<lparr>in_data = ''asteria-abci'', in_version = ap_version A, in_app_version = APP_PROTOCOL_VERSION,
           in_last_block_height = height_of (es_height (cs_state x)), in_last_block_app_hash = cs_app_hash x\<rparr>
      | None \<Rightarrow>
          \<lparr>in_data = ''asteria-abci:uninitialized'', in_version = ap_version A, in_app_version = APP_PROTOCOL_VERSION,
           in_last_block_height = 0, in_last_block_app_hash = []\<rparr>)"

section \<open>The mempool\<close>

record check_response =
  ck_code :: nat
  ck_data :: bytes
  ck_log :: string
  ck_gas_wanted :: nat
  ck_gas_used :: nat
  ck_codespace :: string

definition check_error :: "consensus_error \<Rightarrow> nat \<Rightarrow> check_response" where
  "check_error e tx_len =
     \<lparr>ck_code = error_code e, ck_data = [], ck_log = consensus_message e, ck_gas_wanted = tx_len, ck_gas_used = tx_len,
      ck_codespace = ''asteria''\<rparr>"

definition reservation_conflict :: "chain_runtime \<Rightarrow> verified_transaction \<Rightarrow> bool" where
  "reservation_conflict R v =
     (case om_get (cr_mempool R) (vt_signer v) of
        None \<Rightarrow> False
      | Some existing \<Rightarrow> mr_nonce existing \<noteq> tx_nonce (vt_transaction v) \<or> mr_tx_hash existing \<noteq> vt_tx_hash v)"

text \<open>The checks of \<open>check_tx\<close> on a verified transaction, and its reservation.\<close>

definition admit_transaction ::
  "('nk, 'nd) app_env \<Rightarrow> chain_snapshot \<Rightarrow> verified_transaction \<Rightarrow> chain_runtime \<Rightarrow> chain_runtime con" where
  "admit_transaction A committed v R =
     (let s = cs_state committed; t = vt_transaction v; next_height = min u64_max (es_height s + 1) in
      bindr (validate_transaction_state s v next_height) (\<lambda>next_nonce.
      if reservation_conflict R v then Err (MempoolNonceConflict (vt_signer v) (tx_nonce t))
      else
        bindr (fst (execute_verified_transaction A v next_nonce next_height (es_block_time_ms s) 0 s)) (\<lambda>_.
        Ok (R\<lparr>cr_mempool := om_insert (vt_signer v) \<lparr>mr_nonce = tx_nonce t, mr_tx_hash = vt_tx_hash v\<rparr> (cr_mempool R)\<rparr>))))"

definition check_tx :: "('nk, 'nd) app_env \<Rightarrow> bytes \<Rightarrow> chain_runtime \<Rightarrow> (check_response \<times> chain_runtime) run" where
  "check_tx A bs R =
     bindr (verify_transaction_envelope_cached A bs (cr_cache R)) (\<lambda>(verified, cache).
     let R = R\<lparr>cr_cache := cache\<rparr> in
     case bindr verified (\<lambda>v. bindr (ok_or NotInitialized (cr_committed R)) (\<lambda>committed.
            bindr (admit_transaction A committed v R) (\<lambda>R. Ok (v, R)))) of
       Ok (v, R) \<Rightarrow>
         Ok (\<lparr>ck_code = 0, ck_data = vt_tx_hash v, ck_log = [], ck_gas_wanted = length bs, ck_gas_used = length bs,
              ck_codespace = []\<rparr>, R)
     | Err e \<Rightarrow> Ok (check_error e (length bs), R)
     | Panic \<Rightarrow> Panic)"

section \<open>Proposals\<close>

record vote =
  vo_commit :: bool
  vo_extension :: bytes
  vo_address :: bytes

record prepare_request =
  pr_height :: nat
  pr_time :: int
  pr_max_tx_bytes :: int
  pr_votes :: "vote list"
  pr_txs :: "bytes list"

record block_request =
  br_height :: nat
  br_time :: int
  br_txs :: "bytes list"

definition open_block :: "nat \<Rightarrow> int \<Rightarrow> state \<Rightarrow> state" where
  "open_block height time s = s\<lparr>es_height := height, es_block_time_ms := time_millis time\<rparr>"

definition decryption_height :: "nat \<Rightarrow> nat" where
  "decryption_height height = height - PRIVATE_ORDER_DECRYPTION_DELAY_BLOCKS"

definition expects_system :: "state \<Rightarrow> nat \<Rightarrow> bool" where
  "expects_system s height \<longleftrightarrow> pending_at s (decryption_height height) \<noteq> []"

text \<open>A vote counts when its extension decodes and names the validator that its address is bound to.\<close>

definition bound_extension :: "('nk, 'nd) app_env \<Rightarrow> state \<Rightarrow> vote \<Rightarrow> vote_extension option" where
  "bound_extension A s w =
     (if \<not> vo_commit w \<or> vo_extension w = [] then None
      else
        (case extension_from_bytes (app_protocol A) (vo_extension w) of
           Ok ve \<Rightarrow>
             if om_get (es_validator_bindings s) (ce_hex (ap_chain A) (vo_address w)) = Some (ve_validator_id ve)
             then Some ve else None
         | _ \<Rightarrow> None))"

definition system_execution_id :: "('nk, 'nd) app_env \<Rightarrow> state \<Rightarrow> decryption_bundle \<Rightarrow> bytes con" where
  "system_execution_id A s db =
     invalid_transaction protocol_message (private_batch_execution_id (cv_sha (pv_curve (app_protocol A))) (es_chain_id s) db)"

definition execute_system ::
  "('nk, 'nd) app_env \<Rightarrow> state \<Rightarrow> decryption_bundle \<Rightarrow> nat \<Rightarrow> state \<Rightarrow> (batch_execution \<times> state) con" where
  "execute_system A committed db height s =
     bindr (system_execution_id A committed db) (\<lambda>execution_id.
     transition (execute_private_decryption_bundle (app_engine A) (app_protocol A) db height execution_id s))"

text \<open>The private batch that a proposal must start with: its transaction and the state after it. An error is an empty proposal.\<close>

definition prepare_private_batch ::
  "('nk, 'nd) app_env \<Rightarrow> state \<Rightarrow> prepare_request \<Rightarrow> state \<Rightarrow> (bytes \<times> state) con" where
  "prepare_private_batch A committed rq scratch =
     (let pending_height = decryption_height (pr_height rq) in
      bindr (ok_or (InvalidTransaction ''no key set'') (es_key_set committed)) (\<lambda>ks.
      bindr (ok_or (InvalidTransaction ''no app hash'') (om_get (es_batch_app_hashes committed) pending_height)) (\<lambda>app_hash.
      bindr (invalid_transaction protocol_message
        (aggregate_vote_extensions (app_protocol A) (es_chain_id committed) pending_height app_hash ks
          (pending_at committed pending_height) (List.map_filter (bound_extension A committed) (pr_votes rq)))) (\<lambda>db.
      bindr (encode_private_system_transaction (app_protocol A) db) (\<lambda>system_tx.
      if pr_max_tx_bytes rq < int (length system_tx) then Err TransactionTooLarge
      else bindr (execute_system A committed db (pr_height rq) scratch) (\<lambda>(_, s). Ok (system_tx, s)))))))"

text \<open>The loop over the transactions of the mempool: the selected ones, their bytes, and the state.\<close>

fun select_transactions ::
  "('nk, 'nd) app_env \<Rightarrow> prepare_request \<Rightarrow> bytes list \<Rightarrow> bytes list \<Rightarrow> int \<Rightarrow> state \<Rightarrow> transaction_cache \<Rightarrow>
   (bytes list \<times> transaction_cache) run" where
  "select_transactions A rq [] selected n s c = Ok (selected, c)"
| "select_transactions A rq (tx # txs) selected n s c =
     (if pr_max_tx_bytes rq < min (2 ^ 63 - 1) (n + int (length tx)) then Ok (selected, c)
      else
        bindr (verify_transaction_envelope_cached A tx c) (\<lambda>(verified, c).
        case verified of
          Ok v \<Rightarrow>
            (case run_transaction A (pr_height rq) (time_millis (pr_time rq)) (length selected) v s of
               (Ok _, s) \<Rightarrow> select_transactions A rq txs (selected @ [tx]) (n + int (length tx)) s c
             | (Err _, s) \<Rightarrow> select_transactions A rq txs selected n s c
             | (Panic, s) \<Rightarrow> Panic)
        | Err _ \<Rightarrow> select_transactions A rq txs selected n s c
        | Panic \<Rightarrow> Panic))"

definition prepare_proposal ::
  "('nk, 'nd) app_env \<Rightarrow> prepare_request \<Rightarrow> chain_runtime \<Rightarrow> (bytes list \<times> chain_runtime) run" where
  "prepare_proposal A rq R =
     (case cr_committed R of
        None \<Rightarrow> Ok ([], R)
      | Some x \<Rightarrow>
          (let committed = cs_state x; scratch = open_block (pr_height rq) (pr_time rq) committed in
           case (if expects_system committed (pr_height rq)
                 then bindr (prepare_private_batch A committed rq scratch) (\<lambda>(tx, s). Ok ([tx], int (length tx), s))
                 else Ok ([], 0, scratch)) of
             Err _ \<Rightarrow> Ok ([], R)
           | Panic \<Rightarrow> Panic
           | Ok (selected, n, s) \<Rightarrow>
               bindr (select_transactions A rq (pr_txs rq) selected n s (cr_cache R)) (\<lambda>(txs, c).
               Ok (txs, R\<lparr>cr_cache := c\<rparr>))))"

text \<open>The first transaction of a block, as the private batch that the block must start with.\<close>

definition first_bundle :: "bytes list \<Rightarrow> ('nk, 'nd) app_env \<Rightarrow> transaction_cache \<Rightarrow> ((bytes \<times> decryption_bundle) con \<times> transaction_cache) run" where
  "first_bundle txs A c =
     (case txs of
        [] \<Rightarrow> Ok (Err (InvalidTransaction ''proposal omitted the required private decryption bundle''), c)
      | first # _ \<Rightarrow>
          bindr (decode_transaction_cached A first c) (\<lambda>(r, c).
          Ok (bindr r (\<lambda>t. case t of
                PrivateSystem db \<Rightarrow> Ok (first, db)
              | SignedTransaction v \<Rightarrow> Err (InvalidTransaction ''first transaction is not the required private decryption bundle'')), c)))"

fun run_all :: "('nk, 'nd) app_env \<Rightarrow> nat \<Rightarrow> int \<Rightarrow> nat \<Rightarrow> verified_transaction list \<Rightarrow> state \<Rightarrow> state con" where
  "run_all A height block_time_ms index [] s = Ok s"
| "run_all A height block_time_ms index (v # vs) s =
     (case run_transaction A height block_time_ms index v s of
        (Ok _, s) \<Rightarrow> run_all A height block_time_ms (Suc index) vs s
      | (Err e, s) \<Rightarrow> Err e
      | (Panic, s) \<Rightarrow> Panic)"

datatype proposal_status = Accept | Reject

definition process_proposal ::
  "('nk, 'nd) app_env \<Rightarrow> block_request \<Rightarrow> chain_runtime \<Rightarrow> (proposal_status \<times> chain_runtime) run" where
  "process_proposal A rq R =
     (case cr_committed R of
        None \<Rightarrow> Ok (Reject, R)
      | Some x \<Rightarrow>
          (let committed = cs_state x; scratch = open_block (br_height rq) (br_time rq) committed;
               finish = (\<lambda>status c. Ok (status, R\<lparr>cr_cache := c\<rparr>)) in
           bindr
             (if expects_system committed (br_height rq)
              then
                bindr (first_bundle (br_txs rq) A (cr_cache R)) (\<lambda>(r, c).
                case bindr r (\<lambda>(_, db). execute_system A committed db (br_height rq) scratch) of
                  Ok (_, s) \<Rightarrow> Ok (Some (1, s), c)
                | Err _ \<Rightarrow> Ok (None, c)
                | Panic \<Rightarrow> Panic)
              else
                bindr (any_private_system A (take 1 (br_txs rq)) (cr_cache R)) (\<lambda>(private, c).
                Ok (if private then None else Some (0, scratch), c))) (\<lambda>(start, c).
           case start of
             None \<Rightarrow> finish Reject c
           | Some (offset, s) \<Rightarrow>
               bindr (any_private_system A (drop offset (br_txs rq)) c) (\<lambda>(private, c).
               if private then finish Reject c
               else
                 bindr (verify_all A (drop offset (br_txs rq)) c) (\<lambda>(verified, c).
                 case bindr (traverse id verified) (\<lambda>vs. run_all A (br_height rq) (time_millis (br_time rq)) offset vs s) of
                   Ok _ \<Rightarrow> finish Accept c
                 | Err _ \<Rightarrow> finish Reject c
                 | Panic \<Rightarrow> Panic)))))"

section \<open>Blocks\<close>

fun finalize_transactions ::
  "('nk, 'nd) app_env \<Rightarrow> nat \<Rightarrow> int \<Rightarrow> nat \<Rightarrow> (bytes \<times> verified_transaction con) list \<Rightarrow> state \<Rightarrow>
   (exec_tx_result list \<times> state) run" where
  "finalize_transactions A height block_time_ms index [] s = Ok ([], s)"
| "finalize_transactions A height block_time_ms index ((tx, verified) # ps) s =
     (case (case verified of
              Ok v \<Rightarrow> run_transaction A height block_time_ms index v s
            | Err e \<Rightarrow> (Err e, s)
            | Panic \<Rightarrow> (Panic, s)) of
        (Ok a, s) \<Rightarrow>
          bindr (finalize_transactions A height block_time_ms (Suc index) ps s) (\<lambda>(rs, s).
          Ok (execution_result A a (length tx) # rs, s))
      | (Err e, s) \<Rightarrow>
          bindr (finalize_transactions A height block_time_ms (Suc index) ps s) (\<lambda>(rs, s).
          Ok (execution_error e (length tx) # rs, s))
      | (Panic, s) \<Rightarrow> Panic)"

record finalize_response =
  fr_events :: "abci_event list"
  fr_tx_results :: "exec_tx_result list"
  fr_app_hash :: bytes

text \<open>The anchor of the private orders of the preceding block: the committed application hash.\<close>

definition anchor_private_batch :: "chain_snapshot \<Rightarrow> nat \<Rightarrow> state \<Rightarrow> state con" where
  "anchor_private_batch x height s =
     (let share_batch_height = height - 1 in
      if pending_at (cs_state x) share_batch_height = [] then Ok s
      else
        (case om_get (es_batch_app_hashes s) share_batch_height of
           Some existing \<Rightarrow> if existing \<noteq> cs_app_hash x then Err StateHashMismatch
             else Ok (s\<lparr>es_batch_app_hashes := om_insert share_batch_height (cs_app_hash x) (es_batch_app_hashes s)\<rparr>)
         | None \<Rightarrow> Ok (s\<lparr>es_batch_app_hashes := om_insert share_batch_height (cs_app_hash x) (es_batch_app_hashes s)\<rparr>)))"

text \<open>\<open>prune_consensus_history\<close> returns nothing: it ends, or panics.\<close>

definition close_block :: "('nk, 'nd) app_env \<Rightarrow> nat \<Rightarrow> state \<Rightarrow> state con" where
  "close_block A height s =
     bindr (transition (freeze_private_batch_liquidity (app_engine A) height s)) (\<lambda>s.
     case prune_consensus_history s of Ok s \<Rightarrow> Ok s | _ \<Rightarrow> Panic)"

text \<open>The private batch of the block, its result and the first public transaction.\<close>

definition finalize_system ::
  "('nk, 'nd) app_env \<Rightarrow> state \<Rightarrow> block_request \<Rightarrow> state \<Rightarrow> transaction_cache \<Rightarrow>
   ((exec_tx_result list \<times> nat \<times> state) con \<times> transaction_cache) run" where
  "finalize_system A committed rq s c =
     (if \<not> expects_system committed (br_height rq) then Ok (Ok ([], 0, s), c)
      else
        bindr (first_bundle (br_txs rq) A c) (\<lambda>(r, c).
        Ok (bindr r (\<lambda>(tx, db).
            bindr (execute_system A committed db (br_height rq) s) (\<lambda>(x, s).
            Ok ([private_system_execution_result A x (length tx)], 1, s))), c)))"

definition block_response :: "('nk, 'nd) app_env \<Rightarrow> nat \<Rightarrow> exec_tx_result list \<Rightarrow> bytes \<Rightarrow> finalize_response" where
  "block_response A height results app_hash =
     \<lparr>fr_events = [\<lparr>ae_kind = ''asteria.block'',
        ae_attributes = [(''height'', nat_text height), (''app_hash'', ce_hex (ap_chain A) app_hash)]\<rparr>],
      fr_tx_results = results, fr_app_hash = app_hash\<rparr>"

text \<open>The public transactions of the block and its end; the state becomes pending.\<close>

definition finalize_public ::
  "('nk, 'nd) app_env \<Rightarrow> chain_snapshot \<Rightarrow> block_request \<Rightarrow> exec_tx_result list \<Rightarrow> nat \<Rightarrow> state \<Rightarrow> chain_runtime \<Rightarrow>
   (finalize_response con \<times> chain_runtime) run" where
  "finalize_public A x rq results offset s R =
     bindr (any_private_system A (drop offset (br_txs rq)) (cr_cache R)) (\<lambda>(private, c).
     if private
     then Ok (Err (InvalidTransaction ''private system transaction is unexpected or misplaced''), R\<lparr>cr_cache := c\<rparr>)
     else
       bindr (verify_all A (drop offset (br_txs rq)) c) (\<lambda>(verified, c).
       bindr (finalize_transactions A (br_height rq) (time_millis (br_time rq)) offset (zip (drop offset (br_txs rq)) verified) s)
         (\<lambda>(more, s).
       case bindr (close_block A (br_height rq) s) (\<lambda>s.
              bindr (persistence (preview_state_root (ap_store A) (cr_store R) (Some (cs_state x)) s)) (\<lambda>app_hash.
              Ok (s, app_hash))) of
         Ok (s, app_hash) \<Rightarrow>
           Ok (Ok (block_response A (br_height rq) (results @ more) app_hash),
               R\<lparr>cr_cache := c, cr_pending := Some \<lparr>cs_state = s, cs_app_hash = app_hash\<rparr>\<rparr>)
       | Err e \<Rightarrow> Ok (Err e, R\<lparr>cr_cache := c\<rparr>)
       | Panic \<Rightarrow> Panic)))"

definition finalize_block ::
  "('nk, 'nd) app_env \<Rightarrow> block_request \<Rightarrow> chain_runtime \<Rightarrow> (finalize_response con \<times> chain_runtime) run" where
  "finalize_block A rq R =
     (case cr_committed R of
        None \<Rightarrow> Ok (Err NotInitialized, R)
      | Some x \<Rightarrow>
          (case anchor_private_batch x (br_height rq) (open_block (br_height rq) (br_time rq) (cs_state x)) of
             Err e \<Rightarrow> Ok (Err e, R)
           | Panic \<Rightarrow> Panic
           | Ok s \<Rightarrow>
               bindr (finalize_system A (cs_state x) rq s (cr_cache R)) (\<lambda>(r, c).
               case r of
                 Err e \<Rightarrow> Ok (Err e, R\<lparr>cr_cache := c\<rparr>)
               | Panic \<Rightarrow> Panic
               | Ok (results, offset, s) \<Rightarrow> finalize_public A x rq results offset s (R\<lparr>cr_cache := c\<rparr>))))"

text \<open>
  \<open>commit\<close> with \<open>persist_pending_with\<close>. A commit of the store that returned another hash has been
  written, so the store keeps it.
\<close>

definition commit :: "('nk, 'nd) app_env \<Rightarrow> chain_runtime \<Rightarrow> (unit con \<times> chain_runtime) run" where
  "commit A R =
     (case cr_pending R of
        None \<Rightarrow> Ok (Err (StatePersistence ''commit requested without finalized block''), R)
      | Some p \<Rightarrow>
          (case persistence (commit_state (ap_store A) (map_option cs_state (cr_committed R)) (cs_state p) (cr_store R)) of
             Err e \<Rightarrow> Ok (Err e, R)
           | Panic \<Rightarrow> Panic
           | Ok (persisted, st) \<Rightarrow>
               if persisted \<noteq> cs_app_hash p then Ok (Err StateHashMismatch, R\<lparr>cr_store := st\<rparr>)
               else
                 (let previous_sequence = (case cr_committed R of None \<Rightarrow> 0 | Some x \<Rightarrow> es_sequence (cs_state x)) in
                  Ok (Ok (),
                    R\<lparr>cr_store := st, cr_pending := None, cr_committed := Some p, cr_mempool := [],
                      cr_sent := cr_sent R @ after previous_sequence u64_max (es_event_log (cs_state p))\<rparr>))))"

end
