(* ===== verification/Consensus_Service.thy ===== *)
theory Consensus_Service
  imports Consensus_App
begin

text \<open>
  The other requests of the application (\<open>consensus.rs\<close>): state sync, vote extensions and queries, and
  \<open>call\<close>, which dispatches a request. The randomness of a vote extension is a list of scalars.
\<close>

section \<open>State sync\<close>

definition snapshot_error :: "'a ss \<Rightarrow> 'a con" where
  "snapshot_error r = map_err (\<lambda>e. StatePersistence (sync_message e)) r"

definition needs_export :: "('nk, 'nd) app_env \<Rightarrow> chain_snapshot \<Rightarrow> chain_runtime \<Rightarrow> bool run" where
  "needs_export A x R =
     (case cr_export R of
        None \<Rightarrow> Ok True
      | Some e \<Rightarrow>
          if sp_height (sx_descriptor e) \<noteq> es_height (cs_state x) then Ok True
          else bindr (export_app_hash (ap_sync A) e) (\<lambda>h. Ok (h \<noteq> cs_app_hash x)))"

definition list_snapshots :: "('nk, 'nd) app_env \<Rightarrow> chain_runtime \<Rightarrow> (snapshot list con \<times> chain_runtime) run" where
  "list_snapshots A R =
     (case cr_committed R of
        None \<Rightarrow> Ok (Ok [], R)
      | Some x \<Rightarrow>
          if es_height (cs_state x) = 0 then Ok (Ok [], R)
          else
            bindr (needs_export A x R) (\<lambda>rebuild.
            case (if rebuild
                  then bindr (snapshot_error (create_export (ap_sync A) (ap_store A) (cs_state x) (cs_app_hash x))) (\<lambda>e.
                       Ok (R\<lparr>cr_export_previous := cr_export R, cr_export := Some e\<rparr>))
                  else Ok R) of
              Err e \<Rightarrow> Ok (Err e, R)
            | Panic \<Rightarrow> Panic
            | Ok R \<Rightarrow> bindr (expect (cr_export R)) (\<lambda>e. Ok (Ok [sx_descriptor e], R))))"

datatype offer_status = OfferAccept | OfferAbort | OfferReject | OfferRejectFormat

definition blocks_committed :: "chain_runtime \<Rightarrow> bool" where
  "blocks_committed R \<longleftrightarrow>
     cr_pending R \<noteq> None \<or> (case cr_committed R of None \<Rightarrow> False | Some x \<Rightarrow> 0 < es_height (cs_state x))"

definition other_chain :: "string \<Rightarrow> chain_runtime \<Rightarrow> bool" where
  "other_chain chain_id R \<longleftrightarrow> (case cr_committed R of None \<Rightarrow> False | Some x \<Rightarrow> es_chain_id (cs_state x) \<noteq> chain_id)"

definition offer_snapshot ::
  "('nk, 'nd) app_env \<Rightarrow> snapshot \<Rightarrow> bytes \<Rightarrow> chain_runtime \<Rightarrow> (offer_status \<times> chain_runtime) run" where
  "offer_snapshot A sn app_hash R =
     (if blocks_committed R then Ok (OfferAbort, R\<lparr>cr_import := None\<rparr>)
      else
        (case from_offer (ap_sync A) sn app_hash of
           Ok im \<Rightarrow>
             if other_chain (sn_chain_id (si_metadata im)) R then Ok (OfferReject, R)
             else Ok (OfferAccept, R\<lparr>cr_import := Some im\<rparr>)
         | Err (UnsupportedFormat n) \<Rightarrow> Ok (OfferRejectFormat, R)
         | Err e \<Rightarrow> Ok (OfferReject, R)
         | Panic \<Rightarrow> Panic))"

definition load_from :: "snapshot_export option \<Rightarrow> nat \<Rightarrow> nat \<Rightarrow> nat \<Rightarrow> bytes option run" where
  "load_from x height format index = (case x of None \<Rightarrow> Ok None | Some e \<Rightarrow> load_chunk e height format index)"

definition load_snapshot_chunk :: "chain_runtime \<Rightarrow> nat \<Rightarrow> nat \<Rightarrow> nat \<Rightarrow> bytes run" where
  "load_snapshot_chunk R height format index =
     bindr (load_from (cr_export R) height format index) (\<lambda>found.
     case found of
       Some chunk \<Rightarrow> Ok chunk
     | None \<Rightarrow>
         bindr (load_from (cr_export_previous R) height format index) (\<lambda>found.
         case found of Some chunk \<Rightarrow> Ok chunk | None \<Rightarrow> Ok []))"

datatype chunk_status = ChunkAccept | ChunkAbort | ChunkRetry | ChunkRetrySnapshot | ChunkRejectSnapshot

record chunk_response =
  cp_status :: chunk_status
  cp_refetch :: "nat list"
  cp_reject :: "string list"

definition chunk_result :: "chunk_status \<Rightarrow> chunk_response" where
  "chunk_result status = \<lparr>cp_status = status, cp_refetch = [], cp_reject = []\<rparr>"

text \<open>A complete snapshot replaces the state, unless a block has been committed in the meantime.\<close>

definition install_snapshot ::
  "('nk, 'nd) app_env \<Rightarrow> snapshot_import \<Rightarrow> chain_runtime \<Rightarrow> (chunk_response \<times> chain_runtime) run" where
  "install_snapshot A im R =
     (let S = ap_store A in
      case finalize_import (ap_sync A) S (app_engine A) im of
        Err e \<Rightarrow> Ok (chunk_result ChunkRejectSnapshot, R\<lparr>cr_import := None\<rparr>)
      | Panic \<Rightarrow> Panic
      | Ok s \<Rightarrow>
          (case compute_app_hash S s of
             Err e \<Rightarrow> Ok (chunk_result ChunkAbort, R\<lparr>cr_import := None\<rparr>)
           | Panic \<Rightarrow> Panic
           | Ok app_hash \<Rightarrow>
               if blocks_committed R \<or> other_chain (es_chain_id s) R
               then Ok (chunk_result ChunkAbort, R\<lparr>cr_import := None\<rparr>)
               else
                 (case replace_state S s (cr_store R) of
                    Err e \<Rightarrow> Ok (chunk_result ChunkAbort, R\<lparr>cr_import := None\<rparr>)
                  | Panic \<Rightarrow> Panic
                  | Ok (persisted, st) \<Rightarrow>
                      if persisted \<noteq> app_hash
                      then Ok (chunk_result ChunkAbort, R\<lparr>cr_store := st, cr_import := None\<rparr>)
                      else
                        Ok (chunk_result ChunkAccept,
                          R\<lparr>cr_store := st, cr_committed := Some \<lparr>cs_state = s, cs_app_hash = app_hash\<rparr>, cr_pending := None,
                            cr_import := None, cr_export := None, cr_export_previous := None, cr_mempool := [],
                            cr_cache := cache_clear (cr_cache R)\<rparr>))))"

definition apply_snapshot_chunk ::
  "('nk, 'nd) app_env \<Rightarrow> nat \<Rightarrow> bytes \<Rightarrow> string \<Rightarrow> chain_runtime \<Rightarrow> (chunk_response \<times> chain_runtime) run" where
  "apply_snapshot_chunk A index chunk sender R =
     (case cr_import R of
        None \<Rightarrow> Ok (chunk_result ChunkRetrySnapshot, R)
      | Some im \<Rightarrow>
          bindr (expected_index im) (\<lambda>expected.
          case apply_chunk (ap_sync A) index chunk im of
            Err (UnexpectedChunk wanted got) \<Rightarrow>
              Ok (\<lparr>cp_status = ChunkRetry, cp_refetch = [expected], cp_reject = []\<rparr>, R)
          | Err e \<Rightarrow>
              Ok (\<lparr>cp_status = ChunkRetry, cp_refetch = [index], cp_reject = (if sender = [] then [] else [sender])\<rparr>, R)
          | Panic \<Rightarrow> Panic
          | Ok (finished, im) \<Rightarrow>
              (let R = R\<lparr>cr_import := Some im\<rparr> in
               if finished then install_snapshot A im R else Ok (chunk_result ChunkAccept, R))))"

section \<open>Vote extensions\<close>

text \<open>The committed state and its pending private orders, when the vote is for the block after it.\<close>

definition vote_batch :: "nat \<Rightarrow> chain_runtime \<Rightarrow> (chain_snapshot \<times> nat \<times> submission list) option" where
  "vote_batch height R =
     (case (cr_committed R, checked_sub height 1) of
        (Some x, Some batch_height) \<Rightarrow>
          if es_height (cs_state x) \<noteq> batch_height then None else Some (x, batch_height, pending_at (cs_state x) batch_height)
      | _ \<Rightarrow> None)"

definition build_vote_extension ::
  "('nk, 'nd) app_env \<Rightarrow> chain_snapshot \<Rightarrow> nat \<Rightarrow> submission list \<Rightarrow> private_validator_config \<Rightarrow> public_key_set \<Rightarrow>
   int list \<Rightarrow> bytes pp" where
  "build_vote_extension A x batch_height pending config ks rs =
     (let V = app_protocol A in
      bindr (liftp (from_provisioned_scalar (pv_curve V) ks (vc_validator_id config) (vc_scalar config))) (\<lambda>secret.
      bindr (build_extension V (es_chain_id (cs_state x)) batch_height (cs_app_hash x) ks secret pending rs) (\<lambda>ve.
      extension_to_bytes V ve)))"

definition extend_vote :: "('nk, 'nd) app_env \<Rightarrow> nat \<Rightarrow> int list \<Rightarrow> chain_runtime \<Rightarrow> bytes run" where
  "extend_vote A height rs R =
     (case vote_batch height R of
        None \<Rightarrow> Ok []
      | Some (x, batch_height, pending) \<Rightarrow>
          if pending = [] then Ok []
          else
            (case (cr_validator R, es_key_set (cs_state x)) of
               (Some config, Some ks) \<Rightarrow>
                 (case build_vote_extension A x batch_height pending config ks rs of
                    Ok bs \<Rightarrow> Ok bs | Err e \<Rightarrow> Ok [] | Panic \<Rightarrow> Panic)
             | _ \<Rightarrow> Ok []))"

definition verify_vote_extension ::
  "('nk, 'nd) app_env \<Rightarrow> nat \<Rightarrow> bytes \<Rightarrow> bytes \<Rightarrow> chain_runtime \<Rightarrow> proposal_status run" where
  "verify_vote_extension A height address bs R =
     (let V = app_protocol A in
      case vote_batch height R of
        None \<Rightarrow> Ok Reject
      | Some (x, batch_height, pending) \<Rightarrow>
          if bs = [] then Ok (if pending = [] then Accept else Reject)
          else if pending = [] then Ok Reject
          else
            (case (es_key_set (cs_state x), extension_from_bytes V bs) of
               (Some ks, Ok ve) \<Rightarrow>
                 if om_get (es_validator_bindings (cs_state x)) (ce_hex (ap_chain A) address) \<noteq> Some (ve_validator_id ve)
                 then Ok Reject
                 else
                   (case validate_vote_extension V ve (es_chain_id (cs_state x)) batch_height (cs_app_hash x)
                      (ve_validator_id ve) ks pending of
                      Ok _ \<Rightarrow> Ok Accept | Err e \<Rightarrow> Ok Reject | Panic \<Rightarrow> Panic)
             | (Some ks, Panic) \<Rightarrow> Panic
             | _ \<Rightarrow> Ok Reject))"

section \<open>Queries\<close>

text \<open>Well-formed UTF-8, as \<open>from_utf8\<close> decides it.\<close>

definition continuation :: "nat \<Rightarrow> bool" where
  "continuation b \<longleftrightarrow> 0x80 \<le> b \<and> b \<le> 0xBF"

fun utf8 :: "bytes \<Rightarrow> bool" where
  "utf8 [] \<longleftrightarrow> True"
| "utf8 (a # bs) \<longleftrightarrow>
     (if a < 0x80 then utf8 bs
      else if 0xC2 \<le> a \<and> a \<le> 0xDF then (case bs of b # bs \<Rightarrow> continuation b \<and> utf8 bs | _ \<Rightarrow> False)
      else if 0xE0 \<le> a \<and> a \<le> 0xEF
      then (case bs of
              b # c # bs \<Rightarrow>
                continuation b \<and> (a = 0xE0 \<longrightarrow> 0xA0 \<le> b) \<and> (a = 0xED \<longrightarrow> b \<le> 0x9F) \<and> continuation c \<and> utf8 bs
            | _ \<Rightarrow> False)
      else if 0xF0 \<le> a \<and> a \<le> 0xF4
      then (case bs of
              b # c # d # bs \<Rightarrow>
                continuation b \<and> (a = 0xF0 \<longrightarrow> 0x90 \<le> b) \<and> (a = 0xF4 \<longrightarrow> b \<le> 0x8F) \<and> continuation c \<and> continuation d \<and> utf8 bs
            | _ \<Rightarrow> False)
      else False)"

definition utf8_string :: "bytes \<Rightarrow> string con" where
  "utf8_string bs = (if utf8 bs then Ok (map char_of bs) else Err (InvalidTransaction ''invalid utf-8''))"

definition query_json :: "('a \<Rightarrow> bytes option) \<Rightarrow> 'a \<Rightarrow> bytes con" where
  "query_json json x = ok_or (Transition ''serialization failed'') (json x)"

definition query_value :: "('nk, 'nd) app_env \<Rightarrow> state \<Rightarrow> string \<Rightarrow> bytes \<Rightarrow> bytes con" where
  "query_value A s path data =
     (if path = ''/state'' then transition (canonical_state_bytes (sy_state (ap_sync A)) s)
      else if path = ''/audit''
      then bindr (transition (audit_state (app_engine A) sl_collateral s)) (query_json (ap_audit_json A))
      else if path = ''/account''
      then
        bindr (utf8_string data) (\<lambda>aid.
        bindr (ok_or (Transition ''account not found'') (om_get (es_accounts s) aid)) (query_json (ap_account_json A)))
      else if path = ''/market''
      then
        bindr (utf8_string data) (\<lambda>symb.
        bindr (ok_or (Transition ''market not found'') (om_get (es_markets s) symb)) (query_json (ap_market_json A)))
      else Err (Transition (''unsupported query path: '' @ path)))"

record query_response =
  qr_code :: nat
  qr_log :: string
  qr_key :: bytes
  qr_value :: bytes
  qr_height :: nat
  qr_codespace :: string

definition query_error :: "consensus_error \<Rightarrow> nat \<Rightarrow> query_response" where
  "query_error e block_height =
     \<lparr>qr_code = error_code e, qr_log = consensus_message e, qr_key = [], qr_value = [],
      qr_height = height_of block_height, qr_codespace = ''asteria''\<rparr>"

definition query :: "('nk, 'nd) app_env \<Rightarrow> string \<Rightarrow> bytes \<Rightarrow> chain_runtime \<Rightarrow> query_response run" where
  "query A path data R =
     (case cr_committed R of
        None \<Rightarrow> Ok (query_error NotInitialized 0)
      | Some x \<Rightarrow>
          (case query_value A (cs_state x) path data of
             Ok bs \<Rightarrow>
               Ok \<lparr>qr_code = 0, qr_log = ''ok'', qr_key = data, qr_value = bs,
                  qr_height = height_of (es_height (cs_state x)), qr_codespace = []\<rparr>
           | Err e \<Rightarrow> Ok (query_error e (es_height (cs_state x)))
           | Panic \<Rightarrow> Panic))"

section \<open>Requests\<close>

datatype request =
    Info
  | Query string bytes
  | InitChain init_chain
  | CheckTx bytes
  | PrepareProposal prepare_request
  | ProcessProposal block_request
  | FinalizeBlock block_request
  | CommitBlock
  | ExtendVote nat "int list"
  | VerifyVoteExtension nat bytes bytes
  | Flush
  | Echo string
  | ListSnapshots
  | OfferSnapshot snapshot bytes
  | LoadSnapshotChunk nat nat nat
  | ApplySnapshotChunk nat bytes string

datatype response =
    InfoResponse info_response
  | QueryResponse query_response
  | InitChainResponse bytes
  | CheckTxResponse check_response
  | PrepareProposalResponse "bytes list"
  | ProcessProposalResponse proposal_status
  | FinalizeBlockResponse finalize_response
  | CommitResponse
  | ExtendVoteResponse bytes
  | VerifyVoteExtensionResponse proposal_status
  | FlushResponse
  | EchoResponse
  | ListSnapshotsResponse "snapshot list"
  | OfferSnapshotResponse offer_status
  | LoadSnapshotChunkResponse bytes
  | ApplySnapshotChunkResponse chunk_response
  | ErrorResponse consensus_error

definition respond :: "('a \<Rightarrow> response) \<Rightarrow> ('a \<times> chain_runtime) run \<Rightarrow> (response \<times> chain_runtime) run" where
  "respond f r = bindr r (\<lambda>(x, R). Ok (f x, R))"

definition read_only :: "('a \<Rightarrow> response) \<Rightarrow> chain_runtime \<Rightarrow> 'a run \<Rightarrow> (response \<times> chain_runtime) run" where
  "read_only f R r = bindr r (\<lambda>x. Ok (f x, R))"

definition try_respond :: "('a \<Rightarrow> response) \<Rightarrow> ('a con \<times> chain_runtime) run \<Rightarrow> (response \<times> chain_runtime) run" where
  "try_respond f r =
     bindr r (\<lambda>(x, R). case x of Ok y \<Rightarrow> Ok (f y, R) | Err e \<Rightarrow> Ok (ErrorResponse e, R) | Panic \<Rightarrow> Panic)"

fun call :: "('nk, 'nd) app_env \<Rightarrow> genesis_env \<Rightarrow> request \<Rightarrow> chain_runtime \<Rightarrow> (response \<times> chain_runtime) run" where
  "call A G Info R = Ok (InfoResponse (app_info A R), R)"
| "call A G (Query path data) R = read_only QueryResponse R (query A path data R)"
| "call A G (InitChain rq) R =
     (case initialize A G rq R of
        Ok (app_hash, R) \<Rightarrow> Ok (InitChainResponse app_hash, R) | Err e \<Rightarrow> Ok (ErrorResponse e, R) | Panic \<Rightarrow> Panic)"
| "call A G (CheckTx tx) R = respond CheckTxResponse (check_tx A tx R)"
| "call A G (PrepareProposal rq) R = respond PrepareProposalResponse (prepare_proposal A rq R)"
| "call A G (ProcessProposal rq) R = respond ProcessProposalResponse (process_proposal A rq R)"
| "call A G (FinalizeBlock rq) R = try_respond FinalizeBlockResponse (finalize_block A rq R)"
| "call A G CommitBlock R = try_respond (\<lambda>_. CommitResponse) (commit A R)"
| "call A G (ExtendVote height rs) R = read_only ExtendVoteResponse R (extend_vote A height rs R)"
| "call A G (VerifyVoteExtension height address bs) R =
     read_only VerifyVoteExtensionResponse R (verify_vote_extension A height address bs R)"
| "call A G Flush R = Ok (FlushResponse, R)"
| "call A G (Echo t) R = Ok (EchoResponse, R)"
| "call A G ListSnapshots R = try_respond ListSnapshotsResponse (list_snapshots A R)"
| "call A G (OfferSnapshot sn app_hash) R = respond OfferSnapshotResponse (offer_snapshot A sn app_hash R)"
| "call A G (LoadSnapshotChunk height format index) R =
     read_only LoadSnapshotChunkResponse R (load_snapshot_chunk R height format index)"
| "call A G (ApplySnapshotChunk index chunk sender) R =
     respond ApplySnapshotChunkResponse (apply_snapshot_chunk A index chunk sender R)"

text \<open>The handle that the HTTP interface reads.\<close>

definition handle_snapshot :: "chain_runtime \<Rightarrow> chain_snapshot option" where
  "handle_snapshot R = cr_committed R"

definition handle_audit :: "('nk, 'nd) app_env \<Rightarrow> chain_runtime \<Rightarrow> audit_report option exch" where
  "handle_audit A R =
     (case cr_committed R of
        None \<Rightarrow> Ok None
      | Some x \<Rightarrow> bindr (audit_state (app_engine A) sl_collateral (cs_state x)) (\<lambda>r. Ok (Some r)))"

end
