(* ===== verification/Engine_Frame.thy ===== *)
theory Engine_Frame
  imports Engine_Commands
begin

text \<open>
  What no command and no batch changes: the identity of the chain, the authority, the threshold key set,
  the validator bindings, the fee and the nonces of the accounts. The same pass over the operations
  shows that the event log stays a hash chain whose sequence numbers are used up.
\<close>

section \<open>The frame\<close>

definition frame_of :: "'l engine_state \<Rightarrow> string \<times> account_id \<times> nat \<times> nat \<times> int \<times> (account_id, nat) omap \<times>
    public_key_set option \<times> (string, nat) omap \<times> decimal" where
  "frame_of s = (es_chain_id s, es_authority s, es_protocol_version s, es_height s, es_block_time_ms s,
     es_account_nonces s, es_key_set s, es_validator_bindings s, es_private_order_fee s)"

definition log_ok :: "event_crypto \<Rightarrow> 'l engine_state \<Rightarrow> bool" where
  "log_ok C s \<longleftrightarrow> chain C (es_event_log s) \<and> (\<forall>ev \<in> set (es_event_log s). ev_sequence ev \<le> es_sequence s)"

text \<open>A frame, and whether the event log is known to be a chain.\<close>

definition kept :: "engine_env \<Rightarrow> (string \<times> account_id \<times> nat \<times> nat \<times> int \<times> (account_id, nat) omap \<times>
    public_key_set option \<times> (string, nat) omap \<times> decimal) \<times> bool \<Rightarrow> 'l engine_state \<Rightarrow> bool" where
  "kept E c s \<longleftrightarrow> frame_of s = fst c \<and> (snd c \<longrightarrow> log_ok (en_crypto E) s)"

lemma kept_update [simp]:
  "kept E c (s\<lparr>es_markets := x1\<rparr>) = kept E c s" "kept E c (s\<lparr>es_accounts := x2\<rparr>) = kept E c s"
  "kept E c (s\<lparr>es_books := x3\<rparr>) = kept E c s" "kept E c (s\<lparr>es_order_market := x4\<rparr>) = kept E c s"
  "kept E c (s\<lparr>es_client_order_ids := x5\<rparr>) = kept E c s" "kept E c (s\<lparr>es_total_credits := x6\<rparr>) = kept E c s"
  "kept E c (s\<lparr>es_fee_vault := x7\<rparr>) = kept E c s" "kept E c (s\<lparr>es_insurance_fund := x8\<rparr>) = kept E c s"
  "kept E c (s\<lparr>es_funding_pool := x9\<rparr>) = kept E c s" "kept E c (s\<lparr>es_oracle := x10\<rparr>) = kept E c s"
  "kept E c (s\<lparr>es_pending_orders := x11\<rparr>) = kept E c s" "kept E c (s\<lparr>es_bonds := x12\<rparr>) = kept E c s"
  "kept E c (s\<lparr>es_batch_app_hashes := x13\<rparr>) = kept E c s" "kept E c (s\<lparr>es_batch_snapshots := x14\<rparr>) = kept E c s"
  "kept E c (s\<lparr>es_shielded_ledger := x15\<rparr>) = kept E c s"
  by (simp_all add: kept_def frame_of_def log_ok_def)

lemma kept_put [simp]:
  "kept E c (put_account aid a s) = kept E c s" "kept E c (put_market symb m s) = kept E c s"
  "kept E c (put_book symb bk s) = kept E c s"
  by (simp_all add: put_account_def put_market_def put_book_def)

lemma kept_indices [simp]: "kept E c (remove_order_indices ord s) = kept E c s"
  by (simp add: remove_order_indices_def Let_def)

lemma kept_fold_indices [simp]: "kept E c (fold remove_order_indices ords s) = kept E c s"
  by (induction ords arbitrary: s) simp_all

lemma kept_drop_batch [simp]: "kept E c (drop_batch height s) = kept E c s"
  by (simp add: drop_batch_def)

text \<open>The lemmas that an operation keeps the frame are collected in \<open>kept\<close>.\<close>

named_theorems kept

lemma log_append_ok:
  assumes "log_ok (en_crypto E) s" and "es_event_log t = es_event_log s" and "es_sequence t = Suc (es_sequence s)"
  shows "log_ok (en_crypto E) (append_event_at E (Suc (es_sequence s)) kind t)"
proof -
  have old: "chain (en_crypto E) (es_event_log s)" "\<forall>ev \<in> set (es_event_log s). ev_sequence ev \<le> es_sequence s"
    using assms(1) by (auto simp: log_ok_def)
  let ?l = "snd (log_append (en_crypto E) (Suc (es_sequence s)) (consensus_time E t) kind (es_event_log s))"
  have "chain (en_crypto E) ?l" by (rule chain_append [OF old(1)]) (use old(2) in \<open>auto simp: less_Suc_eq_le\<close>)
  moreover have "ev_sequence ev \<le> Suc (es_sequence s)" if "ev \<in> set ?l" for ev
    using that old(2) by (auto simp: log_append_def Let_def prune_def dest!: in_set_dropD)
  ultimately show ?thesis
    using assms by (simp add: log_ok_def append_event_at_def)
qed

lemma kept_log:
  assumes "kept E c s" and "es_event_log t = es_event_log s" and "es_sequence t = Suc (es_sequence s)" and "frame_of t = frame_of s"
  shows "kept E c (append_event_at E (Suc (es_sequence s)) kind t)"
  using assms log_append_ok [of E s t kind] by (auto simp: kept_def append_event_at_def frame_of_def)

lemma append_event_kept [kept]: "append_event E kind s = Ok s' \<Longrightarrow> kept E c s \<Longrightarrow> kept E c s'"
  using kept_log [of E c s "s\<lparr>es_sequence := Suc (es_sequence s)\<rparr>" kind]
  by (auto simp: append_event_def next_sequence_def frame_of_def)

lemma next_sequence_log:
  assumes "next_sequence s = Ok (n, s1)" and "kept E c s" and "es_event_log t = es_event_log s1"
    and "es_sequence t = es_sequence s1" and "frame_of t = frame_of s1"
  shows "kept E c (append_event_at E n kind t)"
  using assms kept_log [of E c s t kind] by (auto simp: next_sequence_def frame_of_def)

lemma foldr_res_kept:
  assumes "foldr_res f xs a = Ok b" and "kept E c (g a)"
    and "\<And>x a b. x \<in> set xs \<Longrightarrow> kept E c (g a) \<Longrightarrow> f x a = Ok b \<Longrightarrow> kept E c (g b)"
  shows "kept E c (g b)"
  using assms by (rule foldr_res_invariant [where P = "\<lambda>a. kept E c (g a)"])

section \<open>Accounts and cancellations\<close>

lemma credit_kept [kept]: "credit_account_state E aid amount s = Ok (a, s') \<Longrightarrow> kept E c s \<Longrightarrow> kept E c s'"
  by (auto simp: credit_account_state_def Let_def split: if_splits dest: kept)

lemma funding_kept [kept]: "apply_funding_state E symb rate s = Ok (r, s') \<Longrightarrow> kept E c s \<Longrightarrow> kept E c s'"
  by (auto simp: apply_funding_state_def Let_def split: if_splits dest: kept)

lemma settle_funding_kept [kept]: "settle_account_funding E aid symb s = Ok (p, s') \<Longrightarrow> kept E c s \<Longrightarrow> kept E c s'"
  by (auto simp: settle_account_funding_def Let_def split: option.splits)

lemma reserve_kept [kept]: "reserve_margin E field aid amount s = Ok s' \<Longrightarrow> kept E c s \<Longrightarrow> kept E c s'"
  by (auto simp: reserve_margin_def)

lemma release_kept [kept]: "release_margin E aid amount s = Ok s' \<Longrightarrow> kept E c s \<Longrightarrow> kept E c s'"
  by (auto simp: release_margin_def split: if_splits)

lemma fill_kept [kept]:
  "apply_fill_to_account E aid symb side q p l r s = Ok s' \<Longrightarrow> kept E c s \<Longrightarrow> kept E c s'"
  by (auto simp: apply_fill_to_account_def dest: kept)

lemma cancel_resting_kept [kept]:
  "cancel_resting E symb oid aid reason s = Ok (cancelled, s') \<Longrightarrow> kept E c s \<Longrightarrow> kept E c s'"
  by (auto simp: cancel_resting_def dest!: kept)

lemma cancel_all_kept [kept]: "cancel_all E symb reason xs s = Ok s' \<Longrightarrow> kept E c s \<Longrightarrow> kept E c s'"
  unfolding cancel_all_def by (erule foldr_res_kept [where g = id, simplified]) (auto dest: kept)

lemma cancel_order_kept [kept]: "cancel_order E aid oid s = Ok (ord, s') \<Longrightarrow> kept E c s \<Longrightarrow> kept E c s'"
  by (auto simp: cancel_order_def dest: kept)

lemma reconcile_kept [kept]: "reconcile_reduce_only_orders E aid symb s = Ok s' \<Longrightarrow> kept E c s \<Longrightarrow> kept E c s'"
  by (auto simp: reconcile_reduce_only_orders_def Let_def dest: kept)

section \<open>Orders\<close>

lemma release_step_kept [kept]: "release_step E r s = Ok s' \<Longrightarrow> kept E c s \<Longrightarrow> kept E c s'"
  by (auto simp: release_step_def dest!: kept)

lemma settle_fill_kept [kept]: "settle_fill E m f s = Ok s' \<Longrightarrow> kept E c s \<Longrightarrow> kept E c s'"
  by (auto simp: settle_fill_def dest!: kept)

lemma apply_execution_kept [kept]:
  assumes "apply_execution E m ex s = Ok s'" and "kept E c s"
  shows "kept E c s'"
proof -
  obtain t where t: "foldr_res (release_step E) (ex_releases ex) (fold remove_order_indices (ex_terminal_orders ex) s) = Ok t"
    "foldr_res (settle_fill E (ms_config m)) (ex_fills ex) t = Ok s'"
    using assms(1) by (auto simp: apply_execution_def)
  have "kept E c t" using t(1) assms(2) by - (erule foldr_res_kept [where g = id, simplified], auto dest: kept)
  with t(2) show ?thesis by - (erule foldr_res_kept [where g = id, simplified], auto dest: kept)
qed

lemma record_trades_kept [kept]:
  "record_trades E domain m fs cx s = Ok (ts, cx', s') \<Longrightarrow> kept E c s \<Longrightarrow> kept E c s'"
  by (induction fs arbitrary: cx s ts) (auto dest: kept)

lemma execute_in_book_kept [kept]: "execute_in_book E symb ord s = Ok (ex, s') \<Longrightarrow> kept E c s \<Longrightarrow> kept E c s'"
  by (auto simp: execute_in_book_def)

lemma reconcile_and_check_kept [kept]:
  "reconcile_and_check E affected symb s = Ok s' \<Longrightarrow> kept E c s \<Longrightarrow> kept E c s'"
  unfolding reconcile_and_check_def
  by (auto elim!: foldr_res_kept [where g = id, simplified] dest: kept)

lemma accept_order_kept [kept]:
  assumes "accept_order E request limit_price reserve cx s = Ok (ord, cx', s')" and "kept E c s"
  shows "kept E c s'"
proof -
  obtain s1 n s2 oid t where s: "reserve_margin E ''account margin reservation'' (no_account_id request) reserve s = Ok s1"
    "next_sequence s1 = Ok (n, s2)" "s' = append_event_at E n (OrderAccepted ord) t"
    "es_event_log t = es_event_log s2" "es_sequence t = es_sequence s2" "frame_of t = frame_of s2"
    using assms(1) by (auto simp: accept_order_def Let_def frame_of_def)
  show ?thesis
    unfolding s(3) by (rule next_sequence_log [OF s(2) reserve_kept [OF s(1) assms(2)] s(4-6)])
qed

lemma submit_order_kept [kept]: "submit_order E request cx s = Ok (r, cx', s') \<Longrightarrow> kept E c s \<Longrightarrow> kept E c s'"
  by (auto simp: submit_order_def dest!: kept)

lemma revalidate_resting_kept [kept]:
  "revalidate_resting_orders_after_mark_change E symb s = Ok s' \<Longrightarrow> kept E c s \<Longrightarrow> kept E c s'"
  by (auto simp: revalidate_resting_orders_after_mark_change_def dest: kept)

section \<open>Oracle and liquidation\<close>

lemma publish_oracle_price_kept [kept]:
  assumes "publish_oracle_price E symb obs s = Ok (r, s')" and "kept E c s"
  shows "kept E c s'"
proof -
  obtain m price n s1 x kind where s: "next_sequence (set_mark symb price s m) = Ok (n, s1)"
    "revalidate_resting_orders_after_mark_change E symb (append_event_at E n kind (s1\<lparr>es_oracle := x\<rparr>)) = Ok s'"
    using assms(1) by (auto simp: publish_oracle_price_def Let_def split: if_splits)
  have "kept E c (set_mark symb price s m)" using assms(2) by (simp add: set_mark_def)
  from revalidate_resting_kept [OF s(2) next_sequence_log [OF s(1) this]] show ?thesis by (simp add: frame_of_def)
qed

lemma set_collateral_kept [kept]: "set_collateral aid x s = Ok s' \<Longrightarrow> kept E c s \<Longrightarrow> kept E c s'"
  by (auto simp: set_collateral_def)

lemma cover_bad_debt_kept [kept]: "cover_bad_debt E debtor debt s = Ok (r, s') \<Longrightarrow> kept E c s \<Longrightarrow> kept E c s'"
  by (auto simp: cover_bad_debt_def Let_def dest!: kept elim!: foldr_res_kept [where g = id, simplified])

lemma start_liquidation_kept [kept]:
  assumes "start_liquidation E aid symb cx s = Ok (m, ex, cx', s')" and "kept E c s"
  shows "kept E c s'"
proof -
  obtain n s1 x ord kind s2 where s: "next_sequence s = Ok (n, s1)"
    "execute_in_book E symb ord (append_event_at E n kind (s1\<lparr>es_order_market := x\<rparr>)) = Ok (ex, s2)" "apply_execution E m ex s2 = Ok s'"
    using assms(1) by (auto simp: start_liquidation_def Let_def split: if_splits)
  have "kept E c (append_event_at E n kind (s1\<lparr>es_order_market := x\<rparr>))"
    by (rule next_sequence_log [OF s(1) assms(2)]) (simp_all add: frame_of_def)
  then show ?thesis using s(2,3) by (blast dest: kept)
qed

lemma charge_penalty_kept [kept]: "charge_penalty E aid penalty s = Ok s' \<Longrightarrow> kept E c s \<Longrightarrow> kept E c s'"
  by (auto simp: charge_penalty_def)

lemma settle_bad_debt_kept [kept]: "settle_bad_debt E aid q s = Ok (d, r, s') \<Longrightarrow> kept E c s \<Longrightarrow> kept E c s'"
  by (auto simp: settle_bad_debt_def split: if_splits dest: kept)

lemma liquidate_kept [kept]:
  assumes "liquidate_account E aid symb cx s = Ok (r, cx', s')" and "kept E c s"
  shows "kept E c s'"
proof -
  obtain m ex cx1 s1 penalty s2 s3 q d cov s4 ts s5 kind where s: "start_liquidation E aid symb cx s = Ok (m, ex, cx1, s1)"
    "charge_penalty E aid penalty s1 = Ok s2"
    "foldr_res (\<lambda>affected. reconcile_reduce_only_orders E affected symb) (bset (aid # map rf_maker_account_id (ex_fills ex))) s2 = Ok s3"
    "settle_bad_debt E aid q s3 = Ok (d, cov, s4)"
    "record_trades E (ascii ''asteria/liquidation-trade/v1'') m (ex_fills ex) cx1 s4 = Ok (ts, cx', s5)"
    "append_event E kind s5 = Ok s'"
    using assms(1) by (fastforce simp: liquidate_account_def Let_def split: if_splits)
  have "kept E c s2" using s(1,2) assms(2) by (blast dest: kept)
  then have "kept E c s3" using s(3) by - (erule foldr_res_kept [where g = id, simplified], auto dest: kept)
  then show ?thesis using s(4-6) by (blast dest: kept)
qed

section \<open>Private orders\<close>

lemma charge_bond_kept [kept]: "charge_bond E signer s = Ok (bond, s') \<Longrightarrow> kept E c s \<Longrightarrow> kept E c s'"
  by (auto simp: charge_bond_def Let_def)

lemma store_submission_kept [kept]:
  "store_submission V signer sb height bond s = Ok s' \<Longrightarrow> kept E c s \<Longrightarrow> kept E c s'"
  by (auto simp: store_submission_def Let_def split: if_splits)

lemma queue_private_order_kept [kept]:
  "queue_private_order E V signer sb height s = Ok (q, s') \<Longrightarrow> kept E c s \<Longrightarrow> kept E c s'"
  by (auto simp: queue_private_order_def Let_def dest!: kept)

lemma freeze_order_kept [kept]:
  "freeze_order E m ord (frozen, live, s) = Ok (frozen', live', s') \<Longrightarrow> kept E c s \<Longrightarrow> kept E c s'"
  by (auto simp: freeze_order_def Let_def split: if_splits dest: kept)

lemma freeze_market_kept [kept]:
  assumes "freeze_market E symb (markets, s) = Ok (markets', s')" and "kept E c s"
  shows "kept E c s'"
proof -
  obtain m bk0 where m: "get_market s symb = Ok m" "om_get (es_books s) symb = Some bk0"
    using assms(1) by (auto simp: freeze_market_def)
  obtain active bk where t: "take_active_orders bk0 = (active, bk)" by fastforce
  obtain frozen live s1 bk' where s:
    "foldr_res (freeze_order E m) active ([], [], put_book symb bk s) = Ok (frozen, live, s1)" "s' = put_book symb bk' s1"
    using assms(1) m t by (auto simp: freeze_market_def Let_def)
  have "kept E c (snd (snd (frozen, live, s1)))"
    using s(1) by (rule foldr_res_kept) (use assms(2) in \<open>auto dest: kept\<close>)
  then show ?thesis by (simp add: s(2))
qed

lemma freeze_private_batch_kept [kept]:
  assumes "freeze_private_batch_liquidity E height s = Ok s'" and "kept E c s"
  shows "kept E c s'"
proof (cases "pending_at s height = []")
  case False
  then obtain symbs markets s1 x where s: "foldr_res (freeze_market E) symbs ([], s) = Ok (markets, s1)"
    "s' = s1\<lparr>es_batch_snapshots := x\<rparr>"
    using assms(1) by (auto simp: freeze_private_batch_liquidity_def split: if_splits)
  have "kept E c (snd (markets, s1))"
    using s(1) by (rule foldr_res_kept) (use assms(2) in \<open>auto dest: kept\<close>)
  then show ?thesis by (simp add: s(2))
qed (use assms in \<open>simp add: freeze_private_batch_liquidity_def\<close>)

lemma release_bond_kept [kept]: "release_bond E bonds sb s = Ok s' \<Longrightarrow> kept E c s \<Longrightarrow> kept E c s'"
  by (auto simp: release_bond_def Let_def split: if_splits dest: kept)

lemma cancel_frozen_kept [kept]: "cancel_frozen E symb x (bk, s) = Ok (bk', s') \<Longrightarrow> kept E c s \<Longrightarrow> kept E c s'"
  by (cases x) (auto simp: cancel_frozen_def dest!: kept)

lemma remove_ineligible_kept [kept]:
  assumes "remove_ineligible_frozen_orders E symb bk s = Ok (bk', s')" and "kept E c s"
  shows "kept E c s'"
proof -
  obtain ids where "foldr_res (cancel_frozen E symb) ids (bk, s) = Ok (bk', s')"
    using assms(1) by (auto simp: remove_ineligible_frozen_orders_def)
  then have "kept E c (snd (bk', s'))" by (rule foldr_res_kept) (use assms(2) in \<open>auto dest: kept\<close>)
  then show ?thesis by simp
qed

lemma revalidate_escrow_kept [kept]:
  assumes "revalidate_escrow E books s = Ok (books', s')" and "kept E c s"
  shows "kept E c s'"
proof -
  have "kept E c (snd (books', s'))"
    using assms(1) unfolding revalidate_escrow_def by (rule foldr_res_kept) (use assms(2) in \<open>auto dest: kept\<close>)
  then show ?thesis by simp
qed

lemma fill_escrow_kept [kept]: "fill_escrow E ids al (bk, s) = Ok (bk', s') \<Longrightarrow> kept E c s \<Longrightarrow> kept E c s'"
  by (auto simp: fill_escrow_def dest!: kept)

lemma settle_allocation_kept [kept]:
  "settle_allocation E symb m price ids al (bk, s) = Ok (bk', s') \<Longrightarrow> kept E c s \<Longrightarrow> kept E c s'"
  by (auto simp: settle_allocation_def Let_def split: if_splits dest!: kept)

lemma record_batch_fill_kept [kept]:
  "record_batch_fill E symb m allocations ids f (cx, s) = Ok (cx', s') \<Longrightarrow> kept E c s \<Longrightarrow> kept E c s'"
  by (auto simp: record_batch_fill_def Let_def case_prod_beta dest!: kept)

lemma settle_private_market_kept [kept]:
  assumes "settle_private_market E symb outcome ids bk cx s = Ok (bk', cx', s')" and "kept E c s"
  shows "kept E c s'"
proof -
  let ?xs = "bset (map (\<lambda>al. bp_account_id (pa_participant al)) (executed_allocations outcome))"
  obtain m :: market_state and bk1 s1 s2 where s: "foldr_res (settle_allocation E symb (ms_config m) (po_clearing_price outcome) ids)
       (executed_allocations outcome) (bk, s) = Ok (bk1, s1)"
    "foldr_res (record_batch_fill E symb (ms_config m) (po_allocations outcome) ids) (po_fills outcome) (cx, s1) = Ok (cx', s2)"
    "foldr_res (\<lambda>aid s. bindr (reconcile_reduce_only_orders E aid symb s) (\<lambda>s.
         bindr (ensure_account_has_nonnegative_available_margin E s aid) (\<lambda>_. Ok s))) ?xs s2 = Ok s'"
    using assms(1) by (auto simp: settle_private_market_def)
  have "kept E c (snd (bk1, s1))" using s(1) by (rule foldr_res_kept) (use assms(2) in \<open>auto dest: kept\<close>)
  then have "kept E c (snd (cx, s1))" by simp
  then have "kept E c (snd (cx', s2))" using s(2) by - (rule foldr_res_kept, auto dest: kept)
  then have "kept E c s2" by simp
  then show ?thesis using s(3) by - (erule foldr_res_kept [where g = id, simplified], auto dest: kept)
qed

lemma settle_market_kept [kept]:
  "settle_market E V height pending invalid ids x (b, s) = Ok (b', s') \<Longrightarrow> kept E c s \<Longrightarrow> kept E c s'"
  by (cases x) (auto simp: settle_market_def Let_def dest!: kept)

lemma cancel_restored_kept [kept]: "cancel_restored_order E ord reason s = Ok s' \<Longrightarrow> kept E c s \<Longrightarrow> kept E c s'"
  by (auto simp: cancel_restored_order_def dest!: kept)

lemma restore_escrowed_kept [kept]:
  "restore_escrowed E m ord (ords, s) = Ok (ords', s') \<Longrightarrow> kept E c s \<Longrightarrow> kept E c s'"
  by (auto simp: restore_escrowed_def split: res.splits if_splits dest: kept)

lemma reexecute_kept [kept]:
  "reexecute E symb m ord (affected, cx, s) = Ok (affected', cx', s') \<Longrightarrow> kept E c s \<Longrightarrow> kept E c s'"
  by (auto simp: reexecute_def dest!: kept)

lemma restore_private_batch_kept [kept]:
  assumes "restore_private_batch_orders E symb escrowed cx s = Ok (cx', s')" and "kept E c s"
  shows "kept E c s'"
proof -
  obtain m bk0 where m: "get_market s symb = Ok m" "om_get (es_books s) symb = Some bk0"
    using assms(1) by (auto simp: restore_private_batch_orders_def)
  obtain live bk where t: "take_active_orders bk0 = (live, bk)" by fastforce
  obtain ords s1 affected cx2 s2 where s:
    "foldr_res (restore_escrowed E m) (fst (take_active_orders escrowed)) (live, put_book symb bk s) = Ok (ords, s1)"
    "foldr_res (reexecute E symb m) (sort_key (\<lambda>ord. (ord_sequence ord, ord_id ord)) ords) ([], cx, s1) = Ok (affected, cx2, s2)"
    "reconcile_and_check E (bset affected) symb s2 = Ok s'"
    using assms(1) m t by (auto simp: restore_private_batch_orders_def Let_def)
  have "kept E c (snd (ords, s1))" using s(1) by (rule foldr_res_kept) (use assms(2) in \<open>auto dest: kept\<close>)
  then have "kept E c (snd (snd ([] :: account_id list, cx, s1)))" by simp
  then have "kept E c (snd (snd (affected, cx2, s2)))" using s(2) by - (rule foldr_res_kept, auto dest: kept)
  then show ?thesis using s(3) by (auto dest: kept)
qed

lemma report_invalid_kept [kept]: "report_invalid E invalid s = Ok s' \<Longrightarrow> kept E c s \<Longrightarrow> kept E c s'"
  unfolding report_invalid_def by (erule foldr_res_kept [where g = id, simplified]) (auto simp: case_prod_beta dest: kept)

lemma execute_bundle_kept [kept]:
  assumes "execute_private_decryption_bundle E V db height h s = Ok (x, s')" and "kept E c s"
  shows "kept E c s'"
proof -
  obtain pending bonds s1 books0 books s2 ids cleared invalid b0 b s3 s4 cx s5 where s:
    "foldr_res (release_bond E bonds) pending s = Ok s1" "revalidate_escrow E books0 s1 = Ok (books, s2)"
    "foldr_res (settle_market E V (db_height db) pending invalid ids) cleared (b0, s2) = Ok (b, s3)"
    "report_invalid E invalid s3 = Ok s4"
    "foldr_res (\<lambda>(symb, bk) (cx, s). restore_private_batch_orders E symb bk cx s) (om_entries (bt_escrow b)) (bt_context b, s4) = Ok (cx, s5)"
    "s' = drop_batch (db_height db) s5"
    using assms(1) by (auto simp: execute_private_decryption_bundle_def Let_def)
  have "kept E c s1" using s(1) assms(2) by - (erule foldr_res_kept [where g = id, simplified], auto dest: kept)
  then have "kept E c (snd (b0, s2))" using s(2) by (auto dest: kept)
  then have "kept E c (snd (b, s3))" using s(3) by - (rule foldr_res_kept, auto dest: kept)
  then have "kept E c (snd (bt_context b, s4))" using s(4) by (auto dest: kept)
  then have "kept E c (snd (cx, s5))" using s(5) by - (rule foldr_res_kept, auto simp: case_prod_beta dest: kept)
  then show ?thesis by (simp add: s(6))
qed

lemma prune_history_kept [kept]:
  assumes "prune_consensus_history s = Ok s'" and "kept E c s"
  shows "kept E c s'"
proof -
  obtain terminal s1 where s: "foldr_res take_terminal_of (om_keys (es_books s)) ([], s) = Ok (terminal, s1)"
    "s' = (fold remove_order_indices terminal s1)\<lparr>es_event_log := prune (es_event_log (fold remove_order_indices terminal s1))\<rparr>"
    using assms(1) by (auto simp: prune_consensus_history_def Let_def)
  have "kept E c (snd (terminal, s1))"
    using s(1) by (rule foldr_res_kept) (use assms(2) in \<open>auto simp: take_terminal_of_def Let_def case_prod_beta\<close>)
  then have "kept E c (fold remove_order_indices terminal s1)" by simp
  moreover have "set (prune evs) \<subseteq> set evs" for evs by (simp add: prune_def set_drop_subset)
  ultimately show ?thesis
    unfolding s(2) by (auto simp: kept_def frame_of_def log_ok_def intro: chain_prune)
qed

section \<open>Commands\<close>

lemma run_command_kept:
  assumes "run_command C signer authority cx cmd s = Ok (r, s')" and "kept (cm_engine C) c s"
  shows "kept (cm_engine C) c s'"
  using assms
  by (cases cmd)
    (auto simp: configure_shielded_market_def shielded_deposit_def shielded_spend_command_def Let_def dest: kept)

end
