(* ===== verification/Consensus_Cache.thy ===== *)
theory Consensus_Cache
  imports Consensus_Service Engine_Frame
begin

text \<open>
  The transaction cache does not change what a request answers. The requests are compared with those of a
  node whose cache has no capacity, which decodes every transaction anew.
\<close>

section \<open>Decoding through the cache\<close>

definition decode_stateless :: "('nk, 'nd) app_env \<Rightarrow> bytes \<Rightarrow> stateless_result" where
  "decode_stateless A bs = (if MAX_TRANSACTION_BYTES < length bs then Err TransactionTooLarge else decode_transaction A bs)"

definition decode_signed :: "('nk, 'nd) app_env \<Rightarrow> bytes \<Rightarrow> verified_transaction con" where
  "decode_signed A bs = bindr (decode_stateless A bs) as_signed"

text \<open>
  A cache that holds results for transactions of \<open>T\<close>, on whose bytes the hash has no collision, and that
  can count \<open>n\<close> more accesses.
\<close>

definition remembers :: "('nk, 'nd) app_env \<Rightarrow> bytes set \<Rightarrow> nat \<Rightarrow> transaction_cache \<Rightarrow> bool" where
  "remembers A T n c \<longleftrightarrow> inj_on (transaction_bytes_hash A) T \<and> cache_ok c \<and> tc_next_access c + n \<le> u64_max \<and>
     (\<forall>(h, len, r) \<in> set (lru_of c). \<exists>bs \<in> T. h = transaction_bytes_hash A bs \<and> len = length bs \<and> r = decode_transaction A bs)"

lemma set_lru_remove: "set (lru_remove h q) \<subseteq> set q"
  by (auto simp: lru_remove_def)

lemma set_lru_evict: "set (lru_evict capacity max_bytes q) \<subseteq> set q"
  by (induction q) auto

lemma set_lru_get: "lru_get h len q = (r, q') \<Longrightarrow> set q' \<subseteq> set q"
  using set_lru_remove by (fastforce simp: lru_get_def split: option.splits if_splits dest: map_of_SomeD)

lemma set_lru_insert: "set (lru_insert capacity max_bytes h len r q) \<subseteq> insert (h, len, r) (set q)"
  using set_lru_remove [of h q] set_lru_evict [of capacity max_bytes "lru_remove h q @ [(h, len, r)]"]
  by (auto simp: lru_insert_def)

lemma remembers_weaken: "remembers A T n c \<Longrightarrow> m \<le> n \<Longrightarrow> remembers A T m c"
  by (simp add: remembers_def)

lemma decode_cached:
  assumes "remembers A T (Suc n) c" and "bs \<in> T"
  shows "\<exists>c'. decode_transaction_cached A bs c = (Ok (decode_stateless A bs, c') :: ('e, _) res) \<and> remembers A T n c'"
proof (cases "MAX_TRANSACTION_BYTES < length bs")
  case True
  then show ?thesis
    using remembers_weaken [OF assms(1)] by (simp add: decode_transaction_cached_def decode_stateless_def)
next
  case False
  define h where "h = transaction_bytes_hash A bs"
  have ok: "cache_ok c" "tc_next_access c < u64_max" using assms(1) by (auto simp: remembers_def)
  obtain r c1 where g: "cache_get h (length bs) c = (Ok (r, c1) :: ('e, _) res)" "cache_ok c1"
    "(r, lru_of c1) = lru_get h (length bs) (lru_of c)" "tc_next_access c1 \<le> Suc (tc_next_access c)"
    using cache_get_spec [OF ok] by blast
  have sound: "\<forall>(h, len, r) \<in> set (lru_of c). \<exists>bs \<in> T. h = transaction_bytes_hash A bs \<and> len = length bs \<and> r = decode_transaction A bs"
    and inj: "inj_on (transaction_bytes_hash A) T" using assms(1) by (auto simp: remembers_def)
  have s1: "set (lru_of c1) \<subseteq> set (lru_of c)" by (rule set_lru_get [OF g(3) [symmetric]])
  show ?thesis
  proof (cases r)
    case (Some x)
    obtain y where y: "map_of (lru_of c) h = Some (length bs, y)" "x = y"
      using g(3) Some by (auto simp: lru_get_def split: option.splits if_splits)
    then obtain bs' where "bs' \<in> T" "h = transaction_bytes_hash A bs'" "x = decode_transaction A bs'"
      using sound map_of_SomeD [OF y(1)] by blast
    then have "x = decode_transaction A bs" using inj assms(2) by (auto simp: h_def dest: inj_onD)
    moreover have "remembers A T n c1" using assms(1) g(2,4) s1 by (auto simp: remembers_def)
    ultimately show ?thesis
      using False g(1) Some by (simp add: decode_transaction_cached_def decode_stateless_def h_def [symmetric] Let_def)
  next
    case None
    have "tc_next_access c1 \<le> tc_next_access c"
    proof -
      have "om_get (tc_entries c) h = None \<or> (\<exists>e. om_get (tc_entries c) h = Some e \<and> te_bytes_len e \<noteq> length bs)"
        using None g(3) map_of_lru [of c h] ok(1) by (auto simp: lru_get_def cache_ok_def split: option.splits if_splits)
      then show ?thesis using g(1) by (auto simp: cache_get_def)
    qed
    then have lt: "tc_next_access c1 < u64_max" using ok(2) by simp
    define x where "x = decode_transaction A bs"
    obtain c2 where i: "cache_insert h (length bs) x c1 = (Ok c2 :: ('e, _) res)" "cache_ok c2"
      "lru_of c2 = lru_insert (tc_capacity c1) (tc_max_bytes c1) h (length bs) x (lru_of c1)"
      "tc_next_access c2 \<le> Suc (tc_next_access c1)"
      using cache_insert_spec [OF g(2), of h "length bs" x] lt by blast
    have "set (lru_of c2) \<subseteq> insert (h, length bs, x) (set (lru_of c))"
      using set_lru_insert [of "tc_capacity c1" "tc_max_bytes c1" h "length bs" x "lru_of c1"] s1 i(3) by auto
    then have s2: "\<forall>(h, len, r) \<in> set (lru_of c2). \<exists>bs \<in> T. h = transaction_bytes_hash A bs \<and> len = length bs \<and> r = decode_transaction A bs"
      using sound assms(2) by (auto simp: h_def x_def)
    have "tc_next_access c2 + n \<le> u64_max"
      using i(4) \<open>tc_next_access c1 \<le> tc_next_access c\<close> assms(1) by (simp add: remembers_def)
    then have "remembers A T n c2" using s2 i(2) inj by (simp add: remembers_def)
    then show ?thesis
      using False g(1) None i(1)
      by (simp add: decode_transaction_cached_def decode_stateless_def h_def [symmetric] x_def [symmetric] Let_def)
  qed
qed

lemma verify_cached:
  assumes "remembers A T (Suc n) c" and "bs \<in> T"
  shows "\<exists>c'. verify_transaction_envelope_cached A bs c = (Ok (decode_signed A bs, c') :: ('e, _) res) \<and> remembers A T n c'"
proof -
  obtain c' where c: "decode_transaction_cached A bs c = (Ok (decode_stateless A bs, c') :: ('e, _) res)" "remembers A T n c'"
    using decode_cached [OF assms] by blast
  then show ?thesis by (simp add: verify_transaction_envelope_cached_def decode_signed_def)
qed

definition private_tx :: "('nk, 'nd) app_env \<Rightarrow> bytes \<Rightarrow> bool" where
  "private_tx A tx = is_private_system (decode_stateless A tx)"

lemma any_private_cached:
  assumes "remembers A T (length txs + n) c" and "set txs \<subseteq> T"
  shows "\<exists>c'. any_private_system A txs c = (Ok (\<exists>tx \<in> set txs. private_tx A tx, c') :: ('e, _) res) \<and> remembers A T n c'"
  using assms
proof (induction txs arbitrary: c)
  case (Cons tx txs)
  have "remembers A T (Suc (length txs + n)) c" "tx \<in> T" using Cons.prems by simp_all
  then obtain d where d: "decode_transaction_cached A tx c = (Ok (decode_stateless A tx, d) :: ('e, _) res)"
    "remembers A T (length txs + n) d" using decode_cached by blast
  show ?case
  proof (cases "private_tx A tx")
    case True
    then show ?thesis using d remembers_weaken [OF d(2), of n] by (simp add: private_tx_def)
  next
    case False
    obtain c' where "any_private_system A txs d = (Ok (\<exists>tx \<in> set txs. private_tx A tx, c') :: ('e, _) res)" "remembers A T n c'"
      using Cons.IH [OF d(2)] Cons.prems(2) by auto
    then show ?thesis using d False by (simp add: private_tx_def)
  qed
qed simp

lemma verify_all_cached:
  assumes "remembers A T (length txs + n) c" and "set txs \<subseteq> T"
  shows "\<exists>c'. verify_all A txs c = (Ok (map (decode_signed A) txs, c') :: ('e, _) res) \<and> remembers A T n c'"
  using assms
proof (induction txs arbitrary: c)
  case (Cons tx txs)
  have "remembers A T (Suc (length txs + n)) c" "tx \<in> T" using Cons.prems by simp_all
  then obtain d where d: "verify_transaction_envelope_cached A tx c = (Ok (decode_signed A tx, d) :: ('e, _) res)"
    "remembers A T (length txs + n) d" using verify_cached by blast
  obtain c' where "verify_all A txs d = (Ok (map (decode_signed A) txs, c') :: ('e, _) res)" "remembers A T n c'"
    using Cons.IH [OF d(2)] Cons.prems(2) by auto
  then show ?case using d by simp
qed simp

section \<open>Without a cache\<close>

abbreviation no_cache :: transaction_cache where
  "no_cache \<equiv> new_cache 0 0"

lemma decode_uncached: "decode_transaction_cached A bs no_cache = Ok (decode_stateless A bs, no_cache)"
  by (simp add: decode_transaction_cached_def decode_stateless_def cache_get_def cache_insert_def new_cache_def Let_def)

lemma verify_uncached: "verify_transaction_envelope_cached A bs no_cache = Ok (decode_signed A bs, no_cache)"
  by (simp add: verify_transaction_envelope_cached_def decode_signed_def decode_uncached)

lemma any_private_uncached: "any_private_system A txs no_cache = Ok (\<exists>tx \<in> set txs. private_tx A tx, no_cache)"
  by (induction txs) (auto simp: decode_uncached private_tx_def)

lemma verify_all_uncached: "verify_all A txs no_cache = Ok (map (decode_signed A) txs, no_cache)"
  by (induction txs) (simp_all add: verify_uncached)

definition uncached :: "chain_runtime \<Rightarrow> chain_runtime" where
  "uncached R = R\<lparr>cr_cache := no_cache\<rparr>"

lemma uncached_fields [simp]:
  "cr_store (uncached R) = cr_store R" "cr_committed (uncached R) = cr_committed R" "cr_pending (uncached R) = cr_pending R"
  "cr_mempool (uncached R) = cr_mempool R" "cr_cache (uncached R) = no_cache"
  by (simp_all add: uncached_def)

text \<open>Two results of a request, with a cache that has counted the request and without one.\<close>

definition without_cache :: "'x \<times> transaction_cache \<Rightarrow> 'x \<times> transaction_cache" where
  "without_cache = (\<lambda>(x, c). (x, no_cache))"

definition agree :: "('nk, 'nd) app_env \<Rightarrow> bytes set \<Rightarrow> nat \<Rightarrow> ('x \<times> chain_runtime) run \<Rightarrow> ('x \<times> chain_runtime) run \<Rightarrow> bool" where
  "agree A T n r r' \<longleftrightarrow> r' = bindr r (\<lambda>(x, R). Ok (x, uncached R)) \<and> (\<forall>x R. r = Ok (x, R) \<longrightarrow> remembers A T n (cr_cache R))"

lemma agree_Ok [simp]: "agree A T n (Ok (x, R)) (Ok (y, R')) \<longleftrightarrow> y = x \<and> R' = uncached R \<and> remembers A T n (cr_cache R)"
  by (auto simp: agree_def)

lemma agree_Panic [simp]: "agree A T n Panic Panic"
  by (simp add: agree_def)

lemma agree_Err [simp]: "agree A T n (Err e) (Err e)"
  by (simp add: agree_def)

lemma agree_weaken: "agree A T n r r' \<Longrightarrow> m \<le> n \<Longrightarrow> agree A T m r r'"
  using remembers_weaken by (auto simp: agree_def)

lemma uncached_update [simp]:
  "uncached (R\<lparr>cr_cache := c\<rparr>) = uncached R" "(uncached R)\<lparr>cr_cache := no_cache\<rparr> = uncached R"
  "(uncached R)\<lparr>cr_pending := p\<rparr> = uncached (R\<lparr>cr_pending := p\<rparr>)"
  by (simp_all add: uncached_def)

lemma select_cached:
  assumes "remembers A T (length txs + n) c" and "set txs \<subseteq> T"
  shows "select_transactions A rq txs selected m s no_cache =
      bindr (select_transactions A rq txs selected m s c) (\<lambda>(x, c). Ok (x, no_cache)) \<and>
    (\<forall>x c'. select_transactions A rq txs selected m s c = Ok (x, c') \<longrightarrow> remembers A T n c')"
  using assms
proof (induction txs arbitrary: selected m s c)
  case (Cons tx txs)
  have "remembers A T (Suc (length txs + n)) c" "tx \<in> T" using Cons.prems by simp_all
  then obtain d where d: "verify_transaction_envelope_cached A tx c = (Ok (decode_signed A tx, d) :: (unit, _) res)"
    "remembers A T (length txs + n) d" using verify_cached by blast
  have keep: "remembers A T n c" "remembers A T n d"
    using remembers_weaken [OF Cons.prems(1), of n] remembers_weaken [OF d(2), of n] by simp_all
  have step: "select_transactions A rq txs sel k t no_cache =
      bindr (select_transactions A rq txs sel k t d) (\<lambda>(x, c). Ok (x, no_cache)) \<and>
    (\<forall>x c'. select_transactions A rq txs sel k t d = Ok (x, c') \<longrightarrow> remembers A T n c')" for sel k t
    using Cons.IH [OF d(2)] Cons.prems(2) by simp
  show ?case
    using step keep by (auto simp: d(1) verify_uncached split: res.split prod.split)
qed simp

section \<open>Requests\<close>

lemma admit_with_cache:
  "admit_transaction A x v (R\<lparr>cr_cache := c\<rparr>) = bindr (admit_transaction A x v R) (\<lambda>R. Ok (R\<lparr>cr_cache := c\<rparr>))"
  by (cases R) (simp add: admit_transaction_def reservation_conflict_def Let_def bindr_assoc if_distrib [where f = "\<lambda>r. bindr r _"]
      cong: bindr_cong if_cong)

lemma check_cached:
  assumes "remembers A T (Suc n) (cr_cache R)" and "tx \<in> T"
  shows "agree A T n (check_tx A tx R) (check_tx A tx (uncached R))"
proof -
  obtain d where d: "verify_transaction_envelope_cached A tx (cr_cache R) = (Ok (decode_signed A tx, d) :: (unit, _) res)"
    "remembers A T n d" using verify_cached [OF assms] by blast
  define r where "r = bindr (decode_signed A tx) (\<lambda>v. bindr (ok_or NotInitialized (cr_committed R)) (\<lambda>x.
      bindr (admit_transaction A x v R) (\<lambda>R. Ok (v, R))))"
  have with_cache: "bindr (decode_signed A tx) (\<lambda>v. bindr (ok_or NotInitialized (cr_committed R)) (\<lambda>x.
      bindr (bindr (admit_transaction A x v R) (\<lambda>R. Ok (R\<lparr>cr_cache := c\<rparr>))) (\<lambda>R. Ok (v, R)))) =
    bindr r (\<lambda>(v, R). Ok (v, R\<lparr>cr_cache := c\<rparr>))" for c
    by (simp add: r_def bindr_assoc)
  have u: "uncached R = R\<lparr>cr_cache := no_cache\<rparr>" for R by (simp add: uncached_def)
  show ?thesis
    unfolding check_tx_def u by (cases r) (auto simp: d verify_uncached admit_with_cache with_cache u)
qed

lemma prepare_cached:
  assumes "remembers A T (length (pr_txs rq) + n) (cr_cache R)" and "set (pr_txs rq) \<subseteq> T"
  shows "agree A T n (prepare_proposal A rq R) (prepare_proposal A rq (uncached R))"
proof -
  have keep: "remembers A T n (cr_cache R)" using remembers_weaken [OF assms(1)] by simp
  note select = select_cached [OF assms, of rq]
  show ?thesis
  proof (cases "cr_committed R")
    case None
    then show ?thesis using keep by (simp add: prepare_proposal_def)
  next
    case (Some x)
    have *: "agree A T n (bindr (select_transactions A rq (pr_txs rq) selected m s (cr_cache R)) (\<lambda>(txs, c). Ok (txs, R\<lparr>cr_cache := c\<rparr>)))
        (bindr (select_transactions A rq (pr_txs rq) selected m s no_cache) (\<lambda>(txs, c). Ok (txs, uncached R\<lparr>cr_cache := c\<rparr>)))"
      for selected m s
      using select [of selected m s]
      by (cases "select_transactions A rq (pr_txs rq) selected m s (cr_cache R)") (auto simp: agree_def split: prod.splits)
    show ?thesis
      using Some keep * by (auto simp: prepare_proposal_def Let_def split: res.split)
  qed
qed

lemma first_bundle_cached:
  assumes "remembers A T (Suc n) c" and "set txs \<subseteq> T"
  obtains r d where "first_bundle txs A c = Ok (r, d)" and "first_bundle txs A no_cache = Ok (r, no_cache)" and "remembers A T n d"
proof (cases txs)
  case Nil
  then show ?thesis using that remembers_weaken [OF assms(1)] by (simp add: first_bundle_def)
next
  case (Cons tx rest)
  then have "tx \<in> T" using assms(2) by simp
  then obtain d where "decode_transaction_cached A tx c = (Ok (decode_stateless A tx, d) :: (unit, _) res)" "remembers A T n d"
    using decode_cached [OF assms(1)] by blast
  then show ?thesis using that Cons by (simp add: first_bundle_def decode_uncached)
qed

text \<open>The accesses of a proposal or a block: its first transaction once, and every transaction twice.\<close>

lemma public_transactions:
  assumes "remembers A T (2 * length txs + n) c" and "set txs \<subseteq> T"
  obtains p d e where "any_private_system A (drop k txs) c = (Ok (p, d) :: (unit, _) res)"
    and "any_private_system A (drop k txs) no_cache = (Ok (p, no_cache) :: (unit, _) res)"
    and "verify_all A (drop k txs) d = (Ok (map (decode_signed A) (drop k txs), e) :: (unit, _) res)"
    and "remembers A T n d" and "remembers A T n e"
proof -
  have T: "set (drop k txs) \<subseteq> T" using assms(2) set_drop_subset by fast
  have "remembers A T (length (drop k txs) + (length txs + n)) c" using remembers_weaken [OF assms(1)] by simp
  from any_private_cached [OF this T] obtain d where d: "any_private_system A (drop k txs) c =
      (Ok (\<exists>tx \<in> set (drop k txs). private_tx A tx, d) :: (unit, _) res)" "remembers A T (length txs + n) d" by blast
  have "remembers A T (length (drop k txs) + n) d" using remembers_weaken [OF d(2)] by simp
  from verify_all_cached [OF this T] obtain e where
    "verify_all A (drop k txs) d = (Ok (map (decode_signed A) (drop k txs), e) :: (unit, _) res)" "remembers A T n e" by blast
  then show ?thesis using that [OF d(1) any_private_uncached] remembers_weaken [OF d(2), of n] by simp
qed

lemma process_cached:
  assumes "remembers A T (2 * length (br_txs rq) + Suc n) (cr_cache R)" and "set (br_txs rq) \<subseteq> T"
  shows "agree A T n (process_proposal A rq R) (process_proposal A rq (uncached R))"
proof (cases "cr_committed R")
  case None
  then show ?thesis using remembers_weaken [OF assms(1)] by (simp add: process_proposal_def)
next
  case (Some x)
  define start where "start c = (if expects_system (cs_state x) (br_height rq)
      then
        bindr (first_bundle (br_txs rq) A c) (\<lambda>(r, c).
        case bindr r (\<lambda>(_, db). execute_system A (cs_state x) db (br_height rq) (open_block (br_height rq) (br_time rq) (cs_state x))) of
          Ok (_, s) \<Rightarrow> Ok (Some (1 :: nat, s), c)
        | Err _ \<Rightarrow> Ok (None, c)
        | Panic \<Rightarrow> Panic)
      else
        bindr (any_private_system A (take 1 (br_txs rq)) c) (\<lambda>(private, c).
        Ok (if private then None else Some (0, open_block (br_height rq) (br_time rq) (cs_state x)), c)) :: ((nat \<times> state) option \<times> transaction_cache) run)" for c
  have start: "start no_cache = bindr (start (cr_cache R)) (\<lambda>(y, c). Ok (y, no_cache)) \<and>
    (\<forall>y c. start (cr_cache R) = Ok (y, c) \<longrightarrow> remembers A T (2 * length (br_txs rq) + n) c)"
  proof (cases "expects_system (cs_state x) (br_height rq)")
    case True
    have "remembers A T (Suc (2 * length (br_txs rq) + n)) (cr_cache R)" using assms(1) by simp
    then obtain r d where "first_bundle (br_txs rq) A (cr_cache R) = Ok (r, d)" "first_bundle (br_txs rq) A no_cache = Ok (r, no_cache)"
      "remembers A T (2 * length (br_txs rq) + n) d" using first_bundle_cached assms(2) by blast
    then show ?thesis using True by (auto simp: start_def split: res.split)
  next
    case False
    have T: "set (take 1 (br_txs rq)) \<subseteq> T" using assms(2) set_take_subset by fast
    have "remembers A T (length (take 1 (br_txs rq)) + (2 * length (br_txs rq) + n)) (cr_cache R)"
      using remembers_weaken [OF assms(1)] by simp
    from any_private_cached [OF this T] any_private_uncached obtain p d where
      "any_private_system A (take 1 (br_txs rq)) (cr_cache R) = (Ok (p, d) :: (unit, _) res)"
      "any_private_system A (take 1 (br_txs rq)) no_cache = (Ok (p, no_cache) :: (unit, _) res)"
      and d: "remembers A T (2 * length (br_txs rq) + n) d" by blast
    then have "start (cr_cache R) = Ok (if p then None else Some (0, open_block (br_height rq) (br_time rq) (cs_state x)), d)"
      "start no_cache = Ok (if p then None else Some (0, open_block (br_height rq) (br_time rq) (cs_state x)), no_cache)"
      by (simp_all only: start_def False if_False bindr.simps prod.case)
    then show ?thesis using d by simp
  qed
  define rest where "rest R = (\<lambda>(start, c). (case start of
      None \<Rightarrow> Ok (Reject, R\<lparr>cr_cache := c\<rparr>)
    | Some (offset, s) \<Rightarrow>
        bindr (any_private_system A (drop offset (br_txs rq)) c) (\<lambda>(private, c).
        if private then Ok (Reject, R\<lparr>cr_cache := c\<rparr>)
        else
          bindr (verify_all A (drop offset (br_txs rq)) c) (\<lambda>(verified, c).
          case bindr (traverse id verified) (\<lambda>vs. run_all A (br_height rq) (time_millis (br_time rq)) offset vs s) of
            Ok _ \<Rightarrow> Ok (Accept, R\<lparr>cr_cache := c\<rparr>)
          | Err _ \<Rightarrow> Ok (Reject, R\<lparr>cr_cache := c\<rparr>)
          | Panic \<Rightarrow> Panic))) :: (proposal_status \<times> chain_runtime) run)" for R
  have eq: "process_proposal A rq R = bindr (start (cr_cache R)) (rest R)"
    "process_proposal A rq (uncached R) = bindr (start no_cache) (rest (uncached R))"
    using Some by (simp_all add: process_proposal_def start_def rest_def Let_def)
  have rest: "agree A T n (rest R (y, c)) (rest (uncached R) (y, no_cache))"
    if "remembers A T (2 * length (br_txs rq) + n) c" for y c
  proof (cases y)
    case None
    then show ?thesis using remembers_weaken [OF that] by (simp add: rest_def)
  next
    case (Some z)
    obtain k s where z: "z = (k, s)" by (cases z)
    from public_transactions [OF that assms(2), of k] obtain p d e where
      "any_private_system A (drop k (br_txs rq)) c = (Ok (p, d) :: (unit, _) res)"
      "any_private_system A (drop k (br_txs rq)) no_cache = (Ok (p, no_cache) :: (unit, _) res)"
      "verify_all A (drop k (br_txs rq)) d = (Ok (map (decode_signed A) (drop k (br_txs rq)), e) :: (unit, _) res)"
      "remembers A T n d" "remembers A T n e" .
    then show ?thesis using Some z by (auto simp: rest_def verify_all_uncached split: res.split)
  qed
  show ?thesis using start rest unfolding eq by (cases "start (cr_cache R)") auto
qed

lemma finalize_public_cached:
  assumes "remembers A T (2 * length (br_txs rq) + n) (cr_cache R)" and "set (br_txs rq) \<subseteq> T"
  shows "agree A T n (finalize_public A x rq results k s R) (finalize_public A x rq results k s (uncached R))"
proof -
  from public_transactions [OF assms, of k] obtain p d e where
    "any_private_system A (drop k (br_txs rq)) (cr_cache R) = (Ok (p, d) :: (unit, _) res)"
    "any_private_system A (drop k (br_txs rq)) no_cache = (Ok (p, no_cache) :: (unit, _) res)"
    "verify_all A (drop k (br_txs rq)) d = (Ok (map (decode_signed A) (drop k (br_txs rq)), e) :: (unit, _) res)"
    "remembers A T n d" "remembers A T n e" .
  moreover have "uncached R\<lparr>cr_cache := no_cache, cr_pending := q\<rparr> = uncached (R\<lparr>cr_cache := e, cr_pending := q\<rparr>)" for q
    by (simp add: uncached_def)
  ultimately show ?thesis
    by (cases "finalize_transactions A (br_height rq) (time_millis (br_time rq)) k
        (zip (drop k (br_txs rq)) (map (decode_signed A) (drop k (br_txs rq)))) s")
      (auto simp: finalize_public_def verify_all_uncached split: res.split)
qed

lemma finalize_cached:
  assumes "remembers A T (2 * length (br_txs rq) + Suc n) (cr_cache R)" and "set (br_txs rq) \<subseteq> T"
  shows "agree A T n (finalize_block A rq R) (finalize_block A rq (uncached R))"
proof (cases "cr_committed R")
  case None
  then show ?thesis using remembers_weaken [OF assms(1)] by (simp add: finalize_block_def)
next
  case (Some x)
  have keep: "remembers A T n (cr_cache R)" using remembers_weaken [OF assms(1)] by simp
  have system: "\<exists>r d. finalize_system A (cs_state x) rq s (cr_cache R) = Ok (r, d) \<and>
      finalize_system A (cs_state x) rq s no_cache = Ok (r, no_cache) \<and> remembers A T (2 * length (br_txs rq) + n) d" for s
  proof (cases "expects_system (cs_state x) (br_height rq)")
    case True
    have "remembers A T (Suc (2 * length (br_txs rq) + n)) (cr_cache R)" using assms(1) by simp
    then obtain r d where "first_bundle (br_txs rq) A (cr_cache R) = Ok (r, d)" "first_bundle (br_txs rq) A no_cache = Ok (r, no_cache)"
      "remembers A T (2 * length (br_txs rq) + n) d" using first_bundle_cached assms(2) by blast
    then show ?thesis using True by (auto simp: finalize_system_def)
  next
    case False
    then show ?thesis using remembers_weaken [OF assms(1)] by (simp add: finalize_system_def)
  qed
  have step: "\<exists>r d. finalize_system A (cs_state x) rq s (cr_cache R) = Ok (r, d) \<and>
      finalize_system A (cs_state x) rq s no_cache = Ok (r, no_cache) \<and> remembers A T n d \<and>
      (\<forall>results k s. agree A T n (finalize_public A x rq results k s (R\<lparr>cr_cache := d\<rparr>)) (finalize_public A x rq results k s (uncached R)))" for s
  proof -
    obtain r d where "finalize_system A (cs_state x) rq s (cr_cache R) = Ok (r, d)"
      "finalize_system A (cs_state x) rq s no_cache = Ok (r, no_cache)" and d: "remembers A T (2 * length (br_txs rq) + n) d"
      using system by blast
    moreover from d have "remembers A T (2 * length (br_txs rq) + n) (cr_cache (R\<lparr>cr_cache := d\<rparr>))" by simp
    then have "agree A T n (finalize_public A x rq results k s (R\<lparr>cr_cache := d\<rparr>)) (finalize_public A x rq results k s (uncached R))"
      for results k s using finalize_public_cached [OF _ assms(2)] by (metis uncached_update(1))
    ultimately show ?thesis using remembers_weaken [OF d, of n] by auto
  qed
  show ?thesis
  proof (cases "anchor_private_batch x (br_height rq) (open_block (br_height rq) (br_time rq) (cs_state x))")
    case (Ok s)
    obtain r d where d: "finalize_system A (cs_state x) rq s (cr_cache R) = Ok (r, d)"
      "finalize_system A (cs_state x) rq s no_cache = Ok (r, no_cache)" "remembers A T n d"
      "\<forall>results k s. agree A T n (finalize_public A x rq results k s (R\<lparr>cr_cache := d\<rparr>)) (finalize_public A x rq results k s (uncached R))"
      using step [of s] by blast
    have "uncached R\<lparr>cr_cache := no_cache\<rparr> = uncached R" by simp
    then show ?thesis using Some Ok d by (cases r) (auto simp: finalize_block_def)
  qed (use Some keep in \<open>simp_all add: finalize_block_def\<close>)
qed

end
