(* ===== verification/Consensus_Run.thy ===== *)
theory Consensus_Run
  imports Consensus_Cache Tx_Cache_Theorems
begin

text \<open>
  Sequences of requests to one node (\<open>call\<close> of \<open>consensus.rs\<close>), and that the transaction cache does not
  change their answers.
\<close>

fun calls :: "('nk, 'nd) app_env \<Rightarrow> genesis_env \<Rightarrow> request list \<Rightarrow> chain_runtime \<Rightarrow> (response list \<times> chain_runtime) run" where
  "calls A G [] R = Ok ([], R)"
| "calls A G (rq # rqs) R =
     bindr (call A G rq R) (\<lambda>(x, R). bindr (calls A G rqs R) (\<lambda>(xs, R). Ok (x # xs, R)))"

text \<open>The transactions of a request, and how often they are looked up.\<close>

fun request_txs :: "request \<Rightarrow> bytes list" where
  "request_txs (CheckTx tx) = [tx]"
| "request_txs (PrepareProposal rq) = pr_txs rq"
| "request_txs (ProcessProposal rq) = br_txs rq"
| "request_txs (FinalizeBlock rq) = br_txs rq"
| "request_txs _ = []"

definition accesses :: "request list \<Rightarrow> nat" where
  "accesses rqs = (\<Sum>rq \<leftarrow> rqs. Suc (2 * length (request_txs rq)))"

lemma calls_append:
  "calls A G (rqs @ rqs') R =
    bindr (calls A G rqs R) (\<lambda>(xs, R). bindr (calls A G rqs' R) (\<lambda>(ys, R). Ok (xs @ ys, R)))"
proof (induction rqs arbitrary: R)
  case Nil
  then show ?case by (cases "calls A G rqs' R") (auto split: prod.splits)
next
  case (Cons rq rqs)
  show ?case
    by (cases "call A G rq R") (auto simp: Cons bindr_assoc case_prod_beta)
qed

section \<open>Requests that do not read transactions\<close>

lemma agreeI:
  assumes "f (uncached R) = bindr (f R) (\<lambda>(x, R). Ok (x, uncached R))"
    and "\<And>x R'. f R = Ok (x, R') \<Longrightarrow> cr_cache R' = cr_cache R" and "remembers A T n (cr_cache R)"
  shows "agree A T n (f R) (f (uncached R))"
  using assms unfolding agree_def by metis

text \<open>The state that a valid \<open>InitChain\<close> request describes.\<close>

definition genesis_of :: "('nk, 'nd) app_env \<Rightarrow> genesis_env \<Rightarrow> init_chain \<Rightarrow> state con" where
  "genesis_of A G rq =
     bindr (ok_or (InvalidGenesis ''genesis does not parse'') (ge_parse G (ic_app_state_bytes rq))) (\<lambda>g.
     bindr (validate_genesis A (ge_scale G (ic_app_state_bytes rq)) g (ic_chain_id rq)) (\<lambda>_.
     bindr (validate_private_order_consensus (ap_chain A) g (ic_validators rq) (ic_vote_extensions_enable_height rq)
       (ic_initial_height rq)) (\<lambda>_.
     genesis_application_state A g (ic_chain_id rq) (ic_time rq))))"

lemma initialize_eq:
  "initialize A G rq R =
     bindr (genesis_of A G rq) (\<lambda>s.
     case cr_committed R of
       Some x \<Rightarrow>
         bindr (persistence (compute_app_hash (ap_store A) s)) (\<lambda>app_hash.
         if cs_app_hash x \<noteq> app_hash \<or> es_chain_id (cs_state x) \<noteq> es_chain_id s then Err GenesisMismatch
         else Ok (app_hash, end_initialize (ic_chain_id rq) R))
     | None \<Rightarrow>
         bindr (persistence (commit_state (ap_store A) None s (cr_store R))) (\<lambda>(app_hash, st).
         Ok (app_hash, end_initialize (ic_chain_id rq)
           (R\<lparr>cr_store := st, cr_committed := Some \<lparr>cs_state = s, cs_app_hash = app_hash\<rparr>\<rparr>))))"
  by (simp add: initialize_def genesis_of_def Let_def bindr_assoc)

lemma end_initialize_uncached: "end_initialize chain_id (uncached R) = uncached (end_initialize chain_id R)"
  by (simp add: end_initialize_def uncached_def)

lemma uncached_commit [simp]:
  "uncached R\<lparr>cr_store := st, cr_committed := x\<rparr> = uncached (R\<lparr>cr_store := st, cr_committed := x\<rparr>)"
  "cr_cache (end_initialize chain_id R) = cr_cache R"
  by (simp_all add: uncached_def end_initialize_def)

lemma initialize_cached:
  assumes "remembers A T n (cr_cache R)"
  shows "agree A T n (call A G (InitChain rq) R) (call A G (InitChain rq) (uncached R))"
proof (cases "genesis_of A G rq")
  case (Ok s)
  show ?thesis
  proof (cases "cr_committed R")
    case None
    then show ?thesis using assms Ok
      by (cases "persistence (commit_state (ap_store A) None s (cr_store R))")
        (auto simp: initialize_eq end_initialize_uncached)
  next
    case (Some x)
    then show ?thesis using assms Ok
      by (cases "persistence (compute_app_hash (ap_store A) s)") (auto simp: initialize_eq end_initialize_uncached)
  qed
qed (use assms in \<open>simp_all add: initialize_eq\<close>)

lemma commit_cached:
  "remembers A T n (cr_cache R) \<Longrightarrow> agree A T n (call A G CommitBlock R) (call A G CommitBlock (uncached R))"
  by (cases R) (auto simp: commit_def try_respond_def uncached_def split: option.split res.split)

lemma uncached_export [simp]:
  "cr_export (uncached R) = cr_export R" "cr_export_previous (uncached R) = cr_export_previous R" "cr_import (uncached R) = cr_import R"
  "cr_validator (uncached R) = cr_validator R"
  "uncached R\<lparr>cr_export_previous := p, cr_export := e\<rparr> = uncached (R\<lparr>cr_export_previous := p, cr_export := e\<rparr>)"
  "uncached R\<lparr>cr_import := im\<rparr> = uncached (R\<lparr>cr_import := im\<rparr>)"
  "needs_export A x (uncached R) = needs_export A x R"
  "blocks_committed (uncached R) = blocks_committed R" "other_chain chain_id (uncached R) = other_chain chain_id R"
  by (simp_all add: uncached_def needs_export_def blocks_committed_def other_chain_def)

lemma list_snapshots_cached:
  assumes "remembers A T n (cr_cache R)"
  shows "agree A T n (call A G ListSnapshots R) (call A G ListSnapshots (uncached R))"
proof (cases "cr_committed R")
  case None
  then show ?thesis using assms by (simp add: list_snapshots_def try_respond_def)
next
  case (Some x)
  let ?e = "snapshot_error (create_export (ap_sync A) (ap_store A) (cs_state x) (cs_app_hash x))"
  show ?thesis
  proof (cases "es_height (cs_state x) = 0")
    case True
    then show ?thesis using assms Some by (simp add: list_snapshots_def try_respond_def)
  next
    case False
    then show ?thesis using assms Some
      by (cases "needs_export A x R"; cases "cr_export R"; cases ?e) (auto simp: list_snapshots_def try_respond_def expect_def)
  qed
qed

lemma offer_cached:
  "remembers A T n (cr_cache R) \<Longrightarrow>
    agree A T n (call A G (OfferSnapshot sn app_hash) R) (call A G (OfferSnapshot sn app_hash) (uncached R))"
  by (cases "from_offer (ap_sync A) sn app_hash") (auto simp: offer_snapshot_def respond_def split: sync_error.split)

lemma remembers_clear:
  assumes "remembers A T n c"
  shows "remembers A T n (cache_clear c)"
proof -
  have "cache_ok (cache_clear c)" and "lru_of (cache_clear c) = []"
    using assms cache_clear_spec by (auto simp: remembers_def)
  moreover have "tc_next_access (cache_clear c) = 0" by (simp add: cache_clear_def)
  ultimately show ?thesis using assms by (simp add: remembers_def)
qed

lemma install_cached:
  assumes "remembers A T n (cr_cache R)"
  shows "agree A T n (install_snapshot A im R) (install_snapshot A im (uncached R))"
proof (cases "finalize_import (ap_sync A) (ap_store A) (app_engine A) im")
  case (Ok s)
  have clear: "cache_clear no_cache = no_cache" by (simp add: cache_clear_def new_cache_def)
  show ?thesis
    using assms remembers_clear [OF assms] Ok
    by (cases "compute_app_hash (ap_store A) s"; cases "replace_state (ap_store A) s (cr_store R)")
      (auto simp: install_snapshot_def Let_def clear uncached_def blocks_committed_def other_chain_def)
qed (use assms in \<open>simp_all add: install_snapshot_def Let_def\<close>)

lemma apply_chunk_cached:
  assumes "remembers A T n (cr_cache R)"
  shows "agree A T n (call A G (ApplySnapshotChunk index chunk sender) R) (call A G (ApplySnapshotChunk index chunk sender) (uncached R))"
proof -
  have respond: "agree A T n r r' \<Longrightarrow> agree A T n (respond f r) (respond f r')" for r r' and f :: "chunk_response \<Rightarrow> response"
    by (cases r) (auto simp: respond_def agree_def)
  have install: "agree A T n (install_snapshot A im (R\<lparr>cr_import := i\<rparr>)) (install_snapshot A im (uncached (R\<lparr>cr_import := i\<rparr>)))" for im i
    by (rule install_cached) (simp add: assms)
  show ?thesis
  proof (cases "cr_import R")
    case None
    then show ?thesis using assms by (simp add: apply_snapshot_chunk_def respond_def)
  next
    case (Some im)
    then show ?thesis using assms install
      by (cases "expected_index im :: (unit, nat) res"; cases "apply_chunk (ap_sync A) index chunk im")
        (auto simp: apply_snapshot_chunk_def Let_def intro!: respond split: sync_error.split)
  qed
qed

section \<open>All requests\<close>

lemma agree_respond: "agree A T n r r' \<Longrightarrow> agree A T n (respond f r) (respond f r')"
  by (cases r) (auto simp: respond_def agree_def)

lemma agree_try_respond:
  assumes "agree A T n r r'"
  shows "agree A T n (try_respond f r) (try_respond f r')"
proof (cases r)
  case (Ok y)
  obtain x R where y: "y = (x, R)" by (cases y)
  then have "r' = Ok (x, uncached R)" "remembers A T n (cr_cache R)" using assms Ok by (simp_all add: agree_def)
  then show ?thesis using Ok y by (cases x) (simp_all add: try_respond_def)
qed (use assms in \<open>simp_all add: try_respond_def agree_def\<close>)

lemma agree_read_only:
  "remembers A T n (cr_cache R) \<Longrightarrow> agree A T n (read_only f R r) (read_only f (uncached R) r)"
  by (cases r) (simp_all add: read_only_def)

lemma call_cached:
  assumes "remembers A T (Suc (2 * length (request_txs rq)) + n) (cr_cache R)" and "set (request_txs rq) \<subseteq> T"
  shows "agree A T n (call A G rq R) (call A G rq (uncached R))"
proof (cases rq)
  case (CheckTx tx)
  then have "remembers A T (Suc n) (cr_cache R)" "tx \<in> T" using assms remembers_weaken [OF assms(1)] by simp_all
  then show ?thesis using CheckTx agree_respond [OF check_cached] by simp
next
  case (PrepareProposal p)
  then have "remembers A T (length (pr_txs p) + n) (cr_cache R)" using remembers_weaken [OF assms(1)] by simp
  then show ?thesis using PrepareProposal assms(2) agree_respond [OF prepare_cached] by simp
next
  case (ProcessProposal b)
  then show ?thesis using assms agree_respond [OF process_cached [of A T b n R]] by simp
next
  case (FinalizeBlock b)
  then show ?thesis using assms agree_try_respond [OF finalize_cached [of A T b n R]] by simp
next
  case (Query path data)
  have "query A path data (uncached R) = query A path data R" by (simp add: query_def)
  then show ?thesis using Query remembers_weaken [OF assms(1), of n] agree_read_only by simp
next
  case (ExtendVote height rs)
  have "extend_vote A height rs (uncached R) = extend_vote A height rs R" by (simp only: extend_vote_def vote_batch_def uncached_fields uncached_export)
  then show ?thesis using ExtendVote remembers_weaken [OF assms(1), of n] agree_read_only by simp
next
  case (VerifyVoteExtension height address bs)
  have "verify_vote_extension A height address bs (uncached R) = verify_vote_extension A height address bs R"
    by (simp only: verify_vote_extension_def vote_batch_def uncached_fields)
  then show ?thesis using VerifyVoteExtension remembers_weaken [OF assms(1), of n] agree_read_only by simp
next
  case (LoadSnapshotChunk height format index)
  have "load_snapshot_chunk (uncached R) height format index = load_snapshot_chunk R height format index"
    by (simp only: load_snapshot_chunk_def uncached_export)
  then show ?thesis using LoadSnapshotChunk remembers_weaken [OF assms(1), of n] agree_read_only by simp
next
  case Info
  have "app_info A (uncached R) = app_info A R" by (simp add: app_info_def)
  then show ?thesis using Info remembers_weaken [OF assms(1), of n] by simp
qed (use remembers_weaken [OF assms(1), of n] in
    \<open>simp_all add: initialize_cached commit_cached list_snapshots_cached offer_cached apply_chunk_cached del: call.simps(3,8,13,14,16)\<close>)

lemma calls_cached:
  assumes "remembers A T (accesses rqs + n) (cr_cache R)" and "\<Union> (set ` request_txs ` set rqs) \<subseteq> T"
  shows "agree A T n (calls A G rqs R) (calls A G rqs (uncached R))"
  using assms
proof (induction rqs arbitrary: R)
  case (Cons rq rqs)
  have "remembers A T (Suc (2 * length (request_txs rq)) + (accesses rqs + n)) (cr_cache R)"
    using Cons.prems(1) by (simp add: accesses_def add.assoc)
  then have c: "agree A T (accesses rqs + n) (call A G rq R) (call A G rq (uncached R))"
    using call_cached Cons.prems(2) by fastforce
  show ?case
  proof (cases "call A G rq R")
    case (Ok y)
    obtain x S where y: "y = (x, S)" by (cases y)
    have "remembers A T (accesses rqs + n) (cr_cache S)" "call A G rq (uncached R) = Ok (x, uncached S)"
      using c Ok y by (simp_all add: agree_def)
    moreover from this have "agree A T n (calls A G rqs S) (calls A G rqs (uncached S))"
      using Cons.IH Cons.prems(2) by auto
    ultimately show ?thesis using Ok y by (cases "calls A G rqs S") (auto simp: agree_def)
  qed (use c in \<open>simp_all add: agree_def\<close>)
qed (simp add: accesses_def)

section \<open>What a request writes\<close>

text \<open>The store, the committed and the pending state: only four requests write them.\<close>

definition core :: "chain_runtime \<Rightarrow> store \<times> chain_snapshot option \<times> chain_snapshot option" where
  "core R = (cr_store R, cr_committed R, cr_pending R)"

definition writes_core :: "request \<Rightarrow> bool" where
  "writes_core rq \<longleftrightarrow> (case rq of InitChain _ \<Rightarrow> True | FinalizeBlock _ \<Rightarrow> True | CommitBlock \<Rightarrow> True
     | ApplySnapshotChunk _ _ _ \<Rightarrow> True | _ \<Rightarrow> False)"

lemma core_update [simp]:
  "core (R\<lparr>cr_cache := c\<rparr>) = core R" "core (R\<lparr>cr_mempool := m\<rparr>) = core R" "core (R\<lparr>cr_import := i\<rparr>) = core R"
  "core (R\<lparr>cr_export := e\<rparr>) = core R" "core (R\<lparr>cr_export_previous := e\<rparr>) = core R" "core (uncached R) = core R"
  by (simp_all add: core_def uncached_def)

lemma admit_core: "admit_transaction A x v R = Ok R' \<Longrightarrow> core R' = core R"
  by (auto simp: admit_transaction_def Let_def split: if_splits)

lemma check_tx_core:
  assumes "check_tx A tx R = Ok (r, R')"
  shows "core R' = core R"
proof -
  from assms obtain verified c where r: "(case bindr verified (\<lambda>v. bindr (ok_or NotInitialized (cr_committed (R\<lparr>cr_cache := c\<rparr>))) (\<lambda>x.
       bindr (admit_transaction A x v (R\<lparr>cr_cache := c\<rparr>)) (\<lambda>R. Ok (v, R)))) of
       Ok (v, R) \<Rightarrow>
         Ok (\<lparr>ck_code = 0, ck_data = vt_tx_hash v, ck_log = [], ck_gas_wanted = length tx, ck_gas_used = length tx,
              ck_codespace = []\<rparr>, R)
     | Err e \<Rightarrow> Ok (check_error e (length tx), R\<lparr>cr_cache := c\<rparr>)
     | Panic \<Rightarrow> Panic) = (Ok (r, R') :: (check_response \<times> chain_runtime) run)" (is "(case ?o of Ok (v, R) \<Rightarrow> _ v R | Err e \<Rightarrow> _ e | Panic \<Rightarrow> _) = _")
    by (auto simp only: check_tx_def Let_def bindr_eq_Ok prod.case split_paired_Ex chain_runtime.simps)
  show ?thesis
  proof (cases ?o)
    case (Ok y)
    then obtain v x S where y: "y = (v, S)" and "admit_transaction A x v (R\<lparr>cr_cache := c\<rparr>) = Ok S" by auto
    moreover have "S = R'" using r unfolding Ok y by simp
    ultimately show ?thesis using admit_core by fastforce
  next
    case (Err e)
    show ?thesis using r unfolding Err by auto
  next
    case Panic
    show ?thesis using r unfolding Panic by simp
  qed
qed

lemma prepare_core: "prepare_proposal A rq R = Ok (txs, R') \<Longrightarrow> core R' = core R"
  by (auto simp: prepare_proposal_def Let_def split: option.splits res.splits prod.splits)

lemma process_core:
  assumes "process_proposal A rq R = Ok (p, R')"
  shows "core R' = core R"
proof (cases "cr_committed R")
  case None
  then show ?thesis using assms by (simp add: process_proposal_def)
next
  case (Some x)
  then obtain start c where r: "(case start of
      None \<Rightarrow> Ok (Reject, R\<lparr>cr_cache := c\<rparr>)
    | Some (offset, s) \<Rightarrow>
        bindr (any_private_system A (drop offset (br_txs rq)) c) (\<lambda>(private, c).
        if private then Ok (Reject, R\<lparr>cr_cache := c\<rparr>)
        else
          bindr (verify_all A (drop offset (br_txs rq)) c) (\<lambda>(verified, c).
          case bindr (traverse id verified) (\<lambda>vs. run_all A (br_height rq) (time_millis (br_time rq)) offset vs s) of
            Ok _ \<Rightarrow> Ok (Accept, R\<lparr>cr_cache := c\<rparr>)
          | Err _ \<Rightarrow> Ok (Reject, R\<lparr>cr_cache := c\<rparr>)
          | Panic \<Rightarrow> Panic))) = (Ok (p, R') :: (proposal_status \<times> chain_runtime) run)"
    using assms by (auto simp only: process_proposal_def Let_def option.case bindr_eq_Ok prod.case split_paired_Ex)
  show ?thesis
  proof (cases start)
    case None
    then show ?thesis using r by auto
  next
    case (Some y)
    obtain k s where y: "y = (k, s)" by (cases y)
    from r obtain p' d where d: "any_private_system A (drop k (br_txs rq)) c = (Ok (p', d) :: (unit, _) res)"
      by (auto simp: Some y)
    show ?thesis
    proof (cases p')
      case True
      then show ?thesis using r d by (auto simp: Some y)
    next
      case False
      with r d obtain verified e where e: "verify_all A (drop k (br_txs rq)) d = (Ok (verified, e) :: (unit, _) res)"
        by (auto simp: Some y)
      then show ?thesis
        using r d False
        by (cases "bindr (traverse id verified) (\<lambda>vs. run_all A (br_height rq) (time_millis (br_time rq)) k vs s)")
          (auto simp: Some y)
    qed
  qed
qed

lemma list_snapshots_core: "list_snapshots A R = Ok (r, R') \<Longrightarrow> core R' = core R"
  by (auto simp: list_snapshots_def split: option.splits if_splits res.splits)

lemma offer_core: "offer_snapshot A sn h R = Ok (r, R') \<Longrightarrow> core R' = core R"
  by (auto simp: offer_snapshot_def split: if_splits res.splits sync_error.splits)

lemma respond_Ok: "respond f r = Ok (x, R') \<longleftrightarrow> (\<exists>y. r = Ok (y, R') \<and> x = f y)"
  by (auto simp: respond_def)

lemma read_only_Ok: "read_only f R r = Ok (x, R') \<longleftrightarrow> R' = R \<and> (\<exists>y. r = Ok y \<and> x = f y)"
  by (auto simp: read_only_def)

lemma try_respond_Ok:
  "try_respond f r = Ok (x, R') \<longleftrightarrow> (\<exists>y. r = Ok (Ok y, R') \<and> x = f y) \<or> (\<exists>e. r = Ok (Err e, R') \<and> x = ErrorResponse e)"
proof (cases r)
  case (Ok p)
  obtain y S where "p = (y, S)" by (cases p)
  with Ok show ?thesis by (cases y) (auto simp: try_respond_def)
qed (simp_all add: try_respond_def)

lemma call_core:
  assumes "call A G rq R = Ok (r, R')" and "\<not> writes_core rq"
  shows "core R' = core R"
  using assms
  by (cases rq) (auto simp: writes_core_def respond_Ok read_only_Ok try_respond_Ok
      intro: check_tx_core prepare_core process_core list_snapshots_core offer_core)

text \<open>A commit writes the pending state, or keeps it when the store fails or gives another hash.\<close>

lemma commit_cases:
  assumes "commit A R = Ok (r, R')"
  obtains (failed) e where "r = Err e" "core R' = core R"
  | (mismatch) p h where "r = Err StateHashMismatch" "cr_pending R = Some p" "h \<noteq> cs_app_hash p"
      "commit_state (ap_store A) (map_option cs_state (cr_committed R)) (cs_state p) (cr_store R) = Ok (h, cr_store R')"
      "cr_committed R' = cr_committed R" "cr_pending R' = cr_pending R"
  | (committed) p where "r = Ok ()" "cr_pending R = Some p"
      "commit_state (ap_store A) (map_option cs_state (cr_committed R)) (cs_state p) (cr_store R) = Ok (cs_app_hash p, cr_store R')"
      "cr_committed R' = Some p" "cr_pending R' = None"
proof (cases "cr_pending R")
  case None
  then show ?thesis using assms failed by (auto simp: commit_def)
next
  case (Some p)
  let ?c = "commit_state (ap_store A) (map_option cs_state (cr_committed R)) (cs_state p) (cr_store R)"
  show ?thesis
  proof (cases ?c)
    case (Ok y)
    obtain h st where y: "y = (h, st)" by (cases y)
    show ?thesis
    proof (cases "h = cs_app_hash p")
      case True
      then show ?thesis using assms Some Ok y by (intro committed [of p]) (auto simp: commit_def persistence_def Let_def)
    next
      case False
      then show ?thesis using assms Some Ok y by (intro mismatch [of p h]) (auto simp: commit_def persistence_def)
    qed
  qed (use assms Some failed in \<open>auto simp: commit_def persistence_def\<close>)
qed

lemma initialize_cases:
  assumes "call A G (InitChain rq) R = Ok (r, R')"
  obtains (kept) "core R' = core R"
  | (first) s h where "cr_committed R = None" "genesis_of A G rq = Ok s"
      "commit_state (ap_store A) None s (cr_store R) = Ok (h, cr_store R')"
      "cr_committed R' = Some \<lparr>cs_state = s, cs_app_hash = h\<rparr>" "cr_pending R' = cr_pending R"
proof (cases "initialize A G rq R")
  case (Ok y)
  obtain h S where y: "y = (h, S)" by (cases y)
  then have S: "S = R'" using assms Ok by simp
  obtain s where s: "genesis_of A G rq = Ok s" using Ok by (auto simp: initialize_eq)
  show ?thesis
  proof (cases "cr_committed R")
    case None
    then show ?thesis
      using Ok y S s by (intro first [of s h]) (auto simp: initialize_eq persistence_def end_initialize_def)
  next
    case (Some x)
    then have "R' = end_initialize (ic_chain_id rq) R" using Ok y S s by (auto simp: initialize_eq split: if_splits)
    then show ?thesis by (intro kept) (simp add: core_def end_initialize_def)
  qed
qed (use assms kept in simp_all)

end
