(* ===== verification/Consensus_Blocks.thy ===== *)
theory Consensus_Blocks
  imports Consensus_Run
begin

text \<open>
  What a block does to the state: it keeps the identity of the chain, its nonces grow by one with every
  executed transaction of an account, and the event log stays a hash chain.
\<close>

section \<open>Successor states\<close>

definition identity_of ::
  "state \<Rightarrow> string \<times> account_id \<times> nat \<times> public_key_set option \<times> (string, nat) omap \<times> decimal" where
  "identity_of s = (es_chain_id s, es_authority s, es_protocol_version s, es_key_set s, es_validator_bindings s,
     es_private_order_fee s)"

definition nonce_of :: "state \<Rightarrow> account_id \<Rightarrow> nat" where
  "nonce_of s a = (case om_get (es_account_nonces s) a of None \<Rightarrow> 0 | Some n \<Rightarrow> n)"

definition follows_state :: "event_crypto \<Rightarrow> state \<Rightarrow> state \<Rightarrow> bool" where
  "follows_state C s s' \<longleftrightarrow>
     identity_of s' = identity_of s \<and> (\<forall>a. nonce_of s a \<le> nonce_of s' a) \<and> (log_ok C s \<longrightarrow> log_ok C s')"

lemma follows_state_refl [simp]: "follows_state C s s"
  by (simp add: follows_state_def)

lemma follows_state_trans: "follows_state C s t \<Longrightarrow> follows_state C t u \<Longrightarrow> follows_state C s u"
  by (auto simp: follows_state_def intro: le_trans)

text \<open>The sequence of commands and private batches keeps the frame: the rest is in its nonces.\<close>

definition same_frame :: "event_crypto \<Rightarrow> state \<Rightarrow> state \<Rightarrow> bool" where
  "same_frame C s s' \<longleftrightarrow> frame_of s' = frame_of s \<and> (log_ok C s \<longrightarrow> log_ok C s')"

lemma same_frame_refl [simp]: "same_frame C s s"
  by (simp add: same_frame_def)

lemma same_frame_follows: "same_frame C s s' \<Longrightarrow> follows_state C s s'"
  by (auto simp: same_frame_def follows_state_def frame_of_def identity_of_def nonce_of_def)

lemma same_frame_nonce: "same_frame C s s' \<Longrightarrow> nonce_of s' a = nonce_of s a"
  by (simp add: same_frame_def frame_of_def nonce_of_def)

lemma kept_same_frame: "kept E (frame_of s, log_ok (en_crypto E) s) s' \<longleftrightarrow> same_frame (en_crypto E) s s'"
  by (simp add: kept_def same_frame_def)

lemma frame_start: "kept E (frame_of s, log_ok (en_crypto E) s) s"
  by (simp add: kept_def)

abbreviation app_crypto :: "('nk, 'nd) app_env \<Rightarrow> event_crypto" where
  "app_crypto A \<equiv> en_crypto (app_engine A)"

lemma execute_system_frame:
  "execute_system A committed db height s = Ok (x, s') \<Longrightarrow> same_frame (app_crypto A) s s'"
  by (auto simp: execute_system_def transition_def kept_same_frame [symmetric]
      intro: execute_bundle_kept frame_start)

lemma close_block_frame:
  assumes "close_block A height s = Ok s'"
  shows "same_frame (app_crypto A) s s'"
proof -
  obtain t where t1: "freeze_private_batch_liquidity (app_engine A) height s = Ok t"
    and c: "(case prune_consensus_history t of Ok s \<Rightarrow> Ok s | _ \<Rightarrow> Panic) = (Ok s' :: state con)"
    using assms unfolding close_block_def transition_def by auto
  from c have t2: "prune_consensus_history t = Ok s'" by (cases "prune_consensus_history t") auto
  note t = t1 t2
  from prune_history_kept [OF t(2) freeze_private_batch_kept [OF t(1) frame_start]] show ?thesis by (simp add: kept_same_frame)
qed

lemma anchor_frame: "anchor_private_batch x height s = Ok s' \<Longrightarrow> same_frame C s s'"
  by (auto simp: anchor_private_batch_def same_frame_def frame_of_def log_ok_def Let_def split: if_splits option.splits)

lemma open_block_follows: "follows_state C s (open_block height time s)"
  by (simp add: follows_state_def open_block_def identity_of_def nonce_of_def log_ok_def)

lemma open_block_nonce [simp]: "nonce_of (open_block height time s) a = nonce_of s a"
  by (simp add: open_block_def nonce_of_def)

section \<open>Transactions\<close>

lemma validate_nonce:
  "validate_transaction_state s v height = Ok n \<longleftrightarrow>
    tx_chain_id (vt_transaction v) = es_chain_id s \<and> height \<le> tx_valid_until_height (vt_transaction v) \<and>
    tx_nonce (vt_transaction v) = nonce_of s (vt_signer v) \<and> n = Suc (nonce_of s (vt_signer v)) \<and> n \<le> u64_max"
  by (auto simp: validate_transaction_state_def nonce_of_def Let_def checked_add_def ok_or_def split: if_splits option.splits)

lemma validate_no_panic: "validate_transaction_state s v height \<noteq> Panic"
  by (auto simp: validate_transaction_state_def Let_def ok_or_def split: if_splits option.splits)

lemma apply_command_frame:
  "apply_consensus_command C signer authority command cx s = (Inr r, s') \<Longrightarrow> log_ok (en_crypto (cm_engine C)) s \<longrightarrow> log_ok (en_crypto (cm_engine C)) s'"
  "apply_consensus_command C signer authority command cx s = (Inr r, s') \<Longrightarrow>
     frame_of s' = frame_of (s\<lparr>es_height := cx_height cx, es_block_time_ms := cx_block_time_ms cx\<rparr>)"
proof -
  assume a: "apply_consensus_command C signer authority command cx s = (Inr r, s')"
  let ?t = "s\<lparr>es_height := cx_height cx, es_block_time_ms := cx_block_time_ms cx\<rparr>"
  have "run_command C signer authority cx command ?t = Ok (r, s')"
    using a by (simp add: apply_consensus_command_def split: res.splits prod.splits)
  from run_command_kept [OF this frame_start] have k: "same_frame (en_crypto (cm_engine C)) ?t s'"
    by (simp add: kept_same_frame)
  then show "frame_of s' = frame_of ?t" by (simp add: same_frame_def)
  have "log_ok (en_crypto (cm_engine C)) ?t = log_ok (en_crypto (cm_engine C)) s" by (simp add: log_ok_def)
  with k show "log_ok (en_crypto (cm_engine C)) s \<longrightarrow> log_ok (en_crypto (cm_engine C)) s'" by (simp add: same_frame_def)
qed

lemma apply_command_error: "apply_consensus_command C signer authority command cx s = (Inl e, s') \<Longrightarrow> s' = s"
  by (simp add: apply_consensus_command_def split: res.splits prod.splits)

text \<open>A transaction is executed with the nonce of its signer, which it increases, or it changes nothing.\<close>

lemma run_transaction_Ok:
  assumes "run_transaction A height time i v s = (Ok a, s')"
  shows "follows_state (app_crypto A) s s'" and "tx_nonce (vt_transaction v) = nonce_of s (vt_signer v)"
    and "nonce_of s' = (nonce_of s)(vt_signer v := Suc (nonce_of s (vt_signer v)))"
proof -
  from assms validate_no_panic [of s v height] obtain n where n: "validate_transaction_state s v height = Ok n"
    and x: "execute_verified_transaction A v n height time (i mod 2 ^ 32) s = (Ok a, s')"
    by (cases "validate_transaction_state s v height") (auto simp: run_transaction_def)
  let ?cx = "new_context height time (i mod 2 ^ 32) (vt_tx_hash v)"
  obtain r t where t: "apply_consensus_command (ap_commands A) (vt_signer v) (es_authority s) (tx_command (vt_transaction v)) ?cx s = (Inr r, t)"
    and s': "s' = t\<lparr>es_account_nonces := om_insert (vt_signer v) n (es_account_nonces t)\<rparr>"
    using x by (auto simp: execute_verified_transaction_def split: prod.splits sum.splits)
  note f = apply_command_frame [OF t]
  have nt: "nonce_of t b = nonce_of s b" for b using f(2) by (simp add: frame_of_def nonce_of_def)
  show "tx_nonce (vt_transaction v) = nonce_of s (vt_signer v)" using n by (simp add: validate_nonce)
  show s2: "nonce_of s' = (nonce_of s)(vt_signer v := Suc (nonce_of s (vt_signer v)))"
  proof
    fix b
    have "nonce_of s' b = (if b = vt_signer v then n else nonce_of t b)" by (simp add: s' nonce_of_def)
    then show "nonce_of s' b = ((nonce_of s)(vt_signer v := Suc (nonce_of s (vt_signer v)))) b"
      using n nt by (simp add: validate_nonce)
  qed
  have "identity_of s' = identity_of s" using f(2) by (simp add: s' identity_of_def frame_of_def)
  moreover have "log_ok (app_crypto A) s \<longrightarrow> log_ok (app_crypto A) s'" using f(1) by (simp add: s' log_ok_def)
  ultimately show "follows_state (app_crypto A) s s'" using s2 by (simp add: follows_state_def)
qed

lemma run_transaction_Err: "run_transaction A height time i v s = (r, s') \<Longrightarrow> (\<nexists>a. r = Ok a) \<Longrightarrow> s' = s"
  by (auto simp: run_transaction_def execute_verified_transaction_def split: res.splits prod.splits sum.splits
      dest!: apply_command_error)

lemma run_transaction_no_panic: "run_transaction A height time i v s \<noteq> (Panic, s')"
  using validate_no_panic [of s v height]
  by (auto simp: run_transaction_def execute_verified_transaction_def split: res.splits prod.splits sum.splits)

section \<open>The transactions of a block\<close>

text \<open>Signer and nonce of the transactions that a block reports as executed, in their order.\<close>

fun executed :: "(bytes \<times> verified_transaction con) list \<Rightarrow> exec_tx_result list \<Rightarrow> (account_id \<times> nat) list" where
  "executed ((tx, verified) # ps) (r # rs) =
     (case verified of
        Ok v \<Rightarrow> if er_code r = 0 then [(vt_signer v, tx_nonce (vt_transaction v))] else []
      | _ \<Rightarrow> []) @ executed ps rs"
| "executed _ _ = []"

definition nonces_by :: "account_id \<Rightarrow> (account_id \<times> nat) list \<Rightarrow> nat list" where
  "nonces_by a xs = map snd (filter (\<lambda>p. fst p = a) xs)"

lemma nonces_by_simps [simp]:
  "nonces_by a [] = []" "nonces_by a (xs @ ys) = nonces_by a xs @ nonces_by a ys"
  "nonces_by a ((b, n) # xs) = (if b = a then n # nonces_by a xs else nonces_by a xs)"
  by (simp_all add: nonces_by_def)

lemma error_code_pos: "0 < error_code e"
  by (cases e) simp_all

lemma finalize_transactions_spec:
  assumes "finalize_transactions A height time i ps s = Ok (rs, s')"
  shows "follows_state (app_crypto A) s s' \<and> length rs = length ps \<and>
    (\<forall>a. nonces_by a (executed ps rs) = [nonce_of s a..<nonce_of s' a])"
  using assms
proof (induction A height time i ps s arbitrary: rs rule: finalize_transactions.induct)
  case (2 A height time i tx verified ps s)
  let ?r = "case verified of Ok v \<Rightarrow> run_transaction A height time i v s | Err e \<Rightarrow> (Err e, s) | Panic \<Rightarrow> (Panic, s)"
  obtain r t where r: "?r = (r, t)" by fastforce
  show ?case
  proof (cases r)
    case (Ok x)
    then obtain v where v: "verified = Ok v" "run_transaction A height time i v s = (Ok x, t)"
      using r by (auto split: res.splits)
    then obtain rs' where rs: "finalize_transactions A height time (Suc i) ps t = Ok (rs', s')" "rs = execution_result A x (length tx) # rs'"
      using "2.prems" by auto
    from "2.IH"(1) [OF _ _ rs(1)] r Ok have ih: "follows_state (app_crypto A) t s'" "length rs' = length ps"
      "\<forall>a. nonces_by a (executed ps rs') = [nonce_of t a..<nonce_of s' a]" by simp_all
    note st = run_transaction_Ok [OF v(2)]
    have le: "nonce_of t a \<le> nonce_of s' a" for a using ih(1) by (simp add: follows_state_def)
    have "nonces_by a (executed ((tx, verified) # ps) rs) = [nonce_of s a..<nonce_of s' a]" for a
    proof (cases "vt_signer v = a")
      case True
      have "nonce_of s a < nonce_of s' a" using le [of a] st(3) True by simp
      then show ?thesis using ih(3) st True by (simp add: rs(2) v(1) execution_result_def upt_conv_Cons)
    next
      case False
      then show ?thesis using ih(3) st by (simp add: rs(2) v(1) execution_result_def)
    qed
    then show ?thesis using follows_state_trans [OF st(1) ih(1)] ih(2) rs(2) by simp
  next
    case (Err e)
    have t: "t = s" using r Err run_transaction_Err [where r = "Err e"] by (cases verified) auto
    with r Err "2.prems" obtain rs' where rs: "finalize_transactions A height time (Suc i) ps s = Ok (rs', s')"
      "rs = execution_error e (length tx) # rs'" by auto
    from "2.IH"(2) [OF _ _ rs(1)] r Err t have ih: "follows_state (app_crypto A) s s'" "length rs' = length ps"
      "\<forall>a. nonces_by a (executed ps rs') = [nonce_of s a..<nonce_of s' a]" by simp_all
    then show ?thesis using error_code_pos [of e] by (simp add: rs(2) execution_error_def split: res.split)
  next
    case Panic
    then show ?thesis using "2.prems" r by simp
  qed
qed simp

lemma finalize_transactions_no_error: "finalize_transactions A height time i ps s \<noteq> Err e"
proof (induction A height time i ps s rule: finalize_transactions.induct)
  case (2 A height time i tx verified ps s)
  let ?r = "case verified of Ok v \<Rightarrow> run_transaction A height time i v s | Err e \<Rightarrow> (Err e, s) | Panic \<Rightarrow> (Panic, s)"
  obtain r t where r: "?r = (r, t)" by fastforce
  then show ?case using "2.IH" by (cases r) (auto simp: bindr_eq_Err)
qed simp

section \<open>The block without the cache\<close>

definition block_system :: "('nk, 'nd) app_env \<Rightarrow> state \<Rightarrow> block_request \<Rightarrow> state \<Rightarrow> (exec_tx_result list \<times> nat \<times> state) con" where
  "block_system A committed rq s =
     (if \<not> expects_system committed (br_height rq) then Ok ([], 0, s)
      else
        (case br_txs rq of
           [] \<Rightarrow> Err (InvalidTransaction ''proposal omitted the required private decryption bundle'')
         | first # _ \<Rightarrow>
             bindr (decode_stateless A first) (\<lambda>t.
             case t of
               PrivateSystem db \<Rightarrow>
                 bindr (execute_system A committed db (br_height rq) s) (\<lambda>(x, s).
                 Ok ([private_system_execution_result A x (length first)], 1, s))
             | SignedTransaction v \<Rightarrow>
                 Err (InvalidTransaction ''first transaction is not the required private decryption bundle''))))"

definition block_state :: "('nk, 'nd) app_env \<Rightarrow> chain_snapshot \<Rightarrow> block_request \<Rightarrow> (exec_tx_result list \<times> state) con" where
  "block_state A x rq =
     bindr (anchor_private_batch x (br_height rq) (open_block (br_height rq) (br_time rq) (cs_state x))) (\<lambda>s.
     bindr (block_system A (cs_state x) rq s) (\<lambda>(results, k, s).
     let txs = drop k (br_txs rq) in
     if \<exists>tx \<in> set txs. private_tx A tx then Err (InvalidTransaction ''private system transaction is unexpected or misplaced'')
     else
       (case finalize_transactions A (br_height rq) (time_millis (br_time rq)) k (zip txs (map (decode_signed A) txs)) s of
          Ok (public, s) \<Rightarrow> bindr (close_block A (br_height rq) s) (\<lambda>s. Ok (results @ public, s))
        | _ \<Rightarrow> Panic)))"

lemma finalize_system_uncached: "finalize_system A committed rq s no_cache = Ok (block_system A committed rq s, no_cache)"
  by (cases "br_txs rq"; cases "decode_stateless A (hd (br_txs rq))")
    (auto simp: finalize_system_def block_system_def first_bundle_def decode_uncached split: stateless_transaction.split)

lemma finalize_uncached:
  assumes "cr_committed R = Some x"
  shows "finalize_block A rq (uncached R) =
    (case bindr (block_state A x rq) (\<lambda>(results, s).
       bindr (persistence (preview_state_root (ap_store A) (cr_store R) (Some (cs_state x)) s)) (\<lambda>h. Ok (results, s, h))) of
       Ok (results, s, h) \<Rightarrow>
         Ok (Ok (block_response A (br_height rq) results h), uncached (R\<lparr>cr_pending := Some \<lparr>cs_state = s, cs_app_hash = h\<rparr>\<rparr>))
     | Err e \<Rightarrow> Ok (Err e, uncached R)
     | Panic \<Rightarrow> Panic)"
proof -
  have tail: "finalize_public A x rq results k s (uncached R) =
    (case bindr (let txs = drop k (br_txs rq) in
       if \<exists>tx \<in> set txs. private_tx A tx then Err (InvalidTransaction ''private system transaction is unexpected or misplaced'')
       else
         (case finalize_transactions A (br_height rq) (time_millis (br_time rq)) k (zip txs (map (decode_signed A) txs)) s of
            Ok (public, s) \<Rightarrow> bindr (close_block A (br_height rq) s) (\<lambda>s. Ok (results @ public, s))
          | _ \<Rightarrow> Panic)) (\<lambda>(results, s).
       bindr (persistence (preview_state_root (ap_store A) (cr_store R) (Some (cs_state x)) s)) (\<lambda>h. Ok (results, s, h))) of
       Ok (results, s, h) \<Rightarrow>
         Ok (Ok (block_response A (br_height rq) results h), uncached (R\<lparr>cr_pending := Some \<lparr>cs_state = s, cs_app_hash = h\<rparr>\<rparr>))
     | Err e \<Rightarrow> Ok (Err e, uncached R)
     | Panic \<Rightarrow> Panic)" for results k s
  proof (cases "\<exists>tx \<in> set (drop k (br_txs rq)). private_tx A tx")
    case False
    let ?f = "finalize_transactions A (br_height rq) (time_millis (br_time rq)) k
      (zip (drop k (br_txs rq)) (map (decode_signed A) (drop k (br_txs rq)))) s"
    show ?thesis
    proof (cases ?f)
      case (Ok y)
      obtain public t where y: "y = (public, t)" by (cases y)
      show ?thesis
      proof (cases "close_block A (br_height rq) t")
        case closed: (Ok u)
        then show ?thesis
          using False Ok y
          by (cases "persistence (preview_state_root (ap_store A) (cr_store R) (Some (cs_state x)) u)")
            (simp_all add: finalize_public_def any_private_uncached verify_all_uncached)
      qed (use False Ok y in \<open>simp_all add: finalize_public_def any_private_uncached verify_all_uncached\<close>)
    next
      case (Err u)
      then show ?thesis using finalize_transactions_no_error by blast
    qed (use False in \<open>simp add: finalize_public_def any_private_uncached verify_all_uncached\<close>)
  qed (simp add: finalize_public_def any_private_uncached)
  show ?thesis
  proof (cases "anchor_private_batch x (br_height rq) (open_block (br_height rq) (br_time rq) (cs_state x))")
    case (Ok s)
    show ?thesis
      using assms Ok
      by (cases "block_system A (cs_state x) rq s")
        (auto simp: finalize_block_def finalize_system_uncached block_state_def tail)
  qed (use assms in \<open>simp_all add: finalize_block_def block_state_def\<close>)
qed

lemma block_system_Ok:
  assumes "block_system A committed rq s = Ok (results, k, s')"
  obtains (public_only) "\<not> expects_system committed (br_height rq)" "results = []" "k = 0" "s' = s"
  | (private_batch) tx rest db x where "br_txs rq = tx # rest" "decode_stateless A tx = Ok (PrivateSystem db)"
      "execute_system A committed db (br_height rq) s = Ok (x, s')"
      "results = [private_system_execution_result A x (length tx)]" "k = 1"
proof (cases "expects_system committed (br_height rq)")
  case True
  then obtain tx rest where tx: "br_txs rq = tx # rest" using assms by (auto simp: block_system_def split: list.splits)
  then obtain t where t: "decode_stateless A tx = Ok t" using assms True by (auto simp: block_system_def)
  then obtain db where "decode_stateless A tx = Ok (PrivateSystem db)"
    using assms True tx by (cases t) (auto simp: block_system_def)
  then show ?thesis using assms True tx private_batch by (auto simp: block_system_def)
qed (use assms public_only in \<open>simp add: block_system_def\<close>)

text \<open>A block keeps the identity of the chain, and executes the nonces of every account in their order.\<close>

lemma block_state_spec:
  assumes "block_state A x rq = Ok (rs, s)"
  shows "follows_state (app_crypto A) (cs_state x) s"
    and "nonces_by a (executed (zip (br_txs rq) (map (decode_signed A) (br_txs rq))) rs) = [nonce_of (cs_state x) a..<nonce_of s a]"
proof -
  let ?s0 = "open_block (br_height rq) (br_time rq) (cs_state x)"
  from assms obtain s1 results k s2 public s3 where s:
    "anchor_private_batch x (br_height rq) ?s0 = Ok s1" "block_system A (cs_state x) rq s1 = Ok (results, k, s2)"
    "finalize_transactions A (br_height rq) (time_millis (br_time rq)) k
      (zip (drop k (br_txs rq)) (map (decode_signed A) (drop k (br_txs rq)))) s2 = Ok (public, s3)"
    "close_block A (br_height rq) s3 = Ok s" "rs = results @ public"
    by (auto simp: block_state_def Let_def split: if_splits res.splits)
  have frame2: "same_frame (app_crypto A) s1 s2"
    using s(2) by (cases rule: block_system_Ok) (auto intro: execute_system_frame)
  note frame1 = anchor_frame [OF s(1)] and tx = finalize_transactions_spec [OF s(3)] and frame3 = close_block_frame [OF s(4)]
  show "follows_state (app_crypto A) (cs_state x) s"
    using open_block_follows same_frame_follows [OF frame1] same_frame_follows [OF frame2] tx same_frame_follows [OF frame3]
    by (meson follows_state_trans)
  have start: "nonce_of s2 a = nonce_of (cs_state x) a" "nonce_of s a = nonce_of s3 a"
    using same_frame_nonce [OF frame1] same_frame_nonce [OF frame2] same_frame_nonce [OF frame3] by simp_all
  have "executed (zip (br_txs rq) (map (decode_signed A) (br_txs rq))) rs =
      executed (zip (drop k (br_txs rq)) (map (decode_signed A) (drop k (br_txs rq)))) public"
    using s(2) by (cases rule: block_system_Ok) (simp_all add: s(5) decode_signed_def as_signed_def)
  then show "nonces_by a (executed (zip (br_txs rq) (map (decode_signed A) (br_txs rq))) rs) =
      [nonce_of (cs_state x) a..<nonce_of s a]"
    using tx start by simp
qed

end
