(* ===== verification/Consensus_History.thy ===== *)
theory Consensus_History
  imports Consensus_Blocks
begin

text \<open>
  What a node executes over a whole run of requests: the transactions of the blocks that it commits, by
  signer and nonce. A block counts when it is committed; the block finalized last is the one committed.
\<close>

definition block_executed :: "('nk, 'nd) app_env \<Rightarrow> block_request \<Rightarrow> finalize_response \<Rightarrow> (account_id \<times> nat) list" where
  "block_executed A b f = executed (zip (br_txs b) (map (decode_signed A) (br_txs b))) (fr_tx_results f)"

definition step_executed ::
  "('nk, 'nd) app_env \<Rightarrow> request \<Rightarrow> response \<Rightarrow> (account_id \<times> nat) list option \<Rightarrow>
   (account_id \<times> nat) list \<times> (account_id \<times> nat) list option" where
  "step_executed A rq r p =
     (case (rq, r) of
        (FinalizeBlock b, FinalizeBlockResponse f) \<Rightarrow> ([], Some (block_executed A b f))
      | (CommitBlock, CommitResponse) \<Rightarrow> (case p of None \<Rightarrow> [] | Some xs \<Rightarrow> xs, None)
      | _ \<Rightarrow> ([], p))"

fun committed_transactions ::
  "('nk, 'nd) app_env \<Rightarrow> (account_id \<times> nat) list option \<Rightarrow> request list \<Rightarrow> response list \<Rightarrow> (account_id \<times> nat) list" where
  "committed_transactions A p (rq # rqs) (r # rs) =
     (let (xs, q) = step_executed A rq r p in xs @ committed_transactions A q rqs rs)"
| "committed_transactions A p _ _ = []"

text \<open>The nonce of the next transaction of an account; 0 before the genesis.\<close>

definition next_nonce :: "chain_runtime \<Rightarrow> account_id \<Rightarrow> nat" where
  "next_nonce R a = (case cr_committed R of None \<Rightarrow> 0 | Some x \<Rightarrow> nonce_of (cs_state x) a)"

definition pending_executed :: "(account_id \<times> nat) list option \<Rightarrow> chain_runtime \<Rightarrow> bool" where
  "pending_executed p R \<longleftrightarrow>
     (case p of
        None \<Rightarrow> cr_pending R = None
      | Some xs \<Rightarrow> (\<exists>x y. cr_committed R = Some x \<and> cr_pending R = Some y \<and>
          (\<forall>a. nonces_by a xs = [nonce_of (cs_state x) a..<nonce_of (cs_state y) a] \<and>
            nonce_of (cs_state x) a \<le> nonce_of (cs_state y) a)))"

lemma pending_executed_core: "core R' = core R \<Longrightarrow> pending_executed p R' = pending_executed p R"
  by (cases p) (simp_all add: pending_executed_def core_def)

lemma next_nonce_core: "core R' = core R \<Longrightarrow> next_nonce R' = next_nonce R"
  by (auto simp: next_nonce_def core_def)

lemma genesis_nonces:
  assumes "genesis_of A G rq = Ok s"
  shows "nonce_of s a = 0"
proof -
  have accounts: "foldr_res (genesis_account D) xs s0 = Ok s1 \<Longrightarrow> es_account_nonces s1 = es_account_nonces s0"
    for D xs and s0 s1 :: state
    by (induction xs arbitrary: s0) (auto simp: genesis_account_def case_prod_beta)
  show ?thesis
    using assms by (auto simp: genesis_of_def genesis_application_state_def nonce_of_def genesis_def Let_def dest!: accounts)
qed

definition installs :: "request \<Rightarrow> bool" where
  "installs rq \<longleftrightarrow> (case rq of ApplySnapshotChunk _ _ _ \<Rightarrow> True | _ \<Rightarrow> False)"

lemma finalize_executed:
  assumes "finalize_block A b (uncached R) = Ok (r, R')"
  shows "(\<exists>f. r = Ok f \<and> pending_executed (Some (block_executed A b f)) R' \<and> cr_committed R' = cr_committed R) \<or>
    ((\<exists>e. r = Err e) \<and> core R' = core R) \<or> r = Panic"
proof (cases "cr_committed R")
  case None
  then show ?thesis using assms by (auto simp: finalize_block_def)
next
  case (Some x)
  let ?b = "bindr (block_state A x b) (\<lambda>(results, s).
       bindr (persistence (preview_state_root (ap_store A) (cr_store R) (Some (cs_state x)) s)) (\<lambda>h. Ok (results, s, h)))"
  note eq = assms [unfolded finalize_uncached [OF Some]]
  show ?thesis
  proof (cases ?b)
    case (Ok y)
    obtain results s h where y: "y = (results, s, h)" by (cases y) auto
    then have b: "block_state A x b = Ok (results, s)" using Ok by auto
    have f: "r = Ok (block_response A (br_height b) results h)"
      "R' = uncached (R\<lparr>cr_pending := Some \<lparr>cs_state = s, cs_app_hash = h\<rparr>\<rparr>)"
      using eq unfolding Ok y by simp_all
    have "nonce_of (cs_state x) a \<le> nonce_of s a" for a
      using block_state_spec(1) [OF b] by (simp add: follows_state_def)
    then show ?thesis using f block_state_spec(2) [OF b] Some
      by (simp add: pending_executed_def block_executed_def block_response_def uncached_def)
  next
    case (Err e)
    show ?thesis using eq unfolding Err by auto
  next
    case Panic
    show ?thesis using eq unfolding Panic by simp
  qed
qed

lemma call_executed:
  assumes "call A G rq (uncached R) = Ok (r, R')" and "\<not> installs rq" and "pending_executed p R"
    and "step_executed A rq r p = (xs, q)"
  shows "pending_executed q R' \<and> nonces_by a xs = [next_nonce R a..<next_nonce R' a] \<and> next_nonce R a \<le> next_nonce R' a"
proof -
  have same: ?thesis if "core R' = core R" "xs = []" "q = p"
    using that assms(3) pending_executed_core [OF that(1)] next_nonce_core [OF that(1)] by simp
  have pu: "pending_executed p (uncached R)" "next_nonce (uncached R) = next_nonce R"
    using pending_executed_core [of "uncached R" R] next_nonce_core [of "uncached R" R] assms(3) by simp_all
  show ?thesis
  proof (cases "writes_core rq")
    case False
    then have "core R' = core R" using call_core [OF assms(1)] by simp
    moreover have "xs = []" "q = p" using assms(4) False by (auto simp: step_executed_def writes_core_def split: request.splits)
    ultimately show ?thesis by (rule same)
  next
    case True
    then consider (init) ic where "rq = InitChain ic" | (finalize) b where "rq = FinalizeBlock b" | (commit) "rq = CommitBlock"
      using assms(2) by (auto simp: writes_core_def installs_def split: request.splits)
    then show ?thesis
    proof cases
      case init
      then have x: "xs = []" "q = p" using assms(4) by (simp_all add: step_executed_def)
      from assms(1) [unfolded init] show ?thesis
      proof (cases rule: initialize_cases)
        case kept
        then show ?thesis using same x by simp
      next
        case (first s h)
        have "p = None" using pu(1) first(1) by (simp add: pending_executed_def split: option.splits)
        moreover have "cr_pending R = None" using calculation assms(3) by (simp add: pending_executed_def)
        ultimately show ?thesis
          using first x genesis_nonces [OF first(2)] by (simp add: pending_executed_def next_nonce_def)
      qed
    next
      case finalize
      then obtain y where y: "finalize_block A b (uncached R) = Ok (y, R')" using assms(1) by (auto simp: try_respond_Ok)
      from finalize_executed [OF y] show ?thesis
      proof (elim disjE exE conjE)
        fix f
        assume f: "y = Ok f" "pending_executed (Some (block_executed A b f)) R'" "cr_committed R' = cr_committed R"
        then have "r = FinalizeBlockResponse f" using assms(1) y finalize by (simp add: try_respond_def)
        then have "xs = []" "q = Some (block_executed A b f)" using assms(4) finalize by (simp_all add: step_executed_def)
        then show ?thesis using f by (simp add: next_nonce_def)
      next
        fix e
        assume e: "y = Err e" "core R' = core R"
        then have "r = ErrorResponse e" using assms(1) y finalize by (simp add: try_respond_def)
        then have "xs = []" "q = p" using assms(4) finalize by (simp_all add: step_executed_def)
        then show ?thesis using same e by simp
      next
        assume "y = Panic"
        then show ?thesis using assms(1) y finalize by (simp add: try_respond_def)
      qed
    next
      case commit
      then obtain y where y: "Consensus_App.commit A (uncached R) = Ok (y, R')"
        and r: "r = (case y of Ok _ \<Rightarrow> CommitResponse | Err e \<Rightarrow> ErrorResponse e | Panic \<Rightarrow> undefined)" "y \<noteq> Panic"
        using assms(1) by (auto simp: try_respond_Ok)
      from y show ?thesis
      proof (cases rule: commit_cases)
        case (failed e)
        then show ?thesis using same assms(4) r commit by (simp add: step_executed_def)
      next
        case (mismatch z h)
        then have "xs = []" "q = p" using assms(4) r commit by (simp_all add: step_executed_def)
        then show ?thesis using mismatch assms(3) by (auto simp: pending_executed_def next_nonce_def split: option.splits)
      next
        case (committed z)
        obtain ys where ys: "p = Some ys" using committed(2) assms(3) by (cases p) (auto simp: pending_executed_def)
        have "xs = ys" "q = None" using assms(4) r commit committed(1) ys by (simp_all add: step_executed_def)
        then show ?thesis using committed assms(3) ys by (auto simp: pending_executed_def next_nonce_def)
      qed
    qed
  qed
qed

section \<open>Runs\<close>

lemma uncached_core [simp]: "pending_executed p (uncached R) = pending_executed p R" "next_nonce (uncached R) = next_nonce R"
  using pending_executed_core [of "uncached R" R p] next_nonce_core [of "uncached R" R] by simp_all

lemma calls_executed:
  assumes "calls A G rqs R = Ok (rs, R')" and "remembers A T (accesses rqs) (cr_cache R)"
    and "\<Union> (set ` request_txs ` set rqs) \<subseteq> T" and "\<forall>rq \<in> set rqs. \<not> installs rq" and "pending_executed p R"
  shows "nonces_by a (committed_transactions A p rqs rs) = [next_nonce R a..<next_nonce R' a] \<and> next_nonce R a \<le> next_nonce R' a"
  using assms
proof (induction rqs arbitrary: R rs p)
  case (Cons rq rqs)
  from Cons.prems(1) obtain r S rs' where r: "call A G rq R = Ok (r, S)" "calls A G rqs S = Ok (rs', R')" "rs = r # rs'"
    by auto
  have "remembers A T (Suc (2 * length (request_txs rq)) + accesses rqs) (cr_cache R)"
    using Cons.prems(2) by (simp add: accesses_def)
  then have "agree A T (accesses rqs) (call A G rq R) (call A G rq (uncached R))"
    using call_cached Cons.prems(3) by fastforce
  then have c: "call A G rq (uncached R) = Ok (r, uncached S)" "remembers A T (accesses rqs) (cr_cache S)"
    using r(1) by (simp_all add: agree_def)
  obtain xs q where x: "step_executed A rq r p = (xs, q)" by fastforce
  have "\<not> installs rq" using Cons.prems(4) by simp
  from call_executed [OF c(1) this Cons.prems(5) x, of a]
  have one: "pending_executed q S" "nonces_by a xs = [next_nonce R a..<next_nonce S a]" "next_nonce R a \<le> next_nonce S a" by simp_all
  from Cons.IH [OF r(2) c(2) _ _ one(1)] Cons.prems(3,4)
  have rest: "nonces_by a (committed_transactions A q rqs rs') = [next_nonce S a..<next_nonce R' a]" "next_nonce S a \<le> next_nonce R' a"
    by auto
  have "[next_nonce R a..<next_nonce R' a] = [next_nonce R a..<next_nonce S a] @ [next_nonce S a..<next_nonce R' a]"
    using upt_add_eq_append [OF one(3), of "next_nonce R' a - next_nonce S a"] rest(2) by simp
  then show ?case using one rest x r(3) by simp
qed simp

lemma open_runtime_Ok:
  assumes "open_runtime A st v = Ok R"
  shows "cr_pending R = None" and "cr_store R = st"
    and "cr_cache R = new_cache VERIFIED_TRANSACTION_CACHE_CAPACITY VERIFIED_TRANSACTION_CACHE_MAX_BYTES"
  using assms by (auto simp: open_runtime_def Let_def)

lemma open_remembers:
  assumes "open_runtime A st v = Ok R" and "inj_on (transaction_bytes_hash A) T" and "n \<le> u64_max"
  shows "remembers A T n (cr_cache R)"
proof -
  have "cache_ok (cr_cache R)"
    unfolding open_runtime_Ok(3) [OF assms(1)]
    by (rule cache_ok_new) (simp_all add: VERIFIED_TRANSACTION_CACHE_CAPACITY_def VERIFIED_TRANSACTION_CACHE_MAX_BYTES_def u64_max_def)
  then show ?thesis
    using assms by (simp add: remembers_def open_runtime_Ok(3) [OF assms(1)] new_cache_def lru_of_def om_values_def)
qed

end
