(* ===== verification/Consensus_Recovery.thy ===== *)
theory Consensus_Recovery
  imports Consensus_History Store_Props
begin

text \<open>
  A node that stops between two requests, at any point of a run, finds its committed state again: the
  invariant that ties the store to the committed and the pending state, and its preservation.
\<close>

section \<open>Blocks and the committed state\<close>

lemma finalize_block_cases:
  assumes "finalize_block A b R = Ok (r, R')"
  obtains (failed) "\<not> (\<exists>f. r = Ok f)" "core R' = core R"
  | (pending) x y f where "r = Ok f" "cr_committed R = Some x" "cr_committed R' = Some x" "cr_store R' = cr_store R"
      "cr_pending R' = Some y" "follows_state (app_crypto A) (cs_state x) (cs_state y)"
      "preview_state_root (ap_store A) (cr_store R) (Some (cs_state x)) (cs_state y) = Ok (cs_app_hash y)"
proof (cases "cr_committed R")
  case None
  then show ?thesis using assms failed by (auto simp: finalize_block_def)
next
  case (Some x)
  let ?s0 = "open_block (br_height b) (br_time b) (cs_state x)"
  let ?C = "app_crypto A"
  show ?thesis
  proof (cases "anchor_private_batch x (br_height b) ?s0")
    case (Ok s1)
    have f1: "follows_state ?C (cs_state x) s1"
      using open_block_follows same_frame_follows [OF anchor_frame [OF Ok]] by (rule follows_state_trans)
    from assms Some Ok obtain q c where q: "finalize_system A (cs_state x) b s1 (cr_cache R) = Ok (q, c)"
      by (auto simp: finalize_block_def)
    show ?thesis
    proof (cases q)
      case q2: (Ok z)
      obtain results k s2 where z: "z = (results, k, s2)" by (cases z) auto
      have "same_frame ?C s1 s2"
        using q q2 z execute_system_frame by (fastforce simp: finalize_system_def case_prod_beta split: if_splits)
      then have f2: "follows_state ?C (cs_state x) s2" using follows_state_trans [OF f1] same_frame_follows by blast
      have r: "finalize_public A x b results k s2 (R\<lparr>cr_cache := c\<rparr>) = Ok (r, R')"
        using assms Some Ok q q2 z by (simp add: finalize_block_def)
      then obtain p d where p: "any_private_system A (drop k (br_txs b)) c = (Ok (p, d) :: (unit, _) res)"
        by (auto simp: finalize_public_def)
      show ?thesis
      proof (cases p)
        case True
        then show ?thesis using r p failed by (auto simp: finalize_public_def)
      next
        case False
        with r p obtain verified e public s3 where v: "verify_all A (drop k (br_txs b)) d = (Ok (verified, e) :: (unit, _) res)"
          "finalize_transactions A (br_height b) (time_millis (br_time b)) k (zip (drop k (br_txs b)) verified) s2 = Ok (public, s3)"
          by (auto simp: finalize_public_def)
        have f3: "follows_state ?C (cs_state x) s3"
          using follows_state_trans [OF f2] finalize_transactions_spec [OF v(2)] by blast
        let ?last = "bindr (close_block A (br_height b) s3) (\<lambda>s.
            bindr (persistence (preview_state_root (ap_store A) (cr_store R) (Some (cs_state x)) s)) (\<lambda>h. Ok (s, h)))"
        show ?thesis
        proof (cases ?last)
          case e: (Ok w)
          obtain s h where w: "w = (s, h)" by (cases w)
          have "close_block A (br_height b) s3 = Ok s" using e w by auto
          then have "follows_state ?C (cs_state x) s"
            by (rule follows_state_trans [OF f3 same_frame_follows [OF close_block_frame]])
          moreover have "preview_state_root (ap_store A) (cr_store R) (Some (cs_state x)) s = Ok h"
            using e w by (auto simp: persistence_def)
          moreover have "R' = R\<lparr>cr_cache := e, cr_pending := Some \<lparr>cs_state = s, cs_app_hash = h\<rparr>\<rparr>"
            "\<exists>f. r = Ok f"
            using r p v False e w by (auto simp: finalize_public_def)
          ultimately show ?thesis using Some by (auto intro!: pending)
        qed (use r p v False failed in \<open>auto simp: finalize_public_def\<close>)
      qed
    qed (use assms Some Ok q failed in \<open>auto simp: finalize_block_def\<close>)
  qed (use assms Some failed in \<open>auto simp: finalize_block_def\<close>)
qed

section \<open>The invariant of a node\<close>

text \<open>
  The store holds the committed state under its application hash, a pending state has the hash that the
  store will compute for it, and the event logs are hash chains.
\<close>

definition pending_ok :: "('nk, 'nd) app_env \<Rightarrow> store \<Rightarrow> chain_snapshot \<Rightarrow> chain_snapshot \<Rightarrow> bool" where
  "pending_ok A st x y \<longleftrightarrow> log_ok (app_crypto A) (cs_state y) \<and>
     preview_state_root (ap_store A) st (Some (cs_state x)) (cs_state y) = Ok (cs_app_hash y)"

definition durable ::
  "('nk, 'nd) app_env \<Rightarrow> (('nk \<Rightarrow> 'nd option) \<Rightarrow> nat \<Rightarrow> content \<Rightarrow> bool) \<Rightarrow> (content \<Rightarrow> bytes) \<Rightarrow> chain_runtime \<Rightarrow> bool" where
  "durable A T rt R \<longleftrightarrow>
     (case cr_committed R of
        None \<Rightarrow> cr_store R = empty_store \<and> cr_pending R = None
      | Some x \<Rightarrow>
          (\<exists>v. store_holds (ap_store A) T rt (cr_store R) v (cs_state x)) \<and>
          compute_state_root (ap_store A) (cs_state x) = Ok (cs_app_hash x) \<and> log_ok (app_crypto A) (cs_state x) \<and>
          (\<forall>y. cr_pending R = Some y \<longrightarrow> pending_ok A (cr_store R) x y))"

text \<open>
  Assumptions on the states of a run: each can be stored, and no two keys or notes of the committed and
  the pending state have colliding hashes.
\<close>

definition storable :: "('nk, 'nd) app_env \<Rightarrow> chain_runtime \<Rightarrow> bool" where
  "storable A R \<longleftrightarrow>
     (\<forall>x. cr_committed R = Some x \<longrightarrow> state_stored (se_shielded (ap_store A)) (cs_state x) \<and>
       (\<forall>y. cr_pending R = Some y \<longrightarrow> state_stored (se_shielded (ap_store A)) (cs_state y) \<and>
         notes_distinguished (se_shielded (ap_store A)) (cs_state x) (cs_state y) \<and>
         keys_distinguished (ap_store A) (cs_state x) (cs_state y)))"

text \<open>The event numbers of a state that was received as a snapshot are used up.\<close>

definition events_numbered :: "chain_runtime \<Rightarrow> bool" where
  "events_numbered R \<longleftrightarrow>
     (\<forall>x. cr_committed R = Some x \<longrightarrow> (\<forall>ev \<in> set (es_event_log (cs_state x)). ev_sequence ev \<le> es_sequence (cs_state x)))"

text \<open>The runs of a node: it opens an empty store, answers requests, and may stop and open its store again.\<close>

inductive node_run :: "('nk, 'nd) app_env \<Rightarrow> genesis_env \<Rightarrow> chain_runtime \<Rightarrow> bool" for A G where
  opened: "open_runtime A empty_store v = Ok R \<Longrightarrow> node_run A G R"
| answered: "node_run A G R \<Longrightarrow> call A G rq R = Ok (r, R') \<Longrightarrow> storable A R' \<Longrightarrow> installs rq \<longrightarrow> events_numbered R' \<Longrightarrow>
    node_run A G R'"
| restarted: "node_run A G R \<Longrightarrow> open_runtime A (cr_store R) v = Ok R' \<Longrightarrow> node_run A G R'"

lemma genesis_log:
  assumes "genesis_of A G rq = Ok s"
  shows "log_ok C s"
proof -
  have accounts: "foldr_res (genesis_account D) xs s0 = Ok s1 \<Longrightarrow> es_event_log s1 = es_event_log s0"
    for D xs and s0 s1 :: state
    by (induction xs arbitrary: s0) (auto simp: genesis_account_def case_prod_beta)
  have "es_event_log s = []"
    using assms by (auto simp: genesis_of_def genesis_application_state_def genesis_def Let_def dest!: accounts)
  then show ?thesis by (simp add: log_ok_def chain_def)
qed

lemma open_empty: "open_runtime A empty_store v = Ok R \<Longrightarrow> cr_committed R = None \<and> cr_pending R = None \<and> cr_store R = empty_store"
  by (auto simp: open_runtime_def Let_def load_state_def read_metadata_def empty_store_def read_entities_def om_entries_def
      decode_state_def persistence_def)

text \<open>Opening the store of a durable runtime gives its committed state.\<close>

lemma durable_open:
  assumes law: "jmt_law (se_jmt (ap_store A)) T rt" and c: "store_codecs_ok (ap_store A)"
    and d: "durable A T rt R" and s: "storable A R"
  shows "\<exists>R'. open_runtime A (cr_store R) v = Ok R' \<and> cr_committed R' = cr_committed R \<and> cr_pending R' = None \<and>
    cr_store R' = cr_store R"
proof (cases "cr_committed R")
  case None
  then have "cr_store R = empty_store" using d by (simp add: durable_def)
  then show ?thesis using None
    by (simp add: open_runtime_def Let_def load_state_def read_metadata_def empty_store_def read_entities_def om_entries_def
        decode_state_def persistence_def)
next
  case (Some x)
  then obtain n where h: "store_holds (ap_store A) T rt (cr_store R) n (cs_state x)"
    and rt: "compute_state_root (ap_store A) (cs_state x) = Ok (cs_app_hash x)" and log: "log_ok (app_crypto A) (cs_state x)"
    using d by (auto simp: durable_def)
  have st: "state_stored (se_shielded (ap_store A)) (cs_state x)" using s Some by (simp add: storable_def)
  have "load_state (ap_store A) (cr_store R) = Ok (Some \<lparr>ss_state = cs_state x, ss_app_hash = cs_app_hash x, ss_version = n\<rparr>)"
    by (rule load_holds [OF law c st h rt])
  moreover have "verify (app_crypto A) (es_event_log (cs_state x))" using log by (simp add: verify_eq_chain log_ok_def)
  ultimately show ?thesis
    using rt Some by (simp add: open_runtime_def Let_def persistence_def compute_app_hash_def)
qed

lemma durable_core: "core R' = core R \<Longrightarrow> durable A T rt R' = durable A T rt R"
  by (cases "cr_committed R") (simp_all add: durable_def core_def)

lemma install_cases:
  assumes "call A G rq R = Ok (r, R')" and "installs rq"
  obtains (kept) "core R' = core R"
  | (mismatch) s st h h' where "compute_app_hash (ap_store A) s = Ok h" "replace_state (ap_store A) s (cr_store R) = Ok (h', st)" "h' \<noteq> h"
  | (installed) s h where "compute_app_hash (ap_store A) s = Ok h" "replace_state (ap_store A) s (cr_store R) = Ok (h, cr_store R')"
      "cr_committed R' = Some \<lparr>cs_state = s, cs_app_hash = h\<rparr>" "cr_pending R' = None"
      "verify (app_crypto A) (es_event_log s)"
proof -
  have healthy: "verify (app_crypto A) (es_event_log s)"
    if "finalize_import (ap_sync A) (ap_store A) (app_engine A) im = Ok s" for im s
    using that by (auto simp: finalize_import_def Let_def audit_state_def state_error_def split: if_splits prod.splits)
  have install: "thesis" if i: "install_snapshot A im (R\<lparr>cr_import := j\<rparr>) = Ok (y, R')" for im j y
  proof (cases "finalize_import (ap_sync A) (ap_store A) (app_engine A) im")
    case (Ok s)
    show ?thesis
    proof (cases "compute_app_hash (ap_store A) s")
      case h: (Ok h)
      show ?thesis
      proof (cases "blocks_committed (R\<lparr>cr_import := j\<rparr>) \<or> other_chain (es_chain_id s) (R\<lparr>cr_import := j\<rparr>)")
        case True
        then show ?thesis using i Ok h kept by (auto simp: install_snapshot_def)
      next
        case False
        show ?thesis
        proof (cases "replace_state (ap_store A) s (cr_store R)")
          case w: (Ok w)
          obtain h' st where w2: "w = (h', st)" by (cases w)
          show ?thesis
          proof (cases "h' = h")
            case True
            then show ?thesis using i Ok h False w w2 healthy [OF Ok] by (intro installed [of s h]) (auto simp: install_snapshot_def)
          next
            case False
            then show ?thesis using h w w2 by (intro mismatch [of s h h' st]) simp_all
          qed
        qed (use i Ok h False kept in \<open>auto simp: install_snapshot_def\<close>)
      qed
    qed (use i Ok kept in \<open>auto simp: install_snapshot_def\<close>)
  qed (use i kept in \<open>auto simp: install_snapshot_def\<close>)
  obtain index chunk sender where rq: "rq = ApplySnapshotChunk index chunk sender"
    using assms(2) by (auto simp: installs_def split: request.splits)
  then obtain y where y: "apply_snapshot_chunk A index chunk sender R = Ok (y, R')" using assms(1) by (auto simp: respond_Ok)
  show ?thesis
  proof (cases "cr_import R")
    case None
    then show ?thesis using y kept by (auto simp: apply_snapshot_chunk_def)
  next
    case (Some im)
    with y obtain e where e: "expected_index im = (Ok e :: nat run)" by (auto simp: apply_snapshot_chunk_def)
    show ?thesis
    proof (cases "apply_chunk (ap_sync A) index chunk im")
      case (Ok z)
      then show ?thesis using y Some e install kept by (auto simp: apply_snapshot_chunk_def Let_def split: prod.splits if_splits)
    next
      case (Err z)
      then show ?thesis using y Some e kept by (cases z) (auto simp: apply_snapshot_chunk_def)
    next
      case Panic
      then show ?thesis using y Some e by (simp add: apply_snapshot_chunk_def)
    qed
  qed
qed

lemma commit_step:
  assumes law: "jmt_law (se_jmt (ap_store A)) T rt" and c: "store_codecs_ok (ap_store A)"
    and d: "durable A T rt R" and s: "storable A R" and ok: "call A G CommitBlock R = Ok (r, R')"
  shows "durable A T rt R'"
proof -
  from ok obtain y where "commit A R = Ok (y, R')" by (auto simp: try_respond_Ok)
  moreover have step: "store_holds (ap_store A) T rt st' (Suc v) (cs_state p) \<and>
      compute_state_root (ap_store A) (cs_state p) = Ok h \<and> h = cs_app_hash p \<and> log_ok (app_crypto A) (cs_state p)"
    if "cr_committed R = Some x" "cr_pending R = Some p" "store_holds (ap_store A) T rt (cr_store R) v (cs_state x)"
      "commit_state (ap_store A) (Some (cs_state x)) (cs_state p) (cr_store R) = Ok (h, st')" for x p v h st'
  proof -
    have "pending_ok A (cr_store R) x p" using d that(1,2) by (simp add: durable_def)
    moreover have "state_stored (se_shielded (ap_store A)) (cs_state x)" "state_stored (se_shielded (ap_store A)) (cs_state p)"
      "notes_distinguished (se_shielded (ap_store A)) (cs_state x) (cs_state p)" "keys_distinguished (ap_store A) (cs_state x) (cs_state p)"
      using s that(1,2) by (simp_all add: storable_def)
    note commit_next [OF law c this that(3,4)]
    ultimately show ?thesis by (auto simp: pending_ok_def)
  qed
  ultimately show ?thesis
  proof (cases rule: commit_cases)
    case (failed e)
    then show ?thesis using d durable_core by blast
  next
    case (mismatch p h)
    then obtain x where x: "cr_committed R = Some x" using d by (cases "cr_committed R") (auto simp: durable_def)
    then obtain v where "store_holds (ap_store A) T rt (cr_store R) v (cs_state x)" using d by (auto simp: durable_def)
    from step [OF x mismatch(2) this] mismatch x have False by auto
    then show ?thesis ..
  next
    case (committed p)
    then obtain x where x: "cr_committed R = Some x" using d by (cases "cr_committed R") (auto simp: durable_def)
    then obtain v where "store_holds (ap_store A) T rt (cr_store R) v (cs_state x)" using d by (auto simp: durable_def)
    from step [OF x committed(2) this] committed x show ?thesis by (auto simp: durable_def)
  qed
qed

lemma call_durable:
  assumes law: "jmt_law (se_jmt (ap_store A)) T rt" and c: "store_codecs_ok (ap_store A)"
    and d: "durable A T rt R" and s: "storable A R" and ok: "call A G rq R = Ok (r, R')" and e: "installs rq \<longrightarrow> events_numbered R'"
  shows "durable A T rt R'"
proof (cases "writes_core rq")
  case False
  then show ?thesis using call_core [OF ok] durable_core d by blast
next
  case True
  then consider (init) ic where "rq = InitChain ic" | (finalize) b where "rq = FinalizeBlock b" | (commit) "rq = CommitBlock"
    | (install) "installs rq"
    by (auto simp: writes_core_def installs_def split: request.splits)
  then show ?thesis
  proof cases
    case init
    from ok [unfolded init] show ?thesis
    proof (cases rule: initialize_cases)
      case kept
      then show ?thesis using d durable_core by blast
    next
      case (first s h)
      have "cr_store R = empty_store" "cr_pending R = None" using d first(1) by (simp_all add: durable_def)
      then show ?thesis
        using first commit_initial [OF law c, of s h "cr_store R'"] genesis_log [OF first(2)] by (auto simp: durable_def)
    qed
  next
    case finalize
    then obtain y where "finalize_block A b R = Ok (y, R')" using ok by (auto simp: try_respond_Ok)
    then show ?thesis
    proof (cases rule: finalize_block_cases)
      case failed
      then show ?thesis using d durable_core by blast
    next
      case (pending x y f)
      then show ?thesis using d by (auto simp: durable_def pending_ok_def follows_state_def)
    qed
  next
    case commit
    then show ?thesis using commit_step [OF law c d s] ok by blast
  next
    case install
    from ok install show ?thesis
    proof (cases rule: install_cases)
      case kept
      then show ?thesis using d durable_core by blast
    next
      case (mismatch t st h h')
      from replace_holds(2) [OF law c mismatch(2)] mismatch(1,3) show ?thesis by (simp add: compute_app_hash_def)
    next
      case (installed t h)
      have "log_ok (app_crypto A) t"
        using e install installed(3,5) by (simp add: log_ok_def verify_eq_chain events_numbered_def)
      then show ?thesis using installed replace_holds [OF law c installed(2)] by (auto simp: durable_def)
    qed
  qed
qed

lemma node_run_durable:
  assumes law: "jmt_law (se_jmt (ap_store A)) T rt" and c: "store_codecs_ok (ap_store A)" and "node_run A G R"
  shows "durable A T rt R \<and> storable A R"
  using assms(3)
proof (induction rule: node_run.induct)
  case (opened v R)
  then show ?case using open_empty by (fastforce simp: durable_def storable_def)
next
  case (answered R rq r R')
  then show ?case using call_durable [OF law c, of R G rq r R'] by blast
next
  case (restarted R v R')
  obtain R2 where R2: "open_runtime A (cr_store R) v = Ok R2" "cr_committed R2 = cr_committed R" "cr_pending R2 = None" "cr_store R2 = cr_store R"
    using durable_open [OF law c, of R v] restarted.IH by blast
  then have "R' = R2" using restarted.hyps by simp
  then show ?case using restarted.IH R2 by (auto simp: durable_def storable_def split: option.splits)
qed

section \<open>The committed state over a run\<close>

definition descends_from :: "('nk, 'nd) app_env \<Rightarrow> state \<Rightarrow> chain_runtime \<Rightarrow> bool" where
  "descends_from A s R \<longleftrightarrow> (\<exists>x. cr_committed R = Some x \<and> follows_state (app_crypto A) s (cs_state x)) \<and>
     (\<forall>y. cr_pending R = Some y \<longrightarrow> follows_state (app_crypto A) s (cs_state y))"

lemma descends_core: "core R' = core R \<Longrightarrow> descends_from A s R' = descends_from A s R"
  by (simp add: descends_from_def core_def)

lemma call_descends:
  assumes "call A G rq R = Ok (r, R')" and "\<not> installs rq" and "descends_from A s R"
  shows "descends_from A s R'"
proof (cases "writes_core rq")
  case False
  then show ?thesis using call_core [OF assms(1)] descends_core assms(3) by blast
next
  case True
  then consider (init) ic where "rq = InitChain ic" | (finalize) b where "rq = FinalizeBlock b" | (commit) "rq = CommitBlock"
    using assms(2) by (auto simp: writes_core_def installs_def split: request.splits)
  then show ?thesis
  proof cases
    case init
    from assms(1) [unfolded init] show ?thesis
      by (cases rule: initialize_cases) (use assms(3) descends_core in \<open>auto simp: descends_from_def core_def\<close>)
  next
    case finalize
    then obtain y where "finalize_block A b R = Ok (y, R')" using assms(1) by (auto simp: try_respond_Ok)
    then show ?thesis
    proof (cases rule: finalize_block_cases)
      case failed
      then show ?thesis using assms(3) descends_core by blast
    next
      case (pending x y f)
      then show ?thesis using assms(3) by (auto simp: descends_from_def intro: follows_state_trans)
    qed
  next
    case commit
    then obtain y where "Consensus_App.commit A R = Ok (y, R')" using assms(1) by (auto simp: try_respond_Ok)
    then show ?thesis
      by (cases rule: commit_cases) (use assms(3) descends_core in \<open>auto simp: descends_from_def core_def\<close>)
  qed
qed

lemma calls_descend:
  "calls A G rqs R = Ok (rs, R') \<Longrightarrow> \<forall>rq \<in> set rqs. \<not> installs rq \<Longrightarrow> descends_from A s R \<Longrightarrow> descends_from A s R'"
  by (induction rqs arbitrary: R rs) (auto dest: call_descends)

end
