(* ===== verification/Consensus_Proposal.thy ===== *)
theory Consensus_Proposal
  imports Consensus_Blocks
begin

text \<open>A proposal that a node prepares is accepted by every node with the same committed state.\<close>

lemma bundle_round_trip:
  assumes "\<And>db bs. pv_bundle_json V db = Some bs \<Longrightarrow> pv_bundle_parse V bs = Some db" and "bundle_to_bytes V db = Ok bs"
  shows "bundle_from_bytes V bs = Ok db"
  using assms by (auto simp: bundle_to_bytes_def bundle_from_bytes_def canonical_encode_def canonical_decode_def check_encoded_size_def
      ok_or_def split: option.splits if_splits)

lemma system_transaction_decodes:
  assumes "\<And>db bs. pv_bundle_json (app_protocol A) db = Some bs \<Longrightarrow> pv_bundle_parse (app_protocol A) bs = Some db"
    and "encode_private_system_transaction (app_protocol A) db = Ok tx"
  shows "decode_stateless A tx = Ok (PrivateSystem db)"
proof -
  obtain bs where bs: "bundle_to_bytes (app_protocol A) db = Ok bs" "tx = PRIVATE_SYSTEM_TX_PREFIX @ bs" "length tx \<le> MAX_TRANSACTION_BYTES"
    using assms(2) by (auto simp: encode_private_system_transaction_def invalid_transaction_def Let_def split: if_splits)
  then have "strip_prefix PRIVATE_SYSTEM_TX_PREFIX tx = Some bs" by (simp add: strip_prefix_def)
  then show ?thesis
    using bundle_round_trip [OF assms(1) bs(1)] bs(3)
    by (simp add: decode_stateless_def decode_transaction_def decode_private_system_transaction_def invalid_transaction_def)
qed

text \<open>The selected transactions are signed, and run one after the other on the state of the block.\<close>

lemma select_runs:
  assumes "select_transactions A rq txs selected n s no_cache = Ok (out, c)"
  shows "\<exists>new vs t. out = selected @ new \<and> map (decode_signed A) new = map Ok vs \<and>
    run_all A (pr_height rq) (time_millis (pr_time rq)) (length selected) vs s = Ok t"
  using assms
proof (induction txs arbitrary: selected n s)
  case (Cons tx txs)
  show ?case
  proof (cases "pr_max_tx_bytes rq < min (2 ^ 63 - 1) (n + int (length tx))")
    case True
    then have "out = selected" using Cons.prems by simp
    then show ?thesis by (intro exI [of _ "[]"]) simp
  next
    case False
    have step: "(case decode_signed A tx of
          Ok v \<Rightarrow>
            (case run_transaction A (pr_height rq) (time_millis (pr_time rq)) (length selected) v s of
               (Ok _, s) \<Rightarrow> select_transactions A rq txs (selected @ [tx]) (n + int (length tx)) s no_cache
             | (Err _, s) \<Rightarrow> select_transactions A rq txs selected n s no_cache
             | (Panic, s) \<Rightarrow> Panic)
        | Err _ \<Rightarrow> select_transactions A rq txs selected n s no_cache
        | Panic \<Rightarrow> Panic) = Ok (out, c)"
      using Cons.prems by (simp only: select_transactions.simps False if_False verify_uncached bindr.simps prod.case)
    show ?thesis
    proof (cases "decode_signed A tx")
      case (Ok v)
      obtain r t where r: "run_transaction A (pr_height rq) (time_millis (pr_time rq)) (length selected) v s = (r, t)" by fastforce
      show ?thesis
      proof (cases r)
        case r2: (Ok a)
        then have "select_transactions A rq txs (selected @ [tx]) (n + int (length tx)) t no_cache = Ok (out, c)"
          using step Ok r by simp
        from Cons.IH [OF this] obtain new vs u where "out = (selected @ [tx]) @ new" "map (decode_signed A) new = map Ok vs"
          "run_all A (pr_height rq) (time_millis (pr_time rq)) (Suc (length selected)) vs t = Ok u" by auto
        then show ?thesis using Ok r r2 by (intro exI [of _ "tx # new"] exI [of _ "v # vs"] exI [of _ u]) simp
      next
        case (Err e)
        then have "t = s" using run_transaction_Err [OF r] by simp
        then show ?thesis using Cons.IH step Ok r Err by simp
      next
        case Panic
        then show ?thesis using r run_transaction_no_panic by blast
      qed
    qed (use Cons.IH step in simp_all)
  qed
next
  case Nil
  then show ?case by (intro exI [of _ "[]"]) simp
qed

lemma signed_not_private:
  assumes "decode_signed A tx = Ok v"
  shows "\<not> private_tx A tx"
proof -
  obtain t where t: "decode_stateless A tx = Ok t" "as_signed t = Ok v" using assms by (auto simp: decode_signed_def)
  then show ?thesis by (cases t) (simp_all add: as_signed_def private_tx_def is_private_system_def)
qed

lemma all_signed: "map (decode_signed A) txs = map Ok vs \<Longrightarrow> \<forall>tx \<in> set txs. \<not> private_tx A tx"
proof
  fix tx
  assume m: "map (decode_signed A) txs = map Ok vs" and "tx \<in> set txs"
  then have "decode_signed A tx \<in> set (map Ok vs)" by (metis image_eqI list.set_map)
  then show "\<not> private_tx A tx" using signed_not_private by auto
qed

text \<open>The transactions of the block after its private batch, as \<open>prepare_proposal\<close> and \<open>process_proposal\<close> run them.\<close>

definition proposal_of :: "prepare_request \<Rightarrow> bytes list \<Rightarrow> block_request" where
  "proposal_of rq txs = \<lparr>br_height = pr_height rq, br_time = pr_time rq, br_txs = txs\<rparr>"

lemma prepared:
  assumes codec: "\<And>db bs. pv_bundle_json (app_protocol A) db = Some bs \<Longrightarrow> pv_bundle_parse (app_protocol A) bs = Some db"
    and "cr_committed R = Some x" and "prepare_proposal A rq (uncached R) = Ok (txs, R1)"
    and "expects_system (cs_state x) (pr_height rq) \<longrightarrow> txs \<noteq> []"
  obtains k s vs t results where
    "block_system A (cs_state x) (proposal_of rq txs) (open_block (pr_height rq) (pr_time rq) (cs_state x)) = Ok (results, k, s)"
    and "map (decode_signed A) (drop k txs) = map Ok vs"
    and "run_all A (pr_height rq) (time_millis (pr_time rq)) k vs s = Ok t"
proof (cases "expects_system (cs_state x) (pr_height rq)")
  case False
  let ?s = "open_block (pr_height rq) (pr_time rq) (cs_state x)"
  obtain c where "select_transactions A rq (pr_txs rq) [] 0 ?s no_cache = Ok (txs, c)"
    using assms(2,3) False by (auto simp: prepare_proposal_def Let_def)
  from select_runs [OF this] obtain vs t where "map (decode_signed A) txs = map Ok vs"
    "run_all A (pr_height rq) (time_millis (pr_time rq)) 0 vs ?s = Ok t" by auto
  then show ?thesis using False by (intro that [of "[]" 0 ?s]) (simp_all add: block_system_def proposal_of_def)
next
  case True
  let ?s = "open_block (pr_height rq) (pr_time rq) (cs_state x)"
  let ?p = "prepare_private_batch A (cs_state x) rq ?s"
  obtain tx s where p: "?p = Ok (tx, s)"
  proof (cases ?p)
    case (Err e)
    then have "txs = []" using assms(2,3) True by (simp add: prepare_proposal_def Let_def)
    then show ?thesis using assms(4) True by simp
  next
    case Panic
    then show ?thesis using assms(2,3) True by (simp add: prepare_proposal_def Let_def)
  qed (use that in fastforce)
  then obtain c where sel: "select_transactions A rq (pr_txs rq) [tx] (int (length tx)) s no_cache = Ok (txs, c)"
    using assms(2,3) True by (auto simp: prepare_proposal_def Let_def)
  from p obtain db y where db: "encode_private_system_transaction (app_protocol A) db = Ok tx"
    "execute_system A (cs_state x) db (pr_height rq) ?s = Ok (y, s)"
    by (auto simp: prepare_private_batch_def Let_def split: if_splits)
  note d = system_transaction_decodes [OF codec db(1)]
  from select_runs [OF sel] obtain new vs t where "txs = tx # new" "map (decode_signed A) new = map Ok vs"
    "run_all A (pr_height rq) (time_millis (pr_time rq)) 1 vs s = Ok t" by auto
  then show ?thesis using True d db(2) by (intro that [of "[private_system_execution_result A y (length tx)]" 1 s])
      (simp_all add: block_system_def proposal_of_def)
qed

lemma process_accepts:
  assumes x: "cr_committed R = Some x"
    and system: "block_system A (cs_state x) b (open_block (br_height b) (br_time b) (cs_state x)) = Ok (results, k, s)"
    and signed: "map (decode_signed A) (drop k (br_txs b)) = map Ok vs"
    and run: "run_all A (br_height b) (time_millis (br_time b)) k vs s = Ok t"
  shows "process_proposal A b (uncached R) = Ok (Accept, uncached R)"
proof -
  note public = all_signed [OF signed]
  have traverse: "traverse id (map Ok vs) = (Ok vs :: verified_transaction list con)" by (induction vs) simp_all
  have finish: "bindr (any_private_system A (drop k (br_txs b)) no_cache) (\<lambda>(private, c).
      if private then Ok (Reject, uncached R\<lparr>cr_cache := c\<rparr>)
      else
        bindr (verify_all A (drop k (br_txs b)) c) (\<lambda>(verified, c).
        case bindr (traverse id verified) (\<lambda>vs. run_all A (br_height b) (time_millis (br_time b)) k vs s) of
          Ok _ \<Rightarrow> Ok (Accept, uncached R\<lparr>cr_cache := c\<rparr>)
        | Err _ \<Rightarrow> Ok (Reject, uncached R\<lparr>cr_cache := c\<rparr>)
        | Panic \<Rightarrow> Panic)) = (Ok (Accept, uncached R) :: (proposal_status \<times> chain_runtime) run)"
    using public run by (simp add: any_private_uncached verify_all_uncached signed traverse)
  show ?thesis
  proof (cases "expects_system (cs_state x) (br_height b)")
    case True
    from system show ?thesis
    proof (cases rule: block_system_Ok)
      case public_only
      then show ?thesis using True by simp
    next
      case (private_batch tx rest db y)
      have "first_bundle (br_txs b) A no_cache = Ok (Ok (tx, db), no_cache)"
        by (simp add: first_bundle_def private_batch(1,2) decode_uncached)
      then show ?thesis
        by (simp only: process_proposal_def Let_def uncached_fields x option.case True if_True bindr.simps prod.case
            private_batch(3) res.case finish [unfolded private_batch(5)])
    qed
  next
    case False
    then have k: "k = 0" "s = open_block (br_height b) (br_time b) (cs_state x)"
      using system by (simp_all add: block_system_def)
    have "any_private_system A (take 1 (br_txs b)) no_cache = (Ok (False, no_cache) :: (unit, _) res)"
      using public k(1) by (cases "br_txs b") (simp_all add: any_private_uncached)
    then show ?thesis using x False finish k by (simp only: process_proposal_def Let_def option.case uncached_fields if_False
          bindr.simps prod.case)
  qed
qed

lemma run_all_codes:
  assumes "run_all A height time i vs s = Ok t" and "length txs = length vs"
  shows "\<exists>rs. finalize_transactions A height time i (zip txs (map Ok vs)) s = Ok (rs, t) \<and> (\<forall>r \<in> set rs. er_code r = 0)"
  using assms
proof (induction vs arbitrary: i s txs)
  case (Cons v vs)
  obtain tx rest where txs: "txs = tx # rest" using Cons.prems(2) by (cases txs) auto
  obtain r u where r: "run_transaction A height time i v s = (r, u)" by fastforce
  then obtain a where a: "r = Ok a" using Cons.prems(1) by (cases r) auto
  then have "run_all A height time (Suc i) vs u = Ok t" using Cons.prems(1) r by simp
  from Cons.IH [OF this, of rest] obtain rs where
    "finalize_transactions A height time (Suc i) (zip rest (map Ok vs)) u = Ok (rs, t)" "\<forall>r \<in> set rs. er_code r = 0"
    using Cons.prems(2) txs by auto
  then show ?case using txs r a by (simp add: execution_result_def)
qed simp

lemma block_codes:
  assumes system: "block_system A (cs_state x) b (open_block (br_height b) (br_time b) (cs_state x)) = Ok (results, k, s)"
    and signed: "map (decode_signed A) (drop k (br_txs b)) = map Ok vs"
    and run: "run_all A (br_height b) (time_millis (br_time b)) k vs s = Ok t"
    and anchor: "pending_at (cs_state x) (br_height b - 1) = []" and "block_state A x b = Ok (rs, s')" and "r \<in> set rs"
  shows "er_code r = 0"
proof -
  have len: "length (drop k (br_txs b)) = length vs" using signed by (metis length_map)
  obtain public where f: "finalize_transactions A (br_height b) (time_millis (br_time b)) k (zip (drop k (br_txs b)) (map Ok vs)) s =
      Ok (public, t)" "\<forall>r \<in> set public. er_code r = 0"
    using run_all_codes [OF run len] by blast
  have "anchor_private_batch x (br_height b) (open_block (br_height b) (br_time b) (cs_state x)) =
      Ok (open_block (br_height b) (br_time b) (cs_state x))"
    using anchor by (simp add: anchor_private_batch_def)
  then have "rs = results @ public"
    using assms(5) system signed f by (auto simp: block_state_def Let_def split: if_splits)
  moreover from system have "\<forall>r \<in> set results. er_code r = 0"
    by (cases rule: block_system_Ok) (simp_all add: private_system_execution_result_def)
  ultimately show ?thesis using f(2) assms(6) by auto
qed

end
