(* ===== verification/Consensus_Chain.thy ===== *)
theory Consensus_Chain
  imports Consensus_Recovery Consensus_Proposal Store_Theorems "HOL-Library.Code_Target_Nat" "HOL-Library.Code_Target_Int"
begin

text \<open>
  A small chain on which the properties of a node are applied: one market, an authority and one signed
  transaction that credits an account. A codec writes the position of a value in the list of the values
  that occur, and the tree of the store keeps the whole content in its root.
\<close>

text \<open>The loop of the cache is unfolded to evaluate it.\<close>

declare evict.simps [code]

section \<open>Codecs\<close>

fun place_of :: "'a \<Rightarrow> 'a list \<Rightarrow> nat option" where
  "place_of x [] = None"
| "place_of x (y # ys) = (if x = y then Some 0 else map_option Suc (place_of x ys))"

definition index_codec :: "'a list \<Rightarrow> 'a codec" where
  "index_codec xs =
     \<lparr>cd_json = (\<lambda>x. map_option (\<lambda>i. [i]) (place_of x xs)),
      cd_parse = (\<lambda>bs. case bs of [i] \<Rightarrow> if i < length xs then Some (xs ! i) else None | _ \<Rightarrow> None)\<rparr>"

lemma position_nth: "place_of x xs = Some i \<Longrightarrow> i < length xs \<and> xs ! i = x"
  by (induction xs arbitrary: i) (auto split: if_splits)

lemma index_codec_ok: "codec_ok (index_codec xs)"
  by (auto simp: codec_ok_def index_codec_def dest: position_nth)

fun put_rows :: "(bytes, bytes) omap \<Rightarrow> bytes" where
  "put_rows [] = []"
| "put_rows ((k, v) # t) = length k # k @ length v # v @ put_rows t"

definition take_bytes :: "bytes \<Rightarrow> (bytes \<times> bytes) option" where
  "take_bytes bs = (case bs of [] \<Rightarrow> None | n # bs \<Rightarrow> Some (take n bs, drop n bs))"

fun get_rows :: "nat \<Rightarrow> bytes \<Rightarrow> (bytes, bytes) omap option" where
  "get_rows 0 bs = (if bs = [] then Some [] else None)"
| "get_rows (Suc n) bs =
     (if bs = [] then Some []
      else
        (case take_bytes bs of
           None \<Rightarrow> None
         | Some (k, bs) \<Rightarrow>
             (case take_bytes bs of
                None \<Rightarrow> None
              | Some (v, bs) \<Rightarrow> map_option ((#) (k, v)) (get_rows n bs))))"

lemma get_put_rows: "length t \<le> n \<Longrightarrow> get_rows n (put_rows t) = Some t"
proof (induction t arbitrary: n)
  case Nil
  then show ?case by (cases n) simp_all
next
  case (Cons p t)
  then show ?case by (cases n; cases p) (simp_all add: take_bytes_def)
qed

lemma length_put_rows: "length t \<le> length (put_rows t)"
  by (induction t rule: put_rows.induct) simp_all

definition rows_codec :: "(bytes, bytes) omap codec" where
  "rows_codec = \<lparr>cd_json = (\<lambda>t. Some (put_rows t)), cd_parse = (\<lambda>bs. get_rows (length bs) bs)\<rparr>"

lemma rows_codec_ok: "codec_ok rows_codec"
  by (simp add: codec_ok_def rows_codec_def get_put_rows length_put_rows)

section \<open>The chain\<close>

definition x_signer :: account_id where "x_signer = ''ed25519:'' @ replicate 64 (CHR ''0'')"

definition x_market :: market_state where
  "x_market = \<lparr>ms_config = standard_config ''BTC'' (1 / 10), ms_mark_price = 60000, ms_funding_rate = 0, ms_funding_index = 0\<rparr>"

definition x_dec :: dec_ops where
  "x_dec = \<lparr>d_add = (\<lambda>a b. Some (a + b)), d_sub = (\<lambda>a b. Some (a - b)), d_mul = (\<lambda>a b. Some (a * b)),
     d_div = (\<lambda>a b. if b = 0 then None else Some (a / b)), d_rem = (\<lambda>a b. None), d_mantissa = (\<lambda>a. 0), d_scale = (\<lambda>a. 0)\<rparr>"

definition x_engine :: engine_env where
  "x_engine = \<lparr>en_dec = x_dec, en_crypto = \<lparr>ev_json = (\<lambda>_. []), ev_sha = (\<lambda>_. []), ev_hex = (\<lambda>_. ''h'')\<rparr>,
     en_from_millis = (\<lambda>t. Some t)\<rparr>"

definition x_curve :: curve where
  "x_curve = \<lparr>cv_order = 7, cv_canonical = (\<lambda>_. False), cv_add = (\<lambda>a b. a), cv_mul = (\<lambda>n a. a), cv_base = [], cv_identity = [],
     cv_invert = (\<lambda>n. n), cv_scalar_bytes = (\<lambda>_. []), cv_scalar_of = (\<lambda>_. None), cv_hash_scalar = (\<lambda>_. 1), cv_hash_point = (\<lambda>_. []),
     cv_sha = (\<lambda>b. b), cv_hkdf = (\<lambda>_ _ _. None), cv_seal = (\<lambda>_ _ _ _. None), cv_open = (\<lambda>_ _ _ _ _. None)\<rparr>"

definition x_protocol :: protocol_env where
  "x_protocol = \<lparr>pv_curve = x_curve, pv_submission_json = (\<lambda>_. None), pv_signing_json = (\<lambda>_. None), pv_payload_json = (\<lambda>_. None),
     pv_payload_parse = (\<lambda>_. None), pv_key_parses = (\<lambda>_. False), pv_key_weak = (\<lambda>_. True), pv_verify_strict = (\<lambda>_ _ _. False),
     pv_hex = (\<lambda>_. []), pv_public_key = (\<lambda>_. []), pv_sign = (\<lambda>_ _. []), pv_submission_parse = (\<lambda>_. None),
     pv_extension_json = (\<lambda>_. None), pv_extension_parse = (\<lambda>_. None), pv_bundle_json = (\<lambda>_. None), pv_bundle_parse = (\<lambda>_. None)\<rparr>"

text \<open>The transaction with nonce \<open>n\<close> is the byte string \<open>[n]\<close>.\<close>

definition x_transaction :: "nat \<Rightarrow> signed_transaction" where
  "x_transaction n = \<lparr>tx_version = 1, tx_chain_id = ''c'', tx_signer = [7], tx_nonce = n, tx_valid_until_height = 10,
     tx_command = CreditAccount ''a'' 5, tx_signature = []\<rparr>"

definition x_chain :: chain_env where
  "x_chain = \<lparr>ce_unsigned_json = (\<lambda>_. Some []), ce_unsigned_parse = (\<lambda>_. None),
     ce_signed_json = (\<lambda>t. if t = x_transaction (tx_nonce t) then Some [tx_nonce t] else None),
     ce_signed_parse = (\<lambda>bs. case bs of [n] \<Rightarrow> Some (x_transaction n) | _ \<Rightarrow> None),
     ce_public_key = (\<lambda>_. [7]), ce_sign = (\<lambda>_ _. []), ce_key_parses = (\<lambda>k. True), ce_verify_strict = (\<lambda>k m s. True),
     ce_sha = (\<lambda>b. b), ce_hex = (\<lambda>b. replicate 64 (CHR ''0'')), ce_unhex = (\<lambda>s. Some (replicate 32 7))\<rparr>"

definition x_genesis :: genesis_state where
  "x_genesis = \<lparr>gs_app_protocol_version = APP_PROTOCOL_VERSION, gs_authority = x_signer, gs_markets = [x_market], gs_initial_balances = [],
     gs_private_order_key_set = None, gs_private_validator_bindings = [], gs_private_order_fee = 1,
     gs_shielded_development = None\<rparr>"

definition x_genesis_env :: genesis_env where
  "x_genesis_env = \<lparr>ge_parse = (\<lambda>bs. if bs = [] then Some x_genesis else None), ge_scale = (\<lambda>_ _ _. 0)\<rparr>"

definition x_init :: request where
  "x_init = InitChain \<lparr>ic_app_state_bytes = [], ic_chain_id = ''c'', ic_validators = [], ic_vote_extensions_enable_height = None,
     ic_initial_height = 1, ic_time = 0\<rparr>"

definition x_block :: "nat \<Rightarrow> bytes list \<Rightarrow> block_request" where
  "x_block h txs = \<lparr>br_height = h, br_time = 0, br_txs = txs\<rparr>"

section \<open>Its states and its store\<close>

definition x_state0 :: state where
  "x_state0 = (genesis ''c'' [x_market])\<lparr>es_authority := x_signer, es_private_order_fee := 1\<rparr>"

definition x_account :: account where
  "x_account = \<lparr>acct_id = ''a'', acct_collateral = 5, acct_reserved_margin = 0, acct_fees_paid = 0, acct_positions = []\<rparr>"

definition x_event :: event where
  "x_event = \<lparr>ev_sequence = 1, ev_timestamp = 0, ev_previous_hash = genesis_hash, ev_hash = ''h'',
     ev_kind = AccountCredited ''a'' 5\<rparr>"

definition x_state1 :: state where
  "x_state1 = x_state0\<lparr>es_height := 1, es_account_nonces := [(x_signer, 1)], es_accounts := [(''a'', x_account)],
     es_sequence := 1, es_total_credits := 5, es_event_log := [x_event]\<rparr>"

definition x_state2 :: state where
  "x_state2 = x_state1\<lparr>es_height := 2\<rparr>"

definition x_codec :: state_codec where
  "x_codec =
     \<lparr>sc_key = index_codec [MetaKey, EventLogKey, AccountNonceKey x_signer, MarketKey ''BTC'', AccountKey ''a'', BookKey ''BTC''],
      sc_meta = index_codec [state_meta_of x_state0, state_meta_of x_state1, state_meta_of x_state2],
      sc_event_log = index_codec [[], [x_event]],
      sc_nonce = index_codec [0, 1], sc_market = index_codec [x_market], sc_account = index_codec [x_account],
      sc_book = index_codec [empty_book], sc_symbol = no_codec,
      sc_uuid = no_codec, sc_oracle = no_codec, sc_key_set = no_codec, sc_pending = no_codec, sc_bonds = no_codec,
      sc_app_hash = no_codec, sc_snapshot = no_codec, sc_header = no_codec, sc_note = no_codec, sc_unit = no_codec\<rparr>"

definition x_store :: "(nat, (bytes, bytes) omap) store_env" where
  "x_store = w_store_env\<lparr>se_codec := x_codec, se_node := rows_codec\<rparr>"

definition x_app :: "(nat, (bytes, bytes) omap) app_env" where
  "x_app = \<lparr>ap_commands = \<lparr>cm_engine = x_engine, cm_protocol = x_protocol, cm_shielded = w_shielded\<rparr>, ap_chain = x_chain,
     ap_store = x_store, ap_sync = \<lparr>sy_metadata = no_codec, sy_state = no_codec, sy_hex = (\<lambda>_. []), sy_unhex = (\<lambda>_. None), sy_sha = (\<lambda>b. b)\<rparr>,
     ap_scale = (\<lambda>_ _ _. 0), ap_result_json = (\<lambda>_. None), ap_execution_json = (\<lambda>_. None), ap_account_json = (\<lambda>_. None),
     ap_market_json = (\<lambda>_. None), ap_audit_json = (\<lambda>_. None), ap_version = ''v''\<rparr>"

section \<open>A run\<close>

text \<open>
  The genesis, a check of the transaction, a block with it, and the same transaction offered again: the
  second check and the second block reject it.
\<close>

definition x_verified :: verified_transaction where
  "x_verified = \<lparr>vt_transaction = x_transaction 0, vt_signer = x_signer, vt_tx_hash = [0]\<rparr>"

definition x_applied :: applied_transaction where
  "x_applied = \<lparr>at_transaction = x_transaction 0, at_signer = x_signer, at_tx_hash = [0], at_result = RanCredit x_account\<rparr>"

text \<open>The rows of the three states: the position of every value, by the position of its key.\<close>

definition x_rows :: "bytes \<Rightarrow> bytes \<Rightarrow> (bytes, bytes) omap" where
  "x_rows keys vs = map (\<lambda>(k, v). (ENTITY_KEY_DOMAIN @ [k], [v])) (zip keys vs)"

definition x_store_at :: "nat \<Rightarrow> (bytes, bytes) omap \<Rightarrow> store" where
  "x_store_at v rows = \<lparr>st_entities = rows, st_nodes = [([v], put_rows rows)], st_values = [], st_metadata = Some [v, v]\<rparr>"

definition x_cache :: "nat \<Rightarrow> transaction_cache" where
  "x_cache n =
     (if n = 0 then new_cache VERIFIED_TRANSACTION_CACHE_CAPACITY VERIFIED_TRANSACTION_CACHE_MAX_BYTES
      else
        \<lparr>tc_capacity = VERIFIED_TRANSACTION_CACHE_CAPACITY, tc_max_bytes = VERIFIED_TRANSACTION_CACHE_MAX_BYTES,
         tc_resident_bytes = 1, tc_next_access = n,
         tc_entries = [([0], \<lparr>te_bytes_hash = [0], te_bytes_len = 1, te_result = Ok (SignedTransaction x_verified),
           te_last_access = n - 1\<rparr>)],
         tc_recency = [(n - 1, [0])]\<rparr>)"

definition x_node ::
  "store \<Rightarrow> chain_snapshot option \<Rightarrow> chain_snapshot option \<Rightarrow> (account_id, mempool_reservation) omap \<Rightarrow> nat \<Rightarrow>
   event list \<Rightarrow> chain_runtime" where
  "x_node st committed pending mempool n sent =
     \<lparr>cr_store = st, cr_committed = committed, cr_pending = pending, cr_export = None, cr_export_previous = None,
      cr_import = None, cr_mempool = mempool, cr_validator = None, cr_cache = x_cache n, cr_sent = sent\<rparr>"

definition x_snapshot :: "nat \<Rightarrow> chain_snapshot" where
  "x_snapshot h = \<lparr>cs_state = [x_state0, x_state1, x_state2] ! h, cs_app_hash = [h]\<rparr>"

definition x_stored :: "nat \<Rightarrow> store" where
  "x_stored h =
     x_store_at h ([x_rows [0, 1, 3, 5] [0, 0, 0, 0], x_rows [0, 1, 2, 3, 4, 5] [1, 1, 1, 0, 0, 0],
       x_rows [0, 1, 2, 3, 4, 5] [2, 1, 1, 0, 0, 0]] ! h)"

definition x_check_again :: check_response where
  "x_check_again = check_error (InvalidNonce x_signer 1 0) 1"

lemma x_open: "open_runtime x_app empty_store None = Ok (x_node empty_store None None [] 0 [])"
  by code_simp

lemma x_call_init:
  "call x_app x_genesis_env x_init (x_node empty_store None None [] 0 []) =
     Ok (InitChainResponse [0], x_node (x_stored 0) (Some (x_snapshot 0)) None [] 0 [])"
  by code_simp

lemma x_call_check:
  "call x_app x_genesis_env (CheckTx [0]) (x_node (x_stored 0) (Some (x_snapshot 0)) None [] 0 []) =
     Ok (CheckTxResponse \<lparr>ck_code = 0, ck_data = [0], ck_log = [], ck_gas_wanted = 1, ck_gas_used = 1, ck_codespace = []\<rparr>,
       x_node (x_stored 0) (Some (x_snapshot 0)) None [(x_signer, \<lparr>mr_nonce = 0, mr_tx_hash = [0]\<rparr>)] 1 [])"
  by code_simp

lemma x_call_finalize:
  "call x_app x_genesis_env (FinalizeBlock (x_block 1 [[0]]))
     (x_node (x_stored 0) (Some (x_snapshot 0)) None [(x_signer, \<lparr>mr_nonce = 0, mr_tx_hash = [0]\<rparr>)] 1 []) =
     Ok (FinalizeBlockResponse (block_response x_app 1 [execution_result x_app x_applied 1] [1]),
       x_node (x_stored 0) (Some (x_snapshot 0)) (Some (x_snapshot 1)) [(x_signer, \<lparr>mr_nonce = 0, mr_tx_hash = [0]\<rparr>)] 3 [])"
  by code_simp

lemma x_call_commit:
  "call x_app x_genesis_env CommitBlock
     (x_node (x_stored 0) (Some (x_snapshot 0)) (Some (x_snapshot 1)) [(x_signer, \<lparr>mr_nonce = 0, mr_tx_hash = [0]\<rparr>)] 3 []) =
     Ok (CommitResponse, x_node (x_stored 1) (Some (x_snapshot 1)) None [] 3 [x_event])"
  by code_simp

lemma x_call_check_again:
  "call x_app x_genesis_env (CheckTx [0]) (x_node (x_stored 1) (Some (x_snapshot 1)) None [] 3 [x_event]) =
     Ok (CheckTxResponse x_check_again, x_node (x_stored 1) (Some (x_snapshot 1)) None [] 4 [x_event])"
  by code_simp

lemma x_call_finalize_again:
  "call x_app x_genesis_env (FinalizeBlock (x_block 2 [[0]])) (x_node (x_stored 1) (Some (x_snapshot 1)) None [] 4 [x_event]) =
     Ok (FinalizeBlockResponse (block_response x_app 2 [execution_error (InvalidNonce x_signer 1 0) 1] [2]),
       x_node (x_stored 1) (Some (x_snapshot 1)) (Some (x_snapshot 2)) [] 6 [x_event])"
  by code_simp

lemma x_call_commit_again:
  "call x_app x_genesis_env CommitBlock (x_node (x_stored 1) (Some (x_snapshot 1)) (Some (x_snapshot 2)) [] 6 [x_event]) =
     Ok (CommitResponse, x_node (x_stored 2) (Some (x_snapshot 2)) None [] 6 [x_event])"
  by code_simp

lemma x_reopen: "open_runtime x_app (x_stored 0) None = Ok (x_node (x_stored 0) (Some (x_snapshot 0)) None [] 0 [])"
  by code_simp

lemmas x_calls_once = x_call_check x_call_finalize x_call_commit
lemmas x_calls_again = x_call_check_again x_call_finalize_again x_call_commit_again

definition x_once :: "request list" where
  "x_once = [CheckTx [0], FinalizeBlock (x_block 1 [[0]]), CommitBlock]"

definition x_again :: "request list" where
  "x_again = [CheckTx [0], FinalizeBlock (x_block 2 [[0]]), CommitBlock]"

definition x_responses_once :: "response list" where
  "x_responses_once =
     [CheckTxResponse \<lparr>ck_code = 0, ck_data = [0], ck_log = [], ck_gas_wanted = 1, ck_gas_used = 1, ck_codespace = []\<rparr>,
      FinalizeBlockResponse (block_response x_app 1 [execution_result x_app x_applied 1] [1]), CommitResponse]"

definition x_responses_again :: "response list" where
  "x_responses_again =
     [CheckTxResponse x_check_again,
      FinalizeBlockResponse (block_response x_app 2 [execution_error (InvalidNonce x_signer 1 0) 1] [2]), CommitResponse]"

lemma x_run_once:
  "calls x_app x_genesis_env x_once (x_node (x_stored 0) (Some (x_snapshot 0)) None [] 0 []) =
     Ok (x_responses_once, x_node (x_stored 1) (Some (x_snapshot 1)) None [] 3 [x_event])"
  by (simp only: x_once_def x_responses_once_def calls.simps x_calls_once bindr.simps prod.case)

lemma x_run:
  "calls x_app x_genesis_env (x_init # x_once @ x_again) (x_node empty_store None None [] 0 []) =
     Ok (InitChainResponse [0] # x_responses_once @ x_responses_again, x_node (x_stored 2) (Some (x_snapshot 2)) None [] 6 [x_event])"
  by (simp only: x_once_def x_again_def x_responses_once_def x_responses_again_def append.simps calls.simps x_call_init
      x_calls_once x_calls_again bindr.simps prod.case)

lemma x_executed:
  "committed_transactions x_app None (x_init # x_once @ x_again) (InitChainResponse [0] # x_responses_once @ x_responses_again) =
     [(x_signer, 0)]"
  by code_simp

section \<open>What the run fulfils\<close>

lemma x_hash: "inj_on (transaction_bytes_hash x_app) T"
  by (simp add: inj_on_def transaction_bytes_hash_def x_app_def x_chain_def)

lemma x_remembers: "n \<le> u64_max \<Longrightarrow> remembers x_app T n (x_cache 0)"
  using open_remembers [OF x_open x_hash, of n T] by (simp add: x_node_def)

lemma x_law: "jmt_law (se_jmt (ap_store x_app)) w_tree w_root"
  using w_law by (simp add: x_app_def x_store_def w_store_env_def)

lemma x_codecs: "store_codecs_ok (ap_store x_app)"
  using w_store_codecs
  by (simp add: store_codecs_ok_def x_app_def x_store_def rows_codec_ok codecs_ok_def x_codec_def index_codec_ok)
    (simp add: codec_ok_def no_codec_def)

lemma x_states_stored: "h \<le> 2 \<Longrightarrow> state_stored w_shielded (cs_state (x_snapshot h))"
proof -
  have "state_stored w_shielded x_state0" "state_stored w_shielded x_state1" "state_stored w_shielded x_state2"
    by (simp_all add: state_stored_def x_state2_def x_state1_def x_state0_def genesis_def Let_def om_of_list_def om_keys_def
        om_ok_def om_get_def)
  then show "h \<le> 2 \<Longrightarrow> ?thesis" by (auto simp: x_snapshot_def le_Suc_eq numeral_2_eq_2)
qed

lemma x_no_ledger: "h \<le> 2 \<Longrightarrow> es_shielded_ledger (cs_state (x_snapshot h)) = None"
  by (auto simp: x_snapshot_def le_Suc_eq numeral_2_eq_2 x_state2_def x_state1_def x_state0_def genesis_def Let_def)

lemma x_storable:
  "storable x_app (x_node st None p m n sent)"
  "h \<le> 2 \<Longrightarrow> storable x_app (x_node st (Some (x_snapshot h)) None m n sent)"
  "h \<le> 2 \<Longrightarrow> h' \<le> 2 \<Longrightarrow> storable x_app (x_node st (Some (x_snapshot h)) (Some (x_snapshot h')) m n sent)"
proof -
  have e: "se_shielded (ap_store x_app) = w_shielded" "se_sha (ap_store x_app) = (\<lambda>b. b)"
    by (simp_all add: x_app_def x_store_def w_store_env_def)
  have "length (sv_sha w_shielded b) = 32" for b by (simp add: w_shielded_def)
  then show "storable x_app (x_node st None p m n sent)"
    "h \<le> 2 \<Longrightarrow> storable x_app (x_node st (Some (x_snapshot h)) None m n sent)"
    "h \<le> 2 \<Longrightarrow> h' \<le> 2 \<Longrightarrow> storable x_app (x_node st (Some (x_snapshot h)) (Some (x_snapshot h')) m n sent)"
    by (simp_all add: storable_def x_node_def e x_states_stored x_no_ledger notes_distinguished_def keys_distinguished_def inj_on_def)
qed

lemma x_node_run: "node_run x_app x_genesis_env (x_node (x_stored 1) (Some (x_snapshot 1)) (Some (x_snapshot 2)) [] 6 [x_event])"
proof -
  have step: "node_run x_app x_genesis_env R'" if "call x_app x_genesis_env rq R = Ok (r, R')" "node_run x_app x_genesis_env R"
    "\<not> installs rq" "storable x_app R'" for rq r R R'
    using node_run.answered [OF that(2,1,4)] that(3) by blast
  show ?thesis
    by (rule step [OF x_call_finalize_again], rule step [OF x_call_check_again], rule step [OF x_call_commit],
        rule step [OF x_call_finalize], rule step [OF x_call_check], rule step [OF x_call_init], rule node_run.opened [OF x_open])
      (simp_all add: installs_def x_init_def x_storable)
qed

definition x_prepare :: prepare_request where
  "x_prepare = \<lparr>pr_height = 1, pr_time = 0, pr_max_tx_bytes = 100, pr_votes = [], pr_txs = [[0], [0], [1]]\<rparr>"

text \<open>A repeated transaction is left out, and the next nonce is selected.\<close>

lemma x_prepared:
  "bindr (prepare_proposal x_app x_prepare (x_node (x_stored 0) (Some (x_snapshot 0)) None [] 0 [])) (\<lambda>(txs, R). Ok txs) =
     Ok [[0], [1]]"
  by code_simp

end
