(* ===== verification/Consensus_Theorems.thy ===== *)
theory Consensus_Theorems
  imports Consensus_Chain
begin

text \<open>
  The properties of a node: the transaction cache does not show, proposals are accepted, no transaction is
  executed twice, the identity of the chain stays, and a node that stops finds its state again.
\<close>

text \<open>C39: Equivalence. The cache of verified transactions changes no answer. A node that opened its store answers any
  sequence of requests as the same node with a cache of capacity 0 does, which decodes every transaction
  anew; both reach the same state. (No two transactions of the requests have the same hash, and there are
  fewer than \<open>u64::MAX\<close> lookups.)\<close>

theorem cache_transparent:
  assumes "open_runtime A st v = Ok R" and "inj_on (transaction_bytes_hash A) (\<Union> (set ` request_txs ` set rqs))"
    and "accesses rqs \<le> u64_max"
  shows "calls A G rqs (uncached R) = bindr (calls A G rqs R) (\<lambda>(rs, R). Ok (rs, uncached R))"
proof -
  have "remembers A (\<Union> (set ` request_txs ` set rqs)) (accesses rqs + 0) (cr_cache R)"
    by (rule open_remembers [OF assms(1,2)]) (simp add: assms(3))
  from calls_cached [OF this order_refl, of G] show ?thesis by (simp add: agree_def)
qed

theorem cache_transparent_witness:
  "calls x_app x_genesis_env (x_init # x_once @ x_again) (uncached (x_node empty_store None None [] 0 [])) =
     Ok (InitChainResponse [0] # x_responses_once @ x_responses_again,
       uncached (x_node (x_stored 2) (Some (x_snapshot 2)) None [] 6 [x_event]))"
  using cache_transparent [OF x_open x_hash, of "x_init # x_once @ x_again" x_genesis_env]
  by (simp only: x_run bindr.simps prod.case)
    (simp add: accesses_def x_init_def x_once_def x_again_def x_block_def u64_max_def)



text \<open>C1: No replay. Over any run of a node without state sync, the transactions of an account that are executed in
  committed blocks carry consecutive nonces, in this order, from the account's nonce at the start to its
  nonce at the end: none is executed twice, skipped or reordered, whatever was proposed or resent.\<close>

theorem nonces_consecutive:
  assumes "open_runtime A st v = Ok R" and "calls A G rqs R = Ok (rs, R')"
    and "inj_on (transaction_bytes_hash A) (\<Union> (set ` request_txs ` set rqs))" and "accesses rqs \<le> u64_max"
    and "\<forall>rq \<in> set rqs. \<not> installs rq"
  shows "nonces_by a (committed_transactions A None rqs rs) = [next_nonce R a..<next_nonce R' a]"
proof -
  have "pending_executed None R" using open_runtime_Ok(1) [OF assms(1)] by (simp add: pending_executed_def)
  with calls_executed [OF assms(2) open_remembers [OF assms(1,3,4)] order_refl assms(5)] show ?thesis by blast
qed

theorem nonces_consecutive_witness:
  "nonces_by x_signer (committed_transactions x_app None (x_init # x_once @ x_again)
     (InitChainResponse [0] # x_responses_once @ x_responses_again)) = [0..<1]"
proof -
  have "next_nonce (x_node empty_store None None [] 0 []) x_signer = 0"
    "next_nonce (x_node (x_stored 2) (Some (x_snapshot 2)) None [] 6 [x_event]) x_signer = 1"
    by code_simp+
  then show ?thesis
    using nonces_consecutive [OF x_open x_run x_hash, of x_signer]
    by (simp only:) (simp add: accesses_def x_init_def x_once_def x_again_def x_block_def u64_max_def installs_def)
qed

text \<open>C13: The identity of a chain is fixed. Requests that commit blocks, without state sync, never change the chain id,
  the authority, the protocol version, the threshold key set, the validator bindings or the private order
  fee of the committed state, never decrease a nonce, and keep the event log a hash chain.\<close>

theorem identity_fixed:
  assumes "open_runtime A st v = Ok R" and "cr_committed R = Some x" and "calls A G rqs R = Ok (rs, R')"
    and "\<forall>rq \<in> set rqs. \<not> installs rq" and "log_ok (app_crypto A) (cs_state x)"
  shows "\<exists>x'. cr_committed R' = Some x' \<and> identity_of (cs_state x') = identity_of (cs_state x) \<and>
    (\<forall>a. nonce_of (cs_state x) a \<le> nonce_of (cs_state x') a) \<and> verify (app_crypto A) (es_event_log (cs_state x'))"
proof -
  have "descends_from A (cs_state x) R" using assms(2) open_runtime_Ok(1) [OF assms(1)] by (simp add: descends_from_def)
  from calls_descend [OF assms(3,4) this] obtain x' where "cr_committed R' = Some x'"
    "follows_state (app_crypto A) (cs_state x) (cs_state x')" by (auto simp: descends_from_def)
  then show ?thesis using assms(5) by (auto simp: follows_state_def verify_eq_chain log_ok_def)
qed

theorem identity_fixed_witness:
  "identity_of x_state1 = identity_of x_state0 \<and> nonce_of x_state0 x_signer \<le> nonce_of x_state1 x_signer"
  using identity_fixed [OF x_reopen _ x_run_once, of "x_snapshot 0"]
  by (simp add: x_once_def installs_def x_node_def x_snapshot_def log_ok_def)
    (simp add: x_state0_def genesis_def Let_def chain_def)



end
