(* ===== verification/Dkg_Threshold.thy ===== *)
theory Dkg_Threshold
  imports State_Commitment
begin

text \<open>
  The two-round key generation of the validators (\<open>threshold_dkg.rs\<close>): sessions, messages, the state of a
  participant between the rounds, and the checks around every call of the FROST crate. That crate is the
  record \<open>frost_env\<close>: its packages and secrets are byte strings that stand for them, an identifier is its
  number, and a call gives the \<open>Debug\<close> text of its error. Randomness is an argument. Erasing secrets is
  left out.
\<close>

definition DKG_FORMAT_VERSION :: nat where "DKG_FORMAT_VERSION = 2"
definition DKG_PARTICIPANTS :: nat where "DKG_PARTICIPANTS = 4"
definition DKG_THRESHOLD :: nat where "DKG_THRESHOLD = 3"
definition MAX_ROUND1_MESSAGE_BYTES :: nat where "MAX_ROUND1_MESSAGE_BYTES = 16 * 1024"
definition MAX_ROUND2_MESSAGE_BYTES :: nat where "MAX_ROUND2_MESSAGE_BYTES = 4 * 1024"
definition DKG_CHAIN_DOMAIN :: bytes where "DKG_CHAIN_DOMAIN = domain_tag ''ASTERIA_PRIVATE_ORDER_DKG_CHAIN_V2''"
definition MAX_DKG_CHAIN_ID_BYTES :: nat where "MAX_DKG_CHAIN_ID_BYTES = 128"

datatype dkg_kind = Initial | Refresh bytes

record dkg_session =
  dk_chain_domain :: bytes
  dk_ceremony_id :: bytes
  dk_epoch :: nat
  dk_kind :: dkg_kind

datatype threshold_error =
    InvalidValidatorId nat
  | ZeroEpoch
  | ZeroChainDomain
  | ZeroCeremonyId
  | ZeroPreviousKeyId
  | InvalidChainId
  | InvalidRefreshEpoch nat nat
  | UnsupportedVersion nat
  | MessageTooLarge string nat
  | NonCanonical string
  | MessageSerialization string
  | IncorrectMessageCount string nat
  | DuplicateSender string nat
  | SelfMessage string nat
  | WrongRecipient nat nat
  | WrongSession
  | MissingSender string nat
  | Frost string
  | InconsistentOutput string
  | PrivateOrder string

type_synonym 'a td = "(threshold_error, 'a) res"

section \<open>Sessions\<close>

definition validate_epoch :: "nat \<Rightarrow> unit td" where
  "validate_epoch epoch = (if epoch = 0 then Err ZeroEpoch else Ok ())"

definition validate_session :: "dkg_session \<Rightarrow> unit td" where
  "validate_session dk =
     (if dk_chain_domain dk = zero32 then Err ZeroChainDomain
      else if dk_ceremony_id dk = zero32 then Err ZeroCeremonyId
      else
        bindr (validate_epoch (dk_epoch dk)) (\<lambda>_.
        case dk_kind dk of
          Initial \<Rightarrow> Ok ()
        | Refresh previous_key_id \<Rightarrow> if previous_key_id = zero32 then Err ZeroPreviousKeyId else Ok ()))"

definition initial_session :: "bytes \<Rightarrow> bytes \<Rightarrow> nat \<Rightarrow> dkg_session td" where
  "initial_session chain_domain ceremony_id epoch =
     (let dk = \<lparr>dk_chain_domain = chain_domain, dk_ceremony_id = ceremony_id, dk_epoch = epoch, dk_kind = Initial\<rparr> in
      bindr (validate_session dk) (\<lambda>_. Ok dk))"

definition refresh_session :: "bytes \<Rightarrow> bytes \<Rightarrow> nat \<Rightarrow> bytes \<Rightarrow> dkg_session td" where
  "refresh_session chain_domain ceremony_id epoch previous_key_id =
     (let dk = \<lparr>dk_chain_domain = chain_domain, dk_ceremony_id = ceremony_id, dk_epoch = epoch, dk_kind = Refresh previous_key_id\<rparr> in
      bindr (validate_session dk) (\<lambda>_. Ok dk))"

definition derive_dkg_chain_domain :: "digest \<Rightarrow> string \<Rightarrow> bytes td" where
  "derive_dkg_chain_domain H chain_id =
     (if chain_id = [] \<or> MAX_DKG_CHAIN_ID_BYTES < length chain_id \<or> \<not> trimmed chain_id then Err InvalidChainId
      else Ok (H (DKG_CHAIN_DOMAIN @ be_bytes 8 (length chain_id) @ ascii chain_id)))"

section \<open>FROST\<close>

text \<open>The key packages, with the fields that the source reads.\<close>

record frost_key_package =
  fk_identifier :: nat
  fk_min_signers :: nat
  fk_verifying_key :: bytes
  fk_verifying_share :: bytes
  fk_signing_share :: bytes

record frost_public_package =
  fp_min_signers :: "nat option"
  fp_max_signers :: nat
  fp_verifying_key :: bytes
  fp_verifying_shares :: "(nat, bytes) omap"

type_synonym 'a frost = "(string, 'a) res"
type_synonym packages = "(nat, bytes) omap"

record frost_env =
  fr_part1 :: "nat \<Rightarrow> nat \<Rightarrow> nat \<Rightarrow> bytes \<Rightarrow> (bytes \<times> bytes) frost"
  fr_refresh_part1 :: "nat \<Rightarrow> nat \<Rightarrow> nat \<Rightarrow> bytes \<Rightarrow> (bytes \<times> bytes) frost"
  fr_part2 :: "bytes \<Rightarrow> packages \<Rightarrow> (bytes \<times> packages) frost"
  fr_refresh_part2 :: "bytes \<Rightarrow> packages \<Rightarrow> (bytes \<times> packages) frost"
  fr_part3 :: "bytes \<Rightarrow> packages \<Rightarrow> packages \<Rightarrow> (frost_key_package \<times> frost_public_package) frost"
  fr_refresh_shares :: "bytes \<Rightarrow> packages \<Rightarrow> packages \<Rightarrow> frost_public_package \<Rightarrow> frost_key_package \<Rightarrow>
    (frost_key_package \<times> frost_public_package) frost"
  fr_serialize_key :: "bytes \<Rightarrow> bytes frost"
  fr_serialize_share :: "bytes \<Rightarrow> bytes frost"

definition frost_error :: "'a frost \<Rightarrow> 'a td" where
  "frost_error r = map_err Frost r"

definition identifier_of :: "nat \<Rightarrow> nat td" where
  "identifier_of validator_id =
     (if validator_id < 1 \<or> DKG_PARTICIPANTS < validator_id then Err (InvalidValidatorId validator_id) else Ok validator_id)"

definition validator_id_of :: "nat \<Rightarrow> nat td" where
  "validator_id_of i =
     (case List.find (\<lambda>v. v = i) [1..<Suc DKG_PARTICIPANTS] of
        Some v \<Rightarrow> Ok v
      | None \<Rightarrow> Err (InconsistentOutput ''FROST emitted an identifier outside 1 through 4''))"

definition fixed_32 :: "bytes \<Rightarrow> string \<Rightarrow> bytes td" where
  "fixed_32 bs reason = (if length bs = 32 then Ok bs else Err (InconsistentOutput reason))"

section \<open>Messages\<close>

record round1_message =
  r1_version :: nat
  r1_session :: dkg_session
  r1_sender_id :: nat
  r1_package :: bytes

record round2_message =
  r2_version :: nat
  r2_session :: dkg_session
  r2_sender_id :: nat
  r2_recipient_id :: nat
  r2_package :: bytes

definition validate_message :: "nat \<Rightarrow> dkg_session \<Rightarrow> nat \<Rightarrow> unit td" where
  "validate_message version dk sender_id =
     (if version \<noteq> DKG_FORMAT_VERSION then Err (UnsupportedVersion version)
      else bindr (validate_session dk) (\<lambda>_. bindr (identifier_of sender_id) (\<lambda>_. Ok ())))"

definition encode_message :: "'a codec \<Rightarrow> 'a \<Rightarrow> nat \<Rightarrow> string \<Rightarrow> bytes td" where
  "encode_message cd m maximum label =
     bindr (ok_or (MessageSerialization label) (cd_json cd m)) (\<lambda>bs.
     if maximum < length bs then Err (MessageTooLarge label maximum) else Ok bs)"

definition decode_message :: "'a codec \<Rightarrow> bytes \<Rightarrow> nat \<Rightarrow> string \<Rightarrow> 'a td" where
  "decode_message cd bs maximum label =
     (if maximum < length bs then Err (MessageTooLarge label maximum)
      else
        bindr (ok_or (MessageSerialization label) (cd_parse cd bs)) (\<lambda>m.
        bindr (ok_or (MessageSerialization label) (cd_json cd m)) (\<lambda>canonical.
        if canonical \<noteq> bs then Err (NonCanonical label) else Ok m)))"

definition round1_to_bytes :: "round1_message codec \<Rightarrow> round1_message \<Rightarrow> bytes td" where
  "round1_to_bytes cd m =
     bindr (validate_message (r1_version m) (r1_session m) (r1_sender_id m)) (\<lambda>_.
     encode_message cd m MAX_ROUND1_MESSAGE_BYTES ''round-one message'')"

definition round1_from_bytes :: "round1_message codec \<Rightarrow> bytes \<Rightarrow> round1_message td" where
  "round1_from_bytes cd bs =
     bindr (decode_message cd bs MAX_ROUND1_MESSAGE_BYTES ''round-one message'') (\<lambda>m.
     bindr (validate_message (r1_version m) (r1_session m) (r1_sender_id m)) (\<lambda>_. Ok m))"

definition round2_to_bytes :: "round2_message codec \<Rightarrow> round2_message \<Rightarrow> bytes td" where
  "round2_to_bytes cd m =
     bindr (validate_message (r2_version m) (r2_session m) (r2_sender_id m)) (\<lambda>_.
     bindr (identifier_of (r2_recipient_id m)) (\<lambda>_.
     encode_message cd m MAX_ROUND2_MESSAGE_BYTES ''round-two message''))"

definition round2_from_bytes :: "round2_message codec \<Rightarrow> bytes \<Rightarrow> round2_message td" where
  "round2_from_bytes cd bs =
     bindr (decode_message cd bs MAX_ROUND2_MESSAGE_BYTES ''round-two message'') (\<lambda>m.
     bindr (validate_message (r2_version m) (r2_session m) (r2_sender_id m)) (\<lambda>_.
     bindr (identifier_of (r2_recipient_id m)) (\<lambda>_. Ok m)))"

section \<open>Participants\<close>

datatype dkg_purpose = InitialPurpose | RefreshPurpose frost_key_package frost_public_package

record round1_participant =
  p1_validator_id :: nat
  p1_session :: dkg_session
  p1_purpose :: dkg_purpose
  p1_secret :: bytes

record round2_participant =
  p2_validator_id :: nat
  p2_session :: dkg_session
  p2_purpose :: dkg_purpose
  p2_secret :: bytes
  p2_received_round1 :: packages

record finalized_participant =
  fin_validator_id :: nat
  fin_epoch :: nat
  fin_public_keys :: public_key_set
  fin_secret_share :: secret_share
  fin_key_package :: frost_key_package
  fin_public_package :: frost_public_package

definition participant_round1 ::
  "frost_env \<Rightarrow> dkg_session \<Rightarrow> nat \<Rightarrow> bytes \<Rightarrow> (round1_participant \<times> round1_message) td" where
  "participant_round1 F dk validator_id random =
     bindr (validate_session dk) (\<lambda>_.
     if dk_kind dk \<noteq> Initial then Err WrongSession
     else
       bindr (identifier_of validator_id) (\<lambda>i.
       bindr (frost_error (fr_part1 F i DKG_PARTICIPANTS DKG_THRESHOLD random)) (\<lambda>(secret, package).
       Ok (\<lparr>p1_validator_id = validator_id, p1_session = dk, p1_purpose = InitialPurpose, p1_secret = secret\<rparr>,
           \<lparr>r1_version = DKG_FORMAT_VERSION, r1_session = dk, r1_sender_id = validator_id, r1_package = package\<rparr>))))"

definition participant_refresh_round1 ::
  "frost_env \<Rightarrow> dkg_session \<Rightarrow> finalized_participant \<Rightarrow> bytes \<Rightarrow> (round1_participant \<times> round1_message) td" where
  "participant_refresh_round1 F dk current random =
     bindr (validate_session dk) (\<lambda>_.
     case dk_kind dk of
       Initial \<Rightarrow> Err WrongSession
     | Refresh previous_key_id \<Rightarrow>
         if previous_key_id \<noteq> ks_key_id (fin_public_keys current) then Err WrongSession
         else if dk_epoch dk \<le> fin_epoch current then Err (InvalidRefreshEpoch (fin_epoch current) (dk_epoch dk))
         else
           bindr (identifier_of (fin_validator_id current)) (\<lambda>i.
           bindr (frost_error (fr_refresh_part1 F i DKG_PARTICIPANTS DKG_THRESHOLD random)) (\<lambda>(secret, package).
           Ok (\<lparr>p1_validator_id = fin_validator_id current, p1_session = dk,
                p1_purpose = RefreshPurpose (fin_key_package current) (fin_public_package current), p1_secret = secret\<rparr>,
               \<lparr>r1_version = DKG_FORMAT_VERSION, r1_session = dk, r1_sender_id = fin_validator_id current,
                r1_package = package\<rparr>))))"

text \<open>The packages that were received, by sender: exactly one from every other validator.\<close>

definition ensure_other_senders :: "nat \<Rightarrow> string \<Rightarrow> packages \<Rightarrow> unit td" where
  "ensure_other_senders own_id phase ps =
     (case List.find (\<lambda>v. v \<noteq> own_id \<and> om_get ps v = None) [1..<Suc DKG_PARTICIPANTS] of
        None \<Rightarrow> Ok ()
      | Some v \<Rightarrow> Err (MissingSender phase v))"

definition collect_message :: "nat \<Rightarrow> string \<Rightarrow> nat \<Rightarrow> bytes \<Rightarrow> packages \<Rightarrow> packages td" where
  "collect_message own_id phase sender_id package ps =
     (if sender_id = own_id then Err (SelfMessage phase own_id)
      else
        bindr (identifier_of sender_id) (\<lambda>sender.
        if om_get ps sender \<noteq> None then Err (DuplicateSender phase sender_id)
        else Ok (om_insert sender package ps)))"

definition collect_round1 :: "nat \<Rightarrow> dkg_session \<Rightarrow> round1_message list \<Rightarrow> packages td" where
  "collect_round1 own_id dk ms =
     (if length ms \<noteq> DKG_PARTICIPANTS - 1 then Err (IncorrectMessageCount ''round one'' (length ms))
      else
        bindr (foldr_res (\<lambda>m ps.
            bindr (validate_message (r1_version m) (r1_session m) (r1_sender_id m)) (\<lambda>_.
            if r1_session m \<noteq> dk then Err WrongSession
            else collect_message own_id ''round one'' (r1_sender_id m) (r1_package m) ps)) ms []) (\<lambda>ps.
        bindr (ensure_other_senders own_id ''round one'' ps) (\<lambda>_. Ok ps)))"

definition collect_round2 :: "nat \<Rightarrow> dkg_session \<Rightarrow> round2_message list \<Rightarrow> packages td" where
  "collect_round2 own_id dk ms =
     (if length ms \<noteq> DKG_PARTICIPANTS - 1 then Err (IncorrectMessageCount ''round two'' (length ms))
      else
        bindr (foldr_res (\<lambda>m ps.
            bindr (validate_message (r2_version m) (r2_session m) (r2_sender_id m)) (\<lambda>_.
            bindr (identifier_of (r2_recipient_id m)) (\<lambda>_.
            if r2_session m \<noteq> dk then Err WrongSession
            else if r2_recipient_id m \<noteq> own_id then Err (WrongRecipient own_id (r2_recipient_id m))
            else collect_message own_id ''round two'' (r2_sender_id m) (r2_package m) ps))) ms []) (\<lambda>ps.
        bindr (ensure_other_senders own_id ''round two'' ps) (\<lambda>_. Ok ps)))"

definition outgoing_message :: "round1_participant \<Rightarrow> nat \<times> bytes \<Rightarrow> round2_message td" where
  "outgoing_message p = (\<lambda>(recipient, package).
     bindr (validator_id_of recipient) (\<lambda>recipient_id.
     if recipient_id = p1_validator_id p
     then Err (InconsistentOutput ''FROST emitted a round-two package for its sender'')
     else
       Ok \<lparr>r2_version = DKG_FORMAT_VERSION, r2_session = p1_session p, r2_sender_id = p1_validator_id p,
          r2_recipient_id = recipient_id, r2_package = package\<rparr>))"

definition participant_round2 ::
  "frost_env \<Rightarrow> round1_participant \<Rightarrow> round1_message list \<Rightarrow> (round2_participant \<times> round2_message list) td" where
  "participant_round2 F p received =
     bindr (collect_round1 (p1_validator_id p) (p1_session p) received) (\<lambda>received_round1.
     bindr (frost_error
       (case p1_purpose p of
          InitialPurpose \<Rightarrow> fr_part2 F (p1_secret p) received_round1
        | RefreshPurpose _ _ \<Rightarrow> fr_refresh_part2 F (p1_secret p) received_round1)) (\<lambda>(secret, ps).
     if length ps \<noteq> DKG_PARTICIPANTS - 1
     then Err (InconsistentOutput ''FROST round two did not produce three recipient packages'')
     else
       bindr (traverse (outgoing_message p) (om_entries ps)) (\<lambda>outgoing.
       Ok (\<lparr>p2_validator_id = p1_validator_id p, p2_session = p1_session p, p2_purpose = p1_purpose p,
            p2_secret = secret, p2_received_round1 = received_round1\<rparr>,
           sort_key r2_recipient_id outgoing))))"

section \<open>The result\<close>

definition public_shares_of :: "frost_env \<Rightarrow> frost_public_package \<Rightarrow> public_share list td" where
  "public_shares_of F fp =
     traverse (\<lambda>validator_id.
       bindr (identifier_of validator_id) (\<lambda>i.
       bindr (ok_or (InconsistentOutput ''public package does not contain validator IDs 1 through 4'')
         (om_get (fp_verifying_shares fp) i)) (\<lambda>share.
       bindr (frost_error (fr_serialize_share F share)) (\<lambda>bs.
       bindr (fixed_32 bs ''FROST verification share is not 32 bytes'') (\<lambda>key.
       Ok \<lparr>ps_validator_id = validator_id, ps_public_key = key\<rparr>))))) [1..<Suc DKG_PARTICIPANTS]"

definition adapt_frost_output ::
  "frost_env \<Rightarrow> curve \<Rightarrow> nat \<Rightarrow> nat \<Rightarrow> frost_key_package \<Rightarrow> frost_public_package \<Rightarrow> finalized_participant td" where
  "adapt_frost_output F K epoch expected_validator_id fk fp =
     bindr (identifier_of expected_validator_id) (\<lambda>expected.
     if fk_identifier fk \<noteq> expected then Err (InconsistentOutput ''key package identifier differs from the participant'')
     else if fk_min_signers fk \<noteq> DKG_THRESHOLD \<or> fp_min_signers fp \<noteq> Some DKG_THRESHOLD \<or> fp_max_signers fp \<noteq> DKG_PARTICIPANTS
     then Err (InconsistentOutput ''FROST output is not a 3-of-4 key'')
     else if fk_verifying_key fk \<noteq> fp_verifying_key fp
     then Err (InconsistentOutput ''participant and public group keys differ'')
     else
       bindr (ok_or (InconsistentOutput ''public package omits the participant verification share'')
         (om_get (fp_verifying_shares fp) expected)) (\<lambda>own_public_share.
       if fk_verifying_share fk \<noteq> own_public_share
       then Err (InconsistentOutput ''participant verification share differs from the public package'')
       else
         bindr (bindr (frost_error (fr_serialize_key F (fp_verifying_key fp))) (\<lambda>bs.
             fixed_32 bs ''FROST group public key is not 32 bytes'')) (\<lambda>group_public_key.
         bindr (public_shares_of F fp) (\<lambda>validators.
         if length (fp_verifying_shares fp) \<noteq> PRIVATE_ORDER_VALIDATOR_COUNT
         then Err (InconsistentOutput ''public package contains an unexpected validator identifier'')
         else
           bindr (map_err (\<lambda>e. PrivateOrder (order_error_message e))
             (from_provisioned_public_shares K epoch group_public_key validators)) (\<lambda>public_keys.
           bindr (fixed_32 (fk_signing_share fk) ''FROST signing share is not 32 bytes'') (\<lambda>scalar.
           bindr (map_err (\<lambda>e. PrivateOrder (order_error_message e))
             (from_provisioned_scalar K public_keys expected_validator_id scalar)) (\<lambda>share.
           Ok \<lparr>fin_validator_id = expected_validator_id, fin_epoch = epoch, fin_public_keys = public_keys,
              fin_secret_share = share, fin_key_package = fk, fin_public_package = fp\<rparr>)))))))"

text \<open>A refresh has to keep the group public key.\<close>

definition participant_finalize ::
  "frost_env \<Rightarrow> curve \<Rightarrow> round2_participant \<Rightarrow> round2_message list \<Rightarrow> finalized_participant td" where
  "participant_finalize F K p received =
     bindr (collect_round2 (p2_validator_id p) (p2_session p) received) (\<lambda>received_round2.
     bindr
       (case p2_purpose p of
          InitialPurpose \<Rightarrow> frost_error (fr_part3 F (p2_secret p) (p2_received_round1 p) received_round2)
        | RefreshPurpose old_key old_public \<Rightarrow>
            bindr (frost_error (fr_serialize_key F (fp_verifying_key old_public))) (\<lambda>old_group_key.
            bindr (frost_error
              (fr_refresh_shares F (p2_secret p) (p2_received_round1 p) received_round2 old_public old_key)) (\<lambda>(fk, fp).
            bindr (frost_error (fr_serialize_key F (fp_verifying_key fp))) (\<lambda>group_key.
            if group_key \<noteq> old_group_key then Err (InconsistentOutput ''FROST refresh changed the group public key'')
            else Ok (fk, fp))))) (\<lambda>(fk, fp).
     adapt_frost_output F K (dk_epoch (p2_session p)) (p2_validator_id p) fk fp))"

end
