(* ===== verification/Dkg_Transport.thy ===== *)
theory Dkg_Transport
  imports Dkg_Threshold
begin

text \<open>
  The messages of the key generation on the wire (\<open>dkg_transport.rs\<close>): peers and their registry, signed
  broadcasts, endorsements and their guard, certificates of three endorsements, encrypted messages between
  two validators, and the collectors of both rounds. JSON (with its base64 fields), SHA-256, Ed25519,
  X25519, HKDF and the cipher are other crates, the record \<open>wire_env\<close>. A generator of random bytes is the
  list of the arrays that it fills. Texts of errors of other crates are left out.
\<close>

definition DKG_TRANSPORT_FORMAT_VERSION :: nat where "DKG_TRANSPORT_FORMAT_VERSION = 1"
definition MAX_TRANSPORT_PAYLOAD_BYTES :: nat where "MAX_TRANSPORT_PAYLOAD_BYTES = 16 * 1024"
definition MAX_TRANSPORT_CIPHERTEXT_BYTES :: nat where "MAX_TRANSPORT_CIPHERTEXT_BYTES = MAX_TRANSPORT_PAYLOAD_BYTES + 16"
definition DEFAULT_REPLAY_GUARD_CAPACITY :: nat where "DEFAULT_REPLAY_GUARD_CAPACITY = 4096"
definition DKG_BROADCAST_QUORUM :: nat where "DKG_BROADCAST_QUORUM = 3"
definition MAX_ENDORSEMENT_GUARD_ENTRIES :: nat where "MAX_ENDORSEMENT_GUARD_ENTRIES = DKG_PARTICIPANTS"
definition MAX_BROADCAST_ENVELOPE_BYTES :: nat where
  "MAX_BROADCAST_ENVELOPE_BYTES = (MAX_TRANSPORT_PAYLOAD_BYTES + 2) div 3 * 4 + 4096"
definition MAX_POINT_TO_POINT_ENVELOPE_BYTES :: nat where
  "MAX_POINT_TO_POINT_ENVELOPE_BYTES = (MAX_TRANSPORT_CIPHERTEXT_BYTES + 2) div 3 * 4 + 4096"
definition MAX_CERTIFIED_BROADCAST_BYTES :: nat where "MAX_CERTIFIED_BROADCAST_BYTES = MAX_BROADCAST_ENVELOPE_BYTES + 8192"
definition MAX_WIRE_MESSAGE_BYTES :: nat where "MAX_WIRE_MESSAGE_BYTES = MAX_CERTIFIED_BROADCAST_BYTES + 512"
definition MAX_ENDORSEMENT_GUARD_BYTES :: nat where "MAX_ENDORSEMENT_GUARD_BYTES = 1024 * 1024"
definition TRANSPORT_SIGNING_DOMAIN :: bytes where
  "TRANSPORT_SIGNING_DOMAIN = domain_tag ''ASTERIA_PRIVATE_ORDER_DKG_TRANSPORT_SIGN_V1''"
definition TRANSPORT_KDF_DOMAIN :: bytes where
  "TRANSPORT_KDF_DOMAIN = domain_tag ''ASTERIA_PRIVATE_ORDER_DKG_TRANSPORT_KDF_V1''"
definition TRANSPORT_SESSION_DOMAIN :: bytes where
  "TRANSPORT_SESSION_DOMAIN = domain_tag ''ASTERIA_PRIVATE_ORDER_DKG_TRANSPORT_SESSION_V1''"
definition TRANSPORT_REPLAY_DOMAIN :: bytes where
  "TRANSPORT_REPLAY_DOMAIN = domain_tag ''ASTERIA_PRIVATE_ORDER_DKG_TRANSPORT_REPLAY_V1''"

section \<open>Data\<close>

datatype transport_round = Round1 | Round2

record transport_peer =
  tp_validator_id :: nat
  tp_signing_public_key :: bytes
  tp_encryption_public_key :: bytes

record transport_identity =
  ti_validator_id :: nat
  ti_signing_key :: bytes
  ti_encryption_secret :: bytes

type_synonym transport_registry = "(nat, transport_peer) omap"

record broadcast_body =
  bb_domain :: string
  bb_version :: nat
  bb_session :: dkg_session
  bb_round :: transport_round
  bb_sender_id :: nat
  bb_message_id :: bytes
  bb_sender_signing_public_key :: bytes
  bb_payload :: bytes

record broadcast_envelope =
  be_version :: nat
  be_session :: dkg_session
  be_round :: transport_round
  be_sender_id :: nat
  be_message_id :: bytes
  be_sender_signing_public_key :: bytes
  be_payload :: bytes
  be_signature :: bytes

record endorsement_body =
  eb_domain :: string
  eb_version :: nat
  eb_session :: dkg_session
  eb_round :: transport_round
  eb_sender_id :: nat
  eb_message_id :: bytes
  eb_payload_digest :: bytes
  eb_endorser_id :: nat
  eb_endorser_signing_public_key :: bytes

record endorsement =
  ed_version :: nat
  ed_session :: dkg_session
  ed_round :: transport_round
  ed_sender_id :: nat
  ed_message_id :: bytes
  ed_payload_digest :: bytes
  ed_endorser_id :: nat
  ed_endorser_signing_public_key :: bytes
  ed_signature :: bytes

record certified_broadcast =
  cb_envelope :: broadcast_envelope
  cb_endorsements :: "endorsement list"

record endorsement_guard =
  eg_endorser_id :: nat
  eg_endorser_signing_public_key :: bytes
  eg_capacity :: nat
  eg_accepted :: "(bytes, endorsement) omap"

record guard_entry =
  ge_subject :: bytes
  ge_endorsement :: endorsement

record guard_body =
  gb_domain :: string
  gb_version :: nat
  gb_endorser_id :: nat
  gb_endorser_signing_public_key :: bytes
  gb_capacity :: nat
  gb_entries :: "guard_entry list"

record guard_journal =
  gj_version :: nat
  gj_endorser_id :: nat
  gj_endorser_signing_public_key :: bytes
  gj_capacity :: nat
  gj_entries :: "guard_entry list"
  gj_signature :: bytes

record direct_aad =
  da_domain :: string
  da_version :: nat
  da_session :: dkg_session
  da_round :: transport_round
  da_sender_id :: nat
  da_recipient_id :: nat
  da_message_id :: bytes
  da_sender_signing_public_key :: bytes
  da_sender_encryption_public_key :: bytes
  da_recipient_encryption_public_key :: bytes
  da_ephemeral_public_key :: bytes
  da_nonce :: bytes

record direct_envelope =
  de_version :: nat
  de_session :: dkg_session
  de_round :: transport_round
  de_sender_id :: nat
  de_recipient_id :: nat
  de_message_id :: bytes
  de_sender_signing_public_key :: bytes
  de_sender_encryption_public_key :: bytes
  de_recipient_encryption_public_key :: bytes
  de_ephemeral_public_key :: bytes
  de_nonce :: bytes
  de_ciphertext :: bytes
  de_signature :: bytes

datatype wire_message =
    Broadcast broadcast_envelope
  | CertifiedBroadcast certified_broadcast
  | PointToPoint direct_envelope

datatype transport_error =
    InvalidPeer string
  | DuplicatePeer
  | DuplicatePeerKey
  | UnknownPeer nat
  | InvalidTransportValidatorId nat
  | InvalidMessageId
  | PayloadTooLarge nat nat
  | WrongSession
  | WrongRound
  | WrongSender nat nat
  | WrongRecipient nat nat
  | SelfMessage
  | InvalidSignature
  | ReplayDetected
  | Equivocation nat
  | InsufficientEndorsements nat nat
  | EndorsementOrder
  | DuplicateEndorser nat
  | InvalidEndorsement
  | ReplayGuardFull nat
  | InvalidGuardCapacity nat nat
  | WrongEndorser nat nat
  | Incomplete nat nat
  | NonCanonical string
  | TransportSerialization string
  | EncryptionFailed
  | DecryptionFailed

type_synonym 'a tr = "(transport_error, 'a) res"

record wire_env =
  wv_sha :: digest
  wv_key_parses :: "bytes \<Rightarrow> bool"
  wv_key_weak :: "bytes \<Rightarrow> bool"
  wv_verify_strict :: "bytes \<Rightarrow> bytes \<Rightarrow> bytes \<Rightarrow> bool"
  wv_public_key :: "bytes \<Rightarrow> bytes"
  wv_sign :: "bytes \<Rightarrow> bytes \<Rightarrow> bytes"
  wv_x_base :: "bytes \<Rightarrow> bytes"
  wv_x_mul :: "bytes \<Rightarrow> bytes \<Rightarrow> bytes"
  wv_x_same :: "bytes \<Rightarrow> bytes \<Rightarrow> bool"
  wv_hkdf :: "bytes \<Rightarrow> bytes \<Rightarrow> bytes \<Rightarrow> bytes option"
  wv_seal :: "bytes \<Rightarrow> bytes \<Rightarrow> bytes \<Rightarrow> bytes \<Rightarrow> bytes option"
  wv_open :: "bytes \<Rightarrow> bytes \<Rightarrow> bytes \<Rightarrow> bytes \<Rightarrow> bytes option"
  wv_session_json :: "dkg_session \<Rightarrow> bytes option"
  wv_broadcast_json :: "broadcast_body \<Rightarrow> bytes option"
  wv_endorsement_json :: "endorsement_body \<Rightarrow> bytes option"
  wv_guard_json :: "guard_body \<Rightarrow> bytes option"
  wv_aad_json :: "direct_aad \<Rightarrow> bytes option"
  wv_direct_json :: "string \<times> direct_aad \<times> bytes \<Rightarrow> bytes option"
  wv_round1 :: "round1_message codec"
  wv_round2 :: "round2_message codec"
  wv_peer :: "transport_peer codec"
  wv_broadcast :: "broadcast_envelope codec"
  wv_certified :: "certified_broadcast codec"
  wv_direct :: "direct_envelope codec"
  wv_wire :: "wire_message codec"
  wv_guard_journal :: "guard_journal codec"

section \<open>Encoding\<close>

definition canonical_bytes :: "('a \<Rightarrow> bytes option) \<Rightarrow> 'a \<Rightarrow> bytes tr" where
  "canonical_bytes json x = ok_or (TransportSerialization []) (json x)"

definition transport_signing_bytes :: "('a \<Rightarrow> bytes option) \<Rightarrow> 'a \<Rightarrow> bytes tr" where
  "transport_signing_bytes json body = bindr (canonical_bytes json body) (\<lambda>bs. Ok (TRANSPORT_SIGNING_DOMAIN @ bs))"

definition encode_canonical :: "'a codec \<Rightarrow> 'a \<Rightarrow> nat \<Rightarrow> string \<Rightarrow> bytes tr" where
  "encode_canonical cd x maximum label =
     bindr (canonical_bytes (cd_json cd) x) (\<lambda>bs.
     if maximum < length bs then Err (PayloadTooLarge (length bs) maximum)
     else if label = [] then Err (TransportSerialization ''empty canonical label'')
     else Ok bs)"

definition decode_canonical :: "'a codec \<Rightarrow> bytes \<Rightarrow> nat \<Rightarrow> string \<Rightarrow> 'a tr" where
  "decode_canonical cd bs maximum label =
     (if maximum < length bs then Err (PayloadTooLarge (length bs) maximum)
      else
        bindr (ok_or (TransportSerialization []) (cd_parse cd bs)) (\<lambda>x.
        bindr (canonical_bytes (cd_json cd) x) (\<lambda>canonical.
        if canonical \<noteq> bs then Err (NonCanonical label) else Ok x)))"

definition serialization_error :: "'a td \<Rightarrow> 'a tr" where
  "serialization_error r = map_err (\<lambda>e. TransportSerialization []) r"

definition validate_validator_id :: "nat \<Rightarrow> unit tr" where
  "validate_validator_id validator_id =
     (if validator_id < 1 \<or> DKG_PARTICIPANTS < validator_id then Err (InvalidTransportValidatorId validator_id) else Ok ())"

definition validate_x25519_public :: "wire_env \<Rightarrow> bytes \<Rightarrow> unit tr" where
  "validate_x25519_public W key =
     (if wv_x_mul W (replicate 32 0x42) key = zero32 then Err (InvalidPeer ''X25519 public key has low order'') else Ok ())"

definition parse_key :: "wire_env \<Rightarrow> bytes \<Rightarrow> unit tr" where
  "parse_key W key = (if wv_key_parses W key then Ok () else Err (InvalidPeer []))"

definition reject_weak :: "wire_env \<Rightarrow> bytes \<Rightarrow> unit tr" where
  "reject_weak W key = (if wv_key_weak W key then Err (InvalidPeer ''Ed25519 signing public key is weak'') else Ok ())"

definition validate_common_header ::
  "nat \<Rightarrow> dkg_session \<Rightarrow> transport_round \<Rightarrow> nat \<Rightarrow> nat option \<Rightarrow> unit tr" where
  "validate_common_header version dk rd sender_id recipient_id =
     (if version \<noteq> DKG_TRANSPORT_FORMAT_VERSION then Err (TransportSerialization ''unsupported transport version'')
      else
        bindr (serialization_error (validate_session dk)) (\<lambda>_.
        bindr (validate_validator_id sender_id) (\<lambda>_.
        bindr (case recipient_id of None \<Rightarrow> Ok () | Some r \<Rightarrow> validate_validator_id r) (\<lambda>_.
        if rd = Round1 \<and> recipient_id \<noteq> None then Err WrongRound else Ok ()))))"

fun round_byte :: "transport_round \<Rightarrow> nat" where
  "round_byte Round1 = 1"
| "round_byte Round2 = 2"

text \<open>Draws until an array is not zero; \<open>Panic\<close> is a generator that never delivers one.\<close>

fun fill_nonzero :: "bytes list \<Rightarrow> (bytes \<times> bytes list) tr" where
  "fill_nonzero [] = Panic"
| "fill_nonzero (r # rs) = (if \<exists>b \<in> set r. b \<noteq> 0 then Ok (r, rs) else fill_nonzero rs)"

section \<open>Peers\<close>

definition validate_peer :: "wire_env \<Rightarrow> transport_peer \<Rightarrow> unit tr" where
  "validate_peer W p =
     bindr (validate_validator_id (tp_validator_id p)) (\<lambda>_.
     bindr (parse_key W (tp_signing_public_key p)) (\<lambda>_.
     bindr (reject_weak W (tp_signing_public_key p)) (\<lambda>_.
     validate_x25519_public W (tp_encryption_public_key p))))"

definition peer_to_bytes :: "wire_env \<Rightarrow> transport_peer \<Rightarrow> bytes tr" where
  "peer_to_bytes W p =
     bindr (validate_peer W p) (\<lambda>_. encode_canonical (wv_peer W) p 512 ''transport peer'')"

definition peer_from_bytes :: "wire_env \<Rightarrow> bytes \<Rightarrow> transport_peer tr" where
  "peer_from_bytes W bs =
     bindr (decode_canonical (wv_peer W) bs 512 ''transport peer'') (\<lambda>p. bindr (validate_peer W p) (\<lambda>_. Ok p))"

definition identity_from_secrets :: "nat \<Rightarrow> bytes \<Rightarrow> bytes \<Rightarrow> transport_identity tr" where
  "identity_from_secrets validator_id signing_seed encryption_secret =
     bindr (validate_validator_id validator_id) (\<lambda>_.
     if signing_seed = zero32 \<or> encryption_secret = zero32 then Err (InvalidPeer ''transport secret must not be zero'')
     else Ok \<lparr>ti_validator_id = validator_id, ti_signing_key = signing_seed, ti_encryption_secret = encryption_secret\<rparr>)"

text \<open>\<open>DkgTransportIdentity::generate\<close> with the two arrays that it draws.\<close>

definition generate_identity :: "nat \<Rightarrow> bytes \<Rightarrow> bytes \<Rightarrow> transport_identity tr" where
  "generate_identity validator_id signing_seed encryption_secret =
     identity_from_secrets validator_id signing_seed encryption_secret"

definition peer_of :: "wire_env \<Rightarrow> transport_identity \<Rightarrow> transport_peer" where
  "peer_of W t =
     \<lparr>tp_validator_id = ti_validator_id t, tp_signing_public_key = wv_public_key W (ti_signing_key t),
      tp_encryption_public_key = wv_x_base W (ti_encryption_secret t)\<rparr>"

definition add_peer :: "wire_env \<Rightarrow> transport_peer \<Rightarrow> transport_registry \<Rightarrow> transport_registry tr" where
  "add_peer W p reg =
     bindr (validate_peer W p) (\<lambda>_.
     if \<exists>q \<in> set (om_values reg). tp_signing_public_key q = tp_signing_public_key p \<or>
          wv_x_same W (tp_encryption_public_key q) (tp_encryption_public_key p)
     then Err DuplicatePeerKey
     else if om_get reg (tp_validator_id p) \<noteq> None then Err DuplicatePeer
     else Ok (om_insert (tp_validator_id p) p reg))"

definition new_registry :: "wire_env \<Rightarrow> transport_peer list \<Rightarrow> transport_registry tr" where
  "new_registry W ps =
     bindr (foldr_res (add_peer W) ps []) (\<lambda>reg.
     if length reg \<noteq> DKG_PARTICIPANTS \<or> (\<exists>i \<in> set [1..<Suc DKG_PARTICIPANTS]. om_get reg i = None)
     then Err (InvalidPeer ''registry must contain validator ids 1 through 4'') else Ok reg)"

definition registered_peer :: "transport_registry \<Rightarrow> nat \<Rightarrow> transport_peer tr" where
  "registered_peer reg i = ok_or (UnknownPeer i) (om_get reg i)"

section \<open>Broadcasts\<close>

definition validate_broadcast :: "wire_env \<Rightarrow> broadcast_envelope \<Rightarrow> unit tr" where
  "validate_broadcast W e =
     bindr (validate_common_header (be_version e) (be_session e) (be_round e) (be_sender_id e) None) (\<lambda>_.
     if be_round e \<noteq> Round1 then Err WrongRound
     else if be_message_id e = zero32 then Err InvalidMessageId
     else if be_payload e = [] \<or> MAX_TRANSPORT_PAYLOAD_BYTES < length (be_payload e)
     then Err (PayloadTooLarge (length (be_payload e)) MAX_TRANSPORT_PAYLOAD_BYTES)
     else parse_key W (be_sender_signing_public_key e))"

definition broadcast_to_bytes :: "wire_env \<Rightarrow> broadcast_envelope \<Rightarrow> bytes tr" where
  "broadcast_to_bytes W e =
     bindr (validate_broadcast W e) (\<lambda>_.
     encode_canonical (wv_broadcast W) e MAX_BROADCAST_ENVELOPE_BYTES ''broadcast envelope'')"

definition broadcast_from_bytes :: "wire_env \<Rightarrow> bytes \<Rightarrow> broadcast_envelope tr" where
  "broadcast_from_bytes W bs =
     bindr (decode_canonical (wv_broadcast W) bs MAX_BROADCAST_ENVELOPE_BYTES ''broadcast envelope'') (\<lambda>e.
     bindr (validate_broadcast W e) (\<lambda>_. Ok e))"

definition broadcast_body_of :: "broadcast_envelope \<Rightarrow> broadcast_body" where
  "broadcast_body_of e =
     \<lparr>bb_domain = ''authenticated_broadcast'', bb_version = be_version e, bb_session = be_session e, bb_round = be_round e,
      bb_sender_id = be_sender_id e, bb_message_id = be_message_id e,
      bb_sender_signing_public_key = be_sender_signing_public_key e, bb_payload = be_payload e\<rparr>"

definition broadcast_content_digest :: "wire_env \<Rightarrow> broadcast_envelope \<Rightarrow> bytes tr" where
  "broadcast_content_digest W e =
     bindr (transport_signing_bytes (wv_broadcast_json W) (broadcast_body_of e)) (\<lambda>bs.
     Ok (wv_sha W (domain_tag ''ASTERIA_PRIVATE_ORDER_DKG_BROADCAST_DIGEST_V1'' @ bs @ be_signature e)))"

definition seal_broadcast ::
  "wire_env \<Rightarrow> dkg_session \<Rightarrow> transport_round \<Rightarrow> transport_identity \<Rightarrow> bytes \<Rightarrow> bytes list \<Rightarrow> broadcast_envelope tr" where
  "seal_broadcast W dk rd t payload rs =
     bindr (serialization_error (validate_session dk)) (\<lambda>_.
     if rd \<noteq> Round1 then Err WrongRound
     else
       bindr (validate_validator_id (ti_validator_id t)) (\<lambda>_.
       if payload = [] \<or> MAX_TRANSPORT_PAYLOAD_BYTES < length payload
       then Err (PayloadTooLarge (length payload) MAX_TRANSPORT_PAYLOAD_BYTES)
       else
         bindr (fill_nonzero rs) (\<lambda>(message_id, rs).
         let e = \<lparr>be_version = DKG_TRANSPORT_FORMAT_VERSION, be_session = dk, be_round = rd, be_sender_id = ti_validator_id t,
                  be_message_id = message_id, be_sender_signing_public_key = tp_signing_public_key (peer_of W t),
                  be_payload = payload, be_signature = []\<rparr> in
         bindr (transport_signing_bytes (wv_broadcast_json W) (broadcast_body_of e)) (\<lambda>bs.
         Ok (e\<lparr>be_signature := wv_sign W (ti_signing_key t) bs\<rparr>)))))"

definition verify_broadcast ::
  "wire_env \<Rightarrow> dkg_session \<Rightarrow> transport_round \<Rightarrow> transport_peer \<Rightarrow> broadcast_envelope \<Rightarrow> unit tr" where
  "verify_broadcast W dk rd p e =
     bindr (validate_broadcast W e) (\<lambda>_.
     bindr (serialization_error (validate_session dk)) (\<lambda>_.
     if be_session e \<noteq> dk then Err WrongSession
     else if be_round e \<noteq> rd then Err WrongRound
     else if be_sender_id e \<noteq> tp_validator_id p then Err (WrongSender (tp_validator_id p) (be_sender_id e))
     else
       bindr (validate_peer W p) (\<lambda>_.
       if be_sender_signing_public_key e \<noteq> tp_signing_public_key p
       then Err (InvalidPeer ''sender signing key is not the registered key'')
       else
         bindr (parse_key W (tp_signing_public_key p)) (\<lambda>_.
         bindr (transport_signing_bytes (wv_broadcast_json W) (broadcast_body_of e)) (\<lambda>bs.
         check (wv_verify_strict W (tp_signing_public_key p) bs (be_signature e)) InvalidSignature)))))"

text \<open>The message in a payload, bound to the session and to the sender of its envelope.\<close>

definition bound_round1 :: "wire_env \<Rightarrow> dkg_session \<Rightarrow> nat \<Rightarrow> bytes \<Rightarrow> round1_message tr" where
  "bound_round1 W dk sender_id payload =
     bindr (serialization_error (round1_from_bytes (wv_round1 W) payload)) (\<lambda>m.
     if r1_session m \<noteq> dk then Err WrongSession
     else if r1_sender_id m \<noteq> sender_id then Err (WrongSender sender_id (r1_sender_id m))
     else Ok m)"

definition seal_round1_broadcast ::
  "wire_env \<Rightarrow> dkg_session \<Rightarrow> transport_identity \<Rightarrow> round1_message \<Rightarrow> bytes list \<Rightarrow> broadcast_envelope tr" where
  "seal_round1_broadcast W dk t m rs =
     (if r1_sender_id m \<noteq> ti_validator_id t \<or> r1_session m \<noteq> dk then Err WrongSession
      else
        bindr (serialization_error (round1_to_bytes (wv_round1 W) m)) (\<lambda>payload.
        seal_broadcast W dk Round1 t payload rs))"

definition open_round1_broadcast ::
  "wire_env \<Rightarrow> dkg_session \<Rightarrow> transport_peer \<Rightarrow> broadcast_envelope \<Rightarrow> round1_message tr" where
  "open_round1_broadcast W dk p e =
     bindr (verify_broadcast W dk Round1 p e) (\<lambda>_. bound_round1 W dk (be_sender_id e) (be_payload e))"

section \<open>Endorsements\<close>

definition validate_endorsement :: "wire_env \<Rightarrow> endorsement \<Rightarrow> unit tr" where
  "validate_endorsement W d =
     bindr (validate_common_header (ed_version d) (ed_session d) (ed_round d) (ed_sender_id d) None) (\<lambda>_.
     if ed_round d \<noteq> Round1 then Err WrongRound
     else
       bindr (validate_validator_id (ed_endorser_id d)) (\<lambda>_.
       if ed_message_id d = zero32 \<or> ed_payload_digest d = zero32 then Err InvalidMessageId
       else
         bindr (parse_key W (ed_endorser_signing_public_key d)) (\<lambda>_.
         reject_weak W (ed_endorser_signing_public_key d))))"

definition endorsement_body_of :: "endorsement \<Rightarrow> endorsement_body" where
  "endorsement_body_of d =
     \<lparr>eb_domain = ''authenticated_broadcast_endorsement'', eb_version = ed_version d, eb_session = ed_session d,
      eb_round = ed_round d, eb_sender_id = ed_sender_id d, eb_message_id = ed_message_id d,
      eb_payload_digest = ed_payload_digest d, eb_endorser_id = ed_endorser_id d,
      eb_endorser_signing_public_key = ed_endorser_signing_public_key d\<rparr>"

definition verify_endorsement_signature :: "wire_env \<Rightarrow> transport_peer \<Rightarrow> endorsement \<Rightarrow> unit tr" where
  "verify_endorsement_signature W p d =
     bindr (validate_endorsement W d) (\<lambda>_.
     bindr (validate_peer W p) (\<lambda>_.
     if ed_endorser_id d \<noteq> tp_validator_id p \<or> ed_endorser_signing_public_key d \<noteq> tp_signing_public_key p
     then Err (InvalidPeer ''endorsement signer does not match the expected peer'')
     else
       bindr (parse_key W (tp_signing_public_key p)) (\<lambda>_.
       bindr (transport_signing_bytes (wv_endorsement_json W) (endorsement_body_of d)) (\<lambda>bs.
       check (wv_verify_strict W (tp_signing_public_key p) bs (ed_signature d)) InvalidSignature))))"

definition endorsement_subject_key :: "wire_env \<Rightarrow> dkg_session \<Rightarrow> transport_round \<Rightarrow> nat \<Rightarrow> nat \<Rightarrow> bytes tr" where
  "endorsement_subject_key W dk rd sender_id endorser_id =
     bindr (canonical_bytes (wv_session_json W) dk) (\<lambda>bs.
     Ok (wv_sha W (domain_tag ''ASTERIA_PRIVATE_ORDER_DKG_ENDORSEMENT_SUBJECT_V1'' @ bs @ [round_byte rd] @
       be_bytes 2 sender_id @ be_bytes 2 endorser_id)))"

text \<open>The guard of an endorser: one endorsed value per sender and session.\<close>

definition guard_with_capacity :: "wire_env \<Rightarrow> transport_peer \<Rightarrow> nat \<Rightarrow> endorsement_guard tr" where
  "guard_with_capacity W p capacity =
     bindr (validate_peer W p) (\<lambda>_.
     if capacity = 0 \<or> MAX_ENDORSEMENT_GUARD_ENTRIES < capacity
     then Err (InvalidGuardCapacity MAX_ENDORSEMENT_GUARD_ENTRIES capacity)
     else
       Ok \<lparr>eg_endorser_id = tp_validator_id p, eg_endorser_signing_public_key = tp_signing_public_key p,
          eg_capacity = max capacity 1, eg_accepted = []\<rparr>)"

definition new_guard :: "wire_env \<Rightarrow> transport_peer \<Rightarrow> endorsement_guard tr" where
  "new_guard W p = guard_with_capacity W p MAX_ENDORSEMENT_GUARD_ENTRIES"

definition guard_existing ::
  "wire_env \<Rightarrow> endorsement_guard \<Rightarrow> dkg_session \<Rightarrow> transport_round \<Rightarrow> nat \<Rightarrow> bytes \<Rightarrow> endorsement option tr" where
  "guard_existing W g dk rd sender_id digest =
     bindr (endorsement_subject_key W dk rd sender_id (eg_endorser_id g)) (\<lambda>key.
     case om_get (eg_accepted g) key of
       Some previous \<Rightarrow> if ed_payload_digest previous = digest then Ok (Some previous) else Err (Equivocation sender_id)
     | None \<Rightarrow> Ok None)"

definition guard_record ::
  "wire_env \<Rightarrow> dkg_session \<Rightarrow> transport_round \<Rightarrow> nat \<Rightarrow> endorsement \<Rightarrow> endorsement_guard \<Rightarrow>
   (endorsement \<times> endorsement_guard) tr" where
  "guard_record W dk rd sender_id d g =
     bindr (endorsement_subject_key W dk rd sender_id (eg_endorser_id g)) (\<lambda>key.
     case om_get (eg_accepted g) key of
       Some previous \<Rightarrow>
         if ed_payload_digest previous = ed_payload_digest d then Ok (previous, g) else Err (Equivocation sender_id)
     | None \<Rightarrow>
         if eg_capacity g \<le> length (eg_accepted g) then Err (ReplayGuardFull (eg_capacity g))
         else
           bindr (validate_endorsement W d) (\<lambda>_.
           if ed_endorser_id d \<noteq> eg_endorser_id g \<or> ed_endorser_signing_public_key d \<noteq> eg_endorser_signing_public_key g
           then Err InvalidEndorsement
           else Ok (d, g\<lparr>eg_accepted := om_insert key d (eg_accepted g)\<rparr>)))"

definition endorse_broadcast ::
  "wire_env \<Rightarrow> dkg_session \<Rightarrow> transport_identity \<Rightarrow> transport_registry \<Rightarrow> broadcast_envelope \<Rightarrow> endorsement_guard \<Rightarrow>
   (endorsement \<times> endorsement_guard) tr" where
  "endorse_broadcast W dk t reg e g =
     bindr (registered_peer reg (be_sender_id e)) (\<lambda>original_sender.
     bindr (validate_broadcast W e) (\<lambda>_.
     if eg_endorser_id g \<noteq> ti_validator_id t then Err (WrongEndorser (eg_endorser_id g) (ti_validator_id t))
     else
       (let p = peer_of W t in
        if eg_endorser_signing_public_key g \<noteq> tp_signing_public_key p
        then Err (InvalidPeer ''endorser identity does not match the guard signing key'')
        else
          bindr (broadcast_content_digest W e) (\<lambda>digest.
          bindr (guard_existing W g dk Round1 (be_sender_id e) digest) (\<lambda>found.
          case found of
            Some existing \<Rightarrow> Ok (existing, g)
          | None \<Rightarrow>
              bindr (verify_broadcast W dk Round1 original_sender e) (\<lambda>_.
              bindr (bound_round1 W dk (be_sender_id e) (be_payload e)) (\<lambda>_.
              let d = \<lparr>ed_version = DKG_TRANSPORT_FORMAT_VERSION, ed_session = dk, ed_round = Round1,
                       ed_sender_id = be_sender_id e, ed_message_id = be_message_id e, ed_payload_digest = digest,
                       ed_endorser_id = ti_validator_id t, ed_endorser_signing_public_key = tp_signing_public_key p,
                       ed_signature = []\<rparr> in
              bindr (transport_signing_bytes (wv_endorsement_json W) (endorsement_body_of d)) (\<lambda>bs.
              guard_record W dk Round1 (be_sender_id e) (d\<lparr>ed_signature := wv_sign W (ti_signing_key t) bs\<rparr>) g))))))))"

section \<open>The guard on disk\<close>

definition guard_body_of :: "nat \<Rightarrow> nat \<Rightarrow> bytes \<Rightarrow> nat \<Rightarrow> guard_entry list \<Rightarrow> guard_body" where
  "guard_body_of version endorser_id key capacity es =
     \<lparr>gb_domain = ''endorsement_guard_journal'', gb_version = version, gb_endorser_id = endorser_id,
      gb_endorser_signing_public_key = key, gb_capacity = capacity, gb_entries = es\<rparr>"

definition guard_to_bytes :: "wire_env \<Rightarrow> endorsement_guard \<Rightarrow> transport_identity \<Rightarrow> bytes tr" where
  "guard_to_bytes W g t =
     (if ti_validator_id t \<noteq> eg_endorser_id g then Err (WrongEndorser (eg_endorser_id g) (ti_validator_id t))
      else if tp_signing_public_key (peer_of W t) \<noteq> eg_endorser_signing_public_key g
      then Err (InvalidPeer ''endorsement journal identity does not match the guard signing key'')
      else
        (let es = map (\<lambda>(subject, d). \<lparr>ge_subject = subject, ge_endorsement = d\<rparr>) (om_entries (eg_accepted g)) in
         bindr (transport_signing_bytes (wv_guard_json W) (guard_body_of DKG_TRANSPORT_FORMAT_VERSION (eg_endorser_id g)
           (eg_endorser_signing_public_key g) (eg_capacity g) es)) (\<lambda>bs.
         encode_canonical (wv_guard_journal W)
           \<lparr>gj_version = DKG_TRANSPORT_FORMAT_VERSION, gj_endorser_id = eg_endorser_id g,
            gj_endorser_signing_public_key = eg_endorser_signing_public_key g, gj_capacity = eg_capacity g, gj_entries = es,
            gj_signature = wv_sign W (ti_signing_key t) bs\<rparr> MAX_ENDORSEMENT_GUARD_BYTES ''endorsement guard journal'')))"

definition restore_entry ::
  "wire_env \<Rightarrow> transport_peer \<Rightarrow> guard_journal \<Rightarrow> guard_entry \<Rightarrow> bytes option \<times> endorsement_guard \<Rightarrow>
   (bytes option \<times> endorsement_guard) tr" where
  "restore_entry W p j = (\<lambda>x (previous, g).
     let d = ge_endorsement x in
     if ge_subject x = zero32 then Err InvalidEndorsement
     else if (case previous of None \<Rightarrow> False | Some subject \<Rightarrow> ge_subject x \<le> subject)
     then Err (NonCanonical ''endorsement guard journal'')
     else
       bindr (validate_endorsement W d) (\<lambda>_.
       if ed_endorser_id d \<noteq> gj_endorser_id j \<or> ed_endorser_signing_public_key d \<noteq> gj_endorser_signing_public_key j
       then Err InvalidEndorsement
       else
         bindr (endorsement_subject_key W (ed_session d) (ed_round d) (ed_sender_id d) (ed_endorser_id d)) (\<lambda>subject.
         if subject \<noteq> ge_subject x then Err InvalidEndorsement
         else
           bindr (verify_endorsement_signature W p d) (\<lambda>_.
           if om_get (eg_accepted g) (ge_subject x) \<noteq> None then Err InvalidEndorsement
           else Ok (Some (ge_subject x), g\<lparr>eg_accepted := om_insert (ge_subject x) d (eg_accepted g)\<rparr>)))))"

definition guard_from_bytes :: "wire_env \<Rightarrow> bytes \<Rightarrow> transport_peer \<Rightarrow> endorsement_guard tr" where
  "guard_from_bytes W bs p =
     bindr (decode_canonical (wv_guard_journal W) bs MAX_ENDORSEMENT_GUARD_BYTES ''endorsement guard journal'') (\<lambda>j.
     if gj_version j \<noteq> DKG_TRANSPORT_FORMAT_VERSION then Err (TransportSerialization ''unsupported endorsement guard version'')
     else
       bindr (validate_peer W p) (\<lambda>_.
       if tp_validator_id p \<noteq> gj_endorser_id j \<or> tp_signing_public_key p \<noteq> gj_endorser_signing_public_key j
       then Err (InvalidPeer ''endorsement journal signer does not match the expected peer'')
       else
         bindr (parse_key W (tp_signing_public_key p)) (\<lambda>_.
         bindr (transport_signing_bytes (wv_guard_json W) (guard_body_of (gj_version j) (gj_endorser_id j)
           (gj_endorser_signing_public_key j) (gj_capacity j) (gj_entries j))) (\<lambda>message.
         if \<not> wv_verify_strict W (tp_signing_public_key p) message (gj_signature j) then Err InvalidSignature
         else
           bindr (guard_with_capacity W p (gj_capacity j)) (\<lambda>g.
           if gj_capacity j < length (gj_entries j) then Err (ReplayGuardFull (gj_capacity j))
           else
             bindr (foldr_res (restore_entry W p j) (gj_entries j) (None, g)) (\<lambda>(_, g). Ok g))))))"

section \<open>Certificates\<close>

fun check_order :: "wire_env \<Rightarrow> nat option \<Rightarrow> endorsement list \<Rightarrow> unit tr" where
  "check_order W previous [] = Ok ()"
| "check_order W previous (d # ds) =
     bindr (validate_endorsement W d) (\<lambda>_.
     bindr (case previous of
         None \<Rightarrow> Ok ()
       | Some i \<Rightarrow>
           if ed_endorser_id d = i then Err (DuplicateEndorser (ed_endorser_id d))
           else if ed_endorser_id d < i then Err EndorsementOrder
           else Ok ()) (\<lambda>_.
     check_order W (Some (ed_endorser_id d)) ds))"

definition validate_structure :: "wire_env \<Rightarrow> certified_broadcast \<Rightarrow> unit tr" where
  "validate_structure W c =
     bindr (validate_broadcast W (cb_envelope c)) (\<lambda>_.
     if be_round (cb_envelope c) \<noteq> Round1 then Err WrongRound
     else if length (cb_endorsements c) < DKG_BROADCAST_QUORUM \<or> DKG_PARTICIPANTS < length (cb_endorsements c)
     then Err (InsufficientEndorsements DKG_BROADCAST_QUORUM (length (cb_endorsements c)))
     else check_order W None (cb_endorsements c))"

definition certified_to_bytes :: "wire_env \<Rightarrow> certified_broadcast \<Rightarrow> bytes tr" where
  "certified_to_bytes W c =
     bindr (validate_structure W c) (\<lambda>_.
     encode_canonical (wv_certified W) c MAX_CERTIFIED_BROADCAST_BYTES ''certified broadcast envelope'')"

definition certified_from_bytes :: "wire_env \<Rightarrow> bytes \<Rightarrow> certified_broadcast tr" where
  "certified_from_bytes W bs =
     bindr (decode_canonical (wv_certified W) bs MAX_CERTIFIED_BROADCAST_BYTES ''certified broadcast envelope'') (\<lambda>c.
     bindr (validate_structure W c) (\<lambda>_. Ok c))"

definition make_broadcast_certificate :: "wire_env \<Rightarrow> broadcast_envelope \<Rightarrow> endorsement list \<Rightarrow> certified_broadcast tr" where
  "make_broadcast_certificate W e ds =
     (let c = \<lparr>cb_envelope = e, cb_endorsements = sort_key ed_endorser_id ds\<rparr> in
      bindr (validate_structure W c) (\<lambda>_. Ok c))"

definition verify_one_endorsement ::
  "wire_env \<Rightarrow> dkg_session \<Rightarrow> transport_registry \<Rightarrow> broadcast_envelope \<Rightarrow> bytes \<Rightarrow> endorsement \<Rightarrow> nat list \<Rightarrow> nat list tr" where
  "verify_one_endorsement W dk reg e digest d verified =
     (if ed_session d \<noteq> dk \<or> ed_round d \<noteq> Round1 \<or> ed_sender_id d \<noteq> be_sender_id e \<or>
         ed_message_id d \<noteq> be_message_id e \<or> ed_payload_digest d \<noteq> digest
      then Err InvalidEndorsement
      else if ed_endorser_id d \<in> set verified then Err (DuplicateEndorser (ed_endorser_id d))
      else
        bindr (registered_peer reg (ed_endorser_id d)) (\<lambda>p.
        if ed_endorser_signing_public_key d \<noteq> tp_signing_public_key p
        then Err (InvalidPeer ''endorsement signing key is not the registered key'')
        else bindr (verify_endorsement_signature W p d) (\<lambda>_. Ok (ed_endorser_id d # verified))))"

definition verify_certified_broadcast ::
  "wire_env \<Rightarrow> dkg_session \<Rightarrow> transport_registry \<Rightarrow> certified_broadcast \<Rightarrow> bytes tr" where
  "verify_certified_broadcast W dk reg c =
     (let e = cb_envelope c in
      bindr (validate_structure W c) (\<lambda>_.
      bindr (registered_peer reg (be_sender_id e)) (\<lambda>original_sender.
      bindr (verify_broadcast W dk Round1 original_sender e) (\<lambda>_.
      bindr (broadcast_content_digest W e) (\<lambda>digest.
      bindr (foldr_res (verify_one_endorsement W dk reg e digest) (cb_endorsements c) []) (\<lambda>_.
      Ok (be_payload e)))))))"

definition open_certified_round1_broadcast ::
  "wire_env \<Rightarrow> dkg_session \<Rightarrow> transport_registry \<Rightarrow> certified_broadcast \<Rightarrow> round1_message tr" where
  "open_certified_round1_broadcast W dk reg c =
     bindr (verify_certified_broadcast W dk reg c) (\<lambda>payload. bound_round1 W dk (be_sender_id (cb_envelope c)) payload)"

section \<open>Messages between two validators\<close>

definition validate_direct :: "wire_env \<Rightarrow> direct_envelope \<Rightarrow> unit tr" where
  "validate_direct W e =
     bindr (validate_common_header (de_version e) (de_session e) (de_round e) (de_sender_id e) (Some (de_recipient_id e))) (\<lambda>_.
     if de_round e \<noteq> Round2 then Err WrongRound
     else if de_sender_id e = de_recipient_id e then Err SelfMessage
     else if de_message_id e = zero32 then Err InvalidMessageId
     else if length (de_ciphertext e) < 16 \<or> MAX_TRANSPORT_CIPHERTEXT_BYTES < length (de_ciphertext e)
     then Err (PayloadTooLarge (length (de_ciphertext e)) MAX_TRANSPORT_CIPHERTEXT_BYTES)
     else
       bindr (validate_x25519_public W (de_sender_encryption_public_key e)) (\<lambda>_.
       bindr (validate_x25519_public W (de_recipient_encryption_public_key e)) (\<lambda>_.
       bindr (validate_x25519_public W (de_ephemeral_public_key e)) (\<lambda>_.
       bindr (parse_key W (de_sender_signing_public_key e)) (\<lambda>_.
       reject_weak W (de_sender_signing_public_key e))))))"

definition direct_to_bytes :: "wire_env \<Rightarrow> direct_envelope \<Rightarrow> bytes tr" where
  "direct_to_bytes W e =
     bindr (validate_direct W e) (\<lambda>_.
     encode_canonical (wv_direct W) e MAX_POINT_TO_POINT_ENVELOPE_BYTES ''point-to-point envelope'')"

definition direct_from_bytes :: "wire_env \<Rightarrow> bytes \<Rightarrow> direct_envelope tr" where
  "direct_from_bytes W bs =
     bindr (decode_canonical (wv_direct W) bs MAX_POINT_TO_POINT_ENVELOPE_BYTES ''point-to-point envelope'') (\<lambda>e.
     bindr (validate_direct W e) (\<lambda>_. Ok e))"

definition direct_aad_of :: "direct_envelope \<Rightarrow> direct_aad" where
  "direct_aad_of e =
     \<lparr>da_domain = ''confidential_point_to_point'', da_version = de_version e, da_session = de_session e, da_round = de_round e,
      da_sender_id = de_sender_id e, da_recipient_id = de_recipient_id e, da_message_id = de_message_id e,
      da_sender_signing_public_key = de_sender_signing_public_key e,
      da_sender_encryption_public_key = de_sender_encryption_public_key e,
      da_recipient_encryption_public_key = de_recipient_encryption_public_key e,
      da_ephemeral_public_key = de_ephemeral_public_key e, da_nonce = de_nonce e\<rparr>"

definition derive_direct_aead_key :: "wire_env \<Rightarrow> bytes \<Rightarrow> direct_envelope \<Rightarrow> bytes tr" where
  "derive_direct_aead_key W shared e =
     bindr (canonical_bytes (wv_session_json W) (de_session e)) (\<lambda>session_bytes.
     ok_or EncryptionFailed (wv_hkdf W TRANSPORT_SESSION_DOMAIN shared
       (TRANSPORT_KDF_DOMAIN @ session_bytes @ [round_byte (de_round e)] @ be_bytes 2 (de_sender_id e) @
        be_bytes 2 (de_recipient_id e) @ de_sender_encryption_public_key e @ de_recipient_encryption_public_key e @
        de_ephemeral_public_key e)))"

definition direct_signing_bytes :: "wire_env \<Rightarrow> direct_envelope \<Rightarrow> bytes tr" where
  "direct_signing_bytes W e =
     transport_signing_bytes (wv_direct_json W)
       (''confidential_point_to_point_signature'', direct_aad_of e, de_ciphertext e)"

definition seal_point_to_point ::
  "wire_env \<Rightarrow> dkg_session \<Rightarrow> transport_round \<Rightarrow> transport_identity \<Rightarrow> transport_peer \<Rightarrow> bytes \<Rightarrow> bytes list \<Rightarrow> direct_envelope tr" where
  "seal_point_to_point W dk rd t recipient payload rs =
     bindr (serialization_error (validate_session dk)) (\<lambda>_.
     if rd \<noteq> Round2 then Err WrongRound
     else
       bindr (validate_peer W recipient) (\<lambda>_.
       bindr (validate_validator_id (ti_validator_id t)) (\<lambda>_.
       if ti_validator_id t = tp_validator_id recipient then Err SelfMessage
       else if payload = [] \<or> MAX_TRANSPORT_PAYLOAD_BYTES < length payload
       then Err (PayloadTooLarge (length payload) MAX_TRANSPORT_PAYLOAD_BYTES)
       else
         bindr (fill_nonzero rs) (\<lambda>(message_id, rs).
         bindr (fill_nonzero rs) (\<lambda>(ephemeral_secret, rs).
         let shared = wv_x_mul W ephemeral_secret (tp_encryption_public_key recipient) in
         if shared = zero32 then Err (InvalidPeer ''recipient X25519 key produced an all-zero shared secret'')
         else
           bindr (fill_nonzero rs) (\<lambda>(nonce, rs).
           let p = peer_of W t;
               e = \<lparr>de_version = DKG_TRANSPORT_FORMAT_VERSION, de_session = dk, de_round = rd, de_sender_id = ti_validator_id t,
                    de_recipient_id = tp_validator_id recipient, de_message_id = message_id,
                    de_sender_signing_public_key = tp_signing_public_key p,
                    de_sender_encryption_public_key = tp_encryption_public_key p,
                    de_recipient_encryption_public_key = tp_encryption_public_key recipient,
                    de_ephemeral_public_key = wv_x_base W ephemeral_secret, de_nonce = nonce, de_ciphertext = [],
                    de_signature = []\<rparr> in
           bindr (derive_direct_aead_key W shared e) (\<lambda>key.
           bindr (canonical_bytes (wv_aad_json W) (direct_aad_of e)) (\<lambda>aad.
           bindr (ok_or EncryptionFailed (wv_seal W key nonce payload aad)) (\<lambda>ciphertext.
           let e = e\<lparr>de_ciphertext := ciphertext\<rparr> in
           bindr (direct_signing_bytes W e) (\<lambda>bs.
           Ok (e\<lparr>de_signature := wv_sign W (ti_signing_key t) bs\<rparr>)))))))))))"

definition open_point_to_point ::
  "wire_env \<Rightarrow> dkg_session \<Rightarrow> transport_round \<Rightarrow> transport_identity \<Rightarrow> transport_peer \<Rightarrow> direct_envelope \<Rightarrow> bytes tr" where
  "open_point_to_point W dk rd t sender e =
     bindr (validate_direct W e) (\<lambda>_.
     bindr (serialization_error (validate_session dk)) (\<lambda>_.
     bindr (validate_peer W sender) (\<lambda>_.
     if de_session e \<noteq> dk then Err WrongSession
     else if de_round e \<noteq> rd then Err WrongRound
     else if de_sender_id e \<noteq> tp_validator_id sender then Err (WrongSender (tp_validator_id sender) (de_sender_id e))
     else if de_recipient_id e \<noteq> ti_validator_id t then Err (WrongRecipient (ti_validator_id t) (de_recipient_id e))
     else if de_sender_signing_public_key e \<noteq> tp_signing_public_key sender
     then Err (InvalidPeer ''sender signing key is not the registered key'')
     else if de_sender_encryption_public_key e \<noteq> tp_encryption_public_key sender
     then Err (InvalidPeer ''sender encryption key is not the registered key'')
     else if de_recipient_encryption_public_key e \<noteq> tp_encryption_public_key (peer_of W t)
     then Err (WrongRecipient (ti_validator_id t) (de_recipient_id e))
     else
       bindr (canonical_bytes (wv_aad_json W) (direct_aad_of e)) (\<lambda>aad.
       bindr (parse_key W (tp_signing_public_key sender)) (\<lambda>_.
       bindr (direct_signing_bytes W e) (\<lambda>bs.
       if \<not> wv_verify_strict W (tp_signing_public_key sender) bs (de_signature e) then Err InvalidSignature
       else
         (let shared = wv_x_mul W (ti_encryption_secret t) (de_ephemeral_public_key e) in
          if shared = zero32 then Err (InvalidPeer ''ephemeral X25519 key produced an all-zero shared secret'')
          else
            bindr (derive_direct_aead_key W shared e) (\<lambda>key.
            ok_or DecryptionFailed (wv_open W key (de_nonce e) (de_ciphertext e) aad)))))))))"

definition bound_round2 :: "wire_env \<Rightarrow> dkg_session \<Rightarrow> direct_envelope \<Rightarrow> bytes \<Rightarrow> round2_message tr" where
  "bound_round2 W dk e payload =
     bindr (serialization_error (round2_from_bytes (wv_round2 W) payload)) (\<lambda>m.
     if r2_session m \<noteq> dk then Err WrongSession
     else if r2_sender_id m \<noteq> de_sender_id e then Err (WrongSender (de_sender_id e) (r2_sender_id m))
     else if r2_recipient_id m \<noteq> de_recipient_id e then Err (WrongRecipient (de_recipient_id e) (r2_recipient_id m))
     else Ok m)"

definition seal_round2_point_to_point ::
  "wire_env \<Rightarrow> dkg_session \<Rightarrow> transport_identity \<Rightarrow> transport_peer \<Rightarrow> round2_message \<Rightarrow> bytes list \<Rightarrow> direct_envelope tr" where
  "seal_round2_point_to_point W dk t recipient m rs =
     (if r2_sender_id m \<noteq> ti_validator_id t \<or> r2_recipient_id m \<noteq> tp_validator_id recipient \<or> r2_session m \<noteq> dk
      then Err WrongSession
      else
        bindr (serialization_error (round2_to_bytes (wv_round2 W) m)) (\<lambda>payload.
        seal_point_to_point W dk Round2 t recipient payload rs))"

definition open_round2_point_to_point ::
  "wire_env \<Rightarrow> dkg_session \<Rightarrow> transport_identity \<Rightarrow> transport_peer \<Rightarrow> direct_envelope \<Rightarrow> round2_message tr" where
  "open_round2_point_to_point W dk t sender e =
     bindr (open_point_to_point W dk Round2 t sender e) (\<lambda>payload. bound_round2 W dk e payload)"

section \<open>Wire messages\<close>

definition validate_wire :: "wire_env \<Rightarrow> wire_message \<Rightarrow> unit tr" where
  "validate_wire W m =
     (case m of
        Broadcast e \<Rightarrow> validate_broadcast W e
      | CertifiedBroadcast c \<Rightarrow> validate_structure W c
      | PointToPoint e \<Rightarrow> validate_direct W e)"

definition wire_to_bytes :: "wire_env \<Rightarrow> wire_message \<Rightarrow> bytes tr" where
  "wire_to_bytes W m =
     bindr (validate_wire W m) (\<lambda>_. encode_canonical (wv_wire W) m MAX_WIRE_MESSAGE_BYTES ''transport envelope'')"

definition wire_from_bytes :: "wire_env \<Rightarrow> bytes \<Rightarrow> wire_message tr" where
  "wire_from_bytes W bs =
     bindr (decode_canonical (wv_wire W) bs MAX_WIRE_MESSAGE_BYTES ''transport envelope'') (\<lambda>m.
     bindr (validate_wire W m) (\<lambda>_. Ok m))"

text \<open>
  The collectors of both rounds: the bounded replay guard, the transcripts of broadcasts and of
  certificates, and the inbox of encrypted messages. An operation gives its result next to the new state;
  an error leaves the state as it is.
\<close>

section \<open>The replay guard\<close>

text \<open>The set of accepted keys is a \<open>BTreeSet\<close>.\<close>

record replay_guard =
  rg_capacity :: nat
  rg_accepted :: "bytes list"

definition new_replay_guard :: "nat \<Rightarrow> replay_guard" where
  "new_replay_guard capacity = \<lparr>rg_capacity = max 1 (min capacity DEFAULT_REPLAY_GUARD_CAPACITY), rg_accepted = []\<rparr>"

definition replay_guard_with_capacity :: "nat \<Rightarrow> replay_guard tr" where
  "replay_guard_with_capacity capacity =
     (if capacity = 0 \<or> DEFAULT_REPLAY_GUARD_CAPACITY < capacity
      then Err (InvalidGuardCapacity DEFAULT_REPLAY_GUARD_CAPACITY capacity)
      else Ok \<lparr>rg_capacity = capacity, rg_accepted = []\<rparr>)"

definition replay_key :: "wire_env \<Rightarrow> dkg_session \<Rightarrow> transport_round \<Rightarrow> nat \<Rightarrow> nat option \<Rightarrow> bytes \<Rightarrow> bytes tr" where
  "replay_key W dk rd sender_id recipient_id message_id =
     bindr (validate_validator_id sender_id) (\<lambda>_.
     bindr (case recipient_id of
         None \<Rightarrow> Ok ()
       | Some r \<Rightarrow> bindr (validate_validator_id r) (\<lambda>_. if r = sender_id then Err SelfMessage else Ok ())) (\<lambda>_.
     bindr (canonical_bytes (wv_session_json W) dk) (\<lambda>bs.
     Ok (wv_sha W (TRANSPORT_REPLAY_DOMAIN @ bs @ [round_byte rd] @ be_bytes 2 sender_id @
       (case recipient_id of Some r \<Rightarrow> [1] @ be_bytes 2 r | None \<Rightarrow> [0]) @ message_id)))))"

definition replay_seen ::
  "wire_env \<Rightarrow> replay_guard \<Rightarrow> dkg_session \<Rightarrow> transport_round \<Rightarrow> nat \<Rightarrow> nat option \<Rightarrow> bytes \<Rightarrow> bool tr" where
  "replay_seen W g dk rd sender_id recipient_id message_id =
     bindr (replay_key W dk rd sender_id recipient_id message_id) (\<lambda>key. Ok (key \<in> set (rg_accepted g)))"

definition check_and_record ::
  "wire_env \<Rightarrow> dkg_session \<Rightarrow> transport_round \<Rightarrow> nat \<Rightarrow> nat option \<Rightarrow> bytes \<Rightarrow> replay_guard \<Rightarrow> replay_guard tr" where
  "check_and_record W dk rd sender_id recipient_id message_id g =
     (if message_id = zero32 then Err InvalidMessageId
      else
        bindr (replay_key W dk rd sender_id recipient_id message_id) (\<lambda>key.
        if key \<in> set (rg_accepted g) then Err ReplayDetected
        else if rg_capacity g \<le> length (rg_accepted g) then Err (ReplayGuardFull (rg_capacity g))
        else Ok (g\<lparr>rg_accepted := insort key (rg_accepted g)\<rparr>)))"

section \<open>Certificates\<close>

record certified_transcript =
  ct_session :: dkg_session
  ct_peers :: transport_registry
  ct_certificates :: "(nat, certified_broadcast) omap"
  ct_messages :: "(nat, round1_message) omap"
  ct_replay_guard :: replay_guard

definition new_certified_transcript :: "dkg_session \<Rightarrow> transport_registry \<Rightarrow> certified_transcript tr" where
  "new_certified_transcript dk reg =
     bindr (serialization_error (validate_session dk)) (\<lambda>_.
     Ok \<lparr>ct_session = dk, ct_peers = reg, ct_certificates = [], ct_messages = [],
        ct_replay_guard = new_replay_guard DEFAULT_REPLAY_GUARD_CAPACITY\<rparr>)"

text \<open>\<open>is_none_or\<close>: nothing was accepted from the sender, or exactly this.\<close>

definition absent_or_same :: "'a option \<Rightarrow> 'a \<Rightarrow> bool" where
  "absent_or_same found x \<longleftrightarrow> (case found of None \<Rightarrow> True | Some y \<Rightarrow> y = x)"

definition accept_certificate ::
  "wire_env \<Rightarrow> certified_broadcast \<Rightarrow> certified_transcript \<Rightarrow> (round1_message \<times> certified_transcript) tr" where
  "accept_certificate W c T =
     (let e = cb_envelope c; sender_id = be_sender_id e; found = om_get (ct_certificates T) sender_id in
      bindr (replay_seen W (ct_replay_guard T) (ct_session T) Round1 sender_id None (be_message_id e)) (\<lambda>seen.
      if seen \<and> absent_or_same found c then Err ReplayDetected
      else
        bindr (open_certified_round1_broadcast W (ct_session T) (ct_peers T) c) (\<lambda>m.
        case found of
          Some existing \<Rightarrow> if cb_envelope existing = e then Err ReplayDetected else Err (Equivocation sender_id)
        | None \<Rightarrow>
            bindr (check_and_record W (ct_session T) Round1 sender_id None (be_message_id e) (ct_replay_guard T)) (\<lambda>g.
            Ok (m, T\<lparr>ct_replay_guard := g, ct_messages := om_insert (r1_sender_id m) m (ct_messages T),
              ct_certificates := om_insert sender_id c (ct_certificates T)\<rparr>)))))"

definition certified_complete :: "certified_transcript \<Rightarrow> bool" where
  "certified_complete T \<longleftrightarrow> length (ct_messages T) = DKG_PARTICIPANTS"

definition incoming_for :: "nat \<Rightarrow> certified_transcript \<Rightarrow> round1_message list tr" where
  "incoming_for validator_id T =
     bindr (validate_validator_id validator_id) (\<lambda>_.
     if \<not> certified_complete T then Err (Incomplete DKG_PARTICIPANTS (length (ct_messages T)))
     else Ok (map snd (filter (\<lambda>(sender_id, m). sender_id \<noteq> validator_id) (om_entries (ct_messages T)))))"

section \<open>Broadcasts\<close>

record broadcast_transcript =
  bt_session :: dkg_session
  bt_round :: transport_round
  bt_peers :: transport_registry
  bt_messages :: "(nat, broadcast_envelope) omap"
  bt_replay_guard :: replay_guard

definition new_broadcast_transcript ::
  "dkg_session \<Rightarrow> transport_round \<Rightarrow> transport_registry \<Rightarrow> broadcast_transcript tr" where
  "new_broadcast_transcript dk rd reg =
     bindr (serialization_error (validate_session dk)) (\<lambda>_.
     if rd \<noteq> Round1 then Err WrongRound
     else
       Ok \<lparr>bt_session = dk, bt_round = rd, bt_peers = reg, bt_messages = [],
          bt_replay_guard = new_replay_guard DEFAULT_REPLAY_GUARD_CAPACITY\<rparr>)"

definition accept_broadcast ::
  "wire_env \<Rightarrow> broadcast_envelope \<Rightarrow> broadcast_transcript \<Rightarrow> (bytes \<times> broadcast_transcript) tr" where
  "accept_broadcast W e T =
     (let sender_id = be_sender_id e; found = om_get (bt_messages T) sender_id in
      bindr (registered_peer (bt_peers T) sender_id) (\<lambda>p.
      bindr (replay_seen W (bt_replay_guard T) (bt_session T) (bt_round T) sender_id None (be_message_id e)) (\<lambda>seen.
      if seen \<and> absent_or_same found e then Err ReplayDetected
      else
        bindr (verify_broadcast W (bt_session T) (bt_round T) p e) (\<lambda>_.
        bindr (bound_round1 W (bt_session T) sender_id (be_payload e)) (\<lambda>_.
        case found of
          Some existing \<Rightarrow> if existing = e then Err ReplayDetected else Err (Equivocation sender_id)
        | None \<Rightarrow>
            bindr (check_and_record W (bt_session T) (bt_round T) sender_id None (be_message_id e) (bt_replay_guard T)) (\<lambda>g.
            Ok (be_payload e, T\<lparr>bt_replay_guard := g, bt_messages := om_insert sender_id e (bt_messages T)\<rparr>)))))))"

definition broadcast_complete :: "broadcast_transcript \<Rightarrow> bool" where
  "broadcast_complete T \<longleftrightarrow> length (bt_messages T) = DKG_PARTICIPANTS"

definition broadcast_payloads :: "broadcast_transcript \<Rightarrow> bytes list tr" where
  "broadcast_payloads T =
     (if \<not> broadcast_complete T then Err (Incomplete DKG_PARTICIPANTS (length (bt_messages T)))
      else Ok (map be_payload (om_values (bt_messages T))))"

section \<open>The inbox\<close>

record direct_inbox =
  di_session :: dkg_session
  di_recipient_id :: nat
  di_peers :: transport_registry
  di_messages :: "(nat, direct_envelope) omap"
  di_plaintexts :: "(nat, bytes) omap"
  di_replay_guard :: replay_guard

definition new_inbox :: "dkg_session \<Rightarrow> nat \<Rightarrow> transport_registry \<Rightarrow> direct_inbox tr" where
  "new_inbox dk recipient_id reg =
     bindr (serialization_error (validate_session dk)) (\<lambda>_.
     bindr (validate_validator_id recipient_id) (\<lambda>_.
     bindr (registered_peer reg recipient_id) (\<lambda>_.
     Ok \<lparr>di_session = dk, di_recipient_id = recipient_id, di_peers = reg, di_messages = [], di_plaintexts = [],
        di_replay_guard = new_replay_guard DEFAULT_REPLAY_GUARD_CAPACITY\<rparr>)))"

definition accept_direct ::
  "wire_env \<Rightarrow> transport_identity \<Rightarrow> direct_envelope \<Rightarrow> direct_inbox \<Rightarrow> (bytes \<times> direct_inbox) tr" where
  "accept_direct W t e I =
     (if ti_validator_id t \<noteq> di_recipient_id I then Err (WrongRecipient (di_recipient_id I) (ti_validator_id t))
      else
        bindr (registered_peer (di_peers I) (di_recipient_id I)) (\<lambda>registered.
        if peer_of W t \<noteq> registered then Err (InvalidPeer ''recipient identity does not match the registered transport key'')
        else
          (let sender_id = de_sender_id e; to = Some (di_recipient_id I); found = om_get (di_messages I) sender_id in
           bindr (replay_seen W (di_replay_guard I) (di_session I) Round2 sender_id to (de_message_id e)) (\<lambda>seen.
           if seen \<and> absent_or_same found e then Err ReplayDetected
           else
             bindr (registered_peer (di_peers I) sender_id) (\<lambda>p.
             bindr (open_point_to_point W (di_session I) Round2 t p e) (\<lambda>payload.
             bindr (bound_round2 W (di_session I) e payload) (\<lambda>_.
             case found of
               Some existing \<Rightarrow> if existing = e then Err ReplayDetected else Err (Equivocation sender_id)
             | None \<Rightarrow>
                 bindr (check_and_record W (di_session I) Round2 sender_id to (de_message_id e) (di_replay_guard I)) (\<lambda>g.
                 Ok (payload, I\<lparr>di_replay_guard := g, di_plaintexts := om_insert sender_id payload (di_plaintexts I),
                   di_messages := om_insert sender_id e (di_messages I)\<rparr>)))))))))"

definition inbox_complete :: "direct_inbox \<Rightarrow> bool" where
  "inbox_complete I \<longleftrightarrow> length (di_messages I) = DKG_PARTICIPANTS - 1"

definition inbox_payloads :: "direct_inbox \<Rightarrow> bytes list tr" where
  "inbox_payloads I =
     (if \<not> inbox_complete I then Err (Incomplete (DKG_PARTICIPANTS - 1) (length (di_messages I)))
      else Ok (om_values (di_plaintexts I)))"

end
