(* ===== verification/Dkg_Ceremony.thy ===== *)
theory Dkg_Ceremony
  imports Dkg_Transport
begin

text \<open>
  The recoverable ceremony around the key generation (\<open>dkg_ceremony.rs\<close>): its durable record, the journal
  with compare-and-swap, and the coordinator, over any journal and any provider of the secret state. The
  two traits are records of operations on a state. An operation of the provider gives its new state also
  with an error. Texts of errors of other crates are left out.
\<close>

definition DKG_CEREMONY_RECORD_VERSION :: nat where "DKG_CEREMONY_RECORD_VERSION = 1"
definition MAX_DKG_CEREMONY_RECORD_BYTES :: nat where "MAX_DKG_CEREMONY_RECORD_BYTES = 2 * 1024 * 1024"
definition MAX_DKG_PROVIDER_CHECKPOINT_BYTES :: nat where "MAX_DKG_PROVIDER_CHECKPOINT_BYTES = 512 * 1024"
definition DKG_CEREMONY_DOMAIN :: bytes where "DKG_CEREMONY_DOMAIN = domain_tag ''ASTERIA_PRIVATE_ORDER_DKG_CEREMONY_V1''"

section \<open>The record\<close>

datatype ceremony_phase = PhaseInitial | PhaseRound1 | PhaseRound2 | PhaseFinalize | PhaseCompleted | PhaseAborted

definition is_terminal :: "ceremony_phase \<Rightarrow> bool" where
  "is_terminal p \<longleftrightarrow> p = PhaseCompleted \<or> p = PhaseAborted"

record ceremony_deadlines =
  dl_round1_unix_ms :: nat
  dl_round2_unix_ms :: nat
  dl_finalize_unix_ms :: nat

datatype abort_code =
    AbortTimeout
  | AbortEquivocation
  | AbortRound2SemanticFailure
  | AbortFinalizeSemanticFailure
  | AbortProviderFailure
  | AbortOperator

record ceremony_abort =
  ab_at_unix_ms :: nat
  ab_code :: abort_code
  ab_detail_hash :: bytes

record ceremony_completion =
  cc_validator_id :: nat
  cc_epoch :: nat
  cc_public_key :: bytes
  cc_key_id :: bytes

record ceremony_record =
  cy_version :: nat
  cy_revision :: nat
  cy_session :: dkg_session
  cy_validator_id :: nat
  cy_registry_digest :: bytes
  cy_phase :: ceremony_phase
  cy_deadlines :: ceremony_deadlines
  cy_provider_checkpoint :: bytes
  cy_local_round1_message :: "bytes option"
  cy_local_round1_envelope :: "bytes option"
  cy_round1_certificates :: "(nat, bytes) omap"
  cy_round1_messages :: "(nat, bytes) omap"
  cy_outgoing_round2_envelopes :: "(nat, bytes) omap"
  cy_incoming_round2_envelopes :: "(nat, bytes) omap"
  cy_incoming_round2_messages :: "(nat, bytes) omap"
  cy_completion :: "ceremony_completion option"
  cy_abort :: "ceremony_abort option"

datatype journal_error =
    AlreadyExists
  | NotFound
  | RevisionConflict nat nat
  | Storage string
  | InvalidData string

datatype provider_error =
    ProviderTransport string
  | ProviderFrost string
  | ProviderCustody string
  | ProviderState string

datatype ceremony_error =
    Journal journal_error
  | Provider string
  | Transport string
  | InvalidRecord string
  | RecordTooLarge
  | WrongPhase ceremony_phase ceremony_phase
  | NotReady nat nat
  | TimedOut ceremony_phase
  | AbortedIn ceremony_phase
  | EquivocationBy nat
  | InvalidMessage string
  | CeremonySerialization string

type_synonym 'a cy = "(ceremony_error, 'a) res"
type_synonym 'a jr = "(journal_error, 'a) res"
type_synonym 'a pv = "(provider_error, 'a) res"

fun journal_message :: "journal_error \<Rightarrow> string" where
  "journal_message AlreadyExists = ''ceremony journal entry already exists''"
| "journal_message NotFound = ''ceremony journal entry was not found''"
| "journal_message (RevisionConflict expected actual) =
     ''ceremony journal revision conflict: expected '' @ nat_text expected @ '', found '' @ nat_text actual"
| "journal_message (Storage t) = ''ceremony journal storage failure: '' @ t"
| "journal_message (InvalidData t) = ''ceremony journal contains invalid canonical data: '' @ t"

fun provider_message :: "provider_error \<Rightarrow> string" where
  "provider_message (ProviderTransport t) = ''provider transport failure: '' @ t"
| "provider_message (ProviderFrost t) = ''provider FROST failure: '' @ t"
| "provider_message (ProviderCustody t) = ''provider key custody failure: '' @ t"
| "provider_message (ProviderState t) = ''provider state failure: '' @ t"

fun phase_text :: "ceremony_phase \<Rightarrow> string" where
  "phase_text PhaseInitial = ''Initial''"
| "phase_text PhaseRound1 = ''Round1''"
| "phase_text PhaseRound2 = ''Round2''"
| "phase_text PhaseFinalize = ''Finalize''"
| "phase_text PhaseCompleted = ''Completed''"
| "phase_text PhaseAborted = ''Aborted''"

fun ceremony_message :: "ceremony_error \<Rightarrow> string" where
  "ceremony_message (Journal e) = ''ceremony journal error: '' @ journal_message e"
| "ceremony_message (Provider t) = ''ceremony provider error: '' @ t"
| "ceremony_message (Transport t) = ''ceremony transport error: '' @ t"
| "ceremony_message (InvalidRecord t) = ''invalid ceremony record: '' @ t"
| "ceremony_message RecordTooLarge = ''ceremony record exceeds the configured size limit''"
| "ceremony_message (WrongPhase expected actual) =
     ''ceremony is in phase '' @ phase_text actual @ '', expected '' @ phase_text expected"
| "ceremony_message (NotReady expected actual) =
     ''ceremony is not ready: expected '' @ nat_text expected @ '' messages, received '' @ nat_text actual"
| "ceremony_message (TimedOut p) = ''ceremony timed out in phase '' @ phase_text p"
| "ceremony_message (AbortedIn p) = ''ceremony was aborted in phase '' @ phase_text p"
| "ceremony_message (EquivocationBy i) = ''ceremony observed equivocation by validator '' @ nat_text i"
| "ceremony_message (InvalidMessage t) = ''ceremony message is invalid: '' @ t"
| "ceremony_message (CeremonySerialization t) = ''ceremony serialization failure: '' @ t"

definition provider_failure :: "'a pv \<Rightarrow> 'a cy" where
  "provider_failure r = map_err (\<lambda>e. Provider (provider_message e)) r"

definition transport_failure :: "'a tr \<Rightarrow> 'a cy" where
  "transport_failure r = map_err (\<lambda>e. Transport []) r"

definition invalid_record :: "'a td \<Rightarrow> 'a cy" where
  "invalid_record r = map_err (\<lambda>e. InvalidRecord []) r"

definition validate_deadlines :: "ceremony_deadlines \<Rightarrow> unit cy" where
  "validate_deadlines d =
     (if dl_round1_unix_ms d = 0 \<or> dl_round2_unix_ms d \<le> dl_round1_unix_ms d \<or> dl_finalize_unix_ms d \<le> dl_round2_unix_ms d
      then Err (InvalidRecord ''ceremony deadlines must be non-zero and strictly increasing'') else Ok ())"

fun deadline_for :: "ceremony_deadlines \<Rightarrow> ceremony_phase \<Rightarrow> nat option" where
  "deadline_for d PhaseInitial = Some (dl_round1_unix_ms d)"
| "deadline_for d PhaseRound1 = Some (dl_round1_unix_ms d)"
| "deadline_for d PhaseRound2 = Some (dl_round2_unix_ms d)"
| "deadline_for d PhaseFinalize = Some (dl_finalize_unix_ms d)"
| "deadline_for d PhaseCompleted = None"
| "deadline_for d PhaseAborted = None"

definition validate_completion :: "dkg_session \<Rightarrow> ceremony_completion \<Rightarrow> unit cy" where
  "validate_completion dk x =
     (if cc_validator_id x < 1 \<or> DKG_PARTICIPANTS < cc_validator_id x \<or> cc_epoch x \<noteq> dk_epoch dk \<or>
         cc_public_key x = zero32 \<or> cc_key_id x = zero32
      then Err (InvalidRecord ''provider completion is not bound to the ceremony'') else Ok ())"

definition transcript_entry_ok :: "nat \<times> bytes \<Rightarrow> bool" where
  "transcript_entry_ok = (\<lambda>(i, bs). 1 \<le> i \<and> i \<le> DKG_PARTICIPANTS \<and> bs \<noteq> [])"

definition validate_shape :: "ceremony_record \<Rightarrow> unit cy" where
  "validate_shape r =
     (if cy_version r \<noteq> DKG_CEREMONY_RECORD_VERSION \<or> cy_revision r = 0
      then Err (InvalidRecord ''unsupported ceremony record version or revision'')
      else
        bindr (invalid_record (validate_session (cy_session r))) (\<lambda>_.
        if cy_validator_id r < 1 \<or> DKG_PARTICIPANTS < cy_validator_id r \<or> cy_registry_digest r = zero32 \<or>
           MAX_DKG_PROVIDER_CHECKPOINT_BYTES < length (cy_provider_checkpoint r)
        then Err (InvalidRecord ''ceremony record identity or checkpoint is invalid'')
        else
          bindr (validate_deadlines (cy_deadlines r)) (\<lambda>_.
          bindr (if cy_phase r = PhaseAborted
                 then check (cy_abort r \<noteq> None \<and> cy_completion r = None)
                   (InvalidRecord ''aborted ceremony must carry only an abort tombstone'')
                 else check (cy_abort r = None) (InvalidRecord ''non-aborted ceremony cannot carry an abort tombstone'')) (\<lambda>_.
          bindr (if cy_phase r = PhaseCompleted
                 then
                   bindr (ok_or (InvalidRecord ''completed ceremony is missing its public completion'') (cy_completion r))
                     (validate_completion (cy_session r))
                 else check (cy_completion r = None) (InvalidRecord ''non-completed ceremony cannot carry a completion'')) (\<lambda>_.
          check (list_all transcript_entry_ok
              (cy_round1_certificates r @ cy_round1_messages r @ cy_outgoing_round2_envelopes r @
               cy_incoming_round2_envelopes r @ cy_incoming_round2_messages r))
            (InvalidRecord ''ceremony transcript has an invalid validator id or empty payload''))))))"

record ceremony_env =
  cw_wire :: wire_env
  cw_record :: "ceremony_record codec"

definition canonical :: "('a \<Rightarrow> bytes option) \<Rightarrow> 'a \<Rightarrow> bytes cy" where
  "canonical json x = ok_or (CeremonySerialization []) (json x)"

definition record_to_bytes :: "ceremony_env \<Rightarrow> ceremony_record \<Rightarrow> bytes cy" where
  "record_to_bytes V r =
     bindr (validate_shape r) (\<lambda>_.
     bindr (canonical (cd_json (cw_record V)) r) (\<lambda>bs.
     if MAX_DKG_CEREMONY_RECORD_BYTES < length bs then Err RecordTooLarge else Ok bs))"

definition record_from_bytes :: "ceremony_env \<Rightarrow> bytes \<Rightarrow> ceremony_record cy" where
  "record_from_bytes V bs =
     (if bs = [] \<or> MAX_DKG_CEREMONY_RECORD_BYTES < length bs then Err RecordTooLarge
      else
        bindr (ok_or (CeremonySerialization []) (cd_parse (cw_record V) bs)) (\<lambda>r.
        bindr (canonical (cd_json (cw_record V)) r) (\<lambda>again.
        if again \<noteq> bs then Err (CeremonySerialization ''non-canonical ceremony journal record'')
        else bindr (validate_shape r) (\<lambda>_. Ok r))))"

section \<open>The journal\<close>

record 'j journal_ops =
  jo_create :: "ceremony_record \<Rightarrow> 'j \<Rightarrow> 'j jr"
  jo_load :: "bytes \<Rightarrow> 'j \<Rightarrow> ceremony_record option jr"
  jo_swap :: "bytes \<Rightarrow> nat \<Rightarrow> ceremony_record \<Rightarrow> 'j \<Rightarrow> 'j jr"

fun valid_phase_transition :: "ceremony_phase \<Rightarrow> ceremony_phase \<Rightarrow> bool" where
  "valid_phase_transition PhaseInitial q \<longleftrightarrow> q = PhaseRound1 \<or> q = PhaseAborted"
| "valid_phase_transition PhaseRound1 q \<longleftrightarrow> q = PhaseRound1 \<or> q = PhaseRound2 \<or> q = PhaseAborted"
| "valid_phase_transition PhaseRound2 q \<longleftrightarrow> q = PhaseRound2 \<or> q = PhaseFinalize \<or> q = PhaseAborted"
| "valid_phase_transition PhaseFinalize q \<longleftrightarrow> q = PhaseCompleted \<or> q = PhaseAborted"
| "valid_phase_transition PhaseCompleted q \<longleftrightarrow> False"
| "valid_phase_transition PhaseAborted q \<longleftrightarrow> False"

definition invalid_data :: "'a cy \<Rightarrow> 'a jr" where
  "invalid_data r = map_err (\<lambda>e. InvalidData (ceremony_message e)) r"

type_synonym memory_journal = "(bytes, bytes) omap"

definition memory_create :: "ceremony_env \<Rightarrow> ceremony_record \<Rightarrow> memory_journal \<Rightarrow> memory_journal jr" where
  "memory_create V r j =
     bindr (invalid_data (record_to_bytes V r)) (\<lambda>bs.
     if om_get j (dk_ceremony_id (cy_session r)) \<noteq> None then Err AlreadyExists
     else Ok (om_insert (dk_ceremony_id (cy_session r)) bs j))"

definition memory_load :: "ceremony_env \<Rightarrow> bytes \<Rightarrow> memory_journal \<Rightarrow> ceremony_record option jr" where
  "memory_load V i j =
     (case om_get j i of
        None \<Rightarrow> Ok None
      | Some bs \<Rightarrow> bindr (invalid_data (record_from_bytes V bs)) (\<lambda>r. Ok (Some r)))"

definition same_binding :: "ceremony_record \<Rightarrow> ceremony_record \<Rightarrow> bool" where
  "same_binding r r' \<longleftrightarrow> cy_version r = cy_version r' \<and> cy_session r = cy_session r' \<and>
     cy_validator_id r = cy_validator_id r' \<and> cy_registry_digest r = cy_registry_digest r' \<and> cy_deadlines r = cy_deadlines r'"

definition memory_swap ::
  "ceremony_env \<Rightarrow> bytes \<Rightarrow> nat \<Rightarrow> ceremony_record \<Rightarrow> memory_journal \<Rightarrow> memory_journal jr" where
  "memory_swap V i expected_revision r j =
     bindr (ok_or (InvalidData ''journal revision overflow'') (checked_add u64_max expected_revision 1)) (\<lambda>next_revision.
     if dk_ceremony_id (cy_session r) \<noteq> i \<or> cy_revision r \<noteq> next_revision
     then Err (InvalidData ''journal CAS record has an invalid identity or revision'')
     else
       bindr (invalid_data (record_to_bytes V r)) (\<lambda>bs.
       bindr (ok_or NotFound (om_get j i)) (\<lambda>current.
       bindr (invalid_data (record_from_bytes V current)) (\<lambda>c.
       if cy_revision c \<noteq> expected_revision then Err (RevisionConflict expected_revision (cy_revision c))
       else if \<not> same_binding c r
       then Err (InvalidData ''journal CAS attempted to change an immutable ceremony binding'')
       else if \<not> valid_phase_transition (cy_phase c) (cy_phase r)
       then Err (InvalidData (''journal CAS attempted invalid phase transition '' @ phase_text (cy_phase c) @ '' -> '' @
         phase_text (cy_phase r)))
       else Ok (om_insert i bs j)))))"

definition memory_journal :: "ceremony_env \<Rightarrow> memory_journal journal_ops" where
  "memory_journal V = \<lparr>jo_create = memory_create V, jo_load = memory_load V, jo_swap = memory_swap V\<rparr>"

section \<open>The provider\<close>

datatype provider_state = Ready | ProviderRound1 | ProviderRound2 | ProviderCompleted | Quarantined

record 'p provider_ops =
  po_local_peer :: "'p \<Rightarrow> transport_peer"
  po_checkpoint :: "dkg_session \<Rightarrow> 'p \<Rightarrow> bytes pv"
  po_restore :: "dkg_session \<Rightarrow> ceremony_phase \<Rightarrow> bytes \<Rightarrow> 'p \<Rightarrow> provider_state pv \<times> 'p"
  po_begin_round1 :: "dkg_session \<Rightarrow> 'p \<Rightarrow> (round1_message \<times> broadcast_envelope) pv \<times> 'p"
  po_endorse_round1 :: "dkg_session \<Rightarrow> broadcast_envelope \<Rightarrow> 'p \<Rightarrow> endorsement pv \<times> 'p"
  po_advance_round2 :: "dkg_session \<Rightarrow> round1_message list \<Rightarrow> 'p \<Rightarrow> (round2_message \<times> direct_envelope) list pv \<times> 'p"
  po_open_round2 :: "dkg_session \<Rightarrow> direct_envelope \<Rightarrow> 'p \<Rightarrow> round2_message pv \<times> 'p"
  po_finalize :: "dkg_session \<Rightarrow> round2_message list \<Rightarrow> 'p \<Rightarrow> ceremony_completion pv \<times> 'p"
  po_quarantine :: "dkg_session \<Rightarrow> abort_code \<Rightarrow> 'p \<Rightarrow> unit pv \<times> 'p"

fun expected_provider_states :: "ceremony_phase \<Rightarrow> provider_state list" where
  "expected_provider_states PhaseInitial = [Ready, ProviderRound1]"
| "expected_provider_states PhaseRound1 = [ProviderRound1]"
| "expected_provider_states PhaseRound2 = [ProviderRound2]"
| "expected_provider_states PhaseFinalize = [ProviderRound2, ProviderCompleted]"
| "expected_provider_states PhaseCompleted = [ProviderCompleted]"
| "expected_provider_states PhaseAborted = [Quarantined]"

section \<open>The coordinator\<close>

record ('j, 'p) coordinator =
  co_journal :: 'j
  co_provider :: 'p
  co_registry :: transport_registry
  co_record :: ceremony_record

record ('j, 'p) ceremony_ops =
  oc_env :: ceremony_env
  oc_journal :: "'j journal_ops"
  oc_provider :: "'p provider_ops"

abbreviation ceremony_wire :: "('j, 'p) ceremony_ops \<Rightarrow> wire_env" where
  "ceremony_wire X \<equiv> cw_wire (oc_env X)"

text \<open>Sequencing of operations that change the coordinator also when they fail.\<close>

fun andthen :: "('e, 'a) res \<times> 's \<Rightarrow> ('a \<Rightarrow> 's \<Rightarrow> ('e, 'b) res \<times> 's) \<Rightarrow> ('e, 'b) res \<times> 's" where
  "andthen (Ok x, s) f = f x s"
| "andthen (Err e, s) f = (Err e, s)"
| "andthen (Panic, s) f = (Panic, s)"

definition validate_checkpoint :: "bytes \<Rightarrow> unit cy" where
  "validate_checkpoint bs =
     (if MAX_DKG_PROVIDER_CHECKPOINT_BYTES < length bs
      then Err (InvalidRecord ''provider checkpoint exceeds the configured limit'') else Ok ())"

definition validate_registry_identity :: "transport_registry \<Rightarrow> transport_peer \<Rightarrow> unit cy" where
  "validate_registry_identity reg local =
     bindr (transport_failure (registered_peer reg (tp_validator_id local))) (\<lambda>registered.
     if registered \<noteq> local then Err (InvalidRecord ''provider transport identity does not match the registry'') else Ok ())"

definition registry_digest :: "wire_env \<Rightarrow> transport_registry \<Rightarrow> bytes cy" where
  "registry_digest W reg =
     bindr (traverse (\<lambda>p. transport_failure (peer_to_bytes W p)) (om_values reg)) (\<lambda>bss.
     Ok (wv_sha W (DKG_CEREMONY_DOMAIN @ concat (map (\<lambda>bs. be_bytes 8 (length bs) @ bs) bss))))"

definition hash_detail :: "wire_env \<Rightarrow> string \<Rightarrow> bytes" where
  "hash_detail W detail = wv_sha W (DKG_CEREMONY_DOMAIN @ ascii detail)"

definition start_ceremony ::
  "('j, 'p) ceremony_ops \<Rightarrow> 'j \<Rightarrow> 'p \<Rightarrow> transport_registry \<Rightarrow> dkg_session \<Rightarrow> ceremony_deadlines \<Rightarrow> bytes \<Rightarrow> nat \<Rightarrow>
   ('j, 'p) coordinator cy" where
  "start_ceremony X j p reg dk deadlines expected_chain_domain expected_epoch =
     bindr (invalid_record (validate_session dk)) (\<lambda>_.
     bindr (validate_deadlines deadlines) (\<lambda>_.
     if dk_chain_domain dk \<noteq> expected_chain_domain \<or> dk_epoch dk \<noteq> expected_epoch
     then Err (InvalidRecord ''ceremony session is not bound to the expected chain domain and epoch'')
     else
       (let peer = po_local_peer (oc_provider X) p in
        bindr (validate_registry_identity reg peer) (\<lambda>_.
        bindr (provider_failure (po_checkpoint (oc_provider X) dk p)) (\<lambda>checkpoint.
        bindr (validate_checkpoint checkpoint) (\<lambda>_.
        bindr (registry_digest (ceremony_wire X) reg) (\<lambda>digest.
        let r = \<lparr>cy_version = DKG_CEREMONY_RECORD_VERSION, cy_revision = 1, cy_session = dk,
                 cy_validator_id = tp_validator_id peer, cy_registry_digest = digest, cy_phase = PhaseInitial,
                 cy_deadlines = deadlines, cy_provider_checkpoint = checkpoint, cy_local_round1_message = None,
                 cy_local_round1_envelope = None, cy_round1_certificates = [], cy_round1_messages = [],
                 cy_outgoing_round2_envelopes = [], cy_incoming_round2_envelopes = [], cy_incoming_round2_messages = [],
                 cy_completion = None, cy_abort = None\<rparr> in
        bindr (map_err Journal (jo_create (oc_journal X) r j)) (\<lambda>j.
        Ok \<lparr>co_journal = j, co_provider = p, co_registry = reg, co_record = r\<rparr>))))))))"

definition recover_ceremony ::
  "('j, 'p) ceremony_ops \<Rightarrow> 'j \<Rightarrow> 'p \<Rightarrow> transport_registry \<Rightarrow> bytes \<Rightarrow> bytes \<Rightarrow> nat \<Rightarrow> ('j, 'p) coordinator cy" where
  "recover_ceremony X j p reg ceremony_id expected_chain_domain expected_epoch =
     bindr (map_err Journal (bindr (jo_load (oc_journal X) ceremony_id j) (ok_or NotFound))) (\<lambda>r.
     bindr (if dk_ceremony_id (cy_session r) \<noteq> ceremony_id \<or> dk_chain_domain (cy_session r) \<noteq> expected_chain_domain \<or>
               dk_epoch (cy_session r) \<noteq> expected_epoch
            then Ok False
            else bindr (registry_digest (ceremony_wire X) reg) (\<lambda>digest. Ok (cy_registry_digest r = digest))) (\<lambda>matches.
     if \<not> matches then Err (InvalidRecord ''recovered ceremony binding does not match the requested context'')
     else
       (let peer = po_local_peer (oc_provider X) p in
        bindr (validate_registry_identity reg peer) (\<lambda>_.
        if tp_validator_id peer \<noteq> cy_validator_id r
        then Err (InvalidRecord ''recovered ceremony validator identity differs from the provider'')
        else
          (let (restored, p) = po_restore (oc_provider X) (cy_session r) (cy_phase r) (cy_provider_checkpoint r) p in
           bindr (provider_failure restored) (\<lambda>st.
           if st \<notin> set (expected_provider_states (cy_phase r))
           then Err (InvalidRecord ''provider reported another state than the journal'')
           else Ok \<lparr>co_journal = j, co_provider = p, co_registry = reg, co_record = r\<rparr>))))))"

definition commit_record ::
  "('j, 'p) ceremony_ops \<Rightarrow> ceremony_record \<Rightarrow> ('j, 'p) coordinator \<Rightarrow> unit cy \<times> ('j, 'p) coordinator" where
  "commit_record X r C =
     (case checked_add u64_max (cy_revision (co_record C)) 1 of
        None \<Rightarrow> (Err (InvalidRecord ''journal revision overflow''), C)
      | Some n \<Rightarrow>
          (let r = r\<lparr>cy_revision := n\<rparr> in
           case jo_swap (oc_journal X) (dk_ceremony_id (cy_session (co_record C))) (cy_revision (co_record C)) r (co_journal C) of
             Ok j \<Rightarrow> (Ok (), C\<lparr>co_journal := j, co_record := r\<rparr>)
           | Err e \<Rightarrow> (Err (Journal e), C)
           | Panic \<Rightarrow> (Panic, C)))"

definition take_checkpoint :: "('j, 'p) ceremony_ops \<Rightarrow> ('j, 'p) coordinator \<Rightarrow> bytes cy" where
  "take_checkpoint X C =
     bindr (provider_failure (po_checkpoint (oc_provider X) (cy_session (co_record C)) (co_provider C))) (\<lambda>bs.
     bindr (validate_checkpoint bs) (\<lambda>_. Ok bs))"

text \<open>The tombstone is written also when the quarantine fails, with the old checkpoint when there is no new one.\<close>

definition abort_internal ::
  "('j, 'p) ceremony_ops \<Rightarrow> nat \<Rightarrow> abort_code \<Rightarrow> string \<Rightarrow> ('j, 'p) coordinator \<Rightarrow> unit cy \<times> ('j, 'p) coordinator" where
  "abort_internal X now code detail C =
     (if cy_phase (co_record C) = PhaseAborted then (Ok (), C)
      else
        (let r = co_record C;
             (quarantine, p) = po_quarantine (oc_provider X) (cy_session r) code (co_provider C);
             C = C\<lparr>co_provider := p\<rparr>;
             checkpoint = po_checkpoint (oc_provider X) (cy_session r) p in
         if quarantine = Panic \<or> checkpoint = Panic then (Panic, C)
         else
           andthen (commit_record X
             (r\<lparr>cy_phase := PhaseAborted,
                cy_abort := Some \<lparr>ab_at_unix_ms = now, ab_code = code, ab_detail_hash = hash_detail (ceremony_wire X) detail\<rparr>,
                cy_provider_checkpoint := (case checkpoint of
                    Ok bs \<Rightarrow> if length bs \<le> MAX_DKG_PROVIDER_CHECKPOINT_BYTES then bs else cy_provider_checkpoint r
                  | _ \<Rightarrow> cy_provider_checkpoint r)\<rparr>) C) (\<lambda>_ C. (provider_failure quarantine, C))))"

definition abort_for_failure ::
  "('j, 'p) ceremony_ops \<Rightarrow> nat \<Rightarrow> abort_code \<Rightarrow> ceremony_error \<Rightarrow> ('j, 'p) coordinator \<Rightarrow> 'a cy \<times> ('j, 'p) coordinator" where
  "abort_for_failure X now code e C =
     andthen (abort_internal X now code (ceremony_message e) C) (\<lambda>_ C. (Err (AbortedIn (cy_phase (co_record C))), C))"

definition abort_for_equivocation ::
  "('j, 'p) ceremony_ops \<Rightarrow> nat \<Rightarrow> nat \<Rightarrow> ('j, 'p) coordinator \<Rightarrow> 'a cy \<times> ('j, 'p) coordinator" where
  "abort_for_equivocation X now validator_id = abort_for_failure X now AbortEquivocation (EquivocationBy validator_id)"

definition ensure_live :: "('j, 'p) ceremony_ops \<Rightarrow> nat \<Rightarrow> ('j, 'p) coordinator \<Rightarrow> unit cy \<times> ('j, 'p) coordinator" where
  "ensure_live X now C =
     (let phase = cy_phase (co_record C) in
      if phase = PhaseAborted then (Err (AbortedIn phase), C)
      else if phase = PhaseCompleted then (Ok (), C)
      else
        (case deadline_for (cy_deadlines (co_record C)) phase of
           None \<Rightarrow> (Ok (), C)
         | Some deadline \<Rightarrow>
             if deadline \<le> now
             then andthen (abort_internal X now AbortTimeout ''phase deadline elapsed'' C) (\<lambda>_ C. (Err (TimedOut phase), C))
             else (Ok (), C)))"

definition expect_phase :: "ceremony_phase \<Rightarrow> ('j, 'p) coordinator \<Rightarrow> unit cy" where
  "expect_phase expected C =
     (if cy_phase (co_record C) \<noteq> expected then Err (WrongPhase expected (cy_phase (co_record C))) else Ok ())"

definition validate_local_round1 ::
  "wire_env \<Rightarrow> dkg_session \<Rightarrow> nat \<Rightarrow> transport_registry \<Rightarrow> round1_message \<Rightarrow> broadcast_envelope \<Rightarrow> unit cy" where
  "validate_local_round1 W dk validator_id reg m e =
     (if r1_session m \<noteq> dk \<or> r1_sender_id m \<noteq> validator_id
      then Err (InvalidMessage ''provider round-one message is not locally bound'')
      else
        bindr (transport_failure (registered_peer reg validator_id)) (\<lambda>p.
        bindr (transport_failure (open_round1_broadcast W dk p e)) (\<lambda>_. Ok ())))"

definition begin_round1 ::
  "('j, 'p) ceremony_ops \<Rightarrow> nat \<Rightarrow> ('j, 'p) coordinator \<Rightarrow> broadcast_envelope cy \<times> ('j, 'p) coordinator" where
  "begin_round1 X now C =
     andthen (ensure_live X now C) (\<lambda>_ C.
     let W = ceremony_wire X; r = co_record C in
     if cy_phase r = PhaseRound1
     then
       (bindr (ok_or (InvalidRecord ''round-one envelope is missing'') (cy_local_round1_envelope r)) (\<lambda>bs.
        transport_failure (broadcast_from_bytes W bs)), C)
     else
       andthen (expect_phase PhaseInitial C, C) (\<lambda>_ C.
       case po_begin_round1 (oc_provider X) (cy_session r) (co_provider C) of
         (Panic, p) \<Rightarrow> (Panic, C\<lparr>co_provider := p\<rparr>)
       | (Err e, p) \<Rightarrow>
           abort_for_failure X now AbortProviderFailure (Provider (provider_message e)) (C\<lparr>co_provider := p\<rparr>)
       | (Ok (m, e), p) \<Rightarrow>
           (let C = C\<lparr>co_provider := p\<rparr> in
            andthen
              (bindr (validate_local_round1 W (cy_session r) (cy_validator_id r) (co_registry C) m e) (\<lambda>_.
               bindr (canonical (cd_json (wv_round1 W)) m) (\<lambda>message.
               bindr (transport_failure (broadcast_to_bytes W e)) (\<lambda>envelope.
               bindr (take_checkpoint X C) (\<lambda>checkpoint.
               Ok (r\<lparr>cy_phase := PhaseRound1, cy_local_round1_message := Some message,
                   cy_local_round1_envelope := Some envelope, cy_provider_checkpoint := checkpoint\<rparr>))))), C)
              (\<lambda>r C. andthen (commit_record X r C) (\<lambda>_ C. (Ok e, C))))))"

definition endorse_round1 ::
  "('j, 'p) ceremony_ops \<Rightarrow> broadcast_envelope \<Rightarrow> nat \<Rightarrow> ('j, 'p) coordinator \<Rightarrow> endorsement cy \<times> ('j, 'p) coordinator" where
  "endorse_round1 X e now C =
     andthen (ensure_live X now C) (\<lambda>_ C.
     andthen (expect_phase PhaseRound1 C, C) (\<lambda>_ C.
     let (endorsed, p) = po_endorse_round1 (oc_provider X) (cy_session (co_record C)) e (co_provider C);
         C = C\<lparr>co_provider := p\<rparr> in
     andthen (provider_failure endorsed, C) (\<lambda>d C.
     andthen (take_checkpoint X C, C) (\<lambda>checkpoint C.
     andthen (commit_record X ((co_record C)\<lparr>cy_provider_checkpoint := checkpoint\<rparr>) C) (\<lambda>_ C. (Ok d, C))))))"

datatype message_acceptance = New | Duplicate

definition accept_round1_certificate ::
  "('j, 'p) ceremony_ops \<Rightarrow> certified_broadcast \<Rightarrow> nat \<Rightarrow> ('j, 'p) coordinator \<Rightarrow> message_acceptance cy \<times> ('j, 'p) coordinator" where
  "accept_round1_certificate X c now C =
     andthen (ensure_live X now C) (\<lambda>_ C.
     andthen (expect_phase PhaseRound1 C, C) (\<lambda>_ C.
     let W = ceremony_wire X; r = co_record C in
     andthen (transport_failure (open_certified_round1_broadcast W (cy_session r) (co_registry C) c), C) (\<lambda>m C.
     andthen (canonical (cd_json (wv_round1 W)) m, C) (\<lambda>bs C.
     case om_get (cy_round1_messages r) (r1_sender_id m) of
       Some existing \<Rightarrow>
         if existing = bs then (Ok Duplicate, C) else abort_for_equivocation X now (r1_sender_id m) C
     | None \<Rightarrow>
         andthen (transport_failure (certified_to_bytes W c), C) (\<lambda>certificate C.
         andthen (commit_record X
           (r\<lparr>cy_round1_messages := om_insert (r1_sender_id m) bs (cy_round1_messages r),
              cy_round1_certificates := om_insert (r1_sender_id m) certificate (cy_round1_certificates r)\<rparr>) C)
           (\<lambda>_ C. (Ok New, C)))))))"

definition decode_round1 :: "wire_env \<Rightarrow> bytes \<Rightarrow> round1_message cy" where
  "decode_round1 W bs = map_err (\<lambda>e. InvalidMessage []) (round1_from_bytes (wv_round1 W) bs)"

definition decode_round2 :: "wire_env \<Rightarrow> bytes \<Rightarrow> round2_message cy" where
  "decode_round2 W bs = map_err (\<lambda>e. InvalidMessage []) (round2_from_bytes (wv_round2 W) bs)"

definition stored_outgoing :: "wire_env \<Rightarrow> ceremony_record \<Rightarrow> direct_envelope list cy" where
  "stored_outgoing W r =
     traverse (\<lambda>bs. transport_failure (direct_from_bytes W bs)) (om_values (cy_outgoing_round2_envelopes r))"

definition validate_outgoing_round2 ::
  "wire_env \<Rightarrow> dkg_session \<Rightarrow> nat \<Rightarrow> transport_registry \<Rightarrow> round2_message \<Rightarrow> direct_envelope \<Rightarrow> unit cy" where
  "validate_outgoing_round2 W dk validator_id reg m e =
     (if r2_session m \<noteq> dk \<or> r2_sender_id m \<noteq> validator_id \<or> r2_recipient_id m = validator_id
      then Err (InvalidMessage ''provider round-two message is not locally bound'')
      else
        bindr (transport_failure (registered_peer reg (r2_recipient_id m))) (\<lambda>_.
        bindr (transport_failure (direct_to_bytes W e)) (\<lambda>_.
        if de_session e \<noteq> dk \<or> de_sender_id e \<noteq> validator_id \<or> de_recipient_id e \<noteq> r2_recipient_id m
        then Err (InvalidMessage ''round-two envelope does not match its inner message'') else Ok ())))"

text \<open>The loop over the outgoing messages; \<open>Err None\<close> is a repeated recipient, which aborts.\<close>

fun gather_outgoing ::
  "wire_env \<Rightarrow> dkg_session \<Rightarrow> nat \<Rightarrow> transport_registry \<Rightarrow> (round2_message \<times> direct_envelope) list \<Rightarrow> nat list \<Rightarrow>
   (nat, bytes) omap \<Rightarrow> (ceremony_error option, (nat, bytes) omap) res" where
  "gather_outgoing W dk validator_id reg [] recipients envelopes = Ok envelopes"
| "gather_outgoing W dk validator_id reg ((m, e) # ms) recipients envelopes =
     bindr (map_err Some (validate_outgoing_round2 W dk validator_id reg m e)) (\<lambda>_.
     if r2_recipient_id m \<in> set recipients then Err None
     else
       bindr (map_err Some (transport_failure (direct_to_bytes W e))) (\<lambda>bs.
       gather_outgoing W dk validator_id reg ms (r2_recipient_id m # recipients)
         (om_insert (r2_recipient_id m) bs envelopes)))"

definition received_from_others :: "wire_env \<Rightarrow> ceremony_record \<Rightarrow> round1_message list cy" where
  "received_from_others W r =
     traverse (\<lambda>(sender, bs). decode_round1 W bs)
       (filter (\<lambda>(sender, bs). sender \<noteq> cy_validator_id r) (om_entries (cy_round1_messages r)))"

definition send_round2 ::
  "('j, 'p) ceremony_ops \<Rightarrow> nat \<Rightarrow> (round2_message \<times> direct_envelope) list \<Rightarrow> ('j, 'p) coordinator \<Rightarrow>
   direct_envelope list cy \<times> ('j, 'p) coordinator" where
  "send_round2 X now outgoing C =
     (let W = ceremony_wire X; r = co_record C in
      if length outgoing \<noteq> DKG_PARTICIPANTS - 1
      then abort_for_failure X now AbortRound2SemanticFailure
        (InvalidMessage ''provider did not produce three round-two messages'') C
      else
        (case gather_outgoing W (cy_session r) (cy_validator_id r) (co_registry C) outgoing [] (cy_outgoing_round2_envelopes r) of
           Panic \<Rightarrow> (Panic, C)
         | Err None \<Rightarrow>
             abort_for_failure X now AbortRound2SemanticFailure
               (InvalidMessage ''provider emitted duplicate round-two recipient'') C
         | Err (Some e) \<Rightarrow> (Err e, C)
         | Ok envelopes \<Rightarrow>
             andthen (take_checkpoint X C, C) (\<lambda>checkpoint C.
             andthen (commit_record X
               (r\<lparr>cy_phase := PhaseRound2, cy_outgoing_round2_envelopes := envelopes,
                  cy_provider_checkpoint := checkpoint\<rparr>) C)
               (\<lambda>_ C. (stored_outgoing W (co_record C), C)))))"

definition advance_round2 ::
  "('j, 'p) ceremony_ops \<Rightarrow> nat \<Rightarrow> ('j, 'p) coordinator \<Rightarrow> direct_envelope list cy \<times> ('j, 'p) coordinator" where
  "advance_round2 X now C =
     andthen (ensure_live X now C) (\<lambda>_ C.
     let W = ceremony_wire X; r = co_record C in
     if cy_phase r = PhaseRound2 then (stored_outgoing W r, C)
     else
       andthen (expect_phase PhaseRound1 C, C) (\<lambda>_ C.
       if length (cy_round1_messages r) \<noteq> DKG_PARTICIPANTS
       then (Err (NotReady DKG_PARTICIPANTS (length (cy_round1_messages r))), C)
       else
         andthen (received_from_others W r, C) (\<lambda>ms C.
         case po_advance_round2 (oc_provider X) (cy_session r) ms (co_provider C) of
           (Panic, p) \<Rightarrow> (Panic, C\<lparr>co_provider := p\<rparr>)
         | (Err e, p) \<Rightarrow>
             abort_for_failure X now AbortRound2SemanticFailure (Provider (provider_message e)) (C\<lparr>co_provider := p\<rparr>)
         | (Ok outgoing, p) \<Rightarrow> send_round2 X now outgoing (C\<lparr>co_provider := p\<rparr>))))"

definition accept_round2 ::
  "('j, 'p) ceremony_ops \<Rightarrow> direct_envelope \<Rightarrow> nat \<Rightarrow> ('j, 'p) coordinator \<Rightarrow> message_acceptance cy \<times> ('j, 'p) coordinator" where
  "accept_round2 X e now C =
     andthen (ensure_live X now C) (\<lambda>_ C.
     andthen (expect_phase PhaseRound2 C, C) (\<lambda>_ C.
     let W = ceremony_wire X; r = co_record C; sender_id = de_sender_id e in
     andthen (transport_failure (direct_to_bytes W e), C) (\<lambda>envelope C.
     if om_get (cy_incoming_round2_envelopes r) sender_id = Some envelope then (Ok Duplicate, C)
     else
       (let (opened, p) = po_open_round2 (oc_provider X) (cy_session r) e (co_provider C); C = C\<lparr>co_provider := p\<rparr> in
        andthen (provider_failure opened, C) (\<lambda>m C.
        if r2_session m \<noteq> cy_session r \<or> r2_sender_id m \<noteq> sender_id \<or> r2_recipient_id m \<noteq> cy_validator_id r
        then (Err (InvalidMessage ''round-two message is not bound to this coordinator''), C)
        else
          andthen (canonical (cd_json (wv_round2 W)) m, C) (\<lambda>bs C.
          case om_get (cy_incoming_round2_messages r) sender_id of
            Some existing \<Rightarrow> if existing = bs then (Ok Duplicate, C) else abort_for_equivocation X now sender_id C
          | None \<Rightarrow>
              andthen (take_checkpoint X C, C) (\<lambda>checkpoint C.
              andthen (commit_record X
                (r\<lparr>cy_incoming_round2_messages := om_insert sender_id bs (cy_incoming_round2_messages r),
                   cy_incoming_round2_envelopes := om_insert sender_id envelope (cy_incoming_round2_envelopes r),
                   cy_provider_checkpoint := checkpoint\<rparr>) C) (\<lambda>_ C. (Ok New, C)))))))))"

text \<open>The last step, from the phase \<open>Finalize\<close>.\<close>

definition complete_ceremony ::
  "('j, 'p) ceremony_ops \<Rightarrow> nat \<Rightarrow> ('j, 'p) coordinator \<Rightarrow> ceremony_completion cy \<times> ('j, 'p) coordinator" where
  "complete_ceremony X now C =
     (let W = ceremony_wire X; r = co_record C in
      andthen (traverse (decode_round2 W) (om_values (cy_incoming_round2_messages r)), C) (\<lambda>received C.
      case po_finalize (oc_provider X) (cy_session r) received (co_provider C) of
        (Panic, p) \<Rightarrow> (Panic, C\<lparr>co_provider := p\<rparr>)
      | (Err e, p) \<Rightarrow>
          abort_for_failure X now AbortFinalizeSemanticFailure (Provider (provider_message e)) (C\<lparr>co_provider := p\<rparr>)
      | (Ok completion, p) \<Rightarrow>
          (let C = C\<lparr>co_provider := p\<rparr> in
           andthen (validate_completion (cy_session r) completion, C) (\<lambda>_ C.
           andthen (take_checkpoint X C, C) (\<lambda>checkpoint C.
           andthen (commit_record X
             (r\<lparr>cy_phase := PhaseCompleted, cy_completion := Some completion, cy_provider_checkpoint := checkpoint\<rparr>) C)
             (\<lambda>_ C. (Ok completion, C)))))))"

definition finalize_ceremony ::
  "('j, 'p) ceremony_ops \<Rightarrow> nat \<Rightarrow> ('j, 'p) coordinator \<Rightarrow> ceremony_completion cy \<times> ('j, 'p) coordinator" where
  "finalize_ceremony X now C =
     andthen (ensure_live X now C) (\<lambda>_ C.
     let r = co_record C in
     if cy_phase r = PhaseCompleted then (ok_or (InvalidRecord ''completed result is missing'') (cy_completion r), C)
     else
       andthen
         (if cy_phase r = PhaseRound2
          then
            (if length (cy_incoming_round2_messages r) \<noteq> DKG_PARTICIPANTS - 1
             then (Err (NotReady (DKG_PARTICIPANTS - 1) (length (cy_incoming_round2_messages r))), C)
             else commit_record X (r\<lparr>cy_phase := PhaseFinalize\<rparr>) C)
          else (expect_phase PhaseFinalize C, C)) (\<lambda>_ C. complete_ceremony X now C))"

definition abort_ceremony ::
  "('j, 'p) ceremony_ops \<Rightarrow> nat \<Rightarrow> ('j, 'p) coordinator \<Rightarrow> unit cy \<times> ('j, 'p) coordinator" where
  "abort_ceremony X now C =
     (if cy_phase (co_record C) = PhaseAborted then (Ok (), C)
      else if cy_phase (co_record C) = PhaseCompleted then (Err (WrongPhase PhaseAborted (cy_phase (co_record C))), C)
      else abort_internal X now AbortOperator ''operator abort'' C)"

end
