(* ===== verification/Dkg_Software.thy ===== *)
theory Dkg_Software
  imports Dkg_Ceremony
begin

text \<open>
  The provider that keeps the secret state in the process (\<open>SoftwareDkgCeremonyProvider\<close> of
  \<open>dkg_ceremony.rs\<close>). The operating system's generator is a field: the randomness of the next FROST call
  and, per sealed message, the arrays that are drawn. An operation that takes the secret state out leaves
  \<open>Quarantined\<close> behind when it fails.
\<close>

datatype secret_state =
    SecretReady "finalized_participant option"
  | SecretRound1 round1_participant round1_message broadcast_envelope
  | SecretRound2 round2_participant "(round2_message \<times> direct_envelope) list"
  | SecretCompleted finalized_participant ceremony_completion
  | SecretQuarantined

fun secret_kind :: "secret_state \<Rightarrow> provider_state" where
  "secret_kind (SecretReady x) = Ready"
| "secret_kind (SecretRound1 p m e) = ProviderRound1"
| "secret_kind (SecretRound2 p ms) = ProviderRound2"
| "secret_kind (SecretCompleted p x) = ProviderCompleted"
| "secret_kind SecretQuarantined = Quarantined"

record software_checkpoint =
  sk_version :: nat
  sk_session :: dkg_session
  sk_state :: provider_state
  sk_guard :: bytes

record software_provider =
  so_identity :: transport_identity
  so_registry :: transport_registry
  so_session :: dkg_session
  so_guard :: endorsement_guard
  so_state :: secret_state
  so_frost_random :: bytes
  so_random :: "bytes list list"

record software_env =
  sf_wire :: wire_env
  sf_frost :: frost_env
  sf_curve :: curve
  sf_checkpoint :: "software_checkpoint codec"

definition provider_transport :: "'a tr \<Rightarrow> 'a pv" where
  "provider_transport r = map_err (\<lambda>e. ProviderTransport []) r"

definition provider_frost :: "'a td \<Rightarrow> 'a pv" where
  "provider_frost r = map_err (\<lambda>e. ProviderFrost []) r"

definition provider_check :: "bool \<Rightarrow> string \<Rightarrow> unit pv" where
  "provider_check b reason = check b (ProviderState reason)"

definition new_software_provider ::
  "software_env \<Rightarrow> transport_identity \<Rightarrow> transport_registry \<Rightarrow> dkg_session \<Rightarrow> finalized_participant option \<Rightarrow>
   bytes \<Rightarrow> bytes list list \<Rightarrow> software_provider pv" where
  "new_software_provider S t reg dk current fr rss =
     bindr (map_err (\<lambda>e. ProviderState (ceremony_message e)) (validate_registry_identity reg (peer_of (sf_wire S) t))) (\<lambda>_.
     bindr (provider_transport (new_guard (sf_wire S) (peer_of (sf_wire S) t))) (\<lambda>g.
     Ok \<lparr>so_identity = t, so_registry = reg, so_session = dk, so_guard = g, so_state = SecretReady current,
        so_frost_random = fr, so_random = rss\<rparr>))"

definition new_initial ::
  "software_env \<Rightarrow> transport_identity \<Rightarrow> transport_registry \<Rightarrow> dkg_session \<Rightarrow> bytes \<Rightarrow> bytes list list \<Rightarrow> software_provider pv" where
  "new_initial S t reg dk fr rss =
     bindr (provider_check (dk_kind dk = Initial) ''initial provider received a refresh session'') (\<lambda>_.
     new_software_provider S t reg dk None fr rss)"

definition new_refresh ::
  "software_env \<Rightarrow> transport_identity \<Rightarrow> transport_registry \<Rightarrow> dkg_session \<Rightarrow> finalized_participant \<Rightarrow> bytes \<Rightarrow>
   bytes list list \<Rightarrow> software_provider pv" where
  "new_refresh S t reg dk current fr rss =
     bindr (provider_check (dk_kind dk \<noteq> Initial) ''refresh provider received an initial session'') (\<lambda>_.
     new_software_provider S t reg dk (Some current) fr rss)"

definition software_checkpoint_of :: "software_env \<Rightarrow> dkg_session \<Rightarrow> software_provider \<Rightarrow> bytes pv" where
  "software_checkpoint_of S dk p =
     bindr (provider_check (dk = so_session p) ''checkpoint requested for a different session'') (\<lambda>_.
     bindr (provider_transport (guard_to_bytes (sf_wire S) (so_guard p) (so_identity p))) (\<lambda>g.
     bindr (ok_or (ProviderCustody []) (cd_json (sf_checkpoint S)
       \<lparr>sk_version = DKG_CEREMONY_RECORD_VERSION, sk_session = so_session p, sk_state = secret_kind (so_state p), sk_guard = g\<rparr>)) (\<lambda>bs.
     if MAX_DKG_PROVIDER_CHECKPOINT_BYTES < length bs then Err (ProviderCustody ''software provider checkpoint is too large'')
     else Ok bs)))"

definition software_restore ::
  "software_env \<Rightarrow> dkg_session \<Rightarrow> ceremony_phase \<Rightarrow> bytes \<Rightarrow> software_provider \<Rightarrow> provider_state pv \<times> software_provider" where
  "software_restore S dk phase bs p =
     andthen (ok_or (ProviderCustody []) (cd_parse (sf_checkpoint S) bs), p) (\<lambda>c p.
     andthen (provider_check (sk_version c = DKG_CEREMONY_RECORD_VERSION \<and> sk_session c = dk \<and> sk_session c = so_session p)
       ''provider checkpoint session mismatch'', p) (\<lambda>_ p.
     andthen (provider_transport (guard_from_bytes (sf_wire S) (sk_guard c) (peer_of (sf_wire S) (so_identity p))), p) (\<lambda>g p.
     if secret_kind (so_state p) \<noteq> sk_state c
     then (Err (ProviderCustody ''software secret state is not recoverable''), p)
     else
       andthen (provider_check (sk_state c \<in> set (expected_provider_states phase)) ''provider checkpoint phase mismatch'', p)
         (\<lambda>_ p. (Ok (sk_state c), p\<lparr>so_guard := g\<rparr>)))))"

text \<open>The arrays of the next sealed message.\<close>

definition next_random :: "software_provider \<Rightarrow> bytes list" where
  "next_random p = (case so_random p of [] \<Rightarrow> [] | rs # rss \<Rightarrow> rs)"

definition drop_random :: "software_provider \<Rightarrow> software_provider" where
  "drop_random p = p\<lparr>so_random := drop 1 (so_random p)\<rparr>"

definition software_begin_round1 ::
  "software_env \<Rightarrow> dkg_session \<Rightarrow> software_provider \<Rightarrow> (round1_message \<times> broadcast_envelope) pv \<times> software_provider" where
  "software_begin_round1 S dk p =
     andthen (provider_check (dk = so_session p) ''round-one session mismatch'', p) (\<lambda>_ p.
     case so_state p of
       SecretReady current \<Rightarrow>
         andthen
           (case (dk_kind (so_session p), current) of
              (Initial, None) \<Rightarrow>
                provider_frost (participant_round1 (sf_frost S) (so_session p) (ti_validator_id (so_identity p)) (so_frost_random p))
            | (Refresh _, Some finalized) \<Rightarrow>
                provider_frost (participant_refresh_round1 (sf_frost S) (so_session p) finalized (so_frost_random p))
            | _ \<Rightarrow> Err (ProviderState ''provider/session kind does not match its secret state''),
            p\<lparr>so_state := SecretQuarantined\<rparr>) (\<lambda>(participant, m) p.
         andthen (provider_transport (seal_round1_broadcast (sf_wire S) (so_session p) (so_identity p) m (next_random p)),
           drop_random p) (\<lambda>e p.
         (Ok (m, e), p\<lparr>so_state := SecretRound1 participant m e\<rparr>)))
     | _ \<Rightarrow> (Err (ProviderState ''round one was already started''), p))"

definition software_endorse_round1 ::
  "software_env \<Rightarrow> dkg_session \<Rightarrow> broadcast_envelope \<Rightarrow> software_provider \<Rightarrow> endorsement pv \<times> software_provider" where
  "software_endorse_round1 S dk e p =
     andthen (provider_check (dk = so_session p) ''endorsement session mismatch'', p) (\<lambda>_ p.
     andthen (provider_transport (endorse_broadcast (sf_wire S) dk (so_identity p) (so_registry p) e (so_guard p)), p)
       (\<lambda>(d, g) p. (Ok d, p\<lparr>so_guard := g\<rparr>)))"

fun seal_outgoing ::
  "software_env \<Rightarrow> round2_message list \<Rightarrow> software_provider \<Rightarrow> (round2_message \<times> direct_envelope) list pv \<times> software_provider" where
  "seal_outgoing S [] p = (Ok [], p)"
| "seal_outgoing S (m # ms) p =
     andthen (provider_transport (registered_peer (so_registry p) (r2_recipient_id m)), p) (\<lambda>recipient p.
     andthen (provider_transport
         (seal_round2_point_to_point (sf_wire S) (so_session p) (so_identity p) recipient m (next_random p)), drop_random p) (\<lambda>e p.
     andthen (seal_outgoing S ms p) (\<lambda>rest p. (Ok ((m, e) # rest), p))))"

definition software_advance_round2 ::
  "software_env \<Rightarrow> dkg_session \<Rightarrow> round1_message list \<Rightarrow> software_provider \<Rightarrow>
   (round2_message \<times> direct_envelope) list pv \<times> software_provider" where
  "software_advance_round2 S dk received p =
     andthen (provider_check (dk = so_session p) ''round-two session mismatch'', p) (\<lambda>_ p.
     case so_state p of
       SecretRound1 participant m e \<Rightarrow>
         andthen (provider_frost (participant_round2 (sf_frost S) participant received), p\<lparr>so_state := SecretQuarantined\<rparr>)
           (\<lambda>(participant, ms) p.
         andthen (seal_outgoing S ms p) (\<lambda>outgoing p.
         (Ok outgoing, p\<lparr>so_state := SecretRound2 participant outgoing\<rparr>)))
     | _ \<Rightarrow> (Err (ProviderState ''round one secret state is unavailable''), p))"

definition software_open_round2 ::
  "software_env \<Rightarrow> dkg_session \<Rightarrow> direct_envelope \<Rightarrow> software_provider \<Rightarrow> round2_message pv \<times> software_provider" where
  "software_open_round2 S dk e p =
     (bindr (provider_check (dk = so_session p) ''round-two open session mismatch'') (\<lambda>_.
      bindr (provider_check (secret_kind (so_state p) = ProviderRound2) ''round-two secret state is unavailable'') (\<lambda>_.
      bindr (provider_transport (registered_peer (so_registry p) (de_sender_id e))) (\<lambda>sender.
      provider_transport (open_round2_point_to_point (sf_wire S) (so_session p) (so_identity p) sender e)))), p)"

definition software_finalize ::
  "software_env \<Rightarrow> dkg_session \<Rightarrow> round2_message list \<Rightarrow> software_provider \<Rightarrow> ceremony_completion pv \<times> software_provider" where
  "software_finalize S dk received p =
     andthen (provider_check (dk = so_session p) ''finalize session mismatch'', p) (\<lambda>_ p.
     case so_state p of
       SecretCompleted finalized completion \<Rightarrow> (Ok completion, p)
     | SecretRound2 participant outgoing \<Rightarrow>
         andthen (provider_frost (participant_finalize (sf_frost S) (sf_curve S) participant received),
           p\<lparr>so_state := SecretQuarantined\<rparr>) (\<lambda>finalized p.
         let completion = \<lparr>cc_validator_id = fin_validator_id finalized, cc_epoch = fin_epoch finalized,
               cc_public_key = ks_public_key (fin_public_keys finalized), cc_key_id = ks_key_id (fin_public_keys finalized)\<rparr> in
         (Ok completion, p\<lparr>so_state := SecretCompleted finalized completion\<rparr>))
     | _ \<Rightarrow> (Err (ProviderState ''round-two secret state is unavailable for finalize''), p))"

definition software_quarantine ::
  "dkg_session \<Rightarrow> abort_code \<Rightarrow> software_provider \<Rightarrow> unit pv \<times> software_provider" where
  "software_quarantine dk reason p =
     (if secret_kind (so_state p) = ProviderCompleted
      then (Err (ProviderState ''completed provider cannot be quarantined''), p)
      else (Ok (), p\<lparr>so_state := SecretQuarantined\<rparr>))"

definition software_ops :: "software_env \<Rightarrow> software_provider provider_ops" where
  "software_ops S =
     \<lparr>po_local_peer = (\<lambda>p. peer_of (sf_wire S) (so_identity p)), po_checkpoint = software_checkpoint_of S,
      po_restore = software_restore S, po_begin_round1 = software_begin_round1 S, po_endorse_round1 = software_endorse_round1 S,
      po_advance_round2 = software_advance_round2 S, po_open_round2 = software_open_round2 S,
      po_finalize = software_finalize S, po_quarantine = software_quarantine\<rparr>"

end
