(* ===== verification/Dkg_Agreement.thy ===== *)
theory Dkg_Agreement
  imports Dkg_Transport
begin

text \<open>
  Why two certificates for one sender agree: any two quorums share an honest endorser, and the guard of an
  endorser lets it endorse one value per sender and session, also when the guard was written to disk and
  read back. What is needed of the cryptography is stated as named conditions.
\<close>

section \<open>Quorums\<close>

text \<open>Members hold votes; an honest member holds one vote at most.\<close>

locale quorum_system =
  fixes quorum :: "'i set \<Rightarrow> bool" and honest :: "'i set \<Rightarrow> bool"
  assumes common: "quorum Q \<Longrightarrow> quorum Q' \<Longrightarrow> honest H \<Longrightarrow> \<exists>i \<in> H. i \<in> Q \<and> i \<in> Q'"
begin

lemma agreement:
  assumes "quorum Q" and "quorum Q'" and "honest H"
    and "\<And>i. i \<in> H \<Longrightarrow> i \<in> Q \<Longrightarrow> v \<in> votes i" and "\<And>i. i \<in> H \<Longrightarrow> i \<in> Q' \<Longrightarrow> v' \<in> votes i"
    and "\<And>i x y. i \<in> H \<Longrightarrow> x \<in> votes i \<Longrightarrow> y \<in> votes i \<Longrightarrow> x = y"
  shows "v = v'"
  using common [OF assms(1-3)] assms(4-6) by blast

end

definition validators :: "nat set" where
  "validators = {1..DKG_PARTICIPANTS}"

definition endorser_quorum :: "nat set \<Rightarrow> bool" where
  "endorser_quorum Q \<longleftrightarrow> Q \<subseteq> validators \<and> DKG_BROADCAST_QUORUM \<le> card Q"

text \<open>At most one of the four validators is not honest.\<close>

definition mostly_honest :: "nat set \<Rightarrow> bool" where
  "mostly_honest H \<longleftrightarrow> H \<subseteq> validators \<and> DKG_PARTICIPANTS - 1 \<le> card H"

lemma finite_validators: "finite validators" "card validators = 4"
  by (simp_all add: validators_def DKG_PARTICIPANTS_def)

lemma few_missing: "A \<subseteq> validators \<Longrightarrow> 3 \<le> card A \<Longrightarrow> card (validators - A) \<le> 1"
  using card_Diff_subset [of A validators] finite_validators by (simp add: finite_subset)

lemma three_quorums_meet:
  assumes "A \<subseteq> validators" "3 \<le> card A" "B \<subseteq> validators" "3 \<le> card B" "C \<subseteq> validators" "3 \<le> card C"
  shows "\<exists>i \<in> C. i \<in> A \<and> i \<in> B"
proof (rule ccontr)
  assume "\<not> ?thesis"
  then have "validators \<subseteq> (validators - A) \<union> (validators - B) \<union> (validators - C)" by blast
  then have "card validators \<le> card ((validators - A) \<union> (validators - B) \<union> (validators - C))"
    using finite_validators by (intro card_mono) auto
  also have "\<dots> \<le> card (validators - A) + card (validators - B) + card (validators - C)"
    by (intro order_trans [OF card_Un_le] add_mono card_Un_le order_refl)
  also have "\<dots> \<le> 3" using assms few_missing by (metis add_mono numeral_3_eq_3 One_nat_def add_Suc_right add_0_right plus_1_eq_Suc)
  finally show False using finite_validators by simp
qed

interpretation bq: quorum_system endorser_quorum mostly_honest
  by unfold_locales
    (rule three_quorums_meet, auto simp: endorser_quorum_def mostly_honest_def DKG_BROADCAST_QUORUM_def DKG_PARTICIPANTS_def)

section \<open>The guard of an endorser\<close>

text \<open>The endorsements that a validator released, and its guard: endorsing with the guard, and restarting from the
  guard on disk.\<close>

inductive guard_run :: "wire_env \<Rightarrow> transport_identity \<Rightarrow> endorsement list \<Rightarrow> endorsement_guard \<Rightarrow> bool"
  for W :: wire_env and t :: transport_identity where
  fresh: "guard_with_capacity W (peer_of W t) n = Ok g \<Longrightarrow> guard_run W t [] g"
| endorsed: "guard_run W t ds g \<Longrightarrow> endorse_broadcast W dk t reg e g = Ok (d, g') \<Longrightarrow> guard_run W t (d # ds) g'"
| restarted: "guard_run W t ds g \<Longrightarrow> guard_to_bytes W g t = Ok bs \<Longrightarrow> guard_from_bytes W bs (peer_of W t) = Ok g' \<Longrightarrow>
    guard_run W t ds g'"

definition subject_of :: "wire_env \<Rightarrow> nat \<Rightarrow> endorsement \<Rightarrow> bytes tr" where
  "subject_of W i d = endorsement_subject_key W (ed_session d) (ed_round d) (ed_sender_id d) i"

text \<open>What is in the guard is filed under its own subject, and everything released is in the guard.\<close>

definition guards :: "wire_env \<Rightarrow> endorsement list \<Rightarrow> endorsement_guard \<Rightarrow> bool" where
  "guards W ds g \<longleftrightarrow>
     (\<forall>k d. om_get (eg_accepted g) k = Some d \<longrightarrow> subject_of W (eg_endorser_id g) d = Ok k) \<and>
     (\<forall>d \<in> set ds. \<exists>k. om_get (eg_accepted g) k = Some d)"

lemma guards_insert:
  "guards W ds g \<Longrightarrow> subject_of W (eg_endorser_id g) d = Ok k \<Longrightarrow> om_get (eg_accepted g) k = None \<Longrightarrow>
    guards W (d # ds) (g\<lparr>eg_accepted := om_insert k d (eg_accepted g)\<rparr>)"
  unfolding guards_def by (auto split: if_splits) (metis option.distinct(1))

lemma guards_again: "guards W ds g \<Longrightarrow> om_get (eg_accepted g) k = Some d \<Longrightarrow> guards W (d # ds) g"
  by (auto simp: guards_def)

lemma guard_record_guards:
  assumes "guard_record W (ed_session d) (ed_round d) (ed_sender_id d) d g = Ok (x, g')" and "guards W ds g"
  shows "guards W (x # ds) g'"
proof -
  obtain k where k: "endorsement_subject_key W (ed_session d) (ed_round d) (ed_sender_id d) (eg_endorser_id g) = Ok k"
    using assms(1) by (auto simp: guard_record_def)
  show ?thesis
    using assms k guards_insert [OF assms(2), of d k] guards_again [OF assms(2), of k]
    by (auto simp: guard_record_def subject_of_def split: if_splits option.splits)
qed

lemma endorse_broadcast_Ok:
  assumes "endorse_broadcast W dk t reg e g = Ok (x, g')"
  shows "(\<exists>k. om_get (eg_accepted g) k = Some x \<and> g' = g) \<or>
    (\<exists>d. guard_record W dk Round1 (be_sender_id e) d g = Ok (x, g') \<and> ed_session d = dk \<and> ed_round d = Round1 \<and>
      ed_sender_id d = be_sender_id e)"
  using assms
  by (auto simp: endorse_broadcast_def guard_existing_def Let_def split: if_splits option.splits)

lemma endorse_guards:
  assumes "endorse_broadcast W dk t reg e g = Ok (x, g')" and "guards W ds g"
  shows "guards W (x # ds) g'"
  using endorse_broadcast_Ok [OF assms(1)]
proof (elim disjE exE conjE)
  fix k assume "om_get (eg_accepted g) k = Some x" and "g' = g"
  then show ?thesis using guards_again [OF assms(2)] by simp
next
  fix d assume "guard_record W dk Round1 (be_sender_id e) d g = Ok (x, g')"
    and "ed_session d = dk" and "ed_round d = Round1" and "ed_sender_id d = be_sender_id e"
  then show ?thesis using guard_record_guards [OF _ assms(2), of d x g'] by simp
qed

text \<open>Reading the guard back.\<close>

lemma restore_fresh:
  "foldr_res (restore_entry W p j) es (prev, g) = Ok r \<Longrightarrow> x \<in> set es \<Longrightarrow> om_get (eg_accepted g) (ge_subject x) = None"
proof (induction es arbitrary: prev g)
  case (Cons y es)
  let ?g = "g\<lparr>eg_accepted := om_insert (ge_subject y) (ge_endorsement y) (eg_accepted g)\<rparr>"
  have "foldr_res (restore_entry W p j) es (Some (ge_subject y), ?g) = Ok r" "om_get (eg_accepted g) (ge_subject y) = None"
    using Cons.prems(1) by (auto simp: restore_entry_def Let_def split: if_splits)
  then show ?case using Cons.IH [of "Some (ge_subject y)" ?g] Cons.prems(2) by (auto split: if_splits)
qed simp

lemma restore_entries:
  assumes "foldr_res (restore_entry W p j) es (prev, g) = Ok (prev', g')"
  shows "eg_endorser_id g' = eg_endorser_id g \<and> om_get (eg_accepted g') k =
    (case map_of (map (\<lambda>x. (ge_subject x, ge_endorsement x)) es) k of Some d \<Rightarrow> Some d | None \<Rightarrow> om_get (eg_accepted g) k)"
  using assms
proof (induction es arbitrary: prev g)
  case (Cons x es)
  let ?g = "g\<lparr>eg_accepted := om_insert (ge_subject x) (ge_endorsement x) (eg_accepted g)\<rparr>"
  have r: "foldr_res (restore_entry W p j) es (Some (ge_subject x), ?g) = Ok (prev', g')"
    using Cons.prems by (auto simp: restore_entry_def Let_def split: if_splits)
  have "ge_subject y \<noteq> ge_subject x" if "y \<in> set es" for y
    using restore_fresh [OF r that] by (auto split: if_splits)
  then have "map_of (map (\<lambda>x. (ge_subject x, ge_endorsement x)) es) (ge_subject x) = None"
    by (force simp: map_of_eq_None_iff)
  then show ?case using Cons.IH [OF r] by (auto split: option.splits)
qed simp

definition json_injective :: "('a \<Rightarrow> bytes option) \<Rightarrow> bool" where
  "json_injective json \<longleftrightarrow> (\<forall>x y bs. json x = Some bs \<longrightarrow> json y = Some bs \<longrightarrow> x = y)"

lemma guard_restarted:
  assumes "json_injective (cd_json (wv_guard_journal W))" and "guard_to_bytes W g t = Ok bs" and "guard_from_bytes W bs p = Ok g'"
  shows "eg_endorser_id g' = eg_endorser_id g" and "om_get (eg_accepted g') = om_get (eg_accepted g)"
proof -
  obtain x where x: "cd_json (wv_guard_journal W)
      \<lparr>gj_version = DKG_TRANSPORT_FORMAT_VERSION, gj_endorser_id = eg_endorser_id g,
       gj_endorser_signing_public_key = eg_endorser_signing_public_key g, gj_capacity = eg_capacity g,
       gj_entries = map (\<lambda>(subject, d). \<lparr>ge_subject = subject, ge_endorsement = d\<rparr>) (eg_accepted g),
       gj_signature = x\<rparr> = Some bs" (is "cd_json _ (?j x) = _")
    using assms(2)
    by (auto simp: guard_to_bytes_def encode_canonical_def canonical_bytes_def Let_def om_entries_def split: if_splits)
  obtain j' h prev where j': "cd_json (wv_guard_journal W) j' = Some bs" "guard_with_capacity W p (gj_capacity j') = Ok h"
    "tp_validator_id p = gj_endorser_id j'" "foldr_res (restore_entry W p j') (gj_entries j') (None, h) = Ok (prev, g')"
    using assms(3) by (auto simp: guard_from_bytes_def decode_canonical_def canonical_bytes_def split: if_splits)
  have same: "j' = ?j x" using assms(1) x j'(1) by (auto simp: json_injective_def)
  have h: "eg_endorser_id h = tp_validator_id p" "eg_accepted h = []"
    using j'(2) by (auto simp: guard_with_capacity_def split: if_splits)
  show "eg_endorser_id g' = eg_endorser_id g"
    using restore_entries [OF j'(4)] h j'(3) same by simp
  show "om_get (eg_accepted g') = om_get (eg_accepted g)"
    using restore_entries [OF j'(4)] h(2) same
    by (auto simp: om_get_def comp_def case_prod_beta fun_eq_iff split: option.splits)
qed

lemma guard_run_guards:
  assumes "guard_run W t ds g" and "json_injective (cd_json (wv_guard_journal W))"
  shows "guards W ds g"
  using assms
proof (induction rule: guard_run.induct)
  case (fresh n g)
  then show ?case by (auto simp: guard_with_capacity_def guards_def split: if_splits)
next
  case (endorsed ds g dk reg e d g')
  then show ?case using endorse_guards by blast
next
  case (restarted ds g bs g')
  then show ?case using guard_restarted [of W g t bs "peer_of W t" g'] by (simp add: guards_def)
qed

lemma one_endorsement:
  assumes "guard_run W t ds g" and "json_injective (cd_json (wv_guard_journal W))" and "d \<in> set ds" and "d' \<in> set ds"
    and "ed_session d' = ed_session d" and "ed_round d' = ed_round d" and "ed_sender_id d' = ed_sender_id d"
  shows "d' = d"
proof -
  have g: "guards W ds g" using guard_run_guards [OF assms(1,2)] .
  obtain k k' where k: "om_get (eg_accepted g) k = Some d" "om_get (eg_accepted g) k' = Some d'"
    using g assms(3,4) by (meson guards_def)
  then have "subject_of W (eg_endorser_id g) d = Ok k" "subject_of W (eg_endorser_id g) d' = Ok k'"
    using g by (auto simp: guards_def)
  then show ?thesis using k assms(5-7) by (simp add: subject_of_def)
qed

section \<open>Certificates\<close>

text \<open>A signature under the key of the validator on an endorsement is one that the validator released.\<close>

definition endorses_only :: "wire_env \<Rightarrow> transport_identity \<Rightarrow> endorsement list \<Rightarrow> bool" where
  "endorses_only W t ds \<longleftrightarrow> (\<forall>b bs signature.
     transport_signing_bytes (wv_endorsement_json W) b = Ok bs \<longrightarrow>
     wv_verify_strict W (tp_signing_public_key (peer_of W t)) bs signature \<longrightarrow>
     (\<exists>d \<in> set ds. transport_signing_bytes (wv_endorsement_json W) (endorsement_body_of d) = Ok bs))"

definition endorsers :: "certified_broadcast \<Rightarrow> nat set" where
  "endorsers c = ed_endorser_id ` set (cb_endorsements c)"

lemma check_order_distinct:
  "check_order W prev ds = Ok () \<Longrightarrow> sorted_wrt (<) (map ed_endorser_id ds) \<and> ed_endorser_id ` set ds \<subseteq> validators \<and>
    (case prev of None \<Rightarrow> True | Some i \<Rightarrow> \<forall>d \<in> set ds. i < ed_endorser_id d)"
proof (induction W prev ds rule: check_order.induct)
  case (2 W prev d ds)
  have v: "ed_endorser_id d \<in> validators"
    using 2(2) by (auto simp: validate_endorsement_def validate_validator_id_def validators_def split: if_splits)
  have "check_order W (Some (ed_endorser_id d)) ds = Ok ()" "\<And>i. prev = Some i \<Longrightarrow> i < ed_endorser_id d"
    "validate_endorsement W d = Ok ()"
    using 2(2) by (auto split: option.splits if_splits)
  with 2(1) v show ?case by (auto split: option.splits) (blast, meson less_trans)
qed (simp split: option.splits)

lemma structure_quorum:
  assumes "validate_structure W c = Ok ()"
  shows "endorser_quorum (endorsers c)"
proof -
  have o: "check_order W None (cb_endorsements c) = Ok ()" "DKG_BROADCAST_QUORUM \<le> length (cb_endorsements c)"
    using assms by (auto simp: validate_structure_def split: if_splits)
  then have "distinct (map ed_endorser_id (cb_endorsements c))"
    using check_order_distinct strict_sorted_iff by blast
  then have "card (endorsers c) = length (cb_endorsements c)"
    unfolding endorsers_def by (metis distinct_card length_map set_map)
  then show ?thesis using o check_order_distinct [OF o(1)] by (simp add: endorser_quorum_def endorsers_def)
qed

lemma verified_endorsement:
  "verify_one_endorsement W dk reg e digest d vs = Ok vs' \<Longrightarrow>
    ed_session d = dk \<and> ed_round d = Round1 \<and> ed_sender_id d = be_sender_id e \<and> ed_payload_digest d = digest \<and>
    (\<exists>p. registered_peer reg (ed_endorser_id d) = Ok p \<and> verify_endorsement_signature W p d = Ok ())"
  by (auto simp: verify_one_endorsement_def split: if_splits)

lemma each_verified:
  "foldr_res f ds s = Ok s' \<Longrightarrow> d \<in> set ds \<Longrightarrow> \<exists>v v'. f d v = Ok v'"
  by (induction ds arbitrary: s) auto

text \<open>What a validator endorsed of a sender in a session.\<close>

definition endorsed_digests :: "dkg_session \<Rightarrow> nat \<Rightarrow> endorsement list \<Rightarrow> bytes set" where
  "endorsed_digests dk sender ds =
     ed_payload_digest ` {d \<in> set ds. ed_session d = dk \<and> ed_round d = Round1 \<and> ed_sender_id d = sender}"

lemma endorsed_once:
  assumes "guard_run W t ds g" and "json_injective (cd_json (wv_guard_journal W))"
    and "x \<in> endorsed_digests dk sender ds" and "y \<in> endorsed_digests dk sender ds"
  shows "x = y"
  using one_endorsement [OF assms(1,2)] assms(3,4) by (fastforce simp: endorsed_digests_def)

lemma certificate_vote:
  assumes "verify_certified_broadcast W dk reg c = Ok payload" and "broadcast_content_digest W (cb_envelope c) = Ok digest"
    and "i \<in> endorsers c" and "registered_peer reg i = Ok (peer_of W t)" and "endorses_only W t ds"
    and "json_injective (wv_endorsement_json W)"
  shows "digest \<in> endorsed_digests dk (be_sender_id (cb_envelope c)) ds"
proof -
  obtain us where us: "foldr_res (verify_one_endorsement W dk reg (cb_envelope c) digest) (cb_endorsements c) [] = Ok us"
    using assms(1,2) by (auto simp: verify_certified_broadcast_def Let_def)
  obtain d where d: "d \<in> set (cb_endorsements c)" "ed_endorser_id d = i" using assms(3) by (auto simp: endorsers_def)
  have v: "ed_session d = dk" "ed_round d = Round1" "ed_sender_id d = be_sender_id (cb_envelope c)" "ed_payload_digest d = digest"
    "verify_endorsement_signature W (peer_of W t) d = Ok ()"
    using each_verified [OF us d(1)] d(2) assms(4) by (auto dest!: verified_endorsement)
  obtain bs where bs: "transport_signing_bytes (wv_endorsement_json W) (endorsement_body_of d) = Ok bs"
    "wv_verify_strict W (tp_signing_public_key (peer_of W t)) bs (ed_signature d)"
    using v by (auto simp: verify_endorsement_signature_def check_def split: if_splits)
  then obtain d' where d': "d' \<in> set ds" "transport_signing_bytes (wv_endorsement_json W) (endorsement_body_of d') = Ok bs"
    using assms(5) by (auto simp: endorses_only_def)
  then have "endorsement_body_of d' = endorsement_body_of d"
    using assms(6) bs(1) by (auto simp: transport_signing_bytes_def canonical_bytes_def json_injective_def)
  then have "ed_session d' = ed_session d" "ed_round d' = ed_round d" "ed_sender_id d' = ed_sender_id d"
    "ed_payload_digest d' = ed_payload_digest d" by (simp_all add: endorsement_body_of_def)
  then show ?thesis using v d'(1) by (auto simp: endorsed_digests_def)
qed

text \<open>What the digest of a broadcast is computed of; a digest without collisions names one broadcast.\<close>

definition digest_input :: "wire_env \<Rightarrow> broadcast_envelope \<Rightarrow> bytes tr" where
  "digest_input W e =
     bindr (transport_signing_bytes (wv_broadcast_json W) (broadcast_body_of e)) (\<lambda>bs.
     Ok (domain_tag ''ASTERIA_PRIVATE_ORDER_DKG_BROADCAST_DIGEST_V1'' @ bs @ be_signature e))"

lemma digest_of_input: "broadcast_content_digest W e = bindr (digest_input W e) (\<lambda>x. Ok (wv_sha W x))"
  by (simp add: broadcast_content_digest_def digest_input_def bindr_assoc)

lemma broadcast_body_inject:
  "broadcast_body_of e = broadcast_body_of e' \<Longrightarrow> be_signature e = be_signature e' \<Longrightarrow> e = e'"
  by (cases e; cases e') (simp add: broadcast_body_of_def)

lemma digest_input_inject:
  assumes "digest_input W e = Ok x" and "digest_input W e' = Ok x" and "json_injective (wv_broadcast_json W)"
    and "length (be_signature e) = length (be_signature e')"
  shows "e = e'"
proof (rule broadcast_body_inject)
  obtain b b' where b: "wv_broadcast_json W (broadcast_body_of e) = Some b" "wv_broadcast_json W (broadcast_body_of e') = Some b'"
    "b @ be_signature e = b' @ be_signature e'"
    using assms(1,2) by (auto simp: digest_input_def transport_signing_bytes_def canonical_bytes_def)
  then show "be_signature e = be_signature e'" using assms(4) by simp
  with b show "broadcast_body_of e = broadcast_body_of e'" using assms(3) by (auto simp: json_injective_def)
qed

end
