(* ===== verification/Dkg_Journal.thy ===== *)
theory Dkg_Journal
  imports Dkg_Ceremony
begin

text \<open>
  What a journal promises to a coordinator, as a locale, and what a coordinator makes of it: its record is
  the journal's entry at every moment, also after an error, and the record only grows. The journal in
  memory keeps the promise when the JSON of a record can be read back.
\<close>

section \<open>Growth of a record\<close>

definition record_id :: "ceremony_record \<Rightarrow> bytes" where
  "record_id r = dk_ceremony_id (cy_session r)"

definition kept :: "('k, 'v) omap \<Rightarrow> ('k, 'v) omap \<Rightarrow> bool" where
  "kept m m' \<longleftrightarrow> (\<forall>k v. om_get m k = Some v \<longrightarrow> om_get m' k = Some v)"

definition kept_once :: "'a option \<Rightarrow> 'a option \<Rightarrow> bool" where
  "kept_once x x' \<longleftrightarrow> x = None \<or> x' = x"

fun phase_rank :: "ceremony_phase \<Rightarrow> nat" where
  "phase_rank PhaseInitial = 0"
| "phase_rank PhaseRound1 = 1"
| "phase_rank PhaseRound2 = 2"
| "phase_rank PhaseFinalize = 3"
| "phase_rank PhaseCompleted = 4"
| "phase_rank PhaseAborted = 4"

text \<open>What was sent, received and decided stays.\<close>

definition extends :: "ceremony_record \<Rightarrow> ceremony_record \<Rightarrow> bool" where
  "extends r r' \<longleftrightarrow>
     kept_once (cy_local_round1_message r) (cy_local_round1_message r') \<and>
     kept_once (cy_local_round1_envelope r) (cy_local_round1_envelope r') \<and>
     kept (cy_round1_certificates r) (cy_round1_certificates r') \<and>
     kept (cy_round1_messages r) (cy_round1_messages r') \<and>
     kept (cy_outgoing_round2_envelopes r) (cy_outgoing_round2_envelopes r') \<and>
     kept (cy_incoming_round2_envelopes r) (cy_incoming_round2_envelopes r') \<and>
     kept (cy_incoming_round2_messages r) (cy_incoming_round2_messages r')"

text \<open>In addition the binding is fixed, the phase never goes back, and a terminal record is final.\<close>

definition grows :: "ceremony_record \<Rightarrow> ceremony_record \<Rightarrow> bool" where
  "grows r r' \<longleftrightarrow> same_binding r r' \<and> extends r r' \<and> phase_rank (cy_phase r) \<le> phase_rank (cy_phase r') \<and>
     cy_revision r \<le> cy_revision r' \<and> (cy_revision r' = cy_revision r \<or> is_terminal (cy_phase r) \<longrightarrow> r' = r)"

lemma kept_refl [simp]: "kept m m" "kept_once x x"
  by (simp_all add: kept_def kept_once_def)

lemma kept_new [simp]: "om_get m k = None \<Longrightarrow> kept m (om_insert k v m)"
  by (auto simp: kept_def)

lemma kept_none [simp]: "kept [] m" "kept_once None x"
  by (simp_all add: kept_def kept_once_def)

lemma kept_trans: "kept a b \<Longrightarrow> kept b c \<Longrightarrow> kept a c"
  by (simp add: kept_def)

lemma kept_once_trans: "kept_once a b \<Longrightarrow> kept_once b c \<Longrightarrow> kept_once a c"
  by (auto simp: kept_once_def)

lemma extends_refl [simp]: "extends r r"
  by (simp add: extends_def)

lemma extends_trans: "extends a b \<Longrightarrow> extends b c \<Longrightarrow> extends a c"
  unfolding extends_def by (meson kept_trans kept_once_trans)

lemma same_binding_id: "same_binding r r' \<Longrightarrow> record_id r' = record_id r"
  by (simp add: same_binding_def record_id_def)

lemma grows_refl [simp]: "grows r r"
  by (simp add: grows_def same_binding_def)

lemma grows_trans:
  assumes "grows a b" and "grows b c"
  shows "grows a c"
proof -
  have "same_binding a c" using assms by (auto simp: grows_def same_binding_def)
  moreover have "extends a c" using assms extends_trans by (auto simp: grows_def)
  moreover have "c = a" if "cy_revision c = cy_revision a \<or> is_terminal (cy_phase a)"
  proof -
    have "b = a" using assms that by (auto simp: grows_def)
    then show ?thesis using assms that by (auto simp: grows_def)
  qed
  ultimately show ?thesis using assms by (auto simp: grows_def)
qed

lemma transition_rank:
  "valid_phase_transition p q \<Longrightarrow> phase_rank p \<le> phase_rank q \<and> \<not> is_terminal p"
  by (cases p) (auto simp: is_terminal_def)

text \<open>What holds of every record that a coordinator writes: messages are stored in pairs with their envelopes, and
  nothing is stored before its phase.\<close>

definition in_step :: "ceremony_record \<Rightarrow> bool" where
  "in_step r \<longleftrightarrow>
     (cy_phase r = PhaseInitial \<longrightarrow> cy_local_round1_message r = None \<and> cy_local_round1_envelope r = None) \<and>
     (cy_phase r = PhaseInitial \<or> cy_phase r = PhaseRound1 \<longrightarrow> cy_outgoing_round2_envelopes r = []) \<and>
     (\<forall>i. om_get (cy_round1_certificates r) i = None \<longleftrightarrow> om_get (cy_round1_messages r) i = None) \<and>
     (\<forall>i. om_get (cy_incoming_round2_envelopes r) i = None \<longleftrightarrow> om_get (cy_incoming_round2_messages r) i = None)"

section \<open>The contract of a journal\<close>

locale ceremony_journal =
  fixes ops :: "'j journal_ops"
    and entry :: "'j \<Rightarrow> bytes \<Rightarrow> ceremony_record option"
    and ok :: "'j \<Rightarrow> bool"
  assumes load: "ok j \<Longrightarrow> jo_load ops i j = Ok (entry j i)"
    and create: "ok j \<Longrightarrow> jo_create ops r j = Ok j' \<Longrightarrow>
      ok j' \<and> entry j (record_id r) = None \<and> entry j' = (entry j)(record_id r \<mapsto> r)"
    and swap: "ok j \<Longrightarrow> jo_swap ops i n r j = Ok j' \<Longrightarrow>
      ok j' \<and> record_id r = i \<and> entry j' = (entry j)(i \<mapsto> r) \<and>
      (\<exists>c. entry j i = Some c \<and> cy_revision c = n \<and> cy_revision r = Suc n \<and> same_binding c r \<and>
        valid_phase_transition (cy_phase c) (cy_phase r))"

section \<open>The coordinator of a journal\<close>

locale ceremony = ceremony_journal "oc_journal X" entry ok
  for X :: "('j, 'p) ceremony_ops" and entry :: "'j \<Rightarrow> bytes \<Rightarrow> ceremony_record option" and ok :: "'j \<Rightarrow> bool"
begin

text \<open>The record in hand is the journal's entry.\<close>

definition synced :: "('j, 'p) coordinator \<Rightarrow> bool" where
  "synced C \<longleftrightarrow> ok (co_journal C) \<and> entry (co_journal C) (record_id (co_record C)) = Some (co_record C) \<and> in_step (co_record C)"

definition safe :: "('j, 'p) coordinator \<Rightarrow> 'a cy \<times> ('j, 'p) coordinator \<Rightarrow> bool" where
  "safe C m \<longleftrightarrow> (synced C \<longrightarrow> synced (snd m) \<and> grows (co_record C) (co_record (snd m)))"

lemma safe_pure [intro!, simp]: "safe C (x, C)"
  by (simp add: safe_def)

lemma safe_provider: "safe (C\<lparr>co_provider := p\<rparr>) m = safe C m"
  by (simp add: safe_def synced_def)

lemma safe_provider_pure [simp]: "safe C (x, C\<lparr>co_provider := p\<rparr>)"
  by (simp add: safe_def synced_def)

lemma safe_pure_andthen [intro!]: "(\<And>y. x = Ok y \<Longrightarrow> safe C (f y C)) \<Longrightarrow> safe C (andthen (x, C) f)"
  by (cases x) simp_all

lemma safe_andthen:
  assumes "safe C m" and "\<And>y D. m = (Ok y, D) \<Longrightarrow> safe D (f y D)"
  shows "safe C (andthen m f)"
proof -
  obtain x D where m: "m = (x, D)" by (cases m)
  show ?thesis
  proof (cases x)
    case (Ok y)
    then have "safe D (f y D)" using assms(2) m by blast
    then show ?thesis using assms(1) m Ok grows_trans by (auto simp: safe_def)
  qed (use assms m in \<open>auto simp: safe_def\<close>)
qed

lemma safe_commit:
  assumes "synced C \<Longrightarrow> valid_phase_transition (cy_phase (co_record C)) (cy_phase r) \<Longrightarrow>
    extends (co_record C) r \<and> in_step r"
  shows "safe C (commit_record X r C)"
proof (cases "checked_add u64_max (cy_revision (co_record C)) 1")
  case None
  then show ?thesis by (simp only: commit_record_def option.case safe_pure)
next
  case (Some n)
  let ?c = "co_record C" and ?r = "r\<lparr>cy_revision := n\<rparr>"
  note commit = commit_record_def [of X r C, unfolded Some option.case Let_def]
  show ?thesis
  proof (cases "jo_swap (oc_journal X) (dk_ceremony_id (cy_session ?c)) (cy_revision ?c) ?r (co_journal C)")
    case j: (Ok j)
    have "synced (C\<lparr>co_journal := j, co_record := ?r\<rparr>) \<and> grows ?c ?r" if s: "synced C"
    proof -
      have w: "ok j" "record_id ?r = record_id ?c" "entry j = (entry (co_journal C))(record_id ?c \<mapsto> ?r)"
        "same_binding ?c ?r" "valid_phase_transition (cy_phase ?c) (cy_phase ?r)" "cy_revision ?r = Suc (cy_revision ?c)"
        using swap [OF _ j] s by (auto simp: synced_def record_id_def)
      then have "extends ?c r" "in_step r" using assms s by auto
      then have "extends ?c ?r" "in_step ?r" by (simp_all add: extends_def in_step_def)
      then show ?thesis using w transition_rank [OF w(5)] by (simp add: synced_def grows_def)
    qed
    then show ?thesis by (simp add: commit j safe_def)
  qed (simp_all add: commit)
qed

lemma safe_committed:
  assumes "synced C \<Longrightarrow> valid_phase_transition (cy_phase (co_record C)) (cy_phase r) \<Longrightarrow>
    extends (co_record C) r \<and> in_step r"
  shows "safe C (andthen (commit_record X r C) (\<lambda>_ C. (x C, C)))"
  by (rule safe_andthen [OF safe_commit [OF assms] safe_pure])

lemma safe_abort_internal: "safe C (abort_internal X now code detail C)"
proof (cases "cy_phase (co_record C) = PhaseAborted")
  case False
  obtain q p where q: "po_quarantine (oc_provider X) (cy_session (co_record C)) code (co_provider C) = (q, p)" by fastforce
  have "safe (C\<lparr>co_provider := p\<rparr>) (abort_internal X now code detail C)"
    unfolding abort_internal_def Let_def q prod.case using False
    by (auto intro!: safe_committed) (auto simp: extends_def in_step_def synced_def)
  then show ?thesis by (simp add: safe_provider)
qed (simp add: abort_internal_def)

lemma safe_abort_for_failure: "safe C (abort_for_failure X now code e C)"
  unfolding abort_for_failure_def by (rule safe_andthen [OF safe_abort_internal safe_pure])

lemma safe_abort_for_equivocation: "safe C (abort_for_equivocation X now i C)"
  unfolding abort_for_equivocation_def by (rule safe_abort_for_failure)

lemma safe_ensure_live: "safe C (ensure_live X now C)"
  unfolding ensure_live_def Let_def
  by (auto split: option.splits intro: safe_andthen [OF safe_abort_internal safe_pure])

lemmas safe_aborts = safe_abort_for_failure safe_abort_for_equivocation

text \<open>After a call of the provider.\<close>

lemma safe_called:
  "safe C (abort_for_failure X now code e (C\<lparr>co_provider := p\<rparr>))"
  "(\<And>y. x = Ok y \<Longrightarrow> safe (C\<lparr>co_provider := p\<rparr>) (f y (C\<lparr>co_provider := p\<rparr>))) \<Longrightarrow>
    safe C (andthen (x, C\<lparr>co_provider := p\<rparr>) f)"
  using safe_abort_for_failure [of "C\<lparr>co_provider := p\<rparr>" now code e] safe_pure_andthen [of x "C\<lparr>co_provider := p\<rparr>" f]
  by (simp_all add: safe_provider)

lemma safe_live:
  assumes "\<And>D. safe D (f () D)"
  shows "safe C (andthen (ensure_live X now C) f)"
  by (rule safe_andthen [OF safe_ensure_live]) (simp add: assms)

lemma expect_phase_Ok: "expect_phase p C = Ok x \<longleftrightarrow> cy_phase (co_record C) = p"
  by (simp add: expect_phase_def)

lemma safe_begin_round1: "safe C (begin_round1 X now C)"
  unfolding begin_round1_def Let_def
proof (rule safe_live, goal_cases)
  case (1 D)
  obtain x p where x: "po_begin_round1 (oc_provider X) (cy_session (co_record D)) (co_provider D) = (x, p)" by fastforce
  show ?case
    by (auto simp: x expect_phase_Ok split: res.splits
        intro!: safe_called safe_aborts safe_committed)
      (auto simp: extends_def in_step_def synced_def)
qed

lemma safe_endorse_round1: "safe C (endorse_round1 X e now C)"
  unfolding endorse_round1_def Let_def
proof (rule safe_live, goal_cases)
  case (1 D)
  obtain x p where x: "po_endorse_round1 (oc_provider X) (cy_session (co_record D)) e (co_provider D) = (x, p)" by fastforce
  show ?case
    by (auto simp: x expect_phase_Ok intro!: safe_called safe_committed)
      (auto simp: extends_def in_step_def synced_def)
qed

lemma safe_accept_round1_certificate: "safe C (accept_round1_certificate X c now C)"
  unfolding accept_round1_certificate_def Let_def
  by (rule safe_live)
    (auto simp: expect_phase_Ok extends_def in_step_def synced_def split: option.splits intro!: safe_aborts safe_committed)

lemma safe_send_round2:
  assumes "cy_phase (co_record C) = PhaseRound1"
  shows "safe C (send_round2 X now outgoing (C\<lparr>co_provider := p\<rparr>))"
  unfolding send_round2_def Let_def
  using assms by (auto split: res.splits option.splits intro!: safe_called safe_andthen [OF safe_commit])
    (auto simp: extends_def in_step_def synced_def)

lemma safe_advance_round2: "safe C (advance_round2 X now C)"
  unfolding advance_round2_def Let_def
  by (rule safe_live) (auto simp: expect_phase_Ok split: prod.splits res.splits intro!: safe_called safe_send_round2)

lemma safe_accept_round2: "safe C (accept_round2 X e now C)"
  unfolding accept_round2_def Let_def
proof (rule safe_live, goal_cases)
  case (1 D)
  obtain x p where x: "po_open_round2 (oc_provider X) (cy_session (co_record D)) e (co_provider D) = (x, p)" by fastforce
  show ?case
    by (auto simp: x expect_phase_Ok split: option.splits
        intro!: safe_called safe_aborts safe_committed)
      (auto simp: extends_def in_step_def synced_def)
qed

lemma safe_complete_ceremony: "safe C (complete_ceremony X now C)"
  unfolding complete_ceremony_def Let_def
proof (rule safe_pure_andthen, goal_cases)
  case (1 ms)
  obtain x p where x: "po_finalize (oc_provider X) (cy_session (co_record C)) ms (co_provider C) = (x, p)" by fastforce
  show ?case
    by (auto simp: x split: res.splits intro!: safe_called safe_aborts safe_committed)
      (auto simp: extends_def in_step_def synced_def)
qed

lemma safe_finalize_ceremony: "safe C (finalize_ceremony X now C)"
  unfolding finalize_ceremony_def Let_def
  by (rule safe_live)
    (auto simp: extends_def in_step_def synced_def intro!: safe_andthen safe_commit safe_complete_ceremony)

lemma safe_abort_ceremony: "safe C (abort_ceremony X now C)"
  by (simp add: abort_ceremony_def safe_abort_internal)

end

section \<open>Runs\<close>

datatype ceremony_request =
    BeginRound1
  | EndorseRound1 broadcast_envelope
  | AcceptCertificate certified_broadcast
  | AdvanceRound2
  | AcceptRound2 direct_envelope
  | FinalizeCeremony
  | AbortCeremony

fun after_request :: "('j, 'p) ceremony_ops \<Rightarrow> ceremony_request \<Rightarrow> nat \<Rightarrow> ('j, 'p) coordinator \<Rightarrow> ('j, 'p) coordinator" where
  "after_request X BeginRound1 now C = snd (begin_round1 X now C)"
| "after_request X (EndorseRound1 e) now C = snd (endorse_round1 X e now C)"
| "after_request X (AcceptCertificate c) now C = snd (accept_round1_certificate X c now C)"
| "after_request X AdvanceRound2 now C = snd (advance_round2 X now C)"
| "after_request X (AcceptRound2 e) now C = snd (accept_round2 X e now C)"
| "after_request X FinalizeCeremony now C = snd (finalize_ceremony X now C)"
| "after_request X AbortCeremony now C = snd (abort_ceremony X now C)"

text \<open>Requests at any times, and at any moment a crash: another coordinator, with any provider, recovers the ceremony from
  the journal.\<close>

inductive ceremony_run :: "('j, 'p) ceremony_ops \<Rightarrow> ('j, 'p) coordinator \<Rightarrow> ('j, 'p) coordinator \<Rightarrow> bool"
  for X :: "('j, 'p) ceremony_ops" and C :: "('j, 'p) coordinator" where
  start: "ceremony_run X C C"
| request: "ceremony_run X C D \<Longrightarrow> ceremony_run X C (after_request X rq now D)"
| crash: "ceremony_run X C D \<Longrightarrow>
    recover_ceremony X (co_journal D) p reg (dk_ceremony_id (cy_session (co_record D))) domain epoch = Ok E \<Longrightarrow>
    ceremony_run X C E"

context ceremony begin

lemma safe_request: "synced D \<Longrightarrow> synced (after_request X rq now D) \<and> grows (co_record D) (co_record (after_request X rq now D))"
  using safe_begin_round1 safe_endorse_round1 safe_accept_round1_certificate safe_advance_round2 safe_accept_round2
    safe_finalize_ceremony safe_abort_ceremony
  by (cases rq) (simp_all add: safe_def)

lemma started_synced:
  assumes "ok j" and "start_ceremony X j p reg dk deadlines domain epoch = Ok C"
  shows "synced C" and "record_id (co_record C) = dk_ceremony_id dk"
  using assms create [OF assms(1)]
  by (auto simp: start_ceremony_def Let_def synced_def record_id_def in_step_def split: if_splits)

lemma recovered_same:
  assumes "synced D" and "recover_ceremony X (co_journal D) p reg (record_id (co_record D)) domain epoch = Ok E"
  shows "synced E" and "co_record E = co_record D"
  using assms load [of "co_journal D"]
  by (auto simp: recover_ceremony_def synced_def Let_def case_prod_beta split: if_splits)

lemma run_grows:
  assumes "ceremony_run X C D" and "synced C"
  shows "synced D \<and> grows (co_record C) (co_record D)"
  using assms
proof (induction rule: ceremony_run.induct)
  case (request D rq now)
  then show ?case using safe_request grows_trans by blast
next
  case (crash D p reg domain epoch E)
  then show ?case using recovered_same [of D p reg domain epoch E] by (simp add: record_id_def)
qed simp

end

section \<open>The journal in memory\<close>

text \<open>JSON can be read back.\<close>

definition record_codec_ok :: "ceremony_env \<Rightarrow> bool" where
  "record_codec_ok V \<longleftrightarrow> (\<forall>r bs. cd_json (cw_record V) r = Some bs \<longrightarrow> bs \<noteq> [] \<and> cd_parse (cw_record V) bs = Some r)"

definition memory_entry :: "ceremony_env \<Rightarrow> memory_journal \<Rightarrow> bytes \<Rightarrow> ceremony_record option" where
  "memory_entry V j i = (case memory_load V i j of Ok x \<Rightarrow> x | _ \<Rightarrow> None)"

text \<open>Every entry decodes to a well-formed record of its own ceremony, and it is the encoding of that record.\<close>

definition journal_typed :: "ceremony_env \<Rightarrow> memory_journal \<Rightarrow> bool" where
  "journal_typed V j \<longleftrightarrow> (\<forall>i bs. om_get j i = Some bs \<longrightarrow>
     (\<exists>r. memory_load V i j = Ok (Some r) \<and> validate_shape r = Ok () \<and> record_to_bytes V r = Ok bs \<and> record_id r = i))"

definition memory_ok :: "ceremony_env \<Rightarrow> memory_journal \<Rightarrow> bool" where
  "memory_ok V j \<longleftrightarrow> record_codec_ok V \<and> journal_typed V j"

lemma record_to_bytes_Ok:
  assumes "record_codec_ok V" and "record_to_bytes V r = Ok bs"
  shows "record_from_bytes V bs = Ok r" and "validate_shape r = Ok ()"
  using assms by (auto simp: record_to_bytes_def record_from_bytes_def record_codec_ok_def canonical_def split: if_splits)

lemma invalid_data_Ok [simp]: "invalid_data (Ok x) = Ok x" "invalid_data r = Ok x \<longleftrightarrow> r = Ok x"
  by (simp_all add: invalid_data_def)

lemma memory_load_insert [simp]:
  "memory_load V i (om_insert k bs j) = (if i = k then map_err (\<lambda>e. InvalidData (ceremony_message e)) (bindr (record_from_bytes V bs) (\<lambda>r. Ok (Some r))) else memory_load V i j)"
  by (cases "record_from_bytes V bs") (simp_all add: memory_load_def invalid_data_def map_err_def)

lemma memory_stored:
  assumes "memory_ok V j" and "record_to_bytes V r = Ok bs"
  shows "memory_ok V (om_insert (record_id r) bs j)"
    and "memory_entry V (om_insert (record_id r) bs j) = (memory_entry V j)(record_id r \<mapsto> r)"
proof -
  have c: "record_codec_ok V" using assms(1) by (simp add: memory_ok_def)
  note b = record_to_bytes_Ok [OF c assms(2)]
  show "memory_ok V (om_insert (record_id r) bs j)"
    using assms b by (auto simp: memory_ok_def journal_typed_def split: if_splits)
  show "memory_entry V (om_insert (record_id r) bs j) = (memory_entry V j)(record_id r \<mapsto> r)"
    using b by (auto simp: memory_entry_def)
qed

lemma memory_load_ok:
  assumes "memory_ok V j"
  shows "memory_load V i j = Ok (memory_entry V j i)"
proof (cases "om_get j i")
  case (Some bs)
  then obtain r where "memory_load V i j = Ok (Some r)" using assms unfolding memory_ok_def journal_typed_def by blast
  then show ?thesis by (simp add: memory_entry_def)
qed (simp add: memory_load_def memory_entry_def)

lemma memory_create_Ok:
  assumes "memory_ok V j" and "memory_create V r j = Ok j'"
  shows "memory_ok V j' \<and> memory_entry V j (record_id r) = None \<and> memory_entry V j' = (memory_entry V j)(record_id r \<mapsto> r)"
proof -
  obtain bs where "record_to_bytes V r = Ok bs" "om_get j (record_id r) = None" "j' = om_insert (record_id r) bs j"
    using assms(2) by (auto simp: memory_create_def record_id_def split: if_splits)
  then show ?thesis using memory_stored [OF assms(1)] by (simp add: memory_entry_def memory_load_def)
qed

lemma memory_swap_Ok:
  assumes "memory_ok V j" and "memory_swap V i n r j = Ok j'"
  shows "memory_ok V j' \<and> record_id r = i \<and> memory_entry V j' = (memory_entry V j)(i \<mapsto> r) \<and>
    (\<exists>c. memory_entry V j i = Some c \<and> cy_revision c = n \<and> cy_revision r = Suc n \<and> same_binding c r \<and>
      valid_phase_transition (cy_phase c) (cy_phase r))"
proof -
  obtain bs old c where w: "record_id r = i" "cy_revision r = Suc n" "record_to_bytes V r = Ok bs" "om_get j i = Some old"
    "record_from_bytes V old = Ok c" "cy_revision c = n" "same_binding c r"
    "valid_phase_transition (cy_phase c) (cy_phase r)" "j' = om_insert i bs j"
    using assms(2) by (auto simp: memory_swap_def record_id_def split: if_splits)
  then have "memory_entry V j i = Some c" by (simp add: memory_entry_def memory_load_def)
  then show ?thesis using w memory_stored [OF assms(1) w(3)] by simp
qed

interpretation mj: ceremony_journal "memory_journal V" "memory_entry V" "memory_ok V" for V
proof (unfold_locales, unfold memory_journal_def journal_ops.select_convs)
qed (fact memory_load_ok memory_create_Ok memory_swap_Ok)+

abbreviation memory_ceremony :: "ceremony_env \<Rightarrow> 'p provider_ops \<Rightarrow> (memory_journal, 'p) ceremony_ops" where
  "memory_ceremony V P \<equiv> \<lparr>oc_env = V, oc_journal = memory_journal V, oc_provider = P\<rparr>"

interpretation mc: ceremony "memory_ceremony V P" "memory_entry V" "memory_ok V" for V P
  by (rule ceremony.intro) (simp add: mj.ceremony_journal_axioms)

section \<open>Any users of the journal\<close>

datatype journal_write = CreateEntry ceremony_record | SwapEntry bytes nat ceremony_record

fun after_write :: "ceremony_env \<Rightarrow> journal_write \<Rightarrow> memory_journal \<Rightarrow> memory_journal" where
  "after_write V (CreateEntry r) j = (case memory_create V r j of Ok j' \<Rightarrow> j' | _ \<Rightarrow> j)"
| "after_write V (SwapEntry i n r) j = (case memory_swap V i n r j of Ok j' \<Rightarrow> j' | _ \<Rightarrow> j)"

lemma after_write_ok: "memory_ok V j \<Longrightarrow> memory_ok V (after_write V w j)"
  by (cases w) (auto split: res.splits dest: memory_create_Ok memory_swap_Ok)

lemma after_writes_ok: "memory_ok V j \<Longrightarrow> memory_ok V (fold (after_write V) ws j)"
  by (induction ws arbitrary: j) (simp_all add: after_write_ok)

end
