(* ===== verification/Dkg_Theorems.thy ===== *)
theory Dkg_Theorems
  imports Dkg_Agreement Dkg_Journal "HOL-Library.Code_Target_Nat" "HOL-Library.Code_Target_Int"
begin

text \<open>
  The properties of the key generation: certified broadcasts agree, the journal holds well-formed records
  only, and the record of a ceremony survives crashes and only grows. First a small instance: four
  validators, one broadcast of the first that every validator endorses, two certificates, and a ceremony in
  a journal. Its keys and hashes are the bytes they are made of behind a tag; a signature is accepted on what
  its signer signs.
\<close>

section \<open>An instance\<close>

definition k_session :: dkg_session where
  "k_session = \<lparr>dk_chain_domain = [1], dk_ceremony_id = [2], dk_epoch = 1, dk_kind = Initial\<rparr>"

definition k_identity :: "nat \<Rightarrow> transport_identity" where
  "k_identity i = \<lparr>ti_validator_id = i, ti_signing_key = [i], ti_encryption_secret = [i]\<rparr>"

definition k_message :: round1_message where
  "k_message = \<lparr>r1_version = DKG_FORMAT_VERSION, r1_session = k_session, r1_sender_id = 1, r1_package = [7]\<rparr>"

definition k_envelope :: broadcast_envelope where
  "k_envelope =
     \<lparr>be_version = 1, be_session = k_session, be_round = Round1, be_sender_id = 1, be_message_id = [3],
      be_sender_signing_public_key = [5, 1], be_payload = [1], be_signature = 9 # 1 # TRANSPORT_SIGNING_DOMAIN @ [9]\<rparr>"

definition k_endorsement :: "nat \<Rightarrow> endorsement" where
  "k_endorsement i =
     \<lparr>ed_version = 1, ed_session = k_session, ed_round = Round1, ed_sender_id = 1, ed_message_id = [3],
      ed_payload_digest = 7 # domain_tag ''ASTERIA_PRIVATE_ORDER_DKG_BROADCAST_DIGEST_V1'' @
        TRANSPORT_SIGNING_DOMAIN @ [9] @ be_signature k_envelope,
      ed_endorser_id = i, ed_endorser_signing_public_key = [5, i], ed_signature = 9 # i # TRANSPORT_SIGNING_DOMAIN @ [i]\<rparr>"

definition k_codec :: "'a \<Rightarrow> 'a codec" where
  "k_codec x = \<lparr>cd_json = (\<lambda>y. if y = x then Some [1] else None), cd_parse = (\<lambda>bs. if bs = [1] then Some x else None)\<rparr>"

definition no_codec :: "'a codec" where
  "no_codec = \<lparr>cd_json = (\<lambda>y. None), cd_parse = (\<lambda>bs. None)\<rparr>"

definition k_wire :: wire_env where
  "k_wire =
     \<lparr>wv_sha = (\<lambda>bs. 7 # bs), wv_key_parses = (\<lambda>k. True), wv_key_weak = (\<lambda>k. False),
      wv_verify_strict = (\<lambda>k bs s. s = 9 # tl k @ bs \<and> (last bs \<le> 4 \<longrightarrow> k = [5, last bs])),
      wv_public_key = (\<lambda>k. 5 # k), wv_sign = (\<lambda>k bs. 9 # k @ bs), wv_x_base = (\<lambda>k. 6 # k), wv_x_mul = (\<lambda>a b. 8 # a @ b),
      wv_x_same = (=), wv_hkdf = (\<lambda>a b c. None), wv_seal = (\<lambda>a b c d. None), wv_open = (\<lambda>a b c d. None),
      wv_session_json = (\<lambda>dk. Some [dk_epoch dk]),
      wv_broadcast_json = (\<lambda>b. if b = broadcast_body_of k_envelope then Some [9] else None),
      wv_endorsement_json = (\<lambda>b. if b \<in> set (map (\<lambda>i. endorsement_body_of (k_endorsement i)) [1, 2, 3, 4])
        then Some [eb_endorser_id b] else None),
      wv_guard_json = (\<lambda>b. None), wv_aad_json = (\<lambda>b. None), wv_direct_json = (\<lambda>b. None), wv_round1 = k_codec k_message,
      wv_round2 = no_codec, wv_peer = \<lparr>cd_json = (\<lambda>p. Some (tp_signing_public_key p)), cd_parse = (\<lambda>bs. None)\<rparr>,
      wv_broadcast = k_codec k_envelope, wv_certified = no_codec, wv_direct = no_codec, wv_wire = no_codec,
      wv_guard_journal = no_codec\<rparr>"

definition k_registry :: transport_registry where
  "k_registry = map (\<lambda>i. (i, peer_of k_wire (k_identity i))) [1, 2, 3, 4]"

definition k_certificate :: "nat list \<Rightarrow> certified_broadcast" where
  "k_certificate is = \<lparr>cb_envelope = k_envelope, cb_endorsements = map k_endorsement is\<rparr>"

definition k_guard :: "nat \<Rightarrow> (bytes, endorsement) omap \<Rightarrow> endorsement_guard" where
  "k_guard i ds = \<lparr>eg_endorser_id = i, eg_endorser_signing_public_key = [5, i], eg_capacity = 4, eg_accepted = ds\<rparr>"

definition k_guarded :: "nat \<Rightarrow> endorsement_guard" where
  "k_guarded i = (case endorse_broadcast k_wire k_session (k_identity i) k_registry k_envelope (k_guard i []) of Ok (d, g) \<Rightarrow> g)"

lemma k_sealed: "seal_round1_broadcast k_wire k_session (k_identity 1) k_message [[3]] = Ok k_envelope"
  by code_simp

lemma k_certified:
  "verify_certified_broadcast k_wire k_session k_registry (k_certificate [1, 2, 3]) = Ok [1]"
  "verify_certified_broadcast k_wire k_session k_registry (k_certificate [2, 3, 4]) = Ok [1]"
  by code_simp+

lemma k_fresh: "\<forall>i \<in> set [1, 2, 3, 4]. guard_with_capacity k_wire (peer_of k_wire (k_identity i)) 4 = Ok (k_guard i [])"
  by code_simp

lemma k_endorsed: "\<forall>i \<in> set [1, 2, 3, 4].
    endorse_broadcast k_wire k_session (k_identity i) k_registry k_envelope (k_guard i []) = Ok (k_endorsement i, k_guarded i)"
  by code_simp

text \<open>The JSON functions of the instance are injective, and its signatures are those that were made.\<close>

lemma k_json:
  "wv_broadcast_json k_wire b = Some x \<longleftrightarrow> b = broadcast_body_of k_envelope \<and> x = [9]"
  "wv_endorsement_json k_wire d = Some y \<longleftrightarrow> (\<exists>i \<in> {1, 2, 3, 4}. d = endorsement_body_of (k_endorsement i) \<and> y = [i])"
  "cd_json (wv_guard_journal k_wire) j = None"
proof -
  have e: "eb_endorser_id (endorsement_body_of (k_endorsement i)) = i" for i
    by (simp add: endorsement_body_of_def k_endorsement_def)
  then have i: "endorsement_body_of (k_endorsement i) = endorsement_body_of (k_endorsement j) \<longleftrightarrow> i = j" for i j by metis
  show "wv_broadcast_json k_wire b = Some x \<longleftrightarrow> b = broadcast_body_of k_envelope \<and> x = [9]"
    unfolding k_wire_def wire_env.select_convs by auto
  show "wv_endorsement_json k_wire d = Some y \<longleftrightarrow> (\<exists>i \<in> {1, 2, 3, 4}. d = endorsement_body_of (k_endorsement i) \<and> y = [i])"
    unfolding k_wire_def wire_env.select_convs by (auto simp: e i)
  show "cd_json (wv_guard_journal k_wire) j = None"
    unfolding k_wire_def wire_env.select_convs by (simp add: no_codec_def)
qed

lemma k_injective:
  "json_injective (wv_broadcast_json k_wire)" "json_injective (wv_endorsement_json k_wire)"
  "json_injective (cd_json (wv_guard_journal k_wire))"
  unfolding json_injective_def k_json by auto

lemma k_verify: "wv_verify_strict k_wire k bs s \<longleftrightarrow> s = 9 # tl k @ bs \<and> (last bs \<le> 4 \<longrightarrow> k = [5, last bs])"
  unfolding k_wire_def wire_env.select_convs by (rule refl)

lemma k_key: "tp_signing_public_key (peer_of k_wire (k_identity i)) = [5, i]"
  by (simp add: peer_of_def k_identity_def) (simp add: k_wire_def)

lemma k_signatures:
  assumes "i \<in> {1, 2, 3, 4}"
  shows "endorses_only k_wire (k_identity i) [k_endorsement i]"
  unfolding endorses_only_def transport_signing_bytes_def canonical_bytes_def
proof (intro allI impI)
  fix b bs s
  assume "bindr (ok_or (TransportSerialization []) (wv_endorsement_json k_wire b)) (\<lambda>bs. Ok (TRANSPORT_SIGNING_DOMAIN @ bs)) = Ok bs"
    and v: "wv_verify_strict k_wire (tp_signing_public_key (peer_of k_wire (k_identity i))) bs s"
  then obtain j where j: "j \<in> {1, 2, 3, 4}" "bs = TRANSPORT_SIGNING_DOMAIN @ [j]" by (auto simp: k_json)
  then have "j = i" using v by (auto simp: k_verify k_key)
  moreover have "wv_endorsement_json k_wire (endorsement_body_of (k_endorsement i)) = Some [i]"
    using assms by (auto simp: k_json)
  ultimately show "\<exists>d \<in> set [k_endorsement i]. bindr (ok_or (TransportSerialization [])
      (wv_endorsement_json k_wire (endorsement_body_of d))) (\<lambda>bs. Ok (TRANSPORT_SIGNING_DOMAIN @ bs)) = Ok bs"
    using j(2) by simp
qed

lemma k_run:
  assumes "i \<in> {1, 2, 3, 4}"
  shows "guard_run k_wire (k_identity i) [k_endorsement i] (k_guarded i)"
proof -
  have "i \<in> set [1, 2, 3, 4]" using assms by simp
  then show ?thesis using guard_run.fresh guard_run.endorsed k_fresh k_endorsed by blast
qed

lemma k_registered: "i \<in> {1, 2, 3, 4} \<Longrightarrow> registered_peer k_registry i = Ok (peer_of k_wire (k_identity i))"
  by (auto simp: registered_peer_def k_registry_def om_get_def)

section \<open>A ceremony\<close>

definition k_deadlines :: ceremony_deadlines where
  "k_deadlines = \<lparr>dl_round1_unix_ms = 10, dl_round2_unix_ms = 20, dl_finalize_unix_ms = 30\<rparr>"

definition k_started :: ceremony_record where
  "k_started =
     \<lparr>cy_version = 1, cy_revision = 1, cy_session = k_session, cy_validator_id = 1,
      cy_registry_digest = (case registry_digest k_wire k_registry of Ok h \<Rightarrow> h), cy_phase = PhaseInitial,
      cy_deadlines = k_deadlines, cy_provider_checkpoint = [4], cy_local_round1_message = None,
      cy_local_round1_envelope = None, cy_round1_certificates = [], cy_round1_messages = [],
      cy_outgoing_round2_envelopes = [], cy_incoming_round2_envelopes = [], cy_incoming_round2_messages = [],
      cy_completion = None, cy_abort = None\<rparr>"

definition k_sent :: ceremony_record where
  "k_sent = k_started\<lparr>cy_revision := 2, cy_phase := PhaseRound1, cy_local_round1_message := Some [1],
     cy_local_round1_envelope := Some [1]\<rparr>"

definition k_aborted :: ceremony_record where
  "k_aborted = k_sent\<lparr>cy_revision := 3, cy_phase := PhaseAborted, cy_abort :=
     Some \<lparr>ab_at_unix_ms = 6, ab_code = AbortOperator, ab_detail_hash = hash_detail k_wire ''operator abort''\<rparr>\<rparr>"

definition k_ceremony_env :: ceremony_env where
  "k_ceremony_env =
     \<lparr>cw_wire = k_wire,
      cw_record = \<lparr>cd_json = (\<lambda>r. if r = k_started then Some [1] else if r = k_sent then Some [2]
          else if r = k_aborted then Some [3] else None),
        cd_parse = (\<lambda>bs. if bs = [1] then Some k_started else if bs = [2] then Some k_sent
          else if bs = [3] then Some k_aborted else None)\<rparr>\<rparr>"

text \<open>A provider without state that always starts round one.\<close>

definition k_provider :: "unit provider_ops" where
  "k_provider =
     \<lparr>po_local_peer = (\<lambda>p. peer_of k_wire (k_identity 1)), po_checkpoint = (\<lambda>dk p. Ok [4]),
      po_restore = (\<lambda>dk phase bs p. (Ok ProviderRound1, p)), po_begin_round1 = (\<lambda>dk p. (Ok (k_message, k_envelope), p)),
      po_endorse_round1 = (\<lambda>dk e p. (Ok (k_endorsement 1), p)), po_advance_round2 = (\<lambda>dk ms p. (Err (ProviderState []), p)),
      po_open_round2 = (\<lambda>dk e p. (Err (ProviderState []), p)), po_finalize = (\<lambda>dk ms p. (Err (ProviderState []), p)),
      po_quarantine = (\<lambda>dk code p. (Ok (), p))\<rparr>"

definition k_ops :: "(memory_journal, unit) ceremony_ops" where
  "k_ops = memory_ceremony k_ceremony_env k_provider"

definition k_coordinator :: "nat \<Rightarrow> ceremony_record \<Rightarrow> (memory_journal, unit) coordinator" where
  "k_coordinator n r = \<lparr>co_journal = [([2], [n])], co_provider = (), co_registry = k_registry, co_record = r\<rparr>"

lemma k_codec_ok: "record_codec_ok k_ceremony_env"
  by (auto simp: record_codec_ok_def k_ceremony_env_def)

lemma k_start: "start_ceremony k_ops [] () k_registry k_session k_deadlines [1] 1 = Ok (k_coordinator 1 k_started)"
  by code_simp

lemma k_requests:
  "after_request k_ops BeginRound1 5 (k_coordinator 1 k_started) = k_coordinator 2 k_sent"
  "recover_ceremony k_ops (co_journal (k_coordinator 2 k_sent)) () k_registry
     (dk_ceremony_id (cy_session (co_record (k_coordinator 2 k_sent)))) [1] 1 = Ok (k_coordinator 2 k_sent)"
  "after_request k_ops AbortCeremony 6 (k_coordinator 2 k_sent) = k_coordinator 3 k_aborted"
  by code_simp+

section \<open>Properties\<close>

text \<open>C9: Certified broadcasts agree. When at least three of the four validators are honest, two certificates of one
  session and sender that verify, on whatever nodes, carry the same broadcast: a sender cannot have two
  round-one messages accepted. (An honest validator endorses only through its guard, which may be written to
  disk and read back at any moment; its signature cannot be forged, the encodings are injective, and the two
  broadcasts do not collide under SHA-256. Signatures have one length.)\<close>

theorem certified_broadcasts_agree:
  assumes "mostly_honest H"
    and "\<And>i. i \<in> H \<Longrightarrow> registered_peer reg i = Ok (peer_of W (validator i)) \<and>
      registered_peer reg' i = Ok (peer_of W (validator i))"
    and "\<And>i. i \<in> H \<Longrightarrow> guard_run W (validator i) (endorsed i) (guard i) \<and> endorses_only W (validator i) (endorsed i)"
    and "json_injective (wv_broadcast_json W)" and "json_injective (wv_endorsement_json W)"
    and "json_injective (cd_json (wv_guard_journal W))"
    and "verify_certified_broadcast W dk reg c = Ok payload" and "verify_certified_broadcast W dk reg' c' = Ok payload'"
    and "be_sender_id (cb_envelope c') = be_sender_id (cb_envelope c)"
    and "length (be_signature (cb_envelope c')) = length (be_signature (cb_envelope c))"
    and "\<And>x y. digest_input W (cb_envelope c) = Ok x \<Longrightarrow> digest_input W (cb_envelope c') = Ok y \<Longrightarrow>
      wv_sha W x = wv_sha W y \<Longrightarrow> x = y"
  shows "cb_envelope c' = cb_envelope c \<and> payload' = payload"
proof -
  let ?votes = "\<lambda>i. endorsed_digests dk (be_sender_id (cb_envelope c)) (endorsed i)"
  have v: "validate_structure W c = Ok ()" "validate_structure W c' = Ok ()"
    "payload = be_payload (cb_envelope c)" "payload' = be_payload (cb_envelope c')"
    using assms(7,8) by (auto simp: verify_certified_broadcast_def Let_def)
  obtain h h' where h: "broadcast_content_digest W (cb_envelope c) = Ok h" "broadcast_content_digest W (cb_envelope c') = Ok h'"
    using assms(7,8) by (auto simp: verify_certified_broadcast_def Let_def)
  have "h = h'"
  proof (rule bq.agreement [OF structure_quorum [OF v(1)] structure_quorum [OF v(2)] assms(1)])
    show "h \<in> ?votes i" if "i \<in> H" "i \<in> endorsers c" for i
      using certificate_vote [OF assms(7) h(1) that(2)] assms(2,3,5) that(1) by blast
    show "h' \<in> ?votes i" if "i \<in> H" "i \<in> endorsers c'" for i
      using certificate_vote [OF assms(8) h(2) that(2)] assms(2,3,5,9) that(1) by fastforce
    show "x = y" if "i \<in> H" "x \<in> ?votes i" "y \<in> ?votes i" for i x y
      using endorsed_once assms(3,6) that by blast
  qed
  moreover obtain x y where x: "digest_input W (cb_envelope c) = Ok x" "digest_input W (cb_envelope c') = Ok y"
    "h = wv_sha W x" "h' = wv_sha W y"
    using h by (auto simp: digest_of_input)
  ultimately have "y = x" using assms(11) [OF x(1,2)] by simp
  with x have "digest_input W (cb_envelope c) = Ok x" "digest_input W (cb_envelope c') = Ok x" by simp_all
  then have "cb_envelope c' = cb_envelope c" using digest_input_inject assms(4,10) by blast
  then show ?thesis using v by simp
qed

theorem certified_broadcasts_agree_witness:
  "cb_envelope (k_certificate [2, 3, 4]) = cb_envelope (k_certificate [1, 2, 3]) \<and> [1::nat] = [1]"
proof (rule certified_broadcasts_agree [where H = "{1, 2, 3}" and validator = k_identity and
      endorsed = "\<lambda>i. [k_endorsement i]" and guard = k_guarded, OF _ _ _ k_injective k_certified])
  show "mostly_honest {1, 2, 3}" by (simp add: mostly_honest_def validators_def DKG_PARTICIPANTS_def)
  show "x = y" if "wv_sha k_wire x = wv_sha k_wire y" for x y using that by (simp add: k_wire_def)
  show "registered_peer k_registry i = Ok (peer_of k_wire (k_identity i)) \<and>
      registered_peer k_registry i = Ok (peer_of k_wire (k_identity i))" if "i \<in> {1, 2, 3}" for i
    using k_registered that by blast
  show "guard_run k_wire (k_identity i) [k_endorsement i] (k_guarded i) \<and>
      endorses_only k_wire (k_identity i) [k_endorsement i]" if "i \<in> {1, 2, 3}" for i
    using k_run k_signatures that by blast
qed (simp_all add: k_certificate_def)

text \<open>C40: Well-formed records. Whatever its users try to create and to swap, in any order and with any expected revisions,
  every entry of a journal in memory decodes to a record of its own ceremony that passes the checks of the
  shape, and the entry is the canonical encoding of that record.\<close>

theorem journal_entries_typed:
  assumes "record_codec_ok V" and "journal_typed V j"
  shows "journal_typed V (fold (after_write V) ws j)"
  using after_writes_ok [of V j ws] assms by (simp add: memory_ok_def)

theorem journal_entries_typed_witness:
  "journal_typed k_ceremony_env (fold (after_write k_ceremony_env)
     [CreateEntry k_started, SwapEntry [2] 1 k_sent, SwapEntry [2] 1 k_aborted, SwapEntry [2] 2 k_aborted] [])"
  by (rule journal_entries_typed [OF k_codec_ok]) (simp add: journal_typed_def)

text \<open>C10: A ceremony only grows. From its start, through any requests at any times, with any answers of its provider,
  and through crashes after which another provider recovers it: the journal holds exactly the record in
  hand, and from any moment to a later one the binding is the same, the phase does not go back, a completed
  or aborted record does not change, and the own round-one broadcast, the certificates and messages accepted
  from others and the messages sent in round two are never replaced.\<close>

theorem ceremony_only_grows:
  assumes "record_codec_ok V" and "journal_typed V j"
    and "start_ceremony (memory_ceremony V P) j p reg dk deadlines domain epoch = Ok C"
    and "ceremony_run (memory_ceremony V P) C D" and "ceremony_run (memory_ceremony V P) D E"
  shows "grows (co_record D) (co_record E) \<and>
    memory_load V (dk_ceremony_id dk) (co_journal E) = Ok (Some (co_record E))"
proof -
  have j: "memory_ok V j" using assms(1,2) by (simp add: memory_ok_def)
  note s = mc.started_synced [OF j assms(3)]
  have d: "mc.synced V D \<and> grows (co_record C) (co_record D)" using mc.run_grows [OF assms(4) s(1)] .
  then have e: "mc.synced V E \<and> grows (co_record D) (co_record E)" using mc.run_grows [OF assms(5)] by blast
  then have "memory_load V (record_id (co_record E)) (co_journal E) = Ok (Some (co_record E))"
    by (simp add: mc.synced_def memory_load_ok)
  moreover have "record_id (co_record E) = dk_ceremony_id dk"
    using d e s(2) same_binding_id unfolding grows_def by metis
  ultimately show ?thesis using e by simp
qed

theorem ceremony_only_grows_witness:
  "grows k_sent k_aborted \<and> memory_load k_ceremony_env [2] [([2], [3])] = Ok (Some k_aborted)"
proof -
  have "ceremony_run k_ops (k_coordinator 1 k_started) (k_coordinator 2 k_sent)"
    using ceremony_run.request [OF ceremony_run.start [of k_ops "k_coordinator 1 k_started"], of BeginRound1 5]
    by (simp only: k_requests)
  then have "ceremony_run k_ops (k_coordinator 1 k_started) (k_coordinator 2 k_sent)"
    by (rule ceremony_run.crash) (rule k_requests(2))
  moreover have "ceremony_run k_ops (k_coordinator 2 k_sent) (k_coordinator 3 k_aborted)"
    using ceremony_run.request [OF ceremony_run.start [of k_ops "k_coordinator 2 k_sent"], of AbortCeremony 6]
    by (simp only: k_requests)
  moreover have "journal_typed k_ceremony_env []" by (simp add: journal_typed_def)
  ultimately have "grows (co_record (k_coordinator 2 k_sent)) (co_record (k_coordinator 3 k_aborted)) \<and>
      memory_load k_ceremony_env (dk_ceremony_id k_session) (co_journal (k_coordinator 3 k_aborted)) =
        Ok (Some (co_record (k_coordinator 3 k_aborted)))"
    using ceremony_only_grows [OF k_codec_ok _ k_start [unfolded k_ops_def]] unfolding k_ops_def by blast
  then show ?thesis by (simp only: k_coordinator_def coordinator.simps k_session_def dkg_session.simps)
qed

end
